(* ===== verification/Billing_Prelude.thy ===== *)
theory Billing_Prelude
  imports Main "HOL-Library.Word"
begin

text \<open>
  Shared ground of the development: the development's fact collections, Go's 64-bit
  signed arithmetic, and the string helpers of package \<open>service\<close> that every component
  calls (\<open>strings.TrimSpace\<close>, \<open>strings.ToLower\<close>, \<open>defaultString\<close>, \<open>firstNonEmptyString\<close>,
  decimal formatting).  Strings are byte lists restricted to ASCII: the white space that
  \<open>strings.TrimSpace\<close> removes is the six ASCII characters.
\<close>

named_theorems effect_simps \<open>evaluation of effectful programs\<close>
named_theorems wp_simps \<open>weakest preconditions of the effect primitives\<close>
named_theorems wp_rules \<open>weakest-precondition rules of the component operations\<close>

section \<open>Signed 64-bit integers\<close>

text \<open>
  Go's \<open>int64\<close> addition, subtraction and negation wrap around.  Values are kept as
  integers and every arithmetic operation of the source that can overflow is written with
  \<open>wrap64\<close>, which is reading the low 64 bits as a two's-complement number.
\<close>

definition max_int64 :: int where
  "max_int64 = 9223372036854775807"

definition min_int64 :: int where
  "min_int64 = - 9223372036854775808"

definition wrap64 :: "int \<Rightarrow> int" where
  "wrap64 x = (x + 9223372036854775808) mod 18446744073709551616 - 9223372036854775808"

lemma wrap64_in_range: "min_int64 \<le> wrap64 x \<and> wrap64 x \<le> max_int64"
  unfolding wrap64_def min_int64_def max_int64_def
  using pos_mod_bound [of 18446744073709551616 "x + 9223372036854775808"]
    pos_mod_sign [of 18446744073709551616 "x + 9223372036854775808"]
  by linarith

lemma wrap64_id: "min_int64 \<le> x \<Longrightarrow> x \<le> max_int64 \<Longrightarrow> wrap64 x = x"
  by (simp add: wrap64_def min_int64_def max_int64_def)

lemma wrap64_nonneg_id [simp]: "0 \<le> x \<Longrightarrow> x \<le> max_int64 \<Longrightarrow> wrap64 x = x"
  by (rule wrap64_id) (simp_all add: min_int64_def)

lemma wrap64_neg_id [simp]: "0 \<le> x \<Longrightarrow> x \<le> max_int64 \<Longrightarrow> wrap64 (- x) = - x"
  by (rule wrap64_id) (simp_all add: min_int64_def max_int64_def)

lemma wrap64_0 [simp]: "wrap64 0 = 0"
  by (simp add: wrap64_def)

lemma wrap64_wrap64 [simp]: "wrap64 (wrap64 x) = wrap64 x"
  using wrap64_in_range [of x] by (simp add: wrap64_id)

lemma wrap64_add_left [simp]: "wrap64 (wrap64 x + y) = wrap64 (x + y)"
proof -
  have "wrap64 x + y + 9223372036854775808
      = (x + 9223372036854775808) mod 18446744073709551616 + y"
    by (simp add: wrap64_def)
  then show ?thesis
    by (simp add: wrap64_def mod_add_left_eq add.commute [of y] add.assoc)
qed

lemma wrap64_add_right [simp]: "wrap64 (x + wrap64 y) = wrap64 (x + y)"
  using wrap64_add_left [of y x] by (simp add: add.commute)

lemma wrap64_sub_left [simp]: "wrap64 (wrap64 x - y) = wrap64 (x - y)"
  using wrap64_add_left [of x "- y"] by simp

text \<open>The reading of \<open>wrap64\<close> as a machine word: the signed value of the 64-bit word.\<close>

lemma wrap64_sint: "wrap64 x = sint (word_of_int x :: 64 word)"
proof -
  have "sint (word_of_int x :: 64 word) = signed_take_bit 63 x"
    by (simp add: sint_sbintrunc')
  also have "\<dots> = (x + 2 ^ 63) mod 2 ^ Suc 63 - 2 ^ 63"
    by (simp only: signed_take_bit_eq_take_bit_shift take_bit_eq_mod)
  finally show ?thesis
    by (simp add: wrap64_def)
qed

text \<open>\<open>minInt64\<close> of credit_bucket.go.\<close>

definition minInt64 :: "int \<Rightarrow> int \<Rightarrow> int" where
  "minInt64 a b = (if a < b then a else b)"

lemma minInt64_min: "minInt64 a b = min a b"
  by (simp add: minInt64_def min_def)

section \<open>Strings\<close>

definition is_space :: "char \<Rightarrow> bool" where
  "is_space c \<longleftrightarrow> c \<in> {CHR 0x09, CHR 0x0A, CHR 0x0B, CHR 0x0C, CHR 0x0D, CHR 0x20}"

definition trim_space :: "string \<Rightarrow> string" where
  "trim_space s = rev (dropWhile is_space (rev (dropWhile is_space s)))"

definition lower_char :: "char \<Rightarrow> char" where
  "lower_char c = (let n = of_char c :: nat
     in if 65 \<le> n \<and> n \<le> 90 then char_of (n + 32) else c)"

definition to_lower :: "string \<Rightarrow> string" where
  "to_lower = List.map lower_char"

definition upper_char :: "char \<Rightarrow> char" where
  "upper_char c = (let n = of_char c :: nat
     in if 97 \<le> n \<and> n \<le> 122 then char_of (n - 32) else c)"

definition to_upper :: "string \<Rightarrow> string" where
  "to_upper = List.map upper_char"

definition equal_fold :: "string \<Rightarrow> string \<Rightarrow> bool" where
  "equal_fold a b \<longleftrightarrow> to_lower a = to_lower b"

definition defaultString :: "string \<Rightarrow> string \<Rightarrow> string" where
  "defaultString value fallback = (if value = [] then fallback else value)"

fun firstNonEmptyString :: "string list \<Rightarrow> string" where
  "firstNonEmptyString [] = []"
| "firstNonEmptyString (v # vs) =
     (if trim_space v \<noteq> [] then trim_space v else firstNonEmptyString vs)"

definition normalizeEmail :: "string \<Rightarrow> string" where
  "normalizeEmail email = to_lower (trim_space email)"

fun digits_of :: "nat \<Rightarrow> string" where
  "digits_of n = (if n < 10 then [char_of (48 + n)]
     else digits_of (n div 10) @ [char_of (48 + n mod 10)])"

declare digits_of.simps [simp del]

definition string_of_int :: "int \<Rightarrow> string" where
  "string_of_int i = (if i < 0 then ''-'' @ digits_of (nat (- i)) else digits_of (nat i))"

definition pad_left :: "nat \<Rightarrow> string \<Rightarrow> string" where
  "pad_left n s = replicate (n - length s) CHR ''0'' @ s"

lemma trim_space_Nil [simp]: "trim_space [] = []"
  by (simp add: trim_space_def)

lemma dropWhile_rev_dropWhile:
  "dropWhile P (rev (dropWhile P (rev (dropWhile P xs)))) = rev (dropWhile P (rev (dropWhile P xs)))"
proof (cases "dropWhile P xs")
  case Nil
  then show ?thesis by (simp only: dropWhile.simps rev.simps)
next
  case (Cons y ys)
  then have "\<not> P y"
    by (auto simp: dropWhile_eq_Cons_conv)
  then have "rev (dropWhile P (rev (y # ys))) = y # rev (dropWhile P (rev ys))"
    by (simp add: dropWhile_append)
  with \<open>\<not> P y\<close> Cons show ?thesis
    by simp
qed

lemma trim_space_idem [simp]: "trim_space (trim_space s) = trim_space s"
  by (simp add: trim_space_def dropWhile_rev_dropWhile)

lemma defaultString_eq_Nil [simp]:
  "fallback \<noteq> [] \<Longrightarrow> defaultString value fallback \<noteq> []"
  by (simp add: defaultString_def)

lemma firstNonEmptyString_trimmed [simp]:
  "trim_space (firstNonEmptyString vs) = firstNonEmptyString vs"
  by (induction vs) auto

section \<open>Lists\<close>

text \<open>Sums of a measure over the rows of a table that satisfy a filter.\<close>

definition sum_rows :: "('r \<Rightarrow> bool) \<Rightarrow> ('r \<Rightarrow> int) \<Rightarrow> 'r list \<Rightarrow> int" where
  "sum_rows p f rs = (\<Sum>r\<leftarrow>rs. if p r then f r else 0)"

lemma sum_rows_Nil [simp]: "sum_rows p f [] = 0"
  by (simp add: sum_rows_def)

lemma sum_rows_Cons [simp]: "sum_rows p f (r # rs) = (if p r then f r else 0) + sum_rows p f rs"
  by (simp add: sum_rows_def)

lemma sum_rows_append [simp]: "sum_rows p f (xs @ ys) = sum_rows p f xs + sum_rows p f ys"
  by (simp add: sum_rows_def)

lemma sum_rows_nonneg: "(\<And>r. r \<in> set rs \<Longrightarrow> p r \<Longrightarrow> 0 \<le> f r) \<Longrightarrow> 0 \<le> sum_rows p f rs"
  by (induction rs) (auto intro: add_nonneg_nonneg)

lemma sum_rows_cong:
  "(\<And>r. r \<in> set rs \<Longrightarrow> (if p r then f r else 0) = (if q r then g r else 0))
    \<Longrightarrow> sum_rows p f rs = sum_rows q g rs"
  by (induction rs) auto

lemma sum_rows_zero: "(\<And>r. r \<in> set rs \<Longrightarrow> p r \<Longrightarrow> f r = 0) \<Longrightarrow> sum_rows p f rs = 0"
  by (induction rs) auto

lemma sum_rows_member_le:
  assumes "r \<in> set rs" and "p r" and "\<And>x. x \<in> set rs \<Longrightarrow> p x \<Longrightarrow> 0 \<le> f x"
  shows "f r \<le> sum_rows p f rs"
  using assms
proof (induction rs)
  case Nil
  then show ?case by simp
next
  case (Cons y ys)
  have tl: "0 \<le> sum_rows p f ys"
    by (rule sum_rows_nonneg) (simp add: Cons.prems(3))
  show ?case
  proof (cases "r = y")
    case True
    with tl Cons.prems(2) show ?thesis by simp
  next
    case False
    with Cons have "f r \<le> sum_rows p f ys" by simp
    moreover have "0 \<le> (if p y then f y else 0)" using Cons.prems(3) by simp
    ultimately show ?thesis by simp
  qed
qed

end
