(* ===== verification/Go_Calendar.thy ===== *)
theory Go_Calendar
  imports Billing_Prelude
begin

text \<open>
  The part of Go's package \<open>time\<close> that the services use.  An instant is a number of
  nanoseconds since the zero \<open>time.Time\<close> (0001-01-01T00:00:00 UTC), so \<open>IsZero\<close> is
  equality with 0, \<open>After\<close>, \<open>Before\<close> and \<open>Equal\<close> are the integer comparisons, and
  \<open>UTC\<close> is the identity; a \<open>*time.Time\<close> is an \<open>int option\<close>.  \<open>AddDate\<close> splits an
  instant into civil date and time of day, adds the years, months and days and normalises
  with \<open>Date\<close>, as the standard library does (31 January plus a month is 3 March or
  2 March).  The lemmas: the civil date of a day number is inverted by \<open>Date\<close>, adding
  days moves by whole days, and adding a month or a year moves strictly forward.
\<close>

type_synonym instant = int

abbreviation second_ns :: int where "second_ns \<equiv> 1000000000"
abbreviation minute_ns :: int where "minute_ns \<equiv> 60000000000"
abbreviation hour_ns :: int where "hour_ns \<equiv> 3600000000000"
abbreviation day_ns :: int where "day_ns \<equiv> 86400000000000"

section \<open>Civil dates\<close>

definition is_leap :: "int \<Rightarrow> bool" where
  "is_leap y \<longleftrightarrow> y mod 4 = 0 \<and> (y mod 100 \<noteq> 0 \<or> y mod 400 = 0)"

text \<open>Days from the zero instant to 1 January of a year.\<close>

definition days_before_year :: "int \<Rightarrow> int" where
  "days_before_year y = (let p = y - 1 in 365 * p + p div 4 - p div 100 + p div 400)"

text \<open>Days from 1 January to the first day of a month; months are numbered from 0 here.\<close>

definition days_before_month :: "bool \<Rightarrow> int \<Rightarrow> int" where
  "days_before_month leap m =
     (if m \<le> 0 then 0 else if m = 1 then 31 else
      (if leap then 1 else 0) +
      (if m = 2 then 59 else if m = 3 then 90 else if m = 4 then 120 else if m = 5 then 151
       else if m = 6 then 181 else if m = 7 then 212 else if m = 8 then 243
       else if m = 9 then 273 else if m = 10 then 304 else 334))"

text \<open>Day number of \<open>Date(year, month, day)\<close>: the month is normalised into the year first.\<close>

definition day_number :: "int \<Rightarrow> int \<Rightarrow> int \<Rightarrow> int" where
  "day_number year month day =
     (let m = month - 1; y = year + m div 12; m' = m mod 12
      in days_before_year y + days_before_month (is_leap y) m' + day - 1)"

text \<open>Year and day of the year of a day number: the 400, 100, 4 and 1 year cycles.\<close>

definition year_and_yday :: "int \<Rightarrow> int \<times> int" where
  "year_and_yday n =
     (let n400 = n div 146097; d = n mod 146097;
          n100 = min 3 (d div 36524); d1 = d - 36524 * n100;
          n4 = d1 div 1461; d2 = d1 mod 1461;
          n1 = min 3 (d2 div 365)
      in (400 * n400 + 100 * n100 + 4 * n4 + n1 + 1, d2 - 365 * n1))"

definition month_of_yday :: "bool \<Rightarrow> int \<Rightarrow> int" where
  "month_of_yday leap d =
     (let b = (\<lambda>m. days_before_month leap m)
      in if d < b 1 then 0 else if d < b 2 then 1 else if d < b 3 then 2
         else if d < b 4 then 3 else if d < b 5 then 4 else if d < b 6 then 5
         else if d < b 7 then 6 else if d < b 8 then 7 else if d < b 9 then 8
         else if d < b 10 then 9 else if d < b 11 then 10 else 11)"

text \<open>\<open>Time.Date()\<close>: year, month (1 to 12) and day (1 to 31) of a day number.\<close>

definition civil :: "int \<Rightarrow> int \<times> int \<times> int" where
  "civil n = (case year_and_yday n of (y, yd) \<Rightarrow>
     (let m = month_of_yday (is_leap y) yd
      in (y, m + 1, yd - days_before_month (is_leap y) m + 1)))"

definition add_date :: "int \<Rightarrow> int \<Rightarrow> int \<Rightarrow> instant \<Rightarrow> instant" where
  "add_date years months days t =
     (case civil (t div day_ns) of (y, m, d) \<Rightarrow>
        day_number (y + years) (m + months) (d + days) * day_ns + t mod day_ns)"

section \<open>Formatting\<close>

definition two_digits :: "int \<Rightarrow> string" where
  "two_digits n = pad_left 2 (digits_of (nat n))"

definition format_ymd :: "instant \<Rightarrow> string" where
  "format_ymd t = (case civil (t div day_ns) of (y, m, d) \<Rightarrow>
     pad_left 4 (digits_of (nat y)) @ two_digits m @ two_digits d)"

text \<open>\<open>Format("20060102150405")\<close> and \<open>Format("200601")\<close>.\<close>

definition format_compact :: "instant \<Rightarrow> string" where
  "format_compact t = (let s = (t mod day_ns) div second_ns
     in format_ymd t @ two_digits (s div 3600) @ two_digits ((s div 60) mod 60) @ two_digits (s mod 60))"

definition format_year_month :: "instant \<Rightarrow> string" where
  "format_year_month t = (case civil (t div day_ns) of (y, m, d) \<Rightarrow>
     pad_left 4 (digits_of (nat y)) @ two_digits m)"

text \<open>\<open>Format(time.RFC3339)\<close> of an instant in UTC.\<close>

definition format_rfc3339 :: "instant \<Rightarrow> string" where
  "format_rfc3339 t = (case civil (t div day_ns) of (y, m, d) \<Rightarrow>
     (let s = (t mod day_ns) div second_ns
      in pad_left 4 (digits_of (nat y)) @ ''-'' @ two_digits m @ ''-'' @ two_digits d @ ''T''
         @ two_digits (s div 3600) @ '':'' @ two_digits ((s div 60) mod 60) @ '':''
         @ two_digits (s mod 60) @ ''Z''))"

section \<open>Correctness of the calendar\<close>

lemma mod_one_above:
  fixes y k q r m :: int
  assumes "y = k * q + r + 1" "0 \<le> r" "r < k" "m = k - 1"
  shows "y mod k = 0 \<longleftrightarrow> r = m"
proof (cases "r = m")
  case True
  with assms have "y = k * (q + 1)" by (simp add: algebra_simps)
  with True show ?thesis by simp
next
  case False
  with assms have "y mod k = r + 1"
    by (intro int_mod_pos_eq [of _ _ q]) simp_all
  with assms False show ?thesis by simp
qed

lemma div_step:
  fixes y k :: int
  assumes "0 < k"
  shows "y div k = (y - 1) div k + (if y mod k = 0 then 1 else 0)"
proof -
  have y: "y = k * (y div k) + y mod k" by simp
  have r: "0 \<le> y mod k" "y mod k < k" using assms by simp_all
  show ?thesis
  proof (cases "y mod k = 0")
    case True
    have "(y - 1) div k = y div k - 1"
      by (rule int_div_pos_eq [of _ _ _ "k - 1"]) (use assms True y in \<open>simp_all add: algebra_simps\<close>)
    with True show ?thesis by simp
  next
    case False
    have "(y - 1) div k = y div k"
      by (rule int_div_pos_eq [of _ _ _ "y mod k - 1"]) (use r False y in simp_all)
    with False show ?thesis by simp
  qed
qed

lemma year_cycles:
  fixes n400 n100 n4 n1 :: int
  assumes "0 \<le> n100" "n100 \<le> 3" "0 \<le> n4" "n4 \<le> 24" "0 \<le> n1" "n1 \<le> 3"
  defines "y \<equiv> 400 * n400 + 100 * n100 + 4 * n4 + n1 + 1"
  shows "days_before_year y = 146097 * n400 + 36524 * n100 + 1461 * n4 + 365 * n1"
    and "is_leap y \<longleftrightarrow> n1 = 3 \<and> (n4 = 24 \<longrightarrow> n100 = 3)"
proof -
  have q4: "(y - 1) div 4 = 100 * n400 + 25 * n100 + n4"
    by (rule int_div_pos_eq [of _ _ _ n1]) (use assms in \<open>simp_all add: y_def\<close>)
  have q100: "(y - 1) div 100 = 4 * n400 + n100"
    by (rule int_div_pos_eq [of _ _ _ "4 * n4 + n1"]) (use assms in \<open>simp_all add: y_def\<close>)
  have q400: "(y - 1) div 400 = n400"
    by (rule int_div_pos_eq [of _ _ _ "100 * n100 + 4 * n4 + n1"])
      (use assms in \<open>simp_all add: y_def\<close>)
  show "days_before_year y = 146097 * n400 + 36524 * n100 + 1461 * n4 + 365 * n1"
    unfolding days_before_year_def Let_def q4 q100 q400 by (simp add: y_def)
  have m4: "y mod 4 = 0 \<longleftrightarrow> n1 = 3"
    by (rule mod_one_above [of _ _ "100 * n400 + 25 * n100 + n4"])
      (use assms in \<open>simp_all add: y_def\<close>)
  have m100: "y mod 100 = 0 \<longleftrightarrow> 4 * n4 + n1 = 99"
    by (rule mod_one_above [of _ _ "4 * n400 + n100"]) (use assms in \<open>simp_all add: y_def\<close>)
  have m400: "y mod 400 = 0 \<longleftrightarrow> 100 * n100 + 4 * n4 + n1 = 399"
    by (rule mod_one_above [of _ _ n400]) (use assms in \<open>simp_all add: y_def\<close>)
  have e: "4 * n4 + n1 = 99 \<longleftrightarrow> n4 = 24 \<and> n1 = 3"
    "100 * n100 + 4 * n4 + n1 = 399 \<longleftrightarrow> n100 = 3 \<and> n4 = 24 \<and> n1 = 3"
    using assms(1-6) by linarith+
  show "is_leap y \<longleftrightarrow> n1 = 3 \<and> (n4 = 24 \<longrightarrow> n100 = 3)"
    unfolding is_leap_def m4 m100 m400 e by auto
qed

lemma year_and_yday:
  assumes "year_and_yday n = (y, yd)"
  shows "days_before_year y + yd = n"
    and "0 \<le> yd" and "yd < (if is_leap y then 366 else 365)"
proof -
  define n400 where "n400 = n div 146097"
  define d where "d = n mod 146097"
  define n100 where "n100 = min 3 (d div 36524)"
  define d1 where "d1 = d - 36524 * n100"
  define n4 where "n4 = d1 div 1461"
  define d2 where "d2 = d1 mod 1461"
  define n1 where "n1 = min 3 (d2 div 365)"
  have yyd: "y = 400 * n400 + 100 * n100 + 4 * n4 + n1 + 1" "yd = d2 - 365 * n1"
    using assms
    by (simp_all only: year_and_yday_def Let_def n400_def d_def n100_def d1_def n4_def d2_def n1_def prod.inject)
  have d: "0 \<le> d" "d < 146097" by (simp_all add: d_def)
  have n100: "0 \<le> n100" "n100 \<le> 3" using d by (auto simp: n100_def)
  have d1: "0 \<le> d1" "d1 \<le> 36524" "n100 < 3 \<longrightarrow> d1 < 36524"
  proof -
    consider "d div 36524 < 3" "n100 = d div 36524" | "3 \<le> d div 36524" "n100 = 3"
      unfolding n100_def min_def by (meson linorder_not_less less_le)
    then have "0 \<le> d1 \<and> d1 \<le> 36524 \<and> (n100 < 3 \<longrightarrow> d1 < 36524)"
    proof cases
      case 1
      then have "d1 = d mod 36524" by (simp add: d1_def minus_mult_div_eq_mod)
      then show ?thesis by simp
    next
      case 2
      then have "3 * 36524 \<le> d" by linarith
      with d 2 show ?thesis by (simp add: d1_def)
    qed
    then show "0 \<le> d1" "d1 \<le> 36524" "n100 < 3 \<longrightarrow> d1 < 36524" by simp_all
  qed
  have n4: "0 \<le> n4" "n4 \<le> 24" using d1 by (simp_all add: n4_def)
  have d2: "0 \<le> d2" "d2 < 1461" "d1 = 1461 * n4 + d2" by (simp_all add: d2_def n4_def)
  have n1: "0 \<le> n1" "n1 \<le> 3" using d2 by (auto simp: n1_def)
  have yd: "0 \<le> yd" "yd \<le> 365" "n1 < 3 \<longrightarrow> yd < 365"
  proof -
    consider "d2 div 365 < 3" "n1 = d2 div 365" | "3 \<le> d2 div 365" "n1 = 3"
      unfolding n1_def min_def by (meson linorder_not_less less_le)
    then have "0 \<le> yd \<and> yd \<le> 365 \<and> (n1 < 3 \<longrightarrow> yd < 365)"
    proof cases
      case 1
      then have "yd = d2 mod 365" by (simp add: yyd(2) minus_mult_div_eq_mod)
      then show ?thesis by simp
    next
      case 2
      then have "3 * 365 \<le> d2" by linarith
      with d2(2) 2 show ?thesis by (simp add: yyd(2))
    qed
    then show "0 \<le> yd" "yd \<le> 365" "n1 < 3 \<longrightarrow> yd < 365" by simp_all
  qed
  note cyc = year_cycles [OF n100 n4 n1, of n400]
  have n: "n = 146097 * n400 + d" by (simp add: n400_def d_def)
  show "days_before_year y + yd = n"
    using cyc(1) n d2(3) yyd d1_def by simp
  show "0 \<le> yd" by (rule yd)
  show "yd < (if is_leap y then 366 else 365)"
  proof (cases "n1 = 3 \<and> (n4 = 24 \<longrightarrow> n100 = 3)")
    case True
    with cyc(2) yyd(1) yd show ?thesis by simp
  next
    case False
    have "yd < 365"
    proof (cases "n1 = 3")
      case True
      with False have "n4 = 24" "n100 < 3" using n100 by auto
      with d1 d2 True yyd(2) show ?thesis by simp
    qed (use yd n1 in auto)
    with cyc(2) yyd(1) False show ?thesis by simp
  qed
qed

lemma month_of_yday_range: "0 \<le> month_of_yday leap d \<and> month_of_yday leap d \<le> 11"
  by (simp add: month_of_yday_def Let_def)

lemma civil_month_range: "civil n = (y, m, d) \<Longrightarrow> 1 \<le> m \<and> m \<le> 12"
  using month_of_yday_range [of "is_leap y" "snd (year_and_yday n)"]
  by (auto simp: civil_def Let_def split: prod.splits)

lemma day_number_add_days: "day_number y m (d + k) = day_number y m d + k"
  by (simp add: day_number_def Let_def)

lemma civil_day_number:
  assumes "civil n = (y, m, d)"
  shows "day_number y m d = n"
proof -
  obtain y' yd where yy: "year_and_yday n = (y', yd)" by (cases "year_and_yday n")
  with assms have y': "y' = y" and m: "m = month_of_yday (is_leap y) yd + 1"
    and d: "d = yd - days_before_month (is_leap y) (m - 1) + 1"
    by (auto simp: civil_def Let_def)
  have "(m - 1) div 12 = 0" "(m - 1) mod 12 = m - 1"
    using month_of_yday_range [of "is_leap y" yd] m by simp_all
  with d year_and_yday(1) [OF yy] y' show ?thesis
    by (simp add: day_number_def Let_def)
qed

lemma add_date_days: "add_date 0 0 k t = t + k * day_ns"
proof -
  obtain y m d where c: "civil (t div day_ns) = (y, m, d)" by (metis prod_cases3)
  have "day_number y m (d + k) = t div day_ns + k"
    using civil_day_number [OF c] by (simp add: day_number_add_days)
  moreover have "t div day_ns * day_ns + t mod day_ns = t" by simp
  ultimately show ?thesis
    by (simp add: add_date_def c algebra_simps)
qed

text \<open>A later month of the same year starts later; so does a later year.\<close>

lemma days_before_month_strict:
  "0 \<le> m \<Longrightarrow> m \<le> 10 \<Longrightarrow> days_before_month leap m < days_before_month leap (m + 1)"
proof -
  assume "0 \<le> m" "m \<le> 10"
  then have "m = 0 \<or> m = 1 \<or> m = 2 \<or> m = 3 \<or> m = 4 \<or> m = 5 \<or> m = 6 \<or> m = 7 \<or> m = 8 \<or> m = 9 \<or> m = 10"
    by presburger
  then show ?thesis by (elim disjE) (simp_all add: days_before_month_def)
qed

lemma days_before_month_bounds:
  "0 \<le> days_before_month leap m \<and> days_before_month leap m < 365"
  by (simp add: days_before_month_def)

lemma leap_day_count:
  fixes a b c y :: int
  assumes "p100 \<Longrightarrow> p4" "p400 \<Longrightarrow> p100"
  shows "365 * y + (a + (if p4 then 1 else 0)) - (b + (if p100 then 1 else 0))
      + (c + (if p400 then 1 else 0))
    = 365 * (y - 1) + a - b + c + (if p4 \<and> (\<not> p100 \<or> p400) then 366 else 365)"
  using assms by (cases p4; cases p100; cases p400) simp_all

lemma days_before_year_step:
  "days_before_year (y + 1) = days_before_year y + (if is_leap y then 366 else 365)"
proof -
  have "4 dvd y" if "100 dvd y" using that by (rule dvd_trans [rotated]) simp
  then have d4: "y mod 4 = 0" if "y mod 100 = 0" using that by (simp only: flip: dvd_eq_mod_eq_0)
  have "100 dvd y" if "400 dvd y" using that by (rule dvd_trans [rotated]) simp
  then have d100: "y mod 100 = 0" if "y mod 400 = 0"
    using that by (simp only: flip: dvd_eq_mod_eq_0)
  show ?thesis
    unfolding days_before_year_def Let_def add_diff_cancel_right' div_step [of 4 y, simplified]
      div_step [of 100 y, simplified] div_step [of 400 y, simplified] is_leap_def
    by (rule leap_day_count [OF d4 d100])
qed

lemma day_number_next_month:
  assumes "1 \<le> m" "m \<le> 12"
  shows "day_number y m d < day_number y (m + 1) d"
proof (cases "m = 12")
  case True
  then show ?thesis
    by (simp add: day_number_def Let_def days_before_year_step days_before_month_def)
next
  case False
  with assms have "(m - 1) div 12 = 0" "(m - 1) mod 12 = m - 1" "m div 12 = 0" "m mod 12 = m"
    by simp_all
  with assms False days_before_month_strict [of "m - 1" "is_leap y"] show ?thesis
    by (simp add: day_number_def Let_def)
qed

lemma day_number_next_year:
  assumes "1 \<le> m" "m \<le> 12"
  shows "day_number y m d < day_number (y + 1) m d"
proof -
  have "(m - 1) div 12 = 0" "(m - 1) mod 12 = m - 1" using assms by simp_all
  with days_before_month_bounds [of "is_leap y" "m - 1"]
    days_before_month_bounds [of "is_leap (y + 1)" "m - 1"]
  show ?thesis
    by (auto simp: day_number_def Let_def days_before_year_step)
qed

lemma add_date_month_later: "t < add_date 0 1 0 t"
proof -
  obtain y m d where c: "civil (t div day_ns) = (y, m, d)" by (metis prod_cases3)
  have "t div day_ns < day_number y (m + 1) d"
    using day_number_next_month [of m y d] civil_month_range [OF c] civil_day_number [OF c] by simp
  moreover have "t = t div day_ns * day_ns + t mod day_ns" by simp
  ultimately show ?thesis by (simp add: add_date_def c)
qed

lemma add_date_year_later: "t < add_date 1 0 0 t"
proof -
  obtain y m d where c: "civil (t div day_ns) = (y, m, d)" by (metis prod_cases3)
  have "t div day_ns < day_number (y + 1) m d"
    using day_number_next_year [of m y d] civil_month_range [OF c] civil_day_number [OF c] by simp
  moreover have "t = t div day_ns * day_ns + t mod day_ns" by simp
  ultimately show ?thesis by (simp add: add_date_def c)
qed

end
