(* ===== verification/Domain_Model.thy ===== *)
theory Domain_Model
  imports Go_Calendar "HOL-Library.List_Lexorder" "HOL-Library.Char_ord" "HOL-Library.Product_Lexorder"
begin

text \<open>
  The entities of internal/domain (models.go, subscription.go, cloud_storage.go) as records, one field per
  struct field, prefixed by the entity's initials, and the status constants as
  abbreviations of their strings.  Optional pointers (\<open>*time.Time\<close>, \<open>*string\<close>) are
  options.  Two text columns that hold JSON the code writes and reads back itself are kept
  as the value they encode: the bucket allocations of a reservation and the usage metadata.
  The error values of the services form one datatype: the engine's failures, the
  \<open>errors.New\<close> sentinels, \<open>fmt.Errorf\<close> with and without \<open>%w\<close> (the full text, and the
  cause it wraps) and \<open>PaymentEventPolicyError\<close>.
\<close>

section \<open>Constants\<close>

abbreviation OrderTypeNew :: string where "OrderTypeNew \<equiv> ''new''"
abbreviation OrderTypeRenewal :: string where "OrderTypeRenewal \<equiv> ''renewal''"
abbreviation OrderTypeCheckout :: string where "OrderTypeCheckout \<equiv> ''checkout''"
abbreviation GracePeriodDays :: int where "GracePeriodDays \<equiv> 3"

abbreviation OrderStatusPending :: string where "OrderStatusPending \<equiv> ''pending''"
abbreviation OrderStatusCheckoutCreated :: string where "OrderStatusCheckoutCreated \<equiv> ''checkout_created''"
abbreviation OrderStatusPaid :: string where "OrderStatusPaid \<equiv> ''paid''"
abbreviation OrderStatusFulfilled :: string where "OrderStatusFulfilled \<equiv> ''fulfilled''"
abbreviation OrderStatusCancelled :: string where "OrderStatusCancelled \<equiv> ''cancelled''"
abbreviation OrderStatusRefunded :: string where "OrderStatusRefunded \<equiv> ''refunded''"
abbreviation OrderStatusFailed :: string where "OrderStatusFailed \<equiv> ''failed''"

abbreviation EventStatusReceived :: string where "EventStatusReceived \<equiv> ''received''"
abbreviation EventStatusProcessing :: string where "EventStatusProcessing \<equiv> ''processing''"
abbreviation EventStatusProcessed :: string where "EventStatusProcessed \<equiv> ''processed''"
abbreviation EventStatusIgnored :: string where "EventStatusIgnored \<equiv> ''ignored''"
abbreviation EventStatusFailed :: string where "EventStatusFailed \<equiv> ''failed''"
abbreviation EventStatusReviewRequired :: string where "EventStatusReviewRequired \<equiv> ''review_required''"
abbreviation EventStatusPolicyRejected :: string where "EventStatusPolicyRejected \<equiv> ''policy_rejected''"

abbreviation EventTypePaid :: string where "EventTypePaid \<equiv> ''payment.paid''"
abbreviation EventTypeCancelled :: string where "EventTypeCancelled \<equiv> ''payment.cancelled''"
abbreviation EventTypeRefunded :: string where "EventTypeRefunded \<equiv> ''payment.refunded''"
abbreviation EventTypeDisputed :: string where "EventTypeDisputed \<equiv> ''payment.disputed''"
abbreviation EventTypeRenewalPaid :: string where "EventTypeRenewalPaid \<equiv> ''payment.renewal_paid''"
abbreviation EventTypeRenewalFailed :: string where "EventTypeRenewalFailed \<equiv> ''payment.renewal_failed''"
abbreviation EventTypeSubscriptionExpired :: string where
  "EventTypeSubscriptionExpired \<equiv> ''payment.subscription_expired''"

abbreviation ExecutionApplied :: string where "ExecutionApplied \<equiv> ''applied''"
abbreviation ExecutionFailed :: string where "ExecutionFailed \<equiv> ''failed''"
abbreviation TargetEntitlement :: string where "TargetEntitlement \<equiv> ''entitlement''"
abbreviation TargetCredits :: string where "TargetCredits \<equiv> ''credits''"

abbreviation RiskStatusOpen :: string where "RiskStatusOpen \<equiv> ''open''"
abbreviation RiskStatusResolved :: string where "RiskStatusResolved \<equiv> ''resolved''"
abbreviation RiskSeverityHigh :: string where "RiskSeverityHigh \<equiv> ''high''"
abbreviation RiskSeverityCritical :: string where "RiskSeverityCritical \<equiv> ''critical''"
abbreviation RiskReasonDispute :: string where "RiskReasonDispute \<equiv> ''dispute''"

abbreviation UserStatusActive :: string where "UserStatusActive \<equiv> ''active''"
abbreviation GrantStatusActive :: string where "GrantStatusActive \<equiv> ''active''"
abbreviation GrantStatusRevoked :: string where "GrantStatusRevoked \<equiv> ''revoked''"
abbreviation GrantStatusExpired :: string where "GrantStatusExpired \<equiv> ''expired''"
abbreviation GrantSourceManual :: string where "GrantSourceManual \<equiv> ''manual''"
abbreviation GrantSourceFulfillment :: string where "GrantSourceFulfillment \<equiv> ''fulfillment''"
abbreviation GrantSourceSubscriptionGrace :: string where "GrantSourceSubscriptionGrace \<equiv> ''subscription_grace''"
abbreviation GrantSourceTrial :: string where "GrantSourceTrial \<equiv> ''trial''"
abbreviation DeviceStatusActive :: string where "DeviceStatusActive \<equiv> ''active''"
abbreviation DeviceStatusDisabled :: string where "DeviceStatusDisabled \<equiv> ''disabled''"
abbreviation TrialGrantStatusIssued :: string where "TrialGrantStatusIssued \<equiv> ''issued''"
abbreviation ChallengePending :: string where "ChallengePending \<equiv> ''pending''"
abbreviation ChallengeConsumed :: string where "ChallengeConsumed \<equiv> ''consumed''"
abbreviation ChallengeExpired :: string where "ChallengeExpired \<equiv> ''expired''"
abbreviation SKUProOwnAIMonthly :: string where "SKUProOwnAIMonthly \<equiv> ''pro_own_ai_monthly''"
abbreviation SKUProOwnAILifetime :: string where "SKUProOwnAILifetime \<equiv> ''pro_own_ai_lifetime''"
abbreviation EntitlementSoftwareBasic :: string where "EntitlementSoftwareBasic \<equiv> ''software.basic''"
abbreviation EntitlementSoftwareAdvanced :: string where
  "EntitlementSoftwareAdvanced \<equiv> ''software.advanced''"
abbreviation EntitlementWorkflowBatchCleanup :: string where
  "EntitlementWorkflowBatchCleanup \<equiv> ''workflow.batch_cleanup''"
abbreviation EntitlementWorkflowAdvanced :: string where
  "EntitlementWorkflowAdvanced \<equiv> ''workflow.advanced''"
abbreviation RegistrationStatusPending :: string where "RegistrationStatusPending \<equiv> ''pending''"
abbreviation RegistrationStatusApproved :: string where "RegistrationStatusApproved \<equiv> ''approved''"
abbreviation RegistrationStatusRejected :: string where "RegistrationStatusRejected \<equiv> ''rejected''"
abbreviation EntitlementEditorialStudio :: string where "EntitlementEditorialStudio \<equiv> ''editorial.studio''"
abbreviation EntitlementCloudStorage :: string where "EntitlementCloudStorage \<equiv> ''cloud.storage''"

abbreviation ReservationPending :: string where "ReservationPending \<equiv> ''pending''"
abbreviation ReservationCommitted :: string where "ReservationCommitted \<equiv> ''committed''"
abbreviation ReservationReleased :: string where "ReservationReleased \<equiv> ''released''"
abbreviation TxGrant :: string where "TxGrant \<equiv> ''grant''"
abbreviation TxReserve :: string where "TxReserve \<equiv> ''reserve''"
abbreviation TxCommit :: string where "TxCommit \<equiv> ''commit''"
abbreviation TxRelease :: string where "TxRelease \<equiv> ''release''"
abbreviation TxClawback :: string where "TxClawback \<equiv> ''clawback''"
abbreviation TxExpire :: string where "TxExpire \<equiv> ''expire''"
abbreviation BucketActive :: string where "BucketActive \<equiv> ''active''"
abbreviation BucketExpired :: string where "BucketExpired \<equiv> ''expired''"
abbreviation BucketDepleted :: string where "BucketDepleted \<equiv> ''depleted''"
abbreviation BucketTypeAdmin :: string where "BucketTypeAdmin \<equiv> ''admin''"
abbreviation BucketTypeLegacy :: string where "BucketTypeLegacy \<equiv> ''legacy''"
abbreviation BucketTypeTopup :: string where "BucketTypeTopup \<equiv> ''topup''"
abbreviation BucketTypeSubscriptionPeriod :: string where
  "BucketTypeSubscriptionPeriod \<equiv> ''subscription_period''"
abbreviation CreditMetricBalance :: string where "CreditMetricBalance \<equiv> ''credits.balance''"
abbreviation CreditMetricReserved :: string where "CreditMetricReserved \<equiv> ''credits.reserved''"
abbreviation CancellationAtPeriodEnd :: string where "CancellationAtPeriodEnd \<equiv> ''cancelled_at_period_end''"

section \<open>Entities\<close>

record Product =
  pr_Code :: string
  pr_Name :: string
  pr_Price :: int
  pr_Currency :: string
  pr_Validity :: string
  pr_IsVisible :: bool

record License =
  li_ID :: nat
  li_Key :: string
  li_PlanCode :: string
  li_Status :: string
  li_Validity :: string
  li_DeviceID :: string
  li_ActivatedAt :: "instant option"
  li_ExpiresAt :: "instant option"
  li_MaxSeats :: int

record Order =
  or_ID :: nat
  or_OutTradeNo :: string
  or_LicenseKey :: string
  or_UserID :: string
  or_SKUCode :: string
  or_Amount :: int
  or_Currency :: string
  or_Status :: string
  or_Provider :: string
  or_TradeNo :: string
  or_ProviderCheckoutID :: string
  or_ProviderCustomerID :: string
  or_CheckoutURL :: string
  or_IdempotencyKey :: "string option"
  or_PaidAt :: "instant option"
  or_FulfilledAt :: "instant option"
  or_Metadata :: string
  or_OrderType :: string

record PaymentEvent =
  pe_ID :: string
  pe_Provider :: string
  pe_ProviderEventID :: string
  pe_EventType :: string
  pe_OutTradeNo :: string
  pe_ProviderTradeNo :: string
  pe_Amount :: int
  pe_Currency :: string
  pe_PeriodStartAt :: "instant option"
  pe_PeriodEndAt :: "instant option"
  pe_SignatureVerified :: bool
  pe_PayloadHash :: string
  pe_RawPayload :: string
  pe_Status :: string
  pe_Attempts :: int
  pe_LastError :: string
  pe_ReceivedAt :: instant
  pe_ProcessedAt :: "instant option"
  pe_CreatedAt :: instant
  pe_UpdatedAt :: instant

record FulfillmentExecution =
  fe_ID :: string
  fe_OrderID :: nat
  fe_OutTradeNo :: string
  fe_UserID :: string
  fe_SKUCode :: string
  fe_RuleID :: string
  fe_TargetType :: string
  fe_TargetID :: string
  fe_IdempotencyKey :: string
  fe_Status :: string
  fe_ResultRef :: string
  fe_LastError :: string
  fe_CreatedAt :: instant
  fe_UpdatedAt :: instant

record PaymentRiskFlag =
  rf_ID :: string
  rf_UserID :: string
  rf_OutTradeNo :: string
  rf_ProviderEventID :: string
  rf_Provider :: string
  rf_Reason :: string
  rf_Severity :: string
  rf_Status :: string
  rf_Note :: string
  rf_ResolvedBy :: string
  rf_CreatedAt :: instant
  rf_UpdatedAt :: instant
  rf_ResolvedAt :: "instant option"

record User =
  us_ID :: string
  us_Email :: string
  us_DisplayName :: string
  us_Status :: string
  us_CreatedAt :: instant
  us_UpdatedAt :: instant

record LoginChallenge =
  lc_ID :: string
  lc_Email :: string
  lc_DeviceID :: string
  lc_TokenHash :: string
  lc_Status :: string
  lc_Attempts :: int
  lc_MaxAttempts :: int
  lc_ClientIPHash :: string
  lc_UserAgentHash :: string
  lc_FailureReason :: string
  lc_Source :: string
  lc_IdempotencyKey :: string
  lc_ExpiresAt :: instant
  lc_ConsumedAt :: "instant option"
  lc_CreatedAt :: instant
  lc_UpdatedAt :: instant

record EntitlementGrant =
  eg_ID :: string
  eg_UserID :: string
  eg_EntitlementID :: string
  eg_Status :: string
  eg_Source :: string
  eg_StartsAt :: instant
  eg_ExpiresAt :: "instant option"
  eg_CreatedBy :: string
  eg_IdempotencyKey :: "string option"
  eg_CreatedAt :: instant
  eg_UpdatedAt :: instant
  eg_RevokedAt :: "instant option"

record UserDevice =
  ud_ID :: string
  ud_UserID :: string
  ud_DeviceID :: string
  ud_Status :: string
  ud_FirstSeenAt :: instant
  ud_LastSeenAt :: instant
  ud_CreatedAt :: instant
  ud_UpdatedAt :: instant
  ud_RevokedAt :: "instant option"
  ud_RevokedBy :: string
  ud_RevokeReason :: string

record TrialGrant =
  tg_ID :: string
  tg_UserID :: string
  tg_Email :: string
  tg_GrantType :: string
  tg_Status :: string
  tg_StartsAt :: instant
  tg_ExpiresAt :: "instant option"
  tg_IdempotencyKey :: string
  tg_CreatedAt :: instant
  tg_UpdatedAt :: instant
  tg_RevokedAt :: "instant option"

record CreditAccount =
  ca_ID :: string
  ca_UserID :: string
  ca_Balance :: int
  ca_Reserved :: int
  ca_CreatedAt :: instant
  ca_UpdatedAt :: instant

record CreditBucket =
  cb_ID :: string
  cb_AccountID :: string
  cb_UserID :: string
  cb_Type :: string
  cb_Source :: string
  cb_SourceOrderNo :: string
  cb_SourceTransactionID :: string
  cb_PeriodStartAt :: "instant option"
  cb_PeriodEndAt :: "instant option"
  cb_ExpiresAt :: "instant option"
  cb_Granted :: int
  cb_Remaining :: int
  cb_Reserved :: int
  cb_Status :: string
  cb_IdempotencyKey :: string
  cb_CreatedAt :: instant
  cb_UpdatedAt :: instant

text \<open>\<open>CreditBucketAllocation\<close> of credit.go, the element of a reservation's allocations.\<close>

record CreditBucketAllocation =
  al_BucketID :: string
  al_Amount :: int

record CreditReservation =
  cr_ID :: string
  cr_AccountID :: string
  cr_UserID :: string
  cr_Operation :: string
  cr_Amount :: int
  cr_Status :: string
  cr_IdempotencyKey :: string
  cr_FeatureID :: string
  cr_ExecutionID :: string
  cr_Metadata :: "(string \<times> string) list"
  cr_BucketAllocations :: "CreditBucketAllocation list"
  cr_ExpiresAt :: "instant option"
  cr_CommittedAt :: "instant option"
  cr_ReleasedAt :: "instant option"
  cr_CreatedAt :: instant
  cr_UpdatedAt :: instant

record CreditTransaction =
  ct_ID :: string
  ct_AccountID :: string
  ct_UserID :: string
  ct_ReservationID :: string
  ct_BucketID :: string
  ct_Type :: string
  ct_Amount :: int
  ct_BalanceAfter :: int
  ct_ReservedAfter :: int
  ct_IdempotencyKey :: string
  ct_Source :: string
  ct_Description :: string
  ct_CreatedAt :: instant

record SubscriptionCancellation =
  sc_ID :: string
  sc_UserID :: string
  sc_SKUCode :: string
  sc_Status :: string
  sc_CancelAtPeriodEnd :: bool
  sc_CurrentPeriodEndsAt :: instant
  sc_SourceOrderNo :: string
  sc_Reason :: string
  sc_Source :: string
  sc_IdempotencyKey :: string
  sc_ResumeIdempotencyKey :: string
  sc_ResumedAt :: "instant option"
  sc_CreatedAt :: instant
  sc_UpdatedAt :: instant

record RegistrationRequest =
  rr_ID :: string
  rr_UserID :: string
  rr_Email :: string
  rr_DisplayName :: string
  rr_RequestedEntitlement :: string
  rr_Status :: string
  rr_Source :: string
  rr_DeviceID :: string
  rr_Note :: string
  rr_ReviewNote :: string
  rr_ReviewedBy :: string
  rr_ReviewedAt :: "instant option"
  rr_CreatedAt :: instant
  rr_UpdatedAt :: instant

record CloudProject =
  cp_ID :: string
  cp_UserID :: string
  cp_ClientProjectID :: string
  cp_Name :: string
  cp_Status :: string
  cp_LastManifestID :: string
  cp_CreatedAt :: instant
  cp_UpdatedAt :: instant

record CloudManifest =
  cm_ID :: string
  cm_UserID :: string
  cm_CloudProjectID :: string
  cm_ClientProjectID :: string
  cm_ManifestHash :: string
  cm_ManifestVersion :: int
  cm_ObjectCount :: int
  cm_TotalBytes :: int
  cm_Status :: string
  cm_SyncSessionID :: string
  cm_IdempotencyKey :: string
  cm_CreatedAt :: instant
  cm_CommittedAt :: "instant option"

record CloudObject =
  co_ID :: string
  co_UserID :: string
  co_CloudProjectID :: string
  co_ClientProjectID :: string
  co_ManifestID :: string
  co_ResourceID :: string
  co_ResourceKind :: string
  co_ObjectKey :: string
  co_ContentHash :: string
  co_SizeBytes :: int
  co_ContentType :: string
  co_Status :: string
  co_CreatedAt :: instant
  co_UpdatedAt :: instant

record CloudSyncSession =
  cs_ID :: string
  cs_UserID :: string
  cs_CloudProjectID :: string
  cs_ClientProjectID :: string
  cs_Provider :: string
  cs_ResourceFingerprint :: string
  cs_RequestedBytes :: int
  cs_UsedBytes :: int
  cs_QuotaBytes :: int
  cs_Status :: string
  cs_ManifestID :: string
  cs_ExpiresAt :: instant
  cs_CreatedAt :: instant
  cs_UpdatedAt :: instant
  cs_CommittedAt :: "instant option"

section \<open>Errors\<close>

text \<open>
  \<open>errors.New(text)\<close> values are distinct pointers with pairwise distinct texts in this
  program, so the text identifies them.  \<open>Joined\<close> wraps two errors; \<open>Rejection\<close> is the
  \<open>CheckoutPolicyRejection\<close> with the reason, action and message of its decision.
\<close>

datatype err =
    ErrDB string
  | ErrConstraint
  | ErrRandom
  | ErrProvider string
  | Sentinel string
  | Errorf string
  | Wrapped string err
  | PolicyError string err
  | Joined string err err
  | Rejection string string string err

abbreviation ErrAccessDeviceNotFound :: err where "ErrAccessDeviceNotFound \<equiv> Sentinel ''access device not found''"
abbreviation ErrAccessDeviceRevoked :: err where "ErrAccessDeviceRevoked \<equiv> Sentinel ''access device revoked''"
abbreviation ErrAccessLoginChallengeDeliveryUnavailable :: err where "ErrAccessLoginChallengeDeliveryUnavailable \<equiv> Sentinel ''access login challenge delivery unavailable''"
abbreviation ErrAccessLoginChallengeExpired :: err where "ErrAccessLoginChallengeExpired \<equiv> Sentinel ''access login challenge expired''"
abbreviation ErrAccessLoginChallengeFailed :: err where "ErrAccessLoginChallengeFailed \<equiv> Sentinel ''access login challenge verification failed''"
abbreviation ErrAccessLoginChallengeRateLimited :: err where "ErrAccessLoginChallengeRateLimited \<equiv> Sentinel ''access login challenge rate limited''"
abbreviation ErrAccessUserDisabled :: err where "ErrAccessUserDisabled \<equiv> Sentinel ''access user disabled''"
abbreviation ErrCheckoutBlockedByPlan :: err where "ErrCheckoutBlockedByPlan \<equiv> Sentinel ''checkout blocked by subscription state''"
abbreviation ErrCheckoutBlockedByRisk :: err where "ErrCheckoutBlockedByRisk \<equiv> Sentinel ''checkout blocked by payment risk''"
abbreviation ErrCheckoutPolicyUnavailable :: err where "ErrCheckoutPolicyUnavailable \<equiv> Sentinel ''checkout policy unavailable''"
abbreviation ErrCheckoutProviderFailed :: err where "ErrCheckoutProviderFailed \<equiv> Sentinel ''checkout provider failed''"
abbreviation ErrCloudProjectNotFound :: err where "ErrCloudProjectNotFound \<equiv> Sentinel ''cloud project not found''"
abbreviation ErrCloudStorageAccessDenied :: err where "ErrCloudStorageAccessDenied \<equiv> Sentinel ''cloud storage access denied''"
abbreviation ErrCloudStorageOverQuota :: err where "ErrCloudStorageOverQuota \<equiv> Sentinel ''cloud storage quota exceeded''"
abbreviation ErrCloudStorageProviderNotConfigured :: err where "ErrCloudStorageProviderNotConfigured \<equiv> Sentinel ''cloud storage provider not configured''"
abbreviation ErrCloudSyncSessionAlreadyCommitted :: err where "ErrCloudSyncSessionAlreadyCommitted \<equiv> Sentinel ''cloud sync session already committed''"
abbreviation ErrCloudSyncSessionExpired :: err where "ErrCloudSyncSessionExpired \<equiv> Sentinel ''cloud sync session expired''"
abbreviation ErrCloudSyncSessionNotFound :: err where "ErrCloudSyncSessionNotFound \<equiv> Sentinel ''cloud sync session not found''"
abbreviation ErrCreditAccountNotFound :: err where "ErrCreditAccountNotFound \<equiv> Sentinel ''credit account not found''"
abbreviation ErrDeviceBound :: err where "ErrDeviceBound \<equiv> Sentinel ''license is bound to another device''"
abbreviation ErrDeviceLimitExceeded :: err where "ErrDeviceLimitExceeded \<equiv> Sentinel ''device limit exceeded''"
abbreviation ErrDeviceNotBound :: err where "ErrDeviceNotBound \<equiv> Sentinel ''device is not bound to this license''"
abbreviation ErrFulfillmentOrderNotPaid :: err where "ErrFulfillmentOrderNotPaid \<equiv> Sentinel ''order is not paid''"
abbreviation ErrFulfillmentRulesNotFound :: err where "ErrFulfillmentRulesNotFound \<equiv> Sentinel ''fulfillment rules not found''"
abbreviation ErrIdempotencyRequired :: err where "ErrIdempotencyRequired \<equiv> Sentinel ''idempotency key is required''"
abbreviation ErrInsufficientCredits :: err where "ErrInsufficientCredits \<equiv> Sentinel ''insufficient credits''"
abbreviation ErrInvalidAccessDevice :: err where "ErrInvalidAccessDevice \<equiv> Sentinel ''invalid access device''"
abbreviation ErrInvalidAccessLoginChallenge :: err where "ErrInvalidAccessLoginChallenge \<equiv> Sentinel ''invalid access login challenge''"
abbreviation ErrInvalidAccessSession :: err where "ErrInvalidAccessSession \<equiv> Sentinel ''invalid access session''"
abbreviation ErrInvalidAccessSnapshot :: err where "ErrInvalidAccessSnapshot \<equiv> Sentinel ''invalid access snapshot''"
abbreviation ErrInvalidCheckoutRequest :: err where "ErrInvalidCheckoutRequest \<equiv> Sentinel ''invalid checkout request''"
abbreviation ErrInvalidCloudStorage :: err where "ErrInvalidCloudStorage \<equiv> Sentinel ''invalid cloud storage request''"
abbreviation ErrInvalidCreditAmount :: err where "ErrInvalidCreditAmount \<equiv> Sentinel ''invalid credit amount''"
abbreviation ErrInvalidFulfillmentOrder :: err where "ErrInvalidFulfillmentOrder \<equiv> Sentinel ''invalid fulfillment order''"
abbreviation ErrInvalidFulfillmentRule :: err where "ErrInvalidFulfillmentRule \<equiv> Sentinel ''invalid fulfillment rule''"
abbreviation ErrInvalidGrant :: err where "ErrInvalidGrant \<equiv> Sentinel ''invalid entitlement grant''"
abbreviation ErrInvalidPaymentAdjustment :: err where "ErrInvalidPaymentAdjustment \<equiv> Sentinel ''invalid payment adjustment''"
abbreviation ErrInvalidPaymentEvent :: err where "ErrInvalidPaymentEvent \<equiv> Sentinel ''invalid payment event''"
abbreviation ErrInvalidPaymentRiskFlag :: err where "ErrInvalidPaymentRiskFlag \<equiv> Sentinel ''invalid payment risk flag''"
abbreviation ErrInvalidRegistration :: err where "ErrInvalidRegistration \<equiv> Sentinel ''invalid registration''"
abbreviation ErrInvalidSubscriptionCancellation :: err where "ErrInvalidSubscriptionCancellation \<equiv> Sentinel ''invalid subscription cancellation request''"
abbreviation ErrInvalidSubscriptionRenewal :: err where "ErrInvalidSubscriptionRenewal \<equiv> Sentinel ''invalid subscription renewal event''"
abbreviation ErrLicenseExpired :: err where "ErrLicenseExpired \<equiv> Sentinel ''license has expired''"
abbreviation ErrLicenseInactive :: err where "ErrLicenseInactive \<equiv> Sentinel ''license is inactive''"
abbreviation ErrLicenseNotFound :: err where "ErrLicenseNotFound \<equiv> Sentinel ''license not found''"
abbreviation ErrPaymentAdjustmentManualReview :: err where "ErrPaymentAdjustmentManualReview \<equiv> Sentinel ''payment adjustment requires manual review''"
abbreviation ErrPaymentAdjustmentRejected :: err where "ErrPaymentAdjustmentRejected \<equiv> Sentinel ''payment adjustment rejected by policy''"
abbreviation ErrPaymentAmountMismatch :: err where "ErrPaymentAmountMismatch \<equiv> Sentinel ''payment amount mismatch''"
abbreviation ErrPaymentCurrencyMismatch :: err where "ErrPaymentCurrencyMismatch \<equiv> Sentinel ''payment currency mismatch''"
abbreviation ErrPaymentEventNotFound :: err where "ErrPaymentEventNotFound \<equiv> Sentinel ''payment event not found''"
abbreviation ErrPaymentEventNotProcessable :: err where "ErrPaymentEventNotProcessable \<equiv> Sentinel ''payment event is not processable''"
abbreviation ErrPaymentRiskFlagNotFound :: err where "ErrPaymentRiskFlagNotFound \<equiv> Sentinel ''payment risk flag not found''"
abbreviation ErrRegistrationNotFound :: err where "ErrRegistrationNotFound \<equiv> Sentinel ''registration not found''"
abbreviation ErrReservationExpired :: err where "ErrReservationExpired \<equiv> Sentinel ''credit reservation has expired''"
abbreviation ErrReservationNotFound :: err where "ErrReservationNotFound \<equiv> Sentinel ''credit reservation not found''"
abbreviation ErrReservationNotPending :: err where "ErrReservationNotPending \<equiv> Sentinel ''credit reservation is not pending''"
abbreviation ErrSeatsExhausted :: err where "ErrSeatsExhausted \<equiv> Sentinel ''all seats are already bound to other devices''"
abbreviation ErrSnapshotSignature :: err where "ErrSnapshotSignature \<equiv> Sentinel ''access snapshot signature invalid''"
abbreviation ErrSubscriptionControlFailed :: err where "ErrSubscriptionControlFailed \<equiv> Sentinel ''subscription control failed''"
abbreviation ErrSubscriptionControlInvalidRequest :: err where "ErrSubscriptionControlInvalidRequest \<equiv> Sentinel ''invalid subscription control request''"
abbreviation ErrSubscriptionControlUnavailable :: err where "ErrSubscriptionControlUnavailable \<equiv> Sentinel ''subscription control unavailable''"
abbreviation ErrSubscriptionControlUnsupported :: err where "ErrSubscriptionControlUnsupported \<equiv> Sentinel ''subscription control unsupported''"
abbreviation ErrSubscriptionGraceUnsupported :: err where "ErrSubscriptionGraceUnsupported \<equiv> Sentinel ''subscription grace unsupported''"
abbreviation ErrSubscriptionNotFound :: err where "ErrSubscriptionNotFound \<equiv> Sentinel ''subscription not found''"
abbreviation ErrUnknownEntitlement :: err where "ErrUnknownEntitlement \<equiv> Sentinel ''unknown entitlement''"
abbreviation ErrUserNotFound :: err where "ErrUserNotFound \<equiv> Sentinel ''user not found''"
abbreviation ErrNotFound :: err where "ErrNotFound \<equiv> Sentinel ''repository: not found''"

text \<open>\<open>errors.Is\<close>: the error or one of the causes it wraps is the target.\<close>

fun errors_is :: "err \<Rightarrow> err \<Rightarrow> bool" where
  "errors_is (Wrapped m c) target \<longleftrightarrow> Wrapped m c = target \<or> errors_is c target"
| "errors_is (PolicyError s c) target \<longleftrightarrow> PolicyError s c = target \<or> errors_is c target"
| "errors_is (Joined m c d) target \<longleftrightarrow> Joined m c d = target \<or> errors_is c target \<or> errors_is d target"
| "errors_is (Rejection r a m c) target \<longleftrightarrow> Rejection r a m c = target \<or> errors_is c target"
| "errors_is e target \<longleftrightarrow> e = target"

text \<open>\<open>err.Error()\<close>.\<close>

fun error_text :: "err \<Rightarrow> string" where
  "error_text (ErrDB m) = m"
| "error_text ErrConstraint = ''UNIQUE constraint failed''"
| "error_text ErrRandom = ''random source failed''"
| "error_text (ErrProvider m) = m"
| "error_text (Sentinel m) = m"
| "error_text (Errorf m) = m"
| "error_text (Wrapped m c) = m"
| "error_text (PolicyError s c) = error_text c"
| "error_text (Joined m c d) = m"
| "error_text (Rejection r a m c) = error_text c"

end
