(* ===== verification/Effects.thy ===== *)
theory Effects
  imports Domain_Model
begin

text \<open>
  The effects of a Go service call.  A program takes the world and returns an error or a
  value together with the next world.  The world holds the stored data and three oracles,
  consulted once per effect and indexed by a step counter: the wall clock (\<open>time.Now\<close>),
  the entropy source (\<open>generateEntityID\<close> of id.go, which may fail) and the storage engine's
  failures.  Nothing is assumed of the oracles: time may stand still or go back, identifiers
  may repeat, any storage call may fail.  \<open>in_transaction\<close> is the unit of work of
  transaction.go: what the body wrote is kept only when the body and the commit succeed.
\<close>

record 's world =
  db :: 's
  clock :: "nat \<Rightarrow> instant"
  entropy :: "nat \<Rightarrow> 8 word list option"
  faults :: "nat \<Rightarrow> string option"
  sha256_hex :: "string \<Rightarrow> string"
  tick :: nat

type_synonym ('s, 'a) prog = "'s world \<Rightarrow> (err + 'a) \<times> 's world"

definition next_tick :: "'s world \<Rightarrow> 's world" where
  "next_tick w = w\<lparr>tick := Suc (tick w)\<rparr>"

section \<open>Control\<close>

definition ret :: "'a \<Rightarrow> ('s, 'a) prog" where
  "ret x w = (Inr x, w)"

definition fail :: "err \<Rightarrow> ('s, 'a) prog" where
  "fail e w = (Inl e, w)"

definition andThen :: "('s, 'a) prog \<Rightarrow> ('a \<Rightarrow> ('s, 'b) prog) \<Rightarrow> ('s, 'b) prog" where
  "andThen m k w = (case m w of (Inl e, w') \<Rightarrow> (Inl e, w') | (Inr x, w') \<Rightarrow> k x w')"

text \<open>\<open>x, err := m()\<close> with both outcomes handled by the caller.\<close>

definition attempt :: "('s, 'a) prog \<Rightarrow> ('s, err + 'a) prog" where
  "attempt m w = (case m w of (r, w') \<Rightarrow> (Inr r, w'))"

text \<open>
  \<open>x, err := m(); if err == nil { found } else if !errors.Is(err, ErrNotFound) { return err }\<close>,
  with \<open>missing\<close> for the code that follows.
\<close>

definition if_found :: "('s, 'a) prog \<Rightarrow> ('a \<Rightarrow> ('s, 'b) prog) \<Rightarrow> ('s, 'b) prog \<Rightarrow> ('s, 'b) prog" where
  "if_found m found missing =
     andThen (attempt m) (\<lambda>r. case r of
         Inr x \<Rightarrow> found x
       | Inl e \<Rightarrow> if errors_is e ErrNotFound then missing else fail e)"

text \<open>\<open>if errors.Is(err, ErrNotFound) { return e' }; return err\<close>.\<close>

definition not_found_as :: "err \<Rightarrow> ('s, 'a) prog \<Rightarrow> ('s, 'a) prog" where
  "not_found_as e' m = if_found m ret (fail e')"

text \<open>A guard: \<open>if bad { return e }\<close>.\<close>

definition reject_if :: "bool \<Rightarrow> err \<Rightarrow> ('s, unit) prog" where
  "reject_if bad e = (if bad then fail e else ret ())"

fun for_each :: "'x list \<Rightarrow> ('x \<Rightarrow> 'acc \<Rightarrow> ('s, 'acc) prog) \<Rightarrow> 'acc \<Rightarrow> ('s, 'acc) prog" where
  "for_each [] body acc = ret acc"
| "for_each (x # xs) body acc = andThen (body x acc) (for_each xs body)"

text \<open>A pure call that may fail.\<close>

definition of_sum :: "err + 'a \<Rightarrow> ('s, 'a) prog" where
  "of_sum r = (case r of Inl e \<Rightarrow> fail e | Inr x \<Rightarrow> ret x)"

section \<open>Oracles and storage\<close>

definition time_now :: "('s, instant) prog" where
  "time_now w = (Inr (clock w (tick w)), next_tick w)"

text \<open>\<open>hex.EncodeToString\<close>.\<close>

definition hex_digit :: "nat \<Rightarrow> char" where
  "hex_digit n = (if n < 10 then char_of (48 + n) else char_of (87 + n))"

definition hex_encode :: "8 word list \<Rightarrow> string" where
  "hex_encode bs = concat (List.map (\<lambda>b. [hex_digit (unat b div 16), hex_digit (unat b mod 16)]) bs)"

definition generateEntityID :: "string \<Rightarrow> ('s, string) prog" where
  "generateEntityID prefix w =
     (case entropy w (tick w) of
        None \<Rightarrow> (Inl ErrRandom, next_tick w)
      | Some bs \<Rightarrow> (Inr (prefix @ hex_encode bs), next_tick w))"

text \<open>A storage call that reads: a fault of the engine, or the value of a query.\<close>

definition db_read :: "('s \<Rightarrow> 'a) \<Rightarrow> ('s, 'a) prog" where
  "db_read q w =
     (case faults w (tick w) of
        Some m \<Rightarrow> (Inl (ErrDB m), next_tick w)
      | None \<Rightarrow> (Inr (q (db w)), next_tick w))"

text \<open>\<open>First\<close>: a row or \<open>ErrNotFound\<close> (\<open>mapGormNotFound\<close>).\<close>

definition db_first :: "('s \<Rightarrow> 'a option) \<Rightarrow> ('s, 'a) prog" where
  "db_first q = andThen (db_read q) (\<lambda>r. case r of None \<Rightarrow> fail ErrNotFound | Some x \<Rightarrow> ret x)"

text \<open>A storage call that writes: a fault, a violated constraint, or the new data.\<close>

definition db_write :: "('s \<Rightarrow> ('a \<times> 's) option) \<Rightarrow> ('s, 'a) prog" where
  "db_write g w =
     (case faults w (tick w) of
        Some m \<Rightarrow> (Inl (ErrDB m), next_tick w)
      | None \<Rightarrow> (case g (db w) of
            None \<Rightarrow> (Inl ErrConstraint, next_tick w)
          | Some (x, d) \<Rightarrow> (Inr x, next_tick (w\<lparr>db := d\<rparr>))))"

text \<open>
  A unit of work: \<open>Begin\<close>, the body, then \<open>Commit\<close> when the body's value says so and
  \<open>Rollback\<close> (back to the data at \<open>Begin\<close>) otherwise or when the commit fails.
\<close>

definition in_transaction_when :: "('a \<Rightarrow> bool) \<Rightarrow> ('s, 'a) prog \<Rightarrow> ('s, 'a) prog" where
  "in_transaction_when commits body w =
     (case db_read (\<lambda>d. ()) w of
        (Inl e, w1) \<Rightarrow> (Inl e, w1)
      | (Inr _, w1) \<Rightarrow> (case body w1 of
            (Inl e, w2) \<Rightarrow> (Inl e, w2\<lparr>db := db w\<rparr>)
          | (Inr x, w2) \<Rightarrow>
              (if commits x
               then (case db_read (\<lambda>d. ()) w2 of
                       (Inl e, w3) \<Rightarrow> (Inl e, w3\<lparr>db := db w\<rparr>)
                     | (Inr _, w3) \<Rightarrow> (Inr x, w3))
               else (Inr x, w2\<lparr>db := db w\<rparr>))))"

definition in_transaction :: "('s, 'a) prog \<Rightarrow> ('s, 'a) prog" where
  "in_transaction body = in_transaction_when (\<lambda>_. True) body"

section \<open>Weakest preconditions\<close>

definition wp :: "('s, 'a) prog \<Rightarrow> ('a \<Rightarrow> 's world \<Rightarrow> bool) \<Rightarrow> (err \<Rightarrow> 's world \<Rightarrow> bool) \<Rightarrow> 's world \<Rightarrow> bool" where
  "wp m Q E w = (case m w of (Inr x, w') \<Rightarrow> Q x w' | (Inl e, w') \<Rightarrow> E e w')"

lemma next_tick_simps [simp]:
  "db (next_tick w) = db w" "clock (next_tick w) = clock w" "entropy (next_tick w) = entropy w"
  "faults (next_tick w) = faults w" "sha256_hex (next_tick w) = sha256_hex w"
  "tick (next_tick w) = Suc (tick w)"
  by (simp_all add: next_tick_def)

lemma next_tick_set_db [simp]: "(next_tick w)\<lparr>db := d\<rparr> = next_tick (w\<lparr>db := d\<rparr>)"
  by (simp add: next_tick_def)

lemma wp_ret [wp_simps]: "wp (ret x) Q E w = Q x w"
  by (simp add: wp_def ret_def)

lemma wp_fail [wp_simps]: "wp (fail e) Q E w = E e w"
  by (simp add: wp_def fail_def)

lemma wp_andThen [wp_simps]: "wp (andThen m k) Q E w = wp m (\<lambda>x. wp (k x) Q E) E w"
  by (simp add: wp_def andThen_def split: prod.split sum.split)

lemma wp_attempt [wp_simps]: "wp (attempt m) Q E w = wp m (\<lambda>x. Q (Inr x)) (\<lambda>e. Q (Inl e)) w"
  by (simp add: wp_def attempt_def split: prod.split sum.split)

lemma wp_if_found [wp_simps]:
  "wp (if_found m found missing) Q E w =
     wp m (\<lambda>x. wp (found x) Q E) (\<lambda>e w. if errors_is e ErrNotFound then wp missing Q E w else E e w) w"
proof -
  have "(\<lambda>e. wp (if errors_is e ErrNotFound then missing else fail e) Q E)
      = (\<lambda>e w. if errors_is e ErrNotFound then wp missing Q E w else E e w)"
    by (auto simp: wp_fail intro!: ext)
  then show ?thesis by (simp add: if_found_def wp_simps)
qed

lemma wp_not_found_as [wp_simps]:
  "wp (not_found_as e' m) Q E w =
     wp m Q (\<lambda>e w. if errors_is e ErrNotFound then E e' w else E e w) w"
  by (simp add: not_found_as_def wp_if_found wp_fail) (simp add: wp_ret [abs_def])

lemma wp_reject_if [wp_simps]: "wp (reject_if b e) Q E w = (if b then E e w else Q () w)"
  by (simp add: reject_if_def wp_simps)

lemma wp_if [wp_simps]: "wp (if b then m else n) Q E w = (if b then wp m Q E w else wp n Q E w)"
  by simp

lemma wp_for_each_Nil [wp_simps]: "wp (for_each [] body acc) Q E w = Q acc w"
  by (simp add: wp_simps)

lemma wp_time_now [wp_simps]: "wp time_now Q E w = Q (clock w (tick w)) (next_tick w)"
  by (simp add: wp_def time_now_def)

lemma wp_generateEntityID [wp_simps]:
  "wp (generateEntityID p) Q E w =
     (case entropy w (tick w) of None \<Rightarrow> E ErrRandom (next_tick w) | Some bs \<Rightarrow> Q (p @ hex_encode bs) (next_tick w))"
  by (simp add: wp_def generateEntityID_def split: option.split)

lemma wp_db_read [wp_simps]:
  "wp (db_read q) Q E w =
     (case faults w (tick w) of Some m \<Rightarrow> E (ErrDB m) (next_tick w) | None \<Rightarrow> Q (q (db w)) (next_tick w))"
  by (simp add: wp_def db_read_def split: option.split)

lemma wp_db_first [wp_simps]:
  "wp (db_first q) Q E w =
     (case faults w (tick w) of
        Some m \<Rightarrow> E (ErrDB m) (next_tick w)
      | None \<Rightarrow> (case q (db w) of None \<Rightarrow> E ErrNotFound (next_tick w) | Some x \<Rightarrow> Q x (next_tick w)))"
  by (simp add: db_first_def wp_simps split: option.split)

lemma wp_db_write [wp_simps]:
  "wp (db_write g) Q E w =
     (case faults w (tick w) of
        Some m \<Rightarrow> E (ErrDB m) (next_tick w)
      | None \<Rightarrow> (case g (db w) of
            None \<Rightarrow> E ErrConstraint (next_tick w)
          | Some r \<Rightarrow> Q (fst r) (next_tick (w\<lparr>db := snd r\<rparr>))))"
  by (auto simp: wp_def db_write_def split: option.split prod.split)

lemma wp_mono:
  assumes "wp m Q E w" and "\<And>x w'. Q x w' \<Longrightarrow> Q' x w'" and "\<And>e w'. E e w' \<Longrightarrow> E' e w'"
  shows "wp m Q' E' w"
  using assms by (auto simp: wp_def split: prod.splits sum.splits)

text \<open>The invariant rule of a loop over a list; the invariant sees what is left to do.\<close>

lemma wp_for_each:
  assumes "I xs acc w"
    and "\<And>x ys acc w. I (x # ys) acc w \<Longrightarrow> wp (body x acc) (I ys) E w"
    and "\<And>acc w. I [] acc w \<Longrightarrow> Q acc w"
  shows "wp (for_each xs body acc) Q E w"
  using assms(1)
proof (induction xs arbitrary: acc w)
  case Nil
  then show ?case by (simp add: wp_simps assms(3))
next
  case (Cons x xs)
  show ?case
    unfolding for_each.simps wp_andThen
    by (rule wp_mono [OF assms(2) [OF Cons.prems]]) (simp_all add: Cons.IH)
qed

text \<open>
  A transaction: the body runs on the data at \<open>Begin\<close>; every way out but the commit
  restores that data.
\<close>

lemma wp_in_transaction_when:
  assumes "\<And>m. faults w (tick w) = Some m \<Longrightarrow> E (ErrDB m) (next_tick w)"
    and "faults w (tick w) = None \<Longrightarrow>
      wp body
        (\<lambda>x w'. (commits x \<longrightarrow> (case faults w' (tick w') of
                    Some m \<Rightarrow> E (ErrDB m) (next_tick (w'\<lparr>db := db w\<rparr>))
                  | None \<Rightarrow> Q x (next_tick w')))
              \<and> (\<not> commits x \<longrightarrow> Q x (w'\<lparr>db := db w\<rparr>)))
        (\<lambda>e w'. E e (w'\<lparr>db := db w\<rparr>)) (next_tick w)"
  shows "wp (in_transaction_when commits body) Q E w"
  using assms
  by (auto simp: wp_def in_transaction_when_def db_read_def
      split: prod.splits sum.splits option.splits)

lemma wp_in_transaction:
  assumes "\<And>m. faults w (tick w) = Some m \<Longrightarrow> E (ErrDB m) (next_tick w)"
    and "faults w (tick w) = None \<Longrightarrow>
      wp body
        (\<lambda>x w'. case faults w' (tick w') of
             Some m \<Rightarrow> E (ErrDB m) (next_tick (w'\<lparr>db := db w\<rparr>))
           | None \<Rightarrow> Q x (next_tick w'))
        (\<lambda>e w'. E e (w'\<lparr>db := db w\<rparr>)) (next_tick w)"
  shows "wp (in_transaction body) Q E w"
  unfolding in_transaction_def
  by (rule wp_in_transaction_when) (use assms in simp_all)

text \<open>What \<open>wp\<close> says of a run.\<close>

lemma wp_run: "wp m Q E w \<Longrightarrow> m w = (Inr x, w') \<Longrightarrow> Q x w'"
  by (simp add: wp_def)

lemma wp_run_error: "wp m Q E w \<Longrightarrow> m w = (Inl e, w') \<Longrightarrow> E e w'"
  by (simp add: wp_def)

lemma wp_result: "wp m (\<lambda>_ w'. P (db w')) (\<lambda>_ w'. P (db w')) w \<longleftrightarrow> P (db (snd (m w)))"
  by (simp add: wp_def split: prod.split sum.split)

text \<open>An error of a transactional call leaves the stored data as it was.\<close>

lemma in_transaction_error_keeps_db:
  assumes "in_transaction body w = (Inl e, w')"
  shows "db w' = db w"
proof -
  have "wp (in_transaction body) (\<lambda>_ _. True) (\<lambda>_ w'. db w' = db w) w"
    by (rule wp_in_transaction) (auto simp: wp_def split: prod.split sum.split option.split)
  then show ?thesis using assms by (rule wp_run_error)
qed

lemma in_transaction_when_keeps_db:
  assumes "in_transaction_when commits body w = (r, w')" and "\<And>x. r = Inr x \<Longrightarrow> \<not> commits x"
  shows "db w' = db w"
proof -
  have "wp (in_transaction_when commits body) (\<lambda>x w'. commits x \<or> db w' = db w) (\<lambda>_ w'. db w' = db w) w"
    by (rule wp_in_transaction_when) (auto simp: wp_def split: prod.split sum.split option.split)
  with assms show ?thesis by (cases r) (auto simp: wp_def)
qed

section \<open>Liberal preconditions over the data\<close>

text \<open>
  \<open>wlp m Q d\<close>: whatever the oracles answer, a run of \<open>m\<close> from the data \<open>d\<close> that returns a
  value establishes \<open>Q\<close>.  Error returns are not constrained: they are the subject of the
  transaction rules.  The introduction rules compute the verification condition of a program.
\<close>

definition wlp :: "('s, 'a) prog \<Rightarrow> ('a \<Rightarrow> 's \<Rightarrow> bool) \<Rightarrow> 's \<Rightarrow> bool" where
  "wlp m Q d \<longleftrightarrow> (\<forall>w. db w = d \<longrightarrow> wp m (\<lambda>x w'. Q x (db w')) (\<lambda>_ _. True) w)"

named_theorems wlp_intros \<open>verification conditions of the effect primitives\<close>

lemma wlpD: "wlp m Q (db w) \<Longrightarrow> m w = (Inr x, w') \<Longrightarrow> Q x (db w')"
  by (auto simp: wlp_def wp_def)

lemma wlp_mono: "wlp m Q d \<Longrightarrow> (\<And>x d'. Q x d' \<Longrightarrow> Q' x d') \<Longrightarrow> wlp m Q' d"
  unfolding wlp_def by (blast intro: wp_mono)

lemma wlp_conj: "wlp m Q d \<Longrightarrow> wlp m Q' d \<Longrightarrow> wlp m (\<lambda>x d'. Q x d' \<and> Q' x d') d"
  by (auto simp: wlp_def wp_def split: prod.splits sum.splits)

lemma wlp_ret [wlp_intros]: "Q x d \<Longrightarrow> wlp (ret x) Q d"
  by (simp add: wlp_def wp_simps)

lemma wlp_fail [wlp_intros]: "wlp (fail e) Q d"
  by (simp add: wlp_def wp_simps)

lemma wlp_andThen [wlp_intros]: "wlp m (\<lambda>x. wlp (k x) Q) d \<Longrightarrow> wlp (andThen m k) Q d"
  by (auto simp: wlp_def wp_andThen elim!: wp_mono)

lemma wlp_if [wlp_intros]:
  "(b \<Longrightarrow> wlp m Q d) \<Longrightarrow> (\<not> b \<Longrightarrow> wlp n Q d) \<Longrightarrow> wlp (if b then m else n) Q d"
  by simp

lemma wlp_option [wlp_intros]:
  "(x = None \<Longrightarrow> wlp m Q d) \<Longrightarrow> (\<And>y. x = Some y \<Longrightarrow> wlp (n y) Q d)
    \<Longrightarrow> wlp (case x of None \<Rightarrow> m | Some y \<Rightarrow> n y) Q d"
  by (cases x) simp_all

lemma wlp_prod [wlp_intros]:
  "(\<And>a b. x = (a, b) \<Longrightarrow> wlp (m a b) Q d) \<Longrightarrow> wlp (case x of (a, b) \<Rightarrow> m a b) Q d"
  by (cases x) simp

lemma wlp_reject_if [wlp_intros]: "(\<not> b \<Longrightarrow> Q () d) \<Longrightarrow> wlp (reject_if b e) Q d"
  by (simp add: wlp_def wp_simps)

lemma wlp_time_now [wlp_intros]: "(\<And>t. Q t d) \<Longrightarrow> wlp time_now Q d"
  by (simp add: wlp_def wp_simps)

lemma wlp_generateEntityID [wlp_intros]:
  "(\<And>bs. Q (p @ hex_encode bs) d) \<Longrightarrow> wlp (generateEntityID p) Q d"
  by (simp add: wlp_def wp_simps split: option.split)

lemma wlp_db_read [wlp_intros]: "Q (q d) d \<Longrightarrow> wlp (db_read q) Q d"
  by (simp add: wlp_def wp_simps split: option.split)

lemma wlp_db_first [wlp_intros]: "(\<And>x. q d = Some x \<Longrightarrow> Q x d) \<Longrightarrow> wlp (db_first q) Q d"
  by (simp add: wlp_def wp_simps split: option.split)

lemma wlp_db_write [wlp_intros]:
  "(\<And>x d'. g d = Some (x, d') \<Longrightarrow> Q x d') \<Longrightarrow> wlp (db_write g) Q d"
  by (auto simp: wlp_def wp_simps split: option.split)

text \<open>A lookup and both its outcomes.\<close>

lemma wlp_if_found_first [wlp_intros]:
  assumes "\<And>x. q d = Some x \<Longrightarrow> wlp (found x) Q d" and "q d = None \<Longrightarrow> wlp missing Q d"
  shows "wlp (if_found (db_first q) found missing) Q d"
  using assms by (auto simp: wlp_def wp_simps split: option.split)

lemma wlp_not_found_as [wlp_intros]: "wlp m Q d \<Longrightarrow> wlp (not_found_as e m) Q d"
  by (auto simp: wlp_def wp_not_found_as elim!: wp_mono)

lemma wlp_for_each:
  assumes "I xs acc d"
    and "\<And>x ys acc d. I (x # ys) acc d \<Longrightarrow> wlp (body x acc) (I ys) d"
    and "\<And>acc d. I [] acc d \<Longrightarrow> Q acc d"
  shows "wlp (for_each xs body acc) Q d"
  using assms(1)
proof (induction xs arbitrary: acc d)
  case Nil
  then show ?case by (auto intro: wlp_intros assms(3))
next
  case (Cons x xs)
  show ?case
    unfolding for_each.simps
    by (rule wlp_andThen, rule wlp_mono [OF assms(2) [OF Cons.prems]]) (rule Cons.IH)
qed

lemma wlp_in_transaction_when:
  assumes "wlp body (\<lambda>x d'. if commits x then Q x d' else Q x d) d"
  shows "wlp (in_transaction_when commits body) Q d"
  unfolding wlp_def
proof (intro allI impI)
  fix w :: "'a world"
  assume w: "db w = d"
  have "wp body (\<lambda>x w'. if commits x then Q x (db w') else Q x d) (\<lambda>_ _. True) (next_tick w)"
    using assms w by (simp add: wlp_def)
  with w show "wp (in_transaction_when commits body) (\<lambda>x w'. Q x (db w')) (\<lambda>_ _. True) w"
    by (intro wp_in_transaction_when) (auto elim!: wp_mono split: option.split)
qed

lemma wlp_in_transaction: "wlp body Q d \<Longrightarrow> wlp (in_transaction body) Q d"
  unfolding in_transaction_def by (rule wlp_in_transaction_when) simp

section \<open>Frames\<close>

text \<open>
  A program keeps a property of the data when every run, successful or not, does; the rules
  follow the structure of the program.
\<close>

definition keeps :: "('s \<Rightarrow> bool) \<Rightarrow> ('s, 'a) prog \<Rightarrow> bool" where
  "keeps P m \<longleftrightarrow> (\<forall>w. P (db w) \<longrightarrow> P (db (snd (m w))))"

named_theorems keeps_rules \<open>programs that keep a property of the data\<close>

lemma keepsD: "keeps P m \<Longrightarrow> P (db w) \<Longrightarrow> P (db (snd (m w)))"
  by (simp add: keeps_def)

lemma keeps_ret [keeps_rules, intro]: "keeps P (ret x)"
  by (simp add: keeps_def ret_def)

lemma keeps_fail [keeps_rules, intro]: "keeps P (fail e)"
  by (simp add: keeps_def fail_def)

lemma keeps_andThen [keeps_rules, intro]:
  "keeps P m \<Longrightarrow> (\<And>x. keeps P (k x)) \<Longrightarrow> keeps P (andThen m k)"
  unfolding keeps_def andThen_def
  by (auto split: prod.splits sum.splits; metis snd_conv)

lemma keeps_attempt [keeps_rules, intro]: "keeps P m \<Longrightarrow> keeps P (attempt m)"
  by (simp add: keeps_def attempt_def split: prod.splits) (metis snd_conv)

lemma keeps_if [keeps_rules, intro]:
  "keeps P m \<Longrightarrow> keeps P n \<Longrightarrow> keeps P (if b then m else n)"
  by simp

lemma keeps_if_found [keeps_rules, intro]:
  "keeps P m \<Longrightarrow> (\<And>x. keeps P (k x)) \<Longrightarrow> keeps P n \<Longrightarrow> keeps P (if_found m k n)"
  unfolding if_found_def
  by (intro keeps_andThen keeps_attempt) (auto split: sum.split intro: keeps_fail)

lemma keeps_not_found_as [keeps_rules, intro]: "keeps P m \<Longrightarrow> keeps P (not_found_as e m)"
  unfolding not_found_as_def by (intro keeps_if_found keeps_ret keeps_fail)

lemma keeps_reject_if [keeps_rules, intro]: "keeps P (reject_if b e)"
  unfolding reject_if_def by (intro keeps_if keeps_fail keeps_ret)

lemma keeps_time_now [keeps_rules, intro]: "keeps P time_now"
  by (simp add: keeps_def time_now_def)

lemma keeps_generateEntityID [keeps_rules, intro]: "keeps P (generateEntityID p)"
  by (simp add: keeps_def generateEntityID_def split: option.split)

lemma keeps_db_read [keeps_rules, intro]: "keeps P (db_read q)"
  by (simp add: keeps_def db_read_def split: option.split)

lemma keeps_db_first [keeps_rules, intro]: "keeps P (db_first q)"
  unfolding db_first_def
  by (intro keeps_andThen keeps_db_read) (auto split: option.split)

lemma keeps_db_write:
  "(\<And>d x d'. P d \<Longrightarrow> g d = Some (x, d') \<Longrightarrow> P d') \<Longrightarrow> keeps P (db_write g)"
  by (auto simp: keeps_def db_write_def split: option.splits)

lemma keeps_for_each [keeps_rules, intro]:
  "(\<And>x acc. keeps P (body x acc)) \<Longrightarrow> keeps P (for_each xs body acc)"
  by (induction xs arbitrary: acc) auto

lemma keeps_in_transaction_when [keeps_rules, intro]:
  assumes "keeps P body"
  shows "keeps P (in_transaction_when c body)"
  unfolding keeps_def
proof (intro allI impI)
  fix w :: "'a world"
  assume P: "P (db w)"
  then have "P (db (snd (body (next_tick w))))"
    using keepsD [OF assms, of "next_tick w"] by simp
  with P show "P (db (snd (in_transaction_when c body w)))"
    by (auto simp: in_transaction_when_def db_read_def split: prod.splits sum.splits option.splits)
qed

text \<open>
  A transaction keeps what its body keeps when the body returns a value: the error exits
  restore the data.
\<close>

lemma keeps_transaction:
  assumes "\<And>d. P d \<Longrightarrow> wlp body (\<lambda>_. P) d"
  shows "keeps P (in_transaction body)"
  unfolding keeps_def
proof (intro allI impI)
  fix w :: "'a world"
  assume P: "P (db w)"
  have "wp body (\<lambda>_ w'. P (db w')) (\<lambda>_ _. True) (next_tick w)"
    using assms [OF P] by (simp add: wlp_def)
  with P have "wp (in_transaction body) (\<lambda>_ w'. P (db w')) (\<lambda>_ w'. P (db w')) w"
    by (intro wp_in_transaction) (auto elim!: wp_mono split: option.split)
  then show "P (db (snd (in_transaction body w)))" by (simp add: wp_result)
qed

text \<open>From \<open>P\<close> every run, successful or not, ends in \<open>Q\<close>.\<close>

definition leads :: "('s \<Rightarrow> bool) \<Rightarrow> ('s, 'a) prog \<Rightarrow> ('s \<Rightarrow> bool) \<Rightarrow> bool" where
  "leads P m Q \<longleftrightarrow> (\<forall>w. P (db w) \<longrightarrow> Q (db (snd (m w))))"

lemma leadsD: "leads P m Q \<Longrightarrow> P (db w) \<Longrightarrow> Q (db (snd (m w)))"
  by (simp add: leads_def)

lemma leads_after:
  assumes "keeps P m" and "\<And>x. leads P (k x) Q" and "\<And>d. P d \<Longrightarrow> Q d"
  shows "leads P (andThen m k) Q"
  using assms unfolding keeps_def leads_def andThen_def
  by (auto split: prod.splits sum.splits; metis snd_conv)

lemma leads_guarded:
  assumes "\<not> b \<Longrightarrow> leads P m Q" and "\<And>d. P d \<Longrightarrow> Q d"
  shows "leads P (andThen (reject_if b e) (\<lambda>_. m)) Q"
  using assms by (cases b) (auto simp: reject_if_def leads_def andThen_def ret_def fail_def)

lemma keeps_guarded: "(\<not> b \<Longrightarrow> keeps P m) \<Longrightarrow> keeps P (andThen (reject_if b e) (\<lambda>_. m))"
  by (cases b) (auto simp: reject_if_def keeps_def andThen_def ret_def fail_def)

lemma leads_transaction:
  assumes "\<And>d. P d \<Longrightarrow> wlp body (\<lambda>_. Q) d" and "\<And>d. P d \<Longrightarrow> Q d"
  shows "leads P (in_transaction body) Q"
  unfolding leads_def
proof (intro allI impI)
  fix w :: "'a world"
  assume P: "P (db w)"
  show "Q (db (snd (in_transaction body w)))"
  proof (cases "fst (in_transaction body w)")
    case (Inl e)
    then have "db (snd (in_transaction body w)) = db w"
      by (metis in_transaction_error_keeps_db prod.collapse)
    with assms(2) [OF P] show ?thesis by simp
  next
    case (Inr x)
    then have "in_transaction body w = (Inr x, snd (in_transaction body w))"
      by (metis prod.collapse)
    with wlpD [OF wlp_in_transaction [OF assms(1) [OF P]]] show ?thesis by blast
  qed
qed

lemma keeps_in_transaction [keeps_rules, intro]: "keeps P body \<Longrightarrow> keeps P (in_transaction body)"
  unfolding in_transaction_def by (rule keeps_in_transaction_when)

section \<open>Atomic calls\<close>

text \<open>A call is atomic when an error return leaves the stored data as it was.\<close>

definition readonly :: "('s, 'a) prog \<Rightarrow> bool" where
  "readonly m \<longleftrightarrow> (\<forall>w. db (snd (m w)) = db w)"

definition atomic :: "('s, 'a) prog \<Rightarrow> bool" where
  "atomic m \<longleftrightarrow> (\<forall>w e w'. m w = (Inl e, w') \<longrightarrow> db w' = db w)"

named_theorems atomic_rules \<open>programs whose error returns leave the data alone\<close>

lemma readonly_keeps: "(\<And>d. keeps (\<lambda>x. x = d) m) \<Longrightarrow> readonly m"
  by (simp add: keeps_def readonly_def)

lemma keeps_readonly: "readonly m \<Longrightarrow> keeps P m"
  by (simp add: keeps_def readonly_def)

lemma atomicD: "atomic m \<Longrightarrow> m w = (Inl e, w') \<Longrightarrow> db w' = db w"
  by (simp add: atomic_def)

lemma atomic_readonly: "readonly m \<Longrightarrow> atomic m"
  unfolding atomic_def readonly_def by (metis snd_conv)

lemma atomic_in_transaction [atomic_rules]: "atomic (in_transaction m)"
  unfolding atomic_def by (blast dest: in_transaction_error_keeps_db)

lemma atomic_after [atomic_rules]:
  assumes "readonly m" "\<And>x. atomic (k x)"
  shows "atomic (andThen m k)"
  unfolding atomic_def
proof (intro allI impI)
  fix w :: "'a world" and e w'
  assume run: "andThen m k w = (Inl e, w')"
  obtain r w1 where m: "m w = (r, w1)" by (cases "m w")
  have "db w1 = db w" using assms(1) m unfolding readonly_def by (metis snd_conv)
  with run m show "db w' = db w"
    using atomicD [OF assms(2)] by (cases r) (auto simp: andThen_def)
qed

lemma readonly_simple [atomic_rules]:
  "readonly (ret x)" "readonly (fail e)" "readonly (reject_if b e)" "readonly time_now"
  "readonly (generateEntityID p)" "readonly (db_read q)" "readonly (db_first q')"
  by (rule readonly_keeps, rule keeps_rules)+

lemma readonly_andThen [atomic_rules]:
  "readonly m \<Longrightarrow> (\<And>x. readonly (k x)) \<Longrightarrow> readonly (andThen m k)"
  by (rule readonly_keeps, intro keeps_andThen keeps_readonly)

lemma readonly_not_found_as [atomic_rules]: "readonly m \<Longrightarrow> readonly (not_found_as e m)"
  by (rule readonly_keeps, intro keeps_not_found_as keeps_readonly)

lemma readonly_if_found [atomic_rules]:
  "readonly m \<Longrightarrow> (\<And>x. readonly (k x)) \<Longrightarrow> readonly n \<Longrightarrow> readonly (if_found m k n)"
  by (rule readonly_keeps, intro keeps_if_found keeps_readonly)

lemma readonly_if [atomic_rules]: "readonly m \<Longrightarrow> readonly n \<Longrightarrow> readonly (if b then m else n)"
  by simp

lemma readonly_option [atomic_rules]:
  "readonly m \<Longrightarrow> (\<And>y. readonly (k y)) \<Longrightarrow> readonly (case x of None \<Rightarrow> m | Some y \<Rightarrow> k y)"
  by (cases x) simp_all

lemma wlp_readonly: "readonly m \<Longrightarrow> (\<And>x. Q x d) \<Longrightarrow> wlp m Q d"
  by (auto simp: readonly_def wlp_def wp_def split: prod.split sum.split) (metis snd_conv)

section \<open>Handled errors\<close>

lemma wlp_of_sum [wlp_intros]: "(\<And>x. r = Inr x \<Longrightarrow> Q x d) \<Longrightarrow> wlp (of_sum r) Q d"
  unfolding of_sum_def by (cases r) (simp_all add: wlp_ret wlp_fail)

lemma keeps_of_sum [keeps_rules, intro]: "keeps P (of_sum r)"
  unfolding of_sum_def by (cases r) (simp_all add: keeps_ret keeps_fail)

lemma readonly_of_sum [atomic_rules]: "readonly (of_sum r)"
  by (rule readonly_keeps, rule keeps_of_sum)

lemma readonly_attempt [atomic_rules]: "readonly m \<Longrightarrow> readonly (attempt m)"
  by (rule readonly_keeps, intro keeps_attempt keeps_readonly)

text \<open>After an error nothing is known of the data but what the call keeps.\<close>

lemma wlp_attempt:
  assumes "keeps P m" "P d" "wlp m (\<lambda>x. Q (Inr x)) d" "\<And>e d'. P d' \<Longrightarrow> Q (Inl e) d'"
  shows "wlp (attempt m) Q d"
  unfolding wlp_def
proof (intro allI impI)
  fix w :: "'a world"
  assume w: "db w = d"
  have "P (db (snd (m w)))" using assms(1,2) w by (auto dest: keepsD)
  moreover have "wp m (\<lambda>x w'. Q (Inr x) (db w')) (\<lambda>_ _. True) w" using assms(3) w by (simp add: wlp_def)
  ultimately show "wp (attempt m) (\<lambda>x w'. Q x (db w')) (\<lambda>_ _. True) w"
    using assms(4) by (auto simp: wp_def attempt_def split: prod.splits sum.splits)
qed

lemma wlp_attempt_any: "(\<And>r d'. Q r d') \<Longrightarrow> wlp (attempt m) Q d"
  by (simp add: wlp_def wp_def attempt_def split: prod.split)

lemma wlp_keeps: "keeps P m \<Longrightarrow> P d \<Longrightarrow> wlp m (\<lambda>_. P) d"
  unfolding wlp_def wp_def keeps_def by (auto split: prod.split sum.split)

lemma wlp_attempt_readonly:
  assumes "readonly m" "wlp m (\<lambda>x. Q (Inr x)) d" "\<And>e. Q (Inl e) d"
  shows "wlp (attempt m) Q d"
  by (rule wlp_attempt [where P = "\<lambda>x. x = d"]) (use assms in \<open>auto intro: keeps_readonly\<close>)

lemma keeps_cases [keeps_rules]:
  "keeps P m \<Longrightarrow> (\<And>y. keeps P (k y)) \<Longrightarrow> keeps P (case x of None \<Rightarrow> m | Some y \<Rightarrow> k y)"
  "(\<And>a b. keeps P (h a b)) \<Longrightarrow> keeps P (case p of (a, b) \<Rightarrow> h a b)"
  "(\<And>e. keeps P (l e)) \<Longrightarrow> (\<And>y. keeps P (r y)) \<Longrightarrow> keeps P (case z of Inl e \<Rightarrow> l e | Inr y \<Rightarrow> r y)"
  by (cases x, simp_all) (cases p, simp_all, cases z, simp_all)

lemma wlp_sum [wlp_intros]:
  "(\<And>e. z = Inl e \<Longrightarrow> wlp (l e) Q d) \<Longrightarrow> (\<And>y. z = Inr y \<Longrightarrow> wlp (r y) Q d)
    \<Longrightarrow> wlp (case z of Inl e \<Rightarrow> l e | Inr y \<Rightarrow> r y) Q d"
  by (cases z) simp_all

section \<open>Untouched parts of the data\<close>

text \<open>A program leaves a part of the data alone, whatever its outcome.\<close>

definition untouched :: "('s \<Rightarrow> 'f) \<Rightarrow> ('s, 'a) prog \<Rightarrow> bool" where
  "untouched f m \<longleftrightarrow> (\<forall>T. keeps (\<lambda>d. f d = T) m)"

named_theorems untouched_rules \<open>programs that leave a part of the data alone\<close>

lemma untouchedD: "untouched f m \<Longrightarrow> f (db (snd (m w))) = f (db w)"
  by (auto simp: untouched_def dest: keepsD)

lemma untouched_run: "untouched f m \<Longrightarrow> m w = (r, w') \<Longrightarrow> f (db w') = f (db w)"
  using untouchedD [of f m w] by simp

lemma untouched_keeps: "untouched f m \<Longrightarrow> keeps (\<lambda>d. P (f d)) m"
  unfolding keeps_def using untouchedD by metis

lemma untouched_readonly: "readonly m \<Longrightarrow> untouched f m"
  by (simp add: untouched_def keeps_readonly)

lemma wlp_untouched:
  assumes "untouched f m" "\<And>x d'. f d' = f d \<Longrightarrow> Q x d'"
  shows "wlp m Q d"
  unfolding wlp_def wp_def
  using assms untouchedD [OF assms(1)] by (auto split: prod.split sum.split) (metis snd_conv)

lemma wlp_also_untouched:
  assumes "untouched f m" "wlp m (\<lambda>x d'. f d' = f d \<longrightarrow> Q x d') d"
  shows "wlp m Q d"
proof -
  have "wlp m (\<lambda>x d'. f d' = f d) d" using assms(1) by (rule wlp_untouched)
  from wlp_conj [OF assms(2) this] show ?thesis by (rule wlp_mono) simp
qed

lemma untouched_simple [untouched_rules]:
  "untouched f (ret x)" "untouched f (fail e)" "untouched f (reject_if b e)" "untouched f time_now"
  "untouched f (generateEntityID p)" "untouched f (db_read q)" "untouched f (db_first q')"
  "untouched f (of_sum r)"
  by (rule untouched_readonly, rule atomic_rules)+

lemma untouched_control [untouched_rules]:
  "untouched f m \<Longrightarrow> (\<And>x. untouched f (k x)) \<Longrightarrow> untouched f (andThen m k)"
  "untouched f m' \<Longrightarrow> untouched f (attempt m')"
  "untouched f n \<Longrightarrow> untouched f n' \<Longrightarrow> untouched f (if b then n else n')"
  "untouched f l \<Longrightarrow> (\<And>x. untouched f (found x)) \<Longrightarrow> untouched f n \<Longrightarrow> untouched f (if_found l found n)"
  "untouched f l \<Longrightarrow> untouched f (not_found_as e l)"
  "(\<And>x acc. untouched f (body x acc)) \<Longrightarrow> untouched f (for_each xs body acc)"
  "untouched f n \<Longrightarrow> untouched f (in_transaction n)"
  "untouched f n \<Longrightarrow> untouched f (in_transaction_when c n)"
  unfolding untouched_def by (intro allI keeps_rules; blast)+

lemma untouched_cases [untouched_rules]:
  "untouched f m \<Longrightarrow> (\<And>y. untouched f (k y)) \<Longrightarrow> untouched f (case x of None \<Rightarrow> m | Some y \<Rightarrow> k y)"
  "(\<And>a b. untouched f (h a b)) \<Longrightarrow> untouched f (case p of (a, b) \<Rightarrow> h a b)"
  "(\<And>e. untouched f (l e)) \<Longrightarrow> (\<And>y. untouched f (r y)) \<Longrightarrow> untouched f (case z of Inl e \<Rightarrow> l e | Inr y \<Rightarrow> r y)"
  by (cases x, simp_all) (cases p, simp_all, cases z, simp_all)

end
