(* ===== verification/Store.thy ===== *)
theory Store
  imports Effects "HOL-Library.Multiset"
begin

text \<open>
  The stored data: one list of rows per table of internal/domain, in insertion order, and
  the primitives that the repositories of internal/repository/gorm_repo are built from.
  \<open>insert_row\<close> is an INSERT under the primary key and the unique indexes declared by the
  gorm tags, \<open>save_row\<close> is gorm's \<open>Save\<close> (update by primary key, insert when no row has
  it).  The locale \<open>row_store\<close> states the laws every table obeys; each table of the
  database interprets it, and the services' proofs use its facts.
\<close>

section \<open>Tables\<close>

definition insert_row :: "('r \<Rightarrow> 'r \<Rightarrow> bool) \<Rightarrow> 'r \<Rightarrow> 'r list \<Rightarrow> 'r list option" where
  "insert_row clash r t = (if \<exists>x\<in>set t. clash x r then None else Some (t @ [r]))"

definition replace_row :: "('r \<Rightarrow> 'k) \<Rightarrow> 'r \<Rightarrow> 'r list \<Rightarrow> 'r list" where
  "replace_row key r t = List.map (\<lambda>x. if key x = key r then r else x) t"

definition save_row :: "('r \<Rightarrow> 'k) \<Rightarrow> ('r \<Rightarrow> 'r \<Rightarrow> bool) \<Rightarrow> 'r \<Rightarrow> 'r list \<Rightarrow> 'r list option" where
  "save_row key clash r t =
     (if \<exists>x\<in>set t. key x \<noteq> key r \<and> clash x r then None
      else if \<exists>x\<in>set t. key x = key r then Some (replace_row key r t)
      else Some (t @ [r]))"

definition find_row :: "('r \<Rightarrow> 'k) \<Rightarrow> 'k \<Rightarrow> 'r list \<Rightarrow> 'r option" where
  "find_row key k t = List.find (\<lambda>r. key r = k) t"

lemma find_found: "List.find p t = Some r \<Longrightarrow> r \<in> set t \<and> p r"
  by (auto simp: find_Some_iff in_set_conv_nth)

lemma find_row_found: "find_row key k t = Some r \<Longrightarrow> r \<in> set t \<and> key r = k"
  unfolding find_row_def by (drule find_found) simp

lemma find_row_absent: "find_row key k t = None \<longleftrightarrow> (\<forall>r\<in>set t. key r \<noteq> k)"
  by (auto simp: find_row_def find_None_iff)

text \<open>No two rows of a well-formed table clash.\<close>

definition table_ok :: "('r \<Rightarrow> 'r \<Rightarrow> bool) \<Rightarrow> 'r list \<Rightarrow> bool" where
  "table_ok clash t \<longleftrightarrow> sorted_wrt (\<lambda>x y. \<not> clash x y) t"

lemma replace_rowE:
  assumes "x \<in> set (replace_row key r t)"
  obtains "x = r" | "x \<in> set t" "key x \<noteq> key r"
  using assms by (auto simp: replace_row_def)

lemma keys_replace_row: "key ` set (replace_row key r t) = key ` set t"
  by (induction t) (auto simp: replace_row_def)

lemma replace_row_mem: "find_row key (key r) t \<noteq> None \<Longrightarrow> r \<in> set (replace_row key r t)"
  by (auto simp: find_row_def replace_row_def find_None_iff image_iff)

lemma replace_row_other: "x \<in> set t \<Longrightarrow> key x \<noteq> key r \<Longrightarrow> x \<in> set (replace_row key r t)"
  by (auto simp: replace_row_def image_iff)

text \<open>LIMIT and OFFSET as the repositories apply them: only when positive.\<close>

definition page :: "int \<Rightarrow> int \<Rightarrow> 'r list \<Rightarrow> 'r list" where
  "page limit offset t =
     (let t' = (if 0 < offset then drop (nat offset) t else t)
      in if 0 < limit then take (nat limit) t' else t')"

lemma set_page: "set (page limit offset t) \<subseteq> set t"
  by (auto simp: page_def Let_def dest!: in_set_takeD in_set_dropD)

lemma distinct_keys_query:
  assumes "distinct (List.map key t)"
  shows "distinct (List.map key (page limit offset (sort_key f (List.filter p t))))"
proof -
  have "distinct (List.map key (List.filter p t))" using assms by (rule distinct_map_filter)
  moreover have "mset (List.map key (sort_key f (List.filter p t))) = mset (List.map key (List.filter p t))"
    by simp
  ultimately have "distinct (List.map key (sort_key f (List.filter p t)))"
    by (metis mset_eq_imp_distinct_iff)
  then show ?thesis by (simp add: page_def Let_def drop_map [symmetric] take_map [symmetric])
qed

text \<open>A string column filter: an empty query value filters nothing.\<close>

definition column_matches :: "string \<Rightarrow> string \<Rightarrow> bool" where
  "column_matches wanted actual \<longleftrightarrow> wanted = [] \<or> actual = wanted"

text \<open>A null key clashes with nothing.\<close>

definition same_key :: "'k option \<Rightarrow> 'k option \<Rightarrow> bool" where
  "same_key a b \<longleftrightarrow> a \<noteq> None \<and> a = b"

lemma same_key_sym: "same_key a b = same_key b a"
  by (auto simp: same_key_def)

section \<open>Laws of a table\<close>

locale row_store =
  fixes key :: "'r \<Rightarrow> 'k" and clash :: "'r \<Rightarrow> 'r \<Rightarrow> bool"
  assumes key_clash: "key x = key y \<Longrightarrow> clash x y"
    and clash_sym: "clash x y = clash y x"
begin

lemma insert_row_Some:
  "insert_row clash r t = Some t' \<longleftrightarrow> t' = t @ [r] \<and> (\<forall>x\<in>set t. \<not> clash x r)"
  by (auto simp: insert_row_def)

lemma insert_ok: "table_ok clash t \<Longrightarrow> insert_row clash r t = Some t' \<Longrightarrow> table_ok clash t'"
  by (auto simp: insert_row_Some table_ok_def sorted_wrt_append)

lemma find_row_Some: "find_row key k t = Some r \<Longrightarrow> r \<in> set t \<and> key r = k"
  by (auto simp: find_row_def find_Some_iff in_set_conv_nth)

lemma find_row_None: "find_row key k t = None \<longleftrightarrow> (\<forall>r\<in>set t. key r \<noteq> k)"
  by (auto simp: find_row_def find_None_iff)

lemma table_ok_Cons: "table_ok clash (x # t) \<longleftrightarrow> (\<forall>y\<in>set t. \<not> clash x y) \<and> table_ok clash t"
  by (auto simp: table_ok_def)

lemma same_row:
  assumes "table_ok clash t" "x \<in> set t" "y \<in> set t" "clash x y"
  shows "x = y"
  using assms by (induction t) (auto simp: table_ok_Cons clash_sym)

lemma find_row_member: "table_ok clash t \<Longrightarrow> r \<in> set t \<Longrightarrow> find_row key (key r) t = Some r"
proof -
  assume ok: "table_ok clash t" and r: "r \<in> set t"
  then obtain x where x: "find_row key (key r) t = Some x"
    using find_row_None [of "key r" t] by (cases "find_row key (key r) t") auto
  with find_row_Some [OF x] same_row [OF ok _ r] key_clash show ?thesis by auto
qed

lemma find_insert:
  assumes "insert_row clash r t = Some t'"
  shows "find_row key k t' = (if k = key r then Some r else find_row key k t)"
proof -
  have new: "\<forall>x\<in>set t. key x \<noteq> key r" and t': "t' = t @ [r]"
    using assms key_clash by (auto simp: insert_row_Some)
  have "List.find p (t @ [r]) = (case List.find p t of None \<Rightarrow> if p r then Some r else None | Some x \<Rightarrow> Some x)"
    for p by (induction t) auto
  moreover have "List.find (\<lambda>x. key x = key r) t = None"
    using new by (simp add: find_None_iff)
  ultimately show ?thesis
    by (auto simp: t' find_row_def split: option.split)
qed

lemma find_replace:
  "find_row key k (replace_row key r t)
     = (if k = key r \<and> find_row key k t \<noteq> None then Some r else find_row key k t)"
  by (induction t) (auto simp: find_row_def replace_row_def)

lemma set_replace: "set (replace_row key r t) \<subseteq> insert r (set t)"
  by (auto simp: replace_row_def)

lemma distinct_keys: "table_ok clash t \<Longrightarrow> distinct (List.map key t)"
  using key_clash by (induction t) (auto simp: table_ok_Cons)

lemma replace_ok:
  assumes "table_ok clash t" and "\<forall>x\<in>set t. key x \<noteq> key r \<longrightarrow> \<not> clash x r"
  shows "table_ok clash (replace_row key r t)"
  using assms
proof (induction t)
  case Nil
  then show ?case by (simp add: replace_row_def)
next
  case (Cons x t)
  then have ih: "table_ok clash (replace_row key r t)" by (simp add: table_ok_Cons)
  have x: "\<forall>y\<in>set t. \<not> clash x y" and xr: "key x \<noteq> key r \<longrightarrow> \<not> clash x r"
    and tr: "\<forall>y\<in>set t. key y \<noteq> key r \<longrightarrow> \<not> clash y r"
    using Cons.prems by (auto simp: table_ok_Cons)
  have xy: "key x \<noteq> key y" if "y \<in> set t" for y
    using x that key_clash by auto
  have "\<not> clash (if key x = key r then r else x) (if key y = key r then r else y)" if "y \<in> set t" for y
    using x xr tr that xy [OF that] clash_sym [of r y] by auto
  with ih show ?case by (fastforce simp: table_ok_Cons replace_row_def)
qed

lemma save_row_known:
  assumes "table_ok clash t" "old \<in> set t" "key old = key r" "\<And>x. clash x r = clash x old"
  shows "save_row key clash r t = Some (replace_row key r t)"
proof -
  have "\<not> clash x r" if "x \<in> set t" "key x \<noteq> key r" for x
    using assms same_row [OF assms(1) that(1) assms(2)] that by auto
  with assms show ?thesis by (auto simp: save_row_def)
qed

lemma save_row_Some:
  "save_row key clash r t = Some t' \<Longrightarrow> find_row key (key r) t \<noteq> None \<Longrightarrow> t' = replace_row key r t"
  by (auto simp: save_row_def find_row_None split: if_splits)

lemma save_ok: "table_ok clash t \<Longrightarrow> save_row key clash r t = Some t' \<Longrightarrow> table_ok clash t'"
  by (auto simp: save_row_def table_ok_def [of clash "t @ [r]"] sorted_wrt_append
      table_ok_def [of clash t, symmetric] split: if_splits intro!: replace_ok)

lemma sum_rows_replace_absent:
  "\<forall>x\<in>set t. key x \<noteq> key r \<Longrightarrow> sum_rows p f (replace_row key r t) = sum_rows p f t"
  by (induction t) (auto simp: replace_row_def)

text \<open>Replacing one row changes a sum over the table by that row's contribution.\<close>

lemma sum_rows_replace:
  assumes "table_ok clash t" "old \<in> set t" "key old = key r"
  shows "sum_rows p f (replace_row key r t)
    = sum_rows p f t - (if p old then f old else 0) + (if p r then f r else 0)"
  using assms
proof (induction t)
  case Nil
  then show ?case by simp
next
  case (Cons x t)
  show ?case
  proof (cases "x = old")
    case True
    have "\<forall>y\<in>set t. key y \<noteq> key r"
      using Cons.prems True key_clash by (fastforce simp: table_ok_Cons)
    with True Cons.prems(3) sum_rows_replace_absent [of t r p f] show ?thesis
      by (simp add: replace_row_def)
  next
    case False
    with Cons.prems have old: "old \<in> set t" "table_ok clash t" by (auto simp: table_ok_Cons)
    have "key x \<noteq> key r"
      using Cons.prems old key_clash by (auto simp: table_ok_Cons)
    with Cons.IH [OF old(2,1) Cons.prems(3)] show ?thesis
      by (simp add: replace_row_def)
  qed
qed

end

section \<open>The database\<close>

record database =
  tb_products :: "Product list"
  tb_licenses :: "License list"
  tb_orders :: "Order list"
  tb_events :: "PaymentEvent list"
  tb_executions :: "FulfillmentExecution list"
  tb_risk_flags :: "PaymentRiskFlag list"
  tb_users :: "User list"
  tb_challenges :: "LoginChallenge list"
  tb_registrations :: "RegistrationRequest list"
  tb_grants :: "EntitlementGrant list"
  tb_devices :: "UserDevice list"
  tb_trials :: "TrialGrant list"
  tb_accounts :: "CreditAccount list"
  tb_buckets :: "CreditBucket list"
  tb_reservations :: "CreditReservation list"
  tb_transactions :: "CreditTransaction list"
  tb_cancellations :: "SubscriptionCancellation list"
  tb_projects :: "CloudProject list"
  tb_sessions :: "CloudSyncSession list"
  tb_manifests :: "CloudManifest list"
  tb_objects :: "CloudObject list"

definition empty_database :: database where
  "empty_database =
     \<lparr>tb_products = [], tb_licenses = [], tb_orders = [], tb_events = [], tb_executions = [],
      tb_risk_flags = [], tb_users = [], tb_challenges = [], tb_registrations = [], tb_grants = [],
      tb_devices = [], tb_trials = [], tb_accounts = [], tb_buckets = [], tb_reservations = [],
      tb_transactions = [], tb_cancellations = [], tb_projects = [], tb_sessions = [],
      tb_manifests = [], tb_objects = []\<rparr>"

type_synonym 'a service = "(database, 'a) prog"

text \<open>INSERT and \<open>Save\<close> on one table of the database, given by its selector and update.\<close>

definition store_create ::
  "(database \<Rightarrow> 'r list) \<Rightarrow> (('r list \<Rightarrow> 'r list) \<Rightarrow> database \<Rightarrow> database) \<Rightarrow> ('r \<Rightarrow> 'r \<Rightarrow> bool)
     \<Rightarrow> 'r \<Rightarrow> unit service" where
  "store_create rows upd clash r =
     db_write (\<lambda>d. map_option (\<lambda>t. ((), upd (\<lambda>_. t) d)) (insert_row clash r (rows d)))"

definition store_save ::
  "(database \<Rightarrow> 'r list) \<Rightarrow> (('r list \<Rightarrow> 'r list) \<Rightarrow> database \<Rightarrow> database) \<Rightarrow> ('r \<Rightarrow> 'k)
     \<Rightarrow> ('r \<Rightarrow> 'r \<Rightarrow> bool) \<Rightarrow> 'r \<Rightarrow> unit service" where
  "store_save rows upd key clash r =
     db_write (\<lambda>d. map_option (\<lambda>t. ((), upd (\<lambda>_. t) d)) (save_row key clash r (rows d)))"

definition store_find :: "(database \<Rightarrow> 'r list) \<Rightarrow> ('r \<Rightarrow> 'k) \<Rightarrow> 'k \<Rightarrow> 'r service" where
  "store_find rows key k = db_first (\<lambda>d. find_row key k (rows d))"

lemma wp_store_create [wp_simps]:
  "wp (store_create rows upd clash r) Q E w =
     (case faults w (tick w) of
        Some m \<Rightarrow> E (ErrDB m) (next_tick w)
      | None \<Rightarrow> (case insert_row clash r (rows (db w)) of
            None \<Rightarrow> E ErrConstraint (next_tick w)
          | Some t \<Rightarrow> Q () (next_tick (w\<lparr>db := upd (\<lambda>_. t) (db w)\<rparr>))))"
  by (simp add: store_create_def wp_simps split: option.split)

lemma wp_store_save [wp_simps]:
  "wp (store_save rows upd key clash r) Q E w =
     (case faults w (tick w) of
        Some m \<Rightarrow> E (ErrDB m) (next_tick w)
      | None \<Rightarrow> (case save_row key clash r (rows (db w)) of
            None \<Rightarrow> E ErrConstraint (next_tick w)
          | Some t \<Rightarrow> Q () (next_tick (w\<lparr>db := upd (\<lambda>_. t) (db w)\<rparr>))))"
  by (simp add: store_save_def wp_simps split: option.split)

lemma wp_store_find [wp_simps]:
  "wp (store_find rows key k) Q E w =
     (case faults w (tick w) of
        Some m \<Rightarrow> E (ErrDB m) (next_tick w)
      | None \<Rightarrow> (case find_row key k (rows (db w)) of
            None \<Rightarrow> E ErrNotFound (next_tick w)
          | Some x \<Rightarrow> Q x (next_tick w)))"
  by (simp add: store_find_def wp_simps)

lemma wlp_store_create [wlp_intros]:
  "(\<And>t. insert_row clash r (rows d) = Some t \<Longrightarrow> Q () (upd (\<lambda>_. t) d))
    \<Longrightarrow> wlp (store_create rows upd clash r) Q d"
  unfolding store_create_def by (rule wlp_db_write) auto

lemma wlp_store_save [wlp_intros]:
  "(\<And>t. save_row key clash r (rows d) = Some t \<Longrightarrow> Q () (upd (\<lambda>_. t) d))
    \<Longrightarrow> wlp (store_save rows upd key clash r) Q d"
  unfolding store_save_def by (rule wlp_db_write) auto

lemma wlp_store_find [wlp_intros]:
  "(\<And>x. find_row key k (rows d) = Some x \<Longrightarrow> Q x d) \<Longrightarrow> wlp (store_find rows key k) Q d"
  unfolding store_find_def by (rule wlp_db_first)

lemma wlp_if_found [wlp_intros]:
  assumes "\<And>x. find_row key k (rows d) = Some x \<Longrightarrow> wlp (found x) Q d"
    and "find_row key k (rows d) = None \<Longrightarrow> wlp missing Q d"
  shows "wlp (if_found (store_find rows key k) found missing) Q d"
  unfolding store_find_def by (rule wlp_if_found_first) (use assms in auto)

lemma keeps_store_find [keeps_rules, intro]: "keeps P (store_find rows key k)"
  by (auto simp: store_find_def)

lemma readonly_store_find [atomic_rules]: "readonly (store_find rows key k)"
  by (rule readonly_keeps, rule keeps_store_find)

lemma save_row_mem: "save_row key clash r t = Some t' \<Longrightarrow> r \<in> set t'"
  by (auto simp: save_row_def replace_row_def split: if_splits)

text \<open>What a lookup found may be used in the frame of what follows.\<close>

lemma keeps_found:
  assumes "\<And>x d. P d \<Longrightarrow> find_row key k (rows d) = Some x \<Longrightarrow> keeps P (found x)" and "keeps P missing"
  shows "keeps P (if_found (store_find rows key k) found missing)"
  unfolding keeps_def
proof (intro allI impI)
  fix w :: "database world"
  assume P: "P (db w)"
  show "P (db (snd (if_found (store_find rows key k) found missing w)))"
  proof (cases "faults w (tick w)")
    case None
    then show ?thesis
      using P assms(1) [OF P] keepsD [OF assms(2)] keepsD [of P "found _" "next_tick w"]
      by (cases "find_row key k (rows (db w))")
        (auto simp: if_found_def andThen_def attempt_def store_find_def db_first_def db_read_def fail_def ret_def)
  next
    case (Some m)
    then show ?thesis
      using P by (simp add: if_found_def andThen_def attempt_def store_find_def db_first_def db_read_def fail_def)
  qed
qed

lemma keeps_attempt_found:
  assumes "\<And>x d. P d \<Longrightarrow> find_row key k (rows d) = Some x \<Longrightarrow> keeps P (h (Inr x))"
    and "\<And>e. keeps P (h (Inl e))"
  shows "keeps P (andThen (attempt (store_find rows key k)) h)"
  unfolding keeps_def
proof (intro allI impI)
  fix w :: "database world"
  assume P: "P (db w)"
  have next_step: "P (db (snd (h r (next_tick w))))" if "keeps P (h r)" for r
    using keepsD [OF that, of "next_tick w"] P by simp
  show "P (db (snd (andThen (attempt (store_find rows key k)) h w)))"
    using next_step [OF assms(2)] next_step [OF assms(1) [OF P]]
    by (simp add: andThen_def attempt_def store_find_def db_first_def db_read_def fail_def ret_def
        split: option.split)
qed

text \<open>A failed write leaves the data alone.\<close>

lemma wlp_attempt_create [wlp_intros]:
  assumes "\<And>t. insert_row clash r (rows d) = Some t \<Longrightarrow> Q (Inr ()) (upd (\<lambda>_. t) d)" "\<And>e. Q (Inl e) d"
  shows "wlp (attempt (store_create rows upd clash r)) Q d"
  using assms by (auto simp: wlp_def wp_simps wp_attempt split: option.split)

lemma wlp_attempt_save [wlp_intros]:
  assumes "\<And>t. save_row key clash r (rows d) = Some t \<Longrightarrow> Q (Inr ()) (upd (\<lambda>_. t) d)" "\<And>e. Q (Inl e) d"
  shows "wlp (attempt (store_save rows upd key clash r)) Q d"
  using assms by (auto simp: wlp_def wp_simps wp_attempt split: option.split)

lemma wlp_attempt_find [wlp_intros]:
  assumes "\<And>x. find_row key k (rows d) = Some x \<Longrightarrow> Q (Inr x) d" "\<And>e. Q (Inl e) d"
  shows "wlp (attempt (store_find rows key k)) Q d"
  using assms by (auto simp: wlp_def wp_simps wp_attempt split: option.split)

lemma keeps_store_create:
  "(\<And>d t. P d \<Longrightarrow> insert_row clash r (rows d) = Some t \<Longrightarrow> P (upd (\<lambda>_. t) d))
    \<Longrightarrow> keeps P (store_create rows upd clash r)"
  unfolding store_create_def by (rule keeps_db_write) auto

lemma keeps_store_save:
  "(\<And>d t. P d \<Longrightarrow> save_row key clash r (rows d) = Some t \<Longrightarrow> P (upd (\<lambda>_. t) d))
    \<Longrightarrow> keeps P (store_save rows upd key clash r)"
  unfolding store_save_def by (rule keeps_db_write) auto

lemma untouched_stores [untouched_rules]:
  "(\<And>g d. f (upd g d) = f d) \<Longrightarrow> untouched f (store_create rows upd clash r)"
  "(\<And>g d. f (upd g d) = f d) \<Longrightarrow> untouched f (store_save rows upd key clash r)"
  "untouched f (store_find rows key' k)"
  unfolding untouched_def by (auto intro!: keeps_store_create keeps_store_save)

section \<open>Keys and unique indexes of the tables\<close>

definition order_clash :: "Order \<Rightarrow> Order \<Rightarrow> bool" where
  "order_clash x y \<longleftrightarrow> or_ID x = or_ID y \<or> or_OutTradeNo x = or_OutTradeNo y
     \<or> same_key (or_IdempotencyKey x) (or_IdempotencyKey y)"

definition event_clash :: "PaymentEvent \<Rightarrow> PaymentEvent \<Rightarrow> bool" where
  "event_clash x y \<longleftrightarrow> pe_ID x = pe_ID y
     \<or> (pe_Provider x = pe_Provider y \<and> pe_ProviderEventID x = pe_ProviderEventID y)"

definition execution_clash :: "FulfillmentExecution \<Rightarrow> FulfillmentExecution \<Rightarrow> bool" where
  "execution_clash x y \<longleftrightarrow> fe_ID x = fe_ID y \<or> fe_IdempotencyKey x = fe_IdempotencyKey y"

definition risk_flag_clash :: "PaymentRiskFlag \<Rightarrow> PaymentRiskFlag \<Rightarrow> bool" where
  "risk_flag_clash x y \<longleftrightarrow> rf_ID x = rf_ID y
     \<or> (rf_Provider x = rf_Provider y \<and> rf_ProviderEventID x = rf_ProviderEventID y)"

definition user_clash :: "User \<Rightarrow> User \<Rightarrow> bool" where
  "user_clash x y \<longleftrightarrow> us_ID x = us_ID y \<or> us_Email x = us_Email y"

definition challenge_clash :: "LoginChallenge \<Rightarrow> LoginChallenge \<Rightarrow> bool" where
  "challenge_clash x y \<longleftrightarrow> lc_ID x = lc_ID y \<or> lc_IdempotencyKey x = lc_IdempotencyKey y"

definition registration_clash :: "RegistrationRequest \<Rightarrow> RegistrationRequest \<Rightarrow> bool" where
  "registration_clash x y \<longleftrightarrow> rr_ID x = rr_ID y"

definition grant_clash :: "EntitlementGrant \<Rightarrow> EntitlementGrant \<Rightarrow> bool" where
  "grant_clash x y \<longleftrightarrow> eg_ID x = eg_ID y \<or> same_key (eg_IdempotencyKey x) (eg_IdempotencyKey y)"

definition device_clash :: "UserDevice \<Rightarrow> UserDevice \<Rightarrow> bool" where
  "device_clash x y \<longleftrightarrow> ud_ID x = ud_ID y
     \<or> (ud_UserID x = ud_UserID y \<and> ud_DeviceID x = ud_DeviceID y)"

definition trial_clash :: "TrialGrant \<Rightarrow> TrialGrant \<Rightarrow> bool" where
  "trial_clash x y \<longleftrightarrow> tg_ID x = tg_ID y \<or> tg_IdempotencyKey x = tg_IdempotencyKey y"

definition account_clash :: "CreditAccount \<Rightarrow> CreditAccount \<Rightarrow> bool" where
  "account_clash x y \<longleftrightarrow> ca_ID x = ca_ID y \<or> ca_UserID x = ca_UserID y"

definition bucket_clash :: "CreditBucket \<Rightarrow> CreditBucket \<Rightarrow> bool" where
  "bucket_clash x y \<longleftrightarrow> cb_ID x = cb_ID y \<or> cb_IdempotencyKey x = cb_IdempotencyKey y"

definition reservation_clash :: "CreditReservation \<Rightarrow> CreditReservation \<Rightarrow> bool" where
  "reservation_clash x y \<longleftrightarrow> cr_ID x = cr_ID y \<or> cr_IdempotencyKey x = cr_IdempotencyKey y"

definition transaction_clash :: "CreditTransaction \<Rightarrow> CreditTransaction \<Rightarrow> bool" where
  "transaction_clash x y \<longleftrightarrow> ct_ID x = ct_ID y \<or> ct_IdempotencyKey x = ct_IdempotencyKey y"

lemmas clash_defs = order_clash_def event_clash_def execution_clash_def risk_flag_clash_def
  user_clash_def challenge_clash_def registration_clash_def grant_clash_def device_clash_def
  trial_clash_def account_clash_def bucket_clash_def reservation_clash_def transaction_clash_def

interpretation orders: row_store or_ID order_clash
  by unfold_locales (unfold order_clash_def same_key_def, metis+)

interpretation events: row_store pe_ID event_clash
  by unfold_locales (unfold event_clash_def, metis+)

interpretation executions: row_store fe_ID execution_clash
  by unfold_locales (unfold execution_clash_def, metis+)

interpretation risk_flags: row_store rf_ID risk_flag_clash
  by unfold_locales (unfold risk_flag_clash_def, metis+)

interpretation users: row_store us_ID user_clash
  by unfold_locales (unfold user_clash_def, metis+)

interpretation challenges: row_store lc_ID challenge_clash
  by unfold_locales (unfold challenge_clash_def, metis+)

interpretation registrations: row_store rr_ID registration_clash
  by unfold_locales (unfold registration_clash_def, metis+)

interpretation grants: row_store eg_ID grant_clash
  by unfold_locales (unfold grant_clash_def same_key_def, metis+)

interpretation devices: row_store ud_ID device_clash
  by unfold_locales (unfold device_clash_def, metis+)

interpretation trials: row_store tg_ID trial_clash
  by unfold_locales (unfold trial_clash_def, metis+)

interpretation accounts: row_store ca_ID account_clash
  by unfold_locales (unfold account_clash_def, metis+)

interpretation buckets: row_store cb_ID bucket_clash
  by unfold_locales (unfold bucket_clash_def, metis+)

interpretation reservations: row_store cr_ID reservation_clash
  by unfold_locales (unfold reservation_clash_def, metis+)

interpretation transactions: row_store ct_ID transaction_clash
  by unfold_locales (unfold transaction_clash_def, metis+)

end
