(* ===== verification/Credit.thy ===== *)
theory Credit
  imports Store
begin

text \<open>
  The credit ledger: service/credit.go, service/credit_bucket.go and
  repository/gorm_repo/credit.go.  A user has at most one account (balance and reserved
  amount); every change of the balance writes a transaction; granted credits sit in buckets
  that may expire; a reservation moves credits from the balance to the reserved amount and
  from buckets to their reserved parts, until it is committed or released.  This theory
  holds the operations; Credit_Ledger proves the accounting invariant.
\<close>

section \<open>Repositories\<close>

definition CreditAccountRepo_Create :: "CreditAccount \<Rightarrow> unit service" where
  "CreditAccountRepo_Create = store_create tb_accounts tb_accounts_update account_clash"

definition CreditAccountRepo_GetByID :: "string \<Rightarrow> CreditAccount service" where
  "CreditAccountRepo_GetByID = store_find tb_accounts ca_ID"

definition CreditAccountRepo_GetByUserID :: "string \<Rightarrow> CreditAccount service" where
  "CreditAccountRepo_GetByUserID = store_find tb_accounts ca_UserID"

definition CreditAccountRepo_Update :: "CreditAccount \<Rightarrow> unit service" where
  "CreditAccountRepo_Update = store_save tb_accounts tb_accounts_update ca_ID account_clash"

definition CreditBucketRepo_Create :: "CreditBucket \<Rightarrow> unit service" where
  "CreditBucketRepo_Create = store_create tb_buckets tb_buckets_update bucket_clash"

definition CreditBucketRepo_GetByID :: "string \<Rightarrow> CreditBucket service" where
  "CreditBucketRepo_GetByID = store_find tb_buckets cb_ID"

definition CreditBucketRepo_GetByIdempotencyKey :: "string \<Rightarrow> CreditBucket service" where
  "CreditBucketRepo_GetByIdempotencyKey = store_find tb_buckets cb_IdempotencyKey"

definition CreditBucketRepo_Update :: "CreditBucket \<Rightarrow> unit service" where
  "CreditBucketRepo_Update = store_save tb_buckets tb_buckets_update cb_ID bucket_clash"

record CreditBucketQuery =
  bq_AccountID :: string
  bq_UserID :: string
  bq_Type :: string
  bq_Status :: string
  bq_SourceOrderNo :: string
  bq_SourceTransactionID :: string
  bq_ActiveAt :: "instant option"
  bq_ExpiresAtOrBefore :: "instant option"
  bq_PositiveRemaining :: bool
  bq_Limit :: int
  bq_Offset :: int

definition empty_bucket_query :: CreditBucketQuery where
  "empty_bucket_query =
     \<lparr>bq_AccountID = [], bq_UserID = [], bq_Type = [], bq_Status = [], bq_SourceOrderNo = [],
      bq_SourceTransactionID = [], bq_ActiveAt = None, bq_ExpiresAtOrBefore = None,
      bq_PositiveRemaining = False, bq_Limit = 0, bq_Offset = 0\<rparr>"

definition bucket_matches :: "CreditBucketQuery \<Rightarrow> CreditBucket \<Rightarrow> bool" where
  "bucket_matches q b \<longleftrightarrow>
     column_matches (bq_AccountID q) (cb_AccountID b)
     \<and> column_matches (bq_UserID q) (cb_UserID b)
     \<and> column_matches (bq_Type q) (cb_Type b)
     \<and> column_matches (bq_Status q) (cb_Status b)
     \<and> column_matches (bq_SourceOrderNo q) (cb_SourceOrderNo b)
     \<and> column_matches (bq_SourceTransactionID q) (cb_SourceTransactionID b)
     \<and> (case bq_ActiveAt q of None \<Rightarrow> True
          | Some t \<Rightarrow> (case cb_ExpiresAt b of None \<Rightarrow> True | Some e \<Rightarrow> t < e))
     \<and> (case bq_ExpiresAtOrBefore q of None \<Rightarrow> True
          | Some t \<Rightarrow> (case cb_ExpiresAt b of None \<Rightarrow> False | Some e \<Rightarrow> e \<le> t))
     \<and> (bq_PositiveRemaining q \<longrightarrow> 0 < cb_Remaining b)"

text \<open>Buckets that expire come first, the earliest first; then creation time, then ID.\<close>

definition bucket_rank :: "CreditBucket \<Rightarrow> bool \<times> int \<times> int \<times> string" where
  "bucket_rank b =
     (case cb_ExpiresAt b of
        None \<Rightarrow> (True, 0, cb_CreatedAt b, cb_ID b)
      | Some e \<Rightarrow> (False, e, cb_CreatedAt b, cb_ID b))"

definition CreditBucketRepo_List :: "CreditBucketQuery \<Rightarrow> CreditBucket list service" where
  "CreditBucketRepo_List q =
     db_read (\<lambda>d. page (bq_Limit q) (bq_Offset q)
       (sort_key bucket_rank (List.filter (bucket_matches q) (tb_buckets d))))"

definition CreditReservationRepo_Create :: "CreditReservation \<Rightarrow> unit service" where
  "CreditReservationRepo_Create = store_create tb_reservations tb_reservations_update reservation_clash"

definition CreditReservationRepo_GetByID :: "string \<Rightarrow> CreditReservation service" where
  "CreditReservationRepo_GetByID = store_find tb_reservations cr_ID"

definition CreditReservationRepo_GetByIdempotencyKey :: "string \<Rightarrow> CreditReservation service" where
  "CreditReservationRepo_GetByIdempotencyKey = store_find tb_reservations cr_IdempotencyKey"

definition CreditReservationRepo_Update :: "CreditReservation \<Rightarrow> unit service" where
  "CreditReservationRepo_Update =
     store_save tb_reservations tb_reservations_update cr_ID reservation_clash"

record CreditReservationQuery =
  rq_UserID :: string
  rq_FeatureID :: string
  rq_Operation :: string
  rq_ExecutionID :: string
  rq_Status :: string
  rq_Limit :: int
  rq_Offset :: int

definition reservation_matches :: "CreditReservationQuery \<Rightarrow> CreditReservation \<Rightarrow> bool" where
  "reservation_matches q r \<longleftrightarrow>
     column_matches (rq_UserID q) (cr_UserID r)
     \<and> column_matches (rq_FeatureID q) (cr_FeatureID r)
     \<and> column_matches (rq_Operation q) (cr_Operation r)
     \<and> column_matches (rq_ExecutionID q) (cr_ExecutionID r)
     \<and> column_matches (rq_Status q) (cr_Status r)"

definition CreditReservationRepo_List :: "CreditReservationQuery \<Rightarrow> CreditReservation list service" where
  "CreditReservationRepo_List q =
     db_read (\<lambda>d. page (rq_Limit q) (rq_Offset q)
       (sort_key (\<lambda>r. - cr_CreatedAt r) (List.filter (reservation_matches q) (tb_reservations d))))"

definition CreditTransactionRepo_Create :: "CreditTransaction \<Rightarrow> unit service" where
  "CreditTransactionRepo_Create = store_create tb_transactions tb_transactions_update transaction_clash"

definition CreditTransactionRepo_GetByID :: "string \<Rightarrow> CreditTransaction service" where
  "CreditTransactionRepo_GetByID = store_find tb_transactions ct_ID"

definition CreditTransactionRepo_GetByIdempotencyKey :: "string \<Rightarrow> CreditTransaction service" where
  "CreditTransactionRepo_GetByIdempotencyKey = store_find tb_transactions ct_IdempotencyKey"

definition CreditTransactionRepo_ListByUser :: "string \<Rightarrow> int \<Rightarrow> int \<Rightarrow> CreditTransaction list service" where
  "CreditTransactionRepo_ListByUser userID limit offset =
     db_read (\<lambda>d. page limit offset
       (sort_key (\<lambda>t. - ct_CreatedAt t) (List.filter (\<lambda>t. ct_UserID t = userID) (tb_transactions d))))"

definition CreditTransactionRepo_ListByReservationIDs :: "string list \<Rightarrow> CreditTransaction list service" where
  "CreditTransactionRepo_ListByReservationIDs reservationIDs =
     (if reservationIDs = [] then ret []
      else db_read (\<lambda>d. sort_key ct_CreatedAt
             (List.filter (\<lambda>t. ct_ReservationID t \<in> set reservationIDs) (tb_transactions d))))"

definition UserRepo_GetByID :: "string \<Rightarrow> User service" where
  "UserRepo_GetByID = store_find tb_users us_ID"

lemmas credit_repo_defs =
  CreditAccountRepo_Create_def CreditAccountRepo_GetByID_def CreditAccountRepo_GetByUserID_def
  CreditAccountRepo_Update_def CreditBucketRepo_Create_def CreditBucketRepo_GetByID_def
  CreditBucketRepo_Update_def CreditBucketRepo_List_def CreditReservationRepo_Create_def
  CreditReservationRepo_GetByID_def CreditReservationRepo_GetByIdempotencyKey_def
  CreditReservationRepo_Update_def CreditReservationRepo_List_def CreditTransactionRepo_Create_def
  CreditTransactionRepo_GetByIdempotencyKey_def CreditTransactionRepo_ListByUser_def
  CreditTransactionRepo_ListByReservationIDs_def UserRepo_GetByID_def

section \<open>Inputs and results\<close>

record CreditGrantInput =
  gi_UserID :: string
  gi_Amount :: int
  gi_IdempotencyKey :: string
  gi_Source :: string
  gi_Description :: string
  gi_BucketType :: string
  gi_SourceOrderNo :: string
  gi_PeriodStartAt :: "instant option"
  gi_PeriodEndAt :: "instant option"
  gi_ExpiresAt :: "instant option"

text \<open>A value of a \<open>map[string]any\<close>: a string, a byte slice, or anything else.\<close>

datatype usage_value = UsageString string | UsageBytes string | UsageOther

record CreditReservationInput =
  ri_UserID :: string
  ri_Operation :: string
  ri_Amount :: int
  ri_IdempotencyKey :: string
  ri_FeatureID :: string
  ri_ExecutionID :: string
  ri_Metadata :: "(string \<times> usage_value) list"
  ri_ExpiresAt :: "instant option"

record CreditFinalizationInput =
  fi_ReservationID :: string
  fi_IdempotencyKey :: string

record CreditMutationResult =
  mr_Account :: CreditAccount
  mr_Reservation :: "CreditReservation option"
  mr_Transaction :: "CreditTransaction option"
  mr_Bucket :: "CreditBucket option"

record CreditBucketExpiryResult =
  xr_ExpiredBuckets :: "CreditBucket list"
  xr_Transactions :: "CreditTransaction list"
  xr_ExpiredAmount :: int

definition empty_expiry :: CreditBucketExpiryResult where
  "empty_expiry = \<lparr>xr_ExpiredBuckets = [], xr_Transactions = [], xr_ExpiredAmount = 0\<rparr>"

record UsageRecord =
  ur_ReservationID :: string
  ur_UserID :: string
  ur_FeatureID :: string
  ur_Operation :: string
  ur_ExecutionID :: string
  ur_Amount :: int
  ur_Status :: string
  ur_Metadata :: "(string \<times> string) list"
  ur_Transactions :: "CreditTransaction list"
  ur_CreatedAt :: instant
  ur_UpdatedAt :: instant
  ur_CommittedAt :: "instant option"
  ur_ReleasedAt :: "instant option"

record UsageRecordQuery =
  uq_UserID :: string
  uq_FeatureID :: string
  uq_Operation :: string
  uq_ExecutionID :: string
  uq_Status :: string
  uq_Limit :: int
  uq_Offset :: int

record creditTransactionInput =
  ti_Account :: CreditAccount
  ti_ReservationID :: string
  ti_BucketID :: string
  ti_TransactionType :: string
  ti_Amount :: int
  ti_IdempotencyKey :: string
  ti_Source :: string
  ti_Description :: string
  ti_CreatedAt :: instant

text \<open>
  Which optional collaborators of \<open>creditServiceImpl\<close> are set.  With a unit-of-work factory
  the repositories come from the unit of work, which has a bucket repository.
\<close>

record credit_service =
  cfg_users :: bool
  cfg_buckets :: bool
  cfg_uow :: bool

definition repos_have_buckets :: "credit_service \<Rightarrow> bool" where
  "repos_have_buckets s \<longleftrightarrow> cfg_uow s \<or> cfg_buckets s"

definition withCreditTransaction :: "credit_service \<Rightarrow> 'a service \<Rightarrow> 'a service" where
  "withCreditTransaction s fn = (if cfg_uow s then in_transaction fn else fn)"

section \<open>Pure helpers\<close>

definition cloneTimeUTC :: "instant option \<Rightarrow> instant option" where
  "cloneTimeUTC value = (case value of None \<Rightarrow> None | Some t \<Rightarrow> if t = 0 then None else Some t)"

definition normalizeCreditBucketType :: "CreditGrantInput \<Rightarrow> string" where
  "normalizeCreditBucketType input =
     (let bucketType = trim_space (gi_BucketType input)
      in if bucketType \<in> {BucketTypeAdmin, BucketTypeLegacy, BucketTypeTopup, BucketTypeSubscriptionPeriod}
         then bucketType
         else if trim_space (gi_Source input) = GrantSourceFulfillment
         then (if gi_ExpiresAt input \<noteq> None \<or> gi_PeriodEndAt input \<noteq> None
               then BucketTypeSubscriptionPeriod else BucketTypeTopup)
         else BucketTypeAdmin)"

fun compactCreditBucketAllocations :: "CreditBucketAllocation list \<Rightarrow> CreditBucketAllocation list" where
  "compactCreditBucketAllocations [] = []"
| "compactCreditBucketAllocations (al # als) =
     (let al' = al\<lparr>al_BucketID := trim_space (al_BucketID al)\<rparr>
      in if al_BucketID al' = [] \<or> al_Amount al' \<le> 0
         then compactCreditBucketAllocations als
         else al' # compactCreditBucketAllocations als)"

text \<open>The JSON column holds the compacted list; reading it back compacts again.\<close>

definition encodeCreditBucketAllocations :: "CreditBucketAllocation list \<Rightarrow> CreditBucketAllocation list" where
  "encodeCreditBucketAllocations als = compactCreditBucketAllocations als"

definition decodeCreditBucketAllocations :: "CreditBucketAllocation list \<Rightarrow> CreditBucketAllocation list" where
  "decodeCreditBucketAllocations raw = (if raw = [] then [] else compactCreditBucketAllocations raw)"

definition singleAllocationBucketID :: "CreditBucketAllocation list \<Rightarrow> string" where
  "singleAllocationBucketID als =
     (case compactCreditBucketAllocations als of [al] \<Rightarrow> al_BucketID al | _ \<Rightarrow> [])"

fun total_loop :: "int \<Rightarrow> CreditBucketAllocation list \<Rightarrow> int" where
  "total_loop acc [] = acc"
| "total_loop acc (al # als) = total_loop (wrap64 (acc + al_Amount al)) als"

definition totalCreditBucketAllocationAmount :: "CreditBucketAllocation list \<Rightarrow> int" where
  "totalCreditBucketAllocationAmount als = total_loop 0 (compactCreditBucketAllocations als)"

definition creditBucketAvailableAt :: "CreditBucket \<Rightarrow> instant \<Rightarrow> bool" where
  "creditBucketAvailableAt b now \<longleftrightarrow>
     cb_Status b = BucketActive \<and> 0 < cb_Remaining b
     \<and> (case cb_ExpiresAt b of None \<Rightarrow> True | Some e \<Rightarrow> now < e)"

text \<open>The loop of the earliest-expiring strategy over the sorted eligible buckets.\<close>

fun allocate_loop :: "CreditBucket list \<Rightarrow> int \<Rightarrow> CreditBucketAllocation list" where
  "allocate_loop [] remaining = []"
| "allocate_loop (b # bs) remaining =
     (if remaining \<le> 0 then []
      else let used = minInt64 (cb_Remaining b) remaining
           in if used \<le> 0 then allocate_loop bs remaining
              else \<lparr>al_BucketID = cb_ID b, al_Amount = used\<rparr> # allocate_loop bs (wrap64 (remaining - used)))"

definition earliestExpiring_Allocate :: "CreditBucket list \<Rightarrow> int \<Rightarrow> instant \<Rightarrow> CreditBucketAllocation list" where
  "earliestExpiring_Allocate buckets amount now =
     (if amount \<le> 0 then []
      else allocate_loop
             (sort_key bucket_rank (List.filter (\<lambda>b. creditBucketAvailableAt b now) buckets)) amount)"

definition creditBucketExpireKey :: "CreditBucket \<Rightarrow> string" where
  "creditBucketExpireKey b =
     ''expire:'' @ trim_space (cb_ID b) @ '':'' @
       (case cb_ExpiresAt b of None \<Rightarrow> ''none'' | Some e \<Rightarrow> format_compact e)"

definition toUsageMetadataString :: "usage_value option \<Rightarrow> string" where
  "toUsageMetadataString value =
     (case value of
        Some (UsageString s) \<Rightarrow> s
      | Some (UsageBytes s) \<Rightarrow> s
      | _ \<Rightarrow> [])"

definition sanitizedUsageMetadata :: "(string \<times> usage_value) list \<Rightarrow> (string \<times> string) list" where
  "sanitizedUsageMetadata metadata =
     List.filter (\<lambda>(k, v). v \<noteq> [])
       (List.map (\<lambda>k. (k, trim_space (toUsageMetadataString (map_of metadata k))))
          [''project_id'', ''document_id'', ''conversation_id'', ''client_message_id''])"

definition usageRecordFromReservation :: "CreditReservation \<Rightarrow> CreditTransaction list \<Rightarrow> UsageRecord" where
  "usageRecordFromReservation r transactions =
     \<lparr>ur_ReservationID = cr_ID r, ur_UserID = cr_UserID r,
      ur_FeatureID = (if trim_space (cr_FeatureID r) = [] then trim_space (cr_Operation r)
                      else trim_space (cr_FeatureID r)),
      ur_Operation = cr_Operation r, ur_ExecutionID = cr_ExecutionID r, ur_Amount = cr_Amount r,
      ur_Status = cr_Status r, ur_Metadata = cr_Metadata r, ur_Transactions = transactions,
      ur_CreatedAt = cr_CreatedAt r, ur_UpdatedAt = cr_UpdatedAt r,
      ur_CommittedAt = cr_CommittedAt r, ur_ReleasedAt = cr_ReleasedAt r\<rparr>"

section \<open>Ledger primitives\<close>

definition ensureUser :: "credit_service \<Rightarrow> string \<Rightarrow> unit service" where
  "ensureUser s userID =
     (if \<not> cfg_users s then ret ()
      else andThen (not_found_as ErrUserNotFound (UserRepo_GetByID userID)) (\<lambda>_. ret ()))"

definition ensureCreditAccount :: "string \<Rightarrow> CreditAccount service" where
  "ensureCreditAccount userID =
     if_found (CreditAccountRepo_GetByUserID userID) ret
       (andThen (generateEntityID ''cra_'') (\<lambda>accountID.
        andThen time_now (\<lambda>now.
        let account = \<lparr>ca_ID = accountID, ca_UserID = userID, ca_Balance = 0, ca_Reserved = 0,
                       ca_CreatedAt = now, ca_UpdatedAt = now\<rparr>
        in andThen (CreditAccountRepo_Create account) (\<lambda>_. ret account))))"

definition newCreditTransaction :: "creditTransactionInput \<Rightarrow> CreditTransaction service" where
  "newCreditTransaction input =
     andThen (generateEntityID ''ctx_'') (\<lambda>transactionID.
     let transaction =
       \<lparr>ct_ID = transactionID, ct_AccountID = ca_ID (ti_Account input),
        ct_UserID = ca_UserID (ti_Account input), ct_ReservationID = ti_ReservationID input,
        ct_BucketID = ti_BucketID input, ct_Type = ti_TransactionType input,
        ct_Amount = ti_Amount input, ct_BalanceAfter = ca_Balance (ti_Account input),
        ct_ReservedAfter = ca_Reserved (ti_Account input),
        ct_IdempotencyKey = ti_IdempotencyKey input, ct_Source = ti_Source input,
        ct_Description = ti_Description input, ct_CreatedAt = ti_CreatedAt input\<rparr>
     in andThen (CreditTransactionRepo_Create transaction) (\<lambda>_. ret transaction))"

definition newCreditBucketFromGrant ::
  "CreditAccount \<Rightarrow> CreditGrantInput \<Rightarrow> string \<Rightarrow> instant \<Rightarrow> CreditBucket service" where
  "newCreditBucketFromGrant account input k now =
     andThen (generateEntityID ''crb_'') (\<lambda>bucketID.
     let bucketType = normalizeCreditBucketType input;
         periodEnd = cloneTimeUTC (gi_PeriodEndAt input);
         expiresAt0 = (if bucketType = BucketTypeTopup then None else cloneTimeUTC (gi_ExpiresAt input));
         expiresAt = (if bucketType = BucketTypeSubscriptionPeriod \<and> expiresAt0 = None \<and> periodEnd \<noteq> None
                      then cloneTimeUTC periodEnd else expiresAt0)
     in ret \<lparr>cb_ID = bucketID, cb_AccountID = ca_ID account, cb_UserID = ca_UserID account,
             cb_Type = bucketType, cb_Source = defaultString (trim_space (gi_Source input)) ''admin'',
             cb_SourceOrderNo = trim_space (gi_SourceOrderNo input), cb_SourceTransactionID = [],
             cb_PeriodStartAt = cloneTimeUTC (gi_PeriodStartAt input), cb_PeriodEndAt = periodEnd,
             cb_ExpiresAt = expiresAt, cb_Granted = gi_Amount input, cb_Remaining = gi_Amount input,
             cb_Reserved = 0, cb_Status = BucketActive, cb_IdempotencyKey = k,
             cb_CreatedAt = now, cb_UpdatedAt = now\<rparr>)"

section \<open>Grant\<close>

text \<open>The result of a grant whose key was used before: the stored transaction and its bucket.\<close>

definition replay_grant :: "credit_service \<Rightarrow> CreditTransaction \<Rightarrow> CreditMutationResult service" where
  "replay_grant s existing =
     andThen (CreditAccountRepo_GetByID (ct_AccountID existing)) (\<lambda>account.
     andThen (if repos_have_buckets s \<and> trim_space (ct_BucketID existing) \<noteq> []
              then if_found (CreditBucketRepo_GetByID (ct_BucketID existing)) (\<lambda>b. ret (Some b)) (ret None)
              else ret None) (\<lambda>bucket.
     ret \<lparr>mr_Account = account, mr_Reservation = None, mr_Transaction = Some existing,
          mr_Bucket = bucket\<rparr>))"

text \<open>The part of a grant after the account: the bucket's row, the transaction, the bucket.\<close>

definition book_grant ::
  "credit_service \<Rightarrow> CreditGrantInput \<Rightarrow> string \<Rightarrow> instant \<Rightarrow> CreditAccount \<Rightarrow> CreditMutationResult service" where
  "book_grant s input k now account =
     andThen (if repos_have_buckets s
              then andThen (newCreditBucketFromGrant account input k now) (\<lambda>b. ret (Some b))
              else ret None) (\<lambda>bucket.
     andThen (newCreditTransaction
         \<lparr>ti_Account = account, ti_ReservationID = [],
          ti_BucketID = (case bucket of None \<Rightarrow> [] | Some b \<Rightarrow> cb_ID b),
          ti_TransactionType = TxGrant, ti_Amount = gi_Amount input, ti_IdempotencyKey = k,
          ti_Source = defaultString (trim_space (gi_Source input)) ''admin'',
          ti_Description = trim_space (gi_Description input), ti_CreatedAt = now\<rparr>) (\<lambda>transaction.
     case bucket of
       None \<Rightarrow> ret \<lparr>mr_Account = account, mr_Reservation = None,
                     mr_Transaction = Some transaction, mr_Bucket = None\<rparr>
     | Some b0 \<Rightarrow>
         let b = b0\<lparr>cb_SourceTransactionID := ct_ID transaction\<rparr>
         in andThen (CreditBucketRepo_Create b) (\<lambda>_.
            ret \<lparr>mr_Account = account, mr_Reservation = None,
                 mr_Transaction = Some transaction, mr_Bucket = Some b\<rparr>)))"

definition apply_grant :: "credit_service \<Rightarrow> CreditGrantInput \<Rightarrow> string \<Rightarrow> CreditMutationResult service" where
  "apply_grant s input k =
     andThen (ensureCreditAccount (trim_space (gi_UserID input))) (\<lambda>account0.
     andThen time_now (\<lambda>now.
     let account = account0\<lparr>ca_Balance := wrap64 (ca_Balance account0 + gi_Amount input),
                            ca_UpdatedAt := now\<rparr>
     in andThen (CreditAccountRepo_Update account) (\<lambda>_. book_grant s input k now account)))"

definition grantCreditsWithRepos :: "credit_service \<Rightarrow> CreditGrantInput \<Rightarrow> CreditMutationResult service" where
  "grantCreditsWithRepos s input =
     (let k = trim_space (gi_IdempotencyKey input)
      in if_found (CreditTransactionRepo_GetByIdempotencyKey k) (replay_grant s)
           (apply_grant s input k))"

definition Grant :: "credit_service \<Rightarrow> CreditGrantInput \<Rightarrow> CreditMutationResult service" where
  "Grant s input =
     (let userID = trim_space (gi_UserID input); k = trim_space (gi_IdempotencyKey input)
      in andThen (reject_if (userID = []) ErrUserNotFound) (\<lambda>_.
         andThen (reject_if (gi_Amount input \<le> 0) ErrInvalidCreditAmount) (\<lambda>_.
         andThen (reject_if (k = []) ErrIdempotencyRequired) (\<lambda>_.
         andThen (ensureUser s userID) (\<lambda>_.
         withCreditTransaction s (grantCreditsWithRepos s input))))))"

section \<open>Expiry of buckets\<close>

text \<open>
  \<open>expireCreditBucket\<close> updates the account and the bucket it is given in place; both come
  back with the transaction and the expired amount.
\<close>

definition expireCreditBucket ::
  "CreditAccount \<Rightarrow> CreditBucket \<Rightarrow> instant
     \<Rightarrow> (CreditAccount \<times> CreditBucket \<times> CreditTransaction \<times> int) service" where
  "expireCreditBucket account0 bucket0 now =
     (let e0 = cb_Remaining bucket0;
          e1 = (if ca_Balance account0 < e0 then ca_Balance account0 else e0);
          expiredAmount = (if e1 < 0 then 0 else e1);
          account = (if 0 < expiredAmount
                     then account0\<lparr>ca_Balance := wrap64 (ca_Balance account0 - expiredAmount),
                                   ca_UpdatedAt := now\<rparr>
                     else account0)
      in andThen (if 0 < expiredAmount then CreditAccountRepo_Update account else ret ()) (\<lambda>_.
         let bucket = bucket0\<lparr>cb_Remaining := 0, cb_Status := BucketExpired, cb_UpdatedAt := now\<rparr>
         in andThen (CreditBucketRepo_Update bucket) (\<lambda>_.
            andThen (newCreditTransaction
              \<lparr>ti_Account = account, ti_ReservationID = [], ti_BucketID = cb_ID bucket,
               ti_TransactionType = TxExpire, ti_Amount = wrap64 (- expiredAmount),
               ti_IdempotencyKey = creditBucketExpireKey bucket,
               ti_Source = ''credit_bucket_expiry'', ti_Description = ''expire credit bucket'',
               ti_CreatedAt = now\<rparr>) (\<lambda>transaction.
            ret (account, bucket, transaction, expiredAmount)))))"

definition add_expired ::
  "CreditBucketExpiryResult \<Rightarrow> CreditBucket \<Rightarrow> CreditTransaction \<Rightarrow> int \<Rightarrow> CreditBucketExpiryResult" where
  "add_expired result bucket transaction amount =
     \<lparr>xr_ExpiredBuckets = xr_ExpiredBuckets result @ [bucket],
      xr_Transactions = xr_Transactions result @ [transaction],
      xr_ExpiredAmount = wrap64 (xr_ExpiredAmount result + amount)\<rparr>"

definition expired_query :: "string \<Rightarrow> instant \<Rightarrow> int \<Rightarrow> CreditBucketQuery" where
  "expired_query accountID now limit =
     empty_bucket_query\<lparr>bq_AccountID := accountID, bq_Status := BucketActive,
       bq_ExpiresAtOrBefore := Some now, bq_PositiveRemaining := True, bq_Limit := limit\<rparr>"

text \<open>The loop keeps the accounts it has loaded, by ID, as it has changed them.\<close>

definition expireCreditBucketsWithRepos ::
  "credit_service \<Rightarrow> instant \<Rightarrow> int \<Rightarrow> string \<Rightarrow> CreditBucketExpiryResult service" where
  "expireCreditBucketsWithRepos s now limit accountID =
     (if \<not> repos_have_buckets s then ret empty_expiry
      else andThen (CreditBucketRepo_List (expired_query (trim_space accountID) now limit)) (\<lambda>buckets.
        andThen (for_each buckets (\<lambda>bucket (result, accountsByID).
          andThen (case accountsByID (cb_AccountID bucket) of
                     Some account \<Rightarrow> ret account
                   | None \<Rightarrow> CreditAccountRepo_GetByID (cb_AccountID bucket)) (\<lambda>account0.
          andThen (expireCreditBucket account0 bucket now) (\<lambda>(account, bucket', transaction, amount).
          ret (add_expired result bucket' transaction amount,
               accountsByID(cb_AccountID bucket \<mapsto> account))))) (empty_expiry, Map.empty))
        (\<lambda>(result, _). ret result)))"

definition expireCreditBucketsForAccount ::
  "credit_service \<Rightarrow> CreditAccount \<Rightarrow> instant \<Rightarrow> int
     \<Rightarrow> (CreditBucketExpiryResult \<times> CreditAccount) service" where
  "expireCreditBucketsForAccount s account0 now limit =
     (if \<not> repos_have_buckets s then ret (empty_expiry, account0)
      else andThen (CreditBucketRepo_List (expired_query (ca_ID account0) now limit)) (\<lambda>buckets.
        for_each buckets (\<lambda>bucket (result, account).
          andThen (expireCreditBucket account bucket now) (\<lambda>(account', bucket', transaction, amount).
          ret (add_expired result bucket' transaction amount, account'))) (empty_expiry, account0)))"

definition ExpireBuckets :: "credit_service \<Rightarrow> instant \<Rightarrow> int \<Rightarrow> CreditBucketExpiryResult service" where
  "ExpireBuckets s inputNow limit =
     andThen (if inputNow = 0 then time_now else ret inputNow) (\<lambda>now.
     withCreditTransaction s (expireCreditBucketsWithRepos s now limit []))"

section \<open>Reserve\<close>

definition reserve_bucket :: "instant \<Rightarrow> CreditBucketAllocation \<Rightarrow> unit \<Rightarrow> unit service" where
  "reserve_bucket now al _ =
     andThen (CreditBucketRepo_GetByID (al_BucketID al)) (\<lambda>bucket.
     andThen (reject_if (cb_Remaining bucket < al_Amount al) ErrInsufficientCredits) (\<lambda>_.
     let remaining = wrap64 (cb_Remaining bucket - al_Amount al);
         reserved = wrap64 (cb_Reserved bucket + al_Amount al)
     in CreditBucketRepo_Update (bucket\<lparr>cb_Remaining := remaining, cb_Reserved := reserved,
          cb_Status := (if remaining = 0 \<and> reserved = 0 then BucketDepleted else cb_Status bucket),
          cb_UpdatedAt := now\<rparr>)))"

definition reserveBucketCredits ::
  "credit_service \<Rightarrow> CreditAccount \<Rightarrow> int \<Rightarrow> instant
     \<Rightarrow> (CreditAccount \<times> CreditBucketAllocation list) service" where
  "reserveBucketCredits s account0 amount now =
     (if \<not> repos_have_buckets s then ret (account0, [])
      else andThen (expireCreditBucketsForAccount s account0 now 0) (\<lambda>(_, account).
        andThen (reject_if (ca_Balance account < amount) ErrInsufficientCredits) (\<lambda>_.
        andThen (CreditBucketRepo_List (empty_bucket_query\<lparr>bq_AccountID := ca_ID account,
            bq_Status := BucketActive, bq_ActiveAt := Some now, bq_PositiveRemaining := True\<rparr>)) (\<lambda>buckets.
        let allocations = compactCreditBucketAllocations (earliestExpiring_Allocate buckets amount now)
        in andThen (for_each (compactCreditBucketAllocations allocations) (reserve_bucket now) ()) (\<lambda>_.
           ret (account, compactCreditBucketAllocations allocations))))))"

definition replay_reservation :: "CreditReservation \<Rightarrow> CreditMutationResult service" where
  "replay_reservation existing =
     andThen (CreditAccountRepo_GetByID (cr_AccountID existing)) (\<lambda>account.
     ret \<lparr>mr_Account = account, mr_Reservation = Some existing, mr_Transaction = None,
          mr_Bucket = None\<rparr>)"

definition reservation_row ::
  "CreditReservationInput \<Rightarrow> CreditAccount \<Rightarrow> CreditBucketAllocation list \<Rightarrow> instant \<Rightarrow> string \<Rightarrow> CreditReservation" where
  "reservation_row input account allocations now reservationID =
     \<lparr>cr_ID = reservationID, cr_AccountID = ca_ID account, cr_UserID = trim_space (ri_UserID input),
      cr_Operation = trim_space (ri_Operation input), cr_Amount = ri_Amount input,
      cr_Status = ReservationPending, cr_IdempotencyKey = trim_space (ri_IdempotencyKey input),
      cr_FeatureID = trim_space (ri_FeatureID input),
      cr_ExecutionID = trim_space (ri_ExecutionID input),
      cr_Metadata = sanitizedUsageMetadata (ri_Metadata input),
      cr_BucketAllocations = encodeCreditBucketAllocations allocations,
      cr_ExpiresAt = ri_ExpiresAt input, cr_CommittedAt = None, cr_ReleasedAt = None,
      cr_CreatedAt = now, cr_UpdatedAt = now\<rparr>"

text \<open>The part of \<open>Reserve\<close> after the buckets: the account, the reservation, the transaction.\<close>

definition book_reservation ::
  "CreditReservationInput \<Rightarrow> CreditAccount \<Rightarrow> CreditBucketAllocation list \<Rightarrow> instant
     \<Rightarrow> CreditMutationResult service" where
  "book_reservation input account1 allocations now =
     andThen (reject_if (ca_Balance account1 < ri_Amount input) ErrInsufficientCredits) (\<lambda>_.
     let account = account1\<lparr>ca_Balance := wrap64 (ca_Balance account1 - ri_Amount input),
                            ca_Reserved := wrap64 (ca_Reserved account1 + ri_Amount input),
                            ca_UpdatedAt := now\<rparr>
     in andThen (CreditAccountRepo_Update account) (\<lambda>_.
        andThen (generateEntityID ''crr_'') (\<lambda>reservationID.
        let reservation = reservation_row input account allocations now reservationID
        in andThen (CreditReservationRepo_Create reservation) (\<lambda>_.
           andThen (newCreditTransaction
             \<lparr>ti_Account = account, ti_ReservationID = reservationID,
              ti_BucketID = singleAllocationBucketID allocations, ti_TransactionType = TxReserve,
              ti_Amount = wrap64 (- ri_Amount input),
              ti_IdempotencyKey = ''reserve:'' @ trim_space (ri_IdempotencyKey input),
              ti_Source = defaultString (trim_space (ri_Operation input)) ''usage'',
              ti_Description = ''reserve credits'', ti_CreatedAt = now\<rparr>) (\<lambda>transaction.
           ret \<lparr>mr_Account = account, mr_Reservation = Some reservation,
                mr_Transaction = Some transaction, mr_Bucket = None\<rparr>)))))"

definition apply_reserve :: "credit_service \<Rightarrow> CreditReservationInput \<Rightarrow> CreditMutationResult service" where
  "apply_reserve s input =
     andThen (ensureCreditAccount (trim_space (ri_UserID input))) (\<lambda>account0.
     andThen time_now (\<lambda>now.
     andThen (reserveBucketCredits s account0 (ri_Amount input) now) (\<lambda>(account1, allocations).
     book_reservation input account1 allocations now)))"

definition Reserve :: "credit_service \<Rightarrow> CreditReservationInput \<Rightarrow> CreditMutationResult service" where
  "Reserve s input =
     (let userID = trim_space (ri_UserID input); k = trim_space (ri_IdempotencyKey input)
      in andThen (reject_if (userID = []) ErrUserNotFound) (\<lambda>_.
         andThen (reject_if (ri_Amount input \<le> 0) ErrInvalidCreditAmount) (\<lambda>_.
         andThen (reject_if (k = []) ErrIdempotencyRequired) (\<lambda>_.
         andThen (case ri_ExpiresAt input of
                    None \<Rightarrow> ret ()
                  | Some e \<Rightarrow> andThen time_now (\<lambda>now. reject_if (e \<le> now) ErrReservationExpired)) (\<lambda>_.
         andThen (ensureUser s userID) (\<lambda>_.
         withCreditTransaction s
           (if_found (CreditReservationRepo_GetByIdempotencyKey k) replay_reservation
              (apply_reserve s input))))))))"

section \<open>Commit and Release\<close>

definition finalize_bucket :: "string \<Rightarrow> instant \<Rightarrow> CreditBucketAllocation \<Rightarrow> int \<Rightarrow> int service" where
  "finalize_bucket finalStatus now al restored =
     andThen (CreditBucketRepo_GetByID (al_BucketID al)) (\<lambda>bucket.
     andThen (reject_if (cb_Reserved bucket < al_Amount al) ErrReservationNotPending) (\<lambda>_.
     let reserved = wrap64 (cb_Reserved bucket - al_Amount al);
         live = (case cb_ExpiresAt bucket of None \<Rightarrow> True | Some e \<Rightarrow> now < e);
         restores = (finalStatus = ReservationReleased \<and> live);
         remaining = (if restores then wrap64 (cb_Remaining bucket + al_Amount al) else cb_Remaining bucket);
         status1 = (if restores then BucketActive else cb_Status bucket);
         status2 = (if remaining = 0 \<and> reserved = 0
                    then (if live then BucketDepleted else BucketExpired) else status1)
     in andThen (CreditBucketRepo_Update (bucket\<lparr>cb_Remaining := remaining, cb_Reserved := reserved,
          cb_Status := status2, cb_UpdatedAt := now\<rparr>)) (\<lambda>_.
        ret (if restores then wrap64 (restored + al_Amount al) else restored))))"

definition finalizeBucketAllocations ::
  "CreditBucketAllocation list \<Rightarrow> string \<Rightarrow> instant \<Rightarrow> int service" where
  "finalizeBucketAllocations als finalStatus now =
     for_each (compactCreditBucketAllocations als) (finalize_bucket finalStatus now) 0"

definition replay_finalization :: "CreditTransaction \<Rightarrow> CreditMutationResult service" where
  "replay_finalization existing =
     andThen (CreditReservationRepo_GetByID (ct_ReservationID existing)) (\<lambda>reservation.
     andThen (CreditAccountRepo_GetByID (ct_AccountID existing)) (\<lambda>account.
     ret \<lparr>mr_Account = account, mr_Reservation = Some reservation,
          mr_Transaction = Some existing, mr_Bucket = None\<rparr>))"

text \<open>The amount a release gives back: what was not taken from buckets and what live buckets took.\<close>

definition restored_amount ::
  "credit_service \<Rightarrow> CreditReservation \<Rightarrow> string \<Rightarrow> instant \<Rightarrow> int service" where
  "restored_amount s reservation finalStatus now =
     (let allocations = decodeCreditBucketAllocations (cr_BucketAllocations reservation)
      in if repos_have_buckets s \<and> allocations \<noteq> []
         then andThen (finalizeBucketAllocations allocations finalStatus now) (\<lambda>bucketRestored.
           ret (if finalStatus = ReservationReleased
                then let r = wrap64 (cr_Amount reservation
                               - totalCreditBucketAllocationAmount allocations + bucketRestored)
                     in if r < 0 then 0 else r
                else cr_Amount reservation))
         else ret (cr_Amount reservation))"

definition finalized_row :: "CreditReservation \<Rightarrow> string \<Rightarrow> instant \<Rightarrow> CreditReservation" where
  "finalized_row reservation finalStatus now =
     (let r = reservation\<lparr>cr_Status := finalStatus, cr_UpdatedAt := now\<rparr>
      in if finalStatus = ReservationCommitted
         then r\<lparr>cr_CommittedAt := Some now\<rparr> else r\<lparr>cr_ReleasedAt := Some now\<rparr>)"

definition settle_reservation ::
  "CreditAccount \<Rightarrow> CreditReservation \<Rightarrow> int \<Rightarrow> string \<Rightarrow> string \<Rightarrow> string \<Rightarrow> instant
     \<Rightarrow> CreditMutationResult service" where
  "settle_reservation account0 reservation0 restoredAmount finalStatus transactionType k now =
     (let account = account0\<lparr>ca_Reserved := wrap64 (ca_Reserved account0 - cr_Amount reservation0),
            ca_Balance := (if finalStatus = ReservationReleased
                           then wrap64 (ca_Balance account0 + restoredAmount) else ca_Balance account0),
            ca_UpdatedAt := now\<rparr>;
          reservation = finalized_row reservation0 finalStatus now;
          released = (transactionType = TxRelease)
      in andThen (CreditAccountRepo_Update account) (\<lambda>_.
         andThen (CreditReservationRepo_Update reservation) (\<lambda>_.
         andThen (newCreditTransaction
           \<lparr>ti_Account = account, ti_ReservationID = cr_ID reservation,
            ti_BucketID = singleAllocationBucketID
              (decodeCreditBucketAllocations (cr_BucketAllocations reservation0)),
            ti_TransactionType = transactionType, ti_Amount = (if released then restoredAmount else 0),
            ti_IdempotencyKey = k,
            ti_Source = defaultString (trim_space (cr_Operation reservation)) ''usage'',
            ti_Description = (if released then ''release reserved credits'' else ''commit reserved credits''),
            ti_CreatedAt = now\<rparr>) (\<lambda>transaction.
         ret \<lparr>mr_Account = account, mr_Reservation = Some reservation,
              mr_Transaction = Some transaction, mr_Bucket = None\<rparr>))))"

definition apply_finalization ::
  "credit_service \<Rightarrow> string \<Rightarrow> string \<Rightarrow> string \<Rightarrow> string \<Rightarrow> CreditMutationResult service" where
  "apply_finalization s reservationID k finalStatus transactionType =
     andThen (not_found_as ErrReservationNotFound (CreditReservationRepo_GetByID reservationID)) (\<lambda>reservation.
     andThen (reject_if (cr_Status reservation \<noteq> ReservationPending) ErrReservationNotPending) (\<lambda>_.
     andThen time_now (\<lambda>now.
     andThen (reject_if (finalStatus = ReservationCommitted
         \<and> (case cr_ExpiresAt reservation of None \<Rightarrow> False | Some e \<Rightarrow> e \<le> now)) ErrReservationExpired) (\<lambda>_.
     andThen (CreditAccountRepo_GetByID (cr_AccountID reservation)) (\<lambda>account.
     andThen (reject_if (ca_Reserved account < cr_Amount reservation) ErrReservationNotPending) (\<lambda>_.
     andThen (restored_amount s reservation finalStatus now) (\<lambda>restoredAmount.
     settle_reservation account reservation restoredAmount finalStatus transactionType k now)))))))"

definition finalizeReservation ::
  "credit_service \<Rightarrow> CreditFinalizationInput \<Rightarrow> string \<Rightarrow> string \<Rightarrow> CreditMutationResult service" where
  "finalizeReservation s input finalStatus transactionType =
     (let reservationID = trim_space (fi_ReservationID input);
          k = trim_space (fi_IdempotencyKey input)
      in andThen (reject_if (reservationID = []) ErrReservationNotFound) (\<lambda>_.
         andThen (reject_if (k = []) ErrIdempotencyRequired) (\<lambda>_.
         withCreditTransaction s
           (if_found (CreditTransactionRepo_GetByIdempotencyKey k) replay_finalization
              (apply_finalization s reservationID k finalStatus transactionType)))))"

definition Commit :: "credit_service \<Rightarrow> CreditFinalizationInput \<Rightarrow> CreditMutationResult service" where
  "Commit s input = finalizeReservation s input ReservationCommitted TxCommit"

definition Release :: "credit_service \<Rightarrow> CreditFinalizationInput \<Rightarrow> CreditMutationResult service" where
  "Release s input = finalizeReservation s input ReservationReleased TxRelease"

section \<open>Queries\<close>

definition AccountForUser :: "string \<Rightarrow> CreditAccount service" where
  "AccountForUser userID =
     (let u = trim_space userID
      in andThen (reject_if (u = []) ErrUserNotFound) (\<lambda>_.
         not_found_as ErrCreditAccountNotFound (CreditAccountRepo_GetByUserID u)))"

definition ListTransactions :: "string \<Rightarrow> int \<Rightarrow> int \<Rightarrow> CreditTransaction list service" where
  "ListTransactions userID limit offset =
     (let u = trim_space userID
      in andThen (reject_if (u = []) ErrUserNotFound) (\<lambda>_.
         CreditTransactionRepo_ListByUser u limit offset))"

definition ListUsageRecords :: "UsageRecordQuery \<Rightarrow> UsageRecord list service" where
  "ListUsageRecords q =
     (let u = trim_space (uq_UserID q)
      in andThen (reject_if (u = []) ErrUserNotFound) (\<lambda>_.
         andThen (CreditReservationRepo_List
           \<lparr>rq_UserID = u, rq_FeatureID = trim_space (uq_FeatureID q),
            rq_Operation = trim_space (uq_Operation q), rq_ExecutionID = trim_space (uq_ExecutionID q),
            rq_Status = trim_space (uq_Status q), rq_Limit = uq_Limit q, rq_Offset = uq_Offset q\<rparr>) (\<lambda>rs.
         andThen (CreditTransactionRepo_ListByReservationIDs (List.map cr_ID rs)) (\<lambda>ts.
         ret (List.map (\<lambda>r. usageRecordFromReservation r
                (List.filter (\<lambda>t. ct_ReservationID t = cr_ID r) ts)) rs)))))"

end
