(* ===== verification/Credit_Ledger.thy ===== *)
theory Credit_Ledger
  imports Credit
begin

text \<open>
  The accounting invariant of the credit ledger.  At the end of every service call each
  account's balance is the sum of its transactions, its reserved amount is the sum of its
  pending reservations, each bucket's reserved part is the sum of the pending allocations
  to it, and the buckets of an account never hold more than its balance.  Between the
  writes of one call these equations are off by known amounts: \<open>credit_open k l r m bs\<close> is
  the invariant with the account \<open>k\<close> off by \<open>l\<close> (ledger), \<open>r\<close> (reserved) and \<open>m\<close> (bucket
  slack), and the buckets off by \<open>bs\<close>.  Each write moves these amounts; a call is correct
  when it brings them back to zero.
\<close>

section \<open>The invariant\<close>

definition account_ids :: "database \<Rightarrow> string set" where
  "account_ids d = ca_ID ` set (tb_accounts d)"

definition ledger_sum :: "database \<Rightarrow> string \<Rightarrow> int" where
  "ledger_sum d k = sum_rows (\<lambda>t. ct_AccountID t = k) ct_Amount (tb_transactions d)"

definition remaining_sum :: "database \<Rightarrow> string \<Rightarrow> int" where
  "remaining_sum d k = sum_rows (\<lambda>b. cb_AccountID b = k) cb_Remaining (tb_buckets d)"

definition pending_sum :: "database \<Rightarrow> string \<Rightarrow> int" where
  "pending_sum d k =
     sum_rows (\<lambda>r. cr_Status r = ReservationPending \<and> cr_AccountID r = k) cr_Amount (tb_reservations d)"

definition alloc_total :: "string \<Rightarrow> CreditBucketAllocation list \<Rightarrow> int" where
  "alloc_total i als = sum_rows (\<lambda>al. al_BucketID al = i) al_Amount als"

definition alloc_sum :: "database \<Rightarrow> string \<Rightarrow> int" where
  "alloc_sum d i =
     sum_rows (\<lambda>r. cr_Status r = ReservationPending) (\<lambda>r. alloc_total i (cr_BucketAllocations r))
       (tb_reservations d)"

definition credit_tables_ok :: "database \<Rightarrow> bool" where
  "credit_tables_ok d \<longleftrightarrow>
     table_ok account_clash (tb_accounts d) \<and> table_ok bucket_clash (tb_buckets d)
     \<and> table_ok reservation_clash (tb_reservations d) \<and> table_ok transaction_clash (tb_transactions d)"

definition account_ok :: "string \<Rightarrow> int \<Rightarrow> int \<Rightarrow> int \<Rightarrow> database \<Rightarrow> CreditAccount \<Rightarrow> bool" where
  "account_ok k l r m d a \<longleftrightarrow>
     ca_ID a \<noteq> [] \<and> 0 \<le> ca_Balance a \<and> 0 \<le> ca_Reserved a \<and> ca_Balance a + ca_Reserved a \<le> max_int64
     \<and> ca_Balance a = ledger_sum d (ca_ID a) + (if ca_ID a = k then l else 0)
     \<and> ca_Reserved a + (if ca_ID a = k then r else 0) = pending_sum d (ca_ID a)
     \<and> remaining_sum d (ca_ID a) \<le> ca_Balance a + (if ca_ID a = k then m else 0)"

text \<open>Identifiers as \<open>generateEntityID\<close> makes them: not empty, nothing to trim.\<close>

definition clean_id :: "string \<Rightarrow> bool" where
  "clean_id i \<longleftrightarrow> i \<noteq> [] \<and> trim_space i = i"

definition bucket_ok :: "(string \<Rightarrow> int) \<Rightarrow> database \<Rightarrow> CreditBucket \<Rightarrow> bool" where
  "bucket_ok bs d b \<longleftrightarrow>
     0 \<le> cb_Remaining b \<and> 0 \<le> cb_Reserved b
     \<and> cb_Remaining b + cb_Reserved b \<le> cb_Granted b \<and> cb_Granted b \<le> max_int64
     \<and> (cb_Status b \<noteq> BucketActive \<longrightarrow> cb_Remaining b = 0)
     \<and> cb_Reserved b + bs (cb_ID b) = alloc_sum d (cb_ID b)
     \<and> cb_AccountID b \<in> account_ids d \<and> clean_id (cb_ID b)"

definition bucket_of :: "database \<Rightarrow> string \<Rightarrow> string \<Rightarrow> bool" where
  "bucket_of d k i \<longleftrightarrow> (\<exists>b\<in>set (tb_buckets d). cb_ID b = i \<and> cb_AccountID b = k)"

definition reservation_ok :: "database \<Rightarrow> CreditReservation \<Rightarrow> bool" where
  "reservation_ok d r \<longleftrightarrow> cr_Status r = ReservationPending \<longrightarrow>
     cr_AccountID r \<in> account_ids d \<and> 0 < cr_Amount r \<and> cr_Amount r \<le> max_int64
     \<and> compactCreditBucketAllocations (cr_BucketAllocations r) = cr_BucketAllocations r
     \<and> sum_rows (\<lambda>_. True) al_Amount (cr_BucketAllocations r) \<le> cr_Amount r
     \<and> (\<forall>al\<in>set (cr_BucketAllocations r). bucket_of d (cr_AccountID r) (al_BucketID al))"

definition credit_open :: "string \<Rightarrow> int \<Rightarrow> int \<Rightarrow> int \<Rightarrow> (string \<Rightarrow> int) \<Rightarrow> database \<Rightarrow> bool" where
  "credit_open k l r m bs d \<longleftrightarrow>
     credit_tables_ok d
     \<and> (\<forall>t\<in>set (tb_transactions d). ct_AccountID t \<in> account_ids d)
     \<and> (\<forall>a\<in>set (tb_accounts d). account_ok k l r m d a)
     \<and> (\<forall>b\<in>set (tb_buckets d). bucket_ok bs d b)
     \<and> (\<forall>x\<in>set (tb_reservations d). reservation_ok d x)"

text \<open>The invariant of the stored ledger: nothing is off.\<close>

definition credit_inv :: "database \<Rightarrow> bool" where
  "credit_inv d \<longleftrightarrow> credit_open [] 0 0 0 (\<lambda>_. 0) d"

lemma credit_open_closed: "credit_open k 0 0 0 bs d = credit_open k' 0 0 0 bs d"
  by (simp add: credit_open_def account_ok_def)

lemma credit_inv_open: "credit_inv d \<longleftrightarrow> credit_open k 0 0 0 (\<lambda>_. 0) d"
  unfolding credit_inv_def by (rule credit_open_closed)

lemma credit_open_tables:
  assumes "credit_open k l r m bs d"
  shows "table_ok account_clash (tb_accounts d)" "table_ok bucket_clash (tb_buckets d)"
    "table_ok reservation_clash (tb_reservations d)" "table_ok transaction_clash (tb_transactions d)"
  using assms by (simp_all add: credit_open_def credit_tables_ok_def)

lemma credit_open_account: "credit_open k l r m bs d \<Longrightarrow> a \<in> set (tb_accounts d) \<Longrightarrow> account_ok k l r m d a"
  by (simp add: credit_open_def)

lemma credit_open_bucket: "credit_open k l r m bs d \<Longrightarrow> b \<in> set (tb_buckets d) \<Longrightarrow> bucket_ok bs d b"
  by (simp add: credit_open_def)

lemma credit_open_reservation:
  "credit_open k l r m bs d \<Longrightarrow> x \<in> set (tb_reservations d) \<Longrightarrow> reservation_ok d x"
  by (simp add: credit_open_def)

text \<open>A row with a given key was found: the saved row takes its place.\<close>

lemma account_saved:
  assumes "a0 \<in> set (tb_accounts d)" "ca_ID a = ca_ID a0"
    and "save_row ca_ID account_clash a (tb_accounts d) = Some t"
  shows "t = replace_row ca_ID a (tb_accounts d)"
  using assms accounts.find_row_None [of "ca_ID a" "tb_accounts d"]
  by (intro accounts.save_row_Some) auto

lemma bucket_saved:
  assumes "b0 \<in> set (tb_buckets d)" "cb_ID b = cb_ID b0"
    and "save_row cb_ID bucket_clash b (tb_buckets d) = Some t"
  shows "t = replace_row cb_ID b (tb_buckets d)"
  using assms buckets.find_row_None [of "cb_ID b" "tb_buckets d"]
  by (intro buckets.save_row_Some) auto

lemma reservation_saved:
  assumes "x0 \<in> set (tb_reservations d)" "cr_ID x = cr_ID x0"
    and "save_row cr_ID reservation_clash x (tb_reservations d) = Some t"
  shows "t = replace_row cr_ID x (tb_reservations d)"
  using assms reservations.find_row_None [of "cr_ID x" "tb_reservations d"]
  by (intro reservations.save_row_Some) auto

section \<open>What each write does to the invariant\<close>

lemma sums_tb_accounts [simp]:
  "ledger_sum (tb_accounts_update f d) = ledger_sum d"
  "remaining_sum (tb_accounts_update f d) = remaining_sum d"
  "pending_sum (tb_accounts_update f d) = pending_sum d"
  "alloc_sum (tb_accounts_update f d) = alloc_sum d"
  "bucket_of (tb_accounts_update f d) = bucket_of d"
  by (simp_all add: fun_eq_iff ledger_sum_def remaining_sum_def pending_sum_def alloc_sum_def bucket_of_def)

lemma sums_tb_buckets [simp]:
  "ledger_sum (tb_buckets_update f d) = ledger_sum d"
  "pending_sum (tb_buckets_update f d) = pending_sum d"
  "alloc_sum (tb_buckets_update f d) = alloc_sum d"
  "account_ids (tb_buckets_update f d) = account_ids d"
  by (simp_all add: fun_eq_iff ledger_sum_def pending_sum_def alloc_sum_def account_ids_def)

lemma sums_tb_reservations [simp]:
  "ledger_sum (tb_reservations_update f d) = ledger_sum d"
  "remaining_sum (tb_reservations_update f d) = remaining_sum d"
  "bucket_of (tb_reservations_update f d) = bucket_of d"
  "account_ids (tb_reservations_update f d) = account_ids d"
  by (simp_all add: fun_eq_iff ledger_sum_def remaining_sum_def bucket_of_def account_ids_def)

lemma sums_tb_transactions [simp]:
  "remaining_sum (tb_transactions_update f d) = remaining_sum d"
  "pending_sum (tb_transactions_update f d) = pending_sum d"
  "alloc_sum (tb_transactions_update f d) = alloc_sum d"
  "bucket_of (tb_transactions_update f d) = bucket_of d"
  "account_ids (tb_transactions_update f d) = account_ids d"
  by (simp_all add: fun_eq_iff remaining_sum_def pending_sum_def alloc_sum_def bucket_of_def account_ids_def)

lemma account_write:
  assumes inv: "credit_open k l r m bs d"
    and a0: "a0 \<in> set (tb_accounts d)" "ca_ID a0 = k" "ca_ID a = k"
    and sv: "save_row ca_ID account_clash a (tb_accounts d) = Some t"
    and rng: "0 \<le> ca_Balance a" "0 \<le> ca_Reserved a" "ca_Balance a + ca_Reserved a \<le> max_int64"
    and eqs: "l' = l + ca_Balance a - ca_Balance a0" "r' = r + ca_Reserved a0 - ca_Reserved a"
      "m' = m + ca_Balance a0 - ca_Balance a"
  shows "credit_open k l' r' m' bs (tb_accounts_update (\<lambda>_. t) d)"
    and "a \<in> set (tb_accounts (tb_accounts_update (\<lambda>_. t) d))"
    and "account_ids (tb_accounts_update (\<lambda>_. t) d) = account_ids d"
proof -
  have t: "t = replace_row ca_ID a (tb_accounts d)"
    by (rule account_saved [OF a0(1) _ sv]) (simp add: a0(2,3))
  have "a0 \<in> set (tb_accounts d) \<Longrightarrow> find_row ca_ID (ca_ID a) (tb_accounts d) \<noteq> None"
    using accounts.find_row_None [of "ca_ID a" "tb_accounts d"] a0(2,3) by metis
  then show mem: "a \<in> set (tb_accounts (tb_accounts_update (\<lambda>_. t) d))"
    using a0(1) by (simp add: t replace_row_mem)
  show ids: "account_ids (tb_accounts_update (\<lambda>_. t) d) = account_ids d"
    by (simp add: account_ids_def t keys_replace_row)
  have ok0: "account_ok k l r m d a0" by (rule credit_open_account [OF inv a0(1)])
  have acc: "account_ok k l' r' m' (tb_accounts_update (\<lambda>_. t) d) x"
    if "x \<in> set (replace_row ca_ID a (tb_accounts d))" for x
    using that
  proof (cases rule: replace_rowE)
    case 1
    then show ?thesis using ok0 rng a0 by (simp add: account_ok_def eqs)
  next
    case 2
    then show ?thesis using credit_open_account [OF inv 2(1)] a0 by (simp add: account_ok_def)
  qed
  have "table_ok account_clash t"
    using accounts.save_ok [OF credit_open_tables(1) [OF inv] sv] .
  with inv acc show "credit_open k l' r' m' bs (tb_accounts_update (\<lambda>_. t) d)"
    unfolding credit_open_def credit_tables_ok_def bucket_ok_def reservation_ok_def ids
    by (simp add: t)
qed

lemma account_insert:
  assumes inv: "credit_open k l r m bs d"
    and ins: "insert_row account_clash a (tb_accounts d) = Some t"
    and a: "ca_Balance a = 0" "ca_Reserved a = 0" "ca_ID a \<noteq> []"
    and k: "ca_ID a = k \<Longrightarrow> l = 0 \<and> r = 0 \<and> m = 0"
  shows "credit_open k l r m bs (tb_accounts_update (\<lambda>_. t) d)"
    and "a \<in> set (tb_accounts (tb_accounts_update (\<lambda>_. t) d))"
    and "account_ids (tb_accounts_update (\<lambda>_. t) d) = insert (ca_ID a) (account_ids d)"
proof -
  have t: "t = tb_accounts d @ [a]" and new: "\<forall>x\<in>set (tb_accounts d). \<not> account_clash x a"
    using ins by (simp_all add: accounts.insert_row_Some)
  then have fresh: "ca_ID a \<notin> account_ids d"
    by (auto simp: account_ids_def account_clash_def)
  show "a \<in> set (tb_accounts (tb_accounts_update (\<lambda>_. t) d))" by (simp add: t)
  show ids: "account_ids (tb_accounts_update (\<lambda>_. t) d) = insert (ca_ID a) (account_ids d)"
    by (simp add: account_ids_def t)
  have "ledger_sum d (ca_ID a) = 0"
    unfolding ledger_sum_def using inv fresh
    by (intro sum_rows_zero) (metis credit_open_def)
  moreover have "remaining_sum d (ca_ID a) = 0"
    unfolding remaining_sum_def using inv fresh
    by (intro sum_rows_zero) (metis credit_open_bucket bucket_ok_def)
  moreover have "pending_sum d (ca_ID a) = 0"
    unfolding pending_sum_def using inv fresh
    by (intro sum_rows_zero) (metis credit_open_reservation reservation_ok_def)
  ultimately have a_ok: "account_ok k l r m d a"
    using a k by (auto simp: account_ok_def max_int64_def)
  have acc: "account_ok k l r m (tb_accounts_update (\<lambda>_. t) d) x" if "x \<in> set t" for x
    using that a_ok credit_open_account [OF inv, of x] by (auto simp: t account_ok_def)
  have bucket: "bucket_ok bs (tb_accounts_update (\<lambda>_. t) d) b" if "b \<in> set (tb_buckets d)" for b
    using credit_open_bucket [OF inv that] by (simp add: bucket_ok_def ids)
  have res: "reservation_ok (tb_accounts_update (\<lambda>_. t) d) x" if "x \<in> set (tb_reservations d)" for x
    using credit_open_reservation [OF inv that] by (simp add: reservation_ok_def ids)
  have "table_ok account_clash t" using accounts.insert_ok [OF credit_open_tables(1) [OF inv] ins] .
  with inv acc bucket res show "credit_open k l r m bs (tb_accounts_update (\<lambda>_. t) d)"
    unfolding credit_open_def credit_tables_ok_def ids by simp
qed

lemma transaction_insert:
  assumes inv: "credit_open k l r m bs d"
    and ins: "insert_row transaction_clash x (tb_transactions d) = Some t"
    and x: "ct_AccountID x = k" "k \<in> account_ids d" and l': "l' = l - ct_Amount x"
  shows "credit_open k l' r m bs (tb_transactions_update (\<lambda>_. t) d)"
proof -
  have t: "t = tb_transactions d @ [x]" using ins by (simp add: transactions.insert_row_Some)
  have sum: "ledger_sum (tb_transactions_update (\<lambda>_. t) d) i
      = ledger_sum d i + (if i = k then ct_Amount x else 0)" for i
    using x(1) by (simp add: ledger_sum_def t)
  have acc: "account_ok k l' r m (tb_transactions_update (\<lambda>_. t) d) a" if "a \<in> set (tb_accounts d)" for a
    using credit_open_account [OF inv that]
    by (cases "ca_ID a = k") (simp_all add: account_ok_def sum l')
  have bucket: "bucket_ok bs (tb_transactions_update (\<lambda>_. t) d) b" if "b \<in> set (tb_buckets d)" for b
    using credit_open_bucket [OF inv that] by (simp add: bucket_ok_def)
  have res: "reservation_ok (tb_transactions_update (\<lambda>_. t) d) y" if "y \<in> set (tb_reservations d)" for y
    using credit_open_reservation [OF inv that] by (simp add: reservation_ok_def)
  have "table_ok transaction_clash t"
    using transactions.insert_ok [OF credit_open_tables(4) [OF inv] ins] .
  with inv acc bucket res x show ?thesis
    unfolding credit_open_def credit_tables_ok_def by (simp add: t)
qed

lemma bucket_of_replace:
  assumes "table_ok bucket_clash (tb_buckets d)"
    and "b0 \<in> set (tb_buckets d)" "cb_ID b = cb_ID b0" "cb_AccountID b = cb_AccountID b0"
    and "t = replace_row cb_ID b (tb_buckets d)" and "bucket_of d k i"
  shows "bucket_of (tb_buckets_update (\<lambda>_. t) d) k i"
proof -
  obtain x where x: "x \<in> set (tb_buckets d)" "cb_ID x = i" "cb_AccountID x = k"
    using assms(6) by (auto simp: bucket_of_def)
  show ?thesis
  proof (cases "i = cb_ID b")
    case True
    then have "x = b0"
      using assms(1-3) x buckets.same_row [of "tb_buckets d" x b0] buckets.key_clash by simp
    moreover have "b \<in> set t"
      unfolding assms(5) using assms(2,3) buckets.find_row_None [of "cb_ID b" "tb_buckets d"]
      by (intro replace_row_mem) metis
    ultimately show ?thesis using assms(4) x True by (auto simp: bucket_of_def)
  next
    case False
    with x have "x \<in> set t" unfolding assms(5) by (intro replace_row_other) simp_all
    with x show ?thesis by (auto simp: bucket_of_def)
  qed
qed

lemma bucket_write:
  assumes inv: "credit_open k l r m bs d"
    and b0: "b0 \<in> set (tb_buckets d)" "cb_ID b = cb_ID b0" "cb_AccountID b0 = k"
      "cb_AccountID b = cb_AccountID b0" "cb_Granted b = cb_Granted b0"
    and sv: "save_row cb_ID bucket_clash b (tb_buckets d) = Some t"
    and rng: "0 \<le> cb_Remaining b" "0 \<le> cb_Reserved b"
      "cb_Remaining b + cb_Reserved b \<le> cb_Remaining b0 + cb_Reserved b0"
      "cb_Status b \<noteq> BucketActive \<longrightarrow> cb_Remaining b = 0"
    and eqs: "m' = m + cb_Remaining b - cb_Remaining b0"
      "\<And>i. bs' i = bs i + (if i = cb_ID b0 then cb_Reserved b0 - cb_Reserved b else 0)"
  shows "credit_open k l r m' bs' (tb_buckets_update (\<lambda>_. t) d)"
    and "remaining_sum (tb_buckets_update (\<lambda>_. t) d) k
      = remaining_sum d k + cb_Remaining b - cb_Remaining b0"
    and "tb_buckets (tb_buckets_update (\<lambda>_. t) d) = replace_row cb_ID b (tb_buckets d)"
proof -
  note tab = credit_open_tables(2) [OF inv]
  have t: "t = replace_row cb_ID b (tb_buckets d)" by (rule bucket_saved [OF b0(1,2) sv])
  then show "tb_buckets (tb_buckets_update (\<lambda>_. t) d) = replace_row cb_ID b (tb_buckets d)" by simp
  have sum: "remaining_sum (tb_buckets_update (\<lambda>_. t) d) i
      = remaining_sum d i + (if i = k then cb_Remaining b - cb_Remaining b0 else 0)" for i
    using buckets.sum_rows_replace [OF tab b0(1), of b] b0
    by (simp add: remaining_sum_def t)
  then show "remaining_sum (tb_buckets_update (\<lambda>_. t) d) k
      = remaining_sum d k + cb_Remaining b - cb_Remaining b0" by simp
  have of: "bucket_of d a i \<Longrightarrow> bucket_of (tb_buckets_update (\<lambda>_. t) d) a i" for a i
    by (rule bucket_of_replace [OF tab b0(1,2,4) t])
  have ok0: "bucket_ok bs d b0" by (rule credit_open_bucket [OF inv b0(1)])
  have bucket: "bucket_ok bs' (tb_buckets_update (\<lambda>_. t) d) x" if "x \<in> set t" for x
    using that [unfolded t]
  proof (cases rule: replace_rowE)
    case 1
    then show ?thesis using ok0 rng b0 by (simp add: bucket_ok_def eqs)
  next
    case 2
    then show ?thesis using credit_open_bucket [OF inv 2(1)] b0 by (simp add: bucket_ok_def eqs)
  qed
  have acc: "account_ok k l r m' (tb_buckets_update (\<lambda>_. t) d) a" if "a \<in> set (tb_accounts d)" for a
    using credit_open_account [OF inv that]
    by (cases "ca_ID a = k") (simp_all add: account_ok_def sum eqs)
  have res: "reservation_ok (tb_buckets_update (\<lambda>_. t) d) y" if "y \<in> set (tb_reservations d)" for y
    using credit_open_reservation [OF inv that] of by (simp add: reservation_ok_def)
  have "table_ok bucket_clash t" using buckets.save_ok [OF tab sv] .
  with inv acc bucket res show "credit_open k l r m' bs' (tb_buckets_update (\<lambda>_. t) d)"
    unfolding credit_open_def credit_tables_ok_def by simp
qed

lemma bucket_insert:
  assumes inv: "credit_open k l r m bs d"
    and ins: "insert_row bucket_clash b (tb_buckets d) = Some t"
    and b: "cb_AccountID b = k" "k \<in> account_ids d" "0 \<le> cb_Remaining b" "cb_Reserved b = 0"
      "cb_Remaining b \<le> cb_Granted b" "cb_Granted b \<le> max_int64" "cb_Status b = BucketActive"
      "clean_id (cb_ID b)"
    and bs: "bs (cb_ID b) = 0" and m': "m' = m + cb_Remaining b"
  shows "credit_open k l r m' bs (tb_buckets_update (\<lambda>_. t) d)"
proof -
  have t: "t = tb_buckets d @ [b]" and new: "\<forall>x\<in>set (tb_buckets d). \<not> bucket_clash x b"
    using ins by (simp_all add: buckets.insert_row_Some)
  have sum: "remaining_sum (tb_buckets_update (\<lambda>_. t) d) i
      = remaining_sum d i + (if i = k then cb_Remaining b else 0)" for i
    using b(1) by (simp add: remaining_sum_def t)
  have none: "\<not> bucket_of d a (cb_ID b)" for a
    using new by (auto simp: bucket_of_def bucket_clash_def)
  have "alloc_total (cb_ID b) (cr_BucketAllocations x) = 0"
    if x: "x \<in> set (tb_reservations d)" "cr_Status x = ReservationPending" for x
    unfolding alloc_total_def
    using credit_open_reservation [OF inv x(1)] x(2) none
    by (intro sum_rows_zero) (auto simp: reservation_ok_def)
  then have "alloc_sum d (cb_ID b) = 0"
    by (simp add: alloc_sum_def sum_rows_zero)
  with b bs have b_ok: "bucket_ok bs (tb_buckets_update (\<lambda>_. t) d) b"
    by (simp add: bucket_ok_def)
  have bucket: "bucket_ok bs (tb_buckets_update (\<lambda>_. t) d) x" if "x \<in> set t" for x
    using that b_ok credit_open_bucket [OF inv, of x] by (auto simp: t bucket_ok_def)
  have of: "bucket_of d a i \<Longrightarrow> bucket_of (tb_buckets_update (\<lambda>_. t) d) a i" for a i
    by (auto simp: bucket_of_def t)
  have acc: "account_ok k l r m' (tb_buckets_update (\<lambda>_. t) d) a" if "a \<in> set (tb_accounts d)" for a
    using credit_open_account [OF inv that]
    by (cases "ca_ID a = k") (simp_all add: account_ok_def sum m')
  have res: "reservation_ok (tb_buckets_update (\<lambda>_. t) d) y" if "y \<in> set (tb_reservations d)" for y
    using credit_open_reservation [OF inv that] of by (simp add: reservation_ok_def)
  have "table_ok bucket_clash t" using buckets.insert_ok [OF credit_open_tables(2) [OF inv] ins] .
  with inv acc bucket res show ?thesis
    unfolding credit_open_def credit_tables_ok_def by simp
qed

lemma reservation_insert:
  assumes inv: "credit_open k l r m bs d"
    and ins: "insert_row reservation_clash x (tb_reservations d) = Some t"
    and x: "cr_AccountID x = k" "cr_Status x = ReservationPending" "reservation_ok d x"
    and eqs: "r' = r + cr_Amount x"
      "\<And>i. bs' i = bs i + alloc_total i (cr_BucketAllocations x)"
  shows "credit_open k l r' m bs' (tb_reservations_update (\<lambda>_. t) d)"
proof -
  have t: "t = tb_reservations d @ [x]" using ins by (simp add: reservations.insert_row_Some)
  have sum: "pending_sum (tb_reservations_update (\<lambda>_. t) d) i
        = pending_sum d i + (if i = k then cr_Amount x else 0)"
    "alloc_sum (tb_reservations_update (\<lambda>_. t) d) i
        = alloc_sum d i + alloc_total i (cr_BucketAllocations x)" for i
    using x(1,2) by (simp_all add: pending_sum_def alloc_sum_def t)
  have acc: "account_ok k l r' m (tb_reservations_update (\<lambda>_. t) d) a" if "a \<in> set (tb_accounts d)" for a
    using credit_open_account [OF inv that]
    by (cases "ca_ID a = k") (simp_all add: account_ok_def sum eqs)
  have bucket: "bucket_ok bs' (tb_reservations_update (\<lambda>_. t) d) b" if "b \<in> set (tb_buckets d)" for b
    using credit_open_bucket [OF inv that] by (simp add: bucket_ok_def sum eqs)
  have res: "reservation_ok (tb_reservations_update (\<lambda>_. t) d) y" if "y \<in> set t" for y
    using that x(3) credit_open_reservation [OF inv, of y] by (auto simp: t reservation_ok_def)
  have "table_ok reservation_clash t"
    using reservations.insert_ok [OF credit_open_tables(3) [OF inv] ins] .
  with inv acc bucket res show ?thesis
    unfolding credit_open_def credit_tables_ok_def by simp
qed

lemma reservation_finalize:
  assumes inv: "credit_open k l r m bs d"
    and x0: "x0 \<in> set (tb_reservations d)" "cr_ID x = cr_ID x0" "cr_Status x0 = ReservationPending"
      "cr_AccountID x0 = k" "cr_Status x \<noteq> ReservationPending"
    and sv: "save_row cr_ID reservation_clash x (tb_reservations d) = Some t"
    and eqs: "r' = r - cr_Amount x0"
      "\<And>i. bs' i = bs i - alloc_total i (cr_BucketAllocations x0)"
  shows "credit_open k l r' m bs' (tb_reservations_update (\<lambda>_. t) d)"
proof -
  note tab = credit_open_tables(3) [OF inv]
  have t: "t = replace_row cr_ID x (tb_reservations d)" by (rule reservation_saved [OF x0(1,2) sv])
  have sum: "pending_sum (tb_reservations_update (\<lambda>_. t) d) i
        = pending_sum d i - (if i = k then cr_Amount x0 else 0)"
    "alloc_sum (tb_reservations_update (\<lambda>_. t) d) i
        = alloc_sum d i - alloc_total i (cr_BucketAllocations x0)" for i
    using reservations.sum_rows_replace [OF tab x0(1), of x] x0
    by (simp_all add: pending_sum_def alloc_sum_def t)
  have acc: "account_ok k l r' m (tb_reservations_update (\<lambda>_. t) d) a" if "a \<in> set (tb_accounts d)" for a
    using credit_open_account [OF inv that]
    by (cases "ca_ID a = k") (simp_all add: account_ok_def sum eqs)
  have bucket: "bucket_ok bs' (tb_reservations_update (\<lambda>_. t) d) b" if "b \<in> set (tb_buckets d)" for b
    using credit_open_bucket [OF inv that] by (simp add: bucket_ok_def sum eqs)
  have res: "reservation_ok (tb_reservations_update (\<lambda>_. t) d) y" if "y \<in> set t" for y
    using that [unfolded t]
  proof (cases rule: replace_rowE)
    case 1
    then show ?thesis using x0 by (simp add: reservation_ok_def)
  next
    case 2
    then show ?thesis using credit_open_reservation [OF inv 2(1)] by (simp add: reservation_ok_def)
  qed
  have "table_ok reservation_clash t" using reservations.save_ok [OF tab sv] .
  with inv acc bucket res show ?thesis
    unfolding credit_open_def credit_tables_ok_def by simp
qed

text \<open>The bucket slack of an account may be replaced by what holds of it.\<close>

lemma credit_open_slack:
  assumes "credit_open k l r m bs d" "a \<in> set (tb_accounts d)" "ca_ID a = k"
    and "remaining_sum d k \<le> ca_Balance a + m'"
  shows "credit_open k l r m' bs d"
proof -
  have "x = a" if "x \<in> set (tb_accounts d)" "ca_ID x = k" for x
    using accounts.same_row [OF credit_open_tables(1) [OF assms(1)] that(1) assms(2)]
      accounts.key_clash [of x a] that(2) assms(3) by simp
  then have "account_ok k l r m' d x" if "x \<in> set (tb_accounts d)" for x
    using credit_open_account [OF assms(1) that] that assms(3,4)
    by (cases "ca_ID x = k") (auto simp: account_ok_def)
  with assms(1) show ?thesis by (simp add: credit_open_def)
qed

section \<open>Identifiers and allocations\<close>

lemma clean_id_append:
  assumes "p \<noteq> []" "\<not> is_space (hd p)" "\<not> is_space (last (p @ h))"
  shows "clean_id (p @ h)"
proof -
  obtain c p' where p: "p = c # p'" using assms(1) by (cases p) auto
  obtain q e where q: "p @ h = q @ [e]"
    using assms(1) by (cases "p @ h" rule: rev_cases) auto
  have "dropWhile is_space (p @ h) = p @ h" using assms(2) by (simp add: p)
  moreover have "dropWhile is_space (rev (p @ h)) = rev (p @ h)" using assms(3) by (simp add: q)
  ultimately have "trim_space (p @ h) = p @ h" by (simp add: trim_space_def)
  with assms(1) show ?thesis by (simp add: clean_id_def)
qed

lemma hex_digit_not_space: "n < 16 \<Longrightarrow> \<not> is_space (hex_digit n)"
  by (simp add: less_Suc_eq numeral_eq_Suc)
    (elim disjE; simp add: hex_digit_def is_space_def char_of_eq_iff)

lemma hex_encode_not_space: "c \<in> set (hex_encode bs) \<Longrightarrow> \<not> is_space c"
proof -
  assume "c \<in> set (hex_encode bs)"
  then obtain b :: "8 word" where "c = hex_digit (unat b div 16) \<or> c = hex_digit (unat b mod 16)"
    by (auto simp: hex_encode_def)
  moreover have "unat b div 16 < 16"
    using unsigned_less [of b, where ?'a = nat] by (simp add: less_mult_imp_div_less)
  ultimately show ?thesis using hex_digit_not_space by fastforce
qed

lemma clean_bucket_id: "clean_id (''crb_'' @ hex_encode bs)"
proof (rule clean_id_append)
  show "\<not> is_space (last (''crb_'' @ hex_encode bs))"
    using hex_encode_not_space [of "last (hex_encode bs)" bs]
    by (cases "hex_encode bs = []") (simp_all add: is_space_def del: append.simps)
qed (simp_all add: is_space_def)

lemma compact_idem [simp]:
  "compactCreditBucketAllocations (compactCreditBucketAllocations als) = compactCreditBucketAllocations als"
  by (induction als) (auto simp: Let_def)

lemma compact_clean:
  "\<forall>al\<in>set als. clean_id (al_BucketID al) \<and> 0 < al_Amount al \<Longrightarrow> compactCreditBucketAllocations als = als"
  by (induction als) (auto simp: Let_def clean_id_def)

lemma compact_member:
  "al \<in> set (compactCreditBucketAllocations als) \<Longrightarrow> clean_id (al_BucketID al) \<and> 0 < al_Amount al"
  by (induction als) (auto simp: Let_def clean_id_def split: if_splits)

abbreviation alloc_amounts :: "CreditBucketAllocation list \<Rightarrow> int" where
  "alloc_amounts als \<equiv> sum_rows (\<lambda>_. True) al_Amount als"

lemma alloc_amounts_nonneg: "\<forall>al\<in>set als. 0 < al_Amount al \<Longrightarrow> 0 \<le> alloc_amounts als"
  by (intro sum_rows_nonneg) auto

lemma total_loop_sum:
  assumes "\<forall>al\<in>set als. 0 < al_Amount al" "0 \<le> acc" "acc + alloc_amounts als \<le> max_int64"
  shows "total_loop acc als = acc + alloc_amounts als"
  using assms
proof (induction als arbitrary: acc)
  case Nil
  then show ?case by simp
next
  case (Cons al als)
  have "0 \<le> alloc_amounts als" using Cons.prems by (intro alloc_amounts_nonneg) simp
  with Cons show ?case by simp
qed

lemma total_allocation_amount:
  assumes "\<forall>al\<in>set als. 0 < al_Amount al" "alloc_amounts als \<le> max_int64"
    and "compactCreditBucketAllocations als = als"
  shows "totalCreditBucketAllocationAmount als = alloc_amounts als"
  using total_loop_sum [of als 0] assms by (simp add: totalCreditBucketAllocationAmount_def)

text \<open>The greedy loop takes what is asked for or all there is, from each bucket at most what it holds.\<close>

lemma allocate_loop_facts:
  assumes "\<forall>b\<in>set bs. 0 < cb_Remaining b" "0 \<le> amount" "amount \<le> max_int64"
  shows "alloc_amounts (allocate_loop bs amount) = min amount (sum_rows (\<lambda>_. True) cb_Remaining bs)"
    and "\<forall>al\<in>set (allocate_loop bs amount). 0 < al_Amount al
      \<and> (\<exists>b\<in>set bs. cb_ID b = al_BucketID al \<and> al_Amount al \<le> cb_Remaining b)"
proof -
  have "alloc_amounts (allocate_loop bs amount) = min amount (sum_rows (\<lambda>_. True) cb_Remaining bs)
    \<and> (\<forall>al\<in>set (allocate_loop bs amount). 0 < al_Amount al
      \<and> (\<exists>b\<in>set bs. cb_ID b = al_BucketID al \<and> al_Amount al \<le> cb_Remaining b))"
    using assms
  proof (induction bs arbitrary: amount)
    case Nil
    then show ?case by simp
  next
    case (Cons b bs)
    have tl: "0 \<le> sum_rows (\<lambda>_. True) cb_Remaining bs"
      using Cons.prems(1) by (intro sum_rows_nonneg) auto
    show ?case
    proof (cases "amount = 0")
      case True
      with tl Cons.prems show ?thesis by (simp add: min_def)
    next
      case False
      define used where "used = min (cb_Remaining b) amount"
      have used: "0 < used" "used \<le> amount" "used \<le> cb_Remaining b"
        using False Cons.prems by (auto simp: used_def)
      have w: "wrap64 (amount - used) = amount - used"
        using used Cons.prems by (intro wrap64_nonneg_id) auto
      have step: "allocate_loop (b # bs) amount
          = \<lparr>al_BucketID = cb_ID b, al_Amount = used\<rparr> # allocate_loop bs (amount - used)"
        using False Cons.prems(2) w used(1) by (simp add: Let_def minInt64_min flip: used_def)
      have ih: "alloc_amounts (allocate_loop bs (amount - used))
            = min (amount - used) (sum_rows (\<lambda>_. True) cb_Remaining bs)"
          "\<forall>al\<in>set (allocate_loop bs (amount - used)). 0 < al_Amount al
            \<and> (\<exists>b\<in>set bs. cb_ID b = al_BucketID al \<and> al_Amount al \<le> cb_Remaining b)"
        using Cons.IH [of "amount - used"] Cons.prems used by auto
      have "used + min (amount - used) (sum_rows (\<lambda>_. True) cb_Remaining bs)
          = min amount (cb_Remaining b + sum_rows (\<lambda>_. True) cb_Remaining bs)"
        using tl by (auto simp: used_def min_def)
      with ih used show ?thesis unfolding step by auto
    qed
  qed
  then show "alloc_amounts (allocate_loop bs amount) = min amount (sum_rows (\<lambda>_. True) cb_Remaining bs)"
    "\<forall>al\<in>set (allocate_loop bs amount). 0 < al_Amount al
      \<and> (\<exists>b\<in>set bs. cb_ID b = al_BucketID al \<and> al_Amount al \<le> cb_Remaining b)"
    by simp_all
qed

lemma sum_rows_image_mset: "sum_rows p f xs = sum_mset (image_mset (\<lambda>r. if p r then f r else 0) (mset xs))"
  by (induction xs) simp_all

lemma sum_rows_mset: "mset xs = mset ys \<Longrightarrow> sum_rows p f xs = sum_rows p f ys"
  by (simp add: sum_rows_image_mset)

lemma sum_rows_filter: "sum_rows p f (List.filter q rs) = sum_rows (\<lambda>r. q r \<and> p r) f rs"
  by (induction rs) auto

lemma allocate_facts:
  assumes "\<forall>b\<in>set bs. creditBucketAvailableAt b now" "0 < amount" "amount \<le> max_int64"
  shows "alloc_amounts (earliestExpiring_Allocate bs amount now)
      = min amount (sum_rows (\<lambda>_. True) cb_Remaining bs)"
    and "\<forall>al\<in>set (earliestExpiring_Allocate bs amount now). 0 < al_Amount al
      \<and> (\<exists>b\<in>set bs. cb_ID b = al_BucketID al \<and> al_Amount al \<le> cb_Remaining b)"
proof -
  let ?s = "sort_key bucket_rank bs"
  have eq: "earliestExpiring_Allocate bs amount now = allocate_loop ?s amount"
    using assms by (simp add: earliestExpiring_Allocate_def filter_True)
  have pos: "\<forall>b\<in>set ?s. 0 < cb_Remaining b"
    using assms(1) by (simp add: creditBucketAvailableAt_def)
  have "sum_rows (\<lambda>_. True) cb_Remaining ?s = sum_rows (\<lambda>_. True) cb_Remaining bs"
    by (rule sum_rows_mset) simp
  then show "alloc_amounts (earliestExpiring_Allocate bs amount now)
      = min amount (sum_rows (\<lambda>_. True) cb_Remaining bs)"
    using allocate_loop_facts(1) [OF pos, of amount] assms(2,3) by (simp add: eq)
  show "\<forall>al\<in>set (earliestExpiring_Allocate bs amount now). 0 < al_Amount al
      \<and> (\<exists>b\<in>set bs. cb_ID b = al_BucketID al \<and> al_Amount al \<le> cb_Remaining b)"
    using allocate_loop_facts(2) [OF pos, of amount] assms(2,3) by (simp add: eq)
qed

section \<open>Accounts, transactions, expiry\<close>

definition holds_account :: "string \<Rightarrow> CreditAccount \<Rightarrow> database \<Rightarrow> bool" where
  "holds_account k a d \<longleftrightarrow> a \<in> set (tb_accounts d) \<and> ca_ID a = k"

lemma holds_account_id: "holds_account k a d \<Longrightarrow> k \<in> account_ids d"
  by (auto simp: holds_account_def account_ids_def)

lemma holds_account_ok: "credit_open k l r m bs d \<Longrightarrow> holds_account k a d \<Longrightarrow> account_ok k l r m d a"
  by (simp add: holds_account_def credit_open_account)

lemma holds_account_frame [simp]:
  "holds_account k a (tb_buckets_update f d) = holds_account k a d"
  "holds_account k a (tb_reservations_update g d) = holds_account k a d"
  "holds_account k a (tb_transactions_update h d) = holds_account k a d"
  by (simp_all add: holds_account_def)

lemma found_account: "find_row ca_ID k (tb_accounts d) = Some a \<Longrightarrow> holds_account k a d"
  using accounts.find_row_Some by (simp add: holds_account_def)

text \<open>An account with all sums zero may be added without opening anything.\<close>

lemma wlp_ensureCreditAccount:
  assumes inv: "credit_inv d"
    and post: "\<And>a d'. credit_inv d' \<Longrightarrow> holds_account (ca_ID a) a d' \<Longrightarrow> ca_UserID a = userID
      \<Longrightarrow> (d' = d \<or> d' = tb_accounts_update (\<lambda>t. t @ [a]) d \<and> ca_Balance a = 0 \<and> ca_Reserved a = 0)
      \<Longrightarrow> Q a d'"
  shows "wlp (ensureCreditAccount userID) Q d"
  unfolding ensureCreditAccount_def CreditAccountRepo_GetByUserID_def CreditAccountRepo_Create_def Let_def
proof (intro wlp_intros)
  fix a
  assume "find_row ca_UserID userID (tb_accounts d) = Some a"
  then have "a \<in> set (tb_accounts d) \<and> ca_UserID a = userID"
    by (auto simp: find_row_def find_Some_iff)
  with inv show "Q a d" by (intro post) (simp_all add: holds_account_def)
next
  fix bs now t
  let ?a = "\<lparr>ca_ID = ''cra_'' @ hex_encode bs, ca_UserID = userID, ca_Balance = 0, ca_Reserved = 0,
    ca_CreatedAt = now, ca_UpdatedAt = now\<rparr>"
  assume ins: "insert_row account_clash ?a (tb_accounts d) = Some t"
  have t: "t = tb_accounts d @ [?a]" using ins by (simp add: accounts.insert_row_Some)
  have "credit_open [] 0 0 0 (\<lambda>_. 0) (tb_accounts_update (\<lambda>_. t) d)"
    by (rule account_insert(1) [OF inv [unfolded credit_inv_def] ins]) simp_all
  moreover have "tb_accounts_update (\<lambda>_. t) d = tb_accounts_update (\<lambda>t. t @ [?a]) d"
    by (simp add: t)
  ultimately show "Q ?a (tb_accounts_update (\<lambda>_. t) d)"
    by (intro post) (simp_all add: credit_inv_def holds_account_def)
qed

lemma wlp_newCreditTransaction:
  assumes inv: "credit_open k l r m bs d" "ca_ID (ti_Account i) = k" "ti_Amount i = amt"
    and known: "k \<in> account_ids d"
    and post: "\<And>x t. t = tb_transactions d @ [x] \<Longrightarrow> ct_AccountID x = k \<Longrightarrow> ct_Amount x = amt
      \<Longrightarrow> ct_IdempotencyKey x = ti_IdempotencyKey i \<Longrightarrow> ct_ReservationID x = ti_ReservationID i
      \<Longrightarrow> credit_open k (l - amt) r m bs (tb_transactions_update (\<lambda>_. t) d)
      \<Longrightarrow> ct_Type x = ti_TransactionType i
      \<Longrightarrow> Q x (tb_transactions_update (\<lambda>_. t) d)"
  shows "wlp (newCreditTransaction i) Q d"
  unfolding newCreditTransaction_def CreditTransactionRepo_Create_def Let_def
proof (intro wlp_intros)
  fix bs' t
  let ?x = "\<lparr>ct_ID = ''ctx_'' @ hex_encode bs', ct_AccountID = ca_ID (ti_Account i),
    ct_UserID = ca_UserID (ti_Account i), ct_ReservationID = ti_ReservationID i,
    ct_BucketID = ti_BucketID i, ct_Type = ti_TransactionType i, ct_Amount = ti_Amount i,
    ct_BalanceAfter = ca_Balance (ti_Account i), ct_ReservedAfter = ca_Reserved (ti_Account i),
    ct_IdempotencyKey = ti_IdempotencyKey i, ct_Source = ti_Source i,
    ct_Description = ti_Description i, ct_CreatedAt = ti_CreatedAt i\<rparr>"
  assume ins: "insert_row transaction_clash ?x (tb_transactions d) = Some t"
  then have t: "t = tb_transactions d @ [?x]" by (simp add: transactions.insert_row_Some)
  show "Q ?x (tb_transactions_update (\<lambda>_. t) d)"
    by (rule post [OF t])
      (use inv known in \<open>simp_all add: transaction_insert [OF inv(1) ins]\<close>)
qed

text \<open>
  Expiring one active bucket takes what it still holds from the account and writes the
  matching transaction; other accounts and buckets are untouched.
\<close>

definition expired_step ::
  "CreditAccount \<Rightarrow> CreditBucket \<Rightarrow> instant \<Rightarrow> database
     \<Rightarrow> CreditAccount \<times> CreditBucket \<times> CreditTransaction \<times> int \<Rightarrow> database \<Rightarrow> bool" where
  "expired_step account0 bucket0 now d res d' \<longleftrightarrow>
     (case res of (account, bucket, transaction, amount) \<Rightarrow>
        amount = cb_Remaining bucket0
        \<and> account = account0\<lparr>ca_Balance := ca_Balance account0 - amount, ca_UpdatedAt := now\<rparr>
        \<and> bucket = bucket0\<lparr>cb_Remaining := 0, cb_Status := BucketExpired, cb_UpdatedAt := now\<rparr>
        \<and> ct_Amount transaction = - amount \<and> ct_AccountID transaction = ca_ID account0
        \<and> ct_Type transaction = TxExpire
        \<and> tb_accounts d' = replace_row ca_ID account (tb_accounts d)
        \<and> tb_buckets d' = replace_row cb_ID bucket (tb_buckets d)
        \<and> tb_reservations d' = tb_reservations d
        \<and> tb_transactions d' = tb_transactions d @ [transaction])"

lemma wlp_expireCreditBucket:
  assumes inv: "credit_inv d" and a0: "holds_account k a0 d"
    and b0: "b0 \<in> set (tb_buckets d)" "cb_AccountID b0 = k" "0 < cb_Remaining b0"
    and post: "\<And>res d'. credit_inv d' \<Longrightarrow> expired_step a0 b0 now d res d' \<Longrightarrow> Q res d'"
  shows "wlp (expireCreditBucket a0 b0 now) Q d"
proof -
  let ?e = "cb_Remaining b0"
  let ?a = "a0\<lparr>ca_Balance := ca_Balance a0 - ?e, ca_UpdatedAt := now\<rparr>"
  let ?b = "b0\<lparr>cb_Remaining := 0, cb_Status := BucketExpired, cb_UpdatedAt := now\<rparr>"
  have open0: "credit_open k 0 0 0 (\<lambda>_. 0) d" using inv by (simp add: credit_inv_open [of d k])
  have b_ok: "bucket_ok (\<lambda>_. 0) d b0" by (rule credit_open_bucket [OF open0 b0(1)])
  have a_ok: "account_ok k 0 0 0 d a0" by (rule holds_account_ok [OF open0 a0])
  have "?e \<le> remaining_sum d k"
    unfolding remaining_sum_def
  proof (rule sum_rows_member_le [OF b0(1)])
    show "0 \<le> cb_Remaining x" if "x \<in> set (tb_buckets d)" for x
      using credit_open_bucket [OF open0 that] by (simp add: bucket_ok_def)
  qed (rule b0(2))
  with a_ok a0 have e: "?e \<le> ca_Balance a0"
    by (simp add: account_ok_def holds_account_def)
  have bal: "0 \<le> ca_Balance a0 - ?e" "ca_Balance a0 - ?e \<le> max_int64" "?e \<le> max_int64"
    using a_ok b0(3) e by (simp_all add: account_ok_def)
  have guards: "(if ca_Balance a0 < ?e then ca_Balance a0 else ?e) = ?e" "(if ?e < 0 then 0 else ?e) = ?e"
    "wrap64 (ca_Balance a0 - ?e) = ca_Balance a0 - ?e" "wrap64 (- ?e) = - ?e"
    using e b0(3) bal by simp_all
  have id: "ca_ID a0 = k" using a0 by (simp add: holds_account_def)
  show ?thesis
    unfolding expireCreditBucket_def Let_def guards
  proof (intro wlp_intros, simp_all only: b0(3) if_True simp_thms not_True_eq_False,
      unfold CreditAccountRepo_Update_def CreditBucketRepo_Update_def, intro wlp_intros)
    fix ta tb
    let ?d1 = "tb_accounts_update (\<lambda>_. ta) d"
    let ?d2 = "tb_buckets_update (\<lambda>_. tb) ?d1"
    assume ta: "save_row ca_ID account_clash ?a (tb_accounts d) = Some ta"
      and tb: "save_row cb_ID bucket_clash ?b (tb_buckets ?d1) = Some tb"
    have a0m: "a0 \<in> set (tb_accounts d)" using a0 by (simp add: holds_account_def)
    note w1 = account_write [OF open0 a0m id _ ta, of "- ?e" 0 ?e]
    have open1: "credit_open k (- ?e) 0 ?e (\<lambda>_. 0) ?d1"
      by (rule w1(1)) (use a_ok bal id b0(3) in \<open>simp_all add: account_ok_def\<close>)
    have ids1: "account_ids ?d1 = account_ids d"
      by (rule w1(3)) (use a_ok bal id b0(3) in \<open>simp_all add: account_ok_def\<close>)
    have b1: "b0 \<in> set (tb_buckets ?d1)" using b0 by simp
    note w2 = bucket_write [OF open1 b1, of ?b tb 0 "\<lambda>_. 0"]
    have open2: "credit_open k (- ?e) 0 0 (\<lambda>_. 0) ?d2"
      by (rule w2(1)) (use tb b0 b_ok in \<open>simp_all add: bucket_ok_def\<close>)
    have ta': "ta = replace_row ca_ID ?a (tb_accounts d)"
      by (rule account_saved [OF a0m _ ta]) simp
    have tb': "tb = replace_row cb_ID ?b (tb_buckets d)"
      by (rule bucket_saved [OF b0(1) _ tb [simplified]]) simp
    have known: "k \<in> account_ids ?d2" using ids1 holds_account_id [OF a0] by simp
    let ?i = "\<lparr>ti_Account = ?a, ti_ReservationID = [], ti_BucketID = cb_ID ?b,
        ti_TransactionType = TxExpire, ti_Amount = - ?e, ti_IdempotencyKey = creditBucketExpireKey ?b,
        ti_Source = ''credit_bucket_expiry'', ti_Description = ''expire credit bucket'',
        ti_CreatedAt = now\<rparr>"
    show "wlp (newCreditTransaction ?i) (\<lambda>x. wlp (ret (?a, ?b, x, ?e)) Q) ?d2"
    proof (rule wlp_newCreditTransaction [OF open2 _ _ known])
      fix x t
      let ?d3 = "tb_transactions_update (\<lambda>_. t) ?d2"
      assume t: "t = tb_transactions ?d2 @ [x]" and amt: "ct_Amount x = - ?e"
        and owner: "ct_AccountID x = k" "ct_Type x = ti_TransactionType ?i"
        and open3: "credit_open k (- ?e - - ?e) 0 0 (\<lambda>_. 0) ?d3"
      from open3 have "credit_inv ?d3" by (simp add: credit_inv_open [of _ k])
      moreover have "expired_step a0 b0 now d (?a, ?b, x, ?e) ?d3"
        using amt owner id by (simp add: expired_step_def t ta' tb')
      ultimately show "wlp (ret (?a, ?b, x, ?e)) Q ?d3" by (intro wlp_ret post)
    qed (simp_all add: id)
  qed
qed

lemma expired_step_keeps:
  assumes step: "expired_step a0 b0 now d (a, b, x, e) d'"
    and a0: "holds_account k a0 d" and b0: "b0 \<in> set (tb_buckets d)"
  shows "holds_account k a d'"
    and "y \<in> set (tb_accounts d) \<Longrightarrow> ca_ID y \<noteq> k \<Longrightarrow> y \<in> set (tb_accounts d')"
    and "z \<in> set (tb_buckets d) \<Longrightarrow> cb_ID z \<noteq> cb_ID b0 \<Longrightarrow> z \<in> set (tb_buckets d')"
    and "z \<in> set (tb_buckets d') \<Longrightarrow> 0 < cb_Remaining z \<Longrightarrow> z \<in> set (tb_buckets d) \<and> cb_ID z \<noteq> cb_ID b0"
    and "account_ids d' = account_ids d" and "ca_UserID a = ca_UserID a0"
    and "tb_reservations d' = tb_reservations d"
proof -
  have a: "ca_ID a = k" "a0 \<in> set (tb_accounts d)" "ca_ID a0 = k"
    using step a0 by (simp_all add: expired_step_def holds_account_def)
  then have "find_row ca_ID (ca_ID a) (tb_accounts d) \<noteq> None"
    using accounts.find_row_None [of "ca_ID a" "tb_accounts d"] by metis
  then show "holds_account k a d'"
    using step a by (simp add: expired_step_def holds_account_def replace_row_mem)
  show "y \<in> set (tb_accounts d')" if "y \<in> set (tb_accounts d)" "ca_ID y \<noteq> k"
    using step that a by (simp add: expired_step_def replace_row_other)
  show "z \<in> set (tb_buckets d')" if "z \<in> set (tb_buckets d)" "cb_ID z \<noteq> cb_ID b0"
    using step that by (simp add: expired_step_def replace_row_other)
  show "z \<in> set (tb_buckets d) \<and> cb_ID z \<noteq> cb_ID b0" if "z \<in> set (tb_buckets d')" "0 < cb_Remaining z"
  proof -
    have "z \<in> set (replace_row cb_ID b (tb_buckets d))" "b \<noteq> z" "cb_ID b = cb_ID b0"
      using step that by (auto simp: expired_step_def)
    then show ?thesis by (auto elim: replace_rowE)
  qed
  show "account_ids d' = account_ids d"
    using step by (simp add: expired_step_def account_ids_def keys_replace_row)
  show "ca_UserID a = ca_UserID a0" "tb_reservations d' = tb_reservations d"
    using step by (simp_all add: expired_step_def)
qed

text \<open>
  What expiring buckets of one account changes in the ledger: entries of type expire are
  appended, and the balance of that account falls by what they say; no other account changes.
\<close>

definition expired_entries :: "string \<Rightarrow> CreditTransaction list \<Rightarrow> bool" where
  "expired_entries k ts \<longleftrightarrow> (\<forall>t\<in>set ts. ct_Type t = TxExpire \<and> ct_AccountID t = k \<and> ct_Amount t \<le> 0)"

definition expired_frame ::
  "CreditAccount \<Rightarrow> database \<Rightarrow> CreditAccount \<Rightarrow> CreditTransaction list \<Rightarrow> database \<Rightarrow> bool" where
  "expired_frame a0 d a ts d' \<longleftrightarrow>
     ca_ID a = ca_ID a0 \<and> ca_Reserved a = ca_Reserved a0
     \<and> ca_Balance a = ca_Balance a0 + (\<Sum>t\<leftarrow>ts. ct_Amount t)
     \<and> tb_accounts d' = replace_row ca_ID a (tb_accounts d)
     \<and> tb_transactions d' = tb_transactions d @ ts \<and> expired_entries (ca_ID a0) ts"

lemma replace_row_twice:
  "key r = key q \<Longrightarrow> replace_row key r (replace_row key q t) = replace_row key r t"
  by (simp add: replace_row_def)

lemma same_account:
  assumes "credit_inv d" "holds_account k a0 d" "x \<in> set (tb_accounts d)" "ca_ID x = ca_ID a0"
  shows "x = a0"
proof (rule accounts.same_row [OF credit_open_tables(1) [of "[]" 0 0 0 "\<lambda>_. 0" d] assms(3)])
  show "a0 \<in> set (tb_accounts d)" "account_clash x a0" using assms(2,4)
    by (simp_all add: holds_account_def account_clash_def)
qed (use assms(1) in \<open>simp add: credit_inv_def\<close>)

lemma expired_frame_refl:
  assumes "credit_inv d" "holds_account k a0 d"
  shows "expired_frame a0 d a0 [] d"
  unfolding expired_frame_def expired_entries_def replace_row_def
  by (auto intro!: map_idI [symmetric] dest: same_account [OF assms])

lemma expired_frame_step:
  assumes "expired_frame a0 d0 a ts d" "expired_step a b0 now d (a', b, x, e) d'" "0 \<le> e"
  shows "expired_frame a0 d0 a' (ts @ [x]) d'"
  using assms by (simp add: expired_frame_def expired_step_def expired_entries_def replace_row_twice)

lemma expired_frame_other:
  assumes "expired_frame a0 d0 a ts d" "tb_accounts d' = tb_accounts d" "tb_transactions d' = tb_transactions d"
  shows "expired_frame a0 d0 a ts d'"
  using assms by (simp add: expired_frame_def)

definition expired_at :: "instant \<Rightarrow> CreditBucket \<Rightarrow> bool" where
  "expired_at now b \<longleftrightarrow> (case cb_ExpiresAt b of None \<Rightarrow> False | Some e \<Rightarrow> e \<le> now)"

text \<open>The buckets still to expire while the loop of an expiry call runs.\<close>

definition expiry_todo :: "instant \<Rightarrow> CreditBucket list \<Rightarrow> database \<Rightarrow> bool" where
  "expiry_todo now todo d \<longleftrightarrow>
     set todo \<subseteq> set (tb_buckets d) \<and> distinct (List.map cb_ID todo)
     \<and> (\<forall>b\<in>set todo. 0 < cb_Remaining b)"

lemma expiry_todo_step:
  assumes "expiry_todo now (b0 # bs) d" "expired_step a0 b0 now d (a, b, x, e) d'"
    and "holds_account k a0 d"
  shows "expiry_todo now bs d'"
proof -
  have b0: "b0 \<in> set (tb_buckets d)" using assms(1) by (simp add: expiry_todo_def)
  have "z \<in> set (tb_buckets d')" if "z \<in> set bs" for z
  proof (rule expired_step_keeps(3) [OF assms(2,3) b0])
    show "z \<in> set (tb_buckets d)" using assms(1) that by (auto simp: expiry_todo_def)
    have "cb_ID b0 \<notin> cb_ID ` set bs" using assms(1) by (simp add: expiry_todo_def)
    then show "cb_ID z \<noteq> cb_ID b0" using that by (metis imageI)
  qed
  with assms(1) show ?thesis by (auto simp: expiry_todo_def)
qed

lemma expired_query_todo:
  assumes "credit_inv d"
  shows "expiry_todo now (page limit 0 (sort_key bucket_rank
    (List.filter (bucket_matches (expired_query i now limit)) (tb_buckets d)))) d"
proof -
  have "distinct (List.map cb_ID (tb_buckets d))"
    using credit_open_tables(2) [of "[]" 0 0 0 "\<lambda>_. 0" d] assms
    by (intro buckets.distinct_keys) (simp add: credit_inv_def)
  then show ?thesis
    using set_page [of limit 0 "sort_key bucket_rank
      (List.filter (bucket_matches (expired_query i now limit)) (tb_buckets d))"]
    by (auto simp: expiry_todo_def bucket_matches_def expired_query_def empty_bucket_query_def
        intro!: distinct_keys_query)
qed

lemma expired_query_all:
  assumes "credit_inv d" "b \<in> set (tb_buckets d)" "cb_AccountID b = k" "0 < cb_Remaining b" "expired_at now b"
  shows "b \<in> set (page 0 0 (sort_key bucket_rank
    (List.filter (bucket_matches (expired_query k now 0)) (tb_buckets d))))"
proof -
  have "bucket_ok (\<lambda>_. 0) d b" using assms(1,2) by (auto simp: credit_inv_def intro: credit_open_bucket)
  then have "cb_Status b = BucketActive" using assms(4) by (auto simp: bucket_ok_def)
  then show ?thesis
    using assms by (simp add: page_def bucket_matches_def expired_query_def empty_bucket_query_def
        column_matches_def expired_at_def split: option.splits)
qed

lemma wlp_expireCreditBucketsForAccount:
  assumes inv: "credit_inv d" and a0: "holds_account k a0 d" and buckets: "repos_have_buckets s"
    and post: "\<And>res a d'. credit_inv d' \<Longrightarrow> holds_account k a d' \<Longrightarrow> ca_UserID a = ca_UserID a0
      \<Longrightarrow> tb_reservations d' = tb_reservations d \<Longrightarrow> ca_Balance a \<le> ca_Balance a0
      \<Longrightarrow> (\<And>b. b \<in> set (tb_buckets d') \<Longrightarrow> cb_AccountID b = k \<Longrightarrow> 0 < cb_Remaining b \<Longrightarrow> \<not> expired_at now b)
      \<Longrightarrow> \<exists>ts. expired_frame a0 d a ts d'
      \<Longrightarrow> Q (res, a) d'"
  shows "wlp (expireCreditBucketsForAccount s a0 now 0) Q d"
proof -
  have k: "ca_ID a0 = k" "k \<noteq> []"
    using a0 holds_account_ok [of k 0 0 0 "\<lambda>_. 0" d a0] inv
    by (auto simp: holds_account_def account_ok_def credit_inv_open [of d k])
  let ?q = "page 0 0 (sort_key bucket_rank
    (List.filter (bucket_matches (expired_query k now 0)) (tb_buckets d)))"
  let ?I = "\<lambda>todo (acc :: CreditBucketExpiryResult \<times> CreditAccount) d'. credit_inv d' \<and> holds_account k (snd acc) d'
    \<and> ca_UserID (snd acc) = ca_UserID a0 \<and> tb_reservations d' = tb_reservations d
    \<and> ca_Balance (snd acc) \<le> ca_Balance a0 \<and> (\<exists>ts. expired_frame a0 d (snd acc) ts d')
    \<and> expiry_todo now todo d' \<and> (\<forall>b\<in>set todo. cb_AccountID b = k)
    \<and> (\<forall>b\<in>set (tb_buckets d'). cb_AccountID b = k \<and> 0 < cb_Remaining b \<and> expired_at now b \<longrightarrow> b \<in> set todo)"
  have q_acc: "\<forall>b\<in>set ?q. cb_AccountID b = k"
    using k by (simp add: page_def bucket_matches_def expired_query_def empty_bucket_query_def column_matches_def)
  have start: "?I ?q (empty_expiry, a0) d"
    using inv a0 q_acc expired_query_todo [OF inv] expired_query_all [OF inv] expired_frame_refl [OF inv a0]
    by auto
  show ?thesis
    unfolding expireCreditBucketsForAccount_def CreditBucketRepo_List_def
  proof (intro wlp_intros, use buckets in simp)
    let ?body = "\<lambda>bucket (result, account).
          andThen (expireCreditBucket account bucket now) (\<lambda>(account', bucket', transaction, amount).
          ret (add_expired result bucket' transaction amount, account'))"
    have "wlp (for_each ?q ?body (empty_expiry, a0)) Q d"
    proof (rule wlp_for_each [where I = ?I, OF start])
      fix b bs acc d'
      assume I: "?I (b # bs) acc d'"
      obtain result account where acc: "acc = (result, account)" by (cases acc)
      have b: "b \<in> set (tb_buckets d')" "0 < cb_Remaining b" using I by (simp_all add: expiry_todo_def)
      show "wlp (?body b acc) (?I bs) d'"
        unfolding acc prod.case
      proof (rule wlp_andThen, rule wlp_expireCreditBucket)
        show "credit_inv d'" "holds_account k account d'" "cb_AccountID b = k" using I acc by simp_all
      next
        fix res d''
        assume inv': "credit_inv d''" and step0: "expired_step account b now d' res d''"
        obtain a' b' x e where res: "res = (a', b', x, e)" by (cases res)
        note step = step0 [unfolded res]
        have acct: "holds_account k account d'" using I acc by simp
        note keeps = expired_step_keeps [OF step acct b(1)]
        have todo: "expiry_todo now bs d''" using I by (intro expiry_todo_step [OF _ step acct]) simp
        have rest: "z \<in> set bs" if "z \<in> set (tb_buckets d'')" "cb_AccountID z = k" "0 < cb_Remaining z"
          "expired_at now z" for z
          using keeps(4) [of z] that I by auto
        have e: "0 \<le> e" using step b(2) by (simp add: expired_step_def)
        obtain ts where "expired_frame a0 d account ts d'" using I acc by auto
        then have frame: "\<exists>ts. expired_frame a0 d a' ts d''" using expired_frame_step [OF _ step e] by blast
        have "ca_Balance a' \<le> ca_Balance account" using step b(2) by (simp add: expired_step_def)
        with frame have "?I bs (add_expired result b' x e, a') d''"
          using inv' keeps(1,6,7) todo rest I acc by simp
        then show "wlp (case res of (account', bucket', transaction, amount) \<Rightarrow>
            ret (add_expired result bucket' transaction amount, account')) (?I bs) d''"
          unfolding res prod.case by (rule wlp_ret)
      qed (use b in simp_all)
    next
      fix acc d'
      assume "?I [] acc d'"
      then show "Q acc d'" by (cases acc) (auto intro!: post)
    qed
    moreover have "(\<lambda>d. page (bq_Limit (expired_query (ca_ID a0) now 0)) (bq_Offset (expired_query (ca_ID a0) now 0))
      (sort_key bucket_rank (List.filter (bucket_matches (expired_query (ca_ID a0) now 0)) (tb_buckets d)))) d = ?q"
      by (simp add: k expired_query_def empty_bucket_query_def)
    ultimately show "wlp (for_each (page (bq_Limit (expired_query (ca_ID a0) now 0))
      (bq_Offset (expired_query (ca_ID a0) now 0)) (sort_key bucket_rank
        (List.filter (bucket_matches (expired_query (ca_ID a0) now 0)) (tb_buckets d)))) ?body (empty_expiry, a0)) Q d"
      by simp
  qed
qed

section \<open>Reserving from buckets\<close>

lemma found_bucket:
  assumes "credit_open k l r m bs d" "bucket_of d k i" "find_row cb_ID i (tb_buckets d) = Some b"
  shows "b \<in> set (tb_buckets d)" "cb_ID b = i" "cb_AccountID b = k"
proof -
  show b: "b \<in> set (tb_buckets d)" "cb_ID b = i"
    using assms(3) buckets.find_row_Some by blast+
  obtain x where "x \<in> set (tb_buckets d)" "cb_ID x = i" "cb_AccountID x = k"
    using assms(2) by (auto simp: bucket_of_def)
  moreover from this b have "x = b"
    using buckets.same_row [OF credit_open_tables(2) [OF assms(1)]] buckets.key_clash by metis
  ultimately show "cb_AccountID b = k" by simp
qed

lemma alloc_total_Cons [simp]:
  "alloc_total i (al # als) = (if al_BucketID al = i then al_Amount al else 0) + alloc_total i als"
  "alloc_total i [] = 0"
  by (simp_all add: alloc_total_def)

text \<open>What a loop over allocations leaves alone: everything but the bucket rows' amounts.\<close>

definition bucket_frame :: "string \<Rightarrow> database \<Rightarrow> database \<Rightarrow> bool" where
  "bucket_frame k d d' \<longleftrightarrow> (\<exists>t. d' = tb_buckets_update (\<lambda>_. t) d \<and> (\<forall>i. bucket_of d k i \<longrightarrow> bucket_of d' k i))"

lemma bucket_frame_refl: "bucket_frame k d d"
  unfolding bucket_frame_def by (rule exI [of _ "tb_buckets d"]) simp

lemma bucket_frame_trans: "bucket_frame k d d' \<Longrightarrow> bucket_frame k d' d'' \<Longrightarrow> bucket_frame k d d''"
  unfolding bucket_frame_def by auto

lemma bucket_frame_keeps:
  assumes "bucket_frame k d d'"
  shows "tb_accounts d' = tb_accounts d" "tb_reservations d' = tb_reservations d"
    "tb_transactions d' = tb_transactions d" "account_ids d' = account_ids d"
    "holds_account k a d' = holds_account k a d" "bucket_of d k i \<Longrightarrow> bucket_of d' k i"
  using assms by (auto simp: bucket_frame_def)

lemma wlp_reserve_bucket:
  assumes inv: "credit_open k l r m bs d" and al: "bucket_of d k (al_BucketID al)" "0 < al_Amount al"
    and post: "\<And>d'. credit_open k l r (m - al_Amount al)
        (\<lambda>i. bs i + (if i = al_BucketID al then - al_Amount al else 0)) d'
      \<Longrightarrow> bucket_frame k d d' \<Longrightarrow> remaining_sum d' k = remaining_sum d k - al_Amount al \<Longrightarrow> Q () d'"
  shows "wlp (reserve_bucket now al u) Q d"
  unfolding reserve_bucket_def CreditBucketRepo_GetByID_def CreditBucketRepo_Update_def Let_def
proof (intro wlp_intros)
  fix b t
  assume f: "find_row cb_ID (al_BucketID al) (tb_buckets d) = Some b"
    and enough: "\<not> cb_Remaining b < al_Amount al"
  let ?rem = "cb_Remaining b - al_Amount al"
  let ?res = "cb_Reserved b + al_Amount al"
  let ?b = "b\<lparr>cb_Remaining := wrap64 ?rem, cb_Reserved := wrap64 ?res,
    cb_Status := (if wrap64 ?rem = 0 \<and> wrap64 ?res = 0 then BucketDepleted else cb_Status b),
    cb_UpdatedAt := now\<rparr>"
  assume sv: "save_row cb_ID bucket_clash ?b (tb_buckets d) = Some t"
  note b = found_bucket [OF inv al(1) f]
  have ok: "bucket_ok bs d b" by (rule credit_open_bucket [OF inv b(1)])
  have w: "wrap64 ?rem = ?rem" "wrap64 ?res = ?res" "0 < ?res" "0 \<le> ?rem"
    using ok enough al(2) by (auto simp: bucket_ok_def)
  have status: "cb_Status ?b \<noteq> BucketActive \<longrightarrow> cb_Remaining ?b = 0"
    using ok enough al(2) w by (auto simp: bucket_ok_def)
  have t: "t = replace_row cb_ID ?b (tb_buckets d)" by (rule bucket_saved [OF b(1) _ sv]) simp
  have of: "bucket_of (tb_buckets_update (\<lambda>_. t) d) k i" if "bucket_of d k i" for i
    by (rule bucket_of_replace [OF credit_open_tables(2) [OF inv] b(1) _ _ t that]) simp_all
  show "Q () (tb_buckets_update (\<lambda>_. t) d)"
  proof (rule post)
    show "credit_open k l r (m - al_Amount al)
        (\<lambda>i. bs i + (if i = al_BucketID al then - al_Amount al else 0)) (tb_buckets_update (\<lambda>_. t) d)"
      by (rule bucket_write(1) [OF inv b(1) _ b(3) _ _ sv _ _ _ status])
        (simp_all add: w b less_imp_le [OF w(3)] not_less [THEN iffD1, OF enough])
    show "remaining_sum (tb_buckets_update (\<lambda>_. t) d) k = remaining_sum d k - al_Amount al"
      by (subst bucket_write(2) [OF inv b(1) _ b(3) _ _ sv _ _ _ status refl refl])
        (simp_all add: w b less_imp_le [OF w(3)] not_less [THEN iffD1, OF enough])
    show "bucket_frame k d (tb_buckets_update (\<lambda>_. t) d)" using of by (auto simp: bucket_frame_def)
  qed
qed

lemma wlp_reserve_buckets:
  assumes inv: "credit_open k l r m bs d"
    and als: "\<forall>al\<in>set als. bucket_of d k (al_BucketID al) \<and> 0 < al_Amount al"
    and post: "\<And>d'. credit_open k l r (m - alloc_amounts als) (\<lambda>i. bs i - alloc_total i als) d'
      \<Longrightarrow> bucket_frame k d d' \<Longrightarrow> remaining_sum d' k = remaining_sum d k - alloc_amounts als \<Longrightarrow> Q () d'"
  shows "wlp (for_each als (reserve_bucket now) ()) Q d"
  using inv als post
proof (induction als arbitrary: m bs d)
  case Nil
  then show ?case by (simp add: wlp_ret bucket_frame_refl)
next
  case (Cons al als)
  show ?case
    unfolding for_each.simps
  proof (rule wlp_andThen, rule wlp_reserve_bucket [OF Cons.prems(1)])
    fix d'
    let ?bs = "\<lambda>i. bs i + (if i = al_BucketID al then - al_Amount al else 0)"
    assume open': "credit_open k l r (m - al_Amount al) ?bs d'" and fr: "bucket_frame k d d'"
      and rem: "remaining_sum d' k = remaining_sum d k - al_Amount al"
    show "wlp (for_each als (reserve_bucket now) ()) Q d'"
    proof (rule Cons.IH [OF open'])
      show "\<forall>al\<in>set als. bucket_of d' k (al_BucketID al) \<and> 0 < al_Amount al"
        using Cons.prems(2) bucket_frame_keeps(6) [OF fr] by simp
      fix d''
      assume open'': "credit_open k l r (m - al_Amount al - alloc_amounts als) (\<lambda>i. ?bs i - alloc_total i als) d''"
        and fr': "bucket_frame k d' d''" and rem': "remaining_sum d'' k = remaining_sum d' k - alloc_amounts als"
      have "(\<lambda>i. ?bs i - alloc_total i als) = (\<lambda>i. bs i - alloc_total i (al # als))"
        by (auto simp: fun_eq_iff)
      with open'' have "credit_open k l r (m - alloc_amounts (al # als)) (\<lambda>i. bs i - alloc_total i (al # als)) d''"
        by (simp add: diff_diff_eq)
      then show "Q () d''"
        by (rule Cons.prems(3)) (use bucket_frame_trans [OF fr fr'] rem rem' in simp_all)
    qed
  qed (use Cons.prems(2) in simp_all)
qed

lemma available_buckets:
  assumes inv: "credit_open k 0 0 0 bs d" and k: "k \<noteq> []"
    and swept: "\<And>b. b \<in> set (tb_buckets d) \<Longrightarrow> cb_AccountID b = k \<Longrightarrow> 0 < cb_Remaining b \<Longrightarrow> \<not> expired_at now b"
  defines "q \<equiv> page 0 0 (sort_key bucket_rank (List.filter (bucket_matches
      (empty_bucket_query\<lparr>bq_AccountID := k, bq_Status := BucketActive, bq_ActiveAt := Some now,
        bq_PositiveRemaining := True\<rparr>)) (tb_buckets d)))"
  shows "\<forall>b\<in>set q. creditBucketAvailableAt b now \<and> bucket_of d k (cb_ID b) \<and> clean_id (cb_ID b)"
    and "sum_rows (\<lambda>_. True) cb_Remaining q = remaining_sum d k"
proof -
  have ok: "bucket_ok bs d b" if "b \<in> set (tb_buckets d)" for b
    using credit_open_bucket [OF inv that] .
  have match: "bucket_matches (empty_bucket_query\<lparr>bq_AccountID := k, bq_Status := BucketActive,
      bq_ActiveAt := Some now, bq_PositiveRemaining := True\<rparr>) b
      \<longleftrightarrow> cb_AccountID b = k \<and> 0 < cb_Remaining b"
    if b: "b \<in> set (tb_buckets d)" for b
  proof -
    have "0 < cb_Remaining b \<longrightarrow> cb_Status b = BucketActive" using ok [OF b] by (auto simp: bucket_ok_def)
    moreover have "cb_AccountID b = k \<and> 0 < cb_Remaining b \<longrightarrow>
        (case cb_ExpiresAt b of None \<Rightarrow> True | Some e \<Rightarrow> now < e)"
      using swept [OF b] by (auto simp: expired_at_def split: option.splits)
    ultimately show ?thesis
      using k by (auto simp: bucket_matches_def empty_bucket_query_def column_matches_def)
  qed
  have q: "q = sort_key bucket_rank (List.filter (\<lambda>b. cb_AccountID b = k \<and> 0 < cb_Remaining b) (tb_buckets d))"
    unfolding q_def using match by (simp add: page_def cong: filter_cong)
  show "\<forall>b\<in>set q. creditBucketAvailableAt b now \<and> bucket_of d k (cb_ID b) \<and> clean_id (cb_ID b)"
  proof
    fix b
    assume "b \<in> set q"
    then have b: "b \<in> set (tb_buckets d)" "cb_AccountID b = k" "0 < cb_Remaining b" by (simp_all add: q)
    then show "creditBucketAvailableAt b now \<and> bucket_of d k (cb_ID b) \<and> clean_id (cb_ID b)"
      using ok [OF b(1)] swept [OF b]
      by (auto simp: creditBucketAvailableAt_def bucket_of_def bucket_ok_def expired_at_def split: option.splits)
  qed
  have "sum_rows (\<lambda>_. True) cb_Remaining q
      = sum_rows (\<lambda>_. True) cb_Remaining (List.filter (\<lambda>b. cb_AccountID b = k \<and> 0 < cb_Remaining b) (tb_buckets d))"
    by (rule sum_rows_mset) (simp add: q)
  also have "\<dots> = remaining_sum d k"
    unfolding sum_rows_filter remaining_sum_def
  proof (rule sum_rows_cong)
    show "(if (cb_AccountID b = k \<and> 0 < cb_Remaining b) \<and> True then cb_Remaining b else 0)
        = (if cb_AccountID b = k then cb_Remaining b else 0)" if "b \<in> set (tb_buckets d)" for b
      using ok [OF that] by (simp add: bucket_ok_def)
  qed
  finally show "sum_rows (\<lambda>_. True) cb_Remaining q = remaining_sum d k" .
qed

text \<open>
  After \<open>reserveBucketCredits\<close> the buckets have given up the requested amount or all they
  hold, whichever is less, and the allocations say from which bucket.
\<close>

lemma wlp_reserveBucketCredits:
  assumes inv: "credit_inv d" and a0: "holds_account k a0 d" and buckets: "repos_have_buckets s"
    and amt: "0 < amount" "amount \<le> max_int64"
    and post: "\<And>a als d'. credit_open k 0 0 (- alloc_amounts als) (\<lambda>i. - alloc_total i als) d'
      \<Longrightarrow> holds_account k a d' \<Longrightarrow> ca_UserID a = ca_UserID a0
      \<Longrightarrow> ca_Balance a \<le> ca_Balance a0 \<Longrightarrow> amount \<le> ca_Balance a \<Longrightarrow> remaining_sum d' k \<le> ca_Balance a - amount
      \<Longrightarrow> \<forall>al\<in>set als. bucket_of d' k (al_BucketID al) \<Longrightarrow> compactCreditBucketAllocations als = als
      \<Longrightarrow> alloc_amounts als \<le> amount \<Longrightarrow> tb_reservations d' = tb_reservations d
      \<Longrightarrow> \<exists>ts. expired_frame a0 d a ts d' \<Longrightarrow> Q (a, als) d'"
  shows "wlp (reserveBucketCredits s a0 amount now) Q d"
  unfolding reserveBucketCredits_def CreditBucketRepo_List_def Let_def
proof (rule wlp_if, use buckets in simp, rule wlp_andThen,
    rule wlp_expireCreditBucketsForAccount [OF inv a0 buckets], simp only: prod.case, intro wlp_intros)
  fix a d'
  assume inv': "credit_inv d'" and a: "holds_account k a d'" and user: "ca_UserID a = ca_UserID a0"
    and res: "tb_reservations d' = tb_reservations d" and less: "ca_Balance a \<le> ca_Balance a0"
    and swept: "\<And>b. b \<in> set (tb_buckets d') \<Longrightarrow> cb_AccountID b = k \<Longrightarrow> 0 < cb_Remaining b
      \<Longrightarrow> \<not> expired_at now b"
    and frame: "\<exists>ts. expired_frame a0 d a ts d'"
    and enough: "\<not> ca_Balance a < amount"
  have open': "credit_open k 0 0 0 (\<lambda>_. 0) d'" using inv' by (simp add: credit_inv_open [of d' k])
  have a_ok: "account_ok k 0 0 0 d' a" by (rule holds_account_ok [OF open' a])
  then have k: "k \<noteq> []" "ca_ID a = k" using a by (auto simp: account_ok_def holds_account_def)
  let ?query = "empty_bucket_query\<lparr>bq_AccountID := ca_ID a, bq_Status := BucketActive,
    bq_ActiveAt := Some now, bq_PositiveRemaining := True\<rparr>"
  let ?q = "page (bq_Limit ?query) (bq_Offset ?query)
    (sort_key bucket_rank (List.filter (bucket_matches ?query) (tb_buckets d')))"
  let ?als = "earliestExpiring_Allocate ?q amount now"
  have q: "?q = page 0 0 (sort_key bucket_rank (List.filter (bucket_matches (empty_bucket_query\<lparr>bq_AccountID := k,
      bq_Status := BucketActive, bq_ActiveAt := Some now, bq_PositiveRemaining := True\<rparr>)) (tb_buckets d')))"
    by (simp add: k(2) empty_bucket_query_def)
  note avail = available_buckets [OF open' k(1) swept, folded q]
  have avail_now: "\<forall>b\<in>set ?q. creditBucketAvailableAt b now" using avail(1) by blast
  note alloc = allocate_facts [OF avail_now amt]
  have als_ok: "\<forall>al\<in>set ?als. clean_id (al_BucketID al) \<and> 0 < al_Amount al"
    using alloc(2) avail(1) by metis
  have als_of: "\<forall>al\<in>set ?als. bucket_of d' k (al_BucketID al) \<and> 0 < al_Amount al"
    using alloc(2) avail(1) by metis
  note compact = compact_clean [OF als_ok]
  have total: "alloc_amounts ?als = min amount (remaining_sum d' k)"
    using alloc(1) avail(2) by simp
  show "wlp (for_each (compactCreditBucketAllocations (compactCreditBucketAllocations ?als)) (reserve_bucket now) ())
      (\<lambda>x. wlp (ret (a, compactCreditBucketAllocations (compactCreditBucketAllocations ?als))) Q) d'"
    unfolding compact
  proof (rule wlp_reserve_buckets [OF open' als_of], rule wlp_ret, rule post)
    fix d''
    assume open'': "credit_open k 0 0 (0 - alloc_amounts ?als) (\<lambda>i. 0 - alloc_total i ?als) d''"
      and fr: "bucket_frame k d' d''" and rem: "remaining_sum d'' k = remaining_sum d' k - alloc_amounts ?als"
    note keep = bucket_frame_keeps [OF fr]
    show "credit_open k 0 0 (- alloc_amounts ?als) (\<lambda>i. - alloc_total i ?als) d''" using open'' by simp
    show "holds_account k a d''" "tb_reservations d'' = tb_reservations d" "ca_UserID a = ca_UserID a0"
      "compactCreditBucketAllocations ?als = ?als" "amount \<le> ca_Balance a"
      "ca_Balance a \<le> ca_Balance a0"
      using keep a res user compact enough less by simp_all
    show "\<forall>al\<in>set ?als. bucket_of d'' k (al_BucketID al)" using als_of keep(6) by blast
    show "alloc_amounts ?als \<le> amount" using total by simp
    show "\<exists>ts. expired_frame a0 d a ts d''"
      using frame expired_frame_other [OF _ keep(1,3)] by blast
    have "remaining_sum d' k \<le> ca_Balance a" using a_ok k by (simp add: account_ok_def)
    then show "remaining_sum d'' k \<le> ca_Balance a - amount" using rem total enough by simp
  qed
qed

section \<open>Reserve\<close>

definition reserved_result ::
  "CreditReservationInput \<Rightarrow> CreditAccount \<Rightarrow> database \<Rightarrow> CreditMutationResult \<Rightarrow> database \<Rightarrow> bool" where
  "reserved_result input a d r d' \<longleftrightarrow> (\<exists>x t.
     mr_Reservation r = Some x \<and> mr_Transaction r = Some t
     \<and> mr_Account r \<in> set (tb_accounts d') \<and> ca_ID (mr_Account r) = ca_ID a
     \<and> ca_Balance (mr_Account r) = ca_Balance a - ri_Amount input
     \<and> ca_Reserved (mr_Account r) = ca_Reserved a + ri_Amount input
     \<and> tb_accounts d' = replace_row ca_ID (mr_Account r) (tb_accounts d)
     \<and> tb_reservations d' = tb_reservations d @ [x] \<and> tb_transactions d' = tb_transactions d @ [t]
     \<and> ct_Type t = TxReserve \<and> ct_AccountID t = ca_ID a
     \<and> cr_Status x = ReservationPending \<and> cr_Amount x = ri_Amount input \<and> cr_AccountID x = ca_ID a
     \<and> cr_IdempotencyKey x = trim_space (ri_IdempotencyKey input)
     \<and> ct_Amount t = - ri_Amount input \<and> ct_ReservationID t = cr_ID x)"

lemma wlp_book_reservation:
  assumes inv: "credit_open k 0 0 (- alloc_amounts als) (\<lambda>i. - alloc_total i als) d"
    and a: "holds_account k a d" and enough: "ri_Amount input \<le> ca_Balance a"
    and rem: "remaining_sum d k \<le> ca_Balance a - ri_Amount input"
    and als: "\<forall>al\<in>set als. bucket_of d k (al_BucketID al)" "compactCreditBucketAllocations als = als"
      "alloc_amounts als \<le> ri_Amount input"
    and amt: "0 < ri_Amount input" "ri_Amount input \<le> max_int64"
    and post: "\<And>r d'. credit_inv d' \<Longrightarrow> reserved_result input a d r d' \<Longrightarrow> Q r d'"
  shows "wlp (book_reservation input a als now) Q d"
  unfolding book_reservation_def Let_def CreditAccountRepo_Update_def CreditReservationRepo_Create_def
  apply (intro wlp_intros)
  subgoal premises prems for ta hs tr
  proof -
    let ?amt = "ri_Amount input"
    let ?a = "a\<lparr>ca_Balance := wrap64 (ca_Balance a - ?amt), ca_Reserved := wrap64 (ca_Reserved a + ?amt),
      ca_UpdatedAt := now\<rparr>"
    let ?d1 = "tb_accounts_update (\<lambda>_. ta) d"
    let ?x = "reservation_row input ?a als now (''crr_'' @ hex_encode hs)"
    let ?d2 = "tb_reservations_update (\<lambda>_. tr) ?d1"
    have am: "a \<in> set (tb_accounts d)" "ca_ID a = k" using a by (simp_all add: holds_account_def)
    have a_ok: "account_ok k 0 0 (- alloc_amounts als) d a" by (rule holds_account_ok [OF inv a])
    have w: "wrap64 (ca_Balance a - ?amt) = ca_Balance a - ?amt"
      "wrap64 (ca_Reserved a + ?amt) = ca_Reserved a + ?amt" "wrap64 (- ?amt) = - ?amt"
      using a_ok enough amt by (simp_all add: account_ok_def)
    have rng: "0 \<le> ca_Balance a - ?amt" "0 \<le> ca_Reserved a + ?amt"
      "(ca_Balance a - ?amt) + (ca_Reserved a + ?amt) \<le> max_int64"
      using a_ok enough amt by (simp_all add: account_ok_def)
    note ta = prems(2) and tr = prems(3)
    note w1 = account_write [OF inv am _ ta, of "- ?amt" "- ?amt" "?amt - alloc_amounts als"]
    have open1: "credit_open k (- ?amt) (- ?amt) (?amt - alloc_amounts als) (\<lambda>i. - alloc_total i als) ?d1"
      by (rule w1(1)) (use am w rng in simp_all)
    have mem1: "?a \<in> set (tb_accounts ?d1)"
      by (rule w1(2)) (use am w rng in simp_all)
    have ids1: "account_ids ?d1 = account_ids d"
      by (rule w1(3)) (use am w rng in simp_all)
    have open1': "credit_open k (- ?amt) (- ?amt) 0 (\<lambda>i. - alloc_total i als) ?d1"
      by (rule credit_open_slack [OF open1 mem1]) (use am rem w in simp_all)
    have known: "k \<in> account_ids d" by (rule holds_account_id [OF a])
    have x: "cr_AccountID ?x = k" "cr_Status ?x = ReservationPending" "cr_Amount ?x = ?amt"
      "cr_BucketAllocations ?x = als"
      by (simp_all add: reservation_row_def am encodeCreditBucketAllocations_def als)
    have x_ok: "reservation_ok ?d1 ?x"
      unfolding reservation_ok_def x ids1 sums_tb_accounts using als amt known by blast
    have open2: "credit_open k (- ?amt) 0 0 (\<lambda>_. 0) ?d2"
      by (rule reservation_insert [OF open1' tr x(1,2) x_ok]) (use x(3,4) in simp_all)
    have ta': "ta = replace_row ca_ID ?a (tb_accounts d)"
      by (rule account_saved [OF am(1) _ ta]) simp
    have tr': "tr = tb_reservations ?d1 @ [?x]"
      using tr by (simp add: reservations.insert_row_Some)
    have known2: "k \<in> account_ids ?d2" using known ids1 by simp
    show ?thesis
      unfolding w(3)
      apply (rule wlp_newCreditTransaction [OF open2 _ _ known2])
        apply (simp add: am)
       apply simp
      subgoal premises new for t tt
      proof (rule wlp_ret, rule post)
        show "credit_inv (tb_transactions_update (\<lambda>_. tt) ?d2)"
          using new(6) by (simp add: credit_inv_open [of _ k])
        show "reserved_result input a d \<lparr>mr_Account = ?a, mr_Reservation = Some ?x, mr_Transaction = Some t,
            mr_Bucket = None\<rparr> (tb_transactions_update (\<lambda>_. tt) ?d2)"
          unfolding reserved_result_def
          by (intro exI [of _ ?x] exI [of _ t], simp only: x tr' new(1,3,5) am)
            (use mem1 am(2) new(2,7) in \<open>simp add: w reservation_row_def ta' [unfolded w]\<close>)
      qed
      done
  qed
  done

text \<open>
  A reservation moves its amount from the balance of the user's account to its reserved amount,
  after the account's expired buckets have been swept; it writes no other account.
\<close>

definition reserve_effect ::
  "CreditReservationInput \<Rightarrow> database \<Rightarrow> CreditMutationResult \<Rightarrow> database \<Rightarrow> bool" where
  "reserve_effect input d r d' \<longleftrightarrow> (\<exists>a x t ts.
     a \<in> set (tb_accounts d) \<and> ca_UserID a = trim_space (ri_UserID input)
     \<and> mr_Reservation r = Some x \<and> mr_Transaction r = Some t
     \<and> mr_Account r \<in> set (tb_accounts d') \<and> ca_ID (mr_Account r) = ca_ID a
     \<and> ri_Amount input \<le> ca_Balance a + (\<Sum>t\<leftarrow>ts. ct_Amount t)
     \<and> ca_Balance (mr_Account r) = ca_Balance a + (\<Sum>t\<leftarrow>ts. ct_Amount t) - ri_Amount input
     \<and> ca_Reserved (mr_Account r) = ca_Reserved a + ri_Amount input
     \<and> tb_accounts d' = replace_row ca_ID (mr_Account r) (tb_accounts d)
     \<and> tb_reservations d' = tb_reservations d @ [x]
     \<and> cr_AccountID x = ca_ID a \<and> cr_Status x = ReservationPending \<and> cr_Amount x = ri_Amount input
     \<and> cr_IdempotencyKey x = trim_space (ri_IdempotencyKey input)
     \<and> tb_transactions d' = tb_transactions d @ ts @ [t] \<and> expired_entries (ca_ID a) ts
     \<and> ct_Type t = TxReserve \<and> ct_AccountID t = ca_ID a
     \<and> ct_Amount t = - ri_Amount input \<and> ct_ReservationID t = cr_ID x)"

lemma wlp_apply_reserve:
  assumes inv: "credit_inv d" and buckets: "repos_have_buckets s"
    and amt: "0 < ri_Amount input" "ri_Amount input \<le> max_int64"
    and post: "\<And>r d'. credit_inv d' \<Longrightarrow> reserve_effect input d r d' \<Longrightarrow> Q r d'"
  shows "wlp (apply_reserve s input) Q d"
  unfolding apply_reserve_def
  apply (rule wlp_andThen, rule wlp_ensureCreditAccount [OF inv], rule wlp_andThen, rule wlp_time_now,
      rule wlp_andThen, rule wlp_reserveBucketCredits [OF _ _ buckets amt], assumption, assumption,
      unfold prod.case)
  subgoal premises prems for a0 d1 now a als d2
  proof (rule wlp_book_reservation [OF prems(5,6)])
    show "ri_Amount input \<le> ca_Balance a" by (rule prems)
    show "remaining_sum d2 (ca_ID a0) \<le> ca_Balance a - ri_Amount input" by (rule prems)
    show "\<forall>al\<in>set als. bucket_of d2 (ca_ID a0) (al_BucketID al)" by (rule prems)
    show "compactCreditBucketAllocations als = als" by (rule prems)
    show "alloc_amounts als \<le> ri_Amount input" by (rule prems)
  next
    fix r d'
    assume inv': "credit_inv d'" and res: "reserved_result input a d2 r d'"
    have old: "d1 = d" using prems(4,8,9) amt by auto
    have "a0 \<in> set (tb_accounts d)" "ca_ID a = ca_ID a0"
      using prems(2,6) old by (simp_all add: holds_account_def)
    moreover have "tb_reservations d2 = tb_reservations d" using prems(14) old by simp
    moreover obtain ts where "expired_frame a0 d a ts d2" using prems(15) old by blast
    moreover obtain x t where "mr_Reservation r = Some x" "mr_Transaction r = Some t"
      "mr_Account r \<in> set (tb_accounts d')" "ca_ID (mr_Account r) = ca_ID a"
      "ca_Balance (mr_Account r) = ca_Balance a - ri_Amount input"
      "ca_Reserved (mr_Account r) = ca_Reserved a + ri_Amount input"
      "tb_accounts d' = replace_row ca_ID (mr_Account r) (tb_accounts d2)"
      "tb_reservations d' = tb_reservations d2 @ [x]" "tb_transactions d' = tb_transactions d2 @ [t]"
      "ct_Type t = TxReserve" "ct_AccountID t = ca_ID a" "cr_Status x = ReservationPending"
      "cr_Amount x = ri_Amount input" "cr_AccountID x = ca_ID a"
      "cr_IdempotencyKey x = trim_space (ri_IdempotencyKey input)"
      "ct_Amount t = - ri_Amount input" "ct_ReservationID t = cr_ID x"
      using res unfolding reserved_result_def by blast
    ultimately have "reserve_effect input d r d'"
      using prems(3,9) unfolding reserve_effect_def expired_frame_def
      by (intro exI [of _ a0] exI [of _ x] exI [of _ t] exI [of _ ts]) (simp add: replace_row_twice)
    with inv' show "Q r d'" by (rule post)
  qed (use amt in simp_all)
  done

lemma wlp_reads: "(\<And>x. Q x d) \<Longrightarrow> wlp (store_find rows key k) Q d"
  by (rule wlp_store_find)

lemma wlp_replay_reservation: "(\<And>r. Q r d) \<Longrightarrow> wlp (replay_reservation x) Q d"
  unfolding replay_reservation_def CreditAccountRepo_GetByID_def by (intro wlp_intros)

lemma wlp_replay_grant: "(\<And>r. Q r d) \<Longrightarrow> wlp (replay_grant s x) Q d"
  unfolding replay_grant_def CreditAccountRepo_GetByID_def CreditBucketRepo_GetByID_def
  by (intro wlp_intros)

lemma wlp_replay_finalization: "(\<And>r. Q r d) \<Longrightarrow> wlp (replay_finalization x) Q d"
  unfolding replay_finalization_def CreditAccountRepo_GetByID_def CreditReservationRepo_GetByID_def
  by (intro wlp_intros)

lemma keeps_ensureUser [keeps_rules]: "keeps P (ensureUser s u)"
  unfolding ensureUser_def UserRepo_GetByID_def by (intro keeps_rules)

text \<open>A call in a unit of work keeps what its body establishes again.\<close>

lemma keeps_withCreditTransaction:
  assumes "cfg_uow s" and "\<And>d. P d \<Longrightarrow> wlp body (\<lambda>_. P) d"
  shows "keeps P (withCreditTransaction s body)"
  unfolding withCreditTransaction_def using assms by (simp add: keeps_transaction)

lemma leads_withCreditTransaction:
  assumes "cfg_uow s" and "\<And>d. P d \<Longrightarrow> wlp body (\<lambda>_. Q) d" and "\<And>d. P d \<Longrightarrow> Q d"
  shows "leads P (withCreditTransaction s body) Q"
  unfolding withCreditTransaction_def using assms by (simp add: leads_transaction)

lemma keeps_Reserve:
  assumes "cfg_uow s" and amt: "ri_Amount input \<le> max_int64"
  shows "keeps credit_inv (Reserve s input)"
proof -
  have buckets: "repos_have_buckets s" using assms(1) by (simp add: repos_have_buckets_def)
  have "keeps credit_inv (case ri_ExpiresAt input of None \<Rightarrow> ret ()
      | Some e \<Rightarrow> andThen time_now (\<lambda>now. reject_if (e \<le> now) ErrReservationExpired))"
    by (cases "ri_ExpiresAt input") (auto intro: keeps_rules)
  then show ?thesis
    unfolding Reserve_def Let_def CreditReservationRepo_GetByIdempotencyKey_def
    apply (intro keeps_guarded keeps_andThen keeps_ensureUser keeps_withCreditTransaction [OF assms(1)])
     apply assumption
    apply (intro wlp_intros wlp_replay_reservation wlp_apply_reserve [OF _ buckets _ amt])
    by simp_all
qed

section \<open>Grant\<close>

text \<open>The balance of the user's account, or zero when there is none yet, can take the grant.\<close>

definition grant_fits :: "CreditGrantInput \<Rightarrow> database \<Rightarrow> bool" where
  "grant_fits input d \<longleftrightarrow> gi_Amount input \<le> max_int64
     \<and> (\<forall>a\<in>set (tb_accounts d). ca_UserID a = trim_space (gi_UserID input)
          \<longrightarrow> ca_Balance a + ca_Reserved a + gi_Amount input \<le> max_int64)"

definition granted_result ::
  "CreditGrantInput \<Rightarrow> CreditAccount \<Rightarrow> database \<Rightarrow> CreditMutationResult \<Rightarrow> database \<Rightarrow> bool" where
  "granted_result input a d r d' \<longleftrightarrow> (\<exists>t b.
     mr_Transaction r = Some t \<and> mr_Bucket r = Some b \<and> mr_Account r = a
     \<and> ct_Amount t = gi_Amount input \<and> ct_AccountID t = ca_ID a
     \<and> cb_Remaining b = gi_Amount input \<and> cb_AccountID b = ca_ID a \<and> cb_SourceTransactionID b = ct_ID t
     \<and> tb_accounts d' = tb_accounts d \<and> tb_transactions d' = tb_transactions d @ [t]
     \<and> tb_buckets d' = tb_buckets d @ [b])"

lemma wlp_newCreditBucketFromGrant:
  assumes "\<And>b. cb_AccountID b = ca_ID a \<Longrightarrow> cb_Remaining b = gi_Amount input \<Longrightarrow> cb_Granted b = gi_Amount input
    \<Longrightarrow> cb_Reserved b = 0 \<Longrightarrow> cb_Status b = BucketActive \<Longrightarrow> clean_id (cb_ID b) \<Longrightarrow> cb_IdempotencyKey b = k
    \<Longrightarrow> Q b d"
  shows "wlp (newCreditBucketFromGrant a input k now) Q d"
  unfolding newCreditBucketFromGrant_def Let_def
  by (intro wlp_intros assms, unfold CreditBucket.select_convs)
    (use clean_bucket_id in \<open>simp_all only: simp_thms\<close>)

lemma wlp_book_grant:
  assumes inv: "credit_open k (gi_Amount input) 0 (- gi_Amount input) (\<lambda>_. 0) d"
    and a: "holds_account k a d" and buckets: "repos_have_buckets s"
    and amt: "0 < gi_Amount input" "gi_Amount input \<le> max_int64"
    and post: "\<And>r d'. credit_inv d' \<Longrightarrow> granted_result input a d r d' \<Longrightarrow> Q r d'"
  shows "wlp (book_grant s input key now a) Q d"
  unfolding book_grant_def
  apply (rule wlp_andThen, rule wlp_if, intro wlp_intros wlp_newCreditBucketFromGrant)
   prefer 2
  subgoal using buckets by simp
  subgoal premises b for b0
  proof -
    have id: "ca_ID a = k" using a by (simp add: holds_account_def)
    show ?thesis
      apply (rule wlp_newCreditTransaction [OF inv _ _ holds_account_id [OF a]])
        apply (simp add: id)
       apply simp
      unfolding option.case Let_def CreditBucketRepo_Create_def
      apply (intro wlp_intros)
      subgoal premises new for t tt tb
      proof (rule post)
        let ?d1 = "tb_transactions_update (\<lambda>_. tt) d"
        let ?b = "b0\<lparr>cb_SourceTransactionID := ct_ID t\<rparr>"
        have open1: "credit_open k 0 0 (- gi_Amount input) (\<lambda>_. 0) ?d1" using new(6) by simp
        have known: "k \<in> account_ids ?d1" using holds_account_id [OF a] by simp
        have "credit_open k 0 0 0 (\<lambda>_. 0) (tb_buckets_update (\<lambda>_. tb) ?d1)"
          by (rule bucket_insert [OF open1 new(8) _ known]) (use b amt id in simp_all)
        then show "credit_inv (tb_buckets_update (\<lambda>_. tb) ?d1)" by (simp add: credit_inv_open [of _ k])
        have "tb = tb_buckets d @ [?b]" using new(8) by (simp add: buckets.insert_row_Some)
        then show "granted_result input a d \<lparr>mr_Account = a, mr_Reservation = None, mr_Transaction = Some t,
            mr_Bucket = Some ?b\<rparr> (tb_buckets_update (\<lambda>_. tb) ?d1)"
          using new(1-3) b id by (simp add: granted_result_def)
      qed
      done
  qed
  done

text \<open>A grant adds to the user's account, or to a new one, and puts the amount in a new bucket.\<close>

definition grant_effect ::
  "CreditGrantInput \<Rightarrow> database \<Rightarrow> CreditMutationResult \<Rightarrow> database \<Rightarrow> bool" where
  "grant_effect input d r d' \<longleftrightarrow> (\<exists>before held t b.
     (before = 0 \<and> held = 0 \<or> (\<exists>a\<in>set (tb_accounts d). ca_UserID a = trim_space (gi_UserID input)
        \<and> before = ca_Balance a \<and> held = ca_Reserved a))
     \<and> mr_Account r \<in> set (tb_accounts d') \<and> ca_UserID (mr_Account r) = trim_space (gi_UserID input)
     \<and> ca_Balance (mr_Account r) = before + gi_Amount input \<and> ca_Reserved (mr_Account r) = held
     \<and> mr_Transaction r = Some t \<and> mr_Bucket r = Some b
     \<and> ct_Amount t = gi_Amount input \<and> ct_AccountID t = ca_ID (mr_Account r)
     \<and> cb_Remaining b = gi_Amount input \<and> cb_AccountID b = ca_ID (mr_Account r)
     \<and> cb_SourceTransactionID b = ct_ID t
     \<and> tb_transactions d' = tb_transactions d @ [t] \<and> tb_buckets d' = tb_buckets d @ [b])"

lemma wlp_apply_grant:
  assumes inv: "credit_inv d" and buckets: "repos_have_buckets s"
    and amt: "0 < gi_Amount input" and fits: "grant_fits input d"
    and post: "\<And>r d'. credit_inv d' \<Longrightarrow> grant_effect input d r d' \<Longrightarrow> Q r d'"
  shows "wlp (apply_grant s input key) Q d"
  unfolding apply_grant_def Let_def CreditAccountRepo_Update_def
  apply (rule wlp_andThen, rule wlp_ensureCreditAccount [OF inv], rule wlp_andThen, rule wlp_time_now,
      intro wlp_intros)
  subgoal premises prems for a0 d1 now ta
  proof -
    let ?amt = "gi_Amount input"
    let ?k = "ca_ID a0"
    let ?a = "a0\<lparr>ca_Balance := wrap64 (ca_Balance a0 + ?amt), ca_UpdatedAt := now\<rparr>"
    note ta = prems(5)
    have open1: "credit_open ?k 0 0 0 (\<lambda>_. 0) d1" using prems(1) by (simp add: credit_inv_open [of d1 ?k])
    have am: "a0 \<in> set (tb_accounts d1)" using prems(2) by (simp add: holds_account_def)
    have a_ok: "account_ok ?k 0 0 0 d1 a0" by (rule holds_account_ok [OF open1 prems(2)])
    have sum: "ca_Balance a0 + ca_Reserved a0 + ?amt \<le> max_int64"
      using prems(4)
    proof
      assume "d1 = d"
      then show ?thesis using fits am prems(3) by (simp add: grant_fits_def)
    next
      assume "d1 = tb_accounts_update (\<lambda>t. t @ [a0]) d \<and> ca_Balance a0 = 0 \<and> ca_Reserved a0 = 0"
      then show ?thesis using fits by (simp add: grant_fits_def)
    qed
    then have w: "wrap64 (ca_Balance a0 + ?amt) = ca_Balance a0 + ?amt"
      using a_ok amt by (simp add: account_ok_def)
    note w1 = account_write [OF open1 am refl _ ta, of ?amt 0 "- ?amt"]
    have open2: "credit_open ?k ?amt 0 (- ?amt) (\<lambda>_. 0) (tb_accounts_update (\<lambda>_. ta) d1)"
      by (rule w1(1)) (use a_ok amt sum w in \<open>simp_all add: account_ok_def\<close>)
    have mem: "?a \<in> set (tb_accounts (tb_accounts_update (\<lambda>_. ta) d1))"
      by (rule w1(2)) (use a_ok amt sum w in \<open>simp_all add: account_ok_def\<close>)
    have "holds_account ?k ?a (tb_accounts_update (\<lambda>_. ta) d1)" using mem by (simp add: holds_account_def)
    then show ?thesis
    proof (rule wlp_book_grant [OF open2 _ buckets amt])
      show "gi_Amount input \<le> max_int64" using fits by (simp add: grant_fits_def)
    next
      fix r d'
      assume inv': "credit_inv d'"
        and res: "granted_result input ?a (tb_accounts_update (\<lambda>_. ta) d1) r d'"
      have same: "tb_transactions d1 = tb_transactions d" "tb_buckets d1 = tb_buckets d"
        using prems(4) by auto
      have before: "ca_Balance a0 = 0 \<and> ca_Reserved a0 = 0
          \<or> (\<exists>a\<in>set (tb_accounts d). ca_UserID a = trim_space (gi_UserID input)
               \<and> ca_Balance a0 = ca_Balance a \<and> ca_Reserved a0 = ca_Reserved a)"
        using prems(3,4) am by auto
      have "grant_effect input d r d'"
        using res mem before prems(3) unfolding granted_result_def grant_effect_def
        by (elim exE conjE, intro exI [of _ "ca_Balance a0"] exI [of _ "ca_Reserved a0"])
          (simp add: same w)
      with inv' show "Q r d'" by (rule post)
    qed
  qed
  done

lemma wlp_grantCreditsWithRepos:
  assumes inv: "credit_inv d" and "repos_have_buckets s"
    and "0 < gi_Amount input" and "grant_fits input d"
  shows "wlp (grantCreditsWithRepos s input) (\<lambda>r d'. credit_inv d' \<and>
    (find_row ct_IdempotencyKey (trim_space (gi_IdempotencyKey input)) (tb_transactions d) = None
      \<longrightarrow> grant_effect input d r d')) d"
  unfolding grantCreditsWithRepos_def Let_def CreditTransactionRepo_GetByIdempotencyKey_def
  by (intro wlp_if_found wlp_replay_grant wlp_apply_grant [OF inv]) (use assms in simp_all)

lemma leads_Grant:
  assumes "cfg_uow s"
  shows "leads (\<lambda>d. credit_inv d \<and> grant_fits input d) (Grant s input) credit_inv"
proof -
  have "repos_have_buckets s" using assms by (simp add: repos_have_buckets_def)
  then have "wlp (grantCreditsWithRepos s input) (\<lambda>_. credit_inv) d"
    if "credit_inv d \<and> grant_fits input d" "0 < gi_Amount input" for d
    using that wlp_grantCreditsWithRepos [of d s input] by (auto elim: wlp_mono)
  then show ?thesis
    unfolding Grant_def Let_def
    by (intro leads_guarded leads_after keeps_ensureUser leads_withCreditTransaction [OF assms]) simp_all
qed

section \<open>Commit and Release\<close>

lemma wlp_finalize_bucket:
  assumes inv: "credit_open k l r m bs d" and al: "bucket_of d k (al_BucketID al)" "0 < al_Amount al"
    and restored: "0 \<le> restored" "restored + al_Amount al \<le> max_int64"
    and post: "\<And>x d'. credit_open k l r (m + x)
        (\<lambda>i. bs i + (if i = al_BucketID al then al_Amount al else 0)) d'
      \<Longrightarrow> bucket_frame k d d' \<Longrightarrow> 0 \<le> x \<Longrightarrow> x \<le> al_Amount al
      \<Longrightarrow> (finalStatus \<noteq> ReservationReleased \<longrightarrow> x = 0) \<Longrightarrow> Q (restored + x) d'"
  shows "wlp (finalize_bucket finalStatus now al restored) Q d"
  unfolding finalize_bucket_def CreditBucketRepo_GetByID_def CreditBucketRepo_Update_def Let_def
  apply (intro wlp_intros)
  subgoal premises prems for b t
  proof -
    let ?live = "case cb_ExpiresAt b of None \<Rightarrow> True | Some e \<Rightarrow> now < e"
    let ?x = "if finalStatus = ReservationReleased \<and> ?live then al_Amount al else 0"
    let ?res = "wrap64 (cb_Reserved b - al_Amount al)"
    let ?rem = "if finalStatus = ReservationReleased \<and> ?live
      then wrap64 (cb_Remaining b + al_Amount al) else cb_Remaining b"
    note f = prems(1) and enough = prems(2) and sv = prems(3)
    note b = found_bucket [OF inv al(1) f]
    have ok: "bucket_ok bs d b" by (rule credit_open_bucket [OF inv b(1)])
    have res: "?res = cb_Reserved b - al_Amount al" and rem: "?rem = cb_Remaining b + ?x"
      using ok enough al(2) by (auto simp: bucket_ok_def)
    have rng: "0 \<le> cb_Remaining b" "0 \<le> cb_Reserved b - al_Amount al"
      "cb_Status b \<noteq> BucketActive \<longrightarrow> cb_Remaining b = 0"
      using ok enough by (auto simp: bucket_ok_def)
    let ?b = "b\<lparr>cb_Remaining := ?rem, cb_Reserved := ?res, cb_Status :=
      (if ?rem = 0 \<and> ?res = 0 then (if ?live then BucketDepleted else BucketExpired)
       else (if finalStatus = ReservationReleased \<and> ?live then BucketActive else cb_Status b)),
      cb_UpdatedAt := now\<rparr>"
    have status: "cb_Status ?b \<noteq> BucketActive \<longrightarrow> cb_Remaining ?b = 0"
      using rng(3) rem by (simp add: rem) auto
    have t: "t = replace_row cb_ID ?b (tb_buckets d)" by (rule bucket_saved [OF b(1) _ sv]) simp
    have of: "bucket_of (tb_buckets_update (\<lambda>_. t) d) k i" if "bucket_of d k i" for i
      by (rule bucket_of_replace [OF credit_open_tables(2) [OF inv] b(1) _ _ t that]) simp_all
    have x: "0 \<le> ?x" "?x \<le> al_Amount al" using al(2) by simp_all
    have open': "credit_open k l r (m + ?x)
        (\<lambda>i. bs i + (if i = al_BucketID al then al_Amount al else 0)) (tb_buckets_update (\<lambda>_. t) d)"
    proof (rule bucket_write(1) [OF inv b(1) _ b(3) _ _ sv _ _ _ status])
      show "0 \<le> cb_Remaining ?b" "cb_Remaining ?b + cb_Reserved ?b \<le> cb_Remaining b + cb_Reserved b"
        "m + ?x = m + cb_Remaining ?b - cb_Remaining b"
        using rng x by (simp_all add: rem res)
    qed (use rng(2) in \<open>simp_all add: res b\<close>)
    have frame: "bucket_frame k d (tb_buckets_update (\<lambda>_. t) d)" using of by (auto simp: bucket_frame_def)
    have "Q (restored + ?x) (tb_buckets_update (\<lambda>_. t) d)"
      by (rule post [OF open' frame x]) simp
    moreover have "(if finalStatus = ReservationReleased \<and> ?live then wrap64 (restored + al_Amount al) else restored)
        = restored + ?x"
      using restored al(2) by simp
    ultimately show ?thesis by simp
  qed
  done

lemma wlp_finalize_buckets:
  assumes inv: "credit_open k l r m bs d"
    and als: "\<forall>al\<in>set als. bucket_of d k (al_BucketID al) \<and> 0 < al_Amount al"
    and restored: "0 \<le> restored" "restored + alloc_amounts als \<le> max_int64"
    and post: "\<And>x d'. credit_open k l r (m + x) (\<lambda>i. bs i + alloc_total i als) d'
      \<Longrightarrow> bucket_frame k d d' \<Longrightarrow> 0 \<le> x \<Longrightarrow> x \<le> alloc_amounts als
      \<Longrightarrow> (finalStatus \<noteq> ReservationReleased \<longrightarrow> x = 0) \<Longrightarrow> Q (restored + x) d'"
  shows "wlp (for_each als (finalize_bucket finalStatus now) restored) Q d"
  using inv als restored post
proof (induction als arbitrary: m bs d restored Q)
  case Nil
  from Nil(5) [of 0 d] Nil(1) show ?case by (simp add: wlp_ret bucket_frame_refl)
next
  case (Cons al als)
  have rest: "0 \<le> alloc_amounts als" using Cons.prems(2) by (intro alloc_amounts_nonneg) simp
  show ?case
    unfolding for_each.simps
    apply (rule wlp_andThen, rule wlp_finalize_bucket [OF Cons.prems(1)])
    using Cons.prems(2) apply simp
    using Cons.prems(2) apply simp
      apply (rule Cons.prems(3))
    using Cons.prems(4) rest apply simp
    subgoal premises prems for x d'
    proof (rule Cons.IH [OF prems(1)])
      show "\<forall>al\<in>set als. bucket_of d' k (al_BucketID al) \<and> 0 < al_Amount al"
        using Cons.prems(2) bucket_frame_keeps(6) [OF prems(2)] by simp
      show "0 \<le> restored + x" "restored + x + alloc_amounts als \<le> max_int64"
        using Cons.prems(3,4) prems(3,4) by simp_all
      fix y d''
      let ?bs = "\<lambda>i. bs i + (if i = al_BucketID al then al_Amount al else 0)"
      assume open': "credit_open k l r (m + x + y) (\<lambda>i. ?bs i + alloc_total i als) d''"
        and fr: "bucket_frame k d' d''" and y: "0 \<le> y" "y \<le> alloc_amounts als"
        and zero: "finalStatus \<noteq> ReservationReleased \<longrightarrow> y = 0"
      have bs: "(\<lambda>i. ?bs i + alloc_total i als) = (\<lambda>i. bs i + alloc_total i (al # als))"
        by (auto simp: fun_eq_iff)
      have "credit_open k l r (m + (x + y)) (\<lambda>i. bs i + alloc_total i (al # als)) d''"
        using open' unfolding bs by (simp only: add.assoc)
      then have "Q (restored + (x + y)) d''"
        by (rule Cons.prems(5)) (use bucket_frame_trans [OF prems(2) fr] y zero prems(3-5) in simp_all)
      then show "Q (restored + x + y) d''" by (simp add: add.assoc)
    qed
    done
qed

lemma decode_compact: "compactCreditBucketAllocations als = als \<Longrightarrow> decodeCreditBucketAllocations als = als"
  by (simp add: decodeCreditBucketAllocations_def)

text \<open>
  What a release gives back lies between what the live buckets took back and the whole
  amount; a commit gives nothing back to the buckets.
\<close>

lemma wlp_restored_amount:
  assumes inv: "credit_inv d" and x: "x \<in> set (tb_reservations d)" "cr_Status x = ReservationPending"
    and buckets: "repos_have_buckets s" and k: "cr_AccountID x = k"
    and post: "\<And>rest y d'. credit_open k 0 0 rest (\<lambda>i. alloc_total i (cr_BucketAllocations x)) d'
      \<Longrightarrow> bucket_frame k d d' \<Longrightarrow> 0 \<le> rest \<Longrightarrow> rest \<le> y \<Longrightarrow> y \<le> cr_Amount x
      \<Longrightarrow> (finalStatus \<noteq> ReservationReleased \<longrightarrow> rest = 0) \<Longrightarrow> Q y d'"
  shows "wlp (restored_amount s x finalStatus now) Q d"
proof -
  let ?als = "cr_BucketAllocations x"
  have open0: "credit_open k 0 0 0 (\<lambda>_. 0) d" using inv by (simp add: credit_inv_open [of d k])
  have ok: "reservation_ok d x" by (rule credit_open_reservation [OF open0 x(1)])
  then have amt: "0 < cr_Amount x" "cr_Amount x \<le> max_int64" "alloc_amounts ?als \<le> cr_Amount x"
    and compact: "compactCreditBucketAllocations ?als = ?als"
    using x(2) by (simp_all add: reservation_ok_def)
  have pos: "\<forall>al\<in>set ?als. 0 < al_Amount al" using compact compact_member by metis
  then have als: "\<forall>al\<in>set ?als. bucket_of d k (al_BucketID al) \<and> 0 < al_Amount al"
    using ok x(2) k by (simp add: reservation_ok_def)
  have total: "totalCreditBucketAllocationAmount ?als = alloc_amounts ?als"
    using pos amt compact by (intro total_allocation_amount) simp_all
  have nonneg: "0 \<le> alloc_amounts ?als" using pos by (rule alloc_amounts_nonneg)
  show ?thesis
    unfolding restored_amount_def Let_def decode_compact [OF compact] finalizeBucketAllocations_def compact total
  proof (rule wlp_if)
    assume "repos_have_buckets s \<and> ?als \<noteq> []"
    show "wlp (andThen (for_each ?als (finalize_bucket finalStatus now) 0) (\<lambda>bucketRestored.
        ret (if finalStatus = ReservationReleased
             then if wrap64 (cr_Amount x - alloc_amounts ?als + bucketRestored) < 0 then 0
                  else wrap64 (cr_Amount x - alloc_amounts ?als + bucketRestored)
             else cr_Amount x))) Q d"
      apply (rule wlp_andThen, rule wlp_finalize_buckets [OF open0 als])
        apply simp
      using amt apply simp
      subgoal premises prems for rest d'
      proof (rule wlp_ret, rule post)
        show "credit_open k 0 0 rest (\<lambda>i. alloc_total i ?als) d'" using prems(1) by simp
        have "wrap64 (cr_Amount x - alloc_amounts ?als + rest) = cr_Amount x - alloc_amounts ?als + rest"
          using amt prems nonneg by simp
        then show "rest \<le> (if finalStatus = ReservationReleased
             then if wrap64 (cr_Amount x - alloc_amounts ?als + (0 + rest)) < 0 then 0
                  else wrap64 (cr_Amount x - alloc_amounts ?als + (0 + rest))
             else cr_Amount x)"
          "(if finalStatus = ReservationReleased
             then if wrap64 (cr_Amount x - alloc_amounts ?als + (0 + rest)) < 0 then 0
                  else wrap64 (cr_Amount x - alloc_amounts ?als + (0 + rest))
             else cr_Amount x) \<le> cr_Amount x"
          using amt prems nonneg by simp_all
      qed (use prems in simp_all)
      done
  next
    assume "\<not> (repos_have_buckets s \<and> ?als \<noteq> [])"
    then have "?als = []" using buckets by simp
    then show "wlp (ret (cr_Amount x)) Q d"
      using open0 amt by (intro wlp_ret post [of 0 d]) (simp_all add: bucket_frame_refl)
  qed
qed

definition finalized_result ::
  "CreditReservation \<Rightarrow> CreditAccount \<Rightarrow> string \<Rightarrow> int \<Rightarrow> database \<Rightarrow> CreditMutationResult \<Rightarrow> database \<Rightarrow> bool" where
  "finalized_result x a finalStatus restored d r d' \<longleftrightarrow> (\<exists>y t.
     mr_Reservation r = Some y \<and> mr_Transaction r = Some t
     \<and> mr_Account r \<in> set (tb_accounts d') \<and> ca_ID (mr_Account r) = ca_ID a
     \<and> ca_Reserved (mr_Account r) = ca_Reserved a - cr_Amount x
     \<and> ca_Balance (mr_Account r) = ca_Balance a + (if finalStatus = ReservationReleased then restored else 0)
     \<and> cr_ID y = cr_ID x \<and> cr_Status y = finalStatus
     \<and> tb_reservations d' = replace_row cr_ID y (tb_reservations d)
     \<and> tb_transactions d' = tb_transactions d @ [t] \<and> ct_ReservationID t = cr_ID x
     \<and> ct_Amount t = (if finalStatus = ReservationReleased then restored else 0))"

lemma wlp_settle_reservation:
  assumes inv: "credit_open k 0 0 rest (\<lambda>i. alloc_total i (cr_BucketAllocations x)) d"
    and x: "x \<in> set (tb_reservations d)" "cr_Status x = ReservationPending" "cr_AccountID x = k"
    and a: "holds_account k a d" and enough: "cr_Amount x \<le> ca_Reserved a"
    and y: "0 \<le> rest" "rest \<le> y" "y \<le> cr_Amount x" "finalStatus \<noteq> ReservationReleased \<longrightarrow> rest = 0"
    and final: "finalStatus = ReservationReleased \<and> tt = TxRelease
      \<or> finalStatus = ReservationCommitted \<and> tt = TxCommit"
    and post: "\<And>r d'. credit_inv d' \<Longrightarrow> finalized_result x a finalStatus y d r d' \<Longrightarrow> Q r d'"
  shows "wlp (settle_reservation a x y finalStatus tt key now) Q d"
  unfolding settle_reservation_def Let_def CreditAccountRepo_Update_def CreditReservationRepo_Update_def
  apply (intro wlp_intros)
  subgoal premises prems for ta tr
  proof -
    note ta = prems(1) and tr = prems(2)
    let ?released = "finalStatus = ReservationReleased"
    define gain where "gain = (if ?released then y else 0)"
    let ?a = "a\<lparr>ca_Reserved := wrap64 (ca_Reserved a - cr_Amount x),
      ca_Balance := (if ?released then wrap64 (ca_Balance a + y) else ca_Balance a), ca_UpdatedAt := now\<rparr>"
    let ?d1 = "tb_accounts_update (\<lambda>_. ta) d"
    let ?x = "finalized_row x finalStatus now"
    let ?d2 = "tb_reservations_update (\<lambda>_. tr) ?d1"
    have row: "cr_ID ?x = cr_ID x" "cr_Status ?x = finalStatus" "finalStatus \<noteq> ReservationPending"
      using final by (auto simp: finalized_row_def Let_def)
    have am: "a \<in> set (tb_accounts d)" "ca_ID a = k" using a by (simp_all add: holds_account_def)
    have a_ok: "account_ok k 0 0 rest d a" by (rule holds_account_ok [OF inv a])
    have gain: "0 \<le> gain" "gain \<le> cr_Amount x" "rest \<le> gain"
      using y by (auto simp: gain_def)
    have w: "wrap64 (ca_Reserved a - cr_Amount x) = ca_Reserved a - cr_Amount x"
      "(if ?released then wrap64 (ca_Balance a + y) else ca_Balance a) = ca_Balance a + gain"
      using a_ok enough y by (auto simp: account_ok_def gain_def)
    have rng: "0 \<le> ca_Balance a + gain" "0 \<le> ca_Reserved a - cr_Amount x"
      "(ca_Balance a + gain) + (ca_Reserved a - cr_Amount x) \<le> max_int64"
      using a_ok gain enough by (simp_all add: account_ok_def)
    have ta': "save_row ca_ID account_clash (a\<lparr>ca_Reserved := ca_Reserved a - cr_Amount x,
        ca_Balance := ca_Balance a + gain, ca_UpdatedAt := now\<rparr>) (tb_accounts d) = Some ta"
      using ta by (simp only: w)
    let ?b = "a\<lparr>ca_Reserved := ca_Reserved a - cr_Amount x, ca_Balance := ca_Balance a + gain, ca_UpdatedAt := now\<rparr>"
    note w1 = account_write [OF inv am _ ta', of gain "cr_Amount x" "rest - gain"]
    have open1: "credit_open k gain (cr_Amount x) (rest - gain) (\<lambda>i. alloc_total i (cr_BucketAllocations x)) ?d1"
      by (rule w1(1)) (use am rng in simp_all)
    have mem1: "?b \<in> set (tb_accounts ?d1)" by (rule w1(2)) (use am rng in simp_all)
    have ids1: "account_ids ?d1 = account_ids d" by (rule w1(3)) (use am rng in simp_all)
    have "remaining_sum d k \<le> ca_Balance a + rest" using a_ok am by (simp add: account_ok_def)
    then have open1': "credit_open k gain (cr_Amount x) 0 (\<lambda>i. alloc_total i (cr_BucketAllocations x)) ?d1"
      by (intro credit_open_slack [OF open1 mem1]) (use am gain in simp_all)
    have x1: "x \<in> set (tb_reservations ?d1)" using x by simp
    have open2: "credit_open k gain 0 0 (\<lambda>_. 0) ?d2"
      by (rule reservation_finalize [OF open1' x1 row(1) x(2,3) _ tr]) (use row in simp_all)
    have tr': "tr = replace_row cr_ID ?x (tb_reservations d)"
      by (rule reservation_saved [OF x(1) row(1)]) (use tr in simp)
    have known2: "k \<in> account_ids ?d2" using holds_account_id [OF a] ids1 by simp
    have amt: "(if tt = TxRelease then y else 0) = gain" using final by (auto simp: gain_def)
    show ?thesis
      unfolding w
      apply (rule wlp_newCreditTransaction [OF open2 _ _ known2])
        apply (simp add: am)
       apply (simp add: amt)
      subgoal premises new for t tt'
      proof (rule wlp_ret, rule post)
        show "credit_inv (tb_transactions_update (\<lambda>_. tt') ?d2)"
          using new(6) by (simp add: credit_inv_open [of _ k])
        show "finalized_result x a finalStatus y d \<lparr>mr_Account = ?b, mr_Reservation = Some ?x,
            mr_Transaction = Some t, mr_Bucket = None\<rparr> (tb_transactions_update (\<lambda>_. tt') ?d2)"
          unfolding finalized_result_def
          by (intro exI [of _ ?x] exI [of _ t])
            (use mem1 am row tr' new(1-5) in \<open>simp add: gain_def [symmetric]\<close>)
      qed
      done
  qed
  done

lemma wlp_apply_finalization:
  assumes inv: "credit_inv d" and buckets: "repos_have_buckets s"
    and final: "finalStatus = ReservationReleased \<and> tt = TxRelease
      \<or> finalStatus = ReservationCommitted \<and> tt = TxCommit"
    and post: "\<And>r d' x a y d1. credit_inv d' \<Longrightarrow> x \<in> set (tb_reservations d)
      \<Longrightarrow> cr_ID x = reservationID \<Longrightarrow> cr_Status x = ReservationPending \<Longrightarrow> a \<in> set (tb_accounts d)
      \<Longrightarrow> ca_ID a = cr_AccountID x \<Longrightarrow> 0 \<le> y \<Longrightarrow> y \<le> cr_Amount x
      \<Longrightarrow> tb_reservations d1 = tb_reservations d \<Longrightarrow> tb_transactions d1 = tb_transactions d
      \<Longrightarrow> finalized_result x a finalStatus y d1 r d' \<Longrightarrow> Q r d'"
  shows "wlp (apply_finalization s reservationID key finalStatus tt) Q d"
  unfolding apply_finalization_def CreditReservationRepo_GetByID_def CreditAccountRepo_GetByID_def
  apply (intro wlp_intros)
  subgoal premises prems for x now a
  proof -
    have x: "x \<in> set (tb_reservations d)" "cr_ID x = reservationID" "cr_Status x = ReservationPending"
      using reservations.find_row_Some [OF prems(1)] prems(2) by simp_all
    have a: "holds_account (cr_AccountID x) a d" by (rule found_account [OF prems(4)])
    show ?thesis
      apply (rule wlp_restored_amount [OF inv x(1,3) buckets refl])
      subgoal premises r for rest y d1
      proof (rule wlp_settle_reservation [OF r(1) _ x(3) refl _ _ r(3,4,5,6) final])
        show "x \<in> set (tb_reservations d1)" "holds_account (cr_AccountID x) a d1" "cr_Amount x \<le> ca_Reserved a"
          using x(1) a prems(5) bucket_frame_keeps [OF r(2)] by simp_all
        fix res d'
        assume "credit_inv d'" "finalized_result x a finalStatus y d1 res d'"
        then show "Q res d'"
          using x a r bucket_frame_keeps [OF r(2)] by (intro post) (auto simp: holds_account_def)
      qed
      done
  qed
  done

text \<open>
  What a successful Commit or Release of a fresh key did: the reservation was pending and is
  now final, its amount has left the reserved amount, and a release returned \<open>y\<close> of it.
\<close>

definition finalize_effect ::
  "string \<Rightarrow> string \<Rightarrow> database \<Rightarrow> CreditMutationResult \<Rightarrow> database \<Rightarrow> bool" where
  "finalize_effect reservationID finalStatus d r d' \<longleftrightarrow> (\<exists>x x' a y t.
     x \<in> set (tb_reservations d) \<and> cr_ID x = reservationID \<and> cr_Status x = ReservationPending
     \<and> a \<in> set (tb_accounts d) \<and> ca_ID a = cr_AccountID x
     \<and> 0 \<le> y \<and> y \<le> (if finalStatus = ReservationReleased then cr_Amount x else 0)
     \<and> mr_Reservation r = Some x' \<and> mr_Transaction r = Some t \<and> mr_Account r \<in> set (tb_accounts d')
     \<and> ca_ID (mr_Account r) = ca_ID a
     \<and> ca_Reserved (mr_Account r) = ca_Reserved a - cr_Amount x
     \<and> ca_Balance (mr_Account r) = ca_Balance a + y
     \<and> cr_ID x' = reservationID \<and> cr_Status x' = finalStatus
     \<and> tb_reservations d' = replace_row cr_ID x' (tb_reservations d)
     \<and> tb_transactions d' = tb_transactions d @ [t] \<and> ct_ReservationID t = reservationID \<and> ct_Amount t = y)"

lemma wlp_finalize_body:
  assumes inv: "credit_inv d" and buckets: "repos_have_buckets s"
    and final: "finalStatus = ReservationReleased \<and> tt = TxRelease
      \<or> finalStatus = ReservationCommitted \<and> tt = TxCommit"
  shows "wlp (if_found (CreditTransactionRepo_GetByIdempotencyKey key) replay_finalization
              (apply_finalization s reservationID key finalStatus tt))
    (\<lambda>r d'. credit_inv d' \<and> (find_row ct_IdempotencyKey key (tb_transactions d) = None
      \<longrightarrow> finalize_effect reservationID finalStatus d r d')) d"
  unfolding CreditTransactionRepo_GetByIdempotencyKey_def
  apply (intro wlp_if_found wlp_replay_finalization)
  using inv apply simp
  apply (rule wlp_apply_finalization [OF inv buckets final])
  subgoal premises prems for r d' x a y d1
  proof -
    obtain x' t where "mr_Reservation r = Some x'" "mr_Transaction r = Some t"
      "mr_Account r \<in> set (tb_accounts d')" "ca_ID (mr_Account r) = ca_ID a"
      "ca_Reserved (mr_Account r) = ca_Reserved a - cr_Amount x"
      "ca_Balance (mr_Account r) = ca_Balance a + (if finalStatus = ReservationReleased then y else 0)"
      "cr_ID x' = cr_ID x" "cr_Status x' = finalStatus"
      "tb_reservations d' = replace_row cr_ID x' (tb_reservations d1)"
      "tb_transactions d' = tb_transactions d1 @ [t]" "ct_ReservationID t = cr_ID x"
      "ct_Amount t = (if finalStatus = ReservationReleased then y else 0)"
      using prems(12) unfolding finalized_result_def by blast
    with prems(3-11) final have "finalize_effect reservationID finalStatus d r d'"
      unfolding finalize_effect_def
      by (intro exI [of _ x] exI [of _ x'] exI [of _ a] exI [of _ t]
          exI [of _ "if finalStatus = ReservationReleased then y else 0"]) simp
    with prems(2) show ?thesis by simp
  qed
  done

lemma keeps_finalizeReservation:
  assumes "cfg_uow s"
    and "finalStatus = ReservationReleased \<and> tt = TxRelease
      \<or> finalStatus = ReservationCommitted \<and> tt = TxCommit"
  shows "keeps credit_inv (finalizeReservation s input finalStatus tt)"
proof -
  have buckets: "repos_have_buckets s" using assms(1) by (simp add: repos_have_buckets_def)
  show ?thesis
    unfolding finalizeReservation_def Let_def CreditTransactionRepo_GetByIdempotencyKey_def
    by (intro keeps_guarded keeps_withCreditTransaction [OF assms(1)] wlp_if_found wlp_replay_finalization
        wlp_apply_finalization [OF _ buckets assms(2)]) simp_all
qed

section \<open>ExpireBuckets\<close>

definition cached_accounts :: "(string \<Rightarrow> CreditAccount option) \<Rightarrow> database \<Rightarrow> bool" where
  "cached_accounts m d \<longleftrightarrow> (\<forall>i a. m i = Some a \<longrightarrow> holds_account i a d)"

text \<open>
  The ledger effect of an expiry call: every account keeps its place, its reserved amount and its
  user, and its balance changes by the reported entries of that account, all of them expiries.
\<close>

definition balances_follow :: "CreditTransaction list \<Rightarrow> CreditAccount list \<Rightarrow> CreditAccount list \<Rightarrow> bool" where
  "balances_follow ts as as' \<longleftrightarrow> list_all2 (\<lambda>a a'. ca_ID a' = ca_ID a \<and> ca_UserID a' = ca_UserID a
     \<and> ca_Reserved a' = ca_Reserved a
     \<and> ca_Balance a' = ca_Balance a + sum_rows (\<lambda>t. ct_AccountID t = ca_ID a) ct_Amount ts) as as'"

lemma balances_follow_refl: "balances_follow [] as as"
  by (simp add: balances_follow_def list_all2_same)

lemma balances_follow_step:
  assumes "balances_follow ts as as'" "ct_AccountID x = ca_ID a0"
    and "\<forall>y\<in>set as'. ca_ID y = ca_ID a0 \<longrightarrow> y = a0"
    and "ca_ID a = ca_ID a0" "ca_UserID a = ca_UserID a0" "ca_Reserved a = ca_Reserved a0"
    and "ca_Balance a = ca_Balance a0 + ct_Amount x"
  shows "balances_follow (ts @ [x]) as (replace_row ca_ID a as')"
  unfolding balances_follow_def replace_row_def list.rel_map
proof (rule list.rel_mono_strong [OF assms(1) [unfolded balances_follow_def]])
  fix z y
  assume y: "y \<in> set as'"
    and z: "ca_ID y = ca_ID z \<and> ca_UserID y = ca_UserID z \<and> ca_Reserved y = ca_Reserved z
      \<and> ca_Balance y = ca_Balance z + sum_rows (\<lambda>t. ct_AccountID t = ca_ID z) ct_Amount ts"
  let ?y = "if ca_ID y = ca_ID a then a else y"
  show "ca_ID ?y = ca_ID z \<and> ca_UserID ?y = ca_UserID z \<and> ca_Reserved ?y = ca_Reserved z
      \<and> ca_Balance ?y = ca_Balance z + sum_rows (\<lambda>t. ct_AccountID t = ca_ID z) ct_Amount (ts @ [x])"
  proof (cases "ca_ID y = ca_ID a0")
    case True
    then have "y = a0" using assms(3) y by blast
    with z assms(2,4-7) show ?thesis by simp
  next
    case False
    with z assms(2,4) show ?thesis by simp
  qed
qed

definition expiry_report :: "database \<Rightarrow> CreditBucketExpiryResult \<Rightarrow> database \<Rightarrow> bool" where
  "expiry_report d result d' \<longleftrightarrow>
     tb_transactions d' = tb_transactions d @ xr_Transactions result
     \<and> balances_follow (xr_Transactions result) (tb_accounts d) (tb_accounts d')
     \<and> (\<forall>t\<in>set (xr_Transactions result). ct_Type t = TxExpire \<and> ct_Amount t \<le> 0
          \<and> ct_AccountID t \<in> account_ids d')
     \<and> length (xr_ExpiredBuckets result) = length (xr_Transactions result)
     \<and> (\<forall>b\<in>set (xr_ExpiredBuckets result). cb_Remaining b = 0 \<and> cb_Status b = BucketExpired)
     \<and> xr_ExpiredAmount result = wrap64 (- (\<Sum>t\<leftarrow>xr_Transactions result. ct_Amount t))"

lemma expiry_report_start: "expiry_report d empty_expiry d"
  by (simp add: expiry_report_def empty_expiry_def wrap64_def balances_follow_refl)

lemma expiry_report_step:
  assumes "expiry_report d0 result d" "expired_step a0 b0 now d (a, b, x, e) d'" "0 \<le> e"
    and "credit_inv d" "holds_account k a0 d"
  shows "expiry_report d0 (add_expired result b x e) d'"
proof -
  have only: "\<forall>y\<in>set (tb_accounts d). ca_ID y = ca_ID a0 \<longrightarrow> y = a0"
    using same_account [OF assms(4,5)] by blast
  have follow: "balances_follow (xr_Transactions result @ [x]) (tb_accounts d0) (replace_row ca_ID a (tb_accounts d))"
    by (rule balances_follow_step [OF _ _ only])
      (use assms(1,2) in \<open>simp_all add: expiry_report_def expired_step_def\<close>)
  have "xr_ExpiredAmount (add_expired result b x e)
      = wrap64 (- (\<Sum>t\<leftarrow>xr_Transactions result. ct_Amount t) + e)"
    using assms(1) by (simp add: add_expired_def expiry_report_def)
  then show ?thesis
    using assms follow
    by (auto simp: expiry_report_def expired_step_def add_expired_def account_ids_def keys_replace_row
        holds_account_def)
qed

lemma wlp_expireCreditBucketsWithRepos:
  assumes inv: "credit_inv d" and buckets: "repos_have_buckets s"
  shows "wlp (expireCreditBucketsWithRepos s now limit i)
    (\<lambda>result d'. credit_inv d' \<and> expiry_report d result d'
      \<and> (i = [] \<and> limit = 0 \<longrightarrow> (\<forall>b\<in>set (tb_buckets d'). 0 < cb_Remaining b \<longrightarrow> \<not> expired_at now b))) d"
proof -
  let ?query = "expired_query (trim_space i) now limit"
  let ?q = "page (bq_Limit ?query) (bq_Offset ?query)
    (sort_key bucket_rank (List.filter (bucket_matches ?query) (tb_buckets d)))"
  have q: "?q = page limit 0 (sort_key bucket_rank (List.filter (bucket_matches ?query) (tb_buckets d)))"
    by (simp add: expired_query_def empty_bucket_query_def)
  let ?todo_all = "\<lambda>todo d'. i = [] \<and> limit = 0 \<longrightarrow>
    (\<forall>b\<in>set (tb_buckets d'). 0 < cb_Remaining b \<and> expired_at now b \<longrightarrow> b \<in> set todo)"
  let ?I = "\<lambda>todo acc d'. credit_inv d' \<and> expiry_report d (fst acc) d' \<and> cached_accounts (snd acc) d'
    \<and> expiry_todo now todo d' \<and> ?todo_all todo d'"
  have all: "b \<in> set ?q" if "i = []" "limit = 0" "b \<in> set (tb_buckets d)" "0 < cb_Remaining b" "expired_at now b" for b
  proof -
    have "bucket_ok (\<lambda>_. 0) d b" using inv that(3) by (auto simp: credit_inv_def intro: credit_open_bucket)
    then have "cb_Status b = BucketActive" using that(4) by (auto simp: bucket_ok_def)
    with that show ?thesis
      unfolding q by (simp add: page_def bucket_matches_def expired_query_def empty_bucket_query_def
        column_matches_def expired_at_def split: option.splits)
  qed
  have start: "?I ?q (empty_expiry, Map.empty) d"
    using inv expired_query_todo [OF inv] all expiry_report_start
    by (auto simp: cached_accounts_def expired_query_def empty_bucket_query_def)
  show ?thesis
    unfolding expireCreditBucketsWithRepos_def CreditBucketRepo_List_def
    apply (rule wlp_if)
    using buckets apply simp
    apply (rule wlp_andThen, rule wlp_db_read, rule wlp_andThen)
    apply (rule wlp_for_each [where I = ?I, OF start])
    subgoal premises I for b bs acc d'
    proof -
      obtain result m where acc: "acc = (result, m)" by (cases acc)
      have b: "b \<in> set (tb_buckets d')" "0 < cb_Remaining b" using I by (simp_all add: expiry_todo_def)
      have step: "wlp (expireCreditBucket a b now) (\<lambda>x. wlp (case x of (account, bucket', transaction, amount) \<Rightarrow>
          ret (add_expired result bucket' transaction amount, m(cb_AccountID b \<mapsto> account))) (?I bs)) d'"
        if a: "holds_account (cb_AccountID b) a d'" for a
      proof (rule wlp_expireCreditBucket [OF _ a b(1) refl b(2)])
        show "credit_inv d'" using I by simp
      next
        fix res d''
        assume inv': "credit_inv d''" and step0: "expired_step a b now d' res d''"
        obtain a' b' x e where res: "res = (a', b', x, e)" by (cases res)
        note step = step0 [unfolded res]
        note keeps = expired_step_keeps [OF step a b(1)]
        have e: "0 \<le> e" using step b(2) by (simp add: expired_step_def)
        have cached: "cached_accounts (m(cb_AccountID b \<mapsto> a')) d''"
          using I keeps(1,2) by (auto simp: acc cached_accounts_def holds_account_def)
        have rest: "?todo_all bs d''" using I keeps(4) by fastforce
        have "?I bs (add_expired result b' x e, m(cb_AccountID b \<mapsto> a')) d''"
          using inv' I cached rest expiry_report_step [OF _ step e _ a] expiry_todo_step [OF _ step a]
          by (simp add: acc)
        then show "wlp (case res of (account, bucket', transaction, amount) \<Rightarrow>
            ret (add_expired result bucket' transaction amount, m(cb_AccountID b \<mapsto> account))) (?I bs) d''"
          unfolding res prod.case by (rule wlp_ret)
      qed
      show ?thesis
        unfolding acc prod.case
      proof (rule wlp_andThen, cases "m (cb_AccountID b)")
        case None
        then show "wlp (case m (cb_AccountID b) of None \<Rightarrow> CreditAccountRepo_GetByID (cb_AccountID b)
            | Some account \<Rightarrow> ret account) (\<lambda>x. wlp (andThen (expireCreditBucket x b now)
              (\<lambda>(account, bucket', transaction, amount).
                ret (add_expired result bucket' transaction amount, m(cb_AccountID b \<mapsto> account)))) (?I bs)) d'"
          by (simp add: CreditAccountRepo_GetByID_def)
            (rule wlp_store_find, rule wlp_andThen, rule step, rule found_account)
      next
        case (Some a)
        then have "holds_account (cb_AccountID b) a d'" using I by (simp add: acc cached_accounts_def)
        then show "wlp (case m (cb_AccountID b) of None \<Rightarrow> CreditAccountRepo_GetByID (cb_AccountID b)
            | Some account \<Rightarrow> ret account) (\<lambda>x. wlp (andThen (expireCreditBucket x b now)
              (\<lambda>(account, bucket', transaction, amount).
                ret (add_expired result bucket' transaction amount, m(cb_AccountID b \<mapsto> account)))) (?I bs)) d'"
          unfolding Some option.case by (intro wlp_ret wlp_andThen step)
      qed
    qed
    subgoal for acc d'
      by (cases acc) (auto intro!: wlp_ret)
    done
qed

lemma keeps_ExpireBuckets:
  assumes "cfg_uow s"
  shows "keeps credit_inv (ExpireBuckets s now limit)"
proof -
  have buckets: "repos_have_buckets s" using assms by (simp add: repos_have_buckets_def)
  have "wlp (expireCreditBucketsWithRepos s t limit []) (\<lambda>_. credit_inv) d" if "credit_inv d" for t d
    using wlp_expireCreditBucketsWithRepos [OF that buckets] by (rule wlp_mono) simp
  then show ?thesis
    unfolding ExpireBuckets_def
    by (intro keeps_andThen keeps_if keeps_time_now keeps_ret keeps_withCreditTransaction [OF assms])
qed

end
