(* ===== verification/Sample_World.thy ===== *)
theory Sample_World
  imports Credit
begin

text \<open>
  Concrete worlds on which the properties are exercised: a clock that advances by a
  nanosecond per step, identifiers that count the steps, a storage engine that never fails.
\<close>

definition sample_world :: "nat \<Rightarrow> database \<Rightarrow> database world" where
  "sample_world n d = \<lparr>db = d, clock = (\<lambda>k. 63800000000000000000 + int k),
     entropy = (\<lambda>k. Some [word_of_nat k]), faults = (\<lambda>_. None), sha256_hex = (\<lambda>x. x), tick = n\<rparr>"

definition full_service :: credit_service where
  "full_service = \<lparr>cfg_users = True, cfg_buckets = True, cfg_uow = True\<rparr>"

definition sample_user :: User where
  "sample_user = \<lparr>us_ID = ''usr_1'', us_Email = ''a@b.c'', us_DisplayName = [], us_Status = UserStatusActive,
     us_CreatedAt = 1, us_UpdatedAt = 1\<rparr>"

definition users_db :: database where
  "users_db = empty_database\<lparr>tb_users := [sample_user]\<rparr>"

text \<open>Runs are split into their result and the next world.\<close>

abbreviation ok_result :: "('e + 'r) \<times> 'w \<Rightarrow> 'r" where
  "ok_result x \<equiv> projr (fst x)"

lemma run_ok: "isl (fst x) = False \<Longrightarrow> x = (Inr (ok_result x), snd x)"
  by (cases x) (auto simp: sum.collapse(2))

end
