(* ===== verification/Credit_Theorems.thy ===== *)
theory Credit_Theorems
  imports Credit_Ledger Sample_World
begin

text \<open>
  The properties of the credit ledger: its calls as a transition system with the accounting
  invariant, atomicity, idempotent replays, and what each operation does to the balances.
\<close>

section \<open>The calls as a transition system\<close>

datatype credit_call =
    CallGrant CreditGrantInput
  | CallReserve CreditReservationInput
  | CallCommit CreditFinalizationInput
  | CallRelease CreditFinalizationInput
  | CallExpire instant int

definition run_credit_call :: "credit_service \<Rightarrow> credit_call \<Rightarrow> database world \<Rightarrow> database" where
  "run_credit_call s c w =
     (case c of
        CallGrant i \<Rightarrow> db (snd (Grant s i w))
      | CallReserve i \<Rightarrow> db (snd (Reserve s i w))
      | CallCommit i \<Rightarrow> db (snd (Commit s i w))
      | CallRelease i \<Rightarrow> db (snd (Release s i w))
      | CallExpire now limit \<Rightarrow> db (snd (ExpireBuckets s now limit w)))"

text \<open>The amounts of a call are 64-bit integers, and a grant must fit the user's balance.\<close>

definition admissible :: "credit_call \<Rightarrow> database \<Rightarrow> bool" where
  "admissible c d =
     (case c of
        CallGrant i \<Rightarrow> grant_fits i d
      | CallReserve i \<Rightarrow> ri_Amount i \<le> max_int64
      | _ \<Rightarrow> True)"

definition same_ledger :: "database \<Rightarrow> database \<Rightarrow> bool" where
  "same_ledger d d' \<longleftrightarrow> tb_accounts d' = tb_accounts d \<and> tb_buckets d' = tb_buckets d
     \<and> tb_reservations d' = tb_reservations d \<and> tb_transactions d' = tb_transactions d"

text \<open>
  States of the ledger that the calls reach from an empty one, whatever the oracles of each
  call answer, with any changes to the other tables in between.
\<close>

inductive credit_reachable :: "credit_service \<Rightarrow> database \<Rightarrow> bool" for s where
  start: "same_ledger empty_database d \<Longrightarrow> credit_reachable s d"
| call: "credit_reachable s (db w) \<Longrightarrow> admissible c (db w) \<Longrightarrow> credit_reachable s (run_credit_call s c w)"
| other: "credit_reachable s d \<Longrightarrow> same_ledger d d' \<Longrightarrow> credit_reachable s d'"

lemma same_ledger_inv:
  assumes "same_ledger d d'" "credit_inv d"
  shows "credit_inv d'"
proof -
  note same = assms(1) [unfolded same_ledger_def]
  have sums: "ledger_sum d' = ledger_sum d" "remaining_sum d' = remaining_sum d"
    "pending_sum d' = pending_sum d" "alloc_sum d' = alloc_sum d" "bucket_of d' = bucket_of d"
    "account_ids d' = account_ids d"
    using same by (simp_all add: fun_eq_iff ledger_sum_def remaining_sum_def pending_sum_def
        alloc_sum_def bucket_of_def account_ids_def)
  have "account_ok [] 0 0 0 d' = account_ok [] 0 0 0 d" "bucket_ok (\<lambda>_. 0) d' = bucket_ok (\<lambda>_. 0) d"
    "reservation_ok d' = reservation_ok d"
    by (simp_all add: fun_eq_iff account_ok_def bucket_ok_def reservation_ok_def sums)
  with assms(2) same sums show ?thesis
    by (simp add: credit_inv_def credit_open_def credit_tables_ok_def)
qed

lemma empty_inv: "credit_inv empty_database"
  by (simp add: credit_inv_def credit_open_def credit_tables_ok_def table_ok_def empty_database_def)

lemma run_credit_call_inv:
  assumes "cfg_uow s" "credit_inv (db w)" "admissible c (db w)"
  shows "credit_inv (run_credit_call s c w)"
proof (cases c)
  case (CallGrant i)
  then show ?thesis using assms leadsD [OF leads_Grant [OF assms(1)], of w i]
    by (simp add: run_credit_call_def admissible_def)
next
  case (CallReserve i)
  then show ?thesis using assms keepsD [OF keeps_Reserve [OF assms(1)], of i w]
    by (simp add: run_credit_call_def admissible_def)
next
  case (CallCommit i)
  then show ?thesis using assms
    by (simp add: run_credit_call_def Commit_def keepsD [OF keeps_finalizeReservation])
next
  case (CallRelease i)
  then show ?thesis using assms
    by (simp add: run_credit_call_def Release_def keepsD [OF keeps_finalizeReservation])
next
  case (CallExpire now limit)
  then show ?thesis using assms by (simp add: run_credit_call_def keepsD [OF keeps_ExpireBuckets])
qed

lemma credit_reachable_inv: "credit_reachable s d \<Longrightarrow> cfg_uow s \<Longrightarrow> credit_inv d"
  by (induction rule: credit_reachable.induct)
    (auto intro: same_ledger_inv [OF _ empty_inv] same_ledger_inv run_credit_call_inv)

section \<open>Runs of the calls\<close>

lemma wlp_ensureUser: "Q () d \<Longrightarrow> wlp (ensureUser s u) Q d"
  by (rule wlp_readonly) (simp_all add: ensureUser_def UserRepo_GetByID_def atomic_rules)

lemma readonly_ensureUser [atomic_rules]: "readonly (ensureUser s u)"
  by (rule readonly_keeps, rule keeps_ensureUser)

lemma wlp_withCreditTransaction: "cfg_uow s \<Longrightarrow> wlp body Q d \<Longrightarrow> wlp (withCreditTransaction s body) Q d"
  by (simp add: withCreditTransaction_def wlp_in_transaction)

lemma wlp_Grant:
  assumes "cfg_uow s" "\<And>d. d = d0 \<Longrightarrow> 0 < gi_Amount input \<Longrightarrow> wlp (grantCreditsWithRepos s input) Q d"
  shows "wlp (Grant s input) Q d0"
  unfolding Grant_def Let_def
  by (rule wlp_andThen, rule wlp_reject_if)+
    (rule wlp_andThen, rule wlp_ensureUser, rule wlp_withCreditTransaction, use assms in auto)


lemma wlp_finalizeReservation:
  assumes "cfg_uow s"
    and "wlp (if_found (CreditTransactionRepo_GetByIdempotencyKey (trim_space (fi_IdempotencyKey input)))
      replay_finalization (apply_finalization s (trim_space (fi_ReservationID input))
        (trim_space (fi_IdempotencyKey input)) fs tt)) Q d0"
  shows "wlp (finalizeReservation s input fs tt) Q d0"
  unfolding finalizeReservation_def Let_def
  by (rule wlp_andThen, rule wlp_reject_if)+ (rule wlp_withCreditTransaction, rule assms, rule assms)

lemma find_transaction: "find_row ct_IdempotencyKey k (tb_transactions d) = Some t
    \<Longrightarrow> wlp (found t) Q d \<Longrightarrow> wlp (if_found (CreditTransactionRepo_GetByIdempotencyKey k) found missing) Q d"
  unfolding CreditTransactionRepo_GetByIdempotencyKey_def by (rule wlp_if_found) simp_all

section \<open>Properties\<close>


text \<open>C2: In every state that the five calls reach from an empty ledger under the same conditions a bucket never holds a negative amount or more than was
  granted into it, a bucket that is not active holds nothing, and what it has reserved is the
  sum of the allocations of pending reservations to it.\<close>

theorem credit_buckets_consistent:
  assumes "cfg_uow s" and "credit_reachable s d" and "b \<in> set (tb_buckets d)"
  shows "0 \<le> cb_Remaining b \<and> 0 \<le> cb_Reserved b \<and> cb_Remaining b + cb_Reserved b \<le> cb_Granted b
    \<and> (cb_Status b \<noteq> BucketActive \<longrightarrow> cb_Remaining b = 0)
    \<and> cb_Reserved b = alloc_sum d (cb_ID b)"
  using credit_open_bucket [OF credit_reachable_inv [OF assms(2,1), unfolded credit_inv_def] assms(3)]
  by (simp add: bucket_ok_def)

text \<open>C14: The mutating credit calls are atomic when a unit of work is configured: a call that
  returns an error leaves the stored data exactly as it was.\<close>

theorem credit_calls_atomic:
  assumes "cfg_uow s"
  shows "atomic (Grant s gi) \<and> atomic (Reserve s ri) \<and> atomic (Commit s fi) \<and> atomic (Release s fi)
    \<and> atomic (ExpireBuckets s now limit)"
proof (intro conjI)
  have tx: "atomic (withCreditTransaction s m)" for m :: "'a service"
    using assms by (simp add: withCreditTransaction_def atomic_rules)
  have tx': "atomic (withCreditTransaction s m)" for m :: "'b service"
    using assms by (simp add: withCreditTransaction_def atomic_rules)
  show "atomic (Grant s gi)" unfolding Grant_def Let_def
    by (intro atomic_after readonly_simple readonly_ensureUser)
      (simp add: withCreditTransaction_def assms atomic_rules)
  show "atomic (Reserve s ri)" unfolding Reserve_def Let_def
    by (intro atomic_after readonly_simple readonly_ensureUser readonly_option readonly_andThen)
      (simp add: withCreditTransaction_def assms atomic_rules)
  show "atomic (Commit s fi)" unfolding Commit_def finalizeReservation_def Let_def
    by (intro atomic_after readonly_simple) (simp add: withCreditTransaction_def assms atomic_rules)
  show "atomic (Release s fi)" unfolding Release_def finalizeReservation_def Let_def
    by (intro atomic_after readonly_simple) (simp add: withCreditTransaction_def assms atomic_rules)
  show "atomic (ExpireBuckets s now limit)" unfolding ExpireBuckets_def
    by (intro atomic_after readonly_simple readonly_if)
      (simp add: withCreditTransaction_def assms atomic_rules)
qed

text \<open>A grant under a fresh idempotency key adds its amount to the user's balance (or opens
  an account with it), writes one ledger entry of that amount and one bucket holding it.\<close>

theorem Grant_effect:
  assumes "cfg_uow s" and "credit_inv (db w)" and "grant_fits input (db w)"
    and "find_row ct_IdempotencyKey (trim_space (gi_IdempotencyKey input)) (tb_transactions (db w)) = None"
    and "Grant s input w = (Inr r, w')"
  shows "grant_effect input (db w) r (db w')"
proof -
  have buckets: "repos_have_buckets s" using assms(1) by (simp add: repos_have_buckets_def)
  have "wlp (Grant s input) (\<lambda>r d'. grant_effect input (db w) r d') (db w)"
    by (rule wlp_Grant [OF assms(1)], rule wlp_mono, rule wlp_grantCreditsWithRepos)
      (use assms(2-4) buckets in auto)
  then show ?thesis using assms(5) by (rule wlpD)
qed

text \<open>A grant whose idempotency key already names a ledger entry returns that entry and
  changes nothing.\<close>

theorem Grant_replay:
  assumes "cfg_uow s"
    and "find_row ct_IdempotencyKey (trim_space (gi_IdempotencyKey input)) (tb_transactions (db w)) = Some t"
    and "Grant s input w = (Inr r, w')"
  shows "mr_Transaction r = Some t \<and> db w' = db w"
proof -
  have "wlp (replay_grant s t) (\<lambda>r d'. mr_Transaction r = Some t \<and> d' = db w) (db w)"
    unfolding replay_grant_def CreditAccountRepo_GetByID_def CreditBucketRepo_GetByID_def
    by (intro wlp_intros) simp_all
  then have "wlp (Grant s input) (\<lambda>r d'. mr_Transaction r = Some t \<and> d' = db w) (db w)"
    by (intro wlp_Grant [OF assms(1)]) (simp add: grantCreditsWithRepos_def Let_def find_transaction [OF assms(2)])
  then show ?thesis using assms(3) by (rule wlpD)
qed


text \<open>C12: A commit or release under a fresh key succeeds only on a pending reservation.  It makes
  the reservation final, takes its whole amount off the account's reserved amount, and changes
  the balance by nothing (commit) or by at most the amount (release), as its ledger entry says;
  so no reservation is ever finalized twice.\<close>

theorem finalize_effects:
  assumes "cfg_uow s" and "credit_inv (db w)"
    and "find_row ct_IdempotencyKey (trim_space (fi_IdempotencyKey input)) (tb_transactions (db w)) = None"
  shows "(Commit s input w = (Inr r, w') \<longrightarrow>
      finalize_effect (trim_space (fi_ReservationID input)) ReservationCommitted (db w) r (db w'))
    \<and> (Release s input w = (Inr r, w') \<longrightarrow>
      finalize_effect (trim_space (fi_ReservationID input)) ReservationReleased (db w) r (db w'))"
proof -
  have buckets: "repos_have_buckets s" using assms(1) by (simp add: repos_have_buckets_def)
  have "wlp (finalizeReservation s input fs tt)
      (\<lambda>r d'. finalize_effect (trim_space (fi_ReservationID input)) fs (db w) r d') (db w)"
    if "fs = ReservationReleased \<and> tt = TxRelease \<or> fs = ReservationCommitted \<and> tt = TxCommit" for fs tt
    by (rule wlp_finalizeReservation [OF assms(1)], rule wlp_mono, rule wlp_finalize_body [OF assms(2) buckets that])
      (use assms(3) in simp)
  then show ?thesis
    unfolding Commit_def Release_def by (auto dest: wlpD)
qed

text \<open>A commit or release whose key already names a ledger entry changes nothing and answers
  with that entry and the reservation it belongs to, whichever reservation was asked for.\<close>

theorem finalize_replay:
  assumes "cfg_uow s"
    and "find_row ct_IdempotencyKey (trim_space (fi_IdempotencyKey input)) (tb_transactions (db w)) = Some t"
    and "Commit s input w = (Inr r, w') \<or> Release s input w = (Inr r, w')"
  shows "db w' = db w \<and> mr_Transaction r = Some t
    \<and> (\<exists>x. mr_Reservation r = Some x \<and> cr_ID x = ct_ReservationID t)"
proof -
  have "wlp (finalizeReservation s input fs tt) (\<lambda>r d'. d' = db w \<and> mr_Transaction r = Some t
      \<and> (\<exists>x. mr_Reservation r = Some x \<and> cr_ID x = ct_ReservationID t)) (db w)" for fs tt
    by (rule wlp_finalizeReservation [OF assms(1)], rule find_transaction [OF assms(2)],
        unfold replay_finalization_def CreditAccountRepo_GetByID_def CreditReservationRepo_GetByID_def,
        intro wlp_intros) (auto dest: reservations.find_row_Some)
  then show ?thesis using assms(3) unfolding Commit_def Release_def by (auto dest: wlpD)
qed


definition whole :: "CreditBucket \<Rightarrow> CreditBucketAllocation" where
  "whole b = \<lparr>al_BucketID = cb_ID b, al_Amount = cb_Remaining b\<rparr>"

lemma allocate_loop_shape:
  assumes "\<forall>b\<in>set bs. 0 < cb_Remaining b" "0 \<le> amount" "amount \<le> max_int64"
  shows "\<exists>n part. allocate_loop bs amount = List.map whole (take n bs) @ part
    \<and> (part = [] \<or> n < length bs \<and> (\<exists>u. part = [\<lparr>al_BucketID = cb_ID (bs ! n), al_Amount = u\<rparr>]
          \<and> 0 < u \<and> u < cb_Remaining (bs ! n)))"
  using assms
proof (induction bs arbitrary: amount)
  case Nil
  then show ?case by simp
next
  case (Cons b bs)
  show ?case
  proof (cases "amount < cb_Remaining b")
    case True
    show ?thesis
    proof (cases "amount = 0")
      case True
      then show ?thesis by (intro exI [of _ 0] exI [of _ "[]"]) simp
    next
      case False
      with True Cons.prems have "allocate_loop (b # bs) amount = [\<lparr>al_BucketID = cb_ID b, al_Amount = amount\<rparr>]"
        by (cases bs) (simp_all add: Let_def minInt64_def max_int64_def wrap64_def)
      with False True Cons.prems(2) show ?thesis by (intro exI [of _ 0]) simp
    qed
  next
    case False
    have b: "0 < cb_Remaining b" using Cons.prems(1) by simp
    have w: "wrap64 (amount - cb_Remaining b) = amount - cb_Remaining b"
      using False b Cons.prems(3) by (intro wrap64_nonneg_id) simp_all
    have step: "allocate_loop (b # bs) amount = whole b # allocate_loop bs (amount - cb_Remaining b)"
      using False b w by (simp add: Let_def minInt64_def whole_def)
    obtain n part where "allocate_loop bs (amount - cb_Remaining b) = List.map whole (take n bs) @ part
      \<and> (part = [] \<or> n < length bs \<and> (\<exists>u. part = [\<lparr>al_BucketID = cb_ID (bs ! n), al_Amount = u\<rparr>]
          \<and> 0 < u \<and> u < cb_Remaining (bs ! n)))"
      using Cons.IH [of "amount - cb_Remaining b"] Cons.prems False b by auto
    then show ?thesis
      unfolding step by (intro exI [of _ "Suc n"] exI [of _ part]) simp
  qed
qed

text \<open>The earliest-expiring strategy uses up the available buckets in order of expiry (those
  that never expire last): whole buckets first, then at most one in part; in total it takes the
  amount asked for, or all that is available when that is less.\<close>

theorem allocate_earliest_first:
  fixes amount :: int and now :: instant and buckets :: "CreditBucket list"
  assumes "0 < amount" and "amount \<le> max_int64"
  defines "avail \<equiv> sort_key bucket_rank (List.filter (\<lambda>b. creditBucketAvailableAt b now) buckets)"
  shows "alloc_amounts (earliestExpiring_Allocate buckets amount now)
      = min amount (sum_rows (\<lambda>_. True) cb_Remaining avail)
    \<and> (\<exists>n part. earliestExpiring_Allocate buckets amount now = List.map whole (take n avail) @ part
      \<and> (part = [] \<or> n < length avail \<and> (\<exists>u. part = [\<lparr>al_BucketID = cb_ID (avail ! n), al_Amount = u\<rparr>]
            \<and> 0 < u \<and> u < cb_Remaining (avail ! n))))"
proof -
  have pos: "\<forall>b\<in>set avail. 0 < cb_Remaining b" by (simp add: avail_def creditBucketAvailableAt_def)
  have eq: "earliestExpiring_Allocate buckets amount now = allocate_loop avail amount"
    using assms(1) by (simp add: earliestExpiring_Allocate_def avail_def)
  show ?thesis
    unfolding eq using allocate_loop_facts(1) [OF pos] allocate_loop_shape [OF pos] assms(1,2) by simp
qed

section \<open>Sample runs\<close>

definition sample_grant :: "int \<Rightarrow> string \<Rightarrow> instant option \<Rightarrow> CreditGrantInput" where
  "sample_grant amount k expires = \<lparr>gi_UserID = ''usr_1'', gi_Amount = amount, gi_IdempotencyKey = k,
     gi_Source = [], gi_Description = [], gi_BucketType = [], gi_SourceOrderNo = [],
     gi_PeriodStartAt = None, gi_PeriodEndAt = None, gi_ExpiresAt = expires\<rparr>"

definition sample_reserve :: CreditReservationInput where
  "sample_reserve = \<lparr>ri_UserID = ''usr_1'', ri_Operation = ''chat'', ri_Amount = 30, ri_IdempotencyKey = ''r1'',
     ri_FeatureID = [], ri_ExecutionID = [], ri_Metadata = [], ri_ExpiresAt = None\<rparr>"

text \<open>An account with 100 credits, 40 of them in a bucket that expires, and 30 reserved from it.\<close>

definition w_start :: "database world" where "w_start = sample_world 0 users_db"
definition w_granted :: "database world" where
  "w_granted = snd (Grant full_service (sample_grant 60 ''g1'' None) w_start)"
definition w_expiring :: "database world" where
  "w_expiring = snd (Grant full_service (sample_grant 40 ''g2'' (Some 63900000000000000000)) w_granted)"
definition w_reserved :: "database world" where
  "w_reserved = snd (Reserve full_service sample_reserve w_expiring)"

definition sample_final :: "string \<Rightarrow> CreditFinalizationInput" where
  "sample_final k = \<lparr>fi_ReservationID = (case tb_reservations (db w_reserved) of [] \<Rightarrow> [] | x # _ \<Rightarrow> cr_ID x),
     fi_IdempotencyKey = k\<rparr>"

lemma sample_reachable:
  "credit_reachable full_service users_db"
  "credit_reachable full_service (db w_granted)"
  "credit_reachable full_service (db w_expiring)"
  "credit_reachable full_service (db w_reserved)"
proof -
  show r0: "credit_reachable full_service users_db"
    by (rule credit_reachable.start) (simp add: same_ledger_def users_db_def)
  have r1: "credit_reachable full_service
      (run_credit_call full_service (CallGrant (sample_grant 60 ''g1'' None)) w_start)"
    by (rule credit_reachable.call) (use r0 in \<open>simp add: w_start_def sample_world_def\<close>, code_simp)
  then show "credit_reachable full_service (db w_granted)"
    by (simp add: run_credit_call_def w_granted_def)
  then have r2: "credit_reachable full_service
      (run_credit_call full_service (CallGrant (sample_grant 40 ''g2'' (Some 63900000000000000000))) w_granted)"
    by (rule credit_reachable.call) code_simp
  then show "credit_reachable full_service (db w_expiring)"
    by (simp add: run_credit_call_def w_expiring_def)
  then have "credit_reachable full_service
      (run_credit_call full_service (CallReserve sample_reserve) w_expiring)"
    by (rule credit_reachable.call) code_simp
  then show "credit_reachable full_service (db w_reserved)"
    by (simp add: run_credit_call_def w_reserved_def)
qed

lemma full_uow: "cfg_uow full_service"
  by (simp add: full_service_def)

lemma sample_invs: "credit_inv (db w_start)" "credit_inv (db w_granted)" "credit_inv (db w_expiring)" "credit_inv (db w_reserved)"
proof -
  show "credit_inv (db w_start)"
    using credit_reachable_inv [OF sample_reachable(1) full_uow] by (simp add: w_start_def sample_world_def)
qed (rule credit_reachable_inv [OF _ full_uow], rule sample_reachable)+


text \<open>The condition on grants is needed: a grant of the largest 64-bit integer to an account that
  holds 100 credits is accepted, and the balance wraps to a negative number.\<close>

lemma oversized_grant_wraps:
  "isl (fst (Grant full_service (sample_grant max_int64 ''g3'' None) w_expiring)) = False
   \<and> (\<exists>a\<in>set (tb_accounts (db (snd (Grant full_service (sample_grant max_int64 ''g3'' None) w_expiring)))).
        ca_Balance a < 0)"
  by code_simp

lemma credit_buckets_consistent_witness:
  "\<exists>b. b \<in> set (tb_buckets (db w_reserved)) \<and> cb_Granted b = 40 \<and> cb_Reserved b = 30
     \<and> cb_Reserved b = alloc_sum (db w_reserved) (cb_ID b)"
proof -
  have "\<exists>b\<in>set (tb_buckets (db w_reserved)). cb_Granted b = 40 \<and> cb_Reserved b = 30"
    by code_simp
  with credit_buckets_consistent [OF full_uow sample_reachable(4)] show ?thesis by blast
qed

lemma credit_calls_atomic_witness: "atomic (Reserve full_service sample_reserve)"
  using credit_calls_atomic [OF full_uow] by blast

lemma Grant_effect_witness:
  "grant_effect (sample_grant 60 ''g1'' None) (db w_start)
     (ok_result (Grant full_service (sample_grant 60 ''g1'' None) w_start)) (db w_granted)"
  unfolding w_granted_def
  by (rule Grant_effect [OF full_uow sample_invs(1)], code_simp, code_simp, rule run_ok, code_simp)

lemma Grant_replay_witness:
  "db (snd (Grant full_service (sample_grant 999 '' g1 '' None) w_expiring)) = db w_expiring"
proof -
  obtain t where t: "find_row ct_IdempotencyKey (trim_space (gi_IdempotencyKey (sample_grant 999 '' g1 '' None)))
      (tb_transactions (db w_expiring)) = Some t"
  proof -
    have "find_row ct_IdempotencyKey (trim_space (gi_IdempotencyKey (sample_grant 999 '' g1 '' None)))
      (tb_transactions (db w_expiring)) \<noteq> None" by code_simp
    with that show thesis by blast
  qed
  have "isl (fst (Grant full_service (sample_grant 999 '' g1 '' None) w_expiring)) = False" by code_simp
  with Grant_replay [OF full_uow t run_ok] show ?thesis by blast
qed


lemma finalize_effects_witness:
  "finalize_effect (fi_ReservationID (sample_final ''f1'')) ReservationReleased (db w_reserved)
     (ok_result (Release full_service (sample_final ''f1'') w_reserved))
     (db (snd (Release full_service (sample_final ''f1'') w_reserved)))"
proof -
  have "find_row ct_IdempotencyKey (trim_space (fi_IdempotencyKey (sample_final ''f1'')))
      (tb_transactions (db w_reserved)) = None" by code_simp
  note effects = finalize_effects [OF full_uow sample_invs(4) this]
  have run: "isl (fst (Release full_service (sample_final ''f1'') w_reserved)) = False" by code_simp
  have "trim_space (fi_ReservationID (sample_final ''f1'')) = fi_ReservationID (sample_final ''f1'')" by code_simp
  then show ?thesis using effects run_ok [OF run] by metis
qed

lemma finalize_replay_witness:
  "db (snd (Release full_service \<lparr>fi_ReservationID = ''other'', fi_IdempotencyKey = ''reserve:r1''\<rparr> w_reserved))
    = db w_reserved"
proof -
  let ?i = "\<lparr>fi_ReservationID = ''other'', fi_IdempotencyKey = ''reserve:r1''\<rparr>"
  obtain t where t: "find_row ct_IdempotencyKey (trim_space (fi_IdempotencyKey ?i))
      (tb_transactions (db w_reserved)) = Some t"
  proof -
    have "find_row ct_IdempotencyKey (trim_space (fi_IdempotencyKey ?i)) (tb_transactions (db w_reserved)) \<noteq> None"
      by code_simp
    with that show thesis by blast
  qed
  have "isl (fst (Release full_service ?i w_reserved)) = False" by code_simp
  then show ?thesis using finalize_replay [OF full_uow t disjI2 [OF run_ok]] by blast
qed


lemma allocate_earliest_first_witness:
  "alloc_amounts (earliestExpiring_Allocate (tb_buckets (db w_expiring)) 70 63800000000000000000) = 70"
proof -
  have "min 70 (sum_rows (\<lambda>_. True) cb_Remaining (sort_key bucket_rank
      (List.filter (\<lambda>b. creditBucketAvailableAt b 63800000000000000000) (tb_buckets (db w_expiring))))) = 70"
    by code_simp
  then show ?thesis
    using allocate_earliest_first [of 70 "tb_buckets (db w_expiring)" 63800000000000000000]
    by (simp add: max_int64_def)
qed

end
