(* ===== verification/Entitlement.thy ===== *)
theory Entitlement
  imports Credit
begin

text \<open>
  Registrations, entitlement grants and access snapshots: service/entitlement.go,
  service/access_entitlements.go, service/access_device_capacity.go and
  repository/gorm_repo/entitlement.go.  A grant gives a user an entitlement from an instant
  on, possibly until another; a grant's idempotency key names it uniquely.
\<close>

section \<open>Catalog\<close>

definition CurrentAdvancedEntitlements :: "string list" where
  "CurrentAdvancedEntitlements = [EntitlementEditorialStudio, EntitlementCloudStorage]"

definition IsCurrentAccessEntitlementID :: "string \<Rightarrow> bool" where
  "IsCurrentAccessEntitlementID i \<longleftrightarrow> i \<in> set CurrentAdvancedEntitlements"

definition IsCurrentAdvancedEntitlementID :: "string \<Rightarrow> bool" where
  "IsCurrentAdvancedEntitlementID i = IsCurrentAccessEntitlementID i"

text \<open>A static catalog is the set of its trimmed, non-empty identifiers.\<close>

definition NewStaticEntitlementCatalog :: "string list \<Rightarrow> string list" where
  "NewStaticEntitlementCatalog ids = List.filter (\<lambda>i. i \<noteq> []) (List.map trim_space ids)"

definition DefaultEntitlementCatalog :: "string list" where
  "DefaultEntitlementCatalog = NewStaticEntitlementCatalog
     [EntitlementSoftwareBasic, EntitlementSoftwareAdvanced, EntitlementEditorialStudio,
      EntitlementWorkflowBatchCleanup, EntitlementWorkflowAdvanced, EntitlementCloudStorage]"

definition HasEntitlement :: "string list \<Rightarrow> string \<Rightarrow> bool" where
  "HasEntitlement catalog i \<longleftrightarrow> i \<in> set catalog"

section \<open>Device capacity\<close>

record AccessDeviceCapacity =
  dc_ActiveDeviceCount :: int
  dc_MaxDevices :: int
  dc_RemainingDeviceSlots :: int

definition normalizeAccessMaxDevices :: "int \<Rightarrow> int" where
  "normalizeAccessMaxDevices maxDevices = (if maxDevices \<le> 0 then 2 else maxDevices)"

definition newAccessDeviceCapacity :: "int \<Rightarrow> int \<Rightarrow> AccessDeviceCapacity" where
  "newAccessDeviceCapacity activeDeviceCount maxDevices =
     (let active = (if activeDeviceCount < 0 then 0 else activeDeviceCount);
          m = normalizeAccessMaxDevices maxDevices;
          remaining = (if m - active < 0 then 0 else m - active)
      in \<lparr>dc_ActiveDeviceCount = active, dc_MaxDevices = m, dc_RemainingDeviceSlots = remaining\<rparr>)"

section \<open>Repositories\<close>

definition UserRepo_Create :: "User \<Rightarrow> unit service" where
  "UserRepo_Create = store_create tb_users tb_users_update user_clash"

definition UserRepo_GetByEmail :: "string \<Rightarrow> User service" where
  "UserRepo_GetByEmail = store_find tb_users us_Email"

definition UserRepo_Update :: "User \<Rightarrow> unit service" where
  "UserRepo_Update = store_save tb_users tb_users_update us_ID user_clash"

definition RegistrationRepo_Create :: "RegistrationRequest \<Rightarrow> unit service" where
  "RegistrationRepo_Create = store_create tb_registrations tb_registrations_update registration_clash"

definition RegistrationRepo_GetByID :: "string \<Rightarrow> RegistrationRequest service" where
  "RegistrationRepo_GetByID = store_find tb_registrations rr_ID"

record RegistrationQuery =
  gq_Status :: string
  gq_UserID :: string
  gq_Email :: string
  gq_Limit :: int
  gq_Offset :: int

definition RegistrationRepo_List :: "RegistrationQuery \<Rightarrow> RegistrationRequest list service" where
  "RegistrationRepo_List q =
     db_read (\<lambda>d. page (gq_Limit q) (gq_Offset q) (sort_key (\<lambda>r. - rr_CreatedAt r)
       (List.filter (\<lambda>r. column_matches (gq_Status q) (rr_Status r)
          \<and> column_matches (gq_UserID q) (rr_UserID r)
          \<and> column_matches (gq_Email q) (rr_Email r)) (tb_registrations d))))"

definition RegistrationRepo_Update :: "RegistrationRequest \<Rightarrow> unit service" where
  "RegistrationRepo_Update = store_save tb_registrations tb_registrations_update rr_ID registration_clash"

definition EntitlementGrantRepo_Create :: "EntitlementGrant \<Rightarrow> unit service" where
  "EntitlementGrantRepo_Create = store_create tb_grants tb_grants_update grant_clash"

definition EntitlementGrantRepo_GetByID :: "string \<Rightarrow> EntitlementGrant service" where
  "EntitlementGrantRepo_GetByID = store_find tb_grants eg_ID"

definition EntitlementGrantRepo_GetByIdempotencyKey :: "string \<Rightarrow> EntitlementGrant service" where
  "EntitlementGrantRepo_GetByIdempotencyKey k = store_find tb_grants eg_IdempotencyKey (Some k)"

record EntitlementGrantQuery =
  nq_UserID :: string
  nq_EntitlementID :: string
  nq_Status :: string
  nq_IncludeExpired :: bool
  nq_Limit :: int
  nq_Offset :: int

definition grant_matches :: "EntitlementGrantQuery \<Rightarrow> instant \<Rightarrow> EntitlementGrant \<Rightarrow> bool" where
  "grant_matches q now g \<longleftrightarrow>
     column_matches (nq_UserID q) (eg_UserID g)
     \<and> column_matches (nq_EntitlementID q) (eg_EntitlementID g)
     \<and> column_matches (nq_Status q) (eg_Status g)
     \<and> (nq_IncludeExpired q \<or> (case eg_ExpiresAt g of None \<Rightarrow> True | Some e \<Rightarrow> now < e))"

definition EntitlementGrantRepo_List :: "EntitlementGrantQuery \<Rightarrow> EntitlementGrant list service" where
  "EntitlementGrantRepo_List q =
     andThen (if nq_IncludeExpired q then ret 0 else time_now) (\<lambda>now.
     db_read (\<lambda>d. page (nq_Limit q) (nq_Offset q)
       (sort_key (\<lambda>g. - eg_CreatedAt g) (List.filter (grant_matches q now) (tb_grants d)))))"

definition EntitlementGrantRepo_ListByUser :: "string \<Rightarrow> EntitlementGrant list service" where
  "EntitlementGrantRepo_ListByUser userID =
     db_read (\<lambda>d. sort_key (\<lambda>g. - eg_CreatedAt g) (List.filter (\<lambda>g. eg_UserID g = userID) (tb_grants d)))"

definition EntitlementGrantRepo_Update :: "EntitlementGrant \<Rightarrow> unit service" where
  "EntitlementGrantRepo_Update = store_save tb_grants tb_grants_update eg_ID grant_clash"

section \<open>Registrations\<close>

record RegistrationInput =
  ni_Email :: string
  ni_DisplayName :: string
  ni_RequestedEntitlement :: string
  ni_DeviceID :: string
  ni_Source :: string
  ni_Note :: string

definition validRegistrationStatus :: "string \<Rightarrow> bool" where
  "validRegistrationStatus status \<longleftrightarrow>
     status \<in> {RegistrationStatusPending, RegistrationStatusApproved, RegistrationStatusRejected}"

text \<open>The user of the email, named when it had no name, or a new user.\<close>

definition registered_user :: "string \<Rightarrow> string \<Rightarrow> instant \<Rightarrow> User service" where
  "registered_user email displayName now =
     if_found (UserRepo_GetByEmail email)
       (\<lambda>user. if us_DisplayName user = [] \<and> displayName \<noteq> []
         then let user' = user\<lparr>us_DisplayName := displayName, us_UpdatedAt := now\<rparr>
              in andThen (UserRepo_Update user') (\<lambda>_. ret user')
         else ret user)
       (andThen (generateEntityID ''usr_'') (\<lambda>userID.
        let user = \<lparr>us_ID = userID, us_Email = email, us_DisplayName = displayName,
                    us_Status = UserStatusActive, us_CreatedAt = now, us_UpdatedAt = now\<rparr>
        in andThen (UserRepo_Create user) (\<lambda>_. ret user)))"

definition SubmitRegistration :: "string list \<Rightarrow> RegistrationInput \<Rightarrow> (User \<times> RegistrationRequest) service" where
  "SubmitRegistration catalog input =
     (let email = normalizeEmail (ni_Email input);
          displayName = trim_space (ni_DisplayName input);
          requested = defaultString (trim_space (ni_RequestedEntitlement input)) EntitlementEditorialStudio
      in andThen (reject_if (email = []) ErrInvalidRegistration) (\<lambda>_.
         andThen (reject_if (\<not> HasEntitlement catalog requested) ErrUnknownEntitlement) (\<lambda>_.
         andThen time_now (\<lambda>now.
         andThen (registered_user email displayName now) (\<lambda>user.
         andThen (generateEntityID ''reg_'') (\<lambda>registrationID.
         let registration =
           \<lparr>rr_ID = registrationID, rr_UserID = us_ID user, rr_Email = email, rr_DisplayName = displayName,
            rr_RequestedEntitlement = requested, rr_Status = RegistrationStatusPending,
            rr_Source = defaultString (trim_space (ni_Source input)) ''desktop'',
            rr_DeviceID = trim_space (ni_DeviceID input), rr_Note = trim_space (ni_Note input),
            rr_ReviewNote = [], rr_ReviewedBy = [], rr_ReviewedAt = None,
            rr_CreatedAt = now, rr_UpdatedAt = now\<rparr>
         in andThen (RegistrationRepo_Create registration) (\<lambda>_. ret (user, registration))))))))"

definition ListRegistrations :: "RegistrationQuery \<Rightarrow> RegistrationRequest list service" where
  "ListRegistrations q = RegistrationRepo_List (q\<lparr>gq_Email := normalizeEmail (gq_Email q)\<rparr>)"

definition ReviewRegistration :: "string \<Rightarrow> string \<Rightarrow> string \<Rightarrow> string \<Rightarrow> RegistrationRequest service" where
  "ReviewRegistration registrationID0 status reviewedBy reviewNote =
     (let registrationID = trim_space registrationID0
      in andThen (reject_if (registrationID = [] \<or> \<not> validRegistrationStatus status) ErrInvalidRegistration) (\<lambda>_.
         andThen (not_found_as ErrRegistrationNotFound (RegistrationRepo_GetByID registrationID)) (\<lambda>r0.
         andThen time_now (\<lambda>now.
         let r = r0\<lparr>rr_Status := status, rr_ReviewedBy := defaultString (trim_space reviewedBy) ''admin'',
                    rr_ReviewNote := trim_space reviewNote, rr_ReviewedAt := Some now, rr_UpdatedAt := now\<rparr>
         in andThen (RegistrationRepo_Update r) (\<lambda>_. ret r)))))"

section \<open>Grants\<close>

record GrantInput =
  ei_UserID :: string
  ei_RegistrationID :: string
  ei_EntitlementID :: string
  ei_CreatedBy :: string
  ei_Source :: string
  ei_StartsAt :: instant
  ei_ExpiresAt :: "instant option"
  ei_IdempotencyKey :: string

definition isGrantActive :: "EntitlementGrant \<Rightarrow> instant \<Rightarrow> bool" where
  "isGrantActive g now \<longleftrightarrow>
     eg_Status g = GrantStatusActive
     \<and> \<not> (eg_StartsAt g \<noteq> 0 \<and> now < eg_StartsAt g)
     \<and> (case eg_ExpiresAt g of None \<Rightarrow> True | Some e \<Rightarrow> now < e)"

definition grant_row :: "GrantInput \<Rightarrow> string \<Rightarrow> instant \<Rightarrow> EntitlementGrant" where
  "grant_row input grantID now =
     (let k = trim_space (ei_IdempotencyKey input)
      in \<lparr>eg_ID = grantID, eg_UserID = trim_space (ei_UserID input),
          eg_EntitlementID = trim_space (ei_EntitlementID input), eg_Status = GrantStatusActive,
          eg_Source = defaultString (trim_space (ei_Source input)) GrantSourceManual,
          eg_StartsAt = (if ei_StartsAt input \<noteq> 0 then ei_StartsAt input else now),
          eg_ExpiresAt = ei_ExpiresAt input,
          eg_CreatedBy = defaultString (trim_space (ei_CreatedBy input)) ''admin'',
          eg_IdempotencyKey = (if k \<noteq> [] then Some k else None),
          eg_CreatedAt = now, eg_UpdatedAt = now, eg_RevokedAt = None\<rparr>)"

text \<open>
  The tail of \<open>createGrantWithRepos\<close> after the replay check: catalog, user, an active grant
  to reuse when there is no key, and the new row.
\<close>

definition issue_grant :: "bool \<Rightarrow> string list \<Rightarrow> GrantInput \<Rightarrow> EntitlementGrant service" where
  "issue_grant has_users catalog input =
     (let userID = trim_space (ei_UserID input);
          entitlementID = trim_space (ei_EntitlementID input);
          k = trim_space (ei_IdempotencyKey input)
      in andThen (reject_if (\<not> HasEntitlement catalog entitlementID) ErrUnknownEntitlement) (\<lambda>_.
         andThen (if has_users
                  then andThen (not_found_as ErrUserNotFound (UserRepo_GetByID userID)) (\<lambda>_. ret ())
                  else ret ()) (\<lambda>_.
         andThen time_now (\<lambda>now.
         andThen (if k = []
                  then andThen (EntitlementGrantRepo_ListByUser userID) (\<lambda>existing.
                    ret (List.find (\<lambda>g. eg_EntitlementID g = entitlementID \<and> isGrantActive g now) existing))
                  else ret None) (\<lambda>reusable.
         case reusable of
           Some g \<Rightarrow> ret g
         | None \<Rightarrow>
             andThen (generateEntityID ''grt_'') (\<lambda>grantID.
             let grant = grant_row input grantID now
             in andThen (EntitlementGrantRepo_Create grant) (\<lambda>_. ret grant)))))))"

definition createGrantWithRepos :: "bool \<Rightarrow> string list option \<Rightarrow> GrantInput \<Rightarrow> EntitlementGrant service" where
  "createGrantWithRepos has_users catalog0 input =
     (let userID = trim_space (ei_UserID input);
          entitlementID = trim_space (ei_EntitlementID input);
          k = trim_space (ei_IdempotencyKey input);
          catalog = (case catalog0 of None \<Rightarrow> DefaultEntitlementCatalog | Some c \<Rightarrow> c)
      in andThen (reject_if (userID = [] \<or> entitlementID = []) ErrInvalidGrant) (\<lambda>_.
         if k \<noteq> []
         then if_found (EntitlementGrantRepo_GetByIdempotencyKey k)
                (\<lambda>existing. if eg_UserID existing \<noteq> userID \<or> eg_EntitlementID existing \<noteq> entitlementID
                            then fail ErrInvalidGrant else ret existing)
                (issue_grant has_users catalog input)
         else issue_grant has_users catalog input))"

text \<open>A grant for a registration takes user and entitlement from it and must not contradict it.\<close>

definition CreateGrant :: "string list \<Rightarrow> GrantInput \<Rightarrow> EntitlementGrant service" where
  "CreateGrant catalog input =
     (let userID = trim_space (ei_UserID input);
          entitlementID = trim_space (ei_EntitlementID input);
          registrationID = trim_space (ei_RegistrationID input)
      in andThen (if registrationID \<noteq> []
           then andThen (not_found_as ErrRegistrationNotFound (RegistrationRepo_GetByID registrationID)) (\<lambda>r.
                andThen (reject_if (userID \<noteq> [] \<and> userID \<noteq> rr_UserID r) ErrInvalidGrant) (\<lambda>_.
                andThen (reject_if (entitlementID \<noteq> [] \<and> entitlementID \<noteq> rr_RequestedEntitlement r)
                  ErrInvalidGrant) (\<lambda>_.
                ret (rr_UserID r, rr_RequestedEntitlement r))))
           else ret (userID, entitlementID)) (\<lambda>(u, e).
         createGrantWithRepos True (Some catalog)
           \<lparr>ei_UserID = u, ei_RegistrationID = [], ei_EntitlementID = e, ei_CreatedBy = ei_CreatedBy input,
            ei_Source = ei_Source input, ei_StartsAt = ei_StartsAt input,
            ei_ExpiresAt = ei_ExpiresAt input, ei_IdempotencyKey = trim_space (ei_IdempotencyKey input)\<rparr>))"

definition ListGrants :: "EntitlementGrantQuery \<Rightarrow> EntitlementGrant list service" where
  "ListGrants q = EntitlementGrantRepo_List q"

section \<open>Snapshots\<close>

record EntitlementSnapshot =
  sn_UserID :: string
  sn_UserEmail :: string
  sn_UserDisplayName :: string
  sn_UserStatus :: string
  sn_Entitlements :: "string list"
  sn_Credits :: "(string \<times> int) list"
  sn_UpdatedAt :: string
  sn_Source :: string

text \<open>The credits part swallows every error.\<close>

definition creditSnapshotWithRepo :: "bool \<Rightarrow> string \<Rightarrow> (string \<times> int) list service" where
  "creditSnapshotWithRepo has_accounts userID =
     (if \<not> has_accounts then ret []
      else andThen (attempt (CreditAccountRepo_GetByUserID userID)) (\<lambda>r.
        case r of
          Inl e \<Rightarrow> ret []
        | Inr account \<Rightarrow> ret [(CreditMetricBalance, ca_Balance account), (CreditMetricReserved, ca_Reserved account)]))"

text \<open>The keys set to true in the entitlements map, each once.\<close>

definition active_entitlements :: "instant \<Rightarrow> EntitlementGrant list \<Rightarrow> string list" where
  "active_entitlements now grants =
     remdups (List.map eg_EntitlementID
       (List.filter (\<lambda>g. isGrantActive g now \<and> IsCurrentAccessEntitlementID (eg_EntitlementID g)) grants))"

definition snapshotForUserWithRepos :: "bool \<Rightarrow> string \<Rightarrow> EntitlementSnapshot service" where
  "snapshotForUserWithRepos has_accounts userID0 =
     (let userID = trim_space userID0
      in andThen (reject_if (userID = []) ErrUserNotFound) (\<lambda>_.
         andThen (not_found_as ErrUserNotFound (UserRepo_GetByID userID)) (\<lambda>user.
         andThen (EntitlementGrantRepo_ListByUser userID) (\<lambda>grants.
         andThen time_now (\<lambda>now.
         andThen (creditSnapshotWithRepo has_accounts userID) (\<lambda>credits.
         ret \<lparr>sn_UserID = us_ID user, sn_UserEmail = us_Email user, sn_UserDisplayName = us_DisplayName user,
              sn_UserStatus = us_Status user, sn_Entitlements = active_entitlements now grants,
              sn_Credits = credits, sn_UpdatedAt = format_rfc3339 now, sn_Source = ''billing_provider''\<rparr>))))))"

definition SnapshotForUser :: "bool \<Rightarrow> string \<Rightarrow> EntitlementSnapshot service" where
  "SnapshotForUser has_accounts userID = snapshotForUserWithRepos has_accounts userID"

end
