(* ===== verification/Orders.thy ===== *)
theory Orders
  imports Credit
begin

text \<open>
  Orders: the order repository of repository/gorm_repo/impl.go and the payment order
  processor of service/payment_order_processor.go, which moves an order between its states
  on a normalized payment event.
\<close>

section \<open>Repository\<close>

text \<open>An order without a key gets the next one; the caller's order then carries it.\<close>

definition next_order_id :: "Order list \<Rightarrow> nat" where
  "next_order_id t = Suc (foldr (\<lambda>x n. max (or_ID x) n) t 0)"

definition OrderRepo_Create :: "Order \<Rightarrow> Order service" where
  "OrderRepo_Create x =
     db_write (\<lambda>d.
       let x' = (if or_ID x = 0 then x\<lparr>or_ID := next_order_id (tb_orders d)\<rparr> else x)
       in map_option (\<lambda>t. (x', d\<lparr>tb_orders := t\<rparr>)) (insert_row order_clash x' (tb_orders d)))"

definition OrderRepo_GetByOutTradeNo :: "string \<Rightarrow> Order service" where
  "OrderRepo_GetByOutTradeNo = store_find tb_orders or_OutTradeNo"

definition OrderRepo_GetByIdempotencyKey :: "string \<Rightarrow> Order service" where
  "OrderRepo_GetByIdempotencyKey k = store_find tb_orders or_IdempotencyKey (Some k)"

text \<open>\<open>paid_at DESC, fulfilled_at DESC, id DESC\<close>, nulls last.\<close>

definition nulls_last_desc :: "instant option \<Rightarrow> bool \<times> int" where
  "nulls_last_desc t = (case t of None \<Rightarrow> (True, 0) | Some x \<Rightarrow> (False, - x))"

definition subscription_order_rank :: "Order \<Rightarrow> (bool \<times> int) \<times> (bool \<times> int) \<times> int" where
  "subscription_order_rank x =
     (nulls_last_desc (or_PaidAt x), nulls_last_desc (or_FulfilledAt x), - int (or_ID x))"

definition OrderRepo_FindLatestSubscriptionOrder :: "string \<Rightarrow> string \<Rightarrow> Order service" where
  "OrderRepo_FindLatestSubscriptionOrder userID sku =
     db_first (\<lambda>d. case sort_key subscription_order_rank
         (List.filter (\<lambda>x. or_UserID x = userID \<and> or_SKUCode x = sku
            \<and> or_OrderType x \<in> {OrderTypeCheckout, OrderTypeRenewal}) (tb_orders d)) of
       [] \<Rightarrow> None | x # _ \<Rightarrow> Some x)"

definition OrderRepo_Update :: "Order \<Rightarrow> unit service" where
  "OrderRepo_Update = store_save tb_orders tb_orders_update or_ID order_clash"

section \<open>Payment events on orders\<close>

definition isPaymentPaidEvent :: "string \<Rightarrow> bool" where
  "isPaymentPaidEvent eventType \<longleftrightarrow> eventType = EventTypePaid \<or> eventType = EventTypeRenewalPaid"

definition paymentCurrencyMatches :: "string \<Rightarrow> string \<Rightarrow> bool" where
  "paymentCurrencyMatches orderCurrency eventCurrency =
     (let e = trim_space eventCurrency; c = trim_space orderCurrency
      in e = [] \<or> c = [] \<or> equal_fold c e)"

text \<open>
  The state change of an order on an event: an unprocessable event, no change (return nil
  without writing), or the order to write.
\<close>

datatype order_change = Unprocessable | Unchanged | Changed Order

definition settled :: "Order \<Rightarrow> bool" where
  "settled x \<longleftrightarrow> or_Status x = OrderStatusPaid \<or> or_Status x = OrderStatusFulfilled"

definition order_after_event :: "Order \<Rightarrow> PaymentEvent \<Rightarrow> instant \<Rightarrow> order_change" where
  "order_after_event x e now =
     (let t = pe_EventType e
      in if t = EventTypePaid \<or> t = EventTypeRenewalPaid then
           (if settled x then Unchanged
            else Changed (x\<lparr>or_Status := OrderStatusPaid, or_TradeNo := pe_ProviderTradeNo e,
              or_Provider := pe_Provider e,
              or_PaidAt := (case or_PaidAt x of None \<Rightarrow> Some now | Some p \<Rightarrow> Some p)\<rparr>))
         else if t = EventTypeCancelled then
           (if settled x then Unchanged else Changed (x\<lparr>or_Status := OrderStatusCancelled\<rparr>))
         else if t = EventTypeRefunded \<or> t = EventTypeDisputed then
           Changed (x\<lparr>or_Status := OrderStatusRefunded\<rparr>)
         else if t = EventTypeRenewalFailed then
           (if settled x then Unchanged else Changed (x\<lparr>or_Status := OrderStatusFailed\<rparr>))
         else if t = EventTypeSubscriptionExpired then
           (if or_Status x = OrderStatusPending \<or> or_Status x = OrderStatusCheckoutCreated
            then Changed (x\<lparr>or_Status := OrderStatusFailed\<rparr>) else Changed x)
         else Unprocessable)"

definition PaymentOrder_ProcessPaymentEvent :: "PaymentEvent \<Rightarrow> unit service" where
  "PaymentOrder_ProcessPaymentEvent e =
     andThen (reject_if (pe_OutTradeNo e = []) ErrPaymentEventNotProcessable) (\<lambda>_.
     andThen (attempt (OrderRepo_GetByOutTradeNo (pe_OutTradeNo e))) (\<lambda>found.
     case found of
       Inl err \<Rightarrow> fail (Wrapped (''order '' @ [CHR 0x22] @ pe_OutTradeNo e @ [CHR 0x22] @ '' not found: '' @ error_text err) err)
     | Inr x \<Rightarrow>
         andThen (reject_if (isPaymentPaidEvent (pe_EventType e) \<and> 0 < pe_Amount e \<and> 0 < or_Amount x
             \<and> pe_Amount e \<noteq> or_Amount x)
           (Wrapped (error_text ErrPaymentAmountMismatch @ '': order='' @ string_of_int (or_Amount x)
              @ '' event='' @ string_of_int (pe_Amount e)) ErrPaymentAmountMismatch)) (\<lambda>_.
         andThen (reject_if (isPaymentPaidEvent (pe_EventType e)
             \<and> \<not> paymentCurrencyMatches (or_Currency x) (pe_Currency e))
           (Wrapped (error_text ErrPaymentCurrencyMismatch @ '': order='' @ or_Currency x
              @ '' event='' @ pe_Currency e) ErrPaymentCurrencyMismatch)) (\<lambda>_.
         andThen time_now (\<lambda>now.
         case order_after_event x e now of
           Unprocessable \<Rightarrow> fail ErrPaymentEventNotProcessable
         | Unchanged \<Rightarrow> ret ()
         | Changed x' \<Rightarrow> OrderRepo_Update x')))))"

end
