(* ===== verification/Fulfillment.thy ===== *)
theory Fulfillment
  imports Entitlement Orders
begin

text \<open>
  Fulfillment of paid orders: service/fulfillment.go and repository/gorm_repo/fulfillment.go.
  Each rule of the order's SKU delivers one effect (an entitlement grant or credits) under a
  key made of the order number and the rule, records an execution, and the order becomes
  fulfilled when all rules are applied.  A failed delivery rolls the transaction back and the
  failed execution is recorded afterwards.  The catalog is the interface of the code, a
  function from SKU to rules; \<open>StaticFulfillmentCatalog\<close> is its implementation.
\<close>

section \<open>Durations\<close>

definition is_digit :: "char \<Rightarrow> bool" where
  "is_digit c \<longleftrightarrow> (let n = of_char c :: nat in 48 \<le> n \<and> n \<le> 57)"

definition digits_value :: "string \<Rightarrow> int" where
  "digits_value s = foldl (\<lambda>v c. 10 * v + (of_char c - 48)) 0 s"

text \<open>\<open>strconv.Atoi\<close>: an optional sign and decimal digits in the range of an int.\<close>

definition atoi :: "string \<Rightarrow> int option" where
  "atoi s =
     (let neg = (s \<noteq> [] \<and> hd s = CHR ''-'');
          ds = (if s \<noteq> [] \<and> (hd s = CHR ''-'' \<or> hd s = CHR ''+'') then tl s else s);
          v = (if neg then - digits_value ds else digits_value ds)
      in if ds = [] \<or> \<not> list_all is_digit ds \<or> v < min_int64 \<or> max_int64 < v then None else Some v)"

definition duration_unit :: "string \<Rightarrow> int option" where
  "duration_unit u =
     (if u = ''ns'' then Some 1 else if u = ''us'' then Some 1000 else if u = ''ms'' then Some 1000000
      else if u = ''s'' then Some second_ns else if u = ''m'' then Some minute_ns
      else if u = ''h'' then Some hour_ns else None)"

text \<open>
  One number with its unit, as the loop of \<open>time.ParseDuration\<close> reads it: the value and the
  rest of the text.  A fraction contributes its part of the unit rounded down.
\<close>

definition not_number :: "char \<Rightarrow> bool" where
  "not_number c \<longleftrightarrow> c \<noteq> CHR ''.'' \<and> \<not> is_digit c"

definition duration_fraction :: "string \<Rightarrow> string \<times> string" where
  "duration_fraction s =
     (if s \<noteq> [] \<and> hd s = CHR ''.'' then (takeWhile is_digit (tl s), dropWhile is_digit (tl s))
      else ([], s))"

definition duration_step :: "string \<Rightarrow> (int \<times> string) option" where
  "duration_step s =
     (let whole = takeWhile is_digit s
      in case duration_fraction (dropWhile is_digit s) of (frac, rest) \<Rightarrow>
         if whole = [] \<and> frac = [] then None
         else case duration_unit (takeWhile not_number rest) of
           None \<Rightarrow> None
         | Some unit \<Rightarrow>
             if max_int64 + 1 < digits_value whole * unit then None
             else Some (digits_value whole * unit + digits_value frac * unit div 10 ^ length frac,
                        dropWhile not_number rest))"

lemma length_dropWhile_le: "length (dropWhile p s) \<le> length s"
  by (induction s) auto

lemma duration_step_shorter:
  assumes "duration_step s = Some (v, rest)"
  shows "length rest < length s"
proof -
  obtain frac r where fr: "duration_fraction (dropWhile is_digit s) = (frac, r)" by fastforce
  have unit: "takeWhile not_number r \<noteq> []" and rest: "rest = dropWhile not_number r"
    using assms fr by (auto simp: duration_step_def Let_def duration_unit_def split: if_splits option.splits)
  from unit have "length rest < length r"
    unfolding rest by (cases r) (auto simp: le_imp_less_Suc length_dropWhile_le split: if_splits)
  also have "length r \<le> length (dropWhile is_digit s)"
    using fr length_dropWhile_le [of is_digit "tl (dropWhile is_digit s)"]
    by (auto simp: duration_fraction_def split: if_splits)
  also have "\<dots> \<le> length s" by (rule length_dropWhile_le)
  finally show ?thesis .
qed

function parse_duration_loop :: "int \<Rightarrow> string \<Rightarrow> int option" where
  "parse_duration_loop d s =
     (if s = [] then Some d
      else case duration_step s of
        None \<Rightarrow> None
      | Some (v, rest) \<Rightarrow>
          if max_int64 + 1 < d + v then None else parse_duration_loop (d + v) rest)"
  by pat_completeness auto

termination
  by (relation "measure (\<lambda>(d, s). length s)") (auto dest: duration_step_shorter)

declare parse_duration_loop.simps [simp del]

definition parse_duration :: "string \<Rightarrow> int option" where
  "parse_duration s0 =
     (let neg = (s0 \<noteq> [] \<and> hd s0 = CHR ''-'');
          s = (if s0 \<noteq> [] \<and> (hd s0 = CHR ''-'' \<or> hd s0 = CHR ''+'') then tl s0 else s0)
      in if s = ''0'' then Some 0
         else if s = [] then None
         else case parse_duration_loop 0 s of
           None \<Rightarrow> None
         | Some d \<Rightarrow> if neg then Some (- d) else if max_int64 < d then None else Some d)"

section \<open>Rules\<close>

record FulfillmentRule =
  fr_ID :: string
  fr_SKUCode :: string
  fr_Type :: string
  fr_EntitlementID :: string
  fr_CreditsAmount :: int
  fr_CreditsBucketType :: string
  fr_Duration :: string

abbreviation FulfillmentRuleGrantEntitlement :: string where
  "FulfillmentRuleGrantEntitlement \<equiv> ''grant_entitlement''"
abbreviation FulfillmentRuleGrantCredits :: string where
  "FulfillmentRuleGrantCredits \<equiv> ''grant_credits''"

definition unknown_rule_type :: "string \<Rightarrow> err" where
  "unknown_rule_type t =
     Wrapped (error_text ErrInvalidFulfillmentRule @ '': '' @ t) ErrInvalidFulfillmentRule"

definition normalizeFulfillmentRule :: "FulfillmentRule \<Rightarrow> err + FulfillmentRule" where
  "normalizeFulfillmentRule r0 =
     (let r = r0\<lparr>fr_ID := trim_space (fr_ID r0), fr_SKUCode := trim_space (fr_SKUCode r0),
                 fr_Type := trim_space (fr_Type r0), fr_EntitlementID := trim_space (fr_EntitlementID r0),
                 fr_CreditsBucketType := trim_space (fr_CreditsBucketType r0),
                 fr_Duration := trim_space (fr_Duration r0)\<rparr>
      in if fr_ID r = [] \<or> fr_SKUCode r = [] \<or> fr_Type r = [] then Inl ErrInvalidFulfillmentRule
         else if fr_Type r = FulfillmentRuleGrantEntitlement then
           (if fr_EntitlementID r = [] then Inl ErrInvalidFulfillmentRule else Inr r)
         else if fr_Type r = FulfillmentRuleGrantCredits then
           (if fr_CreditsAmount r \<le> 0 then Inl ErrInvalidFulfillmentRule
            else if fr_CreditsBucketType r \<in> {[], BucketTypeAdmin, BucketTypeLegacy, BucketTypeTopup,
                 BucketTypeSubscriptionPeriod} then Inr r
            else Inl ErrInvalidFulfillmentRule)
         else Inl (unknown_rule_type (fr_Type r)))"

text \<open>The catalog: normalized rules in order; the map from SKU to rules is the filter by SKU.\<close>

fun NewStaticFulfillmentCatalog :: "FulfillmentRule list \<Rightarrow> err + FulfillmentRule list" where
  "NewStaticFulfillmentCatalog [] = Inr []"
| "NewStaticFulfillmentCatalog (r # rs) =
     (case normalizeFulfillmentRule r of
        Inl e \<Rightarrow> Inl e
      | Inr r' \<Rightarrow> (case NewStaticFulfillmentCatalog rs of Inl e \<Rightarrow> Inl e | Inr rs' \<Rightarrow> Inr (r' # rs')))"

definition Static_RulesForSKU :: "FulfillmentRule list \<Rightarrow> string \<Rightarrow> err + FulfillmentRule list" where
  "Static_RulesForSKU catalog sku =
     (let rules = List.filter (\<lambda>r. fr_SKUCode r = trim_space sku) catalog
      in if rules = [] then Inl ErrFulfillmentRulesNotFound else Inr rules)"

definition fulfillmentRuleExpiresAt :: "FulfillmentRule \<Rightarrow> instant \<Rightarrow> err + instant option" where
  "fulfillmentRuleExpiresAt rule anchor =
     (let duration = to_lower (trim_space (fr_Duration rule))
      in if duration \<in> {[], ''none'', ''lifetime'', ''permanent''} then Inr None
         else if duration \<in> {''monthly'', ''month'', ''1m''} then Inr (Some (add_date 0 1 0 anchor))
         else if duration \<in> {''yearly'', ''annual'', ''year'', ''1y''} then Inr (Some (add_date 1 0 0 anchor))
         else if last duration = CHR ''d'' then
           (case atoi (butlast duration) of
              None \<Rightarrow> Inl ErrInvalidFulfillmentRule
            | Some days \<Rightarrow>
                if days \<le> 0 then Inl ErrInvalidFulfillmentRule
                else Inr (Some (anchor + wrap64 (days * day_ns))))
         else (case parse_duration duration of
                 None \<Rightarrow> Inl ErrInvalidFulfillmentRule
               | Some parsed \<Rightarrow>
                   if parsed \<le> 0 then Inl ErrInvalidFulfillmentRule else Inr (Some (anchor + parsed))))"

definition creditBucketTypeForFulfillment :: "Order \<Rightarrow> FulfillmentRule \<Rightarrow> string" where
  "creditBucketTypeForFulfillment x rule =
     (if trim_space (fr_CreditsBucketType rule) \<noteq> [] then trim_space (fr_CreditsBucketType rule)
      else if (or_OrderType x = OrderTypeCheckout \<or> or_OrderType x = OrderTypeRenewal)
              \<and> trim_space (fr_Duration rule) \<noteq> []
      then BucketTypeSubscriptionPeriod else BucketTypeTopup)"

definition isFulfillableOrderType :: "string \<Rightarrow> bool" where
  "isFulfillableOrderType orderType \<longleftrightarrow> trim_space orderType \<in> {OrderTypeCheckout, OrderTypeRenewal}"

definition defaultFulfillmentTargetType :: "FulfillmentRule \<Rightarrow> string" where
  "defaultFulfillmentTargetType rule =
     (if fr_Type rule = FulfillmentRuleGrantEntitlement then TargetEntitlement
      else if fr_Type rule = FulfillmentRuleGrantCredits then TargetCredits else [])"

definition defaultFulfillmentTargetID :: "FulfillmentRule \<Rightarrow> string" where
  "defaultFulfillmentTargetID rule =
     (if fr_Type rule = FulfillmentRuleGrantEntitlement then fr_EntitlementID rule
      else if fr_Type rule = FulfillmentRuleGrantCredits then CreditMetricBalance else [])"

definition fulfillmentRuleExecutionKey :: "string \<Rightarrow> string \<Rightarrow> string" where
  "fulfillmentRuleExecutionKey outTradeNo ruleID =
     ''fulfillment:'' @ trim_space outTradeNo @ '':'' @ trim_space ruleID"

definition fulfillmentRuleTargetKey :: "string \<Rightarrow> string \<Rightarrow> string \<Rightarrow> string" where
  "fulfillmentRuleTargetKey outTradeNo ruleID target =
     fulfillmentRuleExecutionKey outTradeNo ruleID @ '':'' @ trim_space target"

section \<open>Executions\<close>

definition FulfillmentExecutionRepo_Create :: "FulfillmentExecution \<Rightarrow> unit service" where
  "FulfillmentExecutionRepo_Create = store_create tb_executions tb_executions_update execution_clash"

definition FulfillmentExecutionRepo_GetByID :: "string \<Rightarrow> FulfillmentExecution service" where
  "FulfillmentExecutionRepo_GetByID = store_find tb_executions fe_ID"

definition FulfillmentExecutionRepo_GetByIdempotencyKey :: "string \<Rightarrow> FulfillmentExecution service" where
  "FulfillmentExecutionRepo_GetByIdempotencyKey = store_find tb_executions fe_IdempotencyKey"

record FulfillmentExecutionQuery =
  xq_OrderID :: nat
  xq_OutTradeNo :: string
  xq_UserID :: string
  xq_SKUCode :: string
  xq_RuleID :: string
  xq_TargetType :: string
  xq_Status :: string
  xq_Limit :: int
  xq_Offset :: int

definition empty_execution_query :: FulfillmentExecutionQuery where
  "empty_execution_query = \<lparr>xq_OrderID = 0, xq_OutTradeNo = [], xq_UserID = [], xq_SKUCode = [],
     xq_RuleID = [], xq_TargetType = [], xq_Status = [], xq_Limit = 0, xq_Offset = 0\<rparr>"

definition execution_matches :: "FulfillmentExecutionQuery \<Rightarrow> FulfillmentExecution \<Rightarrow> bool" where
  "execution_matches q x \<longleftrightarrow>
     (xq_OrderID q = 0 \<or> fe_OrderID x = xq_OrderID q)
     \<and> column_matches (xq_OutTradeNo q) (fe_OutTradeNo x)
     \<and> column_matches (xq_UserID q) (fe_UserID x)
     \<and> column_matches (xq_SKUCode q) (fe_SKUCode x)
     \<and> column_matches (xq_RuleID q) (fe_RuleID x)
     \<and> column_matches (xq_TargetType q) (fe_TargetType x)
     \<and> column_matches (xq_Status q) (fe_Status x)"

definition FulfillmentExecutionRepo_List :: "FulfillmentExecutionQuery \<Rightarrow> FulfillmentExecution list service" where
  "FulfillmentExecutionRepo_List q =
     db_read (\<lambda>d. page (xq_Limit q) (xq_Offset q)
       (sort_key (\<lambda>x. - fe_CreatedAt x) (List.filter (execution_matches q) (tb_executions d))))"

definition FulfillmentExecutionRepo_Update :: "FulfillmentExecution \<Rightarrow> unit service" where
  "FulfillmentExecutionRepo_Update = store_save tb_executions tb_executions_update fe_ID execution_clash"

text \<open>\<open>saveFulfillmentExecution\<close> stamps the execution it is given; the stamped row comes back.\<close>

definition saveFulfillmentExecution :: "FulfillmentExecution \<Rightarrow> bool \<Rightarrow> FulfillmentExecution service" where
  "saveFulfillmentExecution x0 exists =
     andThen time_now (\<lambda>now.
     let x = x0\<lparr>fe_UpdatedAt := now\<rparr>
     in andThen (if exists then FulfillmentExecutionRepo_Update x else FulfillmentExecutionRepo_Create x) (\<lambda>_.
        ret x))"

definition newExecutionFromOrderRule :: "Order \<Rightarrow> FulfillmentRule \<Rightarrow> string \<Rightarrow> FulfillmentExecution service" where
  "newExecutionFromOrderRule x rule k =
     andThen (generateEntityID ''ful_'') (\<lambda>executionID.
     andThen time_now (\<lambda>now.
     ret \<lparr>fe_ID = executionID, fe_OrderID = or_ID x, fe_OutTradeNo = or_OutTradeNo x,
          fe_UserID = or_UserID x, fe_SKUCode = or_SKUCode x, fe_RuleID = fr_ID rule,
          fe_TargetType = defaultFulfillmentTargetType rule, fe_TargetID = defaultFulfillmentTargetID rule,
          fe_IdempotencyKey = k, fe_Status = [], fe_ResultRef = [], fe_LastError = [],
          fe_CreatedAt = now, fe_UpdatedAt = now\<rparr>))"

definition ensureFulfillmentUser :: "string \<Rightarrow> unit service" where
  "ensureFulfillmentUser userID =
     andThen (reject_if (trim_space userID = []) ErrUserNotFound) (\<lambda>_.
     andThen (not_found_as ErrUserNotFound (UserRepo_GetByID (trim_space userID))) (\<lambda>_. ret ()))"

section \<open>Executors\<close>

definition fulfillmentAnchorTime :: "Order \<Rightarrow> instant service" where
  "fulfillmentAnchorTime x = (case or_PaidAt x of Some t \<Rightarrow> ret t | None \<Rightarrow> time_now)"

text \<open>
  A new entitlement period starts where the paid periods the user already has end; after a
  grace period it starts where the grace period started.
\<close>

definition anchor_of_grants :: "instant \<Rightarrow> EntitlementGrant list \<Rightarrow> instant" where
  "anchor_of_grants fallback grants =
     (let paid = foldl (\<lambda>p g. if eg_Source g \<noteq> GrantSourceFulfillment then p
                  else case eg_ExpiresAt g of None \<Rightarrow> p | Some e \<Rightarrow> if p < e then e else p) fallback grants;
          grace = foldl (\<lambda>a g. if eg_Source g = GrantSourceSubscriptionGrace \<and> eg_StartsAt g \<noteq> 0
                                  \<and> eg_StartsAt g < fallback
                  then (case a of None \<Rightarrow> Some (eg_StartsAt g)
                        | Some s \<Rightarrow> if s < eg_StartsAt g then Some (eg_StartsAt g) else a)
                  else a) None grants
      in if fallback < paid then paid else case grace of Some s \<Rightarrow> s | None \<Rightarrow> fallback)"

definition entitlementFulfillmentAnchor :: "string \<Rightarrow> string \<Rightarrow> instant \<Rightarrow> instant service" where
  "entitlementFulfillmentAnchor userID entitlementID fallback =
     (if trim_space userID = [] \<or> trim_space entitlementID = [] then ret fallback
      else andThen (attempt (EntitlementGrantRepo_List
             \<lparr>nq_UserID = trim_space userID, nq_EntitlementID = trim_space entitlementID,
              nq_Status = GrantStatusActive, nq_IncludeExpired = False, nq_Limit = 0, nq_Offset = 0\<rparr>)) (\<lambda>r.
        case r of Inl e \<Rightarrow> ret fallback | Inr grants \<Rightarrow> ret (anchor_of_grants fallback grants)))"

record FulfillmentTargetResult =
  tr_TargetType :: string
  tr_TargetID :: string
  tr_ResultRef :: string

definition execute_entitlement ::
  "string list option \<Rightarrow> Order \<Rightarrow> FulfillmentRule \<Rightarrow> FulfillmentTargetResult service" where
  "execute_entitlement catalog x rule =
     andThen (reject_if (trim_space (fr_EntitlementID rule) = []) ErrInvalidFulfillmentRule) (\<lambda>_.
     andThen (fulfillmentAnchorTime x) (\<lambda>fallback.
     andThen (entitlementFulfillmentAnchor (or_UserID x) (fr_EntitlementID rule) fallback) (\<lambda>anchor.
     andThen (of_sum (fulfillmentRuleExpiresAt rule anchor)) (\<lambda>expiresAt.
     andThen (createGrantWithRepos True catalog
       \<lparr>ei_UserID = or_UserID x, ei_RegistrationID = [], ei_EntitlementID = fr_EntitlementID rule,
        ei_CreatedBy = ''system'', ei_Source = GrantSourceFulfillment, ei_StartsAt = 0,
        ei_ExpiresAt = expiresAt,
        ei_IdempotencyKey = fulfillmentRuleTargetKey (or_OutTradeNo x) (fr_ID rule) ''entitlement''\<rparr>) (\<lambda>grant.
     ret \<lparr>tr_TargetType = TargetEntitlement, tr_TargetID = fr_EntitlementID rule, tr_ResultRef = eg_ID grant\<rparr>)))))"

definition creditFulfillmentPeriodStart :: "Order \<Rightarrow> FulfillmentRule \<Rightarrow> instant option service" where
  "creditFulfillmentPeriodStart x rule =
     (if creditBucketTypeForFulfillment x rule \<noteq> BucketTypeSubscriptionPeriod then ret None
      else andThen (fulfillmentAnchorTime x) (\<lambda>anchor. ret (Some anchor)))"

definition creditFulfillmentPeriodEnd :: "Order \<Rightarrow> FulfillmentRule \<Rightarrow> instant option service" where
  "creditFulfillmentPeriodEnd x rule =
     (if creditBucketTypeForFulfillment x rule \<noteq> BucketTypeSubscriptionPeriod then ret None
      else andThen (fulfillmentAnchorTime x) (\<lambda>anchor.
        case fulfillmentRuleExpiresAt rule anchor of Inl e \<Rightarrow> ret None | Inr expiresAt \<Rightarrow> ret expiresAt))"

definition execute_credits ::
  "credit_service \<Rightarrow> Order \<Rightarrow> FulfillmentRule \<Rightarrow> FulfillmentTargetResult service" where
  "execute_credits repos x rule =
     andThen (reject_if (fr_CreditsAmount rule \<le> 0) ErrInvalidFulfillmentRule) (\<lambda>_.
     andThen (creditFulfillmentPeriodStart x rule) (\<lambda>periodStart.
     andThen (creditFulfillmentPeriodEnd x rule) (\<lambda>periodEnd.
     andThen (creditFulfillmentPeriodEnd x rule) (\<lambda>expiresAt.
     andThen (grantCreditsWithRepos repos
       \<lparr>gi_UserID = or_UserID x, gi_Amount = fr_CreditsAmount rule,
        gi_IdempotencyKey = fulfillmentRuleTargetKey (or_OutTradeNo x) (fr_ID rule) ''credits'',
        gi_Source = GrantSourceFulfillment,
        gi_Description = ''fulfillment for '' @ or_SKUCode x @ '' ('' @ or_OutTradeNo x @ '')'',
        gi_BucketType = creditBucketTypeForFulfillment x rule, gi_SourceOrderNo = or_OutTradeNo x,
        gi_PeriodStartAt = periodStart, gi_PeriodEndAt = periodEnd, gi_ExpiresAt = expiresAt\<rparr>) (\<lambda>mutation.
     ret \<lparr>tr_TargetType = TargetCredits, tr_TargetID = CreditMetricBalance,
          tr_ResultRef = (case mr_Transaction mutation of None \<Rightarrow> [] | Some t \<Rightarrow> ct_ID t)\<rparr>)))))"

section \<open>The service\<close>

text \<open>
  \<open>fs_wired\<close>: all required repositories and the catalog are set.  \<open>fs_catalog\<close> is the
  \<open>FulfillmentCatalog\<close> interface.
\<close>

record fulfillment_service =
  fs_wired :: bool
  fs_uow :: bool
  fs_buckets :: bool
  fs_catalog :: "string \<Rightarrow> err + FulfillmentRule list"
  fs_entitlements :: "string list option"

definition fs_credit_repos :: "fulfillment_service \<Rightarrow> credit_service" where
  "fs_credit_repos s = \<lparr>cfg_users = True, cfg_buckets = fs_buckets s, cfg_uow = fs_uow s\<rparr>"

definition execute_rule ::
  "fulfillment_service \<Rightarrow> Order \<Rightarrow> FulfillmentRule \<Rightarrow> FulfillmentTargetResult service" where
  "execute_rule s x rule =
     (if fr_Type rule = FulfillmentRuleGrantEntitlement then execute_entitlement (fs_entitlements s) x rule
      else execute_credits (fs_credit_repos s) x rule)"

definition has_executor :: "FulfillmentRule \<Rightarrow> bool" where
  "has_executor rule \<longleftrightarrow>
     fr_Type rule = FulfillmentRuleGrantEntitlement \<or> fr_Type rule = FulfillmentRuleGrantCredits"

definition with_target :: "FulfillmentExecution \<Rightarrow> FulfillmentTargetResult \<Rightarrow> FulfillmentExecution" where
  "with_target x t = x\<lparr>fe_TargetType := tr_TargetType t, fe_TargetID := tr_TargetID t,
     fe_ResultRef := tr_ResultRef t\<rparr>"

text \<open>
  The delivery of a normalized rule whose execution is not yet applied: an execution that
  failed comes back with its error, after it was saved.
\<close>

definition deliver_rule ::
  "fulfillment_service \<Rightarrow> Order \<Rightarrow> FulfillmentRule \<Rightarrow> string \<Rightarrow> FulfillmentExecution option
     \<Rightarrow> (FulfillmentExecution \<times> err option) service" where
  "deliver_rule s x rule k existing =
     andThen (reject_if (\<not> has_executor rule) (unknown_rule_type (fr_Type rule))) (\<lambda>_.
     andThen (newExecutionFromOrderRule x rule k) (\<lambda>new.
     let execution = (case existing of None \<Rightarrow> new
           | Some old \<Rightarrow> new\<lparr>fe_ID := fe_ID old, fe_CreatedAt := fe_CreatedAt old\<rparr>)
     in andThen (attempt (execute_rule s x rule)) (\<lambda>r.
        case r of
          Inl e \<Rightarrow>
            andThen (saveFulfillmentExecution (execution\<lparr>fe_Status := ExecutionFailed,
              fe_LastError := error_text e\<rparr>) (existing \<noteq> None)) (\<lambda>saved. ret (saved, Some e))
        | Inr target \<Rightarrow>
            andThen (attempt (saveFulfillmentExecution ((with_target execution target)
              \<lparr>fe_Status := ExecutionApplied, fe_LastError := []\<rparr>) (existing \<noteq> None))) (\<lambda>r2.
            case r2 of
              Inr saved \<Rightarrow> ret (saved, None)
            | Inl saveErr \<Rightarrow>
                andThen (attempt (FulfillmentExecutionRepo_GetByIdempotencyKey k)) (\<lambda>r3.
                case r3 of
                  Inl e \<Rightarrow> fail saveErr
                | Inr latest \<Rightarrow> if fe_Status latest = ExecutionApplied then ret (latest, None) else fail saveErr)))))"

definition applyRule ::
  "fulfillment_service \<Rightarrow> Order \<Rightarrow> FulfillmentRule \<Rightarrow> (FulfillmentExecution \<times> err option) service" where
  "applyRule s x rule0 =
     andThen (of_sum (normalizeFulfillmentRule rule0)) (\<lambda>rule.
     let k = fulfillmentRuleExecutionKey (or_OutTradeNo x) (fr_ID rule)
     in if_found (FulfillmentExecutionRepo_GetByIdempotencyKey k)
          (\<lambda>existing. if fe_Status existing = ExecutionApplied then ret (existing, None)
             else deliver_rule s x rule k (Some existing))
          (deliver_rule s x rule k None))"

record FulfillmentResult =
  fu_Order :: Order
  fu_Executions :: "FulfillmentExecution list"
  fu_AlreadyFulfilled :: bool

text \<open>The loop over the rules stops at the first error and keeps the executions so far.\<close>

fun apply_rules ::
  "fulfillment_service \<Rightarrow> Order \<Rightarrow> FulfillmentRule list \<Rightarrow> FulfillmentExecution list
     \<Rightarrow> (FulfillmentExecution list \<times> err option) service" where
  "apply_rules s x [] acc = ret (acc, None)"
| "apply_rules s x (rule # rules) acc =
     andThen (attempt (applyRule s x rule)) (\<lambda>r.
     case r of
       Inl e \<Rightarrow> ret (acc, Some e)
     | Inr (execution, Some e) \<Rightarrow> ret (acc @ [execution], Some e)
     | Inr (execution, None) \<Rightarrow> apply_rules s x rules (acc @ [execution]))"

definition finish_order ::
  "Order \<Rightarrow> FulfillmentExecution list \<Rightarrow> (FulfillmentResult \<times> err option) service" where
  "finish_order x executions =
     andThen time_now (\<lambda>now.
     let x' = x\<lparr>or_Status := OrderStatusFulfilled,
                or_FulfilledAt := (case or_FulfilledAt x of None \<Rightarrow> Some now | Some t \<Rightarrow> Some t)\<rparr>;
         result = \<lparr>fu_Order = x', fu_Executions = executions, fu_AlreadyFulfilled = False\<rparr>
     in andThen (attempt (OrderRepo_Update x')) (\<lambda>r.
        case r of Inl e \<Rightarrow> ret (result, Some e) | Inr _ \<Rightarrow> ret (result, None)))"

definition fulfillOrderWithRepos ::
  "fulfillment_service \<Rightarrow> Order \<Rightarrow> (FulfillmentResult \<times> err option) service" where
  "fulfillOrderWithRepos s x0 =
     andThen (if or_OutTradeNo x0 \<noteq> [] then OrderRepo_GetByOutTradeNo (or_OutTradeNo x0) else ret x0) (\<lambda>x.
     andThen (reject_if (trim_space (or_UserID x) = [] \<or> trim_space (or_SKUCode x) = []
         \<or> \<not> isFulfillableOrderType (or_OrderType x)) ErrInvalidFulfillmentOrder) (\<lambda>_.
     if or_Status x = OrderStatusFulfilled
     then andThen (FulfillmentExecutionRepo_List (empty_execution_query\<lparr>xq_OutTradeNo := or_OutTradeNo x\<rparr>))
            (\<lambda>executions. ret (\<lparr>fu_Order = x, fu_Executions = executions, fu_AlreadyFulfilled = True\<rparr>, None))
     else
       andThen (reject_if (or_Status x \<noteq> OrderStatusPaid) ErrFulfillmentOrderNotPaid) (\<lambda>_.
       andThen (ensureFulfillmentUser (or_UserID x)) (\<lambda>_.
       andThen (of_sum (fs_catalog s (or_SKUCode x))) (\<lambda>rules.
       andThen (apply_rules s x rules []) (\<lambda>(executions, failure).
       case failure of
         Some e \<Rightarrow> ret (\<lparr>fu_Order = x, fu_Executions = executions, fu_AlreadyFulfilled = False\<rparr>, Some e)
       | None \<Rightarrow> finish_order x executions))))))"

text \<open>
  After a failed fulfillment its failed executions are written on their own, ignoring errors.
\<close>

definition persist_failed :: "FulfillmentExecution \<Rightarrow> unit \<Rightarrow> unit service" where
  "persist_failed execution _ =
     (if fe_Status execution \<noteq> ExecutionFailed \<or> fe_IdempotencyKey execution = [] then ret ()
      else andThen (attempt (FulfillmentExecutionRepo_GetByIdempotencyKey (fe_IdempotencyKey execution))) (\<lambda>r.
        case r of
          Inr existing \<Rightarrow>
            andThen (attempt (saveFulfillmentExecution (execution\<lparr>fe_ID := fe_ID existing,
              fe_CreatedAt := fe_CreatedAt existing\<rparr>) True)) (\<lambda>_. ret ())
        | Inl e \<Rightarrow>
            if errors_is e ErrNotFound
            then andThen (attempt (saveFulfillmentExecution execution False)) (\<lambda>_. ret ())
            else ret ()))"

definition persistFailedExecutions :: "FulfillmentExecution list \<Rightarrow> unit service" where
  "persistFailedExecutions executions = for_each executions persist_failed ()"

text \<open>
  The transaction commits only when the body reports no error.  A failing commit comes back
  as an error without executions: the executions of the body are then all applied, and none
  would be persisted.
\<close>

definition withFulfillmentTransaction ::
  "fulfillment_service \<Rightarrow> (FulfillmentResult \<times> err option) service
     \<Rightarrow> (FulfillmentResult \<times> err option) service" where
  "withFulfillmentTransaction s fn =
     (if fs_uow s then in_transaction_when (\<lambda>(_, failure). failure = None) fn else fn)"

definition FulfillOrder :: "fulfillment_service \<Rightarrow> Order \<Rightarrow> FulfillmentResult service" where
  "FulfillOrder s x =
     andThen (reject_if (\<not> fs_wired s) ErrInvalidFulfillmentOrder) (\<lambda>_.
     andThen (withFulfillmentTransaction s (fulfillOrderWithRepos s x)) (\<lambda>(result, failure).
     case failure of
       None \<Rightarrow> ret result
     | Some e \<Rightarrow> andThen (persistFailedExecutions (fu_Executions result)) (\<lambda>_. fail e)))"

definition ListExecutions :: "FulfillmentExecutionQuery \<Rightarrow> FulfillmentExecution list service" where
  "ListExecutions q = FulfillmentExecutionRepo_List q"

end
