(* ===== verification/Payment_Events.thy ===== *)
theory Payment_Events
  imports Fulfillment
begin

text \<open>
  The payment event inbox: service/payment_event.go, its repository, and the processor of
  service/payment_fulfillment_processor.go.  A verified webhook becomes an event row, unique
  by provider and provider event; processing moves it received, processing, then processed,
  failed, ignored or one of the two review states.  The interfaces of the code
  (\<open>PaymentWebhookGateway\<close>, \<open>PaymentEventProcessor\<close>) are arguments; the locale
  \<open>event_processor\<close> states what the inbox relies on, and the processors of the code
  interpret it.
\<close>

section \<open>Repository\<close>

definition PaymentEventRepo_Create :: "PaymentEvent \<Rightarrow> unit service" where
  "PaymentEventRepo_Create = store_create tb_events tb_events_update event_clash"

definition PaymentEventRepo_GetByID :: "string \<Rightarrow> PaymentEvent service" where
  "PaymentEventRepo_GetByID = store_find tb_events pe_ID"

definition PaymentEventRepo_GetByProviderEventID :: "string \<Rightarrow> string \<Rightarrow> PaymentEvent service" where
  "PaymentEventRepo_GetByProviderEventID provider eventID =
     store_find tb_events (\<lambda>e. (pe_Provider e, pe_ProviderEventID e)) (provider, eventID)"

record PaymentEventQuery =
  pq_Provider :: string
  pq_Status :: string
  pq_EventType :: string
  pq_OutTradeNo :: string
  pq_Limit :: int
  pq_Offset :: int

definition PaymentEventRepo_List :: "PaymentEventQuery \<Rightarrow> PaymentEvent list service" where
  "PaymentEventRepo_List q =
     db_read (\<lambda>d. page (pq_Limit q) (pq_Offset q) (sort_key (\<lambda>e. - pe_ReceivedAt e)
       (List.filter (\<lambda>e. column_matches (pq_Provider q) (pe_Provider e)
          \<and> column_matches (pq_Status q) (pe_Status e)
          \<and> column_matches (pq_EventType q) (pe_EventType e)
          \<and> column_matches (pq_OutTradeNo q) (pe_OutTradeNo e)) (tb_events d))))"

definition PaymentEventRepo_Update :: "PaymentEvent \<Rightarrow> unit service" where
  "PaymentEventRepo_Update = store_save tb_events tb_events_update pe_ID event_clash"

section \<open>Statuses\<close>

definition isProcessablePaymentEventType :: "string \<Rightarrow> bool" where
  "isProcessablePaymentEventType t \<longleftrightarrow>
     t \<in> {EventTypePaid, EventTypeCancelled, EventTypeRefunded, EventTypeDisputed, EventTypeRenewalPaid,
          EventTypeRenewalFailed, EventTypeSubscriptionExpired}"

definition isPaymentEventTerminal :: "string \<Rightarrow> bool" where
  "isPaymentEventTerminal s \<longleftrightarrow>
     s \<in> {EventStatusProcessed, EventStatusIgnored, EventStatusReviewRequired, EventStatusPolicyRejected}"

definition isPaymentEventReviewStatus :: "string \<Rightarrow> bool" where
  "isPaymentEventReviewStatus s \<longleftrightarrow> s \<in> {EventStatusReviewRequired, EventStatusPolicyRejected}"

text \<open>\<open>errors.As\<close> to \<open>PaymentEventPolicyError\<close>: the status of the first one in the chain.\<close>

fun paymentEventPolicyErrorFrom :: "err \<Rightarrow> string option" where
  "paymentEventPolicyErrorFrom (PolicyError s c) = Some s"
| "paymentEventPolicyErrorFrom (Wrapped m c) = paymentEventPolicyErrorFrom c"
| "paymentEventPolicyErrorFrom e = None"

definition paymentEventPolicyStatus :: "err \<Rightarrow> string option" where
  "paymentEventPolicyStatus e =
     (case paymentEventPolicyErrorFrom e of
        None \<Rightarrow> None
      | Some s \<Rightarrow> if isPaymentEventReviewStatus s then Some s else None)"

section \<open>Processing\<close>

record PaymentEventProcessResult =
  pp_Event :: PaymentEvent
  pp_Duplicate :: bool
  pp_Processed :: bool
  pp_ProcessNote :: string

definition process_result :: "PaymentEvent \<Rightarrow> bool \<Rightarrow> string \<Rightarrow> PaymentEventProcessResult" where
  "process_result e processed note =
     \<lparr>pp_Event = e, pp_Duplicate = False, pp_Processed = processed, pp_ProcessNote = note\<rparr>"

text \<open>
  A call that returns a result together with an error gives both: the pair of the result and
  the optional error.
\<close>

type_synonym process_outcome = "PaymentEventProcessResult \<times> err option"

definition save_event :: "PaymentEvent \<Rightarrow> bool \<Rightarrow> string \<Rightarrow> err option \<Rightarrow> process_outcome service" where
  "save_event e processed note failure =
     andThen (PaymentEventRepo_Update e) (\<lambda>_. ret (process_result e processed note, failure))"

text \<open>What follows the processor's answer.\<close>

definition record_outcome :: "PaymentEvent \<Rightarrow> err + unit \<Rightarrow> process_outcome service" where
  "record_outcome e outcome =
     (case outcome of
        Inr _ \<Rightarrow>
          andThen time_now (\<lambda>now.
          save_event (e\<lparr>pe_Status := EventStatusProcessed, pe_LastError := [], pe_ProcessedAt := Some now,
            pe_UpdatedAt := now\<rparr>) True [] None)
      | Inl failure \<Rightarrow>
          (case paymentEventPolicyStatus failure of
             Some status \<Rightarrow>
               andThen time_now (\<lambda>now.
               save_event (e\<lparr>pe_Status := status, pe_LastError := error_text failure, pe_UpdatedAt := now\<rparr>)
                 False (error_text failure) None)
           | None \<Rightarrow>
               andThen time_now (\<lambda>now.
               save_event (e\<lparr>pe_Status := EventStatusFailed, pe_LastError := error_text failure,
                 pe_UpdatedAt := now\<rparr>) False (error_text failure) (Some failure))))"

definition processEvent ::
  "(PaymentEvent \<Rightarrow> unit service) option \<Rightarrow> PaymentEvent \<Rightarrow> bool \<Rightarrow> process_outcome service" where
  "processEvent processor e forceReviewReprocess =
     (if isPaymentEventTerminal (pe_Status e)
         \<and> \<not> (forceReviewReprocess \<and> isPaymentEventReviewStatus (pe_Status e))
      then ret (process_result e (pe_Status e = EventStatusProcessed) [], None)
      else if \<not> isProcessablePaymentEventType (pe_EventType e)
      then andThen time_now (\<lambda>now.
           save_event (e\<lparr>pe_Status := EventStatusIgnored, pe_ProcessedAt := Some now, pe_UpdatedAt := now\<rparr>)
             False ''ignored_event_type'' None)
      else case processor of
        None \<Rightarrow>
          andThen time_now (\<lambda>now.
          save_event (e\<lparr>pe_Status := EventStatusReceived, pe_UpdatedAt := now\<rparr>)
            False ''processor_unavailable'' None)
      | Some process \<Rightarrow>
          andThen time_now (\<lambda>now.
          let e' = e\<lparr>pe_Status := EventStatusProcessing, pe_Attempts := wrap64 (pe_Attempts e + 1),
                     pe_UpdatedAt := now\<rparr>
          in andThen (PaymentEventRepo_Update e') (\<lambda>_.
             andThen (attempt (process e')) (record_outcome e'))))"

section \<open>Receiving\<close>

record VerifiedWebhookEvent =
  ve_ProviderEventID :: string
  ve_EventType :: string
  ve_OutTradeNo :: string
  ve_ProviderTradeNo :: string
  ve_Amount :: int
  ve_Currency :: string
  ve_PeriodStartAt :: "instant option"
  ve_PeriodEndAt :: "instant option"
  ve_SignatureVerified :: bool
  ve_RawPayload :: string

record PaymentWebhookInput =
  wi_Provider :: string
  wi_Headers :: "(string \<times> string) list"
  wi_Params :: "(string \<times> string) list"
  wi_RawPayload :: string

definition payloadHash :: "string \<Rightarrow> string service" where
  "payloadHash payload w = (Inr (sha256_hex w payload), w)"

definition eventFromVerified ::
  "string \<Rightarrow> string \<Rightarrow> VerifiedWebhookEvent option \<Rightarrow> PaymentEvent service" where
  "eventFromVerified provider rawPayload verified =
     (case verified of
        None \<Rightarrow> fail ErrInvalidPaymentEvent
      | Some v \<Rightarrow>
          (let providerEventID = trim_space (ve_ProviderEventID v)
           in andThen (reject_if (providerEventID = [] \<or> trim_space (ve_EventType v) = []
                \<or> \<not> ve_SignatureVerified v) ErrInvalidPaymentEvent) (\<lambda>_.
              andThen time_now (\<lambda>now.
              andThen (generateEntityID ''pev_'') (\<lambda>eventID.
              let raw = (if ve_RawPayload v = [] \<and> rawPayload \<noteq> [] then rawPayload else ve_RawPayload v)
              in andThen (payloadHash raw) (\<lambda>hash.
              ret \<lparr>pe_ID = eventID, pe_Provider = provider, pe_ProviderEventID = providerEventID,
                   pe_EventType = trim_space (ve_EventType v), pe_OutTradeNo = trim_space (ve_OutTradeNo v),
                   pe_ProviderTradeNo = trim_space (ve_ProviderTradeNo v), pe_Amount = ve_Amount v,
                   pe_Currency = trim_space (ve_Currency v), pe_PeriodStartAt = ve_PeriodStartAt v,
                   pe_PeriodEndAt = ve_PeriodEndAt v, pe_SignatureVerified = ve_SignatureVerified v,
                   pe_PayloadHash = hash, pe_RawPayload = raw, pe_Status = EventStatusReceived,
                   pe_Attempts = 0, pe_LastError = [], pe_ReceivedAt = now, pe_ProcessedAt = None,
                   pe_CreatedAt = now, pe_UpdatedAt = now\<rparr>))))))"

text \<open>
  The inbox service: the gateway and the processor are interfaces (the gateway is an answer
  per provider and request), \<open>None\<close> when not wired.
\<close>

record payment_event_service =
  es_gateway :: "(PaymentWebhookInput \<Rightarrow> err + VerifiedWebhookEvent option) option"
  es_processor :: "(PaymentEvent \<Rightarrow> unit service) option"

text \<open>What a delivery of an event that is already in the inbox does.\<close>

definition redeliver ::
  "(PaymentEvent \<Rightarrow> unit service) option \<Rightarrow> PaymentEvent \<Rightarrow> process_outcome service" where
  "redeliver processor existing =
     (if isPaymentEventTerminal (pe_Status existing)
      then ret (\<lparr>pp_Event = existing, pp_Duplicate = True,
                 pp_Processed = (pe_Status existing = EventStatusProcessed), pp_ProcessNote = []\<rparr>, None)
      else if pe_Status existing = EventStatusProcessing
      then ret (\<lparr>pp_Event = existing, pp_Duplicate = True, pp_Processed = False,
                 pp_ProcessNote = ''processing''\<rparr>, None)
      else andThen (processEvent processor existing False) (\<lambda>(result, failure).
           ret (result\<lparr>pp_Duplicate := True\<rparr>, failure)))"

definition ReceiveWebhook ::
  "payment_event_service \<Rightarrow> PaymentWebhookInput \<Rightarrow> process_outcome service" where
  "ReceiveWebhook s input0 =
     (let input = input0\<lparr>wi_Provider := trim_space (wi_Provider input0)\<rparr>
      in case es_gateway s of
        None \<Rightarrow> fail ErrInvalidPaymentEvent
      | Some verify \<Rightarrow>
          andThen (reject_if (wi_Provider input = []) ErrInvalidPaymentEvent) (\<lambda>_.
          andThen (of_sum (verify input)) (\<lambda>verified.
          andThen (eventFromVerified (wi_Provider input) (wi_RawPayload input) verified) (\<lambda>e.
          if_found (PaymentEventRepo_GetByProviderEventID (pe_Provider e) (pe_ProviderEventID e))
            (redeliver (es_processor s))
            (andThen (attempt (PaymentEventRepo_Create e)) (\<lambda>r.
             case r of
               Inr _ \<Rightarrow> processEvent (es_processor s) e False
             | Inl createErr \<Rightarrow>
                 andThen (attempt (PaymentEventRepo_GetByProviderEventID (pe_Provider e) (pe_ProviderEventID e)))
                   (\<lambda>r2. case r2 of
                      Inr existing \<Rightarrow> redeliver (es_processor s) existing
                    | Inl _ \<Rightarrow> fail createErr)))))))"

definition GetEvent :: "string \<Rightarrow> PaymentEvent service" where
  "GetEvent eventID =
     andThen (reject_if (trim_space eventID = []) ErrPaymentEventNotFound) (\<lambda>_.
     not_found_as ErrPaymentEventNotFound (PaymentEventRepo_GetByID (trim_space eventID)))"

definition ProcessStoredEvent :: "payment_event_service \<Rightarrow> string \<Rightarrow> process_outcome service" where
  "ProcessStoredEvent s eventID =
     andThen (GetEvent eventID) (\<lambda>e. processEvent (es_processor s) e True)"

definition ListEvents :: "PaymentEventQuery \<Rightarrow> PaymentEvent list service" where
  "ListEvents q = PaymentEventRepo_List q"

section \<open>The composed processor\<close>

definition isSubscriptionRenewalEventType :: "string \<Rightarrow> bool" where
  "isSubscriptionRenewalEventType t \<longleftrightarrow>
     t \<in> {EventTypeRenewalPaid, EventTypeRenewalFailed, EventTypeSubscriptionExpired}"

text \<open>
  \<open>PaymentFulfillmentEventProcessor\<close>: its collaborators are interfaces, any of them may be
  missing.
\<close>

record payment_fulfillment_processor =
  pf_orders :: bool
  pf_orderEvents :: "(PaymentEvent \<Rightarrow> unit service) option"
  pf_fulfillment :: "(Order \<Rightarrow> FulfillmentResult service) option"
  pf_adjustment :: "(PaymentEvent \<Rightarrow> unit service) option"
  pf_renewal :: "(PaymentEvent \<Rightarrow> unit service) option"

definition fulfill_paid_event :: "payment_fulfillment_processor \<Rightarrow> PaymentEvent \<Rightarrow> unit service" where
  "fulfill_paid_event p e =
     (case pf_fulfillment p of
        None \<Rightarrow> fail ErrPaymentEventNotProcessable
      | Some fulfil \<Rightarrow>
          andThen (reject_if (\<not> pf_orders p) ErrPaymentEventNotProcessable) (\<lambda>_.
          andThen (OrderRepo_GetByOutTradeNo (pe_OutTradeNo e)) (\<lambda>x.
          if or_OrderType x \<noteq> OrderTypeCheckout then ret ()
          else andThen (fulfil x) (\<lambda>_. ret ()))))"

definition PaymentFulfillment_ProcessPaymentEvent ::
  "payment_fulfillment_processor \<Rightarrow> PaymentEvent \<Rightarrow> unit service" where
  "PaymentFulfillment_ProcessPaymentEvent p e =
     (if isSubscriptionRenewalEventType (pe_EventType e)
      then (case pf_renewal p of None \<Rightarrow> fail ErrPaymentEventNotProcessable | Some renew \<Rightarrow> renew e)
      else case pf_orderEvents p of
        None \<Rightarrow> fail ErrPaymentEventNotProcessable
      | Some orderEvents \<Rightarrow>
          andThen (orderEvents e) (\<lambda>_.
          if pe_EventType e = EventTypeRefunded \<or> pe_EventType e = EventTypeCancelled
             \<or> pe_EventType e = EventTypeDisputed
          then (case pf_adjustment p of None \<Rightarrow> ret () | Some adjust \<Rightarrow> adjust e)
          else if pe_EventType e \<noteq> EventTypePaid then ret ()
          else fulfill_paid_event p e))"

end
