(* ===== verification/Entitlement_Theorems.thy ===== *)
theory Entitlement_Theorems
  imports Entitlement Sample_World
begin

text \<open>
  The properties of registrations, entitlement grants and snapshots: what a grant stores,
  that its idempotency key makes retries harmless, that a snapshot shows exactly the active
  grants and changes nothing, and that a registration reuses the user of its email.
\<close>

section \<open>Grants\<close>

text \<open>The row a grant call writes, when it writes one.\<close>

definition fresh_grant :: "string list \<Rightarrow> GrantInput \<Rightarrow> database \<Rightarrow> EntitlementGrant \<Rightarrow> bool" where
  "fresh_grant catalog input d g \<longleftrightarrow>
     eg_Status g = GrantStatusActive
     \<and> HasEntitlement catalog (eg_EntitlementID g)
     \<and> find_row us_ID (eg_UserID g) (tb_users d) \<noteq> None
     \<and> eg_ExpiresAt g = ei_ExpiresAt input
     \<and> eg_IdempotencyKey g = (if trim_space (ei_IdempotencyKey input) = [] then None
                              else Some (trim_space (ei_IdempotencyKey input)))
     \<and> (\<forall>x\<in>set (tb_grants d). \<not> grant_clash x g)"

text \<open>
  What a grant call that succeeds returns: the grant its key names already, or, without a key,
  one that is active at an instant the clock showed during the call, or a new one.
\<close>

definition grant_outcome ::
  "string list \<Rightarrow> GrantInput \<Rightarrow> instant set \<Rightarrow> database \<Rightarrow> EntitlementGrant \<Rightarrow> database \<Rightarrow> bool" where
  "grant_outcome catalog input nows d g d' \<longleftrightarrow>
     eg_UserID g = trim_space (ei_UserID input) \<and> trim_space (ei_UserID input) \<noteq> []
     \<and> eg_EntitlementID g = trim_space (ei_EntitlementID input) \<and> trim_space (ei_EntitlementID input) \<noteq> []
     \<and> (trim_space (ei_IdempotencyKey input) \<noteq> []
          \<longrightarrow> eg_IdempotencyKey g = Some (trim_space (ei_IdempotencyKey input)))
     \<and> (d' = d \<and> g \<in> set (tb_grants d)
            \<and> (trim_space (ei_IdempotencyKey input) \<noteq> []
               \<or> HasEntitlement catalog (eg_EntitlementID g)
                  \<and> find_row us_ID (eg_UserID g) (tb_users d) \<noteq> None
                  \<and> (\<exists>now\<in>nows. isGrantActive g now))
          \<or> d' = d\<lparr>tb_grants := tb_grants d @ [g]\<rparr> \<and> fresh_grant catalog input d g)"

text \<open>The instants that the clock shows while a run goes from one world to another.\<close>

definition clock_during :: "database world \<Rightarrow> database world \<Rightarrow> instant set" where
  "clock_during w w' = clock w ` {tick w..<tick w'}"

lemma reusable_grant:
  assumes "List.find (\<lambda>g. eg_EntitlementID g = e \<and> isGrantActive g now)
      (sort_key f (List.filter (\<lambda>g. eg_UserID g = u) t)) = Some g"
  shows "g \<in> set t \<and> eg_UserID g = u \<and> eg_EntitlementID g = e \<and> isGrantActive g now"
  using find_found [OF assms] by simp

lemma grant_row_fields [simp]:
  "eg_ID (grant_row input i now) = i"
  "eg_UserID (grant_row input i now) = trim_space (ei_UserID input)"
  "eg_EntitlementID (grant_row input i now) = trim_space (ei_EntitlementID input)"
  "eg_Status (grant_row input i now) = GrantStatusActive"
  "eg_ExpiresAt (grant_row input i now) = ei_ExpiresAt input"
  "eg_IdempotencyKey (grant_row input i now) =
     (if trim_space (ei_IdempotencyKey input) = [] then None else Some (trim_space (ei_IdempotencyKey input)))"
  by (simp_all add: grant_row_def Let_def)

text \<open>Grants of the effect at the end of a run, whatever was read before it started.\<close>

definition granted_run ::
  "string list \<Rightarrow> GrantInput \<Rightarrow> database world \<Rightarrow> EntitlementGrant \<Rightarrow> database world \<Rightarrow> bool" where
  "granted_run catalog input w g w' \<longleftrightarrow> clock w' = clock w \<and> tick w \<le> tick w'
     \<and> grant_outcome catalog input (clock_during w w') (db w) g (db w')"

lemma grant_outcome_mono: "grant_outcome c i N d g d' \<Longrightarrow> N \<subseteq> M \<Longrightarrow> grant_outcome c i M d g d'"
  unfolding grant_outcome_def by blast

lemma granted_run_later:
  assumes "granted_run c input v g w'" "clock v = clock w" "tick w \<le> tick v" "db v = db w"
  shows "granted_run c input w g w'"
proof -
  have "clock_during v w' \<subseteq> clock_during w w'" using assms(2,3) by (auto simp: clock_during_def)
  with assms show ?thesis by (auto simp: granted_run_def elim: grant_outcome_mono)
qed

lemma granted_new:
  assumes "trim_space (ei_UserID input) \<noteq> []" "trim_space (ei_EntitlementID input) \<noteq> []"
    and "HasEntitlement catalog (trim_space (ei_EntitlementID input))"
    and "find_row us_ID (trim_space (ei_UserID input)) (tb_users (db w)) = Some u"
    and "insert_row grant_clash (grant_row input i now) (tb_grants (db w)) = Some t"
    and "clock w' = clock w" "tick w \<le> tick w'" "db w' = db w\<lparr>tb_grants := t\<rparr>"
  shows "granted_run catalog input w (grant_row input i now) w'"
  using assms by (simp add: granted_run_def grant_outcome_def fresh_grant_def grants.insert_row_Some)

lemma granted_reused:
  assumes "trim_space (ei_UserID input) \<noteq> []" "trim_space (ei_EntitlementID input) \<noteq> []"
    and "HasEntitlement catalog (trim_space (ei_EntitlementID input))"
    and "find_row us_ID (trim_space (ei_UserID input)) (tb_users (db w)) = Some u"
    and "trim_space (ei_IdempotencyKey input) = []"
    and "List.find (\<lambda>g. eg_EntitlementID g = trim_space (ei_EntitlementID input) \<and> isGrantActive g (clock w n))
      (sort_key f (List.filter (\<lambda>g. eg_UserID g = trim_space (ei_UserID input)) (tb_grants (db w)))) = Some g"
    and "clock w' = clock w" "tick w \<le> n" "n < tick w'" "db w' = db w"
  shows "granted_run catalog input w g w'"
proof -
  note g = reusable_grant [OF assms(6)]
  have "clock w n \<in> clock_during w w'" using assms(8,9) by (simp add: clock_during_def)
  with g assms show ?thesis unfolding granted_run_def grant_outcome_def by auto
qed

lemma wp_issue_grant:
  assumes "trim_space (ei_UserID input) \<noteq> []" "trim_space (ei_EntitlementID input) \<noteq> []"
  shows "wp (issue_grant True catalog input) (granted_run catalog input w) (\<lambda>_ _. True) w"
proof -
  define P where "P = granted_run catalog input w"
  note new = granted_new [OF assms, of catalog w, folded P_def]
    and reused = granted_reused [OF assms, of catalog w, folded P_def]
  show ?thesis
    unfolding P_def [symmetric]
    by (auto simp: issue_grant_def Let_def UserRepo_GetByID_def EntitlementGrantRepo_ListByUser_def
        EntitlementGrantRepo_Create_def wp_simps split: option.split intro!: new)
      (rule reused, assumption+, simp, simp, simp, simp)+
qed

lemma wp_createGrantWithRepos:
  "wp (createGrantWithRepos True c0 input)
     (granted_run (case c0 of None \<Rightarrow> DefaultEntitlementCatalog | Some c \<Rightarrow> c) input w) (\<lambda>_ _. True) w"
proof -
  define c where "c = (case c0 of None \<Rightarrow> DefaultEntitlementCatalog | Some c \<Rightarrow> c)"
  have issue: "wp (issue_grant True c input) (granted_run c input w) (\<lambda>_ _. True) v"
    if "trim_space (ei_UserID input) \<noteq> []" "trim_space (ei_EntitlementID input) \<noteq> []"
      "clock v = clock w" "tick w \<le> tick v" "db v = db w" for v
    by (rule wp_mono [OF wp_issue_grant [OF that(1,2)]]) (use that in \<open>auto intro: granted_run_later\<close>)
  have replay: "granted_run c input w g v"
    if "find_row eg_IdempotencyKey (Some (trim_space (ei_IdempotencyKey input))) (tb_grants (db w)) = Some g"
      "eg_UserID g = trim_space (ei_UserID input)" "eg_EntitlementID g = trim_space (ei_EntitlementID input)"
      "trim_space (ei_UserID input) \<noteq> []" "trim_space (ei_EntitlementID input) \<noteq> []"
      "trim_space (ei_IdempotencyKey input) \<noteq> []" "clock v = clock w" "tick w \<le> tick v" "db v = db w" for g v
    using that find_row_found [OF that(1)] by (simp add: granted_run_def grant_outcome_def)
  show ?thesis
    unfolding createGrantWithRepos_def Let_def c_def [symmetric] EntitlementGrantRepo_GetByIdempotencyKey_def
    by (auto simp: wp_simps intro!: issue replay split: option.split)
qed

lemma granted_run_cong:
  assumes "trim_space (ei_UserID i) = trim_space (ei_UserID j)"
    and "trim_space (ei_EntitlementID i) = trim_space (ei_EntitlementID j)"
    and "trim_space (ei_IdempotencyKey i) = trim_space (ei_IdempotencyKey j)"
    and "ei_ExpiresAt i = ei_ExpiresAt j"
  shows "granted_run c i w g w' = granted_run c j w g w'"
  by (simp only: granted_run_def grant_outcome_def fresh_grant_def assms)

lemma readonly_RegistrationRepo_GetByID [atomic_rules]: "readonly (RegistrationRepo_GetByID i)"
  unfolding RegistrationRepo_GetByID_def by (rule readonly_store_find)

text \<open>The user and the entitlement a grant call is for: the registration's when it names one.\<close>

definition grant_subject :: "GrantInput \<Rightarrow> database \<Rightarrow> (string \<times> string) option" where
  "grant_subject input d =
     (if trim_space (ei_RegistrationID input) = []
      then Some (trim_space (ei_UserID input), trim_space (ei_EntitlementID input))
      else map_option (\<lambda>r. (rr_UserID r, rr_RequestedEntitlement r))
             (find_row rr_ID (trim_space (ei_RegistrationID input)) (tb_registrations d)))"

lemma wp_CreateGrant:
  "wp (CreateGrant catalog input) (\<lambda>g w'. \<exists>u e. grant_subject input (db w) = Some (u, e)
      \<and> granted_run catalog (input\<lparr>ei_UserID := u, ei_EntitlementID := e\<rparr>) w g w') (\<lambda>_ _. True) w"
proof -
  define P where "P = (\<lambda>g w'. \<exists>u e. grant_subject input (db w) = Some (u, e)
      \<and> granted_run catalog (input\<lparr>ei_UserID := u, ei_EntitlementID := e\<rparr>) w g w')"
  have step: "wp (createGrantWithRepos True (Some catalog)
      \<lparr>ei_UserID = u, ei_RegistrationID = [], ei_EntitlementID = e, ei_CreatedBy = ei_CreatedBy input,
       ei_Source = ei_Source input, ei_StartsAt = ei_StartsAt input, ei_ExpiresAt = ei_ExpiresAt input,
       ei_IdempotencyKey = trim_space (ei_IdempotencyKey input)\<rparr>) P (\<lambda>_ _. True) v"
    if "grant_subject input (db w) = Some (u, e)" "clock v = clock w" "tick w \<le> tick v" "db v = db w" for u e v
    unfolding P_def
    by (rule wp_mono [OF wp_createGrantWithRepos], intro exI conjI, rule that(1),
        rule granted_run_later [OF _ that(2-4)], simp only: option.case,
        erule iffD1 [OF granted_run_cong, rotated -1], simp_all)
  show ?thesis
    unfolding P_def [symmetric] CreateGrant_def Let_def RegistrationRepo_GetByID_def
    by (cases "trim_space (ei_RegistrationID input) = []")
      (auto simp: wp_simps grant_subject_def intro!: step split: option.split)
qed

text \<open>A stored grant is what its idempotency key looks up.\<close>

lemma grant_of_key:
  assumes "table_ok grant_clash t" "g \<in> set t" "eg_IdempotencyKey g = Some k"
  shows "find_row eg_IdempotencyKey (Some k) t = Some g"
proof (cases "find_row eg_IdempotencyKey (Some k) t")
  case None
  with assms show ?thesis by (auto simp: find_row_absent)
next
  case (Some x)
  then have "x \<in> set t" "eg_IdempotencyKey x = Some k" by (auto dest: find_row_found)
  with assms Some show ?thesis
    using grants.same_row [OF assms(1), of x g] by (simp add: grant_clash_def same_key_def)
qed

lemma grant_outcome_stored:
  assumes "table_ok grant_clash (tb_grants d)" "grant_outcome c input nows d g d'"
    and "trim_space (ei_IdempotencyKey input) \<noteq> []"
  shows "find_row eg_IdempotencyKey (Some (trim_space (ei_IdempotencyKey input))) (tb_grants d') = Some g"
proof (rule grant_of_key)
  show "table_ok grant_clash (tb_grants d')"
    using assms(1,2) by (auto simp: grant_outcome_def fresh_grant_def table_ok_def sorted_wrt_append)
qed (use assms(2,3) in \<open>auto simp: grant_outcome_def\<close>)

text \<open>A call whose key names a grant of the same user and entitlement.\<close>

lemma wp_CreateGrant_again:
  assumes "trim_space (ei_RegistrationID input) = []"
    and "find_row eg_IdempotencyKey (Some (trim_space (ei_IdempotencyKey input))) (tb_grants (db w)) = Some g"
    and "trim_space (ei_IdempotencyKey input) \<noteq> []"
    and "eg_UserID g = trim_space (ei_UserID input)" "trim_space (ei_UserID input) \<noteq> []"
    and "eg_EntitlementID g = trim_space (ei_EntitlementID input)" "trim_space (ei_EntitlementID input) \<noteq> []"
  shows "wp (CreateGrant catalog input) (\<lambda>g' w'. g' = g \<and> db w' = db w)
           (\<lambda>e w'. (\<exists>m. e = ErrDB m) \<and> db w' = db w) w"
  using assms
  by (simp add: CreateGrant_def createGrantWithRepos_def Let_def wp_simps
      EntitlementGrantRepo_GetByIdempotencyKey_def split: option.split)

definition registered ::
  "string \<Rightarrow> database \<Rightarrow> User \<Rightarrow> database \<Rightarrow> bool" where
  "registered email d u d' \<longleftrightarrow> us_Email u = email \<and> u \<in> set (tb_users d') \<and> table_ok user_clash (tb_users d')
     \<and> tb_registrations d' = tb_registrations d
     \<and> (case find_row us_Email email (tb_users d) of
          Some old \<Rightarrow> us_ID u = us_ID old \<and> us_ID ` set (tb_users d') = us_ID ` set (tb_users d)
        | None \<Rightarrow> tb_users d' = tb_users d @ [u])"

lemma registered_rename:
  assumes "table_ok user_clash (tb_users d)" "find_row us_Email email (tb_users d) = Some u"
    and "save_row us_ID user_clash (u\<lparr>us_DisplayName := n, us_UpdatedAt := t\<rparr>) (tb_users d) = Some us"
  shows "registered email d (u\<lparr>us_DisplayName := n, us_UpdatedAt := t\<rparr>) (d\<lparr>tb_users := us\<rparr>)"
proof -
  let ?u = "u\<lparr>us_DisplayName := n, us_UpdatedAt := t\<rparr>"
  have u: "u \<in> set (tb_users d)" "us_Email u = email" using assms(2) by (auto dest: find_row_found)
  then have found: "find_row us_ID (us_ID ?u) (tb_users d) \<noteq> None" by (auto simp: find_row_absent)
  then have us: "us = replace_row us_ID ?u (tb_users d)" using assms(3) users.save_row_Some by blast
  have "?u \<in> set us" using found us replace_row_mem by metis
  moreover have "table_ok user_clash us" using assms(1,3) by (rule users.save_ok)
  moreover have "us_ID ` set us = us_ID ` set (tb_users d)" by (simp add: us keys_replace_row)
  ultimately show ?thesis using assms(2) u by (simp add: registered_def)
qed

lemma wlp_registered_user:
  assumes "table_ok user_clash (tb_users d)"
  shows "wlp (registered_user email n now) (registered email d) d"
  unfolding registered_user_def UserRepo_GetByEmail_def UserRepo_Update_def UserRepo_Create_def Let_def
  apply (rule wlp_if_found, rule wlp_if)
  subgoal premises p for u
    by (rule wlp_andThen, rule wlp_store_save, rule wlp_ret, rule registered_rename) (use assms p in simp_all)
  subgoal premises p for u
    by (rule wlp_ret) (use assms p in \<open>auto simp: registered_def dest: find_row_found\<close>)
  subgoal premises p
    by (intro wlp_intros) (use assms p in
      \<open>auto simp: registered_def users.insert_row_Some table_ok_def sorted_wrt_append\<close>)
  done

section \<open>Properties\<close>

lemma CreateGrant_facts:
  assumes "CreateGrant catalog input w = (Inr g, w')"
  shows "\<exists>u e. grant_subject input (db w) = Some (u, e)
    \<and> grant_outcome catalog (input\<lparr>ei_UserID := u, ei_EntitlementID := e\<rparr>) (clock_during w w') (db w) g (db w')"
  using wp_CreateGrant [of catalog input w] assms by (auto simp: wp_def granted_run_def)

text \<open>C18: A grant call that succeeds gives the requested user the requested entitlement (those of
  the registration when one is named), in one of three ways.  A call whose key names a stored
  grant returns that grant and changes nothing.  A call without a key may return a stored grant
  that is active at an instant the clock shows during the call, again with nothing changed.
  Otherwise exactly one new active grant is added, under the key of the call, for an entitlement
  of the catalog and an existing user, that clashes with no other grant.\<close>

theorem CreateGrant_effect:
  assumes "CreateGrant catalog input w = (Inr g, w')"
  shows "\<exists>u e. grant_subject input (db w) = Some (u, e)
    \<and> grant_outcome catalog (input\<lparr>ei_UserID := u, ei_EntitlementID := e\<rparr>) (clock_during w w') (db w) g (db w')"
  using assms by (rule CreateGrant_facts)

text \<open>A grant call with an idempotency key can be repeated: a later call with the same key, user
  and entitlement, whatever its other fields, returns the first grant or a storage failure,
  and in either case changes nothing.\<close>

theorem CreateGrant_retry:
  assumes "table_ok grant_clash (tb_grants (db w))"
    and "CreateGrant catalog input w = (Inr g, w')"
    and "trim_space (ei_IdempotencyKey input) \<noteq> []"
    and "trim_space (ei_RegistrationID input) = []" and "trim_space (ei_RegistrationID again) = []"
    and "trim_space (ei_UserID again) = trim_space (ei_UserID input)"
    and "trim_space (ei_EntitlementID again) = trim_space (ei_EntitlementID input)"
    and "trim_space (ei_IdempotencyKey again) = trim_space (ei_IdempotencyKey input)"
    and "tb_grants (db w2) = tb_grants (db w')"
    and "CreateGrant catalog2 again w2 = (r, w3)"
  shows "db w3 = db w2 \<and> (r = Inr g \<or> (\<exists>m. r = Inl (ErrDB m)))"
proof -
  have out: "grant_outcome catalog (input\<lparr>ei_UserID := trim_space (ei_UserID input),
      ei_EntitlementID := trim_space (ei_EntitlementID input)\<rparr>) (clock_during w w') (db w) g (db w')"
    using CreateGrant_facts [OF assms(2)] assms(4) by (simp add: grant_subject_def)
  have "wp (CreateGrant catalog2 again) (\<lambda>g' w'. g' = g \<and> db w' = db w2)
           (\<lambda>e w'. (\<exists>m. e = ErrDB m) \<and> db w' = db w2) w2"
    by (rule wp_CreateGrant_again) (use assms grant_outcome_stored [OF assms(1) out] out in
      \<open>simp_all add: grant_outcome_def\<close>)
  with assms(10) show ?thesis by (cases r) (simp_all add: wp_def)
qed

text \<open>A snapshot changes nothing.  It shows the user's stored profile and, for some instant the
  clock read during the call, exactly the current-catalog entitlements of which the user has
  an active grant at that instant, each once, with the balance and reserved amount of the
  user's account (none when the account is missing or cannot be read).\<close>

theorem SnapshotForUser_exact:
  assumes "SnapshotForUser has_accounts userID w = (r, w')"
  shows "db w' = db w \<and> (\<forall>s. r = Inr s \<longrightarrow>
      (\<exists>u now. find_row us_ID (trim_space userID) (tb_users (db w)) = Some u \<and> now \<in> range (clock w)
        \<and> sn_UserID s = us_ID u \<and> sn_UserEmail s = us_Email u \<and> sn_UserStatus s = us_Status u
        \<and> distinct (sn_Entitlements s)
        \<and> set (sn_Entitlements s) = {eg_EntitlementID g | g. g \<in> set (tb_grants (db w))
             \<and> eg_UserID g = trim_space userID \<and> isGrantActive g now
             \<and> IsCurrentAccessEntitlementID (eg_EntitlementID g)}
        \<and> (sn_Credits s = [] \<or> (\<exists>a. find_row ca_UserID (trim_space userID) (tb_accounts (db w)) = Some a
             \<and> sn_Credits s = [(CreditMetricBalance, ca_Balance a), (CreditMetricReserved, ca_Reserved a)]))))"
proof -
  have "wp (SnapshotForUser has_accounts userID) (\<lambda>s w'. db w' = db w \<and>
      (\<exists>u now. find_row us_ID (trim_space userID) (tb_users (db w)) = Some u \<and> now \<in> range (clock w)
        \<and> sn_UserID s = us_ID u \<and> sn_UserEmail s = us_Email u \<and> sn_UserStatus s = us_Status u
        \<and> distinct (sn_Entitlements s)
        \<and> set (sn_Entitlements s) = {eg_EntitlementID g | g. g \<in> set (tb_grants (db w))
             \<and> eg_UserID g = trim_space userID \<and> isGrantActive g now
             \<and> IsCurrentAccessEntitlementID (eg_EntitlementID g)}
        \<and> (sn_Credits s = [] \<or> (\<exists>a. find_row ca_UserID (trim_space userID) (tb_accounts (db w)) = Some a
             \<and> sn_Credits s = [(CreditMetricBalance, ca_Balance a), (CreditMetricReserved, ca_Reserved a)]))))
      (\<lambda>_ w'. db w' = db w) w"
    unfolding SnapshotForUser_def snapshotForUserWithRepos_def creditSnapshotWithRepo_def Let_def
      UserRepo_GetByID_def EntitlementGrantRepo_ListByUser_def CreditAccountRepo_GetByUserID_def
      active_entitlements_def
    by (auto simp: wp_simps split: option.split)
  with assms show ?thesis by (cases r) (auto simp: wp_def)
qed

text \<open>A registration that succeeds is stored as pending for an entitlement of the catalog and
  belongs to the one user with the normalized email: the user who had that email before the
  call keeps the account, and otherwise exactly one user is added.\<close>

theorem SubmitRegistration_effect:
  assumes "table_ok user_clash (tb_users (db w))"
    and "SubmitRegistration catalog input w = (Inr (u, r), w')"
  shows "registered (normalizeEmail (ni_Email input)) (db w) u ((db w')\<lparr>tb_registrations := tb_registrations (db w)\<rparr>)
    \<and> tb_registrations (db w') = tb_registrations (db w) @ [r]
    \<and> rr_UserID r = us_ID u \<and> rr_Email r = us_Email u \<and> rr_Status r = RegistrationStatusPending
    \<and> HasEntitlement catalog (rr_RequestedEntitlement r)"
proof -
  have "wlp (SubmitRegistration catalog input) (\<lambda>(u, r) d'.
      registered (normalizeEmail (ni_Email input)) (db w) u (d'\<lparr>tb_registrations := tb_registrations (db w)\<rparr>)
      \<and> tb_registrations d' = tb_registrations (db w) @ [r]
      \<and> rr_UserID r = us_ID u \<and> rr_Email r = us_Email u \<and> rr_Status r = RegistrationStatusPending
      \<and> HasEntitlement catalog (rr_RequestedEntitlement r)) (db w)"
    unfolding SubmitRegistration_def Let_def RegistrationRepo_Create_def
    apply (rule wlp_andThen, rule wlp_reject_if)+
    apply (rule wlp_andThen, rule wlp_time_now)
    apply (rule wlp_andThen, rule wlp_mono, rule wlp_registered_user [OF assms(1)])
    apply (intro wlp_intros)
    subgoal by (auto simp: registered_def registrations.insert_row_Some split: option.splits)
    done
  then show ?thesis using assms(2) by (auto dest: wlpD)
qed

section \<open>Witnesses\<close>

definition sample_grant_input :: "string \<Rightarrow> instant option \<Rightarrow> GrantInput" where
  "sample_grant_input source expires = \<lparr>ei_UserID = '' usr_1'', ei_RegistrationID = [],
     ei_EntitlementID = EntitlementEditorialStudio, ei_CreatedBy = [], ei_Source = source, ei_StartsAt = 0,
     ei_ExpiresAt = expires, ei_IdempotencyKey = ''k1''\<rparr>"

definition w_entitled :: "database world" where
  "w_entitled = snd (CreateGrant DefaultEntitlementCatalog (sample_grant_input [] None) (sample_world 0 users_db))"

lemma CreateGrant_effect_witness:
  "\<exists>g. tb_grants (db w_entitled) = [g] \<and> eg_EntitlementID g = EntitlementEditorialStudio"
proof -
  let ?r = "CreateGrant DefaultEntitlementCatalog (sample_grant_input [] None) (sample_world 0 users_db)"
  have ok: "isl (fst ?r) = False" by code_simp
  have "tb_grants (db (sample_world 0 users_db)) = []" "length (tb_grants (db w_entitled)) = 1" by code_simp+
  moreover have "trim_space (ei_EntitlementID (sample_grant_input [] None)) = EntitlementEditorialStudio"
    by code_simp
  ultimately show ?thesis
    using CreateGrant_effect [OF run_ok [OF ok]]
    by (auto simp: grant_outcome_def grant_subject_def sample_grant_input_def w_entitled_def)
qed

lemma entitled_run: "CreateGrant DefaultEntitlementCatalog (sample_grant_input [] None) (sample_world 0 users_db)
  = (Inr (ok_result (CreateGrant DefaultEntitlementCatalog (sample_grant_input [] None) (sample_world 0 users_db))), w_entitled)"
  unfolding w_entitled_def by (rule run_ok) code_simp

lemma CreateGrant_retry_witness:
  "db (snd (CreateGrant [] (sample_grant_input ''manual'' (Some 5)) w_entitled)) = db w_entitled"
proof -
  have ok: "table_ok grant_clash (tb_grants (db (sample_world 0 users_db)))" by code_simp
  have key: "trim_space (ei_IdempotencyKey (sample_grant_input [] None)) \<noteq> []" by code_simp
  have same: "trim_space (ei_RegistrationID (sample_grant_input a b)) = []"
    "ei_UserID (sample_grant_input a b) = '' usr_1''"
    "ei_EntitlementID (sample_grant_input a b) = EntitlementEditorialStudio"
    "ei_IdempotencyKey (sample_grant_input a b) = ''k1''" for a b
    by (simp_all add: sample_grant_input_def)
  show ?thesis
    by (rule CreateGrant_retry [where again = "sample_grant_input ''manual'' (Some 5)", THEN conjunct1,
        OF ok entitled_run key same(1) same(1) _ _ _ refl prod.collapse [symmetric]]) (simp_all only: same)
qed

lemma SnapshotForUser_exact_witness:
  "db (snd (SnapshotForUser True ''usr_1'' w_entitled)) = db w_entitled"
  by (rule SnapshotForUser_exact [OF prod.collapse [symmetric], THEN conjunct1])

definition sample_registration :: RegistrationInput where
  "sample_registration = \<lparr>ni_Email = '' A@b.c '', ni_DisplayName = ''Ada'',
     ni_RequestedEntitlement = EntitlementEditorialStudio, ni_DeviceID = [], ni_Source = [], ni_Note = []\<rparr>"

lemma SubmitRegistration_effect_witness:
  "\<exists>r. tb_registrations (db (snd (SubmitRegistration DefaultEntitlementCatalog sample_registration
      (sample_world 0 users_db)))) = [r] \<and> rr_Email r = ''a@b.c''"
proof -
  let ?run = "SubmitRegistration DefaultEntitlementCatalog sample_registration (sample_world 0 users_db)"
  have ok: "table_ok user_clash (tb_users (db (sample_world 0 users_db)))" by code_simp
  have "isl (fst ?run) = False" by code_simp
  then have "?run = (Inr (fst (ok_result ?run), snd (ok_result ?run)), snd ?run)"
    using run_ok [of ?run] by simp
  from SubmitRegistration_effect [OF ok this]
  have "tb_registrations (db (snd ?run)) = tb_registrations (db (sample_world 0 users_db)) @ [snd (ok_result ?run)]"
    by blast
  moreover have "tb_registrations (db (sample_world 0 users_db)) = []" "rr_Email (snd (ok_result ?run)) = ''a@b.c''"
    by code_simp+
  ultimately show ?thesis by (metis append_Nil)
qed

end
