(* ===== verification/Fulfillment_Theorems.thy ===== *)
theory Fulfillment_Theorems
  imports Fulfillment Entitlement_Theorems Credit_Theorems
begin

text \<open>
  The properties of fulfillment: every rule of a paid order is delivered once, an order that is
  fulfilled is left alone, a failed fulfillment is rolled back and only records its failed
  executions, and the credit ledger stays consistent.
\<close>

section \<open>Applied executions are never lost\<close>

text \<open>\<open>A\<close> are rows of the executions table that are applied.\<close>

definition holds_applied :: "FulfillmentExecution set \<Rightarrow> database \<Rightarrow> bool" where
  "holds_applied A d \<longleftrightarrow> table_ok execution_clash (tb_executions d) \<and> A \<subseteq> set (tb_executions d)
     \<and> (\<forall>x\<in>A. fe_Status x = ExecutionApplied)"

lemma holds_applied_same:
  "tb_executions d = tb_executions d' \<Longrightarrow> holds_applied A d = holds_applied A d'"
  by (simp add: holds_applied_def)

text \<open>An execution that is not applied may be overwritten.\<close>

lemma not_applied_other:
  assumes "holds_applied A d" "old \<in> set (tb_executions d)" "fe_Status old \<noteq> ExecutionApplied"
  shows "fe_ID old \<notin> fe_ID ` A" "fe_IdempotencyKey old \<notin> fe_IdempotencyKey ` A"
proof -
  have same: "x \<in> A \<Longrightarrow> execution_clash old x \<Longrightarrow> False" for x
    using assms executions.same_row [of "tb_executions d" old x] unfolding holds_applied_def by blast
  show "fe_ID old \<notin> fe_ID ` A" "fe_IdempotencyKey old \<notin> fe_IdempotencyKey ` A"
    using same unfolding execution_clash_def by (metis imageE)+
qed

lemma holds_applied_update:
  assumes "holds_applied A d" "save_row fe_ID execution_clash x (tb_executions d) = Some t"
    and "fe_ID x \<notin> fe_ID ` A"
  shows "holds_applied A (d\<lparr>tb_executions := t\<rparr>)"
proof -
  have "y \<in> set t" if "y \<in> A" for y
  proof -
    have y: "y \<in> set (tb_executions d)" "fe_ID y \<noteq> fe_ID x"
      using assms(1,3) that unfolding holds_applied_def by (auto, metis imageI)
    show ?thesis
      using assms(2) y replace_row_other [OF y] by (auto simp: save_row_def split: if_splits)
  qed
  then show ?thesis
    using assms(1) executions.save_ok [OF _ assms(2)] by (auto simp: holds_applied_def)
qed

lemma holds_applied_create:
  assumes "holds_applied A d" "insert_row execution_clash x (tb_executions d) = Some t"
  shows "holds_applied A (d\<lparr>tb_executions := t\<rparr>)"
  using assms executions.insert_ok [OF _ assms(2)]
  by (auto simp: holds_applied_def executions.insert_row_Some)

lemma keeps_saveFulfillmentExecution:
  assumes "exists \<Longrightarrow> fe_ID x \<notin> fe_ID ` A"
  shows "keeps (holds_applied A) (saveFulfillmentExecution x exists)"
  unfolding saveFulfillmentExecution_def FulfillmentExecutionRepo_Update_def
    FulfillmentExecutionRepo_Create_def Let_def
  apply (intro keeps_andThen keeps_time_now keeps_ret)
  subgoal for now
    by (cases exists) (simp_all add: assms keeps_store_save keeps_store_create holds_applied_update
        holds_applied_create)
  done

section \<open>Frames of the executors\<close>

lemma untouched_ensureCreditAccount [untouched_rules]:
  "(\<And>g d. f (tb_accounts_update g d) = f d) \<Longrightarrow> untouched f (ensureCreditAccount u)"
  unfolding ensureCreditAccount_def CreditAccountRepo_GetByUserID_def CreditAccountRepo_Create_def Let_def
  by (intro untouched_rules)

lemma untouched_newCreditTransaction [untouched_rules]:
  "(\<And>g d. f (tb_transactions_update g d) = f d) \<Longrightarrow> untouched f (newCreditTransaction input)"
  unfolding newCreditTransaction_def CreditTransactionRepo_Create_def Let_def
  by (intro untouched_rules)

lemma untouched_newCreditBucketFromGrant [untouched_rules]: "untouched f (newCreditBucketFromGrant a input k now)"
  unfolding newCreditBucketFromGrant_def Let_def by (intro untouched_rules)

lemma untouched_grantCreditsWithRepos [untouched_rules]:
  assumes "\<And>g d. f (tb_accounts_update g d) = f d" "\<And>g d. f (tb_transactions_update g d) = f d"
    and "\<And>g d. f (tb_buckets_update g d) = f d"
  shows "untouched f (grantCreditsWithRepos s input)"
  unfolding grantCreditsWithRepos_def apply_grant_def book_grant_def replay_grant_def Let_def credit_repo_defs
  by (intro untouched_rules assms)

lemma untouched_createGrantWithRepos [untouched_rules]:
  assumes "\<And>g d. f (tb_grants_update g d) = f d"
  shows "untouched f (createGrantWithRepos u c input)"
  unfolding createGrantWithRepos_def issue_grant_def Let_def UserRepo_GetByID_def
    EntitlementGrantRepo_GetByIdempotencyKey_def EntitlementGrantRepo_ListByUser_def
    EntitlementGrantRepo_Create_def
  by (intro untouched_rules assms)

lemma untouched_execute_rule [untouched_rules]:
  assumes "\<And>g d. f (tb_grants_update g d) = f d" "\<And>g d. f (tb_accounts_update g d) = f d"
    and "\<And>g d. f (tb_transactions_update g d) = f d" "\<And>g d. f (tb_buckets_update g d) = f d"
  shows "untouched f (execute_rule s x rule)"
  unfolding execute_rule_def execute_entitlement_def execute_credits_def fulfillmentAnchorTime_def
    entitlementFulfillmentAnchor_def EntitlementGrantRepo_List_def creditFulfillmentPeriodStart_def
    creditFulfillmentPeriodEnd_def
  by (intro untouched_rules assms)

lemma keeps_execute_rule: "keeps (holds_applied A) (execute_rule s x rule)"
proof -
  have "untouched tb_executions (execute_rule s x rule)" by (intro untouched_rules) simp_all
  then have "keeps (\<lambda>d. table_ok execution_clash (tb_executions d) \<and> A \<subseteq> set (tb_executions d)
     \<and> (\<forall>x\<in>A. fe_Status x = ExecutionApplied)) (execute_rule s x rule)"
    by (rule untouched_keeps)
  then show ?thesis unfolding holds_applied_def [abs_def] .
qed

section \<open>Rules and orders\<close>

lemma readonly_newExecutionFromOrderRule [atomic_rules]: "readonly (newExecutionFromOrderRule x rule k)"
  unfolding newExecutionFromOrderRule_def by (intro atomic_rules)

lemma keeps_deliver_rule:
  assumes "\<And>old. existing = Some old \<Longrightarrow> fe_ID old \<notin> fe_ID ` A"
  shows "keeps (holds_applied A) (deliver_rule s x rule k existing)"
proof -
  have save: "keeps (holds_applied A) (saveFulfillmentExecution (e\<lparr>fe_Status := st, fe_LastError := m\<rparr>) (existing \<noteq> None))"
    if "\<And>old. existing = Some old \<Longrightarrow> fe_ID e = fe_ID old" for e st m
    by (rule keeps_saveFulfillmentExecution) (cases existing; use assms that in simp)
  show ?thesis
    unfolding deliver_rule_def Let_def FulfillmentExecutionRepo_GetByIdempotencyKey_def
    apply (rule keeps_andThen, rule keeps_reject_if, rule keeps_andThen,
        rule keeps_readonly, rule readonly_newExecutionFromOrderRule)
    apply (rule keeps_andThen, rule keeps_attempt, rule keeps_execute_rule, rule keeps_cases(3))
     apply (rule keeps_andThen, rule save, simp, rule keeps_ret)
    apply (rule keeps_andThen, rule keeps_attempt, rule save, simp add: with_target_def, rule keeps_cases(3))
     apply (rule keeps_andThen, rule keeps_attempt, rule keeps_store_find, rule keeps_cases(3))
      apply (rule keeps_fail, rule keeps_if, rule keeps_ret, rule keeps_fail, rule keeps_ret)
    done
qed

lemma keeps_applyRule: "keeps (holds_applied A) (applyRule s x rule)"
  unfolding applyRule_def Let_def FulfillmentExecutionRepo_GetByIdempotencyKey_def
  apply (rule keeps_andThen, rule keeps_of_sum, rule keeps_found)
  subgoal premises prems for r old d
  proof (cases "fe_Status old = ExecutionApplied")
    case True
    then show ?thesis by (simp only: if_True simp_thms) (rule keeps_ret)
  next
    case False
    have "old \<in> set (tb_executions d)" using find_row_found [OF prems(2)] by (rule conjunct1)
    then have "fe_ID old \<notin> fe_ID ` A" by (rule not_applied_other(1) [OF prems(1) _ False])
    then have "keeps (holds_applied A) (deliver_rule s x r (fulfillmentRuleExecutionKey (or_OutTradeNo x) (fr_ID r)) (Some old))"
      by (intro keeps_deliver_rule) simp
    with False show ?thesis by (simp only: if_False simp_thms)
  qed
  by (rule keeps_deliver_rule) simp

lemma keeps_apply_rules: "keeps (holds_applied A) (apply_rules s x rules acc)"
proof (induction rules arbitrary: acc)
  case Nil
  then show ?case by (simp add: keeps_ret)
next
  case (Cons r rules)
  show ?case
    unfolding apply_rules.simps
    apply (rule keeps_andThen, rule keeps_attempt, rule keeps_applyRule)
    apply (rule keeps_cases)
     apply (rule keeps_ret)
    apply (rule keeps_cases)
    apply (rule keeps_cases)
     apply (rule Cons.IH)
    apply (rule keeps_ret)
    done
qed

text \<open>The execution \<open>e\<close> records that the rule was delivered for the order.\<close>

definition applied_for :: "Order \<Rightarrow> FulfillmentRule \<Rightarrow> database \<Rightarrow> FulfillmentExecution \<Rightarrow> bool" where
  "applied_for x rule d e \<longleftrightarrow> e \<in> set (tb_executions d) \<and> fe_Status e = ExecutionApplied
     \<and> (\<exists>r. normalizeFulfillmentRule rule = Inr r
          \<and> fe_IdempotencyKey e = fulfillmentRuleExecutionKey (or_OutTradeNo x) (fr_ID r))"

lemma wlp_saveFulfillmentExecution:
  "wlp (saveFulfillmentExecution x exists) (\<lambda>y d'. y \<in> set (tb_executions d') \<and> fe_Status y = fe_Status x
     \<and> fe_IdempotencyKey y = fe_IdempotencyKey x) d"
  unfolding saveFulfillmentExecution_def FulfillmentExecutionRepo_Update_def
    FulfillmentExecutionRepo_Create_def Let_def
  by (intro wlp_intros) (auto simp: executions.insert_row_Some dest: save_row_mem)

lemma wlp_deliver_rule:
  "wlp (deliver_rule s x rule k existing) (\<lambda>(e, f) d'. fe_IdempotencyKey e = k
     \<and> (f = None \<longrightarrow> e \<in> set (tb_executions d') \<and> fe_Status e = ExecutionApplied)) d"
  unfolding deliver_rule_def Let_def newExecutionFromOrderRule_def with_target_def
    FulfillmentExecutionRepo_GetByIdempotencyKey_def
  apply (rule wlp_andThen, rule wlp_reject_if, rule wlp_andThen, intro wlp_intros)
  apply (rule wlp_attempt_any, intro wlp_intros)
   apply (rule wlp_mono, rule wlp_saveFulfillmentExecution, rule wlp_ret)
   apply (simp split: option.split)
  apply (rule wlp_attempt [where P = "\<lambda>_. True"], simp add: keeps_def, simp)
   apply (rule wlp_mono, rule wlp_saveFulfillmentExecution, intro wlp_intros)
     apply (simp_all split: option.split)
  apply (rule wlp_andThen, rule wlp_attempt_find)
   apply (simp_all add: wlp_fail)
  subgoal by (auto intro!: wlp_ret dest: find_row_found)
  done

lemma untouched_saveFulfillmentExecution [untouched_rules]:
  "(\<And>g d. f (tb_executions_update g d) = f d) \<Longrightarrow> untouched f (saveFulfillmentExecution x exists)"
  unfolding saveFulfillmentExecution_def FulfillmentExecutionRepo_Update_def
    FulfillmentExecutionRepo_Create_def Let_def
  by (intro untouched_rules)

lemma untouched_apply_rules [untouched_rules]:
  assumes "\<And>g d. f (tb_executions_update g d) = f d" "\<And>g d. f (tb_grants_update g d) = f d"
    and "\<And>g d. f (tb_accounts_update g d) = f d" "\<And>g d. f (tb_transactions_update g d) = f d"
    and "\<And>g d. f (tb_buckets_update g d) = f d"
  shows "untouched f (apply_rules s x rules acc)"
proof (induction rules arbitrary: acc)
  case Nil
  then show ?case by (simp add: untouched_simple)
next
  case (Cons r rules)
  have "untouched f (applyRule s x r)"
    unfolding applyRule_def Let_def deliver_rule_def newExecutionFromOrderRule_def
      FulfillmentExecutionRepo_GetByIdempotencyKey_def
    by (intro untouched_rules assms)
  then show ?case unfolding apply_rules.simps by (intro untouched_rules Cons.IH)
qed

section \<open>The loop over the rules\<close>

text \<open>A failed execution has none of the keys of the applied ones.\<close>

definition spared :: "FulfillmentExecution set \<Rightarrow> FulfillmentExecution list \<Rightarrow> bool" where
  "spared A xs \<longleftrightarrow> (\<forall>e\<in>set xs. fe_Status e = ExecutionFailed
     \<longrightarrow> fe_IdempotencyKey e \<notin> fe_IdempotencyKey ` A)"

lemma wlp_applyRule_result:
  assumes "holds_applied A d"
  shows "wlp (applyRule s x rule) (\<lambda>(e, f) d'. spared A [e] \<and> (f = None \<longrightarrow> applied_for x rule d' e)) d"
  unfolding applyRule_def Let_def FulfillmentExecutionRepo_GetByIdempotencyKey_def
  apply (rule wlp_andThen, rule wlp_of_sum, rule wlp_if_found, rule wlp_if)
  subgoal premises p for r old
    using find_row_found [OF p(2)] p by (intro wlp_ret) (auto simp: spared_def applied_for_def)
  subgoal premises p for r old
  proof -
    have "fulfillmentRuleExecutionKey (or_OutTradeNo x) (fr_ID r) \<notin> fe_IdempotencyKey ` A"
      using not_applied_other(2) [OF assms _ p(3)] find_row_found [OF p(2)] by metis
    then show ?thesis
      using p(1) by (intro wlp_mono [OF wlp_deliver_rule]) (simp add: spared_def applied_for_def split: prod.splits)
  qed
  subgoal premises p for r
  proof -
    have "fulfillmentRuleExecutionKey (or_OutTradeNo x) (fr_ID r) \<notin> fe_IdempotencyKey ` A"
      using p(2) assms by (auto simp: find_row_absent holds_applied_def)
    then show ?thesis
      using p(1) by (intro wlp_mono [OF wlp_deliver_rule]) (simp add: spared_def applied_for_def split: prod.splits)
  qed
  done

lemma wlp_applyRule:
  assumes "holds_applied A d"
  shows "wlp (applyRule s x rule) (\<lambda>(e, f) d'. holds_applied A d' \<and> spared A [e]
      \<and> (f = None \<longrightarrow> applied_for x rule d' e)) d"
  using wlp_conj [OF wlp_applyRule_result [OF assms] wlp_keeps [OF keeps_applyRule assms]]
  by (rule wlp_mono) auto

lemma applied_for_survives:
  "holds_applied A d \<Longrightarrow> applied_for x rule d e \<Longrightarrow> holds_applied {e} d"
  by (simp add: holds_applied_def applied_for_def)

lemma wlp_apply_rules:
  assumes "holds_applied A d" "spared A acc"
  shows "wlp (apply_rules s x rules acc) (\<lambda>(es, f) d'. holds_applied A d' \<and> spared A es
      \<and> (f = None \<longrightarrow> (\<forall>rule\<in>set rules. \<exists>e. applied_for x rule d' e))) d"
  using assms
proof (induction rules arbitrary: acc d)
  case Nil
  then show ?case by (auto intro: wlp_ret)
next
  case (Cons r rules)
  show ?case
    unfolding apply_rules.simps
    apply (rule wlp_andThen, rule wlp_attempt [OF keeps_applyRule Cons.prems(1)])
     apply (rule wlp_mono, rule wlp_applyRule [OF Cons.prems(1)])
    subgoal premises p for ef d1
    proof (cases ef)
      case (Pair e f)
      show ?thesis
      proof (cases f)
        case None
        have ap: "applied_for x r d1 e" and A: "holds_applied A d1" and sp: "spared A (acc @ [e])"
          using p Pair None Cons.prems(2) by (auto simp: spared_def)
        have "wlp (apply_rules s x rules (acc @ [e])) (\<lambda>_. holds_applied {e}) d1"
          by (rule wlp_keeps [OF keeps_apply_rules applied_for_survives [OF A ap]])
        from wlp_conj [OF Cons.IH [OF A sp] this] show ?thesis
          unfolding Pair None sum.case prod.case option.case
          by (rule wlp_mono) (use ap in \<open>auto simp: applied_for_def holds_applied_def\<close>)
      next
        case (Some e')
        then show ?thesis using p Pair Cons.prems(2) by (auto simp: spared_def intro!: wlp_ret)
      qed
    qed
    subgoal using Cons.prems(2) by (auto intro: wlp_ret)
    done
qed

section \<open>A whole order\<close>

text \<open>A later step may use what a run of the first one established.\<close>

lemma keeps_andThen_post:
  assumes "keeps P m" "\<And>d. P d \<Longrightarrow> wlp m (\<lambda>x _. keeps P (k x)) d"
  shows "keeps P (andThen m k)"
  unfolding keeps_def
proof (intro allI impI)
  fix w :: "'a world"
  assume P: "P (db w)"
  obtain r w1 where run: "m w = (r, w1)" by (cases "m w")
  have P1: "P (db w1)" using keepsD [OF assms(1) P] run by simp
  show "P (db (snd (andThen m k w)))"
  proof (cases r)
    case (Inl e)
    then show ?thesis using run P1 by (simp add: andThen_def)
  next
    case (Inr x)
    have "keeps P (k x)" using wlpD [OF assms(2) [OF P]] run Inr by blast
    then show ?thesis using run P1 Inr by (simp add: andThen_def keepsD)
  qed
qed

definition stored_order :: "Order \<Rightarrow> database \<Rightarrow> Order \<Rightarrow> bool" where
  "stored_order x0 d x \<longleftrightarrow> (if or_OutTradeNo x0 = [] then x = x0
     else find_row or_OutTradeNo (or_OutTradeNo x0) (tb_orders d) = Some x)"

text \<open>The result for an order that was completed: only its status and, if it had none, its fulfillment time changed.\<close>

definition completed :: "Order \<Rightarrow> FulfillmentResult \<Rightarrow> bool" where
  "completed x res \<longleftrightarrow> \<not> fu_AlreadyFulfilled res
     \<and> fu_Order res = x\<lparr>or_Status := OrderStatusFulfilled, or_FulfilledAt := or_FulfilledAt (fu_Order res)\<rparr>
     \<and> or_FulfilledAt (fu_Order res) \<noteq> None
     \<and> (or_FulfilledAt x \<noteq> None \<longrightarrow> or_FulfilledAt (fu_Order res) = or_FulfilledAt x)"

text \<open>The fulfillment of a paid order: every rule of its SKU is applied, then the order is stored as fulfilled.\<close>

definition delivered ::
  "fulfillment_service \<Rightarrow> Order \<Rightarrow> database \<Rightarrow> FulfillmentResult \<Rightarrow> database \<Rightarrow> bool" where
  "delivered s x d res d' \<longleftrightarrow>
     or_Status x = OrderStatusPaid \<and> isFulfillableOrderType (or_OrderType x)
     \<and> find_row us_ID (trim_space (or_UserID x)) (tb_users d) \<noteq> None
     \<and> completed x res
     \<and> save_row or_ID order_clash (fu_Order res) (tb_orders d) = Some (tb_orders d')
     \<and> (\<exists>rules. fs_catalog s (or_SKUCode x) = Inr rules \<and> (\<forall>rule\<in>set rules. \<exists>e. applied_for x rule d' e))"

definition fulfill_outcome ::
  "fulfillment_service \<Rightarrow> Order \<Rightarrow> database \<Rightarrow> FulfillmentResult \<Rightarrow> database \<Rightarrow> bool" where
  "fulfill_outcome s x0 d res d' \<longleftrightarrow> (\<exists>x. stored_order x0 d x
     \<and> (if or_Status x = OrderStatusFulfilled then d' = d \<and> fu_Order res = x \<and> fu_AlreadyFulfilled res
        else delivered s x d res d'))"

lemma applied_for_orders [simp]: "applied_for x rule (d\<lparr>tb_orders := t\<rparr>) e = applied_for x rule d e"
  by (simp add: applied_for_def)

lemma holds_applied_orders [simp]: "holds_applied A (d\<lparr>tb_orders := t\<rparr>) = holds_applied A d"
  by (simp add: holds_applied_def)

lemma fulfill_outcome_delivered:
  "stored_order x0 d x \<Longrightarrow> or_Status x \<noteq> OrderStatusFulfilled \<Longrightarrow> delivered s x d res d'
    \<Longrightarrow> fulfill_outcome s x0 d res d'"
  unfolding fulfill_outcome_def by (intro exI [of _ x]) simp

lemma applied_for_ex_orders:
  "\<forall>rule\<in>R. \<exists>e. applied_for x rule d e \<Longrightarrow> \<forall>rule\<in>R. \<exists>e. applied_for x rule (d\<lparr>tb_orders := t\<rparr>) e"
  by (simp only: applied_for_orders)

lemma completed_now: "completed x \<lparr>fu_Order = x\<lparr>or_Status := OrderStatusFulfilled,
    or_FulfilledAt := (case or_FulfilledAt x of None \<Rightarrow> Some now | Some t \<Rightarrow> Some t)\<rparr>,
    fu_Executions = es, fu_AlreadyFulfilled = False\<rparr>"
  by (cases "or_FulfilledAt x") (simp_all add: completed_def)

lemma wlp_finish_order:
  "wlp (finish_order x es) (\<lambda>(res, f) d'. fu_Executions res = es \<and>
     (f = None \<longrightarrow> completed x res
        \<and> (\<exists>t. save_row or_ID order_clash (fu_Order res) (tb_orders d) = Some t \<and> d' = d\<lparr>tb_orders := t\<rparr>))) d"
  unfolding finish_order_def Let_def OrderRepo_Update_def
  apply (rule wlp_andThen, rule wlp_time_now, rule wlp_andThen, rule wlp_attempt_save)
  subgoal premises p for now t
    using completed_now [of x now es] p by (auto intro!: wlp_ret)
  by (simp add: wlp_ret)

lemma wlp_stored_order:
  "(\<And>x. stored_order x0 d x \<Longrightarrow> Q x d)
    \<Longrightarrow> wlp (if or_OutTradeNo x0 \<noteq> [] then OrderRepo_GetByOutTradeNo (or_OutTradeNo x0) else ret x0) Q d"
  unfolding OrderRepo_GetByOutTradeNo_def by (intro wlp_intros) (simp_all add: stored_order_def)

lemma wlp_fulfillOrderWithRepos:
  assumes "holds_applied A d"
  shows "wlp (fulfillOrderWithRepos s x0) (\<lambda>(res, f) d'. spared A (if f = None then [] else fu_Executions res)
      \<and> (f = None \<longrightarrow> fulfill_outcome s x0 d res d')) d"
  unfolding fulfillOrderWithRepos_def ensureFulfillmentUser_def UserRepo_GetByID_def
    FulfillmentExecutionRepo_List_def
  apply (rule wlp_andThen, rule wlp_stored_order, rule wlp_andThen, rule wlp_reject_if, rule wlp_if)
  subgoal by (intro wlp_intros) (auto simp: fulfill_outcome_def spared_def)
  apply (rule wlp_andThen, rule wlp_reject_if)
  apply (rule wlp_andThen, rule wlp_andThen, rule wlp_reject_if, rule wlp_andThen, rule wlp_not_found_as,
      rule wlp_store_find, rule wlp_ret)
  apply (rule wlp_andThen, rule wlp_of_sum)
  apply (rule wlp_andThen, rule wlp_also_untouched [where f = tb_orders], rule untouched_apply_rules, simp_all)
  apply (rule wlp_mono, rule wlp_apply_rules [OF assms], simp add: spared_def, rule impI)
  subgoal premises p for x u rules ef d1
  proof (cases ef)
    case (Pair es f)
    show ?thesis
    proof (cases f)
      case None
      have applied: "\<forall>rule\<in>set rules. \<exists>e. applied_for x rule d1 e" and sp: "spared A es"
        and same: "tb_orders d1 = tb_orders d"
        using p(7,8) Pair None by simp_all
      have fin: "fulfill_outcome s x0 d res (d1\<lparr>tb_orders := t\<rparr>)"
        if "completed x res" "save_row or_ID order_clash (fu_Order res) (tb_orders d) = Some t" for res t
        by (rule fulfill_outcome_delivered [OF p(1)])
          (use p(2-6) applied same that in \<open>simp_all add: delivered_def\<close>)
      show ?thesis
        unfolding Pair None prod.case option.case
        by (rule wlp_mono [OF wlp_finish_order]) (use sp in \<open>auto simp: same fin spared_def [of _ "[]"]\<close>)
    next
      case (Some e)
      then show ?thesis using p Pair by (auto intro!: wlp_ret)
    qed
  qed
  done

lemma keeps_finish_order: "keeps (holds_applied A) (finish_order x es)"
  unfolding finish_order_def Let_def OrderRepo_Update_def
  apply (rule keeps_andThen, rule keeps_time_now, rule keeps_andThen, rule keeps_attempt,
      rule keeps_store_save, simp, rule keeps_cases(3))
   apply (rule keeps_ret)+
  done

lemma keeps_fulfillOrderWithRepos: "keeps (holds_applied A) (fulfillOrderWithRepos s x0)"
  unfolding fulfillOrderWithRepos_def ensureFulfillmentUser_def UserRepo_GetByID_def
    FulfillmentExecutionRepo_List_def OrderRepo_GetByOutTradeNo_def
  by (intro keeps_andThen keeps_if keeps_cases keeps_ret keeps_reject_if keeps_store_find keeps_db_read
      keeps_not_found_as keeps_of_sum keeps_apply_rules keeps_finish_order)

lemma keeps_persist_failed:
  assumes "spared A [e]"
  shows "keeps (holds_applied A) (persist_failed e u)"
proof (cases "fe_Status e \<noteq> ExecutionFailed \<or> fe_IdempotencyKey e = []")
  case True
  then show ?thesis by (simp add: persist_failed_def keeps_ret)
next
  case False
  have free: "fe_ID old \<notin> fe_ID ` A"
    if "holds_applied A d" "find_row fe_IdempotencyKey (fe_IdempotencyKey e) (tb_executions d) = Some old" for d old
  proof
    assume "fe_ID old \<in> fe_ID ` A"
    then obtain a where a: "a \<in> A" "fe_ID a = fe_ID old" by auto
    have old: "old \<in> set (tb_executions d)" "fe_IdempotencyKey old = fe_IdempotencyKey e"
      using find_row_found [OF that(2)] by auto
    have "old = a"
      using that(1) old a executions.same_row [of "tb_executions d" old a]
      by (auto simp: holds_applied_def execution_clash_def)
    then show False
      using assms False old(2) a(1) unfolding spared_def by (metis imageI list.set_intros(1))
  qed
  have save: "keeps (holds_applied A) (andThen (attempt (saveFulfillmentExecution x exists)) (\<lambda>_. ret ()))"
    if "exists \<Longrightarrow> fe_ID x \<notin> fe_ID ` A" for x exists
    using that by (intro keeps_andThen keeps_attempt keeps_saveFulfillmentExecution keeps_ret)
  show ?thesis
    unfolding persist_failed_def FulfillmentExecutionRepo_GetByIdempotencyKey_def if_not_P [OF False]
    apply (rule keeps_attempt_found)
    subgoal by (simp only: sum.case, rule save, simp add: free)
    subgoal by (simp only: sum.case, intro keeps_if keeps_ret, rule save, simp)
    done
qed

lemma keeps_persistFailedExecutions:
  "spared A es \<Longrightarrow> keeps (holds_applied A) (persistFailedExecutions es)"
  unfolding persistFailedExecutions_def
proof (induction es)
  case Nil
  then show ?case by (simp add: keeps_ret)
next
  case (Cons e es)
  have "spared A [e]" "spared A es" using Cons.prems by (simp_all add: spared_def)
  then have "keeps (holds_applied A) (andThen (persist_failed e ()) (\<lambda>_. for_each es persist_failed ()))"
    using Cons.IH by (intro keeps_andThen keeps_persist_failed)
  then show ?case by simp
qed

lemma wlp_withFulfillmentTransaction:
  assumes "wlp body (\<lambda>(res, f) d'. if f = None then Q res None d' else (\<forall>d'. Q res f d')) d"
  shows "wlp (withFulfillmentTransaction s body) (\<lambda>(res, f). Q res f) d"
proof -
  have "wlp body (\<lambda>(res, f). Q res f) d"
    by (rule wlp_mono [OF assms]) (auto split: if_splits)
  moreover have "wlp body (\<lambda>x d'. if (\<lambda>(_, failure). failure = None) x then (\<lambda>(res, f). Q res f) x d'
      else (\<lambda>(res, f). Q res f) x d) d"
    by (rule wlp_mono [OF assms]) (auto split: if_splits)
  ultimately show ?thesis
    unfolding withFulfillmentTransaction_def by (simp add: wlp_in_transaction_when)
qed

lemma keeps_FulfillOrder: "keeps (holds_applied A) (FulfillOrder s x)"
  unfolding FulfillOrder_def
  apply (rule keeps_andThen, rule keeps_reject_if, rule keeps_andThen_post)
  subgoal
    unfolding withFulfillmentTransaction_def
    by (intro keeps_if keeps_in_transaction_when keeps_fulfillOrderWithRepos)
  subgoal premises p for _ d
  proof -
    have "wlp (withFulfillmentTransaction s (fulfillOrderWithRepos s x))
        (\<lambda>(res, f) d'. spared A (if f = None then [] else fu_Executions res)) d"
      by (rule wlp_withFulfillmentTransaction, rule wlp_mono, rule wlp_fulfillOrderWithRepos [OF p]) auto
    then show ?thesis
      by (rule wlp_mono) (auto split: option.split intro!: keeps_ret keeps_fail keeps_andThen keeps_persistFailedExecutions)
  qed
  done

lemma wp_then_fail: "(\<And>e. E e (snd (m w))) \<Longrightarrow> wp (andThen m (\<lambda>_. fail e)) Q E w"
  by (simp add: wp_def andThen_def fail_def split: prod.split sum.split) (metis snd_conv)

lemma wlp_then_fail: "wlp (andThen m (\<lambda>_. fail e)) Q d"
  by (simp add: wlp_def wp_def andThen_def fail_def split: prod.split sum.split)

lemma wlp_FulfillOrder:
  assumes "table_ok execution_clash (tb_executions d)"
  shows "wlp (FulfillOrder s x) (fulfill_outcome s x d) d"
proof -
  have none: "holds_applied {} d" using assms by (simp add: holds_applied_def)
  have body: "wlp (withFulfillmentTransaction s (fulfillOrderWithRepos s x))
      (\<lambda>(res, f) d'. f = None \<longrightarrow> fulfill_outcome s x d res d') d"
    by (rule wlp_withFulfillmentTransaction, rule wlp_mono, rule wlp_fulfillOrderWithRepos [OF none]) auto
  show ?thesis
    unfolding FulfillOrder_def
    apply (rule wlp_andThen, rule wlp_reject_if, rule wlp_andThen, rule wlp_mono [OF body])
    subgoal premises p for rf d'
    proof (cases "snd rf")
      case None
      then show ?thesis using p(2) by (cases rf) (simp add: wlp_ret)
    next
      case (Some e)
      then show ?thesis
        by (cases rf) (simp add: wlp_then_fail)
    qed
    done
qed

text \<open>An order that is already fulfilled is only read.\<close>

lemma readonly_when_fulfilled:
  assumes "find_row or_OutTradeNo (or_OutTradeNo x0) (tb_orders (db w)) = Some x"
    and "or_OutTradeNo x0 \<noteq> []" "or_Status x = OrderStatusFulfilled"
  shows "wp (FulfillOrder s x0) (\<lambda>res w'. db w' = db w \<and> fu_Order res = x \<and> fu_AlreadyFulfilled res)
           (\<lambda>_ w'. db w' = db w) w"
proof -
  have body: "wp (fulfillOrderWithRepos s x0) (\<lambda>(res, f) w'. db w' = d \<and> fu_Order res = x
      \<and> fu_AlreadyFulfilled res \<and> f = None) (\<lambda>_ w'. db w' = d) w1"
    if "db w1 = d" "d = db w" for w1 d
    using assms that
    by (simp add: fulfillOrderWithRepos_def wp_simps OrderRepo_GetByOutTradeNo_def
        FulfillmentExecutionRepo_List_def split: option.split)
  have "wp (withFulfillmentTransaction s (fulfillOrderWithRepos s x0)) (\<lambda>(res, f) w'. db w' = db w
      \<and> fu_Order res = x \<and> fu_AlreadyFulfilled res \<and> f = None) (\<lambda>_ w'. db w' = db w) w"
    unfolding withFulfillmentTransaction_def
    apply (simp, intro conjI impI)
    subgoal by (rule wp_in_transaction_when, simp)
        (rule wp_mono, rule body, simp, rule refl, auto split: option.split)
    subgoal by (rule body) simp_all
    done
  then show ?thesis
    unfolding FulfillOrder_def
    by (auto simp: wp_simps elim!: wp_mono)
qed

lemma order_found_after_save:
  assumes "table_ok order_clash t" "save_row or_ID order_clash y t = Some t'"
  shows "find_row or_OutTradeNo (or_OutTradeNo y) t' = Some y"
proof -
  have y: "y \<in> set t'" "table_ok order_clash t'"
    using save_row_mem [OF assms(2)] orders.save_ok [OF assms] by auto
  then obtain z where z: "find_row or_OutTradeNo (or_OutTradeNo y) t' = Some z"
    by (cases "find_row or_OutTradeNo (or_OutTradeNo y) t'") (auto simp: find_row_absent)
  with y orders.same_row [OF y(2), of z y] show ?thesis
    by (auto simp: order_clash_def dest: find_row_found)
qed

lemma stored_after_fulfillment:
  assumes "table_ok order_clash (tb_orders d)" "fulfill_outcome s x d res d'" "or_OutTradeNo x \<noteq> []"
  shows "find_row or_OutTradeNo (or_OutTradeNo x) (tb_orders d') = Some (fu_Order res)
    \<and> or_Status (fu_Order res) = OrderStatusFulfilled"
proof -
  obtain y where y: "find_row or_OutTradeNo (or_OutTradeNo x) (tb_orders d) = Some y"
    and out: "if or_Status y = OrderStatusFulfilled then d' = d \<and> fu_Order res = y \<and> fu_AlreadyFulfilled res
      else delivered s y d res d'"
    using assms(2,3) by (auto simp: fulfill_outcome_def stored_order_def)
  show ?thesis
  proof (cases "or_Status y = OrderStatusFulfilled")
    case True
    then show ?thesis using y out by simp
  next
    case False
    then have del: "delivered s y d res d'" using out by simp
    then have same: "fu_Order res = y\<lparr>or_Status := OrderStatusFulfilled, or_FulfilledAt := or_FulfilledAt (fu_Order res)\<rparr>"
      by (simp add: delivered_def completed_def)
    have "or_OutTradeNo (fu_Order res) = or_OutTradeNo x \<and> or_Status (fu_Order res) = OrderStatusFulfilled"
      using find_row_found [OF y] by (subst (1 2) same) simp
    then show ?thesis
      using order_found_after_save [OF assms(1), of "fu_Order res" "tb_orders d'"] del
      by (simp add: delivered_def)
  qed
qed

section \<open>Failed fulfillments\<close>

text \<open>All a failed fulfillment leaves behind: executions that are recorded as failed.\<close>

definition failed_only :: "database \<Rightarrow> database \<Rightarrow> bool" where
  "failed_only d d' \<longleftrightarrow> d'\<lparr>tb_executions := []\<rparr> = d\<lparr>tb_executions := []\<rparr>
     \<and> (\<forall>e\<in>set (tb_executions d'). e \<in> set (tb_executions d) \<or> fe_Status e = ExecutionFailed)"

lemma failed_only_refl: "failed_only d d"
  by (simp add: failed_only_def)

lemma failed_only_ledger: "failed_only d d' \<Longrightarrow> same_ledger d d'"
proof -
  assume "failed_only d d'"
  then have eq: "d'\<lparr>tb_executions := []\<rparr> = d\<lparr>tb_executions := []\<rparr>" by (simp add: failed_only_def)
  show ?thesis
    using arg_cong [OF eq, of tb_accounts] arg_cong [OF eq, of tb_buckets]
      arg_cong [OF eq, of tb_reservations] arg_cong [OF eq, of tb_transactions]
    by (simp add: same_ledger_def)
qed

lemma keeps_persist_failed_only: "keeps (failed_only d) (persist_failed e u)"
proof (cases "fe_Status e \<noteq> ExecutionFailed \<or> fe_IdempotencyKey e = []")
  case True
  then show ?thesis by (simp add: persist_failed_def keeps_ret)
next
  case False
  have update: "failed_only d (d'\<lparr>tb_executions := t\<rparr>)"
    if "failed_only d d'" "\<And>y. y \<in> set t \<Longrightarrow> y \<in> set (tb_executions d') \<or> fe_Status y = ExecutionFailed" for d' t
    using that by (auto simp: failed_only_def)
  have save: "keeps (failed_only d) (andThen (attempt (saveFulfillmentExecution x exists)) (\<lambda>_. ret ()))"
    if "fe_Status x = ExecutionFailed" for x exists
    unfolding saveFulfillmentExecution_def FulfillmentExecutionRepo_Update_def
      FulfillmentExecutionRepo_Create_def Let_def
    by (intro keeps_andThen keeps_attempt keeps_time_now keeps_if keeps_ret keeps_store_save keeps_store_create;
        rule update)
      (use that in \<open>auto simp: executions.insert_row_Some save_row_def elim: replace_rowE split: if_splits\<close>)
  show ?thesis
    unfolding persist_failed_def FulfillmentExecutionRepo_GetByIdempotencyKey_def if_not_P [OF False]
    apply (rule keeps_attempt_found)
    subgoal using False by (simp only: sum.case, intro save) simp
    subgoal using False by (simp only: sum.case, intro keeps_if keeps_ret, intro save) simp
    done
qed

text \<open>
  A call in a unit of work either commits what its body made of the data, or leaves the data
  but for failed executions.
\<close>

lemma FulfillOrder_runs:
  assumes "fs_uow s"
  shows "wp (FulfillOrder s x)
    (\<lambda>_ w'. \<forall>Q. wlp (fulfillOrderWithRepos s x) (\<lambda>(res, f) d'. f = None \<longrightarrow> Q d') (db w) \<longrightarrow> Q (db w'))
    (\<lambda>_ w'. failed_only (db w) (db w')) w"
proof -
  let ?body = "fulfillOrderWithRepos s x"
  obtain r w1 where run: "in_transaction_when (\<lambda>(_, failure). failure = None) ?body w = (r, w1)" by fastforce
  have none: "Q (db w1)" if "r = Inr (res, None)"
    "wlp ?body (\<lambda>(res, f) d'. f = None \<longrightarrow> Q d') (db w)" for res Q
  proof -
    have "wlp (in_transaction_when (\<lambda>(_, failure). failure = None) ?body)
        (\<lambda>(res, f) d'. f = None \<longrightarrow> Q d') (db w)"
      by (rule wlp_in_transaction_when, rule wlp_mono [OF that(2)]) auto
    from wlpD [OF this, of "(res, None)" w1] run that(1) show ?thesis by simp
  qed
  have some: "db w1 = db w" if "\<And>res. r \<noteq> Inr (res, None)"
    by (rule in_transaction_when_keeps_db [OF run]) (use that in auto)
  have persist: "failed_only (db w) (db (snd (persistFailedExecutions es w1)))" if "db w1 = db w" for es
    using keepsD [of "failed_only (db w)" "persistFailedExecutions es" w1] that failed_only_refl
    by (simp add: persistFailedExecutions_def keeps_for_each keeps_persist_failed_only)
  have "wp (in_transaction_when (\<lambda>(_, failure). failure = None) ?body)
    (\<lambda>(res, f) w1'. w1' = w1 \<and> r = Inr (res, f)) (\<lambda>e w1'. w1' = w1 \<and> r = Inl e) w"
    using run by (auto simp: wp_def split: sum.split)
  then have "wp (withFulfillmentTransaction s ?body)
    (\<lambda>x w1'. w1' = w1 \<and> r = Inr x) (\<lambda>e w1'. w1' = w1 \<and> r = Inl e) w"
    using assms by (auto simp: withFulfillmentTransaction_def elim!: wp_mono)
  then show ?thesis
    unfolding FulfillOrder_def wp_andThen wp_reject_if
    apply (simp add: failed_only_refl, intro impI)
    apply (erule wp_mono)
    subgoal premises p for rf w1'
    proof (cases rf)
      case (Pair res f)
      show ?thesis
      proof (cases f)
        case None
        have "w1' = w1" "r = Inr (res, None)" using p Pair None by auto
        with none [OF this(2)] show ?thesis unfolding Pair None prod.case option.case wp_ret by blast
      next
        case (Some e)
        have same: "db w1 = db w" by (rule some) (use p Pair Some in auto)
        have "w1' = w1" using p by simp
        with persist [OF same] show ?thesis
          unfolding Pair Some prod.case option.case by (intro wp_then_fail) simp
      qed
    qed
    subgoal using some failed_only_refl by auto
    done
qed

section \<open>Credits of an order\<close>

text \<open>The accounts of user \<open>u\<close> have room for \<open>n\<close> more credits.\<close>

definition credit_room :: "string \<Rightarrow> int \<Rightarrow> database \<Rightarrow> bool" where
  "credit_room u n d \<longleftrightarrow> n \<le> max_int64 \<and> (\<forall>a\<in>set (tb_accounts d). ca_UserID a = trim_space u
     \<longrightarrow> ca_Balance a + ca_Reserved a + n \<le> max_int64)"

definition rule_credits :: "FulfillmentRule \<Rightarrow> int" where
  "rule_credits r = (if trim_space (fr_Type r) = FulfillmentRuleGrantCredits then max 0 (fr_CreditsAmount r) else 0)"

definition rules_credits :: "FulfillmentRule list \<Rightarrow> int" where
  "rules_credits rules = (\<Sum>r\<leftarrow>rules. rule_credits r)"

definition ledger_with_room :: "string \<Rightarrow> int \<Rightarrow> database \<Rightarrow> bool" where
  "ledger_with_room u n d \<longleftrightarrow> credit_inv d \<and> credit_room u n d"

definition ledger_tables :: "database \<Rightarrow> CreditAccount list \<times> CreditBucket list \<times> CreditReservation list \<times> CreditTransaction list" where
  "ledger_tables d = (tb_accounts d, tb_buckets d, tb_reservations d, tb_transactions d)"

lemma ledger_with_room_same:
  "ledger_with_room u n d \<Longrightarrow> ledger_tables d' = ledger_tables d \<Longrightarrow> ledger_with_room u n d'"
  unfolding ledger_with_room_def credit_room_def ledger_tables_def
  using same_ledger_inv [of d d'] by (simp add: same_ledger_def)

lemma ledger_with_room_less: "ledger_with_room u n d \<Longrightarrow> m \<le> n \<Longrightarrow> ledger_with_room u m d"
  unfolding ledger_with_room_def credit_room_def by force

lemma wlp_ledger_frame:
  assumes "untouched ledger_tables m" "ledger_with_room u n d"
  shows "wlp m (\<lambda>_. ledger_with_room u n) d"
  by (rule wlp_untouched [OF assms(1)]) (rule ledger_with_room_same [OF assms(2)])

lemma wlp_grant_room:
  assumes "ledger_with_room u (gi_Amount input + n) d" "repos_have_buckets s"
    and "0 < gi_Amount input" "0 \<le> n" "gi_UserID input = u"
  shows "wlp (grantCreditsWithRepos s input) (\<lambda>_. ledger_with_room u n) d"
proof -
  have inv: "credit_inv d" and fits: "grant_fits input d"
    using assms by (auto simp: ledger_with_room_def credit_room_def grant_fits_def)
  have "ledger_with_room u n d'" if inv': "credit_inv d'" and effect: "grant_effect input d r d'" for r d'
  proof -
    obtain before held where eff:
      "before = 0 \<and> held = 0 \<or> (\<exists>a\<in>set (tb_accounts d). ca_UserID a = trim_space u
        \<and> before = ca_Balance a \<and> held = ca_Reserved a)"
      "mr_Account r \<in> set (tb_accounts d')" "ca_UserID (mr_Account r) = trim_space u"
      "ca_Balance (mr_Account r) = before + gi_Amount input" "ca_Reserved (mr_Account r) = held"
      using effect assms(5) unfolding grant_effect_def by blast
    have "a = mr_Account r" if "a \<in> set (tb_accounts d')" "ca_UserID a = trim_space u" for a
      using accounts.same_row [of "tb_accounts d'" a "mr_Account r"] that eff(2,3) inv'
      by (simp add: account_clash_def credit_inv_def credit_open_def credit_tables_ok_def)
    moreover have "before + held + (gi_Amount input + n) \<le> max_int64"
      using eff(1) assms(1) by (auto simp: ledger_with_room_def credit_room_def)
    ultimately show ?thesis
      using inv' eff(4,5) assms by (auto simp: ledger_with_room_def credit_room_def)
  qed
  moreover have "ledger_with_room u n d"
    using assms by (auto intro: ledger_with_room_less)
  ultimately show ?thesis
    unfolding grantCreditsWithRepos_def Let_def CreditTransactionRepo_GetByIdempotencyKey_def
    by (intro wlp_if_found wlp_replay_grant wlp_apply_grant [OF inv]) (use assms fits in simp_all)
qed

lemma untouched_execute_entitlement: "untouched ledger_tables (execute_entitlement c x rule)"
  unfolding execute_entitlement_def fulfillmentAnchorTime_def entitlementFulfillmentAnchor_def
    EntitlementGrantRepo_List_def
  by (intro untouched_rules) (simp_all add: ledger_tables_def)

lemma readonly_fulfillmentAnchorTime [atomic_rules]: "readonly (fulfillmentAnchorTime x)"
  unfolding fulfillmentAnchorTime_def by (intro atomic_rules)

lemma readonly_creditFulfillmentPeriodStart: "readonly (creditFulfillmentPeriodStart x rule)"
  unfolding creditFulfillmentPeriodStart_def by (intro atomic_rules)

lemma readonly_creditFulfillmentPeriodEnd: "readonly (creditFulfillmentPeriodEnd x rule)"
  unfolding creditFulfillmentPeriodEnd_def
  by (intro atomic_rules) (simp split: sum.split add: atomic_rules)

lemma wlp_execute_rule_room:
  assumes "normalizeFulfillmentRule rule0 = Inr rule" "fs_uow s" "0 \<le> n"
    and "ledger_with_room (or_UserID x) (rule_credits rule0 + n) d"
  shows "wlp (execute_rule s x rule) (\<lambda>_. ledger_with_room (or_UserID x) n) d"
proof (cases "fr_Type rule = FulfillmentRuleGrantEntitlement")
  case True
  have "ledger_with_room (or_UserID x) n d"
    by (rule ledger_with_room_less [OF assms(4)]) (simp add: rule_credits_def)
  with True show ?thesis
    by (simp add: execute_rule_def wlp_ledger_frame [OF untouched_execute_entitlement])
next
  case False
  have norm: "fr_CreditsAmount rule = rule_credits rule0" if "0 < fr_CreditsAmount rule"
    using assms(1) False that
    by (auto simp: normalizeFulfillmentRule_def Let_def rule_credits_def split: if_splits)
  have repos: "repos_have_buckets (fs_credit_repos s)"
    using assms(2) by (simp add: repos_have_buckets_def fs_credit_repos_def)
  show ?thesis
    unfolding execute_rule_def if_not_P [OF False] execute_credits_def
    apply (rule wlp_andThen, rule wlp_reject_if)
    apply (rule wlp_andThen, rule wlp_readonly, rule readonly_creditFulfillmentPeriodStart)
    apply (rule wlp_andThen, rule wlp_readonly, rule readonly_creditFulfillmentPeriodEnd)+
    apply (rule wlp_andThen, rule wlp_mono, rule wlp_grant_room [where u = "or_UserID x" and n = n])
    using assms norm repos by (simp_all add: wlp_ret)
qed

lemma wlp_any: "(\<And>x d'. Q x d') \<Longrightarrow> wlp m Q d"
  by (simp add: wlp_def wp_def split: prod.split sum.split)

lemma untouched_ledger_save: "untouched ledger_tables (saveFulfillmentExecution x exists)"
  by (rule untouched_saveFulfillmentExecution) (simp add: ledger_tables_def)

lemma keeps_ledger_frame: "untouched ledger_tables m \<Longrightarrow> keeps (ledger_with_room u n) m"
  unfolding keeps_def using ledger_with_room_same untouchedD by blast

lemma wlp_deliver_rule_room:
  assumes "normalizeFulfillmentRule rule0 = Inr rule" "fs_uow s" "0 \<le> n"
    and "ledger_with_room (or_UserID x) (rule_credits rule0 + n) d"
  shows "wlp (deliver_rule s x rule k existing)
    (\<lambda>(e, f) d'. f = None \<longrightarrow> ledger_with_room (or_UserID x) n d') d"
  unfolding deliver_rule_def Let_def FulfillmentExecutionRepo_GetByIdempotencyKey_def
  apply (rule wlp_andThen, rule wlp_reject_if)
  apply (rule wlp_andThen, rule wlp_readonly, rule readonly_newExecutionFromOrderRule)
  apply (rule wlp_andThen, rule wlp_attempt [where P = "\<lambda>_. True"], simp add: keeps_def, rule TrueI)
   apply (rule wlp_mono, rule wlp_execute_rule_room [OF assms], simp only: sum.case)
   apply (rule wlp_andThen, rule wlp_attempt [OF keeps_ledger_frame [OF untouched_ledger_save]], assumption)
    apply (rule wlp_mono, rule wlp_ledger_frame [OF untouched_ledger_save], assumption)
    apply (simp add: wlp_ret)
   apply (simp only: sum.case, rule wlp_andThen, rule wlp_attempt_find)
    apply (simp add: wlp_ret wlp_fail)
   apply (simp add: wlp_fail)
  apply (simp only: sum.case, rule wlp_andThen, rule wlp_any, rule wlp_ret, simp)
  done

lemma wlp_apply_rules_room:
  assumes "fs_uow s" "ledger_with_room (or_UserID x) (rules_credits rules) d"
  shows "wlp (apply_rules s x rules acc) (\<lambda>(es, f) d'. f = None \<longrightarrow> credit_inv d') d"
  using assms(2)
proof (induction rules arbitrary: acc d)
  case Nil
  then show ?case by (auto intro: wlp_ret simp: ledger_with_room_def)
next
  case (Cons r rules)
  have nonneg: "0 \<le> rules_credits rules" "0 \<le> rule_credits r"
    unfolding rules_credits_def by (rule sum_list_nonneg) (auto simp: rule_credits_def)
  have room: "ledger_with_room (or_UserID x) (rule_credits r + rules_credits rules) d"
    using Cons.prems by (simp add: rules_credits_def)
  have "wlp (applyRule s x r) (\<lambda>(e, f) d'. f = None
      \<longrightarrow> ledger_with_room (or_UserID x) (rules_credits rules) d') d"
    unfolding applyRule_def Let_def FulfillmentExecutionRepo_GetByIdempotencyKey_def
    apply (rule wlp_andThen, rule wlp_of_sum, rule wlp_if_found, rule wlp_if)
    subgoal by (rule wlp_ret) (use nonneg ledger_with_room_less [OF room] in simp)
    by (rule wlp_deliver_rule_room; use assms(1) nonneg room in simp)+
  then show ?case
    unfolding apply_rules.simps
    apply (intro wlp_andThen wlp_attempt [where P = "\<lambda>_. True"])
       apply (simp_all add: keeps_def wlp_ret)
    apply (rule wlp_mono, assumption)
    subgoal for ef d' by (cases ef; cases "snd ef") (auto intro: Cons.IH wlp_ret)
    done
qed

lemma wlp_fulfillOrderWithRepos_room:
  assumes "fs_uow s" "credit_inv d"
    and "\<And>x rules. stored_order x0 d x \<Longrightarrow> fs_catalog s (or_SKUCode x) = Inr rules
      \<Longrightarrow> credit_room (or_UserID x) (rules_credits rules) d"
  shows "wlp (fulfillOrderWithRepos s x0) (\<lambda>(res, f) d'. f = None \<longrightarrow> credit_inv d') d"
  unfolding fulfillOrderWithRepos_def ensureFulfillmentUser_def UserRepo_GetByID_def
    FulfillmentExecutionRepo_List_def
  apply (rule wlp_andThen, rule wlp_stored_order, rule wlp_andThen, rule wlp_reject_if, rule wlp_if)
  subgoal by (intro wlp_intros) (simp add: assms(2))
  apply (rule wlp_andThen, rule wlp_reject_if)
  apply (rule wlp_andThen, rule wlp_andThen, rule wlp_reject_if, rule wlp_andThen, rule wlp_not_found_as,
      rule wlp_store_find, rule wlp_ret)
  apply (rule wlp_andThen, rule wlp_of_sum)
  apply (rule wlp_andThen, rule wlp_mono, rule wlp_apply_rules_room [OF assms(1)])
  subgoal premises p using p assms(2,3) by (simp add: ledger_with_room_def)
  subgoal premises p for x u rules ef d'
  proof (cases ef)
    case (Pair es f)
    have same: "same_ledger d1 (d1\<lparr>tb_orders := t\<rparr>)" for d1 t by (simp add: same_ledger_def)
    show ?thesis
    proof (cases f)
      case None
      then have "credit_inv d'" using p Pair by simp
      then show ?thesis unfolding Pair None prod.case option.case
        by (intro wlp_mono [OF wlp_finish_order]) (auto intro: same_ledger_inv [OF same])
    next
      case (Some e)
      then show ?thesis using Pair by (simp add: wlp_ret)
    qed
  qed
  done

section \<open>Properties\<close>

text \<open>C15: Whatever the outcome of a fulfillment, success, delivery failure or storage failure, with
  or without a unit of work, every execution that was applied before is still stored,
  unchanged, afterwards.\<close>

theorem FulfillOrder_applied_survive:
  assumes "table_ok execution_clash (tb_executions (db w))"
    and "FulfillOrder s x w = (r, w')"
    and "e \<in> set (tb_executions (db w))" "fe_Status e = ExecutionApplied"
  shows "e \<in> set (tb_executions (db w')) \<and> table_ok execution_clash (tb_executions (db w'))"
proof -
  have "holds_applied {e} (db w)" using assms by (simp add: holds_applied_def)
  then have "holds_applied {e} (db w')" using keepsD [OF keeps_FulfillOrder, of "{e}" w s x] assms(2) by simp
  then show ?thesis by (simp add: holds_applied_def)
qed

text \<open>C16: A fulfillment that succeeds either found the order fulfilled already and changed nothing,
  or found it paid, for an existing user and a SKU of the catalog: in that case an applied
  execution is stored for every rule of the SKU, and the order is stored as fulfilled at a recorded
  time, with no other field changed.\<close>

theorem FulfillOrder_effect:
  assumes "table_ok execution_clash (tb_executions (db w))"
    and "FulfillOrder s x w = (Inr res, w')"
  shows "fulfill_outcome s x (db w) res (db w')"
  using wlpD [OF wlp_FulfillOrder [OF assms(1)] assms(2)] .

text \<open>Fulfilling an order twice delivers once: after a fulfillment that succeeded, a second call
  for the same order number, from any later data with the same orders, changes no data and
  returns, unless the storage fails, the order as fulfilled already.\<close>

theorem FulfillOrder_again:
  assumes "table_ok execution_clash (tb_executions (db w))" "table_ok order_clash (tb_orders (db w))"
    and "FulfillOrder s x w = (Inr res, w')" "or_OutTradeNo x \<noteq> []"
    and "tb_orders (db w2) = tb_orders (db w')" "or_OutTradeNo x2 = or_OutTradeNo x"
    and "FulfillOrder s2 x2 w2 = (r2, w3)"
  shows "db w3 = db w2 \<and> (\<forall>res2. r2 = Inr res2 \<longrightarrow> fu_AlreadyFulfilled res2 \<and> fu_Order res2 = fu_Order res)"
proof -
  have stored: "find_row or_OutTradeNo (or_OutTradeNo x) (tb_orders (db w')) = Some (fu_Order res)
      \<and> or_Status (fu_Order res) = OrderStatusFulfilled"
    by (rule stored_after_fulfillment [OF assms(2) _ assms(4)], rule wlpD [OF wlp_FulfillOrder [OF assms(1)] assms(3)])
  have "wp (FulfillOrder s2 x2) (\<lambda>res2 w'. db w' = db w2 \<and> fu_Order res2 = fu_Order res \<and> fu_AlreadyFulfilled res2)
           (\<lambda>_ w'. db w' = db w2) w2"
    by (rule readonly_when_fulfilled) (use stored assms in auto)
  with assms(7) show ?thesis by (cases r2) (auto simp: wp_def)
qed

text \<open>In a unit of work, a fulfillment that fails leaves the stored data as it was, but for
  executions recorded as failed: no grant, no credits, no order change survives.\<close>

theorem FulfillOrder_failure:
  assumes "fs_uow s" "FulfillOrder s x w = (Inl e, w')"
  shows "failed_only (db w) (db w')"
  using wp_run_error [OF FulfillOrder_runs [OF assms(1)] assms(2)] .

text \<open>C17: A fulfillment in a unit of work keeps the credit ledger consistent, whether it succeeds or
  fails, provided the user's account has room for the credits of all the order's rules.\<close>

theorem FulfillOrder_keeps_ledger:
  assumes "fs_uow s" "credit_inv (db w)"
    and "\<And>y rules. stored_order x (db w) y \<Longrightarrow> fs_catalog s (or_SKUCode y) = Inr rules
      \<Longrightarrow> credit_room (or_UserID y) (rules_credits rules) (db w)"
    and "FulfillOrder s x w = (r, w')"
  shows "credit_inv (db w')"
proof (cases r)
  case (Inl e)
  then have "failed_only (db w) (db w')"
    using wp_run_error [OF FulfillOrder_runs [OF assms(1)]] assms(4) by blast
  then have "same_ledger (db w) (db w')"
    by (rule failed_only_ledger)
  then show ?thesis using assms(2) by (rule same_ledger_inv)
next
  case (Inr res)
  then show ?thesis
    using wp_run [OF FulfillOrder_runs [OF assms(1)]] assms(4)
      wlp_fulfillOrderWithRepos_room [OF assms(1,2,3)] by blast
qed

section \<open>Witnesses\<close>

text \<open>A paid order whose SKU grants an entitlement for a period and 60 credits.\<close>

definition sample_order :: "string \<Rightarrow> Order" where
  "sample_order status = \<lparr>or_ID = 7, or_OutTradeNo = ''T1'', or_LicenseKey = [], or_UserID = ''usr_1'',
     or_SKUCode = ''pro'', or_Amount = 990, or_Currency = ''usd'', or_Status = status, or_Provider = ''creem'',
     or_TradeNo = [], or_ProviderCheckoutID = [], or_ProviderCustomerID = [], or_CheckoutURL = [],
     or_IdempotencyKey = None, or_PaidAt = (if status = OrderStatusPaid then Some 63800000000000000000 else None),
     or_FulfilledAt = None, or_Metadata = [], or_OrderType = OrderTypeCheckout\<rparr>"

definition orders_db :: "string \<Rightarrow> database" where
  "orders_db status = users_db\<lparr>tb_orders := [sample_order status]\<rparr>"

definition sample_rules :: "string \<Rightarrow> FulfillmentRule list" where
  "sample_rules duration =
     [\<lparr>fr_ID = ''r1'', fr_SKUCode = ''pro'', fr_Type = FulfillmentRuleGrantEntitlement,
       fr_EntitlementID = EntitlementEditorialStudio, fr_CreditsAmount = 0, fr_CreditsBucketType = [],
       fr_Duration = duration\<rparr>,
      \<lparr>fr_ID = ''r2'', fr_SKUCode = ''pro'', fr_Type = FulfillmentRuleGrantCredits,
       fr_EntitlementID = [], fr_CreditsAmount = 60, fr_CreditsBucketType = [], fr_Duration = []\<rparr>]"

definition sample_fulfillment :: "string \<Rightarrow> fulfillment_service" where
  "sample_fulfillment duration = \<lparr>fs_wired = True, fs_uow = True, fs_buckets = True,
     fs_catalog = Static_RulesForSKU (sample_rules duration), fs_entitlements = None\<rparr>"

definition w_paid :: "database world" where "w_paid = sample_world 0 (orders_db OrderStatusPaid)"

definition w_fulfilled :: "database world" where
  "w_fulfilled = snd (FulfillOrder (sample_fulfillment ''30d'') (sample_order OrderStatusPaid) w_paid)"

lemma paid_tables_ok: "table_ok execution_clash (tb_executions (db w_paid))" "table_ok order_clash (tb_orders (db w_paid))"
  by code_simp+

lemma fulfilled_run: "FulfillOrder (sample_fulfillment ''30d'') (sample_order OrderStatusPaid) w_paid
  = (Inr (ok_result (FulfillOrder (sample_fulfillment ''30d'') (sample_order OrderStatusPaid) w_paid)), w_fulfilled)"
  unfolding w_fulfilled_def by (rule run_ok) code_simp

lemma FulfillOrder_effect_witness:
  "length (tb_executions (db w_fulfilled)) = 2 \<and> length (tb_grants (db w_fulfilled)) = 1
   \<and> fulfill_outcome (sample_fulfillment ''30d'') (sample_order OrderStatusPaid) (db w_paid)
       (ok_result (FulfillOrder (sample_fulfillment ''30d'') (sample_order OrderStatusPaid) w_paid)) (db w_fulfilled)"
proof (intro conjI)
  show "length (tb_executions (db w_fulfilled)) = 2" "length (tb_grants (db w_fulfilled)) = 1" by code_simp+
qed (rule FulfillOrder_effect [OF paid_tables_ok(1) fulfilled_run])

lemma FulfillOrder_again_witness:
  "db (snd (FulfillOrder (sample_fulfillment ''bad'') (sample_order OrderStatusPending) w_fulfilled)) = db w_fulfilled"
proof -
  have key: "or_OutTradeNo (sample_order OrderStatusPaid) \<noteq> []"
    "or_OutTradeNo (sample_order OrderStatusPending) = or_OutTradeNo (sample_order OrderStatusPaid)"
    by (simp_all add: sample_order_def)
  show ?thesis
    by (rule FulfillOrder_again [THEN conjunct1, OF paid_tables_ok fulfilled_run key(1) refl key(2) prod.collapse [symmetric]])
qed

lemma FulfillOrder_applied_survive_witness:
  "\<exists>e. e \<in> set (tb_executions (db (snd (FulfillOrder (sample_fulfillment ''bad'') (sample_order OrderStatusPaid) w_fulfilled))))
     \<and> fe_RuleID e = ''r2'' \<and> fe_Status e = ExecutionApplied"
proof -
  have ok: "table_ok execution_clash (tb_executions (db w_fulfilled))" by code_simp
  have "\<exists>e\<in>set (tb_executions (db w_fulfilled)). fe_RuleID e = ''r2'' \<and> fe_Status e = ExecutionApplied"
    by code_simp
  then show ?thesis using FulfillOrder_applied_survive [OF ok prod.collapse [symmetric]] by blast
qed

text \<open>A rule with a malformed duration: the delivery fails after the first rule's execution was written.\<close>

lemma FulfillOrder_failure_witness:
  "failed_only (db w_paid) (db (snd (FulfillOrder (sample_fulfillment ''soon'') (sample_order OrderStatusPaid) w_paid)))
   \<and> List.map fe_Status (tb_executions (db (snd (FulfillOrder (sample_fulfillment ''soon'')
       (sample_order OrderStatusPaid) w_paid)))) = [ExecutionFailed]"
proof
  let ?r = "FulfillOrder (sample_fulfillment ''soon'') (sample_order OrderStatusPaid) w_paid"
  have uow: "fs_uow (sample_fulfillment ''soon'')" by (simp add: sample_fulfillment_def)
  have "isl (fst ?r)" by code_simp
  then have "?r = (Inl (projl (fst ?r)), snd ?r)" by (metis prod.collapse sum.collapse(1))
  then show "failed_only (db w_paid) (db (snd ?r))" by (rule FulfillOrder_failure [OF uow])
qed code_simp

lemma FulfillOrder_keeps_ledger_witness:
  "credit_inv (db w_fulfilled) \<and> sum_list (List.map ca_Balance (tb_accounts (db w_fulfilled))) = 60"
proof
  have inv: "credit_inv (db w_paid)"
    by (rule same_ledger_inv [OF _ empty_inv])
      (simp add: same_ledger_def w_paid_def sample_world_def orders_db_def users_db_def)
  have accounts: "tb_accounts (db w_paid) = []"
    by (simp add: w_paid_def sample_world_def orders_db_def users_db_def empty_database_def)
  have "rules_credits rules \<le> 60"
    if "fs_catalog (sample_fulfillment ''30d'') sku = Inr rules" for sku rules
  proof -
    have "rules = List.filter (\<lambda>r. fr_SKUCode r = trim_space sku) (sample_rules ''30d'')"
      using that by (auto simp: sample_fulfillment_def Static_RulesForSKU_def Let_def split: if_splits)
    moreover have "List.map rule_credits (sample_rules ''30d'') = [0, 60]" by code_simp
    ultimately show ?thesis by (auto simp: rules_credits_def sample_rules_def)
  qed
  then have "credit_room u (rules_credits rules) (db w_paid)"
    if "fs_catalog (sample_fulfillment ''30d'') sku = Inr rules" for u sku rules
    using that accounts by (fastforce simp: credit_room_def max_int64_def)
  moreover have "fs_uow (sample_fulfillment ''30d'')" by (simp add: sample_fulfillment_def)
  ultimately show "credit_inv (db w_fulfilled)"
    by (intro FulfillOrder_keeps_ledger [OF _ inv _ fulfilled_run]) blast+
qed code_simp

end
