(* ===== verification/Payment_Event_Theorems.thy ===== *)
theory Payment_Event_Theorems
  imports Payment_Events Fulfillment_Theorems
begin

text \<open>
  The payment event inbox as a state machine.  \<open>event_step\<close> is what may happen to one event,
  \<open>inbox_step\<close> to the inbox; the service's calls refine sequences of these steps, whatever the
  processor does to the other tables, and the invariants are proved on the steps by rule
  induction.  The locale \<open>event_processor\<close> is the contract of a processor: it leaves the inbox
  alone.
\<close>

section \<open>The state machine\<close>

text \<open>The event may be handed to the processor; \<open>force\<close> also reopens an event in review.\<close>

definition open_event :: "bool \<Rightarrow> PaymentEvent \<Rightarrow> bool" where
  "open_event force e \<longleftrightarrow> \<not> isPaymentEventTerminal (pe_Status e)
     \<or> force \<and> isPaymentEventReviewStatus (pe_Status e)"

inductive event_step :: "bool \<Rightarrow> PaymentEvent \<Rightarrow> PaymentEvent \<Rightarrow> bool" for force where
  start: "open_event force e \<Longrightarrow> isProcessablePaymentEventType (pe_EventType e) \<Longrightarrow>
    event_step force e (e\<lparr>pe_Status := EventStatusProcessing, pe_Attempts := wrap64 (pe_Attempts e + 1),
      pe_UpdatedAt := now\<rparr>)"
| ignore: "open_event force e \<Longrightarrow> \<not> isProcessablePaymentEventType (pe_EventType e) \<Longrightarrow>
    event_step force e (e\<lparr>pe_Status := EventStatusIgnored, pe_ProcessedAt := Some now, pe_UpdatedAt := now\<rparr>)"
| wait: "open_event force e \<Longrightarrow> isProcessablePaymentEventType (pe_EventType e) \<Longrightarrow>
    event_step force e (e\<lparr>pe_Status := EventStatusReceived, pe_UpdatedAt := now\<rparr>)"
| processed: "pe_Status e = EventStatusProcessing \<Longrightarrow>
    event_step force e (e\<lparr>pe_Status := EventStatusProcessed, pe_LastError := [], pe_ProcessedAt := Some now,
      pe_UpdatedAt := now\<rparr>)"
| review: "pe_Status e = EventStatusProcessing \<Longrightarrow> isPaymentEventReviewStatus status \<Longrightarrow>
    event_step force e (e\<lparr>pe_Status := status, pe_LastError := m, pe_UpdatedAt := now\<rparr>)"
| failed: "pe_Status e = EventStatusProcessing \<Longrightarrow>
    event_step force e (e\<lparr>pe_Status := EventStatusFailed, pe_LastError := m, pe_UpdatedAt := now\<rparr>)"

text \<open>What a delivery leaves: a verified event that is not in the inbox yet.\<close>

definition received_event :: "PaymentEvent \<Rightarrow> bool" where
  "received_event e \<longleftrightarrow> pe_Status e = EventStatusReceived \<and> pe_SignatureVerified e
     \<and> pe_ProviderEventID e \<noteq> [] \<and> pe_EventType e \<noteq> [] \<and> pe_Attempts e = 0 \<and> pe_ProcessedAt e = None"

inductive inbox_step :: "bool \<Rightarrow> PaymentEvent list \<Rightarrow> PaymentEvent list \<Rightarrow> bool" for force where
  receive: "received_event e \<Longrightarrow> \<forall>x\<in>set t. \<not> event_clash x e \<Longrightarrow> inbox_step force t (t @ [e])"
| advance: "e \<in> set t \<Longrightarrow> event_step force e e' \<Longrightarrow> inbox_step force t (replace_row pe_ID e' t)"

text \<open>A step keeps what the provider said.\<close>

definition same_delivery :: "PaymentEvent \<Rightarrow> PaymentEvent \<Rightarrow> bool" where
  "same_delivery e e' \<longleftrightarrow> pe_ID e' = pe_ID e \<and> pe_Provider e' = pe_Provider e
     \<and> pe_ProviderEventID e' = pe_ProviderEventID e \<and> pe_EventType e' = pe_EventType e
     \<and> pe_OutTradeNo e' = pe_OutTradeNo e \<and> pe_ProviderTradeNo e' = pe_ProviderTradeNo e
     \<and> pe_Amount e' = pe_Amount e \<and> pe_Currency e' = pe_Currency e
     \<and> pe_SignatureVerified e' = pe_SignatureVerified e \<and> pe_RawPayload e' = pe_RawPayload e
     \<and> pe_PayloadHash e' = pe_PayloadHash e"

lemma event_step_same: "event_step force e e' \<Longrightarrow> same_delivery e e'"
  by (erule event_step.cases) (simp_all add: same_delivery_def)

lemma event_step_clash: "event_step force e e' \<Longrightarrow> event_clash x e' = event_clash x e"
  by (drule event_step_same) (simp add: event_clash_def same_delivery_def)

text \<open>What holds of every stored event.\<close>

definition event_ok :: "PaymentEvent \<Rightarrow> bool" where
  "event_ok e \<longleftrightarrow> pe_SignatureVerified e \<and> pe_ProviderEventID e \<noteq> [] \<and> pe_EventType e \<noteq> []
     \<and> (pe_ProcessedAt e \<noteq> None \<longleftrightarrow> pe_Status e \<in> {EventStatusProcessed, EventStatusIgnored})
     \<and> (pe_Status e \<in> {EventStatusProcessing, EventStatusProcessed, EventStatusFailed,
          EventStatusReviewRequired, EventStatusPolicyRejected} \<longrightarrow> isProcessablePaymentEventType (pe_EventType e))
     \<and> (pe_Status e = EventStatusProcessed \<longrightarrow> pe_LastError e = [])"

lemma event_step_ok:
  assumes "event_step force e e'" "event_ok e"
  shows "event_ok e'"
  using assms
  by (cases rule: event_step.cases)
    (auto simp: event_ok_def open_event_def isPaymentEventTerminal_def isPaymentEventReviewStatus_def)

lemma received_event_ok: "received_event e \<Longrightarrow> event_ok e"
  by (simp add: received_event_def event_ok_def)

lemma inbox_step_inv:
  assumes "inbox_step force t t'" "table_ok event_clash t" "\<forall>e\<in>set t. event_ok e"
  shows "table_ok event_clash t' \<and> (\<forall>e\<in>set t'. event_ok e)"
  using assms(1)
proof cases
  case (receive e)
  then show ?thesis
    using assms(2,3) received_event_ok by (auto simp: table_ok_def sorted_wrt_append)
next
  case (advance e e')
  have ok: "event_ok e'" using advance event_step_ok assms(3) by blast
  have "\<not> event_clash x e'" if "x \<in> set t" "pe_ID x \<noteq> pe_ID e'" for x
    using that advance events.same_row [OF assms(2) that(1) advance(2)]
      event_step_clash [OF advance(3)] event_step_same [OF advance(3)]
    by (auto simp: same_delivery_def)
  then have "table_ok event_clash (replace_row pe_ID e' t)"
    by (intro events.replace_ok [OF assms(2)]) blast
  then show ?thesis using ok assms(3) advance(1) by (auto elim: replace_rowE)
qed

text \<open>An event that was processed or ignored is final.\<close>

lemma no_step_when_final:
  assumes "event_step force e e'"
  shows "pe_Status e \<notin> {EventStatusProcessed, EventStatusIgnored}"
  using assms by (cases rule: event_step.cases)
    (auto simp: open_event_def isPaymentEventTerminal_def isPaymentEventReviewStatus_def)

lemma inbox_step_final:
  assumes "inbox_step force t t'" "table_ok event_clash t"
    and "e \<in> set t" "pe_Status e \<in> {EventStatusProcessed, EventStatusIgnored}"
  shows "e \<in> set t'"
  using assms(1)
proof cases
  case (receive x)
  then show ?thesis using assms(3) by simp
next
  case (advance x x')
  have "pe_ID e \<noteq> pe_ID x'"
  proof
    assume "pe_ID e = pe_ID x'"
    then have "e = x"
      using events.same_row [OF assms(2,3) advance(2)] event_step_same [OF advance(3)]
      by (simp add: same_delivery_def event_clash_def)
    with assms(4) no_step_when_final [OF advance(3)] show False by simp
  qed
  with assms(3) advance(1) show ?thesis by (simp add: replace_row_other)
qed

section \<open>The service refines the state machine\<close>

definition inbox_after :: "bool \<Rightarrow> PaymentEvent list \<Rightarrow> database \<Rightarrow> bool" where
  "inbox_after force t d \<longleftrightarrow> table_ok event_clash (tb_events d) \<and> (inbox_step force)\<^sup>*\<^sup>* t (tb_events d)"

lemma inbox_after_start: "table_ok event_clash (tb_events d) \<Longrightarrow> inbox_after force (tb_events d) d"
  by (simp add: inbox_after_def)

lemma inbox_after_saved:
  assumes "inbox_after force t d" "e \<in> set (tb_events d)" "event_step force e e'"
    and "save_row pe_ID event_clash e' (tb_events d) = Some t'"
  shows "inbox_after force t (d\<lparr>tb_events := t'\<rparr>) \<and> e' \<in> set t'"
proof -
  have same: "pe_ID e' = pe_ID e" using event_step_same [OF assms(3)] by (simp add: same_delivery_def)
  then have "find_row pe_ID (pe_ID e') (tb_events d) \<noteq> None" using assms(2) by (auto simp: find_row_absent)
  then have t': "t' = replace_row pe_ID e' (tb_events d)" using assms(4) events.save_row_Some by blast
  have "inbox_step force (tb_events d) t'" unfolding t' using assms(2,3) by (rule inbox_step.advance)
  moreover have "table_ok event_clash t'" using assms(1,4) events.save_ok by (auto simp: inbox_after_def)
  ultimately show ?thesis
    using assms(1) save_row_mem [OF assms(4)]
    by (auto simp: inbox_after_def intro: rtranclp.rtrancl_into_rtrancl)
qed

lemma wp_update_event:
  assumes "inbox_after force t (db w)" "e \<in> set (tb_events (db w))" "event_step force e e'"
    and "\<And>w'. inbox_after force t (db w') \<Longrightarrow> e' \<in> set (tb_events (db w')) \<Longrightarrow> Q () w'"
    and "\<And>err w'. inbox_after force t (db w') \<Longrightarrow> E err w'"
  shows "wp (PaymentEventRepo_Update e') Q E w"
  unfolding PaymentEventRepo_Update_def wp_store_save
  using assms(1,4,5) inbox_after_saved [OF assms(1,2,3)]
  by (auto split: option.split)

text \<open>A step that is saved and answered, whatever the storage does.\<close>

lemma wp_save_event:
  assumes "inbox_after force t (db w)" "e \<in> set (tb_events (db w))" "event_step force e e'"
  shows "wp (save_event e' p note f) (\<lambda>_ w'. inbox_after force t (db w')) (\<lambda>_ w'. inbox_after force t (db w')) w"
  unfolding save_event_def wp_andThen
  by (rule wp_update_event [OF assms]) (simp_all add: wp_ret)

lemma wp_record_outcome:
  assumes "inbox_after force t (db w)" "e \<in> set (tb_events (db w))" "pe_Status e = EventStatusProcessing"
  shows "wp (record_outcome e r) (\<lambda>_ w'. inbox_after force t (db w')) (\<lambda>_ w'. inbox_after force t (db w')) w"
proof -
  have review: "isPaymentEventReviewStatus s" if "paymentEventPolicyStatus x = Some s" for x s
    using that by (simp add: paymentEventPolicyStatus_def split: option.splits if_splits)
  show ?thesis
    unfolding record_outcome_def
    by (cases r)
      (use assms in \<open>auto simp: wp_andThen wp_time_now split: option.split
        intro!: wp_save_event [of force t _ e] event_step.intros review\<close>)
qed

lemma inbox_after_same: "inbox_after force t d \<Longrightarrow> tb_events d' = tb_events d \<Longrightarrow> inbox_after force t d'"
  by (simp add: inbox_after_def)

lemma wp_attempt_untouched:
  assumes "untouched f m" "\<And>r w'. f (db w') = f (db w) \<Longrightarrow> Q r w'"
  shows "wp (attempt m) Q E w"
  using untouchedD [OF assms(1), of w] assms(2)
  by (auto simp: wp_def attempt_def split: prod.split sum.split)

lemma wp_eventFromVerified:
  "wp (eventFromVerified provider raw verified)
     (\<lambda>e w'. db w' = db w \<and> received_event e \<and> pe_Provider e = provider
        \<and> (\<exists>v. verified = Some v \<and> pe_ProviderEventID e = trim_space (ve_ProviderEventID v)))
     (\<lambda>_ w'. db w' = db w) w"
  unfolding eventFromVerified_def Let_def payloadHash_def
  by (cases verified) (auto simp: wp_simps wp_def [of "\<lambda>w. (Inr (f w), w)" for f] received_event_def split: option.split)

lemma inbox_after_received:
  assumes "inbox_after force t d" "received_event e" "insert_row event_clash e (tb_events d) = Some t'"
  shows "inbox_after force t (d\<lparr>tb_events := t'\<rparr>) \<and> e \<in> set t'"
proof -
  have t': "t' = tb_events d @ [e]" "\<forall>x\<in>set (tb_events d). \<not> event_clash x e"
    using assms(3) by (simp_all add: events.insert_row_Some)
  have "inbox_step force (tb_events d) t'" unfolding t'(1) using assms(2) t'(2) by (rule inbox_step.receive)
  moreover have "table_ok event_clash t'" using assms(1,3) events.insert_ok by (auto simp: inbox_after_def)
  ultimately show ?thesis
    using assms(1) t'(1) by (auto simp: inbox_after_def intro: rtranclp.rtrancl_into_rtrancl)
qed

section \<open>The contract of a processor\<close>

locale event_processor =
  fixes process :: "PaymentEvent \<Rightarrow> unit service"
  assumes leaves_inbox: "untouched tb_events (process e)"
begin

lemma wp_processEvent:
  assumes "inbox_after force t (db w)" "e \<in> set (tb_events (db w))" "p \<in> {None, Some process}"
  shows "wp (processEvent p e force) (\<lambda>_ w'. inbox_after force t (db w')) (\<lambda>_ w'. inbox_after force t (db w')) w"
proof (cases "isPaymentEventTerminal (pe_Status e) \<and> \<not> (force \<and> isPaymentEventReviewStatus (pe_Status e))")
  case True
  then show ?thesis using assms(1) by (simp add: processEvent_def wp_ret)
next
  case False
  then have opened: "open_event force e" by (auto simp: open_event_def)
  show ?thesis
  proof (cases "isProcessablePaymentEventType (pe_EventType e)")
    case proc: True
    show ?thesis
    proof (cases p)
      case None
      then show ?thesis
        unfolding processEvent_def if_not_P [OF False]
        using proc assms(1,2) opened
        by (auto simp: wp_simps intro!: wp_save_event event_step.wait)
    next
      case (Some q)
      then have q: "q = process" using assms(3) by simp
      have run: "wp (attempt (process e')) (\<lambda>r w'. wp (record_outcome e' r)
          (\<lambda>_ w'. inbox_after force t (db w')) (\<lambda>_ w'. inbox_after force t (db w')) w') E w1"
        if "inbox_after force t (db w1)" "e' \<in> set (tb_events (db w1))" "pe_Status e' = EventStatusProcessing"
        for e' w1 E
        by (rule wp_attempt_untouched [OF leaves_inbox], rule wp_record_outcome)
          (use that inbox_after_same in auto)
      show ?thesis
        unfolding processEvent_def if_not_P [OF False] Some q Let_def
        using proc assms(1,2) opened
        by (auto simp: wp_andThen wp_time_now intro!: wp_update_event [of force t _ e] event_step.start run)
    qed
  next
    case other: False
    then show ?thesis
      unfolding processEvent_def if_not_P [OF False]
      using assms(1,2) opened
      by (auto simp: wp_simps intro!: wp_save_event event_step.ignore)
  qed
qed

lemma wp_redeliver:
  assumes "inbox_after False t (db w)" "e \<in> set (tb_events (db w))" "p \<in> {None, Some process}"
  shows "wp (redeliver p e) (\<lambda>_ w'. inbox_after False t (db w')) (\<lambda>_ w'. inbox_after False t (db w')) w"
  unfolding redeliver_def
  using assms(1) wp_processEvent [OF assms]
  by (auto simp: wp_simps elim!: wp_mono)

lemma wp_ReceiveWebhook:
  assumes "table_ok event_clash (tb_events (db w))" "es_processor s \<in> {None, Some process}"
  shows "wp (ReceiveWebhook s input) (\<lambda>_ w'. inbox_after False (tb_events (db w)) (db w'))
    (\<lambda>_ w'. inbox_after False (tb_events (db w)) (db w')) w"
proof -
  let ?t = "tb_events (db w)"
  have start: "inbox_after False ?t (db w)" using assms(1) by (rule inbox_after_start)
  have found: "wp (redeliver (es_processor s) x) (\<lambda>_ w'. inbox_after False ?t (db w'))
      (\<lambda>_ w'. inbox_after False ?t (db w')) w1"
    if "find_row (\<lambda>e. (pe_Provider e, pe_ProviderEventID e)) k ?t = Some x" "db w1 = db w" for x w1 k
    using that start find_row_found [OF that(1)] by (intro wp_redeliver assms(2)) simp_all
  have inserted: "wp (processEvent (es_processor s) e False) (\<lambda>_ w'. inbox_after False ?t (db w'))
      (\<lambda>_ w'. inbox_after False ?t (db w')) w1"
    if "received_event e" "insert_row event_clash e ?t = Some t'" "db w1 = (db w)\<lparr>tb_events := t'\<rparr>"
    for e t' and w1 :: "database world"
    using inbox_after_received [OF start that(1,2)] that(3) by (intro wp_processEvent assms(2)) simp_all
  have intake: "wp (if_found (store_find tb_events (\<lambda>e. (pe_Provider e, pe_ProviderEventID e)) k)
      (redeliver (es_processor s))
      (andThen (attempt (store_create tb_events tb_events_update event_clash e)) (\<lambda>r.
         case r of
           Inr _ \<Rightarrow> processEvent (es_processor s) e False
         | Inl createErr \<Rightarrow>
             andThen (attempt (store_find tb_events (\<lambda>e. (pe_Provider e, pe_ProviderEventID e)) k))
               (\<lambda>r2. case r2 of
                  Inr existing \<Rightarrow> redeliver (es_processor s) existing
                | Inl _ \<Rightarrow> fail createErr))))
      (\<lambda>_ w'. inbox_after False ?t (db w')) (\<lambda>_ w'. inbox_after False ?t (db w')) w1"
    if "received_event e" "db w1 = db w" for e w1 k
    using that start
    by (auto simp: wp_simps split: option.split) ((erule found, simp) | (erule inserted, assumption, simp))+
  show ?thesis
    unfolding ReceiveWebhook_def Let_def PaymentEventRepo_GetByProviderEventID_def PaymentEventRepo_Create_def
    using start
    by (auto simp: wp_andThen wp_reject_if wp_fail of_sum_def wp_ret split: option.split sum.split
      intro!: wp_mono [OF wp_eventFromVerified] intake)
qed

lemma wp_ProcessStoredEvent:
  assumes "table_ok event_clash (tb_events (db w))" "es_processor s \<in> {None, Some process}"
  shows "wp (ProcessStoredEvent s i) (\<lambda>_ w'. inbox_after True (tb_events (db w)) (db w'))
    (\<lambda>_ w'. inbox_after True (tb_events (db w)) (db w')) w"
  unfolding ProcessStoredEvent_def GetEvent_def PaymentEventRepo_GetByID_def
  using inbox_after_start [OF assms(1), of True]
  by (auto simp: wp_simps split: option.split dest!: find_row_found intro!: wp_processEvent assms(2))

end

end
