(* ===== verification/Payment_Adjustment.thy ===== *)
theory Payment_Adjustment
  imports Payment_Events
begin

text \<open>
  Refunds, disputes and cancellations: service/payment_adjustment.go, its policy
  (service/payment_adjustment_policy.go), the risk flags (service/payment_risk.go) and their
  repository.  The policy turns an event into a decision; the service revokes the grants and
  claws back the unused credits that the order's fulfillment delivered, or reports that the
  event needs a review.
\<close>

section \<open>Risk flags\<close>

definition PaymentRiskFlagRepo_Create :: "PaymentRiskFlag \<Rightarrow> unit service" where
  "PaymentRiskFlagRepo_Create = store_create tb_risk_flags tb_risk_flags_update risk_flag_clash"

definition PaymentRiskFlagRepo_GetByID :: "string \<Rightarrow> PaymentRiskFlag service" where
  "PaymentRiskFlagRepo_GetByID = store_find tb_risk_flags rf_ID"

definition PaymentRiskFlagRepo_GetByProviderEventID :: "string \<Rightarrow> string \<Rightarrow> PaymentRiskFlag service" where
  "PaymentRiskFlagRepo_GetByProviderEventID provider eventID =
     store_find tb_risk_flags (\<lambda>f. (rf_Provider f, rf_ProviderEventID f)) (provider, eventID)"

record PaymentRiskFlagQuery =
  kq_UserID :: string
  kq_OutTradeNo :: string
  kq_Provider :: string
  kq_Reason :: string
  kq_Severity :: string
  kq_Status :: string
  kq_Limit :: int
  kq_Offset :: int

definition PaymentRiskFlagRepo_List :: "PaymentRiskFlagQuery \<Rightarrow> PaymentRiskFlag list service" where
  "PaymentRiskFlagRepo_List q =
     db_read (\<lambda>d. page (kq_Limit q) (kq_Offset q) (sort_key (\<lambda>f. - rf_CreatedAt f)
       (List.filter (\<lambda>f. column_matches (kq_UserID q) (rf_UserID f)
          \<and> column_matches (kq_OutTradeNo q) (rf_OutTradeNo f)
          \<and> column_matches (kq_Provider q) (rf_Provider f)
          \<and> column_matches (kq_Reason q) (rf_Reason f)
          \<and> column_matches (kq_Severity q) (rf_Severity f)
          \<and> column_matches (kq_Status q) (rf_Status f)) (tb_risk_flags d))))"

definition PaymentRiskFlagRepo_Update :: "PaymentRiskFlag \<Rightarrow> unit service" where
  "PaymentRiskFlagRepo_Update = store_save tb_risk_flags tb_risk_flags_update rf_ID risk_flag_clash"

definition ListFlags :: "PaymentRiskFlagQuery \<Rightarrow> PaymentRiskFlag list service" where
  "ListFlags q = PaymentRiskFlagRepo_List (q\<lparr>kq_UserID := trim_space (kq_UserID q),
     kq_OutTradeNo := trim_space (kq_OutTradeNo q), kq_Provider := trim_space (kq_Provider q),
     kq_Reason := trim_space (kq_Reason q), kq_Severity := trim_space (kq_Severity q),
     kq_Status := trim_space (kq_Status q)\<rparr>)"

definition GetFlag :: "string \<Rightarrow> PaymentRiskFlag service" where
  "GetFlag i =
     andThen (reject_if (trim_space i = []) ErrPaymentRiskFlagNotFound) (\<lambda>_.
     not_found_as ErrPaymentRiskFlagNotFound (PaymentRiskFlagRepo_GetByID (trim_space i)))"

definition appendPaymentRiskResolutionNote :: "string \<Rightarrow> string \<Rightarrow> string" where
  "appendPaymentRiskResolutionNote existing0 note0 =
     (let existing = trim_space existing0; note = trim_space note0
      in if note = [] then existing
         else if existing = [] then ''resolution: '' @ note
         else existing @ [CHR 0x0A] @ ''resolution: '' @ note)"

definition ResolveFlag :: "string \<Rightarrow> string \<Rightarrow> string \<Rightarrow> PaymentRiskFlag service" where
  "ResolveFlag i resolvedBy note =
     andThen (GetFlag i) (\<lambda>f0.
     if rf_Status f0 = RiskStatusResolved then ret f0
     else andThen time_now (\<lambda>now.
       let f = f0\<lparr>rf_Status := RiskStatusResolved, rf_ResolvedAt := Some now, rf_UpdatedAt := now,
                  rf_ResolvedBy := defaultString (trim_space resolvedBy) ''admin'',
                  rf_Note := appendPaymentRiskResolutionNote (rf_Note f0) note\<rparr>
       in andThen (PaymentRiskFlagRepo_Update f) (\<lambda>_. ret f)))"

definition risk_event_key :: "PaymentEvent \<Rightarrow> string" where
  "risk_event_key e =
     (if trim_space (pe_ProviderEventID e) = []
      then ''risk:'' @ trim_space (pe_Provider e) @ '':'' @ trim_space (pe_OutTradeNo e) @ '':''
             @ trim_space (pe_EventType e)
      else trim_space (pe_ProviderEventID e))"

definition createPaymentRiskFlag :: "bool \<Rightarrow> Order \<Rightarrow> PaymentEvent \<Rightarrow> PaymentRiskFlag service" where
  "createPaymentRiskFlag has_flags x e =
     andThen (reject_if (\<not> has_flags) ErrInvalidPaymentAdjustment) (\<lambda>_.
     if_found (PaymentRiskFlagRepo_GetByProviderEventID (trim_space (pe_Provider e)) (risk_event_key e)) ret
       (andThen (generateEntityID ''prf_'') (\<lambda>flagID.
        andThen time_now (\<lambda>now.
        let flag = \<lparr>rf_ID = flagID, rf_UserID = trim_space (or_UserID x),
              rf_OutTradeNo = trim_space (or_OutTradeNo x), rf_ProviderEventID = risk_event_key e,
              rf_Provider = trim_space (pe_Provider e), rf_Reason = RiskReasonDispute,
              rf_Severity = RiskSeverityCritical, rf_Status = RiskStatusOpen,
              rf_Note = ''provider dispute/chargeback event'', rf_ResolvedBy = [],
              rf_CreatedAt = now, rf_UpdatedAt = now, rf_ResolvedAt = None\<rparr>
        in andThen (PaymentRiskFlagRepo_Create flag) (\<lambda>_. ret flag)))))"

section \<open>Policy\<close>

abbreviation ActionAutoRefund :: string where "ActionAutoRefund \<equiv> ''auto_refund''"
abbreviation ActionManualReview :: string where "ActionManualReview \<equiv> ''manual_review''"
abbreviation ActionReject :: string where "ActionReject \<equiv> ''reject''"
abbreviation ActionKeepCurrentPeriod :: string where "ActionKeepCurrentPeriod \<equiv> ''keep_current_period''"

record UsageSnapshot =
  pu_Known :: bool
  pu_CreditsGranted :: int
  pu_CreditsAvailable :: int
  pu_CreditsUsed :: int

record PolicyDecision =
  pd_Action :: string
  pd_Reason :: string
  pd_ApplyCompensation :: bool
  pd_RevokeEntitlements :: bool
  pd_ClawbackCredits :: bool
  pd_CreateRiskFlag :: bool
  pd_RefundWindowEndsAt :: "instant option"
  pd_ManualReview :: bool
  pd_Rejected :: bool
  pd_Note :: string

text \<open>\<open>pa_Now\<close> is the optional clock of the configuration.\<close>

record PolicyConfig =
  pa_RefundWindowDays :: int
  pa_RefundInWindowAction :: string
  pa_RefundOutOfWindowAction :: string
  pa_LowUsagePolicyEnabled :: bool
  pa_LowUsageMaxCreditsUsed :: int
  pa_LowUsageAction :: string
  pa_HighUsageAction :: string
  pa_DisputeAction :: string
  pa_CancelAction :: string
  pa_Now :: "instant option"

definition DefaultPaymentAdjustmentPolicyConfig :: PolicyConfig where
  "DefaultPaymentAdjustmentPolicyConfig =
     \<lparr>pa_RefundWindowDays = 7, pa_RefundInWindowAction = ActionAutoRefund,
      pa_RefundOutOfWindowAction = ActionManualReview, pa_LowUsagePolicyEnabled = False,
      pa_LowUsageMaxCreditsUsed = 0, pa_LowUsageAction = ActionAutoRefund,
      pa_HighUsageAction = ActionManualReview, pa_DisputeAction = ActionAutoRefund,
      pa_CancelAction = ActionKeepCurrentPeriod, pa_Now = None\<rparr>"

definition normalizePaymentAdjustmentCompensationAction :: "string \<Rightarrow> string \<Rightarrow> string" where
  "normalizePaymentAdjustmentCompensationAction action fallback =
     (let a = trim_space action
      in if a \<in> {ActionAutoRefund, ActionManualReview, ActionReject} then a else fallback)"

definition normalizePaymentAdjustmentAction :: "string \<Rightarrow> string \<Rightarrow> string" where
  "normalizePaymentAdjustmentAction action fallback =
     (let a = trim_space action
      in if a \<in> {ActionAutoRefund, ActionManualReview, ActionReject, ActionKeepCurrentPeriod} then a
         else fallback)"

definition normalizePaymentAdjustmentPolicyConfig :: "PolicyConfig \<Rightarrow> PolicyConfig" where
  "normalizePaymentAdjustmentPolicyConfig c =
     (let d = DefaultPaymentAdjustmentPolicyConfig
      in c\<lparr>pa_RefundWindowDays := (if pa_RefundWindowDays c = 0 then pa_RefundWindowDays d
                                    else pa_RefundWindowDays c),
           pa_RefundInWindowAction := normalizePaymentAdjustmentCompensationAction
             (pa_RefundInWindowAction c) (pa_RefundInWindowAction d),
           pa_RefundOutOfWindowAction := normalizePaymentAdjustmentCompensationAction
             (pa_RefundOutOfWindowAction c) (pa_RefundOutOfWindowAction d),
           pa_LowUsageAction := normalizePaymentAdjustmentCompensationAction
             (pa_LowUsageAction c) (pa_LowUsageAction d),
           pa_HighUsageAction := normalizePaymentAdjustmentCompensationAction
             (pa_HighUsageAction c) (pa_HighUsageAction d),
           pa_DisputeAction := normalizePaymentAdjustmentCompensationAction
             (pa_DisputeAction c) (pa_DisputeAction d),
           pa_CancelAction := normalizePaymentAdjustmentAction (pa_CancelAction c) (pa_CancelAction d)\<rparr>)"

definition decisionFromAction :: "string \<Rightarrow> string \<Rightarrow> bool \<Rightarrow> PolicyDecision" where
  "decisionFromAction action0 reason createRiskFlag =
     (let action = normalizePaymentAdjustmentAction action0 ActionManualReview;
          auto = (action = ActionAutoRefund);
          manual = (action = ActionManualReview);
          rejected = (action = ActionReject);
          keep = (action = ActionKeepCurrentPeriod)
      in \<lparr>pd_Action = action, pd_Reason = reason, pd_ApplyCompensation = (auto \<and> \<not> keep),
          pd_RevokeEntitlements = (auto \<and> \<not> keep), pd_ClawbackCredits = (auto \<and> \<not> keep),
          pd_CreateRiskFlag = createRiskFlag, pd_RefundWindowEndsAt = None, pd_ManualReview = manual,
          pd_Rejected = rejected,
          pd_Note = (if rejected then ''refund_policy_rejected''
                     else if manual then ''refund_policy_manual_review'' else [])\<rparr>)"

text \<open>Within the window, its end, and whether it is known.\<close>

definition refundWindow :: "PolicyConfig \<Rightarrow> Order \<Rightarrow> (bool \<times> instant option \<times> bool) service" where
  "refundWindow c x =
     (if pa_RefundWindowDays c \<le> 0 then ret (True, None, True)
      else case or_PaidAt x of
        None \<Rightarrow> ret (False, None, False)
      | Some paid \<Rightarrow>
          (let windowEndsAt = add_date 0 0 (pa_RefundWindowDays c) paid
           in andThen (case pa_Now c of None \<Rightarrow> time_now | Some t \<Rightarrow> ret t) (\<lambda>now.
              ret (\<not> windowEndsAt < now, Some windowEndsAt, True))))"

definition refund_choice :: "PolicyConfig \<Rightarrow> UsageSnapshot \<Rightarrow> bool \<Rightarrow> bool \<Rightarrow> string \<times> string" where
  "refund_choice c usage within known =
     (if \<not> known then (pa_RefundOutOfWindowAction c, ''refund_window_unknown'')
      else if \<not> within then (pa_RefundOutOfWindowAction c, ''refund_out_of_window'')
      else if pa_LowUsagePolicyEnabled c \<and> pu_Known usage then
        (if pu_CreditsUsed usage \<le> pa_LowUsageMaxCreditsUsed c
         then (pa_LowUsageAction c, ''refund_low_usage'') else (pa_HighUsageAction c, ''refund_high_usage''))
      else (pa_RefundInWindowAction c, ''refund_in_window''))"

definition refundDecision :: "PolicyConfig \<Rightarrow> Order \<Rightarrow> UsageSnapshot \<Rightarrow> PolicyDecision service" where
  "refundDecision c x usage =
     andThen (refundWindow c x) (\<lambda>(within, windowEndsAt, known).
     case refund_choice c usage within known of (action, reason) \<Rightarrow>
       ret ((decisionFromAction action reason False)\<lparr>pd_RefundWindowEndsAt := windowEndsAt\<rparr>))"

definition Decide :: "PolicyConfig \<Rightarrow> PaymentEvent \<Rightarrow> Order \<Rightarrow> UsageSnapshot \<Rightarrow> PolicyDecision service" where
  "Decide c e x usage =
     (if pe_EventType e = EventTypeCancelled
      then ret ((decisionFromAction (pa_CancelAction c) ''cancel_keeps_current_paid_period'' False)
             \<lparr>pd_Note := ''cancel_keeps_current_paid_period''\<rparr>)
      else if pe_EventType e = EventTypeDisputed
      then ret ((decisionFromAction (pa_DisputeAction c) ''payment_disputed'' True)\<lparr>pd_CreateRiskFlag := True\<rparr>)
      else if pe_EventType e = EventTypeRefunded then refundDecision c x usage
      else ret (decisionFromAction ActionReject ''unsupported_payment_event'' False))"

section \<open>Usage\<close>

text \<open>What can still be taken back of one credit execution, and what is then left in the account.\<close>

definition usage_step ::
  "bool \<Rightarrow> Order \<Rightarrow> FulfillmentExecution \<Rightarrow> UsageSnapshot \<times> (string \<Rightarrow> int option)
     \<Rightarrow> (UsageSnapshot \<times> (string \<Rightarrow> int option)) service" where
  "usage_step has_buckets x execution acc =
     (case acc of (usage, remainingByAccount) \<Rightarrow>
      if fe_TargetType execution \<noteq> TargetCredits \<or> trim_space (fe_ResultRef execution) = [] then ret acc
      else if_found (CreditTransactionRepo_GetByID (fe_ResultRef execution)) (\<lambda>original.
        if ct_Amount original \<le> 0 \<or> ct_UserID original \<noteq> or_UserID x then ret acc
        else andThen (case remainingByAccount (ct_AccountID original) of
                        Some r \<Rightarrow> ret r
                      | None \<Rightarrow> andThen (CreditAccountRepo_GetByID (ct_AccountID original)) (\<lambda>a. ret (ca_Balance a)))
          (\<lambda>remaining.
          andThen (if has_buckets \<and> trim_space (ct_BucketID original) \<noteq> []
             then if_found (CreditBucketRepo_GetByID (ct_BucketID original))
                    (\<lambda>b. ret (minInt64 (minInt64 (ct_Amount original) remaining) (cb_Remaining b))) (ret 0)
             else ret (minInt64 (ct_Amount original) remaining)) (\<lambda>available0.
          let available = (if available0 < 0 then 0 else available0)
          in ret (usage\<lparr>pu_CreditsGranted := wrap64 (pu_CreditsGranted usage + ct_Amount original),
                        pu_CreditsAvailable := wrap64 (pu_CreditsAvailable usage + available)\<rparr>,
                  remainingByAccount(ct_AccountID original \<mapsto> wrap64 (remaining - available))))))
        (ret acc))"

definition paymentAdjustmentUsageSnapshot ::
  "bool \<Rightarrow> Order \<Rightarrow> FulfillmentExecution list \<Rightarrow> UsageSnapshot service" where
  "paymentAdjustmentUsageSnapshot has_buckets x executions =
     andThen (for_each executions (usage_step has_buckets x)
       (\<lparr>pu_Known = True, pu_CreditsGranted = 0, pu_CreditsAvailable = 0, pu_CreditsUsed = 0\<rparr>, Map.empty))
     (\<lambda>(usage, _).
     ret (if pu_CreditsAvailable usage < pu_CreditsGranted usage
          then usage\<lparr>pu_CreditsUsed := wrap64 (pu_CreditsGranted usage - pu_CreditsAvailable usage)\<rparr>
          else usage))"

section \<open>Compensation\<close>

text \<open>The ID of the grant that was revoked, or nothing when there was none to revoke.\<close>

definition revokeFulfilledGrant :: "string \<Rightarrow> string service" where
  "revokeFulfilledGrant grantID0 =
     (let grantID = trim_space grantID0
      in if grantID = [] then ret []
         else if_found (EntitlementGrantRepo_GetByID grantID) (\<lambda>g0.
           if eg_Status g0 = GrantStatusRevoked then ret []
           else andThen time_now (\<lambda>now.
             let g = g0\<lparr>eg_Status := GrantStatusRevoked, eg_RevokedAt := Some now, eg_UpdatedAt := now,
                        eg_ExpiresAt := (case eg_ExpiresAt g0 of None \<Rightarrow> Some now
                           | Some e \<Rightarrow> if now < e then Some now else Some e)\<rparr>
             in andThen (EntitlementGrantRepo_Update g) (\<lambda>_. ret (eg_ID g)))) (ret []))"

definition refundClawbackKey :: "string \<Rightarrow> string \<Rightarrow> string" where
  "refundClawbackKey outTradeNo ruleID =
     ''refund:clawback:'' @ trim_space outTradeNo @ '':'' @ trim_space ruleID"

text \<open>The account, the bucket and the transaction of a clawback of a known amount.\<close>

definition book_clawback ::
  "Order \<Rightarrow> CreditTransaction \<Rightarrow> string \<Rightarrow> CreditAccount \<Rightarrow> CreditBucket option \<Rightarrow> int
     \<Rightarrow> (int \<times> CreditTransaction option) service" where
  "book_clawback x original k account0 bucket amount =
     andThen time_now (\<lambda>now.
     let account = (if 0 < amount
           then account0\<lparr>ca_Balance := wrap64 (ca_Balance account0 - amount), ca_UpdatedAt := now\<rparr> else account0)
     in andThen (if 0 < amount then CreditAccountRepo_Update account else ret ()) (\<lambda>_.
        andThen (case bucket of
            Some b \<Rightarrow>
              if 0 < amount
              then let remaining = wrap64 (cb_Remaining b - amount)
                   in CreditBucketRepo_Update (b\<lparr>cb_Remaining := remaining,
                        cb_Status := (if remaining = 0 \<and> cb_Reserved b = 0 then BucketDepleted else cb_Status b),
                        cb_UpdatedAt := now\<rparr>)
              else ret ()
          | None \<Rightarrow> ret ()) (\<lambda>_.
        andThen (newCreditTransaction
          \<lparr>ti_Account = account, ti_ReservationID = [], ti_BucketID = ct_BucketID original,
           ti_TransactionType = TxClawback, ti_Amount = wrap64 (- amount), ti_IdempotencyKey = k,
           ti_Source = ''refund_policy'',
           ti_Description = ''refund clawback for '' @ or_SKUCode x @ '' ('' @ or_OutTradeNo x @ '')'',
           ti_CreatedAt = now\<rparr>) (\<lambda>transaction.
        ret (amount, Some transaction)))))"

definition apply_clawback ::
  "bool \<Rightarrow> Order \<Rightarrow> FulfillmentExecution \<Rightarrow> string \<Rightarrow> (int \<times> CreditTransaction option) service" where
  "apply_clawback has_buckets x execution k =
     if_found (CreditTransactionRepo_GetByID (fe_ResultRef execution)) (\<lambda>original.
       if ct_Amount original \<le> 0 then ret (0, None)
       else andThen (reject_if (ct_UserID original \<noteq> or_UserID x) ErrInvalidPaymentAdjustment) (\<lambda>_.
         andThen (CreditAccountRepo_GetByID (ct_AccountID original)) (\<lambda>account.
         let most = minInt64 (ct_Amount original) (ca_Balance account)
         in if has_buckets \<and> trim_space (ct_BucketID original) \<noteq> []
            then if_found (CreditBucketRepo_GetByID (ct_BucketID original))
                   (\<lambda>b. book_clawback x original k account (Some b) (minInt64 most (cb_Remaining b)))
                   (book_clawback x original k account None 0)
            else book_clawback x original k account None most))) (ret (0, None))"

definition clawbackFulfilledCredits ::
  "bool \<Rightarrow> Order \<Rightarrow> FulfillmentExecution \<Rightarrow> (int \<times> CreditTransaction option) service" where
  "clawbackFulfilledCredits has_buckets x execution =
     (if trim_space (fe_ResultRef execution) = [] then ret (0, None)
      else let k = refundClawbackKey (or_OutTradeNo x) (fe_RuleID execution)
           in if_found (CreditTransactionRepo_GetByIdempotencyKey k)
                (\<lambda>existing. ret (wrap64 (- ct_Amount existing), Some existing))
                (apply_clawback has_buckets x execution k))"

section \<open>The service\<close>

record PaymentAdjustmentResult =
  ar_Order :: Order
  ar_PolicyDecision :: "PolicyDecision option"
  ar_RiskFlag :: "PaymentRiskFlag option"
  ar_RevokedGrantIDs :: "string list"
  ar_ClawbackCredits :: int
  ar_ClawbackTx :: "CreditTransaction option"
  ar_AffectedExecutions :: "FulfillmentExecution list"
  ar_Note :: string

record payment_adjustment_service =
  as_wired :: bool
  as_uow :: bool
  as_buckets :: bool
  as_risk_flags :: bool
  as_policy :: PolicyConfig

definition as_has_buckets :: "payment_adjustment_service \<Rightarrow> bool" where
  "as_has_buckets s \<longleftrightarrow> as_uow s \<or> as_buckets s"

definition as_has_flags :: "payment_adjustment_service \<Rightarrow> bool" where
  "as_has_flags s \<longleftrightarrow> as_uow s \<or> as_risk_flags s"

definition compensate ::
  "payment_adjustment_service \<Rightarrow> Order \<Rightarrow> PolicyDecision \<Rightarrow> FulfillmentExecution
     \<Rightarrow> PaymentAdjustmentResult \<Rightarrow> PaymentAdjustmentResult service" where
  "compensate s x decision execution result =
     (if fe_TargetType execution = TargetEntitlement then
        (if \<not> pd_RevokeEntitlements decision then ret result
         else andThen (revokeFulfilledGrant (fe_ResultRef execution)) (\<lambda>grantID.
           ret (if grantID \<noteq> [] then result\<lparr>ar_RevokedGrantIDs := ar_RevokedGrantIDs result @ [grantID]\<rparr>
                else result)))
      else if fe_TargetType execution = TargetCredits then
        (if \<not> pd_ClawbackCredits decision then ret result
         else andThen (clawbackFulfilledCredits (as_has_buckets s) x execution) (\<lambda>(amount, transaction).
           ret (result\<lparr>ar_ClawbackCredits := wrap64 (ar_ClawbackCredits result + amount),
                       ar_ClawbackTx := (case transaction of None \<Rightarrow> ar_ClawbackTx result | Some t \<Rightarrow> Some t)\<rparr>)))
      else ret result)"

definition review_error :: "PolicyDecision \<Rightarrow> err option" where
  "review_error decision =
     (if pd_ManualReview decision
      then Some (PolicyError EventStatusReviewRequired
        (Wrapped (error_text ErrPaymentAdjustmentManualReview @ '': '' @ pd_Reason decision)
          ErrPaymentAdjustmentManualReview))
      else if pd_Rejected decision
      then Some (PolicyError EventStatusPolicyRejected
        (Wrapped (error_text ErrPaymentAdjustmentRejected @ '': '' @ pd_Reason decision)
          ErrPaymentAdjustmentRejected))
      else None)"

text \<open>
  A policy error is a value of the body, because the transaction commits with it; any other
  error ends the body.
\<close>

definition adjustment_applyWithRepos ::
  "payment_adjustment_service \<Rightarrow> PaymentEvent \<Rightarrow> (PaymentAdjustmentResult \<times> err option) service" where
  "adjustment_applyWithRepos s e =
     andThen (OrderRepo_GetByOutTradeNo (pe_OutTradeNo e)) (\<lambda>x.
     if or_OrderType x \<noteq> OrderTypeCheckout \<or> trim_space (or_UserID x) = []
     then ret (\<lparr>ar_Order = x, ar_PolicyDecision = None, ar_RiskFlag = None, ar_RevokedGrantIDs = [],
                ar_ClawbackCredits = 0, ar_ClawbackTx = None, ar_AffectedExecutions = [],
                ar_Note = ''non_commerce_order_ignored''\<rparr>, None)
     else
       andThen (FulfillmentExecutionRepo_List (empty_execution_query\<lparr>xq_OutTradeNo := or_OutTradeNo x,
         xq_Status := ExecutionApplied\<rparr>)) (\<lambda>executions.
       andThen (paymentAdjustmentUsageSnapshot (as_has_buckets s) x executions) (\<lambda>usage.
       andThen (Decide (as_policy s) e x usage) (\<lambda>decision.
       andThen (if pd_CreateRiskFlag decision
                then andThen (createPaymentRiskFlag (as_has_flags s) x e) (\<lambda>f. ret (Some f))
                else ret None) (\<lambda>flag.
       let result = \<lparr>ar_Order = x, ar_PolicyDecision = Some decision, ar_RiskFlag = flag,
             ar_RevokedGrantIDs = [], ar_ClawbackCredits = 0, ar_ClawbackTx = None,
             ar_AffectedExecutions = executions, ar_Note = pd_Note decision\<rparr>
       in if \<not> pd_ApplyCompensation decision then ret (result, review_error decision)
          else andThen (for_each executions (compensate s x decision) result) (\<lambda>r. ret (r, None)))))))"

definition withAdjustmentTransaction :: "payment_adjustment_service \<Rightarrow> 'a service \<Rightarrow> 'a service" where
  "withAdjustmentTransaction s fn = (if as_uow s then in_transaction fn else fn)"

definition Adjustment_Apply :: "payment_adjustment_service \<Rightarrow> PaymentEvent \<Rightarrow> PaymentAdjustmentResult service" where
  "Adjustment_Apply s e =
     andThen (reject_if (trim_space (pe_OutTradeNo e) = [] \<or> \<not> as_wired s) ErrInvalidPaymentAdjustment) (\<lambda>_.
     andThen (reject_if (pe_EventType e \<noteq> EventTypeRefunded \<and> pe_EventType e \<noteq> EventTypeDisputed
         \<and> pe_EventType e \<noteq> EventTypeCancelled) ErrInvalidPaymentAdjustment) (\<lambda>_.
     andThen (withAdjustmentTransaction s (adjustment_applyWithRepos s e)) (\<lambda>(result, failure).
     case failure of None \<Rightarrow> ret result | Some err \<Rightarrow> fail err)))"

end
