(* ===== verification/Commerce_Catalog.thy ===== *)
theory Commerce_Catalog
  imports Fulfillment
begin

text \<open>
  The commercial catalog: service/commerce_catalog.go, \<open>normalizeStringSet\<close> of
  service/access_session.go and the product repository.  A catalog is the list of its
  normalized definitions; the default one is the catalog the process starts with.
\<close>

section \<open>String sets\<close>

text \<open>Trimmed, without blanks, each value once, in order of first occurrence.\<close>

fun normalize_set_loop :: "string list \<Rightarrow> string list \<Rightarrow> string list" where
  "normalize_set_loop seen [] = []"
| "normalize_set_loop seen (v # vs) =
     (let value = trim_space v
      in if value = [] \<or> value \<in> set seen then normalize_set_loop seen vs
         else value # normalize_set_loop (value # seen) vs)"

definition normalizeStringSet :: "string list \<Rightarrow> string list" where
  "normalizeStringSet values = normalize_set_loop [] values"

section \<open>Products\<close>

definition product_clash :: "Product \<Rightarrow> Product \<Rightarrow> bool" where
  "product_clash x y \<longleftrightarrow> pr_Code x = pr_Code y"

interpretation products: row_store pr_Code product_clash
  by unfold_locales (auto simp: product_clash_def)

definition ProductRepo_Create :: "Product \<Rightarrow> unit service" where
  "ProductRepo_Create = store_create tb_products tb_products_update product_clash"

definition ProductRepo_GetByCode :: "string \<Rightarrow> Product service" where
  "ProductRepo_GetByCode = store_find tb_products pr_Code"

definition ProductRepo_Update :: "Product \<Rightarrow> unit service" where
  "ProductRepo_Update = store_save tb_products tb_products_update pr_Code product_clash"

text \<open>\<open>ORDER BY code\<close>: by bytes, as SQLite's default collation.\<close>

fun bytes_le :: "string \<Rightarrow> string \<Rightarrow> bool" where
  "bytes_le [] t = True"
| "bytes_le (c # s) [] = False"
| "bytes_le (c # s) (d # t) =
     ((of_char c :: nat) < of_char d \<or> c = d \<and> bytes_le s t)"

fun insert_product :: "Product \<Rightarrow> Product list \<Rightarrow> Product list" where
  "insert_product x [] = [x]"
| "insert_product x (y # ys) = (if bytes_le (pr_Code x) (pr_Code y) then x # y # ys else y # insert_product x ys)"

definition ProductRepo_List :: "bool \<Rightarrow> Product list service" where
  "ProductRepo_List visibleOnly =
     db_read (\<lambda>d. foldr insert_product (List.filter (\<lambda>p. visibleOnly \<longrightarrow> pr_IsVisible p) (tb_products d)) [])"

section \<open>Definitions of the catalog\<close>

record ProductDefinition =
  pf_Code :: string
  pf_Name :: string
  pf_Price :: int
  pf_Currency :: string
  pf_Validity :: string
  pf_Kind :: string
  pf_CheckoutVisible :: bool
  pf_GraceEntitlementIDs :: "string list"

abbreviation CatalogItemKindPlan :: string where "CatalogItemKindPlan \<equiv> ''plan''"
abbreviation CatalogItemKindSKU :: string where "CatalogItemKindSKU \<equiv> ''sku''"
abbreviation CatalogItemKindLegacySKU :: string where "CatalogItemKindLegacySKU \<equiv> ''legacy_sku''"
abbreviation PlanBasicOwnAI :: string where "PlanBasicOwnAI \<equiv> ''basic_own_ai''"
abbreviation ErrInvalidProductCatalog :: err where
  "ErrInvalidProductCatalog \<equiv> Sentinel ''invalid product catalog''"

definition normalizeProductDefinition :: "ProductDefinition \<Rightarrow> ProductDefinition" where
  "normalizeProductDefinition p =
     p\<lparr>pf_Code := trim_space (pf_Code p), pf_Name := trim_space (pf_Name p),
       pf_Currency := defaultString (trim_space (pf_Currency p)) ''USD'',
       pf_Validity := defaultString (trim_space (pf_Validity p)) ''lifetime'',
       pf_Kind := trim_space (pf_Kind p),
       pf_GraceEntitlementIDs := normalizeStringSet (pf_GraceEntitlementIDs p)\<rparr>"

definition DomainProduct :: "ProductDefinition \<Rightarrow> Product" where
  "DomainProduct p0 =
     (let p = normalizeProductDefinition p0
      in \<lparr>pr_Code = pf_Code p, pr_Name = pf_Name p, pr_Price = pf_Price p, pr_Currency = pf_Currency p,
          pr_Validity = pf_Validity p, pr_IsVisible = pf_CheckoutVisible p\<rparr>)"

fun product_catalog_loop :: "ProductDefinition list \<Rightarrow> ProductDefinition list \<Rightarrow> err + ProductDefinition list" where
  "product_catalog_loop acc [] = Inr acc"
| "product_catalog_loop acc (d # ds) =
     (let p = normalizeProductDefinition d
      in if pf_Code p = [] \<or> pf_Name p = [] \<or> pf_Currency p = [] \<or> pf_Validity p = [] \<or> pf_Kind p = []
         then Inl ErrInvalidProductCatalog
         else if pf_Code p \<in> pf_Code ` set acc then Inl ErrInvalidProductCatalog
         else product_catalog_loop (acc @ [p]) ds)"

definition NewStaticProductCatalog :: "ProductDefinition list \<Rightarrow> err + ProductDefinition list" where
  "NewStaticProductCatalog definitions = product_catalog_loop [] definitions"

definition ProductByCode :: "ProductDefinition list \<Rightarrow> string \<Rightarrow> ProductDefinition option" where
  "ProductByCode catalog code = List.find (\<lambda>p. pf_Code p = trim_space code) catalog"

definition legacyProductDefinition ::
  "string \<Rightarrow> string \<Rightarrow> int \<Rightarrow> string \<Rightarrow> string \<Rightarrow> string \<Rightarrow> ProductDefinition" where
  "legacyProductDefinition code name price currency validity graceEntitlementID =
     \<lparr>pf_Code = code, pf_Name = name, pf_Price = price, pf_Currency = currency, pf_Validity = validity,
      pf_Kind = CatalogItemKindLegacySKU, pf_CheckoutVisible = False,
      pf_GraceEntitlementIDs = [graceEntitlementID]\<rparr>"

definition defaultProductDefinitions :: "ProductDefinition list" where
  "defaultProductDefinitions =
     [\<lparr>pf_Code = PlanBasicOwnAI, pf_Name = ''Walnut Basic Own AI'', pf_Price = 0, pf_Currency = ''USD'',
       pf_Validity = ''lifetime'', pf_Kind = CatalogItemKindPlan, pf_CheckoutVisible = False,
       pf_GraceEntitlementIDs = []\<rparr>,
      \<lparr>pf_Code = SKUProOwnAIMonthly, pf_Name = ''Walnut Pro Own AI Monthly'', pf_Price = 500,
       pf_Currency = ''USD'', pf_Validity = ''monthly'', pf_Kind = CatalogItemKindSKU,
       pf_CheckoutVisible = True, pf_GraceEntitlementIDs = CurrentAdvancedEntitlements\<rparr>,
      \<lparr>pf_Code = SKUProOwnAILifetime, pf_Name = ''Walnut Pro Own AI Lifetime'', pf_Price = 9900,
       pf_Currency = ''USD'', pf_Validity = ''lifetime'', pf_Kind = CatalogItemKindSKU,
       pf_CheckoutVisible = True, pf_GraceEntitlementIDs = []\<rparr>,
      legacyProductDefinition ''pro'' ''walnut Pro (legacy buyout)'' 12800 ''CNY'' ''lifetime'' [],
      legacyProductDefinition ''std'' ''walnut Standard (legacy buyout)'' 6800 ''CNY'' ''lifetime'' [],
      legacyProductDefinition ''sub_monthly'' ''walnut AI Subscription Monthly (legacy)'' 1500 ''CNY'' ''monthly'' [],
      legacyProductDefinition ''sub_yearly'' ''walnut AI Subscription Yearly (legacy)'' 15000 ''CNY'' ''yearly'' [],
      legacyProductDefinition ''editorial_studio_monthly'' ''Walnut Editorial Studio Monthly (legacy)'' 1900
        ''USD'' ''monthly'' EntitlementEditorialStudio,
      legacyProductDefinition ''credits_600'' ''Walnut Credits 600 (legacy)'' 990 ''USD'' ''lifetime'' []]"

text \<open>\<open>mustProductCatalog\<close> panics on an error; the default definitions give none.\<close>

definition DefaultProductCatalog :: "ProductDefinition list" where
  "DefaultProductCatalog =
     (case NewStaticProductCatalog defaultProductDefinitions of Inl e \<Rightarrow> [] | Inr catalog \<Rightarrow> catalog)"

definition entitlement_rule :: "string \<Rightarrow> string \<Rightarrow> string \<Rightarrow> string \<Rightarrow> FulfillmentRule" where
  "entitlement_rule i sku entitlement duration =
     \<lparr>fr_ID = i, fr_SKUCode = sku, fr_Type = FulfillmentRuleGrantEntitlement, fr_EntitlementID = entitlement,
      fr_CreditsAmount = 0, fr_CreditsBucketType = [], fr_Duration = duration\<rparr>"

definition BYOKOwnAIFulfillmentRules :: "FulfillmentRule list" where
  "BYOKOwnAIFulfillmentRules =
     [entitlement_rule ''pro_own_ai_monthly:editorial_studio'' SKUProOwnAIMonthly EntitlementEditorialStudio ''monthly'',
      entitlement_rule ''pro_own_ai_monthly:cloud_storage'' SKUProOwnAIMonthly EntitlementCloudStorage ''monthly'',
      entitlement_rule ''pro_own_ai_lifetime:editorial_studio'' SKUProOwnAILifetime EntitlementEditorialStudio ''lifetime'',
      entitlement_rule ''pro_own_ai_lifetime:cloud_storage'' SKUProOwnAILifetime EntitlementCloudStorage ''lifetime'']"

definition LegacyFulfillmentRules :: "FulfillmentRule list" where
  "LegacyFulfillmentRules =
     [entitlement_rule ''editorial_studio_monthly:entitlement'' ''editorial_studio_monthly''
        EntitlementEditorialStudio ''monthly'',
      \<lparr>fr_ID = ''editorial_studio_monthly:credits_600'', fr_SKUCode = ''editorial_studio_monthly'',
       fr_Type = FulfillmentRuleGrantCredits, fr_EntitlementID = [], fr_CreditsAmount = 600,
       fr_CreditsBucketType = BucketTypeSubscriptionPeriod, fr_Duration = ''monthly''\<rparr>,
      \<lparr>fr_ID = ''credits_600:credits'', fr_SKUCode = ''credits_600'', fr_Type = FulfillmentRuleGrantCredits,
       fr_EntitlementID = [], fr_CreditsAmount = 600, fr_CreditsBucketType = BucketTypeTopup,
       fr_Duration = []\<rparr>]"

definition DefaultFulfillmentRules :: "FulfillmentRule list" where
  "DefaultFulfillmentRules = BYOKOwnAIFulfillmentRules @ LegacyFulfillmentRules"

section \<open>Access in a grace period\<close>

text \<open>The catalog access policy: its catalog and the normalized legacy fallback.\<close>

definition NewCatalogSubscriptionAccessPolicy ::
  "ProductDefinition list \<Rightarrow> string list \<Rightarrow> ProductDefinition list \<times> string list" where
  "NewCatalogSubscriptionAccessPolicy catalog fallback = (catalog, normalizeStringSet fallback)"

definition DefaultSubscriptionAccessPolicy :: "ProductDefinition list \<times> string list" where
  "DefaultSubscriptionAccessPolicy = NewCatalogSubscriptionAccessPolicy DefaultProductCatalog CurrentAdvancedEntitlements"

definition GraceEntitlementIDs :: "ProductDefinition list \<times> string list \<Rightarrow> Order \<Rightarrow> err + string list" where
  "GraceEntitlementIDs policy x =
     (case policy of (catalog, fallback) \<Rightarrow>
      if trim_space (or_SKUCode x) = [] then Inl ErrSubscriptionGraceUnsupported
      else case ProductByCode catalog (or_SKUCode x) of
        Some p \<Rightarrow>
          (let ids = normalizeStringSet (pf_GraceEntitlementIDs p)
           in if ids = [] then Inl ErrSubscriptionGraceUnsupported else Inr ids)
      | None \<Rightarrow> if fallback \<noteq> [] then Inr fallback else Inl ErrSubscriptionGraceUnsupported)"

section \<open>Reconciliation of the stored products\<close>

definition productNeedsReconcile :: "Product \<Rightarrow> Product \<Rightarrow> bool" where
  "productNeedsReconcile existing desired \<longleftrightarrow>
     pr_Name existing \<noteq> pr_Name desired \<or> pr_Price existing \<noteq> pr_Price desired
     \<or> pr_Currency existing \<noteq> pr_Currency desired \<or> pr_Validity existing \<noteq> pr_Validity desired
     \<or> pr_IsVisible existing \<noteq> pr_IsVisible desired"

record ProductCatalogReconcileResult =
  pc_Created :: int
  pc_Updated :: int
  pc_Unchanged :: int

definition reconcile_step ::
  "ProductDefinition \<Rightarrow> ProductCatalogReconcileResult \<Rightarrow> ProductCatalogReconcileResult service" where
  "reconcile_step definition result =
     (let desired = DomainProduct definition
      in if_found (ProductRepo_GetByCode (pr_Code desired))
           (\<lambda>existing. if productNeedsReconcile existing desired
              then andThen (ProductRepo_Update (desired\<lparr>pr_Code := pr_Code existing\<rparr>)) (\<lambda>_.
                   ret (result\<lparr>pc_Updated := pc_Updated result + 1\<rparr>))
              else ret (result\<lparr>pc_Unchanged := pc_Unchanged result + 1\<rparr>))
           (andThen (ProductRepo_Create desired) (\<lambda>_. ret (result\<lparr>pc_Created := pc_Created result + 1\<rparr>))))"

definition Reconcile :: "ProductDefinition list \<Rightarrow> ProductCatalogReconcileResult service" where
  "Reconcile catalog =
     for_each catalog reconcile_step \<lparr>pc_Created = 0, pc_Updated = 0, pc_Unchanged = 0\<rparr>"

end
