(* ===== verification/Subscription_Renewal.thy ===== *)
theory Subscription_Renewal
  imports Commerce_Catalog Payment_Events
begin

text \<open>
  Subscription renewal: service/subscription_renewal.go and its policy
  (service/subscription_renewal_policy.go).  A renewal event of a checkout order resolves to
  the renewal order of its billing cycle, which is paid and fulfilled, or opens or closes a
  grace period.  The fulfillment service is an interface: here a call on the same data; the
  code hands it the service with its own unit of work.
\<close>

section \<open>Policy\<close>

abbreviation RenewalActionFulfillRenewal :: string where "RenewalActionFulfillRenewal \<equiv> ''fulfill_renewal''"
abbreviation RenewalActionFulfillCheckout :: string where "RenewalActionFulfillCheckout \<equiv> ''fulfill_checkout''"
abbreviation RenewalActionGrantGrace :: string where "RenewalActionGrantGrace \<equiv> ''grant_grace''"
abbreviation RenewalActionExpireGrace :: string where "RenewalActionExpireGrace \<equiv> ''expire_grace''"
abbreviation RenewalActionNaturalExpiry :: string where "RenewalActionNaturalExpiry \<equiv> ''natural_expiry''"
abbreviation RenewalActionIgnore :: string where "RenewalActionIgnore \<equiv> ''ignore''"
abbreviation GracePeriodDays :: int where "GracePeriodDays \<equiv> 3"

record RenewalDecision =
  sd_Action :: string
  sd_Reason :: string
  sd_GracePeriodDays :: int

record RenewalPolicyConfig =
  sc_GracePeriodDays :: int
  sc_ExpiredAction :: string

definition DefaultSubscriptionRenewalPolicyConfig :: RenewalPolicyConfig where
  "DefaultSubscriptionRenewalPolicyConfig =
     \<lparr>sc_GracePeriodDays = GracePeriodDays, sc_ExpiredAction = RenewalActionExpireGrace\<rparr>"

definition normalizeSubscriptionRenewalPolicyConfig :: "RenewalPolicyConfig \<Rightarrow> RenewalPolicyConfig" where
  "normalizeSubscriptionRenewalPolicyConfig c =
     (let d = DefaultSubscriptionRenewalPolicyConfig; action = trim_space (sc_ExpiredAction c)
      in \<lparr>sc_GracePeriodDays = (if sc_GracePeriodDays c \<le> 0 then sc_GracePeriodDays d else sc_GracePeriodDays c),
          sc_ExpiredAction = (if action \<in> {RenewalActionExpireGrace, RenewalActionNaturalExpiry} then action
                              else sc_ExpiredAction d)\<rparr>)"

definition Renewal_Decide :: "RenewalPolicyConfig \<Rightarrow> PaymentEvent \<Rightarrow> RenewalDecision" where
  "Renewal_Decide c e =
     (let t = trim_space (pe_EventType e)
      in if t = EventTypeRenewalPaid
         then \<lparr>sd_Action = RenewalActionFulfillRenewal, sd_Reason = ''renewal_paid'', sd_GracePeriodDays = 0\<rparr>
         else if t = EventTypeRenewalFailed
         then \<lparr>sd_Action = RenewalActionGrantGrace, sd_Reason = ''renewal_payment_failed'',
               sd_GracePeriodDays = sc_GracePeriodDays c\<rparr>
         else if t = EventTypeSubscriptionExpired
         then \<lparr>sd_Action = sc_ExpiredAction c, sd_Reason = ''subscription_expired'',
               sd_GracePeriodDays = sc_GracePeriodDays c\<rparr>
         else \<lparr>sd_Action = RenewalActionIgnore, sd_Reason = ''unsupported_subscription_event'',
               sd_GracePeriodDays = 0\<rparr>)"

section \<open>Instants and keys of an event\<close>

definition set_instant :: "instant option \<Rightarrow> instant option" where
  "set_instant t = (case t of None \<Rightarrow> None | Some x \<Rightarrow> if x = 0 then None else Some x)"

definition paymentEventReceivedAt :: "PaymentEvent \<Rightarrow> instant service" where
  "paymentEventReceivedAt e = (if pe_ReceivedAt e \<noteq> 0 then ret (pe_ReceivedAt e) else time_now)"

definition renewalPaidAnchor :: "PaymentEvent \<Rightarrow> instant service" where
  "renewalPaidAnchor e =
     (case set_instant (pe_PeriodStartAt e) of Some t \<Rightarrow> ret t | None \<Rightarrow> paymentEventReceivedAt e)"

definition renewalGraceStart :: "PaymentEvent \<Rightarrow> instant service" where
  "renewalGraceStart e =
     (case set_instant (pe_PeriodEndAt e) of
        Some t \<Rightarrow> ret t
      | None \<Rightarrow> (case set_instant (pe_PeriodStartAt e) of Some t \<Rightarrow> ret t | None \<Rightarrow> paymentEventReceivedAt e))"

text \<open>\<open>time.Time.Sub\<close> saturates at the range of a duration.\<close>

definition time_sub :: "instant \<Rightarrow> instant \<Rightarrow> int" where
  "time_sub a b = max min_int64 (min max_int64 (a - b))"

definition sameBillingInstant :: "instant \<Rightarrow> instant \<Rightarrow> bool" where
  "sameBillingInstant left right \<longleftrightarrow>
     (let diff = time_sub left right; diff' = (if diff < 0 then wrap64 (- diff) else diff)
      in diff' \<le> 2 * minute_ns)"

definition isCheckoutBackedRenewalEventFromOrder :: "Order \<Rightarrow> PaymentEvent \<Rightarrow> bool" where
  "isCheckoutBackedRenewalEventFromOrder x e \<longleftrightarrow>
     pe_EventType e = EventTypeRenewalPaid \<and> or_OrderType x = OrderTypeCheckout
     \<and> (case or_PaidAt x of
          None \<Rightarrow> True
        | Some paid \<Rightarrow> (case pe_PeriodStartAt e of None \<Rightarrow> False | Some start \<Rightarrow> sameBillingInstant paid start))"

definition isCheckoutBackedRenewalEvent :: "PaymentEvent \<Rightarrow> bool service" where
  "isCheckoutBackedRenewalEvent e =
     (if pe_EventType e \<noteq> EventTypeRenewalPaid then ret False
      else andThen (attempt (OrderRepo_GetByOutTradeNo (trim_space (pe_OutTradeNo e)))) (\<lambda>r.
        case r of
          Inl err \<Rightarrow> ret False
        | Inr x \<Rightarrow> ret (or_OrderType x = OrderTypeCheckout \<and> or_PaidAt x \<noteq> None \<and> pe_PeriodStartAt e \<noteq> None
                       \<and> isCheckoutBackedRenewalEventFromOrder x e)))"

definition subscriptionRenewalCycleKey :: "PaymentEvent \<Rightarrow> string service" where
  "subscriptionRenewalCycleKey e =
     (let by_end = set_instant (pe_PeriodEndAt e); by_start = set_instant (pe_PeriodStartAt e)
      in if (pe_EventType e = EventTypeRenewalFailed \<or> pe_EventType e = EventTypeSubscriptionExpired)
            \<and> by_end \<noteq> None
         then ret (format_compact (the by_end))
         else case by_start of
           Some t \<Rightarrow> ret (format_compact t)
         | None \<Rightarrow> (case by_end of
               Some t \<Rightarrow> ret (format_compact t)
             | None \<Rightarrow> andThen (paymentEventReceivedAt e) (\<lambda>t. ret (format_year_month t))))"

definition subscriptionRenewalOrderIdempotencyKey :: "string \<Rightarrow> PaymentEvent \<Rightarrow> string service" where
  "subscriptionRenewalOrderIdempotencyKey sourceOutTradeNo e =
     andThen (subscriptionRenewalCycleKey e) (\<lambda>cycle.
     let source = defaultString (trim_space sourceOutTradeNo) (trim_space (pe_ProviderEventID e))
     in ret (''subscription_renewal:'' @ source @ '':'' @ cycle))"

definition subscriptionRenewalOrderOutTradeNo :: "string \<Rightarrow> string service" where
  "subscriptionRenewalOrderOutTradeNo idempotencyKey w =
     (Inr (''RNL-'' @ take 16 (sha256_hex w (trim_space idempotencyKey))), w)"

definition subscriptionGraceGrantKey :: "string \<Rightarrow> string \<Rightarrow> string" where
  "subscriptionGraceGrantKey outTradeNo entitlementID =
     ''subscription_grace:'' @ trim_space outTradeNo @ '':'' @ trim_space entitlementID"

definition renewalOrderStatusFromEvent :: "string \<Rightarrow> string" where
  "renewalOrderStatusFromEvent t =
     (if t = EventTypeRenewalPaid then OrderStatusPaid
      else if t = EventTypeRenewalFailed \<or> t = EventTypeSubscriptionExpired then OrderStatusFailed
      else OrderStatusPending)"

fun firstPositiveAmount :: "int list \<Rightarrow> int" where
  "firstPositiveAmount [] = 0"
| "firstPositiveAmount (v # vs) = (if 0 < v then v else firstPositiveAmount vs)"

text \<open>The verb \<open>%q\<close> on ASCII text.\<close>

definition quote_char :: "char \<Rightarrow> string" where
  "quote_char c =
     (let n = of_char c :: nat
      in if n = 34 then [CHR 0x5C, c] else if n = 92 then [CHR 0x5C, c]
         else if n = 7 then [CHR 0x5C, CHR ''a''] else if n = 8 then [CHR 0x5C, CHR ''b'']
         else if n = 9 then [CHR 0x5C, CHR ''t''] else if n = 10 then [CHR 0x5C, CHR ''n'']
         else if n = 11 then [CHR 0x5C, CHR ''v''] else if n = 12 then [CHR 0x5C, CHR ''f'']
         else if n = 13 then [CHR 0x5C, CHR ''r'']
         else if n < 32 \<or> n = 127 then [CHR 0x5C, CHR ''x'', hex_digit (n div 16), hex_digit (n mod 16)]
         else [c])"

definition go_quote :: "string \<Rightarrow> string" where
  "go_quote s = [CHR 0x22] @ concat (List.map quote_char s) @ [CHR 0x22]"

section \<open>The renewal order\<close>

definition derived_order :: "Order \<Rightarrow> PaymentEvent \<Rightarrow> string \<Rightarrow> string \<Rightarrow> instant \<Rightarrow> Order" where
  "derived_order x e key outTradeNo now =
     \<lparr>or_ID = 0, or_OutTradeNo = outTradeNo, or_LicenseKey = [], or_UserID = or_UserID x,
      or_SKUCode = or_SKUCode x, or_Amount = firstPositiveAmount [pe_Amount e, or_Amount x],
      or_Currency = firstNonEmptyString [pe_Currency e, or_Currency x],
      or_Status = renewalOrderStatusFromEvent (pe_EventType e),
      or_Provider = firstNonEmptyString [pe_Provider e, or_Provider x], or_TradeNo = pe_ProviderTradeNo e,
      or_ProviderCheckoutID = or_ProviderCheckoutID x, or_ProviderCustomerID = or_ProviderCustomerID x,
      or_CheckoutURL = [], or_IdempotencyKey = Some key,
      or_PaidAt = (if pe_EventType e = EventTypeRenewalPaid then Some now else None), or_FulfilledAt = None,
      or_Metadata = ''{'' @ go_quote ''source_out_trade_no'' @ '':'' @ go_quote (trim_space (or_OutTradeNo x)) @ ''}'',
      or_OrderType = OrderTypeRenewal\<rparr>"

definition resolveRenewalOrder :: "PaymentEvent \<Rightarrow> Order \<Rightarrow> Order service" where
  "resolveRenewalOrder e x =
     (if or_OrderType x = OrderTypeRenewal then ret x
      else if or_OrderType x \<noteq> OrderTypeCheckout \<or> trim_space (or_UserID x) = []
              \<or> trim_space (or_SKUCode x) = [] then ret x
      else andThen (subscriptionRenewalOrderIdempotencyKey (or_OutTradeNo x) e) (\<lambda>key.
        if_found (OrderRepo_GetByIdempotencyKey key) ret
          (andThen (renewalPaidAnchor e) (\<lambda>now.
           andThen (subscriptionRenewalOrderOutTradeNo key) (\<lambda>outTradeNo.
           andThen (attempt (OrderRepo_Create (derived_order x e key outTradeNo now))) (\<lambda>r.
           case r of
             Inr derived \<Rightarrow> ret derived
           | Inl err \<Rightarrow>
               andThen (attempt (OrderRepo_GetByIdempotencyKey key)) (\<lambda>r2.
               case r2 of Inr existing \<Rightarrow> ret existing | Inl _ \<Rightarrow> fail err)))))))"

text \<open>The order as paid on the event: what both the renewal and the first payment write.\<close>

definition paid_order :: "Order \<Rightarrow> PaymentEvent \<Rightarrow> instant \<Rightarrow> Order" where
  "paid_order x e now =
     x\<lparr>or_Status := OrderStatusPaid, or_Provider := firstNonEmptyString [pe_Provider e, or_Provider x],
       or_TradeNo := trim_space (pe_ProviderTradeNo e),
       or_PaidAt := (case or_PaidAt x of None \<Rightarrow> Some now | Some t \<Rightarrow> Some t)\<rparr>"

definition updateRenewalOrderStatus :: "Order \<Rightarrow> PaymentEvent \<Rightarrow> Order service" where
  "updateRenewalOrderStatus x e =
     (if or_OrderType x \<noteq> OrderTypeRenewal then ret x
      else if pe_EventType e = EventTypeRenewalPaid then
        andThen (renewalPaidAnchor e) (\<lambda>now.
        if or_Status x = OrderStatusFulfilled then ret x
        else let x' = paid_order x e now in andThen (OrderRepo_Update x') (\<lambda>_. ret x'))
      else if pe_EventType e = EventTypeRenewalFailed then
        (if or_Status x = OrderStatusPaid \<or> or_Status x = OrderStatusFulfilled then ret x
         else let x' = x\<lparr>or_Status := OrderStatusFailed\<rparr> in andThen (OrderRepo_Update x') (\<lambda>_. ret x'))
      else if pe_EventType e = EventTypeSubscriptionExpired then
        (let x' = (if or_Status x = OrderStatusPending \<or> or_Status x = OrderStatusCheckoutCreated
                   then x\<lparr>or_Status := OrderStatusFailed\<rparr> else x)
         in andThen (OrderRepo_Update x') (\<lambda>_. ret x'))
      else ret x)"

definition markInitialCheckoutPaid :: "Order \<Rightarrow> PaymentEvent \<Rightarrow> Order service" where
  "markInitialCheckoutPaid x e =
     (if or_OrderType x \<noteq> OrderTypeCheckout \<or> or_Status x = OrderStatusFulfilled then ret x
      else andThen (renewalPaidAnchor e) (\<lambda>now.
        let x' = paid_order x e now in andThen (OrderRepo_Update x') (\<lambda>_. ret x')))"

section \<open>The service\<close>

text \<open>
  The policies and the fulfillment service are interfaces; \<open>rs_wired\<close>: the required
  repositories are set.
\<close>

record renewal_service =
  rs_wired :: bool
  rs_uow :: bool
  rs_fulfillment :: "(Order \<Rightarrow> FulfillmentResult service) option"
  rs_policy :: "PaymentEvent \<Rightarrow> RenewalDecision"
  rs_access :: "Order \<Rightarrow> err + string list"
  rs_catalog :: "string list"

record RenewalResult =
  sr_Order :: Order
  sr_PolicyDecision :: RenewalDecision
  sr_Fulfillment :: "FulfillmentResult option"
  sr_GraceGrants :: "EntitlementGrant list"
  sr_ExpiredGrantIDs :: "string list"
  sr_AffectedGrants :: "EntitlementGrant list"
  sr_Note :: string

definition renewal_result :: "Order \<Rightarrow> RenewalDecision \<Rightarrow> string \<Rightarrow> RenewalResult" where
  "renewal_result x decision note =
     \<lparr>sr_Order = x, sr_PolicyDecision = decision, sr_Fulfillment = None, sr_GraceGrants = [],
      sr_ExpiredGrantIDs = [], sr_AffectedGrants = [], sr_Note = note\<rparr>"

definition active_grants_of :: "Order \<Rightarrow> string \<Rightarrow> EntitlementGrant list service" where
  "active_grants_of x entitlementID =
     EntitlementGrantRepo_List \<lparr>nq_UserID = or_UserID x, nq_EntitlementID = entitlementID,
       nq_Status = GrantStatusActive, nq_IncludeExpired = True, nq_Limit = 0, nq_Offset = 0\<rparr>"

definition grace_step ::
  "renewal_service \<Rightarrow> Order \<Rightarrow> instant \<Rightarrow> instant \<Rightarrow> string \<Rightarrow> EntitlementGrant list \<times> EntitlementGrant list
     \<Rightarrow> (EntitlementGrant list \<times> EntitlementGrant list) service" where
  "grace_step s x startsAt graceEnd entitlementID acc =
     andThen (createGrantWithRepos True (Some (rs_catalog s))
       \<lparr>ei_UserID = or_UserID x, ei_RegistrationID = [], ei_EntitlementID = entitlementID,
        ei_CreatedBy = ''system'', ei_Source = GrantSourceSubscriptionGrace, ei_StartsAt = startsAt,
        ei_ExpiresAt = Some graceEnd,
        ei_IdempotencyKey = subscriptionGraceGrantKey (or_OutTradeNo x) entitlementID\<rparr>) (\<lambda>grant.
     andThen (active_grants_of x entitlementID) (\<lambda>listed.
     ret (fst acc @ [grant], snd acc @ listed)))"

definition grace_days :: "int \<Rightarrow> int" where
  "grace_days n = (if n \<le> 0 then GracePeriodDays else n)"

definition ensureGraceGrants ::
  "renewal_service \<Rightarrow> PaymentEvent \<Rightarrow> Order \<Rightarrow> int \<Rightarrow> (EntitlementGrant list \<times> EntitlementGrant list) service" where
  "ensureGraceGrants s e x gracePeriodDays =
     andThen (renewalGraceStart e) (\<lambda>startsAt.
     andThen (of_sum (rs_access s x)) (\<lambda>entitlementIDs.
     for_each entitlementIDs
       (grace_step s x startsAt (add_date 0 0 (grace_days gracePeriodDays) startsAt)) ([], [])))"

definition expire_grant :: "instant \<Rightarrow> instant \<Rightarrow> EntitlementGrant \<Rightarrow> string list \<Rightarrow> string list service" where
  "expire_grant now anchor grant0 expired =
     (if eg_Source grant0 \<noteq> GrantSourceSubscriptionGrace then ret expired
      else if eg_StartsAt grant0 \<noteq> 0 \<and> anchor < eg_StartsAt grant0 then ret expired
      else case eg_ExpiresAt grant0 of
        None \<Rightarrow> ret expired
      | Some ends \<Rightarrow>
          if anchor < ends then ret expired
          else andThen (EntitlementGrantRepo_Update (grant0\<lparr>eg_Status := GrantStatusExpired,
                 eg_ExpiresAt := Some anchor, eg_UpdatedAt := now\<rparr>)) (\<lambda>_.
               ret (expired @ [eg_ID grant0])))"

definition expireGraceGrants :: "renewal_service \<Rightarrow> Order \<Rightarrow> instant \<Rightarrow> string list service" where
  "expireGraceGrants s x eventTime =
     (case rs_access s x of
        Inl err \<Rightarrow> if errors_is err ErrSubscriptionGraceUnsupported then ret [] else fail err
      | Inr entitlementIDs \<Rightarrow>
          andThen time_now (\<lambda>now.
          let anchor = (if eventTime = 0 then now else eventTime)
          in for_each entitlementIDs (\<lambda>entitlementID expired.
               andThen (active_grants_of x entitlementID) (\<lambda>grants.
               for_each grants (expire_grant now anchor) expired)) []))"

definition fulfill_with ::
  "renewal_service \<Rightarrow> Order \<Rightarrow> RenewalDecision \<Rightarrow> RenewalResult service" where
  "fulfill_with s x decision =
     (case rs_fulfillment s of
        None \<Rightarrow> fail ErrInvalidSubscriptionRenewal
      | Some fulfil \<Rightarrow> andThen (fulfil x) (\<lambda>fulfillment.
          ret ((renewal_result x decision (sd_Reason decision))\<lparr>sr_Fulfillment := Some fulfillment\<rparr>)))"

text \<open>The decision's effect on the renewal order.\<close>

definition apply_decision :: "renewal_service \<Rightarrow> PaymentEvent \<Rightarrow> Order \<Rightarrow> RenewalResult service" where
  "apply_decision s e x =
     (let decision = rs_policy s e; result = renewal_result x decision (sd_Reason decision)
      in if sd_Action decision = RenewalActionFulfillRenewal then fulfill_with s x decision
         else if sd_Action decision = RenewalActionGrantGrace then
           andThen (ensureGraceGrants s e x (sd_GracePeriodDays decision)) (\<lambda>(grants, affected).
           ret (result\<lparr>sr_GraceGrants := grants, sr_AffectedGrants := affected\<rparr>))
         else if sd_Action decision = RenewalActionExpireGrace then
           andThen (paymentEventReceivedAt e) (\<lambda>received.
           andThen (expireGraceGrants s x received) (\<lambda>expired.
           ret (result\<lparr>sr_ExpiredGrantIDs := expired\<rparr>)))
         else if sd_Action decision = RenewalActionNaturalExpiry \<or> sd_Action decision = RenewalActionIgnore
         then ret result
         else fail ErrInvalidSubscriptionRenewal)"

text \<open>
  A result that comes back with an error is dropped by the only caller and rolls the unit of
  work back: such exits are errors here.
\<close>

definition renewal_applyWithRepos :: "renewal_service \<Rightarrow> PaymentEvent \<Rightarrow> RenewalResult service" where
  "renewal_applyWithRepos s e =
     andThen (OrderRepo_GetByOutTradeNo (trim_space (pe_OutTradeNo e))) (\<lambda>x.
     if isCheckoutBackedRenewalEventFromOrder x e then
       (let decision = \<lparr>sd_Action = RenewalActionFulfillCheckout, sd_Reason = ''initial_subscription_paid'',
              sd_GracePeriodDays = 0\<rparr>
        in andThen (reject_if (rs_fulfillment s = None) ErrInvalidSubscriptionRenewal) (\<lambda>_.
           andThen (markInitialCheckoutPaid x e) (\<lambda>x'. fulfill_with s x' decision)))
     else
       andThen (resolveRenewalOrder e x) (\<lambda>x1.
       if or_OrderType x1 \<noteq> OrderTypeRenewal \<or> trim_space (or_UserID x1) = [] \<or> trim_space (or_SKUCode x1) = []
       then ret (renewal_result x1 \<lparr>sd_Action = RenewalActionIgnore,
              sd_Reason = ''unsupported_subscription_event'', sd_GracePeriodDays = 0\<rparr>
              ''non_subscription_renewal_order_ignored'')
       else andThen (updateRenewalOrderStatus x1 e) (apply_decision s e)))"

definition withSubscriptionRenewalTransaction :: "renewal_service \<Rightarrow> 'a service \<Rightarrow> 'a service" where
  "withSubscriptionRenewalTransaction s fn = (if rs_uow s then in_transaction fn else fn)"

definition Renewal_Apply :: "renewal_service \<Rightarrow> PaymentEvent \<Rightarrow> RenewalResult service" where
  "Renewal_Apply s e =
     andThen (reject_if (trim_space (pe_OutTradeNo e) = [] \<or> \<not> rs_wired s) ErrInvalidSubscriptionRenewal) (\<lambda>_.
     andThen (reject_if (\<not> isSubscriptionRenewalEventType (pe_EventType e)) ErrInvalidSubscriptionRenewal) (\<lambda>_.
     andThen (isCheckoutBackedRenewalEvent e) (\<lambda>backed.
     if pe_EventType e = EventTypeRenewalPaid \<and> \<not> backed then renewal_applyWithRepos s e
     else withSubscriptionRenewalTransaction s (renewal_applyWithRepos s e))))"

end
