(* ===== verification/Payment_Flow.thy ===== *)
theory Payment_Flow
  imports Payment_Event_Theorems Payment_Adjustment Subscription_Renewal
begin

text \<open>
  The payment flow as the process assembles it (app/bootstrap/bootstrap.go): the inbox, the
  order processor, fulfillment, adjustment and renewal.  The processors keep the contract of
  the inbox, so the properties of the inbox hold of the assembled service.
\<close>

definition payment_processor ::
  "fulfillment_service \<Rightarrow> payment_adjustment_service \<Rightarrow> renewal_service \<Rightarrow> PaymentEvent \<Rightarrow> unit service" where
  "payment_processor f a r = PaymentFulfillment_ProcessPaymentEvent
     \<lparr>pf_orders = True,
      pf_orderEvents = Some PaymentOrder_ProcessPaymentEvent,
      pf_fulfillment = Some (FulfillOrder f),
      pf_adjustment = Some (\<lambda>e. andThen (Adjustment_Apply a e) (\<lambda>_. ret ())),
      pf_renewal = Some (\<lambda>e. andThen (Renewal_Apply (r\<lparr>rs_fulfillment := Some (FulfillOrder f)\<rparr>) e) (\<lambda>_. ret ()))\<rparr>"

section \<open>The collaborators leave the inbox alone\<close>

lemma untouched_order_events: "untouched tb_events (PaymentOrder_ProcessPaymentEvent e)"
proof -
  have step: "untouched tb_events (case order_after_event x e now of Unprocessable \<Rightarrow> fail err
      | Unchanged \<Rightarrow> ret () | Changed x' \<Rightarrow> OrderRepo_Update x')" for x now err
    unfolding OrderRepo_Update_def by (cases "order_after_event x e now") (auto intro!: untouched_rules)
  show ?thesis
    unfolding PaymentOrder_ProcessPaymentEvent_def OrderRepo_GetByOutTradeNo_def
    by (intro untouched_rules step)
qed

interpretation order_events: event_processor PaymentOrder_ProcessPaymentEvent
  by unfold_locales (rule untouched_order_events)

lemma untouched_FulfillOrder [untouched_rules]:
  assumes "\<And>g d. f (tb_executions_update g d) = f d" "\<And>g d. f (tb_grants_update g d) = f d"
    and "\<And>g d. f (tb_accounts_update g d) = f d" "\<And>g d. f (tb_transactions_update g d) = f d"
    and "\<And>g d. f (tb_buckets_update g d) = f d" "\<And>g d. f (tb_orders_update g d) = f d"
  shows "untouched f (FulfillOrder s x)"
proof -
  have persist: "untouched f (persist_failed e u)" for e u
    unfolding persist_failed_def FulfillmentExecutionRepo_GetByIdempotencyKey_def
    by (intro untouched_rules assms)
  have "untouched f (fulfillOrderWithRepos s x)"
    unfolding fulfillOrderWithRepos_def finish_order_def ensureFulfillmentUser_def Let_def
      OrderRepo_GetByOutTradeNo_def UserRepo_GetByID_def FulfillmentExecutionRepo_List_def OrderRepo_Update_def
    by (intro untouched_rules assms)
  then show ?thesis
    unfolding FulfillOrder_def withFulfillmentTransaction_def persistFailedExecutions_def
    by (intro untouched_rules persist) assumption+
qed

lemma untouched_adjustment: "untouched tb_events (Adjustment_Apply a e)"
  unfolding Adjustment_Apply_def withAdjustmentTransaction_def adjustment_applyWithRepos_def Let_def
    OrderRepo_GetByOutTradeNo_def FulfillmentExecutionRepo_List_def createPaymentRiskFlag_def
    PaymentRiskFlagRepo_GetByProviderEventID_def PaymentRiskFlagRepo_Create_def
    paymentAdjustmentUsageSnapshot_def usage_step_def Decide_def refundDecision_def refundWindow_def
    compensate_def revokeFulfilledGrant_def clawbackFulfilledCredits_def apply_clawback_def book_clawback_def
    credit_repo_defs CreditTransactionRepo_GetByID_def EntitlementGrantRepo_GetByID_def EntitlementGrantRepo_Update_def
  by (intro untouched_rules) simp_all

lemma readonly_event_instants [atomic_rules]:
  "readonly (paymentEventReceivedAt e)" "readonly (renewalPaidAnchor e)" "readonly (renewalGraceStart e)"
  unfolding paymentEventReceivedAt_def renewalPaidAnchor_def renewalGraceStart_def
  by (intro atomic_rules)+

lemma readonly_renewal_keys [atomic_rules]:
  "readonly (subscriptionRenewalOrderOutTradeNo k)" "readonly (subscriptionRenewalOrderIdempotencyKey n e)"
  "readonly (isCheckoutBackedRenewalEvent e)" "readonly (active_grants_of x i)"
proof -
  show "readonly (subscriptionRenewalOrderOutTradeNo k)"
    by (simp add: readonly_def subscriptionRenewalOrderOutTradeNo_def)
  show "readonly (subscriptionRenewalOrderIdempotencyKey n e)"
    unfolding subscriptionRenewalOrderIdempotencyKey_def subscriptionRenewalCycleKey_def Let_def
    by (intro atomic_rules)
  have "readonly (case r of Inl err \<Rightarrow> ret False | Inr x \<Rightarrow> ret (g x))" for r :: "err + Order" and g
    by (cases r) (simp_all add: atomic_rules)
  then show "readonly (isCheckoutBackedRenewalEvent e)"
    unfolding isCheckoutBackedRenewalEvent_def OrderRepo_GetByOutTradeNo_def
    by (intro atomic_rules)
  show "readonly (active_grants_of x i)"
    unfolding active_grants_of_def EntitlementGrantRepo_List_def by (intro atomic_rules)
qed

lemmas untouched_event_reads [untouched_rules] =
  readonly_event_instants [THEN untouched_readonly] readonly_renewal_keys [THEN untouched_readonly]

lemma untouched_OrderRepo_Create [untouched_rules]:
  "(\<And>g d. f (tb_orders_update g d) = f d) \<Longrightarrow> untouched f (OrderRepo_Create x)"
  unfolding OrderRepo_Create_def untouched_def Let_def by (auto intro!: keeps_db_write)

lemma untouched_grace:
  assumes "\<And>g d. f (tb_grants_update g d) = f d"
  shows "untouched f (ensureGraceGrants s e x n)" "untouched f (expireGraceGrants s x t)"
  unfolding ensureGraceGrants_def expireGraceGrants_def grace_step_def expire_grant_def Let_def
    EntitlementGrantRepo_Update_def
  by (intro untouched_rules assms)+

lemma untouched_Renewal_Apply:
  assumes "\<And>g d. f (tb_grants_update g d) = f d" "\<And>g d. f (tb_orders_update g d) = f d"
    and "\<And>fulfil x. rs_fulfillment r = Some fulfil \<Longrightarrow> untouched f (fulfil x)"
  shows "untouched f (Renewal_Apply r e)"
proof -
  have fulfil: "untouched f (fulfill_with r x d)" for x d
    unfolding fulfill_with_def using assms(3) by (auto split: option.split intro!: untouched_rules)
  have decision: "untouched f (apply_decision r e x)" for x
    unfolding apply_decision_def Let_def
    by (intro untouched_rules fulfil untouched_grace assms)
  have "untouched f (renewal_applyWithRepos r e)"
    unfolding renewal_applyWithRepos_def resolveRenewalOrder_def updateRenewalOrderStatus_def
      markInitialCheckoutPaid_def OrderRepo_GetByOutTradeNo_def OrderRepo_GetByIdempotencyKey_def
      OrderRepo_Update_def Let_def
    by (intro untouched_rules fulfil decision assms)
  then show ?thesis
    unfolding Renewal_Apply_def withSubscriptionRenewalTransaction_def
    by (intro untouched_rules)
qed

lemma untouched_payment_processor: "untouched tb_events (payment_processor f a r e)"
proof -
  have fulfil: "untouched tb_events (FulfillOrder f x)" for x by (intro untouched_rules) simp_all
  have renew: "untouched tb_events (Renewal_Apply (r\<lparr>rs_fulfillment := Some (FulfillOrder f)\<rparr>) e)"
    by (rule untouched_Renewal_Apply) (auto simp: fulfil)
  show ?thesis
    unfolding payment_processor_def PaymentFulfillment_ProcessPaymentEvent_def fulfill_paid_event_def
      OrderRepo_GetByOutTradeNo_def
    by (simp, intro conjI impI; intro untouched_rules untouched_order_events untouched_adjustment fulfil renew)
qed

interpretation payment_flow: event_processor "payment_processor f a r"
  by unfold_locales (rule untouched_payment_processor)

section \<open>Runs of the inbox\<close>

datatype inbox_call = Receive PaymentWebhookInput | Reprocess string

definition run_inbox_call :: "payment_event_service \<Rightarrow> inbox_call \<Rightarrow> database world \<Rightarrow> database" where
  "run_inbox_call s c w =
     (case c of Receive input \<Rightarrow> db (snd (ReceiveWebhook s input w))
      | Reprocess i \<Rightarrow> db (snd (ProcessStoredEvent s i w)))"

definition reopens :: "inbox_call \<Rightarrow> bool" where
  "reopens c \<longleftrightarrow> (case c of Receive _ \<Rightarrow> False | Reprocess _ \<Rightarrow> True)"

text \<open>
  Data that the inbox calls reach from an empty inbox, with any changes to other tables in
  between.
\<close>

inductive inbox_reachable :: "payment_event_service \<Rightarrow> database \<Rightarrow> bool" for s where
  empty: "tb_events d = [] \<Longrightarrow> inbox_reachable s d"
| call: "inbox_reachable s (db w) \<Longrightarrow> inbox_reachable s (run_inbox_call s c w)"
| other: "inbox_reachable s d \<Longrightarrow> tb_events d' = tb_events d \<Longrightarrow> inbox_reachable s d'"

definition assembled :: "payment_event_service \<Rightarrow> bool" where
  "assembled s \<longleftrightarrow> (\<exists>f a r. es_processor s = Some (payment_processor f a r))"

lemma inbox_call_steps:
  assumes "assembled s" "table_ok event_clash (tb_events (db w))"
  shows "inbox_after (reopens c) (tb_events (db w)) (run_inbox_call s c w)"
proof -
  obtain f a r where p: "es_processor s \<in> {None, Some (payment_processor f a r)}"
    using assms(1) by (auto simp: assembled_def)
  show ?thesis
    using payment_flow.wp_ReceiveWebhook [OF assms(2) p] payment_flow.wp_ProcessStoredEvent [OF assms(2) p]
    by (cases c) (auto simp: run_inbox_call_def reopens_def wp_result)
qed

lemma inbox_steps_inv:
  assumes "(inbox_step force)\<^sup>*\<^sup>* t t'" "table_ok event_clash t" "\<forall>e\<in>set t. event_ok e"
  shows "table_ok event_clash t' \<and> (\<forall>e\<in>set t'. event_ok e)"
  using assms by (induction rule: rtranclp_induct) (auto dest: inbox_step_inv)

lemma inbox_steps_final:
  assumes "(inbox_step force)\<^sup>*\<^sup>* t t'" "table_ok event_clash t" "\<forall>e\<in>set t. event_ok e"
    and "e \<in> set t" "pe_Status e \<in> {EventStatusProcessed, EventStatusIgnored}"
  shows "e \<in> set t'"
  using assms(1)
proof (induction rule: rtranclp_induct)
  case (step t1 t2)
  have "table_ok event_clash t1" using inbox_steps_inv [OF step(1) assms(2,3)] by simp
  with step assms(5) show ?case by (blast intro: inbox_step_final)
qed (rule assms(4))

lemma inbox_reachable_inv:
  assumes "inbox_reachable s d" "assembled s"
  shows "table_ok event_clash (tb_events d) \<and> (\<forall>e\<in>set (tb_events d). event_ok e)"
  using assms(1)
proof induction
  case (call w c)
  then show ?case
    using inbox_call_steps [OF assms(2), of w c]
      inbox_steps_inv [of "reopens c" "tb_events (db w)" "tb_events (run_inbox_call s c w)"]
    by (simp add: inbox_after_def)
qed (simp_all add: table_ok_def)

text \<open>The event row of a verified delivery.\<close>

definition delivery_key :: "PaymentWebhookInput \<Rightarrow> VerifiedWebhookEvent \<Rightarrow> string \<times> string" where
  "delivery_key input v = (trim_space (wi_Provider input), trim_space (ve_ProviderEventID v))"

lemma wp_redelivered:
  assumes "es_gateway s = Some verify"
    and "verify (input\<lparr>wi_Provider := trim_space (wi_Provider input)\<rparr>) = Inr (Some v)"
    and "find_row (\<lambda>e. (pe_Provider e, pe_ProviderEventID e)) (delivery_key input v) (tb_events (db w)) = Some e"
    and "isPaymentEventTerminal (pe_Status e)"
  shows "wp (ReceiveWebhook s input)
    (\<lambda>(res, f) w'. db w' = db w \<and> f = None \<and> pp_Duplicate res \<and> pp_Event res = e)
    (\<lambda>_ w'. db w' = db w) w"
proof -
  have intake: "wp (if_found (store_find tb_events (\<lambda>e. (pe_Provider e, pe_ProviderEventID e))
        (pe_Provider x, pe_ProviderEventID x)) (redeliver (es_processor s)) missing)
      (\<lambda>(res, f) w'. db w' = db w \<and> f = None \<and> pp_Duplicate res \<and> pp_Event res = e)
      (\<lambda>_ w'. db w' = db w) w1"
    if "db w1 = db w" "pe_Provider x = trim_space (wi_Provider input)"
      "pe_ProviderEventID x = trim_space (ve_ProviderEventID v)" for x w1 missing
    using that assms(3,4) by (simp add: wp_simps redeliver_def delivery_key_def split: option.split)
  show ?thesis
    unfolding ReceiveWebhook_def Let_def PaymentEventRepo_GetByProviderEventID_def
    using assms(1,2)
    by (auto simp: wp_andThen wp_reject_if wp_fail of_sum_def wp_ret
      intro!: wp_mono [OF wp_eventFromVerified] intake)
qed

section \<open>Properties\<close>

text \<open>C19: Every call of the inbox with the assembled processor, whatever the gateway, the clock and the
  storage do and whether it succeeds or fails, changes the events only by steps of the event
  state machine: receive a verified new event, begin, ignore or defer an open one, and finish
  one that is being processed; only an explicit reprocessing reopens an event in review.\<close>

theorem inbox_refines_state_machine:
  assumes "assembled s" "inbox_reachable s (db w)"
  shows "(inbox_step (reopens c))\<^sup>*\<^sup>* (tb_events (db w)) (tb_events (run_inbox_call s c w))"
  using inbox_call_steps [OF assms(1)] inbox_reachable_inv [OF assms(2,1)] by (simp add: inbox_after_def)

text \<open>C20: In every reachable state the inbox holds each provider event once, with a verified
  signature, and the status is consistent: exactly the processed and ignored events carry a
  processing time, only processable event types are ever processed, failed or in review, and
  a processed event has no error.\<close>

theorem inbox_consistent:
  assumes "assembled s" "inbox_reachable s d"
  shows "table_ok event_clash (tb_events d) \<and> (\<forall>e\<in>set (tb_events d). event_ok e)"
  using inbox_reachable_inv [OF assms(2,1)] .

text \<open>A processed or ignored event is final: no later webhook or reprocessing of any event
  changes or removes it.\<close>

theorem processed_event_final:
  assumes "assembled s" "inbox_reachable s (db w)"
    and "e \<in> set (tb_events (db w))" "pe_Status e \<in> {EventStatusProcessed, EventStatusIgnored}"
  shows "e \<in> set (tb_events (run_inbox_call s c w))"
proof -
  have "inbox_after (reopens c) (tb_events (db w)) (run_inbox_call s c w)"
    using inbox_call_steps [OF assms(1)] inbox_reachable_inv [OF assms(2,1)] by blast
  then show ?thesis
    using inbox_steps_final [OF _ _ _ assms(3,4)] inbox_reachable_inv [OF assms(2,1)]
    unfolding inbox_after_def by blast
qed

text \<open>Effects of an event happen once: when a verified delivery names an event whose stored row is
  processed, ignored or in review, the call changes no data of any table and, unless the
  storage fails, answers with that row as a duplicate.\<close>

theorem redelivery_changes_nothing:
  assumes "es_gateway s = Some verify"
    and "verify (input\<lparr>wi_Provider := trim_space (wi_Provider input)\<rparr>) = Inr (Some v)"
    and "find_row (\<lambda>e. (pe_Provider e, pe_ProviderEventID e)) (delivery_key input v) (tb_events (db w)) = Some e"
    and "isPaymentEventTerminal (pe_Status e)"
    and "ReceiveWebhook s input w = (r, w')"
  shows "db w' = db w \<and> (\<forall>res f. r = Inr (res, f) \<longrightarrow> f = None \<and> pp_Duplicate res \<and> pp_Event res = e)"
  using wp_redelivered [OF assms(1-4)] assms(5) by (cases r) (auto simp: wp_def)

text \<open>A webhook that the gateway rejects, answers with nothing, or does not mark as verified is
  refused and changes no data.\<close>

theorem unverified_webhook_refused:
  assumes "\<And>verify. es_gateway s = Some verify \<Longrightarrow>
      (case verify (input\<lparr>wi_Provider := trim_space (wi_Provider input)\<rparr>) of
         Inr (Some v) \<Rightarrow> \<not> ve_SignatureVerified v | _ \<Rightarrow> True)"
    and "ReceiveWebhook s input w = (r, w')"
  shows "db w' = db w \<and> isl r"
proof -
  have "wp (ReceiveWebhook s input) (\<lambda>_ _. False) (\<lambda>_ w'. db w' = db w) w"
    unfolding ReceiveWebhook_def Let_def eventFromVerified_def
    using assms(1) by (auto simp: wp_simps of_sum_def split: option.split sum.split option.splits sum.splits)
  with assms(2) show ?thesis by (cases r) (auto simp: wp_def)
qed

section \<open>Witnesses\<close>

definition sample_adjustment :: payment_adjustment_service where
  "sample_adjustment = \<lparr>as_wired = True, as_uow = True, as_buckets = True, as_risk_flags = True,
     as_policy = DefaultPaymentAdjustmentPolicyConfig\<rparr>"

definition sample_renewal :: renewal_service where
  "sample_renewal = \<lparr>rs_wired = True, rs_uow = True, rs_fulfillment = None,
     rs_policy = Renewal_Decide DefaultSubscriptionRenewalPolicyConfig,
     rs_access = GraceEntitlementIDs DefaultSubscriptionAccessPolicy, rs_catalog = DefaultEntitlementCatalog\<rparr>"

definition sample_verified :: "string \<Rightarrow> VerifiedWebhookEvent" where
  "sample_verified t = \<lparr>ve_ProviderEventID = ''evt_1'', ve_EventType = t, ve_OutTradeNo = ''T1'',
     ve_ProviderTradeNo = ''ch_1'', ve_Amount = 990, ve_Currency = ''USD'', ve_PeriodStartAt = None,
     ve_PeriodEndAt = None, ve_SignatureVerified = True, ve_RawPayload = ''{}''\<rparr>"

definition sample_inbox :: "string \<Rightarrow> payment_event_service" where
  "sample_inbox t = \<lparr>es_gateway = Some (\<lambda>_. Inr (Some (sample_verified t))),
     es_processor = Some (payment_processor (sample_fulfillment ''30d'') sample_adjustment sample_renewal)\<rparr>"

definition sample_webhook :: PaymentWebhookInput where
  "sample_webhook = \<lparr>wi_Provider = '' creem'', wi_Headers = [], wi_Params = [], wi_RawPayload = ''{}''\<rparr>"

definition w_pending :: "database world" where "w_pending = sample_world 0 (orders_db OrderStatusPending)"

text \<open>A paid event is received, the order is paid and fulfilled.\<close>

definition w_delivered :: "database world" where
  "w_delivered = snd (ReceiveWebhook (sample_inbox EventTypePaid) sample_webhook w_pending)"

lemma delivered_status: "List.map pe_Status (tb_events (db w_delivered)) = [EventStatusProcessed]"
  by code_simp

lemma sample_assembled: "assembled (sample_inbox t)"
  by (auto simp: assembled_def sample_inbox_def)

lemma sample_inbox_reachable:
  "inbox_reachable (sample_inbox EventTypePaid) (db w_pending)"
  "inbox_reachable (sample_inbox EventTypePaid) (db w_delivered)"
proof -
  show start: "inbox_reachable (sample_inbox EventTypePaid) (db w_pending)"
    by (rule inbox_reachable.empty)
      (simp add: w_pending_def sample_world_def orders_db_def users_db_def empty_database_def)
  show "inbox_reachable (sample_inbox EventTypePaid) (db w_delivered)"
    using inbox_reachable.call [OF start, of "Receive sample_webhook"]
    by (simp only: run_inbox_call_def inbox_call.case w_delivered_def)
qed

lemma inbox_refines_state_machine_witness:
  "(inbox_step False)\<^sup>*\<^sup>* (tb_events (db w_pending)) (tb_events (db w_delivered))
   \<and> List.map pe_Status (tb_events (db w_delivered)) = [EventStatusProcessed]"
proof
  show "(inbox_step False)\<^sup>*\<^sup>* (tb_events (db w_pending)) (tb_events (db w_delivered))"
    using inbox_refines_state_machine [OF sample_assembled sample_inbox_reachable(1), of "Receive sample_webhook"]
    by (simp only: run_inbox_call_def inbox_call.case reopens_def w_delivered_def)
qed (rule delivered_status)

lemma delivered_event:
  "\<exists>e. find_row (\<lambda>e. (pe_Provider e, pe_ProviderEventID e)) (delivery_key sample_webhook (sample_verified EventTypeRefunded))
     (tb_events (db w_delivered)) = Some e \<and> pe_Status e = EventStatusProcessed"
proof -
  have "map_option pe_Status (find_row (\<lambda>e. (pe_Provider e, pe_ProviderEventID e))
      (delivery_key sample_webhook (sample_verified EventTypeRefunded)) (tb_events (db w_delivered)))
    = Some EventStatusProcessed" by code_simp
  then show ?thesis by blast
qed

lemma inbox_consistent_witness:
  "\<exists>e. e \<in> set (tb_events (db w_delivered)) \<and> pe_Status e = EventStatusProcessed \<and> event_ok e"
proof -
  obtain e where "e \<in> set (tb_events (db w_delivered))" "pe_Status e = EventStatusProcessed"
    using delivered_event find_row_found by fastforce
  with inbox_consistent [OF sample_assembled sample_inbox_reachable(2)] show ?thesis by blast
qed

lemma processed_event_final_witness:
  "\<exists>e. e \<in> set (tb_events (run_inbox_call (sample_inbox EventTypePaid) (Receive sample_webhook) w_delivered))
     \<and> pe_Status e = EventStatusProcessed"
proof -
  obtain e where "e \<in> set (tb_events (db w_delivered))" "pe_Status e = EventStatusProcessed"
    using delivered_event find_row_found by fastforce
  with processed_event_final [OF sample_assembled sample_inbox_reachable(2), of e "Receive sample_webhook"]
  show ?thesis by blast
qed

lemma redelivery_changes_nothing_witness:
  "db (snd (ReceiveWebhook (sample_inbox EventTypeRefunded) sample_webhook w_delivered)) = db w_delivered"
proof -
  obtain e where e: "find_row (\<lambda>e. (pe_Provider e, pe_ProviderEventID e))
      (delivery_key sample_webhook (sample_verified EventTypeRefunded)) (tb_events (db w_delivered)) = Some e"
    "pe_Status e = EventStatusProcessed" using delivered_event by blast
  have gate: "es_gateway (sample_inbox EventTypeRefunded) = Some (\<lambda>_. Inr (Some (sample_verified EventTypeRefunded)))"
    by (simp add: sample_inbox_def)
  have "isPaymentEventTerminal (pe_Status e)" by (simp add: e(2) isPaymentEventTerminal_def)
  from redelivery_changes_nothing [OF gate refl e(1) this prod.collapse [symmetric]]
  show ?thesis by (rule conjunct1)
qed

lemma unverified_webhook_refused_witness:
  "db (snd (ReceiveWebhook ((sample_inbox EventTypePaid)\<lparr>es_gateway :=
      Some (\<lambda>_. Inr (Some ((sample_verified EventTypePaid)\<lparr>ve_SignatureVerified := False\<rparr>)))\<rparr>) sample_webhook w_pending))
   = db w_pending"
  by (rule unverified_webhook_refused [OF _ prod.collapse [symmetric], THEN conjunct1]) auto

end
