(* ===== verification/Payment_Adjustment_Theorems.thy ===== *)
theory Payment_Adjustment_Theorems
  imports Payment_Flow
begin

text \<open>
  The properties of orders under payment events and of refunds, disputes and cancellations:
  which order states an event may change, what the policy decides, that compensation revokes
  the delivered grants and claws back credits once, within bounds, keeping the ledger
  consistent, and what a failed adjustment leaves behind.
\<close>

section \<open>Clawback of credits\<close>

text \<open>
  What booking a clawback changes: one entry of type clawback, the balance of its account by that
  entry, and buckets that never gain.
\<close>

definition clawback_booked ::
  "CreditTransaction \<Rightarrow> string \<Rightarrow> int \<Rightarrow> database \<Rightarrow> int \<times> CreditTransaction option \<Rightarrow> database \<Rightarrow> bool" where
  "clawback_booked original k amount d r d' \<longleftrightarrow> (\<exists>t. r = (amount, Some t) \<and> ct_Amount t = - amount
     \<and> ct_Type t = TxClawback \<and> ct_IdempotencyKey t = k \<and> ct_AccountID t = ct_AccountID original
     \<and> tb_transactions d' = tb_transactions d @ [t] \<and> tb_executions d' = tb_executions d
     \<and> balances_follow [t] (tb_accounts d) (tb_accounts d')
     \<and> (\<forall>b'\<in>set (tb_buckets d'). \<exists>b\<in>set (tb_buckets d). cb_ID b' = cb_ID b \<and> cb_AccountID b' = cb_AccountID b
          \<and> cb_Remaining b' \<le> cb_Remaining b))"

text \<open>The bucket a clawback names has given the amount.\<close>

definition bucket_drained :: "CreditBucket option \<Rightarrow> int \<Rightarrow> database \<Rightarrow> bool" where
  "bucket_drained bucket amount d' \<longleftrightarrow> (\<forall>b. bucket = Some b \<longrightarrow>
     (\<forall>b'\<in>set (tb_buckets d'). cb_ID b' = cb_ID b \<longrightarrow> cb_Remaining b' = cb_Remaining b - amount))"

lemma balances_follow_zero: "(\<forall>t\<in>set ts. ct_Amount t = 0) \<Longrightarrow> balances_follow ts as as"
  by (auto simp: balances_follow_def intro!: list.rel_refl_strong sum_rows_zero)

lemma same_bucket:
  assumes "credit_inv d" "b \<in> set (tb_buckets d)" "b' \<in> set (tb_buckets d)" "cb_ID b' = cb_ID b"
  shows "b' = b"
proof (rule buckets.same_row [OF credit_open_tables(2) [of "[]" 0 0 0 "\<lambda>_. 0" d] assms(3,2)])
  show "bucket_clash b' b" using assms(4) by (simp add: bucket_clash_def)
qed (use assms(1) in \<open>simp add: credit_inv_def\<close>)

definition backed_amount :: "CreditAccount \<Rightarrow> CreditBucket option \<Rightarrow> int \<Rightarrow> database \<Rightarrow> bool" where
  "backed_amount a bucket amount d \<longleftrightarrow> 0 \<le> amount \<and> amount \<le> ca_Balance a
     \<and> (case bucket of None \<Rightarrow> amount = 0
        | Some b \<Rightarrow> b \<in> set (tb_buckets d) \<and> cb_AccountID b = ca_ID a \<and> amount \<le> cb_Remaining b)"

lemma wlp_clawback_transaction:
  assumes "credit_inv d" "ca_ID account = k" "k \<in> account_ids d" "ct_AccountID original = k"
  shows "wlp (andThen (newCreditTransaction
          \<lparr>ti_Account = account, ti_ReservationID = [], ti_BucketID = bid, ti_TransactionType = TxClawback,
           ti_Amount = 0, ti_IdempotencyKey = key, ti_Source = src, ti_Description = desc, ti_CreatedAt = now\<rparr>)
        (\<lambda>t. ret (0, Some t)))
      (\<lambda>r d'. credit_inv d' \<and> clawback_booked original key 0 d r d' \<and> tb_buckets d' = tb_buckets d) d"
proof -
  have inv: "credit_open k 0 0 0 (\<lambda>_. 0) d" using assms(1) by (simp add: credit_inv_open [of d k])
  show ?thesis
    by (rule wlp_andThen, rule wlp_newCreditTransaction [OF inv, where amt = 0])
      (use assms in \<open>auto simp: credit_inv_open [of _ k] clawback_booked_def intro!: wlp_ret balances_follow_zero\<close>)
qed

lemma wlp_book_clawback:
  assumes inv: "credit_inv d" and a: "account0 \<in> set (tb_accounts d)" "ca_ID account0 = ct_AccountID original"
    and backed: "backed_amount account0 bucket amount d"
  shows "wlp (book_clawback x original key account0 bucket amount)
     (\<lambda>r d'. credit_inv d' \<and> clawback_booked original key amount d r d' \<and> bucket_drained bucket amount d') d"
proof (cases "0 < amount")
  case False
  then have zero: "amount = 0" using backed by (simp add: backed_amount_def)
  have known: "ca_ID account0 \<in> account_ids d" using a(1) by (simp add: account_ids_def)
  have drained: "bucket_drained bucket 0 d"
    unfolding bucket_drained_def
  proof (intro allI impI ballI)
    fix b b'
    assume b: "bucket = Some b" "b' \<in> set (tb_buckets d)" "cb_ID b' = cb_ID b"
    then have "b \<in> set (tb_buckets d)" using backed by (simp add: backed_amount_def)
    then have "b' = b" by (rule same_bucket [OF inv _ b(2,3)])
    then show "cb_Remaining b' = cb_Remaining b - 0" by simp
  qed
  have booked: "wlp (andThen (newCreditTransaction
          \<lparr>ti_Account = account0, ti_ReservationID = [], ti_BucketID = bid, ti_TransactionType = TxClawback,
           ti_Amount = 0, ti_IdempotencyKey = key, ti_Source = src, ti_Description = desc, ti_CreatedAt = now\<rparr>)
        (\<lambda>t. ret (0, Some t)))
      (\<lambda>r d'. credit_inv d' \<and> clawback_booked original key 0 d r d' \<and> bucket_drained bucket 0 d') d" for bid src desc now
    by (rule wlp_mono [OF wlp_clawback_transaction [OF inv refl known a(2) [symmetric]]])
      (use drained in \<open>simp only: bucket_drained_def simp_thms\<close>)
  show ?thesis
    unfolding book_clawback_def zero Let_def
    apply (rule wlp_andThen, rule wlp_time_now, simp only: less_irrefl if_False)
    apply (rule wlp_andThen, rule wlp_ret, rule wlp_andThen)
    apply (cases bucket; simp only: option.case; rule wlp_ret)
     apply (simp_all only: wrap64_0 minus_zero)
    subgoal premises none by (rule booked [unfolded none])
    subgoal premises some by (rule booked [unfolded some])
    done
next
  case True
  obtain b where b: "bucket = Some b" "b \<in> set (tb_buckets d)" "cb_AccountID b = ca_ID account0"
      "amount \<le> cb_Remaining b"
    using backed True by (cases bucket) (auto simp: backed_amount_def)
  let ?k = "ca_ID account0"
  have open0: "credit_open ?k 0 0 0 (\<lambda>_. 0) d" using inv by (simp add: credit_inv_open [of d ?k])
  have a_ok: "account_ok ?k 0 0 0 d account0" by (rule credit_open_account [OF open0 a(1)])
  have b_ok: "bucket_ok (\<lambda>_. 0) d b" by (rule credit_open_bucket [OF open0 b(2)])
  have le: "amount \<le> ca_Balance account0" using backed by (simp add: backed_amount_def)
  have w: "wrap64 (ca_Balance account0 - amount) = ca_Balance account0 - amount"
    "wrap64 (cb_Remaining b - amount) = cb_Remaining b - amount" "wrap64 (- amount) = - amount"
    using a_ok b_ok le True b(4) by (auto simp: account_ok_def bucket_ok_def)
  show ?thesis
    unfolding book_clawback_def b(1) Let_def w option.case if_P [OF True] CreditAccountRepo_Update_def
      CreditBucketRepo_Update_def
    apply (rule wlp_andThen, rule wlp_time_now, rule wlp_andThen, rule wlp_store_save, rule wlp_andThen,
        rule wlp_store_save)
    subgoal premises prems for now ta tb
    proof -
      note w1 = account_write [OF open0 a(1) refl _ prems(1), of "- amount" 0 amount]
      have open1: "credit_open ?k (- amount) 0 amount (\<lambda>_. 0) (tb_accounts_update (\<lambda>_. ta) d)"
        by (rule w1(1)) (use a_ok le True in \<open>simp_all add: account_ok_def\<close>)
      have ids: "account_ids (tb_accounts_update (\<lambda>_. ta) d) = account_ids d"
        by (rule w1(3)) (use a_ok le True in \<open>simp_all add: account_ok_def\<close>)
      let ?d1 = "tb_accounts_update (\<lambda>_. ta) d"
      note w2 = bucket_write [OF open1 _ _ _ _ _ prems(2), of b 0 "\<lambda>_. 0"]
      have open2: "credit_open ?k (- amount) 0 0 (\<lambda>_. 0) (tb_buckets_update (\<lambda>_. tb) ?d1)"
        by (rule w2(1)) (use b b_ok True in \<open>auto simp: bucket_ok_def\<close>)
      have tb: "tb = replace_row cb_ID (b\<lparr>cb_Remaining := cb_Remaining b - amount,
          cb_Status := (if cb_Remaining b - amount = 0 \<and> cb_Reserved b = 0 then BucketDepleted else cb_Status b),
          cb_UpdatedAt := now\<rparr>) (tb_buckets d)"
        using bucket_saved [of b ?d1, OF _ _ prems(2)] b(2) by simp
      let ?a = "account0\<lparr>ca_Balance := ca_Balance account0 - amount, ca_UpdatedAt := now\<rparr>"
      have ta: "ta = replace_row ca_ID ?a (tb_accounts d)"
        by (rule account_saved [OF a(1) _ prems(1)]) simp
      have only: "\<forall>y\<in>set (tb_accounts d). ca_ID y = ca_ID account0 \<longrightarrow> y = account0"
        using same_account [OF inv, of ?k account0] a(1) by (simp add: holds_account_def)
      have follow: "balances_follow [y] (tb_accounts d) ta" if "ct_AccountID y = ?k" "ct_Amount y = - amount" for y
        using balances_follow_step [OF balances_follow_refl that(1) only, of ?a] that(2) by (simp add: ta)
      have drained: "cb_Remaining b' = cb_Remaining b - amount" if "b' \<in> set tb" "cb_ID b' = cb_ID b" for b'
        using that same_bucket [OF inv b(2)] unfolding tb by (auto elim!: replace_rowE)
      have known: "?k \<in> account_ids (tb_buckets_update (\<lambda>_. tb) ?d1)"
        using ids a(1) by (simp add: account_ids_def)
      show ?thesis
        apply (rule wlp_andThen, rule wlp_newCreditTransaction [OF open2, where amt = "- amount"])
           apply simp
          apply simp
         apply (rule known)
        apply (rule wlp_ret)
        subgoal premises t for y t
        proof
          show "credit_inv (tb_transactions_update (\<lambda>_. t) (tb_buckets_update (\<lambda>_. tb) ?d1))"
            using t(6) by (simp add: credit_inv_open [of _ ?k])
          have "\<exists>b0\<in>set (tb_buckets d). cb_ID b' = cb_ID b0 \<and> cb_AccountID b' = cb_AccountID b0
              \<and> cb_Remaining b' \<le> cb_Remaining b0"
            if "b' \<in> set tb" for b'
            using that b(2) True unfolding tb by (force elim!: replace_rowE)
          then show "clawback_booked original key amount d (amount, Some y)
              (tb_transactions_update (\<lambda>_. t) (tb_buckets_update (\<lambda>_. tb) ?d1))
            \<and> bucket_drained (Some b) amount (tb_transactions_update (\<lambda>_. t) (tb_buckets_update (\<lambda>_. tb) ?d1))"
            using t(1-4,7) a(2) follow [OF t(2,3)] drained by (simp add: clawback_booked_def bucket_drained_def)
        qed
        done
    qed
    done
qed

text \<open>
  The credits a fulfillment delivered can be taken back from a bucket of the same account, as
  every grant with buckets books them.
\<close>

definition clawback_backed :: "database \<Rightarrow> bool" where
  "clawback_backed d \<longleftrightarrow> (\<forall>e\<in>set (tb_executions d). \<forall>t\<in>set (tb_transactions d).
     fe_TargetType e = TargetCredits \<and> ct_ID t = fe_ResultRef e \<and> 0 < ct_Amount t
     \<longrightarrow> trim_space (ct_BucketID t) \<noteq> []
        \<and> (\<forall>b\<in>set (tb_buckets d). cb_ID b = ct_BucketID t \<longrightarrow> cb_AccountID b = ct_AccountID t))"

definition clawback_ready :: "database \<Rightarrow> bool" where
  "clawback_ready d \<longleftrightarrow> credit_inv d \<and> clawback_backed d"

lemma clawback_backed_booked:
  assumes "clawback_backed d" "clawback_booked original k amount d r d'" "0 \<le> amount"
  shows "clawback_backed d'"
proof -
  obtain t where t: "ct_Amount t = - amount" "tb_transactions d' = tb_transactions d @ [t]"
    "tb_executions d' = tb_executions d"
    "\<forall>b'\<in>set (tb_buckets d'). \<exists>b\<in>set (tb_buckets d). cb_ID b' = cb_ID b \<and> cb_AccountID b' = cb_AccountID b"
    using assms(2) unfolding clawback_booked_def by blast
  show ?thesis
    unfolding clawback_backed_def
  proof (intro ballI impI, elim conjE)
    fix e y
    assume e: "e \<in> set (tb_executions d')" "y \<in> set (tb_transactions d')" "fe_TargetType e = TargetCredits"
      "ct_ID y = fe_ResultRef e" "0 < ct_Amount y"
    then have "y \<in> set (tb_transactions d)" "e \<in> set (tb_executions d)" using t assms(3) by auto
    then have "trim_space (ct_BucketID y) \<noteq> []
        \<and> (\<forall>b\<in>set (tb_buckets d). cb_ID b = ct_BucketID y \<longrightarrow> cb_AccountID b = ct_AccountID y)"
      using assms(1) e(3-5) unfolding clawback_backed_def by blast
    then show "trim_space (ct_BucketID y) \<noteq> []
        \<and> (\<forall>b\<in>set (tb_buckets d'). cb_ID b = ct_BucketID y \<longrightarrow> cb_AccountID b = ct_AccountID y)"
      using t(4) by metis
  qed
qed

text \<open>
  The outcome of a clawback call: the earlier one; nothing, when the execution names no entry that
  delivered credits; or a booked one, which takes back all that was delivered unless it has taken
  the whole balance or emptied the bucket of the delivery.
\<close>

definition clawback_key :: "Order \<Rightarrow> FulfillmentExecution \<Rightarrow> string" where
  "clawback_key x e = refundClawbackKey (or_OutTradeNo x) (fe_RuleID e)"

definition bucket_empty :: "string \<Rightarrow> database \<Rightarrow> bool" where
  "bucket_empty i d \<longleftrightarrow> (\<forall>b\<in>set (tb_buckets d). cb_ID b = i \<longrightarrow> cb_Remaining b = 0)"

definition nothing_delivered :: "FulfillmentExecution \<Rightarrow> database \<Rightarrow> bool" where
  "nothing_delivered e d \<longleftrightarrow> trim_space (fe_ResultRef e) = []
     \<or> (\<forall>y\<in>set (tb_transactions d). ct_ID y = fe_ResultRef e \<longrightarrow> ct_Amount y \<le> 0)"

definition clawback_outcome ::
  "Order \<Rightarrow> FulfillmentExecution \<Rightarrow> database \<Rightarrow> int \<times> CreditTransaction option \<Rightarrow> database \<Rightarrow> bool" where
  "clawback_outcome x e d r d' \<longleftrightarrow>
     (d' = d \<and> (r = (0, None) \<and> nothing_delivered e d
        \<or> (\<exists>t\<in>set (tb_transactions d). ct_IdempotencyKey t = clawback_key x e \<and> r = (wrap64 (- ct_Amount t), Some t))))
     \<or> (\<exists>original\<in>set (tb_transactions d). \<exists>a\<in>set (tb_accounts d).
          ct_ID original = fe_ResultRef e \<and> ct_UserID original = or_UserID x \<and> ca_ID a = ct_AccountID original
          \<and> 0 < ct_Amount original \<and> 0 \<le> fst r \<and> fst r \<le> ct_Amount original \<and> fst r \<le> ca_Balance a
          \<and> (fst r = ct_Amount original \<or> fst r = ca_Balance a \<or> bucket_empty (ct_BucketID original) d')
          \<and> clawback_booked original (clawback_key x e) (fst r) d r d')"

lemma same_entry:
  assumes "credit_inv d" "y \<in> set (tb_transactions d)" "z \<in> set (tb_transactions d)" "ct_ID y = ct_ID z"
  shows "y = z"
proof (rule transactions.same_row [OF credit_open_tables(4) [of "[]" 0 0 0 "\<lambda>_. 0" d] assms(2,3)])
  show "transaction_clash y z" using assms(4) by (simp add: transaction_clash_def)
qed (use assms(1) in \<open>simp add: credit_inv_def\<close>)

lemma wlp_apply_clawback:
  assumes ready: "clawback_ready d" and e: "e \<in> set (tb_executions d)" "fe_TargetType e = TargetCredits"
    and key: "k = clawback_key x e"
  shows "wlp (apply_clawback True x e k) (\<lambda>r d'. clawback_ready d' \<and> clawback_outcome x e d r d') d"
  unfolding apply_clawback_def CreditTransactionRepo_GetByID_def CreditAccountRepo_GetByID_def
    CreditBucketRepo_GetByID_def Let_def
  apply (rule wlp_if_found, rule wlp_if)
  subgoal premises p for original
  proof (rule wlp_ret)
    have "nothing_delivered e d"
      using p find_row_found [OF p(1)] same_entry [of d _ original] ready
      by (auto simp: nothing_delivered_def clawback_ready_def)
    then show "clawback_ready d \<and> clawback_outcome x e d (0, None) d" by (simp add: ready clawback_outcome_def)
  qed
  subgoal premises p for original
    apply (rule wlp_andThen, rule wlp_reject_if, rule wlp_andThen, rule wlp_store_find)
    subgoal premises q for a
    proof -
      have t: "original \<in> set (tb_transactions d)" "ct_ID original = fe_ResultRef e" "0 < ct_Amount original"
        using find_row_found [OF p(1)] p(2) by auto
      have a: "a \<in> set (tb_accounts d)" "ca_ID a = ct_AccountID original"
        using find_row_found [OF q(2)] by auto
      have inv: "credit_inv d" and linked: "clawback_backed d" using ready by (simp_all add: clawback_ready_def)
      have bucketed: "trim_space (ct_BucketID original) \<noteq> []"
        and same: "\<forall>b\<in>set (tb_buckets d). cb_ID b = ct_BucketID original \<longrightarrow> cb_AccountID b = ct_AccountID original"
        using linked e t unfolding clawback_backed_def by blast+
      have bal: "0 \<le> ca_Balance a"
        using credit_open_account [OF inv [unfolded credit_inv_def] a(1)] unfolding account_ok_def by (elim conjE)
      have book: "wlp (book_clawback x original k a bucket amount)
          (\<lambda>r d'. clawback_ready d' \<and> clawback_outcome x e d r d') d"
        if "backed_amount a bucket amount d" "amount \<le> ct_Amount original"
          "\<And>d' r. clawback_booked original k amount d r d' \<Longrightarrow> bucket_drained bucket amount d'
            \<Longrightarrow> amount = ct_Amount original \<or> amount = ca_Balance a \<or> bucket_empty (ct_BucketID original) d'"
        for bucket amount
      proof (rule wlp_mono [OF wlp_book_clawback [OF inv a that(1)]], elim conjE, intro conjI)
        fix r d'
        assume res: "credit_inv d'" "clawback_booked original k amount d r d'" "bucket_drained bucket amount d'"
        have bounds: "0 \<le> amount" "amount \<le> ca_Balance a" using that(1) by (simp_all add: backed_amount_def)
        show "clawback_ready d'"
          using res clawback_backed_booked [OF linked res(2) bounds(1)] by (simp add: clawback_ready_def)
        have "fst r = amount" using res(2) by (auto simp: clawback_booked_def)
        then show "clawback_outcome x e d r d'"
          using res(2) bounds that(2) that(3) [OF res(2,3)] t a q(1) unfolding clawback_outcome_def key by blast
      qed
      show ?thesis
        unfolding simp_thms if_P [OF bucketed]
      proof (rule wlp_if_found)
        fix b
        assume "find_row cb_ID (ct_BucketID original) (tb_buckets d) = Some b"
        then have b: "b \<in> set (tb_buckets d)" "cb_AccountID b = ca_ID a" "cb_ID b = ct_BucketID original"
          using same a(2) find_row_found by fastforce+
        have "0 \<le> cb_Remaining b"
          using credit_open_bucket [OF inv [unfolded credit_inv_def] b(1)] unfolding bucket_ok_def by (elim conjE)
        then show "wlp (book_clawback x original k a (Some b)
            (minInt64 (minInt64 (ct_Amount original) (ca_Balance a)) (cb_Remaining b)))
            (\<lambda>r d'. clawback_ready d' \<and> clawback_outcome x e d r d') d"
          using b t(3) bal
          by (intro book) (auto simp: backed_amount_def minInt64_min bucket_drained_def bucket_empty_def min_def
              split: if_splits)
      next
        assume none: "find_row cb_ID (ct_BucketID original) (tb_buckets d) = None"
        have "bucket_empty (ct_BucketID original) d'" if "clawback_booked original k 0 d r d'" for r d'
          using that none by (fastforce simp: bucket_empty_def clawback_booked_def find_row_absent)
        then show "wlp (book_clawback x original k a None 0)
            (\<lambda>r d'. clawback_ready d' \<and> clawback_outcome x e d r d') d"
          using t(3) bal by (intro book) (auto simp: backed_amount_def)
      qed
    qed
    done
  subgoal premises p
    by (rule wlp_ret) (use p in \<open>auto simp: ready clawback_outcome_def nothing_delivered_def find_row_absent\<close>)
  done

lemma wlp_clawback:
  assumes "clawback_ready d" "e \<in> set (tb_executions d)" "fe_TargetType e = TargetCredits"
  shows "wlp (clawbackFulfilledCredits True x e) (\<lambda>r d'. clawback_ready d' \<and> clawback_outcome x e d r d') d"
  unfolding clawbackFulfilledCredits_def Let_def CreditTransactionRepo_GetByIdempotencyKey_def
  apply (rule wlp_if)
  subgoal by (rule wlp_ret) (simp add: assms(1) clawback_outcome_def nothing_delivered_def)
  apply (rule wlp_if_found)
  subgoal premises p for t
    by (rule wlp_ret) (use find_row_found [OF p(2)] assms(1) in \<open>auto simp: clawback_outcome_def clawback_key_def\<close>)
  by (rule wlp_apply_clawback [OF assms]) (simp add: clawback_key_def)

section \<open>Revocation of grants\<close>

definition revoked_ref :: "database \<Rightarrow> string \<Rightarrow> bool" where
  "revoked_ref d i \<longleftrightarrow> (\<forall>g\<in>set (tb_grants d). eg_ID g = trim_space i \<longrightarrow> eg_Status g = GrantStatusRevoked)"

text \<open>A revocation writes its own fields of the grants it names and no other grant.\<close>

definition revocation_of :: "EntitlementGrant \<Rightarrow> EntitlementGrant \<Rightarrow> bool" where
  "revocation_of g g' \<longleftrightarrow> (\<exists>now e. g' = g\<lparr>eg_Status := GrantStatusRevoked, eg_RevokedAt := Some now,
     eg_UpdatedAt := now, eg_ExpiresAt := e\<rparr>)"

definition grants_revoked :: "string set \<Rightarrow> database \<Rightarrow> database \<Rightarrow> bool" where
  "grants_revoked refs d d' \<longleftrightarrow> table_ok grant_clash (tb_grants d')
     \<and> list_all2 (\<lambda>g g'. g' = g \<or> eg_ID g \<in> refs \<and> revocation_of g g') (tb_grants d) (tb_grants d')"

lemma list_all2_right: "list_all2 P xs ys \<Longrightarrow> y \<in> set ys \<Longrightarrow> \<exists>x\<in>set xs. P x y"
  by (induction rule: list_all2_induct) auto

lemma grants_revoked_refl: "table_ok grant_clash (tb_grants d) \<Longrightarrow> grants_revoked refs d d"
  by (simp add: grants_revoked_def list.rel_refl)

lemma grants_revoked_mono: "grants_revoked A d d' \<Longrightarrow> A \<subseteq> B \<Longrightarrow> grants_revoked B d d'"
  unfolding grants_revoked_def by (auto elim: list.rel_mono_strong)

lemma revocation_of_id: "revocation_of g g' \<Longrightarrow> eg_ID g' = eg_ID g"
  by (auto simp: revocation_of_def)

lemma revocation_of_trans: "revocation_of g g' \<Longrightarrow> revocation_of g' g'' \<Longrightarrow> revocation_of g g''"
  unfolding revocation_of_def by (elim exE, simp, blast)

lemma grants_revoked_trans:
  assumes "grants_revoked refs d d'" "grants_revoked refs d' d''"
  shows "grants_revoked refs d d''"
  unfolding grants_revoked_def
proof
  let ?P = "\<lambda>g g'. g' = g \<or> eg_ID g \<in> refs \<and> revocation_of g g'"
  have step: "?P g g' \<Longrightarrow> ?P g' g'' \<Longrightarrow> ?P g g''" for g g' g''
    by (auto dest: revocation_of_trans)
  have "list_all2 ?P (tb_grants d) (tb_grants d')" "list_all2 ?P (tb_grants d') (tb_grants d'')"
    using assms by (simp_all add: grants_revoked_def)
  then show "list_all2 ?P (tb_grants d) (tb_grants d'')" 
    using list_all2_trans [of ?P ?P ?P "tb_grants d" "tb_grants d'" "tb_grants d''"] step by blast
qed (use assms(2) in \<open>simp add: grants_revoked_def\<close>)

lemma revoked_ref_keeps:
  assumes "grants_revoked refs d d'" "revoked_ref d i"
  shows "revoked_ref d' i"
  unfolding revoked_ref_def
proof (intro ballI impI)
  fix g'
  assume "g' \<in> set (tb_grants d')" and i: "eg_ID g' = trim_space i"
  moreover have "list_all2 (\<lambda>g g'. g' = g \<or> eg_ID g \<in> refs \<and> revocation_of g g') (tb_grants d) (tb_grants d')"
    using assms(1) by (simp add: grants_revoked_def)
  ultimately obtain g where g: "g \<in> set (tb_grants d)" "g' = g \<or> eg_ID g \<in> refs \<and> revocation_of g g'"
    by (auto dest: list_all2_right)
  from g(2) show "eg_Status g' = GrantStatusRevoked"
  proof
    assume "g' = g"
    then show ?thesis using g(1) i assms(2) by (simp add: revoked_ref_def)
  next
    assume "eg_ID g \<in> refs \<and> revocation_of g g'"
    then show ?thesis unfolding revocation_of_def by (elim conjE exE) simp
  qed
qed

lemma wlp_revokeFulfilledGrant:
  assumes "table_ok grant_clash (tb_grants d)" "trim_space i \<noteq> []"
  shows "wlp (revokeFulfilledGrant i) (\<lambda>_ d'. grants_revoked {trim_space i} d d' \<and> revoked_ref d' i
    \<and> (\<exists>t. d' = d\<lparr>tb_grants := t\<rparr>)) d"
  unfolding revokeFulfilledGrant_def Let_def EntitlementGrantRepo_GetByID_def EntitlementGrantRepo_Update_def
    if_not_P [OF assms(2)]
  apply (rule wlp_if_found, rule wlp_if)
  subgoal premises p for g
  proof (rule wlp_ret)
    have "y = g" if "y \<in> set (tb_grants d)" "eg_ID y = trim_space i" for y
      using grants.same_row [OF assms(1) that(1)] find_row_found [OF p(1)] that(2) by (simp add: grant_clash_def)
    then have "revoked_ref d i" using p(2) by (auto simp: revoked_ref_def)
    then show "grants_revoked {trim_space i} d d \<and> revoked_ref d i \<and> (\<exists>t. d = d\<lparr>tb_grants := t\<rparr>)"
      using grants_revoked_refl [OF assms(1)] by (metis database.surjective database.update_convs(10))
  qed
  subgoal premises p for g
    apply (rule wlp_andThen, rule wlp_time_now, rule wlp_andThen, rule wlp_store_save, rule wlp_ret)
    subgoal premises q for now t
    proof -
      let ?g = "g\<lparr>eg_Status := GrantStatusRevoked, eg_RevokedAt := Some now, eg_UpdatedAt := now,
        eg_ExpiresAt := (case eg_ExpiresAt g of None \<Rightarrow> Some now | Some e \<Rightarrow> if now < e then Some now else Some e)\<rparr>"
      have g: "g \<in> set (tb_grants d)" "eg_ID g = trim_space i" using find_row_found [OF p(1)] by auto
      then have "find_row eg_ID (eg_ID ?g) (tb_grants d) \<noteq> None" by (auto simp: find_row_absent)
      then have t: "t = replace_row eg_ID ?g (tb_grants d)" using q grants.save_row_Some by blast
      have "revoked_ref (d\<lparr>tb_grants := t\<rparr>) i"
        unfolding revoked_ref_def t using g(2) by (auto elim!: replace_rowE)
      moreover have "grants_revoked {trim_space i} d (d\<lparr>tb_grants := t\<rparr>)"
      proof -
        have "revocation_of g ?g" unfolding revocation_of_def by blast
        moreover have "y = g" if "y \<in> set (tb_grants d)" "eg_ID y = eg_ID g" for y
          using grants.same_row [OF assms(1) that(1) g(1)] that(2) by (simp add: grant_clash_def)
        ultimately have "list_all2 (\<lambda>g g'. g' = g \<or> eg_ID g \<in> {trim_space i} \<and> revocation_of g g') (tb_grants d) t"
          unfolding t replace_row_def list.rel_map using g(2) by (intro list.rel_refl_strong) auto
        then show ?thesis using grants.save_ok [OF assms(1) q] by (simp add: grants_revoked_def)
      qed
      ultimately show ?thesis by blast
    qed
    done
  subgoal premises p
    using p grants_revoked_refl [OF assms(1)]
    by (intro wlp_ret) (auto simp: find_row_absent revoked_ref_def intro: exI [of _ "tb_grants d"])
  done

section \<open>The compensation of an order\<close>

text \<open>
  What compensating executions does to the ledger: every new entry is a clawback of one of them,
  which takes back all that the execution delivered unless the account has nothing left or the
  bucket of the delivery is empty, and the balances change by exactly these entries.
\<close>

definition account_empty :: "string \<Rightarrow> database \<Rightarrow> bool" where
  "account_empty k d \<longleftrightarrow> (\<forall>a\<in>set (tb_accounts d). ca_ID a = k \<longrightarrow> ca_Balance a = 0)"

definition clawback_entry ::
  "Order \<Rightarrow> FulfillmentExecution \<Rightarrow> database \<Rightarrow> database \<Rightarrow> CreditTransaction \<Rightarrow> bool" where
  "clawback_entry x e d0 d t \<longleftrightarrow> (\<exists>original\<in>set (tb_transactions d0). ct_ID original = fe_ResultRef e
     \<and> ct_UserID original = or_UserID x \<and> 0 < ct_Amount original
     \<and> ct_IdempotencyKey t = clawback_key x e \<and> ct_Type t = TxClawback \<and> ct_AccountID t = ct_AccountID original
     \<and> - ct_Amount original \<le> ct_Amount t \<and> ct_Amount t \<le> 0
     \<and> (ct_Amount t = - ct_Amount original \<or> account_empty (ct_AccountID original) d
        \<or> bucket_empty (ct_BucketID original) d))"

definition credits_returned :: "Order \<Rightarrow> FulfillmentExecution set \<Rightarrow> database \<Rightarrow> database \<Rightarrow> bool" where
  "credits_returned x es d0 d \<longleftrightarrow> (\<exists>ts. tb_transactions d = tb_transactions d0 @ ts
     \<and> balances_follow ts (tb_accounts d0) (tb_accounts d)
     \<and> (\<forall>t\<in>set ts. \<exists>e\<in>es. fe_TargetType e = TargetCredits \<and> clawback_entry x e d0 d t))"

text \<open>An execution is settled when its clawback is in the ledger or it delivered no credits.\<close>

definition clawback_settled :: "Order \<Rightarrow> FulfillmentExecution \<Rightarrow> database \<Rightarrow> database \<Rightarrow> bool" where
  "clawback_settled x e d0 d \<longleftrightarrow> nothing_delivered e d0
     \<or> (\<exists>t\<in>set (tb_transactions d). ct_IdempotencyKey t = clawback_key x e)"

lemma credits_returned_refl: "credits_returned x es d d"
  by (simp add: credits_returned_def balances_follow_refl)

lemma credits_returned_same:
  assumes "same_ledger d d'" "credits_returned x es d0 d"
  shows "credits_returned x es d0 d'"
  using assms
  by (simp add: credits_returned_def same_ledger_def clawback_entry_def account_empty_def bucket_empty_def)

lemma credits_returned_from:
  assumes "same_ledger d0 d1" "credits_returned x es d1 d"
  shows "credits_returned x es d0 d"
  using assms by (simp add: credits_returned_def same_ledger_def clawback_entry_def)

lemma clawback_settled_from:
  "same_ledger d0 d1 \<Longrightarrow> clawback_settled x e d1 d \<Longrightarrow> clawback_settled x e d0 d"
  by (simp add: clawback_settled_def nothing_delivered_def same_ledger_def)

lemma balances_follow_trans:
  assumes "balances_follow ts as bs" "balances_follow us bs cs"
  shows "balances_follow (ts @ us) as cs"
  unfolding balances_follow_def
  by (rule list_all2_trans [OF _ assms [unfolded balances_follow_def]]) auto

text \<open>What is empty stays empty under a booked clawback.\<close>

lemma emptied_stays:
  assumes "clawback_booked original k amount d r d'" "0 \<le> amount" "credit_inv d'"
  shows "account_empty i d \<Longrightarrow> account_empty i d'" "bucket_empty j d \<Longrightarrow> bucket_empty j d'"
proof -
  have nonneg: "0 \<le> ca_Balance a" if "a \<in> set (tb_accounts d')" for a
    using credit_open_account [OF assms(3) [unfolded credit_inv_def] that] unfolding account_ok_def by (elim conjE)
  have nonneg_b: "0 \<le> cb_Remaining b" if "b \<in> set (tb_buckets d')" for b
    using credit_open_bucket [OF assms(3) [unfolded credit_inv_def] that] unfolding bucket_ok_def by (elim conjE)
  obtain t where t: "ct_Amount t = - amount" "balances_follow [t] (tb_accounts d) (tb_accounts d')"
    "\<forall>b'\<in>set (tb_buckets d'). \<exists>b\<in>set (tb_buckets d). cb_ID b' = cb_ID b \<and> cb_AccountID b' = cb_AccountID b
       \<and> cb_Remaining b' \<le> cb_Remaining b"
    using assms(1) unfolding clawback_booked_def by blast
  show "account_empty i d'" if "account_empty i d"
    unfolding account_empty_def
  proof (intro ballI impI)
    fix a'
    assume a': "a' \<in> set (tb_accounts d')" "ca_ID a' = i"
    then obtain a where "a \<in> set (tb_accounts d)" "ca_ID a' = ca_ID a"
      "ca_Balance a' = ca_Balance a + sum_rows (\<lambda>y. ct_AccountID y = ca_ID a) ct_Amount [t]"
      using list_all2_right [OF t(2) [unfolded balances_follow_def]] by blast
    then have "ca_Balance a' \<le> 0" using that a'(2) t(1) assms(2) by (auto simp: account_empty_def split: if_splits)
    with nonneg [OF a'(1)] show "ca_Balance a' = 0" by simp
  qed
  show "bucket_empty j d'" if "bucket_empty j d"
    using that t(3) nonneg_b unfolding bucket_empty_def by fastforce
qed

lemma credits_returned_step:
  assumes "credits_returned x es d0 d" "clawback_outcome x e d r d'" "e \<in> es" "fe_TargetType e = TargetCredits"
    and "credit_inv d" "credit_inv d'"
  shows "credits_returned x es d0 d' \<and> clawback_settled x e d0 d'
    \<and> set (tb_transactions d) \<subseteq> set (tb_transactions d')"
proof -
  obtain ts where ts: "tb_transactions d = tb_transactions d0 @ ts"
    "balances_follow ts (tb_accounts d0) (tb_accounts d)"
    "\<forall>t\<in>set ts. \<exists>e\<in>es. fe_TargetType e = TargetCredits \<and> clawback_entry x e d0 d t"
    using assms(1) by (auto simp: credits_returned_def)
  from assms(2) consider
      "d' = d" "nothing_delivered e d \<or> (\<exists>t\<in>set (tb_transactions d). ct_IdempotencyKey t = clawback_key x e)"
    | original a where "original \<in> set (tb_transactions d)" "a \<in> set (tb_accounts d)"
        "ct_ID original = fe_ResultRef e" "ct_UserID original = or_UserID x" "ca_ID a = ct_AccountID original"
        "0 < ct_Amount original" "0 \<le> fst r" "fst r \<le> ct_Amount original"
        "fst r = ct_Amount original \<or> fst r = ca_Balance a \<or> bucket_empty (ct_BucketID original) d'"
        "clawback_booked original (clawback_key x e) (fst r) d r d'"
    unfolding clawback_outcome_def by blast
  then show ?thesis
  proof cases
    case 1
    then show ?thesis using assms(1) ts(1) by (auto simp: clawback_settled_def nothing_delivered_def)
  next
    case 2
    obtain t where t: "ct_Amount t = - fst r" "ct_Type t = TxClawback" "ct_IdempotencyKey t = clawback_key x e"
      "ct_AccountID t = ct_AccountID original" "tb_transactions d' = tb_transactions d @ [t]"
      "balances_follow [t] (tb_accounts d) (tb_accounts d')"
      using 2(10) unfolding clawback_booked_def by blast
    have "\<forall>y\<in>set ts. ct_Amount y \<le> 0" using ts(3) by (auto simp: clawback_entry_def)
    then have original: "original \<in> set (tb_transactions d0)" using 2(1,6) ts(1) by auto
    have drained: "account_empty (ct_AccountID original) d'" if "fst r = ca_Balance a"
      unfolding account_empty_def
    proof (intro ballI impI)
      fix a'
      assume "a' \<in> set (tb_accounts d')" and id: "ca_ID a' = ct_AccountID original"
      then obtain b where b: "b \<in> set (tb_accounts d)" "ca_ID a' = ca_ID b"
        "ca_Balance a' = ca_Balance b + sum_rows (\<lambda>y. ct_AccountID y = ca_ID b) ct_Amount [t]"
        using list_all2_right [OF t(6) [unfolded balances_follow_def]] by blast
      have "b = a"
        using same_account [OF assms(5) _ b(1), of "ca_ID a" a] 2(2,5) b(2) id by (simp add: holds_account_def)
      then show "ca_Balance a' = 0" using b(2,3) id t(1,4) that by simp
    qed
    have new: "clawback_entry x e d0 d' t"
      unfolding clawback_entry_def using original 2 t drained by (intro bexI [of _ original]) auto
    have old: "clawback_entry x y d0 d' z" if "clawback_entry x y d0 d z" for y z
      using that emptied_stays [OF 2(10,7) assms(6)] unfolding clawback_entry_def by blast
    have "credits_returned x es d0 d'"
      unfolding credits_returned_def
    proof (intro exI [of _ "ts @ [t]"] conjI)
      show "tb_transactions d' = tb_transactions d0 @ ts @ [t]" by (simp add: t(5) ts(1))
      show "balances_follow (ts @ [t]) (tb_accounts d0) (tb_accounts d')"
        by (rule balances_follow_trans [OF ts(2) t(6)])
      show "\<forall>y\<in>set (ts @ [t]). \<exists>e\<in>es. fe_TargetType e = TargetCredits \<and> clawback_entry x e d0 d' y"
      proof
        fix y
        assume "y \<in> set (ts @ [t])"
        then have "y \<in> set ts \<or> y = t" by auto
        then show "\<exists>e\<in>es. fe_TargetType e = TargetCredits \<and> clawback_entry x e d0 d' y"
          using ts(3) old new assms(3,4) by blast
      qed
    qed
    then show ?thesis using t(3,5) by (auto simp: clawback_settled_def)
  qed
qed

definition grant_refs :: "FulfillmentExecution set \<Rightarrow> string set" where
  "grant_refs es = {trim_space (fe_ResultRef e) | e. e \<in> es \<and> fe_TargetType e = TargetEntitlement}"

definition compensated ::
  "Order \<Rightarrow> database \<Rightarrow> FulfillmentExecution list \<Rightarrow> FulfillmentExecution list \<Rightarrow> database \<Rightarrow> bool" where
  "compensated x d0 all left d \<longleftrightarrow> clawback_ready d \<and> grants_revoked (grant_refs (set all)) d0 d
     \<and> tb_executions d = tb_executions d0 \<and> credits_returned x (set all) d0 d
     \<and> (\<forall>e\<in>set all - set left. (fe_TargetType e = TargetEntitlement \<and> trim_space (fe_ResultRef e) \<noteq> []
            \<longrightarrow> revoked_ref d (fe_ResultRef e))
          \<and> (fe_TargetType e = TargetCredits \<longrightarrow> clawback_settled x e d0 d))"

lemma untouched_clawback: "untouched tb_grants (clawbackFulfilledCredits b x e)"
  unfolding clawbackFulfilledCredits_def apply_clawback_def book_clawback_def Let_def credit_repo_defs
    CreditTransactionRepo_GetByID_def
  by (intro untouched_rules) simp_all

lemma clawback_ready_grants [simp]: "clawback_ready (d\<lparr>tb_grants := t\<rparr>) = clawback_ready d"
proof -
  have "same_ledger d (d\<lparr>tb_grants := t\<rparr>)" "same_ledger (d\<lparr>tb_grants := t\<rparr>) d" by (simp_all add: same_ledger_def)
  then show ?thesis
    using same_ledger_inv by (auto simp: clawback_ready_def clawback_backed_def)
qed

lemma compensated_next:
  assumes "compensated x d0 all (e # es) d" "clawback_ready d'" "grants_revoked (grant_refs (set all)) d d'"
    and "tb_executions d' = tb_executions d" "credits_returned x (set all) d0 d'"
    and "set (tb_transactions d) \<subseteq> set (tb_transactions d')"
    and "fe_TargetType e = TargetEntitlement \<Longrightarrow> trim_space (fe_ResultRef e) \<noteq> [] \<Longrightarrow> revoked_ref d' (fe_ResultRef e)"
    and "fe_TargetType e = TargetCredits \<Longrightarrow> clawback_settled x e d0 d'"
  shows "compensated x d0 all es d'"
  unfolding compensated_def
proof (intro conjI ballI impI)
  show "grants_revoked (grant_refs (set all)) d0 d'"
    using assms(1,3) grants_revoked_trans by (auto simp: compensated_def)
  show "tb_executions d' = tb_executions d0" using assms(1,4) by (simp add: compensated_def)
  fix y assume y: "y \<in> set all - set es"
  show "revoked_ref d' (fe_ResultRef y)" if g: "fe_TargetType y = TargetEntitlement \<and> trim_space (fe_ResultRef y) \<noteq> []"
  proof (cases "y = e")
    case False
    then have "revoked_ref d (fe_ResultRef y)" using y g assms(1) by (auto simp: compensated_def)
    then show ?thesis using assms(3) revoked_ref_keeps by blast
  qed (use assms(7) g in blast)
  show "clawback_settled x y d0 d'" if c: "fe_TargetType y = TargetCredits"
  proof (cases "y = e")
    case False
    then have "clawback_settled x y d0 d" using y c assms(1) by (auto simp: compensated_def)
    then show ?thesis using assms(6) by (auto simp: clawback_settled_def)
  qed (use assms(8) c in blast)
qed (rule assms(2,5))+

lemma grants_revoked_same: "tb_grants d' = tb_grants d \<Longrightarrow> table_ok grant_clash (tb_grants d) \<Longrightarrow> grants_revoked refs d d'"
  by (simp add: grants_revoked_def list.rel_refl)

lemma wlp_compensate:
  assumes inv: "compensated x d0 all (e # es) d" and e: "e \<in> set (tb_executions d0)" "e \<in> set all"
    and "as_uow a" "pd_RevokeEntitlements dec" "pd_ClawbackCredits dec"
  shows "wlp (compensate a x dec e acc) (\<lambda>acc' d'. compensated x d0 all es d'
      \<and> (ar_PolicyDecision acc', ar_Order acc') = (ar_PolicyDecision acc, ar_Order acc)) d"
proof -
  have ready: "clawback_ready d" and ok: "table_ok grant_clash (tb_grants d)" and e': "e \<in> set (tb_executions d)"
    and returned: "credits_returned x (set all) d0 d"
    using inv e by (auto simp: compensated_def grants_revoked_def)
  have buckets: "as_has_buckets a = True" using assms(4) by (simp add: as_has_buckets_def)
  have same: "compensated x d0 all es d"
    if "fe_TargetType e \<noteq> TargetCredits" "fe_TargetType e \<noteq> TargetEntitlement \<or> trim_space (fe_ResultRef e) = []"
    by (rule compensated_next [OF inv ready grants_revoked_refl [OF ok] refl returned]) (use that in auto)
  let ?Q = "\<lambda>acc' d'. compensated x d0 all es d' \<and> (ar_PolicyDecision acc', ar_Order acc') = (ar_PolicyDecision acc, ar_Order acc)"
  have ent: "wlp (if \<not> pd_RevokeEntitlements dec then ret acc
        else andThen (revokeFulfilledGrant (fe_ResultRef e)) (\<lambda>grantID.
          ret (if grantID \<noteq> [] then acc\<lparr>ar_RevokedGrantIDs := ar_RevokedGrantIDs acc @ [grantID]\<rparr> else acc)))
     ?Q d"
    if target: "fe_TargetType e = TargetEntitlement"
    proof (cases "trim_space (fe_ResultRef e) = []")
      case True
      then show ?thesis using assms(5) same target
        by (auto simp: revokeFulfilledGrant_def intro!: wlp_andThen wlp_ret)
    next
      case False
      have refs: "{trim_space (fe_ResultRef e)} \<subseteq> grant_refs (set all)"
        using e(2) target by (auto simp: grant_refs_def)
      have other: "fe_TargetType e \<noteq> TargetCredits" using target by simp
      show ?thesis
        apply (simp only: assms(5) not_True_eq_False if_False)
        apply (rule wlp_andThen, rule wlp_mono [OF wlp_revokeFulfilledGrant [OF ok False]], rule wlp_ret)
        subgoal premises p for i d'
        proof -
          have ledger: "clawback_ready d'" "tb_executions d' = tb_executions d" "same_ledger d d'"
            using p ready by (auto simp: same_ledger_def)
          have "compensated x d0 all es d'"
            by (rule compensated_next [OF inv ledger(1) grants_revoked_mono [OF _ refs] ledger(2)
                  credits_returned_same [OF ledger(3) returned]])
              (use p other ledger(3) in \<open>auto simp: same_ledger_def\<close>)
          then show ?thesis by simp
        qed
        done
    qed
  have credits: "wlp (if \<not> pd_ClawbackCredits dec then ret acc
        else andThen (clawbackFulfilledCredits (as_has_buckets a) x e) (\<lambda>(amount, transaction).
          ret (acc\<lparr>ar_ClawbackCredits := wrap64 (ar_ClawbackCredits acc + amount),
                   ar_ClawbackTx := (case transaction of None \<Rightarrow> ar_ClawbackTx acc | Some t \<Rightarrow> Some t)\<rparr>)))
     ?Q d"
    if cred: "fe_TargetType e \<noteq> TargetEntitlement" "fe_TargetType e = TargetCredits"
      apply (simp only: assms(6) not_True_eq_False if_False buckets)
      apply (rule wlp_andThen, rule wlp_also_untouched [OF untouched_clawback])
      apply (rule wlp_mono [OF wlp_clawback [OF ready e' cred(2)]])
      subgoal premises p for r d'
      proof (intro impI)
        assume g: "tb_grants d' = tb_grants d"
        have ready': "clawback_ready d'" and out: "clawback_outcome x e d r d'" using p by simp_all
        have exec: "tb_executions d' = tb_executions d"
          using out by (auto simp: clawback_outcome_def clawback_booked_def)
        have "credit_inv d" "credit_inv d'" using ready ready' by (simp_all add: clawback_ready_def)
        note step = credits_returned_step [OF returned out e(2) cred(2) this]
        have "compensated x d0 all es d'"
          by (rule compensated_next [OF inv ready' grants_revoked_same [OF g ok] exec]) (use step cred in auto)
        then show "wlp (case r of (amount, transaction) \<Rightarrow>
            ret (acc\<lparr>ar_ClawbackCredits := wrap64 (ar_ClawbackCredits acc + amount),
                   ar_ClawbackTx := (case transaction of None \<Rightarrow> ar_ClawbackTx acc | Some t \<Rightarrow> Some t)\<rparr>)) ?Q d'"
          by (cases r) (simp add: wlp_ret)
      qed
      done
  have other: "wlp (ret acc) ?Q d" if "fe_TargetType e \<noteq> TargetEntitlement" "fe_TargetType e \<noteq> TargetCredits"
    by (rule wlp_ret) (simp add: same that)
  show ?thesis
    unfolding compensate_def by (rule wlp_if [OF ent wlp_if [OF credits other]])
qed

lemma wlp_compensations:
  assumes "clawback_ready d" "table_ok grant_clash (tb_grants d)" "set es \<subseteq> set (tb_executions d)"
    and "as_uow a" "pd_RevokeEntitlements dec" "pd_ClawbackCredits dec"
  shows "wlp (for_each es (compensate a x dec) acc) (\<lambda>acc' d'. compensated x d es [] d'
      \<and> (ar_PolicyDecision acc', ar_Order acc') = (ar_PolicyDecision acc, ar_Order acc)) d"
proof -
  have "wlp (for_each es (compensate a x dec) acc) (\<lambda>acc' d'. compensated x d es [] d'
      \<and> (ar_PolicyDecision acc', ar_Order acc') = (ar_PolicyDecision acc, ar_Order acc)) d"
    apply (rule wlp_for_each [where I = "\<lambda>left acc' d'. compensated x d es left d' \<and> set left \<subseteq> set es
        \<and> (ar_PolicyDecision acc', ar_Order acc') = (ar_PolicyDecision acc, ar_Order acc)"])
    subgoal using assms(1,2) grants_revoked_refl credits_returned_refl by (simp add: compensated_def)
    subgoal premises p for e left acc' d'
    proof -
      have "e \<in> set (tb_executions d)" "e \<in> set es" using p assms(3) by auto
      with p show ?thesis
        by (intro wlp_mono [OF wlp_compensate [of x d es e left d' a dec acc']]) (use assms in auto)
    qed
    subgoal by blast
    done
  then show ?thesis .
qed

text \<open>A decision compensates in full or not at all.\<close>

definition full_or_none :: "PolicyDecision \<Rightarrow> bool" where
  "full_or_none dec \<longleftrightarrow> (pd_RevokeEntitlements dec \<longleftrightarrow> pd_ApplyCompensation dec)
     \<and> (pd_ClawbackCredits dec \<longleftrightarrow> pd_ApplyCompensation dec)
     \<and> (if pd_ApplyCompensation dec then \<not> pd_ManualReview dec \<and> \<not> pd_Rejected dec
        else pd_ManualReview dec \<and> \<not> pd_Rejected dec \<or> \<not> pd_ManualReview dec \<and> pd_Rejected dec
          \<or> pd_Action dec = ActionKeepCurrentPeriod \<and> \<not> pd_ManualReview dec \<and> \<not> pd_Rejected dec)"

lemma decisionFromAction_full_or_none: "full_or_none (decisionFromAction action reason flag)"
  by (auto simp: decisionFromAction_def Let_def full_or_none_def normalizePaymentAdjustmentAction_def)

lemma full_or_none_update [simp]:
  "full_or_none (dec\<lparr>pd_Note := n\<rparr>) = full_or_none dec"
  "full_or_none (dec\<lparr>pd_CreateRiskFlag := b\<rparr>) = full_or_none dec"
  "full_or_none (dec\<lparr>pd_RefundWindowEndsAt := t\<rparr>) = full_or_none dec"
  by (simp_all add: full_or_none_def)

lemma readonly_Decide: "readonly (Decide c e x usage)"
  unfolding Decide_def refundDecision_def refundWindow_def Let_def
  by (intro atomic_rules) (auto split: prod.split intro!: atomic_rules)

lemma wp_Decide: "wp (Decide c e x usage) (\<lambda>dec w'. full_or_none dec \<and> db w' = db w
    \<and> (pd_CreateRiskFlag dec \<longleftrightarrow> pe_EventType e = EventTypeDisputed)) (\<lambda>_ w'. db w' = db w) w"
  unfolding Decide_def refundDecision_def refundWindow_def Let_def
  by (auto simp: wp_simps decisionFromAction_full_or_none split: option.split prod.split)
    (simp_all add: decisionFromAction_def Let_def)

lemma wlp_Decide:
  "wlp (Decide c e x usage) (\<lambda>dec d'. full_or_none dec \<and> d' = d
     \<and> (pd_CreateRiskFlag dec \<longleftrightarrow> pe_EventType e = EventTypeDisputed)) d"
  unfolding wlp_def by (intro allI impI, rule wp_mono [OF wp_Decide]) auto

lemma readonly_usage_snapshot: "readonly (paymentAdjustmentUsageSnapshot b x es)"
proof (rule readonly_keeps)
  fix d0
  show "keeps (\<lambda>d. d = d0) (paymentAdjustmentUsageSnapshot b x es)"
    unfolding paymentAdjustmentUsageSnapshot_def usage_step_def CreditTransactionRepo_GetByID_def
      CreditAccountRepo_GetByID_def CreditBucketRepo_GetByID_def Let_def
    by (intro keeps_andThen keeps_for_each keeps_cases keeps_if keeps_ret keeps_if_found keeps_store_find)
qed

section \<open>The whole adjustment\<close>

text \<open>Nothing but risk flags changed.\<close>

definition only_flags :: "database \<Rightarrow> database \<Rightarrow> bool" where
  "only_flags d d' \<longleftrightarrow> d'\<lparr>tb_risk_flags := []\<rparr> = d\<lparr>tb_risk_flags := []\<rparr>"

lemma only_flags_refl: "only_flags d d"
  by (simp add: only_flags_def)

lemma only_flags_tables:
  assumes "only_flags d d'"
  shows "same_ledger d d'" "tb_executions d' = tb_executions d" "tb_grants d' = tb_grants d"
proof -
  have eq: "d'\<lparr>tb_risk_flags := []\<rparr> = d\<lparr>tb_risk_flags := []\<rparr>" using assms by (simp add: only_flags_def)
  show "same_ledger d d'"
    using arg_cong [OF eq, of tb_accounts] arg_cong [OF eq, of tb_buckets]
      arg_cong [OF eq, of tb_reservations] arg_cong [OF eq, of tb_transactions]
    by (simp add: same_ledger_def)
  show "tb_executions d' = tb_executions d" "tb_grants d' = tb_grants d"
    using arg_cong [OF eq, of tb_executions] arg_cong [OF eq, of tb_grants] by simp_all
qed

lemma only_flags_ready:
  assumes "only_flags d d'" "clawback_ready d"
  shows "clawback_ready d'"
proof -
  note same = only_flags_tables [OF assms(1)]
  have "credit_inv d'" using same_ledger_inv [OF same(1)] assms(2) by (simp add: clawback_ready_def)
  moreover have "clawback_backed d'"
    using assms(2) same by (simp add: clawback_ready_def clawback_backed_def same_ledger_def)
  ultimately show ?thesis by (simp add: clawback_ready_def)
qed

lemma wlp_risk_flag:
  "wlp (if b then andThen (createPaymentRiskFlag h x e) (\<lambda>f. ret (Some f)) else ret None)
     (\<lambda>_ d'. only_flags d d') d"
proof -
  have "untouched (\<lambda>d. d\<lparr>tb_risk_flags := []\<rparr>)
    (if b then andThen (createPaymentRiskFlag h x e) (\<lambda>f. ret (Some f)) else ret None)"
    unfolding createPaymentRiskFlag_def PaymentRiskFlagRepo_GetByProviderEventID_def
      PaymentRiskFlagRepo_Create_def Let_def
    by (intro untouched_rules) simp_all
  then show ?thesis by (rule wlp_untouched) (simp add: only_flags_def)
qed

text \<open>The executions that delivered the order's goods.\<close>

definition delivered_by :: "Order \<Rightarrow> database \<Rightarrow> FulfillmentExecution \<Rightarrow> bool" where
  "delivered_by x d ex \<longleftrightarrow> ex \<in> set (tb_executions d) \<and> fe_OutTradeNo ex = or_OutTradeNo x
     \<and> fe_Status ex = ExecutionApplied"

definition adjusted :: "PaymentEvent \<Rightarrow> database \<Rightarrow> PaymentAdjustmentResult \<Rightarrow> database \<Rightarrow> bool" where
  "adjusted e d res d' \<longleftrightarrow> (\<exists>x. find_row or_OutTradeNo (pe_OutTradeNo e) (tb_orders d) = Some x
     \<and> ar_Order res = x \<and> clawback_ready d'
     \<and> (case ar_PolicyDecision res of
          None \<Rightarrow> d' = d
        | Some dec \<Rightarrow> full_or_none dec
            \<and> (if pd_ApplyCompensation dec
               then grants_revoked (grant_refs {ex. delivered_by x d ex}) d d'
                    \<and> (\<forall>ex. delivered_by x d ex \<and> fe_TargetType ex = TargetEntitlement
                         \<and> trim_space (fe_ResultRef ex) \<noteq> [] \<longrightarrow> revoked_ref d' (fe_ResultRef ex))
                    \<and> credits_returned x {ex. delivered_by x d ex} d d'
                    \<and> (\<forall>ex. delivered_by x d ex \<and> fe_TargetType ex = TargetCredits \<longrightarrow> clawback_settled x ex d d')
               else only_flags d d')))"

lemma wlp_adjustment:
  assumes "as_uow a" "clawback_ready d" "table_ok grant_clash (tb_grants d)" "pe_OutTradeNo e \<noteq> []"
  shows "wlp (adjustment_applyWithRepos a e) (\<lambda>(res, f) d'. (f = None \<longrightarrow> adjusted e d res d')
      \<and> (f \<noteq> None \<longrightarrow> only_flags d d')) d"
  unfolding adjustment_applyWithRepos_def OrderRepo_GetByOutTradeNo_def FulfillmentExecutionRepo_List_def Let_def
  apply (rule wlp_andThen, rule wlp_store_find, rule wlp_if)
  subgoal by (rule wlp_ret) (simp add: adjusted_def assms(2))
  apply (rule wlp_andThen, rule wlp_db_read, rule wlp_andThen, rule wlp_readonly [OF readonly_usage_snapshot])
  apply (rule wlp_andThen, rule wlp_mono [OF wlp_Decide], elim conjE, hypsubst)
  apply (rule wlp_andThen, rule wlp_mono [OF wlp_risk_flag])
  subgoal premises p for x usage dec d0 flag d1
  proof -
    let ?es = "page (xq_Limit (empty_execution_query\<lparr>xq_OutTradeNo := or_OutTradeNo x, xq_Status := ExecutionApplied\<rparr>))
      (xq_Offset (empty_execution_query\<lparr>xq_OutTradeNo := or_OutTradeNo x, xq_Status := ExecutionApplied\<rparr>))
      (sort_key (\<lambda>x. - fe_CreatedAt x) (List.filter (execution_matches (empty_execution_query\<lparr>xq_OutTradeNo := or_OutTradeNo x,
         xq_Status := ExecutionApplied\<rparr>)) (tb_executions d)))"
    have no: "or_OutTradeNo x \<noteq> []" using find_row_found [OF p(1)] assms(4) by auto
    have es: "set ?es = {ex. delivered_by x d ex}"
      using no by (auto simp: page_def empty_execution_query_def execution_matches_def column_matches_def delivered_by_def)
    have full: "full_or_none dec" and flags: "only_flags d d1" using p by simp_all
    note same = only_flags_tables [OF flags]
    have ready: "clawback_ready d1" by (rule only_flags_ready [OF flags assms(2)])
    let ?res = "\<lparr>ar_Order = x, ar_PolicyDecision = Some dec, ar_RiskFlag = flag, ar_RevokedGrantIDs = [],
      ar_ClawbackCredits = 0, ar_ClawbackTx = None, ar_AffectedExecutions = ?es, ar_Note = pd_Note dec\<rparr>"
    show ?thesis
    proof (rule wlp_if)
      assume no_comp: "\<not> pd_ApplyCompensation dec"
      then have "adjusted e d ?res d1"
        using p(1) ready full flags by (simp add: adjusted_def)
      then show "wlp (ret (?res, review_error dec)) (\<lambda>(res, f) d'. (f = None \<longrightarrow> adjusted e d res d')
          \<and> (f \<noteq> None \<longrightarrow> only_flags d d')) d1"
        using flags by (simp add: wlp_ret)
    next
      assume "\<not> \<not> pd_ApplyCompensation dec"
      then have comp: "pd_ApplyCompensation dec" "pd_RevokeEntitlements dec" "pd_ClawbackCredits dec"
        using full by (simp_all add: full_or_none_def)
      have sub: "set ?es \<subseteq> set (tb_executions d1)" using es same(2) by (auto simp: delivered_by_def)
      have "adjusted e d res d'"
        if c: "compensated x d1 ?es [] d'" "(ar_PolicyDecision res, ar_Order res) = (ar_PolicyDecision ?res, ar_Order ?res)"
        for res d'
      proof -
        have "grants_revoked (grant_refs {ex. delivered_by x d ex}) d d'"
          using c(1) same(3) es by (simp add: compensated_def grants_revoked_def)
        moreover have "credits_returned x {ex. delivered_by x d ex} d d'"
          using c(1) es by (intro credits_returned_from [OF same(1)]) (simp add: compensated_def)
        moreover have "revoked_ref d' (fe_ResultRef ex)"
          if "delivered_by x d ex" "fe_TargetType ex = TargetEntitlement" "trim_space (fe_ResultRef ex) \<noteq> []" for ex
          using c(1) that es unfolding compensated_def by (metis (no_types, lifting) Diff_empty list.set(1) mem_Collect_eq)
        moreover have "clawback_settled x ex d d'"
          if "delivered_by x d ex" "fe_TargetType ex = TargetCredits" for ex
        proof (rule clawback_settled_from [OF same(1)])
          have "ex \<in> set ?es - set []" using that(1) es by simp
          then show "clawback_settled x ex d1 d'" using c(1) that(2) unfolding compensated_def by blast
        qed
        ultimately show ?thesis
          using c p(1) full comp(1) by (simp add: adjusted_def compensated_def)
      qed
      then show "wlp (andThen (for_each ?es (compensate a x dec) ?res) (\<lambda>r. ret (r, None)))
        (\<lambda>(res, f) d'. (f = None \<longrightarrow> adjusted e d res d') \<and> (f \<noteq> None \<longrightarrow> only_flags d d')) d1"
        using assms(3) same(3)
        by (intro wlp_andThen wlp_mono [OF wlp_compensations [OF ready _ sub assms(1) comp(2,3)]] wlp_ret) auto
    qed
  qed
  done

section \<open>Orders under payment events\<close>

text \<open>A payment is accepted for the amount and the currency of the order, where both sides state them.\<close>

definition payment_matches :: "Order \<Rightarrow> PaymentEvent \<Rightarrow> bool" where
  "payment_matches x e \<longleftrightarrow> (isPaymentPaidEvent (pe_EventType e) \<longrightarrow>
     (0 < pe_Amount e \<and> 0 < or_Amount x \<longrightarrow> pe_Amount e = or_Amount x)
     \<and> paymentCurrencyMatches (or_Currency x) (pe_Currency e))"

definition order_event_outcome :: "PaymentEvent \<Rightarrow> database \<Rightarrow> database \<Rightarrow> bool" where
  "order_event_outcome e d d' \<longleftrightarrow> (\<exists>x now. find_row or_OutTradeNo (pe_OutTradeNo e) (tb_orders d) = Some x
     \<and> payment_matches x e
     \<and> (order_after_event x e now = Unchanged \<and> d' = d
        \<or> (\<exists>x'. order_after_event x e now = Changed x'
             \<and> d' = d\<lparr>tb_orders := replace_row or_ID x' (tb_orders d)\<rparr>)))"

lemma order_after_event_id: "order_after_event x e now = Changed x' \<Longrightarrow> or_ID x' = or_ID x"
  by (auto simp: order_after_event_def Let_def split: if_splits)


lemma order_saved:
  assumes "find_row or_OutTradeNo n (tb_orders d) = Some x" "or_ID x' = or_ID x"
    and "save_row or_ID order_clash x' (tb_orders d) = Some t"
  shows "t = replace_row or_ID x' (tb_orders d)"
proof -
  have "find_row or_ID (or_ID x') (tb_orders d) \<noteq> None"
    using find_row_found [OF assms(1)] assms(2) by (auto simp: find_row_absent)
  then show ?thesis using assms(3) orders.save_row_Some by blast
qed

lemma wp_order_event:
  "wp (PaymentOrder_ProcessPaymentEvent e) (\<lambda>_ w'. order_event_outcome e (db w) (db w')) (\<lambda>_ w'. db w' = db w) w"
proof -
  have change: "wp (case order_after_event x e now of Unprocessable \<Rightarrow> fail ErrPaymentEventNotProcessable
        | Unchanged \<Rightarrow> ret () | Changed x' \<Rightarrow> OrderRepo_Update x')
      (\<lambda>_ w'. order_event_outcome e d (db w')) (\<lambda>_ w'. db w' = d) w1"
    if x: "find_row or_OutTradeNo (pe_OutTradeNo e) (tb_orders d) = Some x" "payment_matches x e" "db w1 = d"
    for x now w1 d
  proof (cases "order_after_event x e now")
    case Unprocessable
    then show ?thesis using x by (simp add: wp_fail)
  next
    case Unchanged
    then show ?thesis using x by (auto simp: wp_ret order_event_outcome_def)
  next
    case (Changed x')
    have "order_event_outcome e d (d\<lparr>tb_orders := t\<rparr>)" if "save_row or_ID order_clash x' (tb_orders d) = Some t" for t
      unfolding order_event_outcome_def order_saved [OF x(1) order_after_event_id [OF Changed] that]
      using x Changed by blast
    then show ?thesis
      using x(3) Changed by (simp add: OrderRepo_Update_def wp_store_save split: option.split)
  qed
  show ?thesis
    unfolding PaymentOrder_ProcessPaymentEvent_def OrderRepo_GetByOutTradeNo_def
    by (auto simp: wp_andThen wp_reject_if wp_attempt wp_store_find wp_fail wp_time_now payment_matches_def
        split: option.split intro!: change)
qed

section \<open>Repeated clawbacks\<close>

lemma transaction_of_key:
  assumes "table_ok transaction_clash t" "y \<in> set t"
  shows "find_row ct_IdempotencyKey (ct_IdempotencyKey y) t = Some y"
proof -
  obtain z where z: "find_row ct_IdempotencyKey (ct_IdempotencyKey y) t = Some z"
    using assms(2) by (cases "find_row ct_IdempotencyKey (ct_IdempotencyKey y) t") (auto simp: find_row_absent)
  then show ?thesis
    using transactions.same_row [OF assms(1) _ assms(2), of z] find_row_found [OF z]
    by (simp add: transaction_clash_def)
qed

lemma clawback_recorded:
  assumes "clawback_ready d'" "clawback_outcome x e d (amount, Some t) d'" "credit_inv d"
    and "\<forall>y\<in>set (tb_transactions d). ct_Amount y \<le> max_int64"
  shows "find_row ct_IdempotencyKey (refundClawbackKey (or_OutTradeNo x) (fe_RuleID e)) (tb_transactions d') = Some t
    \<and> amount = wrap64 (- ct_Amount t)"
proof -
  have ok: "table_ok transaction_clash (tb_transactions d')"
    using assms(1) by (simp add: clawback_ready_def credit_inv_def credit_open_def credit_tables_ok_def)
  have "t \<in> set (tb_transactions d')" "ct_IdempotencyKey t = refundClawbackKey (or_OutTradeNo x) (fe_RuleID e)"
    "amount = wrap64 (- ct_Amount t)"
    using assms(2,4) by (auto simp: clawback_outcome_def clawback_booked_def clawback_key_def)
  then show ?thesis using transaction_of_key [OF ok] by metis
qed

lemma wp_clawback_again:
  assumes "find_row ct_IdempotencyKey (refundClawbackKey (or_OutTradeNo x) (fe_RuleID e)) (tb_transactions (db w)) = Some t"
    and "trim_space (fe_ResultRef e) \<noteq> []"
  shows "wp (clawbackFulfilledCredits b x e) (\<lambda>r w'. db w' = db w \<and> r = (wrap64 (- ct_Amount t), Some t))
    (\<lambda>_ w'. db w' = db w) w"
  using assms
  by (simp add: clawbackFulfilledCredits_def Let_def CreditTransactionRepo_GetByIdempotencyKey_def wp_simps
      split: option.split)

lemma wp_in_transaction_wlp:
  assumes "wlp body Q (db w)"
  shows "wp (in_transaction body) (\<lambda>x w'. Q x (db w')) (\<lambda>_ w'. db w' = db w) w"
proof -
  obtain r w' where run: "in_transaction body w = (r, w')" by fastforce
  show ?thesis
    using in_transaction_error_keeps_db [of body w] wlpD [OF wlp_in_transaction [OF assms]] run
    by (cases r) (auto simp: wp_def)
qed

lemma wp_Adjustment_Apply:
  assumes "as_uow a" "clawback_ready (db w)" "table_ok grant_clash (tb_grants (db w))"
  shows "wp (Adjustment_Apply a e) (\<lambda>res w'. adjusted e (db w) res (db w')) (\<lambda>_ w'. only_flags (db w) (db w')) w"
proof (cases "pe_OutTradeNo e = []")
  case True
  then show ?thesis
    by (simp add: Adjustment_Apply_def wp_andThen wp_reject_if only_flags_refl trim_space_def)
next
  case False
  note body = wp_in_transaction_wlp [OF wlp_adjustment [OF assms False]]
  let ?ok = "\<lambda>res w'. adjusted e (db w) res (db w')" and ?bad = "\<lambda>_ w'. only_flags (db w) (db w')"
  have report: "wp (case f of None \<Rightarrow> ret res | Some err \<Rightarrow> fail err) ?ok ?bad w'"
    if "(f = None \<longrightarrow> adjusted e (db w) res (db w')) \<and> (f \<noteq> None \<longrightarrow> only_flags (db w) (db w'))" for res f w'
    using that by (cases f) (simp_all add: wp_ret wp_fail)
  show ?thesis
    unfolding Adjustment_Apply_def withAdjustmentTransaction_def if_P [OF assms(1)]
    by (auto simp: wp_andThen wp_reject_if only_flags_refl intro!: wp_mono [OF body] report)
qed

section \<open>The refund window\<close>

lemma wp_Decide_refund:
  assumes "pe_EventType e = EventTypeRefunded" "0 < pa_RefundWindowDays c" "or_PaidAt x = Some paid"
    and "pa_Now c = Some now" "\<not> pa_LowUsagePolicyEnabled c"
  shows "wp (Decide c e x usage) (\<lambda>dec w'. db w' = db w
      \<and> pd_RefundWindowEndsAt dec = Some (paid + pa_RefundWindowDays c * day_ns)
      \<and> pd_Action dec = normalizePaymentAdjustmentAction
          (if now \<le> paid + pa_RefundWindowDays c * day_ns then pa_RefundInWindowAction c
           else pa_RefundOutOfWindowAction c) ActionManualReview)
    (\<lambda>_ _. False) w"
  using assms
  by (simp add: Decide_def refundDecision_def refundWindow_def Let_def wp_simps refund_choice_def
      decisionFromAction_def add_date_days split: prod.split)

section \<open>Properties\<close>

text \<open>A payment event moves at most the order it names, and only along the order state machine; a
  payment is accepted only when its amount and currency are those of the order, where both
  state them.  An event that is refused changes nothing.\<close>

theorem order_event_effect:
  assumes "PaymentOrder_ProcessPaymentEvent e w = (r, w')"
  shows "(if isl r then db w' = db w else order_event_outcome e (db w) (db w'))"
  using wp_order_event [of e w] assms by (cases r) (auto simp: wp_def)


text \<open>C23: A clawback takes back at most the credits the execution delivered and at most what the
  account still holds, books it as one ledger entry under the key of the order and the rule,
  and keeps the ledger consistent; when that entry exists already it takes nothing.\<close>

theorem clawback_effect:
  assumes "clawback_ready (db w)" "e \<in> set (tb_executions (db w))" "fe_TargetType e = TargetCredits"
    and "clawbackFulfilledCredits True x e w = (Inr r, w')"
  shows "clawback_ready (db w') \<and> clawback_outcome x e (db w) r (db w')"
  using wlpD [OF wlp_clawback [OF assms(1-3)] assms(4)] .

text \<open>A clawback happens once: after one that recorded an entry, a second call for the same order and
  rule, from any later data with the same ledger entries, changes nothing and, unless the
  storage fails, reports the same amount and entry.\<close>

theorem clawback_again:
  assumes "clawback_ready (db w)" "e \<in> set (tb_executions (db w))" "fe_TargetType e = TargetCredits"
    and "\<forall>y\<in>set (tb_transactions (db w)). ct_Amount y \<le> max_int64"
    and "clawbackFulfilledCredits True x e w = (Inr (amount, Some t), w')"
    and "tb_transactions (db w2) = tb_transactions (db w')" "trim_space (fe_ResultRef e) \<noteq> []"
    and "clawbackFulfilledCredits b x e w2 = (r, w3)"
  shows "db w3 = db w2 \<and> (\<forall>r'. r = Inr r' \<longrightarrow> r' = (amount, Some t))"
proof -
  have "clawback_ready (db w')" "clawback_outcome x e (db w) (amount, Some t) (db w')" "credit_inv (db w)"
    using wlpD [OF wlp_clawback [OF assms(1-3)] assms(5)] assms(1) by (simp_all add: clawback_ready_def)
  note rec = clawback_recorded [OF this assms(4)]
  have "wp (clawbackFulfilledCredits b x e) (\<lambda>r w'. db w' = db w2 \<and> r = (wrap64 (- ct_Amount t), Some t))
    (\<lambda>_ w'. db w' = db w2) w2"
    by (rule wp_clawback_again) (use rec assms(6,7) in auto)
  then show ?thesis using assms(8) rec by (cases r) (auto simp: wp_def)
qed

text \<open>The refund window counts whole days from the payment: with a configured clock and without the
  usage rule, a refund gets the in-window action exactly up to the end of the window and the
  out-of-window action after it (an unknown action means a manual review), and the decision
  reports the end of the window.\<close>

theorem refund_window:
  assumes "pe_EventType e = EventTypeRefunded" "0 < pa_RefundWindowDays c" "or_PaidAt x = Some paid"
    and "pa_Now c = Some now" "\<not> pa_LowUsagePolicyEnabled c"
  shows "\<exists>dec w'. Decide c e x usage w = (Inr dec, w') \<and> db w' = db w
    \<and> pd_RefundWindowEndsAt dec = Some (paid + pa_RefundWindowDays c * day_ns)
    \<and> pd_Action dec = normalizePaymentAdjustmentAction
        (if now \<le> paid + pa_RefundWindowDays c * day_ns then pa_RefundInWindowAction c
         else pa_RefundOutOfWindowAction c) ActionManualReview"
proof -
  obtain r w' where run: "Decide c e x usage w = (r, w')" by fastforce
  with wp_Decide_refund [OF assms, of usage w] show ?thesis by (cases r) (auto simp: wp_def)
qed

text \<open>C22: An adjustment that succeeds in a unit of work decides one of compensation, manual review,
  rejection or keeping the paid period, or ignores an order that is not a checkout.  Compensation
  leaves every entitlement grant the order delivered revoked and changes no other grant.  It takes
  the delivered credits back: for every applied credit execution the ledger then holds its clawback
  unless nothing was delivered, every new entry is such a clawback and takes all that was
  delivered, or all there was in the account or in the bucket of the delivery, and the balances
  change by exactly these entries.  Without compensation nothing but risk flags changes.\<close>

theorem adjustment_effect:
  assumes "as_uow a" "clawback_ready (db w)" "table_ok grant_clash (tb_grants (db w))"
    and "Adjustment_Apply a e w = (Inr res, w')"
  shows "adjusted e (db w) res (db w')"
  using wp_Adjustment_Apply [OF assms(1-3), of e] assms(4) by (simp add: wp_def)

text \<open>An adjustment in a unit of work that fails or is sent to review or rejected leaves all data
  but the risk flags as it was.\<close>

theorem adjustment_failure:
  assumes "as_uow a" "clawback_ready (db w)" "table_ok grant_clash (tb_grants (db w))"
    and "Adjustment_Apply a e w = (Inl err, w')"
  shows "only_flags (db w) (db w')"
  using wp_Adjustment_Apply [OF assms(1-3), of e] assms(4) by (simp add: wp_def)

section \<open>Witnesses\<close>

text \<open>An event about the order of \<open>w_fulfilled\<close>, with its sixty credits and its grant.\<close>

definition sample_event :: "string \<Rightarrow> PaymentEvent" where
  "sample_event t = \<lparr>pe_ID = ''pe_9'', pe_Provider = ''creem'', pe_ProviderEventID = ''evt_9'', pe_EventType = t,
     pe_OutTradeNo = ''T1'', pe_ProviderTradeNo = [], pe_Amount = 990, pe_Currency = ''USD'',
     pe_PeriodStartAt = None, pe_PeriodEndAt = None, pe_SignatureVerified = True, pe_PayloadHash = [],
     pe_RawPayload = [], pe_Status = EventStatusProcessing, pe_Attempts = 1, pe_LastError = [],
     pe_ReceivedAt = 63800000000000000000, pe_ProcessedAt = None, pe_CreatedAt = 1, pe_UpdatedAt = 1\<rparr>"

lemma fulfilled_ready: "clawback_ready (db w_fulfilled)"
  by code_simp

lemma fulfilled_tables_ok:
  "table_ok order_clash (tb_orders (db w_fulfilled))" "table_ok grant_clash (tb_grants (db w_fulfilled))"
  by code_simp+

definition credit_execution :: FulfillmentExecution where
  "credit_execution = hd (List.filter (\<lambda>e. fe_TargetType e = TargetCredits) (tb_executions (db w_fulfilled)))"

lemma credit_execution_delivered:
  "credit_execution \<in> set (tb_executions (db w_fulfilled))" "fe_TargetType credit_execution = TargetCredits"
  "trim_space (fe_ResultRef credit_execution) \<noteq> []"
  by code_simp+

definition w_clawed_back :: "database world" where
  "w_clawed_back = snd (clawbackFulfilledCredits True (sample_order OrderStatusFulfilled) credit_execution w_fulfilled)"

lemma clawed_back_run:
  "clawbackFulfilledCredits True (sample_order OrderStatusFulfilled) credit_execution w_fulfilled
   = (Inr (60, snd (ok_result (clawbackFulfilledCredits True (sample_order OrderStatusFulfilled) credit_execution w_fulfilled))),
      w_clawed_back)"
proof -
  let ?r = "clawbackFulfilledCredits True (sample_order OrderStatusFulfilled) credit_execution w_fulfilled"
  have "?r = (Inr (ok_result ?r), w_clawed_back)" unfolding w_clawed_back_def by (rule run_ok) code_simp
  moreover have "fst (ok_result ?r) = 60" by code_simp
  ultimately show ?thesis by (metis prod.collapse)
qed

lemma order_event_effect_witness:
  "order_event_outcome (sample_event EventTypeRefunded) (db w_fulfilled)
     (db (snd (PaymentOrder_ProcessPaymentEvent (sample_event EventTypeRefunded) w_fulfilled)))
   \<and> List.map or_Status (tb_orders (db (snd (PaymentOrder_ProcessPaymentEvent (sample_event EventTypeRefunded) w_fulfilled))))
     = [OrderStatusRefunded]"
proof
  let ?r = "PaymentOrder_ProcessPaymentEvent (sample_event EventTypeRefunded) w_fulfilled"
  have "\<not> isl (fst ?r)" by code_simp
  then show "order_event_outcome (sample_event EventTypeRefunded) (db w_fulfilled) (db (snd ?r))"
    using order_event_effect [OF prod.collapse [symmetric], of "sample_event EventTypeRefunded" w_fulfilled] by simp
qed code_simp


lemma clawback_effect_witness:
  "clawback_ready (db w_clawed_back) \<and> List.map ca_Balance (tb_accounts (db w_clawed_back)) = [0]"
proof
  show "clawback_ready (db w_clawed_back)"
    by (rule clawback_effect [THEN conjunct1, OF fulfilled_ready credit_execution_delivered(1,2) clawed_back_run])
qed code_simp

lemma clawback_again_witness:
  "db (snd (clawbackFulfilledCredits False (sample_order OrderStatusFulfilled) credit_execution w_clawed_back)) = db w_clawed_back"
proof -
  have bound: "\<forall>y\<in>set (tb_transactions (db w_fulfilled)). ct_Amount y \<le> max_int64" by code_simp
  obtain t where t: "clawbackFulfilledCredits True (sample_order OrderStatusFulfilled) credit_execution w_fulfilled
      = (Inr (60, Some t), w_clawed_back)"
  proof -
    have "snd (ok_result (clawbackFulfilledCredits True (sample_order OrderStatusFulfilled) credit_execution w_fulfilled)) \<noteq> None"
      by code_simp
    then show thesis using that clawed_back_run by fastforce
  qed
  show ?thesis
    by (rule clawback_again [THEN conjunct1, OF fulfilled_ready credit_execution_delivered(1,2) bound t refl
        credit_execution_delivered(3) prod.collapse [symmetric]])
qed

text \<open>A refund seven days after the payment is in the window, a nanosecond later it is not.\<close>

definition week_policy :: "int \<Rightarrow> PolicyConfig" where
  "week_policy late = DefaultPaymentAdjustmentPolicyConfig\<lparr>pa_Now := Some (63800000000000000000 + 7 * day_ns + late)\<rparr>"

lemma refund_window_witness:
  "\<forall>usage. (\<exists>dec w'. Decide (week_policy 0) (sample_event EventTypeRefunded) (sample_order OrderStatusPaid) usage w_paid
      = (Inr dec, w') \<and> pd_Action dec = ActionAutoRefund)
   \<and> (\<exists>dec w'. Decide (week_policy 1) (sample_event EventTypeRefunded) (sample_order OrderStatusPaid) usage w_paid
      = (Inr dec, w') \<and> pd_Action dec = ActionManualReview)"
proof -
  have facts: "pe_EventType (sample_event EventTypeRefunded) = EventTypeRefunded"
    "or_PaidAt (sample_order OrderStatusPaid) = Some 63800000000000000000"
    by (simp_all add: sample_event_def sample_order_def)
  have week: "0 < pa_RefundWindowDays (week_policy n)"
    "pa_Now (week_policy n) = Some (63800000000000000000 + 7 * day_ns + n)" "\<not> pa_LowUsagePolicyEnabled (week_policy n)" for n
    by (simp_all add: week_policy_def DefaultPaymentAdjustmentPolicyConfig_def)
  note decide = refund_window [OF facts(1) week(1) facts(2) week(2,3)]
  have known: "normalizePaymentAdjustmentAction ActionAutoRefund ActionManualReview = ActionAutoRefund"
    "normalizePaymentAdjustmentAction ActionManualReview ActionManualReview = ActionManualReview" by code_simp+
  have actions: "normalizePaymentAdjustmentAction (pa_RefundInWindowAction (week_policy n)) ActionManualReview = ActionAutoRefund"
    "normalizePaymentAdjustmentAction (pa_RefundOutOfWindowAction (week_policy n)) ActionManualReview = ActionManualReview"
    "pa_RefundWindowDays (week_policy n) = 7" for n
    by (simp_all add: week_policy_def DefaultPaymentAdjustmentPolicyConfig_def known)
  show ?thesis
  proof
    fix usage
    show "(\<exists>dec w'. Decide (week_policy 0) (sample_event EventTypeRefunded) (sample_order OrderStatusPaid) usage w_paid
        = (Inr dec, w') \<and> pd_Action dec = ActionAutoRefund)
      \<and> (\<exists>dec w'. Decide (week_policy 1) (sample_event EventTypeRefunded) (sample_order OrderStatusPaid) usage w_paid
        = (Inr dec, w') \<and> pd_Action dec = ActionManualReview)"
      using decide [of 0 usage w_paid] decide [of 1 usage w_paid] by (auto simp: actions)
  qed
qed

text \<open>A dispute revokes the grant, a chargeback without wiring is refused.\<close>

lemma adjustment_effect_witness:
  "adjusted (sample_event EventTypeDisputed) (db w_fulfilled)
     (ok_result (Adjustment_Apply sample_adjustment (sample_event EventTypeDisputed) w_fulfilled))
     (db (snd (Adjustment_Apply sample_adjustment (sample_event EventTypeDisputed) w_fulfilled)))
   \<and> List.map eg_Status (tb_grants (db (snd (Adjustment_Apply sample_adjustment (sample_event EventTypeDisputed) w_fulfilled))))
     = [GrantStatusRevoked]"
proof
  let ?r = "Adjustment_Apply sample_adjustment (sample_event EventTypeDisputed) w_fulfilled"
  have "?r = (Inr (ok_result ?r), snd ?r)" by (rule run_ok) code_simp
  moreover have "as_uow sample_adjustment" by (simp add: sample_adjustment_def)
  ultimately show "adjusted (sample_event EventTypeDisputed) (db w_fulfilled) (ok_result ?r) (db (snd ?r))"
    by (intro adjustment_effect [OF _ fulfilled_ready fulfilled_tables_ok(2)])
qed code_simp

lemma adjustment_failure_witness:
  "only_flags (db w_fulfilled) (db (snd (Adjustment_Apply (sample_adjustment\<lparr>as_policy :=
      DefaultPaymentAdjustmentPolicyConfig\<lparr>pa_DisputeAction := ActionManualReview\<rparr>\<rparr>) (sample_event EventTypeDisputed) w_fulfilled)))"
proof -
  let ?s = "sample_adjustment\<lparr>as_policy := DefaultPaymentAdjustmentPolicyConfig\<lparr>pa_DisputeAction := ActionManualReview\<rparr>\<rparr>"
  let ?r = "Adjustment_Apply ?s (sample_event EventTypeDisputed) w_fulfilled"
  have "isl (fst ?r)" by code_simp
  then have "?r = (Inl (projl (fst ?r)), snd ?r)" by (metis prod.collapse sum.collapse(1))
  moreover have "as_uow ?s" by (simp add: sample_adjustment_def)
  ultimately show ?thesis by (intro adjustment_failure [OF _ fulfilled_ready fulfilled_tables_ok(2)])
qed

end
