(* ===== verification/Subscription_Renewal_Theorems.thy ===== *)
theory Subscription_Renewal_Theorems
  imports Payment_Flow
begin

text \<open>
  The properties of subscription renewal: one renewal order per billing cycle, grace grants
  that end with the grace period, and failed or expired renewals that spare what was paid for.
\<close>

section \<open>Billing cycles\<close>

text \<open>The cycle an event belongs to, when the event itself tells it.\<close>

definition billing_cycle :: "PaymentEvent \<Rightarrow> string option" where
  "billing_cycle e =
     (if pe_EventType e \<in> {EventTypeRenewalFailed, EventTypeSubscriptionExpired}
         \<and> set_instant (pe_PeriodEndAt e) \<noteq> None
      then map_option format_compact (set_instant (pe_PeriodEndAt e))
      else if set_instant (pe_PeriodStartAt e) \<noteq> None
      then map_option format_compact (set_instant (pe_PeriodStartAt e))
      else if set_instant (pe_PeriodEndAt e) \<noteq> None
      then map_option format_compact (set_instant (pe_PeriodEndAt e))
      else if pe_ReceivedAt e \<noteq> 0 then Some (format_year_month (pe_ReceivedAt e)) else None)"

definition renewal_key :: "string \<Rightarrow> string \<Rightarrow> string" where
  "renewal_key outTradeNo cycle = ''subscription_renewal:'' @ trim_space outTradeNo @ '':'' @ cycle"

lemma andThen_ret: "andThen (ret x) k = k x"
  by (rule ext) (simp add: andThen_def ret_def)

lemma cycle_key_known: "billing_cycle e = Some c \<Longrightarrow> subscriptionRenewalCycleKey e = ret c"
  by (auto simp: billing_cycle_def subscriptionRenewalCycleKey_def paymentEventReceivedAt_def Let_def andThen_ret
      split: if_splits option.split)

lemma renewal_key_known:
  assumes "billing_cycle e = Some c" "trim_space n \<noteq> []"
  shows "subscriptionRenewalOrderIdempotencyKey n e = ret (renewal_key n c)"
  using assms
  by (simp add: subscriptionRenewalOrderIdempotencyKey_def cycle_key_known andThen_ret Let_def renewal_key_def
      defaultString_def)

text \<open>What resolving leaves: the order of the cycle, found or new.\<close>

definition renewable :: "Order \<Rightarrow> bool" where
  "renewable x \<longleftrightarrow> or_OrderType x = OrderTypeCheckout \<and> trim_space (or_UserID x) \<noteq> []
     \<and> trim_space (or_SKUCode x) \<noteq> []"

definition new_renewal_order :: "Order \<Rightarrow> PaymentEvent \<Rightarrow> Order \<Rightarrow> bool" where
  "new_renewal_order x e y \<longleftrightarrow> or_OrderType y = OrderTypeRenewal \<and> or_UserID y = or_UserID x
     \<and> or_SKUCode y = or_SKUCode x \<and> or_Status y = renewalOrderStatusFromEvent (pe_EventType e)
     \<and> (or_PaidAt y \<noteq> None \<longleftrightarrow> pe_EventType e = EventTypeRenewalPaid)"

definition cycle_order :: "Order \<Rightarrow> PaymentEvent \<Rightarrow> string \<Rightarrow> database \<Rightarrow> Order \<Rightarrow> database \<Rightarrow> bool" where
  "cycle_order x e c d y d' \<longleftrightarrow>
     (if renewable x
      then find_row or_IdempotencyKey (Some (renewal_key (or_OutTradeNo x) c)) (tb_orders d') = Some y
        \<and> (d' = d \<or> find_row or_IdempotencyKey (Some (renewal_key (or_OutTradeNo x) c)) (tb_orders d) = None
             \<and> new_renewal_order x e y \<and> d' = d\<lparr>tb_orders := tb_orders d @ [y]\<rparr>)
      else y = x \<and> d' = d)"

lemma find_row_append:
  "find_row key k (t @ [y]) = (case find_row key k t of None \<Rightarrow> if key y = k then Some y else None | Some z \<Rightarrow> Some z)"
  by (induction t) (auto simp: find_row_def)

lemma derived_order_new:
  "new_renewal_order x e ((derived_order x e k n now)\<lparr>or_ID := i\<rparr>)" "new_renewal_order x e (derived_order x e k n now)"
  "or_IdempotencyKey (derived_order x e k n now) = Some k"
  by (simp_all add: derived_order_def new_renewal_order_def)

lemma wp_renewalPaidAnchor: "(\<And>t w1. db w1 = db w \<Longrightarrow> Q t w1) \<Longrightarrow> wp (renewalPaidAnchor e) Q E w"
  unfolding renewalPaidAnchor_def paymentEventReceivedAt_def
  by (auto simp: wp_simps split: option.split)

lemma wp_renewalOrderOutTradeNo: "(\<And>t. Q t w) \<Longrightarrow> wp (subscriptionRenewalOrderOutTradeNo k) Q E w"
  by (simp add: wp_def subscriptionRenewalOrderOutTradeNo_def)

lemma wp_OrderRepo_Create:
  assumes "\<And>m. E (ErrDB m) (next_tick w)" "E ErrConstraint (next_tick w)"
    and "\<And>i t. t = tb_orders (db w) @ [x\<lparr>or_ID := i\<rparr>] \<Longrightarrow> insert_row order_clash (x\<lparr>or_ID := i\<rparr>) (tb_orders (db w)) = Some t
      \<Longrightarrow> Q (x\<lparr>or_ID := i\<rparr>) (next_tick (w\<lparr>db := (db w)\<lparr>tb_orders := t\<rparr>\<rparr>))"
  shows "wp (OrderRepo_Create x) Q E w"
proof -
  have "\<exists>i. (if or_ID x = 0 then x\<lparr>or_ID := next_order_id (tb_orders (db w))\<rparr> else x) = x\<lparr>or_ID := i\<rparr>"
    by (cases "or_ID x = 0") (auto intro: exI [of _ "or_ID x"])
  then obtain i where i: "(if or_ID x = 0 then x\<lparr>or_ID := next_order_id (tb_orders (db w))\<rparr> else x) = x\<lparr>or_ID := i\<rparr>"
    by blast
  show ?thesis
    unfolding OrderRepo_Create_def wp_db_write Let_def i
    using assms orders.insert_row_Some by (auto split: option.split)
qed

lemma wp_resolve:
  assumes "billing_cycle e = Some c" "trim_space (or_OutTradeNo x) \<noteq> []"
  shows "wp (resolveRenewalOrder e x) (\<lambda>y w'. cycle_order x e c (db w) y (db w')) (\<lambda>_ w'. db w' = db w) w"
proof (cases "renewable x")
  case False
  then show ?thesis
    by (auto simp: resolveRenewalOrder_def renewable_def cycle_order_def wp_ret)
next
  case True
  let ?k = "renewal_key (or_OutTradeNo x) c"
  have retry: "wp (andThen (attempt (OrderRepo_GetByIdempotencyKey ?k)) (\<lambda>r2.
      case r2 of Inr existing \<Rightarrow> ret existing | Inl _ \<Rightarrow> fail err))
      (\<lambda>y w'. cycle_order x e c (db w) y (db w')) (\<lambda>_ w'. db w' = db w) w1"
    if "db w1 = db w" for err w1
    using that True
    by (simp add: OrderRepo_GetByIdempotencyKey_def wp_simps cycle_order_def split: option.split)
  have new: "wp (andThen (attempt (OrderRepo_Create (derived_order x e ?k n now))) (\<lambda>r.
      case r of Inr derived \<Rightarrow> ret derived | Inl err \<Rightarrow> andThen (attempt (OrderRepo_GetByIdempotencyKey ?k)) (\<lambda>r2.
         case r2 of Inr existing \<Rightarrow> ret existing | Inl _ \<Rightarrow> fail err)))
      (\<lambda>y w'. cycle_order x e c (db w) y (db w')) (\<lambda>_ w'. db w' = db w) w1"
    if "db w1 = db w" "find_row or_IdempotencyKey (Some ?k) (tb_orders (db w)) = None" for n now w1
    unfolding wp_andThen wp_attempt
    apply (rule wp_OrderRepo_Create)
    subgoal using that(1) by (simp add: retry)
    subgoal using that(1) by (simp add: retry)
    using that True derived_order_new
    by (simp add: wp_ret cycle_order_def find_row_append)
  have order_type: "or_OrderType x \<noteq> OrderTypeRenewal"
    "\<not> (or_OrderType x \<noteq> OrderTypeCheckout \<or> trim_space (or_UserID x) = [] \<or> trim_space (or_SKUCode x) = [])"
    using True by (simp_all add: renewable_def)
  have missing: "wp (andThen (renewalPaidAnchor e) (\<lambda>now. andThen (subscriptionRenewalOrderOutTradeNo ?k) (\<lambda>n.
      andThen (attempt (OrderRepo_Create (derived_order x e ?k n now))) (\<lambda>r.
      case r of Inr derived \<Rightarrow> ret derived | Inl err \<Rightarrow> andThen (attempt (OrderRepo_GetByIdempotencyKey ?k)) (\<lambda>r2.
         case r2 of Inr existing \<Rightarrow> ret existing | Inl _ \<Rightarrow> fail err)))))
      (\<lambda>y w'. cycle_order x e c (db w) y (db w')) (\<lambda>_ w'. db w' = db w) w1"
    if "db w1 = db w" "find_row or_IdempotencyKey (Some ?k) (tb_orders (db w)) = None" for w1
    unfolding wp_andThen [of "renewalPaidAnchor e"] wp_andThen [of "subscriptionRenewalOrderOutTradeNo _"]
    using that by (intro wp_renewalPaidAnchor wp_renewalOrderOutTradeNo new) simp_all
  show ?thesis
    unfolding resolveRenewalOrder_def if_not_P [OF order_type(1)] if_not_P [OF order_type(2)]
      renewal_key_known [OF assms] andThen_ret OrderRepo_GetByIdempotencyKey_def [of ?k, symmetric]
    using True missing
    by (auto simp: OrderRepo_GetByIdempotencyKey_def wp_if_found wp_store_find wp_ret cycle_order_def split: option.split)
qed

lemma wp_resolve_again:
  assumes "billing_cycle e = Some c" "trim_space (or_OutTradeNo x) \<noteq> []"
    and "cycle_order x e0 c d0 y d" "tb_orders (db w) = tb_orders d"
  shows "wp (resolveRenewalOrder e x) (\<lambda>z w'. db w' = db w \<and> z = y) (\<lambda>_ w'. db w' = db w) w"
proof (cases "renewable x")
  case False
  then show ?thesis
    using assms(3) by (auto simp: resolveRenewalOrder_def renewable_def cycle_order_def wp_ret)
next
  case True
  then have found: "find_row or_IdempotencyKey (Some (renewal_key (or_OutTradeNo x) c)) (tb_orders (db w)) = Some y"
    using assms(3,4) by (simp add: cycle_order_def)
  then show ?thesis
    using True
    by (auto simp: resolveRenewalOrder_def renewable_def renewal_key_known [OF assms(1,2)] andThen_ret
        OrderRepo_GetByIdempotencyKey_def wp_if_found wp_store_find wp_ret split: option.split)
qed

section \<open>The end of a grace period\<close>

text \<open>The grace grants of a user that have started and ended at an instant.\<close>

definition due_grace :: "string \<Rightarrow> string set \<Rightarrow> instant \<Rightarrow> EntitlementGrant \<Rightarrow> bool" where
  "due_grace u ids t g \<longleftrightarrow> eg_UserID g = u \<and> eg_EntitlementID g \<in> ids \<and> eg_Status g = GrantStatusActive
     \<and> eg_Source g = GrantSourceSubscriptionGrace \<and> \<not> (eg_StartsAt g \<noteq> 0 \<and> t < eg_StartsAt g)
     \<and> (\<exists>ends. eg_ExpiresAt g = Some ends \<and> ends \<le> t)"

definition grace_ended :: "instant \<Rightarrow> EntitlementGrant \<Rightarrow> EntitlementGrant \<Rightarrow> bool" where
  "grace_ended t g g' \<longleftrightarrow> (\<exists>now. g' = g\<lparr>eg_Status := GrantStatusExpired, eg_ExpiresAt := Some t, eg_UpdatedAt := now\<rparr>)"

text \<open>Some due grants became expired, nothing else changed.\<close>

definition grace_swept :: "string \<Rightarrow> string set \<Rightarrow> instant \<Rightarrow> database \<Rightarrow> database \<Rightarrow> bool" where
  "grace_swept u ids t d d' \<longleftrightarrow> d' = d\<lparr>tb_grants := tb_grants d'\<rparr> \<and> table_ok grant_clash (tb_grants d')
     \<and> (\<forall>g'\<in>set (tb_grants d'). g' \<in> set (tb_grants d) \<or> (\<exists>g\<in>set (tb_grants d). due_grace u ids t g \<and> grace_ended t g g'))
     \<and> (\<forall>g\<in>set (tb_grants d). \<not> due_grace u ids t g \<longrightarrow> g \<in> set (tb_grants d'))"

lemma grace_swept_refl: "table_ok grant_clash (tb_grants d) \<Longrightarrow> grace_swept u ids t d d"
  by (simp add: grace_swept_def)

lemma grace_swept_due:
  assumes "grace_swept u ids t d d'" "g \<in> set (tb_grants d')" "eg_Status g = GrantStatusActive"
  shows "g \<in> set (tb_grants d)"
  using assms by (auto simp: grace_swept_def grace_ended_def)

lemma grace_swept_next:
  assumes swept: "grace_swept u ids t d d1" and g: "g \<in> set (tb_grants d1)" "due_grace u ids t g"
    and new: "grace_ended t g g'" and save: "save_row eg_ID grant_clash g' (tb_grants d1) = Some gs"
  shows "grace_swept u ids t d (d1\<lparr>tb_grants := gs\<rparr>)"
    and "set gs = insert g' (set (tb_grants d1) - {g})"
proof -
  have ok: "table_ok grant_clash (tb_grants d1)" using swept by (simp add: grace_swept_def)
  have id: "eg_ID g' = eg_ID g" using new by (auto simp: grace_ended_def)
  have known: "find_row eg_ID (eg_ID g') (tb_grants d1) \<noteq> None" using g id by (auto simp: find_row_absent)
  then have gs: "gs = replace_row eg_ID g' (tb_grants d1)" using save grants.save_row_Some by blast
  have same: "y = g" if "y \<in> set (tb_grants d1)" "eg_ID y = eg_ID g" for y
    using grants.same_row [OF ok that(1) g(1)] that(2) by (simp add: grant_clash_def)
  have "g' \<noteq> g" using new g(2) by (auto simp: grace_ended_def due_grace_def dest: arg_cong [of _ _ eg_Status])
  then have "y \<noteq> g" if "y \<in> set gs" for y
    using that id same unfolding gs by (auto elim!: replace_rowE)
  moreover have "y = g' \<or> y \<in> set (tb_grants d1)" if "y \<in> set gs" for y
    using that unfolding gs by (auto elim!: replace_rowE)
  moreover have "g' \<in> set gs" unfolding gs by (rule replace_row_mem) (rule known)
  moreover have "y \<in> set gs" if "y \<in> set (tb_grants d1)" "y \<noteq> g" for y
    unfolding gs by (rule replace_row_other) (use that same id in auto)
  ultimately show rows: "set gs = insert g' (set (tb_grants d1) - {g})" by blast
  have "eg_Status g = GrantStatusActive" using g(2) by (simp add: due_grace_def)
  then have old: "g \<in> set (tb_grants d)" by (rule grace_swept_due [OF swept g(1)])
  show "grace_swept u ids t d (d1\<lparr>tb_grants := gs\<rparr>)"
    unfolding grace_swept_def
  proof (intro conjI ballI impI)
    obtain t1 where "d1 = d\<lparr>tb_grants := t1\<rparr>" using swept unfolding grace_swept_def by blast
    then show "d1\<lparr>tb_grants := gs\<rparr> = d\<lparr>tb_grants := tb_grants (d1\<lparr>tb_grants := gs\<rparr>)\<rparr>" by simp
    show "table_ok grant_clash (tb_grants (d1\<lparr>tb_grants := gs\<rparr>))" using grants.save_ok [OF ok save] by simp
    fix y assume "y \<in> set (tb_grants (d1\<lparr>tb_grants := gs\<rparr>))"
    then have "y = g' \<or> y \<in> set (tb_grants d1)" using rows by auto
    then show "y \<in> set (tb_grants d) \<or> (\<exists>g\<in>set (tb_grants d). due_grace u ids t g \<and> grace_ended t g y)"
      using swept old g(2) new by (auto simp: grace_swept_def)
  next
    fix y assume "y \<in> set (tb_grants d)" "\<not> due_grace u ids t y"
    then show "y \<in> set (tb_grants (d1\<lparr>tb_grants := gs\<rparr>))"
      using swept g(2) rows by (auto simp: grace_swept_def)
  qed
qed

lemma wp_expire_grant:
  assumes "grace_swept u ids t d (db w)" "g \<in> set (tb_grants (db w))" "eg_UserID g = u" "eg_EntitlementID g \<in> ids"
    and "eg_Status g = GrantStatusActive"
  shows "wp (expire_grant now t g acc)
    (\<lambda>_ w'. grace_swept u ids t d (db w') \<and> (\<forall>y\<in>set (tb_grants (db w')). due_grace u ids t y
        \<longrightarrow> y \<noteq> g \<and> y \<in> set (tb_grants (db w)))
      \<and> (\<forall>y\<in>set (tb_grants (db w)). y \<noteq> g \<longrightarrow> y \<in> set (tb_grants (db w'))))
    (\<lambda>_ w'. grace_swept u ids t d (db w')) w"
proof (cases "due_grace u ids t g")
  case False
  then show ?thesis
    using assms by (auto simp: expire_grant_def due_grace_def wp_ret split: option.split)
next
  case True
  let ?g = "g\<lparr>eg_Status := GrantStatusExpired, eg_ExpiresAt := Some t, eg_UpdatedAt := now\<rparr>"
  have ended: "grace_ended t g ?g" by (auto simp: grace_ended_def)
  have gone: "\<not> due_grace u ids t ?g" by (simp add: due_grace_def)
  have "grace_swept u ids t d ((db w)\<lparr>tb_grants := gs\<rparr>) \<and> set gs = insert ?g (set (tb_grants (db w)) - {g})"
    if "save_row eg_ID grant_clash ?g (tb_grants (db w)) = Some gs" for gs
    using grace_swept_next [OF assms(1,2) True ended that] by blast
  then show ?thesis
    using True assms(1) gone
    by (auto simp: expire_grant_def due_grace_def EntitlementGrantRepo_Update_def wp_simps split: option.split)
qed

definition grants_of_user :: "string \<Rightarrow> string \<Rightarrow> EntitlementGrant list \<Rightarrow> EntitlementGrant list" where
  "grants_of_user u i gs = List.filter (\<lambda>g. eg_UserID g = u \<and> eg_EntitlementID g = i \<and> eg_Status g = GrantStatusActive) gs"

lemma wp_expire_grants:
  assumes "grace_swept u ids t d (db w)" "set gs \<subseteq> set (tb_grants (db w))" "distinct gs"
    and "\<forall>g\<in>set gs. eg_UserID g = u \<and> eg_EntitlementID g \<in> ids \<and> eg_Status g = GrantStatusActive"
  shows "wp (for_each gs (expire_grant now t) acc)
    (\<lambda>_ w'. grace_swept u ids t d (db w') \<and> (\<forall>y\<in>set (tb_grants (db w')). due_grace u ids t y
        \<longrightarrow> y \<notin> set gs \<and> y \<in> set (tb_grants (db w))))
    (\<lambda>_ w'. grace_swept u ids t d (db w')) w"
proof (rule wp_for_each [where I = "\<lambda>left _ w'. grace_swept u ids t d (db w') \<and> set left \<subseteq> set (tb_grants (db w'))
      \<and> distinct left \<and> set left \<subseteq> set gs
      \<and> (\<forall>y\<in>set (tb_grants (db w')). due_grace u ids t y \<longrightarrow> y \<notin> set gs - set left \<and> y \<in> set (tb_grants (db w)))"])
  fix g left acc and w' :: "database world"
  assume I: "grace_swept u ids t d (db w') \<and> set (g # left) \<subseteq> set (tb_grants (db w')) \<and> distinct (g # left)
    \<and> set (g # left) \<subseteq> set gs
    \<and> (\<forall>y\<in>set (tb_grants (db w')). due_grace u ids t y \<longrightarrow> y \<notin> set gs - set (g # left) \<and> y \<in> set (tb_grants (db w)))"
  then have "g \<in> set gs" "g \<in> set (tb_grants (db w'))" "grace_swept u ids t d (db w')" by auto
  then show "wp (expire_grant now t g acc) (\<lambda>_ w''. grace_swept u ids t d (db w'') \<and> set left \<subseteq> set (tb_grants (db w''))
      \<and> distinct left \<and> set left \<subseteq> set gs \<and> (\<forall>y\<in>set (tb_grants (db w'')). due_grace u ids t y
        \<longrightarrow> y \<notin> set gs - set left \<and> y \<in> set (tb_grants (db w))))
      (\<lambda>_ w'. grace_swept u ids t d (db w')) w'"
  proof -
    have g: "eg_UserID g = u" "eg_EntitlementID g \<in> ids" "eg_Status g = GrantStatusActive"
      using assms(4) I by auto
    have step: "set left \<subseteq> set (tb_grants (db w''))" "distinct left" "set left \<subseteq> set gs"
      "due_grace u ids t y \<Longrightarrow> y \<in> set (tb_grants (db w'')) \<Longrightarrow> y \<notin> set gs - set left \<and> y \<in> set (tb_grants (db w))"
      if "\<forall>y\<in>set (tb_grants (db w'')). due_grace u ids t y \<longrightarrow> y \<noteq> g \<and> y \<in> set (tb_grants (db w'))"
        "\<forall>y\<in>set (tb_grants (db w')). y \<noteq> g \<longrightarrow> y \<in> set (tb_grants (db w''))" for y and w'' :: "database world"
    proof -
      show "set left \<subseteq> set (tb_grants (db w''))" using I that(2) by auto
      show "distinct left" "set left \<subseteq> set gs" using I by auto
      assume "due_grace u ids t y" "y \<in> set (tb_grants (db w''))"
      then have "y \<noteq> g" "y \<in> set (tb_grants (db w'))" using that(1) by blast+
      then show "y \<notin> set gs - set left \<and> y \<in> set (tb_grants (db w))"
        using I \<open>due_grace u ids t y\<close> by auto
    qed
    show ?thesis
      by (rule wp_mono [OF wp_expire_grant [OF \<open>grace_swept u ids t d (db w')\<close> \<open>g \<in> set (tb_grants (db w'))\<close> g]])
        (use step in \<open>blast+\<close>)
  qed
qed (use assms in auto)


lemma listed_grants:
  assumes "table_ok grant_clash t" "u \<noteq> []" "i \<noteq> []"
    and "gs = page 0 0 (sort_key f (List.filter (grant_matches \<lparr>nq_UserID = u, nq_EntitlementID = i,
        nq_Status = GrantStatusActive, nq_IncludeExpired = True, nq_Limit = 0, nq_Offset = 0\<rparr> now) t))"
  shows "set gs = {g \<in> set t. eg_UserID g = u \<and> eg_EntitlementID g = i \<and> eg_Status g = GrantStatusActive}" "distinct gs"
proof -
  have "distinct t" using grants.distinct_keys [OF assms(1)] by (simp add: distinct_map)
  then show "set gs = {g \<in> set t. eg_UserID g = u \<and> eg_EntitlementID g = i \<and> eg_Status g = GrantStatusActive}" "distinct gs"
    using assms(2,3) by (auto simp: assms(4) page_def grant_matches_def column_matches_def)
qed

lemma wp_expire_entitlement:
  assumes swept: "grace_swept u ids t d (db w)" and "u = or_UserID x" "u \<noteq> []" "i \<noteq> []" "i \<in> ids"
  shows "wp (andThen (active_grants_of x i) (\<lambda>grants. for_each grants (expire_grant now t) acc))
    (\<lambda>_ w'. grace_swept u ids t d (db w') \<and> (\<forall>y\<in>set (tb_grants (db w')). due_grace u ids t y
        \<longrightarrow> eg_EntitlementID y \<noteq> i \<and> y \<in> set (tb_grants (db w))))
    (\<lambda>_ w'. grace_swept u ids t d (db w')) w"
proof -
  let ?q = "\<lparr>nq_UserID = u, nq_EntitlementID = i, nq_Status = GrantStatusActive, nq_IncludeExpired = True,
    nq_Limit = 0, nq_Offset = 0\<rparr>"
  let ?gs = "page 0 0 (sort_key (\<lambda>g. - eg_CreatedAt g) (List.filter (grant_matches ?q 0) (tb_grants (db w))))"
  have ok: "table_ok grant_clash (tb_grants (db w))" using swept by (simp add: grace_swept_def)
  have listed: "set ?gs = {g \<in> set (tb_grants (db w)). eg_UserID g = u \<and> eg_EntitlementID g = i
      \<and> eg_Status g = GrantStatusActive}" "distinct ?gs"
    by (rule listed_grants [OF ok assms(3,4) refl])+
  have loop: "wp (for_each ?gs (expire_grant now t) acc)
    (\<lambda>_ w'. grace_swept u ids t d (db w') \<and> (\<forall>y\<in>set (tb_grants (db w')). due_grace u ids t y
        \<longrightarrow> eg_EntitlementID y \<noteq> i \<and> y \<in> set (tb_grants (db w))))
    (\<lambda>_ w'. grace_swept u ids t d (db w')) (next_tick w)"
  proof (rule wp_mono [OF wp_expire_grants [of u ids t d "next_tick w" ?gs now acc]])
    show "grace_swept u ids t d (db (next_tick w))" using swept by simp
    show "set ?gs \<subseteq> set (tb_grants (db (next_tick w)))" "distinct ?gs" using listed by auto
    show "\<forall>g\<in>set ?gs. eg_UserID g = u \<and> eg_EntitlementID g \<in> ids \<and> eg_Status g = GrantStatusActive"
      using listed(1) assms(5) by auto
  next
    fix acc and w' :: "database world"
    assume "grace_swept u ids t d (db w') \<and> (\<forall>y\<in>set (tb_grants (db w')). due_grace u ids t y
        \<longrightarrow> y \<notin> set ?gs \<and> y \<in> set (tb_grants (db (next_tick w))))"
    then show "grace_swept u ids t d (db w') \<and> (\<forall>y\<in>set (tb_grants (db w')). due_grace u ids t y
        \<longrightarrow> eg_EntitlementID y \<noteq> i \<and> y \<in> set (tb_grants (db w)))"
      unfolding listed(1) by (auto simp: due_grace_def)
  qed
  show ?thesis
    unfolding active_grants_of_def EntitlementGrantRepo_List_def assms(2) [symmetric]
    using loop swept by (simp add: andThen_ret wp_andThen wp_db_read split: option.split)
qed

text \<open>The whole sweep: on success nothing due is left.\<close>

lemma wp_expireGraceGrants:
  assumes ok: "table_ok grant_clash (tb_grants (db w))" and "or_UserID x \<noteq> []" "rs_access s x = Inr ids" "[] \<notin> set ids"
    and "t \<noteq> 0"
  shows "wp (expireGraceGrants s x t)
    (\<lambda>_ w'. grace_swept (or_UserID x) (set ids) t (db w) (db w')
       \<and> (\<forall>g\<in>set (tb_grants (db w')). \<not> due_grace (or_UserID x) (set ids) t g))
    (\<lambda>_ w'. grace_swept (or_UserID x) (set ids) t (db w) (db w')) w"
proof -
  let ?u = "or_UserID x"
  let ?sweep = "\<lambda>now entitlementID expired.
    andThen (active_grants_of x entitlementID) (\<lambda>grants. for_each grants (expire_grant now t) expired)"
  have loop: "wp (for_each ids (?sweep now) [])
    (\<lambda>_ w'. grace_swept ?u (set ids) t (db w) (db w') \<and> (\<forall>g\<in>set (tb_grants (db w')). \<not> due_grace ?u (set ids) t g))
    (\<lambda>_ w'. grace_swept ?u (set ids) t (db w) (db w')) (next_tick w)" for now
  proof (rule wp_for_each [where I = "\<lambda>left _ w'. grace_swept ?u (set ids) t (db w) (db w') \<and> set left \<subseteq> set ids
      \<and> (\<forall>g\<in>set (tb_grants (db w')). due_grace ?u (set ids) t g \<longrightarrow> eg_EntitlementID g \<in> set left)"])
    show "grace_swept ?u (set ids) t (db w) (db (next_tick w)) \<and> set ids \<subseteq> set ids
      \<and> (\<forall>g\<in>set (tb_grants (db (next_tick w))). due_grace ?u (set ids) t g \<longrightarrow> eg_EntitlementID g \<in> set ids)"
      using grace_swept_refl [OF ok] by (simp add: due_grace_def)
  next
    fix i left acc and w' :: "database world"
    assume I: "grace_swept ?u (set ids) t (db w) (db w') \<and> set (i # left) \<subseteq> set ids
      \<and> (\<forall>g\<in>set (tb_grants (db w')). due_grace ?u (set ids) t g \<longrightarrow> eg_EntitlementID g \<in> set (i # left))"
    then have "i \<noteq> []" using assms(4) by auto
    with I show "wp (?sweep now i acc) (\<lambda>_ w''. grace_swept ?u (set ids) t (db w) (db w'') \<and> set left \<subseteq> set ids
        \<and> (\<forall>g\<in>set (tb_grants (db w'')). due_grace ?u (set ids) t g \<longrightarrow> eg_EntitlementID g \<in> set left))
      (\<lambda>_ w'. grace_swept ?u (set ids) t (db w) (db w')) w'"
      by (intro wp_mono [OF wp_expire_entitlement [OF _ refl assms(2)]]) auto
  qed auto
  show ?thesis
    unfolding expireGraceGrants_def assms(3) using loop assms(5) by (simp add: wp_andThen wp_time_now)
qed

section \<open>What was paid for\<close>

text \<open>Settled orders and grants that are no grace grants, all of them stored.\<close>

definition spares :: "Order set \<Rightarrow> EntitlementGrant set \<Rightarrow> database \<Rightarrow> bool" where
  "spares S G d \<longleftrightarrow> table_ok order_clash (tb_orders d) \<and> table_ok grant_clash (tb_grants d)
     \<and> S \<subseteq> set (tb_orders d) \<and> G \<subseteq> set (tb_grants d)
     \<and> (\<forall>x\<in>S. settled x) \<and> (\<forall>g\<in>G. eg_Source g \<noteq> GrantSourceSubscriptionGrace)"

text \<open>A row that may be written: it is no other version of a spared one.\<close>

definition own_order :: "Order set \<Rightarrow> Order \<Rightarrow> bool" where
  "own_order S x \<longleftrightarrow> (\<forall>y\<in>S. or_ID y = or_ID x \<longrightarrow> y = x)"

lemma spares_own: "spares S G d \<Longrightarrow> x \<in> set (tb_orders d) \<Longrightarrow> own_order S x"
  using orders.same_row [of "tb_orders d"] by (fastforce simp: spares_def own_order_def order_clash_def)

lemma spares_own_grant:
  assumes "spares S G d" "g \<in> set (tb_grants d)" "eg_Source g = GrantSourceSubscriptionGrace"
  shows "\<forall>h\<in>G. eg_ID h \<noteq> eg_ID g"
  using assms grants.same_row [of "tb_grants d"] by (fastforce simp: spares_def grant_clash_def)

lemma keeps_spares_update:
  assumes "\<forall>y\<in>S. or_ID y = or_ID x \<longrightarrow> y = x"
  shows "keeps (spares S G) (OrderRepo_Update x)"
  unfolding OrderRepo_Update_def
proof (rule keeps_store_save)
  fix d t assume d: "spares S G d" "save_row or_ID order_clash x (tb_orders d) = Some t"
  have rows: "replace_row or_ID x (tb_orders d) = t \<or> t = tb_orders d @ [x]"
    using d(2) by (auto simp: save_row_def insert_row_def split: if_splits)
  have "y \<in> set t" if "y \<in> S" for y
  proof (cases "or_ID y = or_ID x")
    case True
    then have "y = x" using assms that by simp
    then show ?thesis using d(2) save_row_mem by metis
  next
    case False
    have "y \<in> set (tb_orders d)" using d(1) that by (auto simp: spares_def)
    then show ?thesis using rows False replace_row_other by fastforce
  qed
  moreover have "table_ok order_clash t"
    using d orders.save_ok by (auto simp: spares_def)
  ultimately show "spares S G (tb_orders_update (\<lambda>_. t) d)"
    using d(1) by (auto simp: spares_def)
qed

lemma keeps_spares_grant_update:
  assumes "\<forall>h\<in>G. eg_ID h \<noteq> eg_ID g"
  shows "keeps (spares S G) (EntitlementGrantRepo_Update g)"
  unfolding EntitlementGrantRepo_Update_def
proof (rule keeps_store_save)
  fix d t assume d: "spares S G d" "save_row eg_ID grant_clash g (tb_grants d) = Some t"
  have rows: "replace_row eg_ID g (tb_grants d) = t \<or> t = tb_grants d @ [g]"
    using d(2) by (auto simp: save_row_def insert_row_def split: if_splits)
  have "h \<in> set t" if "h \<in> G" for h
    using that assms rows d(1) replace_row_other [of h "tb_grants d" eg_ID g] by (auto simp: spares_def)
  moreover have "table_ok grant_clash t"
    using d grants.save_ok by (auto simp: spares_def)
  ultimately show "spares S G (tb_grants_update (\<lambda>_. t) d)"
    using d(1) by (auto simp: spares_def)
qed

lemma keeps_for_each_in:
  "(\<And>x acc. x \<in> set xs \<Longrightarrow> keeps P (body x acc)) \<Longrightarrow> keeps P (for_each xs body acc)"
  by (induction xs arbitrary: acc) (auto intro!: keeps_andThen)

lemma keeps_spares_create_grant: "keeps (spares S G) (createGrantWithRepos u c input)"
proof -
  have "keeps (spares S G) (EntitlementGrantRepo_Create g)" for g
    unfolding EntitlementGrantRepo_Create_def
    by (rule keeps_store_create)
      (auto simp: spares_def insert_row_def table_ok_def sorted_wrt_append split: if_splits)
  then show ?thesis
    unfolding createGrantWithRepos_def issue_grant_def Let_def EntitlementGrantRepo_GetByIdempotencyKey_def
      UserRepo_GetByID_def EntitlementGrantRepo_ListByUser_def
    by (intro keeps_rules)
qed

lemma readonly_active_grants: "keeps P (active_grants_of x i)"
  by (rule keeps_readonly) (rule readonly_renewal_keys)

lemma keeps_spares_grace: "keeps (spares S G) (ensureGraceGrants s e x n)"
  unfolding ensureGraceGrants_def grace_step_def
  by (intro keeps_andThen keeps_of_sum keeps_for_each keeps_ret readonly_active_grants keeps_spares_create_grant
      keeps_readonly [OF readonly_event_instants(3)])

lemma keeps_spares_expire_grant:
  assumes "eg_Source g = GrantSourceSubscriptionGrace \<Longrightarrow> \<forall>h\<in>G. eg_ID h \<noteq> eg_ID g"
  shows "keeps (spares S G) (expire_grant now t g acc)"
proof (cases "eg_Source g = GrantSourceSubscriptionGrace")
  case True
  then show ?thesis
    using assms unfolding expire_grant_def
    by (auto intro!: keeps_if keeps_ret keeps_cases keeps_andThen keeps_spares_grant_update split: option.split)
qed (simp add: expire_grant_def keeps_ret)

lemma keeps_spares_expire: "keeps (spares S G) (expireGraceGrants s x t)"
proof -
  have sweep: "keeps (spares S G) (andThen (active_grants_of x i) (\<lambda>gs. for_each gs (expire_grant now at_time) acc))"
    for i now at_time acc
  proof (rule keeps_andThen_post [OF readonly_active_grants])
    fix d assume d: "spares S G d"
    show "wlp (active_grants_of x i) (\<lambda>gs _. keeps (spares S G) (for_each gs (expire_grant now at_time) acc)) d"
      unfolding active_grants_of_def EntitlementGrantRepo_List_def EntitlementGrantQuery.simps if_True
      apply (rule wlp_andThen, rule wlp_ret, rule wlp_db_read)
      apply (rule keeps_for_each_in, rule keeps_spares_expire_grant, rule spares_own_grant [OF d])
      by (use set_page in \<open>auto dest: subsetD [OF set_page]\<close>)
  qed
  show ?thesis
    unfolding expireGraceGrants_def Let_def
    by (cases "rs_access s x") (auto intro!: keeps_if keeps_fail keeps_ret keeps_andThen keeps_time_now keeps_for_each sweep)
qed

lemma keeps_spares_update_status:
  assumes "own_order S x" "pe_EventType e \<in> {EventTypeRenewalFailed, EventTypeSubscriptionExpired}"
  shows "keeps (spares S G) (updateRenewalOrderStatus x e)"
proof (cases "x \<in> S \<and> settled x")
  case True
  then have "keeps (spares S G) (OrderRepo_Update x)"
    using assms(1) by (intro keeps_spares_update) (simp add: own_order_def)
  then show ?thesis
    using assms(2) True
    by (auto simp: updateRenewalOrderStatus_def settled_def Let_def intro!: keeps_andThen keeps_ret keeps_if)
next
  case False
  have other: "keeps (spares S G) (OrderRepo_Update x')" if "or_ID x' = or_ID x" for x'
  proof (cases "\<exists>d. spares S G d")
    case True
    then have "\<forall>y\<in>S. settled y" by (auto simp: spares_def)
    then have "x \<notin> S" using False by blast
    then show ?thesis using assms(1) that by (intro keeps_spares_update) (auto simp: own_order_def)
  qed (simp add: keeps_def)
  show ?thesis
    unfolding updateRenewalOrderStatus_def Let_def
    using assms(2) by (auto intro!: keeps_andThen keeps_ret keeps_if other)
qed

lemma keeps_spares_decision:
  assumes "sd_Action (rs_policy s e) \<noteq> RenewalActionFulfillRenewal"
  shows "keeps (spares S G) (apply_decision s e x)"
  unfolding apply_decision_def Let_def if_not_P [OF assms]
  by (intro keeps_if keeps_andThen keeps_fail keeps_ret keeps_cases keeps_spares_grace keeps_spares_expire
      keeps_readonly [OF readonly_event_instants(1)])

lemma wlp_create_own:
  assumes "spares S G d"
  shows "wlp (attempt (OrderRepo_Create x)) (\<lambda>r _. \<forall>y. r = Inr y \<longrightarrow> own_order S y) d"
  unfolding wlp_def
proof (intro allI impI)
  fix w :: "database world" assume w: "db w = d"
  show "wp (attempt (OrderRepo_Create x)) (\<lambda>r w'. \<forall>y. r = Inr y \<longrightarrow> own_order S y) (\<lambda>_ _. True) w"
    unfolding wp_attempt
  proof (rule wp_OrderRepo_Create)
    fix i t
    assume "t = tb_orders (db w) @ [x\<lparr>or_ID := i\<rparr>]" "insert_row order_clash (x\<lparr>or_ID := i\<rparr>) (tb_orders (db w)) = Some t"
    then have "\<forall>y\<in>set (tb_orders d). \<not> order_clash y (x\<lparr>or_ID := i\<rparr>)"
      using w by (auto simp: insert_row_def split: if_splits)
    then show "\<forall>y. Inr (x\<lparr>or_ID := i\<rparr>) = Inr y \<longrightarrow> own_order S y"
      using assms by (fastforce simp: own_order_def spares_def order_clash_def)
  qed simp_all
qed

lemma keeps_spares_create: "keeps (spares S G) (OrderRepo_Create x)"
  unfolding OrderRepo_Create_def Let_def
proof (rule keeps_db_write, clarsimp)
  fix d t and y :: Order
  assume d: "spares S G d"
  assume "insert_row order_clash (if or_ID x = 0 then x\<lparr>or_ID := next_order_id (tb_orders d)\<rparr> else x) (tb_orders d) = Some t"
  then show "spares S G (d\<lparr>tb_orders := t\<rparr>)"
    using d by (auto simp: spares_def insert_row_def table_ok_def sorted_wrt_append split: if_splits)
qed

lemma wlp_resolve_own:
  assumes d: "spares S G d" and own: "own_order S x"
  shows "wlp (resolveRenewalOrder e x) (\<lambda>y _. own_order S y) d"
proof -
  have found: "wlp (attempt (OrderRepo_GetByIdempotencyKey k)) (\<lambda>r _. \<forall>y. r = Inr y \<longrightarrow> own_order S y) d'"
    if "spares S G d'" for d' k
    unfolding OrderRepo_GetByIdempotencyKey_def
    by (rule wlp_attempt_find) (use spares_own [OF that] find_row_found in fastforce)+
  have create: "wlp (attempt (OrderRepo_Create z)) (\<lambda>r d'. (\<forall>y. r = Inr y \<longrightarrow> own_order S y) \<and> spares S G d') d" for z
    by (rule wlp_conj [OF wlp_create_own [OF d] wlp_keeps [OF keeps_attempt [OF keeps_spares_create] d]])
  have derive: "wlp (andThen (attempt (OrderRepo_Create z)) (\<lambda>r.
      case r of Inr derived \<Rightarrow> ret derived
      | Inl err \<Rightarrow> andThen (attempt (OrderRepo_GetByIdempotencyKey k)) (\<lambda>r2.
          case r2 of Inr existing \<Rightarrow> ret existing | Inl _ \<Rightarrow> fail err))) (\<lambda>y _. own_order S y) d" for z k
    apply (rule wlp_andThen, rule wlp_mono [OF create], rule wlp_sum)
     apply (rule wlp_andThen, rule wlp_mono [OF found], blast)
     apply (rule wlp_sum, rule wlp_fail, rule wlp_ret, blast)
    apply (rule wlp_ret, blast)
    done
  show ?thesis
    unfolding resolveRenewalOrder_def
    apply (rule wlp_if, rule wlp_ret, rule own, rule wlp_if, rule wlp_ret, rule own)
    apply (rule wlp_andThen, rule wlp_readonly [OF readonly_renewal_keys(2)])
    apply (subst OrderRepo_GetByIdempotencyKey_def, rule wlp_if_found)
     apply (rule wlp_ret, rule spares_own [OF d], drule find_row_found, blast)
    apply (rule wlp_andThen, rule wlp_readonly [OF readonly_event_instants(2)])
    apply (rule wlp_andThen, rule wlp_readonly [OF readonly_renewal_keys(1)])
    by (rule derive)
qed

lemma keeps_spares_resolve: "keeps (spares S G) (resolveRenewalOrder e x)"
  unfolding resolveRenewalOrder_def OrderRepo_GetByIdempotencyKey_def
  by (intro keeps_if keeps_ret keeps_andThen keeps_if_found keeps_attempt keeps_store_find keeps_cases keeps_fail
      keeps_spares_create keeps_readonly [OF readonly_renewal_keys(2)] keeps_readonly [OF readonly_renewal_keys(1)]
      keeps_readonly [OF readonly_event_instants(2)])

lemma keeps_spares_renewal:
  assumes "pe_EventType e \<in> {EventTypeRenewalFailed, EventTypeSubscriptionExpired}"
    and "sd_Action (rs_policy s e) \<noteq> RenewalActionFulfillRenewal"
  shows "keeps (spares S G) (renewal_applyWithRepos s e)"
  unfolding renewal_applyWithRepos_def
proof (rule keeps_andThen_post)
  show "keeps (spares S G) (OrderRepo_GetByOutTradeNo n)" for n
    unfolding OrderRepo_GetByOutTradeNo_def by (rule keeps_store_find)
next
  fix d assume d: "spares S G d"
  have initial: "\<not> isCheckoutBackedRenewalEventFromOrder x e" for x
    using assms(1) by (auto simp: isCheckoutBackedRenewalEventFromOrder_def)
  have rest: "keeps (spares S G) (andThen (resolveRenewalOrder e x) (\<lambda>x1.
      if or_OrderType x1 \<noteq> OrderTypeRenewal \<or> trim_space (or_UserID x1) = [] \<or> trim_space (or_SKUCode x1) = []
      then ret (r x1) else andThen (updateRenewalOrderStatus x1 e) (apply_decision s e)))"
    if "own_order S x" for x and r :: "Order \<Rightarrow> RenewalResult"
    by (rule keeps_andThen_post [OF keeps_spares_resolve], rule wlp_mono [OF wlp_resolve_own [OF _ that]], assumption)
      (intro keeps_if keeps_ret keeps_andThen keeps_spares_decision keeps_spares_update_status assms)
  show "wlp (OrderRepo_GetByOutTradeNo (trim_space (pe_OutTradeNo e))) (\<lambda>x _. keeps (spares S G)
     (if isCheckoutBackedRenewalEventFromOrder x e then
       (let decision = \<lparr>sd_Action = RenewalActionFulfillCheckout, sd_Reason = ''initial_subscription_paid'',
              sd_GracePeriodDays = 0\<rparr>
        in andThen (reject_if (rs_fulfillment s = None) ErrInvalidSubscriptionRenewal) (\<lambda>_.
           andThen (markInitialCheckoutPaid x e) (\<lambda>x'. fulfill_with s x' decision)))
     else
       andThen (resolveRenewalOrder e x) (\<lambda>x1.
       if or_OrderType x1 \<noteq> OrderTypeRenewal \<or> trim_space (or_UserID x1) = [] \<or> trim_space (or_SKUCode x1) = []
       then ret (renewal_result x1 \<lparr>sd_Action = RenewalActionIgnore,
              sd_Reason = ''unsupported_subscription_event'', sd_GracePeriodDays = 0\<rparr>
              ''non_subscription_renewal_order_ignored'')
       else andThen (updateRenewalOrderStatus x1 e) (apply_decision s e)))) d"
    unfolding OrderRepo_GetByOutTradeNo_def if_not_P [OF initial]
    by (rule wlp_store_find, rule rest, rule spares_own [OF d], drule find_row_found, blast)
qed

lemma keeps_spares_Renewal_Apply:
  assumes "pe_EventType e \<in> {EventTypeRenewalFailed, EventTypeSubscriptionExpired}"
    and "sd_Action (rs_policy s e) \<noteq> RenewalActionFulfillRenewal"
  shows "keeps (spares S G) (Renewal_Apply s e)"
  unfolding Renewal_Apply_def withSubscriptionRenewalTransaction_def
  by (intro keeps_andThen keeps_reject_if keeps_if keeps_in_transaction keeps_spares_renewal assms
      keeps_readonly [OF readonly_renewal_keys(3)])

section \<open>Properties\<close>

text \<open>C24: One renewal order per billing cycle: resolving an event of a checkout order gives the order of
  its cycle, stored before or created now as the only change; any later event of the same
  cycle gives that order again, as long as the orders are what they were, and changes nothing.\<close>

theorem renewal_order_once:
  assumes "billing_cycle e = Some c" "billing_cycle e2 = Some c" "trim_space (or_OutTradeNo x) \<noteq> []"
    and "resolveRenewalOrder e x w = (Inr y, w')"
    and "tb_orders (db w2) = tb_orders (db w')" "resolveRenewalOrder e2 x w2 = (r, w3)"
  shows "cycle_order x e c (db w) y (db w') \<and> db w3 = db w2 \<and> (\<forall>z. r = Inr z \<longrightarrow> z = y)"
proof -
  have first: "cycle_order x e c (db w) y (db w')"
    using wp_run [OF wp_resolve [OF assms(1,3)] assms(4)] .
  then show ?thesis
    using wp_resolve_again [OF assms(2,3) first assms(5)] assms(6) by (cases r) (auto simp: wp_def)
qed

text \<open>When a grace period ends, exactly the grace grants of the order's user and entitlements that have
  started and ended by the event are expired, and no other row of any table changes; after a
  success none of them is left active.\<close>

theorem grace_expiry_effect:
  assumes "table_ok grant_clash (tb_grants (db w))" "or_UserID x \<noteq> []" "rs_access s x = Inr ids" "[] \<notin> set ids"
    and "t \<noteq> 0" "expireGraceGrants s x t w = (r, w')"
  shows "grace_swept (or_UserID x) (set ids) t (db w) (db w')
    \<and> (\<not> isl r \<longrightarrow> (\<forall>g\<in>set (tb_grants (db w')). \<not> due_grace (or_UserID x) (set ids) t g))"
  using wp_expireGraceGrants [OF assms(1-5)] assms(6) by (cases r) (auto simp: wp_def)

text \<open>C25: A failed or expired renewal takes nothing that was paid for: whatever its outcome, every paid or
  fulfilled order and every entitlement grant that is not a grace grant stays exactly as it
  was.\<close>

theorem renewal_spares_paid:
  assumes "pe_EventType e \<in> {EventTypeRenewalFailed, EventTypeSubscriptionExpired}"
    and "rs_policy s = Renewal_Decide (normalizeSubscriptionRenewalPolicyConfig c)"
    and "table_ok order_clash (tb_orders (db w))" "table_ok grant_clash (tb_grants (db w))"
    and "Renewal_Apply s e w = (r, w')"
  shows "(\<forall>x\<in>set (tb_orders (db w)). settled x \<longrightarrow> x \<in> set (tb_orders (db w')))
    \<and> (\<forall>g\<in>set (tb_grants (db w)). eg_Source g \<noteq> GrantSourceSubscriptionGrace \<longrightarrow> g \<in> set (tb_grants (db w')))"
proof -
  let ?S = "{x \<in> set (tb_orders (db w)). settled x}"
  let ?G = "{g \<in> set (tb_grants (db w)). eg_Source g \<noteq> GrantSourceSubscriptionGrace}"
  have "trim_space EventTypeRenewalFailed = EventTypeRenewalFailed"
    "trim_space EventTypeSubscriptionExpired = EventTypeSubscriptionExpired" by code_simp+
  then have action: "sd_Action (rs_policy s e) \<noteq> RenewalActionFulfillRenewal"
    using assms(1) unfolding assms(2)
    by (auto simp: Renewal_Decide_def normalizeSubscriptionRenewalPolicyConfig_def Let_def
        DefaultSubscriptionRenewalPolicyConfig_def)
  have "spares ?S ?G (db w)" using assms(3,4) by (auto simp: spares_def)
  then have "spares ?S ?G (db w')"
    using keepsD [OF keeps_spares_Renewal_Apply [OF assms(1) action]] assms(5) by fastforce
  then show ?thesis by (auto simp: spares_def)
qed

section \<open>Witnesses\<close>

definition renewal_event :: "string \<Rightarrow> PaymentEvent" where
  "renewal_event t = \<lparr>pe_ID = ''pe_5'', pe_Provider = ''creem'', pe_ProviderEventID = ''evt_5'', pe_EventType = t,
     pe_OutTradeNo = ''T1'', pe_ProviderTradeNo = [], pe_Amount = 990, pe_Currency = ''USD'',
     pe_PeriodStartAt = None, pe_PeriodEndAt = None, pe_SignatureVerified = True, pe_PayloadHash = [],
     pe_RawPayload = [], pe_Status = EventStatusProcessing, pe_Attempts = 1, pe_LastError = [],
     pe_ReceivedAt = 50, pe_ProcessedAt = None, pe_CreatedAt = 1, pe_UpdatedAt = 1\<rparr>"

definition subscription_order :: Order where
  "subscription_order = (sample_order OrderStatusFulfilled)\<lparr>or_SKUCode := SKUProOwnAIMonthly\<rparr>"

definition w_subscribed :: "database world" where
  "w_subscribed = sample_world 0 (users_db\<lparr>tb_orders := [subscription_order]\<rparr>)"

definition w_renewed :: "database world" where
  "w_renewed = snd (resolveRenewalOrder (renewal_event EventTypeRenewalPaid) subscription_order w_subscribed)"

lemma renewal_order_once_witness:
  "\<exists>y. cycle_order subscription_order (renewal_event EventTypeRenewalPaid)
       (format_year_month 50) (db w_subscribed) y (db w_renewed)
     \<and> length (tb_orders (db w_renewed)) = 2
     \<and> db (snd (resolveRenewalOrder (renewal_event EventTypeRenewalFailed) subscription_order w_renewed)) = db w_renewed"
proof -
  let ?r = "resolveRenewalOrder (renewal_event EventTypeRenewalPaid) subscription_order w_subscribed"
  have cycle: "billing_cycle (renewal_event t) = Some (format_year_month 50)" for t
    by (simp add: billing_cycle_def renewal_event_def set_instant_def)
  have named: "trim_space (or_OutTradeNo subscription_order) \<noteq> []" by code_simp
  have run: "?r = (Inr (ok_result ?r), w_renewed)" unfolding w_renewed_def by (rule run_ok) code_simp
  have "length (tb_orders (db w_renewed)) = 2" by code_simp
  with renewal_order_once [OF cycle cycle named run refl prod.collapse [symmetric]] show ?thesis by blast
qed

text \<open>An order in its grace period, one grace grant that has ended and one that was bought.\<close>

definition grace_grant :: "string \<Rightarrow> string \<Rightarrow> EntitlementGrant" where
  "grace_grant i source = \<lparr>eg_ID = i, eg_UserID = ''usr_1'', eg_EntitlementID = EntitlementEditorialStudio,
     eg_Status = GrantStatusActive, eg_Source = source, eg_StartsAt = 5, eg_ExpiresAt = Some 10,
     eg_CreatedBy = ''system'', eg_IdempotencyKey = None, eg_CreatedAt = 5, eg_UpdatedAt = 5, eg_RevokedAt = None\<rparr>"

definition w_grace :: "database world" where
  "w_grace = sample_world 0 (users_db\<lparr>tb_orders := [subscription_order],
     tb_grants := [grace_grant ''g1'' GrantSourceSubscriptionGrace, grace_grant ''g2'' GrantSourceManual]\<rparr>)"

lemma grace_tables_ok:
  "table_ok grant_clash (tb_grants (db w_grace))" "table_ok order_clash (tb_orders (db w_grace))"
  by code_simp+

definition one_entitlement :: renewal_service where
  "one_entitlement = sample_renewal\<lparr>rs_access := (\<lambda>_. Inr [EntitlementEditorialStudio])\<rparr>"

lemma grace_expiry_effect_witness:
  "grace_swept ''usr_1'' {EntitlementEditorialStudio} 20 (db w_grace)
     (db (snd (expireGraceGrants one_entitlement subscription_order 20 w_grace)))
   \<and> List.map eg_Status (tb_grants (db (snd (expireGraceGrants one_entitlement subscription_order 20 w_grace))))
     = [GrantStatusExpired, GrantStatusActive]"
proof
  have user: "or_UserID subscription_order = ''usr_1''" by code_simp
  have access: "rs_access one_entitlement subscription_order = Inr [EntitlementEditorialStudio]"
    by (simp add: one_entitlement_def)
  have "or_UserID subscription_order \<noteq> []" "[] \<notin> set [EntitlementEditorialStudio]" "(20::int) \<noteq> 0"
    by (simp_all add: user)
  from grace_expiry_effect [OF grace_tables_ok(1) this(1) access this(2,3) prod.collapse [symmetric]]
  show "grace_swept ''usr_1'' {EntitlementEditorialStudio} 20 (db w_grace)
     (db (snd (expireGraceGrants one_entitlement subscription_order 20 w_grace)))"
    by (simp add: user)
qed code_simp

lemma renewal_spares_paid_witness:
  "subscription_order \<in> set (tb_orders (db (snd (Renewal_Apply sample_renewal (renewal_event EventTypeSubscriptionExpired) w_grace))))
   \<and> grace_grant ''g2'' GrantSourceManual
       \<in> set (tb_grants (db (snd (Renewal_Apply sample_renewal (renewal_event EventTypeSubscriptionExpired) w_grace))))"
proof -
  have type: "pe_EventType (renewal_event EventTypeSubscriptionExpired) \<in> {EventTypeRenewalFailed, EventTypeSubscriptionExpired}"
    by (simp add: renewal_event_def)
  have "normalizeSubscriptionRenewalPolicyConfig DefaultSubscriptionRenewalPolicyConfig
      = DefaultSubscriptionRenewalPolicyConfig" by code_simp
  then have policy: "rs_policy sample_renewal
      = Renewal_Decide (normalizeSubscriptionRenewalPolicyConfig DefaultSubscriptionRenewalPolicyConfig)"
    by (simp add: sample_renewal_def)
  have stored: "subscription_order \<in> set (tb_orders (db w_grace))" "settled subscription_order"
    "grace_grant ''g2'' GrantSourceManual \<in> set (tb_grants (db w_grace))"
    "eg_Source (grace_grant ''g2'' GrantSourceManual) \<noteq> GrantSourceSubscriptionGrace"
    by code_simp+
  show ?thesis
    using renewal_spares_paid [OF type policy grace_tables_ok(2,1) prod.collapse [symmetric]] stored by blast
qed

end
