(* ===== verification/Commerce_Catalog_Theorems.thy ===== *)
theory Commerce_Catalog_Theorems
  imports Commerce_Catalog Sample_World
begin

text \<open>
  The properties of the commercial catalog: normalized string sets, valid catalogs, the
  reconciliation of the stored products with a catalog, and that the default catalog can
  deliver what it sells.
\<close>

section \<open>String sets\<close>

lemma normalize_set_loop:
  "set (normalize_set_loop seen vs) = {trim_space v | v. v \<in> set vs \<and> trim_space v \<noteq> [] \<and> trim_space v \<notin> set seen}"
  "distinct (normalize_set_loop seen vs)"
  by (induction seen vs rule: normalize_set_loop.induct) (auto simp: Let_def)

lemma set_normalizeStringSet:
  "set (normalizeStringSet vs) = {trim_space v | v. v \<in> set vs \<and> trim_space v \<noteq> []}" "distinct (normalizeStringSet vs)"
  using normalize_set_loop [of "[]" vs] by (simp_all add: normalizeStringSet_def)

lemma normalize_set_loop_id:
  "distinct vs \<Longrightarrow> set vs \<inter> set seen = {} \<Longrightarrow> \<forall>v\<in>set vs. trim_space v = v \<and> v \<noteq> [] \<Longrightarrow> normalize_set_loop seen vs = vs"
  by (induction vs arbitrary: seen) auto

lemma normalizeStringSet_idem [simp]: "normalizeStringSet (normalizeStringSet vs) = normalizeStringSet vs"
  unfolding normalizeStringSet_def [of "normalizeStringSet vs"]
  by (rule normalize_set_loop_id) (auto simp: set_normalizeStringSet)

text \<open>A second normalization of a definition changes nothing.\<close>

lemma defaultString_trimmed [simp]:
  "defaultString (trim_space (defaultString (trim_space s) t)) t = defaultString (trim_space s) t" if "trim_space t = t"
  using that by (simp add: defaultString_def)

lemma normalizeProductDefinition_idem:
  "normalizeProductDefinition (normalizeProductDefinition p) = normalizeProductDefinition p"
proof -
  have "trim_space ''USD'' = ''USD''" "trim_space ''lifetime'' = ''lifetime''" by code_simp+
  then show ?thesis by (simp add: normalizeProductDefinition_def)
qed

section \<open>Valid catalogs\<close>

definition catalog_ok :: "ProductDefinition list \<Rightarrow> bool" where
  "catalog_ok catalog \<longleftrightarrow> distinct (List.map pf_Code catalog)
     \<and> (\<forall>p\<in>set catalog. normalizeProductDefinition p = p \<and> pf_Code p \<noteq> [] \<and> pf_Name p \<noteq> [] \<and> pf_Kind p \<noteq> [])"

lemma product_catalog_loop_ok:
  "product_catalog_loop acc ds = Inr catalog \<Longrightarrow> catalog_ok acc \<Longrightarrow> catalog_ok catalog
     \<and> catalog = acc @ List.map normalizeProductDefinition ds"
proof (induction acc ds rule: product_catalog_loop.induct)
  case (2 acc d ds)
  let ?p = "normalizeProductDefinition d"
  have p: "\<not> (pf_Code ?p = [] \<or> pf_Name ?p = [] \<or> pf_Currency ?p = [] \<or> pf_Validity ?p = [] \<or> pf_Kind ?p = [])"
    "pf_Code ?p \<notin> pf_Code ` set acc"
    using "2.prems"(1) by (auto simp: Let_def split: if_splits)
  then have "catalog_ok (acc @ [?p])"
    using "2.prems"(2) by (auto simp: catalog_ok_def normalizeProductDefinition_idem)
  moreover have "product_catalog_loop (acc @ [?p]) ds = Inr catalog"
    using "2.prems"(1) p by (simp add: Let_def split: if_splits)
  ultimately have "catalog_ok catalog \<and> catalog = (acc @ [?p]) @ List.map normalizeProductDefinition ds"
    by (intro "2.IH" [OF refl p])
  then show ?case by (metis append.assoc append_Cons append_Nil list.simps(9))
qed simp

lemma NewStaticProductCatalog_ok:
  assumes "NewStaticProductCatalog ds = Inr catalog"
  shows "catalog_ok catalog" "catalog = List.map normalizeProductDefinition ds"
proof -
  have "catalog_ok []" "product_catalog_loop [] ds = Inr catalog"
    using assms by (simp_all add: NewStaticProductCatalog_def catalog_ok_def)
  then show "catalog_ok catalog" "catalog = List.map normalizeProductDefinition ds"
    using product_catalog_loop_ok by fastforce+
qed

lemma DomainProduct_code: "catalog_ok catalog \<Longrightarrow> p \<in> set catalog \<Longrightarrow> pr_Code (DomainProduct p) = pf_Code p"
  by (simp add: catalog_ok_def DomainProduct_def Let_def)

section \<open>Reconciliation\<close>

definition stored_product :: "database \<Rightarrow> string \<Rightarrow> Product option" where
  "stored_product d k = find_row pr_Code k (tb_products d)"

definition catalog_product :: "ProductDefinition list \<Rightarrow> string \<Rightarrow> Product option" where
  "catalog_product catalog k = map_option DomainProduct (List.find (\<lambda>p. pr_Code (DomainProduct p) = k) catalog)"

definition counted :: "ProductCatalogReconcileResult \<Rightarrow> int" where
  "counted r = pc_Created r + pc_Updated r + pc_Unchanged r"

lemma reconcile_unchanged:
  "\<not> productNeedsReconcile x y \<Longrightarrow> pr_Code x = pr_Code y \<Longrightarrow> x = y" for x y :: Product
  by (cases x; cases y) (simp add: productNeedsReconcile_def)

lemma not_needs_reconcile [simp]: "\<not> productNeedsReconcile x x"
  by (simp add: productNeedsReconcile_def)

lemma wlp_reconcile_step:
  "wlp (reconcile_step p acc) (\<lambda>r d'. counted r = counted acc + 1 \<and> d' = d\<lparr>tb_products := tb_products d'\<rparr>
     \<and> (\<forall>k. stored_product d' k = (if k = pr_Code (DomainProduct p) then Some (DomainProduct p) else stored_product d k))) d"
  unfolding reconcile_step_def Let_def ProductRepo_GetByCode_def ProductRepo_Update_def ProductRepo_Create_def
  apply (rule wlp_if_found, rule wlp_if)
  subgoal premises f for x
  proof -
    let ?y = "(DomainProduct p)\<lparr>pr_Code := pr_Code x\<rparr>"
    have code: "pr_Code x = pr_Code (DomainProduct p)" using find_row_found [OF f(1)] by simp
    then have y: "?y = DomainProduct p" by simp
    have "stored_product (d\<lparr>tb_products := t\<rparr>) k
        = (if k = pr_Code (DomainProduct p) then Some (DomainProduct p) else stored_product d k)"
      if "save_row pr_Code product_clash (DomainProduct p) (tb_products d) = Some t" for t k
    proof -
      have "t = replace_row pr_Code (DomainProduct p) (tb_products d)"
        using that f(1) by (intro products.save_row_Some) simp_all
      then show ?thesis using f(1) by (auto simp: stored_product_def products.find_replace)
    qed
    then show ?thesis
      unfolding y by (intro wlp_andThen wlp_store_save wlp_ret) (simp add: counted_def)
  qed
  subgoal premises f for x
  proof (rule wlp_ret)
    have code: "pr_Code x = pr_Code (DomainProduct p)" using find_row_found [OF f(1)] by simp
    have "x = DomainProduct p" by (rule reconcile_unchanged) (use f(2) code in simp_all)
    then show "counted (acc\<lparr>pc_Unchanged := pc_Unchanged acc + 1\<rparr>) = counted acc + 1 \<and> d = d\<lparr>tb_products := tb_products d\<rparr>
        \<and> (\<forall>k. stored_product d k = (if k = pr_Code (DomainProduct p) then Some (DomainProduct p) else stored_product d k))"
      using f(1) by (simp add: counted_def stored_product_def)
  qed
  subgoal premises f
    apply (rule wlp_andThen, rule wlp_store_create, rule wlp_ret)
    subgoal premises t for t using products.find_insert [OF t] by (simp add: counted_def stored_product_def)
    done
  done

lemma wlp_reconcile:
  assumes "distinct (List.map (\<lambda>p. pr_Code (DomainProduct p)) catalog)"
  shows "wlp (for_each catalog reconcile_step acc) (\<lambda>r d'. counted r = counted acc + int (length catalog)
     \<and> d' = d\<lparr>tb_products := tb_products d'\<rparr>
     \<and> (\<forall>k. stored_product d' k = (case catalog_product catalog k of None \<Rightarrow> stored_product d k | Some y \<Rightarrow> Some y))) d"
  using assms
proof (induction catalog arbitrary: acc d)
  case Nil
  then show ?case by (simp add: wlp_ret catalog_product_def)
next
  case (Cons p ps)
  have absent: "catalog_product ps (pr_Code (DomainProduct p)) = None"
    using Cons.prems unfolding catalog_product_def by (simp add: find_None_iff) (metis image_eqI)
  show ?case
    unfolding for_each.simps
  proof (rule wlp_andThen, rule wlp_mono [OF wlp_reconcile_step])
    fix r d1
    assume step: "counted r = counted acc + 1 \<and> d1 = d\<lparr>tb_products := tb_products d1\<rparr>
      \<and> (\<forall>k. stored_product d1 k = (if k = pr_Code (DomainProduct p) then Some (DomainProduct p) else stored_product d k))"
    then have stored: "\<forall>k. stored_product d1 k
        = (if k = pr_Code (DomainProduct p) then Some (DomainProduct p) else stored_product d k)" by blast
    show "wlp (for_each ps reconcile_step r) (\<lambda>r d'. counted r = counted acc + int (length (p # ps))
       \<and> d' = d\<lparr>tb_products := tb_products d'\<rparr>
       \<and> (\<forall>k. stored_product d' k = (case catalog_product (p # ps) k of None \<Rightarrow> stored_product d k | Some y \<Rightarrow> Some y))) d1"
    proof (rule wlp_mono [OF Cons.IH], use Cons.prems in simp, elim conjE, intro conjI allI)
      fix r2 d2 k
      assume r2: "counted r2 = counted r + int (length ps)" "d2 = d1\<lparr>tb_products := tb_products d2\<rparr>"
        "\<forall>k. stored_product d2 k = (case catalog_product ps k of None \<Rightarrow> stored_product d1 k | Some y \<Rightarrow> Some y)"
      have "counted r = counted acc + 1" using step by blast
      then show "counted r2 = counted acc + int (length (p # ps))" using r2(1) by simp
      obtain t where t: "d1 = d\<lparr>tb_products := t\<rparr>" using step by blast
      have "d2 = d1\<lparr>tb_products := tb_products d2\<rparr>" by (rule r2(2))
      also have "\<dots> = d\<lparr>tb_products := tb_products d2\<rparr>" unfolding t by simp
      finally show "d2 = d\<lparr>tb_products := tb_products d2\<rparr>" .
      show "stored_product d2 k = (case catalog_product (p # ps) k of None \<Rightarrow> stored_product d k | Some y \<Rightarrow> Some y)"
        using r2(3) stored absent by (auto simp: catalog_product_def split: option.split)
    qed
  qed
qed

text \<open>A catalog that is stored already is left alone.\<close>

lemma wp_reconcile_again:
  assumes "\<forall>p\<in>set catalog. stored_product (db w) (pr_Code (DomainProduct p)) = Some (DomainProduct p)"
  shows "wp (for_each catalog reconcile_step acc)
    (\<lambda>r w'. db w' = db w \<and> r = acc\<lparr>pc_Unchanged := pc_Unchanged acc + int (length catalog)\<rparr>) (\<lambda>_ w'. db w' = db w) w"
  using assms
proof (induction catalog arbitrary: acc w)
  case Nil
  then show ?case by (simp add: wp_ret)
next
  case (Cons p ps)
  have step: "wp (reconcile_step p acc) (\<lambda>r w'. db w' = db w \<and> r = acc\<lparr>pc_Unchanged := pc_Unchanged acc + 1\<rparr>)
      (\<lambda>_ w'. db w' = db w) w"
    using Cons.prems
    by (simp add: reconcile_step_def Let_def ProductRepo_GetByCode_def stored_product_def wp_if_found wp_store_find wp_ret
        split: option.split)
  show ?case
    unfolding for_each.simps wp_andThen
  proof (rule wp_mono [OF step])
    fix r and w' :: "database world"
    assume r: "db w' = db w \<and> r = acc\<lparr>pc_Unchanged := pc_Unchanged acc + 1\<rparr>"
    have "wp (for_each ps reconcile_step r)
      (\<lambda>r' w''. db w'' = db w' \<and> r' = r\<lparr>pc_Unchanged := pc_Unchanged r + int (length ps)\<rparr>) (\<lambda>_ w''. db w'' = db w') w'"
      by (rule Cons.IH) (use Cons.prems r in simp)
    then show "wp (for_each ps reconcile_step r) (\<lambda>r' w''. db w'' = db w
        \<and> r' = acc\<lparr>pc_Unchanged := pc_Unchanged acc + int (length (p # ps))\<rparr>) (\<lambda>_ w''. db w'' = db w) w'"
      by (rule wp_mono) (use r in auto)
  qed simp
qed

section \<open>The default catalog\<close>

lemma default_catalog_valid: "NewStaticProductCatalog defaultProductDefinitions = Inr DefaultProductCatalog"
  by code_simp

text \<open>
  Everything on sale has a positive price and rules that normalize, and delivers known
  entitlements or credits.
\<close>

definition deliverable :: "FulfillmentRule list \<Rightarrow> ProductDefinition \<Rightarrow> bool" where
  "deliverable rules p \<longleftrightarrow> 0 < pf_Price p
     \<and> (let own = List.filter (\<lambda>r. fr_SKUCode r = pf_Code p) rules
        in own \<noteq> [] \<and> list_all (\<lambda>r. normalizeFulfillmentRule r = Inr r
             \<and> (fr_EntitlementID r \<in> set DefaultEntitlementCatalog \<or> 0 < fr_CreditsAmount r)) own)"

lemma default_catalog_delivers:
  "list_all (\<lambda>p. pf_CheckoutVisible p \<longrightarrow> deliverable DefaultFulfillmentRules p) DefaultProductCatalog"
  by code_simp

section \<open>Properties\<close>

text \<open>C26: Reconciling a valid catalog stores every one of its products exactly as defined, leaves every
  other product and every other table alone, and accounts for each definition once; doing it
  again, from any data with the same products, changes nothing and reports all as unchanged.\<close>

theorem Reconcile_effect:
  assumes "NewStaticProductCatalog definitions = Inr catalog" "Reconcile catalog w = (Inr res, w')"
    and "tb_products (db w2) = tb_products (db w')" "Reconcile catalog w2 = (r, w3)"
  shows "db w' = (db w)\<lparr>tb_products := tb_products (db w')\<rparr>
    \<and> stored_product (db w') = (\<lambda>k. case catalog_product catalog k of None \<Rightarrow> stored_product (db w) k | Some y \<Rightarrow> Some y)
    \<and> counted res = int (length definitions)
    \<and> db w3 = db w2
    \<and> (\<forall>again. r = Inr again \<longrightarrow> again = \<lparr>pc_Created = 0, pc_Updated = 0, pc_Unchanged = int (length definitions)\<rparr>)"
proof -
  have ok: "catalog_ok catalog" and len: "length catalog = length definitions"
    using NewStaticProductCatalog_ok [OF assms(1)] by simp_all
  have codes: "List.map (\<lambda>p. pr_Code (DomainProduct p)) catalog = List.map pf_Code catalog"
    using DomainProduct_code [OF ok] by simp
  have "distinct (List.map (\<lambda>p. pr_Code (DomainProduct p)) catalog)"
    unfolding codes using ok by (simp add: catalog_ok_def)
  note first = wlpD [OF wlp_reconcile [OF this] assms(2) [unfolded Reconcile_def]]
  have "catalog_product catalog (pr_Code (DomainProduct p)) = Some (DomainProduct p)" if "p \<in> set catalog" for p
  proof -
    have "find (\<lambda>q. pr_Code (DomainProduct q) = pr_Code (DomainProduct p)) catalog \<noteq> None"
      using that by (auto simp: find_None_iff)
    then obtain q where q: "List.find (\<lambda>q. pr_Code (DomainProduct q) = pr_Code (DomainProduct p)) catalog = Some q" by blast
    then have "q \<in> set catalog" "pf_Code q = pf_Code p"
      using find_found [OF q] that DomainProduct_code [OF ok] by auto
    then have "q = p" using ok that by (auto simp: catalog_ok_def distinct_map inj_on_def)
    then show ?thesis using q by (simp add: catalog_product_def)
  qed
  then have stored: "\<forall>p\<in>set catalog. stored_product (db w2) (pr_Code (DomainProduct p)) = Some (DomainProduct p)"
    using first assms(3) by (simp add: stored_product_def)
  let ?zero = "\<lparr>pc_Created = 0, pc_Updated = 0, pc_Unchanged = 0\<rparr>"
  have "db w3 = db w2 \<and> (\<forall>again. r = Inr again \<longrightarrow> again = ?zero\<lparr>pc_Unchanged := int (length definitions)\<rparr>)"
    using wp_reconcile_again [OF stored, of ?zero] assms(4) len by (cases r) (simp_all add: Reconcile_def wp_def)
  moreover have "counted res = int (length definitions)" using first len by (simp add: counted_def)
  moreover have "db w' = (db w)\<lparr>tb_products := tb_products (db w')\<rparr>" using first by blast
  moreover have "stored_product (db w') = (\<lambda>k. case catalog_product catalog k of None \<Rightarrow> stored_product (db w) k | Some y \<Rightarrow> Some y)"
    using first by blast
  ultimately show ?thesis by simp
qed

definition stale_products :: "Product list" where
  "stale_products = [\<lparr>pr_Code = SKUProOwnAIMonthly, pr_Name = ''Old name'', pr_Price = 1, pr_Currency = ''USD'',
     pr_Validity = ''monthly'', pr_IsVisible = False\<rparr>]"

lemma Reconcile_effect_witness:
  "counted (ok_result (Reconcile DefaultProductCatalog (sample_world 0 (empty_database\<lparr>tb_products := stale_products\<rparr>)))) = 9
   \<and> pc_Updated (ok_result (Reconcile DefaultProductCatalog (sample_world 0 (empty_database\<lparr>tb_products := stale_products\<rparr>)))) = 1"
proof
  let ?w = "sample_world 0 (empty_database\<lparr>tb_products := stale_products\<rparr>)"
  have run: "Reconcile DefaultProductCatalog ?w
      = (Inr (ok_result (Reconcile DefaultProductCatalog ?w)), snd (Reconcile DefaultProductCatalog ?w))"
    by (rule run_ok) code_simp
  have nine: "length defaultProductDefinitions = 9" by (simp add: defaultProductDefinitions_def)
  show "counted (ok_result (Reconcile DefaultProductCatalog ?w)) = 9"
    using Reconcile_effect [OF default_catalog_valid run refl prod.collapse [symmetric]] nine by simp
qed code_simp

end
