(* ===== verification/Subscription_Projection.thy ===== *)
theory Subscription_Projection
  imports Entitlement
begin

text \<open>
  The software subscription a user sees: the cancellation repository
  (repository/gorm_repo/subscription.go) and the projection of grants and cancellations
  (service/software_subscription_projection.go).
\<close>

section \<open>Cancellations\<close>

definition cancellation_clash :: "SubscriptionCancellation \<Rightarrow> SubscriptionCancellation \<Rightarrow> bool" where
  "cancellation_clash x y \<longleftrightarrow> sc_ID x = sc_ID y \<or> sc_IdempotencyKey x = sc_IdempotencyKey y"

interpretation cancellations: row_store sc_ID cancellation_clash
  by unfold_locales (auto simp: cancellation_clash_def)

record SubscriptionCancellationQuery =
  cq_UserID :: string
  cq_SKUCode :: string
  cq_Status :: string

definition CancellationRepo_Create :: "SubscriptionCancellation \<Rightarrow> unit service" where
  "CancellationRepo_Create = store_create tb_cancellations tb_cancellations_update cancellation_clash"

definition CancellationRepo_GetByIdempotencyKey :: "string \<Rightarrow> SubscriptionCancellation service" where
  "CancellationRepo_GetByIdempotencyKey = store_find tb_cancellations sc_IdempotencyKey"

text \<open>The resume key has no unique index: \<open>First\<close> takes the row with the least primary key.\<close>

definition CancellationRepo_GetByResumeIdempotencyKey :: "string \<Rightarrow> SubscriptionCancellation service" where
  "CancellationRepo_GetByResumeIdempotencyKey k =
     (if k = [] then fail ErrNotFound
      else db_first (\<lambda>d. case sort_key sc_ID (List.filter (\<lambda>x. sc_ResumeIdempotencyKey x = k) (tb_cancellations d)) of
             [] \<Rightarrow> None | x # _ \<Rightarrow> Some x))"

definition cancellation_matches :: "SubscriptionCancellationQuery \<Rightarrow> instant \<Rightarrow> SubscriptionCancellation \<Rightarrow> bool" where
  "cancellation_matches q now x \<longleftrightarrow>
     column_matches (cq_UserID q) (sc_UserID x) \<and> column_matches (cq_SKUCode q) (sc_SKUCode x)
     \<and> column_matches (cq_Status q) (sc_Status x)
     \<and> sc_CancelAtPeriodEnd x \<and> now < sc_CurrentPeriodEndsAt x"

definition cancellation_rank :: "SubscriptionCancellation \<Rightarrow> int \<times> int \<times> string" where
  "cancellation_rank x = (- sc_CurrentPeriodEndsAt x, - sc_CreatedAt x, sc_ID x)"

definition CancellationRepo_FindActive :: "SubscriptionCancellationQuery \<Rightarrow> SubscriptionCancellation service" where
  "CancellationRepo_FindActive q =
     andThen time_now (\<lambda>now.
     db_first (\<lambda>d. case sort_key cancellation_rank (List.filter (cancellation_matches q now) (tb_cancellations d)) of
       [] \<Rightarrow> None | x # _ \<Rightarrow> Some x))"

definition CancellationRepo_Update :: "SubscriptionCancellation \<Rightarrow> unit service" where
  "CancellationRepo_Update = store_save tb_cancellations tb_cancellations_update sc_ID cancellation_clash"

section \<open>The projection\<close>

abbreviation CancellationStatusCancelAtPeriodEnd :: string where
  "CancellationStatusCancelAtPeriodEnd \<equiv> ''cancelled_at_period_end''"
abbreviation CancellationStatusActive :: string where "CancellationStatusActive \<equiv> ''active''"
abbreviation SoftwareStatusNone :: string where "SoftwareStatusNone \<equiv> ''none''"
abbreviation SoftwareStatusActive :: string where "SoftwareStatusActive \<equiv> ''active''"
abbreviation SoftwareStatusCancelAtPeriodEnd :: string where
  "SoftwareStatusCancelAtPeriodEnd \<equiv> ''cancel_at_period_end''"

record SoftwareSubscriptionProjection =
  sp_UserID :: string
  sp_SKUCode :: string
  sp_Status :: string
  sp_CancelAtPeriodEnd :: bool
  sp_CurrentPeriodStartAt :: string
  sp_CurrentPeriodEndsAt :: string

definition isSoftwareSubscriptionGrant :: "EntitlementGrant \<Rightarrow> instant \<Rightarrow> bool" where
  "isSoftwareSubscriptionGrant g now \<longleftrightarrow>
     eg_Source g = GrantSourceFulfillment \<and> IsCurrentAdvancedEntitlementID (eg_EntitlementID g) \<and> isGrantActive g now"

definition later_start :: "instant \<Rightarrow> EntitlementGrant option \<Rightarrow> EntitlementGrant \<Rightarrow> EntitlementGrant option" where
  "later_start now selected g =
     (if \<not> isSoftwareSubscriptionGrant g now \<or> eg_ExpiresAt g \<noteq> None then selected
      else case selected of
        None \<Rightarrow> Some g
      | Some s \<Rightarrow> if eg_StartsAt s < eg_StartsAt g then Some g else selected)"

definition latestActiveLifetimeGrant :: "EntitlementGrant list \<Rightarrow> instant \<Rightarrow> EntitlementGrant option" where
  "latestActiveLifetimeGrant grants now = foldl (later_start now) None grants"

definition later_end :: "instant \<Rightarrow> EntitlementGrant option \<Rightarrow> EntitlementGrant \<Rightarrow> EntitlementGrant option" where
  "later_end now selected g =
     (if \<not> isSoftwareSubscriptionGrant g now then selected
      else case eg_ExpiresAt g of
        None \<Rightarrow> selected
      | Some ends \<Rightarrow> (case selected of
            None \<Rightarrow> Some g
          | Some s \<Rightarrow> (case eg_ExpiresAt s of
                None \<Rightarrow> selected
              | Some other \<Rightarrow> if other < ends then Some g else selected)))"

definition latestActiveMonthlyGrant :: "EntitlementGrant list \<Rightarrow> instant \<Rightarrow> EntitlementGrant option" where
  "latestActiveMonthlyGrant grants now = foldl (later_end now) None grants"

definition formatSoftwareSubscriptionTime :: "instant \<Rightarrow> string" where
  "formatSoftwareSubscriptionTime t = (if t = 0 then [] else format_rfc3339 t)"

text \<open>\<open>has_cancellations\<close>: the cancellation repository is set.\<close>

definition projectSoftwareSubscriptionFromGrants ::
  "bool \<Rightarrow> string \<Rightarrow> EntitlementGrant list \<Rightarrow> instant \<Rightarrow> SoftwareSubscriptionProjection service" where
  "projectSoftwareSubscriptionFromGrants has_cancellations userID0 grants now0 =
     (let userID = trim_space userID0
      in andThen (reject_if (userID = []) ErrUserNotFound) (\<lambda>_.
         andThen (if now0 = 0 then time_now else ret now0) (\<lambda>now.
         case latestActiveLifetimeGrant grants now of
           Some lifetime \<Rightarrow>
             ret \<lparr>sp_UserID = userID, sp_SKUCode = SKUProOwnAILifetime, sp_Status = SoftwareStatusActive,
                  sp_CancelAtPeriodEnd = False,
                  sp_CurrentPeriodStartAt = formatSoftwareSubscriptionTime (eg_StartsAt lifetime),
                  sp_CurrentPeriodEndsAt = []\<rparr>
         | None \<Rightarrow>
             let none = \<lparr>sp_UserID = userID, sp_SKUCode = [], sp_Status = SoftwareStatusNone,
                         sp_CancelAtPeriodEnd = False, sp_CurrentPeriodStartAt = [], sp_CurrentPeriodEndsAt = []\<rparr>
             in (case latestActiveMonthlyGrant grants now of
                   None \<Rightarrow> ret none
                 | Some monthly \<Rightarrow> (case eg_ExpiresAt monthly of
                       None \<Rightarrow> ret none
                     | Some ends \<Rightarrow>
                         let projection = \<lparr>sp_UserID = userID, sp_SKUCode = SKUProOwnAIMonthly,
                               sp_Status = SoftwareStatusActive, sp_CancelAtPeriodEnd = False,
                               sp_CurrentPeriodStartAt = formatSoftwareSubscriptionTime (eg_StartsAt monthly),
                               sp_CurrentPeriodEndsAt = format_rfc3339 ends\<rparr>
                         in if \<not> has_cancellations then ret projection
                            else if_found (CancellationRepo_FindActive \<lparr>cq_UserID = userID,
                                   cq_SKUCode = SKUProOwnAIMonthly, cq_Status = CancellationStatusCancelAtPeriodEnd\<rparr>)
                                 (\<lambda>cancellation.
                                   ret (projection\<lparr>sp_Status := SoftwareStatusCancelAtPeriodEnd,
                                     sp_CancelAtPeriodEnd := True,
                                     sp_CurrentPeriodEndsAt := (if sc_CurrentPeriodEndsAt cancellation \<noteq> 0
                                       then format_rfc3339 (sc_CurrentPeriodEndsAt cancellation)
                                       else sp_CurrentPeriodEndsAt projection)\<rparr>))
                                 (ret projection))))))"

text \<open>\<open>now\<close>: the configured clock, if any.\<close>

definition Project :: "bool \<Rightarrow> bool \<Rightarrow> instant option \<Rightarrow> string \<Rightarrow> SoftwareSubscriptionProjection service" where
  "Project has_grants has_cancellations now0 userID0 =
     (let userID = trim_space userID0
      in andThen (reject_if (\<not> has_grants \<or> userID = []) ErrCheckoutPolicyUnavailable) (\<lambda>_.
         andThen (EntitlementGrantRepo_List \<lparr>nq_UserID = userID, nq_EntitlementID = [], nq_Status = GrantStatusActive,
           nq_IncludeExpired = False, nq_Limit = 0, nq_Offset = 0\<rparr>) (\<lambda>grants.
         andThen (case now0 of None \<Rightarrow> time_now | Some t \<Rightarrow> ret t) (\<lambda>now.
         projectSoftwareSubscriptionFromGrants has_cancellations userID grants now))))"

definition softwareSubscriptionIsLifetimeActive :: "SoftwareSubscriptionProjection \<Rightarrow> bool" where
  "softwareSubscriptionIsLifetimeActive p \<longleftrightarrow>
     sp_SKUCode p = SKUProOwnAILifetime \<and> sp_Status p = SoftwareStatusActive"

definition softwareSubscriptionIsMonthlyActive :: "SoftwareSubscriptionProjection \<Rightarrow> bool" where
  "softwareSubscriptionIsMonthlyActive p \<longleftrightarrow> sp_SKUCode p = SKUProOwnAIMonthly
     \<and> (sp_Status p = SoftwareStatusActive \<or> sp_Status p = SoftwareStatusCancelAtPeriodEnd)"

definition softwareSubscriptionIsCancelAtPeriodEnd :: "SoftwareSubscriptionProjection \<Rightarrow> bool" where
  "softwareSubscriptionIsCancelAtPeriodEnd p \<longleftrightarrow> sp_SKUCode p = SKUProOwnAIMonthly
     \<and> sp_Status p = SoftwareStatusCancelAtPeriodEnd \<and> sp_CancelAtPeriodEnd p"

end
