(* ===== verification/Go_JSON.thy ===== *)
theory Go_JSON
  imports Effects "HOL-Library.Char_ord" "HOL-Library.List_Lexorder"
begin

text \<open>
  What the program uses of encoding/json: a parser of JSON texts with the grammar of the Go
  decoder, the decoding into a map of strings, and the encoding of such a map.  Strings are
  byte lists; text that the program writes is taken to be ASCII (a byte from 128 on is passed
  through where Go checks that it is well-formed UTF-8).
\<close>

section \<open>Values and characters\<close>

datatype json = JNull | JBool bool | JNum string | JStr string | JArr "json list" | JObj "(string \<times> json) list"

abbreviation quote :: char where "quote \<equiv> CHR 0x22"
abbreviation backslash :: char where "backslash \<equiv> CHR 0x5C"

definition code_of :: "char \<Rightarrow> nat" where
  "code_of c = of_char c"

definition json_space :: "char \<Rightarrow> bool" where
  "json_space c \<longleftrightarrow> code_of c \<in> {32, 9, 10, 13}"

definition skip_space :: "string \<Rightarrow> string" where
  "skip_space s = dropWhile json_space s"

definition json_digit :: "char \<Rightarrow> bool" where
  "json_digit c \<longleftrightarrow> 48 \<le> code_of c \<and> code_of c \<le> 57"

definition hex_value :: "char \<Rightarrow> nat option" where
  "hex_value c =
     (let n = code_of c
      in if 48 \<le> n \<and> n \<le> 57 then Some (n - 48)
         else if 97 \<le> n \<and> n \<le> 102 then Some (n - 87)
         else if 65 \<le> n \<and> n \<le> 70 then Some (n - 55) else None)"

text \<open>The four digits of a unicode escape.\<close>

fun hex4 :: "string \<Rightarrow> nat option" where
  "hex4 (a # b # c # d # s) =
     (case (hex_value a, hex_value b, hex_value c, hex_value d) of
        (Some w, Some x, Some y, Some z) \<Rightarrow> Some (((w * 16 + x) * 16 + y) * 16 + z)
      | _ \<Rightarrow> None)"
| "hex4 _ = None"

definition utf8 :: "nat \<Rightarrow> string" where
  "utf8 n =
     (if n < 128 then [char_of n]
      else if n < 2048 then [char_of (192 + n div 64), char_of (128 + n mod 64)]
      else if n < 65536 then
        [char_of (224 + n div 4096), char_of (128 + n div 64 mod 64), char_of (128 + n mod 64)]
      else [char_of (240 + n div 262144), char_of (128 + n div 4096 mod 64),
            char_of (128 + n div 64 mod 64), char_of (128 + n mod 64)])"

definition plain_escape :: "char \<Rightarrow> char option" where
  "plain_escape c =
     (if c = quote \<or> c = backslash \<or> c = CHR ''/'' then Some c
      else if c = CHR ''b'' then Some (CHR 0x08) else if c = CHR ''f'' then Some (CHR 0x0C)
      else if c = CHR ''n'' then Some (CHR 0x0A) else if c = CHR ''r'' then Some (CHR 0x0D)
      else if c = CHR ''t'' then Some (CHR 0x09) else None)"

text \<open>A low surrogate that follows a high one completes it.\<close>

definition low_surrogate :: "string \<Rightarrow> nat option" where
  "low_surrogate s =
     (if take 2 s = [backslash, CHR ''u'']
      then case hex4 (drop 2 s) of
             Some n \<Rightarrow> if 56320 \<le> n \<and> n < 57344 then Some n else None
           | None \<Rightarrow> None
      else None)"

section \<open>The parser\<close>

text \<open>The rest of a string literal after its opening quote: its value and what follows it.\<close>

function string_tail :: "string \<Rightarrow> (string \<times> string) option" where
  "string_tail s =
     (case s of
        [] \<Rightarrow> None
      | c # t \<Rightarrow>
          if c = quote then Some ([], t)
          else if c \<noteq> backslash
          then if code_of c < 32 then None
               else map_option (\<lambda>(v, r). (c # v, r)) (string_tail t)
          else (case t of
                  [] \<Rightarrow> None
                | d # u \<Rightarrow>
                    if d \<noteq> CHR ''u''
                    then (case plain_escape d of
                            None \<Rightarrow> None
                          | Some e \<Rightarrow> map_option (\<lambda>(v, r). (e # v, r)) (string_tail u))
                    else (case hex4 u of
                            None \<Rightarrow> None
                          | Some n \<Rightarrow>
                              if n < 55296 \<or> 57344 \<le> n
                              then map_option (\<lambda>(v, r). (utf8 n @ v, r)) (string_tail (drop 4 u))
                              else (case low_surrogate (drop 4 u) of
                                      Some m \<Rightarrow> if n < 56320
                                        then map_option (\<lambda>(v, r). (utf8 (65536 + (n - 55296) * 1024 + (m - 56320)) @ v, r))
                                               (string_tail (drop 10 u))
                                        else map_option (\<lambda>(v, r). (utf8 65533 @ v, r)) (string_tail (drop 4 u))
                                    | None \<Rightarrow> map_option (\<lambda>(v, r). (utf8 65533 @ v, r)) (string_tail (drop 4 u))))))"
  by pat_completeness auto
termination by (relation "measure length") auto

text \<open>Digits with at least one, and a number literal.\<close>

definition some_digits :: "string \<Rightarrow> (string \<times> string) option" where
  "some_digits s = (let ds = takeWhile json_digit s in if ds = [] then None else Some (ds, drop (length ds) s))"

definition whole_part :: "string \<Rightarrow> (string \<times> string) option" where
  "whole_part s = (if take 1 s = ''0'' then Some (''0'', drop 1 s) else some_digits s)"

definition fraction_part :: "string \<Rightarrow> (string \<times> string) option" where
  "fraction_part s =
     (if take 1 s = ''.'' then map_option (\<lambda>(ds, r). (CHR ''.'' # ds, r)) (some_digits (drop 1 s))
      else Some ([], s))"

definition exponent_part :: "string \<Rightarrow> (string \<times> string) option" where
  "exponent_part s =
     (case s of
        e # t \<Rightarrow>
          if e \<noteq> CHR ''e'' \<and> e \<noteq> CHR ''E'' then Some ([], s)
          else (case t of
                  g # u \<Rightarrow> if g = CHR ''+'' \<or> g = CHR ''-''
                           then map_option (\<lambda>(ds, r). (e # g # ds, r)) (some_digits u)
                           else map_option (\<lambda>(ds, r). (e # ds, r)) (some_digits t)
                | [] \<Rightarrow> None)
      | [] \<Rightarrow> Some ([], []))"

definition parse_number :: "string \<Rightarrow> (string \<times> string) option" where
  "parse_number s =
     (let sign = (if take 1 s = ''-'' then ''-'' else [])
      in case whole_part (drop (length sign) s) of
           None \<Rightarrow> None
         | Some (w, s1) \<Rightarrow>
             (case fraction_part s1 of
                None \<Rightarrow> None
              | Some (f, s2) \<Rightarrow> map_option (\<lambda>(e, s3). (sign @ w @ f @ e, s3)) (exponent_part s2)))"

definition strip_prefix :: "string \<Rightarrow> string \<Rightarrow> string option" where
  "strip_prefix p s = (if take (length p) s = p then Some (drop (length p) s) else None)"

definition parse_word :: "string \<Rightarrow> json \<Rightarrow> string \<Rightarrow> (json \<times> string) option" where
  "parse_word p v s = map_option (\<lambda>r. (v, r)) (strip_prefix p s)"

definition scalar :: "string \<Rightarrow> (json \<times> string) option" where
  "scalar s =
     (case s of
        [] \<Rightarrow> None
      | c # t \<Rightarrow>
          if c = quote then map_option (\<lambda>(v, r). (JStr v, r)) (string_tail t)
          else if c = CHR ''n'' then parse_word ''null'' JNull s
          else if c = CHR ''t'' then parse_word ''true'' (JBool True) s
          else if c = CHR ''f'' then parse_word ''false'' (JBool False) s
          else map_option (\<lambda>(v, r). (JNum v, r)) (parse_number s))"

text \<open>The decoder refuses values nested deeper than this.\<close>

definition max_nesting_depth :: int where
  "max_nesting_depth = 10000"

lemma skip_space_Cons:
  assumes "skip_space s = c # t"
  shows "length t < length s"
proof -
  have "length (c # t) \<le> length s" using length_dropWhile_le [of json_space s] assms by (simp add: skip_space_def)
  then show ?thesis by simp
qed

text \<open>
  A value at a nesting depth, the elements of an array and the members of an object after the
  opening bracket.  The guards on the length of the rest always hold: every step consumes input.
\<close>

function parse_value :: "int \<Rightarrow> string \<Rightarrow> (json \<times> string) option"
  and parse_elements :: "int \<Rightarrow> string \<Rightarrow> (json list \<times> string) option"
  and parse_members :: "int \<Rightarrow> string \<Rightarrow> ((string \<times> json) list \<times> string) option" where
  "parse_value d s =
     (case skip_space s of
        [] \<Rightarrow> None
      | c # t \<Rightarrow>
          if c = CHR ''['' then
            if max_nesting_depth \<le> d then None
            else if take 1 (skip_space t) = '']'' then Some (JArr [], drop 1 (skip_space t))
            else map_option (\<lambda>(vs, r). (JArr vs, r)) (parse_elements (d + 1) t)
          else if c = CHR ''{'' then
            if max_nesting_depth \<le> d then None
            else if take 1 (skip_space t) = ''}'' then Some (JObj [], drop 1 (skip_space t))
            else map_option (\<lambda>(ms, r). (JObj ms, r)) (parse_members (d + 1) t)
          else scalar (c # t))"
| "parse_elements d s =
     (case parse_value d s of
        None \<Rightarrow> None
      | Some (v, r) \<Rightarrow>
          (case skip_space r of
             c # t \<Rightarrow> if c = CHR '']'' then Some ([v], t)
                      else if c = CHR '','' \<and> length t < length s
                      then map_option (\<lambda>(vs, r'). (v # vs, r')) (parse_elements d t)
                      else None
           | [] \<Rightarrow> None))"
| "parse_members d s =
     (case skip_space s of
        c # t \<Rightarrow>
          if c \<noteq> quote then None
          else (case string_tail t of
                  None \<Rightarrow> None
                | Some (k, r) \<Rightarrow>
                    (case skip_space r of
                       c2 # t2 \<Rightarrow>
                         if c2 \<noteq> CHR '':'' \<or> \<not> length t2 < length s then None
                         else (case parse_value d t2 of
                                 None \<Rightarrow> None
                               | Some (v, r2) \<Rightarrow>
                                   (case skip_space r2 of
                                      c3 # t3 \<Rightarrow>
                                        if c3 = CHR ''}'' then Some ([(k, v)], t3)
                                        else if c3 = CHR '','' \<and> length t3 < length s
                                        then map_option (\<lambda>(ms, r'). ((k, v) # ms, r')) (parse_members d t3)
                                        else None
                                    | [] \<Rightarrow> None))
                     | [] \<Rightarrow> None))
      | [] \<Rightarrow> None)"
  by pat_completeness auto

termination
  apply (relation "measure (\<lambda>x. case x of Inl (d, s) \<Rightarrow> 2 * length s | Inr (Inl (d, s)) \<Rightarrow> 2 * length s + 1
    | Inr (Inr (d, s)) \<Rightarrow> 2 * length s + 1)")
        apply (rule wf_measure)
       apply (simp, drule skip_space_Cons, linarith)
  apply (simp, drule skip_space_Cons, linarith)
  apply simp
  apply simp
  apply simp
  apply simp
  done

declare string_tail.simps [simp del] parse_value.simps [simp del] parse_elements.simps [simp del]
  parse_members.simps [simp del]

definition parse_json :: "string \<Rightarrow> json option" where
  "parse_json s =
     (case parse_value 0 s of
        Some (v, r) \<Rightarrow> if skip_space r = [] then Some v else None
      | None \<Rightarrow> None)"

section \<open>Maps of strings\<close>

text \<open>A Go map, kept sorted by key: the order in which the encoder writes it.\<close>

type_synonym string_map = "(string \<times> string) list"

fun map_put :: "string \<Rightarrow> string \<Rightarrow> string_map \<Rightarrow> string_map" where
  "map_put k v [] = [(k, v)]"
| "map_put k v ((k', v') # m) =
     (if k = k' then (k, v) # m else if k < k' then (k, v) # (k', v') # m else (k', v') # map_put k v m)"

definition map_value :: "string_map \<Rightarrow> string \<Rightarrow> string" where
  "map_value m k = (case map_of m k of None \<Rightarrow> [] | Some v \<Rightarrow> v)"

definition map_ok :: "string_map \<Rightarrow> bool" where
  "map_ok m \<longleftrightarrow> sorted_wrt (<) (List.map fst m)"

lemma map_ok_Nil [simp]: "map_ok []"
  by (simp add: map_ok_def)

lemma map_of_put [simp]: "map_of (map_put k v m) = (map_of m)(k \<mapsto> v)"
  by (induction m) auto

lemma keys_put: "fst ` set (map_put k v m) = insert k (fst ` set m)"
  by (simp add: dom_map_of_conv_image_fst [symmetric])

lemma map_ok_put [simp]: "map_ok m \<Longrightarrow> map_ok (map_put k v m)"
proof (induction m)
  case (Cons x m)
  obtain k' v' where x: "x = (k', v')" by fastforce
  have m: "map_ok m" "\<forall>y\<in>fst ` set m. k' < y" using Cons.prems x by (auto simp: map_ok_def)
  have "map_ok (map_put k v m)" using Cons.IH m(1) by simp
  moreover have "\<forall>y\<in>fst ` set (map_put k v m). k' < y" if "k' < k" using m(2) that by (simp add: keys_put)
  ultimately show ?case
    using m x by (auto simp: map_ok_def intro: less_trans)
qed (simp add: map_ok_def)

text \<open>Two such maps with the same entries are the same list.\<close>

lemma map_ok_unique: "map_ok m \<Longrightarrow> map_ok m' \<Longrightarrow> map_of m = map_of m' \<Longrightarrow> m = m'"
proof (induction m arbitrary: m')
  case Nil
  then show ?case by (cases m') (auto dest: fun_cong split: if_splits)
next
  case (Cons x m)
  obtain k v where x: "x = (k, v)" by fastforce
  obtain k' v' n where m': "m' = (k', v') # n" using fun_cong [OF Cons.prems(3), of k] x by (cases m') auto
  have tops: "\<forall>y\<in>fst ` set m. k < y" "\<forall>y\<in>fst ` set n. k' < y" and oks: "map_ok m" "map_ok n"
    using Cons.prems(1,2) x m' by (auto simp: map_ok_def)
  have "k \<in> fst ` set m'" "k' \<in> fst ` set (x # m)"
    using Cons.prems(3) x m' by (metis list.set_intros(1) map_of_eq_None_iff image_eqI fst_conv)+
  then have "k = k'" using tops x m' by (auto dest: less_asym)
  moreover have "v = v'" using fun_cong [OF Cons.prems(3), of k] x m' \<open>k = k'\<close> by simp
  moreover have "map_of m = map_of n"
  proof
    fix y
    show "map_of m y = map_of n y"
    proof (cases "y = k")
      case True
      have "k \<notin> fst ` set m" "k \<notin> fst ` set n" using tops \<open>k = k'\<close> by auto
      then show ?thesis using True by (simp add: map_of_eq_None_iff [symmetric])
    next
      case False
      then show ?thesis using fun_cong [OF Cons.prems(3), of y] x m' \<open>k = k'\<close> by simp
    qed
  qed
  ultimately show ?case using Cons.IH [OF oks] x m' by simp
qed

section \<open>Decoding and encoding of maps\<close>

text \<open>
  \<open>json.Unmarshal\<close> into a \<open>map[string]string\<close>: whether it succeeds and the map it leaves, which
  is nil for the JSON null.  A member of another type is set to the empty string, and the
  call fails after decoding the rest.
\<close>

fun decode_members :: "(string \<times> json) list \<Rightarrow> bool \<times> string_map \<Rightarrow> bool \<times> string_map" where
  "decode_members [] acc = acc"
| "decode_members ((k, v) # ms) acc =
     decode_members ms
       (case v of
          JStr s \<Rightarrow> (fst acc, map_put k s (snd acc))
        | JNull \<Rightarrow> (fst acc, map_put k [] (snd acc))
        | _ \<Rightarrow> (False, map_put k [] (snd acc)))"

definition unmarshal_string_map :: "string \<Rightarrow> bool \<times> string_map option" where
  "unmarshal_string_map raw =
     (case parse_json raw of
        None \<Rightarrow> (False, Some [])
      | Some JNull \<Rightarrow> (True, None)
      | Some (JObj ms) \<Rightarrow> (let r = decode_members ms (True, []) in (fst r, Some (snd r)))
      | Some _ \<Rightarrow> (False, Some []))"

text \<open>\<open>json.Marshal\<close> of a string, with the escapes of HTML characters.\<close>

definition escape_char :: "char \<Rightarrow> string" where
  "escape_char c =
     (let n = code_of c
      in if c = quote \<or> c = backslash then [backslash, c]
         else if n = 8 then [backslash, CHR ''b''] else if n = 12 then [backslash, CHR ''f'']
         else if n = 10 then [backslash, CHR ''n''] else if n = 13 then [backslash, CHR ''r'']
         else if n = 9 then [backslash, CHR ''t'']
         else if n < 32 \<or> n = 60 \<or> n = 62 \<or> n = 38
         then [backslash, CHR ''u'', CHR ''0'', CHR ''0'', hex_digit (n div 16), hex_digit (n mod 16)]
         else [c])"

definition json_string :: "string \<Rightarrow> string" where
  "json_string s = [quote] @ concat (List.map escape_char s) @ [quote]"

fun json_members :: "string_map \<Rightarrow> string" where
  "json_members [] = []"
| "json_members [(k, v)] = json_string k @ '':'' @ json_string v"
| "json_members ((k, v) # kv # m) = json_string k @ '':'' @ json_string v @ '','' @ json_members (kv # m)"

definition marshal_string_map :: "string_map \<Rightarrow> string" where
  "marshal_string_map m = ''{'' @ json_members m @ ''}''"

section \<open>Round trip\<close>

definition ascii :: "string \<Rightarrow> bool" where
  "ascii s \<longleftrightarrow> (\<forall>c\<in>set s. code_of c < 128)"

lemma ascii_simps [simp]: "ascii []" "ascii (c # s) = (code_of c < 128 \<and> ascii s)"
  by (auto simp: ascii_def)

lemma hex_value_digit: "n < 16 \<Longrightarrow> hex_value (hex_digit n) = Some n"
  by (simp add: hex_value_def hex_digit_def code_of_def Let_def)

lemma hex4_byte: "n < 256 \<Longrightarrow> hex4 (CHR ''0'' # CHR ''0'' # hex_digit (n div 16) # hex_digit (n mod 16) # t) = Some n"
proof -
  assume n: "n < 256"
  have "hex_value (CHR ''0'') = Some 0" by code_simp
  then show ?thesis using n by (simp add: hex_value_digit)
qed

lemma utf8_char: "code_of c < 128 \<Longrightarrow> utf8 (code_of c) = [c]"
  by (simp add: utf8_def code_of_def)

lemma code_of_eq: "code_of c = code_of d \<longleftrightarrow> c = d"
  by (simp add: code_of_def)

lemma string_tail_quote: "string_tail (quote # r) = Some ([], r)"
  by (simp add: string_tail.simps [of "quote # r"])

lemma string_tail_escape:
  assumes "code_of c < 128"
  shows "string_tail (escape_char c @ t) = map_option (\<lambda>(v, r). (c # v, r)) (string_tail t)"
proof -
  consider "c = quote \<or> c = backslash" | "c \<noteq> quote" "c \<noteq> backslash" "code_of c \<in> {8, 12, 10, 13, 9}"
    | "c \<noteq> quote" "c \<noteq> backslash" "code_of c \<notin> {8, 12, 10, 13, 9}" "code_of c < 32 \<or> code_of c \<in> {60, 62, 38}"
    | "c \<noteq> quote" "c \<noteq> backslash" "code_of c \<notin> {8, 12, 10, 13, 9}" "\<not> (code_of c < 32 \<or> code_of c \<in> {60, 62, 38})"
    by blast
  then show ?thesis
  proof cases
    case 1
    then show ?thesis
      by (auto simp: escape_char_def Let_def string_tail.simps [of "backslash # _"] plain_escape_def)
  next
    case 2
    have "(c = CHR 0x08 \<or> c = CHR 0x0C) \<or> c = CHR 0x0A \<or> c = CHR 0x0D \<or> c = CHR 0x09"
      using 2(3) code_of_eq [of c "CHR 0x08"] code_of_eq [of c "CHR 0x0C"] code_of_eq [of c "CHR 0x0A"]
        code_of_eq [of c "CHR 0x0D"] code_of_eq [of c "CHR 0x09"] by (simp add: code_of_def)
    then show ?thesis using 2(1,2)
      by (elim disjE) (simp_all add: escape_char_def Let_def string_tail.simps [of "backslash # _"] plain_escape_def code_of_def)
  next
    case 3
    have "escape_char c = [backslash, CHR ''u'', CHR ''0'', CHR ''0'', hex_digit (code_of c div 16), hex_digit (code_of c mod 16)]"
      using 3 by (auto simp: escape_char_def Let_def)
    then show ?thesis
      using assms hex4_byte [of "code_of c" t] utf8_char [OF assms]
      by (simp add: string_tail.simps [of "backslash # _"])
  next
    case 4
    then have "escape_char c = [c]" by (auto simp: escape_char_def Let_def)
    then show ?thesis using 4 by (simp add: string_tail.simps [of "c # t"])
  qed
qed


lemma string_tail_escaped:
  "ascii s \<Longrightarrow> string_tail (concat (List.map escape_char s) @ quote # r) = Some (s, r)"
  by (induction s) (simp_all add: string_tail_quote string_tail_escape)

lemma json_string_app: "json_string s @ r = quote # concat (List.map escape_char s) @ quote # r"
  by (simp add: json_string_def)

lemma skip_space_solid: "\<not> json_space c \<Longrightarrow> skip_space (c # s) = c # s"
  by (simp add: skip_space_def)

lemma json_space_marks [simp]:
  "\<not> json_space quote" "\<not> json_space (CHR '':'')" "\<not> json_space (CHR '','')" "\<not> json_space (CHR ''}'')"
  "\<not> json_space (CHR ''{'')"
  by (simp_all add: json_space_def code_of_def)

lemma parse_value_string: "ascii s \<Longrightarrow> parse_value d (json_string s @ r) = Some (JStr s, r)"
  by (simp add: json_string_app parse_value.simps [of d "quote # _"] skip_space_solid scalar_def string_tail_escaped)

lemma json_members_Cons:
  "json_members ((k, v) # m) = json_string k @ '':'' @ json_string v
     @ (if m = [] then [] else '','' @ json_members m)"
  by (cases m) auto

lemma parse_members_printed:
  assumes "m \<noteq> []" "\<forall>(k, v)\<in>set m. ascii k \<and> ascii v"
  shows "parse_members d (json_members m @ CHR ''}'' # r) = Some (List.map (\<lambda>(k, v). (k, JStr v)) m, r)"
  using assms
proof (induction m)
  case (Cons x m)
  obtain k v where x: "x = (k, v)" by fastforce
  have ascii: "ascii k" "ascii v" using Cons.prems(2) x by auto
  define rest where "rest = (if m = [] then CHR ''}'' # r else CHR '','' # json_members m @ CHR ''}'' # r)"
  have tx: "json_members (x # m) @ CHR ''}'' # r = quote # concat (List.map escape_char k) @ quote # CHR '':'' # json_string v @ rest"
    by (simp add: x json_members_Cons json_string_app rest_def json_string_def)
  have val: "parse_value d (json_string v @ rest) = Some (JStr v, rest)" by (rule parse_value_string [OF ascii(2)])
  show ?case
  proof (cases "m = []")
    case True
    then show ?thesis
      unfolding tx
      by (simp add: parse_members.simps [of d "quote # _"] skip_space_solid string_tail_escaped [OF ascii(1)] val x
        rest_def [symmetric]) (simp add: rest_def skip_space_solid)
  next
    case False
    then have "parse_members d (json_members m @ CHR ''}'' # r) = Some (List.map (\<lambda>(k, v). (k, JStr v)) m, r)"
      using Cons by simp
    then show ?thesis
      unfolding tx using False
      by (simp add: parse_members.simps [of d "quote # _"] skip_space_solid string_tail_escaped [OF ascii(1)] val x
        rest_def [symmetric]) (simp add: rest_def skip_space_solid)
  qed
qed simp

lemma parse_json_marshal:
  assumes "\<forall>(k, v)\<in>set m. ascii k \<and> ascii v"
  shows "parse_json (marshal_string_map m) = Some (JObj (List.map (\<lambda>(k, v). (k, JStr v)) m))"
proof (cases "m = []")
  case True
  then show ?thesis
    by (simp add: parse_json_def marshal_string_map_def parse_value.simps [of 0 "CHR ''{'' # _"] skip_space_solid
        max_nesting_depth_def) (simp add: skip_space_def)
next
  case False
  then obtain t where t: "json_members m = quote # t"
    by (cases m) (auto simp: json_members_Cons json_string_def)
  show ?thesis
    using parse_members_printed [OF False assms, of 1 "[]"]
    by (simp add: parse_json_def marshal_string_map_def parse_value.simps [of 0 "CHR ''{'' # _"] skip_space_solid
        max_nesting_depth_def t) (simp add: skip_space_def)
qed

lemma decode_strings:
  "decode_members (List.map (\<lambda>(k, v). (k, JStr v)) m) (ok, acc) = (ok, fold (\<lambda>(k, v). map_put k v) m acc)"
  by (induction m arbitrary: acc) auto

lemma fold_put_append:
  assumes "sorted_wrt (<) (List.map fst (acc @ m))"
  shows "fold (\<lambda>(k, v). map_put k v) m acc = acc @ m"
  using assms
proof (induction m arbitrary: acc)
  case (Cons x m)
  obtain k v where x: "x = (k, v)" by fastforce
  have "map_put k v acc = acc @ [(k, v)]" if "\<forall>y\<in>fst ` set acc. y < k" for acc :: string_map
    using that by (induction acc) auto
  moreover have "\<forall>y\<in>fst ` set acc. y < k" using Cons.prems x by (auto simp: sorted_wrt_append)
  ultimately have "map_put k v acc = acc @ [(k, v)]" by blast
  then show ?case using Cons.IH [of "acc @ [x]"] Cons.prems x by simp
qed simp

text \<open>Decoding what was encoded gives the map back.\<close>

lemma unmarshal_marshal:
  assumes "map_ok m" "\<forall>(k, v)\<in>set m. ascii k \<and> ascii v"
  shows "unmarshal_string_map (marshal_string_map m) = (True, Some m)"
  using fold_put_append [of "[]" m] assms
  by (simp add: unmarshal_string_map_def parse_json_marshal decode_strings map_ok_def Let_def)

end
