(* ===== verification/Go_URL.thy ===== *)
theory Go_URL
  imports Go_JSON
begin

text \<open>
  What the program uses of net/url (Go 1.25.0): the scheme and the host that \<open>url.Parse\<close>
  gives for a URL with a scheme, or its failure, and \<open>url.ParseQuery\<close>.
\<close>

definition letter :: "char \<Rightarrow> bool" where
  "letter c \<longleftrightarrow> (let n = code_of c in 65 \<le> n \<and> n \<le> 90 \<or> 97 \<le> n \<and> n \<le> 122)"

text \<open>The text before the first separator and the rest after it, if there is one.\<close>

definition cut_at :: "char \<Rightarrow> string \<Rightarrow> string \<times> string" where
  "cut_at c s = (takeWhile (\<lambda>x. x \<noteq> c) s, drop 1 (dropWhile (\<lambda>x. x \<noteq> c) s))"

text \<open>The text before and after the last separator.\<close>

definition cut_last :: "char \<Rightarrow> string \<Rightarrow> (string \<times> string) option" where
  "cut_last c s =
     (if c \<in> set s
      then Some (rev (drop 1 (dropWhile (\<lambda>x. x \<noteq> c) (rev s))), rev (takeWhile (\<lambda>x. x \<noteq> c) (rev s)))
      else None)"

definition get_scheme :: "string \<Rightarrow> (string \<times> string) option" where
  "get_scheme s =
     (let name = takeWhile (\<lambda>c. letter c \<or> json_digit c \<or> c \<in> set ''+-.'') s; r = drop (length name) s
      in if name \<noteq> [] \<and> letter (hd name) \<and> take 1 r = '':'' then Some (name, drop 1 r) else None)"

text \<open>The percent escapes of a path, fragment or user: each followed by two hex digits.\<close>

fun valid_escapes :: "string \<Rightarrow> bool" where
  "valid_escapes [] = True"
| "valid_escapes (c # s) =
     (if c = CHR ''%''
      then length s \<ge> 2 \<and> hex_value (s ! 0) \<noteq> None \<and> hex_value (s ! 1) \<noteq> None \<and> valid_escapes s
      else valid_escapes s)"

definition host_char :: "char \<Rightarrow> bool" where
  "host_char c \<longleftrightarrow> letter c \<or> json_digit c \<or> 128 \<le> code_of c
     \<or> c \<in> set (''!$&()*+,;=:[]<>-_.~'' @ [CHR 0x27, quote])"

text \<open>In a host only bytes from 128 on and the percent sign may be escaped, in a zone also others.\<close>

definition host_escape :: "bool \<Rightarrow> nat \<Rightarrow> bool" where
  "host_escape zone n \<longleftrightarrow> n = 37 \<or> (if zone then n = 32 \<or> host_char (char_of n) else 128 \<le> n)"

fun unescape_host :: "bool \<Rightarrow> string \<Rightarrow> string option" where
  "unescape_host zone [] = Some []"
| "unescape_host zone (c # s) =
     (if c = CHR ''%''
      then (case s of
              a # b # t \<Rightarrow>
                (case (hex_value a, hex_value b) of
                   (Some x, Some y) \<Rightarrow>
                     if host_escape zone (16 * x + y)
                     then map_option (Cons (char_of (16 * x + y))) (unescape_host zone t) else None
                 | _ \<Rightarrow> None)
            | _ \<Rightarrow> None)
      else if host_char c then map_option (Cons c) (unescape_host zone s) else None)"

definition valid_port :: "string \<Rightarrow> bool" where
  "valid_port s \<longleftrightarrow> s = [] \<or> hd s = CHR '':'' \<and> list_all json_digit (tl s)"

text \<open>The text before the first occurrence of a mark.\<close>

fun before_mark :: "string \<Rightarrow> string \<Rightarrow> string option" where
  "before_mark m [] = (if m = [] then Some [] else None)"
| "before_mark m (c # s) = (if take (length m) (c # s) = m then Some [] else map_option (Cons c) (before_mark m s))"

definition parse_host :: "string \<Rightarrow> string option" where
  "parse_host h =
     (if take 1 h = ''[''
      then (case cut_last (CHR '']'') h of
              None \<Rightarrow> None
            | Some (inside, port) \<Rightarrow>
                if \<not> valid_port port then None
                else (case before_mark ''%25'' inside of
                        None \<Rightarrow> unescape_host False h
                      | Some name \<Rightarrow>
                          (case (unescape_host False name, unescape_host True (drop (length name) inside),
                                 unescape_host False (CHR '']'' # port)) of
                             (Some x, Some y, Some z) \<Rightarrow> Some (x @ y @ z)
                           | _ \<Rightarrow> None)))
      else (case cut_last (CHR '':'') h of
              None \<Rightarrow> unescape_host False h
            | Some (_, port) \<Rightarrow> if list_all json_digit port then unescape_host False h else None))"

definition user_char :: "char \<Rightarrow> bool" where
  "user_char c \<longleftrightarrow> letter c \<or> json_digit c \<or> c \<in> set (''-._:~!$&()*+,;=%@'' @ [CHR 0x27])"

definition parse_authority :: "string \<Rightarrow> string option" where
  "parse_authority a =
     (case cut_last (CHR ''@'') a of
        None \<Rightarrow> parse_host a
      | Some (user, h) \<Rightarrow>
          (case parse_host h of
             None \<Rightarrow> None
           | Some host \<Rightarrow> if list_all user_char user \<and> valid_escapes user then Some host else None))"

text \<open>Scheme and host; without an authority the host is empty.\<close>

definition url_parse :: "string \<Rightarrow> (string \<times> string) option" where
  "url_parse raw =
     (let (u, fragment) = cut_at (CHR ''#'') raw
      in if list_ex (\<lambda>c. code_of c < 32 \<or> code_of c = 127) u then None
         else case get_scheme u of
           None \<Rightarrow> None
         | Some (scheme, r) \<Rightarrow>
             let r1 = fst (cut_at (CHR ''?'') r); name = to_lower scheme
             in if \<not> valid_escapes fragment then None
                else if take 1 r1 \<noteq> ''/'' then Some (name, [])
                else if take 2 r1 = ''//''
                then let authority = fst (cut_at (CHR ''/'') (drop 2 r1)); path = drop (2 + length authority) r1
                     in (case parse_authority authority of
                           None \<Rightarrow> None
                         | Some host \<Rightarrow> if valid_escapes path then Some (name, host) else None)
                else if valid_escapes r1 then Some (name, []) else None)"

section \<open>Queries\<close>

text \<open>\<open>url.QueryUnescape\<close>.\<close>

fun query_unescape :: "string \<Rightarrow> string option" where
  "query_unescape [] = Some []"
| "query_unescape (c # s) =
     (if c = CHR ''%''
      then (case s of
              a # b # t \<Rightarrow>
                (case (hex_value a, hex_value b) of
                   (Some x, Some y) \<Rightarrow> map_option (Cons (char_of (16 * x + y))) (query_unescape t)
                 | _ \<Rightarrow> None)
            | _ \<Rightarrow> None)
      else map_option (Cons (if c = CHR ''+'' then CHR '' '' else c)) (query_unescape s))"

text \<open>The segments of a text between the separators.\<close>

fun split_on :: "char \<Rightarrow> string \<Rightarrow> string list" where
  "split_on c [] = [[]]"
| "split_on c (x # s) =
     (if x = c then [] # split_on c s
      else case split_on c s of [] \<Rightarrow> [[x]] | w # ws \<Rightarrow> (x # w) # ws)"

definition query_pair :: "string \<Rightarrow> (string \<times> string) option" where
  "query_pair segment =
     (let (k, v) = cut_at (CHR ''='') segment
      in if CHR '';'' \<in> set segment then None
         else case (query_unescape k, query_unescape v) of
           (Some x, Some y) \<Rightarrow> Some (x, y)
         | _ \<Rightarrow> None)"

text \<open>\<open>url.ParseQuery\<close>: the pairs in order, or a failure when any of them is malformed.\<close>

fun query_pairs :: "string list \<Rightarrow> (string \<times> string) list option" where
  "query_pairs [] = Some []"
| "query_pairs (w # ws) =
     (if w = [] then query_pairs ws
      else case (query_pair w, query_pairs ws) of
        (Some kv, Some kvs) \<Rightarrow> Some (kv # kvs)
      | _ \<Rightarrow> None)"

definition parse_query :: "string \<Rightarrow> (string \<times> string) list option" where
  "parse_query raw = query_pairs (split_on (CHR ''&'') raw)"

definition query_get :: "(string \<times> string) list \<Rightarrow> string \<Rightarrow> string" where
  "query_get q k = (case map_of q k of None \<Rightarrow> [] | Some v \<Rightarrow> v)"

end
