(* ===== verification/Checkout.thy ===== *)
theory Checkout
  imports Subscription_Projection Subscription_Renewal Payment_Adjustment Go_URL
begin

text \<open>
  Checkout: service/checkout.go and its policies (service/checkout_policy.go), with the policy
  list the process is assembled with (app/bootstrap).  The payment gateway is an interface; so
  is a policy, a function from the checkout to a decision.  A Go map of metadata is the list of
  its entries in the order in which the loop over it meets them.
\<close>

record CheckoutInput =
  ch_UserID :: string
  ch_SKUCode :: string
  ch_Provider :: string
  ch_SuccessURL :: string
  ch_CancelURL :: string
  ch_IdempotencyKey :: string
  ch_Metadata :: string_map

text \<open>payment/provider.go.\<close>

record CheckoutRequest =
  ck_OutTradeNo :: string
  ck_Amount :: int
  ck_Currency :: string
  ck_Description :: string
  ck_SuccessURL :: string
  ck_CancelURL :: string
  ck_UserID :: string
  ck_CustomerEmail :: string
  ck_CustomerName :: string
  ck_SKUCode :: string
  ck_IdempotencyKey :: string
  ck_Metadata :: string_map

record CheckoutSession =
  ss_CheckoutURL :: string
  ss_ProviderCheckoutID :: string
  ss_ProviderCustomerID :: string
  ss_Status :: string

record CheckoutResult =
  rs_Order :: Order
  rs_CheckoutURL :: string
  rs_Provider :: string
  rs_Session :: CheckoutSession

record CheckoutPolicyInput =
  ip_Checkout :: CheckoutInput
  ip_User :: User
  ip_Product :: Product
  ip_ExistingOrder :: "Order option"

record CheckoutPolicyDecision =
  dp_Allowed :: bool
  dp_Reason :: string
  dp_Action :: string
  dp_Message :: string
  dp_Cause :: "err option"

type_synonym CheckoutPolicy = "CheckoutPolicyInput \<Rightarrow> CheckoutPolicyDecision service"

section \<open>Policies\<close>

abbreviation CheckoutPolicyActionAllow :: string where "CheckoutPolicyActionAllow \<equiv> ''allow''"
abbreviation CheckoutPolicyActionManualReview :: string where
  "CheckoutPolicyActionManualReview \<equiv> ''manual_review''"
abbreviation CheckoutPolicyActionKeepAccess :: string where
  "CheckoutPolicyActionKeepAccess \<equiv> ''keep_existing_access''"
abbreviation CheckoutPolicyActionManage :: string where "CheckoutPolicyActionManage \<equiv> ''manage_subscription''"
abbreviation CheckoutPolicyActionResume :: string where "CheckoutPolicyActionResume \<equiv> ''resume_subscription''"
abbreviation CheckoutPolicyReasonRedirectNotAllowed :: string where
  "CheckoutPolicyReasonRedirectNotAllowed \<equiv> ''redirect_not_allowed''"
abbreviation CheckoutPolicyReasonPaymentRiskHold :: string where
  "CheckoutPolicyReasonPaymentRiskHold \<equiv> ''payment_risk_hold''"
abbreviation CheckoutPolicyReasonAlreadyLifetime :: string where
  "CheckoutPolicyReasonAlreadyLifetime \<equiv> ''already_lifetime''"
abbreviation CheckoutPolicyReasonSubscriptionActive :: string where
  "CheckoutPolicyReasonSubscriptionActive \<equiv> ''subscription_active''"
abbreviation CheckoutPolicyReasonCancelAtPeriodEnd :: string where
  "CheckoutPolicyReasonCancelAtPeriodEnd \<equiv> ''cancel_at_period_end''"

definition allowCheckoutDecision :: CheckoutPolicyDecision where
  "allowCheckoutDecision =
     \<lparr>dp_Allowed = True, dp_Reason = [], dp_Action = CheckoutPolicyActionAllow, dp_Message = [], dp_Cause = None\<rparr>"

definition denied :: "string \<Rightarrow> string \<Rightarrow> string \<Rightarrow> err \<Rightarrow> CheckoutPolicyDecision" where
  "denied reason action message cause =
     \<lparr>dp_Allowed = False, dp_Reason = reason, dp_Action = action, dp_Message = message, dp_Cause = Some cause\<rparr>"

text \<open>\<open>errors.As\<close> with the rejection: the first one along the causes.\<close>

fun CheckoutPolicyDecisionFromError :: "err \<Rightarrow> CheckoutPolicyDecision option" where
  "CheckoutPolicyDecisionFromError (Rejection r a m c) = Some (denied r a m c)"
| "CheckoutPolicyDecisionFromError (Wrapped m c) = CheckoutPolicyDecisionFromError c"
| "CheckoutPolicyDecisionFromError (PolicyError s c) = CheckoutPolicyDecisionFromError c"
| "CheckoutPolicyDecisionFromError (Joined m c d) =
     (case CheckoutPolicyDecisionFromError c of
        None \<Rightarrow> CheckoutPolicyDecisionFromError d
      | Some x \<Rightarrow> Some x)"
| "CheckoutPolicyDecisionFromError e = None"

subsection \<open>Payment risk\<close>

record CheckoutRiskPolicyConfig =
  rp_BlockSeverities :: "string list"
  rp_OpenStatus :: string
  rp_Action :: string
  rp_Reason :: string
  rp_Message :: string

definition DefaultCheckoutRiskPolicyConfig :: CheckoutRiskPolicyConfig where
  "DefaultCheckoutRiskPolicyConfig =
     \<lparr>rp_BlockSeverities = [RiskSeverityCritical, RiskSeverityHigh], rp_OpenStatus = RiskStatusOpen,
      rp_Action = CheckoutPolicyActionManualReview, rp_Reason = CheckoutPolicyReasonPaymentRiskHold,
      rp_Message = ''checkout requires manual review''\<rparr>"

text \<open>The loop over the severities is the one of \<open>normalizeStringSet\<close>.\<close>

definition normalizeCheckoutRiskPolicyConfig :: "CheckoutRiskPolicyConfig \<Rightarrow> CheckoutRiskPolicyConfig" where
  "normalizeCheckoutRiskPolicyConfig c =
     (let defaults = DefaultCheckoutRiskPolicyConfig;
          wanted = (if rp_BlockSeverities c = [] then rp_BlockSeverities defaults else rp_BlockSeverities c);
          severities = normalize_set_loop [] wanted
      in \<lparr>rp_BlockSeverities = (if severities = [] then rp_BlockSeverities defaults else severities),
          rp_OpenStatus = defaultString (trim_space (rp_OpenStatus c)) (rp_OpenStatus defaults),
          rp_Action = defaultString (trim_space (rp_Action c)) (rp_Action defaults),
          rp_Reason = defaultString (trim_space (rp_Reason c)) (rp_Reason defaults),
          rp_Message = defaultString (trim_space (rp_Message c)) (rp_Message defaults)\<rparr>)"

fun evaluate_severities :: "CheckoutRiskPolicyConfig \<Rightarrow> string \<Rightarrow> string list \<Rightarrow> CheckoutPolicyDecision service" where
  "evaluate_severities c userID [] = ret allowCheckoutDecision"
| "evaluate_severities c userID (severity # severities) =
     andThen (attempt (PaymentRiskFlagRepo_List \<lparr>kq_UserID = userID, kq_OutTradeNo = [], kq_Provider = [],
        kq_Reason = [], kq_Severity = severity, kq_Status = rp_OpenStatus c, kq_Limit = 1, kq_Offset = 0\<rparr>)) (\<lambda>r.
     case r of
       Inl e \<Rightarrow> fail (Wrapped (error_text ErrCheckoutPolicyUnavailable @ '': '' @ error_text e)
                       ErrCheckoutPolicyUnavailable)
     | Inr flags \<Rightarrow>
         if flags \<noteq> []
         then ret (denied (rp_Reason c) (rp_Action c) (rp_Message c) ErrCheckoutBlockedByRisk)
         else evaluate_severities c userID severities)"

text \<open>\<open>has_flags\<close>: the flag repository is set; \<open>c\<close> is normalized by the constructor.\<close>

definition PaymentRiskCheckoutPolicy_Evaluate :: "bool \<Rightarrow> CheckoutRiskPolicyConfig \<Rightarrow> CheckoutPolicy" where
  "PaymentRiskCheckoutPolicy_Evaluate has_flags c inp =
     andThen (reject_if (\<not> has_flags) ErrCheckoutPolicyUnavailable) (\<lambda>_.
     let userID = trim_space (us_ID (ip_User inp))
     in if userID = [] then ret allowCheckoutDecision
        else evaluate_severities c userID (rp_BlockSeverities c))"

definition NewPaymentRiskCheckoutPolicy :: "bool \<Rightarrow> CheckoutRiskPolicyConfig \<Rightarrow> CheckoutPolicy" where
  "NewPaymentRiskCheckoutPolicy has_flags c =
     PaymentRiskCheckoutPolicy_Evaluate has_flags (normalizeCheckoutRiskPolicyConfig c)"

subsection \<open>Redirects\<close>

definition normalizeCheckoutRedirectKey :: "string \<Rightarrow> string" where
  "normalizeCheckoutRedirectKey raw0 =
     (let raw = trim_space raw0
      in if raw = [] then []
         else case url_parse raw of
           None \<Rightarrow> []
         | Some (s, h) \<Rightarrow>
             if s = [] then []
             else let scheme = to_lower s; host = to_lower h
             in if scheme \<in> {''http'', ''https''}
                then (if host = [] then [] else scheme @ ''://'' @ host)
                else if scheme \<in> {''javascript'', ''data'', ''file'', ''about'', ''blob''} then []
                else scheme @ ''://'')"

text \<open>The set of the allowed keys.\<close>

definition NewCheckoutRedirectPolicy :: "string list \<Rightarrow> string list" where
  "NewCheckoutRedirectPolicy allowlist =
     remdups (List.filter (\<lambda>k. k \<noteq> []) (List.map normalizeCheckoutRedirectKey allowlist))"

definition allowedRedirect :: "string list \<Rightarrow> string \<Rightarrow> bool" where
  "allowedRedirect allowed raw \<longleftrightarrow>
     (let key = normalizeCheckoutRedirectKey raw in key \<noteq> [] \<and> key \<in> set allowed)"

definition CheckoutRedirectPolicy_Evaluate :: "string list \<Rightarrow> CheckoutPolicy" where
  "CheckoutRedirectPolicy_Evaluate allowed inp =
     andThen (reject_if (allowed = []) ErrCheckoutPolicyUnavailable) (\<lambda>_.
     if \<not> allowedRedirect allowed (ch_SuccessURL (ip_Checkout inp))
        \<or> \<not> allowedRedirect allowed (ch_CancelURL (ip_Checkout inp))
     then ret (denied CheckoutPolicyReasonRedirectNotAllowed CheckoutPolicyActionManualReview
                 ''checkout redirect URL is not allowed'' ErrInvalidCheckoutRequest)
     else ret allowCheckoutDecision)"

subsection \<open>Software plans\<close>

definition plan_decision :: "string \<Rightarrow> SoftwareSubscriptionProjection \<Rightarrow> CheckoutPolicyDecision" where
  "plan_decision skuCode subscription =
     (if softwareSubscriptionIsLifetimeActive subscription
      then denied CheckoutPolicyReasonAlreadyLifetime CheckoutPolicyActionKeepAccess
             ''lifetime access is already active'' ErrCheckoutBlockedByPlan
      else if skuCode = SKUProOwnAIMonthly \<and> softwareSubscriptionIsCancelAtPeriodEnd subscription
      then denied CheckoutPolicyReasonCancelAtPeriodEnd CheckoutPolicyActionResume
             ''monthly subscription is cancelled at period end; resume instead of creating checkout''
             ErrCheckoutBlockedByPlan
      else if skuCode = SKUProOwnAIMonthly \<and> softwareSubscriptionIsMonthlyActive subscription
      then denied CheckoutPolicyReasonSubscriptionActive CheckoutPolicyActionManage
             ''monthly subscription is already active'' ErrCheckoutBlockedByPlan
      else if skuCode = SKUProOwnAILifetime \<and> softwareSubscriptionIsMonthlyActive subscription
        \<and> \<not> softwareSubscriptionIsCancelAtPeriodEnd subscription
      then denied CheckoutPolicyReasonSubscriptionActive CheckoutPolicyActionManage
             ''cancel monthly renewal before buying lifetime access'' ErrCheckoutBlockedByPlan
      else allowCheckoutDecision)"

text \<open>\<open>projector\<close>: the \<open>Project\<close> of the configured projector, if there is one.\<close>

definition SoftwareAccessPlanCheckoutPolicy_Evaluate ::
  "(string \<Rightarrow> SoftwareSubscriptionProjection service) option \<Rightarrow> CheckoutPolicy" where
  "SoftwareAccessPlanCheckoutPolicy_Evaluate projector inp =
     (case projector of
        None \<Rightarrow> fail ErrCheckoutPolicyUnavailable
      | Some project \<Rightarrow>
          let userID = trim_space (us_ID (ip_User inp)); skuCode = trim_space (ch_SKUCode (ip_Checkout inp))
          in if userID = [] \<or> skuCode \<noteq> SKUProOwnAIMonthly \<and> skuCode \<noteq> SKUProOwnAILifetime
             then ret allowCheckoutDecision
             else andThen (project userID) (\<lambda>subscription. ret (plan_decision skuCode subscription)))"

subsection \<open>The policies of the process\<close>

abbreviation ProductionEnv :: string where "ProductionEnv \<equiv> ''prod''"

text \<open>The part of the configuration that selects the policies.\<close>

record checkout_config =
  cf_Env :: string
  cf_RedirectAllowlist :: "string list"
  cf_RiskPolicyEnabled :: bool
  cf_RiskBlockSeverities :: "string list"

definition buildCheckoutPolicies ::
  "checkout_config option \<Rightarrow> bool \<Rightarrow> (string \<Rightarrow> SoftwareSubscriptionProjection service) option \<Rightarrow> CheckoutPolicy list" where
  "buildCheckoutPolicies cfg has_flags projector =
     [SoftwareAccessPlanCheckoutPolicy_Evaluate projector]
     @ (case cfg of
          None \<Rightarrow> []
        | Some c \<Rightarrow>
            (if cf_Env c = ProductionEnv
             then [CheckoutRedirectPolicy_Evaluate (NewCheckoutRedirectPolicy (cf_RedirectAllowlist c))] else [])
            @ (if cf_RiskPolicyEnabled c
               then [NewPaymentRiskCheckoutPolicy has_flags
                      (DefaultCheckoutRiskPolicyConfig\<lparr>rp_BlockSeverities := cf_RiskBlockSeverities c\<rparr>)]
               else []))"

section \<open>Checkout\<close>

definition evaluatePolicies :: "CheckoutPolicy list \<Rightarrow> CheckoutPolicyInput \<Rightarrow> unit service" where
  "evaluatePolicies policies inp =
     for_each policies (\<lambda>policy _.
       andThen (policy inp) (\<lambda>decision.
       reject_if (\<not> dp_Allowed decision)
         (Rejection (dp_Reason decision) (dp_Action decision) (dp_Message decision)
           (case dp_Cause decision of None \<Rightarrow> ErrInvalidCheckoutRequest | Some e \<Rightarrow> e)))) ()"

definition checkoutOrderHasSession :: "Order option \<Rightarrow> bool" where
  "checkoutOrderHasSession x \<longleftrightarrow> (case x of
      None \<Rightarrow> False
    | Some r \<Rightarrow> trim_space (or_CheckoutURL r) \<noteq> [] \<or> or_Status r = OrderStatusPaid \<or> or_Status r = OrderStatusFulfilled)"

definition checkoutResultFromOrder :: "Order \<Rightarrow> CheckoutResult" where
  "checkoutResultFromOrder x =
     \<lparr>rs_Order = x, rs_CheckoutURL = or_CheckoutURL x, rs_Provider = or_Provider x,
      rs_Session = \<lparr>ss_CheckoutURL = or_CheckoutURL x, ss_ProviderCheckoutID = or_ProviderCheckoutID x,
        ss_ProviderCustomerID = or_ProviderCustomerID x, ss_Status = or_Status x\<rparr>\<rparr>"

definition normalizeCheckoutInput :: "CheckoutInput \<Rightarrow> CheckoutInput" where
  "normalizeCheckoutInput i =
     i\<lparr>ch_UserID := trim_space (ch_UserID i), ch_SKUCode := trim_space (ch_SKUCode i),
       ch_Provider := trim_space (ch_Provider i), ch_SuccessURL := trim_space (ch_SuccessURL i),
       ch_CancelURL := trim_space (ch_CancelURL i), ch_IdempotencyKey := trim_space (ch_IdempotencyKey i)\<rparr>"

definition defaultCheckoutCurrency :: "Product \<Rightarrow> string" where
  "defaultCheckoutCurrency p =
     (if trim_space (pr_Currency p) \<noteq> [] then to_upper (trim_space (pr_Currency p)) else ''CNY'')"

definition clean_metadata :: "string_map \<Rightarrow> string_map" where
  "clean_metadata metadata =
     fold (\<lambda>(k, v) m. if trim_space k = [] then m else map_put (trim_space k) (trim_space v) m) metadata []"

definition encodeCheckoutMetadata :: "string_map \<Rightarrow> string" where
  "encodeCheckoutMetadata metadata =
     (let cleaned = clean_metadata metadata
      in if cleaned = [] then [] else marshal_string_map cleaned)"

text \<open>\<open>time.Now().UnixNano()\<close> of an instant counted from the zero time of Go.\<close>

definition unix_nano :: "instant \<Rightarrow> int" where
  "unix_nano t = wrap64 (t - 62135596800000000000)"

definition new_checkout_order :: "CheckoutInput \<Rightarrow> Product \<Rightarrow> instant \<Rightarrow> Order" where
  "new_checkout_order i p now =
     \<lparr>or_ID = 0, or_OutTradeNo = ''CHK-'' @ string_of_int (unix_nano now) @ ''-'' @ ch_SKUCode i,
      or_LicenseKey = [], or_UserID = ch_UserID i, or_SKUCode = ch_SKUCode i, or_Amount = pr_Price p,
      or_Currency = defaultCheckoutCurrency p, or_Status = OrderStatusPending, or_Provider = ch_Provider i,
      or_TradeNo = [], or_ProviderCheckoutID = [], or_ProviderCustomerID = [], or_CheckoutURL = [],
      or_IdempotencyKey = Some (ch_IdempotencyKey i), or_PaidAt = None, or_FulfilledAt = None,
      or_Metadata = encodeCheckoutMetadata (ch_Metadata i), or_OrderType = OrderTypeCheckout\<rparr>"

definition checkout_request :: "CheckoutInput \<Rightarrow> User \<Rightarrow> Product \<Rightarrow> Order \<Rightarrow> CheckoutRequest" where
  "checkout_request i u p x =
     \<lparr>ck_OutTradeNo = or_OutTradeNo x, ck_Amount = or_Amount x, ck_Currency = or_Currency x,
      ck_Description = ''Walnut '' @ pr_Name p, ck_SuccessURL = ch_SuccessURL i, ck_CancelURL = ch_CancelURL i,
      ck_UserID = ch_UserID i, ck_CustomerEmail = us_Email u, ck_CustomerName = us_DisplayName u,
      ck_SKUCode = ch_SKUCode i, ck_IdempotencyKey = ch_IdempotencyKey i, ck_Metadata = ch_Metadata i\<rparr>"

definition order_with_session :: "Order \<Rightarrow> CheckoutSession \<Rightarrow> Order" where
  "order_with_session x s =
     x\<lparr>or_Status := defaultString (trim_space (ss_Status s)) OrderStatusCheckoutCreated,
       or_CheckoutURL := trim_space (ss_CheckoutURL s),
       or_ProviderCheckoutID := trim_space (ss_ProviderCheckoutID s),
       or_ProviderCustomerID := trim_space (ss_ProviderCustomerID s)\<rparr>"

text \<open>The session of an order, or the failed order when the provider fails.\<close>

definition open_session ::
  "(string \<Rightarrow> CheckoutRequest \<Rightarrow> CheckoutSession service) \<Rightarrow> CheckoutInput \<Rightarrow> User \<Rightarrow> Product \<Rightarrow> Order
     \<Rightarrow> CheckoutResult service" where
  "open_session gateway i u p x =
     andThen (attempt (gateway (ch_Provider i) (checkout_request i u p x))) (\<lambda>r.
     case r of
       Inl e \<Rightarrow>
         andThen (attempt (OrderRepo_Update (x\<lparr>or_Status := OrderStatusFailed\<rparr>))) (\<lambda>_.
         fail (Joined (error_text ErrCheckoutProviderFailed @ '': '' @ error_text e) ErrCheckoutProviderFailed e))
     | Inr session \<Rightarrow>
         let y = order_with_session x session
         in andThen (OrderRepo_Update y) (\<lambda>_.
            ret \<lparr>rs_Order = y, rs_CheckoutURL = or_CheckoutURL y, rs_Provider = or_Provider y, rs_Session = session\<rparr>))"

text \<open>The service with its gateway, if one is set; \<open>wired\<close>: its repositories are.\<close>

record checkout_service =
  cw_wired :: bool
  cw_gateway :: "(string \<Rightarrow> CheckoutRequest \<Rightarrow> CheckoutSession service) option"
  cw_policies :: "CheckoutPolicy list"

definition checkout_with ::
  "checkout_service \<Rightarrow> (string \<Rightarrow> CheckoutRequest \<Rightarrow> CheckoutSession service) \<Rightarrow> CheckoutInput \<Rightarrow> Order option
     \<Rightarrow> CheckoutResult service" where
  "checkout_with s gateway i existing =
     andThen (not_found_as ErrUserNotFound (UserRepo_GetByID (ch_UserID i))) (\<lambda>u.
     andThen (reject_if (us_Status u \<noteq> [] \<and> us_Status u \<noteq> UserStatusActive) ErrUserNotFound) (\<lambda>_.
     andThen (attempt (ProductRepo_GetByCode (ch_SKUCode i))) (\<lambda>r.
     case r of
       Inl e \<Rightarrow> fail (Wrapped (''product '' @ go_quote (ch_SKUCode i) @ '' not found: '' @ error_text e) e)
     | Inr p \<Rightarrow>
         andThen (reject_if (\<not> pr_IsVisible p)
           (Errorf (''product '' @ go_quote (ch_SKUCode i) @ '' is not available for purchase''))) (\<lambda>_.
         andThen (evaluatePolicies (cw_policies s)
           \<lparr>ip_Checkout = i, ip_User = u, ip_Product = p, ip_ExistingOrder = existing\<rparr>) (\<lambda>_.
         case existing of
           None \<Rightarrow>
             andThen time_now (\<lambda>now.
             andThen (OrderRepo_Create (new_checkout_order i p now)) (open_session gateway i u p))
         | Some x \<Rightarrow>
             if checkoutOrderHasSession existing then ret (checkoutResultFromOrder x)
             else open_session gateway i u p x)))))"

definition CreateCheckoutSession :: "checkout_service \<Rightarrow> CheckoutInput \<Rightarrow> CheckoutResult service" where
  "CreateCheckoutSession s i0 =
     (let i = normalizeCheckoutInput i0
      in andThen (reject_if (ch_UserID i = [] \<or> ch_SKUCode i = [] \<or> ch_Provider i = [] \<or> ch_IdempotencyKey i = [])
           ErrInvalidCheckoutRequest) (\<lambda>_.
         case cw_gateway s of
           None \<Rightarrow> fail ErrInvalidCheckoutRequest
         | Some gateway \<Rightarrow>
             andThen (reject_if (\<not> cw_wired s) ErrInvalidCheckoutRequest) (\<lambda>_.
             if_found (OrderRepo_GetByIdempotencyKey (ch_IdempotencyKey i))
               (\<lambda>x. andThen (reject_if (or_UserID x \<noteq> ch_UserID i \<or> or_SKUCode x \<noteq> ch_SKUCode i
                        \<or> or_Provider x \<noteq> ch_Provider i) ErrInvalidCheckoutRequest) (\<lambda>_.
                    checkout_with s gateway i (Some x)))
               (checkout_with s gateway i None))))"

end
