(* ===== verification/Subscription_Cancellation.thy ===== *)
theory Subscription_Cancellation
  imports Checkout
begin

text \<open>
  Cancelling a subscription at the end of its period and resuming it:
  service/subscription_cancellation.go.  The provider is told first, outside the transaction;
  then the order's metadata and the cancellation are written in one.  The metadata of an order
  is JSON text; a nil map, which decoding the JSON null leaves, panics when it is written to,
  and the panic leaves the transaction like an error.
\<close>

section \<open>Types\<close>

abbreviation SubscriptionStatusActive :: string where "SubscriptionStatusActive \<equiv> ''active''"

text \<open>payment/provider.go.\<close>

record SubscriptionControlRequest =
  cq_ProviderSubscriptionID :: string
  cq_ControlUserID :: string
  cq_ControlSKUCode :: string
  cq_CancelAtPeriodEnd :: bool
  cq_ControlIdempotencyKey :: string
  cq_Metadata :: string_map

record SubscriptionControlResult =
  ro_ProviderSubscriptionID :: string
  ro_Status :: string
  ro_RawStatus :: string
  ro_CancelAtPeriodEnd :: bool
  ro_CurrentPeriodStartAt :: "instant option"
  ro_CurrentPeriodEndsAt :: "instant option"

record SubscriptionControlGateway =
  pg_CancelSubscription :: "string \<Rightarrow> SubscriptionControlRequest \<Rightarrow> SubscriptionControlResult service"
  pg_ResumeSubscription :: "string \<Rightarrow> SubscriptionControlRequest \<Rightarrow> SubscriptionControlResult service"

record SubscriptionCancellationInput =
  ic_UserID :: string
  ic_SKUCode :: string
  ic_Reason :: string
  ic_Source :: string
  ic_IdempotencyKey :: string

record SubscriptionResumeInput =
  ir_UserID :: string
  ir_SKUCode :: string
  ir_Source :: string
  ir_IdempotencyKey :: string

record SubscriptionCancellationRecord =
  rc_UserID :: string
  rc_SKUCode :: string
  rc_Status :: string
  rc_CancelAtPeriodEnd :: bool
  rc_CurrentPeriodEndsAt :: string
  rc_SourceOrderNo :: string
  rc_ID :: string

record SubscriptionCancellationResult =
  sr_ResultUserID :: string
  sr_ResultSKUCode :: string
  sr_ResultStatus :: string
  sr_CancelAtPeriodEnd :: bool
  sr_CurrentPeriodEndsAt :: string
  sr_Subscription :: SubscriptionCancellationRecord
  sr_Projection :: SoftwareSubscriptionProjection

text \<open>The service: whether its repositories are set, the gateway, the unit of work, the clock.\<close>

record cancellation_service =
  sv_wired :: bool
  sv_events :: bool
  sv_control :: "SubscriptionControlGateway option"
  sv_uow :: bool
  sv_now :: "instant option"

definition currentTime :: "cancellation_service \<Rightarrow> instant service" where
  "currentTime s = (case sv_now s of None \<Rightarrow> time_now | Some t \<Rightarrow> ret t)"

definition normalizeSubscriptionCancellationInput ::
  "SubscriptionCancellationInput \<Rightarrow> SubscriptionCancellationInput" where
  "normalizeSubscriptionCancellationInput i =
     \<lparr>ic_UserID = trim_space (ic_UserID i),
      ic_SKUCode = defaultString (trim_space (ic_SKUCode i)) SKUProOwnAIMonthly,
      ic_Reason = trim_space (ic_Reason i),
      ic_Source = defaultString (trim_space (ic_Source i)) ''pc_core'',
      ic_IdempotencyKey = trim_space (ic_IdempotencyKey i)\<rparr>"

definition normalizeSubscriptionResumeInput :: "SubscriptionResumeInput \<Rightarrow> SubscriptionResumeInput" where
  "normalizeSubscriptionResumeInput i =
     \<lparr>ir_UserID = trim_space (ir_UserID i),
      ir_SKUCode = defaultString (trim_space (ir_SKUCode i)) SKUProOwnAIMonthly,
      ir_Source = defaultString (trim_space (ir_Source i)) ''pc_core'',
      ir_IdempotencyKey = trim_space (ir_IdempotencyKey i)\<rparr>"

definition isCancellableSubscriptionSKU :: "string \<Rightarrow> bool" where
  "isCancellableSubscriptionSKU skuCode \<longleftrightarrow> trim_space skuCode = SKUProOwnAIMonthly"

section \<open>The current period\<close>

definition later_period :: "instant \<Rightarrow> instant option \<Rightarrow> EntitlementGrant \<Rightarrow> instant option" where
  "later_period now endsAt g =
     (if eg_Source g \<noteq> GrantSourceFulfillment \<or> \<not> IsCurrentAdvancedEntitlementID (eg_EntitlementID g) then endsAt
      else case eg_ExpiresAt g of
        None \<Rightarrow> endsAt
      | Some e \<Rightarrow>
          if \<not> now < e then endsAt
          else case endsAt of
            None \<Rightarrow> Some e
          | Some x \<Rightarrow> if x < e then Some e else endsAt)"

definition currentSubscriptionPeriod :: "string \<Rightarrow> string \<Rightarrow> instant \<Rightarrow> instant service" where
  "currentSubscriptionPeriod userID skuCode now =
     andThen (reject_if (trim_space userID = [] \<or> \<not> isCancellableSubscriptionSKU skuCode)
       ErrInvalidSubscriptionCancellation) (\<lambda>_.
     andThen (EntitlementGrantRepo_List \<lparr>nq_UserID = trim_space userID, nq_EntitlementID = [],
       nq_Status = GrantStatusActive, nq_IncludeExpired = False, nq_Limit = 0, nq_Offset = 0\<rparr>) (\<lambda>grants.
     case foldl (later_period now) None grants of
       None \<Rightarrow> fail ErrSubscriptionNotFound
     | Some endsAt \<Rightarrow> ret endsAt))"

section \<open>Metadata\<close>

text \<open>
  The members of an object as \<open>map[string]any\<close>: of equal keys the last; visited in key order.
  A number is taken to be in the range of \<open>float64\<close>.
\<close>

fun any_put :: "string \<Rightarrow> json \<Rightarrow> (string \<times> json) list \<Rightarrow> (string \<times> json) list" where
  "any_put k v [] = [(k, v)]"
| "any_put k v ((k', v') # m) =
     (if k = k' then (k, v) # m else if k < k' then (k, v) # (k', v') # m else (k', v') # any_put k v m)"

definition unmarshal_any_map :: "string \<Rightarrow> (string \<times> json) list option" where
  "unmarshal_any_map raw =
     (case parse_json raw of
        Some JNull \<Rightarrow> Some []
      | Some (JObj ms) \<Rightarrow> Some (fold (\<lambda>(k, v). any_put k v) ms [])
      | _ \<Rightarrow> None)"

definition put_generic :: "string \<times> json \<Rightarrow> string_map \<Rightarrow> string_map" where
  "put_generic kv m =
     (case snd kv of
        JStr s \<Rightarrow> if trim_space (fst kv) = [] then m else map_put (trim_space (fst kv)) (trim_space s) m
      | _ \<Rightarrow> m)"

text \<open>\<open>None\<close> is the nil map.\<close>

definition orderMetadataMap :: "string \<Rightarrow> string_map option" where
  "orderMetadataMap raw =
     (if trim_space raw = [] then Some []
      else case unmarshal_string_map raw of
        (True, m) \<Rightarrow> m
      | (False, m) \<Rightarrow>
          (case unmarshal_any_map raw of
             None \<Rightarrow> m
           | Some generic \<Rightarrow> map_option (fold put_generic generic) m))"

definition metadata_value :: "string_map option \<Rightarrow> string \<Rightarrow> string" where
  "metadata_value m k = (case m of None \<Rightarrow> [] | Some x \<Rightarrow> map_value x k)"

text \<open>A map with whether it was changed.\<close>

definition putOrderMetadata :: "string \<Rightarrow> string \<Rightarrow> bool \<times> string_map option \<Rightarrow> (bool \<times> string_map option) service" where
  "putOrderMetadata key0 value0 acc =
     (let key = trim_space key0; v = trim_space value0
      in if key = [] \<or> v = [] \<or> metadata_value (snd acc) key = v then ret acc
         else case snd acc of
           None \<Rightarrow> fail (Errorf ''panic: assignment to entry in nil map'')
         | Some m \<Rightarrow> ret (True, Some (map_put key v m)))"

definition put_all :: "(string \<times> string) list \<Rightarrow> bool \<times> string_map option \<Rightarrow> (bool \<times> string_map option) service" where
  "put_all kvs acc = for_each kvs (\<lambda>(k, v). putOrderMetadata k v) acc"

definition period_entry :: "string \<Rightarrow> instant option \<Rightarrow> (string \<times> string) list" where
  "period_entry key t = (case t of None \<Rightarrow> [] | Some x \<Rightarrow> [(key, format_rfc3339 x)])"

definition putProviderControlMetadata ::
  "SubscriptionControlResult option \<Rightarrow> bool \<times> string_map option \<Rightarrow> (bool \<times> string_map option) service" where
  "putProviderControlMetadata result acc =
     (case result of
        None \<Rightarrow> ret acc
      | Some r \<Rightarrow> put_all
          ([(''walnut_provider_subscription_status'', ro_Status r),
            (''walnut_provider_subscription_raw_status'', ro_RawStatus r)]
           @ period_entry ''walnut_provider_period_start_at'' (ro_CurrentPeriodStartAt r)
           @ period_entry ''walnut_provider_period_end_at'' (ro_CurrentPeriodEndsAt r)) acc)"

section \<open>The provider's subscription\<close>

definition firstSubscriptionID :: "string list \<Rightarrow> string" where
  "firstSubscriptionID values = firstNonEmptyString values"

definition looksLikeSubscriptionID :: "string \<Rightarrow> bool" where
  "looksLikeSubscriptionID v0 \<longleftrightarrow>
     (let v = to_lower (trim_space v0) in take 4 v = ''sub_'' \<or> take 13 v = ''subscription_'')"

text \<open>The member of an object: of equal keys the last.\<close>

definition json_member :: "string \<Rightarrow> json option \<Rightarrow> json option" where
  "json_member k v = (case v of Some (JObj ms) \<Rightarrow> map_of (rev ms) k | _ \<Rightarrow> None)"

definition stringAtPath :: "json \<Rightarrow> string list \<Rightarrow> string" where
  "stringAtPath v path =
     (case fold json_member path (Some v) of Some (JStr s) \<Rightarrow> trim_space s | _ \<Rightarrow> [])"

definition providerSubscriptionIDFromRawPayload :: "string \<Rightarrow> string" where
  "providerSubscriptionIDFromRawPayload raw0 =
     (let raw = trim_space raw0
      in if raw = [] then []
         else let decoded = (case parse_json raw of
                  Some JNull \<Rightarrow> Some (JObj [])
                | Some (JObj ms) \<Rightarrow> Some (JObj ms)
                | _ \<Rightarrow> None)
         in (case decoded of
               None \<Rightarrow>
                 (case parse_query raw of
                    None \<Rightarrow> []
                  | Some q \<Rightarrow> firstSubscriptionID [query_get q ''subscription_id'',
                       query_get q ''provider_subscription_id'', query_get q ''walnut_provider_subscription_id''])
             | Some payload \<Rightarrow>
                 let found = firstSubscriptionID
                       [stringAtPath payload [''subscription_id''],
                        stringAtPath payload [''provider_subscription_id''],
                        stringAtPath payload [''walnut_provider_subscription_id''],
                        stringAtPath payload [''object'', ''subscription'', ''id''],
                        stringAtPath payload [''object'', ''subscription_id''],
                        stringAtPath payload [''object'', ''subscription''],
                        stringAtPath payload [''object'', ''metadata'', ''provider_subscription_id''],
                        stringAtPath payload [''object'', ''metadata'', ''walnut_provider_subscription_id'']];
                     other = stringAtPath payload [''object'', ''id'']
                 in if found \<noteq> [] then found
                    else if looksLikeSubscriptionID other then other else []))"

definition currentProviderSubscriptionID :: "bool \<Rightarrow> string \<Rightarrow> string service" where
  "currentProviderSubscriptionID has_events outTradeNo =
     (if \<not> has_events \<or> trim_space outTradeNo = [] then ret []
      else andThen (attempt (PaymentEventRepo_List \<lparr>pq_Provider = [], pq_Status = [], pq_EventType = [],
             pq_OutTradeNo = trim_space outTradeNo, pq_Limit = 20, pq_Offset = 0\<rparr>)) (\<lambda>r.
           case r of
             Inl e \<Rightarrow> ret []
           | Inr rows \<Rightarrow>
               ret (case List.filter (\<lambda>i. i \<noteq> []) (List.map (\<lambda>e. providerSubscriptionIDFromRawPayload (pe_RawPayload e)) rows) of
                      [] \<Rightarrow> []
                    | i # _ \<Rightarrow> i)))"

definition providerSubscriptionIDForOrder :: "bool \<Rightarrow> Order \<Rightarrow> string service" where
  "providerSubscriptionIDForOrder has_events x =
     (let m = orderMetadataMap (or_Metadata x)
      in if metadata_value m ''walnut_provider_subscription_id'' \<noteq> []
         then ret (metadata_value m ''walnut_provider_subscription_id'')
         else if metadata_value m ''provider_subscription_id'' \<noteq> []
         then ret (metadata_value m ''provider_subscription_id'')
         else currentProviderSubscriptionID has_events (or_OutTradeNo x))"

definition firstProviderSubscriptionID :: "SubscriptionControlResult option \<Rightarrow> string \<Rightarrow> string" where
  "firstProviderSubscriptionID result fallback =
     (case result of
        None \<Rightarrow> trim_space fallback
      | Some r \<Rightarrow> if trim_space (ro_ProviderSubscriptionID r) \<noteq> [] then trim_space (ro_ProviderSubscriptionID r)
                  else trim_space fallback)"

text \<open>A provider call: an unsupported one is unavailable, another failure keeps its cause.\<close>

definition provider_call :: "SubscriptionControlResult service \<Rightarrow> SubscriptionControlResult option service" where
  "provider_call m =
     andThen (attempt m) (\<lambda>r.
     case r of
       Inl e \<Rightarrow>
         if errors_is e ErrSubscriptionControlUnsupported then fail ErrSubscriptionControlUnavailable
         else fail (Joined (error_text ErrSubscriptionControlFailed @ [CHR 0x0A] @ error_text e)
                      ErrSubscriptionControlFailed e)
     | Inr result \<Rightarrow> ret (Some result))"

definition control_metadata :: "Order \<Rightarrow> string \<Rightarrow> string \<Rightarrow> string_map" where
  "control_metadata x action source =
     [(''walnut_action'', action), (''walnut_out_trade_no'', or_OutTradeNo x), (''walnut_source'', source)]"

definition cancelProviderSubscription ::
  "cancellation_service \<Rightarrow> Order \<Rightarrow> SubscriptionCancellationInput \<Rightarrow> SubscriptionControlResult option service" where
  "cancelProviderSubscription s x i =
     (case sv_control s of
        None \<Rightarrow> ret None
      | Some gateway \<Rightarrow>
          andThen (providerSubscriptionIDForOrder (sv_events s) x) (\<lambda>subscriptionID.
          if subscriptionID = [] then ret None
          else provider_call (pg_CancelSubscription gateway (or_Provider x)
                 \<lparr>cq_ProviderSubscriptionID = subscriptionID, cq_ControlUserID = ic_UserID i,
                  cq_ControlSKUCode = ic_SKUCode i, cq_CancelAtPeriodEnd = True,
                  cq_ControlIdempotencyKey = ic_IdempotencyKey i,
                  cq_Metadata = control_metadata x ''subscription_cancel'' (ic_Source i)\<rparr>)))"

definition resumeProviderSubscription ::
  "cancellation_service \<Rightarrow> Order \<Rightarrow> SubscriptionResumeInput \<Rightarrow> SubscriptionControlResult option service" where
  "resumeProviderSubscription s x i =
     (case sv_control s of
        None \<Rightarrow> ret None
      | Some gateway \<Rightarrow>
          andThen (providerSubscriptionIDForOrder (sv_events s) x) (\<lambda>subscriptionID.
          if subscriptionID = [] then ret None
          else provider_call (pg_ResumeSubscription gateway (or_Provider x)
                 \<lparr>cq_ProviderSubscriptionID = subscriptionID, cq_ControlUserID = ir_UserID i,
                  cq_ControlSKUCode = ir_SKUCode i, cq_CancelAtPeriodEnd = False,
                  cq_ControlIdempotencyKey = ir_IdempotencyKey i,
                  cq_Metadata = control_metadata x ''subscription_resume'' (ir_Source i)\<rparr>)))"

definition cancellation_active :: "SubscriptionCancellation \<Rightarrow> bool" where
  "cancellation_active c \<longleftrightarrow>
     sc_Status c = CancellationStatusCancelAtPeriodEnd \<and> sc_CancelAtPeriodEnd c"

definition active_cancellation :: "string \<Rightarrow> string \<Rightarrow> SubscriptionCancellation service" where
  "active_cancellation userID skuCode =
     not_found_as ErrSubscriptionNotFound (CancellationRepo_FindActive
       \<lparr>cq_UserID = userID, cq_SKUCode = skuCode, cq_Status = CancellationStatusCancelAtPeriodEnd\<rparr>)"

text \<open>A lookup by key, when there is one.\<close>

definition by_key :: "string \<Rightarrow> 'a service \<Rightarrow> 'a option service" where
  "by_key key m = (if key = [] then ret None else if_found m (\<lambda>x. ret (Some x)) (ret None))"

definition prepareCancelProviderControl ::
  "cancellation_service \<Rightarrow> SubscriptionCancellationInput \<Rightarrow> SubscriptionControlResult option service" where
  "prepareCancelProviderControl s i =
     (if sv_control s = None then ret None
      else andThen (by_key (ic_IdempotencyKey i) (CancellationRepo_GetByIdempotencyKey (ic_IdempotencyKey i))) (\<lambda>existing.
           if (case existing of None \<Rightarrow> False | Some c \<Rightarrow> cancellation_active c) then ret None
           else andThen (not_found_as ErrUserNotFound (UserRepo_GetByID (ic_UserID i))) (\<lambda>_.
                andThen (currentTime s) (\<lambda>now.
                andThen (currentSubscriptionPeriod (ic_UserID i) (ic_SKUCode i) now) (\<lambda>_.
                if_found (OrderRepo_FindLatestSubscriptionOrder (ic_UserID i) (ic_SKUCode i))
                  (\<lambda>x. cancelProviderSubscription s x i) (ret None))))))"

definition prepareResumeProviderControl ::
  "cancellation_service \<Rightarrow> SubscriptionResumeInput \<Rightarrow> SubscriptionControlResult option service" where
  "prepareResumeProviderControl s i =
     (if sv_control s = None then ret None
      else andThen (not_found_as ErrUserNotFound (UserRepo_GetByID (ir_UserID i))) (\<lambda>_.
           andThen (currentTime s) (\<lambda>now.
           andThen (currentSubscriptionPeriod (ir_UserID i) (ir_SKUCode i) now) (\<lambda>_.
           andThen (by_key (ir_IdempotencyKey i) (CancellationRepo_GetByResumeIdempotencyKey (ir_IdempotencyKey i))) (\<lambda>existing.
           if (case existing of None \<Rightarrow> False
               | Some c \<Rightarrow> sc_Status c \<noteq> CancellationStatusCancelAtPeriodEnd \<and> \<not> sc_CancelAtPeriodEnd c) then ret None
           else andThen (active_cancellation (ir_UserID i) (ir_SKUCode i)) (\<lambda>_.
                if_found (OrderRepo_FindLatestSubscriptionOrder (ir_UserID i) (ir_SKUCode i))
                  (\<lambda>x. resumeProviderSubscription s x i) (ret None)))))))"

section \<open>The order's metadata\<close>

text \<open>The fixed entries, then the provider's subscription and its state.\<close>

definition mark_order ::
  "bool \<Rightarrow> Order \<Rightarrow> SubscriptionControlResult option \<Rightarrow> (string \<times> string) list \<Rightarrow> Order service" where
  "mark_order has_events x control entries =
     andThen (put_all entries (False, orderMetadataMap (or_Metadata x))) (\<lambda>acc1.
     andThen (providerSubscriptionIDForOrder has_events x) (\<lambda>fallback.
     andThen (let i = firstProviderSubscriptionID control fallback
              in if i \<noteq> [] then putOrderMetadata ''walnut_provider_subscription_id'' i acc1 else ret acc1) (\<lambda>acc2.
     andThen (putProviderControlMetadata control acc2) (\<lambda>acc.
     if \<not> fst acc then ret x
     else let y = x\<lparr>or_Metadata := encodeCheckoutMetadata (case snd acc of None \<Rightarrow> [] | Some m \<Rightarrow> m)\<rparr>
          in andThen (OrderRepo_Update y) (\<lambda>_. ret y)))))"

definition markProviderSubscriptionCancellation ::
  "bool \<Rightarrow> Order option \<Rightarrow> SubscriptionCancellationInput \<Rightarrow> SubscriptionControlResult option \<Rightarrow> instant
     \<Rightarrow> Order option service" where
  "markProviderSubscriptionCancellation has_events found i control now =
     (case found of
        None \<Rightarrow> ret None
      | Some x \<Rightarrow> andThen (mark_order has_events x control
          [(''walnut_subscription_status'', SoftwareStatusCancelAtPeriodEnd),
           (''walnut_cancel_at_period_end'', ''true''),
           (''walnut_subscription_cancel_source'', ic_Source i),
           (''walnut_subscription_cancel_reason'', ic_Reason i),
           (''walnut_subscription_cancelled_at'', format_rfc3339 now)]) (\<lambda>y. ret (Some y)))"

definition markProviderSubscriptionResumed ::
  "bool \<Rightarrow> Order option \<Rightarrow> SubscriptionResumeInput \<Rightarrow> SubscriptionControlResult option \<Rightarrow> instant
     \<Rightarrow> Order option service" where
  "markProviderSubscriptionResumed has_events found i control now =
     (case found of
        None \<Rightarrow> ret None
      | Some x \<Rightarrow> andThen (mark_order has_events x control
          [(''walnut_subscription_status'', SubscriptionStatusActive),
           (''walnut_cancel_at_period_end'', ''false''),
           (''walnut_subscription_resume_source'', ir_Source i),
           (''walnut_subscription_resumed_at'', format_rfc3339 now)]) (\<lambda>y. ret (Some y)))"

section \<open>The cancellation\<close>

definition activateSubscriptionCancellation ::
  "SubscriptionCancellation \<Rightarrow> SubscriptionCancellationInput \<Rightarrow> instant \<Rightarrow> instant \<Rightarrow> SubscriptionCancellation service" where
  "activateSubscriptionCancellation c i endsAt now =
     (let c' = c\<lparr>sc_Status := CancellationStatusCancelAtPeriodEnd, sc_CancelAtPeriodEnd := True,
            sc_CurrentPeriodEndsAt := endsAt, sc_Reason := ic_Reason i, sc_Source := ic_Source i,
            sc_ResumedAt := None, sc_UpdatedAt := now\<rparr>
      in andThen (CancellationRepo_Update c') (\<lambda>_. ret c'))"

definition new_cancellation ::
  "string \<Rightarrow> SubscriptionCancellationInput \<Rightarrow> Order option \<Rightarrow> instant \<Rightarrow> instant \<Rightarrow> SubscriptionCancellation" where
  "new_cancellation i inp found endsAt now =
     \<lparr>sc_ID = i, sc_UserID = ic_UserID inp, sc_SKUCode = ic_SKUCode inp,
      sc_Status = CancellationStatusCancelAtPeriodEnd, sc_CancelAtPeriodEnd = True,
      sc_CurrentPeriodEndsAt = endsAt,
      sc_SourceOrderNo = (case found of None \<Rightarrow> [] | Some x \<Rightarrow> or_OutTradeNo x),
      sc_Reason = ic_Reason inp, sc_Source = ic_Source inp,
      sc_IdempotencyKey = (if ic_IdempotencyKey inp = []
        then ''subscription_cancel:'' @ ic_UserID inp @ '':'' @ ic_SKUCode inp @ '':'' @ format_compact endsAt
        else ic_IdempotencyKey inp),
      sc_ResumeIdempotencyKey = [], sc_ResumedAt = None, sc_CreatedAt = now, sc_UpdatedAt = now\<rparr>"

definition ensureSubscriptionCancellation ::
  "SubscriptionCancellationInput \<Rightarrow> Order option \<Rightarrow> instant \<Rightarrow> instant \<Rightarrow> SubscriptionCancellation service" where
  "ensureSubscriptionCancellation inp found endsAt now =
     andThen (by_key (ic_IdempotencyKey inp) (CancellationRepo_GetByIdempotencyKey (ic_IdempotencyKey inp))) (\<lambda>existing.
     case existing of
       Some c \<Rightarrow>
         if \<not> cancellation_active c then activateSubscriptionCancellation c inp endsAt now else ret c
     | None \<Rightarrow>
         andThen (generateEntityID ''sub_cancel_'') (\<lambda>i.
         let c = new_cancellation i inp found endsAt now
         in andThen (attempt (CancellationRepo_Create c)) (\<lambda>r.
            case r of
              Inr _ \<Rightarrow> ret c
            | Inl e \<Rightarrow>
                andThen (attempt (CancellationRepo_GetByIdempotencyKey (sc_IdempotencyKey c))) (\<lambda>r2.
                case r2 of Inr other \<Rightarrow> ret other | Inl _ \<Rightarrow> fail e))))"

definition deactivateSubscriptionCancellation ::
  "SubscriptionCancellation \<Rightarrow> SubscriptionResumeInput \<Rightarrow> instant \<Rightarrow> SubscriptionCancellation service" where
  "deactivateSubscriptionCancellation c inp now =
     (let c' = c\<lparr>sc_Status := SubscriptionStatusActive, sc_CancelAtPeriodEnd := False, sc_Source := ir_Source inp,
            sc_ResumeIdempotencyKey := (if ir_IdempotencyKey inp = []
              then ''subscription_resume:'' @ sc_UserID c @ '':'' @ sc_SKUCode c @ '':'' @ format_compact (sc_CurrentPeriodEndsAt c)
              else ir_IdempotencyKey inp),
            sc_ResumedAt := Some now, sc_UpdatedAt := now\<rparr>
      in andThen (attempt (CancellationRepo_Update c')) (\<lambda>r.
         case r of
           Inr _ \<Rightarrow> ret c'
         | Inl e \<Rightarrow>
             andThen (attempt (CancellationRepo_GetByResumeIdempotencyKey (sc_ResumeIdempotencyKey c'))) (\<lambda>r2.
             case r2 of Inr other \<Rightarrow> ret other | Inl _ \<Rightarrow> fail e)))"

definition resumeSubscriptionCancellation ::
  "SubscriptionResumeInput \<Rightarrow> instant \<Rightarrow> SubscriptionCancellation service" where
  "resumeSubscriptionCancellation inp now =
     andThen (by_key (ir_IdempotencyKey inp) (CancellationRepo_GetByResumeIdempotencyKey (ir_IdempotencyKey inp))) (\<lambda>existing.
     case existing of
       Some c \<Rightarrow>
         if sc_Status c = CancellationStatusCancelAtPeriodEnd \<or> sc_CancelAtPeriodEnd c
         then deactivateSubscriptionCancellation c inp now else ret c
     | None \<Rightarrow>
         andThen (active_cancellation (ir_UserID inp) (ir_SKUCode inp)) (\<lambda>c.
         deactivateSubscriptionCancellation c inp now))"

section \<open>Results\<close>

definition cancellation_result ::
  "string \<Rightarrow> string \<Rightarrow> string \<Rightarrow> bool \<Rightarrow> instant \<Rightarrow> string \<Rightarrow> string \<Rightarrow> SubscriptionCancellationResult" where
  "cancellation_result userID skuCode status atEnd endsAt sourceOrderNo i =
     \<lparr>sr_ResultUserID = userID, sr_ResultSKUCode = skuCode, sr_ResultStatus = status, sr_CancelAtPeriodEnd = atEnd,
      sr_CurrentPeriodEndsAt = format_rfc3339 endsAt,
      sr_Subscription = \<lparr>rc_UserID = userID, rc_SKUCode = skuCode, rc_Status = status, rc_CancelAtPeriodEnd = atEnd,
        rc_CurrentPeriodEndsAt = format_rfc3339 endsAt, rc_SourceOrderNo = sourceOrderNo, rc_ID = i\<rparr>,
      sr_Projection = \<lparr>sp_UserID = userID, sp_SKUCode = skuCode, sp_Status = status, sp_CancelAtPeriodEnd = atEnd,
        sp_CurrentPeriodStartAt = [], sp_CurrentPeriodEndsAt = format_rfc3339 endsAt\<rparr>\<rparr>"

definition subscriptionCancellationResult ::
  "SubscriptionCancellationInput \<Rightarrow> Order option \<Rightarrow> instant \<Rightarrow> SubscriptionCancellation \<Rightarrow> SubscriptionCancellationResult" where
  "subscriptionCancellationResult inp found endsAt c =
     cancellation_result (ic_UserID inp) (ic_SKUCode inp) SoftwareStatusCancelAtPeriodEnd True endsAt
       (if sc_SourceOrderNo c \<noteq> [] then sc_SourceOrderNo c
        else case found of None \<Rightarrow> [] | Some x \<Rightarrow> or_OutTradeNo x)
       (sc_ID c)"

definition subscriptionResumeResult ::
  "SubscriptionResumeInput \<Rightarrow> instant \<Rightarrow> SubscriptionCancellation \<Rightarrow> SubscriptionCancellationResult" where
  "subscriptionResumeResult inp endsAt c =
     cancellation_result (ir_UserID inp) (ir_SKUCode inp) SubscriptionStatusActive False endsAt
       (sc_SourceOrderNo c) (sc_ID c)"

section \<open>Cancel and resume\<close>

definition latest_order :: "string \<Rightarrow> string \<Rightarrow> Order option service" where
  "latest_order userID skuCode =
     if_found (OrderRepo_FindLatestSubscriptionOrder userID skuCode) (\<lambda>x. ret (Some x)) (ret None)"

definition cancelWithRepos ::
  "cancellation_service \<Rightarrow> SubscriptionCancellationInput \<Rightarrow> SubscriptionControlResult option
     \<Rightarrow> SubscriptionCancellationResult service" where
  "cancelWithRepos s inp control =
     andThen (not_found_as ErrUserNotFound (UserRepo_GetByID (ic_UserID inp))) (\<lambda>_.
     andThen (currentTime s) (\<lambda>now1.
     andThen (currentSubscriptionPeriod (ic_UserID inp) (ic_SKUCode inp) now1) (\<lambda>endsAt.
     andThen (latest_order (ic_UserID inp) (ic_SKUCode inp)) (\<lambda>found0.
     andThen (currentTime s) (\<lambda>now2.
     andThen (markProviderSubscriptionCancellation (sv_events s) found0 inp control now2) (\<lambda>found.
     andThen (currentTime s) (\<lambda>now3.
     andThen (ensureSubscriptionCancellation inp found endsAt now3) (\<lambda>c.
     ret (subscriptionCancellationResult inp found endsAt c)))))))))"

definition resumeWithRepos ::
  "cancellation_service \<Rightarrow> SubscriptionResumeInput \<Rightarrow> SubscriptionControlResult option
     \<Rightarrow> SubscriptionCancellationResult service" where
  "resumeWithRepos s inp control =
     andThen (not_found_as ErrUserNotFound (UserRepo_GetByID (ir_UserID inp))) (\<lambda>_.
     andThen (currentTime s) (\<lambda>now1.
     andThen (currentSubscriptionPeriod (ir_UserID inp) (ir_SKUCode inp) now1) (\<lambda>endsAt.
     andThen (latest_order (ir_UserID inp) (ir_SKUCode inp)) (\<lambda>found.
     andThen (currentTime s) (\<lambda>now2.
     andThen (markProviderSubscriptionResumed (sv_events s) found inp control now2) (\<lambda>_.
     andThen (currentTime s) (\<lambda>now3.
     andThen (resumeSubscriptionCancellation inp now3) (\<lambda>c.
     ret (subscriptionResumeResult inp endsAt c)))))))))"

definition withCancellationTransaction :: "cancellation_service \<Rightarrow> 'a service \<Rightarrow> 'a service" where
  "withCancellationTransaction s body = (if sv_uow s then in_transaction body else body)"

definition Cancel ::
  "cancellation_service \<Rightarrow> SubscriptionCancellationInput \<Rightarrow> SubscriptionCancellationResult service" where
  "Cancel s inp0 =
     (let inp = normalizeSubscriptionCancellationInput inp0
      in andThen (reject_if (\<not> sv_wired s \<or> ic_UserID inp = [] \<or> ic_SKUCode inp = [])
           ErrInvalidSubscriptionCancellation) (\<lambda>_.
         andThen (prepareCancelProviderControl s inp) (\<lambda>control.
         withCancellationTransaction s (cancelWithRepos s inp control))))"

definition Resume ::
  "cancellation_service \<Rightarrow> SubscriptionResumeInput \<Rightarrow> SubscriptionCancellationResult service" where
  "Resume s inp0 =
     (let inp = normalizeSubscriptionResumeInput inp0
      in andThen (reject_if (\<not> sv_wired s \<or> ir_UserID inp = [] \<or> ir_SKUCode inp = [])
           ErrInvalidSubscriptionCancellation) (\<lambda>_.
         andThen (prepareResumeProviderControl s inp) (\<lambda>control.
         withCancellationTransaction s (resumeWithRepos s inp control))))"

end
