(* ===== verification/Checkout_Order_Theorems.thy ===== *)
theory Checkout_Order_Theorems
  imports Subscription_Cancellation Sample_World
begin

text \<open>
  What a checkout stores: one order per idempotency key, which carries the session of the
  provider, and nothing else; and that a checkout comes to its end when nothing it calls fails.
\<close>

section \<open>Orders by key\<close>

lemma order_by_key:
  assumes "table_ok order_clash t" "y \<in> set t" "or_IdempotencyKey y = Some k"
  shows "find_row or_IdempotencyKey (Some k) t = Some y"
proof -
  obtain x where x: "find_row or_IdempotencyKey (Some k) t = Some x"
    using assms(2,3) by (cases "find_row or_IdempotencyKey (Some k) t") (auto simp: find_row_absent)
  from find_row_found [OF x] assms(3) have "x \<in> set t" "order_clash x y"
    by (auto simp: order_clash_def same_key_def)
  with orders.same_row [OF assms(1) _ assms(2)] x show ?thesis by simp
qed

text \<open>The table after an order was created and rewritten under its key.\<close>

definition only_order :: "string \<Rightarrow> Order \<Rightarrow> Order list \<Rightarrow> Order list \<Rightarrow> bool" where
  "only_order k y t t' \<longleftrightarrow> table_ok order_clash t' \<and> find_row or_IdempotencyKey (Some k) t' = Some y
     \<and> (\<forall>z. or_IdempotencyKey z \<noteq> Some k \<longrightarrow> (z \<in> set t' \<longleftrightarrow> z \<in> set t))"

lemma only_order_saved:
  assumes ok: "table_ok order_clash t" and x: "x \<in> set t" "or_IdempotencyKey x = Some k"
    and y: "or_ID y = or_ID x" "or_IdempotencyKey y = Some k"
    and save: "save_row or_ID order_clash y t = Some t'"
  shows "only_order k y t t'"
proof -
  have ok': "table_ok order_clash t'" by (rule orders.save_ok [OF ok save])
  have t': "t' = replace_row or_ID y t"
    using orders.save_row_Some [OF save] orders.find_row_member [OF ok x(1)] y(1) by simp
  have "z \<in> set t' \<longleftrightarrow> z \<in> set t" if "or_IdempotencyKey z \<noteq> Some k" for z
  proof
    assume "z \<in> set t'"
    then show "z \<in> set t" unfolding t' by (rule replace_rowE) (use that y in auto)
  next
    assume z: "z \<in> set t"
    have "or_ID z \<noteq> or_ID y"
      using orders.same_row [OF ok z x(1)] orders.key_clash [of z x] y(1) x(2) that by auto
    with z show "z \<in> set t'" unfolding t' by (rule replace_row_other)
  qed
  with ok' order_by_key [OF ok' save_row_mem [OF save] y(2)] show ?thesis by (simp add: only_order_def)
qed

lemma only_order_created:
  assumes "table_ok order_clash t" "insert_row order_clash x t = Some t'" "or_IdempotencyKey x = Some k"
  shows "only_order k x t t'" "x \<in> set t'"
proof -
  have t': "t' = t @ [x]" using assms(2) by (simp add: orders.insert_row_Some)
  have "table_ok order_clash t'" by (rule orders.insert_ok [OF assms(1,2)])
  from order_by_key [OF this _ assms(3)] this assms(3) show "only_order k x t t'" "x \<in> set t'"
    by (auto simp: only_order_def t')
qed

lemma only_order_trans: "only_order k x t t' \<Longrightarrow> only_order k y t' t'' \<Longrightarrow> only_order k y t t''"
  by (simp add: only_order_def)

section \<open>The order of a checkout\<close>

lemma order_with_session_simps [simp]:
  "or_ID (order_with_session x s) = or_ID x" "or_IdempotencyKey (order_with_session x s) = or_IdempotencyKey x"
  "or_UserID (order_with_session x s) = or_UserID x" "or_SKUCode (order_with_session x s) = or_SKUCode x"
  "or_Provider (order_with_session x s) = or_Provider x" "or_Amount (order_with_session x s) = or_Amount x"
  "or_Metadata (order_with_session x s) = or_Metadata x"
  by (simp_all add: order_with_session_def)

definition orders_only :: "string \<Rightarrow> Order \<Rightarrow> database \<Rightarrow> database \<Rightarrow> bool" where
  "orders_only k y d d' \<longleftrightarrow> only_order k y (tb_orders d) (tb_orders d') \<and> d' = d\<lparr>tb_orders := tb_orders d'\<rparr>"

lemma wlp_open_session:
  assumes "\<And>p q. readonly (gateway p q)" "table_ok order_clash (tb_orders d)"
    and x: "x \<in> set (tb_orders d)" "or_IdempotencyKey x = Some k"
  shows "wlp (open_session gateway i u p x)
    (\<lambda>r d'. (\<exists>s. rs_Order r = order_with_session x s) \<and> orders_only k (rs_Order r) d d') d"
proof -
  have "(\<exists>s. y = order_with_session x s) \<and> orders_only k y d (d\<lparr>tb_orders := t\<rparr>)"
    if "save_row or_ID order_clash y (tb_orders d) = Some t" "y = order_with_session x s" for y t s
    using only_order_saved [OF assms(2) x _ _ that(1)] that(2) x(2) by (auto simp: orders_only_def)
  then show ?thesis
    unfolding open_session_def OrderRepo_Update_def Let_def
    by (intro wlp_andThen wlp_attempt_readonly [OF assms(1)] wlp_sum wlp_store_save wlp_ret wlp_fail wlp_attempt_any
          wlp_readonly [OF assms(1)]) auto
qed

lemma new_order_id: "or_ID (new_checkout_order i p now) = 0"
  by (simp add: new_checkout_order_def)

text \<open>The order of a checkout, under its key: for the user, product and provider asked for.\<close>

definition checkout_order :: "CheckoutInput \<Rightarrow> Order \<Rightarrow> bool" where
  "checkout_order i x \<longleftrightarrow> or_IdempotencyKey x = Some (ch_IdempotencyKey i) \<and> or_UserID x = ch_UserID i
     \<and> or_SKUCode x = ch_SKUCode i \<and> or_Provider x = ch_Provider i"

definition priced :: "CheckoutInput \<Rightarrow> database \<Rightarrow> Order \<Rightarrow> bool" where
  "priced i d x \<longleftrightarrow> (\<exists>p. find_row pr_Code (ch_SKUCode i) (tb_products d) = Some p \<and> or_Amount x = pr_Price p)"

definition checkout_outcome :: "CheckoutInput \<Rightarrow> database \<Rightarrow> Order option \<Rightarrow> Order \<Rightarrow> database \<Rightarrow> bool" where
  "checkout_outcome i d existing y d' \<longleftrightarrow> checkout_order i y \<and>
     (if checkoutOrderHasSession existing then d' = d \<and> existing = Some y
      else orders_only (ch_IdempotencyKey i) y d d' \<and>
        (case existing of None \<Rightarrow> priced i d y | Some x \<Rightarrow> (\<exists>s. y = order_with_session x s)))"

lemma readonly_evaluatePolicies:
  assumes "\<And>pol inp. pol \<in> set policies \<Longrightarrow> readonly (pol inp)"
  shows "readonly (evaluatePolicies policies inp)"
  unfolding evaluatePolicies_def using assms
  by (induction policies) (auto intro!: readonly_andThen readonly_simple)

lemma wlp_checkout_with:
  assumes gateway: "\<And>p q. readonly (gateway p q)" and ok: "table_ok order_clash (tb_orders d)"
    and policies: "\<And>pol inp. pol \<in> set (cw_policies s) \<Longrightarrow> readonly (pol inp)"
    and existing: "case existing of
        None \<Rightarrow> find_row or_IdempotencyKey (Some (ch_IdempotencyKey i)) (tb_orders d) = None
      | Some x \<Rightarrow> x \<in> set (tb_orders d) \<and> checkout_order i x"
  shows "wlp (checkout_with s gateway i existing) (\<lambda>r. checkout_outcome i d existing (rs_Order r)) d"
proof -
  have created: "wlp (OrderRepo_Create (new_checkout_order i p now))
      (\<lambda>x. wlp (open_session gateway i u p x) (\<lambda>r. checkout_outcome i d None (rs_Order r))) d"
    if p: "find_row pr_Code (ch_SKUCode i) (tb_products d) = Some p" for p now u
    unfolding OrderRepo_Create_def
  proof (rule wlp_db_write)
    let ?x = "(new_checkout_order i p now)\<lparr>or_ID := next_order_id (tb_orders d)\<rparr>"
    fix x d1
    assume "(let x' = if or_ID (new_checkout_order i p now) = 0 then ?x else new_checkout_order i p now
        in map_option (\<lambda>t. (x', d\<lparr>tb_orders := t\<rparr>)) (insert_row order_clash x' (tb_orders d))) = Some (x, d1)"
    then obtain t where t: "insert_row order_clash ?x (tb_orders d) = Some t" and x: "x = ?x" "d1 = d\<lparr>tb_orders := t\<rparr>"
      by (auto simp: Let_def new_order_id)
    have k: "or_IdempotencyKey ?x = Some (ch_IdempotencyKey i)" by (simp add: new_checkout_order_def)
    note new = only_order_created [OF ok t k]
    have "table_ok order_clash (tb_orders d1)" "x \<in> set (tb_orders d1)"
      using new x by (simp_all add: only_order_def)
    from wlp_open_session [OF gateway this, where k = "ch_IdempotencyKey i" and i = i and u = u and p = p] k x(1)
    have "wlp (open_session gateway i u p x)
        (\<lambda>r d'. (\<exists>s. rs_Order r = order_with_session x s) \<and> orders_only (ch_IdempotencyKey i) (rs_Order r) d1 d') d1"
      by simp
    then show "wlp (open_session gateway i u p x) (\<lambda>r. checkout_outcome i d None (rs_Order r)) d1"
    proof (rule wlp_mono)
      fix r d'
      assume "(\<exists>s. rs_Order r = order_with_session x s) \<and> orders_only (ch_IdempotencyKey i) (rs_Order r) d1 d'"
      then obtain s where s: "rs_Order r = order_with_session x s" and "only_order (ch_IdempotencyKey i) (rs_Order r) t (tb_orders d')"
        and d': "d' = d1\<lparr>tb_orders := tb_orders d'\<rparr>"
        by (auto simp: orders_only_def x(2))
      from only_order_trans [OF new(1) this(2)] have "orders_only (ch_IdempotencyKey i) (rs_Order r) d d'"
        using d' by (simp add: orders_only_def x(2))
      with s p show "checkout_outcome i d None (rs_Order r) d'"
        by (simp add: checkout_outcome_def checkoutOrderHasSession_def checkout_order_def priced_def x(1) new_checkout_order_def)
    qed
  qed
  have reopened: "wlp (open_session gateway i u p x) (\<lambda>r. checkout_outcome i d (Some x) (rs_Order r)) d"
    if "existing = Some x" "\<not> checkoutOrderHasSession existing" for u p x
    using existing that
    by (intro wlp_mono [OF wlp_open_session [OF gateway ok, where x = x and k = "ch_IdempotencyKey i"]])
      (auto simp: checkout_outcome_def checkout_order_def)
  have asked: "readonly (evaluatePolicies (cw_policies s) inp)" for inp
    using policies by (rule readonly_evaluatePolicies)
  show ?thesis
    unfolding checkout_with_def UserRepo_GetByID_def ProductRepo_GetByCode_def
    using existing
    by (intro wlp_andThen wlp_not_found_as wlp_store_find wlp_reject_if wlp_attempt_find wlp_sum wlp_fail wlp_time_now
          wlp_readonly [OF asked] wlp_option wlp_if wlp_ret)
      (auto intro: created reopened simp: checkout_outcome_def checkoutResultFromOrder_def)
qed

text \<open>C5: A checkout that returns a session leaves exactly one order under its key: the returned one,
  for the user, product and provider asked for, at the price of the product when it is new; an
  order that already has a session is returned as it is, and nothing else is written.\<close>

theorem checkout_effect:
  assumes "table_ok order_clash (tb_orders (db w))"
    and run: "CreateCheckoutSession s i w = (Inr r, w')"
    and "\<And>g p q. cw_gateway s = Some g \<Longrightarrow> readonly (g p q)"
    and "\<And>pol inp. pol \<in> set (cw_policies s) \<Longrightarrow> readonly (pol inp)"
  shows "checkout_outcome (normalizeCheckoutInput i) (db w)
    (find_row or_IdempotencyKey (Some (ch_IdempotencyKey (normalizeCheckoutInput i))) (tb_orders (db w)))
    (rs_Order r) (db w')"
proof -
  let ?i = "normalizeCheckoutInput i" and ?d = "db w"
  let ?found = "find_row or_IdempotencyKey (Some (ch_IdempotencyKey ?i)) (tb_orders ?d)"
  have inner: "wlp (checkout_with s g ?i ?found) (\<lambda>r. checkout_outcome ?i ?d ?found (rs_Order r)) ?d"
    if "cw_gateway s = Some g" "\<And>x. ?found = Some x \<Longrightarrow> checkout_order ?i x" for g
    by (rule wlp_checkout_with)
      (use assms(1,3,4) that in \<open>auto dest: find_row_found split: option.split\<close>)
  have "wlp (CreateCheckoutSession s i) (\<lambda>r. checkout_outcome ?i ?d ?found (rs_Order r)) ?d"
    unfolding CreateCheckoutSession_def Let_def OrderRepo_GetByIdempotencyKey_def
    by (intro wlp_andThen wlp_reject_if wlp_option wlp_fail wlp_if_found)
      (use inner in \<open>auto simp: checkout_order_def dest: find_row_found\<close>)
  from wlpD [OF this run] show ?thesis .
qed

section \<open>A checkout comes to its end\<close>

text \<open>A call that returns a value with a property, without writing and with the oracles as they were.\<close>

definition returns :: "'a service \<Rightarrow> ('a \<Rightarrow> bool) \<Rightarrow> database world \<Rightarrow> bool" where
  "returns m P w \<longleftrightarrow> wp m (\<lambda>x w'. P x \<and> db w' = db w \<and> clock w' = clock w \<and> faults w' = faults w) (\<lambda>_ _. False) w"

lemma next_order_id_fresh: "x \<in> set t \<Longrightarrow> or_ID x \<noteq> next_order_id t"
proof -
  assume "x \<in> set t"
  then have "or_ID x \<le> foldr (\<lambda>x n. max (or_ID x) n) t 0" by (induction t) (auto simp: max.coboundedI2)
  then show ?thesis by (simp add: next_order_id_def)
qed

text \<open>A world on which nothing fails, with the data and clock of another.\<close>

definition healthy :: "database \<Rightarrow> (nat \<Rightarrow> instant) \<Rightarrow> database world \<Rightarrow> bool" where
  "healthy D C w \<longleftrightarrow> db w = D \<and> clock w = C \<and> faults w = (\<lambda>_. None)"

lemma healthy_next [simp]: "healthy D C (next_tick w) = healthy D C w"
  by (simp add: healthy_def)

lemma healthy_write: "healthy D C w \<Longrightarrow> healthy D' C (next_tick (w\<lparr>db := D'\<rparr>))"
  by (simp add: healthy_def next_tick_def)

lemma returns_healthy:
  "returns m P w \<Longrightarrow> healthy D C w \<Longrightarrow> wp m (\<lambda>x w'. P x \<and> healthy D C w') (\<lambda>_ _. False) w"
  unfolding returns_def healthy_def by (rule wp_mono) auto

lemma open_session_returns:
  assumes "healthy D C w" "table_ok order_clash (tb_orders D)" "x \<in> set (tb_orders D)"
    and gateway: "\<And>p q v. returns (gateway p q) (\<lambda>_. True) v"
  shows "wp (open_session gateway i u p x) (\<lambda>_ _. True) (\<lambda>_ _. False) w"
proof -
  have after: "wp (let y = order_with_session x session
         in andThen (OrderRepo_Update y) (\<lambda>_.
            ret \<lparr>rs_Order = y, rs_CheckoutURL = or_CheckoutURL y, rs_Provider = or_Provider y, rs_Session = session\<rparr>))
      (\<lambda>_ _. True) (\<lambda>_ _. False) w1"
    if "healthy D C w1" for session w1
  proof -
    have "save_row or_ID order_clash (order_with_session x session) (tb_orders D)
        = Some (replace_row or_ID (order_with_session x session) (tb_orders D))"
      by (rule orders.save_row_known [OF assms(2,3)]) (simp_all add: order_clash_def order_with_session_def)
    with that show ?thesis by (simp add: Let_def wp_simps OrderRepo_Update_def healthy_def)
  qed
  show ?thesis
    unfolding open_session_def wp_andThen wp_attempt sum.case
    by (rule wp_mono [OF returns_healthy [OF gateway assms(1)]]) (use after in simp_all)
qed

lemma policies_return:
  assumes "\<And>pol v. pol \<in> set policies \<Longrightarrow> healthy D C v \<Longrightarrow> returns (pol inp) dp_Allowed v" "healthy D C w"
  shows "wp (evaluatePolicies policies inp) (\<lambda>_ w'. healthy D C w') (\<lambda>_ _. False) w"
  using assms
proof (induction policies arbitrary: w)
  case Nil
  then show ?case by (simp add: evaluatePolicies_def wp_simps)
next
  case (Cons pol policies)
  have "wp (evaluatePolicies policies inp) (\<lambda>_ w'. healthy D C w') (\<lambda>_ _. False) v" if "healthy D C v" for v
    by (rule Cons.IH [OF _ that]) (use Cons.prems(1) in auto)
  moreover have "wp (pol inp) (\<lambda>dec w'. dp_Allowed dec \<and> healthy D C w') (\<lambda>_ _. False) w"
    using Cons.prems by (intro returns_healthy) auto
  ultimately show ?case
    by (auto simp: evaluatePolicies_def wp_andThen wp_reject_if elim!: wp_mono)
qed

text \<open>The input that the policies are asked about: the normalised request with its user and product.\<close>

definition asked_about :: "CheckoutInput \<Rightarrow> User \<Rightarrow> Product \<Rightarrow> CheckoutPolicyInput" where
  "asked_about i u p = \<lparr>ip_Checkout = normalizeCheckoutInput i, ip_User = u, ip_Product = p, ip_ExistingOrder = None\<rparr>"

text \<open>C27: A checkout under a fresh key returns a session when nothing it calls fails: a complete
  request of an active user for a visible product, every configured policy allowing this very
  checkout on the stored data, a gateway that answers, storage without faults, and no order yet
  with the trade number of an instant of the clock.\<close>

theorem checkout_completes:
  assumes faults: "faults w = (\<lambda>_. None)"
    and s: "cw_gateway s = Some g" "cw_wired s"
    and i: "ch_UserID (normalizeCheckoutInput i) \<noteq> []" "ch_SKUCode (normalizeCheckoutInput i) \<noteq> []"
      "ch_Provider (normalizeCheckoutInput i) \<noteq> []" "ch_IdempotencyKey (normalizeCheckoutInput i) \<noteq> []"
    and u: "find_row us_ID (ch_UserID (normalizeCheckoutInput i)) (tb_users (db w)) = Some u"
      "us_Status u \<in> {[], UserStatusActive}"
    and p: "find_row pr_Code (ch_SKUCode (normalizeCheckoutInput i)) (tb_products (db w)) = Some p" "pr_IsVisible p"
    and policies: "\<And>pol v. pol \<in> set (cw_policies s) \<Longrightarrow> db v = db w \<Longrightarrow> clock v = clock w
      \<Longrightarrow> faults v = (\<lambda>_. None) \<Longrightarrow> returns (pol (asked_about i u p)) dp_Allowed v"
    and gateway: "\<And>a q v. returns (g a q) (\<lambda>_. True) v"
    and ok: "table_ok order_clash (tb_orders (db w))"
    and fresh: "\<forall>x\<in>set (tb_orders (db w)). or_IdempotencyKey x \<noteq> Some (ch_IdempotencyKey (normalizeCheckoutInput i))
      \<and> (\<forall>n. or_OutTradeNo x \<noteq> ''CHK-'' @ string_of_int (unix_nano (clock w n)) @ ''-'' @ ch_SKUCode (normalizeCheckoutInput i))"
  shows "\<exists>r w'. CreateCheckoutSession s i w = (Inr r, w')"
proof -
  let ?i = "normalizeCheckoutInput i" and ?D = "db w" and ?C = "clock w"
  have absent: "find_row or_IdempotencyKey (Some (ch_IdempotencyKey ?i)) (tb_orders ?D) = None"
    using fresh by (simp add: find_row_absent)
  have create: "wp (andThen (OrderRepo_Create (new_checkout_order ?i p (?C n))) (open_session g ?i u p))
      (\<lambda>_ _. True) (\<lambda>_ _. False) v" if v: "healthy ?D ?C v" for n v
  proof -
    let ?x = "(new_checkout_order ?i p (?C n))\<lparr>or_ID := next_order_id (tb_orders ?D)\<rparr>"
    have "\<not> order_clash x ?x" if "x \<in> set (tb_orders ?D)" for x
      using fresh that next_order_id_fresh [OF that] by (auto simp: order_clash_def same_key_def new_checkout_order_def)
    then have new: "insert_row order_clash ?x (tb_orders ?D) = Some (tb_orders ?D @ [?x])"
      by (simp add: orders.insert_row_Some)
    have "wp (open_session g ?i u p ?x) (\<lambda>_ _. True) (\<lambda>_ _. False)
        (next_tick (v\<lparr>db := ?D\<lparr>tb_orders := tb_orders ?D @ [?x]\<rparr>\<rparr>))"
      by (rule open_session_returns [OF healthy_write [OF v] _ _ gateway])
        (use orders.insert_ok [OF ok new] in simp_all)
    then show ?thesis
      using v new by (simp add: OrderRepo_Create_def wp_andThen wp_db_write healthy_def Let_def new_order_id)
  qed
  have asked: "wp (evaluatePolicies (cw_policies s) (asked_about i u p)) (\<lambda>_ w'. healthy ?D ?C w') (\<lambda>_ _. False) v"
    if "healthy ?D ?C v" for v
    by (rule policies_return [OF _ that]) (use policies in \<open>simp add: healthy_def\<close>)
  have last: "wp (andThen (evaluatePolicies (cw_policies s) (asked_about i u p)) (\<lambda>_. andThen time_now (\<lambda>now.
        andThen (OrderRepo_Create (new_checkout_order ?i p now)) (open_session g ?i u p))))
      (\<lambda>_ _. True) (\<lambda>_ _. False) v" if "healthy ?D ?C v" for v
    unfolding wp_andThen [of "evaluatePolicies _ _"] wp_andThen [of time_now] wp_time_now
    by (rule wp_mono [OF asked [OF that]]) (use create in \<open>auto simp: healthy_def\<close>)
  have "wp (CreateCheckoutSession s i) (\<lambda>_ _. True) (\<lambda>_ _. False) w"
    using s i u p faults absent
      last [of "next_tick (next_tick (next_tick w))"]
    by (auto simp: asked_about_def CreateCheckoutSession_def checkout_with_def Let_def OrderRepo_GetByIdempotencyKey_def
        UserRepo_GetByID_def ProductRepo_GetByCode_def healthy_def
        wp_andThen [of "reject_if _ _"] wp_andThen [of "not_found_as _ _"] wp_andThen [of "attempt _"]
        wp_reject_if wp_if_found wp_not_found_as wp_attempt wp_store_find)
  then show ?thesis by (auto simp: wp_def split: prod.splits sum.splits)
qed

section \<open>A concrete checkout\<close>

definition sample_product :: Product where
  "sample_product = \<lparr>pr_Code = ''pro'', pr_Name = ''Pro'', pr_Price = 990, pr_Currency = ''cny'', pr_Validity = [],
     pr_IsVisible = True\<rparr>"

definition shop_db :: database where
  "shop_db = users_db\<lparr>tb_products := [sample_product]\<rparr>"

definition sample_gateway :: "string \<Rightarrow> CheckoutRequest \<Rightarrow> CheckoutSession service" where
  "sample_gateway a q = ret \<lparr>ss_CheckoutURL = ''url'', ss_ProviderCheckoutID = ''c1'', ss_ProviderCustomerID = [], ss_Status = []\<rparr>"

definition sample_checkout :: CheckoutInput where
  "sample_checkout = \<lparr>ch_UserID = ''usr_1'', ch_SKUCode = ''pro'', ch_Provider = ''mock'', ch_SuccessURL = [],
     ch_CancelURL = [], ch_IdempotencyKey = ''k1'', ch_Metadata = []\<rparr>"

definition sample_shop :: checkout_service where
  "sample_shop = \<lparr>cw_wired = True, cw_gateway = Some sample_gateway, cw_policies = []\<rparr>"

text \<open>The instants of this world are the first ones of 1970.\<close>

definition shop_world :: "database world" where
  "shop_world = (sample_world 0 shop_db)\<lparr>clock := (\<lambda>k. 62135596800000000000 + int k)\<rparr>"

lemma sample_gateway_readonly: "readonly (sample_gateway a q)"
  unfolding sample_gateway_def by (rule atomic_rules)

lemma checkout_effect_witness:
  "\<exists>x. tb_orders (db (snd (CreateCheckoutSession sample_shop sample_checkout shop_world))) = [x]
     \<and> or_Amount x = 990 \<and> or_CheckoutURL x = ''url''"
proof -
  let ?run = "CreateCheckoutSession sample_shop sample_checkout shop_world"
  have ok: "isl (fst ?run) = False" by code_simp
  have "checkout_outcome (normalizeCheckoutInput sample_checkout) (db shop_world)
      (find_row or_IdempotencyKey (Some (ch_IdempotencyKey (normalizeCheckoutInput sample_checkout)))
        (tb_orders (db shop_world))) (rs_Order (ok_result ?run)) (db (snd ?run))"
    by (rule checkout_effect [OF _ run_ok [OF ok]])
      (use sample_gateway_readonly in \<open>auto simp: shop_world_def sample_world_def shop_db_def users_db_def empty_database_def
         table_ok_def sample_shop_def\<close>)
  moreover have "find_row or_IdempotencyKey (Some (ch_IdempotencyKey (normalizeCheckoutInput sample_checkout)))
      (tb_orders (db shop_world)) = None" "length (tb_orders (db (snd ?run))) = 1"
    "or_CheckoutURL (rs_Order (ok_result ?run)) = ''url''"
    "find_row pr_Code (ch_SKUCode (normalizeCheckoutInput sample_checkout)) (tb_products (db shop_world)) = Some sample_product"
    "pr_Price sample_product = 990"
    by code_simp+
  ultimately show ?thesis
    by (auto simp: checkout_outcome_def checkoutOrderHasSession_def priced_def orders_only_def only_order_def
        length_Suc_conv find_row_def split: if_splits)
qed

end
