(* ===== verification/Checkout_Theorems.thy ===== *)
theory Checkout_Theorems
  imports Checkout_Order_Theorems
begin

text \<open>
  Properties of the checkout and of the subscription projection: the metadata of an order is read
  back as it was written; the grant a projection shows is the one with the latest end; a
  checkout that returns a session passed every policy of the process; what it stores.
\<close>

section \<open>The metadata of an order\<close>

lemma set_trim_space: "set (trim_space s) \<subseteq> set s"
  unfolding trim_space_def by (auto dest!: set_dropWhileD)

lemma ascii_trim_space: "ascii s \<Longrightarrow> ascii (trim_space s)"
  using set_trim_space [of s] by (auto simp: ascii_def)

lemma ascii_map_put:
  "ascii k \<Longrightarrow> ascii v \<Longrightarrow> \<forall>(k, v)\<in>set m. ascii k \<and> ascii v \<Longrightarrow> \<forall>(k, v)\<in>set (map_put k v m). ascii k \<and> ascii v"
  by (induction k v m rule: map_put.induct) auto

text \<open>The step of the cleaning loop.\<close>

definition put_clean :: "string \<times> string \<Rightarrow> string_map \<Rightarrow> string_map" where
  "put_clean kv m = (if trim_space (fst kv) = [] then m else map_put (trim_space (fst kv)) (trim_space (snd kv)) m)"

lemma clean_metadata_put: "clean_metadata m = fold put_clean m []"
  unfolding clean_metadata_def by (rule fold_cong) (auto simp: put_clean_def fun_eq_iff split: prod.split)

lemma clean_metadata_ok: "map_ok (clean_metadata m)"
proof -
  have "map_ok acc \<Longrightarrow> map_ok (fold put_clean m acc)" for acc
    by (induction m arbitrary: acc) (auto simp: put_clean_def)
  then show ?thesis by (simp add: clean_metadata_put)
qed

lemma clean_metadata_ascii:
  assumes "\<forall>(k, v)\<in>set m. ascii k \<and> ascii v"
  shows "\<forall>(k, v)\<in>set (clean_metadata m). ascii k \<and> ascii v"
proof -
  have "\<forall>(k, v)\<in>set (fold put_clean m acc). ascii k \<and> ascii v"
    if "\<forall>(k, v)\<in>set m. ascii k \<and> ascii v" "\<forall>(k, v)\<in>set acc. ascii k \<and> ascii v" for acc
    using that
  proof (induction m arbitrary: acc)
    case (Cons kv m)
    obtain k v where kv: "kv = (k, v)" by (cases kv)
    have "ascii (trim_space k)" "ascii (trim_space v)"
      using Cons.prems by (simp_all add: kv ascii_trim_space)
    then have "\<forall>(k, v)\<in>set (map_put (trim_space k) (trim_space v) acc). ascii k \<and> ascii v"
      using Cons.prems(2) by (rule ascii_map_put)
    then have "\<forall>(k, v)\<in>set (put_clean kv acc). ascii k \<and> ascii v"
      unfolding put_clean_def kv fst_conv snd_conv using Cons.prems(2) by (cases "trim_space k = []") simp_all
    with Cons show ?case by simp
  qed simp
  from this [OF assms, of "[]"] show ?thesis by (simp add: clean_metadata_put)
qed

text \<open>The last entry of a trimmed key counts, with its value trimmed.\<close>

lemma clean_metadata_lookup:
  "map_of (clean_metadata m) k =
     (if k = [] then None
      else map_option trim_space (map_of (rev (List.map (\<lambda>(k, v). (trim_space k, v)) m)) k))"
proof -
  have "map_of (fold put_clean m acc) k =
      (if k = [] then map_of acc k
       else case map_of (rev (List.map (\<lambda>(k, v). (trim_space k, v)) m)) k of
         None \<Rightarrow> map_of acc k | Some v \<Rightarrow> Some (trim_space v))" for acc
    by (induction m arbitrary: acc) (auto simp: put_clean_def map_add_def split: option.split)
  from this [of "[]"] show ?thesis by (auto simp: clean_metadata_put split: option.split)
qed

lemma marshal_not_blank: "trim_space (marshal_string_map m) \<noteq> []"
  by (simp add: marshal_string_map_def trim_space_def is_space_def dropWhile_eq_Nil_conv)

text \<open>C28: The metadata text of an order reads back as the cleaned metadata it was encoded from: keys
  and values trimmed, blank keys dropped, of equal keys the last.\<close>

theorem metadata_roundtrip:
  assumes "\<forall>(k, v)\<in>set m. ascii k \<and> ascii v"
  shows "orderMetadataMap (encodeCheckoutMetadata m) = Some (clean_metadata m)
    \<and> (\<forall>k. map_of (clean_metadata m) k =
         (if k = [] then None
          else map_option trim_space (map_of (rev (List.map (\<lambda>(k, v). (trim_space k, v)) m)) k)))"
  using unmarshal_marshal [OF clean_metadata_ok clean_metadata_ascii [OF assms]] clean_metadata_lookup [of m]
  by (auto simp: encodeCheckoutMetadata_def orderMetadataMap_def Let_def marshal_not_blank)

lemma metadata_roundtrip_witness:
  "orderMetadataMap (encodeCheckoutMetadata [('' plan'', ''pro ''), (''plan'', ''a'')])
     = Some (clean_metadata [('' plan'', ''pro ''), (''plan'', ''a'')])"
  using metadata_roundtrip [of "[('' plan'', ''pro ''), (''plan'', ''a'')]"] by (simp add: code_of_def)

section \<open>The grant of a projection\<close>

text \<open>The first row with the greatest value.\<close>

definition first_max :: "('a \<Rightarrow> int) \<Rightarrow> 'a list \<Rightarrow> 'a option" where
  "first_max f xs = (if xs = [] then None else List.find (\<lambda>x. f x = Max (f ` set xs)) xs)"

lemma find_append:
  "List.find p (xs @ ys) = (case List.find p xs of None \<Rightarrow> List.find p ys | Some x \<Rightarrow> Some x)"
  by (induction xs) auto

lemma first_max_Some: "xs \<noteq> [] \<Longrightarrow> \<exists>s. first_max f xs = Some s \<and> s \<in> set xs \<and> f s = Max (f ` set xs)"
proof -
  assume ne: "xs \<noteq> []"
  then have "Max (f ` set xs) \<in> f ` set xs" by (intro Max_in) auto
  then have "List.find (\<lambda>x. f x = Max (f ` set xs)) xs \<noteq> None" by (auto simp: find_None_iff)
  then obtain s where "List.find (\<lambda>x. f x = Max (f ` set xs)) xs = Some s" by blast
  with ne find_found [OF this] show ?thesis by (auto simp: first_max_def)
qed

lemma first_max_snoc:
  "first_max f (xs @ [x]) =
     (case first_max f xs of None \<Rightarrow> Some x | Some s \<Rightarrow> if f s < f x then Some x else Some s)"
proof (cases "xs = []")
  case True
  then show ?thesis by (simp add: first_max_def)
next
  case False
  then obtain s where s: "first_max f xs = Some s" "f s = Max (f ` set xs)" using first_max_Some by blast
  have le: "f y \<le> f s" if "y \<in> set xs" for y using that by (simp add: s(2))
  have Max: "Max (f ` set (xs @ [x])) = max (f s) (f x)"
    using False by (simp add: s(2) max.commute)
  show ?thesis
  proof (cases "f s < f x")
    case True
    then have "List.find (\<lambda>y. f y = f x) xs = None" using le by (fastforce simp: find_None_iff)
    with True Max s(1) show ?thesis by (simp add: first_max_def find_append)
  next
    case False
    with Max s \<open>xs \<noteq> []\<close> show ?thesis
      by (simp add: first_max_def find_append max_def split: if_splits)
  qed
qed

lemma foldl_first_max:
  assumes "\<And>sel x. \<forall>s. sel = Some s \<longrightarrow> p s \<Longrightarrow> step sel x =
      (if p x then (case sel of None \<Rightarrow> Some x | Some s \<Rightarrow> if f s < f x then Some x else Some s) else sel)"
  shows "foldl step None xs = first_max f (List.filter p xs)"
proof (induction xs rule: rev_induct)
  case Nil
  then show ?case by (simp add: first_max_def)
next
  case (snoc x xs)
  have "p s" if "first_max f (List.filter p xs) = Some s" for s
    using that first_max_Some [of "List.filter p xs" f] by (cases "List.filter p xs = []") (auto simp: first_max_def)
  then have "step (first_max f (List.filter p xs)) x =
      (if p x then (case first_max f (List.filter p xs) of None \<Rightarrow> Some x
         | Some s \<Rightarrow> if f s < f x then Some x else Some s)
       else first_max f (List.filter p xs))"
    using assms by blast
  then show ?case unfolding foldl_append snoc.IH by (simp add: first_max_snoc)
qed

text \<open>The ends of the current periods among the grants.\<close>

definition period_ends :: "EntitlementGrant list \<Rightarrow> instant \<Rightarrow> instant list" where
  "period_ends grants now =
     List.map (\<lambda>g. the (eg_ExpiresAt g)) (List.filter (\<lambda>g. eg_Source g = GrantSourceFulfillment
       \<and> IsCurrentAdvancedEntitlementID (eg_EntitlementID g)
       \<and> (case eg_ExpiresAt g of None \<Rightarrow> False | Some e \<Rightarrow> now < e)) grants)"

lemma period_ends_snoc:
  "period_ends (grants @ [g]) now = period_ends grants now @
     (if eg_Source g = GrantSourceFulfillment \<and> IsCurrentAdvancedEntitlementID (eg_EntitlementID g)
        \<and> (case eg_ExpiresAt g of None \<Rightarrow> False | Some e \<Rightarrow> now < e)
      then [the (eg_ExpiresAt g)] else [])"
  by (simp add: period_ends_def)

lemma later_period_max: "foldl (later_period now) None grants = first_max (\<lambda>e. e) (period_ends grants now)"
proof (induction grants rule: rev_induct)
  case Nil
  then show ?case by (simp add: period_ends_def first_max_def)
next
  case (snoc g grants)
  then show ?case
    by (cases "eg_ExpiresAt g"; cases "first_max (\<lambda>e. e) (period_ends grants now)")
      (simp_all add: later_period_def first_max_snoc period_ends_snoc)
qed

lemma lifetime_reference:
  "latestActiveLifetimeGrant grants now =
     first_max eg_StartsAt (List.filter (\<lambda>g. isSoftwareSubscriptionGrant g now \<and> eg_ExpiresAt g = None) grants)"
  unfolding latestActiveLifetimeGrant_def
  by (rule foldl_first_max) (auto simp: later_start_def split: option.split)

lemma monthly_reference:
  "latestActiveMonthlyGrant grants now =
     first_max (\<lambda>g. the (eg_ExpiresAt g))
       (List.filter (\<lambda>g. isSoftwareSubscriptionGrant g now \<and> eg_ExpiresAt g \<noteq> None) grants)"
  unfolding latestActiveMonthlyGrant_def
  by (rule foldl_first_max) (auto simp: later_end_def split: option.split)

text \<open>The loops that select the grant of a projection agree with their specification: the
  lifetime grant that started last, the expiring grant that ends last, the latest end of a period;
  the first in the list among equals.\<close>

theorem projection_reference:
  "latestActiveLifetimeGrant grants now =
       first_max eg_StartsAt (List.filter (\<lambda>g. isSoftwareSubscriptionGrant g now \<and> eg_ExpiresAt g = None) grants)
   \<and> latestActiveMonthlyGrant grants now =
       first_max (\<lambda>g. the (eg_ExpiresAt g))
         (List.filter (\<lambda>g. isSoftwareSubscriptionGrant g now \<and> eg_ExpiresAt g \<noteq> None) grants)
   \<and> foldl (later_period now) None grants = first_max (\<lambda>e. e) (period_ends grants now)"
  by (intro conjI lifetime_reference monthly_reference later_period_max)

section \<open>A checkout passed its policies\<close>

text \<open>The data and the clock that a policy sees.\<close>

definition seen :: "database \<Rightarrow> (nat \<Rightarrow> instant) \<Rightarrow> database world \<Rightarrow> bool" where
  "seen D C w \<longleftrightarrow> db w = D \<and> clock w = C"

lemma seen_next [simp]: "seen D C (next_tick w) = seen D C w"
  by (simp add: seen_def)

lemma page_nonempty: "0 \<le> n \<Longrightarrow> page n 0 t = [] \<longleftrightarrow> t = []"
  by (auto simp: page_def)

lemma sort_key_Nil_iff [simp]: "sort_key f t = [] \<longleftrightarrow> t = []"
  by (metis length_0_conv length_sort)

lemma severities_checked:
  assumes "seen D C w"
  shows "wp (evaluate_severities c u sevs)
    (\<lambda>dec w'. seen D C w' \<and> (dp_Allowed dec \<longrightarrow> (\<forall>f\<in>set (tb_risk_flags D).
       rf_UserID f = u \<and> rf_Status f = rp_OpenStatus c \<longrightarrow> rf_Severity f \<notin> set sevs)))
    (\<lambda>_ _. True) w"
  using assms
proof (induction sevs arbitrary: w)
  case Nil
  then show ?case by (simp add: wp_simps)
next
  case (Cons sev sevs)
  let ?q = "\<lambda>f. column_matches u (rf_UserID f) \<and> column_matches sev (rf_Severity f)
      \<and> column_matches (rp_OpenStatus c) (rf_Status f)"
  have here: "rf_Severity f \<noteq> sev"
    if "List.filter ?q (tb_risk_flags D) = []" "f \<in> set (tb_risk_flags D)" "rf_UserID f = u"
      "rf_Status f = rp_OpenStatus c" for f
    using that by (auto simp: filter_empty_conv column_matches_def)
  have D: "db w = D" using Cons.prems by (simp add: seen_def)
  show ?case
  proof (cases "faults w (tick w)")
    case (Some m)
    then show ?thesis by (simp add: wp_simps PaymentRiskFlagRepo_List_def)
  next
    case None
    have next_ok: "seen D C (next_tick w)" using Cons.prems by simp
    show ?thesis
    proof (cases "List.filter ?q (tb_risk_flags D) = []")
      case True
      then show ?thesis
        using None here
        by (simp add: wp_simps PaymentRiskFlagRepo_List_def D page_nonempty column_matches_def [of "[]"])
          (rule wp_mono [OF Cons.IH [OF next_ok]]; auto)
    next
      case False
      then show ?thesis
        using None Cons.prems
        by (simp add: wp_simps PaymentRiskFlagRepo_List_def D page_nonempty column_matches_def [of "[]"] denied_def)
    qed
  qed
qed

definition blocked_severities :: "checkout_config \<Rightarrow> string list" where
  "blocked_severities c = rp_BlockSeverities (normalizeCheckoutRiskPolicyConfig
     (DefaultCheckoutRiskPolicyConfig\<lparr>rp_BlockSeverities := cf_RiskBlockSeverities c\<rparr>))"

lemma risk_policy_checked:
  assumes "seen D C w" and "trim_space (us_ID (ip_User inp)) = u" "u \<noteq> []"
  shows "wp (NewPaymentRiskCheckoutPolicy True
      (DefaultCheckoutRiskPolicyConfig\<lparr>rp_BlockSeverities := cf_RiskBlockSeverities c\<rparr>) inp)
    (\<lambda>dec w'. seen D C w' \<and> (dp_Allowed dec \<longrightarrow> (\<forall>f\<in>set (tb_risk_flags D).
       rf_UserID f = u \<and> rf_Status f = RiskStatusOpen \<longrightarrow> rf_Severity f \<notin> set (blocked_severities c))))
    (\<lambda>_ _. True) w"
proof -
  let ?c = "normalizeCheckoutRiskPolicyConfig (DefaultCheckoutRiskPolicyConfig\<lparr>rp_BlockSeverities := cf_RiskBlockSeverities c\<rparr>)"
  have "rp_OpenStatus ?c = RiskStatusOpen"
    by (simp add: normalizeCheckoutRiskPolicyConfig_def DefaultCheckoutRiskPolicyConfig_def Let_def
        defaultString_def trim_space_def is_space_def)
  with severities_checked [OF assms(1), of ?c u "rp_BlockSeverities ?c"] assms(2,3) show ?thesis
    by (simp add: NewPaymentRiskCheckoutPolicy_def PaymentRiskCheckoutPolicy_Evaluate_def wp_simps
        blocked_severities_def Let_def)
qed

lemma redirect_policy_checked:
  assumes "seen D C w"
  shows "wp (CheckoutRedirectPolicy_Evaluate allowed inp)
    (\<lambda>dec w'. seen D C w' \<and> (dp_Allowed dec \<longrightarrow>
       allowedRedirect allowed (ch_SuccessURL (ip_Checkout inp)) \<and> allowedRedirect allowed (ch_CancelURL (ip_Checkout inp))))
    (\<lambda>_ _. True) w"
  using assms by (auto simp: CheckoutRedirectPolicy_Evaluate_def wp_simps denied_def)

text \<open>A fulfilled software grant of the user that is active at every instant of the clock.\<close>

definition holds_software :: "string \<Rightarrow> (nat \<Rightarrow> instant) \<Rightarrow> EntitlementGrant \<Rightarrow> bool" where
  "holds_software u C g \<longleftrightarrow> eg_UserID g = u \<and> eg_Source g = GrantSourceFulfillment
     \<and> IsCurrentAdvancedEntitlementID (eg_EntitlementID g) \<and> (\<forall>n. isGrantActive g (C n))"

definition resumable :: "string \<Rightarrow> database \<Rightarrow> bool" where
  "resumable u D \<longleftrightarrow> (\<exists>c\<in>set (tb_cancellations D). sc_UserID c = u \<and> sc_SKUCode c = SKUProOwnAIMonthly
     \<and> sc_Status c = CancellationStatusCancelAtPeriodEnd \<and> sc_CancelAtPeriodEnd c)"

definition shown :: "string \<Rightarrow> database \<Rightarrow> EntitlementGrant \<Rightarrow> SoftwareSubscriptionProjection \<Rightarrow> bool" where
  "shown u D g p \<longleftrightarrow> softwareSubscriptionIsLifetimeActive p
     \<or> (eg_ExpiresAt g \<noteq> None \<and> softwareSubscriptionIsMonthlyActive p
        \<and> (softwareSubscriptionIsCancelAtPeriodEnd p \<longrightarrow> resumable u D))"

lemma FindActive_found:
  assumes "seen D C w" "u \<noteq> []"
  shows "wp (CancellationRepo_FindActive \<lparr>cq_UserID = u, cq_SKUCode = SKUProOwnAIMonthly,
      cq_Status = CancellationStatusCancelAtPeriodEnd\<rparr>)
    (\<lambda>c w'. seen D C w' \<and> resumable u D) (\<lambda>_ w'. seen D C w') w"
proof -
  have "resumable u D"
    if "sort_key cancellation_rank (List.filter (cancellation_matches \<lparr>cq_UserID = u, cq_SKUCode = SKUProOwnAIMonthly,
      cq_Status = CancellationStatusCancelAtPeriodEnd\<rparr> t) (tb_cancellations D)) = c # cs" for t c cs
  proof -
    have "c \<in> set (List.filter (cancellation_matches \<lparr>cq_UserID = u, cq_SKUCode = SKUProOwnAIMonthly,
        cq_Status = CancellationStatusCancelAtPeriodEnd\<rparr> t) (tb_cancellations D))"
      using that by (metis list.set_intros(1) set_sort)
    with assms(2) show ?thesis
      by (auto simp: resumable_def cancellation_matches_def column_matches_def)
  qed
  with assms(1) show ?thesis
    by (auto simp: CancellationRepo_FindActive_def wp_simps seen_def split: option.split list.split)
qed

lemma projection_shows:
  assumes "seen D C w" "trim_space u = u" "u \<noteq> []" and g: "g \<in> set grants" "holds_software u C g"
    and now: "now = 0 \<or> now \<in> range C"
  shows "wp (projectSoftwareSubscriptionFromGrants True u grants now)
    (\<lambda>p w'. seen D C w' \<and> shown u D g p) (\<lambda>_ _. True) w"
proof -
  have "wp (case latestActiveLifetimeGrant grants t of
           Some lifetime \<Rightarrow> ret (lt lifetime)
         | None \<Rightarrow> (case latestActiveMonthlyGrant grants t of
             None \<Rightarrow> ret none
           | Some monthly \<Rightarrow> (case eg_ExpiresAt monthly of None \<Rightarrow> ret none | Some ends \<Rightarrow> found monthly ends)))
      (\<lambda>p w'. seen D C w' \<and> shown u D g p) (\<lambda>_ _. True) w1"
    if t: "t \<in> range C" and lt: "\<And>l. softwareSubscriptionIsLifetimeActive (lt l)"
      and found: "\<And>m e. eg_ExpiresAt g \<noteq> None \<Longrightarrow> wp (found m e) (\<lambda>p w'. seen D C w' \<and> shown u D g p) (\<lambda>_ _. True) w1"
      and w1: "seen D C w1" for t lt found none w1
  proof -
    have soft: "isSoftwareSubscriptionGrant g t"
      using g(2) t by (auto simp: holds_software_def isSoftwareSubscriptionGrant_def)
    show ?thesis
    proof (cases "latestActiveLifetimeGrant grants t")
      case (Some l)
      with lt w1 show ?thesis by (simp add: wp_simps shown_def)
    next
      case None
      then have "List.filter (\<lambda>g. isSoftwareSubscriptionGrant g t \<and> eg_ExpiresAt g = None) grants = []"
        using first_max_Some lifetime_reference by (metis option.distinct(1))
      with soft g(1) have e: "eg_ExpiresAt g \<noteq> None" by (auto simp: filter_empty_conv)
      let ?xs = "List.filter (\<lambda>g. isSoftwareSubscriptionGrant g t \<and> eg_ExpiresAt g \<noteq> None) grants"
      have "?xs \<noteq> []" using soft g(1) e by (auto simp: filter_empty_conv)
      from first_max_Some [OF this, of "\<lambda>g. the (eg_ExpiresAt g)"]
      obtain m where m: "latestActiveMonthlyGrant grants t = Some m" "eg_ExpiresAt m \<noteq> None"
        using monthly_reference by auto
      with None found [OF e] show ?thesis by (auto simp: not_None_eq)
    qed
  qed
  note core = this
  have clock: "clock v (tick v) \<in> range C" if "seen D C v" for v using that by (auto simp: seen_def)
  let ?found = "\<lambda>m e p. if \<not> True then ret p
      else if_found (CancellationRepo_FindActive \<lparr>cq_UserID = u, cq_SKUCode = SKUProOwnAIMonthly,
             cq_Status = CancellationStatusCancelAtPeriodEnd\<rparr>)
        (\<lambda>c. ret (p\<lparr>sp_Status := SoftwareStatusCancelAtPeriodEnd, sp_CancelAtPeriodEnd := True,
           sp_CurrentPeriodEndsAt := (if sc_CurrentPeriodEndsAt c \<noteq> 0 then format_rfc3339 (sc_CurrentPeriodEndsAt c)
             else sp_CurrentPeriodEndsAt p)\<rparr>))
        (ret p)"
  have found: "wp (?found m e p) (\<lambda>p w'. seen D C w' \<and> shown u D g p) (\<lambda>_ _. True) w1"
    if "eg_ExpiresAt g \<noteq> None" "sp_SKUCode p = SKUProOwnAIMonthly" "sp_Status p = SoftwareStatusActive"
      "seen D C w1" for m :: EntitlementGrant and e :: instant and p w1
    using that
    by (simp add: wp_simps)
      (rule wp_mono [OF FindActive_found [OF that(4) assms(3)]];
       auto simp: wp_simps shown_def softwareSubscriptionIsMonthlyActive_def softwareSubscriptionIsCancelAtPeriodEnd_def)
  have at: "wp (case latestActiveLifetimeGrant grants t of
           Some lifetime \<Rightarrow>
             ret \<lparr>sp_UserID = u, sp_SKUCode = SKUProOwnAILifetime, sp_Status = SoftwareStatusActive,
                  sp_CancelAtPeriodEnd = False,
                  sp_CurrentPeriodStartAt = formatSoftwareSubscriptionTime (eg_StartsAt lifetime),
                  sp_CurrentPeriodEndsAt = []\<rparr>
         | None \<Rightarrow> (case latestActiveMonthlyGrant grants t of
             None \<Rightarrow> ret none
           | Some m \<Rightarrow> (case eg_ExpiresAt m of None \<Rightarrow> ret none | Some e \<Rightarrow> ?found m e
               \<lparr>sp_UserID = u, sp_SKUCode = SKUProOwnAIMonthly, sp_Status = SoftwareStatusActive,
                sp_CancelAtPeriodEnd = False,
                sp_CurrentPeriodStartAt = formatSoftwareSubscriptionTime (eg_StartsAt m),
                sp_CurrentPeriodEndsAt = format_rfc3339 e\<rparr>)))
      (\<lambda>p w'. seen D C w' \<and> shown u D g p) (\<lambda>_ _. True) w1"
    if "t \<in> range C" "seen D C w1" for t w1 none
    by (rule core [OF that(1) _ found that(2)])
      (use that in \<open>simp_all add: softwareSubscriptionIsLifetimeActive_def\<close>)
  show ?thesis
  proof (cases "now = 0")
    case True
    with assms(3) show ?thesis
      unfolding projectSoftwareSubscriptionFromGrants_def Let_def wp_andThen wp_reject_if assms(2)
      by (simp only: if_False if_True wp_time_now refl simp_thms(6)) (rule at [OF clock [OF assms(1)]], simp add: assms(1))
  next
    case False
    with assms(3) show ?thesis
      unfolding projectSoftwareSubscriptionFromGrants_def Let_def wp_andThen wp_reject_if assms(2)
      by (simp only: if_False if_True wp_ret) (rule at, use now False assms(1) in simp_all)
  qed
qed

lemma wp_all: "(\<And>g. wp m (Q g) E w) \<Longrightarrow> wp m (\<lambda>x w'. \<forall>g. Q g x w') E w"
  by (auto simp: wp_def split: prod.split sum.split)

lemma wp_conj: "wp m Q E w \<Longrightarrow> wp m Q' E w \<Longrightarrow> wp m (\<lambda>x w'. Q x w' \<and> Q' x w') E w"
  by (auto simp: wp_def split: prod.split sum.split)

lemma wp_true: "(\<And>x w'. Q x w') \<Longrightarrow> wp m Q (\<lambda>_ _. True) w"
  by (auto simp: wp_def split: prod.split sum.split)

lemma projection_seen:
  "seen D C w \<Longrightarrow> u \<noteq> [] \<Longrightarrow> trim_space u = u
    \<Longrightarrow> wp (projectSoftwareSubscriptionFromGrants True u grants now) (\<lambda>p. seen D C) (\<lambda>_ _. True) w"
  by (auto simp: projectSoftwareSubscriptionFromGrants_def Let_def wp_simps CancellationRepo_FindActive_def
      split: option.split list.split)

lemma Project_shows:
  assumes "seen D C w" "trim_space u = u" "u \<noteq> []"
  shows "wp (Project True True None u)
    (\<lambda>p w'. seen D C w' \<and> (\<forall>g. g \<in> set (tb_grants D) \<and> holds_software u C g \<longrightarrow> shown u D g p)) (\<lambda>_ _. True) w"
proof -
  let ?q = "\<lparr>nq_UserID = u, nq_EntitlementID = [], nq_Status = GrantStatusActive,
           nq_IncludeExpired = False, nq_Limit = 0, nq_Offset = 0\<rparr>"
  let ?rows = "\<lambda>t. sort_key (\<lambda>g. - eg_CreatedAt g) (List.filter (grant_matches ?q t) (tb_grants D))"
  have listed: "g \<in> set (?rows t)" if "g \<in> set (tb_grants D)" "holds_software u C g" "t \<in> range C" for g t
    using that by (auto simp: holds_software_def grant_matches_def column_matches_def isGrantActive_def split: option.splits)
  have "wp (projectSoftwareSubscriptionFromGrants True u (?rows t1) t2)
      (\<lambda>p w'. g \<in> set (tb_grants D) \<and> holds_software u C g \<longrightarrow> shown u D g p) (\<lambda>_ _. True) w1"
    if "t1 \<in> range C" "t2 \<in> range C" "seen D C w1" for g t1 t2 w1
  proof (cases "g \<in> set (tb_grants D) \<and> holds_software u C g")
    case True
    then have "wp (projectSoftwareSubscriptionFromGrants True u (?rows t1) t2)
        (\<lambda>p w'. seen D C w' \<and> shown u D g p) (\<lambda>_ _. True) w1"
      by (intro projection_shows [OF that(3) assms(2,3) listed [OF _ _ that(1)]]) (use that(2) in auto)
    then show ?thesis by (rule wp_mono) simp_all
  qed (auto intro!: wp_true)
  then have each: "wp (projectSoftwareSubscriptionFromGrants True u (?rows t1) t2)
      (\<lambda>p w'. seen D C w' \<and> (\<forall>g. g \<in> set (tb_grants D) \<and> holds_software u C g \<longrightarrow> shown u D g p)) (\<lambda>_ _. True) w1"
    if "t1 \<in> range C" "t2 \<in> range C" "seen D C w1" for t1 t2 w1
    by (intro wp_conj wp_all projection_seen) (use that assms in auto)
  have D: "db w = D" "clock w = C" using assms(1) by (simp_all add: seen_def)
  show ?thesis
    using each [of "C (tick w)" "C (Suc (Suc (tick w)))" "next_tick (next_tick (next_tick w))"] assms
    by (simp add: Project_def Let_def wp_simps EntitlementGrantRepo_List_def D page_def split: option.split)
qed

lemma plan_policy_checked:
  assumes "seen D C w" and u: "trim_space (us_ID (ip_User inp)) = u" "u \<noteq> []"
    and sku: "trim_space (ch_SKUCode (ip_Checkout inp)) = sku" "sku \<in> {SKUProOwnAIMonthly, SKUProOwnAILifetime}"
  shows "wp (SoftwareAccessPlanCheckoutPolicy_Evaluate (Some (Project True True None)) inp)
    (\<lambda>dec w'. seen D C w' \<and> (dp_Allowed dec \<longrightarrow> (\<forall>g. g \<in> set (tb_grants D) \<and> holds_software u C g \<longrightarrow>
       sku = SKUProOwnAILifetime \<and> eg_ExpiresAt g \<noteq> None \<and> resumable u D))) (\<lambda>_ _. True) w"
proof -
  have "trim_space u = u" using u(1) by (metis trim_space_idem)
  from Project_shows [OF assms(1) this u(2)] sku u show ?thesis
    by (auto simp: SoftwareAccessPlanCheckoutPolicy_Evaluate_def Let_def wp_simps plan_decision_def denied_def
        shown_def softwareSubscriptionIsCancelAtPeriodEnd_def softwareSubscriptionIsMonthlyActive_def
        elim!: wp_mono split: if_splits)
qed

text \<open>Each policy is asked in turn, of the same data and clock.\<close>

lemma policies_checked:
  assumes "\<And>pol R w. (pol, R) \<in> set prs \<Longrightarrow> seen D C w
      \<Longrightarrow> wp (pol inp) (\<lambda>dec w'. seen D C w' \<and> (dp_Allowed dec \<longrightarrow> R)) (\<lambda>_ _. True) w"
    and "seen D C w"
  shows "wp (evaluatePolicies (List.map fst prs) inp) (\<lambda>_ w'. \<forall>(pol, R)\<in>set prs. R) (\<lambda>_ _. True) w"
  using assms
proof (induction prs arbitrary: w)
  case Nil
  then show ?case by (simp add: evaluatePolicies_def wp_simps)
next
  case (Cons pr prs)
  obtain pol R where pr: "pr = (pol, R)" by (cases pr)
  have "wp (pol inp) (\<lambda>dec w'. seen D C w' \<and> (dp_Allowed dec \<longrightarrow> R)) (\<lambda>_ _. True) w"
    using Cons.prems pr by simp
  moreover have "wp (evaluatePolicies (List.map fst prs) inp) (\<lambda>_ w'. \<forall>(pol, R)\<in>set prs. R) (\<lambda>_ _. True) w'"
    if "seen D C w'" for w'
    by (rule Cons.IH [OF _ that]) (use Cons.prems(1) in auto)
  ultimately show ?case
    by (auto simp: evaluatePolicies_def wp_andThen wp_reject_if pr elim!: wp_mono)
qed

text \<open>What the policies of the process guarantee of a checkout, on the data and clock it ran on.\<close>

definition plan_allows :: "CheckoutInput \<Rightarrow> database \<Rightarrow> (nat \<Rightarrow> instant) \<Rightarrow> bool" where
  "plan_allows i D C \<longleftrightarrow> (\<forall>g. g \<in> set (tb_grants D) \<and> holds_software (ch_UserID i) C g \<longrightarrow>
     ch_SKUCode i = SKUProOwnAILifetime \<and> eg_ExpiresAt g \<noteq> None \<and> resumable (ch_UserID i) D)"

definition redirects_allowed :: "checkout_config \<Rightarrow> CheckoutInput \<Rightarrow> bool" where
  "redirects_allowed c i \<longleftrightarrow>
     allowedRedirect (NewCheckoutRedirectPolicy (cf_RedirectAllowlist c)) (ch_SuccessURL i)
     \<and> allowedRedirect (NewCheckoutRedirectPolicy (cf_RedirectAllowlist c)) (ch_CancelURL i)"

definition risk_free :: "checkout_config \<Rightarrow> string \<Rightarrow> database \<Rightarrow> bool" where
  "risk_free c u D \<longleftrightarrow> (\<forall>f\<in>set (tb_risk_flags D).
     rf_UserID f = u \<and> rf_Status f = RiskStatusOpen \<longrightarrow> rf_Severity f \<notin> set (blocked_severities c))"

definition checkout_allowed :: "checkout_config \<Rightarrow> CheckoutInput \<Rightarrow> database \<Rightarrow> (nat \<Rightarrow> instant) \<Rightarrow> bool" where
  "checkout_allowed c i D C \<longleftrightarrow>
     (ch_SKUCode i \<in> {SKUProOwnAIMonthly, SKUProOwnAILifetime} \<longrightarrow> plan_allows i D C)
     \<and> (cf_Env c = ProductionEnv \<longrightarrow> redirects_allowed c i)
     \<and> (cf_RiskPolicyEnabled c \<longrightarrow> risk_free c (ch_UserID i) D)"

abbreviation process_policies :: "checkout_config \<Rightarrow> CheckoutPolicy list" where
  "process_policies c \<equiv> buildCheckoutPolicies (Some c) True (Some (Project True True None))"

lemma process_policies_checked:
  assumes "seen D C w" and u: "trim_space (us_ID (ip_User inp)) = ch_UserID i" "ch_UserID i \<noteq> []"
    and i: "ip_Checkout inp = i" "trim_space (ch_SKUCode i) = ch_SKUCode i"
  shows "wp (evaluatePolicies (process_policies c) inp) (\<lambda>_ w'. checkout_allowed c i D C) (\<lambda>_ _. True) w"
proof -
  let ?prs = "[(SoftwareAccessPlanCheckoutPolicy_Evaluate (Some (Project True True None)),
        ch_SKUCode i \<in> {SKUProOwnAIMonthly, SKUProOwnAILifetime} \<longrightarrow> plan_allows i D C)]
      @ (if cf_Env c = ProductionEnv
         then [(CheckoutRedirectPolicy_Evaluate (NewCheckoutRedirectPolicy (cf_RedirectAllowlist c)), redirects_allowed c i)]
         else [])
      @ (if cf_RiskPolicyEnabled c
         then [(NewPaymentRiskCheckoutPolicy True
                 (DefaultCheckoutRiskPolicyConfig\<lparr>rp_BlockSeverities := cf_RiskBlockSeverities c\<rparr>),
                risk_free c (ch_UserID i) D)]
         else [])"
  have plan: "wp (SoftwareAccessPlanCheckoutPolicy_Evaluate (Some (Project True True None)) inp)
      (\<lambda>dec w'. seen D C w' \<and> (dp_Allowed dec \<longrightarrow>
         (ch_SKUCode i \<in> {SKUProOwnAIMonthly, SKUProOwnAILifetime} \<longrightarrow> plan_allows i D C))) (\<lambda>_ _. True) w1"
    if "seen D C w1" for w1
  proof (cases "ch_SKUCode i \<in> {SKUProOwnAIMonthly, SKUProOwnAILifetime}")
    case True
    show ?thesis
      by (rule wp_mono [OF plan_policy_checked [OF that u, of "ch_SKUCode i"]])
        (use True i in \<open>auto simp: plan_allows_def\<close>)
  next
    case False
    with that u i show ?thesis by (auto simp: SoftwareAccessPlanCheckoutPolicy_Evaluate_def Let_def wp_simps)
  qed
  have "wp (evaluatePolicies (List.map fst ?prs) inp) (\<lambda>_ w'. \<forall>(pol, R)\<in>set ?prs. R) (\<lambda>_ _. True) w"
  proof (rule policies_checked [OF _ assms(1)])
    fix pol R w1
    assume "(pol, R) \<in> set ?prs" and w1: "seen D C w1"
    then consider "pol = SoftwareAccessPlanCheckoutPolicy_Evaluate (Some (Project True True None))"
        "R = (ch_SKUCode i \<in> {SKUProOwnAIMonthly, SKUProOwnAILifetime} \<longrightarrow> plan_allows i D C)"
      | "pol = CheckoutRedirectPolicy_Evaluate (NewCheckoutRedirectPolicy (cf_RedirectAllowlist c))"
        "R = redirects_allowed c i"
      | "pol = NewPaymentRiskCheckoutPolicy True
           (DefaultCheckoutRiskPolicyConfig\<lparr>rp_BlockSeverities := cf_RiskBlockSeverities c\<rparr>)"
        "R = risk_free c (ch_UserID i) D"
      by (auto split: if_splits)
    then show "wp (pol inp) (\<lambda>dec w'. seen D C w' \<and> (dp_Allowed dec \<longrightarrow> R)) (\<lambda>_ _. True) w1"
      by cases (use plan [OF w1] redirect_policy_checked [OF w1, of _ inp] risk_policy_checked [OF w1 u] i in
          \<open>simp_all only: redirects_allowed_def risk_free_def\<close>)
  qed
  moreover have "List.map fst ?prs = process_policies c" by (simp add: buildCheckoutPolicies_def)
  ultimately have "wp (evaluatePolicies (process_policies c) inp) (\<lambda>_ w'. \<forall>(pol, R)\<in>set ?prs. R) (\<lambda>_ _. True) w"
    by simp
  then show ?thesis by (rule wp_mono) (auto simp: checkout_allowed_def split: if_splits)
qed

definition buyer_and_product :: "CheckoutInput \<Rightarrow> database \<Rightarrow> bool" where
  "buyer_and_product i D \<longleftrightarrow>
     (\<exists>u. find_row us_ID (ch_UserID i) (tb_users D) = Some u \<and> us_Status u \<in> {[], UserStatusActive})
     \<and> (\<exists>p. find_row pr_Code (ch_SKUCode i) (tb_products D) = Some p \<and> pr_IsVisible p)"

lemma wp_guarded:
  "wp (andThen (reject_if b e) k) Q E w = (if b then E e w else wp (k ()) Q E w)"
  "wp (andThen (attempt m) h) Q E w = wp m (\<lambda>x. wp (h (Inr x)) Q E) (\<lambda>e. wp (h (Inl e)) Q E) w"
  "wp (andThen (not_found_as e m) l) Q E w =
     wp m (\<lambda>x. wp (l x) Q E) (\<lambda>f w. if errors_is f ErrNotFound then E e w else E f w) w"
  by (simp_all add: wp_simps)

lemma checkout_with_checked:
  assumes "seen D C w" "trim_space (ch_UserID i) = ch_UserID i" "ch_UserID i \<noteq> []"
    "trim_space (ch_SKUCode i) = ch_SKUCode i" "cw_policies s = process_policies c"
  shows "wp (checkout_with s gateway i existing)
    (\<lambda>_ _. buyer_and_product i D \<and> checkout_allowed c i D C) (\<lambda>_ _. True) w"
proof -
  have pol: "wp (evaluatePolicies (process_policies c) \<lparr>ip_Checkout = i, ip_User = u, ip_Product = p, ip_ExistingOrder = ex\<rparr>)
      (\<lambda>_ w'. checkout_allowed c i D C) (\<lambda>_ _. True) w1"
    if "find_row us_ID (ch_UserID i) (tb_users D) = Some u" "seen D C w1" for u p ex w1
    using find_row_found [OF that(1)] process_policies_checked [OF that(2), of _ i] assms(2-4) by simp
  have D: "db w = D" using assms(1) by (simp add: seen_def)
  have rest: "wp (andThen (evaluatePolicies (process_policies c) \<lparr>ip_Checkout = i, ip_User = u, ip_Product = p,
        ip_ExistingOrder = ex\<rparr>) k)
      (\<lambda>_ _. checkout_allowed c i D C) (\<lambda>_ _. True) w1"
    if "find_row us_ID (ch_UserID i) (tb_users D) = Some u" "seen D C w1"
    for u p ex w1 and k :: "unit \<Rightarrow> CheckoutResult service"
    unfolding wp_andThen by (rule wp_mono [OF pol [OF that]]) (auto intro: wp_true)
  show ?thesis
    unfolding checkout_with_def assms(5) using assms(1)
    by (auto simp: wp_guarded wp_fail wp_store_find UserRepo_GetByID_def
        ProductRepo_GetByCode_def D buyer_and_product_def split: option.split intro!: rest)
qed

text \<open>C4: A checkout that returns a session was allowed: the user is active and the product visible,
  the user holds no software grant throughout the call that the purchase would repeat (a lifetime
  grant, or any for the monthly plan; with a monthly one the lifetime plan needs a cancellation),
  in production both redirects are on the allowlist, and under the risk policy the user has no
  open flag of a blocked severity.\<close>

theorem checkout_checked:
  assumes "CreateCheckoutSession s i w = (Inr r, w')" and "cw_policies s = process_policies c"
  shows "buyer_and_product (normalizeCheckoutInput i) (db w)
    \<and> checkout_allowed c (normalizeCheckoutInput i) (db w) (clock w)"
proof -
  let ?i = "normalizeCheckoutInput i"
  have trimmed: "trim_space (ch_UserID ?i) = ch_UserID ?i" "trim_space (ch_SKUCode ?i) = ch_SKUCode ?i"
    by (simp_all add: normalizeCheckoutInput_def)
  have "wp (CreateCheckoutSession s i)
      (\<lambda>_ _. buyer_and_product ?i (db w) \<and> checkout_allowed c ?i (db w) (clock w)) (\<lambda>_ _. True) w"
  proof (cases "ch_UserID ?i = []")
    case True
    then show ?thesis by (simp add: CreateCheckoutSession_def Let_def wp_simps)
  next
    case False
    have "seen (db w) (clock w) (next_tick w)" by (simp add: seen_def)
    from checkout_with_checked [OF this trimmed(1) False trimmed(2) assms(2)] show ?thesis
      by (auto simp: CreateCheckoutSession_def Let_def wp_simps OrderRepo_GetByIdempotencyKey_def split: option.split)
  qed
  from wp_run [OF this assms(1)] show ?thesis .
qed

definition guarded_config :: checkout_config where
  "guarded_config = \<lparr>cf_Env = ''dev'', cf_RedirectAllowlist = [], cf_RiskPolicyEnabled = True, cf_RiskBlockSeverities = []\<rparr>"

definition guarded_shop :: checkout_service where
  "guarded_shop = \<lparr>cw_wired = True, cw_gateway = Some sample_gateway, cw_policies = process_policies guarded_config\<rparr>"

lemma checkout_checked_witness:
  "buyer_and_product (normalizeCheckoutInput sample_checkout) (db shop_world)
    \<and> checkout_allowed guarded_config (normalizeCheckoutInput sample_checkout) (db shop_world) (clock shop_world)"
proof -
  have ok: "isl (fst (CreateCheckoutSession guarded_shop sample_checkout shop_world)) = False" by code_simp
  show ?thesis
    by (rule checkout_checked [OF run_ok [OF ok]]) (simp add: guarded_shop_def)
qed

text \<open>A checkout with the policies of the process, the risk policy among them.\<close>

lemma checkout_completes_witness:
  "cw_policies guarded_shop \<noteq> []
    \<and> (\<exists>r w'. CreateCheckoutSession guarded_shop sample_checkout shop_world = (Inr r, w'))"
proof
  show "cw_policies guarded_shop \<noteq> []"
    by (simp add: guarded_shop_def buildCheckoutPolicies_def)
  show "\<exists>r w'. CreateCheckoutSession guarded_shop sample_checkout shop_world = (Inr r, w')"
  proof (rule checkout_completes [of shop_world guarded_shop sample_gateway sample_checkout sample_user sample_product])
    show "returns (sample_gateway a q) (\<lambda>_. True) v" for a q v
      by (simp add: returns_def sample_gateway_def wp_simps)
    show "find_row us_ID (ch_UserID (normalizeCheckoutInput sample_checkout)) (tb_users (db shop_world))
        = Some sample_user"
      "find_row pr_Code (ch_SKUCode (normalizeCheckoutInput sample_checkout)) (tb_products (db shop_world))
        = Some sample_product"
      by code_simp+
    show "ch_UserID (normalizeCheckoutInput sample_checkout) \<noteq> []" "ch_SKUCode (normalizeCheckoutInput sample_checkout) \<noteq> []"
      "ch_Provider (normalizeCheckoutInput sample_checkout) \<noteq> []" "ch_IdempotencyKey (normalizeCheckoutInput sample_checkout) \<noteq> []"
      by code_simp+
  next
    fix pol and v :: "database world"
    let ?inp = "asked_about sample_checkout sample_user sample_product"
    let ?risk = "NewPaymentRiskCheckoutPolicy True
      (DefaultCheckoutRiskPolicyConfig\<lparr>rp_BlockSeverities := cf_RiskBlockSeverities guarded_config\<rparr>)"
    assume v: "db v = db shop_world" "faults v = (\<lambda>_. None)" and pol: "pol \<in> set (cw_policies guarded_shop)"
    have sku: "trim_space (ch_SKUCode (ip_Checkout ?inp)) = ''pro''" by code_simp
    have flags: "tb_risk_flags (db shop_world) = []" by (simp add: shop_world_def sample_world_def shop_db_def users_db_def empty_database_def)
    from pol consider "pol = SoftwareAccessPlanCheckoutPolicy_Evaluate (Some (Project True True None))" | "pol = ?risk"
      by (auto simp: guarded_shop_def buildCheckoutPolicies_def guarded_config_def split: if_splits)
    then show "returns (pol ?inp) dp_Allowed v"
    proof cases
      case 1
      then show ?thesis
        using sku
        by (simp add: returns_def SoftwareAccessPlanCheckoutPolicy_Evaluate_def allowCheckoutDecision_def Let_def wp_simps)
    next
      case 2
      have "\<forall>w1. db w1 = db v \<and> faults w1 = faults v \<and> clock w1 = clock v \<longrightarrow>
          wp (evaluate_severities q u sevs) (\<lambda>x w'. dp_Allowed x \<and> db w' = db v \<and> clock w' = clock v \<and> faults w' = faults v)
            (\<lambda>_ _. False) w1" for q u sevs
        by (induction sevs) (auto simp: wp_simps PaymentRiskFlagRepo_List_def flags page_def v allowCheckoutDecision_def)
      then show ?thesis
        unfolding 2 returns_def NewPaymentRiskCheckoutPolicy_def PaymentRiskCheckoutPolicy_Evaluate_def Let_def
        by (auto simp: wp_simps allowCheckoutDecision_def)
    qed
  qed (auto simp: shop_world_def sample_world_def shop_db_def users_db_def empty_database_def table_ok_def guarded_shop_def
    sample_user_def sample_product_def)
qed

end
