(* ===== verification/Cloud_Quota.thy ===== *)
theory Cloud_Quota
  imports Entitlement
begin

text \<open>
  The quota policy of service/cloud_storage.go: a user's cloud plan follows from the grants of
  the cloud entitlement, and the plan selects the quota.
\<close>

abbreviation CloudStoragePlanNone :: string where "CloudStoragePlanNone \<equiv> ''none''"
abbreviation CloudStoragePlanTrial :: string where "CloudStoragePlanTrial \<equiv> ''trial''"
abbreviation CloudStoragePlanMonthly :: string where "CloudStoragePlanMonthly \<equiv> ''monthly''"
abbreviation CloudStoragePlanLifetime :: string where "CloudStoragePlanLifetime \<equiv> ''lifetime''"
abbreviation CloudStoragePlanCustom :: string where "CloudStoragePlanCustom \<equiv> ''custom''"

record CloudStorageQuotaInput =
  qi_User :: User
  qi_Grants :: "EntitlementGrant list"
  qi_Now :: instant

record CloudStorageQuotaDecision =
  qd_Plan :: string
  qd_HasEntitlement :: bool
  qd_QuotaBytes :: int

type_synonym CloudStorageQuotaPolicy = "CloudStorageQuotaInput \<Rightarrow> CloudStorageQuotaDecision service"

record CloudStorageQuotaPolicyConfig =
  qc_DefaultQuotaBytes :: int
  qc_TrialQuotaBytes :: int
  qc_MonthlyQuotaBytes :: int
  qc_LifetimeQuotaBytes :: int

definition normalizeCloudStorageQuotaPolicyConfig ::
  "CloudStorageQuotaPolicyConfig \<Rightarrow> CloudStorageQuotaPolicyConfig" where
  "normalizeCloudStorageQuotaPolicyConfig c =
     (let dflt = (if qc_DefaultQuotaBytes c < 0 then 0 else qc_DefaultQuotaBytes c)
      in \<lparr>qc_DefaultQuotaBytes = dflt,
          qc_TrialQuotaBytes = (if qc_TrialQuotaBytes c \<le> 0 then dflt else qc_TrialQuotaBytes c),
          qc_MonthlyQuotaBytes = (if qc_MonthlyQuotaBytes c \<le> 0 then dflt else qc_MonthlyQuotaBytes c),
          qc_LifetimeQuotaBytes = (if qc_LifetimeQuotaBytes c \<le> 0 then dflt else qc_LifetimeQuotaBytes c)\<rparr>)"

definition mbToBytes :: "int \<Rightarrow> int" where
  "mbToBytes v = (if v \<le> 0 then 0 else wrap64 (wrap64 (v * 1024) * 1024))"

text \<open>Which kinds of active cloud grants there are.\<close>

record cloud_grant_kinds =
  hasCustom :: bool
  hasTrial :: bool
  hasMonthly :: bool
  hasLifetime :: bool

definition note_cloud_grant :: "instant \<Rightarrow> cloud_grant_kinds \<Rightarrow> EntitlementGrant \<Rightarrow> cloud_grant_kinds" where
  "note_cloud_grant now k g =
     (if eg_EntitlementID g \<noteq> EntitlementCloudStorage \<or> \<not> isGrantActive g now then k
      else if eg_Source g = GrantSourceFulfillment \<and> eg_ExpiresAt g = None then k\<lparr>hasLifetime := True\<rparr>
      else if eg_Source g = GrantSourceFulfillment \<and> eg_ExpiresAt g \<noteq> None then k\<lparr>hasMonthly := True\<rparr>
      else if eg_Source g = GrantSourceSubscriptionGrace then k\<lparr>hasMonthly := True\<rparr>
      else if eg_Source g = GrantSourceTrial then k\<lparr>hasTrial := True\<rparr>
      else k\<lparr>hasCustom := True\<rparr>)"

definition cloud_plan :: "EntitlementGrant list \<Rightarrow> instant \<Rightarrow> string" where
  "cloud_plan grants now =
     (let k = foldl (note_cloud_grant now)
            \<lparr>hasCustom = False, hasTrial = False, hasMonthly = False, hasLifetime = False\<rparr> grants
      in if hasLifetime k then CloudStoragePlanLifetime
         else if hasMonthly k then CloudStoragePlanMonthly
         else if hasTrial k then CloudStoragePlanTrial
         else if hasCustom k then CloudStoragePlanCustom
         else CloudStoragePlanNone)"

definition cloudStoragePlanForGrants :: "EntitlementGrant list \<Rightarrow> instant \<Rightarrow> string service" where
  "cloudStoragePlanForGrants grants now0 =
     andThen (if now0 = 0 then time_now else ret now0) (\<lambda>now. ret (cloud_plan grants now))"

definition quota_decision :: "CloudStorageQuotaPolicyConfig \<Rightarrow> string \<Rightarrow> CloudStorageQuotaDecision" where
  "quota_decision c plan =
     (let q = (if plan = CloudStoragePlanTrial then qc_TrialQuotaBytes c
               else if plan = CloudStoragePlanMonthly then qc_MonthlyQuotaBytes c
               else if plan = CloudStoragePlanLifetime then qc_LifetimeQuotaBytes c
               else if plan = CloudStoragePlanCustom then qc_DefaultQuotaBytes c
               else 0)
      in \<lparr>qd_Plan = plan, qd_HasEntitlement = (plan \<noteq> CloudStoragePlanNone),
          qd_QuotaBytes = (if q < 0 then 0 else q)\<rparr>)"

definition PlanAwareCloudStorageQuotaPolicy_Decide ::
  "CloudStorageQuotaPolicyConfig \<Rightarrow> CloudStorageQuotaPolicy" where
  "PlanAwareCloudStorageQuotaPolicy_Decide c inp =
     andThen (cloudStoragePlanForGrants (qi_Grants inp) (qi_Now inp)) (\<lambda>plan. ret (quota_decision c plan))"

definition NewPlanAwareCloudStorageQuotaPolicy :: "CloudStorageQuotaPolicyConfig \<Rightarrow> CloudStorageQuotaPolicy" where
  "NewPlanAwareCloudStorageQuotaPolicy c =
     PlanAwareCloudStorageQuotaPolicy_Decide (normalizeCloudStorageQuotaPolicyConfig c)"

definition NewStaticCloudStorageQuotaPolicy :: "int \<Rightarrow> CloudStorageQuotaPolicy" where
  "NewStaticCloudStorageQuotaPolicy quotaBytes =
     (let q = (if quotaBytes < 0 then 0 else quotaBytes)
      in NewPlanAwareCloudStorageQuotaPolicy \<lparr>qc_DefaultQuotaBytes = q, qc_TrialQuotaBytes = q,
           qc_MonthlyQuotaBytes = q, qc_LifetimeQuotaBytes = q\<rparr>)"

definition NewCloudStorageQuotaPolicyFromMB :: "int \<Rightarrow> CloudStorageQuotaPolicy" where
  "NewCloudStorageQuotaPolicyFromMB quotaMB =
     NewStaticCloudStorageQuotaPolicy (wrap64 (wrap64 (quotaMB * 1024) * 1024))"

definition NewPlanAwareCloudStorageQuotaPolicyFromMB ::
  "int \<Rightarrow> int \<Rightarrow> int \<Rightarrow> int \<Rightarrow> CloudStorageQuotaPolicy" where
  "NewPlanAwareCloudStorageQuotaPolicyFromMB dflt trial monthly lifetime =
     NewPlanAwareCloudStorageQuotaPolicy \<lparr>qc_DefaultQuotaBytes = mbToBytes dflt,
       qc_TrialQuotaBytes = mbToBytes trial, qc_MonthlyQuotaBytes = mbToBytes monthly,
       qc_LifetimeQuotaBytes = mbToBytes lifetime\<rparr>"

end
