(* ===== verification/Cloud_Storage.thy ===== *)
theory Cloud_Storage
  imports Cloud_Quota
begin

text \<open>
  Cloud storage metadata: service/cloud_storage.go and repository/gorm_repo/cloud_storage.go.  A
  client asks for an authorization to upload the resources of a project, uploads them to the
  object store, and commits the manifest under the authorized session, which replaces the
  project's active objects.  The object store is an interface.
\<close>

section \<open>Repositories\<close>

abbreviation CloudProjectStatusActive :: string where "CloudProjectStatusActive \<equiv> ''active''"
abbreviation CloudManifestStatusCommitted :: string where "CloudManifestStatusCommitted \<equiv> ''committed''"
abbreviation CloudObjectStatusActive :: string where "CloudObjectStatusActive \<equiv> ''active''"
abbreviation CloudObjectStatusReplaced :: string where "CloudObjectStatusReplaced \<equiv> ''replaced''"
abbreviation CloudSyncSessionStatusAuthorized :: string where "CloudSyncSessionStatusAuthorized \<equiv> ''authorized''"
abbreviation CloudSyncSessionStatusCommitted :: string where "CloudSyncSessionStatusCommitted \<equiv> ''committed''"
abbreviation CloudSyncSessionStatusExpired :: string where "CloudSyncSessionStatusExpired \<equiv> ''expired''"

definition project_clash :: "CloudProject \<Rightarrow> CloudProject \<Rightarrow> bool" where
  "project_clash x y \<longleftrightarrow> cp_ID x = cp_ID y
     \<or> (cp_UserID x = cp_UserID y \<and> cp_ClientProjectID x = cp_ClientProjectID y)"

definition session_clash :: "CloudSyncSession \<Rightarrow> CloudSyncSession \<Rightarrow> bool" where
  "session_clash x y \<longleftrightarrow> cs_ID x = cs_ID y"

definition manifest_clash :: "CloudManifest \<Rightarrow> CloudManifest \<Rightarrow> bool" where
  "manifest_clash x y \<longleftrightarrow> cm_ID x = cm_ID y \<or> cm_IdempotencyKey x = cm_IdempotencyKey y"

definition object_clash :: "CloudObject \<Rightarrow> CloudObject \<Rightarrow> bool" where
  "object_clash x y \<longleftrightarrow> co_ID x = co_ID y \<or> co_ObjectKey x = co_ObjectKey y"

interpretation projects: row_store cp_ID project_clash
  by unfold_locales (unfold project_clash_def, metis+)

interpretation sync_sessions: row_store cs_ID session_clash
  by unfold_locales (auto simp: session_clash_def)

interpretation manifests: row_store cm_ID manifest_clash
  by unfold_locales (unfold manifest_clash_def, metis+)

interpretation objects: row_store co_ID object_clash
  by unfold_locales (unfold object_clash_def, metis+)

definition CloudProjectRepo_Create :: "CloudProject \<Rightarrow> unit service" where
  "CloudProjectRepo_Create = store_create tb_projects tb_projects_update project_clash"

definition CloudProjectRepo_GetByID :: "string \<Rightarrow> CloudProject service" where
  "CloudProjectRepo_GetByID = store_find tb_projects cp_ID"

definition CloudProjectRepo_GetByUserAndClientProject :: "string \<Rightarrow> string \<Rightarrow> CloudProject service" where
  "CloudProjectRepo_GetByUserAndClientProject userID clientProjectID =
     store_find tb_projects (\<lambda>x. (cp_UserID x, cp_ClientProjectID x)) (userID, clientProjectID)"

definition CloudProjectRepo_ListByUser :: "string \<Rightarrow> string \<Rightarrow> int \<Rightarrow> int \<Rightarrow> CloudProject list service" where
  "CloudProjectRepo_ListByUser userID status limit offset =
     db_read (\<lambda>d. page limit offset (sort_key (\<lambda>x. - cp_UpdatedAt x)
       (List.filter (\<lambda>x. cp_UserID x = userID \<and> column_matches status (cp_Status x)) (tb_projects d))))"

definition CloudProjectRepo_Update :: "CloudProject \<Rightarrow> unit service" where
  "CloudProjectRepo_Update = store_save tb_projects tb_projects_update cp_ID project_clash"

definition CloudSyncSessionRepo_Create :: "CloudSyncSession \<Rightarrow> unit service" where
  "CloudSyncSessionRepo_Create = store_create tb_sessions tb_sessions_update session_clash"

definition CloudSyncSessionRepo_GetByID :: "string \<Rightarrow> CloudSyncSession service" where
  "CloudSyncSessionRepo_GetByID = store_find tb_sessions cs_ID"

definition CloudSyncSessionRepo_Update :: "CloudSyncSession \<Rightarrow> unit service" where
  "CloudSyncSessionRepo_Update = store_save tb_sessions tb_sessions_update cs_ID session_clash"

definition CloudManifestRepo_Create :: "CloudManifest \<Rightarrow> unit service" where
  "CloudManifestRepo_Create = store_create tb_manifests tb_manifests_update manifest_clash"

definition CloudManifestRepo_GetByID :: "string \<Rightarrow> CloudManifest service" where
  "CloudManifestRepo_GetByID = store_find tb_manifests cm_ID"

definition CloudManifestRepo_GetByIdempotencyKey :: "string \<Rightarrow> CloudManifest service" where
  "CloudManifestRepo_GetByIdempotencyKey = store_find tb_manifests cm_IdempotencyKey"

definition CloudManifestRepo_ListByProject :: "string \<Rightarrow> int \<Rightarrow> int \<Rightarrow> CloudManifest list service" where
  "CloudManifestRepo_ListByProject cloudProjectID limit offset =
     db_read (\<lambda>d. page limit offset (sort_key (\<lambda>x. - cm_CreatedAt x)
       (List.filter (\<lambda>x. cm_CloudProjectID x = cloudProjectID) (tb_manifests d))))"

text \<open>
  INSERT with an update of some columns when the object key is taken; another clash (the primary
  key) is a violation.
\<close>

definition upserted :: "CloudObject \<Rightarrow> CloudObject \<Rightarrow> CloudObject" where
  "upserted x old =
     old\<lparr>co_ManifestID := co_ManifestID x, co_ResourceID := co_ResourceID x, co_ResourceKind := co_ResourceKind x,
        co_ContentHash := co_ContentHash x, co_SizeBytes := co_SizeBytes x, co_ContentType := co_ContentType x,
        co_Status := co_Status x, co_UpdatedAt := co_UpdatedAt x\<rparr>"

definition upsert_object :: "CloudObject \<Rightarrow> CloudObject list \<Rightarrow> CloudObject list option" where
  "upsert_object x t =
     (if \<exists>y\<in>set t. co_ID y = co_ID x then None
      else if \<exists>y\<in>set t. co_ObjectKey y = co_ObjectKey x
      then Some (List.map (\<lambda>y. if co_ObjectKey y = co_ObjectKey x then upserted x y else y) t)
      else Some (t @ [x]))"

definition CloudObjectRepo_Upsert :: "CloudObject \<Rightarrow> unit service" where
  "CloudObjectRepo_Upsert x =
     db_write (\<lambda>d. map_option (\<lambda>t. ((), d\<lparr>tb_objects := t\<rparr>)) (upsert_object x (tb_objects d)))"

definition CloudObjectRepo_Update :: "CloudObject \<Rightarrow> unit service" where
  "CloudObjectRepo_Update = store_save tb_objects tb_objects_update co_ID object_clash"

definition CloudObjectRepo_GetByObjectKey :: "string \<Rightarrow> CloudObject service" where
  "CloudObjectRepo_GetByObjectKey = store_find tb_objects co_ObjectKey"

definition CloudObjectRepo_ListByProject :: "string \<Rightarrow> string \<Rightarrow> CloudObject list service" where
  "CloudObjectRepo_ListByProject cloudProjectID status =
     db_read (\<lambda>d. sort_key (\<lambda>x. - co_UpdatedAt x)
       (List.filter (\<lambda>x. co_CloudProjectID x = cloudProjectID \<and> column_matches status (co_Status x)) (tb_objects d)))"

definition active_bytes :: "string \<Rightarrow> CloudObject list \<Rightarrow> int" where
  "active_bytes userID t =
     sum_rows (\<lambda>x. co_UserID x = userID \<and> co_Status x = CloudObjectStatusActive) co_SizeBytes t"

text \<open>The engine's \<open>SUM\<close> fails on an integer overflow.\<close>

definition CloudObjectRepo_SumActiveBytesByUser :: "string \<Rightarrow> int service" where
  "CloudObjectRepo_SumActiveBytesByUser userID =
     andThen (db_read (\<lambda>d. active_bytes userID (tb_objects d))) (\<lambda>total.
     andThen (reject_if (total < min_int64 \<or> max_int64 < total) (ErrDB ''integer overflow'')) (\<lambda>_. ret total))"

section \<open>Types\<close>

record CloudResourceDescriptor =
  rd_ResourceID :: string
  rd_ResourceKind :: string
  rd_ContentHash :: string
  rd_SizeBytes :: int
  rd_ContentType :: string
  rd_Filename :: string

record CloudObjectUploadRequest =
  ur_ObjectKey :: string
  ur_ContentType :: string
  ur_SizeBytes :: int
  ur_ContentHash :: string
  ur_LifecycleTags :: "(string \<times> string) list"

record CloudObjectUploadTarget =
  ut_ObjectKey :: string
  ut_UploadURL :: string
  ut_Method :: string
  ut_Headers :: "(string \<times> string) list"
  ut_Provider :: string

record CloudObjectDownloadTarget =
  dt_ObjectKey :: string
  dt_DownloadURL :: string
  dt_Method :: string
  dt_Headers :: "(string \<times> string) list"
  dt_Provider :: string
  dt_ExpiresAt :: instant

text \<open>What the service uses of the object store.\<close>

record ObjectStorageProvider =
  os_ProviderID :: string
  os_BuildUploadTarget :: "CloudObjectUploadRequest \<Rightarrow> CloudObjectUploadTarget service"
  os_BuildDownloadTarget :: "string \<Rightarrow> CloudObjectDownloadTarget service"

definition NewUnconfiguredObjectStorageProvider :: ObjectStorageProvider where
  "NewUnconfiguredObjectStorageProvider =
     \<lparr>os_ProviderID = ''unconfigured'',
      os_BuildUploadTarget = (\<lambda>_. fail ErrCloudStorageProviderNotConfigured),
      os_BuildDownloadTarget = (\<lambda>_. fail ErrCloudStorageProviderNotConfigured)\<rparr>"

record cloud_service =
  cv_policy :: CloudStorageQuotaPolicy
  cv_provider :: ObjectStorageProvider
  cv_uow :: bool

record CloudSyncAuthorizationInput =
  ya_UserID :: string
  ya_ClientProjectID :: string
  ya_ProjectName :: string
  ya_Resources :: "CloudResourceDescriptor list"

record CloudSyncAuthorization =
  au_ID :: string
  au_UserID :: string
  au_CloudProjectID :: string
  au_ClientProjectID :: string
  au_Provider :: string
  au_QuotaBytes :: int
  au_UsedBytes :: int
  au_RequestedBytes :: int
  au_UploadTargets :: "CloudObjectUploadTarget list"
  au_ExpiresAt :: instant

record CloudManifestCommitInput =
  mi_UserID :: string
  mi_ClientProjectID :: string
  mi_ProjectName :: string
  mi_SyncSessionID :: string
  mi_ManifestHash :: string
  mi_ManifestVersion :: int
  mi_Resources :: "CloudResourceDescriptor list"
  mi_IdempotencyKey :: string

record CloudStorageUsage =
  cu_UserID :: string
  cu_Plan :: string
  cu_UsedBytes :: int
  cu_QuotaBytes :: int
  cu_RemainingBytes :: int
  cu_OverQuota :: bool

record CloudManifestCommitResult =
  mr_Project :: CloudProject
  mr_Manifest :: CloudManifest
  mr_Usage :: CloudStorageUsage

section \<open>Names\<close>

definition safe_char :: "char \<Rightarrow> bool" where
  "safe_char c \<longleftrightarrow>
     (let n = of_char c :: nat
      in 97 \<le> n \<and> n \<le> 122 \<or> 65 \<le> n \<and> n \<le> 90 \<or> 48 \<le> n \<and> n \<le> 57 \<or> c \<in> set ''_.:-'')"

text \<open>Each maximal run of unsafe characters becomes a dash.\<close>

fun replace_unsafe :: "bool \<Rightarrow> string \<Rightarrow> string" where
  "replace_unsafe inside [] = []"
| "replace_unsafe inside (c # s) =
     (if safe_char c then c # replace_unsafe False s
      else if inside then replace_unsafe True s
      else CHR ''-'' # replace_unsafe True s)"

definition trim_marks :: "string \<Rightarrow> string" where
  "trim_marks s =
     rev (dropWhile (\<lambda>c. c \<in> set ''-._'') (rev (dropWhile (\<lambda>c. c \<in> set ''-._'') s)))"

definition sanitizePathSegment :: "string \<Rightarrow> string" where
  "sanitizePathSegment v =
     (let cleaned = trim_marks (replace_unsafe False (trim_space v))
      in if cleaned = [] then ''resource'' else take 128 cleaned)"

text \<open>\<open>path.Base\<close>.\<close>

definition path_base :: "string \<Rightarrow> string" where
  "path_base p =
     (if p = [] then ''.''
      else let r = dropWhile (\<lambda>c. c = CHR ''/'') (rev p)
           in if r = [] then ''/'' else rev (takeWhile (\<lambda>c. c \<noteq> CHR ''/'') r))"

definition sanitizeFilename :: "string \<Rightarrow> string" where
  "sanitizeFilename v =
     (let cleaned = sanitizePathSegment (path_base (trim_space v))
      in if cleaned = ''resource'' then ''object.bin'' else cleaned)"

definition objectKeyFor :: "string \<Rightarrow> string \<Rightarrow> CloudResourceDescriptor \<Rightarrow> string" where
  "objectKeyFor userID clientProjectID r =
     ''accounts/'' @ sanitizePathSegment userID @ ''/projects/'' @ sanitizePathSegment clientProjectID
     @ ''/'' @ sanitizePathSegment (rd_ResourceKind r) @ ''/'' @ sanitizePathSegment (rd_ContentHash r)
     @ ''/'' @ sanitizeFilename (rd_Filename r)"

definition cloudObjectLifecycleTags ::
  "string \<Rightarrow> string \<Rightarrow> string \<Rightarrow> CloudResourceDescriptor \<Rightarrow> (string \<times> string) list" where
  "cloudObjectLifecycleTags userID cloudProjectID clientProjectID r =
     [(''walnut.user_id'', sanitizePathSegment userID),
      (''walnut.cloud_project_id'', sanitizePathSegment cloudProjectID),
      (''walnut.client_project_id'', sanitizePathSegment clientProjectID),
      (''walnut.resource_kind'', sanitizePathSegment (rd_ResourceKind r))]"

section \<open>Resources\<close>

definition resource_key :: "CloudResourceDescriptor \<Rightarrow> string \<times> string" where
  "resource_key r = (rd_ResourceKind r, rd_ResourceID r)"

definition normalize_resource :: "CloudResourceDescriptor \<Rightarrow> CloudResourceDescriptor" where
  "normalize_resource r =
     (let resourceID = trim_space (rd_ResourceID r)
      in \<lparr>rd_ResourceID = resourceID,
          rd_ResourceKind = sanitizePathSegment (defaultString (rd_ResourceKind r) ''resource''),
          rd_ContentHash = trim_space (rd_ContentHash r), rd_SizeBytes = rd_SizeBytes r,
          rd_ContentType = defaultString (trim_space (rd_ContentType r)) ''application/octet-stream'',
          rd_Filename = sanitizeFilename (defaultString (rd_Filename r) (path_base resourceID))\<rparr>)"

text \<open>The map by kind and identifier, kept sorted; of equal keys the last resource stays.\<close>

fun put_resource :: "CloudResourceDescriptor \<Rightarrow> CloudResourceDescriptor list \<Rightarrow> CloudResourceDescriptor list" where
  "put_resource r [] = [r]"
| "put_resource r (x # xs) =
     (if resource_key r = resource_key x then r # xs
      else if resource_key r < resource_key x then r # x # xs
      else x # put_resource r xs)"

fun normalize_resources_loop ::
  "CloudResourceDescriptor list \<Rightarrow> CloudResourceDescriptor list \<Rightarrow> err + CloudResourceDescriptor list" where
  "normalize_resources_loop acc [] = Inr acc"
| "normalize_resources_loop acc (r0 # rs) =
     (let r = normalize_resource r0
      in if rd_ResourceID r = [] \<or> rd_ContentHash r = [] \<or> rd_SizeBytes r < 0 then Inl ErrInvalidCloudStorage
         else normalize_resources_loop (put_resource r acc) rs)"

definition normalizeCloudResources :: "CloudResourceDescriptor list \<Rightarrow> err + CloudResourceDescriptor list" where
  "normalizeCloudResources rs =
     (if rs = [] then Inl ErrInvalidCloudStorage else normalize_resources_loop [] rs)"

definition sumResourceBytes :: "CloudResourceDescriptor list \<Rightarrow> int" where
  "sumResourceBytes rs = foldl (\<lambda>total r. wrap64 (total + rd_SizeBytes r)) 0 rs"

definition sumObjectBytes :: "CloudObject list \<Rightarrow> int" where
  "sumObjectBytes t = foldl (\<lambda>total x. wrap64 (total + co_SizeBytes x)) 0 t"

definition fingerprint_line :: "CloudResourceDescriptor \<Rightarrow> string" where
  "fingerprint_line r =
     rd_ResourceKind r @ [CHR 0x00] @ rd_ResourceID r @ [CHR 0x00] @ rd_ContentHash r @ [CHR 0x00]
     @ string_of_int (rd_SizeBytes r) @ [CHR 0x00] @ rd_ContentType r @ [CHR 0x00] @ rd_Filename r @ [CHR 0x0A]"

definition cloudResourceFingerprint :: "CloudResourceDescriptor list \<Rightarrow> string service" where
  "cloudResourceFingerprint rs w =
     (Inr (sha256_hex w (concat (List.map fingerprint_line (sort_key resource_key rs)))), w)"

section \<open>Access\<close>

definition requireConfiguredProvider :: "cloud_service \<Rightarrow> unit service" where
  "requireConfiguredProvider s =
     reject_if (trim_space (os_ProviderID (cv_provider s)) = [] \<or> os_ProviderID (cv_provider s) = ''unconfigured'')
       ErrCloudStorageProviderNotConfigured"

definition loadActiveUser :: "string \<Rightarrow> User service" where
  "loadActiveUser userID =
     andThen (reject_if (trim_space userID = []) ErrInvalidCloudStorage) (\<lambda>_.
     andThen (not_found_as ErrUserNotFound (UserRepo_GetByID (trim_space userID))) (\<lambda>u.
     andThen (reject_if (us_Status u \<noteq> [] \<and> us_Status u \<noteq> UserStatusActive) ErrCloudStorageAccessDenied) (\<lambda>_.
     ret u)))"

definition cloudStorageQuotaDecision :: "cloud_service \<Rightarrow> User \<Rightarrow> CloudStorageQuotaDecision service" where
  "cloudStorageQuotaDecision s u =
     andThen (EntitlementGrantRepo_List \<lparr>nq_UserID = us_ID u, nq_EntitlementID = EntitlementCloudStorage,
       nq_Status = GrantStatusActive, nq_IncludeExpired = False, nq_Limit = 0, nq_Offset = 0\<rparr>) (\<lambda>grants.
     andThen time_now (\<lambda>now.
     cv_policy s \<lparr>qi_User = u, qi_Grants = grants, qi_Now = now\<rparr>))"

definition authorizeCloudAccess ::
  "cloud_service \<Rightarrow> string \<Rightarrow> (User \<times> CloudStorageQuotaDecision \<times> int) service" where
  "authorizeCloudAccess s userID =
     andThen (loadActiveUser userID) (\<lambda>u.
     andThen (cloudStorageQuotaDecision s u) (\<lambda>quota.
     andThen (reject_if (\<not> qd_HasEntitlement quota \<or> qd_QuotaBytes quota \<le> 0) ErrCloudStorageAccessDenied) (\<lambda>_.
     andThen (CloudObjectRepo_SumActiveBytesByUser (us_ID u)) (\<lambda>used.
     ret (u, quota, used)))))"

definition usageFor :: "string \<Rightarrow> string \<Rightarrow> int \<Rightarrow> int \<Rightarrow> CloudStorageUsage" where
  "usageFor userID plan used quota =
     (let remaining = wrap64 (quota - used)
      in \<lparr>cu_UserID = userID, cu_Plan = (if trim_space plan = [] then CloudStoragePlanNone else plan),
          cu_UsedBytes = used, cu_QuotaBytes = quota,
          cu_RemainingBytes = (if remaining < 0 then 0 else remaining), cu_OverQuota = (quota < used)\<rparr>)"

definition Usage :: "cloud_service \<Rightarrow> string \<Rightarrow> CloudStorageUsage service" where
  "Usage s userID =
     andThen (loadActiveUser userID) (\<lambda>u.
     andThen (CloudObjectRepo_SumActiveBytesByUser (us_ID u)) (\<lambda>used.
     andThen (cloudStorageQuotaDecision s u) (\<lambda>quota.
     ret (usageFor (us_ID u) (qd_Plan quota) used (qd_QuotaBytes quota)))))"

text \<open>What the user would use with the project's objects replaced by the resources.\<close>

definition projected_usage :: "int \<Rightarrow> CloudObject list \<Rightarrow> CloudResourceDescriptor list \<Rightarrow> int" where
  "projected_usage used existing rs =
     (let new = sumResourceBytes rs;
          projected = wrap64 (wrap64 (used - sumObjectBytes existing) + new)
      in if projected < new then new else projected)"

definition projectedUsageForResources :: "string \<Rightarrow> int \<Rightarrow> CloudResourceDescriptor list \<Rightarrow> int service" where
  "projectedUsageForResources cloudProjectID used rs =
     andThen (CloudObjectRepo_ListByProject cloudProjectID CloudObjectStatusActive) (\<lambda>existing.
     ret (projected_usage used existing rs))"

section \<open>Authorization\<close>

definition renamed_project :: "CloudProject \<Rightarrow> string \<Rightarrow> CloudProject service" where
  "renamed_project p name0 =
     (let name = trim_space name0
      in if name \<noteq> [] \<and> cp_Name p \<noteq> name
         then andThen time_now (\<lambda>now.
              let p' = p\<lparr>cp_Name := name, cp_UpdatedAt := now\<rparr>
              in andThen (CloudProjectRepo_Update p') (\<lambda>_. ret p'))
         else ret p)"

definition ensureProject :: "string \<Rightarrow> string \<Rightarrow> string \<Rightarrow> CloudProject service" where
  "ensureProject userID clientProjectID0 projectName =
     (let clientProjectID = trim_space clientProjectID0
      in andThen (reject_if (clientProjectID = []) ErrInvalidCloudStorage) (\<lambda>_.
         if_found (CloudProjectRepo_GetByUserAndClientProject userID clientProjectID)
           (\<lambda>p. renamed_project p projectName)
           (andThen (generateEntityID ''cpr_'') (\<lambda>projectID.
            andThen time_now (\<lambda>now.
            let p = \<lparr>cp_ID = projectID, cp_UserID = userID, cp_ClientProjectID = clientProjectID,
                   cp_Name = trim_space projectName, cp_Status = CloudProjectStatusActive, cp_LastManifestID = [],
                   cp_CreatedAt = now, cp_UpdatedAt = now\<rparr>
            in andThen (CloudProjectRepo_Create p) (\<lambda>_. ret p))))))"

definition upload_request :: "User \<Rightarrow> CloudProject \<Rightarrow> string \<Rightarrow> CloudResourceDescriptor \<Rightarrow> CloudObjectUploadRequest" where
  "upload_request u p clientProjectID r =
     \<lparr>ur_ObjectKey = objectKeyFor (us_ID u) clientProjectID r, ur_ContentType = rd_ContentType r,
      ur_SizeBytes = rd_SizeBytes r, ur_ContentHash = rd_ContentHash r,
      ur_LifecycleTags = cloudObjectLifecycleTags (us_ID u) (cp_ID p) clientProjectID r\<rparr>"

definition AuthorizeSync :: "cloud_service \<Rightarrow> CloudSyncAuthorizationInput \<Rightarrow> CloudSyncAuthorization service" where
  "AuthorizeSync s i =
     andThen (requireConfiguredProvider s) (\<lambda>_.
     andThen (of_sum (normalizeCloudResources (ya_Resources i))) (\<lambda>resources.
     andThen (authorizeCloudAccess s (ya_UserID i)) (\<lambda>(u, quota, used).
     andThen (ensureProject (us_ID u) (ya_ClientProjectID i) (ya_ProjectName i)) (\<lambda>p.
     andThen (projectedUsageForResources (cp_ID p) used resources) (\<lambda>projected.
     andThen (reject_if (qd_QuotaBytes quota < projected) ErrCloudStorageOverQuota) (\<lambda>_.
     andThen (for_each resources (\<lambda>r targets.
        andThen (os_BuildUploadTarget (cv_provider s) (upload_request u p (ya_ClientProjectID i) r)) (\<lambda>t.
        ret (targets @ [t]))) []) (\<lambda>targets.
     andThen (generateEntityID ''csy_'') (\<lambda>sessionID.
     andThen time_now (\<lambda>now.
     andThen (cloudResourceFingerprint resources) (\<lambda>fingerprint.
     let expiresAt = now + 900 * second_ns;
         session = \<lparr>cs_ID = sessionID, cs_UserID = us_ID u, cs_CloudProjectID = cp_ID p,
           cs_ClientProjectID = trim_space (ya_ClientProjectID i), cs_Provider = os_ProviderID (cv_provider s),
           cs_ResourceFingerprint = fingerprint, cs_RequestedBytes = sumResourceBytes resources,
           cs_UsedBytes = used, cs_QuotaBytes = qd_QuotaBytes quota, cs_Status = CloudSyncSessionStatusAuthorized,
           cs_ManifestID = [], cs_ExpiresAt = expiresAt, cs_CreatedAt = now, cs_UpdatedAt = now,
           cs_CommittedAt = None\<rparr>
     in andThen (CloudSyncSessionRepo_Create session) (\<lambda>_.
        ret \<lparr>au_ID = sessionID, au_UserID = us_ID u, au_CloudProjectID = cp_ID p,
             au_ClientProjectID = trim_space (ya_ClientProjectID i), au_Provider = os_ProviderID (cv_provider s),
             au_QuotaBytes = qd_QuotaBytes quota, au_UsedBytes = used,
             au_RequestedBytes = sumResourceBytes resources,
             au_UploadTargets = sort_key ut_ObjectKey targets, au_ExpiresAt = expiresAt\<rparr>)))))))))))"

section \<open>Commit\<close>

definition validateCloudSyncSession ::
  "string \<Rightarrow> string \<Rightarrow> string \<Rightarrow> string \<Rightarrow> CloudResourceDescriptor list \<Rightarrow> CloudSyncSession service" where
  "validateCloudSyncSession sessionID userID clientProjectID provider resources =
     andThen (not_found_as ErrCloudSyncSessionNotFound (CloudSyncSessionRepo_GetByID (trim_space sessionID))) (\<lambda>x.
     andThen (reject_if (cs_UserID x \<noteq> userID \<or> cs_ClientProjectID x \<noteq> trim_space clientProjectID
        \<or> cs_Provider x \<noteq> provider) ErrInvalidCloudStorage) (\<lambda>_.
     andThen (reject_if (cs_Status x = CloudSyncSessionStatusCommitted \<or> trim_space (cs_ManifestID x) \<noteq> [])
        ErrCloudSyncSessionAlreadyCommitted) (\<lambda>_.
     andThen (reject_if (cs_Status x \<noteq> [] \<and> cs_Status x \<noteq> CloudSyncSessionStatusAuthorized)
        ErrInvalidCloudStorage) (\<lambda>_.
     andThen time_now (\<lambda>now.
     if cs_ExpiresAt x < now
     then andThen time_now (\<lambda>now2.
          andThen (attempt (CloudSyncSessionRepo_Update (x\<lparr>cs_Status := CloudSyncSessionStatusExpired,
            cs_UpdatedAt := now2\<rparr>))) (\<lambda>_. fail ErrCloudSyncSessionExpired))
     else andThen (cloudResourceFingerprint resources) (\<lambda>fingerprint.
          andThen (reject_if (cs_ResourceFingerprint x \<noteq> fingerprint
             \<or> cs_RequestedBytes x \<noteq> sumResourceBytes resources) ErrInvalidCloudStorage) (\<lambda>_.
          ret x)))))))"

definition authorizedCommitSession ::
  "cloud_service \<Rightarrow> string \<Rightarrow> CloudManifestCommitInput \<Rightarrow> CloudResourceDescriptor list
     \<Rightarrow> (CloudSyncSession \<times> CloudProject) service" where
  "authorizedCommitSession s userID i resources =
     andThen (validateCloudSyncSession (mi_SyncSessionID i) userID (trim_space (mi_ClientProjectID i))
       (os_ProviderID (cv_provider s)) resources) (\<lambda>session.
     andThen (not_found_as ErrCloudProjectNotFound (CloudProjectRepo_GetByID (cs_CloudProjectID session))) (\<lambda>p.
     andThen (reject_if (cp_UserID p \<noteq> userID \<or> cp_ClientProjectID p \<noteq> trim_space (mi_ClientProjectID i))
       ErrInvalidCloudStorage) (\<lambda>_.
     ret (session, p))))"

definition new_manifest ::
  "string \<Rightarrow> User \<Rightarrow> CloudProject \<Rightarrow> CloudManifestCommitInput \<Rightarrow> CloudResourceDescriptor list \<Rightarrow> instant \<Rightarrow> CloudManifest" where
  "new_manifest manifestID u p i resources now =
     \<lparr>cm_ID = manifestID, cm_UserID = us_ID u, cm_CloudProjectID = cp_ID p,
      cm_ClientProjectID = trim_space (mi_ClientProjectID i), cm_ManifestHash = trim_space (mi_ManifestHash i),
      cm_ManifestVersion = (if mi_ManifestVersion i \<le> 0 then 1 else mi_ManifestVersion i),
      cm_ObjectCount = int (length resources), cm_TotalBytes = sumResourceBytes resources,
      cm_Status = CloudManifestStatusCommitted, cm_SyncSessionID = trim_space (mi_SyncSessionID i),
      cm_IdempotencyKey = trim_space (mi_IdempotencyKey i), cm_CreatedAt = now, cm_CommittedAt = Some now\<rparr>"

definition new_object ::
  "string \<Rightarrow> User \<Rightarrow> CloudProject \<Rightarrow> CloudManifestCommitInput \<Rightarrow> string \<Rightarrow> CloudResourceDescriptor \<Rightarrow> instant \<Rightarrow> CloudObject" where
  "new_object objectID u p i manifestID r now =
     \<lparr>co_ID = objectID, co_UserID = us_ID u, co_CloudProjectID = cp_ID p,
      co_ClientProjectID = trim_space (mi_ClientProjectID i), co_ManifestID = manifestID,
      co_ResourceID = rd_ResourceID r, co_ResourceKind = rd_ResourceKind r,
      co_ObjectKey = objectKeyFor (us_ID u) (mi_ClientProjectID i) r, co_ContentHash = rd_ContentHash r,
      co_SizeBytes = rd_SizeBytes r, co_ContentType = rd_ContentType r, co_Status = CloudObjectStatusActive,
      co_CreatedAt = now, co_UpdatedAt = now\<rparr>"

definition store_resource ::
  "User \<Rightarrow> CloudProject \<Rightarrow> CloudManifestCommitInput \<Rightarrow> string \<Rightarrow> instant \<Rightarrow> CloudResourceDescriptor \<Rightarrow> unit service" where
  "store_resource u p i manifestID now r =
     andThen (generateEntityID ''cob_'') (\<lambda>objectID.
     CloudObjectRepo_Upsert (new_object objectID u p i manifestID r now))"

definition retire_object :: "string list \<Rightarrow> instant \<Rightarrow> CloudObject \<Rightarrow> unit service" where
  "retire_object keep now x =
     (if co_ObjectKey x \<in> set keep then ret ()
      else CloudObjectRepo_Update (x\<lparr>co_Status := CloudObjectStatusReplaced, co_UpdatedAt := now\<rparr>))"

definition write_manifest ::
  "User \<Rightarrow> CloudManifestCommitInput \<Rightarrow> CloudResourceDescriptor list \<Rightarrow> CloudSyncSession \<Rightarrow> CloudProject
     \<Rightarrow> CloudObject list \<Rightarrow> (CloudProject \<times> CloudManifest) service" where
  "write_manifest u i resources session p existing =
     andThen time_now (\<lambda>now.
     andThen (generateEntityID ''cmf_'') (\<lambda>manifestID.
     let manifest = new_manifest manifestID u p i resources now;
         keep = List.map (objectKeyFor (us_ID u) (mi_ClientProjectID i)) resources
     in andThen (CloudManifestRepo_Create manifest) (\<lambda>_.
        andThen (for_each resources (\<lambda>r _. store_resource u p i manifestID now r) ()) (\<lambda>_.
        andThen (for_each existing (\<lambda>x _. retire_object keep now x) ()) (\<lambda>_.
        let p' = p\<lparr>cp_LastManifestID := manifestID, cp_UpdatedAt := now\<rparr>
        in andThen (CloudProjectRepo_Update p') (\<lambda>_.
           andThen (CloudSyncSessionRepo_Update (session\<lparr>cs_Status := CloudSyncSessionStatusCommitted,
             cs_ManifestID := manifestID, cs_UpdatedAt := now, cs_CommittedAt := Some now\<rparr>)) (\<lambda>_.
           ret (p', manifest))))))))"

definition commitWithRepos ::
  "cloud_service \<Rightarrow> User \<Rightarrow> CloudStorageQuotaDecision \<Rightarrow> int \<Rightarrow> CloudManifestCommitInput
     \<Rightarrow> CloudResourceDescriptor list \<Rightarrow> CloudManifestCommitResult service" where
  "commitWithRepos s u quota used i resources =
     andThen (authorizedCommitSession s (us_ID u) i resources) (\<lambda>(session, p0).
     andThen (renamed_project p0 (mi_ProjectName i)) (\<lambda>p.
     andThen (CloudObjectRepo_ListByProject (cp_ID p) CloudObjectStatusActive) (\<lambda>existing.
     let projected = projected_usage used existing resources
     in andThen (reject_if (qd_QuotaBytes quota < projected) ErrCloudStorageOverQuota) (\<lambda>_.
        andThen (write_manifest u i resources session p existing) (\<lambda>(p', manifest).
        ret \<lparr>mr_Project = p', mr_Manifest = manifest,
             mr_Usage = usageFor (us_ID u) (qd_Plan quota) projected (qd_QuotaBytes quota)\<rparr>)))))"

definition commitWithTransaction ::
  "cloud_service \<Rightarrow> User \<Rightarrow> CloudStorageQuotaDecision \<Rightarrow> int \<Rightarrow> CloudManifestCommitInput
     \<Rightarrow> CloudResourceDescriptor list \<Rightarrow> CloudManifestCommitResult service" where
  "commitWithTransaction s u quota used i resources =
     (if cv_uow s then in_transaction (commitWithRepos s u quota used i resources)
      else commitWithRepos s u quota used i resources)"

definition replay_commit :: "cloud_service \<Rightarrow> User \<Rightarrow> CloudManifestCommitInput \<Rightarrow> CloudManifest \<Rightarrow> CloudManifestCommitResult service" where
  "replay_commit s u i m =
     andThen (reject_if (cm_UserID m \<noteq> us_ID u \<or> trim_space (cm_SyncSessionID m) \<noteq> []
        \<and> cm_SyncSessionID m \<noteq> trim_space (mi_SyncSessionID i)) ErrInvalidCloudStorage) (\<lambda>_.
     andThen (CloudProjectRepo_GetByID (cm_CloudProjectID m)) (\<lambda>p.
     andThen (Usage s (us_ID u)) (\<lambda>usage.
     ret \<lparr>mr_Project = p, mr_Manifest = m, mr_Usage = usage\<rparr>)))"

definition CommitManifest :: "cloud_service \<Rightarrow> CloudManifestCommitInput \<Rightarrow> CloudManifestCommitResult service" where
  "CommitManifest s i =
     andThen (requireConfiguredProvider s) (\<lambda>_.
     andThen (of_sum (normalizeCloudResources (mi_Resources i))) (\<lambda>resources.
     andThen (reject_if (trim_space (mi_IdempotencyKey i) = [] \<or> trim_space (mi_ManifestHash i) = []
        \<or> trim_space (mi_SyncSessionID i) = []) ErrInvalidCloudStorage) (\<lambda>_.
     andThen (authorizeCloudAccess s (mi_UserID i)) (\<lambda>(u, quota, used).
     if_found (CloudManifestRepo_GetByIdempotencyKey (trim_space (mi_IdempotencyKey i)))
       (replay_commit s u i)
       (commitWithTransaction s u quota used i resources)))))"

section \<open>Reading\<close>

record CloudManifestSummary =
  ms_ID :: string
  ms_ManifestHash :: string
  ms_ManifestVersion :: int
  ms_ObjectCount :: int
  ms_TotalBytes :: int
  ms_Status :: string
  ms_CommittedAt :: "instant option"
  ms_CreatedAt :: instant

record CloudObjectSummary =
  ob_ResourceID :: string
  ob_ResourceKind :: string
  ob_ObjectKey :: string
  ob_ContentHash :: string
  ob_SizeBytes :: int
  ob_ContentType :: string
  ob_Status :: string

record CloudStorageProjectSummary =
  py_ID :: string
  py_ClientProjectID :: string
  py_Name :: string
  py_Status :: string
  py_LastManifestID :: string
  py_UpdatedAt :: instant
  py_LatestManifest :: "CloudManifestSummary option"

record CloudStorageProjectQuery =
  yq_UserID :: string
  yq_Status :: string
  yq_Limit :: int
  yq_Offset :: int

record CloudStorageLatestManifestQuery =
  mq_UserID :: string
  mq_CloudProjectID :: string
  mq_ClientProjectID :: string

record CloudDownloadTargetInput =
  di_UserID :: string
  di_CloudProjectID :: string
  di_ClientProjectID :: string
  di_ObjectKey :: string

record CloudDownloadTargetAuthorization =
  da_UserID :: string
  da_CloudProjectID :: string
  da_ClientProjectID :: string
  da_Object :: CloudObjectSummary
  da_DownloadTarget :: CloudObjectDownloadTarget

definition cloudManifestSummary :: "CloudManifest \<Rightarrow> CloudManifestSummary" where
  "cloudManifestSummary m =
     \<lparr>ms_ID = cm_ID m, ms_ManifestHash = cm_ManifestHash m, ms_ManifestVersion = cm_ManifestVersion m,
      ms_ObjectCount = cm_ObjectCount m, ms_TotalBytes = cm_TotalBytes m, ms_Status = cm_Status m,
      ms_CommittedAt = cm_CommittedAt m, ms_CreatedAt = cm_CreatedAt m\<rparr>"

definition cloudObjectSummary :: "CloudObject \<Rightarrow> CloudObjectSummary" where
  "cloudObjectSummary x =
     \<lparr>ob_ResourceID = co_ResourceID x, ob_ResourceKind = co_ResourceKind x, ob_ObjectKey = co_ObjectKey x,
      ob_ContentHash = co_ContentHash x, ob_SizeBytes = co_SizeBytes x, ob_ContentType = co_ContentType x,
      ob_Status = co_Status x\<rparr>"

definition cloudObjectSummaries :: "CloudObject list \<Rightarrow> CloudObjectSummary list" where
  "cloudObjectSummaries t =
     sort_key (\<lambda>x. (ob_ResourceKind x, ob_ResourceID x)) (List.map cloudObjectSummary t)"

definition cloudStorageProjectSummary :: "CloudProject \<Rightarrow> CloudManifest option \<Rightarrow> CloudStorageProjectSummary" where
  "cloudStorageProjectSummary p m =
     \<lparr>py_ID = cp_ID p, py_ClientProjectID = cp_ClientProjectID p, py_Name = cp_Name p, py_Status = cp_Status p,
      py_LastManifestID = cp_LastManifestID p, py_UpdatedAt = cp_UpdatedAt p,
      py_LatestManifest = map_option cloudManifestSummary m\<rparr>"

definition entitled_user :: "cloud_service \<Rightarrow> string \<Rightarrow> User service" where
  "entitled_user s userID =
     andThen (loadActiveUser userID) (\<lambda>u.
     andThen (cloudStorageQuotaDecision s u) (\<lambda>quota.
     andThen (reject_if (\<not> qd_HasEntitlement quota) ErrCloudStorageAccessDenied) (\<lambda>_. ret u)))"

definition project_summary :: "CloudProject \<Rightarrow> CloudStorageProjectSummary service" where
  "project_summary p =
     (if trim_space (cp_LastManifestID p) = [] then ret (cloudStorageProjectSummary p None)
      else if_found (CloudManifestRepo_GetByID (cp_LastManifestID p))
             (\<lambda>m. ret (cloudStorageProjectSummary p (Some m)))
             (ret (cloudStorageProjectSummary p None)))"

definition ListProjects ::
  "cloud_service \<Rightarrow> CloudStorageProjectQuery \<Rightarrow> (string \<times> CloudStorageProjectSummary list) service" where
  "ListProjects s q =
     andThen (entitled_user s (yq_UserID q)) (\<lambda>u.
     let limit = (if yq_Limit q \<le> 0 \<or> 100 < yq_Limit q then 50 else yq_Limit q);
         offset = (if yq_Offset q < 0 then 0 else yq_Offset q)
     in andThen (CloudProjectRepo_ListByUser (us_ID u) (trim_space (yq_Status q)) limit offset) (\<lambda>projects.
        andThen (for_each projects (\<lambda>p acc. andThen (project_summary p) (\<lambda>x. ret (acc @ [x]))) []) (\<lambda>summaries.
        ret (us_ID u, summaries))))"

definition projectForLatestManifest :: "string \<Rightarrow> string \<Rightarrow> string \<Rightarrow> CloudProject service" where
  "projectForLatestManifest userID cloudProjectID0 clientProjectID0 =
     (let cloudProjectID = trim_space cloudProjectID0; clientProjectID = trim_space clientProjectID0
      in if cloudProjectID \<noteq> []
         then andThen (not_found_as ErrCloudProjectNotFound (CloudProjectRepo_GetByID cloudProjectID)) (\<lambda>p.
              andThen (reject_if (cp_UserID p \<noteq> userID) ErrCloudProjectNotFound) (\<lambda>_. ret p))
         else andThen (reject_if (clientProjectID = []) ErrInvalidCloudStorage) (\<lambda>_.
              not_found_as ErrCloudProjectNotFound
                (CloudProjectRepo_GetByUserAndClientProject userID clientProjectID)))"

record CloudStorageLatestManifest =
  la_Project :: CloudStorageProjectSummary
  la_Manifest :: "CloudManifestSummary option"
  la_Objects :: "CloudObjectSummary list"

definition latest_manifest_of :: "CloudProject \<Rightarrow> CloudManifest option \<Rightarrow> CloudStorageLatestManifest service" where
  "latest_manifest_of p m =
     andThen (CloudObjectRepo_ListByProject (cp_ID p) CloudObjectStatusActive) (\<lambda>t.
     ret \<lparr>la_Project = cloudStorageProjectSummary p m, la_Manifest = map_option cloudManifestSummary m,
          la_Objects = cloudObjectSummaries t\<rparr>)"

definition LatestManifest :: "cloud_service \<Rightarrow> CloudStorageLatestManifestQuery \<Rightarrow> CloudStorageLatestManifest service" where
  "LatestManifest s q =
     andThen (entitled_user s (mq_UserID q)) (\<lambda>u.
     andThen (projectForLatestManifest (us_ID u) (mq_CloudProjectID q) (mq_ClientProjectID q)) (\<lambda>p.
     if trim_space (cp_LastManifestID p) \<noteq> []
     then if_found (CloudManifestRepo_GetByID (cp_LastManifestID p)) (\<lambda>m. latest_manifest_of p (Some m))
            (ret \<lparr>la_Project = cloudStorageProjectSummary p None, la_Manifest = None, la_Objects = []\<rparr>)
     else andThen (CloudManifestRepo_ListByProject (cp_ID p) 1 0) (\<lambda>ms.
          latest_manifest_of p (case ms of [] \<Rightarrow> None | m # _ \<Rightarrow> Some m))))"

definition BuildDownloadTarget ::
  "cloud_service \<Rightarrow> CloudDownloadTargetInput \<Rightarrow> CloudDownloadTargetAuthorization service" where
  "BuildDownloadTarget s i =
     andThen (requireConfiguredProvider s) (\<lambda>_.
     andThen (entitled_user s (di_UserID i)) (\<lambda>u.
     andThen (reject_if (trim_space (di_ObjectKey i) = []) ErrInvalidCloudStorage) (\<lambda>_.
     andThen (not_found_as ErrCloudProjectNotFound (CloudObjectRepo_GetByObjectKey (trim_space (di_ObjectKey i)))) (\<lambda>x.
     andThen (reject_if (co_UserID x \<noteq> us_ID u \<or> co_Status x \<noteq> CloudObjectStatusActive) ErrCloudProjectNotFound) (\<lambda>_.
     andThen (projectForLatestManifest (us_ID u) (firstNonEmptyString [di_CloudProjectID i, co_CloudProjectID x])
       (firstNonEmptyString [di_ClientProjectID i, co_ClientProjectID x])) (\<lambda>p.
     andThen (reject_if (co_CloudProjectID x \<noteq> cp_ID p) ErrCloudProjectNotFound) (\<lambda>_.
     andThen (os_BuildDownloadTarget (cv_provider s) (co_ObjectKey x)) (\<lambda>t.
     ret \<lparr>da_UserID = us_ID u, da_CloudProjectID = cp_ID p, da_ClientProjectID = cp_ClientProjectID p,
          da_Object = cloudObjectSummary x, da_DownloadTarget = t\<rparr>))))))))"

end
