(* ===== verification/Cloud_Theorems.thy ===== *)
theory Cloud_Theorems
  imports Cloud_Storage Sample_World
begin

text \<open>
  Cloud storage stays within its quota.  The tables keep an invariant: objects have unique ids and
  keys and no negative sizes, and belong to the user of their project.  From it a commit leaves
  the user with at most the bytes it reports, which are at most the quota; its session is then
  spent.  The names that object keys are made of are safe path segments.
\<close>

section \<open>Upserts\<close>

lemma upsert_cases:
  assumes "upsert_object x t = Some t'"
  obtains "\<forall>y\<in>set t. co_ID y \<noteq> co_ID x" "\<forall>y\<in>set t. co_ObjectKey y \<noteq> co_ObjectKey x" "t' = t @ [x]"
  | "\<forall>y\<in>set t. co_ID y \<noteq> co_ID x"
    "t' = List.map (\<lambda>y. if co_ObjectKey y = co_ObjectKey x then upserted x y else y) t"
  using assms by (auto simp: upsert_object_def split: if_splits)

lemma upserted_simps [simp]:
  "co_ID (upserted x y) = co_ID y" "co_ObjectKey (upserted x y) = co_ObjectKey y"
  "co_UserID (upserted x y) = co_UserID y" "co_CloudProjectID (upserted x y) = co_CloudProjectID y"
  "co_SizeBytes (upserted x y) = co_SizeBytes x" "co_Status (upserted x y) = co_Status x"
  by (simp_all add: upserted_def)

lemma table_ok_map:
  assumes "table_ok clash t" "\<And>x y. clash (f x) (f y) \<longleftrightarrow> clash x y"
  shows "table_ok clash (List.map f t)"
  using assms by (simp add: table_ok_def sorted_wrt_map)

lemma upsert_ok:
  assumes "table_ok object_clash t" "upsert_object x t = Some t'"
  shows "table_ok object_clash t'"
  using assms(2)
proof (cases rule: upsert_cases)
  case 1
  then show ?thesis using assms(1)
    by (auto simp: table_ok_def sorted_wrt_append object_clash_def)
next
  case 2
  then show ?thesis unfolding 2(2) by (intro table_ok_map [OF assms(1)]) (auto simp: object_clash_def)
qed

lemma upsert_others:
  assumes "upsert_object x t = Some t'"
  shows "List.filter (\<lambda>y. co_ObjectKey y \<noteq> co_ObjectKey x) t' = List.filter (\<lambda>y. co_ObjectKey y \<noteq> co_ObjectKey x) t"
  using assms
proof (cases rule: upsert_cases)
  case 2
  show ?thesis unfolding 2(2) by (induction t) auto
qed simp

text \<open>The key of the upserted object then holds at most its size.\<close>

lemma upsert_same:
  assumes "table_ok object_clash t" "upsert_object x t = Some t'" "0 \<le> co_SizeBytes x"
  shows "sum_rows (\<lambda>y. co_ObjectKey y = co_ObjectKey x) co_SizeBytes t' \<le> co_SizeBytes x"
  using assms(2)
proof (cases rule: upsert_cases)
  case 1
  then have "sum_rows (\<lambda>y. co_ObjectKey y = co_ObjectKey x) co_SizeBytes t = 0"
    by (intro sum_rows_zero) auto
  with 1 show ?thesis by simp
next
  case 2
  have "sum_rows (\<lambda>y. co_ObjectKey y = k) co_SizeBytes
      (List.map (\<lambda>y. if co_ObjectKey y = co_ObjectKey x then upserted x y else y) t) \<le> co_SizeBytes x"
    if "table_ok object_clash t" "k = co_ObjectKey x" for t k
    using that
  proof (induction t)
    case (Cons y t)
    show ?case
    proof (cases "co_ObjectKey y = co_ObjectKey x")
      case True
      with Cons.prems have "\<forall>z\<in>set t. co_ObjectKey z \<noteq> k"
        by (auto simp: table_ok_def object_clash_def)
      then have "sum_rows (\<lambda>y. co_ObjectKey y = k) co_SizeBytes
          (List.map (\<lambda>y. if co_ObjectKey y = co_ObjectKey x then upserted x y else y) t) = 0"
        by (intro sum_rows_zero) auto
      with True Cons.prems show ?thesis by simp
    next
      case False
      with Cons show ?thesis by (simp add: table_ok_def)
    qed
  qed (simp add: assms(3))
  from this [OF assms(1) refl] show ?thesis unfolding 2(2) .
qed

lemma sum_rows_kept: "sum_rows p f t = sum_rows p f (List.filter p t)"
  by (induction t) auto

lemma sum_rows_split:
  "sum_rows p f t = sum_rows (\<lambda>y. p y \<and> q y) f t + sum_rows (\<lambda>y. p y \<and> \<not> q y) f t"
  by (induction t) auto

lemma sum_rows_mono:
  "(\<And>y. y \<in> set t \<Longrightarrow> p y \<Longrightarrow> q y) \<Longrightarrow> (\<And>y. y \<in> set t \<Longrightarrow> 0 \<le> f y) \<Longrightarrow> sum_rows p f t \<le> sum_rows q f t"
  by (induction t) (auto intro: add_mono simp: add_increasing)

lemma sum_rows_same:
  assumes "List.filter q t' = List.filter q t" "\<And>y. p y \<Longrightarrow> q y"
  shows "sum_rows p f t' = sum_rows p f t"
proof -
  have "sum_rows p f t = sum_rows p f (List.filter q t)" for t
    using assms(2) by (induction t) auto
  from this [of t] this [of t'] assms(1) show ?thesis by simp
qed

text \<open>The owner of an object: its user and project.\<close>

definition owner :: "CloudObject \<Rightarrow> string \<times> string" where
  "owner y = (co_UserID y, co_CloudProjectID y)"

lemma owner_upserted [simp]: "owner (upserted x y) = owner y"
  by (simp add: owner_def)

definition sized :: "CloudObject list \<Rightarrow> bool" where
  "sized t \<longleftrightarrow> table_ok object_clash t \<and> (\<forall>y\<in>set t. 0 \<le> co_SizeBytes y)"

text \<open>A table whose objects under the keys \<open>K\<close> were rewritten with sizes of at most \<open>S\<close> in total.\<close>

definition rewritten :: "string \<times> string \<Rightarrow> string set \<Rightarrow> int \<Rightarrow> CloudObject list \<Rightarrow> CloudObject list \<Rightarrow> bool" where
  "rewritten z K S t t' \<longleftrightarrow> sized t' \<and> owner ` set t' \<subseteq> insert z (owner ` set t)
     \<and> List.filter (\<lambda>y. co_ObjectKey y \<notin> K) t' = List.filter (\<lambda>y. co_ObjectKey y \<notin> K) t
     \<and> sum_rows (\<lambda>y. co_ObjectKey y \<in> K) co_SizeBytes t' \<le> S"

lemma rewritten_upsert:
  assumes "sized t" "upsert_object x t = Some t'" "0 \<le> co_SizeBytes x"
  shows "rewritten (owner x) {co_ObjectKey x} (co_SizeBytes x) t t'"
proof -
  have ok: "table_ok object_clash t" using assms(1) by (simp add: sized_def)
  have "(\<forall>y\<in>set t'. 0 \<le> co_SizeBytes y) \<and> owner ` set t' \<subseteq> insert (owner x) (owner ` set t)"
    using assms(2)
  proof (cases rule: upsert_cases)
    case 1
    with assms(1,3) show ?thesis by (auto simp: sized_def)
  next
    case 2
    with assms(1,3) show ?thesis by (auto simp: sized_def split: if_splits)
  qed
  with upsert_ok [OF ok assms(2)] upsert_others [OF assms(2)] upsert_same [OF ok assms(2,3)]
  show ?thesis by (simp add: rewritten_def sized_def)
qed

lemma rewritten_trans:
  assumes "rewritten z {k} n t t1" "rewritten z K S t1 t2" "0 \<le> n"
  shows "rewritten z (insert k K) (n + S) t t2"
proof -
  let ?key = "\<lambda>y. co_ObjectKey y"
  have f1: "List.filter (\<lambda>y. ?key y \<notin> {k}) t1 = List.filter (\<lambda>y. ?key y \<notin> {k}) t"
    and f2: "List.filter (\<lambda>y. ?key y \<notin> K) t2 = List.filter (\<lambda>y. ?key y \<notin> K) t1"
    using assms(1,2) by (simp_all add: rewritten_def)
  have eq: "List.filter (\<lambda>y. ?key y \<notin> insert k K) ys = List.filter (\<lambda>y. ?key y \<notin> K) (List.filter (\<lambda>y. ?key y \<notin> {k}) ys)"
    "List.filter (\<lambda>y. ?key y \<notin> insert k K) ys = List.filter (\<lambda>y. ?key y \<notin> {k}) (List.filter (\<lambda>y. ?key y \<notin> K) ys)"
    for ys by (auto simp: filter_filter intro: filter_cong)
  have "List.filter (\<lambda>y. ?key y \<notin> insert k K) t2 = List.filter (\<lambda>y. ?key y \<notin> insert k K) t1"
    unfolding eq(2) f2 ..
  also have "\<dots> = List.filter (\<lambda>y. ?key y \<notin> insert k K) t" unfolding eq(1) f1 ..
  finally have same: "List.filter (\<lambda>y. ?key y \<notin> insert k K) t2 = List.filter (\<lambda>y. ?key y \<notin> insert k K) t" .
  have "sum_rows (\<lambda>y. ?key y \<in> insert k K) co_SizeBytes t2
      = sum_rows (\<lambda>y. ?key y \<in> insert k K \<and> ?key y \<in> K) co_SizeBytes t2
        + sum_rows (\<lambda>y. ?key y \<in> insert k K \<and> ?key y \<notin> K) co_SizeBytes t2"
    by (rule sum_rows_split)
  moreover have "sum_rows (\<lambda>y. ?key y \<in> insert k K \<and> ?key y \<in> K) co_SizeBytes t2 \<le> S"
    using assms(2) by (auto simp: rewritten_def elim!: order_trans [rotated] intro!: sum_rows_mono simp: sized_def)
  moreover have "sum_rows (\<lambda>y. ?key y \<in> insert k K \<and> ?key y \<notin> K) co_SizeBytes t2
      = sum_rows (\<lambda>y. ?key y \<in> insert k K \<and> ?key y \<notin> K) co_SizeBytes t1"
    by (rule sum_rows_same [OF f2]) simp
  moreover have "sum_rows (\<lambda>y. ?key y \<in> insert k K \<and> ?key y \<notin> K) co_SizeBytes t1
      \<le> sum_rows (\<lambda>y. ?key y \<in> {k}) co_SizeBytes t1"
    using assms(1) by (intro sum_rows_mono) (auto simp: rewritten_def sized_def)
  ultimately have "sum_rows (\<lambda>y. ?key y \<in> insert k K) co_SizeBytes t2 \<le> n + S"
    using assms(1) by (simp add: rewritten_def)
  moreover have "owner ` set t2 \<subseteq> insert z (owner ` set t)"
    using assms(1,2) unfolding rewritten_def by blast
  ultimately show ?thesis using same assms(2) by (simp add: rewritten_def)
qed

lemma rewritten_refl: "sized t \<Longrightarrow> rewritten z {} 0 t t"
  by (auto simp: rewritten_def sum_rows_zero)

lemma wlp_store_resource:
  assumes "\<And>j t. upsert_object (new_object j u p i manifestID r now) (tb_objects d) = Some t \<Longrightarrow> Q () (d\<lparr>tb_objects := t\<rparr>)"
  shows "wlp (store_resource u p i manifestID now r) Q d"
  unfolding store_resource_def CloudObjectRepo_Upsert_def
  by (intro wlp_andThen wlp_generateEntityID wlp_db_write) (auto intro: assms)

lemma wlp_store_resources:
  assumes "sized (tb_objects d)" "\<forall>r\<in>set rs. 0 \<le> rd_SizeBytes r"
  shows "wlp (for_each rs (\<lambda>r _. store_resource u p i manifestID now r) ())
    (\<lambda>_ d'. \<exists>t. d' = d\<lparr>tb_objects := t\<rparr>
       \<and> rewritten (us_ID u, cp_ID p) (objectKeyFor (us_ID u) (mi_ClientProjectID i) ` set rs)
           (sum_list (List.map rd_SizeBytes rs)) (tb_objects d) t) d"
  using assms
proof (induction rs arbitrary: d)
  case Nil
  then show ?case by (auto intro!: wlp_ret rewritten_refl exI [of _ "tb_objects d"])
next
  case (Cons r rs)
  let ?K = "objectKeyFor (us_ID u) (mi_ClientProjectID i)"
  have step: "wlp (for_each rs (\<lambda>r _. store_resource u p i manifestID now r) ())
      (\<lambda>_ d'. \<exists>t. d' = d\<lparr>tb_objects := t\<rparr> \<and> rewritten (us_ID u, cp_ID p) (?K ` set (r # rs))
           (sum_list (List.map rd_SizeBytes (r # rs))) (tb_objects d) t) (d\<lparr>tb_objects := t1\<rparr>)"
    if "upsert_object (new_object j u p i manifestID r now) (tb_objects d) = Some t1" for j t1
  proof -
    have one: "rewritten (us_ID u, cp_ID p) {?K r} (rd_SizeBytes r) (tb_objects d) t1"
      using rewritten_upsert [OF Cons.prems(1) that] Cons.prems(2) by (simp add: new_object_def owner_def)
    then have "sized (tb_objects (d\<lparr>tb_objects := t1\<rparr>))" by (simp add: rewritten_def)
    with Cons.IH [of "d\<lparr>tb_objects := t1\<rparr>"] Cons.prems(2)
    show ?thesis by (auto elim!: wlp_mono intro: rewritten_trans [OF one])
  qed
  show ?case
    unfolding for_each.simps by (rule wlp_andThen, rule wlp_store_resource, rule step)
qed

section \<open>Retired objects\<close>

text \<open>The objects of \<open>E\<close> outside \<open>keep\<close> are replaced, the others are as they were.\<close>

definition retired :: "string set \<Rightarrow> CloudObject list \<Rightarrow> CloudObject list \<Rightarrow> CloudObject list \<Rightarrow> bool" where
  "retired keep E t t' \<longleftrightarrow> sized t' \<and> owner ` set t' \<subseteq> owner ` set t
     \<and> (let X = co_ID ` {x\<in>set E. co_ObjectKey x \<notin> keep}
        in List.filter (\<lambda>y. co_ID y \<notin> X) t' = List.filter (\<lambda>y. co_ID y \<notin> X) t
           \<and> (\<forall>y\<in>set t'. co_ID y \<in> X \<longrightarrow> co_Status y \<noteq> CloudObjectStatusActive \<and> co_ObjectKey y \<notin> keep))"

lemma filter_replace_row: "List.filter (\<lambda>y. key y \<noteq> key r) (replace_row key r t) = List.filter (\<lambda>y. key y \<noteq> key r) t"
  by (induction t) (auto simp: replace_row_def)

lemma retire_one:
  assumes "sized t" "x \<in> set t" "save_row co_ID object_clash (x\<lparr>co_Status := CloudObjectStatusReplaced, co_UpdatedAt := now\<rparr>) t = Some t'"
  shows "sized t'" "owner ` set t' \<subseteq> owner ` set t"
    "List.filter (\<lambda>y. co_ID y \<noteq> co_ID x) t' = List.filter (\<lambda>y. co_ID y \<noteq> co_ID x) t"
    "\<And>y. y \<in> set t' \<Longrightarrow> co_ID y = co_ID x \<Longrightarrow> y = x\<lparr>co_Status := CloudObjectStatusReplaced, co_UpdatedAt := now\<rparr>"
    "\<And>y. y \<in> set t \<Longrightarrow> co_ID y \<noteq> co_ID x \<Longrightarrow> y \<in> set t'"
proof -
  let ?y = "x\<lparr>co_Status := CloudObjectStatusReplaced, co_UpdatedAt := now\<rparr>"
  have ok: "table_ok object_clash t" using assms(1) by (simp add: sized_def)
  have t': "t' = replace_row co_ID ?y t"
    using objects.save_row_Some [OF assms(3)] objects.find_row_member [OF ok assms(2)] by simp
  show "sized t'"
    using objects.save_ok [OF ok assms(3)] assms(1,2) unfolding sized_def t'
    by (auto simp: replace_row_def)
  show "owner ` set t' \<subseteq> owner ` set t"
    unfolding t' using assms(2) by (auto simp: replace_row_def owner_def)
  show "List.filter (\<lambda>y. co_ID y \<noteq> co_ID x) t' = List.filter (\<lambda>y. co_ID y \<noteq> co_ID x) t"
    unfolding t' using filter_replace_row [of co_ID ?y t] by simp
  show "y = ?y" if "y \<in> set t'" "co_ID y = co_ID x" for y
    using that unfolding t' by (auto elim: replace_rowE)
  show "y \<in> set t'" if "y \<in> set t" "co_ID y \<noteq> co_ID x" for y
    unfolding t' using that by (intro replace_row_other) auto
qed

lemma retired_Cons:
  assumes t: "sized t" "x \<in> set t" "co_ObjectKey x \<notin> keep" "co_ID x \<notin> co_ID ` set E"
    and save: "save_row co_ID object_clash (x\<lparr>co_Status := CloudObjectStatusReplaced, co_UpdatedAt := now\<rparr>) t = Some t1"
    and rest: "retired keep E t1 t2"
  shows "retired keep (x # E) t t2"
proof -
  note one = retire_one [OF t(1,2) save]
  define X where "X = co_ID ` {x\<in>set E. co_ObjectKey x \<notin> keep}"
  have X: "co_ID ` {y\<in>set (x # E). co_ObjectKey y \<notin> keep} = insert (co_ID x) X" and x: "co_ID x \<notin> X"
    using t(3,4) by (auto simp: X_def)
  have r: "sized t2" "owner ` set t2 \<subseteq> owner ` set t1"
    "List.filter (\<lambda>y. co_ID y \<notin> X) t2 = List.filter (\<lambda>y. co_ID y \<notin> X) t1"
    "\<forall>y\<in>set t2. co_ID y \<in> X \<longrightarrow> co_Status y \<noteq> CloudObjectStatusActive \<and> co_ObjectKey y \<notin> keep"
    using rest by (simp_all add: retired_def Let_def X_def)
  have eq: "List.filter (\<lambda>y. co_ID y \<notin> insert (co_ID x) X) ys
      = List.filter (\<lambda>y. co_ID y \<noteq> co_ID x) (List.filter (\<lambda>y. co_ID y \<notin> X) ys)"
    "List.filter (\<lambda>y. co_ID y \<notin> insert (co_ID x) X) ys
      = List.filter (\<lambda>y. co_ID y \<notin> X) (List.filter (\<lambda>y. co_ID y \<noteq> co_ID x) ys)" for ys
    by (auto simp: filter_filter intro: filter_cong)
  have "List.filter (\<lambda>y. co_ID y \<notin> insert (co_ID x) X) t2 = List.filter (\<lambda>y. co_ID y \<notin> insert (co_ID x) X) t1"
    unfolding eq(1) r(3) ..
  also have "\<dots> = List.filter (\<lambda>y. co_ID y \<notin> insert (co_ID x) X) t" unfolding eq(2) one(3) ..
  finally have same: "List.filter (\<lambda>y. co_ID y \<notin> insert (co_ID x) X) t2 = List.filter (\<lambda>y. co_ID y \<notin> insert (co_ID x) X) t" .
  have gone: "co_Status y \<noteq> CloudObjectStatusActive \<and> co_ObjectKey y \<notin> keep" if "y \<in> set t2" "co_ID y \<in> insert (co_ID x) X" for y
  proof (cases "co_ID y = co_ID x")
    case True
    with that(1) x have "y \<in> set (List.filter (\<lambda>y. co_ID y \<notin> X) t2)" by simp
    then have "y \<in> set t1" unfolding r(3) by simp
    from one(4) [OF this True] t(3) show ?thesis by simp
  qed (use that r(4) in auto)
  show ?thesis
    unfolding retired_def Let_def X
    by (intro conjI ballI impI r(1) same subset_trans [OF r(2) one(2)]; drule (1) gone; simp)
qed

lemma wlp_retire_object:
  assumes "co_ObjectKey x \<in> set keep \<Longrightarrow> Q () d"
    and "\<And>t. co_ObjectKey x \<notin> set keep
      \<Longrightarrow> save_row co_ID object_clash (x\<lparr>co_Status := CloudObjectStatusReplaced, co_UpdatedAt := now\<rparr>) (tb_objects d) = Some t
      \<Longrightarrow> Q () (d\<lparr>tb_objects := t\<rparr>)"
  shows "wlp (retire_object keep now x) Q d"
  unfolding retire_object_def CloudObjectRepo_Update_def
  by (intro wlp_if wlp_ret wlp_store_save) (use assms in auto)

lemma wlp_retire_objects:
  assumes "sized (tb_objects d)" "distinct (List.map co_ID E)" "\<forall>x\<in>set E. co_ObjectKey x \<notin> set keep \<longrightarrow> x \<in> set (tb_objects d)"
  shows "wlp (for_each E (\<lambda>x _. retire_object keep now x) ())
    (\<lambda>_ d'. \<exists>t. d' = d\<lparr>tb_objects := t\<rparr> \<and> retired (set keep) E (tb_objects d) t) d"
  using assms
proof (induction E arbitrary: d)
  case Nil
  then show ?case by (auto intro!: wlp_ret exI [of _ "tb_objects d"] simp: retired_def)
next
  case (Cons x E)
  show ?case
  proof (cases "co_ObjectKey x \<in> set keep")
    case True
    with Cons.IH [OF Cons.prems(1)] Cons.prems(2,3)
    have "wlp (for_each E (\<lambda>x _. retire_object keep now x) ())
      (\<lambda>_ d'. \<exists>t. d' = d\<lparr>tb_objects := t\<rparr> \<and> retired (set keep) E (tb_objects d) t) d" by simp
    moreover have "retired (set keep) (x # E) t t' = retired (set keep) E t t'" for t t'
      using True by (simp add: retired_def Let_def conj_disj_distribR Collect_disj_eq cong: conj_cong)
    ultimately show ?thesis
      using True unfolding for_each.simps by (intro wlp_andThen wlp_retire_object) simp_all
  next
    case False
    have x: "x \<in> set (tb_objects d)" "co_ID x \<notin> co_ID ` set E" using Cons.prems(2,3) False by auto
    let ?y = "x\<lparr>co_Status := CloudObjectStatusReplaced, co_UpdatedAt := now\<rparr>"
    have step: "wlp (for_each E (\<lambda>x _. retire_object keep now x) ())
      (\<lambda>_ d'. \<exists>t. d' = d\<lparr>tb_objects := t\<rparr> \<and> retired (set keep) (x # E) (tb_objects d) t) (d\<lparr>tb_objects := t1\<rparr>)"
      if "save_row co_ID object_clash ?y (tb_objects d) = Some t1" for t1
    proof -
      note one = retire_one [OF Cons.prems(1) x(1) that]
      have "y \<in> set t1" if "y \<in> set E" "co_ObjectKey y \<notin> set keep" for y
        using one(5) [of y] Cons.prems(3) that x(2) by (metis image_eqI list.set_intros(2))
      with Cons.IH [of "d\<lparr>tb_objects := t1\<rparr>"] one(1) Cons.prems(2)
      show ?thesis by (auto elim!: wlp_mono intro: retired_Cons [OF Cons.prems(1) x(1) False x(2) that])
    qed
    show ?thesis
      unfolding for_each.simps using False step by (intro wlp_andThen wlp_retire_object) simp_all
  qed
qed

section \<open>The bytes of a commit\<close>

abbreviation active_in :: "string \<Rightarrow> CloudObject \<Rightarrow> bool" where
  "active_in pid y \<equiv> co_CloudProjectID y = pid \<and> co_Status y = CloudObjectStatusActive"

lemma committed_bytes:
  assumes "sized t0" and new: "rewritten (u, pid) K S t0 t1" and old: "retired K E t1 t2"
    and E: "set E = {y \<in> set t0. active_in pid y}"
    and own: "\<forall>y\<in>set t0. co_CloudProjectID y = pid \<longrightarrow> co_UserID y = u"
  shows "active_bytes u t2 \<le> active_bytes u t0 - sum_rows (active_in pid) co_SizeBytes t0 + S"
proof -
  define X where "X = co_ID ` {x\<in>set E. co_ObjectKey x \<notin> K}"
  let ?key = co_ObjectKey and ?active = "\<lambda>y. co_UserID y = u \<and> co_Status y = CloudObjectStatusActive"
  have sized: "sized t1" "sized t2" using new old by (simp_all add: rewritten_def retired_def)
  have same: "List.filter (\<lambda>y. co_ID y \<notin> X) t2 = List.filter (\<lambda>y. co_ID y \<notin> X) t1"
    and gone: "\<And>y. y \<in> set t2 \<Longrightarrow> co_ID y \<in> X \<Longrightarrow> co_Status y \<noteq> CloudObjectStatusActive \<and> ?key y \<notin> K"
    using old by (auto simp: retired_def Let_def X_def)
  have kept: "List.filter (\<lambda>y. ?key y \<notin> K) t1 = List.filter (\<lambda>y. ?key y \<notin> K) t0"
    using new by (simp add: rewritten_def)
  have "sum_rows (\<lambda>y. ?active y \<and> ?key y \<in> K) co_SizeBytes t2
      \<le> sum_rows (\<lambda>y. co_ID y \<notin> X \<and> ?key y \<in> K) co_SizeBytes t2"
    using gone sized(2) by (intro sum_rows_mono) (auto simp: sized_def)
  also have "\<dots> = sum_rows (\<lambda>y. co_ID y \<notin> X \<and> ?key y \<in> K) co_SizeBytes t1"
    by (rule sum_rows_same [OF same]) simp
  also have "\<dots> \<le> sum_rows (\<lambda>y. ?key y \<in> K) co_SizeBytes t1"
    using sized(1) by (intro sum_rows_mono) (auto simp: sized_def)
  also have "\<dots> \<le> S" using new by (simp add: rewritten_def)
  finally have keyed: "sum_rows (\<lambda>y. ?active y \<and> ?key y \<in> K) co_SizeBytes t2 \<le> S" .
  have "sum_rows (\<lambda>y. ?active y \<and> ?key y \<notin> K) co_SizeBytes t2
      \<le> sum_rows (\<lambda>y. ?active y \<and> ?key y \<notin> K \<and> co_ID y \<notin> X) co_SizeBytes t2"
    using gone sized(2) by (intro sum_rows_mono) (auto simp: sized_def)
  also have "\<dots> = sum_rows (\<lambda>y. ?active y \<and> ?key y \<notin> K \<and> co_ID y \<notin> X) co_SizeBytes t1"
    by (rule sum_rows_same [OF same]) simp
  also have "\<dots> = sum_rows (\<lambda>y. ?active y \<and> ?key y \<notin> K \<and> co_ID y \<notin> X) co_SizeBytes t0"
    by (rule sum_rows_same [OF kept]) simp
  also have "\<dots> \<le> sum_rows (\<lambda>y. ?active y \<and> co_CloudProjectID y \<noteq> pid) co_SizeBytes t0"
    using E assms(1) by (intro sum_rows_mono) (auto simp: sized_def X_def)
  finally have others: "sum_rows (\<lambda>y. ?active y \<and> ?key y \<notin> K) co_SizeBytes t2
      \<le> sum_rows (\<lambda>y. ?active y \<and> co_CloudProjectID y \<noteq> pid) co_SizeBytes t0" .
  have "sum_rows (\<lambda>y. ?active y \<and> co_CloudProjectID y = pid) co_SizeBytes t0 = sum_rows (active_in pid) co_SizeBytes t0"
    using own by (intro sum_rows_cong) auto
  then have "active_bytes u t0 = sum_rows (active_in pid) co_SizeBytes t0
      + sum_rows (\<lambda>y. ?active y \<and> co_CloudProjectID y \<noteq> pid) co_SizeBytes t0"
    unfolding active_bytes_def using sum_rows_split [of ?active co_SizeBytes t0 "\<lambda>y. co_CloudProjectID y = pid"] by simp
  moreover have "active_bytes u t2 = sum_rows (\<lambda>y. ?active y \<and> ?key y \<in> K) co_SizeBytes t2
      + sum_rows (\<lambda>y. ?active y \<and> ?key y \<notin> K) co_SizeBytes t2"
    unfolding active_bytes_def by (rule sum_rows_split)
  ultimately show ?thesis using keyed others by simp
qed

text \<open>Sums of the code that do not overflow.\<close>

lemma foldl_wrap64:
  assumes "\<forall>x\<in>set xs. 0 \<le> f x" "0 \<le> a" "a + sum_list (List.map f xs) \<le> max_int64"
  shows "foldl (\<lambda>n x. wrap64 (n + f x)) a xs = a + sum_list (List.map f xs)"
  using assms
proof (induction xs arbitrary: a)
  case (Cons x xs)
  have "0 \<le> sum_list (List.map f xs)" using Cons.prems(1) by (intro sum_list_nonneg) auto
  with Cons.prems have "wrap64 (a + f x) = a + f x" by (intro wrap64_id) (auto simp: min_int64_def)
  with Cons.IH [of "a + f x"] Cons.prems show ?case by simp
qed simp

lemma sumResourceBytes_sum:
  "\<forall>r\<in>set rs. 0 \<le> rd_SizeBytes r \<Longrightarrow> sum_list (List.map rd_SizeBytes rs) \<le> max_int64
    \<Longrightarrow> sumResourceBytes rs = sum_list (List.map rd_SizeBytes rs)"
  unfolding sumResourceBytes_def using foldl_wrap64 [of rs rd_SizeBytes 0] by simp

lemma sum_list_sort_key: "sum_list (List.map g (sort_key f xs)) = (sum_list (List.map g xs) :: int)"
proof -
  have "mset (List.map g (sort_key f xs)) = mset (List.map g xs)" by simp
  then have "sum_mset (mset (List.map g (sort_key f xs))) = sum_mset (mset (List.map g xs))" by (rule arg_cong)
  then show ?thesis by (simp only: sum_mset_sum_list)
qed

lemma sum_list_filter: "sum_list (List.map f (List.filter p xs)) = sum_rows p f xs"
  by (induction xs) auto

section \<open>The state of the tables\<close>

definition project_owner :: "CloudProject \<Rightarrow> string \<times> string" where
  "project_owner p = (cp_UserID p, cp_ID p)"

definition cloud_ok :: "database \<Rightarrow> bool" where
  "cloud_ok d \<longleftrightarrow> sized (tb_objects d) \<and> table_ok project_clash (tb_projects d)
     \<and> table_ok session_clash (tb_sessions d)
     \<and> owner ` set (tb_objects d) \<subseteq> project_owner ` set (tb_projects d)"

lemma saved_project:
  assumes "table_ok project_clash t" "p \<in> set t" "cp_ID p' = cp_ID p" "cp_UserID p' = cp_UserID p"
    "save_row cp_ID project_clash p' t = Some t'"
  shows "table_ok project_clash t'" "p' \<in> set t'" "project_owner ` set t' = project_owner ` set t"
proof -
  show "table_ok project_clash t'" by (rule projects.save_ok [OF assms(1,5)])
  show "p' \<in> set t'" by (rule save_row_mem [OF assms(5)])
  have t': "t' = replace_row cp_ID p' t"
    using projects.save_row_Some [OF assms(5)] projects.find_row_member [OF assms(1,2)] assms(3) by simp
  have eq: "x = p" if "x \<in> set t" "cp_ID x = cp_ID p" for x
    using projects.same_row [OF assms(1) that(1) assms(2)] projects.key_clash that(2) by blast
  have "project_owner (if cp_ID x = cp_ID p' then p' else x) = project_owner x" if "x \<in> set t" for x
    using eq [OF that] assms(3,4) by (auto simp: project_owner_def)
  then show "project_owner ` set t' = project_owner ` set t"
    unfolding t' replace_row_def set_map image_image by (intro image_cong refl)
qed

text \<open>The same objects and sessions, and a project of the same owner in place of another.\<close>

definition project_step :: "CloudProject \<Rightarrow> database \<Rightarrow> CloudProject \<Rightarrow> database \<Rightarrow> bool" where
  "project_step p d p' d' \<longleftrightarrow> tb_objects d' = tb_objects d \<and> tb_sessions d' = tb_sessions d \<and> cloud_ok d'
     \<and> p' \<in> set (tb_projects d') \<and> project_owner p' = project_owner p"

lemma wlp_project_update:
  assumes "cloud_ok d" "p \<in> set (tb_projects d)" "cp_ID p' = cp_ID p" "cp_UserID p' = cp_UserID p"
  shows "wlp (CloudProjectRepo_Update p') (\<lambda>_ d'. project_step p d p' d') d"
  unfolding CloudProjectRepo_Update_def
  by (rule wlp_store_save)
    (use assms saved_project [OF _ assms(2-4)] in \<open>auto simp: project_step_def cloud_ok_def project_owner_def\<close>)

lemma wlp_renamed_project:
  assumes "cloud_ok d" "p \<in> set (tb_projects d)"
  shows "wlp (renamed_project p n) (\<lambda>p' d'. project_step p d p' d') d"
  unfolding renamed_project_def Let_def
  by (intro wlp_if wlp_andThen wlp_time_now wlp_ret wlp_mono [OF wlp_project_update [OF assms]])
    (use assms in \<open>auto simp: project_step_def intro: wlp_ret\<close>)

lemma owned_objects:
  assumes "cloud_ok d" "p \<in> set (tb_projects d)" "y \<in> set (tb_objects d)" "co_CloudProjectID y = cp_ID p"
  shows "co_UserID y = cp_UserID p"
proof -
  obtain q where q: "q \<in> set (tb_projects d)" "co_UserID y = cp_UserID q" "cp_ID q = cp_ID p"
    using assms by (auto simp: cloud_ok_def owner_def project_owner_def image_subset_iff)
  with assms(1,2) projects.same_row [of "tb_projects d" q p] projects.key_clash [of q p] show ?thesis
    by (auto simp: cloud_ok_def)
qed

lemma listed_objects:
  assumes "cloud_ok d" and E_def: "E = sort_key (\<lambda>x. - co_UpdatedAt x) (List.filter (\<lambda>x. co_CloudProjectID x = pid
     \<and> column_matches CloudObjectStatusActive (co_Status x)) (tb_objects d))"
  shows "set E = {y \<in> set (tb_objects d). active_in pid y}" "distinct (List.map co_ID E)"
    "sum_list (List.map co_SizeBytes E) = sum_rows (active_in pid) co_SizeBytes (tb_objects d)"
proof -
  have m: "column_matches CloudObjectStatusActive s \<longleftrightarrow> s = CloudObjectStatusActive" for s
    by (auto simp: column_matches_def)
  show "set E = {y \<in> set (tb_objects d). active_in pid y}" by (auto simp: E_def m)
  show "distinct (List.map co_ID E)"
    using objects.distinct_keys [of "tb_objects d"] assms(1)
      distinct_keys_query [of co_ID "tb_objects d" 0 0] unfolding E_def
    by (simp add: cloud_ok_def sized_def page_def)
  show "sum_list (List.map co_SizeBytes E) = sum_rows (active_in pid) co_SizeBytes (tb_objects d)"
    unfolding E_def by (simp add: sum_list_sort_key sum_list_filter m)
qed

definition session_spent :: "string \<Rightarrow> string \<Rightarrow> database \<Rightarrow> bool" where
  "session_spent i manifestID d \<longleftrightarrow> (\<exists>x. find_row cs_ID i (tb_sessions d) = Some x
     \<and> cs_Status x = CloudSyncSessionStatusCommitted \<and> cs_ManifestID x = manifestID)"

lemma wlp_write_manifest:
  assumes ok: "cloud_ok d" and p: "p \<in> set (tb_projects d)" "cp_UserID p = us_ID u"
    and rs: "\<forall>r\<in>set rs. 0 \<le> rd_SizeBytes r"
    and E: "E = sort_key (\<lambda>x. - co_UpdatedAt x) (List.filter (\<lambda>x. co_CloudProjectID x = cp_ID p
       \<and> column_matches CloudObjectStatusActive (co_Status x)) (tb_objects d))"
  shows "wlp (write_manifest u i rs session p E)
    (\<lambda>(p', m) d'. cloud_ok d' \<and> session_spent (cs_ID session) (cm_ID m) d'
       \<and> active_bytes (us_ID u) (tb_objects d') \<le> active_bytes (us_ID u) (tb_objects d)
           - sum_rows (active_in (cp_ID p)) co_SizeBytes (tb_objects d) + sum_list (List.map rd_SizeBytes rs)) d"
proof -
  let ?K = "objectKeyFor (us_ID u) (mi_ClientProjectID i) ` set rs"
  let ?keep = "List.map (objectKeyFor (us_ID u) (mi_ClientProjectID i)) rs"
  let ?A = "\<lambda>t. active_bytes (us_ID u) t \<le> active_bytes (us_ID u) (tb_objects d)
           - sum_rows (active_in (cp_ID p)) co_SizeBytes (tb_objects d) + sum_list (List.map rd_SizeBytes rs)"
  have sized: "sized (tb_objects d)" using ok by (simp add: cloud_ok_def)
  note E = listed_objects [OF ok E]
  have own: "\<forall>y\<in>set (tb_objects d). co_CloudProjectID y = cp_ID p \<longrightarrow> co_UserID y = us_ID u"
    using owned_objects [OF ok p(1)] p(2) by simp
  have written: "cloud_ok (d\<lparr>tb_manifests := ms, tb_objects := t2\<rparr>) \<and> ?A t2"
    if "rewritten (us_ID u, cp_ID p) ?K (sum_list (List.map rd_SizeBytes rs)) (tb_objects d) t1" "retired ?K E t1 t2"
    for ms t1 t2
  proof -
    have "owner ` set t2 \<subseteq> insert (project_owner p) (owner ` set (tb_objects d))" "sized t2"
      using that p(2) unfolding rewritten_def retired_def project_owner_def by (simp, blast, simp)
    with ok p(1) have "cloud_ok (d\<lparr>tb_manifests := ms, tb_objects := t2\<rparr>)"
      unfolding cloud_ok_def by auto
    with committed_bytes [OF sized that E(1) own] show ?thesis by simp
  qed
  have finish: "wlp (andThen (CloudProjectRepo_Update p') (\<lambda>_. andThen (CloudSyncSessionRepo_Update s') (\<lambda>_. ret (p', m))))
      (\<lambda>(p', m) d'. cloud_ok d' \<and> session_spent (cs_ID session) (cm_ID m) d' \<and> ?A (tb_objects d')) d2"
    if d2: "cloud_ok d2" "?A (tb_objects d2)" "p \<in> set (tb_projects d2)"
      and p': "cp_ID p' = cp_ID p" "cp_UserID p' = cp_UserID p"
      and s': "cs_ID s' = cs_ID session" "cs_Status s' = CloudSyncSessionStatusCommitted" "cs_ManifestID s' = cm_ID m"
    for p' s' m d2
  proof (rule wlp_andThen, rule wlp_mono [OF wlp_project_update [OF d2(1,3) p']])
    fix d3
    assume d3: "project_step p d2 p' d3"
    have "cloud_ok (d3\<lparr>tb_sessions := t\<rparr>) \<and> session_spent (cs_ID session) (cm_ID m) (d3\<lparr>tb_sessions := t\<rparr>)"
      if "save_row cs_ID session_clash s' (tb_sessions d3) = Some t" for t
    proof -
      have d3_ok: "cloud_ok d3" using d3 by (simp add: project_step_def)
      then have "table_ok session_clash (tb_sessions d3)" by (simp add: cloud_ok_def)
      from sync_sessions.save_ok [OF this that] sync_sessions.find_row_member [OF this] save_row_mem [OF that]
      have "table_ok session_clash t" "find_row cs_ID (cs_ID s') t = Some s'"
        by (auto intro: sync_sessions.find_row_member)
      with d3_ok s' show ?thesis by (simp add: cloud_ok_def session_spent_def)
    qed
    with d3 d2(2) show "wlp (andThen (CloudSyncSessionRepo_Update s') (\<lambda>_. ret (p', m)))
      (\<lambda>(p', m) d'. cloud_ok d' \<and> session_spent (cs_ID session) (cm_ID m) d' \<and> ?A (tb_objects d')) d3"
      unfolding CloudSyncSessionRepo_Update_def
      by (intro wlp_andThen wlp_store_save wlp_ret) (auto simp: project_step_def)
  qed
  show ?thesis
    unfolding write_manifest_def Let_def CloudManifestRepo_Create_def
  proof (intro wlp_andThen wlp_time_now wlp_generateEntityID wlp_store_create)
    fix now bs ms
    let ?id = "''cmf_'' @ hex_encode bs" and ?d1 = "d\<lparr>tb_manifests := ms\<rparr>"
    show "wlp (for_each rs (\<lambda>r _. store_resource u p i ?id now r) ())
        (\<lambda>_. wlp (andThen (for_each E (\<lambda>x _. retire_object ?keep now x) ())
          (\<lambda>_. andThen (CloudProjectRepo_Update (p\<lparr>cp_LastManifestID := ?id, cp_UpdatedAt := now\<rparr>))
            (\<lambda>_. andThen (CloudSyncSessionRepo_Update (session\<lparr>cs_Status := CloudSyncSessionStatusCommitted,
                cs_ManifestID := ?id, cs_UpdatedAt := now, cs_CommittedAt := Some now\<rparr>))
              (\<lambda>_. ret (p\<lparr>cp_LastManifestID := ?id, cp_UpdatedAt := now\<rparr>, new_manifest ?id u p i rs now)))))
          (\<lambda>(p', m) d'. cloud_ok d' \<and> session_spent (cs_ID session) (cm_ID m) d' \<and> ?A (tb_objects d'))) ?d1"
    proof (rule wlp_mono [OF wlp_store_resources], goal_cases)
      case (3 x d2)
      then obtain t1 where d2: "d2 = d\<lparr>tb_manifests := ms, tb_objects := t1\<rparr>"
        and t1: "rewritten (us_ID u, cp_ID p) ?K (sum_list (List.map rd_SizeBytes rs)) (tb_objects d) t1" by auto
      have there: "\<forall>x\<in>set E. co_ObjectKey x \<notin> set ?keep \<longrightarrow> x \<in> set (tb_objects d2)"
      proof (intro ballI impI)
        fix x
        assume "x \<in> set E" "co_ObjectKey x \<notin> set ?keep"
        then have "x \<in> set (List.filter (\<lambda>y. co_ObjectKey y \<notin> ?K) (tb_objects d))" using E(1) by auto
        then have "x \<in> set (List.filter (\<lambda>y. co_ObjectKey y \<notin> ?K) t1)" using t1 by (simp add: rewritten_def)
        then show "x \<in> set (tb_objects d2)" by (simp add: d2)
      qed
      show ?case
      proof (rule wlp_andThen, rule wlp_mono [OF wlp_retire_objects [OF _ E(2) there]], goal_cases)
        case 1
        show ?case using t1 by (simp add: d2 rewritten_def)
      next
        case (2 x d3)
        then obtain t2 where d3: "d3 = d\<lparr>tb_manifests := ms, tb_objects := t2\<rparr>" and t2: "retired ?K E t1 t2"
          by (auto simp: d2)
        from written [OF t1 t2, of ms] p(1) show ?case
          by (intro finish) (simp_all add: d3 new_manifest_def)
      qed
    qed (use sized rs in simp_all)
  qed
qed

section \<open>Commits\<close>

abbreviation total_size :: "CloudResourceDescriptor list \<Rightarrow> int" where
  "total_size rs \<equiv> sum_list (List.map rd_SizeBytes rs)"

lemma put_resource_sizes:
  assumes "\<forall>x\<in>set acc. 0 \<le> rd_SizeBytes x" "0 \<le> rd_SizeBytes r"
  shows "(\<forall>x\<in>set (put_resource r acc). 0 \<le> rd_SizeBytes x) \<and> total_size (put_resource r acc) \<le> rd_SizeBytes r + total_size acc"
  using assms by (induction acc) auto

lemma normalized_sizes:
  assumes "normalize_resources_loop acc rs = Inr out" "\<forall>x\<in>set acc. 0 \<le> rd_SizeBytes x"
  shows "(\<forall>x\<in>set out. 0 \<le> rd_SizeBytes x) \<and> total_size out \<le> total_size acc + total_size rs"
  using assms
proof (induction rs arbitrary: acc)
  case (Cons r rs)
  let ?r = "normalize_resource r"
  have r: "0 \<le> rd_SizeBytes ?r" "rd_SizeBytes ?r = rd_SizeBytes r"
    "normalize_resources_loop (put_resource ?r acc) rs = Inr out"
    using Cons.prems(1) by (auto simp: Let_def normalize_resource_def split: if_splits)
  from put_resource_sizes [OF Cons.prems(2) r(1)] Cons.IH [OF r(3)] r(2) show ?case by auto
qed simp

lemma normalizeCloudResources_sizes:
  "normalizeCloudResources rs = Inr out \<Longrightarrow> (\<forall>x\<in>set out. 0 \<le> rd_SizeBytes x) \<and> total_size out \<le> total_size rs"
  using normalized_sizes [of "[]" rs out] by (simp add: normalizeCloudResources_def split: if_splits)

lemma projected_usage_sum:
  assumes "\<forall>y\<in>set E. 0 \<le> co_SizeBytes y" "sum_list (List.map co_SizeBytes E) \<le> used"
    "\<forall>r\<in>set rs. 0 \<le> rd_SizeBytes r" "used + total_size rs \<le> max_int64"
  shows "projected_usage used E rs = used - sum_list (List.map co_SizeBytes E) + total_size rs"
proof -
  have nn: "0 \<le> total_size rs" "0 \<le> sum_list (List.map co_SizeBytes E)"
    using assms(1,3) by (intro sum_list_nonneg; auto)+
  have "sumObjectBytes E = sum_list (List.map co_SizeBytes E)"
    unfolding sumObjectBytes_def using foldl_wrap64 [of E co_SizeBytes 0] assms nn by simp
  moreover have "sumResourceBytes rs = total_size rs" using assms nn by (intro sumResourceBytes_sum) auto
  ultimately show ?thesis using assms nn by (simp add: projected_usage_def Let_def)
qed

lemma wlp_authorizedCommitSession:
  "wlp (authorizedCommitSession s userID i rs) (\<lambda>(session, p) d'. d' = d \<and> cs_ID session = trim_space (mi_SyncSessionID i)
     \<and> p \<in> set (tb_projects d) \<and> cp_UserID p = userID) d"
proof -
  have "wlp (validateCloudSyncSession sid userID client provider rs) (\<lambda>x d'. d' = d \<and> cs_ID x = trim_space sid) d"
    for sid client provider
    unfolding validateCloudSyncSession_def CloudSyncSessionRepo_GetByID_def
    by (intro wlp_andThen wlp_not_found_as wlp_store_find wlp_reject_if wlp_time_now wlp_if wlp_attempt_any wlp_fail
        wlp_readonly [where m = "cloudResourceFingerprint rs"] wlp_ret)
      (auto simp: readonly_def cloudResourceFingerprint_def dest: find_row_found)
  note session = this
  show ?thesis
    unfolding authorizedCommitSession_def CloudProjectRepo_GetByID_def
    by (rule wlp_andThen, rule wlp_mono [OF session])
      (auto intro!: wlp_andThen wlp_not_found_as wlp_store_find wlp_reject_if wlp_ret dest: find_row_found)
qed

definition commit_outcome :: "User \<Rightarrow> CloudManifestCommitInput \<Rightarrow> CloudManifestCommitResult \<Rightarrow> database \<Rightarrow> bool" where
  "commit_outcome u i r d' \<longleftrightarrow> cloud_ok d' \<and> session_spent (trim_space (mi_SyncSessionID i)) (cm_ID (mr_Manifest r)) d'
     \<and> active_bytes (us_ID u) (tb_objects d') \<le> cu_UsedBytes (mr_Usage r)
     \<and> cu_UsedBytes (mr_Usage r) \<le> cu_QuotaBytes (mr_Usage r)"

lemma wlp_commitWithRepos:
  assumes ok: "cloud_ok d" and rs: "\<forall>r\<in>set rs. 0 \<le> rd_SizeBytes r"
    and used: "used = active_bytes (us_ID u) (tb_objects d)" "used + total_size rs \<le> max_int64"
  shows "wlp (commitWithRepos s u quota used i rs) (commit_outcome u i) d"
proof -
  let ?E = "\<lambda>pid d. sort_key (\<lambda>x. - co_UpdatedAt x) (List.filter (\<lambda>x. co_CloudProjectID x = pid
     \<and> column_matches CloudObjectStatusActive (co_Status x)) (tb_objects d))"
  have commit: "wlp (write_manifest u i rs session p (?E (cp_ID p) d1)) (\<lambda>(p', m).
        commit_outcome u i \<lparr>mr_Project = p', mr_Manifest = m,
          mr_Usage = usageFor (us_ID u) plan (projected_usage used (?E (cp_ID p) d1) rs) (qd_QuotaBytes quota)\<rparr>) d1"
    if "project_step p0 d p d1" "cp_UserID p0 = us_ID u" "cs_ID session = trim_space (mi_SyncSessionID i)"
      "projected_usage used (?E (cp_ID p) d1) rs \<le> qd_QuotaBytes quota" for p0 p d1 session plan
  proof -
    have d1: "cloud_ok d1" "p \<in> set (tb_projects d1)" "cp_UserID p = us_ID u" "tb_objects d1 = tb_objects d"
      using that(1,2) by (simp_all add: project_step_def project_owner_def)
    have own: "\<forall>y\<in>set (tb_objects d1). co_CloudProjectID y = cp_ID p \<longrightarrow> co_UserID y = us_ID u"
      using owned_objects [OF d1(1,2)] d1(3) by simp
    have nn: "\<forall>y\<in>set (tb_objects d1). 0 \<le> co_SizeBytes y" using d1(1) by (simp add: cloud_ok_def sized_def)
    have "sum_rows (active_in (cp_ID p)) co_SizeBytes (tb_objects d1) \<le> used"
      unfolding used(1) active_bytes_def d1(4) [symmetric] using own nn by (intro sum_rows_mono) auto
    then have "projected_usage used (?E (cp_ID p) d1) rs
        = used - sum_rows (active_in (cp_ID p)) co_SizeBytes (tb_objects d1) + total_size rs"
      using projected_usage_sum [of "?E (cp_ID p) d1" used rs] listed_objects(3) [OF d1(1) refl, of "cp_ID p"] nn rs used(2)
      by auto
    with wlp_write_manifest [OF d1(1-3) rs refl, of i session] that(3,4) used(1) d1(4) show ?thesis
      by (auto simp: commit_outcome_def usageFor_def Let_def elim!: wlp_mono)
  qed
  show ?thesis
    unfolding commitWithRepos_def Let_def CloudObjectRepo_ListByProject_def
  proof (rule wlp_andThen, rule wlp_mono [OF wlp_authorizedCommitSession], goal_cases)
    case (1 x d')
    then obtain session p0 where x: "x = (session, p0)" "d' = d"
      and p0: "p0 \<in> set (tb_projects d)" "cs_ID session = trim_space (mi_SyncSessionID i)" "cp_UserID p0 = us_ID u"
      by (cases x) auto
    have "wlp (andThen (renamed_project p0 (mi_ProjectName i)) (\<lambda>p.
        andThen (db_read (?E (cp_ID p))) (\<lambda>existing.
        andThen (reject_if (qd_QuotaBytes quota < projected_usage used existing rs) ErrCloudStorageOverQuota) (\<lambda>_.
        andThen (write_manifest u i rs session p existing) (\<lambda>(p', manifest).
        ret \<lparr>mr_Project = p', mr_Manifest = manifest,
             mr_Usage = usageFor (us_ID u) (qd_Plan quota) (projected_usage used existing rs) (qd_QuotaBytes quota)\<rparr>)))))
      (commit_outcome u i) d"
      by (rule wlp_andThen, rule wlp_mono [OF wlp_renamed_project [OF ok p0(1)]],
          intro wlp_andThen wlp_db_read wlp_reject_if, rule wlp_mono [OF commit])
        (use p0 in \<open>auto intro: wlp_ret\<close>)
    then show ?case by (simp add: x)
  qed
qed

lemma wlp_authorizeCloudAccess:
  assumes "\<And>q. readonly (cv_policy s q)"
  shows "wlp (authorizeCloudAccess s userID) (\<lambda>(u, quota, used) d'. d' = d \<and> us_ID u = trim_space userID
    \<and> used = active_bytes (us_ID u) (tb_objects d)) d"
proof -
  have user: "wlp (loadActiveUser userID) (\<lambda>u d'. d' = d \<and> us_ID u = trim_space userID) d"
    unfolding loadActiveUser_def UserRepo_GetByID_def
    by (intro wlp_andThen wlp_reject_if wlp_not_found_as wlp_store_find wlp_ret) (auto dest: find_row_found)
  have quota: "readonly (cloudStorageQuotaDecision s u)" for u
    unfolding cloudStorageQuotaDecision_def EntitlementGrantRepo_List_def
    by (intro readonly_andThen readonly_if readonly_simple assms)
  show ?thesis
    unfolding authorizeCloudAccess_def CloudObjectRepo_SumActiveBytesByUser_def
    by (rule wlp_andThen, rule wlp_mono [OF user])
      (auto intro!: wlp_andThen wlp_readonly [OF quota] wlp_reject_if wlp_db_read wlp_ret)
qed

lemma wlp_CommitManifest:
  assumes ok: "cloud_ok d" and policy: "\<And>q. readonly (cv_policy s q)"
    and fresh: "\<forall>m\<in>set (tb_manifests d). cm_IdempotencyKey m \<noteq> trim_space (mi_IdempotencyKey i)"
    and total: "active_bytes (trim_space (mi_UserID i)) (tb_objects d) + total_size (mi_Resources i) \<le> max_int64"
  shows "wlp (CommitManifest s i) (\<lambda>r d'. \<exists>u. us_ID u = trim_space (mi_UserID i) \<and> commit_outcome u i r d') d"
proof -
  have absent: "find_row cm_IdempotencyKey (trim_space (mi_IdempotencyKey i)) (tb_manifests d) = None"
    using fresh by (simp add: find_row_absent)
  have commit: "wlp (commitWithTransaction s u quota (active_bytes (us_ID u) (tb_objects d)) i rs)
      (\<lambda>r d'. \<exists>u. us_ID u = trim_space (mi_UserID i) \<and> commit_outcome u i r d') d"
    if rs: "normalizeCloudResources (mi_Resources i) = Inr rs" and u: "us_ID u = trim_space (mi_UserID i)" for u quota rs
  proof -
    have "wlp (commitWithRepos s u quota (active_bytes (us_ID u) (tb_objects d)) i rs)
        (\<lambda>r d'. \<exists>u. us_ID u = trim_space (mi_UserID i) \<and> commit_outcome u i r d') d"
      by (rule wlp_mono [OF wlp_commitWithRepos [OF ok _ refl]])
        (use normalizeCloudResources_sizes [OF rs] u total in auto)
    then show ?thesis unfolding commitWithTransaction_def by (intro wlp_if wlp_in_transaction)
  qed
  show ?thesis
    unfolding CommitManifest_def requireConfiguredProvider_def CloudManifestRepo_GetByIdempotencyKey_def
  proof (intro wlp_andThen wlp_reject_if wlp_of_sum, rule wlp_mono [OF wlp_authorizeCloudAccess [OF policy]], goal_cases)
    case (1 rs x d')
    obtain u quota used where x: "x = (u, quota, used)" by (cases x)
    from 1 commit [of rs u quota] absent show ?case
      by (auto simp: x intro!: wlp_if_found)
  qed
qed

text \<open>C8: As long as the bytes the user has stored and the bytes of the request together do not exceed
  the largest 64-bit number, a commit under a fresh key leaves the user with at most the bytes it
  reports, at most the quota; the tables stay consistent and the upload session is spent on the new
  manifest.  (Beyond that number the sum of the code wraps and the quota does not hold.)\<close>

theorem commit_within_quota:
  assumes "cloud_ok (db w)" and run: "CommitManifest s i w = (Inr r, w')"
    and "\<And>q. readonly (cv_policy s q)"
    and "\<forall>m\<in>set (tb_manifests (db w)). cm_IdempotencyKey m \<noteq> trim_space (mi_IdempotencyKey i)"
    and "active_bytes (trim_space (mi_UserID i)) (tb_objects (db w)) + total_size (mi_Resources i) \<le> max_int64"
  shows "active_bytes (trim_space (mi_UserID i)) (tb_objects (db w')) \<le> cu_UsedBytes (mr_Usage r)
    \<and> cu_UsedBytes (mr_Usage r) \<le> cu_QuotaBytes (mr_Usage r)
    \<and> cloud_ok (db w') \<and> session_spent (trim_space (mi_SyncSessionID i)) (cm_ID (mr_Manifest r)) (db w')"
  using wlpD [OF wlp_CommitManifest [OF assms(1,3-5)] run] by (auto simp: commit_outcome_def)

section \<open>Spent sessions\<close>

lemma spent_session_refused:
  assumes "find_row cs_ID (trim_space sid) (tb_sessions (db w)) = Some x" "cs_Status x = CloudSyncSessionStatusCommitted"
  shows "wp (validateCloudSyncSession sid userID client provider rs) (\<lambda>_ _. False) (\<lambda>_ w'. db w' = db w) w"
  using assms by (simp add: validateCloudSyncSession_def CloudSyncSessionRepo_GetByID_def wp_simps split: option.split)

lemma spent_session_commit:
  assumes "find_row cs_ID (trim_space (mi_SyncSessionID i)) (tb_sessions (db w)) = Some x"
    "cs_Status x = CloudSyncSessionStatusCommitted"
  shows "wp (commitWithTransaction s u quota used i rs) (\<lambda>_ _. False) (\<lambda>_ w'. db w' = db w) w"
proof -
  have "wp (commitWithRepos s u quota used i rs) (\<lambda>_ _. False) (\<lambda>_ w'. db w' = db v) v" if "db v = db w" for v
    unfolding commitWithRepos_def authorizedCommitSession_def wp_andThen
    by (rule wp_mono [OF spent_session_refused]) (use assms that in auto)
  from this [of w] this [of "next_tick w"] show ?thesis
    unfolding commitWithTransaction_def by (auto intro!: wp_in_transaction elim!: wp_mono)
qed

text \<open>An upload session authorizes one manifest: once it is committed, a commit that names it under
  a fresh key fails and changes nothing.\<close>

theorem spent_session_final:
  assumes "CommitManifest s i w = (res, w')" and "\<And>q. readonly (cv_policy s q)"
    and "\<forall>m\<in>set (tb_manifests (db w)). cm_IdempotencyKey m \<noteq> trim_space (mi_IdempotencyKey i)"
    and session: "find_row cs_ID (trim_space (mi_SyncSessionID i)) (tb_sessions (db w)) = Some x"
      "cs_Status x = CloudSyncSessionStatusCommitted"
  shows "(\<exists>e. res = Inl e) \<and> db w' = db w"
proof -
  have absent: "find_row cm_IdempotencyKey (trim_space (mi_IdempotencyKey i)) (tb_manifests (db w)) = None"
    using assms(3) by (simp add: find_row_absent)
  have access: "wp (authorizeCloudAccess s (mi_UserID i)) (\<lambda>_ w'. db w' = db w) (\<lambda>_ w'. db w' = db w) v"
    if "db v = db w" for v
  proof -
    have "readonly (authorizeCloudAccess s (mi_UserID i))"
      unfolding authorizeCloudAccess_def loadActiveUser_def cloudStorageQuotaDecision_def UserRepo_GetByID_def
        CloudObjectRepo_SumActiveBytesByUser_def EntitlementGrantRepo_List_def
      by (intro readonly_andThen readonly_not_found_as readonly_store_find readonly_if readonly_simple assms(2))
    with that show ?thesis by (auto simp: wp_def readonly_def split: prod.split sum.split) (metis snd_conv)+
  qed
  have commit: "wp (if_found (CloudManifestRepo_GetByIdempotencyKey (trim_space (mi_IdempotencyKey i)))
       (replay_commit s u i) (commitWithTransaction s u quota used i rs)) (\<lambda>_ _. False) (\<lambda>_ w'. db w' = db w) v"
    if "db v = db w" for u quota used rs v
    using spent_session_commit [of i "next_tick v" x s u quota used rs] session that absent
    by (simp add: wp_if_found CloudManifestRepo_GetByIdempotencyKey_def wp_store_find split: option.split)
  have "wp (CommitManifest s i) (\<lambda>_ _. False) (\<lambda>_ w'. db w' = db w) w"
    unfolding CommitManifest_def requireConfiguredProvider_def of_sum_def
    by (cases "normalizeCloudResources (mi_Resources i)")
      (auto simp: wp_andThen wp_reject_if wp_fail wp_ret split: prod.split intro!: wp_mono [OF access] commit)
  with assms(1) show ?thesis by (cases res) (auto simp: wp_def)
qed

section \<open>Object keys\<close>

text \<open>A path segment that names neither a parent nor another account: it is not empty, of at most 128
  characters, holds no separator and does not start with a mark.\<close>

definition safe_segment :: "string \<Rightarrow> bool" where
  "safe_segment s \<longleftrightarrow> s \<noteq> [] \<and> length s \<le> 128 \<and> (\<forall>c\<in>set s. safe_char c) \<and> hd s \<notin> set ''-._''"

lemma replace_unsafe_safe: "c \<in> set (replace_unsafe inside s) \<Longrightarrow> safe_char c"
proof (induction s arbitrary: inside)
  case (Cons a s)
  have "safe_char (CHR ''-'')" by (simp add: safe_char_def Let_def)
  with Cons show ?case by (auto split: if_splits)
qed simp

lemma trim_marks_safe:
  "set (trim_marks s) \<subseteq> set s" "trim_marks s \<noteq> [] \<Longrightarrow> hd (trim_marks s) \<notin> set ''-._''"
proof -
  let ?mark = "\<lambda>c. c \<in> set ''-._''"
  define t where "t = dropWhile ?mark s"
  have trim: "trim_marks s = rev (dropWhile ?mark (rev t))" by (simp add: trim_marks_def t_def)
  have "set (trim_marks s) \<subseteq> set t" unfolding trim using set_dropWhileD by fastforce
  moreover have "set t \<subseteq> set s" unfolding t_def using set_dropWhileD by fastforce
  ultimately show "set (trim_marks s) \<subseteq> set s" by blast
  assume ne: "trim_marks s \<noteq> []"
  have "t = trim_marks s @ rev (takeWhile ?mark (rev t))"
    unfolding trim by (metis rev_append rev_rev_ident takeWhile_dropWhile_id)
  with ne have "t \<noteq> []" "hd t = hd (trim_marks s)" by (metis Nil_is_append_conv, metis hd_append2)
  then show "hd (trim_marks s) \<notin> set ''-._''" using hd_dropWhile [of ?mark s] by (simp only: t_def) blast
qed

lemma sanitizePathSegment_safe: "safe_segment (sanitizePathSegment v)"
proof -
  let ?t = "trim_marks (replace_unsafe False (trim_space v))"
  have chars: "\<forall>c\<in>set ?t. safe_char c" using trim_marks_safe(1) replace_unsafe_safe by blast
  have "safe_segment ''resource''" by (simp add: safe_segment_def safe_char_def Let_def)
  moreover have "safe_segment (take 128 ?t)" if "?t \<noteq> []"
    using that chars trim_marks_safe(2) [OF that] by (auto simp: safe_segment_def hd_take dest: in_set_takeD)
  ultimately show ?thesis by (simp add: sanitizePathSegment_def Let_def)
qed

lemma sanitizeFilename_safe: "safe_segment (sanitizeFilename v)"
proof -
  have "safe_segment ''object.bin''" by (simp add: safe_segment_def safe_char_def Let_def)
  then show ?thesis by (simp add: sanitizeFilename_def Let_def sanitizePathSegment_safe)
qed

lemma safe_segment_slash: "safe_segment s \<Longrightarrow> CHR ''/'' \<notin> set s"
  by (auto simp: safe_segment_def safe_char_def Let_def)

lemma append_slash:
  "safe_segment a \<Longrightarrow> safe_segment b \<Longrightarrow> a @ CHR ''/'' # x = b @ CHR ''/'' # y \<longleftrightarrow> a = b \<and> x = y"
  by (drule safe_segment_slash, drule safe_segment_slash) (auto simp: append_eq_append_conv2 Cons_eq_append_conv append_eq_Cons_conv)

text \<open>C29: An object key is a path of seven safe segments, whatever the client names its project, resource
  and file, and two keys are equal only when all their sanitised parts are: no client name moves an
  object into the path of an account whose sanitised name is another.\<close>

theorem object_key_safe:
  "(\<exists>a b c d e. objectKeyFor u p r = ''accounts/'' @ a @ ''/projects/'' @ b @ ''/'' @ c @ ''/'' @ d @ ''/'' @ e
      \<and> a = sanitizePathSegment u \<and> list_all safe_segment [a, b, c, d, e])
   \<and> (objectKeyFor u p r = objectKeyFor u' p' r' \<longleftrightarrow>
        sanitizePathSegment u = sanitizePathSegment u' \<and> sanitizePathSegment p = sanitizePathSegment p'
        \<and> sanitizePathSegment (rd_ResourceKind r) = sanitizePathSegment (rd_ResourceKind r')
        \<and> sanitizePathSegment (rd_ContentHash r) = sanitizePathSegment (rd_ContentHash r')
        \<and> sanitizeFilename (rd_Filename r) = sanitizeFilename (rd_Filename r'))"
proof (rule conjI)
  show "\<exists>a b c d e. objectKeyFor u p r = ''accounts/'' @ a @ ''/projects/'' @ b @ ''/'' @ c @ ''/'' @ d @ ''/'' @ e
      \<and> a = sanitizePathSegment u \<and> list_all safe_segment [a, b, c, d, e]"
    unfolding objectKeyFor_def list.pred_inject
    by (rule exI, rule exI, rule exI, rule exI, rule exI, rule conjI [OF refl], intro conjI)
      (simp | rule refl sanitizePathSegment_safe sanitizeFilename_safe)+
qed (simp add: objectKeyFor_def sanitizePathSegment_safe sanitizeFilename_safe append_slash)

section \<open>Witnesses\<close>

definition cloud_resource :: CloudResourceDescriptor where
  "cloud_resource = \<lparr>rd_ResourceID = ''r'', rd_ResourceKind = ''k'', rd_ContentHash = ''h'', rd_SizeBytes = 5,
     rd_ContentType = ''t'', rd_Filename = ''f''\<rparr>"

definition cloud_provider :: ObjectStorageProvider where
  "cloud_provider = NewUnconfiguredObjectStorageProvider\<lparr>os_ProviderID := ''s3''\<rparr>"

definition small_cloud :: cloud_service where
  "small_cloud = \<lparr>cv_policy = NewStaticCloudStorageQuotaPolicy 10, cv_provider = cloud_provider, cv_uow = True\<rparr>"

definition cloud_session :: CloudSyncSession where
  "cloud_session = \<lparr>cs_ID = ''s1'', cs_UserID = ''usr_1'', cs_CloudProjectID = ''c1'', cs_ClientProjectID = ''p1'',
     cs_Provider = ''s3'', cs_ResourceFingerprint = fingerprint_line cloud_resource, cs_RequestedBytes = 5,
     cs_UsedBytes = 0, cs_QuotaBytes = 10, cs_Status = CloudSyncSessionStatusAuthorized, cs_ManifestID = [],
     cs_ExpiresAt = 63900000000000000000, cs_CreatedAt = 1, cs_UpdatedAt = 1, cs_CommittedAt = None\<rparr>"

definition cloud_grant :: EntitlementGrant where
  "cloud_grant = \<lparr>eg_ID = ''g1'', eg_UserID = ''usr_1'', eg_EntitlementID = EntitlementCloudStorage,
     eg_Status = GrantStatusActive, eg_Source = GrantSourceTrial, eg_StartsAt = 1, eg_ExpiresAt = None,
     eg_CreatedBy = [], eg_IdempotencyKey = None, eg_CreatedAt = 1, eg_UpdatedAt = 1, eg_RevokedAt = None\<rparr>"

definition cloud_project :: CloudProject where
  "cloud_project = \<lparr>cp_ID = ''c1'', cp_UserID = ''usr_1'', cp_ClientProjectID = ''p1'', cp_Name = ''n'',
     cp_Status = CloudProjectStatusActive, cp_LastManifestID = [], cp_CreatedAt = 1, cp_UpdatedAt = 1\<rparr>"

definition cloud_db :: "CloudSyncSession \<Rightarrow> database" where
  "cloud_db x = users_db\<lparr>tb_grants := [cloud_grant], tb_projects := [cloud_project], tb_sessions := [x]\<rparr>"

definition cloud_commit :: CloudManifestCommitInput where
  "cloud_commit = \<lparr>mi_UserID = ''usr_1'', mi_ClientProjectID = ''p1'', mi_ProjectName = [], mi_SyncSessionID = ''s1'',
     mi_ManifestHash = ''m'', mi_ManifestVersion = 1, mi_Resources = [cloud_resource], mi_IdempotencyKey = ''k1''\<rparr>"

lemma small_cloud_readonly: "readonly (cv_policy small_cloud q)"
  by (simp add: small_cloud_def NewStaticCloudStorageQuotaPolicy_def NewPlanAwareCloudStorageQuotaPolicy_def
      PlanAwareCloudStorageQuotaPolicy_Decide_def cloudStoragePlanForGrants_def Let_def)
    (intro conjI impI readonly_andThen readonly_if readonly_simple)

definition cloud_world :: "CloudSyncSession \<Rightarrow> database world" where
  "cloud_world x = sample_world 0 (cloud_db x)"

abbreviation commit_run :: "(err + CloudManifestCommitResult) \<times> database world" where
  "commit_run \<equiv> CommitManifest small_cloud cloud_commit (cloud_world cloud_session)"

definition spent_session :: CloudSyncSession where
  "spent_session = cloud_session\<lparr>cs_Status := CloudSyncSessionStatusCommitted\<rparr>"

lemma cloud_world_tables:
  "tb_manifests (db (cloud_world x)) = []" "tb_objects (db (cloud_world x)) = []"
  "tb_sessions (db (cloud_world x)) = [x]" "cloud_ok (db (cloud_world x))"
  by (simp_all add: cloud_world_def sample_world_def cloud_ok_def cloud_db_def users_db_def empty_database_def
      sized_def table_ok_def)

lemma cloud_commit_simps:
  "trim_space (mi_UserID cloud_commit) = ''usr_1''" "trim_space (mi_SyncSessionID cloud_commit) = ''s1''"
  "total_size (mi_Resources cloud_commit) = 5"
  by code_simp+

lemma commit_runs: "isl (fst commit_run) = False"
  by code_simp

lemma commit_within_quota_witness:
  "active_bytes ''usr_1'' (tb_objects (db (snd commit_run))) \<le> cu_UsedBytes (mr_Usage (ok_result commit_run))"
  using commit_within_quota [OF cloud_world_tables(4) run_ok [OF commit_runs] small_cloud_readonly, THEN conjunct1]
  by (simp add: cloud_world_tables cloud_commit_simps active_bytes_def max_int64_def)

lemma spent_session_found:
  "find_row cs_ID (trim_space (mi_SyncSessionID cloud_commit)) (tb_sessions (db (cloud_world spent_session)))
     = Some spent_session"
  "cs_Status spent_session = CloudSyncSessionStatusCommitted"
  by (simp_all add: cloud_world_tables cloud_commit_simps spent_session_def cloud_session_def find_row_def)

lemma spent_session_final_witness:
  "db (snd (CommitManifest small_cloud cloud_commit (cloud_world spent_session))) = db (cloud_world spent_session)"
  using spent_session_final [OF prod.collapse [symmetric] small_cloud_readonly _ spent_session_found, THEN conjunct2]
  by (simp add: cloud_world_tables)

end
