(* ===== verification/Access_Snapshot.thy ===== *)
theory Access_Snapshot
  imports Cloud_Quota Subscription_Projection Go_JSON
begin

text \<open>
  The signed access snapshot a client stores: service/access_snapshot.go, with the device and
  trial repositories of repository/gorm_repo/access_session.go.  A signer is an interface; the
  message authentication code and the signature scheme of the two signers are parameters, as
  texts in base64.
\<close>

section \<open>Devices and trials\<close>

definition UserDeviceRepo_Create :: "UserDevice \<Rightarrow> unit service" where
  "UserDeviceRepo_Create = store_create tb_devices tb_devices_update device_clash"

definition UserDeviceRepo_GetByID :: "string \<Rightarrow> UserDevice service" where
  "UserDeviceRepo_GetByID = store_find tb_devices ud_ID"

definition UserDeviceRepo_GetByUserAndDevice :: "string \<Rightarrow> string \<Rightarrow> UserDevice service" where
  "UserDeviceRepo_GetByUserAndDevice userID deviceID =
     store_find tb_devices (\<lambda>x. (ud_UserID x, ud_DeviceID x)) (userID, deviceID)"

definition UserDeviceRepo_ListByUser :: "string \<Rightarrow> string \<Rightarrow> UserDevice list service" where
  "UserDeviceRepo_ListByUser userID status =
     db_read (\<lambda>d. sort_key (\<lambda>x. - ud_LastSeenAt x)
       (List.filter (\<lambda>x. ud_UserID x = userID \<and> column_matches status (ud_Status x)) (tb_devices d)))"

definition UserDeviceRepo_Update :: "UserDevice \<Rightarrow> unit service" where
  "UserDeviceRepo_Update = store_save tb_devices tb_devices_update ud_ID device_clash"

record TrialGrantQuery =
  tq_UserID :: string
  tq_Email :: string
  tq_GrantType :: string
  tq_Status :: string
  tq_Limit :: int
  tq_Offset :: int

definition TrialGrantRepo_Create :: "TrialGrant \<Rightarrow> unit service" where
  "TrialGrantRepo_Create = store_create tb_trials tb_trials_update trial_clash"

definition TrialGrantRepo_GetByIdempotencyKey :: "string \<Rightarrow> TrialGrant service" where
  "TrialGrantRepo_GetByIdempotencyKey = store_find tb_trials tg_IdempotencyKey"

definition TrialGrantRepo_List :: "TrialGrantQuery \<Rightarrow> TrialGrant list service" where
  "TrialGrantRepo_List q =
     db_read (\<lambda>d. page (tq_Limit q) (tq_Offset q) (sort_key (\<lambda>x. - tg_CreatedAt x)
       (List.filter (\<lambda>x. column_matches (tq_UserID q) (tg_UserID x) \<and> column_matches (tq_Email q) (tg_Email x)
          \<and> column_matches (tq_GrantType q) (tg_GrantType x) \<and> column_matches (tq_Status q) (tg_Status x))
        (tb_trials d))))"

definition TrialGrantRepo_Update :: "TrialGrant \<Rightarrow> unit service" where
  "TrialGrantRepo_Update = store_save tb_trials tb_trials_update tg_ID trial_clash"

section \<open>The snapshot\<close>

record AccessSnapshotUserV2 =
  vu_ID :: string
  vu_Email :: string
  vu_DisplayName :: string
  vu_Status :: string
  vu_EmailVerified :: bool

record AccessSnapshotLicenseV2 =
  vl_State :: string
  vl_Plan :: string
  vl_AIMode :: string
  vl_TrialEndsAt :: string
  vl_SubscriptionEndsAt :: string
  vl_SubscriptionStatus :: string
  vl_CancelAtPeriodEnd :: bool
  vl_CurrentPeriodEndsAt :: string
  vl_GraceUntil :: string

record AccessSnapshotDeviceV2 =
  vd_ID :: string
  vd_DeviceID :: string
  vd_Status :: string
  vd_MaxDevices :: int
  vd_ActiveDeviceCount :: int
  vd_RemainingDeviceSlots :: int

text \<open>The maps: entitlements as the list of the keys set to true, features and credits by key.\<close>

datatype feature = FBool bool | FText string | FInt int

record AccessSnapshotV2 =
  vs_Version :: int
  vs_User :: AccessSnapshotUserV2
  vs_License :: AccessSnapshotLicenseV2
  vs_Device :: AccessSnapshotDeviceV2
  vs_Entitlements :: "string list"
  vs_Features :: "(string \<times> feature) list"
  vs_Credits :: "(string \<times> int) list"
  vs_IssuedAt :: string
  vs_ExpiresAt :: string
  vs_OfflineGraceUntil :: string
  vs_Source :: string
  vs_Signature :: string
  vs_SignatureKeyID :: string
  vs_SignatureAlg :: string

abbreviation AccessLicenseStateBasic :: string where "AccessLicenseStateBasic \<equiv> ''basic''"
abbreviation AccessLicenseStateTrial :: string where "AccessLicenseStateTrial \<equiv> ''trial''"
abbreviation AccessLicenseStateSubscription :: string where "AccessLicenseStateSubscription \<equiv> ''subscription''"
abbreviation AccessLicenseStateLifetime :: string where "AccessLicenseStateLifetime \<equiv> ''lifetime''"
abbreviation AccessLicenseStateGrace :: string where "AccessLicenseStateGrace \<equiv> ''grace''"
abbreviation AccessPlanProOwnAITrial :: string where "AccessPlanProOwnAITrial \<equiv> ''pro_own_ai_trial''"
abbreviation AccessAIModeBYOK :: string where "AccessAIModeBYOK \<equiv> ''byok''"
abbreviation PlanBasicOwnAI :: string where "PlanBasicOwnAI \<equiv> ''basic_own_ai''"
abbreviation TrialGrantTypeProOwnAI :: string where "TrialGrantTypeProOwnAI \<equiv> ''pro_own_ai_trial''"

section \<open>The signed payload\<close>

text \<open>\<open>json.Marshal\<close> of a member list; an optional member is left out when it is empty.\<close>

definition json_fields :: "(string \<times> string) list \<Rightarrow> string" where
  "json_fields ms =
     ''{'' @ concat (List.map (\<lambda>i. (if i = 0 then [] else '','')
        @ json_string (fst (ms ! i)) @ '':'' @ snd (ms ! i)) [0..<length ms]) @ ''}''"

definition json_bool :: "bool \<Rightarrow> string" where
  "json_bool b = (if b then ''true'' else ''false'')"

definition optional_text :: "string \<Rightarrow> string \<Rightarrow> (string \<times> string) list" where
  "optional_text k v = (if v = [] then [] else [(k, json_string v)])"

definition feature_json :: "feature \<Rightarrow> string" where
  "feature_json f = (case f of FBool b \<Rightarrow> json_bool b | FText s \<Rightarrow> json_string s | FInt i \<Rightarrow> string_of_int i)"

definition user_json :: "AccessSnapshotUserV2 \<Rightarrow> string" where
  "user_json u = json_fields
     [(''id'', json_string (vu_ID u)), (''email'', json_string (vu_Email u)),
      (''display_name'', json_string (vu_DisplayName u)), (''status'', json_string (vu_Status u)),
      (''email_verified'', json_bool (vu_EmailVerified u))]"

definition license_json :: "AccessSnapshotLicenseV2 \<Rightarrow> string" where
  "license_json l = json_fields
     ([(''state'', json_string (vl_State l)), (''plan'', json_string (vl_Plan l)),
       (''ai_mode'', json_string (vl_AIMode l))]
      @ optional_text ''trial_ends_at'' (vl_TrialEndsAt l)
      @ optional_text ''subscription_ends_at'' (vl_SubscriptionEndsAt l)
      @ optional_text ''subscription_status'' (vl_SubscriptionStatus l)
      @ (if vl_CancelAtPeriodEnd l then [(''cancel_at_period_end'', json_bool True)] else [])
      @ optional_text ''current_period_ends_at'' (vl_CurrentPeriodEndsAt l)
      @ optional_text ''grace_until'' (vl_GraceUntil l))"

definition device_json :: "AccessSnapshotDeviceV2 \<Rightarrow> string" where
  "device_json d = json_fields
     [(''id'', json_string (vd_ID d)), (''device_id'', json_string (vd_DeviceID d)),
      (''status'', json_string (vd_Status d)), (''max_devices'', string_of_int (vd_MaxDevices d)),
      (''active_device_count'', string_of_int (vd_ActiveDeviceCount d)),
      (''remaining_device_slots'', string_of_int (vd_RemainingDeviceSlots d))]"

definition snapshot_json :: "AccessSnapshotV2 \<Rightarrow> string" where
  "snapshot_json s = json_fields
     ([(''version'', string_of_int (vs_Version s)), (''user'', user_json (vs_User s)),
       (''license'', license_json (vs_License s)), (''device'', device_json (vs_Device s)),
       (''entitlements'', json_fields (List.map (\<lambda>k. (k, json_bool True)) (sort (remdups (vs_Entitlements s))))),
       (''features'', json_fields (List.map (\<lambda>(k, v). (k, feature_json v)) (sort_key fst (vs_Features s)))),
       (''credits'', json_fields (List.map (\<lambda>(k, v). (k, string_of_int v)) (sort_key fst (vs_Credits s)))),
       (''issued_at'', json_string (vs_IssuedAt s)), (''expires_at'', json_string (vs_ExpiresAt s)),
       (''offline_grace_until'', json_string (vs_OfflineGraceUntil s)),
       (''source'', json_string (vs_Source s)), (''signature'', json_string (vs_Signature s))]
      @ optional_text ''signature_key_id'' (vs_SignatureKeyID s)
      @ optional_text ''signature_algorithm'' (vs_SignatureAlg s))"

definition canonicalAccessSnapshotPayload :: "AccessSnapshotV2 \<Rightarrow> string" where
  "canonicalAccessSnapshotPayload s = snapshot_json (s\<lparr>vs_Signature := []\<rparr>)"

section \<open>Signers\<close>

record AccessSnapshotSigner =
  sg_Sign :: "AccessSnapshotV2 \<Rightarrow> err + string"
  sg_Verify :: "AccessSnapshotV2 \<Rightarrow> err + unit"
  sg_KeyID :: string
  sg_Algorithm :: string

text \<open>\<open>mac secret payload\<close>: the code, in unpadded URL base64.\<close>

definition hmac_Sign :: "(string \<Rightarrow> string \<Rightarrow> string) \<Rightarrow> string \<Rightarrow> AccessSnapshotV2 \<Rightarrow> err + string" where
  "hmac_Sign mac secret s = Inr (mac secret (canonicalAccessSnapshotPayload s))"

definition hmac_Verify :: "(string \<Rightarrow> string \<Rightarrow> string) \<Rightarrow> string \<Rightarrow> AccessSnapshotV2 \<Rightarrow> err + unit" where
  "hmac_Verify mac secret s =
     (let provided = trim_space (vs_Signature s)
      in if provided = [] then Inl ErrSnapshotSignature
         else case hmac_Sign mac secret s of
           Inl e \<Rightarrow> Inl e
         | Inr expected \<Rightarrow> if provided \<noteq> expected then Inl ErrSnapshotSignature else Inr ())"

definition NewHMACAccessSnapshotSigner ::
  "(string \<Rightarrow> string \<Rightarrow> string) \<Rightarrow> string \<Rightarrow> string \<Rightarrow> err + AccessSnapshotSigner" where
  "NewHMACAccessSnapshotSigner mac secret0 keyID =
     (let secret = trim_space secret0
      in if secret = [] then Inl ErrInvalidAccessSnapshot
         else Inr \<lparr>sg_Sign = hmac_Sign mac secret, sg_Verify = hmac_Verify mac secret,
                   sg_KeyID = defaultString (trim_space keyID) ''default'', sg_Algorithm = ''HS256''\<rparr>)"

text \<open>
  \<open>scheme\<close> of a key pair: the signature of a payload in unpadded URL base64, the decoding of
  such a text, and the verification of a decoded signature.
\<close>

record signature_scheme =
  ed_sign :: "string \<Rightarrow> string"
  ed_decode :: "string \<Rightarrow> string option"
  ed_verify :: "string \<Rightarrow> string \<Rightarrow> bool"

definition ed25519_Sign :: "signature_scheme \<Rightarrow> AccessSnapshotV2 \<Rightarrow> err + string" where
  "ed25519_Sign k s = Inr (ed_sign k (canonicalAccessSnapshotPayload s))"

definition ed25519_Verify :: "signature_scheme \<Rightarrow> AccessSnapshotV2 \<Rightarrow> err + unit" where
  "ed25519_Verify k s =
     (let provided = trim_space (vs_Signature s)
      in if provided = [] then Inl ErrSnapshotSignature
         else case ed_decode k provided of
           None \<Rightarrow> Inl ErrSnapshotSignature
         | Some signature \<Rightarrow>
             if \<not> ed_verify k (canonicalAccessSnapshotPayload s) signature then Inl ErrSnapshotSignature else Inr ())"

definition NewEd25519AccessSnapshotSigner :: "signature_scheme option \<Rightarrow> string \<Rightarrow> err + AccessSnapshotSigner" where
  "NewEd25519AccessSnapshotSigner parsed keyID =
     (case parsed of
        None \<Rightarrow> Inl ErrInvalidAccessSnapshot
      | Some k \<Rightarrow> Inr \<lparr>sg_Sign = ed25519_Sign k, sg_Verify = ed25519_Verify k,
          sg_KeyID = defaultString (trim_space keyID) ''default'', sg_Algorithm = ''Ed25519''\<rparr>)"

section \<open>Policy\<close>

record AccessSnapshotPolicyConfig =
  sc_TTLSeconds :: int
  sc_OfflineGraceSeconds :: int
  sc_MaxDevices :: int
  sc_CloudStorageQuotaMB :: int

definition DefaultAccessSnapshotPolicyConfig :: AccessSnapshotPolicyConfig where
  "DefaultAccessSnapshotPolicyConfig =
     \<lparr>sc_TTLSeconds = 24 * 60 * 60, sc_OfflineGraceSeconds = 7 * 24 * 60 * 60, sc_MaxDevices = 2,
      sc_CloudStorageQuotaMB = 1024\<rparr>"

definition normalizeAccessSnapshotPolicyConfig :: "AccessSnapshotPolicyConfig \<Rightarrow> AccessSnapshotPolicyConfig" where
  "normalizeAccessSnapshotPolicyConfig c =
     (let defaults = DefaultAccessSnapshotPolicyConfig
      in \<lparr>sc_TTLSeconds = (if sc_TTLSeconds c \<le> 0 then sc_TTLSeconds defaults else sc_TTLSeconds c),
          sc_OfflineGraceSeconds =
            (if sc_OfflineGraceSeconds c < 0 then sc_OfflineGraceSeconds defaults else sc_OfflineGraceSeconds c),
          sc_MaxDevices = (if sc_MaxDevices c \<le> 0 then sc_MaxDevices defaults else sc_MaxDevices c),
          sc_CloudStorageQuotaMB =
            (if sc_CloudStorageQuotaMB c < 0 then sc_CloudStorageQuotaMB defaults else sc_CloudStorageQuotaMB c)\<rparr>)"

text \<open>\<open>time.Duration(n) * time.Second\<close>.\<close>

definition seconds_ns :: "int \<Rightarrow> int" where
  "seconds_ns n = wrap64 (n * second_ns)"

section \<open>Projections of grants\<close>

definition activeEntitlementGrants :: "EntitlementGrant list \<Rightarrow> instant \<Rightarrow> EntitlementGrant list" where
  "activeEntitlementGrants grants now = List.filter (\<lambda>g. isGrantActive g now) grants"

definition entitlementMapFromGrants :: "EntitlementGrant list \<Rightarrow> string list" where
  "entitlementMapFromGrants grants =
     remdups (List.filter IsCurrentAccessEntitlementID (List.map eg_EntitlementID grants))"

definition isAdvancedSoftwareGrant :: "EntitlementGrant \<Rightarrow> bool" where
  "isAdvancedSoftwareGrant g \<longleftrightarrow> IsCurrentAdvancedEntitlementID (eg_EntitlementID g)"

definition hasAdvancedSoftware :: "EntitlementGrant list \<Rightarrow> bool" where
  "hasAdvancedSoftware grants \<longleftrightarrow> list_ex isAdvancedSoftwareGrant grants"

text \<open>The later of the ends of a kind so far and an end.\<close>

definition later_of :: "instant option \<Rightarrow> instant \<Rightarrow> instant option" where
  "later_of t e = (case t of None \<Rightarrow> Some e | Some x \<Rightarrow> if x < e then Some e else t)"

record license_ends =
  subscriptionEnd :: "instant option"
  graceEnd :: "instant option"
  trialEnd :: "instant option"

text \<open>The scan of the grants: nothing when a lifetime grant ends it, else the ends.\<close>

fun license_scan :: "EntitlementGrant list \<Rightarrow> license_ends \<Rightarrow> license_ends option" where
  "license_scan [] k = Some k"
| "license_scan (g # gs) k =
     (if \<not> isAdvancedSoftwareGrant g then license_scan gs k
      else if eg_Source g = GrantSourceFulfillment then
        (case eg_ExpiresAt g of
           None \<Rightarrow> None
         | Some e \<Rightarrow> license_scan gs (k\<lparr>subscriptionEnd := later_of (subscriptionEnd k) e\<rparr>))
      else if eg_Source g = GrantSourceSubscriptionGrace then
        (case eg_ExpiresAt g of
           None \<Rightarrow> license_scan gs k
         | Some e \<Rightarrow> license_scan gs (k\<lparr>graceEnd := later_of (graceEnd k) e\<rparr>))
      else if eg_Source g = GrantSourceTrial then
        (case eg_ExpiresAt g of
           None \<Rightarrow> license_scan gs k
         | Some e \<Rightarrow> license_scan gs (k\<lparr>trialEnd := later_of (trialEnd k) e\<rparr>))
      else if eg_ExpiresAt g = None then None
      else license_scan gs k)"

definition after_now :: "instant option \<Rightarrow> instant \<Rightarrow> bool" where
  "after_now t now \<longleftrightarrow> (case t of None \<Rightarrow> False | Some e \<Rightarrow> now < e)"

definition end_text :: "instant option \<Rightarrow> string" where
  "end_text t = (case t of None \<Rightarrow> [] | Some e \<Rightarrow> format_rfc3339 e)"

definition basic_license :: AccessSnapshotLicenseV2 where
  "basic_license =
     \<lparr>vl_State = AccessLicenseStateBasic, vl_Plan = PlanBasicOwnAI, vl_AIMode = AccessAIModeBYOK,
      vl_TrialEndsAt = [], vl_SubscriptionEndsAt = [], vl_SubscriptionStatus = [], vl_CancelAtPeriodEnd = False,
      vl_CurrentPeriodEndsAt = [], vl_GraceUntil = []\<rparr>"

definition licenseProjectionFromGrants ::
  "EntitlementGrant list \<Rightarrow> TrialGrant option \<Rightarrow> instant \<Rightarrow> AccessSnapshotLicenseV2" where
  "licenseProjectionFromGrants activeGrants trial now =
     (if \<not> hasAdvancedSoftware activeGrants then basic_license
      else case license_scan activeGrants \<lparr>subscriptionEnd = None, graceEnd = None, trialEnd = None\<rparr> of
        None \<Rightarrow> basic_license\<lparr>vl_State := AccessLicenseStateLifetime, vl_Plan := SKUProOwnAILifetime\<rparr>
      | Some k \<Rightarrow>
          if after_now (subscriptionEnd k) now
          then basic_license\<lparr>vl_State := AccessLicenseStateSubscription, vl_Plan := SKUProOwnAIMonthly,
                 vl_SubscriptionEndsAt := end_text (subscriptionEnd k)\<rparr>
          else if after_now (graceEnd k) now
          then basic_license\<lparr>vl_State := AccessLicenseStateGrace, vl_Plan := SKUProOwnAIMonthly,
                 vl_GraceUntil := end_text (graceEnd k)\<rparr>
          else let te = (case trial of
                     None \<Rightarrow> trialEnd k
                   | Some t \<Rightarrow> if after_now (tg_ExpiresAt t) now then tg_ExpiresAt t else trialEnd k)
               in if after_now te now
                  then basic_license\<lparr>vl_State := AccessLicenseStateTrial, vl_Plan := AccessPlanProOwnAITrial,
                         vl_TrialEndsAt := end_text te\<rparr>
                  else basic_license)"

section \<open>Issuing\<close>

text \<open>
  The issuer: which repositories are set, the policy, the optional quota policy, the signer, and
  the subscription projector, which the constructor supplies when there are grants.
\<close>

record snapshot_issuer =
  si_wired :: bool
  si_devices :: bool
  si_trials :: bool
  si_accounts :: bool
  si_policy :: AccessSnapshotPolicyConfig
  si_quota :: "CloudStorageQuotaPolicy option"
  si_signer :: AccessSnapshotSigner
  si_projector :: "(string \<Rightarrow> SoftwareSubscriptionProjection service) option"

definition deviceSnapshotProjection :: "UserDevice option \<Rightarrow> AccessDeviceCapacity \<Rightarrow> AccessSnapshotDeviceV2" where
  "deviceSnapshotProjection found c =
     \<lparr>vd_ID = (case found of None \<Rightarrow> [] | Some x \<Rightarrow> ud_ID x),
      vd_DeviceID = (case found of None \<Rightarrow> [] | Some x \<Rightarrow> ud_DeviceID x),
      vd_Status = (case found of None \<Rightarrow> [] | Some x \<Rightarrow> ud_Status x),
      vd_MaxDevices = dc_MaxDevices c, vd_ActiveDeviceCount = dc_ActiveDeviceCount c,
      vd_RemainingDeviceSlots = dc_RemainingDeviceSlots c\<rparr>"

definition select_trial :: "instant \<Rightarrow> TrialGrant option \<Rightarrow> TrialGrant \<Rightarrow> TrialGrant option" where
  "select_trial now selected t =
     (if tg_Status t \<noteq> TrialGrantStatusIssued \<or> tg_StartsAt t \<noteq> 0 \<and> now < tg_StartsAt t
         \<or> (tg_ExpiresAt t \<noteq> None \<and> \<not> after_now (tg_ExpiresAt t) now) then selected
      else case selected of
        None \<Rightarrow> Some t
      | Some s \<Rightarrow> (case (tg_ExpiresAt t, tg_ExpiresAt s) of
            (Some e, Some x) \<Rightarrow> if x < e then Some t else selected
          | _ \<Rightarrow> selected))"

definition activeTrial :: "bool \<Rightarrow> User \<Rightarrow> instant \<Rightarrow> TrialGrant option service" where
  "activeTrial has_trials u now =
     (if \<not> has_trials then ret None
      else andThen (attempt (TrialGrantRepo_List \<lparr>tq_UserID = us_ID u, tq_Email = [],
             tq_GrantType = TrialGrantTypeProOwnAI, tq_Status = [], tq_Limit = 0, tq_Offset = 0\<rparr>)) (\<lambda>r.
           case r of
             Inl e \<Rightarrow> ret None
           | Inr trials \<Rightarrow> ret (foldl (select_trial now) None trials)))"

definition snapshotDevice :: "snapshot_issuer \<Rightarrow> User \<Rightarrow> string \<Rightarrow> AccessSnapshotDeviceV2 service" where
  "snapshotDevice s u deviceID =
     (let maxDevices = normalizeAccessMaxDevices (sc_MaxDevices (si_policy s))
      in if \<not> si_devices s then ret (deviceSnapshotProjection None (newAccessDeviceCapacity 0 maxDevices))
         else andThen (UserDeviceRepo_ListByUser (us_ID u) DeviceStatusActive) (\<lambda>active.
              let capacity = newAccessDeviceCapacity (int (length active)) maxDevices
              in if deviceID \<noteq> []
                 then if_found (UserDeviceRepo_GetByUserAndDevice (us_ID u) deviceID)
                        (\<lambda>x. if ud_Status x = DeviceStatusDisabled then fail ErrAccessDeviceRevoked
                             else ret (deviceSnapshotProjection (Some x) capacity))
                        (ret ((deviceSnapshotProjection None capacity)\<lparr>vd_DeviceID := deviceID, vd_Status := ''unknown''\<rparr>))
                 else case active of
                   [] \<Rightarrow> ret (deviceSnapshotProjection None capacity)
                 | x # _ \<Rightarrow> ret (deviceSnapshotProjection (Some x) capacity)))"

definition enrichLicenseWithSoftwareSubscription ::
  "snapshot_issuer \<Rightarrow> User \<Rightarrow> AccessSnapshotLicenseV2 \<Rightarrow> AccessSnapshotLicenseV2 service" where
  "enrichLicenseWithSoftwareSubscription s u l0 =
     (let l = (if vl_CurrentPeriodEndsAt l0 = []
               then l0\<lparr>vl_CurrentPeriodEndsAt := vl_SubscriptionEndsAt l0\<rparr> else l0)
      in case si_projector s of
           None \<Rightarrow> ret l
         | Some project \<Rightarrow>
             if vl_State l \<noteq> AccessLicenseStateSubscription then ret l
             else andThen (attempt (project (us_ID u))) (\<lambda>r.
                  case r of
                    Inl e \<Rightarrow> ret l
                  | Inr p \<Rightarrow>
                      if sp_SKUCode p \<noteq> SKUProOwnAIMonthly then ret l
                      else ret (l\<lparr>vl_SubscriptionStatus := sp_Status p, vl_CancelAtPeriodEnd := sp_CancelAtPeriodEnd p,
                             vl_CurrentPeriodEndsAt := (if sp_CurrentPeriodEndsAt p \<noteq> [] then sp_CurrentPeriodEndsAt p
                                                        else vl_CurrentPeriodEndsAt l)\<rparr>)))"

text \<open>Go's division truncates towards zero.\<close>

definition trunc_div :: "int \<Rightarrow> int \<Rightarrow> int" where
  "trunc_div a b = (if 0 \<le> a then a div b else - ((- a) div b))"

definition featureProjection ::
  "snapshot_issuer \<Rightarrow> User \<Rightarrow> EntitlementGrant list \<Rightarrow> string list \<Rightarrow> (string \<times> feature) list service" where
  "featureProjection s u grants entitlements =
     (let hosted = (''ai.hosted.available'', FBool False)
      in if EntitlementCloudStorage \<notin> set entitlements
         then ret [hosted, (''cloud.storage.plan'', FText CloudStoragePlanNone), (''cloud.storage.quota_mb'', FInt 0)]
         else andThen (case si_quota s of
                Some policy \<Rightarrow>
                  andThen time_now (\<lambda>now.
                  andThen (policy \<lparr>qi_User = u, qi_Grants = grants, qi_Now = now\<rparr>) (\<lambda>q.
                  ret (qd_Plan q, qd_QuotaBytes q)))
              | None \<Rightarrow>
                  ret (CloudStoragePlanCustom, wrap64 (wrap64 (sc_CloudStorageQuotaMB (si_policy s) * 1024) * 1024)))
              (\<lambda>(plan, quotaBytes).
              ret [hosted, (''cloud.storage.plan'', FText plan),
                   (''cloud.storage.quota_mb'', FInt (trunc_div quotaBytes (1024 * 1024)))]))"

definition Issue :: "snapshot_issuer \<Rightarrow> string \<Rightarrow> string \<Rightarrow> AccessSnapshotV2 service" where
  "Issue s userID deviceID =
     andThen (reject_if (\<not> si_wired s \<or> trim_space userID = []) ErrInvalidAccessSnapshot) (\<lambda>_.
     andThen (not_found_as ErrUserNotFound (UserRepo_GetByID (trim_space userID))) (\<lambda>u.
     andThen (EntitlementGrantRepo_ListByUser (us_ID u)) (\<lambda>grants.
     andThen time_now (\<lambda>now.
     let activeGrants = activeEntitlementGrants grants now;
         entitlements = entitlementMapFromGrants activeGrants
     in andThen (activeTrial (si_trials s) u now) (\<lambda>trial.
        andThen (snapshotDevice s u (trim_space deviceID)) (\<lambda>dev.
        let expiresAt = now + seconds_ns (sc_TTLSeconds (si_policy s));
            graceUntil = expiresAt + seconds_ns (sc_OfflineGraceSeconds (si_policy s))
        in andThen (enrichLicenseWithSoftwareSubscription s u (licenseProjectionFromGrants activeGrants trial now)) (\<lambda>license.
           andThen (featureProjection s u activeGrants entitlements) (\<lambda>features.
           andThen (creditSnapshotWithRepo (si_accounts s) (us_ID u)) (\<lambda>credits.
           let snapshot =
             \<lparr>vs_Version = 2,
              vs_User = \<lparr>vu_ID = us_ID u, vu_Email = us_Email u, vu_DisplayName = us_DisplayName u,
                vu_Status = us_Status u, vu_EmailVerified = False\<rparr>,
              vs_License = license, vs_Device = dev, vs_Entitlements = entitlements, vs_Features = features,
              vs_Credits = credits, vs_IssuedAt = format_rfc3339 now, vs_ExpiresAt = format_rfc3339 expiresAt,
              vs_OfflineGraceUntil = format_rfc3339 graceUntil, vs_Source = ''billing_provider'',
              vs_Signature = [], vs_SignatureKeyID = sg_KeyID (si_signer s), vs_SignatureAlg = sg_Algorithm (si_signer s)\<rparr>
           in andThen (of_sum (sg_Sign (si_signer s) snapshot)) (\<lambda>signature.
              ret (snapshot\<lparr>vs_Signature := signature\<rparr>)))))))))))"

end
