(* ===== verification/Access_Session.thy ===== *)
theory Access_Session
  imports Access_Snapshot Commerce_Catalog
begin

text \<open>
  Registering or restoring a desktop access: service/access_session.go.  A session makes sure of
  the user, binds the device within the capacity, and grants the trial once per email; the signed
  snapshot is issued after the transaction.  Also the revocation of a device
  (service/access_device_admin.go).
\<close>

section \<open>Keys\<close>

definition stableAccessSessionKey :: "string list \<Rightarrow> string service" where
  "stableAccessSessionKey parts w =
     (Inr (''acs_'' @ sha256_hex w (concat (List.map (\<lambda>p. trim_space p @ [CHR 0x00]) parts))), w)"

definition trialGrantIdempotencyKey :: "string \<Rightarrow> string \<Rightarrow> string service" where
  "trialGrantIdempotencyKey email grantType =
     stableAccessSessionKey [''trial'', trim_space grantType, normalizeEmail email]"

definition trialEntitlementGrantKey :: "string \<Rightarrow> string \<Rightarrow> string service" where
  "trialEntitlementGrantKey trialKey entitlementID =
     stableAccessSessionKey [''trial_entitlement'', trim_space trialKey, trim_space entitlementID]"

section \<open>Policy\<close>

record TrialAccessPlan =
  tp_GrantType :: string
  tp_DurationDays :: int
  tp_EntitlementIDs :: "string list"

record AccessSessionPolicyConfig =
  ac_TrialGrantType :: string
  ac_TrialDurationDays :: int
  ac_MaxDevices :: int
  ac_TrialEntitlements :: "string list"

definition DefaultAccessSessionPolicyConfig :: AccessSessionPolicyConfig where
  "DefaultAccessSessionPolicyConfig =
     \<lparr>ac_TrialGrantType = TrialGrantTypeProOwnAI, ac_TrialDurationDays = 14, ac_MaxDevices = 2,
      ac_TrialEntitlements = CurrentAdvancedEntitlements\<rparr>"

definition normalizeAccessSessionPolicyConfig :: "AccessSessionPolicyConfig \<Rightarrow> AccessSessionPolicyConfig" where
  "normalizeAccessSessionPolicyConfig c =
     (let defaults = DefaultAccessSessionPolicyConfig
      in \<lparr>ac_TrialGrantType = defaultString (trim_space (ac_TrialGrantType c)) (ac_TrialGrantType defaults),
          ac_TrialDurationDays =
            (if ac_TrialDurationDays c \<le> 0 then ac_TrialDurationDays defaults else ac_TrialDurationDays c),
          ac_MaxDevices = (if ac_MaxDevices c \<le> 0 then ac_MaxDevices defaults else ac_MaxDevices c),
          ac_TrialEntitlements = normalizeStringSet
            (if ac_TrialEntitlements c = [] then ac_TrialEntitlements defaults else ac_TrialEntitlements c)\<rparr>)"

definition TrialPlan :: "AccessSessionPolicyConfig \<Rightarrow> TrialAccessPlan" where
  "TrialPlan c = \<lparr>tp_GrantType = ac_TrialGrantType c, tp_DurationDays = ac_TrialDurationDays c,
     tp_EntitlementIDs = ac_TrialEntitlements c\<rparr>"

definition normalizeTrialAccessPlan :: "TrialAccessPlan \<Rightarrow> TrialAccessPlan" where
  "normalizeTrialAccessPlan p = p\<lparr>tp_GrantType := trim_space (tp_GrantType p),
     tp_EntitlementIDs := normalizeStringSet (tp_EntitlementIDs p)\<rparr>"

section \<open>The session\<close>

record AccessSessionInput =
  ai_Email :: string
  ai_DisplayName :: string
  ai_DeviceID :: string
  ai_Source :: string
  ai_Note :: string

record AccessSessionResult =
  at_User :: User
  at_Device :: UserDevice
  at_DeviceCapacity :: AccessDeviceCapacity
  at_Trial :: TrialGrant
  at_TrialCreated :: bool
  at_Snapshot :: EntitlementSnapshot
  at_AccessSnapshot :: "AccessSnapshotV2 option"
  at_Source :: string

text \<open>The service: its repositories and unit of work, its policy and catalog, the snapshot issuer.\<close>

record access_session_service =
  as_wired :: bool
  as_accounts :: bool
  as_policy :: AccessSessionPolicyConfig
  as_catalog :: "string list"
  as_issuer :: "(string \<Rightarrow> string \<Rightarrow> AccessSnapshotV2 service) option"
  as_uow :: bool

definition upsertUser :: "AccessSessionInput \<Rightarrow> instant \<Rightarrow> User service" where
  "upsertUser i now =
     if_found (UserRepo_GetByEmail (ai_Email i))
       (\<lambda>u. andThen (reject_if (us_Status u \<noteq> [] \<and> us_Status u \<noteq> UserStatusActive) ErrAccessUserDisabled) (\<lambda>_.
            if us_DisplayName u = [] \<and> ai_DisplayName i \<noteq> []
            then let u' = u\<lparr>us_DisplayName := ai_DisplayName i, us_UpdatedAt := now\<rparr>
                 in andThen (UserRepo_Update u') (\<lambda>_. ret u')
            else ret u))
       (andThen (generateEntityID ''usr_'') (\<lambda>userID.
        let u = \<lparr>us_ID = userID, us_Email = ai_Email i, us_DisplayName = ai_DisplayName i,
               us_Status = UserStatusActive, us_CreatedAt = now, us_UpdatedAt = now\<rparr>
        in andThen (UserRepo_Create u) (\<lambda>_. ret u)))"

definition new_device :: "string \<Rightarrow> string \<Rightarrow> string \<Rightarrow> instant \<Rightarrow> UserDevice" where
  "new_device i userID deviceID now =
     \<lparr>ud_ID = i, ud_UserID = userID, ud_DeviceID = deviceID, ud_Status = DeviceStatusActive,
      ud_FirstSeenAt = now, ud_LastSeenAt = now, ud_CreatedAt = now, ud_UpdatedAt = now,
      ud_RevokedAt = None, ud_RevokedBy = [], ud_RevokeReason = []\<rparr>"

definition bindDevice :: "string \<Rightarrow> string \<Rightarrow> int \<Rightarrow> instant \<Rightarrow> (UserDevice \<times> AccessDeviceCapacity) service" where
  "bindDevice userID deviceID maxDevices0 now =
     (let maxDevices = normalizeAccessMaxDevices maxDevices0
      in if_found (UserDeviceRepo_GetByUserAndDevice userID deviceID)
           (\<lambda>x. andThen (reject_if (ud_Status x \<noteq> [] \<and> ud_Status x \<noteq> DeviceStatusActive) ErrAccessDeviceRevoked) (\<lambda>_.
                let x' = x\<lparr>ud_Status := DeviceStatusActive, ud_LastSeenAt := now, ud_UpdatedAt := now\<rparr>
                in andThen (UserDeviceRepo_Update x') (\<lambda>_.
                   andThen (UserDeviceRepo_ListByUser userID DeviceStatusActive) (\<lambda>active.
                   ret (x', newAccessDeviceCapacity (int (length active)) maxDevices)))))
           (andThen (UserDeviceRepo_ListByUser userID DeviceStatusActive) (\<lambda>active.
            andThen (reject_if (maxDevices \<le> int (length active)) ErrDeviceLimitExceeded) (\<lambda>_.
            andThen (generateEntityID ''dev_'') (\<lambda>i.
            let x = new_device i userID deviceID now
            in andThen (UserDeviceRepo_Create x) (\<lambda>_.
               ret (x, newAccessDeviceCapacity (int (length active) + 1) maxDevices)))))))"

definition trial_entitlement :: "string list \<Rightarrow> string \<Rightarrow> TrialGrant \<Rightarrow> string \<Rightarrow> unit service" where
  "trial_entitlement catalog userID t entitlementID0 =
     (let entitlementID = trim_space entitlementID0
      in if entitlementID = [] then ret ()
         else andThen (trialEntitlementGrantKey (tg_IdempotencyKey t) entitlementID) (\<lambda>key.
              andThen (createGrantWithRepos True (Some catalog)
                \<lparr>ei_UserID = userID, ei_RegistrationID = [], ei_EntitlementID = entitlementID,
                 ei_CreatedBy = ''system'', ei_Source = GrantSourceTrial, ei_StartsAt = tg_StartsAt t,
                 ei_ExpiresAt = tg_ExpiresAt t, ei_IdempotencyKey = key\<rparr>) (\<lambda>_. ret ())))"

definition ensureTrialEntitlementGrants :: "string list \<Rightarrow> string \<Rightarrow> TrialGrant \<Rightarrow> string list \<Rightarrow> unit service" where
  "ensureTrialEntitlementGrants catalog userID t entitlementIDs =
     for_each entitlementIDs (\<lambda>e _. trial_entitlement catalog userID t e) ()"

definition new_trial :: "string \<Rightarrow> User \<Rightarrow> string \<Rightarrow> TrialAccessPlan \<Rightarrow> string \<Rightarrow> instant \<Rightarrow> TrialGrant" where
  "new_trial i u email plan key now =
     \<lparr>tg_ID = i, tg_UserID = us_ID u, tg_Email = email, tg_GrantType = tp_GrantType plan,
      tg_Status = TrialGrantStatusIssued, tg_StartsAt = now,
      tg_ExpiresAt = Some (add_date 0 0 (tp_DurationDays plan) now), tg_IdempotencyKey = key,
      tg_CreatedAt = now, tg_UpdatedAt = now, tg_RevokedAt = None\<rparr>"

definition ensureTrial ::
  "string list \<Rightarrow> User \<Rightarrow> AccessSessionInput \<Rightarrow> TrialAccessPlan \<Rightarrow> instant \<Rightarrow> (TrialGrant \<times> bool) service" where
  "ensureTrial catalog u i plan0 now =
     (let plan = normalizeTrialAccessPlan plan0
      in andThen (reject_if (tp_GrantType plan = [] \<or> tp_DurationDays plan \<le> 0 \<or> tp_EntitlementIDs plan = [])
           ErrInvalidAccessSession) (\<lambda>_.
         andThen (trialGrantIdempotencyKey (ai_Email i) (tp_GrantType plan)) (\<lambda>key.
         if_found (TrialGrantRepo_GetByIdempotencyKey key)
           (\<lambda>t. andThen (reject_if (tg_UserID t \<noteq> us_ID u \<or> tg_Email t \<noteq> ai_Email i
                     \<or> tg_GrantType t \<noteq> tp_GrantType plan) ErrInvalidAccessSession) (\<lambda>_.
                andThen (ensureTrialEntitlementGrants catalog (us_ID u) t (tp_EntitlementIDs plan)) (\<lambda>_.
                ret (t, False))))
           (andThen (generateEntityID ''trl_'') (\<lambda>trialID.
            let t = new_trial trialID u (ai_Email i) plan key now
            in andThen (TrialGrantRepo_Create t) (\<lambda>_.
               andThen (ensureTrialEntitlementGrants catalog (us_ID u) t (tp_EntitlementIDs plan)) (\<lambda>_.
               ret (t, True))))))))"

definition registerOrRestoreWithRepos :: "access_session_service \<Rightarrow> AccessSessionInput \<Rightarrow> AccessSessionResult service" where
  "registerOrRestoreWithRepos s i =
     andThen time_now (\<lambda>now.
     andThen (upsertUser i now) (\<lambda>u.
     andThen (bindDevice (us_ID u) (ai_DeviceID i) (ac_MaxDevices (as_policy s)) now) (\<lambda>(dev, capacity).
     andThen (ensureTrial (as_catalog s) u i (TrialPlan (as_policy s)) now) (\<lambda>(t, created).
     andThen (snapshotForUserWithRepos (as_accounts s) (us_ID u)) (\<lambda>snapshot.
     ret \<lparr>at_User = u, at_Device = dev, at_DeviceCapacity = capacity, at_Trial = t, at_TrialCreated = created,
          at_Snapshot = snapshot, at_AccessSnapshot = None, at_Source = ''billing_provider''\<rparr>)))))"

definition normalize_session_input :: "AccessSessionInput \<Rightarrow> AccessSessionInput" where
  "normalize_session_input i =
     \<lparr>ai_Email = normalizeEmail (ai_Email i), ai_DisplayName = trim_space (ai_DisplayName i),
      ai_DeviceID = trim_space (ai_DeviceID i),
      ai_Source = defaultString (trim_space (ai_Source i)) ''desktop'', ai_Note = trim_space (ai_Note i)\<rparr>"

definition withAccessSessionTransaction :: "access_session_service \<Rightarrow> 'a service \<Rightarrow> 'a service" where
  "withAccessSessionTransaction s body = (if as_uow s then in_transaction body else body)"

definition RegisterOrRestore :: "access_session_service \<Rightarrow> AccessSessionInput \<Rightarrow> AccessSessionResult service" where
  "RegisterOrRestore s i0 =
     (let i = normalize_session_input i0
      in andThen (reject_if (\<not> as_wired s \<or> ai_Email i = [] \<or> ai_DeviceID i = []) ErrInvalidAccessSession) (\<lambda>_.
         andThen (withAccessSessionTransaction s (registerOrRestoreWithRepos s i)) (\<lambda>result.
         case as_issuer s of
           None \<Rightarrow> ret result
         | Some issue \<Rightarrow>
             andThen (issue (us_ID (at_User result)) (ud_DeviceID (at_Device result))) (\<lambda>snapshot.
             ret (result\<lparr>at_AccessSnapshot := Some snapshot\<rparr>)))))"

section \<open>Revocation of a device\<close>

record AccessDeviceRevokeInput =
  vi_DeviceID :: string
  vi_RevokedBy :: string
  vi_Reason :: string

definition RevokeDevice :: "AccessDeviceRevokeInput \<Rightarrow> UserDevice service" where
  "RevokeDevice i =
     (let deviceID = trim_space (vi_DeviceID i)
      in andThen (reject_if (deviceID = []) ErrInvalidAccessDevice) (\<lambda>_.
         andThen (not_found_as ErrAccessDeviceNotFound (UserDeviceRepo_GetByID deviceID)) (\<lambda>x.
         andThen time_now (\<lambda>now.
         if ud_Status x = DeviceStatusDisabled \<and> ud_RevokedAt x \<noteq> None then ret x
         else let x' = x\<lparr>ud_Status := DeviceStatusDisabled, ud_UpdatedAt := now, ud_RevokedAt := Some now,
                    ud_RevokedBy := defaultString (trim_space (vi_RevokedBy i)) ''admin'',
                    ud_RevokeReason := trim_space (vi_Reason i)\<rparr>
              in andThen (UserDeviceRepo_Update x') (\<lambda>_. ret x')))))"

end
