(* ===== verification/Access_Login.thy ===== *)
theory Access_Login
  imports Access_Session
begin

text \<open>
  Login challenges: service/access_login_challenge.go with its repository
  (repository/gorm_repo/access_login_challenge.go).  A challenge is created for an email and a
  device, delivered with a token of which only the hash is stored, and consumed at most once by
  a verification.  The token generator, the hasher, the delivery and the abuse observer are
  interfaces; the hasher of the process is HMAC, whose code is a parameter.
\<close>

section \<open>Repository\<close>

record AccessLoginChallengeQuery =
  oq_Email :: string
  oq_ClientIPHash :: string
  oq_CreatedAfter :: instant
  oq_Statuses :: "string list"

definition ChallengeRepo_Create :: "LoginChallenge \<Rightarrow> unit service" where
  "ChallengeRepo_Create = store_create tb_challenges tb_challenges_update challenge_clash"

definition ChallengeRepo_GetByID :: "string \<Rightarrow> LoginChallenge service" where
  "ChallengeRepo_GetByID = store_find tb_challenges lc_ID"

definition ChallengeRepo_GetByIdempotencyKey :: "string \<Rightarrow> LoginChallenge service" where
  "ChallengeRepo_GetByIdempotencyKey = store_find tb_challenges lc_IdempotencyKey"

text \<open>The status filter of the query is the set of its non-blank statuses.\<close>

definition challenge_matches :: "AccessLoginChallengeQuery \<Rightarrow> LoginChallenge \<Rightarrow> bool" where
  "challenge_matches q x \<longleftrightarrow>
     column_matches (trim_space (oq_Email q)) (lc_Email x)
     \<and> column_matches (trim_space (oq_ClientIPHash q)) (lc_ClientIPHash x)
     \<and> (oq_CreatedAfter q = 0 \<or> oq_CreatedAfter q \<le> lc_CreatedAt x)
     \<and> (let statuses = normalizeStringSet (oq_Statuses q) in statuses = [] \<or> lc_Status x \<in> set statuses)"

definition ChallengeRepo_Count :: "AccessLoginChallengeQuery \<Rightarrow> int service" where
  "ChallengeRepo_Count q = db_read (\<lambda>d. int (length (List.filter (challenge_matches q) (tb_challenges d))))"

definition ChallengeRepo_Update :: "LoginChallenge \<Rightarrow> unit service" where
  "ChallengeRepo_Update = store_save tb_challenges tb_challenges_update lc_ID challenge_clash"

definition consumable :: "string \<Rightarrow> LoginChallenge \<Rightarrow> bool" where
  "consumable i x \<longleftrightarrow> lc_ID x = i \<and> lc_Status x = ChallengePending \<and> lc_ConsumedAt x = None"

definition consume_row :: "string \<Rightarrow> instant \<Rightarrow> LoginChallenge \<Rightarrow> LoginChallenge" where
  "consume_row i t x =
     (if consumable i x
      then x\<lparr>lc_Status := ChallengeConsumed, lc_ConsumedAt := Some t, lc_UpdatedAt := t\<rparr> else x)"

definition ChallengeRepo_ConsumePending :: "string \<Rightarrow> instant \<Rightarrow> bool service" where
  "ChallengeRepo_ConsumePending i t =
     db_write (\<lambda>d. Some (list_ex (consumable i) (tb_challenges d),
       d\<lparr>tb_challenges := List.map (consume_row i t) (tb_challenges d)\<rparr>))"

section \<open>Policy\<close>

record AccessLoginChallengePolicyConfig =
  lp_TTLSeconds :: int
  lp_MaxAttempts :: int
  lp_RateLimitWindowSeconds :: int
  lp_MaxCreatesPerEmail :: int
  lp_MaxCreatesPerIP :: int

definition DefaultAccessLoginChallengePolicyConfig :: AccessLoginChallengePolicyConfig where
  "DefaultAccessLoginChallengePolicyConfig =
     \<lparr>lp_TTLSeconds = 10 * 60, lp_MaxAttempts = 5, lp_RateLimitWindowSeconds = 10 * 60,
      lp_MaxCreatesPerEmail = 5, lp_MaxCreatesPerIP = 20\<rparr>"

definition positive_or :: "int \<Rightarrow> int \<Rightarrow> int" where
  "positive_or v fallback = (if v \<le> 0 then fallback else v)"

definition NewConfigurableAccessLoginChallengePolicy ::
  "AccessLoginChallengePolicyConfig \<Rightarrow> AccessLoginChallengePolicyConfig" where
  "NewConfigurableAccessLoginChallengePolicy c =
     (let defaults = DefaultAccessLoginChallengePolicyConfig
      in \<lparr>lp_TTLSeconds = positive_or (lp_TTLSeconds c) (lp_TTLSeconds defaults),
          lp_MaxAttempts = positive_or (lp_MaxAttempts c) (lp_MaxAttempts defaults),
          lp_RateLimitWindowSeconds = positive_or (lp_RateLimitWindowSeconds c) (lp_RateLimitWindowSeconds defaults),
          lp_MaxCreatesPerEmail = positive_or (lp_MaxCreatesPerEmail c) (lp_MaxCreatesPerEmail defaults),
          lp_MaxCreatesPerIP = positive_or (lp_MaxCreatesPerIP c) (lp_MaxCreatesPerIP defaults)\<rparr>)"

record AccessLoginChallengeRateLimit =
  rl_Window :: int
  rl_MaxPerEmail :: int
  rl_MaxPerIP :: int

text \<open>The policy as an interface: lifetime, attempts and rate limit.\<close>

record challenge_policy =
  po_TTL :: int
  po_MaxAttempts :: int
  po_RateLimit :: AccessLoginChallengeRateLimit

definition configurable_policy :: "AccessLoginChallengePolicyConfig \<Rightarrow> challenge_policy" where
  "configurable_policy c =
     \<lparr>po_TTL = seconds_ns (lp_TTLSeconds c), po_MaxAttempts = lp_MaxAttempts c,
      po_RateLimit = \<lparr>rl_Window = seconds_ns (lp_RateLimitWindowSeconds c),
        rl_MaxPerEmail = lp_MaxCreatesPerEmail c, rl_MaxPerIP = lp_MaxCreatesPerIP c\<rparr>\<rparr>"

section \<open>The service\<close>

record AccessLoginChallengeDeliveryResult =
  dr_Channel :: string
  dr_DevToken :: string

record AccessLoginChallengeAbuseEvent =
  ae_ChallengeID :: string
  ae_EmailFingerprint :: string
  ae_DeviceIDFingerprint :: string
  ae_ClientIPHash :: string
  ae_UserAgentHash :: string
  ae_Reason :: string
  ae_Attempts :: int
  ae_MaxAttempts :: int
  ae_LimitWindowSeconds :: int
  ae_Limit :: int

record login_service =
  ls_wired :: bool
  ls_policy :: challenge_policy
  ls_generate :: "string service"
  ls_hash :: "string \<Rightarrow> string"
  ls_verify :: "string \<Rightarrow> string \<Rightarrow> bool"
  ls_available :: "unit service"
  ls_deliver :: "LoginChallenge \<Rightarrow> string \<Rightarrow> AccessLoginChallengeDeliveryResult service"
  ls_observer :: "(AccessLoginChallengeAbuseEvent \<Rightarrow> unit service) option"
  ls_session :: "(AccessSessionInput \<Rightarrow> AccessSessionResult service) option"

text \<open>The hasher of the process; \<open>mac_hex secret text\<close>: the code in hexadecimal.\<close>

definition hmac_token_Hash :: "(string \<Rightarrow> string \<Rightarrow> string) \<Rightarrow> string \<Rightarrow> string \<Rightarrow> string" where
  "hmac_token_Hash mac_hex secret token =
     mac_hex (defaultString (trim_space secret) ''walnut-dev-login-challenge-secret'') (trim_space token)"

definition hmac_token_Verify :: "(string \<Rightarrow> string \<Rightarrow> string) \<Rightarrow> string \<Rightarrow> string \<Rightarrow> string \<Rightarrow> bool" where
  "hmac_token_Verify mac_hex secret token tokenHash \<longleftrightarrow>
     hmac_token_Hash mac_hex secret token = trim_space tokenHash"

record AccessLoginChallengeCreateInput =
  ni_LoginEmail :: string
  ni_LoginDeviceID :: string
  ni_LoginSource :: string
  ni_LoginIdempotencyKey :: string
  ni_ClientIP :: string
  ni_UserAgent :: string

record AccessLoginChallengeVerifyInput =
  yi_ChallengeID :: string
  yi_Token :: string
  yi_DeviceID :: string
  yi_DisplayName :: string
  yi_Source :: string
  yi_ClientIP :: string
  yi_UserAgent :: string

record AccessLoginChallengeCreateResult =
  cc_ChallengeID :: string
  cc_Email :: string
  cc_DeviceID :: string
  cc_ExpiresAt :: instant
  cc_Delivery :: string
  cc_DevToken :: string

definition emailFingerprint :: "string \<Rightarrow> string service" where
  "emailFingerprint email w =
     (let normalized = normalizeEmail email
      in (Inr (if normalized = [] then [] else take 12 (sha256_hex w (''walnut-access-admin-v1:'' @ normalized))), w))"

definition deviceFingerprint :: "string \<Rightarrow> string service" where
  "deviceFingerprint deviceID0 w =
     (let deviceID = trim_space deviceID0
      in (Inr (if deviceID = [] then [] else take 12 (sha256_hex w (''walnut-access-device-v1:'' @ deviceID))), w))"

definition shortFingerprint :: "string \<Rightarrow> string" where
  "shortFingerprint v = take 12 (trim_space v)"

definition accessLoginChallengeHash :: "login_service \<Rightarrow> string \<Rightarrow> string \<Rightarrow> string" where
  "accessLoginChallengeHash s scope v0 =
     (let v = trim_space v0
      in if v = [] then [] else ls_hash s (''metadata:'' @ trim_space scope @ '':'' @ v))"

text \<open>The observer has no result: whatever it does is not an error of the caller.\<close>

definition observeAbuse :: "login_service \<Rightarrow> AccessLoginChallengeAbuseEvent \<Rightarrow> unit service" where
  "observeAbuse s e =
     (case ls_observer s of
        None \<Rightarrow> ret ()
      | Some observer \<Rightarrow> andThen (attempt (observer e)) (\<lambda>_. ret ()))"

text \<open>The parts of an event that name the requester.\<close>

definition abuse_event ::
  "string \<Rightarrow> string \<Rightarrow> string \<Rightarrow> string \<Rightarrow> AccessLoginChallengeAbuseEvent service" where
  "abuse_event email deviceID ipHash agentHash =
     andThen (emailFingerprint email) (\<lambda>ef.
     andThen (deviceFingerprint deviceID) (\<lambda>df.
     ret \<lparr>ae_ChallengeID = [], ae_EmailFingerprint = ef, ae_DeviceIDFingerprint = df,
          ae_ClientIPHash = shortFingerprint ipHash, ae_UserAgentHash = shortFingerprint agentHash,
          ae_Reason = [], ae_Attempts = 0, ae_MaxAttempts = 0, ae_LimitWindowSeconds = 0, ae_Limit = 0\<rparr>))"

text \<open>One limit of the rate limit: the challenges of a query since the start of the window.\<close>

definition enforce_limit ::
  "login_service \<Rightarrow> AccessLoginChallengeQuery \<Rightarrow> int \<Rightarrow> AccessLoginChallengeAbuseEvent service \<Rightarrow> unit service" where
  "enforce_limit s q limit event =
     andThen (ChallengeRepo_Count q) (\<lambda>count.
     if limit \<le> count
     then andThen event (\<lambda>e.
          andThen (observeAbuse s (e\<lparr>ae_Reason := ''rate_limited'',
            ae_LimitWindowSeconds := rl_Window (po_RateLimit (ls_policy s)) div second_ns, ae_Limit := limit\<rparr>)) (\<lambda>_.
          fail ErrAccessLoginChallengeRateLimited))
     else ret ())"

definition enforceCreateRateLimit :: "login_service \<Rightarrow> AccessLoginChallengeCreateInput \<Rightarrow> instant \<Rightarrow> unit service" where
  "enforceCreateRateLimit s i now =
     (let limit = po_RateLimit (ls_policy s);
          ipHash = accessLoginChallengeHash s ''client_ip'' (ni_ClientIP i);
          agentHash = accessLoginChallengeHash s ''user_agent'' (ni_UserAgent i);
          event = abuse_event (ni_LoginEmail i) (ni_LoginDeviceID i) ipHash agentHash;
          createdAfter = now - rl_Window limit
      in if rl_Window limit \<le> 0 then ret ()
         else andThen (if 0 < rl_MaxPerEmail limit
                then enforce_limit s \<lparr>oq_Email = ni_LoginEmail i, oq_ClientIPHash = [],
                       oq_CreatedAfter = createdAfter, oq_Statuses = []\<rparr> (rl_MaxPerEmail limit) event
                else ret ()) (\<lambda>_.
              if 0 < rl_MaxPerIP limit \<and> ipHash \<noteq> []
              then enforce_limit s \<lparr>oq_Email = [], oq_ClientIPHash = ipHash,
                     oq_CreatedAfter = createdAfter, oq_Statuses = []\<rparr> (rl_MaxPerIP limit) event
              else ret ()))"

definition createResult ::
  "LoginChallenge \<Rightarrow> AccessLoginChallengeDeliveryResult \<Rightarrow> AccessLoginChallengeCreateResult" where
  "createResult x r =
     \<lparr>cc_ChallengeID = lc_ID x, cc_Email = lc_Email x, cc_DeviceID = lc_DeviceID x, cc_ExpiresAt = lc_ExpiresAt x,
      cc_Delivery = defaultString (trim_space (dr_Channel r)) ''email'', cc_DevToken = dr_DevToken r\<rparr>"

definition challenge_over :: "LoginChallenge \<Rightarrow> instant \<Rightarrow> bool" where
  "challenge_over x now \<longleftrightarrow> lc_ExpiresAt x \<noteq> 0 \<and> \<not> now < lc_ExpiresAt x"

definition replayCreateResult :: "LoginChallenge \<Rightarrow> AccessLoginChallengeCreateResult service" where
  "replayCreateResult x =
     andThen (if lc_Status x = ChallengeExpired then ret True
              else if lc_ExpiresAt x = 0 then ret False
              else andThen time_now (\<lambda>now. ret (challenge_over x now))) (\<lambda>over.
     andThen (reject_if over ErrAccessLoginChallengeExpired) (\<lambda>_.
     andThen (reject_if (lc_Status x \<noteq> ChallengePending \<or> lc_ConsumedAt x \<noteq> None) ErrAccessLoginChallengeFailed) (\<lambda>_.
     ret (createResult x \<lparr>dr_Channel = ''idempotent_replay'', dr_DevToken = []\<rparr>))))"

definition normalize_create_input :: "AccessLoginChallengeCreateInput \<Rightarrow> AccessLoginChallengeCreateInput" where
  "normalize_create_input i =
     \<lparr>ni_LoginEmail = normalizeEmail (ni_LoginEmail i), ni_LoginDeviceID = trim_space (ni_LoginDeviceID i),
      ni_LoginSource = defaultString (trim_space (ni_LoginSource i)) ''desktop'',
      ni_LoginIdempotencyKey = trim_space (ni_LoginIdempotencyKey i),
      ni_ClientIP = trim_space (ni_ClientIP i), ni_UserAgent = trim_space (ni_UserAgent i)\<rparr>"

definition new_challenge ::
  "login_service \<Rightarrow> AccessLoginChallengeCreateInput \<Rightarrow> string \<Rightarrow> string \<Rightarrow> string \<Rightarrow> instant \<Rightarrow> LoginChallenge" where
  "new_challenge s i challengeID token key now =
     \<lparr>lc_ID = challengeID, lc_Email = ni_LoginEmail i, lc_DeviceID = ni_LoginDeviceID i,
      lc_TokenHash = ls_hash s token, lc_Status = ChallengePending, lc_Attempts = 0,
      lc_MaxAttempts = po_MaxAttempts (ls_policy s),
      lc_ClientIPHash = accessLoginChallengeHash s ''client_ip'' (ni_ClientIP i),
      lc_UserAgentHash = accessLoginChallengeHash s ''user_agent'' (ni_UserAgent i),
      lc_FailureReason = [], lc_Source = ni_LoginSource i, lc_IdempotencyKey = key,
      lc_ExpiresAt = now + po_TTL (ls_policy s), lc_ConsumedAt = None, lc_CreatedAt = now, lc_UpdatedAt = now\<rparr>"

definition deliver_challenge ::
  "login_service \<Rightarrow> LoginChallenge \<Rightarrow> string \<Rightarrow> AccessLoginChallengeCreateResult service" where
  "deliver_challenge s x token =
     andThen (attempt (ls_deliver s x token)) (\<lambda>r.
     case r of
       Inr delivery \<Rightarrow> ret (createResult x delivery)
     | Inl e \<Rightarrow>
         andThen time_now (\<lambda>now.
         andThen (attempt (ChallengeRepo_Update (x\<lparr>lc_Status := ChallengeExpired, lc_UpdatedAt := now\<rparr>))) (\<lambda>_.
         fail e)))"

definition create_challenge ::
  "login_service \<Rightarrow> AccessLoginChallengeCreateInput \<Rightarrow> AccessLoginChallengeCreateResult service" where
  "create_challenge s i =
     andThen time_now (\<lambda>now.
     andThen (enforceCreateRateLimit s i now) (\<lambda>_.
     andThen (ls_generate s) (\<lambda>token.
     andThen (generateEntityID ''alc_'') (\<lambda>challengeID.
     andThen (if ni_LoginIdempotencyKey i \<noteq> [] then ret (ni_LoginIdempotencyKey i)
              else stableAccessSessionKey [''login_challenge'', ni_LoginEmail i, ni_LoginDeviceID i, challengeID]) (\<lambda>key.
     let x = new_challenge s i challengeID token key now
     in andThen (attempt (ChallengeRepo_Create x)) (\<lambda>r.
        case r of
          Inr _ \<Rightarrow> deliver_challenge s x token
        | Inl e \<Rightarrow>
            andThen (attempt (ChallengeRepo_GetByIdempotencyKey key)) (\<lambda>r2.
            case r2 of Inr existing \<Rightarrow> replayCreateResult existing | Inl _ \<Rightarrow> fail e)))))))"

definition Challenge_Create ::
  "login_service \<Rightarrow> AccessLoginChallengeCreateInput \<Rightarrow> AccessLoginChallengeCreateResult service" where
  "Challenge_Create s i0 =
     (let i = normalize_create_input i0
      in andThen (reject_if (\<not> ls_wired s) ErrInvalidAccessLoginChallenge) (\<lambda>_.
         andThen (reject_if (ni_LoginEmail i = [] \<or> ni_LoginDeviceID i = []) ErrInvalidAccessLoginChallenge) (\<lambda>_.
         andThen (ls_available s) (\<lambda>_.
         if ni_LoginIdempotencyKey i \<noteq> []
         then if_found (ChallengeRepo_GetByIdempotencyKey (ni_LoginIdempotencyKey i)) replayCreateResult
                (create_challenge s i)
         else create_challenge s i))))"

section \<open>Verification\<close>

definition recordFailedAttempt :: "login_service \<Rightarrow> LoginChallenge \<Rightarrow> instant \<Rightarrow> string \<Rightarrow> 'a service" where
  "recordFailedAttempt s x now reason =
     (let attempts = wrap64 (lc_Attempts x + 1);
          spent = 0 < lc_MaxAttempts x \<and> lc_MaxAttempts x \<le> attempts;
          x' = x\<lparr>lc_Attempts := attempts, lc_FailureReason := trim_space reason, lc_UpdatedAt := now,
                 lc_Status := (if spent then ChallengeExpired else lc_Status x)\<rparr>
      in andThen (ChallengeRepo_Update x') (\<lambda>_.
         andThen (if spent
                  then andThen (abuse_event (lc_Email x) (lc_DeviceID x) (lc_ClientIPHash x) (lc_UserAgentHash x)) (\<lambda>e.
                       observeAbuse s (e\<lparr>ae_ChallengeID := lc_ID x, ae_Reason := ''max_attempts_exceeded'',
                         ae_Attempts := attempts, ae_MaxAttempts := lc_MaxAttempts x\<rparr>))
                  else ret ()) (\<lambda>_.
         fail ErrAccessLoginChallengeFailed)))"

definition verify_challenge ::
  "login_service \<Rightarrow> (AccessSessionInput \<Rightarrow> AccessSessionResult service) \<Rightarrow> AccessLoginChallengeVerifyInput
     \<Rightarrow> AccessSessionResult service" where
  "verify_challenge s register i =
     andThen (not_found_as ErrAccessLoginChallengeFailed (ChallengeRepo_GetByID (yi_ChallengeID i))) (\<lambda>x.
     andThen time_now (\<lambda>now.
     andThen (reject_if (lc_Status x \<noteq> ChallengePending \<or> lc_ConsumedAt x \<noteq> None) ErrAccessLoginChallengeFailed) (\<lambda>_.
     if challenge_over x now
     then andThen (attempt (ChallengeRepo_Update (x\<lparr>lc_Status := ChallengeExpired,
            lc_FailureReason := ''expired'', lc_UpdatedAt := now\<rparr>))) (\<lambda>_. fail ErrAccessLoginChallengeExpired)
     else if trim_space (lc_DeviceID x) \<noteq> yi_DeviceID i then recordFailedAttempt s x now ''device_mismatch''
     else if \<not> ls_verify s (yi_Token i) (lc_TokenHash x) then recordFailedAttempt s x now ''wrong_token''
     else andThen (ChallengeRepo_ConsumePending (lc_ID x) now) (\<lambda>consumed.
          andThen (reject_if (\<not> consumed) ErrAccessLoginChallengeFailed) (\<lambda>_.
          register \<lparr>ai_Email = lc_Email x, ai_DisplayName = yi_DisplayName i, ai_DeviceID = yi_DeviceID i,
            ai_Source = yi_Source i, ai_Note = ''login_challenge:'' @ lc_ID x\<rparr>)))))"

definition normalize_verify_input :: "AccessLoginChallengeVerifyInput \<Rightarrow> AccessLoginChallengeVerifyInput" where
  "normalize_verify_input i =
     i\<lparr>yi_ChallengeID := trim_space (yi_ChallengeID i), yi_Token := trim_space (yi_Token i),
       yi_DeviceID := trim_space (yi_DeviceID i),
       yi_Source := defaultString (trim_space (yi_Source i)) ''desktop'',
       yi_ClientIP := trim_space (yi_ClientIP i), yi_UserAgent := trim_space (yi_UserAgent i)\<rparr>"

definition Challenge_Verify :: "login_service \<Rightarrow> AccessLoginChallengeVerifyInput \<Rightarrow> AccessSessionResult service" where
  "Challenge_Verify s i0 =
     (let i = normalize_verify_input i0
      in case ls_session s of
           None \<Rightarrow> fail ErrInvalidAccessLoginChallenge
         | Some register \<Rightarrow>
             andThen (reject_if (\<not> ls_wired s \<or> yi_ChallengeID i = [] \<or> yi_Token i = [] \<or> yi_DeviceID i = [])
               ErrInvalidAccessLoginChallenge) (\<lambda>_.
             verify_challenge s register i))"

section \<open>Deliveries\<close>

definition DevDelivery_Deliver :: "LoginChallenge \<Rightarrow> string \<Rightarrow> AccessLoginChallengeDeliveryResult service" where
  "DevDelivery_Deliver x token = ret \<lparr>dr_Channel = ''dev'', dr_DevToken = token\<rparr>"

definition DisabledDelivery_EnsureAvailable :: "unit service" where
  "DisabledDelivery_EnsureAvailable = fail ErrAccessLoginChallengeDeliveryUnavailable"

definition DisabledDelivery_Deliver :: "LoginChallenge \<Rightarrow> string \<Rightarrow> AccessLoginChallengeDeliveryResult service" where
  "DisabledDelivery_Deliver x token = fail ErrAccessLoginChallengeDeliveryUnavailable"

end
