(* ===== verification/Access_Session_Theorems.thy ===== *)
theory Access_Session_Theorems
  imports Access_Session Fulfillment_Theorems Sample_World
begin

text \<open>
  Binding a device keeps a user within the number of devices that the policy allows and never
  revives a revoked device.  Registering or restoring a session touches no login challenge.
\<close>

section \<open>What a session touches\<close>

lemma readonly_keys [atomic_rules]: "readonly (stableAccessSessionKey parts)"
  by (simp add: readonly_def stableAccessSessionKey_def)

lemma untouched_keys [untouched_rules]:
  "untouched f (trialGrantIdempotencyKey e g)" "untouched f (trialEntitlementGrantKey k x)"
  unfolding trialGrantIdempotencyKey_def trialEntitlementGrantKey_def
  by (intro untouched_readonly [OF readonly_keys])+

lemma untouched_snapshot [untouched_rules]: "untouched f (snapshotForUserWithRepos b u)"
  unfolding snapshotForUserWithRepos_def creditSnapshotWithRepo_def Let_def UserRepo_GetByID_def
    EntitlementGrantRepo_ListByUser_def CreditAccountRepo_GetByUserID_def
  by (intro untouched_rules)

lemma untouched_upsertUser [untouched_rules]:
  "(\<And>g d. f (tb_users_update g d) = f d) \<Longrightarrow> untouched f (upsertUser i now)"
  unfolding upsertUser_def Let_def UserRepo_GetByEmail_def UserRepo_Update_def UserRepo_Create_def
  by (intro untouched_rules)

lemma untouched_bindDevice [untouched_rules]:
  "(\<And>g d. f (tb_devices_update g d) = f d) \<Longrightarrow> untouched f (bindDevice u i n now)"
  unfolding bindDevice_def Let_def UserDeviceRepo_GetByUserAndDevice_def UserDeviceRepo_Update_def
    UserDeviceRepo_Create_def UserDeviceRepo_ListByUser_def
  by (intro untouched_rules)

lemma untouched_ensureTrial [untouched_rules]:
  "(\<And>g d. f (tb_grants_update g d) = f d) \<Longrightarrow> (\<And>g d. f (tb_trials_update g d) = f d)
    \<Longrightarrow> untouched f (ensureTrial catalog u i p now)"
  unfolding ensureTrial_def ensureTrialEntitlementGrants_def trial_entitlement_def Let_def
    TrialGrantRepo_GetByIdempotencyKey_def TrialGrantRepo_Create_def
  by (intro untouched_rules)

lemma untouched_RegisterOrRestore:
  assumes "\<And>issue u i. as_issuer a = Some issue \<Longrightarrow> untouched tb_challenges (issue u i)"
  shows "untouched tb_challenges (RegisterOrRestore a i)"
proof -
  have "untouched tb_challenges (registerOrRestoreWithRepos a j)" for j
    unfolding registerOrRestoreWithRepos_def by (intro untouched_rules) simp_all
  then show ?thesis
    unfolding RegisterOrRestore_def withAccessSessionTransaction_def Let_def
    by (cases "as_issuer a") (auto intro!: untouched_rules assms)
qed

section \<open>Devices\<close>

definition active_device :: "string \<Rightarrow> UserDevice \<Rightarrow> bool" where
  "active_device u x \<longleftrightarrow> ud_UserID x = u \<and> ud_Status x = DeviceStatusActive"

definition active_devices :: "string \<Rightarrow> UserDevice list \<Rightarrow> int" where
  "active_devices u t = int (length (List.filter (active_device u) t))"

lemma listed_devices:
  "List.filter (\<lambda>x. ud_UserID x = u \<and> column_matches DeviceStatusActive (ud_Status x)) t = List.filter (active_device u) t"
  by (rule filter_cong) (auto simp: active_device_def column_matches_def)

lemma replaced_devices:
  assumes "table_ok device_clash t" "x \<in> set t" "active_device u x" "active_device u x'" "ud_ID x' = ud_ID x"
  shows "active_devices u (replace_row ud_ID x' t) = active_devices u t"
proof -
  have "y = x" if "y \<in> set t" "ud_ID y = ud_ID x" for y
    using devices.same_row [OF assms(1) that(1) assms(2)] that(2) by (simp add: device_clash_def)
  then have "active_device u (if ud_ID y = ud_ID x' then x' else y) = active_device u y" if "y \<in> set t" for y
    using assms(3-5) that by auto
  moreover have "length (List.filter P (List.map g s)) = length (List.filter Q s)"
    if "\<And>y. y \<in> set s \<Longrightarrow> P (g y) = Q y" for P Q :: "UserDevice \<Rightarrow> bool" and g s
    using that by (induction s) auto
  ultimately show ?thesis by (simp add: active_devices_def replace_row_def)
qed

definition bound :: "string \<Rightarrow> string \<Rightarrow> int \<Rightarrow> UserDevice list \<Rightarrow> UserDevice \<times> AccessDeviceCapacity \<Rightarrow> UserDevice list \<Rightarrow> bool" where
  "bound u i n t = (\<lambda>(x, capacity) t'. x \<in> set t' \<and> active_device u x \<and> ud_DeviceID x = i \<and> table_ok device_clash t'
     \<and> dc_ActiveDeviceCount capacity = active_devices u t'
     \<and> (\<forall>y\<in>set t. ud_UserID y = u \<and> ud_DeviceID y = i \<longrightarrow> ud_Status y = DeviceStatusActive)
     \<and> (if \<exists>y\<in>set t. ud_UserID y = u \<and> ud_DeviceID y = i then active_devices u t' = active_devices u t
        else active_devices u t' = active_devices u t + 1 \<and> active_devices u t' \<le> normalizeAccessMaxDevices n))"

lemma wlp_bindDevice:
  assumes ok: "table_ok device_clash (tb_devices d)" and "\<forall>x\<in>set (tb_devices d). ud_Status x \<noteq> []"
  shows "wlp (bindDevice u i n now) (\<lambda>r d'. bound u i n (tb_devices d) r (tb_devices d')) d"
proof -
  let ?t = "tb_devices d"
  have count: "0 \<le> active_devices u t" for t by (simp add: active_devices_def)
  have again: "bound u i n ?t (x', newAccessDeviceCapacity (active_devices u t') m) t'"
    if x: "find_row (\<lambda>x. (ud_UserID x, ud_DeviceID x)) (u, i) ?t = Some x" "ud_Status x = DeviceStatusActive"
      and x': "x' = x\<lparr>ud_Status := DeviceStatusActive, ud_LastSeenAt := now, ud_UpdatedAt := now\<rparr>"
      and t': "save_row ud_ID device_clash x' ?t = Some t'" for x x' t' m
  proof -
    from x(1) have mem: "x \<in> set ?t" "ud_UserID x = u" "ud_DeviceID x = i" by (auto dest: find_row_found)
    have act: "active_device u x" "active_device u x'" using mem x(2) x' by (simp_all add: active_device_def)
    have only: "y = x" if "y \<in> set ?t" "ud_UserID y = u" "ud_DeviceID y = i" for y
      using devices.same_row [OF ok that(1) mem(1)] that mem by (simp add: device_clash_def)
    have "\<And>y. device_clash y x' = device_clash y x" by (simp add: device_clash_def x')
    then have "t' = replace_row ud_ID x' ?t"
      using devices.save_row_known [OF ok mem(1), of x'] t' x' by simp
    then have "active_devices u t' = active_devices u ?t" using replaced_devices [OF ok mem(1) act] x' by simp
    moreover have "\<exists>y\<in>set ?t. ud_UserID y = u \<and> ud_DeviceID y = i" using mem by blast
    moreover have "\<forall>y\<in>set ?t. ud_UserID y = u \<and> ud_DeviceID y = i \<longrightarrow> ud_Status y = DeviceStatusActive"
      using only x(2) by blast
    moreover have "ud_DeviceID x' = i" using mem(3) x' by simp
    ultimately show ?thesis
      using devices.save_ok [OF ok t'] save_row_mem [OF t'] act(2) count [of t']
      by (simp add: bound_def newAccessDeviceCapacity_def Let_def)
  qed
  have first: "bound u i n ?t (x, newAccessDeviceCapacity (active_devices u ?t + 1) m) t'"
    if "find_row (\<lambda>x. (ud_UserID x, ud_DeviceID x)) (u, i) ?t = None" "x = new_device k u i now"
      "\<not> normalizeAccessMaxDevices n \<le> active_devices u ?t" "insert_row device_clash x ?t = Some t'" for x k t' m
  proof -
    have "active_device u x" using that(2) by (simp add: active_device_def new_device_def)
    with that devices.insert_ok [OF ok that(4)] count [of ?t] show ?thesis
      by (auto simp: bound_def devices.insert_row_Some newAccessDeviceCapacity_def Let_def active_devices_def
          new_device_def find_row_def find_None_iff)
  qed
  show ?thesis
    unfolding bindDevice_def Let_def UserDeviceRepo_GetByUserAndDevice_def UserDeviceRepo_Update_def
      UserDeviceRepo_Create_def UserDeviceRepo_ListByUser_def listed_devices
    by (intro wlp_if_found wlp_andThen wlp_reject_if wlp_store_save wlp_store_create wlp_db_read
        wlp_generateEntityID wlp_ret)
      (use assms(2) in \<open>auto simp: active_devices_def [symmetric] length_sort dest: find_row_found intro: again first\<close>)
qed

text \<open>C31: Binding a device, when no stored device has a blank status, returns an active device of the user that
  is stored, and the true number of the user's active devices; a known device does not change that
  number, a new one adds one and stays within the policy's maximum; a device that was stored
  with another status than active is not bound.\<close>

theorem device_capacity_kept:
  assumes "table_ok device_clash (tb_devices (db w))" "\<forall>x\<in>set (tb_devices (db w)). ud_Status x \<noteq> []"
    and run: "bindDevice u i n now w = (Inr (x, capacity), w')"
  shows "x \<in> set (tb_devices (db w')) \<and> active_device u x \<and> ud_DeviceID x = i
    \<and> dc_ActiveDeviceCount capacity = active_devices u (tb_devices (db w'))
    \<and> (\<forall>y\<in>set (tb_devices (db w)). ud_UserID y = u \<and> ud_DeviceID y = i \<longrightarrow> ud_Status y = DeviceStatusActive)
    \<and> (if \<exists>y\<in>set (tb_devices (db w)). ud_UserID y = u \<and> ud_DeviceID y = i
       then active_devices u (tb_devices (db w')) = active_devices u (tb_devices (db w))
       else active_devices u (tb_devices (db w')) = active_devices u (tb_devices (db w)) + 1
         \<and> active_devices u (tb_devices (db w')) \<le> normalizeAccessMaxDevices n)"
  using wlpD [OF wlp_bindDevice [OF assms(1,2)] run] unfolding bound_def prod.case by blast

abbreviation bind_run :: "(err + UserDevice \<times> AccessDeviceCapacity) \<times> database world" where
  "bind_run \<equiv> bindDevice ''usr_1'' ''d2'' 2 5
     (sample_world 0 (users_db\<lparr>tb_devices := [new_device ''v'' ''usr_1'' ''d1'' 1]\<rparr>))"

lemma bind_runs: "bind_run = (Inr (fst (ok_result bind_run), snd (ok_result bind_run)), snd bind_run)"
proof -
  have "isl (fst bind_run) = False" by code_simp
  from run_ok [OF this] show ?thesis by simp
qed

lemma device_capacity_kept_witness:
  "active_devices ''usr_1'' (tb_devices (db (snd bind_run))) = 2"
proof -
  have "active_devices ''usr_1'' (tb_devices (db (snd bind_run)))
    = active_devices ''usr_1'' [new_device ''v'' ''usr_1'' ''d1'' 1] + 1"
    using device_capacity_kept [OF _ _ bind_runs] by (simp add: sample_world_def table_ok_def new_device_def)
  then show ?thesis by (simp add: active_devices_def active_device_def new_device_def)
qed

end
