(* ===== verification/Access_Login_Theorems.thy ===== *)
theory Access_Login_Theorems
  imports Access_Login Access_Session_Theorems
begin

text \<open>
  Login challenges are used at most once and guessed at most as often as their policy allows.
  The interfaces of the service are assumed to leave the challenges alone; registering or
  restoring a session does so.
\<close>

section \<open>Interfaces\<close>

definition quiet :: "login_service \<Rightarrow> bool" where
  "quiet s \<longleftrightarrow> untouched tb_challenges (ls_generate s) \<and> untouched tb_challenges (ls_available s)
     \<and> (\<forall>x t. untouched tb_challenges (ls_deliver s x t))
     \<and> (\<forall>ob e. ls_observer s = Some ob \<longrightarrow> untouched tb_challenges (ob e))
     \<and> (\<forall>register i. ls_session s = Some register \<longrightarrow> untouched tb_challenges (register i))"

lemma quietD:
  assumes "quiet s"
  shows "untouched tb_challenges (ls_generate s)" "untouched tb_challenges (ls_available s)"
    "untouched tb_challenges (ls_deliver s x t)" "ls_observer s = Some ob \<Longrightarrow> untouched tb_challenges (ob e)"
    "ls_session s = Some register \<Longrightarrow> untouched tb_challenges (register i)"
  using assms by (auto simp: quiet_def)

lemma readonly_fingerprints [atomic_rules]:
  "readonly (emailFingerprint email)" "readonly (deviceFingerprint i)"
  by (simp_all add: readonly_def emailFingerprint_def deviceFingerprint_def Let_def)

lemma readonly_abuse_event [atomic_rules]: "readonly (abuse_event email i ip agent)"
  unfolding abuse_event_def by (intro atomic_rules)

lemma untouched_observeAbuse: "quiet s \<Longrightarrow> untouched tb_challenges (observeAbuse s e)"
  unfolding observeAbuse_def by (cases "ls_observer s") (auto intro!: untouched_rules dest: quietD(4))

section \<open>The invariant of the table\<close>

definition challenge_ok :: "LoginChallenge \<Rightarrow> bool" where
  "challenge_ok x \<longleftrightarrow> 0 < lc_MaxAttempts x \<and> lc_MaxAttempts x \<le> max_int64
     \<and> 0 \<le> lc_Attempts x \<and> lc_Attempts x \<le> lc_MaxAttempts x
     \<and> (lc_Status x = ChallengePending \<longrightarrow> lc_Attempts x < lc_MaxAttempts x)
     \<and> (lc_Status x = ChallengeConsumed \<longleftrightarrow> lc_ConsumedAt x \<noteq> None)"

definition challenges_ok :: "LoginChallenge list \<Rightarrow> bool" where
  "challenges_ok t \<longleftrightarrow> table_ok challenge_clash t \<and> (\<forall>x\<in>set t. challenge_ok x)"

abbreviation keeps_challenges :: "'a service \<Rightarrow> bool" where
  "keeps_challenges \<equiv> keeps (\<lambda>d. challenges_ok (tb_challenges d))"

lemma keeps_ChallengeRepo_Update: "challenge_ok x \<Longrightarrow> keeps_challenges (ChallengeRepo_Update x)"
  unfolding ChallengeRepo_Update_def
proof (rule keeps_store_save)
  fix d :: database and t
  assume "challenge_ok x" "challenges_ok (tb_challenges d)" "save_row lc_ID challenge_clash x (tb_challenges d) = Some t"
  moreover from this(3) have "set t \<subseteq> insert x (set (tb_challenges d))"
    by (auto simp: save_row_def replace_row_def split: if_splits)
  ultimately show "challenges_ok (tb_challenges (tb_challenges_update (\<lambda>_. t) d))"
    using challenges.save_ok [of "tb_challenges d" x t] by (auto simp: challenges_ok_def)
qed

lemma keeps_ChallengeRepo_Create: "challenge_ok x \<Longrightarrow> keeps_challenges (ChallengeRepo_Create x)"
  unfolding ChallengeRepo_Create_def
  by (rule keeps_store_create) (auto simp: challenges_ok_def challenges.insert_row_Some dest: challenges.insert_ok)

lemma consume_row_simps [simp]:
  "lc_ID (consume_row i t x) = lc_ID x" "lc_IdempotencyKey (consume_row i t x) = lc_IdempotencyKey x"
  by (simp_all add: consume_row_def)

lemma consume_ok: "challenges_ok t \<Longrightarrow> challenges_ok (List.map (consume_row i now) t)"
proof -
  have clash: "challenge_clash (consume_row i now x) (consume_row i now y) \<longleftrightarrow> challenge_clash x y" for x y
    by (simp add: challenge_clash_def)
  have "challenge_ok x \<Longrightarrow> challenge_ok (consume_row i now x)" for x
    by (auto simp: challenge_ok_def consume_row_def consumable_def)
  then show "challenges_ok t \<Longrightarrow> challenges_ok (List.map (consume_row i now) t)"
    by (auto simp: challenges_ok_def table_ok_def sorted_wrt_map clash)
qed

lemma keeps_ConsumePending: "keeps_challenges (ChallengeRepo_ConsumePending i now)"
  unfolding ChallengeRepo_ConsumePending_def by (rule keeps_db_write) (auto simp: consume_ok)

text \<open>What a lookup found may be used in what follows, here after the mapping of a missing row.\<close>

lemma keeps_looked_up:
  assumes "\<And>x d. P d \<Longrightarrow> find_row key k (rows d) = Some x \<Longrightarrow> keeps P (h x)"
  shows "keeps P (andThen (not_found_as e (store_find rows key k)) h)"
proof -
  have "P (db w) \<Longrightarrow> P (db (snd (andThen (not_found_as e (store_find rows key k)) h w)))" for w
    using assms [of "db w"] keepsD [of P "h _" "next_tick w"]
    by (simp add: wp_result [symmetric] wp_simps split: option.split)
  then show ?thesis by (simp add: keeps_def)
qed

section \<open>Bounded guesses\<close>

lemma quiet_rules:
  assumes "quiet s"
  shows "keeps_challenges (ls_generate s)" "keeps_challenges (ls_available s)" "keeps_challenges (ls_deliver s x t)"
    "keeps_challenges (observeAbuse s e)" "ls_session s = Some register \<Longrightarrow> keeps_challenges (register i)"
  using quietD [OF assms] untouched_observeAbuse [OF assms] by (auto intro: untouched_keeps)

lemma keeps_recordFailedAttempt:
  assumes "quiet s" "challenge_ok x" "lc_Status x = ChallengePending" "lc_ConsumedAt x = None"
  shows "keeps_challenges (recordFailedAttempt s x now reason)"
proof -
  have attempts: "wrap64 (lc_Attempts x + 1) = lc_Attempts x + 1"
    using assms(2,3) by (intro wrap64_id) (auto simp: challenge_ok_def min_int64_def)
  show ?thesis
    unfolding recordFailedAttempt_def Let_def attempts
    by (intro keeps_rules keeps_ChallengeRepo_Update quiet_rules assms keeps_readonly [OF readonly_abuse_event])
      (use assms in \<open>auto simp: challenge_ok_def\<close>)
qed

lemma keeps_verify_challenge:
  assumes "quiet s" "ls_session s = Some register"
  shows "keeps_challenges (verify_challenge s register i)"
  unfolding verify_challenge_def ChallengeRepo_GetByID_def
proof (rule keeps_looked_up, goal_cases)
  case (1 x d)
  then have x: "challenge_ok x" by (auto simp: challenges_ok_def dest: challenges.find_row_Some)
  have expired: "challenge_ok (x\<lparr>lc_Status := ChallengeExpired, lc_FailureReason := ''expired'', lc_UpdatedAt := now\<rparr>)"
    if "lc_ConsumedAt x = None" for now using x that by (simp add: challenge_ok_def)
  have rest: "keeps_challenges
      (if challenge_over x now
       then andThen (attempt (ChallengeRepo_Update (x\<lparr>lc_Status := ChallengeExpired,
              lc_FailureReason := ''expired'', lc_UpdatedAt := now\<rparr>))) (\<lambda>_. fail ErrAccessLoginChallengeExpired)
       else if trim_space (lc_DeviceID x) \<noteq> yi_DeviceID i then recordFailedAttempt s x now ''device_mismatch''
       else if \<not> ls_verify s (yi_Token i) (lc_TokenHash x) then recordFailedAttempt s x now ''wrong_token''
       else andThen (ChallengeRepo_ConsumePending (lc_ID x) now) (\<lambda>consumed.
            andThen (reject_if (\<not> consumed) ErrAccessLoginChallengeFailed) (\<lambda>_.
            register \<lparr>ai_Email = lc_Email x, ai_DisplayName = yi_DisplayName i, ai_DeviceID = yi_DeviceID i,
              ai_Source = yi_Source i, ai_Note = ''login_challenge:'' @ lc_ID x\<rparr>)))"
    if "lc_Status x = ChallengePending" "lc_ConsumedAt x = None" for now
    by (intro keeps_rules keeps_ChallengeRepo_Update expired keeps_recordFailedAttempt [OF assms(1) x]
        keeps_ConsumePending quiet_rules(5) [OF assms] that)
  show ?case
    by (rule keeps_andThen [OF keeps_time_now], rule keeps_guarded, rule rest) simp_all
qed

lemma keeps_create_challenge:
  assumes "quiet s" "0 < po_MaxAttempts (ls_policy s)" "po_MaxAttempts (ls_policy s) \<le> max_int64"
  shows "keeps_challenges (create_challenge s i)"
proof -
  have new: "challenge_ok (new_challenge s i challengeID token key now)" for challengeID token key now
    using assms(2,3) by (simp add: challenge_ok_def new_challenge_def)
  have expired: "challenge_ok (x\<lparr>lc_Status := ChallengeExpired, lc_UpdatedAt := now\<rparr>)"
    if "x = new_challenge s i challengeID token key now'" for x challengeID token key now' now
    using assms(2,3) that by (simp add: challenge_ok_def new_challenge_def)
  have limit: "keeps_challenges (enforceCreateRateLimit s i now)" for now
    unfolding enforceCreateRateLimit_def enforce_limit_def ChallengeRepo_Count_def Let_def
    by (intro keeps_rules quiet_rules assms(1) keeps_readonly [OF readonly_abuse_event])
  have replay: "keeps_challenges (replayCreateResult x)" for x
    unfolding replayCreateResult_def by (intro keeps_rules)
  show ?thesis
    unfolding create_challenge_def deliver_challenge_def Let_def ChallengeRepo_GetByIdempotencyKey_def
    by (intro keeps_rules limit replay quiet_rules assms(1) keeps_ChallengeRepo_Create new
        keeps_readonly [OF readonly_keys] keeps_ChallengeRepo_Update expired [OF refl])
qed

text \<open>C30: Creating and verifying challenges keep the table consistent: a challenge has never more wrong
  attempts than its policy allows, a pending one has one left, and a challenge is marked consumed
  exactly when it has a time of consumption.\<close>

theorem challenges_stay_bounded:
  assumes "quiet s" "0 < po_MaxAttempts (ls_policy s)" "po_MaxAttempts (ls_policy s) \<le> max_int64"
    and "challenges_ok (tb_challenges (db w))"
  shows "challenges_ok (tb_challenges (db (snd (Challenge_Create s i w))))
    \<and> challenges_ok (tb_challenges (db (snd (Challenge_Verify s j w))))"
proof -
  have replay: "keeps_challenges (replayCreateResult x)" for x
    unfolding replayCreateResult_def by (intro keeps_rules)
  have "keeps_challenges (Challenge_Create s i)"
    unfolding Challenge_Create_def Let_def ChallengeRepo_GetByIdempotencyKey_def
    by (intro keeps_rules replay quiet_rules keeps_create_challenge assms)
  moreover have "keeps_challenges (Challenge_Verify s j)"
    unfolding Challenge_Verify_def Let_def
    by (cases "ls_session s") (auto intro!: keeps_rules keeps_verify_challenge assms)
  ultimately show ?thesis using assms(4) by (auto dest: keepsD)
qed

section \<open>One session out of a challenge\<close>

lemma wp_recordFailedAttempt: "wp (recordFailedAttempt s x now reason) Q (\<lambda>_ _. True) w"
  unfolding recordFailedAttempt_def Let_def
  by (simp add: wp_def andThen_def fail_def split: prod.split sum.split)

lemma wp_untouched: "untouched f m \<Longrightarrow> (\<And>x w'. f (db w') = f (db w) \<Longrightarrow> Q x w') \<Longrightarrow> wp m Q (\<lambda>_ _. True) w"
  unfolding wp_def by (auto split: prod.split sum.split dest: untouched_run)

text \<open>A challenge that the call of time \<open>t\<close> may turn into a session.\<close>

definition redeemable :: "login_service \<Rightarrow> AccessLoginChallengeVerifyInput \<Rightarrow> instant \<Rightarrow> LoginChallenge \<Rightarrow> bool" where
  "redeemable s i t x \<longleftrightarrow> lc_Status x = ChallengePending \<and> lc_ConsumedAt x = None \<and> \<not> challenge_over x t
     \<and> trim_space (lc_DeviceID x) = yi_DeviceID i \<and> ls_verify s (yi_Token i) (lc_TokenHash x)"

lemma wp_verify_challenge:
  assumes "\<And>j. untouched tb_challenges (register j)"
  shows "wp (verify_challenge s register i)
    (\<lambda>_ w'. \<exists>x. find_row lc_ID (yi_ChallengeID i) (tb_challenges (db w)) = Some x
       \<and> redeemable s i (clock w (Suc (tick w))) x
       \<and> tb_challenges (db w') = List.map (consume_row (lc_ID x) (clock w (Suc (tick w)))) (tb_challenges (db w)))
    (\<lambda>_ _. True) w"
  unfolding verify_challenge_def ChallengeRepo_GetByID_def ChallengeRepo_ConsumePending_def ChallengeRepo_Update_def
  by (auto simp: wp_simps wp_recordFailedAttempt redeemable_def split: option.split prod.split
      intro!: wp_untouched [OF assms])

lemma consumed_row:
  assumes "find_row lc_ID i t = Some x" "lc_Status x = ChallengePending" "lc_ConsumedAt x = None"
  shows "find_row lc_ID i (List.map (consume_row i now) t)
    = Some (x\<lparr>lc_Status := ChallengeConsumed, lc_ConsumedAt := Some now, lc_UpdatedAt := now\<rparr>)"
  using assms by (induction t) (auto simp: find_row_def consume_row_def consumable_def split: if_splits)

lemma verify_used_challenge:
  assumes "find_row lc_ID (trim_space (yi_ChallengeID j)) (tb_challenges (db w)) = Some x"
    and "lc_Status x \<noteq> ChallengePending \<or> lc_ConsumedAt x \<noteq> None"
  shows "wp (Challenge_Verify s j) (\<lambda>_ _. False) (\<lambda>_ w'. db w' = db w) w"
  using assms
  by (auto simp: Challenge_Verify_def verify_challenge_def normalize_verify_input_def Let_def ChallengeRepo_GetByID_def
      wp_simps split: option.split)

text \<open>C9: A verification that opens a session found its challenge pending, not expired, made for that device
  and answered by its token; it leaves the challenge consumed, and from then on every verification of
  that challenge is refused and changes nothing.\<close>

theorem challenge_verified_once:
  assumes "quiet s" and run: "Challenge_Verify s i w = (Inr r, w')"
  shows "(\<exists>x. find_row lc_ID (trim_space (yi_ChallengeID i)) (tb_challenges (db w)) = Some x
      \<and> redeemable s (normalize_verify_input i) (clock w (Suc (tick w))) x)
    \<and> (\<forall>j v. trim_space (yi_ChallengeID j) = trim_space (yi_ChallengeID i) \<longrightarrow> tb_challenges (db v) = tb_challenges (db w')
        \<longrightarrow> (\<exists>e v'. Challenge_Verify s j v = (Inl e, v') \<and> db v' = db v))"
proof -
  let ?i = "normalize_verify_input i"
  have i: "yi_ChallengeID ?i = trim_space (yi_ChallengeID i)" by (simp add: normalize_verify_input_def)
  obtain register where register: "ls_session s = Some register"
    using run by (cases "ls_session s") (auto simp: Challenge_Verify_def Let_def fail_def)
  have "wp (Challenge_Verify s i)
    (\<lambda>_ w'. \<exists>x. find_row lc_ID (trim_space (yi_ChallengeID i)) (tb_challenges (db w)) = Some x
       \<and> redeemable s ?i (clock w (Suc (tick w))) x
       \<and> tb_challenges (db w') = List.map (consume_row (lc_ID x) (clock w (Suc (tick w)))) (tb_challenges (db w)))
    (\<lambda>_ _. True) w"
    using wp_verify_challenge [of register s ?i w] quietD(5) [OF assms(1) register]
    by (simp add: Challenge_Verify_def Let_def register wp_simps i)
  from wp_run [OF this run] obtain x now where
    x: "find_row lc_ID (trim_space (yi_ChallengeID i)) (tb_challenges (db w)) = Some x"
    and ok: "redeemable s ?i (clock w (Suc (tick w))) x"
    and w': "tb_challenges (db w') = List.map (consume_row (lc_ID x) now) (tb_challenges (db w))" by blast
  from x have "lc_ID x = trim_space (yi_ChallengeID i)" using challenges.find_row_Some by blast
  then have used: "find_row lc_ID (trim_space (yi_ChallengeID i)) (tb_challenges (db w'))
      = Some (x\<lparr>lc_Status := ChallengeConsumed, lc_ConsumedAt := Some now, lc_UpdatedAt := now\<rparr>)"
    unfolding w' using consumed_row [OF x] ok by (simp add: redeemable_def)
  have "\<exists>e v'. Challenge_Verify s j v = (Inl e, v') \<and> db v' = db v"
    if "trim_space (yi_ChallengeID j) = trim_space (yi_ChallengeID i)" "tb_challenges (db v) = tb_challenges (db w')" for j v
  proof -
    have "wp (Challenge_Verify s j) (\<lambda>_ _. False) (\<lambda>_ v'. db v' = db v) v"
      by (rule verify_used_challenge [OF used [folded that]]) simp
    then show ?thesis by (auto simp: wp_def split: prod.splits sum.splits)
  qed
  with x ok show ?thesis by blast
qed

text \<open>The sessions of the process are quiet when the issuer of snapshots is.\<close>

lemma quiet_sessions:
  assumes "quiet s" "\<And>issue u i. as_issuer a = Some issue \<Longrightarrow> untouched tb_challenges (issue u i)"
  shows "quiet (s\<lparr>ls_session := Some (RegisterOrRestore a)\<rparr>)"
  using assms untouched_RegisterOrRestore [of a] by (simp add: quiet_def)

section \<open>Witnesses\<close>

definition login_world :: "database \<Rightarrow> database world" where
  "login_world d = (sample_world 0 d)\<lparr>clock := \<lambda>k. 1000 + int k\<rparr>"

definition desk_session :: AccessSessionResult where
  "desk_session = \<lparr>at_User = sample_user, at_Device = new_device ''v'' ''usr_1'' ''d'' 1,
     at_DeviceCapacity = newAccessDeviceCapacity 1 2,
     at_Trial = new_trial ''t'' sample_user ''a@b.c'' (TrialPlan DefaultAccessSessionPolicyConfig) ''k'' 1,
     at_TrialCreated = False,
     at_Snapshot = \<lparr>sn_UserID = ''usr_1'', sn_UserEmail = ''a@b.c'', sn_UserDisplayName = [], sn_UserStatus = UserStatusActive,
       sn_Entitlements = [], sn_Credits = [], sn_UpdatedAt = [], sn_Source = ''billing_provider''\<rparr>,
     at_AccessSnapshot = None, at_Source = ''billing_provider''\<rparr>"

definition desk_login :: login_service where
  "desk_login = \<lparr>ls_wired = True, ls_policy = configurable_policy DefaultAccessLoginChallengePolicyConfig,
     ls_generate = ret ''t'', ls_hash = (\<lambda>x. x), ls_verify = (=), ls_available = ret (),
     ls_deliver = DevDelivery_Deliver, ls_observer = None, ls_session = Some (\<lambda>_. ret desk_session)\<rparr>"

definition desk_challenge :: LoginChallenge where
  "desk_challenge = \<lparr>lc_ID = ''c'', lc_Email = ''a@b.c'', lc_DeviceID = ''d'', lc_TokenHash = ''t'',
     lc_Status = ChallengePending, lc_Attempts = 0, lc_MaxAttempts = 5, lc_ClientIPHash = [], lc_UserAgentHash = [],
     lc_FailureReason = [], lc_Source = ''desktop'', lc_IdempotencyKey = ''k'', lc_ExpiresAt = 100000000000,
     lc_ConsumedAt = None, lc_CreatedAt = 1, lc_UpdatedAt = 1\<rparr>"

definition desk_answer :: AccessLoginChallengeVerifyInput where
  "desk_answer = \<lparr>yi_ChallengeID = ''c'', yi_Token = ''t'', yi_DeviceID = ''d'', yi_DisplayName = [],
     yi_Source = [], yi_ClientIP = [], yi_UserAgent = []\<rparr>"

abbreviation answer_run :: "(err + AccessSessionResult) \<times> database world" where
  "answer_run \<equiv> Challenge_Verify desk_login desk_answer (login_world (empty_database\<lparr>tb_challenges := [desk_challenge]\<rparr>))"

lemma desk_quiet: "quiet desk_login"
  by (auto simp: quiet_def desk_login_def DevDelivery_Deliver_def intro!: untouched_rules)

lemma answer_runs: "isl (fst answer_run) = False"
  by code_simp

lemma challenge_verified_once_witness:
  "\<exists>e v'. Challenge_Verify desk_login desk_answer (snd answer_run) = (Inl e, v') \<and> db v' = db (snd answer_run)"
  using challenge_verified_once [OF desk_quiet run_ok [OF answer_runs]] by blast

lemma challenges_stay_bounded_witness:
  "challenges_ok (tb_challenges (db (snd answer_run)))"
  by (rule challenges_stay_bounded [OF desk_quiet, THEN conjunct2])
    (simp_all add: desk_login_def configurable_policy_def DefaultAccessLoginChallengePolicyConfig_def max_int64_def
      login_world_def sample_world_def challenges_ok_def table_ok_def challenge_ok_def desk_challenge_def)

end
