(* ===== verification/Go_Values.thy ===== *)
theory Go_Values
  imports Go_JSON Go_Calendar "HOL-Library.Log_Nat"
begin

text \<open>
  Values of Go's standard library beyond strings and maps: float64 numbers as the rationals they
  stand for, the fields of a struct decoded from JSON, instants read from RFC 3339 texts, bytes in
  hexadecimal, and texts escaped for URLs.
\<close>

section \<open>Float64\<close>

text \<open>The nearest integer, ties to the even one.\<close>

definition round_even :: "rat \<Rightarrow> int" where
  "round_even x =
     (let n = \<lfloor>x\<rfloor>; r = x - of_int n
      in if r < 1 / 2 then n else if 1 / 2 < r then n + 1 else if even n then n else n + 1)"

text \<open>The weight of the last of the 53 binary digits of a positive number; the smallest is \<open>2 powi -1074\<close>.\<close>

definition last_weight :: "rat \<Rightarrow> int" where
  "last_weight x =
     (case quotient_of x of (n, d) \<Rightarrow>
        let e = int (floorlog 2 (nat n)) - int (floorlog 2 (nat d))
        in max (- 1074) (if x < 2 powi e then e - 53 else e - 52))"

definition float64_pos :: "rat \<Rightarrow> rat" where
  "float64_pos x = of_int (round_even (x / 2 powi last_weight x)) * 2 powi last_weight x"

text \<open>The rounding of a number to float64, without the overflow to infinity.\<close>

definition float64 :: "rat \<Rightarrow> rat" where
  "float64 x = (if x = 0 then 0 else if x < 0 then - float64_pos (- x) else float64_pos x)"

definition float_overflow :: "rat \<Rightarrow> bool" where
  "float_overflow x \<longleftrightarrow> 2 powi 1024 \<le> \<bar>x\<bar>"

text \<open>Truncation towards zero; out of the range of int64 the conversion gives the smallest number (amd64).\<close>

definition truncate_rat :: "rat \<Rightarrow> int" where
  "truncate_rat x = (if x < 0 then - \<lfloor>- x\<rfloor> else \<lfloor>x\<rfloor>)"

definition int64_of_float :: "rat \<Rightarrow> int" where
  "int64_of_float x =
     (let n = truncate_rat x in if n < min_int64 \<or> max_int64 < n then min_int64 else n)"

text \<open>The value of a number literal of JSON.\<close>

definition digits_nat :: "string \<Rightarrow> nat" where
  "digits_nat ds = foldl (\<lambda>n c. 10 * n + (code_of c - 48)) 0 ds"

definition exponent_value :: "string \<Rightarrow> int" where
  "exponent_value s =
     (if take 1 s = ''-'' then - int (digits_nat (drop 1 s))
      else if take 1 s = ''+'' then int (digits_nat (drop 1 s)) else int (digits_nat s))"

definition literal_value :: "string \<Rightarrow> rat" where
  "literal_value s =
     (let negative = (take 1 s = ''-''); t = (if negative then drop 1 s else s);
          whole = takeWhile json_digit t; u = drop (length whole) t;
          fraction = (if take 1 u = ''.'' then takeWhile json_digit (drop 1 u) else []);
          v = (if take 1 u = ''.'' then drop (Suc (length fraction)) u else u);
          e = exponent_value (drop 1 v) - int (length fraction);
          x = of_nat (digits_nat (whole @ fraction)) * 10 powi e
      in if negative then - x else x)"

definition float_of_literal :: "string \<Rightarrow> rat" where
  "float_of_literal s = float64 (literal_value s)"

text \<open>\<open>%f\<close>: six decimals of the exact value.\<close>

definition format_f :: "rat \<Rightarrow> string" where
  "format_f x =
     (let n = nat (round_even (\<bar>x\<bar> * 1000000))
      in (if x < 0 then ''-'' else []) @ digits_of (n div 1000000) @ ''.'' @ pad_left 6 (digits_of (n mod 1000000)))"

section \<open>Fields of a struct\<close>

text \<open>
  A member belongs to the field whose name it equals up to the case of its letters; of several the
  last one stays.  A null leaves the field alone, and a value of another type makes the call fail
  after decoding the rest.
\<close>

definition field_members :: "string \<Rightarrow> (string \<times> json) list \<Rightarrow> json list" where
  "field_members name ms = List.map snd (List.filter (\<lambda>(k, v). equal_fold k name) ms)"

definition string_field :: "string \<Rightarrow> (string \<times> json) list \<Rightarrow> bool \<times> string" where
  "string_field name ms =
     foldl (\<lambda>(ok, s) v. case v of JStr t \<Rightarrow> (ok, t) | JNull \<Rightarrow> (ok, s) | _ \<Rightarrow> (False, s)) (True, []) (field_members name ms)"

definition object_field :: "string \<Rightarrow> (string \<times> json) list \<Rightarrow> bool \<times> (string \<times> json) list" where
  "object_field name ms =
     foldl (\<lambda>(ok, s) v. case v of JObj t \<Rightarrow> (ok, s @ t) | JNull \<Rightarrow> (ok, s) | _ \<Rightarrow> (False, s)) (True, []) (field_members name ms)"

text \<open>A number field takes a literal without fraction and exponent that fits.\<close>

definition int_literal :: "string \<Rightarrow> int option" where
  "int_literal s =
     (let negative = (take 1 s = ''-''); ds = (if negative then drop 1 s else s);
          n = (if negative then - int (digits_nat ds) else int (digits_nat ds))
      in if \<not> list_all json_digit ds \<or> n < min_int64 \<or> max_int64 < n then None else Some n)"

definition int_field :: "string \<Rightarrow> (string \<times> json) list \<Rightarrow> bool \<times> int" where
  "int_field name ms =
     foldl (\<lambda>(ok, n) v. case v of
         JNum s \<Rightarrow> (case int_literal s of Some i \<Rightarrow> (ok, i) | None \<Rightarrow> (False, n))
       | JNull \<Rightarrow> (ok, n) | _ \<Rightarrow> (False, n)) (True, 0) (field_members name ms)"

text \<open>The members of a document decoded into a struct; null decodes to the zero struct.\<close>

definition struct_members :: "string \<Rightarrow> (string \<times> json) list option" where
  "struct_members raw =
     (case parse_json raw of Some (JObj ms) \<Rightarrow> Some ms | Some JNull \<Rightarrow> Some [] | _ \<Rightarrow> None)"

section \<open>RFC 3339\<close>

definition two_digit :: "string \<Rightarrow> (int \<times> string) option" where
  "two_digit s =
     (case s of a # b # t \<Rightarrow> if json_digit a \<and> json_digit b then Some (int (digits_nat [a, b]), t) else None
      | _ \<Rightarrow> None)"

text \<open>An hour may have one digit.\<close>

definition hour_digits :: "string \<Rightarrow> (int \<times> string) option" where
  "hour_digits s =
     (case s of
        a # t \<Rightarrow> if \<not> json_digit a then None
                 else (case t of
                         b # u \<Rightarrow> if json_digit b then Some (int (digits_nat [a, b]), u) else Some (int (digits_nat [a]), t)
                       | [] \<Rightarrow> Some (int (digits_nat [a]), []))
      | [] \<Rightarrow> None)"

definition expect :: "char \<Rightarrow> string \<Rightarrow> string option" where
  "expect c s = (case s of x # t \<Rightarrow> if x = c then Some t else None | [] \<Rightarrow> None)"

text \<open>Nanoseconds of a fraction of a second: at most nine digits count.\<close>

definition fraction_ns :: "string \<Rightarrow> int \<times> string" where
  "fraction_ns s =
     (case s of
        p # d # t \<Rightarrow>
          if (p = CHR ''.'' \<or> p = CHR '','') \<and> json_digit d
          then (let ds = takeWhile json_digit (d # t); most = take 9 ds
                in (int (digits_nat most) * 10 ^ (9 - length most), drop (length ds) (d # t)))
          else (0, s)
      | _ \<Rightarrow> (0, s))"

definition zone_seconds :: "string \<Rightarrow> int option" where
  "zone_seconds s =
     (if s = ''Z'' then Some 0
      else case s of
        sign # t \<Rightarrow>
          if sign \<noteq> CHR ''+'' \<and> sign \<noteq> CHR ''-'' then None
          else Option.bind (two_digit t) (\<lambda>(hh, t1).
               Option.bind (expect (CHR '':'') t1) (\<lambda>t2.
               Option.bind (two_digit t2) (\<lambda>(mm, t3).
               if t3 \<noteq> [] \<or> 24 < hh \<or> 60 < mm then None
               else Some ((if sign = CHR ''-'' then - 1 else 1) * (hh * 3600 + mm * 60)))))
      | [] \<Rightarrow> None)"

definition days_in :: "int \<Rightarrow> int \<Rightarrow> int" where
  "days_in y m = day_number y (m + 1) 1 - day_number y m 1"

text \<open>\<open>time.Parse(time.RFC3339Nano)\<close> as an instant.\<close>

definition parse_rfc3339 :: "string \<Rightarrow> instant option" where
  "parse_rfc3339 s =
     (if length s < 4 \<or> \<not> list_all json_digit (take 4 s) then None
      else let y = int (digits_nat (take 4 s))
      in Option.bind (expect (CHR ''-'') (drop 4 s)) (\<lambda>s1.
         Option.bind (two_digit s1) (\<lambda>(m, s2).
         Option.bind (expect (CHR ''-'') s2) (\<lambda>s3.
         Option.bind (two_digit s3) (\<lambda>(d, s4).
         Option.bind (expect (CHR ''T'') s4) (\<lambda>s5.
         Option.bind (hour_digits s5) (\<lambda>(hh, s6).
         Option.bind (expect (CHR '':'') s6) (\<lambda>s7.
         Option.bind (two_digit s7) (\<lambda>(mm, s8).
         Option.bind (expect (CHR '':'') s8) (\<lambda>s9.
         Option.bind (two_digit s9) (\<lambda>(sec, s10).
         (case fraction_ns s10 of (ns, s11) \<Rightarrow>
         Option.bind (zone_seconds s11) (\<lambda>offset.
         if m < 1 \<or> 12 < m \<or> d < 1 \<or> days_in y m < d \<or> 23 < hh \<or> 59 < mm \<or> 59 < sec then None
         else Some (day_number y m d * day_ns + ((hh * 60 + mm) * 60 + sec - offset) * second_ns + ns))))))))))))))"

section \<open>Hexadecimal\<close>

fun hex_decode :: "string \<Rightarrow> string option" where
  "hex_decode [] = Some []"
| "hex_decode [c] = None"
| "hex_decode (a # b # s) =
     (case (hex_value a, hex_value b) of
        (Some x, Some y) \<Rightarrow> map_option (Cons (char_of (16 * x + y))) (hex_decode s)
      | _ \<Rightarrow> None)"

text \<open>The digits of the bytes of a text.\<close>

definition hex_text :: "string \<Rightarrow> string" where
  "hex_text s = concat (List.map (\<lambda>c. [hex_digit (code_of c div 16), hex_digit (code_of c mod 16)]) s)"

lemma hex_decode_text: "hex_decode (hex_text s) = Some s"
proof (induction s)
  case (Cons c s)
  have "code_of c < 256" by (simp add: code_of_def)
  then have "hex_value (hex_digit (code_of c div 16)) = Some (code_of c div 16)"
    "hex_value (hex_digit (code_of c mod 16)) = Some (code_of c mod 16)"
    by (intro hex_value_digit; simp)+
  with Cons show ?case by (simp add: hex_text_def code_of_def)
qed (simp add: hex_text_def)

section \<open>Texts in URLs\<close>

definition upper_hex :: "nat \<Rightarrow> char" where
  "upper_hex n = (if n < 10 then char_of (48 + n) else char_of (55 + n))"

definition percent :: "char \<Rightarrow> string" where
  "percent c = [CHR ''%'', upper_hex (code_of c div 16), upper_hex (code_of c mod 16)]"

definition unreserved :: "char \<Rightarrow> bool" where
  "unreserved c \<longleftrightarrow>
     (let n = code_of c in 97 \<le> n \<and> n \<le> 122 \<or> 65 \<le> n \<and> n \<le> 90 \<or> 48 \<le> n \<and> n \<le> 57) \<or> c \<in> set ''-_.~''"

text \<open>\<open>url.QueryEscape\<close> and \<open>url.PathEscape\<close>.\<close>

definition query_escape :: "string \<Rightarrow> string" where
  "query_escape s =
     concat (List.map (\<lambda>c. if c = CHR '' '' then ''+'' else if unreserved c then [c] else percent c) s)"

definition path_escape :: "string \<Rightarrow> string" where
  "path_escape s =
     concat (List.map (\<lambda>c. if unreserved c \<or> c \<in> set ''$&+=:@'' then [c] else percent c) s)"

text \<open>\<open>url.Values.Encode\<close> of a map with one value per key: in the order of the keys.\<close>

fun join_with :: "string \<Rightarrow> string list \<Rightarrow> string" where
  "join_with sep [] = []"
| "join_with sep [x] = x"
| "join_with sep (x # y # xs) = x @ sep @ join_with sep (y # xs)"

definition values_encode :: "string_map \<Rightarrow> string" where
  "values_encode m = join_with ''&'' (List.map (\<lambda>(k, v). query_escape k @ ''='' @ query_escape v) m)"

text \<open>\<open>strings.TrimRight\<close> of one character and \<open>strings.TrimSuffix\<close>.\<close>

definition trim_right :: "char \<Rightarrow> string \<Rightarrow> string" where
  "trim_right c s = rev (dropWhile (\<lambda>x. x = c) (rev s))"

definition has_suffix :: "string \<Rightarrow> string \<Rightarrow> bool" where
  "has_suffix s t \<longleftrightarrow> length t \<le> length s \<and> drop (length s - length t) s = t"

definition trim_suffix :: "string \<Rightarrow> string \<Rightarrow> string" where
  "trim_suffix s t = (if has_suffix s t then take (length s - length t) s else s)"

definition has_prefix :: "string \<Rightarrow> string \<Rightarrow> bool" where
  "has_prefix s t \<longleftrightarrow> take (length t) s = t"

fun contains_text :: "string \<Rightarrow> string \<Rightarrow> bool" where
  "contains_text [] t = (t = [])"
| "contains_text (c # s) t = (has_prefix (c # s) t \<or> contains_text s t)"

end
