(* ===== verification/Licensing.thy ===== *)
theory Licensing
  imports Commerce_Catalog Checkout Go_Values
begin

text \<open>
  Licenses and the orders that sell them: service/license.go, service/order.go, the key
  generators of internal/generator and the license repository of repository/gorm_repo/impl.go.
  A license holds the identifiers of its devices as one text, separated by commas.
  The local time zone is taken to be UTC.
\<close>

section \<open>Repository\<close>

definition license_clash :: "License \<Rightarrow> License \<Rightarrow> bool" where
  "license_clash x y \<longleftrightarrow> li_ID x = li_ID y \<or> li_Key x = li_Key y"

interpretation licenses: row_store li_ID license_clash
  by unfold_locales (unfold license_clash_def, metis+)

definition next_license_id :: "License list \<Rightarrow> nat" where
  "next_license_id t = Suc (foldr (\<lambda>x n. max (li_ID x) n) t 0)"

text \<open>The columns with a default get it when the license leaves them empty.\<close>

definition license_row :: "License list \<Rightarrow> License \<Rightarrow> License" where
  "license_row t x =
     x\<lparr>li_ID := (if li_ID x = 0 then next_license_id t else li_ID x),
       li_Status := defaultString (li_Status x) ''inactive'',
       li_Validity := defaultString (li_Validity x) ''lifetime'',
       li_MaxSeats := (if li_MaxSeats x = 0 then 1 else li_MaxSeats x)\<rparr>"

definition LicenseRepo_Create :: "License \<Rightarrow> License service" where
  "LicenseRepo_Create x =
     db_write (\<lambda>d. let x' = license_row (tb_licenses d) x
       in map_option (\<lambda>t. (x', d\<lparr>tb_licenses := t\<rparr>)) (insert_row license_clash x' (tb_licenses d)))"

text \<open>The engine's own error for a missing row: this repository does not map it.\<close>

abbreviation ErrRecordNotFound :: err where "ErrRecordNotFound \<equiv> Sentinel ''record not found''"

definition LicenseRepo_GetByKey :: "string \<Rightarrow> License service" where
  "LicenseRepo_GetByKey k =
     andThen (db_read (\<lambda>d. find_row li_Key k (tb_licenses d))) (\<lambda>r.
     case r of None \<Rightarrow> fail ErrRecordNotFound | Some x \<Rightarrow> ret x)"

definition LicenseRepo_Update :: "License \<Rightarrow> unit service" where
  "LicenseRepo_Update = store_save tb_licenses tb_licenses_update li_ID license_clash"

definition LicenseRepo_List :: "string \<Rightarrow> License list service" where
  "LicenseRepo_List status =
     db_read (\<lambda>d. List.filter (\<lambda>x. status = [] \<or> li_Status x = status) (tb_licenses d))"

section \<open>Devices of a license\<close>

abbreviation ErrDeviceBound :: err where "ErrDeviceBound \<equiv> Sentinel ''license is bound to another device''"
abbreviation ErrDeviceNotBound :: err where "ErrDeviceNotBound \<equiv> Sentinel ''device is not bound to this license''"

text \<open>\<open>strings.Join\<close> with a comma.\<close>

fun join_comma :: "string list \<Rightarrow> string" where
  "join_comma [] = []"
| "join_comma [x] = x"
| "join_comma (x # xs) = x @ '','' @ join_comma xs"

definition parseDeviceIDs :: "License \<Rightarrow> string list" where
  "parseDeviceIDs lic = (if li_DeviceID lic = [] then [] else split_on (CHR '','') (li_DeviceID lic))"

definition containsDevice :: "string list \<Rightarrow> string \<Rightarrow> bool" where
  "containsDevice devices deviceID \<longleftrightarrow> list_ex (\<lambda>d. d = deviceID) devices"

definition isDeviceBound :: "License \<Rightarrow> string \<Rightarrow> bool" where
  "isDeviceBound lic deviceID \<longleftrightarrow> containsDevice (parseDeviceIDs lic) deviceID"

section \<open>The license service\<close>

text \<open>\<open>if err != nil { return ErrLicenseNotFound }\<close>: every error of the lookup.\<close>

definition found_license :: "string \<Rightarrow> License service" where
  "found_license key =
     andThen (attempt (LicenseRepo_GetByKey key)) (\<lambda>r.
     case r of Inl e \<Rightarrow> fail ErrLicenseNotFound | Inr lic \<Rightarrow> ret lic)"

text \<open>\<open>lic.ExpiresAt != nil && lic.ExpiresAt.Before(time.Now())\<close>.\<close>

definition license_expired :: "License \<Rightarrow> bool service" where
  "license_expired lic =
     (case li_ExpiresAt lic of None \<Rightarrow> ret False | Some t \<Rightarrow> andThen time_now (\<lambda>now. ret (t < now)))"

definition Verify :: "string \<Rightarrow> string \<Rightarrow> License service" where
  "Verify key deviceID =
     andThen (found_license key) (\<lambda>lic.
     andThen (reject_if (li_Status lic \<noteq> ''active'') ErrLicenseInactive) (\<lambda>_.
     andThen (license_expired lic) (\<lambda>over.
     andThen (reject_if over ErrLicenseExpired) (\<lambda>_.
     andThen (reject_if (\<not> isDeviceBound lic deviceID) ErrDeviceBound) (\<lambda>_. ret lic)))))"

definition license_is :: "License \<Rightarrow> err" where
  "license_is lic = Errorf (''license is '' @ li_Status lic)"

definition Activate :: "string \<Rightarrow> string \<Rightarrow> unit service" where
  "Activate key deviceID =
     andThen (found_license key) (\<lambda>lic.
     andThen (reject_if (li_Status lic \<noteq> ''inactive'' \<and> li_Status lic \<noteq> ''active'') (license_is lic)) (\<lambda>_.
     let devices = parseDeviceIDs lic; maxSeats = (if li_MaxSeats lic \<le> 0 then 1 else li_MaxSeats lic)
     in if containsDevice devices deviceID then ret ()
        else andThen (reject_if (maxSeats \<le> int (length devices)) ErrSeatsExhausted) (\<lambda>_.
             andThen time_now (\<lambda>now.
             LicenseRepo_Update (lic\<lparr>li_DeviceID := join_comma (devices @ [deviceID]), li_ActivatedAt := Some now,
               li_Status := ''active''\<rparr>)))))"

text \<open>The devices but the one to remove; a license without devices becomes inactive.\<close>

definition without_device :: "License \<Rightarrow> string \<Rightarrow> License" where
  "without_device lic deviceID =
     (let rest = List.filter (\<lambda>d. d \<noteq> deviceID) (parseDeviceIDs lic)
      in if rest = [] then lic\<lparr>li_DeviceID := [], li_Status := ''inactive''\<rparr>
         else lic\<lparr>li_DeviceID := join_comma rest\<rparr>)"

definition Deactivate :: "string \<Rightarrow> string \<Rightarrow> unit service" where
  "Deactivate key deviceID =
     andThen (found_license key) (\<lambda>lic.
     andThen (reject_if (li_Status lic \<noteq> ''active'') (license_is lic)) (\<lambda>_.
     andThen (reject_if (\<not> list_ex (\<lambda>d. d = deviceID) (parseDeviceIDs lic)) ErrDeviceNotBound) (\<lambda>_.
     LicenseRepo_Update (without_device lic deviceID))))"

definition ActivateByKey :: "string \<Rightarrow> unit service" where
  "ActivateByKey key =
     andThen (found_license key) (\<lambda>lic.
     if li_Status lic = ''active'' then ret () else LicenseRepo_Update (lic\<lparr>li_Status := ''active''\<rparr>))"

definition GetLicenseByKey :: "string \<Rightarrow> License service" where
  "GetLicenseByKey key = LicenseRepo_GetByKey key"

definition ListLicenses :: "string \<Rightarrow> License list service" where
  "ListLicenses status = LicenseRepo_List status"

text \<open>Each expired license is stored as such; a failed update is skipped and not counted.\<close>

definition expire_license :: "License \<Rightarrow> int \<Rightarrow> int service" where
  "expire_license lic n =
     andThen (license_expired lic) (\<lambda>over.
     if over
     then andThen (attempt (LicenseRepo_Update (lic\<lparr>li_Status := ''expired''\<rparr>))) (\<lambda>r.
          ret (case r of Inl e \<Rightarrow> n | Inr _ \<Rightarrow> n + 1))
     else ret n)"

definition CheckExpiry :: "int service" where
  "CheckExpiry = andThen (LicenseRepo_List ''active'') (\<lambda>t. for_each t expire_license 0)"

section \<open>License status\<close>

record LicenseStatusInfo =
  lo_Key :: string
  lo_Status :: string
  lo_Validity :: string
  lo_DeviceID :: string
  lo_ActivatedAt :: "instant option"
  lo_ExpiresAt :: "instant option"
  lo_MaxSeats :: int
  lo_IsExpired :: bool
  lo_IsInGrace :: bool
  lo_DaysRemaining :: int

text \<open>\<open>Duration.Hours\<close>: the whole hours plus the rest as a fraction; odd in its argument.\<close>

definition duration_hours :: "int \<Rightarrow> rat" where
  "duration_hours d = float64 (of_int (d div 3600000000000) + float64 (of_int (d mod 3600000000000) / 3600000000000))"

text \<open>\<open>int(diff.Hours() / 24)\<close>, truncated towards zero.\<close>

definition days_remaining :: "int \<Rightarrow> int" where
  "days_remaining diff =
     (let days = \<lfloor>float64 (duration_hours \<bar>diff\<bar> / 24)\<rfloor> in if diff < 0 then - days else days)"

definition GracePeriodDays :: int where
  "GracePeriodDays = 3"

definition toStatusInfo :: "License \<Rightarrow> LicenseStatusInfo service" where
  "toStatusInfo lic =
     (let info = \<lparr>lo_Key = li_Key lic, lo_Status = li_Status lic, lo_Validity = li_Validity lic,
            lo_DeviceID = li_DeviceID lic, lo_ActivatedAt = li_ActivatedAt lic, lo_ExpiresAt = li_ExpiresAt lic,
            lo_MaxSeats = li_MaxSeats lic, lo_IsExpired = False, lo_IsInGrace = False, lo_DaysRemaining = 0\<rparr>
      in case li_ExpiresAt lic of
           None \<Rightarrow> ret info
         | Some t \<Rightarrow>
             andThen time_now (\<lambda>now.
             let diff = time_sub t now;
                 dated = info\<lparr>lo_DaysRemaining := days_remaining diff\<rparr>
             in ret (if diff < 0
                     then if add_date 0 0 (- GracePeriodDays) now < t
                          then dated\<lparr>lo_IsExpired := True, lo_IsInGrace := True, lo_Status := ''grace''\<rparr>
                          else dated\<lparr>lo_IsExpired := True\<rparr>
                     else dated)))"

definition GetLicenseStatus :: "string \<Rightarrow> LicenseStatusInfo service" where
  "GetLicenseStatus key = andThen (found_license key) toStatusInfo"

definition ListExpiringSoon :: "int \<Rightarrow> LicenseStatusInfo list service" where
  "ListExpiringSoon days =
     andThen (LicenseRepo_List ''active'') (\<lambda>t.
     andThen time_now (\<lambda>now.
     for_each t (\<lambda>lic expiring.
       if (case li_ExpiresAt lic of None \<Rightarrow> False | Some e \<Rightarrow> e < add_date 0 0 days now)
       then andThen (toStatusInfo lic) (\<lambda>info. ret (expiring @ [info]))
       else ret expiring) []))"

section \<open>Keys\<close>

text \<open>\<open>rand.Int\<close>: the bytes of the random source select the number; every number below the bound is possible.\<close>

definition rand_Int :: "int \<Rightarrow> int service" where
  "rand_Int m w =
     (case entropy w (tick w) of
        None \<Rightarrow> (Inl ErrRandom, next_tick w)
      | Some bs \<Rightarrow> (Inr (foldr (\<lambda>b n. int (unat b) + 256 * n) bs 0 mod m), next_tick w))"

definition charset :: string where
  "charset = ''0123456789''"

definition randomDigits :: "nat \<Rightarrow> string service" where
  "randomDigits n =
     for_each [0..<n] (\<lambda>_ s. andThen (rand_Int (int (length charset))) (\<lambda>k. ret (s @ [charset ! nat k]))) []"

definition PrefixKeyGenerator_Generate :: "string \<Rightarrow> string \<Rightarrow> string service" where
  "PrefixKeyGenerator_Generate prefix productCode =
     andThen (randomDigits 4) (\<lambda>part1.
     andThen (randomDigits 4) (\<lambda>part2.
     ret (''SM-'' @ to_upper prefix @ ''-'' @ part1 @ ''-'' @ part2)))"

type_synonym KeyGenerator = "string \<Rightarrow> string service"
type_synonym KeyGeneratorFactory = "string \<rightharpoonup> KeyGenerator"

definition Factory_Register :: "KeyGeneratorFactory \<Rightarrow> string \<Rightarrow> KeyGenerator \<Rightarrow> KeyGeneratorFactory" where
  "Factory_Register f productCode gen = f(productCode \<mapsto> gen)"

definition Factory_Get :: "KeyGeneratorFactory \<Rightarrow> string \<Rightarrow> err + KeyGenerator" where
  "Factory_Get f productCode =
     (case f productCode of
        Some gen \<Rightarrow> Inr gen
      | None \<Rightarrow> Inr (PrefixKeyGenerator_Generate productCode))"

definition RegisterDefaults :: "KeyGeneratorFactory \<Rightarrow> KeyGeneratorFactory" where
  "RegisterDefaults f =
     Factory_Register (Factory_Register (Factory_Register (Factory_Register f
       ''pro'' (PrefixKeyGenerator_Generate ''PRO''))
       ''std'' (PrefixKeyGenerator_Generate ''STD''))
       ''sub_monthly'' (PrefixKeyGenerator_Generate ''SUB''))
       ''sub_yearly'' (PrefixKeyGenerator_Generate ''SUB'')"

definition DefaultFactory :: KeyGeneratorFactory where
  "DefaultFactory = RegisterDefaults (\<lambda>_. None)"

definition ValidateProductCode :: "string \<Rightarrow> err + unit" where
  "ValidateProductCode code = (if code = [] then Inl (Errorf ''product code cannot be empty'') else Inr ())"

section \<open>Orders of licenses\<close>

definition wrap_err :: "string \<Rightarrow> 'a service \<Rightarrow> 'a service" where
  "wrap_err prefix m =
     andThen (attempt m) (\<lambda>r. case r of
       Inl e \<Rightarrow> fail (Wrapped (prefix @ '': '' @ error_text e) e) | Inr x \<Rightarrow> ret x)"

text \<open>The unit of work of an order: the errors of opening and committing it are wrapped.\<close>

definition order_transaction :: "'a service \<Rightarrow> 'a service" where
  "order_transaction body w =
     (case wrap_err ''begin transaction'' (db_read (\<lambda>d. ())) w of
        (Inl e, w1) \<Rightarrow> (Inl e, w1)
      | (Inr _, w1) \<Rightarrow>
          (case body w1 of
             (Inl e, w2) \<Rightarrow> (Inl e, w2\<lparr>db := db w\<rparr>)
           | (Inr x, w2) \<Rightarrow>
               (case wrap_err ''commit transaction'' (db_read (\<lambda>d. ())) w2 of
                  (Inl e, w3) \<Rightarrow> (Inl e, w3\<lparr>db := db w\<rparr>)
                | (Inr _, w3) \<Rightarrow> (Inr x, w3))))"

definition new_license :: "string \<Rightarrow> string \<Rightarrow> string \<Rightarrow> instant \<Rightarrow> License" where
  "new_license key productCode validity now =
     \<lparr>li_ID = 0, li_Key = key, li_PlanCode = productCode, li_Status = ''inactive'', li_Validity = validity,
      li_DeviceID = [], li_ActivatedAt = None,
      li_ExpiresAt = (if validity = ''monthly'' then Some (add_date 0 1 0 now)
        else if validity = ''yearly'' then Some (add_date 1 0 0 now) else None),
      li_MaxSeats = 1\<rparr>"

text \<open>The columns that an order of a license sets; the type of an order defaults to a new one.\<close>

definition license_order :: "string \<Rightarrow> string \<Rightarrow> int \<Rightarrow> string \<Rightarrow> Order" where
  "license_order outTradeNo key amount orderType =
     \<lparr>or_ID = 0, or_OutTradeNo = outTradeNo, or_LicenseKey = key, or_UserID = [], or_SKUCode = [],
      or_Amount = amount, or_Currency = ''CNY'', or_Status = OrderStatusPending, or_Provider = [], or_TradeNo = [],
      or_ProviderCheckoutID = [], or_ProviderCustomerID = [], or_CheckoutURL = [], or_IdempotencyKey = None,
      or_PaidAt = None, or_FulfilledAt = None, or_Metadata = [], or_OrderType = orderType\<rparr>"

definition Order_Create :: "KeyGeneratorFactory \<Rightarrow> string \<Rightarrow> Order service" where
  "Order_Create factory productCode =
     andThen (wrap_err (''product '' @ go_quote productCode @ '' not found'') (ProductRepo_GetByCode productCode)) (\<lambda>p.
     andThen (reject_if (\<not> pr_IsVisible p)
       (Errorf (''product '' @ go_quote productCode @ '' is not available for purchase''))) (\<lambda>_.
     andThen (wrap_err (''key generator for '' @ go_quote productCode) (of_sum (Factory_Get factory productCode))) (\<lambda>gen.
     andThen (wrap_err ''generate key'' (gen productCode)) (\<lambda>key.
     andThen time_now (\<lambda>now.
     andThen time_now (\<lambda>now2.
     order_transaction
       (andThen (wrap_err ''create order'' (OrderRepo_Create (license_order
          (''ORD-'' @ string_of_int (unix_nano now2) @ ''-'' @ productCode) key (pr_Price p) OrderTypeNew))) (\<lambda>x.
        andThen (wrap_err ''pre-create license'' (LicenseRepo_Create (new_license key productCode (pr_Validity p) now))) (\<lambda>_.
        ret x)))))))))"

definition Order_CreateRenewal :: "string \<Rightarrow> Order service" where
  "Order_CreateRenewal licenseKey =
     andThen (wrap_err (''license '' @ go_quote licenseKey @ '' not found'') (LicenseRepo_GetByKey licenseKey)) (\<lambda>lic.
     andThen (reject_if (li_Validity lic = ''lifetime'') (Errorf ''lifetime license cannot be renewed'')) (\<lambda>_.
     andThen (wrap_err (''product '' @ go_quote (li_PlanCode lic) @ '' not found'')
       (ProductRepo_GetByCode (li_PlanCode lic))) (\<lambda>p.
     andThen time_now (\<lambda>now.
     order_transaction
       (wrap_err ''create renewal order'' (OrderRepo_Create (license_order
          (''RNL-'' @ string_of_int (unix_nano now) @ ''-'' @ licenseKey) licenseKey (pr_Price p) OrderTypeRenewal)))))))"

definition Order_GetByOutTradeNo :: "string \<Rightarrow> Order service" where
  "Order_GetByOutTradeNo outTradeNo = OrderRepo_GetByOutTradeNo outTradeNo"

end
