(* ===== verification/Licensing_Theorems.thy ===== *)
theory Licensing_Theorems
  imports Licensing Payment_Flow Checkout_Theorems
begin

text \<open>
  Properties of the licenses: the devices of a license stay within its seats, an activated
  device is one that is verified, and the orders of licenses are all or nothing.
\<close>

section \<open>The text of the devices\<close>

lemma split_on_Nil [simp]: "split_on c s \<noteq> []"
  by (induction s) (auto split: list.split)

lemma split_on_parts: "x \<in> set (split_on c s) \<Longrightarrow> c \<notin> set x"
  by (induction s arbitrary: x) (auto split: list.splits if_splits)

lemma split_on_whole: "c \<notin> set x \<Longrightarrow> split_on c x = [x]"
  by (induction x) auto

lemma split_on_next: "c \<notin> set x \<Longrightarrow> split_on c (x @ c # s) = x # split_on c s"
  by (induction x) auto

definition comma_free :: "string list \<Rightarrow> bool" where
  "comma_free xs \<longleftrightarrow> (\<forall>x\<in>set xs. CHR '','' \<notin> set x)"

lemma split_join: "comma_free xs \<Longrightarrow> xs \<noteq> [] \<Longrightarrow> split_on (CHR '','') (join_comma xs) = xs"
  by (induction xs rule: join_comma.induct) (auto simp: comma_free_def split_on_whole split_on_next)

lemma join_comma_Nil: "join_comma xs = [] \<longleftrightarrow> xs = [] \<or> xs = [[]]"
  by (induction xs rule: join_comma.induct) auto

lemma parse_comma_free: "comma_free (parseDeviceIDs l)"
  by (auto simp: comma_free_def parseDeviceIDs_def dest: split_on_parts)

lemma parse_joined:
  "comma_free xs \<Longrightarrow> li_DeviceID l = join_comma xs \<Longrightarrow> parseDeviceIDs l = (if xs = [[]] then [] else xs)"
  by (auto simp: parseDeviceIDs_def join_comma_Nil split_join)

section \<open>The invariant\<close>

definition seats :: "License \<Rightarrow> int" where
  "seats l = (if li_MaxSeats l \<le> 0 then 1 else li_MaxSeats l)"

lemma seats_updates [simp]:
  "seats (l\<lparr>li_DeviceID := a\<rparr>) = seats l" "seats (l\<lparr>li_ActivatedAt := b\<rparr>) = seats l"
  "seats (l\<lparr>li_Status := c\<rparr>) = seats l"
  by (simp_all add: seats_def)

text \<open>A license has at most as many devices as seats, and none while it is inactive.\<close>

definition license_ok :: "License \<Rightarrow> bool" where
  "license_ok l \<longleftrightarrow> int (length (parseDeviceIDs l)) \<le> seats l
     \<and> (li_Status l = ''inactive'' \<longrightarrow> li_DeviceID l = [])"

definition licenses_ok :: "database \<Rightarrow> bool" where
  "licenses_ok d \<longleftrightarrow> table_ok license_clash (tb_licenses d) \<and> (\<forall>l\<in>set (tb_licenses d). license_ok l)"

lemma license_ok_cong:
  "li_DeviceID l = li_DeviceID m \<Longrightarrow> li_MaxSeats l = li_MaxSeats m
    \<Longrightarrow> (li_Status m = ''inactive'' \<Longrightarrow> li_Status l = ''inactive'') \<Longrightarrow> license_ok l \<Longrightarrow> license_ok m"
  by (auto simp: license_ok_def seats_def parseDeviceIDs_def)

lemma license_ok_status: "license_ok l \<Longrightarrow> s \<noteq> ''inactive'' \<Longrightarrow> license_ok (l\<lparr>li_Status := s\<rparr>)"
  by (erule license_ok_cong [rotated -1]) auto

lemma activated_ok:
  assumes "license_ok l" and "int (length (parseDeviceIDs l)) < seats l" and "CHR '','' \<notin> set dev"
  shows "license_ok (l\<lparr>li_DeviceID := join_comma (parseDeviceIDs l @ [dev]), li_ActivatedAt := t,
    li_Status := ''active''\<rparr>)" (is "license_ok ?l")
proof -
  have "comma_free (parseDeviceIDs l @ [dev])"
    using parse_comma_free [of l] assms(3) by (auto simp: comma_free_def)
  from parse_joined [OF this, of ?l] have "length (parseDeviceIDs ?l) \<le> length (parseDeviceIDs l @ [dev])"
    by simp
  with assms(2) show ?thesis by (simp add: license_ok_def)
qed

lemma without_device_ok:
  assumes "license_ok l"
  shows "license_ok (without_device l dev)"
proof -
  define rest where "rest = List.filter (\<lambda>d. d \<noteq> dev) (parseDeviceIDs l)"
  let ?l = "l\<lparr>li_DeviceID := join_comma rest\<rparr>"
  have "comma_free rest" using parse_comma_free [of l] by (auto simp: comma_free_def rest_def)
  from parse_joined [OF this, of ?l] have "length (parseDeviceIDs ?l) \<le> length rest" by simp
  also have "length rest \<le> length (parseDeviceIDs l)" by (simp add: rest_def)
  finally have "int (length (parseDeviceIDs ?l)) \<le> seats l" using assms by (simp add: license_ok_def)
  moreover have "rest = []" if "li_DeviceID l = []" using that by (simp add: rest_def parseDeviceIDs_def)
  ultimately show ?thesis
    using assms by (auto simp: without_device_def rest_def [symmetric] Let_def license_ok_def seats_def
        parseDeviceIDs_def [of "l\<lparr>li_DeviceID := [], li_Status := ''inactive''\<rparr>"])
qed

lemma keeps_license_update: "license_ok l \<Longrightarrow> keeps licenses_ok (LicenseRepo_Update l)"
  unfolding LicenseRepo_Update_def
  by (rule keeps_store_save)
     (auto simp: licenses_ok_def dest: licenses.save_ok, auto simp: save_row_def replace_row_def split: if_splits)

lemma keeps_db_read_of:
  assumes "\<And>d. P d \<Longrightarrow> keeps P (h (q d))"
  shows "keeps P (andThen (db_read q) h)"
proof -
  have "P (db w) \<Longrightarrow> P (db (snd (andThen (db_read q) h w)))" for w
    using keepsD [OF assms, of "db w" "next_tick w"] by (auto simp: andThen_def db_read_def split: option.split)
  then show ?thesis by (simp add: keeps_def)
qed

lemma keeps_each:
  "(\<And>x acc. x \<in> set xs \<Longrightarrow> keeps P (body x acc)) \<Longrightarrow> keeps P (for_each xs body acc)"
  by (induction xs arbitrary: acc) auto

lemma keeps_found_license:
  assumes "\<And>l d. licenses_ok d \<Longrightarrow> find_row li_Key key (tb_licenses d) = Some l \<Longrightarrow> keeps licenses_ok (h l)"
  shows "keeps licenses_ok (andThen (found_license key) h)"
proof -
  have "licenses_ok (db w) \<Longrightarrow> licenses_ok (db (snd (andThen (found_license key) h w)))" for w
    using assms [of "db w"] keepsD [of licenses_ok "h _" "next_tick w"]
    by (simp add: wp_result [symmetric] wp_simps found_license_def LicenseRepo_GetByKey_def split: option.split)
  then show ?thesis by (simp add: keeps_def)
qed

lemma found_ok: "licenses_ok d \<Longrightarrow> find_row li_Key key (tb_licenses d) = Some l \<Longrightarrow> license_ok l"
  by (auto simp: licenses_ok_def dest: find_row_found)

lemma keeps_license_expired: "keeps P (license_expired l)"
  by (auto simp: license_expired_def split: option.split)

lemma keeps_Activate: "CHR '','' \<notin> set dev \<Longrightarrow> keeps licenses_ok (Activate key dev)"
  unfolding Activate_def Let_def seats_def [symmetric]
  by (rule keeps_found_license)
     (auto intro!: keeps_rules keeps_guarded keeps_license_update activated_ok dest: found_ok)

lemma keeps_Deactivate: "keeps licenses_ok (Deactivate key dev)"
  unfolding Deactivate_def
  by (rule keeps_found_license)
     (auto intro!: keeps_rules keeps_license_update without_device_ok dest: found_ok)

lemma keeps_ActivateByKey: "keeps licenses_ok (ActivateByKey key)"
  unfolding ActivateByKey_def
  by (rule keeps_found_license)
     (auto intro!: keeps_rules keeps_license_update license_ok_status dest: found_ok)

lemma keeps_CheckExpiry: "keeps licenses_ok CheckExpiry"
proof -
  have "keeps licenses_ok (expire_license l n)" if "license_ok l" for l n
    using license_ok_status [OF that, of "''expired''"] unfolding expire_license_def
    by (auto intro!: keeps_rules keeps_license_update keeps_license_expired)
  then show ?thesis
    unfolding CheckExpiry_def LicenseRepo_List_def
    by (auto intro!: keeps_db_read_of keeps_each simp: licenses_ok_def)
qed

lemma keeps_wrap_err [keeps_rules]: "keeps P m \<Longrightarrow> keeps P (wrap_err t m)"
  unfolding wrap_err_def by (intro keeps_rules)

lemma keeps_order_transaction [keeps_rules]:
  assumes "keeps P m"
  shows "keeps P (order_transaction m)"
  unfolding keeps_def
proof (intro allI impI)
  fix w :: "database world"
  assume P: "P (db w)"
  have "P (db (snd (m (next_tick w))))" using keepsD [OF assms, of "next_tick w"] P by simp
  with P show "P (db (snd (order_transaction m w)))"
    by (auto simp: order_transaction_def wrap_err_def andThen_def attempt_def db_read_def ret_def fail_def
        split: prod.splits sum.splits option.splits)
qed

lemma untouched_order_steps [untouched_rules]:
  "untouched f m \<Longrightarrow> untouched f (wrap_err t m)" "untouched f m \<Longrightarrow> untouched f (order_transaction m)"
  unfolding untouched_def by (intro allI keeps_rules; blast)+

lemma license_row_ok: "license_ok (license_row t (new_license key code validity now))"
  by (simp add: license_row_def new_license_def license_ok_def parseDeviceIDs_def seats_def)

lemma keeps_LicenseRepo_Create: "keeps licenses_ok (LicenseRepo_Create (new_license key code validity now))"
  unfolding LicenseRepo_Create_def Let_def
  by (rule keeps_db_write)
     (auto simp: licenses_ok_def license_row_ok licenses.insert_row_Some dest: licenses.insert_ok)

lemma licenses_ok_untouched: "untouched tb_licenses m \<Longrightarrow> keeps licenses_ok m"
  using untouched_keeps [of tb_licenses m "\<lambda>t. table_ok license_clash t \<and> (\<forall>l\<in>set t. license_ok l)"]
  by (simp add: licenses_ok_def [abs_def])

lemma untouched_license_keys [untouched_rules]:
  "untouched f (rand_Int n)" "untouched f (randomDigits k)" "untouched f (PrefixKeyGenerator_Generate p c)"
proof -
  show int: "untouched f (rand_Int n)" for n
    by (simp add: untouched_def keeps_def rand_Int_def split: option.split)
  show digits: "untouched f (randomDigits k)" for k
    unfolding randomDigits_def by (intro untouched_rules int)
  show "untouched f (PrefixKeyGenerator_Generate p c)"
    unfolding PrefixKeyGenerator_Generate_def by (intro untouched_rules digits)
qed

text \<open>Every generator of the default factory makes keys of a prefix.\<close>

lemma default_generator: "Factory_Get DefaultFactory code = Inr gen \<Longrightarrow> \<exists>p. gen = PrefixKeyGenerator_Generate p"
  by (auto simp: Factory_Get_def DefaultFactory_def RegisterDefaults_def Factory_Register_def
      split: option.splits if_splits)

lemma untouched_default_generator: "Factory_Get DefaultFactory code = Inr gen \<Longrightarrow> untouched f (gen code)"
  by (auto dest!: default_generator intro: untouched_rules)

lemma keeps_Order_Create: "keeps licenses_ok (Order_Create DefaultFactory code)"
proof -
  have key: "keeps licenses_ok (wrap_err t (gen code))" if "Factory_Get DefaultFactory code = Inr gen" for t gen
    using untouched_default_generator [OF that] by (intro keeps_rules licenses_ok_untouched)
  have order: "keeps licenses_ok (wrap_err t (OrderRepo_Create x))" for t x
    by (intro keeps_rules licenses_ok_untouched untouched_rules) simp
  obtain gen where gen: "Factory_Get DefaultFactory code = Inr gen"
    by (cases "DefaultFactory code") (auto simp: Factory_Get_def)
  have step: "andThen (wrap_err t (of_sum (Factory_Get DefaultFactory code))) h = h gen" for t and h :: "_ \<Rightarrow> 'b service"
    by (simp add: gen wrap_err_def of_sum_def attempt_def andThen_def ret_def fun_eq_iff)
  show ?thesis
    unfolding Order_Create_def ProductRepo_GetByCode_def step
    by (intro keeps_rules order key [OF gen] keeps_LicenseRepo_Create)
qed

lemma keeps_Order_CreateRenewal: "keeps licenses_ok (Order_CreateRenewal key)"
  unfolding Order_CreateRenewal_def LicenseRepo_GetByKey_def ProductRepo_GetByCode_def
  by (intro licenses_ok_untouched untouched_rules) simp

section \<open>Activated devices are verified\<close>

lemma wlp_found_license:
  "(\<And>l. find_row li_Key key (tb_licenses d) = Some l \<Longrightarrow> wlp (h l) Q d)
    \<Longrightarrow> wlp (andThen (found_license key) h) Q d"
  by (simp add: wlp_def wp_simps found_license_def LicenseRepo_GetByKey_def split: option.split)

lemma Verify_bound:
  assumes "find_row li_Key key (tb_licenses (db w)) = Some l" "li_Status l = ''active''" "isDeviceBound l dev"
    and "faults w (tick w) = None" "\<And>t. li_ExpiresAt l = Some t \<Longrightarrow> clock w (Suc (tick w)) \<le> t"
  shows "fst (Verify key dev w) = Inr l"
  using assms
  by (auto simp: Verify_def found_license_def LicenseRepo_GetByKey_def license_expired_def andThen_def attempt_def
      db_read_def ret_def fail_def reject_if_def time_now_def split: option.split)

interpretation license_keys: row_store li_Key license_clash
  by unfold_locales (unfold license_clash_def, metis+)

text \<open>A license saved under its own key is found by it.\<close>

lemma saved_license_found:
  assumes "table_ok license_clash t" "save_row li_ID license_clash l t = Some t'"
  shows "find_row li_Key (li_Key l) t' = Some l"
  using license_keys.find_row_member [OF licenses.save_ok [OF assms] save_row_mem [OF assms(2)]] .

lemma save_row_others:
  "save_row key clash r t = Some t' \<Longrightarrow> m \<in> set t \<Longrightarrow> key m \<noteq> key r \<Longrightarrow> m \<in> set t'"
  by (auto simp: save_row_def replace_row_def split: if_splits)

definition activated :: "string \<Rightarrow> string \<Rightarrow> database \<Rightarrow> database \<Rightarrow> bool" where
  "activated key dev d d' \<longleftrightarrow>
     (\<exists>l l'. find_row li_Key key (tb_licenses d) = Some l \<and> find_row li_Key key (tb_licenses d') = Some l'
        \<and> li_Status l' = ''active'' \<and> set (parseDeviceIDs l') = insert dev (set (parseDeviceIDs l))
        \<and> (\<forall>m\<in>set (tb_licenses d). m \<noteq> l \<longrightarrow> m \<in> set (tb_licenses d')))"

lemma wlp_Activate:
  assumes ok: "licenses_ok d" and dev: "CHR '','' \<notin> set dev" "dev \<noteq> []"
  shows "wlp (Activate key dev) (\<lambda>_. activated key dev d) d"
proof -
  have "wlp (LicenseRepo_Update (l\<lparr>li_DeviceID := join_comma (parseDeviceIDs l @ [dev]), li_ActivatedAt := t,
      li_Status := ''active''\<rparr>)) (\<lambda>_. activated key dev d) d" (is "wlp (LicenseRepo_Update ?l) _ _")
    if l: "find_row li_Key key (tb_licenses d) = Some l" for l t
    unfolding LicenseRepo_Update_def
  proof (rule wlp_store_save)
    fix t' assume save: "save_row li_ID license_clash ?l (tb_licenses d) = Some t'"
    have t: "table_ok license_clash (tb_licenses d)" using ok by (simp add: licenses_ok_def)
    have l': "l \<in> set (tb_licenses d)" "li_Key l = key" using find_row_found [OF l] by simp_all
    have "find_row li_Key key t' = Some ?l" using saved_license_found [OF t save] l'(2) by simp
    moreover have "comma_free (parseDeviceIDs l @ [dev])"
      using parse_comma_free [of l] dev(1) by (auto simp: comma_free_def)
    then have "parseDeviceIDs ?l = parseDeviceIDs l @ [dev]"
      using parse_joined [of "parseDeviceIDs l @ [dev]" ?l] dev(2) by (auto simp: append_eq_Cons_conv)
    moreover have "m \<in> set t'" if "m \<in> set (tb_licenses d)" "m \<noteq> l" for m
      using save_row_others [OF save that(1)] licenses.same_row [OF t that(1) l'(1)] that(2)
      by (auto simp: license_clash_def)
    ultimately show "activated key dev d (tb_licenses_update (\<lambda>_. t') d)"
      using l by (auto simp: activated_def)
  qed
  moreover have "activated key dev d d"
    if "find_row li_Key key (tb_licenses d) = Some l" "containsDevice (parseDeviceIDs l) dev"
      "li_Status l = ''inactive'' \<or> li_Status l = ''active''" for l
    using that found_ok [OF ok that(1)]
    by (auto simp: activated_def license_ok_def containsDevice_def parseDeviceIDs_def list_ex_iff)
  ultimately show ?thesis
    unfolding Activate_def Let_def
    by (intro wlp_found_license wlp_andThen wlp_reject_if wlp_if wlp_ret wlp_time_now) auto
qed

text \<open>C11: After a successful activation of a device, with a non-empty identifier without a comma, the
  license is active and holds exactly one more device (or none, when the device was there); no other
  license changes; and as long as the row of the license stays as it is, whatever else changes, the
  device is verified until the license expires.\<close>

theorem activated_device_verified:
  assumes "licenses_ok (db w)" "CHR '','' \<notin> set dev" "dev \<noteq> []" "Activate key dev w = (Inr (), w')"
  shows "\<exists>l l'. find_row li_Key key (tb_licenses (db w)) = Some l
    \<and> find_row li_Key key (tb_licenses (db w')) = Some l'
    \<and> li_Status l' = ''active'' \<and> set (parseDeviceIDs l') = insert dev (set (parseDeviceIDs l))
    \<and> (\<forall>m\<in>set (tb_licenses (db w)). m \<noteq> l \<longrightarrow> m \<in> set (tb_licenses (db w')))
    \<and> (\<forall>w2. find_row li_Key key (tb_licenses (db w2)) = Some l' \<and> faults w2 (tick w2) = None
          \<and> (\<forall>t. li_ExpiresAt l' = Some t \<longrightarrow> clock w2 (Suc (tick w2)) \<le> t)
        \<longrightarrow> fst (Verify key dev w2) = Inr l')"
proof -
  have "activated key dev (db w) (db w')"
    using wlpD [OF wlp_Activate [OF assms(1,2,3)] assms(4)] .
  then obtain l l' where l: "find_row li_Key key (tb_licenses (db w)) = Some l"
    "find_row li_Key key (tb_licenses (db w')) = Some l'" "li_Status l' = ''active''"
    "set (parseDeviceIDs l') = insert dev (set (parseDeviceIDs l))"
    "\<forall>m\<in>set (tb_licenses (db w)). m \<noteq> l \<longrightarrow> m \<in> set (tb_licenses (db w'))"
    by (auto simp: activated_def)
  have "isDeviceBound l' dev" using l(4) by (auto simp: isDeviceBound_def containsDevice_def list_ex_iff)
  then show ?thesis using l Verify_bound [of key _ l' dev] by (intro exI [of _ l] exI [of _ l'] conjI) auto
qed

definition sold_license :: License where
  "sold_license = \<lparr>li_ID = 1, li_Key = ''K'', li_PlanCode = ''pro'', li_Status = ''inactive'', li_Validity = ''lifetime'',
     li_DeviceID = [], li_ActivatedAt = None, li_ExpiresAt = None, li_MaxSeats = 2\<rparr>"

definition license_world :: "database world" where
  "license_world = (sample_world 0 (empty_database\<lparr>tb_licenses := [sold_license]\<rparr>))\<lparr>clock := int\<rparr>"

lemma license_world_ok: "licenses_ok (db license_world)"
  by (simp add: licenses_ok_def license_world_def sample_world_def table_ok_def license_ok_def seats_def
      sold_license_def parseDeviceIDs_def)

lemma activated_device_verified_witness:
  "\<exists>l. fst (Verify ''K'' ''d1'' (snd (Activate ''K'' ''d1'' license_world))) = Inr l"
proof -
  let ?w = "snd (Activate ''K'' ''d1'' license_world)"
  have "fst (Activate ''K'' ''d1'' license_world) = Inr ()" by code_simp
  then have run: "Activate ''K'' ''d1'' license_world = (Inr (), ?w)" by (metis prod.collapse)
  have calm: "faults ?w (tick ?w) = None" by code_simp
  have "case find_row li_Key ''K'' (tb_licenses (db ?w)) of None \<Rightarrow> True | Some l \<Rightarrow> li_ExpiresAt l = None" by code_simp
  then have endless: "find_row li_Key ''K'' (tb_licenses (db ?w)) = Some l \<Longrightarrow> li_ExpiresAt l = None" for l by simp
  from activated_device_verified [OF license_world_ok _ _ run] obtain l l' where
    "find_row li_Key ''K'' (tb_licenses (db ?w)) = Some l'"
    "\<And>w2. db w2 = db ?w \<Longrightarrow> faults w2 (tick w2) = None
          \<Longrightarrow> (\<And>t. li_ExpiresAt l' = Some t \<Longrightarrow> clock w2 (Suc (tick w2)) \<le> t)
        \<Longrightarrow> fst (Verify ''K'' ''d1'' w2) = Inr l'" by auto
  with calm endless show ?thesis by (metis option.distinct(1))
qed

text \<open>A device identifier with a comma takes a seat for each of its parts, is not bound itself and is not verified.\<close>

lemma comma_device_takes_two_seats:
  defines "w \<equiv> license_world\<lparr>db := empty_database\<lparr>tb_licenses := [sold_license\<lparr>li_MaxSeats := 1\<rparr>]\<rparr>\<rparr>"
  shows "fst (Activate ''K'' ''a,b'' w) = Inr ()"
    and "List.map (length \<circ> parseDeviceIDs) (tb_licenses (db (snd (Activate ''K'' ''a,b'' w)))) = [2]"
    and "fst (Verify ''K'' ''a,b'' (snd (Activate ''K'' ''a,b'' w))) = Inl ErrDeviceBound"
  unfolding w_def by code_simp+

end
