(* ===== verification/Payment_Gateway.thy ===== *)
theory Payment_Gateway
  imports Licensing Payment_Events Subscription_Cancellation "HOL-Library.AList"
begin

text \<open>
  The payment service of internal/payment: the registry of providers (registry.go), the provider
  interfaces (provider.go), the service that forwards checkouts, subscription controls and webhooks
  to them and processes the legacy callbacks (service.go), and the mock providers
  (mock_checkout.go, alipay_mock.go, wechat_mock.go).  A provider is a record of its methods; the
  optional interfaces are options.  The lock of the registry makes its operations atomic.
\<close>

abbreviation ErrProviderNotFound :: err where "ErrProviderNotFound \<equiv> Sentinel ''payment provider not found''"
abbreviation ErrWebhookInvalidPayload :: err where "ErrWebhookInvalidPayload \<equiv> Sentinel ''webhook invalid payload''"
abbreviation ErrWebhookSignatureVerificationFailed :: err where
  "ErrWebhookSignatureVerificationFailed \<equiv> Sentinel ''webhook signature verification failed''"
abbreviation ErrSubscriptionControlUnsupported :: err where
  "ErrSubscriptionControlUnsupported \<equiv> Sentinel ''subscription control unsupported''"
abbreviation ErrSubscriptionControlInvalidRequest :: err where
  "ErrSubscriptionControlInvalidRequest \<equiv> Sentinel ''invalid subscription control request''"

section \<open>Providers\<close>

record WebhookVerificationRequest =
  wr_Headers :: string_map
  wr_Params :: string_map
  wr_RawPayload :: string

record PaymentProvider =
  pp_Name :: string
  pp_CreatePaymentURL :: "string \<Rightarrow> int \<Rightarrow> string \<Rightarrow> string service"
  pp_VerifyCallback :: "string_map \<Rightarrow> (string \<times> string \<times> int) service"
  pp_BuildSuccessResponse :: "string \<times> string"
  pp_BuildFailureResponse :: "string \<times> string"
  pp_CreateCheckoutSession :: "(CheckoutRequest \<Rightarrow> CheckoutSession service) option"
  pp_SubscriptionControl :: "((SubscriptionControlRequest \<Rightarrow> SubscriptionControlResult service)
     \<times> (SubscriptionControlRequest \<Rightarrow> SubscriptionControlResult service)) option"
  pp_VerifyWebhookEvent :: "(WebhookVerificationRequest \<Rightarrow> VerifiedWebhookEvent service) option"

section \<open>The registry\<close>

record ProviderStatus =
  st_Name :: string
  st_IsMock :: bool
  st_SandboxMode :: bool
  st_NotifyURL :: string
  st_Status :: string
  st_Error :: string

record ProviderRegistry =
  rg_providers :: "(string \<times> PaymentProvider) list"
  rg_metadata :: "(string \<times> ProviderStatus) list"

definition NewProviderRegistry :: ProviderRegistry where
  "NewProviderRegistry = \<lparr>rg_providers = [], rg_metadata = []\<rparr>"

definition Register :: "string \<Rightarrow> PaymentProvider \<Rightarrow> ProviderStatus \<Rightarrow> ProviderRegistry \<Rightarrow> ProviderRegistry" where
  "Register name provider status r =
     r\<lparr>rg_providers := AList.update name provider (rg_providers r),
       rg_metadata := AList.update name (status\<lparr>st_Name := name, st_Status := ''active'', st_Error := []\<rparr>) (rg_metadata r)\<rparr>"

definition RegisterStatus :: "string \<Rightarrow> ProviderStatus \<Rightarrow> ProviderRegistry \<Rightarrow> ProviderRegistry" where
  "RegisterStatus name status r =
     r\<lparr>rg_providers := AList.delete name (rg_providers r),
       rg_metadata := AList.update name
         (status\<lparr>st_Name := name, st_Status := (if st_Status status = [] then ''disabled'' else st_Status status)\<rparr>)
         (rg_metadata r)\<rparr>"

definition Registry_Get :: "ProviderRegistry \<Rightarrow> string \<Rightarrow> err + PaymentProvider" where
  "Registry_Get r name =
     (case map_of (rg_providers r) name of
        Some provider \<Rightarrow> Inr provider
      | None \<Rightarrow> Inl (Wrapped (error_text ErrProviderNotFound @ '': '' @ go_quote name) ErrProviderNotFound))"

text \<open>The names, in some order.\<close>

definition Registry_List :: "ProviderRegistry \<Rightarrow> string list" where
  "Registry_List r = List.map fst (rg_providers r)"

definition Registry_Status :: "ProviderRegistry \<Rightarrow> (string \<times> ProviderStatus) list" where
  "Registry_Status r = rg_metadata r"

definition HasProvider :: "ProviderRegistry \<Rightarrow> string \<Rightarrow> bool" where
  "HasProvider r name \<longleftrightarrow> map_of (rg_providers r) name \<noteq> None"

definition Registry_Remove :: "string \<Rightarrow> ProviderRegistry \<Rightarrow> ProviderRegistry" where
  "Registry_Remove name r =
     r\<lparr>rg_providers := AList.delete name (rg_providers r), rg_metadata := AList.delete name (rg_metadata r)\<rparr>"

section \<open>The payment service\<close>

definition GetProvider :: "ProviderRegistry \<Rightarrow> string \<Rightarrow> PaymentProvider service" where
  "GetProvider r name = of_sum (Registry_Get r name)"

definition Payment_CreateCheckoutSession ::
  "ProviderRegistry \<Rightarrow> string \<Rightarrow> CheckoutRequest \<Rightarrow> CheckoutSession service" where
  "Payment_CreateCheckoutSession r name req =
     andThen (GetProvider r name) (\<lambda>p.
     case pp_CreateCheckoutSession p of
       Some create \<Rightarrow> create req
     | None \<Rightarrow>
         andThen (pp_CreatePaymentURL p (ck_OutTradeNo req) (ck_Amount req) (ck_Description req)) (\<lambda>url.
         ret \<lparr>ss_CheckoutURL = url, ss_ProviderCheckoutID = ck_OutTradeNo req, ss_ProviderCustomerID = [],
              ss_Status = ''checkout_created''\<rparr>))"

definition Payment_CancelSubscription ::
  "ProviderRegistry \<Rightarrow> string \<Rightarrow> SubscriptionControlRequest \<Rightarrow> SubscriptionControlResult service" where
  "Payment_CancelSubscription r name req =
     andThen (GetProvider r name) (\<lambda>p.
     case pp_SubscriptionControl p of
       None \<Rightarrow> fail ErrSubscriptionControlUnsupported
     | Some (cancel, resume) \<Rightarrow> cancel req)"

definition Payment_ResumeSubscription ::
  "ProviderRegistry \<Rightarrow> string \<Rightarrow> SubscriptionControlRequest \<Rightarrow> SubscriptionControlResult service" where
  "Payment_ResumeSubscription r name req =
     andThen (GetProvider r name) (\<lambda>p.
     case pp_SubscriptionControl p of
       None \<Rightarrow> fail ErrSubscriptionControlUnsupported
     | Some (cancel, resume) \<Rightarrow> resume req)"

text \<open>The parameters with trimmed keys and values, and their encoding.\<close>

definition put_param :: "string \<times> string \<Rightarrow> string_map \<Rightarrow> string_map" where
  "put_param kv m =
     (if trim_space (fst kv) = [] then m else map_put (trim_space (fst kv)) (trim_space (snd kv)) m)"

definition encodeWebhookParams :: "string_map \<Rightarrow> string" where
  "encodeWebhookParams params = values_encode (fold put_param params [])"

definition legacy_event ::
  "WebhookVerificationRequest \<Rightarrow> string \<Rightarrow> string \<Rightarrow> int \<Rightarrow> VerifiedWebhookEvent" where
  "legacy_event req outTradeNo providerTradeNo amount =
     (let param = map_value (wr_Params req); eventType = trim_space (param ''event_type'');
          raw = wr_RawPayload req
      in \<lparr>ve_ProviderEventID = firstNonEmptyString [param ''provider_event_id'', param ''event_id'',
             param ''transaction_id'', param ''trade_no'', providerTradeNo, outTradeNo],
          ve_EventType = (if eventType = [] then EventTypePaid else eventType),
          ve_OutTradeNo = outTradeNo, ve_ProviderTradeNo = providerTradeNo, ve_Amount = amount,
          ve_Currency = trim_space (param ''currency''), ve_PeriodStartAt = None, ve_PeriodEndAt = None,
          ve_SignatureVerified = True,
          ve_RawPayload = (if trim_space raw = [] then encodeWebhookParams (wr_Params req) else raw)\<rparr>)"

definition Payment_VerifyWebhookEvent ::
  "ProviderRegistry \<Rightarrow> string \<Rightarrow> WebhookVerificationRequest \<Rightarrow> VerifiedWebhookEvent service" where
  "Payment_VerifyWebhookEvent r name req =
     andThen (GetProvider r name) (\<lambda>p.
     case pp_VerifyWebhookEvent p of
       Some verify \<Rightarrow> verify req
     | None \<Rightarrow>
         andThen (pp_VerifyCallback p (wr_Params req)) (\<lambda>(outTradeNo, providerTradeNo, amount).
         ret (legacy_event req outTradeNo providerTradeNo amount)))"

definition CreatePayment :: "ProviderRegistry \<Rightarrow> string \<Rightarrow> string \<Rightarrow> string service" where
  "CreatePayment r outTradeNo name =
     andThen (wrap_err (''order '' @ go_quote outTradeNo @ '' not found'') (OrderRepo_GetByOutTradeNo outTradeNo)) (\<lambda>x.
     andThen (reject_if (or_Status x \<noteq> OrderStatusPending)
       (Errorf (''order '' @ go_quote outTradeNo @ '' is already '' @ or_Status x))) (\<lambda>_.
     andThen (GetProvider r name) (\<lambda>p.
     andThen (wrap_err ''update order provider'' (OrderRepo_Update (x\<lparr>or_Provider := name\<rparr>))) (\<lambda>_.
     pp_CreatePaymentURL p outTradeNo (or_Amount x) (''walnut License ('' @ or_LicenseKey x @ '')'')))))"

section \<open>Legacy callbacks\<close>

text \<open>A paid renewal extends the license from its end when that is ahead, from now otherwise.\<close>

definition renewed_license :: "License \<Rightarrow> instant \<Rightarrow> License" where
  "renewed_license lic now =
     (let base = (case li_ExpiresAt lic of Some t \<Rightarrow> if now < t then t else now | None \<Rightarrow> now)
      in lic\<lparr>li_ExpiresAt :=
             (if li_Validity lic = ''monthly'' then Some (add_date 0 1 0 base)
              else if li_Validity lic = ''yearly'' then Some (add_date 1 0 0 base)
              else li_ExpiresAt lic),
             li_Status := ''active''\<rparr>)"

text \<open>The license of a paid order; its storage errors are only logged.  The log line of a renewal reads the end.\<close>

definition settle_license :: "Order \<Rightarrow> instant \<Rightarrow> unit service" where
  "settle_license x now =
     (if or_LicenseKey x = [] then ret ()
      else andThen (attempt (LicenseRepo_GetByKey (or_LicenseKey x))) (\<lambda>r.
        case r of
          Inl e \<Rightarrow> ret ()
        | Inr lic \<Rightarrow>
            if or_OrderType x = OrderTypeRenewal
            then let lic' = renewed_license lic now
                 in if li_ExpiresAt lic' = None then fail (Errorf ''panic: nil pointer dereference'')
                    else andThen (attempt (LicenseRepo_Update lic')) (\<lambda>_. ret ())
            else andThen (attempt (LicenseRepo_Update (lic\<lparr>li_Status := ''active''\<rparr>))) (\<lambda>_. ret ())))"

definition response :: "string \<times> string \<Rightarrow> int \<Rightarrow> string \<times> string \<times> int" where
  "response r code = (fst r, snd r, code)"

definition mark_paid :: "PaymentProvider \<Rightarrow> Order \<Rightarrow> string \<Rightarrow> (string \<times> string \<times> int) service" where
  "mark_paid p x0 providerTradeNo =
     andThen time_now (\<lambda>now.
     let x = x0\<lparr>or_Status := OrderStatusPaid, or_TradeNo := providerTradeNo, or_PaidAt := Some now\<rparr>
     in andThen (attempt (OrderRepo_Update x)) (\<lambda>r.
        case r of
          Inl e \<Rightarrow> ret (response (pp_BuildFailureResponse p) 500)
        | Inr _ \<Rightarrow>
            andThen (settle_license x now) (\<lambda>_. ret (response (pp_BuildSuccessResponse p) 200))))"

text \<open>A panic is a value of its own kind, which no error handling of the code sees.\<close>

definition is_panic :: "err \<Rightarrow> bool" where
  "is_panic e \<longleftrightarrow> (case e of Errorf t \<Rightarrow> has_prefix t ''panic: '' | _ \<Rightarrow> False)"

definition HandleCallback :: "ProviderRegistry \<Rightarrow> string \<Rightarrow> string_map \<Rightarrow> (string \<times> string \<times> int) service" where
  "HandleCallback r name params =
     (case Registry_Get r name of
        Inl e \<Rightarrow> ret (''text/plain'', ''bad request'', 400)
      | Inr p \<Rightarrow>
          andThen (attempt (pp_VerifyCallback p params)) (\<lambda>v.
          case v of
            Inl e \<Rightarrow> if is_panic e then fail e else ret (response (pp_BuildFailureResponse p) 400)
          | Inr (outTradeNo, providerTradeNo, amount) \<Rightarrow>
              andThen (attempt (OrderRepo_GetByOutTradeNo outTradeNo)) (\<lambda>found.
              case found of
                Inl e \<Rightarrow> ret (response (pp_BuildFailureResponse p) 400)
              | Inr x \<Rightarrow>
                  if or_Status x = OrderStatusPaid then ret (response (pp_BuildSuccessResponse p) 200)
                  else mark_paid p x providerTradeNo)))"

section \<open>Mock providers\<close>

definition defaultCheckoutMockBaseURL :: string where
  "defaultCheckoutMockBaseURL = ''https://mock.checkout.walnut.local''"

record CheckoutMockAdapter =
  mk_NotifyURL :: string
  mk_BaseURL :: string

definition NewCheckoutMockAdapterWithBaseURL :: "string \<Rightarrow> string \<Rightarrow> CheckoutMockAdapter" where
  "NewCheckoutMockAdapterWithBaseURL notifyURL baseURL =
     \<lparr>mk_NotifyURL = trim_space notifyURL,
      mk_BaseURL = trim_right (CHR ''/'') (defaultString (trim_space baseURL) defaultCheckoutMockBaseURL)\<rparr>"

definition defaultMockCustomer :: "string \<Rightarrow> string" where
  "defaultMockCustomer userID = defaultString (trim_space userID) ''anonymous''"

definition mock_query :: "CheckoutRequest \<Rightarrow> string_map" where
  "mock_query req =
     fold (\<lambda>(k, v) m. if trim_space v = [] then m else map_put k (trim_space v) m)
       [(''success_url'', ck_SuccessURL req), (''cancel_url'', ck_CancelURL req), (''sku_code'', ck_SKUCode req),
        (''user_id'', ck_UserID req)] []"

definition checkoutURL :: "CheckoutMockAdapter \<Rightarrow> CheckoutRequest \<Rightarrow> string" where
  "checkoutURL m req =
     (let base = defaultString (trim_right (CHR ''/'') (mk_BaseURL m)) defaultCheckoutMockBaseURL;
          url = base @ ''/checkout/'' @ path_escape (trim_space (ck_OutTradeNo req));
          encoded = values_encode (mock_query req)
      in if encoded \<noteq> [] then url @ ''?'' @ encoded else url)"

definition Mock_CreateCheckoutSession :: "CheckoutMockAdapter \<Rightarrow> CheckoutRequest \<Rightarrow> CheckoutSession service" where
  "Mock_CreateCheckoutSession m req =
     (let outTradeNo = trim_space (ck_OutTradeNo req)
      in andThen (reject_if (outTradeNo = []) (Errorf ''out_trade_no is required'')) (\<lambda>_.
         ret \<lparr>ss_CheckoutURL = checkoutURL m req, ss_ProviderCheckoutID = ''mock_chk_'' @ outTradeNo,
              ss_ProviderCustomerID = ''mock_cus_'' @ defaultMockCustomer (ck_UserID req),
              ss_Status = ''checkout_created''\<rparr>))"

definition mock_control :: "string \<Rightarrow> string \<Rightarrow> bool \<Rightarrow> SubscriptionControlRequest \<Rightarrow> SubscriptionControlResult service" where
  "mock_control status raw cancel req =
     (let subscriptionID = trim_space (cq_ProviderSubscriptionID req)
      in andThen (reject_if (subscriptionID = []) ErrSubscriptionControlInvalidRequest) (\<lambda>_.
         andThen time_now (\<lambda>now.
         ret \<lparr>ro_ProviderSubscriptionID = subscriptionID, ro_Status = status, ro_RawStatus = raw,
              ro_CancelAtPeriodEnd = cancel, ro_CurrentPeriodStartAt = None,
              ro_CurrentPeriodEndsAt = Some (add_date 0 1 0 now)\<rparr>)))"

definition Mock_CancelSubscription :: "SubscriptionControlRequest \<Rightarrow> SubscriptionControlResult service" where
  "Mock_CancelSubscription = mock_control ''cancel_at_period_end'' ''scheduled_cancel'' True"

definition Mock_ResumeSubscription :: "SubscriptionControlRequest \<Rightarrow> SubscriptionControlResult service" where
  "Mock_ResumeSubscription = mock_control ''active'' ''active'' False"

definition missing_out_trade_no :: err where
  "missing_out_trade_no = Errorf ''missing out_trade_no in callback''"

definition Mock_VerifyCallback :: "string_map \<Rightarrow> (string \<times> string \<times> int) service" where
  "Mock_VerifyCallback params =
     (let outTradeNo = map_value params ''out_trade_no'';
          tradeNo = defaultString (map_value params ''transaction_id'') (map_value params ''trade_no'')
      in andThen (reject_if (outTradeNo = []) missing_out_trade_no) (\<lambda>_.
         ret (outTradeNo, defaultString tradeNo (''mock_trade_'' @ outTradeNo), 0)))"

definition json_response :: "string \<Rightarrow> string \<times> string" where
  "json_response status =
     (''application/json'', ''{'' @ json_string ''status'' @ '':'' @ json_string status @ ''}'')"

definition checkout_mock :: "CheckoutMockAdapter \<Rightarrow> PaymentProvider" where
  "checkout_mock m =
     \<lparr>pp_Name = ''mock'',
      pp_CreatePaymentURL = (\<lambda>outTradeNo amount description.
        ret (trim_right (CHR ''/'') (mk_BaseURL m) @ ''/pay/'' @ path_escape outTradeNo)),
      pp_VerifyCallback = Mock_VerifyCallback,
      pp_BuildSuccessResponse = json_response ''ok'', pp_BuildFailureResponse = json_response ''fail'',
      pp_CreateCheckoutSession = Some (Mock_CreateCheckoutSession m),
      pp_SubscriptionControl = Some (Mock_CancelSubscription, Mock_ResumeSubscription),
      pp_VerifyWebhookEvent = None\<rparr>"

definition Alipay_mock_VerifyCallback :: "string_map \<Rightarrow> (string \<times> string \<times> int) service" where
  "Alipay_mock_VerifyCallback params =
     (let outTradeNo = map_value params ''out_trade_no''
      in andThen (reject_if (outTradeNo = []) missing_out_trade_no) (\<lambda>_.
         ret (outTradeNo, map_value params ''trade_no'', 0)))"

definition alipay_mock :: PaymentProvider where
  "alipay_mock =
     \<lparr>pp_Name = ''alipay'',
      pp_CreatePaymentURL = (\<lambda>outTradeNo amount description. ret (''https://qr.alipay.com/'' @ outTradeNo)),
      pp_VerifyCallback = Alipay_mock_VerifyCallback,
      pp_BuildSuccessResponse = (''text/plain'', ''success''), pp_BuildFailureResponse = (''text/plain'', ''fail''),
      pp_CreateCheckoutSession = None, pp_SubscriptionControl = None, pp_VerifyWebhookEvent = None\<rparr>"

definition Wechat_mock_VerifyCallback :: "string_map \<Rightarrow> (string \<times> string \<times> int) service" where
  "Wechat_mock_VerifyCallback params =
     (let outTradeNo = map_value params ''out_trade_no''
      in andThen (reject_if (outTradeNo = []) missing_out_trade_no) (\<lambda>_.
         ret (outTradeNo, map_value params ''transaction_id'', 0)))"

text \<open>The messages are UTF-8 texts.\<close>

definition wechat_response :: "string \<Rightarrow> string \<Rightarrow> string \<times> string" where
  "wechat_response code message =
     (''application/json'',
      ''{'' @ json_string ''code'' @ '':'' @ json_string code @ '','' @ json_string ''message'' @ '':''
        @ [quote] @ message @ [quote] @ ''}'')"

definition wechat_success :: "string \<times> string" where
  "wechat_success = wechat_response ''SUCCESS'' [CHR 0xE6, CHR 0x88, CHR 0x90, CHR 0xE5, CHR 0x8A, CHR 0x9F]"

definition wechat_failure :: "string \<times> string" where
  "wechat_failure = wechat_response ''FAIL'' [CHR 0xE5, CHR 0xA4, CHR 0xB1, CHR 0xE8, CHR 0xB4, CHR 0xA5]"

definition wechat_mock :: PaymentProvider where
  "wechat_mock =
     \<lparr>pp_Name = ''wechat'',
      pp_CreatePaymentURL = (\<lambda>outTradeNo amount description. ret (''weixin://wxpay/bizpayurl?sr='' @ outTradeNo)),
      pp_VerifyCallback = Wechat_mock_VerifyCallback,
      pp_BuildSuccessResponse = wechat_success, pp_BuildFailureResponse = wechat_failure,
      pp_CreateCheckoutSession = None, pp_SubscriptionControl = None, pp_VerifyWebhookEvent = None\<rparr>"

end
