(* ===== verification/Creem.thy ===== *)
theory Creem
  imports Payment_Gateway Go_URL
begin

text \<open>
  The adapter of the payment provider Creem: internal/payment/creem.go.  It creates hosted
  checkouts, controls hosted subscriptions and turns signed webhooks into the events of the inbox.
  The HTTP client and the keyed hash are parameters of the adapter.  A missing member of a JSON
  object reads as null; the text of a decoding error is not modelled.
\<close>

abbreviation creemDefaultProdBaseURL :: string where "creemDefaultProdBaseURL \<equiv> ''https://api.creem.io''"
abbreviation creemDefaultTestBaseURL :: string where "creemDefaultTestBaseURL \<equiv> ''https://test-api.creem.io''"

abbreviation ErrCreemInvalidConfig :: err where "ErrCreemInvalidConfig \<equiv> Sentinel ''invalid creem config''"
abbreviation ErrCreemProductNotMapped :: err where "ErrCreemProductNotMapped \<equiv> Sentinel ''creem product not mapped''"
abbreviation ErrCreemEnvironmentMismatch :: err where "ErrCreemEnvironmentMismatch \<equiv> Sentinel ''creem environment mismatch''"
abbreviation ErrCreemWebhookUnverified :: err where
  "ErrCreemWebhookUnverified \<equiv> Sentinel ''creem webhook signature verification failed''"
abbreviation ErrCreemInvalidWebhook :: err where "ErrCreemInvalidWebhook \<equiv> Sentinel ''invalid creem webhook''"
abbreviation ErrCreemCheckoutUnsupported :: err where
  "ErrCreemCheckoutUnsupported \<equiv> Sentinel ''creem legacy payment URL is unsupported; use checkout sessions''"

definition wrapped :: "err \<Rightarrow> string \<Rightarrow> err" where
  "wrapped e text = Wrapped (error_text e @ '': '' @ text) e"

definition both :: "err \<Rightarrow> err \<Rightarrow> err" where
  "both a b = Joined (error_text a @ '': '' @ error_text b) a b"

section \<open>Configuration\<close>

record http_request =
  hr_Method :: string
  hr_URL :: string
  hr_Headers :: "(string \<times> string) list"
  hr_Body :: string

text \<open>A response: its status code and body.\<close>

type_synonym http_client = "http_request \<Rightarrow> (int \<times> string) service"

record CreemConfig =
  cg_APIKey :: string
  cg_WebhookSecret :: string
  cg_APIBaseURL :: string
  cg_SuccessURL :: string
  cg_CancelURL :: string
  cg_SandboxMode :: bool
  cg_ProductIDs :: string_map
  cg_ProductMapJSON :: string
  cg_RequiredSKUCodes :: "string list"

record CreemAdapter =
  cz_apiKey :: string
  cz_webhookSecret :: string
  cz_apiBaseURL :: string
  cz_successURL :: string
  cz_cancelURL :: string
  cz_sandboxMode :: bool
  cz_productIDs :: string_map
  cz_httpClient :: http_client
  cz_mac :: "string \<Rightarrow> string \<Rightarrow> string"

definition put_product :: "string \<times> string \<Rightarrow> string_map \<Rightarrow> string_map" where
  "put_product kv m =
     (let sku = trim_space (fst kv); productID = trim_space (snd kv)
      in if sku \<noteq> [] \<and> productID \<noteq> [] then map_put sku productID m else m)"

text \<open>The wrapped form: an object with the map under the name of products.\<close>

definition wrapped_products :: "string \<Rightarrow> string_map option" where
  "wrapped_products raw =
     (case struct_members raw of
        None \<Rightarrow> None
      | Some ms \<Rightarrow>
          (case object_field ''products'' ms of (ok, products) \<Rightarrow>
             (case decode_members products (True, []) of (ok2, m) \<Rightarrow> if ok \<and> ok2 then Some m else None)))"

definition product_row :: "json \<Rightarrow> (string \<times> string) option" where
  "product_row v =
     (case v of
        JNull \<Rightarrow> Some ([], [])
      | JObj ms \<Rightarrow>
          (case (string_field ''sku_code'' ms, string_field ''product_id'' ms) of
             ((ok, sku), (ok2, productID)) \<Rightarrow> if ok \<and> ok2 then Some (sku, productID) else None)
      | _ \<Rightarrow> None)"

fun all_some :: "'a option list \<Rightarrow> 'a list option" where
  "all_some [] = Some []"
| "all_some (None # xs) = None"
| "all_some (Some x # xs) = map_option (Cons x) (all_some xs)"

definition product_rows :: "string \<Rightarrow> (string \<times> string) list option" where
  "product_rows raw =
     (case parse_json raw of
        Some JNull \<Rightarrow> Some [] | Some (JArr vs) \<Rightarrow> all_some (List.map product_row vs) | _ \<Rightarrow> None)"

definition creemProductMap :: "string_map \<Rightarrow> string \<Rightarrow> err + string_map" where
  "creemProductMap rawMap rawJSON0 =
     (let result = fold put_product rawMap []; rawJSON = trim_space rawJSON0
      in if rawJSON = [] then Inr result
         else case unmarshal_string_map rawJSON of
           (True, m) \<Rightarrow> Inr (fold put_product (case m of None \<Rightarrow> [] | Some xs \<Rightarrow> xs) result)
         | (False, _) \<Rightarrow>
             (case wrapped_products rawJSON of
                Some (x # xs) \<Rightarrow> Inr (fold put_product (x # xs) result)
              | _ \<Rightarrow>
                  (case product_rows rawJSON of
                     None \<Rightarrow> Inl (wrapped ErrCreemInvalidConfig ''product map json'')
                   | Some rows \<Rightarrow> Inr (fold put_product rows result))))"

fun missing_products :: "string_map \<Rightarrow> string list \<Rightarrow> string list \<Rightarrow> string list" where
  "missing_products products seen [] = []"
| "missing_products products seen (s # ss) =
     (let sku = trim_space s
      in if sku = [] \<or> sku \<in> set seen then missing_products products seen ss
         else (if trim_space (map_value products sku) = [] then [sku] else []) @ missing_products products (sku # seen) ss)"

definition validateCreemRequiredProducts :: "string_map \<Rightarrow> string list \<Rightarrow> err option" where
  "validateCreemRequiredProducts products required =
     (let missing = missing_products products [] required
      in if missing = [] then None
         else Some (wrapped ErrCreemProductNotMapped
           (''missing product mapping for sku(s): '' @ join_with '','' missing)))"

definition normalizeCreemAPIBaseURL :: "string \<Rightarrow> bool \<Rightarrow> string" where
  "normalizeCreemAPIBaseURL baseURL0 sandbox =
     (let baseURL = trim_space baseURL0
      in if baseURL = [] then (if sandbox then creemDefaultTestBaseURL else creemDefaultProdBaseURL)
         else trim_right (CHR ''/'') (trim_suffix baseURL ''/v1''))"

definition validateCreemEnvironment :: "string \<Rightarrow> string \<Rightarrow> bool \<Rightarrow> err option" where
  "validateCreemEnvironment apiBaseURL apiKey sandbox =
     (let base = to_lower (trim_space apiBaseURL); key = to_lower (trim_space apiKey)
      in if sandbox \<and> contains_text base ''api.creem.io'' \<and> \<not> contains_text base ''test-api.creem.io''
         then Some (wrapped ErrCreemEnvironmentMismatch (''sandbox mode requires '' @ creemDefaultTestBaseURL))
         else if \<not> sandbox \<and> contains_text base ''test-api.creem.io''
         then Some (wrapped ErrCreemEnvironmentMismatch (''production mode requires '' @ creemDefaultProdBaseURL))
         else if sandbox \<and> has_prefix key ''creem_live''
         then Some (wrapped ErrCreemEnvironmentMismatch ''live API key cannot be used in sandbox mode'')
         else if \<not> sandbox \<and> has_prefix key ''creem_test''
         then Some (wrapped ErrCreemEnvironmentMismatch ''test API key cannot be used in production mode'')
         else None)"

definition NewCreemAdapter ::
  "http_client \<Rightarrow> (string \<Rightarrow> string \<Rightarrow> string) \<Rightarrow> CreemConfig \<Rightarrow> err + CreemAdapter" where
  "NewCreemAdapter http mac c =
     (case creemProductMap (cg_ProductIDs c) (cg_ProductMapJSON c) of
        Inl e \<Rightarrow> Inl e
      | Inr products \<Rightarrow>
          (let apiKey = trim_space (cg_APIKey c); webhookSecret = trim_space (cg_WebhookSecret c);
               apiBaseURL = normalizeCreemAPIBaseURL (cg_APIBaseURL c) (cg_SandboxMode c)
           in if apiKey = [] \<or> webhookSecret = [] \<or> products = [] then Inl ErrCreemInvalidConfig
              else case validateCreemRequiredProducts products (cg_RequiredSKUCodes c) of
                Some e \<Rightarrow> Inl e
              | None \<Rightarrow>
                  (case validateCreemEnvironment apiBaseURL apiKey (cg_SandboxMode c) of
                     Some e \<Rightarrow> Inl e
                   | None \<Rightarrow> Inr \<lparr>cz_apiKey = apiKey, cz_webhookSecret = webhookSecret, cz_apiBaseURL = apiBaseURL,
                       cz_successURL = trim_space (cg_SuccessURL c), cz_cancelURL = trim_space (cg_CancelURL c),
                       cz_sandboxMode = cg_SandboxMode c, cz_productIDs = products, cz_httpClient = http,
                       cz_mac = mac\<rparr>)))"

section \<open>Checkouts\<close>

text \<open>An object from the members that are there.\<close>

definition raw_object :: "(string \<times> string) list \<Rightarrow> string" where
  "raw_object ms = ''{'' @ join_with '','' (List.map (\<lambda>(k, v). json_string k @ '':'' @ v) ms) @ ''}''"

definition omit_empty :: "string \<Rightarrow> string \<Rightarrow> (string \<times> string) list" where
  "omit_empty k v = (if v = [] then [] else [(k, json_string v)])"

definition creemCheckoutMetadata :: "CheckoutRequest \<Rightarrow> string \<Rightarrow> string_map" where
  "creemCheckoutMetadata req defaultCancelURL =
     (let clean = fold (\<lambda>(k, v) m. if trim_space k = [] then m else map_put (trim_space k) (trim_space v) m)
            (ck_Metadata req) [];
          named = fold (\<lambda>(k, v). map_put k v)
            [(''walnut_out_trade_no'', trim_space (ck_OutTradeNo req)), (''walnut_user_id'', trim_space (ck_UserID req)),
             (''walnut_sku_code'', trim_space (ck_SKUCode req)),
             (''walnut_idempotency_key'', trim_space (ck_IdempotencyKey req)), (''walnut_provider'', ''creem'')] clean;
          cancelURL = firstNonEmptyString [ck_CancelURL req, defaultCancelURL];
          all = (if cancelURL \<noteq> [] then map_put ''walnut_cancel_url'' cancelURL named else named)
      in List.filter (\<lambda>(k, v). trim_space v \<noteq> []) all)"

definition creem_checkout_body :: "CreemAdapter \<Rightarrow> CheckoutRequest \<Rightarrow> string \<Rightarrow> string" where
  "creem_checkout_body c req productID =
     (let email = trim_space (ck_CustomerEmail req); name = trim_space (ck_CustomerName req);
          metadata = creemCheckoutMetadata req (cz_cancelURL c)
      in raw_object ([(''product_id'', json_string productID)]
         @ omit_empty ''request_id'' (trim_space (ck_OutTradeNo req))
         @ omit_empty ''success_url'' (firstNonEmptyString [ck_SuccessURL req, cz_successURL c])
         @ (if email \<noteq> [] \<or> name \<noteq> []
            then [(''customer'', raw_object (omit_empty ''email'' email @ omit_empty ''name'' name))] else [])
         @ (if metadata \<noteq> [] then [(''metadata'', marshal_string_map metadata)] else [])))"

text \<open>A request: the URL has to parse; a status out of the 200s is an error.\<close>

definition creem_call :: "CreemAdapter \<Rightarrow> string \<Rightarrow> http_request \<Rightarrow> string service" where
  "creem_call c what req =
     andThen (reject_if (url_parse (hr_URL req) = None) (Errorf (''parse '' @ hr_URL req))) (\<lambda>_.
     andThen (wrap_err (what @ '' request'') (cz_httpClient c req)) (\<lambda>(status, body).
     andThen (reject_if (status < 200 \<or> 300 \<le> status)
       (Errorf (what @ '' error: status='' @ string_of_int status @ '' body='' @ body))) (\<lambda>_. ret body)))"

definition creem_checkout_session :: "string \<Rightarrow> CheckoutSession service" where
  "creem_checkout_session body =
     (case struct_members body of
        None \<Rightarrow> fail (Errorf ''parse creem checkout response'')
      | Some ms \<Rightarrow>
          (case (string_field ''id'' ms, string_field ''checkout_url'' ms, string_field ''checkoutUrl'' ms,
                 string_field ''status'' ms, string_field ''customer_id'' ms, object_field ''customer'' ms) of
             ((ok1, i), (ok2, url), (ok3, camel), (ok4, status), (ok5, customerID), (ok6, customer)) \<Rightarrow>
               (case string_field ''id'' customer of (ok7, customer_id) \<Rightarrow>
                  (let checkoutURL = firstNonEmptyString [url, camel]
                   in andThen (reject_if (\<not> (ok1 \<and> ok2 \<and> ok3 \<and> ok4 \<and> ok5 \<and> ok6 \<and> ok7))
                        (Errorf ''parse creem checkout response'')) (\<lambda>_.
                      andThen (reject_if (i = [] \<or> checkoutURL = [])
                        (Errorf ''creem checkout response missing id or checkout_url'')) (\<lambda>_.
                      ret \<lparr>ss_CheckoutURL = checkoutURL, ss_ProviderCheckoutID = i,
                           ss_ProviderCustomerID = firstNonEmptyString [customerID, customer_id],
                           ss_Status = OrderStatusCheckoutCreated\<rparr>))))))"

definition Creem_CreateCheckoutSession :: "CreemAdapter \<Rightarrow> CheckoutRequest \<Rightarrow> CheckoutSession service" where
  "Creem_CreateCheckoutSession c req =
     (let productID = trim_space (map_value (cz_productIDs c) (trim_space (ck_SKUCode req)))
      in andThen (reject_if (trim_space (ck_OutTradeNo req) = [] \<or> trim_space (ck_SKUCode req) = [])
           ErrCreemInvalidConfig) (\<lambda>_.
         andThen (reject_if (productID = []) (wrapped ErrCreemProductNotMapped (ck_SKUCode req))) (\<lambda>_.
         andThen (creem_call c ''creem checkout''
           \<lparr>hr_Method = ''POST'', hr_URL = trim_right (CHR ''/'') (cz_apiBaseURL c) @ ''/v1/checkouts'',
            hr_Headers = [(''Content-Type'', ''application/json''), (''x-api-key'', cz_apiKey c)],
            hr_Body = creem_checkout_body c req productID\<rparr>) creem_checkout_session)))"

section \<open>Subscriptions\<close>

definition normalizeCreemSubscriptionControlStatus :: "string \<Rightarrow> string" where
  "normalizeCreemSubscriptionControlStatus status =
     (let s = trim_space status
      in if s = ''scheduled_cancel'' then ''cancel_at_period_end'' else if s = ''canceled'' then ''cancelled'' else s)"

definition parseCreemTime :: "string \<Rightarrow> instant option" where
  "parseCreemTime v = (let s = trim_space v in if s = [] then None else parse_rfc3339 s)"

definition creem_subscription_result :: "string \<Rightarrow> string \<Rightarrow> string \<Rightarrow> SubscriptionControlResult service" where
  "creem_subscription_result subscriptionID action body =
     (let bad = Errorf (''parse creem subscription '' @ action @ '' response'')
      in case struct_members body of
        None \<Rightarrow> fail bad
      | Some ms \<Rightarrow>
          (case (string_field ''id'' ms, string_field ''status'' ms, string_field ''current_period_start_date'' ms,
                 string_field ''current_period_end_date'' ms) of
             ((ok1, i), (ok2, status), (ok3, starts), (ok4, ends)) \<Rightarrow>
               (let providerID = firstNonEmptyString [i, subscriptionID]; raw = trim_space status
                in andThen (reject_if (\<not> (ok1 \<and> ok2 \<and> ok3 \<and> ok4)) bad) (\<lambda>_.
                   andThen (reject_if (providerID = [])
                     (Errorf (''creem subscription '' @ action @ '' response missing id''))) (\<lambda>_.
                   ret \<lparr>ro_ProviderSubscriptionID = providerID,
                        ro_Status = normalizeCreemSubscriptionControlStatus raw, ro_RawStatus = raw,
                        ro_CancelAtPeriodEnd = (raw = ''scheduled_cancel''),
                        ro_CurrentPeriodStartAt = parseCreemTime starts,
                        ro_CurrentPeriodEndsAt = parseCreemTime ends\<rparr>)))))"

definition doSubscriptionControl ::
  "CreemAdapter \<Rightarrow> string \<Rightarrow> string \<Rightarrow> string \<Rightarrow> string option \<Rightarrow> SubscriptionControlResult service" where
  "doSubscriptionControl c hmethod subscriptionID action body =
     andThen (creem_call c (''creem subscription '' @ action)
       \<lparr>hr_Method = hmethod,
        hr_URL = trim_right (CHR ''/'') (cz_apiBaseURL c) @ ''/v1/subscriptions/''
          @ path_escape (trim_space subscriptionID) @ ''/'' @ action,
        hr_Headers = (''x-api-key'', cz_apiKey c)
          # (if body \<noteq> None then [(''Content-Type'', ''application/json'')] else []),
        hr_Body = (case body of None \<Rightarrow> [] | Some b \<Rightarrow> b)\<rparr>)
       (creem_subscription_result subscriptionID action)"

definition Creem_CancelSubscription :: "CreemAdapter \<Rightarrow> SubscriptionControlRequest \<Rightarrow> SubscriptionControlResult service" where
  "Creem_CancelSubscription c req =
     (let subscriptionID = trim_space (cq_ProviderSubscriptionID req)
      in andThen (reject_if (subscriptionID = []) ErrSubscriptionControlInvalidRequest) (\<lambda>_.
         doSubscriptionControl c ''POST'' subscriptionID ''cancel''
           (Some (raw_object (omit_empty ''mode'' (if cq_CancelAtPeriodEnd req then ''scheduled'' else ''immediate'')
              @ omit_empty ''onExecute'' ''cancel'')))))"

definition Creem_ResumeSubscription :: "CreemAdapter \<Rightarrow> SubscriptionControlRequest \<Rightarrow> SubscriptionControlResult service" where
  "Creem_ResumeSubscription c req =
     (let subscriptionID = trim_space (cq_ProviderSubscriptionID req)
      in andThen (reject_if (subscriptionID = []) ErrSubscriptionControlInvalidRequest) (\<lambda>_.
         doSubscriptionControl c ''POST'' subscriptionID ''resume'' None))"

section \<open>Webhook payloads\<close>

text \<open>The value at a path of members; of equal names the last member stays.\<close>

fun json_at :: "json \<Rightarrow> string list \<Rightarrow> json option" where
  "json_at v [] = Some v"
| "json_at (JObj ms) (k # path) = json_at (case map_of (rev ms) k of None \<Rightarrow> JNull | Some x \<Rightarrow> x) path"
| "json_at v (k # path) = None"

definition stringAt :: "json \<Rightarrow> string list \<Rightarrow> string" where
  "stringAt v path =
     (case json_at v path of
        Some (JStr s) \<Rightarrow> trim_space s
      | Some (JNum s) \<Rightarrow> (let x = float_of_literal s
          in if x = of_int (int64_of_float x) then string_of_int (int64_of_float x) else format_f x)
      | _ \<Rightarrow> [])"

definition intAt :: "json \<Rightarrow> string list \<Rightarrow> int" where
  "intAt v path = (case json_at v path of Some (JNum s) \<Rightarrow> int64_of_float (float_of_literal s) | _ \<Rightarrow> 0)"

fun firstPositiveInt64 :: "int list \<Rightarrow> int" where
  "firstPositiveInt64 [] = 0"
| "firstPositiveInt64 (v # vs) = (if 0 < v then v else firstPositiveInt64 vs)"

definition creemOutTradeNo :: "json \<Rightarrow> string" where
  "creemOutTradeNo p =
     firstNonEmptyString (List.map (stringAt p)
       [[''object'', ''request_id''], [''object'', ''checkout'', ''request_id''],
        [''object'', ''metadata'', ''walnut_out_trade_no''], [''object'', ''checkout'', ''metadata'', ''walnut_out_trade_no''],
        [''object'', ''subscription'', ''metadata'', ''walnut_out_trade_no''],
        [''object'', ''dispute'', ''metadata'', ''walnut_out_trade_no''],
        [''object'', ''chargeback'', ''metadata'', ''walnut_out_trade_no''],
        [''object'', ''metadata'', ''request_id''], [''object'', ''metadata'', ''order_id'']])"

definition creemProviderTradeNo :: "json \<Rightarrow> string" where
  "creemProviderTradeNo p =
     firstNonEmptyString (List.map (stringAt p)
       [[''object'', ''order'', ''id''], [''object'', ''transaction'', ''id''], [''object'', ''dispute'', ''id''],
        [''object'', ''chargeback'', ''id''], [''object'', ''order''], [''object'', ''last_transaction_id''],
        [''object'', ''id'']])"

definition creemAmount :: "json \<Rightarrow> int" where
  "creemAmount p =
     firstPositiveInt64 (List.map (intAt p)
       [[''object'', ''order'', ''amount''], [''object'', ''transaction'', ''amount''], [''object'', ''refund_amount''],
        [''object'', ''dispute'', ''amount''], [''object'', ''chargeback'', ''amount''], [''object'', ''amount''],
        [''object'', ''product'', ''price'']])"

definition creemCurrency :: "json \<Rightarrow> string" where
  "creemCurrency p =
     firstNonEmptyString (List.map (stringAt p)
       [[''object'', ''order'', ''currency''], [''object'', ''transaction'', ''currency''],
        [''object'', ''refund_currency''], [''object'', ''dispute'', ''currency''],
        [''object'', ''chargeback'', ''currency''], [''object'', ''currency''], [''object'', ''product'', ''currency'']])"

text \<open>\<open>time.UnixMilli\<close> of a positive number.\<close>

definition creemUnixMillis :: "int \<Rightarrow> instant option" where
  "creemUnixMillis v = (if v \<le> 0 then None else Some (62135596800 * second_ns + v * 1000000))"

definition creemPeriodTime :: "json \<Rightarrow> string \<Rightarrow> string \<Rightarrow> instant option" where
  "creemPeriodTime p subscriptionField transactionField =
     (let direct = stringAt p [''object'', subscriptionField];
          nested = stringAt p [''object'', ''subscription'', subscriptionField];
          paid = intAt p [''object'', transactionField]; ordered = intAt p [''object'', ''order'', transactionField]
      in if direct \<noteq> [] then parseCreemTime direct
         else if nested \<noteq> [] then parseCreemTime nested
         else if 0 < paid then creemUnixMillis paid
         else if 0 < ordered then creemUnixMillis ordered
         else None)"

definition mapCreemEventType :: "string \<Rightarrow> json \<Rightarrow> string" where
  "mapCreemEventType eventType p =
     (let t = trim_space eventType; known = (creemOutTradeNo p \<noteq> [])
      in if t = ''checkout.completed'' then EventTypePaid
         else if t = ''refund.created'' \<and> known then EventTypeRefunded
         else if (t = ''dispute.created'' \<or> t = ''chargeback.created'') \<and> known then EventTypeDisputed
         else if t = ''subscription.paid'' \<and> known then EventTypeRenewalPaid
         else if t = ''subscription.past_due'' \<and> known then EventTypeRenewalFailed
         else if t = ''subscription.expired'' \<and> known then EventTypeSubscriptionExpired
         else if (t = ''subscription.cancelled'' \<or> t = ''subscription.canceled'') \<and> known then EventTypeCancelled
         else t)"

section \<open>Webhooks\<close>

definition verifyCreemSignature :: "(string \<Rightarrow> string \<Rightarrow> string) \<Rightarrow> string \<Rightarrow> string \<Rightarrow> string \<Rightarrow> bool" where
  "verifyCreemSignature mac payload secret signature =
     (case hex_decode (trim_space signature) of None \<Rightarrow> False | Some provided \<Rightarrow> mac secret payload = provided)"

definition headerValue :: "string_map \<Rightarrow> string \<Rightarrow> string" where
  "headerValue headers key =
     (case List.find (\<lambda>(k, v). to_lower (trim_space k) = to_lower (trim_space key)) headers of
        None \<Rightarrow> [] | Some (k, v) \<Rightarrow> trim_space v)"

text \<open>Numbers beyond the range of float64 make the decoding fail.\<close>

fun numbers_fit :: "json \<Rightarrow> bool" where
  "numbers_fit (JNum s) \<longleftrightarrow> \<not> float_overflow (float_of_literal s)"
| "numbers_fit (JArr vs) \<longleftrightarrow> list_all numbers_fit vs"
| "numbers_fit (JObj ms) \<longleftrightarrow> list_all (\<lambda>kv. numbers_fit (snd kv)) ms"
| "numbers_fit v \<longleftrightarrow> True"

definition decode_payload :: "string \<Rightarrow> json option" where
  "decode_payload raw =
     (case parse_json raw of
        Some (JObj ms) \<Rightarrow> if numbers_fit (JObj ms) then Some (JObj ms) else None
      | Some JNull \<Rightarrow> Some (JObj [])
      | _ \<Rightarrow> None)"

definition creem_event :: "json \<Rightarrow> string \<Rightarrow> VerifiedWebhookEvent" where
  "creem_event p raw =
     \<lparr>ve_ProviderEventID = stringAt p [''id''], ve_EventType = mapCreemEventType (stringAt p [''eventType'']) p,
      ve_OutTradeNo = creemOutTradeNo p, ve_ProviderTradeNo = creemProviderTradeNo p, ve_Amount = creemAmount p,
      ve_Currency = creemCurrency p,
      ve_PeriodStartAt = creemPeriodTime p ''current_period_start_date'' ''period_start'',
      ve_PeriodEndAt = creemPeriodTime p ''current_period_end_date'' ''period_end'',
      ve_SignatureVerified = True, ve_RawPayload = raw\<rparr>"

definition Creem_VerifyWebhookEvent :: "CreemAdapter \<Rightarrow> WebhookVerificationRequest \<Rightarrow> VerifiedWebhookEvent service" where
  "Creem_VerifyWebhookEvent c req =
     (let raw = wr_RawPayload req; signature = headerValue (wr_Headers req) ''creem-signature'';
          invalid = both ErrWebhookInvalidPayload ErrCreemInvalidWebhook
      in andThen (reject_if (trim_space (cz_webhookSecret c) = [] \<or> raw = []) invalid) (\<lambda>_.
         andThen (reject_if (signature = [] \<or> \<not> verifyCreemSignature (cz_mac c) raw (cz_webhookSecret c) signature)
           (both ErrWebhookSignatureVerificationFailed ErrCreemWebhookUnverified)) (\<lambda>_.
         case decode_payload raw of
           None \<Rightarrow> fail (both ErrWebhookInvalidPayload (wrapped ErrCreemInvalidWebhook ''json''))
         | Some p \<Rightarrow>
             andThen (reject_if (stringAt p [''id''] = [] \<or> stringAt p [''eventType''] = []) invalid) (\<lambda>_.
             ret (creem_event p raw)))))"

text \<open>The adapter as a provider.\<close>

definition creem_provider :: "CreemAdapter \<Rightarrow> PaymentProvider" where
  "creem_provider c =
     \<lparr>pp_Name = ''creem'', pp_CreatePaymentURL = (\<lambda>_ _ _. fail ErrCreemCheckoutUnsupported),
      pp_VerifyCallback = (\<lambda>_. fail ErrCreemCheckoutUnsupported),
      pp_BuildSuccessResponse = json_response ''ok'', pp_BuildFailureResponse = json_response ''fail'',
      pp_CreateCheckoutSession = Some (Creem_CreateCheckoutSession c),
      pp_SubscriptionControl = Some (Creem_CancelSubscription c, Creem_ResumeSubscription c),
      pp_VerifyWebhookEvent = Some (Creem_VerifyWebhookEvent c)\<rparr>"

end
