(* ===== verification/Go_Base64.thy ===== *)
theory Go_Base64
  imports Go_Values
begin

text \<open>
  encoding/base64: the standard and the URL alphabet, padded or not.  Line breaks are skipped, and
  the unused bits of the last character are not checked.
\<close>

definition b64_value :: "bool \<Rightarrow> char \<Rightarrow> nat option" where
  "b64_value url c =
     (let n = code_of c
      in if 65 \<le> n \<and> n \<le> 90 then Some (n - 65)
         else if 97 \<le> n \<and> n \<le> 122 then Some (n - 71)
         else if 48 \<le> n \<and> n \<le> 57 then Some (n + 4)
         else if c = (if url then CHR ''-'' else CHR ''+'') then Some 62
         else if c = (if url then CHR ''_'' else CHR ''/'') then Some 63
         else None)"

definition b64_char :: "bool \<Rightarrow> nat \<Rightarrow> char" where
  "b64_char url n =
     (if n < 26 then char_of (n + 65) else if n < 52 then char_of (n + 71) else if n < 62 then char_of (n - 4)
      else if n = 62 then (if url then CHR ''-'' else CHR ''+'') else (if url then CHR ''_'' else CHR ''/''))"

text \<open>The bytes of the first \<open>k\<close> of three that four digits hold.\<close>

definition b64_bytes :: "nat \<Rightarrow> nat \<Rightarrow> nat \<Rightarrow> nat \<Rightarrow> nat \<Rightarrow> string" where
  "b64_bytes k a b c d =
     take k [char_of (4 * a + b div 16), char_of (16 * (b mod 16) + c div 4), char_of (64 * (c mod 4) + d)]"

definition pad_char :: char where
  "pad_char = CHR ''=''"

fun b64_groups :: "bool \<Rightarrow> bool \<Rightarrow> string \<Rightarrow> string option" where
  "b64_groups url padded [] = Some []"
| "b64_groups url padded [a] = None"
| "b64_groups url padded [a, b] =
     (case (b64_value url a, b64_value url b) of
        (Some w, Some x) \<Rightarrow> if padded then None else Some (b64_bytes 1 w x 0 0)
      | _ \<Rightarrow> None)"
| "b64_groups url padded [a, b, c] =
     (case (b64_value url a, b64_value url b, b64_value url c) of
        (Some w, Some x, Some y) \<Rightarrow> if padded then None else Some (b64_bytes 2 w x y 0)
      | _ \<Rightarrow> None)"
| "b64_groups url padded (a # b # c # d # s) =
     (case (b64_value url a, b64_value url b) of
        (Some w, Some x) \<Rightarrow>
          if padded \<and> d = pad_char
          then (if s \<noteq> [] then None
                else if c = pad_char then Some (b64_bytes 1 w x 0 0)
                else map_option (\<lambda>y. b64_bytes 2 w x y 0) (b64_value url c))
          else (case (b64_value url c, b64_value url d) of
                  (Some y, Some z) \<Rightarrow> map_option (\<lambda>t. b64_bytes 3 w x y z @ t) (b64_groups url padded s)
                | _ \<Rightarrow> None)
      | _ \<Rightarrow> None)"

definition b64_decode :: "bool \<Rightarrow> bool \<Rightarrow> string \<Rightarrow> string option" where
  "b64_decode url padded s = b64_groups url padded (List.filter (\<lambda>c. code_of c \<noteq> 10 \<and> code_of c \<noteq> 13) s)"

fun b64_encode :: "string \<Rightarrow> string" where
  "b64_encode [] = []"
| "b64_encode [p] =
     (let x = code_of p
      in [b64_char False (x div 4), b64_char False (16 * (x mod 4)), pad_char, pad_char])"
| "b64_encode [p, q] =
     (let x = code_of p; y = code_of q
      in [b64_char False (x div 4), b64_char False (16 * (x mod 4) + y div 16), b64_char False (4 * (y mod 16)), pad_char])"
| "b64_encode (p # q # r # s) =
     (let x = code_of p; y = code_of q; z = code_of r
      in b64_char False (x div 4) # b64_char False (16 * (x mod 4) + y div 16)
         # b64_char False (4 * (y mod 16) + z div 64) # b64_char False (z mod 64) # b64_encode s)"

text \<open>The standard encoding with padding reads back.\<close>

lemma b64_value_char: "n < 64 \<Longrightarrow> b64_value False (b64_char False n) = Some n"
  by (auto simp: b64_value_def b64_char_def code_of_def Let_def)

lemma b64_char_code: "n < 64 \<Longrightarrow> code_of (b64_char False n) \<notin> {10, 13, 61}"
  by (auto simp: b64_char_def code_of_def)

lemma b64_char_plain:
  "n < 64 \<Longrightarrow> b64_char False n \<noteq> pad_char \<and> code_of (b64_char False n) \<noteq> 10 \<and> code_of (b64_char False n) \<noteq> 13"
  using b64_char_code [of n] by (auto simp: pad_char_def code_of_def)

lemma code_of_small: "code_of c < 256"
  by (simp add: code_of_def)

lemma code_of_parts:
  "code_of c div 4 < 64" "code_of c div 16 < 16" "code_of c div 64 < 4"
  using code_of_small [of c] by linarith+

lemma b64_encode_plain: "List.filter (\<lambda>c. code_of c \<noteq> 10 \<and> code_of c \<noteq> 13) (b64_encode s) = b64_encode s"
proof (induction s rule: b64_encode.induct)
  case (2 p)
  have "code_of p div 4 < 64" "16 * (code_of p mod 4) < 64" using code_of_parts by auto
  from this [THEN b64_char_plain] show ?case by (simp add: Let_def) (simp add: pad_char_def code_of_def)
next
  case (3 p q)
  have "code_of p div 4 < 64" "16 * (code_of p mod 4) + code_of q div 16 < 64" "4 * (code_of q mod 16) < 64"
    using code_of_parts(1) [of p] code_of_parts(2) [of q] by auto
  from this [THEN b64_char_plain] show ?case by (simp add: Let_def) (simp add: pad_char_def code_of_def)
next
  case (4 p q r s)
  have "code_of p div 4 < 64" "16 * (code_of p mod 4) + code_of q div 16 < 64"
    "4 * (code_of q mod 16) + code_of r div 64 < 64" "code_of r mod 64 < 64"
    using code_of_parts(1) [of p] code_of_parts(2) [of q] code_of_parts(3) [of r] by auto
  from this [THEN b64_char_plain] 4 show ?case by (simp add: Let_def)
qed simp

lemma char_of_code: "char_of (code_of c) = c"
  by (simp add: code_of_def)

lemma split_16: "b < 16 \<Longrightarrow> (16 * a + b) div 16 = a \<and> (16 * a + b) mod 16 = (b :: nat)"
  by simp

lemma split_4: "b < 4 \<Longrightarrow> (4 * a + b) div 4 = a \<and> (4 * a + b) mod 4 = (b :: nat)"
  by simp

lemma b64_groups_encode: "b64_groups False True (b64_encode s) = Some s"
proof (induction s rule: b64_encode.induct)
  case (2 p)
  have "code_of p div 4 < 64" "16 * (code_of p mod 4) < 64" using code_of_parts by auto
  then show ?case by (simp add: Let_def b64_value_char b64_bytes_def char_of_code)
next
  case (3 p q)
  have small: "code_of p div 4 < 64" "16 * (code_of p mod 4) + code_of q div 16 < 64" "4 * (code_of q mod 16) < 64"
    using code_of_parts(1) [of p] code_of_parts(2) [of q] by auto
  from small [THEN b64_char_plain] split_16 [OF code_of_parts(2) [of q], of "code_of p mod 4"] small show ?case
    by (simp add: Let_def b64_value_char b64_bytes_def char_of_code)
next
  case (4 p q r s)
  have small: "code_of p div 4 < 64" "16 * (code_of p mod 4) + code_of q div 16 < 64"
    "4 * (code_of q mod 16) + code_of r div 64 < 64" "code_of r mod 64 < 64"
    using code_of_parts(1) [of p] code_of_parts(2) [of q] code_of_parts(3) [of r] by auto
  from small [THEN b64_char_plain] split_16 [OF code_of_parts(2) [of q], of "code_of p mod 4"]
    split_4 [OF code_of_parts(3) [of r], of "code_of q mod 16"] small 4 show ?case
    by (simp add: Let_def b64_value_char b64_bytes_def char_of_code)
qed simp

theorem b64_decode_encode: "b64_decode False True (b64_encode s) = Some s"
  by (simp add: b64_decode_def b64_encode_plain b64_groups_encode)

end
