(* ===== verification/Process_Config.thy ===== *)
theory Process_Config
  imports Creem Go_Base64
begin

text \<open>
  The configuration of the process: internal/config/config.go and production_validation.go.  What
  viper reads from its defaults, files and variables is a parameter of \<open>Load\<close>; the overrides from
  the environment and the checks of a production configuration are the code's.
\<close>

section \<open>Data\<close>

record ServerConfig =
  se_Port :: string
  se_Env :: string

record DatabaseConfig =
  dx_Driver :: string
  dx_DSN :: string
  dx_MigrationMode :: string

record HTTPConfig =
  hp_CORSAllowedOrigins :: "string list"
  hp_SecurityHeadersEnabled :: bool
  hp_HSTSMaxAgeSeconds :: int

record PaymentConfig =
  pz_WechatMchID :: string
  pz_WechatSerialNo :: string
  pz_WechatPrivateKey :: string
  pz_WechatAPIv3Key :: string
  pz_WechatAppID :: string
  pz_WechatSandbox :: bool
  pz_AlipayAppID :: string
  pz_AlipayPrivateKey :: string
  pz_AlipayPublicKey :: string
  pz_AlipaySandbox :: bool
  pz_CreemAPIKey :: string
  pz_CreemWebhookSecret :: string
  pz_CreemAPIBaseURL :: string
  pz_CreemSuccessURL :: string
  pz_CreemCancelURL :: string
  pz_CreemProductMapJSON :: string
  pz_CreemSandbox :: bool
  pz_MockCheckoutBaseURL :: string

record CheckoutConfig =
  cx_RiskPolicyEnabled :: bool
  cx_RiskBlockSeverities :: "string list"
  cx_RedirectAllowlist :: "string list"

record AdjustmentConfig =
  aj_RefundWindowDays :: int
  aj_RefundInWindowAction :: string
  aj_RefundOutOfWindowAction :: string
  aj_LowUsagePolicyEnabled :: bool
  aj_LowUsageMaxCreditsUsed :: int
  aj_LowUsageAction :: string
  aj_HighUsageAction :: string
  aj_DisputeAction :: string
  aj_CancelAction :: string

record RenewalConfig =
  rx_GracePeriodDays :: int
  rx_ExpiredAction :: string

record AccessConfig =
  ax_SnapshotSignatureAlgorithm :: string
  ax_SnapshotSecret :: string
  ax_SnapshotPrivateKey :: string
  ax_SnapshotKeyID :: string
  ax_SnapshotTTLSeconds :: int
  ax_SnapshotOfflineGraceSeconds :: int
  ax_MaxDevices :: int
  ax_CloudStorageQuotaMB :: int
  ax_CloudStorageTrialQuotaMB :: int
  ax_CloudStorageMonthlyQuotaMB :: int
  ax_CloudStorageLifetimeQuotaMB :: int
  ax_TrialDurationDays :: int
  ax_LoginChallengeTTLSeconds :: int
  ax_LoginChallengeMaxAttempts :: int
  ax_LoginChallengeRateLimitWindowSeconds :: int
  ax_LoginChallengeMaxCreatesPerEmail :: int
  ax_LoginChallengeMaxCreatesPerIP :: int
  ax_LoginChallengeDelivery :: string
  ax_LoginChallengeSecret :: string

record CloudStorageConfig =
  cl_Provider :: string
  cl_EndpointURL :: string
  cl_Region :: string
  cl_Bucket :: string
  cl_AccessKeyID :: string
  cl_SecretAccessKey :: string
  cl_SessionToken :: string
  cl_ForcePathStyle :: bool
  cl_ObjectTagging :: bool
  cl_UploadTargetTTLSeconds :: int
  cl_DownloadTargetTTLSeconds :: int
  cl_OperationTTLSeconds :: int

record AdminPrincipalConfig =
  ap_Name :: string
  ap_Key :: string
  ap_Permissions :: "string list"

record AdminConfig =
  ad_APIKeys :: "string list"
  ad_Principals :: "AdminPrincipalConfig list"

record RateLimitConfig =
  rt_Enabled :: bool
  rt_MaxTokens :: rat
  rt_RefillRate :: rat

record Config =
  zc_Server :: ServerConfig
  zc_Database :: DatabaseConfig
  zc_HTTP :: HTTPConfig
  zc_Payment :: PaymentConfig
  zc_FulfillmentRulesJSON :: string
  zc_Checkout :: CheckoutConfig
  zc_Adjustment :: AdjustmentConfig
  zc_Renewal :: RenewalConfig
  zc_Access :: AccessConfig
  zc_CloudStorage :: CloudStorageConfig
  zc_Admin :: AdminConfig
  zc_RateLimit :: RateLimitConfig

abbreviation DatabaseMigrationModeVersioned :: string where "DatabaseMigrationModeVersioned \<equiv> ''versioned''"

section \<open>Overrides from the environment\<close>

definition splitAndTrim :: "string list \<Rightarrow> string list" where
  "splitAndTrim vs = List.filter (\<lambda>v. v \<noteq> []) (List.map trim_space vs)"

definition splitCSV :: "string \<Rightarrow> string list" where
  "splitCSV v = splitAndTrim (split_on (CHR '','') v)"

definition parseIntEnv :: "string \<Rightarrow> int \<Rightarrow> int" where
  "parseIntEnv v fallback = (case atoi (trim_space v) of None \<Rightarrow> fallback | Some n \<Rightarrow> n)"

text \<open>\<open>if val := os.Getenv(name); val != ""\<close> for the four kinds of settings; a boolean takes two texts only.\<close>

definition env_text :: "string \<Rightarrow> string \<Rightarrow> string" where
  "env_text v old = (if v = [] then old else v)"

definition env_list :: "string \<Rightarrow> string list \<Rightarrow> string list" where
  "env_list v old = (if v = [] then old else splitCSV v)"

definition env_bool :: "string \<Rightarrow> bool \<Rightarrow> bool" where
  "env_bool v old = (if v = ''true'' then True else if v = ''false'' then False else old)"

definition env_int :: "string \<Rightarrow> int \<Rightarrow> int" where
  "env_int v old = (if v = [] then old else parseIntEnv v old)"

text \<open>A null element is empty; a null list too.\<close>

definition text_element :: "json \<Rightarrow> string option" where
  "text_element v = (case v of JStr s \<Rightarrow> Some s | JNull \<Rightarrow> Some [] | _ \<Rightarrow> None)"

definition text_list :: "json \<Rightarrow> string list option" where
  "text_list v = (case v of JArr vs \<Rightarrow> all_some (List.map text_element vs) | JNull \<Rightarrow> Some [] | _ \<Rightarrow> None)"

definition text_list_field :: "string \<Rightarrow> (string \<times> json) list \<Rightarrow> string list option" where
  "text_list_field name ms =
     (case all_some (List.map text_list (field_members name ms)) of
        None \<Rightarrow> None | Some vs \<Rightarrow> Some (if vs = [] then [] else last vs))"

definition principal_row :: "json \<Rightarrow> AdminPrincipalConfig option" where
  "principal_row v =
     (case v of
        JNull \<Rightarrow> Some \<lparr>ap_Name = [], ap_Key = [], ap_Permissions = []\<rparr>
      | JObj ms \<Rightarrow>
          (case (string_field ''name'' ms, string_field ''key'' ms, text_list_field ''permissions'' ms) of
             ((ok1, name), (ok2, key), permissions) \<Rightarrow>
               if ok1 \<and> ok2 then map_option (\<lambda>ps. \<lparr>ap_Name = trim_space name, ap_Key = trim_space key,
                 ap_Permissions = splitAndTrim ps\<rparr>) permissions
               else None)
      | _ \<Rightarrow> None)"

definition parseAdminPrincipalsJSON :: "string \<Rightarrow> err + AdminPrincipalConfig list" where
  "parseAdminPrincipalsJSON v =
     (if trim_space v = [] then Inr []
      else case parse_json (trim_space v) of
        Some JNull \<Rightarrow> Inr []
      | Some (JArr vs) \<Rightarrow>
          (case all_some (List.map principal_row vs) of
             Some ps \<Rightarrow> Inr ps | None \<Rightarrow> Inl (Errorf ''parse ADMIN_PRINCIPALS_JSON''))
      | _ \<Rightarrow> Inl (Errorf ''parse ADMIN_PRINCIPALS_JSON''))"

type_synonym environment = "string \<Rightarrow> string"

definition env_http :: "environment \<Rightarrow> HTTPConfig \<Rightarrow> HTTPConfig" where
  "env_http env c =
     c\<lparr>hp_CORSAllowedOrigins := env_list (env ''HTTP_CORS_ALLOWED_ORIGINS'') (hp_CORSAllowedOrigins c),
       hp_SecurityHeadersEnabled := env_bool (env ''HTTP_SECURITY_HEADERS_ENABLED'') (hp_SecurityHeadersEnabled c),
       hp_HSTSMaxAgeSeconds := env_int (env ''HTTP_SECURITY_HEADERS_HSTS_MAX_AGE_SECONDS'') (hp_HSTSMaxAgeSeconds c)\<rparr>"

definition env_checkout :: "environment \<Rightarrow> CheckoutConfig \<Rightarrow> CheckoutConfig" where
  "env_checkout env c =
     c\<lparr>cx_RiskBlockSeverities := env_list (env ''CHECKOUT_RISK_BLOCK_SEVERITIES'') (cx_RiskBlockSeverities c),
       cx_RedirectAllowlist := env_list (env ''CHECKOUT_REDIRECT_ALLOWLIST'') (cx_RedirectAllowlist c),
       cx_RiskPolicyEnabled := env_bool (env ''CHECKOUT_RISK_POLICY_ENABLED'') (cx_RiskPolicyEnabled c)\<rparr>"

definition env_adjustment :: "environment \<Rightarrow> AdjustmentConfig \<Rightarrow> AdjustmentConfig" where
  "env_adjustment env c =
     c\<lparr>aj_LowUsagePolicyEnabled := env_bool (env ''ADJUSTMENT_LOW_USAGE_POLICY_ENABLED'') (aj_LowUsagePolicyEnabled c),
       aj_RefundWindowDays := env_int (env ''ADJUSTMENT_REFUND_WINDOW_DAYS'') (aj_RefundWindowDays c),
       aj_LowUsageMaxCreditsUsed := env_int (env ''ADJUSTMENT_LOW_USAGE_MAX_CREDITS_USED'') (aj_LowUsageMaxCreditsUsed c),
       aj_RefundInWindowAction := env_text (env ''ADJUSTMENT_REFUND_IN_WINDOW_ACTION'') (aj_RefundInWindowAction c),
       aj_RefundOutOfWindowAction := env_text (env ''ADJUSTMENT_REFUND_OUT_OF_WINDOW_ACTION'') (aj_RefundOutOfWindowAction c),
       aj_LowUsageAction := env_text (env ''ADJUSTMENT_LOW_USAGE_ACTION'') (aj_LowUsageAction c),
       aj_HighUsageAction := env_text (env ''ADJUSTMENT_HIGH_USAGE_ACTION'') (aj_HighUsageAction c),
       aj_DisputeAction := env_text (env ''ADJUSTMENT_DISPUTE_ACTION'') (aj_DisputeAction c),
       aj_CancelAction := env_text (env ''ADJUSTMENT_CANCEL_ACTION'') (aj_CancelAction c)\<rparr>"

definition env_renewal :: "environment \<Rightarrow> RenewalConfig \<Rightarrow> RenewalConfig" where
  "env_renewal env c =
     c\<lparr>rx_GracePeriodDays := env_int (env ''RENEWAL_GRACE_PERIOD_DAYS'') (rx_GracePeriodDays c),
       rx_ExpiredAction := env_text (env ''RENEWAL_EXPIRED_ACTION'') (rx_ExpiredAction c)\<rparr>"

definition env_access :: "environment \<Rightarrow> AccessConfig \<Rightarrow> AccessConfig" where
  "env_access env c =
     c\<lparr>ax_SnapshotSignatureAlgorithm := env_text (env ''ACCESS_SNAPSHOT_SIGNATURE_ALGORITHM'') (ax_SnapshotSignatureAlgorithm c),
       ax_SnapshotSecret := env_text (env ''ACCESS_SNAPSHOT_SECRET'') (ax_SnapshotSecret c),
       ax_SnapshotPrivateKey := env_text (env ''ACCESS_SNAPSHOT_PRIVATE_KEY'') (ax_SnapshotPrivateKey c),
       ax_SnapshotKeyID := env_text (env ''ACCESS_SNAPSHOT_KEY_ID'') (ax_SnapshotKeyID c),
       ax_SnapshotTTLSeconds := env_int (env ''ACCESS_SNAPSHOT_TTL_SECONDS'') (ax_SnapshotTTLSeconds c),
       ax_SnapshotOfflineGraceSeconds := env_int (env ''ACCESS_SNAPSHOT_OFFLINE_GRACE_SECONDS'') (ax_SnapshotOfflineGraceSeconds c),
       ax_MaxDevices := env_int (env ''ACCESS_MAX_DEVICES'') (ax_MaxDevices c),
       ax_CloudStorageQuotaMB := env_int (env ''ACCESS_CLOUD_STORAGE_QUOTA_MB'') (ax_CloudStorageQuotaMB c),
       ax_CloudStorageTrialQuotaMB := env_int (env ''ACCESS_CLOUD_STORAGE_TRIAL_QUOTA_MB'') (ax_CloudStorageTrialQuotaMB c),
       ax_CloudStorageMonthlyQuotaMB := env_int (env ''ACCESS_CLOUD_STORAGE_MONTHLY_QUOTA_MB'') (ax_CloudStorageMonthlyQuotaMB c),
       ax_CloudStorageLifetimeQuotaMB := env_int (env ''ACCESS_CLOUD_STORAGE_LIFETIME_QUOTA_MB'') (ax_CloudStorageLifetimeQuotaMB c),
       ax_TrialDurationDays := env_int (env ''ACCESS_TRIAL_DURATION_DAYS'') (ax_TrialDurationDays c),
       ax_LoginChallengeTTLSeconds := env_int (env ''ACCESS_LOGIN_CHALLENGE_TTL_SECONDS'') (ax_LoginChallengeTTLSeconds c),
       ax_LoginChallengeMaxAttempts := env_int (env ''ACCESS_LOGIN_CHALLENGE_MAX_ATTEMPTS'') (ax_LoginChallengeMaxAttempts c),
       ax_LoginChallengeRateLimitWindowSeconds :=
         env_int (env ''ACCESS_LOGIN_CHALLENGE_RATE_LIMIT_WINDOW_SECONDS'') (ax_LoginChallengeRateLimitWindowSeconds c),
       ax_LoginChallengeMaxCreatesPerEmail :=
         env_int (env ''ACCESS_LOGIN_CHALLENGE_MAX_CREATES_PER_EMAIL'') (ax_LoginChallengeMaxCreatesPerEmail c),
       ax_LoginChallengeMaxCreatesPerIP :=
         env_int (env ''ACCESS_LOGIN_CHALLENGE_MAX_CREATES_PER_IP'') (ax_LoginChallengeMaxCreatesPerIP c),
       ax_LoginChallengeDelivery := env_text (env ''ACCESS_LOGIN_CHALLENGE_DELIVERY'') (ax_LoginChallengeDelivery c),
       ax_LoginChallengeSecret := env_text (env ''ACCESS_LOGIN_CHALLENGE_SECRET'') (ax_LoginChallengeSecret c)\<rparr>"

definition env_cloud :: "environment \<Rightarrow> CloudStorageConfig \<Rightarrow> CloudStorageConfig" where
  "env_cloud env c =
     c\<lparr>cl_Provider := env_text (env ''CLOUD_STORAGE_PROVIDER'') (cl_Provider c),
       cl_EndpointURL := env_text (env ''CLOUD_STORAGE_ENDPOINT_URL'') (cl_EndpointURL c),
       cl_Region := env_text (env ''CLOUD_STORAGE_REGION'') (cl_Region c),
       cl_Bucket := env_text (env ''CLOUD_STORAGE_BUCKET'') (cl_Bucket c),
       cl_AccessKeyID := env_text (env ''CLOUD_STORAGE_ACCESS_KEY_ID'') (cl_AccessKeyID c),
       cl_SecretAccessKey := env_text (env ''CLOUD_STORAGE_SECRET_ACCESS_KEY'') (cl_SecretAccessKey c),
       cl_SessionToken := env_text (env ''CLOUD_STORAGE_SESSION_TOKEN'') (cl_SessionToken c),
       cl_ForcePathStyle := env_bool (env ''CLOUD_STORAGE_FORCE_PATH_STYLE'') (cl_ForcePathStyle c),
       cl_ObjectTagging := env_bool (env ''CLOUD_STORAGE_OBJECT_TAGGING'') (cl_ObjectTagging c),
       cl_UploadTargetTTLSeconds := env_int (env ''CLOUD_STORAGE_UPLOAD_TARGET_TTL_SECONDS'') (cl_UploadTargetTTLSeconds c),
       cl_DownloadTargetTTLSeconds := env_int (env ''CLOUD_STORAGE_DOWNLOAD_TARGET_TTL_SECONDS'') (cl_DownloadTargetTTLSeconds c),
       cl_OperationTTLSeconds := env_int (env ''CLOUD_STORAGE_OPERATION_TTL_SECONDS'') (cl_OperationTTLSeconds c)\<rparr>"

definition env_payment :: "environment \<Rightarrow> PaymentConfig \<Rightarrow> PaymentConfig" where
  "env_payment env c =
     c\<lparr>pz_CreemAPIKey := env_text (env ''PAYMENT_CREEM_API_KEY'') (pz_CreemAPIKey c),
       pz_CreemWebhookSecret := env_text (env ''PAYMENT_CREEM_WEBHOOK_SECRET'') (pz_CreemWebhookSecret c),
       pz_CreemAPIBaseURL := env_text (env ''PAYMENT_CREEM_API_BASE_URL'') (pz_CreemAPIBaseURL c),
       pz_CreemSuccessURL := env_text (env ''PAYMENT_CREEM_SUCCESS_URL'') (pz_CreemSuccessURL c),
       pz_CreemCancelURL := env_text (env ''PAYMENT_CREEM_CANCEL_URL'') (pz_CreemCancelURL c),
       pz_CreemProductMapJSON := env_text (env ''PAYMENT_CREEM_PRODUCT_MAP_JSON'') (pz_CreemProductMapJSON c),
       pz_CreemSandbox := env_bool (env ''PAYMENT_CREEM_SANDBOX'') (pz_CreemSandbox c),
       pz_MockCheckoutBaseURL := env_text (env ''PAYMENT_MOCK_CHECKOUT_BASE_URL'') (pz_MockCheckoutBaseURL c)\<rparr>"

definition env_admin :: "environment \<Rightarrow> AdminConfig \<Rightarrow> err + AdminConfig" where
  "env_admin env c0 =
     (let c = c0\<lparr>ad_APIKeys := env_list (env ''ADMIN_API_KEYS'') (ad_APIKeys c0)\<rparr>; v = env ''ADMIN_PRINCIPALS_JSON''
      in if v = [] then Inr c
         else case parseAdminPrincipalsJSON v of
           Inl e \<Rightarrow> Inl e | Inr ps \<Rightarrow> Inr (c\<lparr>ad_Principals := ps\<rparr>))"

definition env_server :: "environment \<Rightarrow> ServerConfig \<Rightarrow> ServerConfig" where
  "env_server env c = c\<lparr>se_Env := to_lower (trim_space (env_text (env ''SERVER_ENV'') (se_Env c)))\<rparr>"

definition env_database :: "environment \<Rightarrow> DatabaseConfig \<Rightarrow> DatabaseConfig" where
  "env_database env c =
     c\<lparr>dx_MigrationMode := to_lower (trim_space (env_text (env ''DATABASE_MIGRATION_MODE'') (dx_MigrationMode c)))\<rparr>"

definition env_rate_limit :: "environment \<Rightarrow> RateLimitConfig \<Rightarrow> RateLimitConfig" where
  "env_rate_limit env c = c\<lparr>rt_Enabled := env_bool (env ''RATELIMIT_ENABLED'') (rt_Enabled c)\<rparr>"

definition with_environment :: "environment \<Rightarrow> Config \<Rightarrow> err + Config" where
  "with_environment env c =
     (case env_admin env (zc_Admin c) of
        Inl e \<Rightarrow> Inl e
      | Inr admin \<Rightarrow> Inr \<lparr>zc_Server = env_server env (zc_Server c), zc_Database = env_database env (zc_Database c),
          zc_HTTP = env_http env (zc_HTTP c), zc_Payment = env_payment env (zc_Payment c),
          zc_FulfillmentRulesJSON = env_text (env ''FULFILLMENT_RULES_JSON'') (zc_FulfillmentRulesJSON c),
          zc_Checkout = env_checkout env (zc_Checkout c), zc_Adjustment = env_adjustment env (zc_Adjustment c),
          zc_Renewal = env_renewal env (zc_Renewal c), zc_Access = env_access env (zc_Access c),
          zc_CloudStorage = env_cloud env (zc_CloudStorage c), zc_Admin = admin,
          zc_RateLimit = env_rate_limit env (zc_RateLimit c)\<rparr>)"

section \<open>Production checks\<close>

abbreviation ErrInvalidProductionConfig :: err where "ErrInvalidProductionConfig \<equiv> Sentinel ''invalid production config''"

text \<open>\<open>when b m\<close>: the message of a violated rule.\<close>

definition rule :: "bool \<Rightarrow> string \<Rightarrow> string list" where
  "rule violated message = (if violated then [message] else [])"

definition isProductionEnv :: "string \<Rightarrow> bool" where
  "isProductionEnv env \<longleftrightarrow> equal_fold (trim_space env) ProductionEnv"

text \<open>Path, query and fragment of a URL with a scheme and an authority.\<close>

definition url_rest :: "string \<Rightarrow> string \<times> string \<times> string" where
  "url_rest raw =
     (let (u, fragment) = cut_at (CHR ''#'') raw;
          r = (case get_scheme u of None \<Rightarrow> u | Some (_, r) \<Rightarrow> r); (r1, query) = cut_at (CHR ''?'') r
      in (drop (2 + length (fst (cut_at (CHR ''/'') (drop 2 r1)))) r1, query, fragment))"

definition https_url :: "string \<Rightarrow> bool" where
  "https_url raw \<longleftrightarrow> (case url_parse raw of None \<Rightarrow> False | Some (scheme, host) \<Rightarrow> scheme = ''https'' \<and> host \<noteq> [])"

definition https_origin :: "string list \<Rightarrow> string \<Rightarrow> bool" where
  "https_origin paths raw \<longleftrightarrow>
     https_url raw \<and> (case url_rest raw of (path, query, fragment) \<Rightarrow> path \<in> set paths \<and> query = [] \<and> fragment = [])"

definition validateProductionDatabase :: "DatabaseConfig \<Rightarrow> string list" where
  "validateProductionDatabase c =
     rule (trim_space (dx_DSN c) = []) ''DATABASE_DSN is required''
     @ rule (trim_space (dx_DSN c) = '':memory:'') ''DATABASE_DSN must not use in-memory sqlite in prod''
     @ rule (trim_space (dx_MigrationMode c) \<noteq> DatabaseMigrationModeVersioned)
         ''DATABASE_MIGRATION_MODE must be versioned in prod''"

definition validateProductionCORSOrigin :: "string \<Rightarrow> string list" where
  "validateProductionCORSOrigin origin0 =
     (let origin = trim_space origin0
      in if origin = [] then [''HTTP_CORS_ALLOWED_ORIGINS must not contain empty origins in prod'']
         else if origin = ''*'' then [''HTTP_CORS_ALLOWED_ORIGINS must not contain wildcard origins in prod'']
         else rule (\<not> https_origin [[]] origin) ''HTTP_CORS_ALLOWED_ORIGINS must contain https origins only in prod'')"

definition validateProductionHTTP :: "HTTPConfig \<Rightarrow> string list" where
  "validateProductionHTTP c =
     rule (hp_CORSAllowedOrigins c = []) ''HTTP_CORS_ALLOWED_ORIGINS is required in prod''
     @ concat (List.map validateProductionCORSOrigin (hp_CORSAllowedOrigins c))
     @ rule (\<not> hp_SecurityHeadersEnabled c) ''HTTP_SECURITY_HEADERS_ENABLED must be true in prod''
     @ rule (hp_HSTSMaxAgeSeconds c < 31536000)
         ''HTTP_SECURITY_HEADERS_HSTS_MAX_AGE_SECONDS must be >= 31536000 in prod''"

definition hasAdminAPIKey :: "AdminConfig \<Rightarrow> bool" where
  "hasAdminAPIKey c \<longleftrightarrow> list_ex (\<lambda>k. trim_space k \<noteq> []) (ad_APIKeys c)"

definition hasScopedAdminPrincipal :: "AdminConfig \<Rightarrow> bool" where
  "hasScopedAdminPrincipal c \<longleftrightarrow>
     list_ex (\<lambda>p. trim_space (ap_Key p) \<noteq> [] \<and> list_ex (\<lambda>q. trim_space q \<noteq> []) (ap_Permissions p)) (ad_Principals c)"

definition validateProductionAdmin :: "AdminConfig \<Rightarrow> string list" where
  "validateProductionAdmin c =
     rule (\<not> (hasAdminAPIKey c \<or> hasScopedAdminPrincipal c)) ''ADMIN_API_KEYS or ADMIN_PRINCIPALS_JSON is required in prod''"

definition validateProductionRateLimit :: "RateLimitConfig \<Rightarrow> string list" where
  "validateProductionRateLimit c =
     rule (\<not> rt_Enabled c) ''RATELIMIT_ENABLED must be true in prod''
     @ rule (rt_MaxTokens c \<le> 0) ''RATELIMIT_MAX_TOKENS must be > 0 in prod''
     @ rule (rt_RefillRate c \<le> 0) ''RATELIMIT_REFILL_RATE must be > 0 in prod''"

definition unsafeRedirectScheme :: "string \<Rightarrow> bool" where
  "unsafeRedirectScheme scheme \<longleftrightarrow> scheme \<in> {''http'', ''javascript'', ''data'', ''file'', ''about'', ''blob''}"

definition validateProductionRedirectAllowlistURL :: "string \<Rightarrow> string list" where
  "validateProductionRedirectAllowlistURL raw0 =
     (let raw = trim_space raw0
      in if raw = [] then [''CHECKOUT_REDIRECT_ALLOWLIST must not contain empty URLs in prod'']
         else rule (case url_parse raw of
                      None \<Rightarrow> True
                    | Some (scheme, host) \<Rightarrow> unsafeRedirectScheme scheme \<or> scheme = ''https'' \<and> host = [])
                ''CHECKOUT_REDIRECT_ALLOWLIST must contain https or app-scheme URLs in prod'')"

definition validateProductionCheckout :: "CheckoutConfig \<Rightarrow> string list" where
  "validateProductionCheckout c =
     rule (\<not> cx_RiskPolicyEnabled c) ''CHECKOUT_RISK_POLICY_ENABLED must be true in prod''
     @ rule (cx_RedirectAllowlist c = []) ''CHECKOUT_REDIRECT_ALLOWLIST is required in prod''
     @ concat (List.map validateProductionRedirectAllowlistURL (cx_RedirectAllowlist c))"

text \<open>The first of the four decodings that succeeds.\<close>

definition decodeProductionBase64 :: "string \<Rightarrow> string option" where
  "decodeProductionBase64 v =
     (case b64_decode False False v of
        Some s \<Rightarrow> Some s
      | None \<Rightarrow> (case b64_decode False True v of
            Some s \<Rightarrow> Some s
          | None \<Rightarrow> (case b64_decode True False v of Some s \<Rightarrow> Some s | None \<Rightarrow> b64_decode True True v)))"

definition validProductionEd25519PrivateKey :: "string \<Rightarrow> bool" where
  "validProductionEd25519PrivateKey v \<longleftrightarrow>
     (case decodeProductionBase64 (trim_space v) of None \<Rightarrow> False | Some raw \<Rightarrow> length raw = 64 \<or> length raw = 32)"

abbreviation defaultDevAccessSnapshotSecret :: string where
  "defaultDevAccessSnapshotSecret \<equiv> ''walnut-dev-access-snapshot-secret''"
abbreviation defaultDevLoginChallengeSecret :: string where
  "defaultDevLoginChallengeSecret \<equiv> ''walnut-dev-login-challenge-secret''"

definition validateProductionAccess :: "AccessConfig \<Rightarrow> string list" where
  "validateProductionAccess c =
     (let algorithm = trim_space (ax_SnapshotSignatureAlgorithm c); keyID = trim_space (ax_SnapshotKeyID c);
          delivery = trim_space (ax_LoginChallengeDelivery c); secret = trim_space (ax_LoginChallengeSecret c)
      in rule (algorithm \<noteq> ''Ed25519'' \<and> algorithm \<noteq> ''EdDSA'')
           ''ACCESS_SNAPSHOT_SIGNATURE_ALGORITHM must be Ed25519 or EdDSA in prod''
         @ (if trim_space (ax_SnapshotPrivateKey c) = [] then [''ACCESS_SNAPSHOT_PRIVATE_KEY is required in prod'']
            else rule (\<not> validProductionEd25519PrivateKey (ax_SnapshotPrivateKey c))
              ''ACCESS_SNAPSHOT_PRIVATE_KEY must be a base64 Ed25519 private key or seed in prod'')
         @ rule (keyID = [] \<or> keyID = ''dev'') ''ACCESS_SNAPSHOT_KEY_ID must be non-dev in prod''
         @ rule (trim_space (ax_SnapshotSecret c) = defaultDevAccessSnapshotSecret)
             ''ACCESS_SNAPSHOT_SECRET must not use the dev default in prod''
         @ rule (delivery = [] \<or> delivery = ''dev'') ''ACCESS_LOGIN_CHALLENGE_DELIVERY must not be dev in prod''
         @ rule (secret = [] \<or> secret = defaultDevLoginChallengeSecret)
             ''ACCESS_LOGIN_CHALLENGE_SECRET must be non-dev in prod''
         @ rule (ax_CloudStorageQuotaMB c \<le> 0) ''ACCESS_CLOUD_STORAGE_QUOTA_MB must be > 0 in prod''
         @ rule (ax_CloudStorageTrialQuotaMB c < 0 \<or> ax_CloudStorageMonthlyQuotaMB c < 0
                 \<or> ax_CloudStorageLifetimeQuotaMB c < 0)
             ''ACCESS_CLOUD_STORAGE_*_QUOTA_MB must be >= 0 in prod'')"

definition validateProductionCloudStorage :: "CloudStorageConfig \<Rightarrow> string list" where
  "validateProductionCloudStorage c =
     (let provider = to_lower (trim_space (cl_Provider c)); endpoint = trim_space (cl_EndpointURL c)
      in if provider = [] then []
         else if provider \<notin> {''s3'', ''r2''} then [''CLOUD_STORAGE_PROVIDER must be s3 or r2 in prod'']
         else (if endpoint = []
               then [''CLOUD_STORAGE_ENDPOINT_URL is required when cloud storage provider is configured in prod'']
               else rule (\<not> https_origin [[], ''/''] endpoint) ''CLOUD_STORAGE_ENDPOINT_URL must be an https origin in prod'')
            @ rule (trim_space (cl_Region c) = [])
                ''CLOUD_STORAGE_REGION is required when cloud storage provider is configured in prod''
            @ rule (trim_space (cl_Bucket c) = [])
                ''CLOUD_STORAGE_BUCKET is required when cloud storage provider is configured in prod''
            @ rule (trim_space (cl_AccessKeyID c) = [])
                ''CLOUD_STORAGE_ACCESS_KEY_ID is required when cloud storage provider is configured in prod''
            @ rule (trim_space (cl_SecretAccessKey c) = [])
                ''CLOUD_STORAGE_SECRET_ACCESS_KEY is required when cloud storage provider is configured in prod''
            @ rule (cl_UploadTargetTTLSeconds c \<le> 0 \<or> cl_DownloadTargetTTLSeconds c \<le> 0 \<or> cl_OperationTTLSeconds c \<le> 0)
                ''CLOUD_STORAGE_*_TTL_SECONDS must be > 0 in prod'')"

definition validateProductionCheckoutURL :: "string \<Rightarrow> string \<Rightarrow> string list" where
  "validateProductionCheckoutURL fieldName raw0 =
     (let raw = trim_space raw0
      in if raw = [] then [fieldName @ '' is required in prod'']
         else rule (\<not> https_url raw) (fieldName @ '' must be an https URL in prod''))"

definition validateProductionCreemEnvironment :: "PaymentConfig \<Rightarrow> string list" where
  "validateProductionCreemEnvironment c =
     (let baseURL = normalizeCreemAPIBaseURL (pz_CreemAPIBaseURL c) (pz_CreemSandbox c);
          key = to_lower (trim_space (pz_CreemAPIKey c))
      in rule (\<not> https_url baseURL) ''PAYMENT_CREEM_API_BASE_URL must be an https URL in prod''
         @ rule (contains_text (to_lower baseURL) ''test-api.creem.io'')
             (''PAYMENT_CREEM_API_BASE_URL must target '' @ creemDefaultProdBaseURL @ '' in prod'')
         @ rule (has_prefix key ''creem_test'') ''PAYMENT_CREEM_API_KEY must not be a test key in prod'')"

definition parseProductionCreemProductMap :: "string \<Rightarrow> err + string_map" where
  "parseProductionCreemProductMap raw =
     (if trim_space raw = [] then Inl (Errorf ''empty product map'') else creemProductMap [] (trim_space raw))"

definition missingProductionSKUMappings :: "string_map \<Rightarrow> string list" where
  "missingProductionSKUMappings m =
     concat (List.map (\<lambda>sku. rule (trim_space (map_value m sku) = [])
       (''PAYMENT_CREEM_PRODUCT_MAP_JSON must map '' @ sku @ '' in prod'')) [SKUProOwnAIMonthly, SKUProOwnAILifetime])"

definition validateProductionCreem :: "PaymentConfig \<Rightarrow> string list" where
  "validateProductionCreem c =
     rule (trim_space (pz_CreemAPIKey c) = []) ''PAYMENT_CREEM_API_KEY is required in prod''
     @ rule (trim_space (pz_CreemWebhookSecret c) = []) ''PAYMENT_CREEM_WEBHOOK_SECRET is required in prod''
     @ rule (pz_CreemSandbox c) ''PAYMENT_CREEM_SANDBOX must be false in prod''
     @ validateProductionCreemEnvironment c
     @ (case parseProductionCreemProductMap (pz_CreemProductMapJSON c) of
          Inl e \<Rightarrow> [''PAYMENT_CREEM_PRODUCT_MAP_JSON must be valid SKU to product JSON'']
        | Inr m \<Rightarrow> missingProductionSKUMappings m)
     @ validateProductionCheckoutURL ''PAYMENT_CREEM_SUCCESS_URL'' (pz_CreemSuccessURL c)
     @ validateProductionCheckoutURL ''PAYMENT_CREEM_CANCEL_URL'' (pz_CreemCancelURL c)"

definition production_violations :: "Config \<Rightarrow> string list" where
  "production_violations c =
     validateProductionDatabase (zc_Database c) @ validateProductionHTTP (zc_HTTP c) @ validateProductionAdmin (zc_Admin c)
     @ validateProductionRateLimit (zc_RateLimit c) @ validateProductionCheckout (zc_Checkout c)
     @ validateProductionAccess (zc_Access c) @ validateProductionCloudStorage (zc_CloudStorage c)
     @ validateProductionCreem (zc_Payment c)"

definition ValidateProduction :: "Config \<Rightarrow> err option" where
  "ValidateProduction c =
     (if \<not> isProductionEnv (se_Env (zc_Server c)) then None
      else let violations = production_violations c
      in if violations = [] then None
         else Some (wrapped ErrInvalidProductionConfig (join_with ''; '' violations)))"

text \<open>\<open>viper\<close> is what \<open>Unmarshal\<close> gives.\<close>

definition Load :: "err + Config \<Rightarrow> environment \<Rightarrow> err + Config" where
  "Load viper env =
     (case viper of
        Inl e \<Rightarrow> Inl e
      | Inr c0 \<Rightarrow>
          (case with_environment env c0 of
             Inl e \<Rightarrow> Inl e
           | Inr c \<Rightarrow> (case ValidateProduction c of Some e \<Rightarrow> Inl e | None \<Rightarrow> Inr c)))"

end
