(* ===== verification/Wallet_Providers.thy ===== *)
theory Wallet_Providers
  imports Creem Go_Base64
begin

text \<open>
  The adapters of Alipay and WeChat Pay: internal/payment/alipay.go, wechat.go and crypto.go.  The
  cryptography and the HTTP client are parameters; a key stands for its encoding.  The local time
  zone is taken to be UTC.
\<close>

section \<open>Cryptography\<close>

text \<open>
  The readers of keys give nothing for a key of another kind than RSA; \<open>kl_pem\<close> gives the bytes of
  the first block of a PEM text.  \<open>kl_open key nonce ciphertext data\<close> is the authenticated decryption.
\<close>

record crypto_library =
  kl_pem :: "string \<Rightarrow> string option"
  kl_pkcs8 :: "string \<Rightarrow> err + string option"
  kl_pkcs1 :: "string \<Rightarrow> err + string"
  kl_pkix :: "string \<Rightarrow> err + string option"
  kl_sha256 :: "string \<Rightarrow> string"
  kl_sign :: "string \<Rightarrow> string \<Rightarrow> err + string"
  kl_verify :: "string \<Rightarrow> string \<Rightarrow> string \<Rightarrow> err option"
  kl_open :: "string \<Rightarrow> string \<Rightarrow> string \<Rightarrow> string \<Rightarrow> err + string"

abbreviation not_rsa :: err where "not_rsa \<equiv> Errorf ''panic: interface conversion: not an RSA key''"

definition parseRSAPrivateKey :: "crypto_library \<Rightarrow> string \<Rightarrow> err + string" where
  "parseRSAPrivateKey kl pemStr =
     (let block = (case kl_pem kl pemStr of None \<Rightarrow> pemStr | Some bytes \<Rightarrow> bytes)
      in case kl_pkcs8 kl block of
           Inr (Some key) \<Rightarrow> Inr key
         | Inr None \<Rightarrow> Inl not_rsa
         | Inl e \<Rightarrow>
             (case kl_pkcs1 kl block of
                Inr key \<Rightarrow> Inr key
              | Inl e2 \<Rightarrow>
                  if kl_pem kl pemStr = None
                  then Inl (Errorf (''failed to parse private key: '' @ error_text e @ '' / '' @ error_text e2))
                  else Inl (Wrapped (''parse PEM block: '' @ error_text e) e)))"

definition parseRSAPublicKey :: "crypto_library \<Rightarrow> string \<Rightarrow> err + string" where
  "parseRSAPublicKey kl pemStr =
     (case kl_pkix kl (case kl_pem kl pemStr of None \<Rightarrow> pemStr | Some bytes \<Rightarrow> bytes) of
        Inl e \<Rightarrow> Inl e | Inr None \<Rightarrow> Inl not_rsa | Inr (Some key) \<Rightarrow> Inr key)"

definition signRSASHA256 :: "crypto_library \<Rightarrow> string \<Rightarrow> string \<Rightarrow> err + string" where
  "signRSASHA256 kl message key =
     (case kl_sign kl key (kl_sha256 kl message) of Inl e \<Rightarrow> Inl e | Inr signature \<Rightarrow> Inr (b64_encode signature))"

abbreviation bad_base64 :: err where "bad_base64 \<equiv> Errorf ''illegal base64 data''"

definition verifyRSASHA256 :: "crypto_library \<Rightarrow> string \<Rightarrow> string \<Rightarrow> string \<Rightarrow> err option" where
  "verifyRSASHA256 kl message signatureB64 key =
     (case b64_decode False True signatureB64 of
        None \<Rightarrow> Some (Wrapped (''decode signature: '' @ error_text bad_base64) bad_base64)
      | Some signature \<Rightarrow> kl_verify kl key (kl_sha256 kl message) signature)"

text \<open>An error gets a prefix; a panic passes by.\<close>

definition wrap_sum :: "string \<Rightarrow> err + 'a \<Rightarrow> err + 'a" where
  "wrap_sum prefix r =
     (case r of
        Inl e \<Rightarrow> if is_panic e then Inl e else Inl (Wrapped (prefix @ '': '' @ error_text e) e)
      | Inr x \<Rightarrow> Inr x)"

text \<open>A nonce of another length than twelve bytes makes the library panic.\<close>

definition decryptAES256GCM :: "crypto_library \<Rightarrow> string \<Rightarrow> string \<Rightarrow> string \<Rightarrow> string \<Rightarrow> err + string" where
  "decryptAES256GCM kl ciphertextB64 associatedData nonce key =
     (case b64_decode False True ciphertextB64 of
        None \<Rightarrow> Inl (Wrapped (''decode ciphertext: '' @ error_text bad_base64) bad_base64)
      | Some ciphertext \<Rightarrow>
          if length key \<notin> {16, 24, 32}
          then Inl (Errorf (''crypto/aes: invalid key size '' @ string_of_int (int (length key))))
          else if length nonce \<noteq> 12 then Inl (Errorf ''panic: crypto/cipher: incorrect nonce length given to GCM'')
          else wrap_sum ''decrypt'' (kl_open kl key nonce ciphertext associatedData))"

section \<open>Alipay\<close>

record AlipayV2Config =
  aw_AppID :: string
  aw_PrivateKey :: string
  aw_PublicKey :: string
  aw_NotifyURL :: string
  aw_SandboxMode :: bool

record AlipayV2Adapter =
  ay_AppID :: string
  ay_PrivateKey :: string
  ay_PublicKey :: "string option"
  ay_NotifyURL :: string
  ay_SandboxMode :: bool
  ay_HTTPClient :: http_client
  ay_gatewayURL :: string
  ay_crypto :: crypto_library

text \<open>The first missing credential; the code looks at them in some order.\<close>

definition missing_credential :: "string \<Rightarrow> string_map \<Rightarrow> err option" where
  "missing_credential what required =
     (case List.find (\<lambda>(name, v). v = []) required of
        None \<Rightarrow> None | Some (name, v) \<Rightarrow> Some (Errorf (''missing required '' @ what @ '' config: '' @ name)))"

definition Alipay_Validate :: "AlipayV2Config \<Rightarrow> err option" where
  "Alipay_Validate cfg = missing_credential ''Alipay'' [(''app_id'', aw_AppID cfg), (''private_key'', aw_PrivateKey cfg)]"

definition alipay_public_key :: "crypto_library \<Rightarrow> string \<Rightarrow> err + string option" where
  "alipay_public_key kl pemStr =
     (if pemStr = [] then Inr None
      else case wrap_sum ''parse alipay public key'' (parseRSAPublicKey kl pemStr) of
        Inl e \<Rightarrow> Inl e | Inr key \<Rightarrow> Inr (Some key))"

definition NewAlipayV2Adapter :: "http_client \<Rightarrow> crypto_library \<Rightarrow> AlipayV2Config \<Rightarrow> err + AlipayV2Adapter" where
  "NewAlipayV2Adapter http kl cfg =
     (case Alipay_Validate cfg of
        Some e \<Rightarrow> Inl e
      | None \<Rightarrow>
          (case wrap_sum ''parse private key'' (parseRSAPrivateKey kl (aw_PrivateKey cfg)) of
             Inl e \<Rightarrow> Inl e
           | Inr privKey \<Rightarrow>
               (case alipay_public_key kl (aw_PublicKey cfg) of
                  Inl e \<Rightarrow> Inl e
                | Inr pubKey \<Rightarrow> Inr \<lparr>ay_AppID = aw_AppID cfg, ay_PrivateKey = privKey, ay_PublicKey = pubKey,
                    ay_NotifyURL = aw_NotifyURL cfg, ay_SandboxMode = aw_SandboxMode cfg, ay_HTTPClient = http,
                    ay_gatewayURL = (if aw_SandboxMode cfg then ''https://openapi-sandbox.dl.alipaydev.com/gateway.do''
                      else ''https://openapi.alipay.com/gateway.do''),
                    ay_crypto = kl\<rparr>)))"

text \<open>The text that is signed: the parameters that have a value, but for some names, in the order of their names.\<close>

definition sign_text :: "string list \<Rightarrow> string_map \<Rightarrow> string" where
  "sign_text left_out params =
     join_with ''&'' (List.map (\<lambda>(k, v). k @ ''='' @ v) (List.filter (\<lambda>(k, v). k \<notin> set left_out \<and> v \<noteq> []) params))"

definition signParams :: "AlipayV2Adapter \<Rightarrow> string_map \<Rightarrow> err + string" where
  "signParams a params = signRSASHA256 (ay_crypto a) (sign_text [''sign''] params) (ay_PrivateKey a)"

definition verifyCallbackSignature :: "AlipayV2Adapter \<Rightarrow> string \<Rightarrow> string_map \<Rightarrow> err option" where
  "verifyCallbackSignature a publicKey params =
     (let signB64 = map_value params ''sign''
      in if signB64 = [] then Some (Errorf ''missing sign in callback'')
         else verifyRSASHA256 (ay_crypto a) (sign_text [''sign'', ''sign_type''] params) signB64 publicKey)"

text \<open>\<open>%.2f\<close> of \<open>float64(amount)/100\<close>, and the local time of a request.\<close>

definition format_decimals :: "nat \<Rightarrow> rat \<Rightarrow> string" where
  "format_decimals k x =
     (let n = nat (round_even (\<bar>x\<bar> * 10 ^ k))
      in (if x < 0 then ''-'' else []) @ digits_of (n div 10 ^ k) @ ''.'' @ pad_left k (digits_of (n mod 10 ^ k)))"

definition yuan_text :: "int \<Rightarrow> string" where
  "yuan_text amount = format_decimals 2 (float64 (float64 (of_int amount) / 100))"

definition format_datetime :: "instant \<Rightarrow> string" where
  "format_datetime t =
     (let s = take 19 (format_rfc3339 t) in take 10 s @ '' '' @ drop 11 s)"

definition alipay_params :: "AlipayV2Adapter \<Rightarrow> string \<Rightarrow> int \<Rightarrow> string \<Rightarrow> instant \<Rightarrow> string_map" where
  "alipay_params a outTradeNo amount description now =
     fold (\<lambda>(k, v). map_put k v)
       [(''app_id'', ay_AppID a), (''method'', ''alipay.trade.precreate''), (''format'', ''JSON''), (''charset'', ''utf-8''),
        (''sign_type'', ''RSA2''), (''timestamp'', format_datetime now), (''version'', ''1.0''),
        (''notify_url'', ay_NotifyURL a),
        (''biz_content'', ''{'' @ [quote] @ ''out_trade_no'' @ [quote] @ '':'' @ [quote] @ outTradeNo @ [quote]
           @ '','' @ [quote] @ ''total_amount'' @ [quote] @ '':'' @ [quote] @ yuan_text amount @ [quote]
           @ '','' @ [quote] @ ''subject'' @ [quote] @ '':'' @ [quote] @ description @ [quote] @ ''}'')] []"

definition alipay_qr_code :: "string \<Rightarrow> string service" where
  "alipay_qr_code body =
     (case struct_members body of
        None \<Rightarrow> fail (Errorf ''parse response'')
      | Some ms \<Rightarrow>
          (case (object_field ''alipay_trade_precreate_response'' ms, string_field ''sign'' ms) of
             ((ok1, answer), (ok2, sign)) \<Rightarrow>
               (case (string_field ''code'' answer, string_field ''msg'' answer, string_field ''out_trade_no'' answer,
                      string_field ''qr_code'' answer) of
                  ((ok3, code), (ok4, msg), (ok5, no), (ok6, qr)) \<Rightarrow>
                    andThen (reject_if (\<not> (ok1 \<and> ok2 \<and> ok3 \<and> ok4 \<and> ok5 \<and> ok6)) (Errorf ''parse response'')) (\<lambda>_.
                    andThen (reject_if (code \<noteq> ''10000'') (Errorf (''alipay API error: '' @ code @ '' - '' @ msg))) (\<lambda>_.
                    andThen (reject_if (qr = []) (Errorf ''empty qr_code from Alipay API'')) (\<lambda>_. ret qr))))))"

definition Alipay_CreatePaymentURL :: "AlipayV2Adapter \<Rightarrow> string \<Rightarrow> int \<Rightarrow> string \<Rightarrow> string service" where
  "Alipay_CreatePaymentURL a outTradeNo amount description =
     andThen time_now (\<lambda>now.
     let params = alipay_params a outTradeNo amount description now
     in andThen (of_sum (wrap_sum ''sign params'' (signParams a params))) (\<lambda>sign.
        andThen (wrap_err ''http request'' (ay_HTTPClient a
          \<lparr>hr_Method = ''POST'', hr_URL = ay_gatewayURL a,
           hr_Headers = [(''Content-Type'', ''application/x-www-form-urlencoded'')],
           hr_Body = values_encode (map_put ''sign'' sign params)\<rparr>)) (\<lambda>(status, body). alipay_qr_code body)))"

text \<open>
  \<open>Sscanf\<close> with \<open>%f\<close>: the decimal number at the start of a text, zero when there is none.  The
  special values, hexadecimal digits and binary exponents are not modelled.
\<close>

definition scan_float :: "string \<Rightarrow> rat" where
  "scan_float s0 =
     (let s = dropWhile (\<lambda>c. c = CHR '' '' \<or> c = CHR 0x09) s0;
          sign = (if take 1 s = ''-'' then ''-'' else []);
          u = (if take 1 s = ''-'' \<or> take 1 s = ''+'' then drop 1 s else s);
          whole = takeWhile json_digit u; v = drop (length whole) u;
          fraction = (if take 1 v = ''.'' then takeWhile json_digit (drop 1 v) else []);
          w = (if take 1 v = ''.'' then drop (Suc (length fraction)) v else v);
          exponent = (take 1 w = ''e'' \<or> take 1 w = ''E'');
          mark = (if exponent \<and> (take 1 (drop 1 w) = ''-'' \<or> take 1 (drop 1 w) = ''+'') then take 1 (drop 1 w) else []);
          power = takeWhile json_digit (drop (Suc (length mark)) w);
          x = float_of_literal (sign @ whole @ ''.'' @ fraction @ (if exponent then ''e'' @ mark @ power else []))
      in if whole @ fraction = [] \<or> exponent \<and> power = [] \<or> float_overflow x then 0 else x)"

text \<open>\<open>int64(yuan * 100)\<close>: truncated, in float64.\<close>

definition alipay_cents :: "string \<Rightarrow> int" where
  "alipay_cents totalAmount = int64_of_float (float64 (scan_float totalAmount * 100))"

definition Alipay_VerifyCallback :: "AlipayV2Adapter \<Rightarrow> string_map \<Rightarrow> (string \<times> string \<times> int) service" where
  "Alipay_VerifyCallback a params =
     (let bad = (case ay_PublicKey a of None \<Rightarrow> None | Some key \<Rightarrow> verifyCallbackSignature a key params);
          outTradeNo = map_value params ''out_trade_no''; tradeStatus = map_value params ''trade_status''
      in case bad of
           Some e \<Rightarrow> fail (Wrapped (''signature verification failed: '' @ error_text e) e)
         | None \<Rightarrow>
             andThen (reject_if (outTradeNo = []) missing_out_trade_no) (\<lambda>_.
             andThen (reject_if (tradeStatus \<noteq> ''TRADE_SUCCESS'' \<and> tradeStatus \<noteq> ''TRADE_FINISHED'')
               (Errorf (''trade status: '' @ tradeStatus))) (\<lambda>_.
             ret (outTradeNo, map_value params ''trade_no'',
               (case map_of params ''total_amount'' of None \<Rightarrow> 0 | Some t \<Rightarrow> alipay_cents t)))))"

definition alipay_v2 :: "AlipayV2Adapter \<Rightarrow> PaymentProvider" where
  "alipay_v2 a =
     \<lparr>pp_Name = ''alipay'', pp_CreatePaymentURL = Alipay_CreatePaymentURL a, pp_VerifyCallback = Alipay_VerifyCallback a,
      pp_BuildSuccessResponse = (''text/plain'', ''success''), pp_BuildFailureResponse = (''text/plain'', ''fail''),
      pp_CreateCheckoutSession = None, pp_SubscriptionControl = None, pp_VerifyWebhookEvent = None\<rparr>"

section \<open>WeChat Pay\<close>

record WechatPayV3Config =
  wg_AppID :: string
  wg_MchID :: string
  wg_SerialNo :: string
  wg_PrivateKey :: string
  wg_APIv3Key :: string
  wg_NotifyURL :: string
  wg_SandboxMode :: bool

record WechatPayV3Adapter =
  wz_AppID :: string
  wz_MchID :: string
  wz_SerialNo :: string
  wz_PrivateKey :: string
  wz_APIv3Key :: string
  wz_NotifyURL :: string
  wz_SandboxMode :: bool
  wz_HTTPClient :: http_client
  wz_apiBaseURL :: string
  wz_crypto :: crypto_library

definition Wechat_Validate :: "WechatPayV3Config \<Rightarrow> err option" where
  "Wechat_Validate cfg =
     missing_credential ''WeChat Pay''
       [(''app_id'', wg_AppID cfg), (''mch_id'', wg_MchID cfg), (''serial_no'', wg_SerialNo cfg),
        (''private_key'', wg_PrivateKey cfg), (''api_v3_key'', wg_APIv3Key cfg)]"

definition NewWechatPayV3Adapter :: "http_client \<Rightarrow> crypto_library \<Rightarrow> WechatPayV3Config \<Rightarrow> err + WechatPayV3Adapter" where
  "NewWechatPayV3Adapter http kl cfg =
     (case Wechat_Validate cfg of
        Some e \<Rightarrow> Inl e
      | None \<Rightarrow>
          (case wrap_sum ''parse private key'' (parseRSAPrivateKey kl (wg_PrivateKey cfg)) of
             Inl e \<Rightarrow> Inl e
           | Inr privKey \<Rightarrow> Inr \<lparr>wz_AppID = wg_AppID cfg, wz_MchID = wg_MchID cfg, wz_SerialNo = wg_SerialNo cfg,
               wz_PrivateKey = privKey, wz_APIv3Key = wg_APIv3Key cfg, wz_NotifyURL = wg_NotifyURL cfg,
               wz_SandboxMode = wg_SandboxMode cfg, wz_HTTPClient = http,
               wz_apiBaseURL = (if wg_SandboxMode cfg then ''https://api.mch.weixin.qq.com/sandboxnew''
                 else ''https://api.mch.weixin.qq.com''),
               wz_crypto = kl\<rparr>))"

definition random_chars :: string where
  "random_chars = ''abcdefghijklmnopqrstuvwxyzABCDEFGHIJKLMNOPQRSTUVWXYZ0123456789''"

text \<open>Each character is chosen by the clock; a time before 1970 may give a negative index.\<close>

definition randomString :: "nat \<Rightarrow> string service" where
  "randomString n =
     for_each [0..<n] (\<lambda>_ s.
       andThen time_now (\<lambda>now.
       let k = unix_nano now; size = int (length random_chars)
       in if k < 0 \<and> k mod size \<noteq> 0 then fail (Errorf ''panic: index out of range'')
          else ret (s @ [random_chars ! nat (k mod size)]))) []"

definition wechat_body :: "WechatPayV3Adapter \<Rightarrow> string \<Rightarrow> int \<Rightarrow> string \<Rightarrow> string" where
  "wechat_body w outTradeNo amount description =
     raw_object
       [(''amount'', raw_object [(''currency'', json_string ''CNY''), (''total'', string_of_int amount)]),
        (''appid'', json_string (wz_AppID w)), (''description'', json_string description),
        (''mchid'', json_string (wz_MchID w)), (''notify_url'', json_string (wz_NotifyURL w)),
        (''out_trade_no'', json_string outTradeNo)]"

definition unix_seconds :: "instant \<Rightarrow> int" where
  "unix_seconds t = t div second_ns - 62135596800"

definition quoted :: "string \<Rightarrow> string" where
  "quoted s = [quote] @ s @ [quote]"

definition wechat_code_url :: "string \<Rightarrow> string service" where
  "wechat_code_url body =
     (case struct_members body of
        None \<Rightarrow> fail (Errorf ''parse response'')
      | Some ms \<Rightarrow>
          (case string_field ''code_url'' ms of (ok, url) \<Rightarrow>
             andThen (reject_if (\<not> ok) (Errorf ''parse response'')) (\<lambda>_.
             andThen (reject_if (url = []) (Errorf ''empty code_url from WeChat API'')) (\<lambda>_. ret url))))"

definition Wechat_CreatePaymentURL :: "WechatPayV3Adapter \<Rightarrow> string \<Rightarrow> int \<Rightarrow> string \<Rightarrow> string service" where
  "Wechat_CreatePaymentURL w outTradeNo amount description =
     (let body = wechat_body w outTradeNo amount description; urlPath = ''/v3/pay/transactions/native''; nl = [CHR 0x0A]
      in andThen time_now (\<lambda>now.
         let timestamp = string_of_int (unix_seconds now)
         in andThen (randomString 32) (\<lambda>nonce.
            andThen (of_sum (wrap_sum ''sign message'' (signRSASHA256 (wz_crypto w)
              (''POST'' @ nl @ urlPath @ nl @ timestamp @ nl @ nonce @ nl @ body @ nl) (wz_PrivateKey w)))) (\<lambda>signature.
            andThen (wrap_err ''http request'' (wz_HTTPClient w
              \<lparr>hr_Method = ''POST'', hr_URL = wz_apiBaseURL w @ urlPath,
               hr_Headers = [(''Content-Type'', ''application/json''),
                 (''Authorization'', ''WECHATPAY2-SHA256-RSA2048 mchid='' @ quoted (wz_MchID w) @ '',nonce_str='' @ quoted nonce
                    @ '',signature='' @ quoted signature @ '',timestamp='' @ quoted timestamp
                    @ '',serial_no='' @ quoted (wz_SerialNo w))],
               hr_Body = body\<rparr>)) (\<lambda>(status, answer).
            andThen (reject_if (status \<noteq> 200)
              (Errorf (''wechat API error: '' @ string_of_int status @ '' '' @ answer))) (\<lambda>_. wechat_code_url answer))))))"

text \<open>The encrypted part of a callback: ciphertext, associated data and nonce.\<close>

definition wechat_resource :: "string \<Rightarrow> (string \<times> string \<times> string) option" where
  "wechat_resource body =
     (case struct_members body of
        None \<Rightarrow> None
      | Some ms \<Rightarrow>
          (case object_field ''resource'' ms of (ok, r) \<Rightarrow>
             if ok \<and> list_all (\<lambda>k. fst (string_field k ms)) [''id'', ''create_time'', ''event_type'', ''summary'']
                \<and> list_all (\<lambda>k. fst (string_field k r))
                    [''original_type'', ''algorithm'', ''ciphertext'', ''associated_data'', ''nonce'']
             then Some (snd (string_field ''ciphertext'' r), snd (string_field ''associated_data'' r),
                    snd (string_field ''nonce'' r))
             else None))"

text \<open>The decrypted trade: its order, its number, its state and its amount.\<close>

definition wechat_trade :: "string \<Rightarrow> (string \<times> string \<times> string \<times> int) option" where
  "wechat_trade text0 =
     (case struct_members text0 of
        None \<Rightarrow> None
      | Some ms \<Rightarrow>
          (case (object_field ''amount'' ms, string_field ''out_trade_no'' ms, string_field ''transaction_id'' ms,
                 string_field ''trade_state'' ms) of
             ((ok1, amount), (ok2, outTradeNo), (ok3, tradeNo), (ok4, state)) \<Rightarrow>
               (case int_field ''total'' amount of (ok5, cents) \<Rightarrow>
                  if ok1 \<and> ok2 \<and> ok3 \<and> ok4 \<and> ok5 then Some (outTradeNo, tradeNo, state, cents) else None)))"

definition Wechat_VerifyCallback :: "WechatPayV3Adapter \<Rightarrow> string_map \<Rightarrow> (string \<times> string \<times> int) service" where
  "Wechat_VerifyCallback w params =
     (let body = map_value params ''body''
      in andThen (reject_if (body = []) (Errorf ''empty callback body'')) (\<lambda>_.
         case wechat_resource body of
           None \<Rightarrow> fail (Errorf ''parse callback'')
         | Some (ciphertext, associatedData, nonce) \<Rightarrow>
             andThen (of_sum (wrap_sum ''decrypt callback''
               (decryptAES256GCM (wz_crypto w) ciphertext associatedData nonce (wz_APIv3Key w)))) (\<lambda>decrypted.
             case wechat_trade decrypted of
               None \<Rightarrow> fail (Errorf ''parse decrypted'')
             | Some (outTradeNo, tradeNo, state, cents) \<Rightarrow>
                 andThen (reject_if (state \<noteq> ''SUCCESS'') (Errorf (''trade state: '' @ state))) (\<lambda>_.
                 ret (outTradeNo, tradeNo, cents)))))"

definition wechat_v3 :: "WechatPayV3Adapter \<Rightarrow> PaymentProvider" where
  "wechat_v3 w =
     \<lparr>pp_Name = ''wechat'', pp_CreatePaymentURL = Wechat_CreatePaymentURL w, pp_VerifyCallback = Wechat_VerifyCallback w,
      pp_BuildSuccessResponse = wechat_success, pp_BuildFailureResponse = wechat_failure,
      pp_CreateCheckoutSession = None, pp_SubscriptionControl = None, pp_VerifyWebhookEvent = None\<rparr>"

end
