(* ===== verification/Process_Assembly.thy ===== *)
theory Process_Assembly
  imports Process_Config Wallet_Providers Payment_Adjustment Subscription_Renewal Access_Login Access_Session Cloud_Quota
begin

text \<open>
  What internal/app/bootstrap/bootstrap.go builds from the configuration: the policies of the
  services, the signer of the access snapshots and the registry of the payment providers.  The
  database, the routes and the loggers are not modelled.
\<close>

section \<open>Policies\<close>

definition checkout_settings :: "Config \<Rightarrow> checkout_config" where
  "checkout_settings c =
     \<lparr>cf_Env = se_Env (zc_Server c), cf_RedirectAllowlist = cx_RedirectAllowlist (zc_Checkout c),
      cf_RiskPolicyEnabled = cx_RiskPolicyEnabled (zc_Checkout c),
      cf_RiskBlockSeverities = cx_RiskBlockSeverities (zc_Checkout c)\<rparr>"

definition buildPaymentAdjustmentPolicy :: "Config option \<Rightarrow> PolicyConfig" where
  "buildPaymentAdjustmentPolicy cfg =
     normalizePaymentAdjustmentPolicyConfig
       (case cfg of
          None \<Rightarrow> DefaultPaymentAdjustmentPolicyConfig
        | Some c \<Rightarrow>
            (let a = zc_Adjustment c
             in DefaultPaymentAdjustmentPolicyConfig\<lparr>pa_RefundWindowDays := aj_RefundWindowDays a,
                  pa_RefundInWindowAction := aj_RefundInWindowAction a,
                  pa_RefundOutOfWindowAction := aj_RefundOutOfWindowAction a,
                  pa_LowUsagePolicyEnabled := aj_LowUsagePolicyEnabled a,
                  pa_LowUsageMaxCreditsUsed := aj_LowUsageMaxCreditsUsed a, pa_LowUsageAction := aj_LowUsageAction a,
                  pa_HighUsageAction := aj_HighUsageAction a, pa_DisputeAction := aj_DisputeAction a,
                  pa_CancelAction := aj_CancelAction a\<rparr>))"

definition buildSubscriptionRenewalPolicy :: "Config option \<Rightarrow> RenewalPolicyConfig" where
  "buildSubscriptionRenewalPolicy cfg =
     normalizeSubscriptionRenewalPolicyConfig
       (case cfg of
          None \<Rightarrow> DefaultSubscriptionRenewalPolicyConfig
        | Some c \<Rightarrow> \<lparr>RenewalPolicyConfig.sc_GracePeriodDays = rx_GracePeriodDays (zc_Renewal c),
            RenewalPolicyConfig.sc_ExpiredAction = rx_ExpiredAction (zc_Renewal c)\<rparr>)"

definition buildAccessSessionPolicy :: "Config option \<Rightarrow> AccessSessionPolicyConfig" where
  "buildAccessSessionPolicy cfg =
     normalizeAccessSessionPolicyConfig
       (case cfg of
          None \<Rightarrow> DefaultAccessSessionPolicyConfig
        | Some c \<Rightarrow> DefaultAccessSessionPolicyConfig\<lparr>ac_TrialDurationDays := ax_TrialDurationDays (zc_Access c),
            ac_MaxDevices := ax_MaxDevices (zc_Access c)\<rparr>)"

definition buildAccessLoginChallengePolicy :: "Config option \<Rightarrow> AccessLoginChallengePolicyConfig" where
  "buildAccessLoginChallengePolicy cfg =
     NewConfigurableAccessLoginChallengePolicy
       (case cfg of
          None \<Rightarrow> DefaultAccessLoginChallengePolicyConfig
        | Some c \<Rightarrow> (let a = zc_Access c
            in \<lparr>lp_TTLSeconds = ax_LoginChallengeTTLSeconds a, lp_MaxAttempts = ax_LoginChallengeMaxAttempts a,
                lp_RateLimitWindowSeconds = ax_LoginChallengeRateLimitWindowSeconds a,
                lp_MaxCreatesPerEmail = ax_LoginChallengeMaxCreatesPerEmail a,
                lp_MaxCreatesPerIP = ax_LoginChallengeMaxCreatesPerIP a\<rparr>))"

text \<open>The delivery: whether it is the one for development.\<close>

definition buildAccessLoginChallengeDelivery :: "Config option \<Rightarrow> err + bool" where
  "buildAccessLoginChallengeDelivery cfg =
     (let delivery = (case cfg of None \<Rightarrow> ''dev'' | Some c \<Rightarrow> trim_space (ax_LoginChallengeDelivery (zc_Access c)));
          env = (case cfg of None \<Rightarrow> ''dev'' | Some c \<Rightarrow> trim_space (se_Env (zc_Server c)))
      in if delivery = [] \<or> delivery = ''dev'' then Inr (env \<noteq> ProductionEnv)
         else if delivery = ''email'' then Inr False
         else Inl (Errorf (''unsupported access login challenge delivery '' @ go_quote delivery)))"

definition buildAccessSnapshotPolicy :: "Config option \<Rightarrow> AccessSnapshotPolicyConfig" where
  "buildAccessSnapshotPolicy cfg =
     normalizeAccessSnapshotPolicyConfig
       (case cfg of
          None \<Rightarrow> DefaultAccessSnapshotPolicyConfig
        | Some c \<Rightarrow> (let a = zc_Access c
            in \<lparr>sc_TTLSeconds = ax_SnapshotTTLSeconds a, sc_OfflineGraceSeconds = ax_SnapshotOfflineGraceSeconds a,
                sc_MaxDevices = ax_MaxDevices a, sc_CloudStorageQuotaMB = ax_CloudStorageQuotaMB a\<rparr>))"

definition buildCloudStorageQuotaPolicy :: "Config option \<Rightarrow> CloudStorageQuotaPolicy" where
  "buildCloudStorageQuotaPolicy cfg =
     (case cfg of
        None \<Rightarrow> NewCloudStorageQuotaPolicyFromMB 0
      | Some c \<Rightarrow> NewPlanAwareCloudStorageQuotaPolicyFromMB (ax_CloudStorageQuotaMB (zc_Access c))
          (ax_CloudStorageTrialQuotaMB (zc_Access c)) (ax_CloudStorageMonthlyQuotaMB (zc_Access c))
          (ax_CloudStorageLifetimeQuotaMB (zc_Access c)))"

text \<open>\<open>mac\<close> is the keyed hash and \<open>parse\<close> reads a private key.\<close>

definition buildAccessSnapshotSigner ::
  "(string \<Rightarrow> string \<Rightarrow> string) \<Rightarrow> (string \<Rightarrow> signature_scheme option) \<Rightarrow> Config option \<Rightarrow> err + AccessSnapshotSigner" where
  "buildAccessSnapshotSigner mac parse cfg =
     (case cfg of
        None \<Rightarrow> NewHMACAccessSnapshotSigner mac defaultDevAccessSnapshotSecret []
      | Some c \<Rightarrow>
          (let a = zc_Access c; algorithm = trim_space (ax_SnapshotSignatureAlgorithm a); keyID = ax_SnapshotKeyID a
           in if algorithm = ''Ed25519'' \<or> algorithm = ''EdDSA''
              then NewEd25519AccessSnapshotSigner (parse (ax_SnapshotPrivateKey a)) keyID
              else if algorithm = [] \<or> algorithm = ''HS256''
              then (if se_Env (zc_Server c) = ProductionEnv then Inl ErrInvalidAccessSnapshot
                    else NewHMACAccessSnapshotSigner mac (ax_SnapshotSecret a) keyID)
              else Inl ErrInvalidAccessSnapshot))"

definition secondsDuration :: "int \<Rightarrow> int" where
  "secondsDuration seconds = (if seconds \<le> 0 then 0 else wrap64 (seconds * second_ns))"

section \<open>Payment providers\<close>

definition WechatConfig :: "PaymentConfig \<Rightarrow> WechatPayV3Config" where
  "WechatConfig p =
     \<lparr>wg_AppID = pz_WechatAppID p, wg_MchID = pz_WechatMchID p, wg_SerialNo = pz_WechatSerialNo p,
      wg_PrivateKey = pz_WechatPrivateKey p, wg_APIv3Key = pz_WechatAPIv3Key p, wg_NotifyURL = [],
      wg_SandboxMode = pz_WechatSandbox p\<rparr>"

definition AlipayConfig :: "PaymentConfig \<Rightarrow> AlipayV2Config" where
  "AlipayConfig p =
     \<lparr>aw_AppID = pz_AlipayAppID p, aw_PrivateKey = pz_AlipayPrivateKey p, aw_PublicKey = pz_AlipayPublicKey p,
      aw_NotifyURL = [], aw_SandboxMode = pz_AlipaySandbox p\<rparr>"

definition checkoutVisibleSKUCodes :: "ProductDefinition list \<Rightarrow> string list" where
  "checkoutVisibleSKUCodes catalog = List.map pf_Code (List.filter pf_CheckoutVisible catalog)"

definition creem_settings :: "PaymentConfig \<Rightarrow> string list \<Rightarrow> CreemConfig" where
  "creem_settings p required =
     \<lparr>cg_APIKey = pz_CreemAPIKey p, cg_WebhookSecret = pz_CreemWebhookSecret p, cg_APIBaseURL = pz_CreemAPIBaseURL p,
      cg_SuccessURL = pz_CreemSuccessURL p, cg_CancelURL = pz_CreemCancelURL p, cg_SandboxMode = pz_CreemSandbox p,
      cg_ProductIDs = [], cg_ProductMapJSON = pz_CreemProductMapJSON p, cg_RequiredSKUCodes = required\<rparr>"

definition creemConfigured :: "PaymentConfig \<Rightarrow> bool" where
  "creemConfigured p \<longleftrightarrow>
     trim_space (pz_CreemAPIKey p) \<noteq> [] \<or> trim_space (pz_CreemWebhookSecret p) \<noteq> []
     \<or> trim_space (pz_CreemProductMapJSON p) \<noteq> []"

text \<open>The parameters of the providers: the HTTP client, the keyed hash and the cryptography.\<close>

record externals =
  xt_http :: http_client
  xt_mac :: "string \<Rightarrow> string \<Rightarrow> string"
  xt_crypto :: crypto_library

definition provider_status :: "bool \<Rightarrow> bool \<Rightarrow> string \<Rightarrow> ProviderStatus" where
  "provider_status mock sandbox url =
     \<lparr>st_Name = [], st_IsMock = mock, st_SandboxMode = sandbox, st_NotifyURL = url, st_Status = [], st_Error = []\<rparr>"

definition notify_url :: "Config \<Rightarrow> string \<Rightarrow> string" where
  "notify_url c path = ''http://localhost:'' @ se_Port (zc_Server c) @ ''/api/v1/'' @ path"

text \<open>Without credentials, or with credentials that do not work, the mock takes the place of the adapter.\<close>

definition register_wechat :: "externals \<Rightarrow> Config \<Rightarrow> ProviderRegistry \<Rightarrow> ProviderRegistry" where
  "register_wechat x c r =
     (let cfg = WechatConfig (zc_Payment c); url = notify_url c ''callbacks/wechat'';
          mock = Register ''wechat'' wechat_mock (provider_status True False url) r
      in if Wechat_Validate cfg \<noteq> None then mock
         else case NewWechatPayV3Adapter (xt_http x) (xt_crypto x) cfg of
           Inl e \<Rightarrow> mock
         | Inr w \<Rightarrow> Register ''wechat'' (wechat_v3 w) (provider_status False (pz_WechatSandbox (zc_Payment c)) url) r)"

definition register_mock :: "Config \<Rightarrow> ProviderRegistry \<Rightarrow> ProviderRegistry" where
  "register_mock c r =
     (let base0 = trim_space (pz_MockCheckoutBaseURL (zc_Payment c));
          base = (if base0 = [] then ''http://localhost:'' @ se_Port (zc_Server c) else base0);
          url = notify_url c ''callbacks/mock''
      in if se_Env (zc_Server c) \<noteq> ProductionEnv
         then Register ''mock'' (checkout_mock (NewCheckoutMockAdapterWithBaseURL url base)) (provider_status True False url) r
         else r)"

definition register_creem :: "externals \<Rightarrow> Config \<Rightarrow> ProviderRegistry \<Rightarrow> ProviderRegistry" where
  "register_creem x c r =
     (let p = zc_Payment c;
          status = provider_status False (pz_CreemSandbox p) (notify_url c ''webhooks/creem'')
      in case NewCreemAdapter (xt_http x) (xt_mac x) (creem_settings p (checkoutVisibleSKUCodes DefaultProductCatalog)) of
           Inr a \<Rightarrow> Register ''creem'' (creem_provider a) status r
         | Inl e \<Rightarrow>
             if creemConfigured p
             then RegisterStatus ''creem'' (status\<lparr>st_Status := ''error'', st_Error := error_text e\<rparr>) r
             else RegisterStatus ''creem'' (status\<lparr>st_Status := ''disabled'', st_Error :=
               ''set PAYMENT_CREEM_API_KEY, PAYMENT_CREEM_WEBHOOK_SECRET, and PAYMENT_CREEM_PRODUCT_MAP_JSON to enable''\<rparr>) r)"

definition register_alipay :: "externals \<Rightarrow> Config \<Rightarrow> ProviderRegistry \<Rightarrow> ProviderRegistry" where
  "register_alipay x c r =
     (let cfg = AlipayConfig (zc_Payment c); url = notify_url c ''callbacks/alipay'';
          mock = Register ''alipay'' alipay_mock (provider_status True False url) r
      in if Alipay_Validate cfg \<noteq> None then mock
         else case NewAlipayV2Adapter (xt_http x) (xt_crypto x) cfg of
           Inl e \<Rightarrow> mock
         | Inr a \<Rightarrow> Register ''alipay'' (alipay_v2 a) (provider_status False (pz_AlipaySandbox (zc_Payment c)) url) r)"

definition payment_registry :: "externals \<Rightarrow> Config \<Rightarrow> ProviderRegistry" where
  "payment_registry x c =
     register_alipay x c (register_creem x c (register_mock c (register_wechat x c NewProviderRegistry)))"

text \<open>The gateway of the event inbox: the payment service over the registry.\<close>

definition webhook_request :: "PaymentWebhookInput \<Rightarrow> WebhookVerificationRequest" where
  "webhook_request i = \<lparr>wr_Headers = wi_Headers i, wr_Params = wi_Params i, wr_RawPayload = wi_RawPayload i\<rparr>"

definition payment_gateway ::
  "database world \<Rightarrow> ProviderRegistry \<Rightarrow> PaymentWebhookInput \<Rightarrow> err + VerifiedWebhookEvent option" where
  "payment_gateway w r i =
     (case fst (Payment_VerifyWebhookEvent r (wi_Provider i) (webhook_request i) w) of
        Inl e \<Rightarrow> Inl e | Inr v \<Rightarrow> Inr (Some v))"

end
