(* ===== verification/Http_Middleware.thy ===== *)
theory Http_Middleware
  imports Process_Assembly
begin

text \<open>
  The middleware of the HTTP server: internal/api/middleware auth.go, ratelimit.go and security.go,
  and the gates that bootstrap.go and router.go put before the routes of the administration.  A
  middleware stops a request with a status or lets it pass.  The background sweep of the rate
  limiter is the operation \<open>cleanup\<close>.
\<close>

section \<open>Administrators\<close>

record AdminPrincipal =
  mp_Name :: string
  mp_APIKey :: string
  mp_Permissions :: "string list"

abbreviation PermissionAdminAll :: string where "PermissionAdminAll \<equiv> ''admin.*''"

definition legacyAdminName :: "nat \<Rightarrow> string" where
  "legacyAdminName index = ''legacy-admin-'' @ string_of_int (int index + 1)"

definition PrincipalsFromAPIKeys :: "string list \<Rightarrow> AdminPrincipal list" where
  "PrincipalsFromAPIKeys keys =
     List.map (\<lambda>(i, key). \<lparr>mp_Name = legacyAdminName i, mp_APIKey = trim_space key, mp_Permissions = [PermissionAdminAll]\<rparr>)
       (List.filter (\<lambda>(i, key). trim_space key \<noteq> []) (List.enumerate 0 keys))"

fun permissions_loop :: "string list \<Rightarrow> string list \<Rightarrow> string list" where
  "permissions_loop seen [] = []"
| "permissions_loop seen (q # qs) =
     (let p = trim_space q
      in if p = [] \<or> p \<in> set seen then permissions_loop seen qs else p # permissions_loop (p # seen) qs)"

definition normalizePermissions :: "string list \<Rightarrow> string list" where
  "normalizePermissions permissions = permissions_loop [] permissions"

definition normalizeAdminPrincipals :: "AdminPrincipal list \<Rightarrow> AdminPrincipal list" where
  "normalizeAdminPrincipals ps =
     List.map (\<lambda>(i, p). \<lparr>mp_Name = (if trim_space (mp_Name p) = [] then legacyAdminName i else trim_space (mp_Name p)),
         mp_APIKey = trim_space (mp_APIKey p), mp_Permissions = normalizePermissions (mp_Permissions p)\<rparr>)
       (List.filter (\<lambda>(i, p). trim_space (mp_APIKey p) \<noteq> []) (List.enumerate 0 ps))"

definition withoutSecret :: "AdminPrincipal \<Rightarrow> AdminPrincipal" where
  "withoutSecret p = p\<lparr>mp_APIKey := []\<rparr>"

definition buildAdminPrincipals :: "AdminConfig \<Rightarrow> AdminPrincipal list" where
  "buildAdminPrincipals c =
     PrincipalsFromAPIKeys (ad_APIKeys c)
     @ List.map (\<lambda>p. \<lparr>mp_Name = trim_space (ap_Name p), mp_APIKey = trim_space (ap_Key p),
         mp_Permissions = ap_Permissions p\<rparr>) (ad_Principals c)"

text \<open>What a middleware does with a request: the status it answers, or the context it passes on.\<close>

datatype 'c outcome = Abort int | Pass 'c

definition authenticate :: "AdminPrincipal list \<Rightarrow> string \<Rightarrow> AdminPrincipal outcome" where
  "authenticate principals auth =
     (if auth = [] then Abort 401
      else case cut_at (CHR '' '') auth of (scheme, providedKey) \<Rightarrow>
        if CHR '' '' \<notin> set auth \<or> scheme \<noteq> ''Bearer'' then Abort 401
        else case List.find (\<lambda>p. mp_APIKey p = providedKey) principals of
          Some p \<Rightarrow> Pass (withoutSecret p) | None \<Rightarrow> Abort 403)"

text \<open>The constructor panics without principals.\<close>

definition APIKeyAuthPrincipals :: "AdminPrincipal list \<Rightarrow> err + (string \<Rightarrow> AdminPrincipal outcome)" where
  "APIKeyAuthPrincipals validPrincipals =
     (let principals = normalizeAdminPrincipals validPrincipals
      in if principals = [] then Inl (Errorf ''panic: api key auth: no valid principals configured'')
         else Inr (authenticate principals))"

definition permission_matches :: "string \<Rightarrow> string \<Rightarrow> bool" where
  "permission_matches permission candidate \<longleftrightarrow>
     candidate = ''*'' \<or> candidate = PermissionAdminAll
     \<or> candidate = ''admin:*'' \<and> has_prefix permission ''admin.''
     \<or> candidate = permission
     \<or> has_suffix candidate ''.*'' \<and> has_prefix permission (trim_suffix candidate ''*'')
     \<or> has_suffix candidate '':*'' \<and> has_prefix permission (trim_suffix candidate ''*'')"

definition PrincipalHasPermission :: "AdminPrincipal \<Rightarrow> string \<Rightarrow> bool" where
  "PrincipalHasPermission who permission0 \<longleftrightarrow>
     (let permission = trim_space permission0
      in permission \<noteq> [] \<and> list_ex (\<lambda>q. permission_matches permission (trim_space q)) (mp_Permissions who))"

definition RequirePermission :: "string \<Rightarrow> AdminPrincipal option \<Rightarrow> AdminPrincipal option outcome" where
  "RequirePermission permission who =
     (case who of
        None \<Rightarrow> Abort 401
      | Some p \<Rightarrow> if PrincipalHasPermission p permission then Pass who else Abort 403)"

definition permissionGate :: "bool \<Rightarrow> string \<Rightarrow> AdminPrincipal option \<Rightarrow> AdminPrincipal option outcome" where
  "permissionGate enabled permission who =
     (if \<not> enabled then Pass who else RequirePermission permission who)"

text \<open>The authentication of the group of administration routes, if there is one.\<close>

definition configureAdminAuth ::
  "AdminConfig \<Rightarrow> string \<Rightarrow> err + (string \<Rightarrow> AdminPrincipal outcome) option" where
  "configureAdminAuth c serverEnv =
     (let principals = buildAdminPrincipals c
      in if principals \<noteq> []
         then (case APIKeyAuthPrincipals principals of Inl e \<Rightarrow> Inl e | Inr check \<Rightarrow> Inr (Some check))
         else if serverEnv = ProductionEnv
         then Inl (Errorf (''admin API authentication is required in production '' @
           ''(set ADMIN_API_KEYS or ADMIN_PRINCIPALS_JSON)''))
         else Inr None)"

text \<open>A route of the administration: the authentication of its group, then the gate of its permission.\<close>

definition admin_route ::
  "(string \<Rightarrow> AdminPrincipal outcome) option \<Rightarrow> string \<Rightarrow> string \<Rightarrow> AdminPrincipal option outcome" where
  "admin_route auth permission header =
     (case auth of
        None \<Rightarrow> permissionGate False permission None
      | Some check \<Rightarrow>
          (case check header of Abort status \<Rightarrow> Abort status | Pass p \<Rightarrow> permissionGate True permission (Some p)))"

section \<open>Rate limits\<close>

record TokenBucket =
  tk_tokens :: rat
  tk_maxTokens :: rat
  tk_refillRate :: rat
  tk_lastRefill :: instant

definition NewTokenBucket :: "rat \<Rightarrow> rat \<Rightarrow> instant \<Rightarrow> TokenBucket" where
  "NewTokenBucket maxTokens refillRate now =
     \<lparr>tk_tokens = maxTokens, tk_maxTokens = maxTokens, tk_refillRate = refillRate, tk_lastRefill = now\<rparr>"

text \<open>\<open>Duration.Seconds\<close>: the whole seconds plus the rest as a fraction; odd in its argument.\<close>

definition duration_seconds :: "int \<Rightarrow> rat" where
  "duration_seconds d =
     (let s = float64 (of_int (\<bar>d\<bar> div second_ns) + float64 (of_int (\<bar>d\<bar> mod second_ns) / of_int second_ns))
      in if d < 0 then - s else s)"

definition refilled :: "TokenBucket \<Rightarrow> instant \<Rightarrow> rat" where
  "refilled b now =
     min (float64 (tk_tokens b + float64 (duration_seconds (time_sub now (tk_lastRefill b)) * tk_refillRate b)))
       (tk_maxTokens b)"

definition Allow :: "TokenBucket \<Rightarrow> instant \<Rightarrow> bool \<times> TokenBucket" where
  "Allow b now =
     (let tokens = refilled b now; b' = b\<lparr>tk_tokens := tokens, tk_lastRefill := now\<rparr>
      in if 1 \<le> tokens then (True, b'\<lparr>tk_tokens := float64 (tokens - 1)\<rparr>) else (False, b'))"

record IPRateLimiter =
  lm_buckets :: "(string \<times> TokenBucket) list"
  lm_maxTokens :: rat
  lm_refillRate :: rat

definition NewIPRateLimiter :: "rat \<Rightarrow> rat \<Rightarrow> IPRateLimiter" where
  "NewIPRateLimiter maxTokens refillRate =
     \<lparr>lm_buckets = [], lm_maxTokens = maxTokens, lm_refillRate = refillRate\<rparr>"

definition getBucket :: "string \<Rightarrow> instant \<Rightarrow> IPRateLimiter \<Rightarrow> TokenBucket" where
  "getBucket ip now l =
     (case map_of (lm_buckets l) ip of
        Some b \<Rightarrow> b | None \<Rightarrow> NewTokenBucket (lm_maxTokens l) (lm_refillRate l) now)"

definition limiter_cleanup :: "instant \<Rightarrow> IPRateLimiter \<Rightarrow> IPRateLimiter" where
  "limiter_cleanup now l =
     l\<lparr>lm_buckets := List.filter (\<lambda>(ip, b). \<not> 10 * minute_ns < time_sub now (tk_lastRefill b)) (lm_buckets l)\<rparr>"

definition RateLimit :: "string \<Rightarrow> instant \<Rightarrow> IPRateLimiter \<Rightarrow> unit outcome \<times> IPRateLimiter" where
  "RateLimit ip now l =
     (case Allow (getBucket ip now l) now of
        (allowed, b) \<Rightarrow> (if allowed then Pass () else Abort 429, l\<lparr>lm_buckets := AList.update ip b (lm_buckets l)\<rparr>))"

section \<open>Origins and headers\<close>

definition normalizeOriginSet :: "string list \<Rightarrow> string list" where
  "normalizeOriginSet origins =
     List.filter (\<lambda>t. t \<noteq> [] \<and> t \<noteq> ''*'') (List.map (\<lambda>t. trim_right (CHR ''/'') (trim_space t)) origins)"

definition appendVary :: "string \<Rightarrow> string \<Rightarrow> string" where
  "appendVary current v =
     (if trim_space current = [] then v
      else if list_ex (\<lambda>part. equal_fold (trim_space part) v) (split_on (CHR '','') current) then current
      else current @ '', '' @ v)"

text \<open>The headers that a request from an origin gets, unless it is stopped.\<close>

definition cors_headers :: "string \<Rightarrow> string \<Rightarrow> (string \<times> string) list" where
  "cors_headers vary origin =
     [(''Vary'', appendVary vary ''Origin''), (''Access-Control-Allow-Origin'', origin),
      (''Access-Control-Allow-Methods'', ''GET,POST,PUT,DELETE,OPTIONS''),
      (''Access-Control-Allow-Headers'', ''Authorization,Content-Type,X-Request-ID''),
      (''Access-Control-Max-Age'', ''600'')]"

definition CORS :: "string list \<Rightarrow> string \<Rightarrow> string \<Rightarrow> string \<Rightarrow> (string \<times> string) list outcome" where
  "CORS allowedOrigins hmethod origin0 vary =
     (let origin = trim_space origin0
      in if origin = [] then Pass []
         else if origin \<notin> set (normalizeOriginSet allowedOrigins) then Abort 403
         else if hmethod = ''OPTIONS'' then Abort 204
         else Pass (cors_headers vary origin))"

definition SecurityHeaders :: "bool \<Rightarrow> int \<Rightarrow> (string \<times> string) list" where
  "SecurityHeaders enabled maxAge0 =
     (let maxAge = (if maxAge0 \<le> 0 then 31536000 else maxAge0); q = [CHR 0x27]
      in if \<not> enabled then []
         else [(''X-Content-Type-Options'', ''nosniff''), (''X-Frame-Options'', ''DENY''),
           (''Referrer-Policy'', ''no-referrer''),
           (''Permissions-Policy'', ''camera=(), microphone=(), geolocation=()''),
           (''Content-Security-Policy'',
              ''default-src '' @ q @ ''self'' @ q @ ''; connect-src '' @ q @ ''self'' @ q
              @ ''; img-src '' @ q @ ''self'' @ q @ '' data:; style-src '' @ q @ ''self'' @ q @ '' '' @ q @ ''unsafe-inline'' @ q
              @ ''; script-src '' @ q @ ''self'' @ q @ '' '' @ q @ ''unsafe-inline'' @ q
              @ ''; frame-ancestors '' @ q @ ''none'' @ q @ ''; base-uri '' @ q @ ''self'' @ q
              @ ''; form-action '' @ q @ ''self'' @ q),
           (''Strict-Transport-Security'', ''max-age='' @ string_of_int maxAge @ ''; includeSubDomains'')])"

end
