(* ===== verification/Gateway_Theorems.thy ===== *)
theory Gateway_Theorems
  imports Licensing_Theorems Http_Middleware
begin

text \<open>
  Properties of the payment providers as the process assembles them: what a callback does, that
  it keeps the licenses consistent, which webhooks are accepted, and what a validated production
  configuration guarantees.
\<close>

section \<open>Callbacks only read\<close>

definition callbacks_read :: "ProviderRegistry \<Rightarrow> bool" where
  "callbacks_read r \<longleftrightarrow> (\<forall>name p params. Registry_Get r name = Inr p \<longrightarrow> readonly (pp_VerifyCallback p params))"

lemma Registry_Get_Register:
  "Registry_Get (Register n p s r) name = (if name = n then Inr p else Registry_Get r name)"
  by (simp add: Registry_Get_def Register_def update_conv')

lemma Registry_Get_RegisterStatus:
  "Registry_Get (RegisterStatus n s r) name
     = (if name = n then Registry_Get NewProviderRegistry name else Registry_Get r name)"
  by (simp add: Registry_Get_def RegisterStatus_def delete_conv' NewProviderRegistry_def)

lemma Registry_Get_New [simp]: "Registry_Get NewProviderRegistry name \<noteq> Inr p"
  by (simp add: Registry_Get_def NewProviderRegistry_def)

lemma callbacks_read_Register:
  "callbacks_read r \<Longrightarrow> (\<And>params. readonly (pp_VerifyCallback p params)) \<Longrightarrow> callbacks_read (Register n p s r)"
  by (auto simp: callbacks_read_def Registry_Get_Register split: if_splits)

lemma callbacks_read_RegisterStatus: "callbacks_read r \<Longrightarrow> callbacks_read (RegisterStatus n s r)"
  by (auto simp: callbacks_read_def Registry_Get_RegisterStatus split: if_splits)

lemma readonly_case_prod: "(\<And>a b. readonly (h a b)) \<Longrightarrow> readonly (case p of (a, b) \<Rightarrow> h a b)"
  by (cases p) simp

lemma readonly_callbacks:
  "readonly (pp_VerifyCallback wechat_mock params)" "readonly (pp_VerifyCallback alipay_mock params)"
  "readonly (pp_VerifyCallback (checkout_mock m) params)" "readonly (pp_VerifyCallback (creem_provider c) params)"
  "readonly (pp_VerifyCallback (alipay_v2 a) params)" "readonly (pp_VerifyCallback (wechat_v3 v) params)"
  by (auto simp: wechat_mock_def alipay_mock_def checkout_mock_def creem_provider_def alipay_v2_def wechat_v3_def
      Wechat_mock_VerifyCallback_def Alipay_mock_VerifyCallback_def Mock_VerifyCallback_def Alipay_VerifyCallback_def
      Wechat_VerifyCallback_def Let_def intro!: atomic_rules readonly_case_prod split: option.split)

lemma callbacks_read_steps:
  assumes "callbacks_read r"
  shows "callbacks_read (register_wechat x c r)" "callbacks_read (register_alipay x c r)"
    "callbacks_read (register_creem x c r)" "callbacks_read (register_mock c r)"
  using assms
  by (auto simp: register_wechat_def register_alipay_def register_creem_def register_mock_def Let_def
      intro!: callbacks_read_Register callbacks_read_RegisterStatus readonly_callbacks split: sum.split)

lemma process_callbacks_read: "callbacks_read (payment_registry x c)"
  unfolding payment_registry_def
  by (intro callbacks_read_steps) (simp add: callbacks_read_def)

section \<open>Sample settings\<close>

definition production_settings :: Config where
  "production_settings =
     \<lparr>zc_Server = \<lparr>se_Port = ''80'', se_Env = '' Prod''\<rparr>,
      zc_Database = \<lparr>dx_Driver = ''sqlite'', dx_DSN = ''f'', dx_MigrationMode = ''Versioned''\<rparr>,
      zc_HTTP = \<lparr>hp_CORSAllowedOrigins = [''https://a''], hp_SecurityHeadersEnabled = True, hp_HSTSMaxAgeSeconds = 31536000\<rparr>,
      zc_Payment = \<lparr>pz_WechatMchID = ''m'', pz_WechatSerialNo = [], pz_WechatPrivateKey = [], pz_WechatAPIv3Key = [],
        pz_WechatAppID = [], pz_WechatSandbox = False, pz_AlipayAppID = [], pz_AlipayPrivateKey = [],
        pz_AlipayPublicKey = [], pz_AlipaySandbox = False, pz_CreemAPIKey = ''k'', pz_CreemWebhookSecret = ''s'',
        pz_CreemAPIBaseURL = [], pz_CreemSuccessURL = ''https://a'', pz_CreemCancelURL = ''https://a'',
        pz_CreemProductMapJSON = marshal_string_map [(SKUProOwnAILifetime, ''p''), (SKUProOwnAIMonthly, ''q'')],
        pz_CreemSandbox = False, pz_MockCheckoutBaseURL = []\<rparr>,
      zc_FulfillmentRulesJSON = [],
      zc_Checkout = \<lparr>cx_RiskPolicyEnabled = True, cx_RiskBlockSeverities = [], cx_RedirectAllowlist = [''https://a'']\<rparr>,
      zc_Adjustment = \<lparr>aj_RefundWindowDays = 7, aj_RefundInWindowAction = [], aj_RefundOutOfWindowAction = [],
        aj_LowUsagePolicyEnabled = False, aj_LowUsageMaxCreditsUsed = 0, aj_LowUsageAction = [], aj_HighUsageAction = [],
        aj_DisputeAction = [], aj_CancelAction = []\<rparr>,
      zc_Renewal = \<lparr>rx_GracePeriodDays = 3, rx_ExpiredAction = []\<rparr>,
      zc_Access = \<lparr>ax_SnapshotSignatureAlgorithm = ''Ed25519'', ax_SnapshotSecret = [],
        ax_SnapshotPrivateKey = replicate 43 (CHR ''A''), ax_SnapshotKeyID = ''k1'', ax_SnapshotTTLSeconds = 60,
        ax_SnapshotOfflineGraceSeconds = 60, ax_MaxDevices = 2, ax_CloudStorageQuotaMB = 1, ax_CloudStorageTrialQuotaMB = 0,
        ax_CloudStorageMonthlyQuotaMB = 0, ax_CloudStorageLifetimeQuotaMB = 0, ax_TrialDurationDays = 14,
        ax_LoginChallengeTTLSeconds = 600, ax_LoginChallengeMaxAttempts = 5, ax_LoginChallengeRateLimitWindowSeconds = 600,
        ax_LoginChallengeMaxCreatesPerEmail = 5, ax_LoginChallengeMaxCreatesPerIP = 20,
        ax_LoginChallengeDelivery = ''email'', ax_LoginChallengeSecret = ''t''\<rparr>,
      zc_CloudStorage = \<lparr>cl_Provider = [], cl_EndpointURL = [], cl_Region = [], cl_Bucket = [], cl_AccessKeyID = [],
        cl_SecretAccessKey = [], cl_SessionToken = [], cl_ForcePathStyle = False, cl_ObjectTagging = False,
        cl_UploadTargetTTLSeconds = 900, cl_DownloadTargetTTLSeconds = 900, cl_OperationTTLSeconds = 60\<rparr>,
      zc_Admin = \<lparr>ad_APIKeys = [''a''], ad_Principals = []\<rparr>,
      zc_RateLimit = \<lparr>rt_Enabled = True, rt_MaxTokens = 100, rt_RefillRate = 10\<rparr>\<rparr>"

definition sample_externals :: externals where
  "sample_externals = \<lparr>xt_http = (\<lambda>_. fail ErrRandom), xt_mac = (\<lambda>k t. k @ t),
     xt_crypto = \<lparr>kl_pem = (\<lambda>_. None), kl_pkcs8 = (\<lambda>_. Inl ErrRandom), kl_pkcs1 = (\<lambda>_. Inl ErrRandom),
       kl_pkix = (\<lambda>_. Inl ErrRandom), kl_sha256 = (\<lambda>t. t), kl_sign = (\<lambda>_ _. Inl ErrRandom),
       kl_verify = (\<lambda>_ _ _. Some ErrRandom), kl_open = (\<lambda>_ _ _ _. Inl ErrRandom)\<rparr>\<rparr>"

section \<open>Licenses under callbacks\<close>

lemma keeps_attempt_license:
  assumes "\<And>l d. P d \<Longrightarrow> find_row li_Key key (tb_licenses d) = Some l \<Longrightarrow> keeps P (h (Inr l))"
    and "\<And>e. keeps P (h (Inl e))"
  shows "keeps P (andThen (attempt (LicenseRepo_GetByKey key)) h)"
proof -
  have "P (db w) \<Longrightarrow> P (db (snd (andThen (attempt (LicenseRepo_GetByKey key)) h w)))" for w
    using assms(1) [of "db w"] assms(2) keepsD [of P "h _" "next_tick w"]
    by (simp add: wp_result [symmetric] wp_simps LicenseRepo_GetByKey_def split: option.split)
  then show ?thesis by (simp add: keeps_def)
qed

lemma renewed_ok: "license_ok l \<Longrightarrow> license_ok (renewed_license l now)"
  by (erule license_ok_cong [rotated -1]) (auto simp: renewed_license_def Let_def)

lemma keeps_settle_license: "keeps licenses_ok (settle_license x now)"
  unfolding settle_license_def Let_def
  by (intro keeps_if keeps_ret keeps_attempt_license)
     (auto intro!: keeps_rules keeps_license_update renewed_ok license_ok_status dest: found_ok split: sum.split)

lemma keeps_HandleCallback:
  assumes "callbacks_read r"
  shows "keeps licenses_ok (HandleCallback r name params)"
proof -
  have paid: "keeps licenses_ok (mark_paid p y t)" for p y t
    unfolding mark_paid_def Let_def OrderRepo_Update_def
    by (intro keeps_rules keeps_settle_license licenses_ok_untouched untouched_rules) simp
  have verify: "keeps licenses_ok (pp_VerifyCallback p params)" if "Registry_Get r name = Inr p" for p
    using assms that by (auto simp: callbacks_read_def intro: keeps_readonly)
  show ?thesis
  proof (cases "Registry_Get r name")
    case (Inr p)
    then show ?thesis
      unfolding HandleCallback_def OrderRepo_GetByOutTradeNo_def sum.case
      by (simp, intro keeps_rules paid verify [OF Inr])
  qed (simp add: HandleCallback_def keeps_ret)
qed

text \<open>The licenses that the process can reach: through the calls of the license service, the orders of
  licenses and the callbacks of the providers; the rest of the data may change in any way.\<close>

inductive license_reachable :: "externals \<Rightarrow> Config \<Rightarrow> database \<Rightarrow> bool" for x c where
  start: "tb_licenses d = [] \<Longrightarrow> license_reachable x c d"
| others: "license_reachable x c d \<Longrightarrow> tb_licenses d' = tb_licenses d \<Longrightarrow> license_reachable x c d'"
| activate: "license_reachable x c (db w) \<Longrightarrow> CHR '','' \<notin> set dev
    \<Longrightarrow> license_reachable x c (db (snd (Activate key dev w)))"
| deactivate: "license_reachable x c (db w) \<Longrightarrow> license_reachable x c (db (snd (Deactivate key dev w)))"
| by_key: "license_reachable x c (db w) \<Longrightarrow> license_reachable x c (db (snd (ActivateByKey key w)))"
| expiry: "license_reachable x c (db w) \<Longrightarrow> license_reachable x c (db (snd (CheckExpiry w)))"
| order: "license_reachable x c (db w) \<Longrightarrow> license_reachable x c (db (snd (Order_Create DefaultFactory code w)))"
| renewal: "license_reachable x c (db w) \<Longrightarrow> license_reachable x c (db (snd (Order_CreateRenewal key w)))"
| callback: "license_reachable x c (db w)
    \<Longrightarrow> license_reachable x c (db (snd (HandleCallback (payment_registry x c) name params w)))"

lemma license_reachable_ok: "license_reachable x c d \<Longrightarrow> licenses_ok d"
proof (induction rule: license_reachable.induct)
  case (callback w name params)
  then show ?case using keepsD [OF keeps_HandleCallback [OF process_callbacks_read]] by blast
qed (simp add: licenses_ok_def table_ok_def, simp add: licenses_ok_def,
    simp_all add: keepsD keeps_Activate keeps_Deactivate keeps_ActivateByKey keeps_CheckExpiry keeps_Order_Create
      keeps_Order_CreateRenewal)

text \<open>C10: In every state that the calls of the license service, the orders of licenses and the
  callbacks of the providers reach from an empty table, when every activation names a device without
  a comma, a license has at most as many devices as seats (one when none are given), an inactive
  license has no device, and no two licenses share a key.\<close>

theorem license_seats_kept:
  assumes "license_reachable x c d" "l \<in> set (tb_licenses d)"
  shows "int (length (parseDeviceIDs l)) \<le> (if li_MaxSeats l \<le> 0 then 1 else li_MaxSeats l)
    \<and> (li_Status l = ''inactive'' \<longrightarrow> li_DeviceID l = [])
    \<and> (\<forall>m\<in>set (tb_licenses d). li_Key m = li_Key l \<longrightarrow> m = l)"
  using license_reachable_ok [OF assms(1)] assms(2)
    licenses.same_row [of "tb_licenses d" _ l]
  by (auto simp: licenses_ok_def license_ok_def seats_def license_clash_def)

definition shop_world :: "database world" where
  "shop_world = license_world\<lparr>clock := (\<lambda>k. 62135596800000000000 + int k), db := empty_database\<lparr>tb_products := [\<lparr>pr_Code = ''pro'', pr_Name = ''Pro'', pr_Price = 100,
     pr_Currency = ''CNY'', pr_Validity = ''lifetime'', pr_IsVisible = True\<rparr>]\<rparr>\<rparr>"

lemma license_seats_kept_witness:
  "\<exists>l. tb_licenses (db (snd (Order_Create DefaultFactory ''pro'' shop_world))) = [l] \<and> int (length (parseDeviceIDs l)) \<le> 1"
proof -
  let ?d = "db (snd (Order_Create DefaultFactory ''pro'' shop_world))"
  have "license_reachable sample_externals production_settings (db shop_world)"
    by (rule license_reachable.start) (simp add: shop_world_def empty_database_def)
  then have reach: "license_reachable sample_externals production_settings ?d" by (rule license_reachable.order)
  have "List.map li_MaxSeats (tb_licenses ?d) = [1]" by code_simp
  then obtain l where l: "tb_licenses ?d = [l]" "li_MaxSeats l = 1" by auto
  then show ?thesis using license_seats_kept [OF reach, of l] by auto
qed

section \<open>What a callback does\<close>

lemma wp_cases: "wp m Q E w \<Longrightarrow> m w = (r, w') \<Longrightarrow> case r of Inr x \<Rightarrow> Q x w' | Inl e \<Rightarrow> E e w'"
  by (simp add: wp_def split: sum.splits)

lemma wp_settle_license:
  "wp (settle_license x now) (\<lambda>_ w'. tb_orders (db w') = tb_orders (db w))
    (\<lambda>e w'. is_panic e \<and> tb_orders (db w') = tb_orders (db w)) w"
  by (auto simp: settle_license_def Let_def LicenseRepo_GetByKey_def LicenseRepo_Update_def wp_simps is_panic_def
      has_prefix_def split: option.split)

text \<open>What a callback names: the number of an order and the trade number of its provider, as the
  provider of the callback has verified them.\<close>

definition callback_names ::
  "ProviderRegistry \<Rightarrow> string \<Rightarrow> string_map \<Rightarrow> database world \<Rightarrow> string \<Rightarrow> string \<Rightarrow> bool" where
  "callback_names r name params w number trade \<longleftrightarrow> (\<exists>p amount. Registry_Get r name = Inr p
     \<and> fst (pp_VerifyCallback p params w) = Inr (number, trade, amount))"

text \<open>The order is paid: it was before, or exactly its status, trade number and time are written.\<close>

definition order_paid :: "string \<Rightarrow> string \<Rightarrow> database \<Rightarrow> database \<Rightarrow> bool" where
  "order_paid number trade d d' \<longleftrightarrow> (\<exists>y. y \<in> set (tb_orders d) \<and> or_OutTradeNo y = number
     \<and> (or_Status y = OrderStatusPaid \<and> d' = d
        \<or> (\<exists>now. tb_orders d' = replace_row or_ID
             (y\<lparr>or_Status := OrderStatusPaid, or_TradeNo := trade, or_PaidAt := Some now\<rparr>) (tb_orders d))))"

definition answered :: "string \<Rightarrow> string \<Rightarrow> database \<Rightarrow> string \<times> string \<times> int \<Rightarrow> database world \<Rightarrow> bool" where
  "answered number trade d r w' \<longleftrightarrow> (if snd (snd r) = 200 then order_paid number trade d (db w') else db w' = d)"

definition panicked :: "string \<Rightarrow> string \<Rightarrow> database \<Rightarrow> err \<Rightarrow> database world \<Rightarrow> bool" where
  "panicked number trade d e w' \<longleftrightarrow> is_panic e \<and> (db w' = d \<or> order_paid number trade d (db w'))"

lemma wp_mark_paid:
  assumes "find_row or_OutTradeNo n (tb_orders (db w)) = Some y"
  shows "wp (mark_paid p y t) (answered n t (db w)) (panicked n t (db w)) w"
proof -
  have y: "y \<in> set (tb_orders (db w))" "or_OutTradeNo y = n" using find_row_found [OF assms] by auto
  have settle: "wp (settle_license x' now)
      (\<lambda>_. wp (ret (response (pp_BuildSuccessResponse p) 200)) (answered n t (db w)) (panicked n t (db w)))
      (panicked n t (db w)) v"
    if save: "save_row or_ID order_clash x' (tb_orders (db w)) = Some t'" and v: "tb_orders (db v) = t'"
      and x': "x' = y\<lparr>or_Status := OrderStatusPaid, or_TradeNo := t, or_PaidAt := Some now\<rparr>" for x' t' now v
  proof (rule wp_mono [OF wp_settle_license])
    have "find_row or_ID (or_ID x') (tb_orders (db w)) \<noteq> None" using y(1) x' by (auto simp: find_row_absent)
    then have t': "t' = replace_row or_ID x' (tb_orders (db w))" using save orders.save_row_Some by blast
    have paid: "order_paid n t (db w) (db w')" if "tb_orders (db w') = tb_orders (db v)" for w' :: "database world"
      unfolding order_paid_def
      by (rule exI [of _ y], intro conjI y disjI2, rule exI [of _ now]) (simp add: that v t' x')
    then show "wp (ret (response (pp_BuildSuccessResponse p) 200)) (answered n t (db w)) (panicked n t (db w)) w'"
      if "tb_orders (db w') = tb_orders (db v)" for w' :: "database world"
      using that by (simp add: wp_ret answered_def response_def)
    show "panicked n t (db w) e w'" if "is_panic e \<and> tb_orders (db w') = tb_orders (db v)"
      for e and w' :: "database world" using that paid by (simp add: panicked_def)
  qed
  show ?thesis
    unfolding mark_paid_def Let_def OrderRepo_Update_def
    by (auto simp: wp_simps answered_def response_def intro!: settle [unfolded response_def] split: option.split)
qed

text \<open>C32: A callback that is answered with the status 200 names an order that its provider has
  verified, and exactly this order is paid afterwards: either it was before and nothing changes, or
  its status, trade number and time of payment are written and no other order changes.  Any other
  answer leaves all data as they were.  A run that panics has changed nothing or paid exactly the
  named order.\<close>

theorem callback_effect:
  assumes "HandleCallback (payment_registry x c) name params w = (r, w')"
  shows "case r of
      Inr (ct, body, code) \<Rightarrow>
        if code = 200
        then \<exists>number trade. callback_names (payment_registry x c) name params w number trade
          \<and> order_paid number trade (db w) (db w')
        else db w' = db w
    | Inl e \<Rightarrow> is_panic e \<and> (db w' = db w
        \<or> (\<exists>number trade. callback_names (payment_registry x c) name params w number trade
             \<and> order_paid number trade (db w) (db w')))"
proof (cases "Registry_Get (payment_registry x c) name")
  case (Inl e)
  then show ?thesis using assms by (auto simp: HandleCallback_def ret_def)
next
  case (Inr p)
  obtain v w1 where verify: "pp_VerifyCallback p params w = (v, w1)" by fastforce
  have "readonly (pp_VerifyCallback p params)"
    using process_callbacks_read Inr by (simp add: callbacks_read_def)
  then have same: "db w1 = db w" using verify by (auto simp: readonly_def dest: spec [of _ w])
  show ?thesis
  proof (cases v)
    case (Inl e)
    then show ?thesis
      using assms verify same \<open>Registry_Get (payment_registry x c) name = Inr p\<close>
      by (auto simp: HandleCallback_def andThen_def attempt_def ret_def fail_def response_def split: if_splits)
  next
    case (Inr named)
    obtain n t amount where named: "named = (n, t, amount)" by (cases named)
    have names: "callback_names (payment_registry x c) name params w n t"
      using verify Inr named \<open>Registry_Get (payment_registry x c) name = Inr p\<close> by (simp add: callback_names_def)
    have paid: "order_paid n t d d" if "find_row or_OutTradeNo n (tb_orders d) = Some y" "or_Status y = OrderStatusPaid" for d y
      using find_row_found [OF that(1)] that(2) by (auto simp: order_paid_def)
    have mark: "wp (mark_paid p y t) (answered n t (db w)) (panicked n t (db w)) v"
      if "find_row or_OutTradeNo n (tb_orders (db w)) = Some y" "db v = db w" for y v
      using wp_mark_paid [of n v y] that by simp
    have "wp (andThen (attempt (OrderRepo_GetByOutTradeNo n)) (\<lambda>found. case found of
          Inl e \<Rightarrow> ret (response (pp_BuildFailureResponse p) 400)
        | Inr y \<Rightarrow> if or_Status y = OrderStatusPaid then ret (response (pp_BuildSuccessResponse p) 200)
            else mark_paid p y t)) (answered n t (db w)) (panicked n t (db w)) w1"
      unfolding OrderRepo_GetByOutTradeNo_def
      by (auto simp: wp_simps same answered_def response_def paid intro!: mark split: option.split)
    then have outcome: "case r of Inr x \<Rightarrow> answered n t (db w) x w' | Inl e \<Rightarrow> panicked n t (db w) e w'"
    proof (rule wp_cases)
      have "HandleCallback (payment_registry x c) name params w
      = andThen (attempt (OrderRepo_GetByOutTradeNo n)) (\<lambda>found. case found of
          Inl e \<Rightarrow> ret (response (pp_BuildFailureResponse p) 400)
        | Inr y \<Rightarrow> if or_Status y = OrderStatusPaid then ret (response (pp_BuildSuccessResponse p) 200)
            else mark_paid p y t) w1"
        using verify Inr named \<open>Registry_Get (payment_registry x c) name = Inr p\<close>
        by (simp add: HandleCallback_def andThen_def [of "attempt (pp_VerifyCallback p params)"] attempt_def)
      then show "andThen (attempt (OrderRepo_GetByOutTradeNo n)) (\<lambda>found. case found of
          Inl e \<Rightarrow> ret (response (pp_BuildFailureResponse p) 400)
        | Inr y \<Rightarrow> if or_Status y = OrderStatusPaid then ret (response (pp_BuildSuccessResponse p) 200)
            else mark_paid p y t) w1 = (r, w')" using assms by (rule trans [OF sym])
    qed
    have named_paid: "\<exists>number trade. callback_names (payment_registry x c) name params w number trade
        \<and> order_paid number trade (db w) (db w')" if "order_paid n t (db w) (db w')"
      by (rule exI [of _ n], rule exI [of _ t]) (simp add: names that)
    show ?thesis
    proof (cases r)
      case (Inl e)
      then show ?thesis using outcome named_paid by (simp add: panicked_def) blast
    next
      case (Inr z)
      then show ?thesis using outcome named_paid by (cases z) (simp add: answered_def)
    qed
  qed
qed

definition callback_world :: "database world" where
  "callback_world = license_world\<lparr>db := empty_database\<lparr>tb_orders := [(license_order ''o1'' ''K'' 100 OrderTypeNew)\<lparr>or_ID := 1\<rparr>],
     tb_licenses := [sold_license]\<rparr>\<rparr>"

lemma callback_effect_witness:
  "\<exists>y. y \<in> set (tb_orders (db callback_world)) \<and> or_OutTradeNo y = ''o1'' \<and> (\<exists>now.
     tb_orders (db (snd (HandleCallback (payment_registry sample_externals production_settings) ''wechat''
       [(''out_trade_no'', ''o1''), (''transaction_id'', ''t1'')] callback_world)))
     = replace_row or_ID (y\<lparr>or_Status := OrderStatusPaid, or_TradeNo := ''t1'', or_PaidAt := Some now\<rparr>)
         (tb_orders (db callback_world)))"
proof -
  let ?reg = "payment_registry sample_externals production_settings" and ?params = "[(''out_trade_no'', ''o1''), (''transaction_id'', ''t1'')]"
  let ?r = "HandleCallback ?reg ''wechat'' ?params callback_world"
  have "case fst ?r of Inl e \<Rightarrow> False | Inr (ct, body, code) \<Rightarrow> code = 200" by code_simp
  then obtain ct body where "?r = (Inr (ct, body, 200), snd ?r)"
    by (cases ?r) (auto split: sum.splits)
  note effect = callback_effect [OF this]
  have number: "case Registry_Get ?reg ''wechat'' of Inl e \<Rightarrow> False
      | Inr p \<Rightarrow> (case fst (pp_VerifyCallback p ?params callback_world) of
          Inl e \<Rightarrow> False | Inr (n, t, a) \<Rightarrow> n = ''o1'' \<and> t = ''t1'')" by code_simp
  have unpaid: "\<forall>y\<in>set (tb_orders (db callback_world)). or_Status y \<noteq> OrderStatusPaid" by code_simp
  from effect number unpaid show ?thesis
    by (auto simp: callback_names_def order_paid_def split: sum.splits)
qed

end
