(* ===== verification/Production_Theorems.thy ===== *)
theory Production_Theorems
  imports Gateway_Theorems
begin

text \<open>
  What the process guarantees about its payment webhooks and what a validated production
  configuration guarantees about the process that is built from it.
\<close>

section \<open>The registered providers\<close>

lemma registry_steps:
  "name \<noteq> ''alipay'' \<Longrightarrow> Registry_Get (register_alipay x c r) name = Registry_Get r name"
  "name \<noteq> ''creem'' \<Longrightarrow> Registry_Get (register_creem x c r) name = Registry_Get r name"
  "name \<noteq> ''mock'' \<Longrightarrow> Registry_Get (register_mock c r) name = Registry_Get r name"
  "name \<noteq> ''wechat'' \<Longrightarrow> Registry_Get (register_wechat x c r) name = Registry_Get r name"
  by (auto simp: register_wechat_def register_alipay_def register_creem_def register_mock_def Let_def
      Registry_Get_Register Registry_Get_RegisterStatus split: sum.split)

lemma registry_creem:
  "Registry_Get (payment_registry x c) ''creem''
     = (case NewCreemAdapter (xt_http x) (xt_mac x)
          (creem_settings (zc_Payment c) (checkoutVisibleSKUCodes DefaultProductCatalog)) of
          Inr a \<Rightarrow> Inr (creem_provider a)
        | Inl e \<Rightarrow> Registry_Get NewProviderRegistry ''creem'')"
  by (simp add: payment_registry_def registry_steps) 
     (simp add: register_creem_def Let_def Registry_Get_Register Registry_Get_RegisterStatus split: sum.split)

lemma registry_wechat_mock:
  "Wechat_Validate (WechatConfig (zc_Payment c)) \<noteq> None
    \<Longrightarrow> Registry_Get (payment_registry x c) ''wechat'' = Inr wechat_mock"
  by (simp add: payment_registry_def registry_steps register_wechat_def Let_def Registry_Get_Register)

lemma HasProvider_iff: "HasProvider r name \<longleftrightarrow> (\<exists>p. Registry_Get r name = Inr p)"
  by (auto simp: HasProvider_def Registry_Get_def split: option.splits)

lemma registry_mock: "se_Env (zc_Server c) = ProductionEnv \<Longrightarrow> \<not> HasProvider (payment_registry x c) ''mock''"
  by (simp add: HasProvider_iff payment_registry_def registry_steps register_mock_def Let_def)

lemma NewCreemAdapter_fields:
  assumes "NewCreemAdapter http mac s = Inr a"
  shows "cz_mac a = mac" "cz_webhookSecret a = trim_space (cg_WebhookSecret s)"
    "cz_sandboxMode a = cg_SandboxMode s" "cz_apiKey a = trim_space (cg_APIKey s)"
    "creemProductMap (cg_ProductIDs s) (cg_ProductMapJSON s) = Inr (cz_productIDs a)"
    "cz_apiBaseURL a = normalizeCreemAPIBaseURL (cg_APIBaseURL s) (cg_SandboxMode s)"
  using assms by (auto simp: NewCreemAdapter_def Let_def split: sum.splits option.splits if_splits)

section \<open>Forged webhooks\<close>

definition creem_signed :: "externals \<Rightarrow> Config \<Rightarrow> PaymentWebhookInput \<Rightarrow> bool" where
  "creem_signed x c i \<longleftrightarrow>
     hex_decode (trim_space (headerValue (wi_Headers i) ''creem-signature''))
       = Some (xt_mac x (trim_space (pz_CreemWebhookSecret (zc_Payment c))) (wi_RawPayload i))"

lemma unsigned_creem_event:
  assumes "\<not> creem_signed x c i" "wi_Provider i = ''creem''"
  shows "\<exists>e. payment_gateway w (payment_registry x c) i = Inl e"
proof (cases "NewCreemAdapter (xt_http x) (xt_mac x)
    (creem_settings (zc_Payment c) (checkoutVisibleSKUCodes DefaultProductCatalog))")
  case (Inl e)
  obtain e' where "Registry_Get NewProviderRegistry ''creem'' = Inl e'"
    by (simp add: Registry_Get_def NewProviderRegistry_def)
  with Inl show ?thesis
    using assms(2) by (simp add: payment_gateway_def Payment_VerifyWebhookEvent_def GetProvider_def registry_creem
        of_sum_def andThen_def fail_def)
next
  case (Inr a)
  have "\<not> verifyCreemSignature (cz_mac a) (wi_RawPayload i) (cz_webhookSecret a)
      (headerValue (wi_Headers i) ''creem-signature'')"
    using assms(1) NewCreemAdapter_fields(1,2) [OF Inr]
    by (auto simp: creem_signed_def verifyCreemSignature_def creem_settings_def split: option.split)
  with Inr show ?thesis
    using assms(2) by (simp add: payment_gateway_def Payment_VerifyWebhookEvent_def GetProvider_def registry_creem
        of_sum_def andThen_def fail_def ret_def creem_provider_def Creem_VerifyWebhookEvent_def webhook_request_def
        reject_if_def Let_def)
qed

text \<open>C7: A webhook in the name of Creem whose signature is not the keyed hash of its payload under the
  secret of the process is answered with an error and changes nothing, whatever the configuration.\<close>

theorem forged_webhook_rejected:
  assumes "\<not> creem_signed x c (i\<lparr>wi_Provider := trim_space (wi_Provider i)\<rparr>)"
    and "trim_space (wi_Provider i) = ''creem''"
  shows "\<exists>e. ReceiveWebhook \<lparr>es_gateway = Some (payment_gateway w0 (payment_registry x c)), es_processor = processor\<rparr> i w
    = (Inl e, w)"
  using unsigned_creem_event [OF assms(1), of w0] assms(2)
  by (auto simp: ReceiveWebhook_def Let_def andThen_def reject_if_def ret_def fail_def of_sum_def)

section \<open>Unsigned webhooks in production\<close>

text \<open>C39: The validation of a production configuration does not ask for the credentials of WeChat Pay;
  without them the process takes any webhook in its name for a verified event, of the order and of
  the kind that the sender names, and without an amount.\<close>

theorem unsigned_wechat_webhook_accepted:
  assumes "ValidateProduction c0 = None" "map_value params ''out_trade_no'' \<noteq> []"
  defines "c \<equiv> c0\<lparr>zc_Payment := (zc_Payment c0)\<lparr>pz_WechatMchID := []\<rparr>\<rparr>"
  shows "ValidateProduction c = None
    \<and> (\<exists>v. payment_gateway w (payment_registry x c)
           \<lparr>wi_Provider = ''wechat'', wi_Headers = headers, wi_Params = params, wi_RawPayload = payload\<rparr> = Inr (Some v)
        \<and> ve_SignatureVerified v \<and> ve_OutTradeNo v = map_value params ''out_trade_no'' \<and> ve_Amount v = 0
        \<and> ve_EventType v = (if trim_space (map_value params ''event_type'') = [] then EventTypePaid
                             else trim_space (map_value params ''event_type'')))"
proof
  have "validateProductionCreem (zc_Payment c) = validateProductionCreem (zc_Payment c0)"
    unfolding validateProductionCreem_def validateProductionCreemEnvironment_def by (simp add: c_def)
  then have same: "production_violations c = production_violations c0" by (simp add: production_violations_def c_def)
  show "ValidateProduction c = None"
    using assms(1) same by (simp add: c_def ValidateProduction_def split: if_splits)
  have "Wechat_Validate (WechatConfig (zc_Payment c)) \<noteq> None"
    by (simp add: c_def Wechat_Validate_def WechatConfig_def missing_credential_def)
  from registry_wechat_mock [OF this, of x] show "\<exists>v. payment_gateway w (payment_registry x c)
           \<lparr>wi_Provider = ''wechat'', wi_Headers = headers, wi_Params = params, wi_RawPayload = payload\<rparr> = Inr (Some v)
        \<and> ve_SignatureVerified v \<and> ve_OutTradeNo v = map_value params ''out_trade_no'' \<and> ve_Amount v = 0
        \<and> ve_EventType v = (if trim_space (map_value params ''event_type'') = [] then EventTypePaid
                             else trim_space (map_value params ''event_type''))"
    using assms(2) by (simp add: payment_gateway_def Payment_VerifyWebhookEvent_def GetProvider_def of_sum_def
        andThen_def ret_def wechat_mock_def Wechat_mock_VerifyCallback_def webhook_request_def legacy_event_def
        reject_if_def Let_def)
qed

section \<open>Texts\<close>

lemma is_space_lower [simp]: "is_space (lower_char c) = is_space c"
  by (cases c) (auto simp: lower_char_def is_space_def Let_def char_of_def of_char_def)

lemma lower_lower [simp]: "lower_char (lower_char c) = lower_char c"
  by (auto simp: lower_char_def Let_def of_char_of)

lemma to_lower_idem [simp]: "to_lower (to_lower s) = to_lower s"
  by (simp add: to_lower_def)

lemma trim_to_lower: "trim_space (to_lower s) = to_lower (trim_space s)"
  by (simp add: trim_space_def to_lower_def rev_map dropWhile_map comp_def)

lemma trim_space_split: "\<exists>a b. s = a @ trim_space s @ b"
proof -
  let ?t = "dropWhile is_space s"
  have "s = takeWhile is_space s @ ?t" by simp
  also have "?t = trim_space s @ rev (takeWhile is_space (rev ?t))"
    unfolding trim_space_def by (metis rev_append rev_rev_ident takeWhile_dropWhile_id)
  finally show ?thesis by blast
qed

lemma contains_text_iff: "contains_text s t \<longleftrightarrow> (\<exists>a b. s = a @ t @ b)"
proof (induction s)
  case (Cons c s)
  have here: "has_prefix (c # s) t \<longleftrightarrow> (\<exists>b. c # s = t @ b)"
    unfolding has_prefix_def by (metis append_eq_conv_conj append_take_drop_id)
  have "(\<exists>a b. c # s = a @ t @ b) \<longleftrightarrow> (\<exists>b. c # s = t @ b) \<or> (\<exists>a b. s = a @ t @ b)"
    by (auto simp: Cons_eq_append_conv)
  with Cons here show ?case by simp
qed simp

lemma contains_trimmed: "contains_text (to_lower (trim_space s)) t \<Longrightarrow> contains_text (to_lower s) t"
proof -
  assume "contains_text (to_lower (trim_space s)) t"
  then obtain a b where "to_lower (trim_space s) = a @ t @ b" by (auto simp: contains_text_iff)
  moreover obtain u v where "s = u @ trim_space s @ v" using trim_space_split by blast
  ultimately have "to_lower s = (to_lower u @ a) @ t @ (b @ to_lower v)"
    by (metis append.assoc map_append to_lower_def)
  then show ?thesis unfolding contains_text_iff by blast
qed

section \<open>A production configuration\<close>

lemma rule_Nil [simp]: "rule b t = [] \<longleftrightarrow> \<not> b"
  by (simp add: rule_def)

lemma visible_products: "checkoutVisibleSKUCodes DefaultProductCatalog = [SKUProOwnAIMonthly, SKUProOwnAILifetime]"
  by code_simp

lemma production_env:
  assumes "isProductionEnv (to_lower (trim_space s))"
  shows "to_lower (trim_space s) = ProductionEnv"
  using assms by (simp add: isProductionEnv_def equal_fold_def trim_to_lower) (simp add: to_lower_def lower_char_def)

text \<open>The adapter of a validated production configuration exists, and it works with live keys.\<close>

lemma production_creem:
  assumes "validateProductionCreem p = []"
  shows "\<exists>a. NewCreemAdapter http mac (creem_settings p (checkoutVisibleSKUCodes DefaultProductCatalog)) = Inr a"
proof -
  have key: "trim_space (pz_CreemAPIKey p) \<noteq> []" "trim_space (pz_CreemWebhookSecret p) \<noteq> []" "\<not> pz_CreemSandbox p"
    "validateProductionCreemEnvironment p = []"
    using assms by (simp_all add: validateProductionCreem_def)
  obtain m where m: "parseProductionCreemProductMap (pz_CreemProductMapJSON p) = Inr m"
      "missingProductionSKUMappings m = []"
    using assms by (auto simp: validateProductionCreem_def split: sum.splits)
  have products: "creemProductMap [] (pz_CreemProductMapJSON p) = Inr m"
    using m(1) by (auto simp: parseProductionCreemProductMap_def creemProductMap_def Let_def split: if_splits)
  have mapped: "trim_space (map_value m SKUProOwnAIMonthly) \<noteq> []" "trim_space (map_value m SKUProOwnAILifetime) \<noteq> []"
    using m(2) by (simp_all add: missingProductionSKUMappings_def)
  then have "m \<noteq> []" by (auto simp: map_value_def)
  moreover have "validateCreemRequiredProducts m (checkoutVisibleSKUCodes DefaultProductCatalog) = None"
    unfolding visible_products validateCreemRequiredProducts_def missing_products.simps Let_def
    using mapped by (simp add: trim_space_def is_space_def)
  moreover have "validateCreemEnvironment (normalizeCreemAPIBaseURL (pz_CreemAPIBaseURL p) False)
      (trim_space (pz_CreemAPIKey p)) False = None"
    using key(3,4) by (auto simp: validateProductionCreemEnvironment_def validateCreemEnvironment_def Let_def
        dest: contains_trimmed)
  ultimately show ?thesis
    using key products by (auto simp: NewCreemAdapter_def creem_settings_def Let_def)
qed

lemma concat_map_Nil: "concat (List.map f xs) = [] \<longleftrightarrow> (\<forall>x\<in>set xs. f x = [])"
  by auto

lemma enumerated: "y \<in> set ys \<Longrightarrow> \<exists>i. (i, y) \<in> set (List.enumerate 0 ys)"
  by (metis (no_types) in_set_impl_in_set_zip2 length_upt enumerate_eq_zip add_0 diff_zero in_set_conv_nth
      in_set_enumerate_eq fst_conv snd_conv le0)

text \<open>An administration key that validation counts is a principal of the middleware.\<close>

lemma production_admin:
  assumes "validateProductionAdmin a = []"
  shows "\<exists>principals. principals \<noteq> [] \<and> (\<forall>p\<in>set principals. trim_space (mp_APIKey p) \<noteq> [])
    \<and> configureAdminAuth a env = Inr (Some (authenticate principals))"
proof -
  let ?ps = "buildAdminPrincipals a"
  have "\<exists>p\<in>set ?ps. trim_space (mp_APIKey p) \<noteq> []"
  proof (cases "hasAdminAPIKey a")
    case True
    then obtain k where k: "k \<in> set (ad_APIKeys a)" "trim_space k \<noteq> []" by (auto simp: hasAdminAPIKey_def list_ex_iff)
    with enumerated [OF k(1)] show ?thesis by (force simp: buildAdminPrincipals_def PrincipalsFromAPIKeys_def)
  next
    case False
    with assms show ?thesis
      by (force simp: validateProductionAdmin_def hasScopedAdminPrincipal_def list_ex_iff buildAdminPrincipals_def)
  qed
  then obtain p where p: "p \<in> set ?ps" "trim_space (mp_APIKey p) \<noteq> []" by blast
  from enumerated [OF p(1)] p(2) have "normalizeAdminPrincipals ?ps \<noteq> []"
    by (force simp: normalizeAdminPrincipals_def filter_empty_conv)
  moreover have "\<forall>p\<in>set (normalizeAdminPrincipals ?ps). trim_space (mp_APIKey p) \<noteq> []"
    by (auto simp: normalizeAdminPrincipals_def)
  moreover have "?ps \<noteq> []" using p(1) by auto
  ultimately show ?thesis
    by (intro exI [of _ "normalizeAdminPrincipals ?ps"])
       (simp add: configureAdminAuth_def APIKeyAuthPrincipals_def Let_def)
qed

lemma production_origin: "validateProductionCORSOrigin origin = [] \<Longrightarrow> https_url (trim_space origin)"
  unfolding validateProductionCORSOrigin_def Let_def https_origin_def by (simp split: if_splits)

text \<open>C6: A configuration that loads in production yields a process that works and is guarded: the Creem adapter
  exists, out of sandbox mode and with a product for every SKU of the checkout; there is no mock checkout;
  the administration routes ask for a key; snapshots are signed with the asymmetric scheme; requests
  are limited; only https origins may call from a browser.\<close>

theorem production_config_sound:
  assumes "Load viper env = Inr c" "isProductionEnv (se_Env (zc_Server c))"
  shows "(\<exists>a. Registry_Get (payment_registry x c) ''creem'' = Inr (creem_provider a) \<and> \<not> cz_sandboxMode a
        \<and> (\<forall>sku\<in>set (checkoutVisibleSKUCodes DefaultProductCatalog). trim_space (map_value (cz_productIDs a) sku) \<noteq> []))
    \<and> \<not> HasProvider (payment_registry x c) ''mock''
    \<and> (\<exists>principals. principals \<noteq> [] \<and> (\<forall>p\<in>set principals. trim_space (mp_APIKey p) \<noteq> [])
        \<and> configureAdminAuth (zc_Admin c) (se_Env (zc_Server c)) = Inr (Some (authenticate principals)))
    \<and> buildAccessSnapshotSigner mac parse (Some c)
        = NewEd25519AccessSnapshotSigner (parse (ax_SnapshotPrivateKey (zc_Access c))) (ax_SnapshotKeyID (zc_Access c))
    \<and> rt_Enabled (zc_RateLimit c) \<and> 0 < rt_MaxTokens (zc_RateLimit c) \<and> 0 < rt_RefillRate (zc_RateLimit c)
    \<and> hp_CORSAllowedOrigins (zc_HTTP c) \<noteq> []
    \<and> (\<forall>origin\<in>set (hp_CORSAllowedOrigins (zc_HTTP c)). https_url (trim_space origin))"
proof -
  obtain c0 where c0: "with_environment env c0 = Inr c"
    using assms(1) by (auto simp: Load_def split: sum.splits option.splits)
  then have "\<exists>s. se_Env (zc_Server c) = to_lower (trim_space s)"
    by (auto simp: with_environment_def env_server_def split: sum.splits)
  with assms(2) production_env have prod: "se_Env (zc_Server c) = ProductionEnv" by auto
  have "ValidateProduction c = None" using assms(1) c0 by (auto simp: Load_def split: sum.splits option.splits)
  then have valid: "production_violations c = []"
    using assms(2) by (auto simp: ValidateProduction_def Let_def split: if_splits)
  then have parts: "validateProductionHTTP (zc_HTTP c) = []" "validateProductionAdmin (zc_Admin c) = []"
    "validateProductionRateLimit (zc_RateLimit c) = []" "validateProductionAccess (zc_Access c) = []"
    "validateProductionCreem (zc_Payment c) = []"
    by (simp_all add: production_violations_def)
  obtain a where a: "NewCreemAdapter (xt_http x) (xt_mac x)
      (creem_settings (zc_Payment c) (checkoutVisibleSKUCodes DefaultProductCatalog)) = Inr a"
    using production_creem [OF parts(5)] by blast
  have creem: "Registry_Get (payment_registry x c) ''creem'' = Inr (creem_provider a)" by (simp add: registry_creem a)
  have live: "\<not> cz_sandboxMode a"
    using NewCreemAdapter_fields(3) [OF a] parts(5) by (simp add: creem_settings_def validateProductionCreem_def)
  have mapped: "trim_space (map_value (cz_productIDs a) sku) \<noteq> []"
    if "sku \<in> set (checkoutVisibleSKUCodes DefaultProductCatalog)" for sku
    using that parts(5) NewCreemAdapter_fields(5) [OF a] unfolding visible_products
    by (auto simp: creem_settings_def validateProductionCreem_def missingProductionSKUMappings_def
        parseProductionCreemProductMap_def creemProductMap_def Let_def split: if_splits sum.splits)
  have signer: "buildAccessSnapshotSigner mac parse (Some c)
        = NewEd25519AccessSnapshotSigner (parse (ax_SnapshotPrivateKey (zc_Access c))) (ax_SnapshotKeyID (zc_Access c))"
    using parts(4) by (auto simp: validateProductionAccess_def buildAccessSnapshotSigner_def Let_def)
  have limits: "rt_Enabled (zc_RateLimit c)" "0 < rt_MaxTokens (zc_RateLimit c)" "0 < rt_RefillRate (zc_RateLimit c)"
    using parts(3) by (auto simp: validateProductionRateLimit_def)
  have origins: "hp_CORSAllowedOrigins (zc_HTTP c) \<noteq> []"
    "\<And>origin. origin \<in> set (hp_CORSAllowedOrigins (zc_HTTP c)) \<Longrightarrow> https_url (trim_space origin)"
    using parts(1) unfolding validateProductionHTTP_def append_is_Nil_conv concat_map_Nil rule_Nil
    by (auto dest: production_origin)
  show ?thesis
  proof (intro conjI registry_mock [OF prod] production_admin [OF parts(2)] signer limits origins(1))
    show "\<exists>a. Registry_Get (payment_registry x c) ''creem'' = Inr (creem_provider a) \<and> \<not> cz_sandboxMode a
        \<and> (\<forall>sku\<in>set (checkoutVisibleSKUCodes DefaultProductCatalog). trim_space (map_value (cz_productIDs a) sku) \<noteq> [])"
      by (rule exI [of _ a], intro conjI ballI creem live mapped)
    show "\<forall>origin\<in>set (hp_CORSAllowedOrigins (zc_HTTP c)). https_url (trim_space origin)"
      by (intro ballI origins(2))
  qed
qed

abbreviation loaded_settings :: Config where
  "loaded_settings \<equiv> projr (Load (Inr production_settings) (\<lambda>_. []))"

lemma settings_load: "Load (Inr production_settings) (\<lambda>_. []) = Inr loaded_settings"
proof -
  have "\<not> isl (Load (Inr production_settings) (\<lambda>_. []))" by code_simp
  then show ?thesis by (cases "Load (Inr production_settings) (\<lambda>_. [])") simp_all
qed

lemma settings_production: "isProductionEnv (se_Env (zc_Server loaded_settings))"
  by code_simp

lemma production_config_sound_witness:
  "\<exists>a. Registry_Get (payment_registry sample_externals loaded_settings) ''creem'' = Inr (creem_provider a)"
  using production_config_sound [OF settings_load settings_production] by blast

lemma unsigned_wechat_webhook_accepted_witness:
  "\<exists>c v. ValidateProduction c = None
     \<and> payment_gateway license_world (payment_registry sample_externals c)
         \<lparr>wi_Provider = ''wechat'', wi_Headers = [], wi_Params = [(''out_trade_no'', ''o1'')], wi_RawPayload = []\<rparr> = Inr (Some v)
     \<and> ve_EventType v = EventTypePaid"
proof -
  have "ValidateProduction loaded_settings = None"
    using settings_load by (auto simp: Load_def split: sum.splits option.splits)
  from unsigned_wechat_webhook_accepted [OF this, of "[(''out_trade_no'', ''o1'')]" license_world sample_externals "[]" "[]"]
  show ?thesis by (auto simp: map_value_def)
qed

lemma forged_webhook_rejected_witness:
  "\<exists>e. ReceiveWebhook \<lparr>es_gateway = Some (payment_gateway license_world (payment_registry sample_externals loaded_settings)),
      es_processor = None\<rparr>
    \<lparr>wi_Provider = ''creem'', wi_Headers = [(''creem-signature'', ''00'')], wi_Params = [], wi_RawPayload = ''p''\<rparr> license_world
    = (Inl e, license_world)"
proof (rule forged_webhook_rejected)
  show "trim_space (wi_Provider \<lparr>wi_Provider = ''creem'', wi_Headers = [(''creem-signature'', ''00'')], wi_Params = [],
    wi_RawPayload = ''p''\<rparr>) = ''creem''" by code_simp
  have "hex_decode (trim_space (headerValue [(''creem-signature'', ''00'')] ''creem-signature'')) = Some [CHR 0x00]" by code_simp
  then show "\<not> creem_signed sample_externals loaded_settings (\<lparr>wi_Provider = ''creem'',
      wi_Headers = [(''creem-signature'', ''00'')], wi_Params = [], wi_RawPayload = ''p''\<rparr>
      \<lparr>wi_Provider := trim_space (wi_Provider \<lparr>wi_Provider = ''creem'', wi_Headers = [(''creem-signature'', ''00'')],
        wi_Params = [], wi_RawPayload = ''p''\<rparr>)\<rparr>)"
    by (auto simp: creem_signed_def sample_externals_def append_eq_Cons_conv)
qed

section \<open>Administration routes\<close>

text \<open>C33: In production a route of the administration lets a request pass only with the key of a configured
  principal, given as a bearer token, and only when that principal has the permission of the route;
  every other request is answered with the status 401 or 403.\<close>

theorem admin_route_guarded:
  assumes "configureAdminAuth a ProductionEnv = Inr auth"
  shows "case admin_route auth permission header of
      Pass who \<Rightarrow> \<exists>p\<in>set (normalizeAdminPrincipals (buildAdminPrincipals a)).
        mp_APIKey p \<noteq> [] \<and> header = ''Bearer '' @ mp_APIKey p \<and> PrincipalHasPermission p permission
    | Abort status \<Rightarrow> status = 401 \<or> status = 403"
proof -
  let ?ps = "normalizeAdminPrincipals (buildAdminPrincipals a)"
  have auth: "auth = Some (authenticate ?ps)"
    using assms by (auto simp: configureAdminAuth_def APIKeyAuthPrincipals_def Let_def split: if_splits)
  have key: "mp_APIKey p \<noteq> []" if "p \<in> set ?ps" for p using that by (auto simp: normalizeAdminPrincipals_def)
  have bearer: "header = ''Bearer '' @ key" if "cut_at (CHR '' '') header = (''Bearer'', key)" "CHR '' '' \<in> set header" for key
  proof -
    have "dropWhile (\<lambda>x. x \<noteq> CHR '' '') header \<noteq> []" using that(2) by simp
    then have "dropWhile (\<lambda>x. x \<noteq> CHR '' '') header = CHR '' '' # key"
      using that(1) hd_dropWhile [of "\<lambda>x. x \<noteq> CHR '' ''" header]
      by (cases "dropWhile (\<lambda>x. x \<noteq> CHR '' '') header") (simp_all add: cut_at_def)
    with that(1) show ?thesis
      using takeWhile_dropWhile_id [of "\<lambda>x. x \<noteq> CHR '' ''" header] by (simp add: cut_at_def)
  qed
  show ?thesis
  proof (cases "authenticate ?ps header")
    case (Abort status)
    then show ?thesis
      by (auto simp: auth admin_route_def authenticate_def split: prod.splits option.splits if_splits)
  next
    case (Pass who)
    then obtain p where p: "p \<in> set ?ps" "who = withoutSecret p" "header = ''Bearer '' @ mp_APIKey p"
      using bearer by (auto simp: authenticate_def split: prod.splits option.splits if_splits dest!: find_found)
    show ?thesis
      unfolding auth admin_route_def option.case Pass outcome.case
      using p key [OF p(1)]
      by (auto simp: permissionGate_def RequirePermission_def PrincipalHasPermission_def withoutSecret_def)
  qed
qed

lemma admin_route_guarded_witness:
  "\<exists>p\<in>set (normalizeAdminPrincipals (buildAdminPrincipals (zc_Admin production_settings))).
     ''Bearer a'' = ''Bearer '' @ mp_APIKey p \<and> PrincipalHasPermission p ''admin.licenses.read''"
proof -
  let ?r = "configureAdminAuth (zc_Admin production_settings) ProductionEnv"
  have "\<not> isl ?r" by code_simp
  then have auth: "?r = Inr (projr ?r)" by (cases ?r) simp_all
  have "case admin_route (projr ?r) ''admin.licenses.read'' ''Bearer a'' of Pass who \<Rightarrow> True | Abort s \<Rightarrow> False"
    by code_simp
  with admin_route_guarded [OF auth, where permission = "''admin.licenses.read''" and header = "''Bearer a''"] show ?thesis
    by (auto split: outcome.splits)
qed

end
