(* ===== verification/License_SDK.thy ===== *)
theory License_SDK
  imports Creem
begin

text \<open>
  The client library of the license endpoints: sdk/client.go, config.go, device.go, retry.go and
  verify.go.  The HTTP client, the context of a call (whether it is done, how it sleeps, its random
  numbers) and the name of the machine are parameters.  A client is a value: the methods give the
  client they leave behind.
\<close>

section \<open>Configuration\<close>

record SdkConfig =
  kc_BaseURL :: string
  kc_LicenseKey :: string
  kc_DeviceID :: string
  kc_OfflineGracePeriod :: int
  kc_MaxRetries :: int
  kc_Timeout :: int

definition defaultConfig :: "string \<Rightarrow> SdkConfig" where
  "defaultConfig licenseKey =
     \<lparr>kc_BaseURL = ''http://localhost:8082'', kc_LicenseKey = licenseKey, kc_DeviceID = [],
      kc_OfflineGracePeriod = 24 * hour_ns, kc_MaxRetries = 3, kc_Timeout = 10 * second_ns\<rparr>"

text \<open>An option changes the configuration.\<close>

type_synonym sdk_option = "SdkConfig \<Rightarrow> SdkConfig"

definition WithBaseURL :: "string \<Rightarrow> sdk_option" where "WithBaseURL url c = c\<lparr>kc_BaseURL := url\<rparr>"
definition WithDeviceID :: "string \<Rightarrow> sdk_option" where "WithDeviceID i c = c\<lparr>kc_DeviceID := i\<rparr>"
definition WithOfflineGracePeriod :: "int \<Rightarrow> sdk_option" where
  "WithOfflineGracePeriod d c = c\<lparr>kc_OfflineGracePeriod := d\<rparr>"
definition WithMaxRetries :: "int \<Rightarrow> sdk_option" where "WithMaxRetries n c = c\<lparr>kc_MaxRetries := n\<rparr>"
definition WithTimeout :: "int \<Rightarrow> sdk_option" where "WithTimeout d c = c\<lparr>kc_Timeout := d\<rparr>"

section \<open>The client\<close>

record VerifyResult =
  vt_IsValid :: bool
  vt_ServerStatus :: string
  vt_ExpiresAt :: instant
  vt_IsOffline :: bool
  vt_Error :: string

record ActivateResult =
  an_Success :: bool
  an_Error :: string
  an_DeviceID :: string
  an_MaxSeats :: int

record SdkClient =
  cn_cfg :: SdkConfig
  cn_cache :: "VerifyResult option"
  cn_cachedAt :: instant

record sdk_context =
  xd_http :: http_client
  xd_done :: "err option service"
  xd_sleep :: "int \<Rightarrow> err option service"
  xd_random :: "int \<Rightarrow> int service"

definition hex_byte :: "8 word \<Rightarrow> string" where
  "hex_byte b = [hex_digit (unat b div 16), hex_digit (unat b mod 16)]"

text \<open>\<open>machine\<close> is the platform and the name of the host; without entropy the suffix is zero.\<close>

definition defaultDeviceID :: "string \<times> string \<Rightarrow> string service" where
  "defaultDeviceID machine w =
     (let bytes = (case entropy w (tick w) of None \<Rightarrow> [0, 0, 0, 0] | Some bs \<Rightarrow> take 4 bs);
          hostname = (if snd machine = [] then ''unknown'' else snd machine)
      in (Inr (fst machine @ ''-'' @ hostname @ ''-'' @ concat (List.map hex_byte bytes)), next_tick w))"

definition SanitizeDeviceID :: "string \<Rightarrow> string" where
  "SanitizeDeviceID i = trim_space i"

definition NewClient :: "string \<times> string \<Rightarrow> string \<Rightarrow> sdk_option list \<Rightarrow> SdkClient service" where
  "NewClient machine licenseKey opts =
     (let cfg = fold (\<lambda>opt c. opt c) opts (defaultConfig licenseKey)
      in andThen (reject_if (kc_LicenseKey cfg = []) (Errorf ''sdk: license key is required'')) (\<lambda>_.
         andThen (if kc_DeviceID cfg = [] then defaultDeviceID machine else ret (kc_DeviceID cfg)) (\<lambda>i.
         ret \<lparr>cn_cfg = cfg\<lparr>kc_DeviceID := i\<rparr>, cn_cache = None, cn_cachedAt = 0\<rparr>)))"

section \<open>Requests with retries\<close>

text \<open>The delay before an attempt: doubled each time up to five seconds, and up to half of it on top.\<close>

definition backoff_delay :: "int \<Rightarrow> int" where
  "backoff_delay attempt0 = min (100000000 * 2 ^ nat attempt0) (5 * second_ns)"

definition calcBackoff :: "sdk_context \<Rightarrow> int \<Rightarrow> int service" where
  "calcBackoff x attempt0 =
     (let delay = backoff_delay attempt0
      in andThen (xd_random x (delay div 2)) (\<lambda>jitter. ret (delay + jitter)))"

text \<open>The answer to a request: the responses read so far and the error, if any.\<close>

definition doRequest ::
  "sdk_context \<Rightarrow> SdkConfig \<Rightarrow> string \<Rightarrow> string \<Rightarrow> (string \<Rightarrow> 'r \<Rightarrow> bool \<times> 'r) \<Rightarrow> 'r \<Rightarrow> ('r \<times> err option) service" where
  "doRequest x cfg path body decode result =
     andThen (attempt (xd_http x \<lparr>hr_Method = ''POST'', hr_URL = kc_BaseURL cfg @ path,
       hr_Headers = [(''Content-Type'', ''application/json'')], hr_Body = body\<rparr>)) (\<lambda>r.
     case r of
       Inl e \<Rightarrow> ret (result, Some e)
     | Inr (status, answer) \<Rightarrow>
         if 500 \<le> status then ret (result, Some (Errorf (''server error: status '' @ string_of_int status)))
         else if 400 \<le> status
         then ret (result, Some (Errorf (''client error: status '' @ string_of_int status @ '', body: '' @ answer)))
         else (case decode answer result of
                 (ok, result') \<Rightarrow> ret (result', if ok then None else Some (Errorf ''unmarshal response''))))"

text \<open>Before every attempt but the first the call waits; the context can end it at any point.\<close>

definition pause :: "sdk_context \<Rightarrow> int \<Rightarrow> err option service" where
  "pause x attempt0 =
     andThen (xd_done x) (\<lambda>over.
     case over of
       Some e \<Rightarrow> ret (Some e)
     | None \<Rightarrow> if 0 < attempt0 then andThen (calcBackoff x attempt0) (xd_sleep x) else ret None)"

definition retries_failed :: "int \<Rightarrow> err option \<Rightarrow> err" where
  "retries_failed maxRetries lastErr =
     (let prefix = ''sdk: request failed after '' @ string_of_int maxRetries @ '' retries: ''
      in case lastErr of None \<Rightarrow> Errorf (prefix @ ''%!w(<nil>)'') | Some e \<Rightarrow> Wrapped (prefix @ error_text e) e)"

function retry_loop ::
  "sdk_context \<Rightarrow> int \<Rightarrow> ('r \<Rightarrow> ('r \<times> err option) service) \<Rightarrow> int \<Rightarrow> 'r \<Rightarrow> err option \<Rightarrow> ('r \<times> err option) service" where
  "retry_loop x maxRetries call attempt0 result lastErr =
     (if maxRetries < attempt0 then ret (result, Some (retries_failed maxRetries lastErr))
      else andThen (pause x attempt0) (\<lambda>over.
           case over of
             Some e \<Rightarrow> ret (result, Some e)
           | None \<Rightarrow>
               andThen (call result) (\<lambda>(result', r).
               case r of
                 None \<Rightarrow> ret (result', None)
               | Some e \<Rightarrow> retry_loop x maxRetries call (attempt0 + 1) result' (Some e))))"
  by pat_completeness auto
termination by (relation "measure (\<lambda>(x, m, c, a, r, e). nat (m + 1 - a))") auto

declare retry_loop.simps [simp del]

definition requestWithRetry ::
  "sdk_context \<Rightarrow> SdkConfig \<Rightarrow> string \<Rightarrow> string \<Rightarrow> (string \<Rightarrow> 'r \<Rightarrow> bool \<times> 'r) \<Rightarrow> 'r \<Rightarrow> ('r \<times> err option) service" where
  "requestWithRetry x cfg path body decode result0 =
     retry_loop x (kc_MaxRetries cfg) (doRequest x cfg path body decode) 0 result0 None"

section \<open>Responses\<close>

record verifyResponse =
  xv_Status :: string
  xv_Valid :: bool
  xv_Message :: string
  xv_ExpiresAt :: string
  xv_MaxSeats :: int

record activateResponse =
  xa_Status :: string
  xa_Message :: string
  xa_DeviceID :: string
  xa_MaxSeats :: int

text \<open>
  Decoding into a value that may hold the fields of an earlier answer: a field that is absent, null
  or of another type stays.
\<close>

definition text_into :: "string \<Rightarrow> (string \<times> json) list \<Rightarrow> string \<Rightarrow> bool \<times> string" where
  "text_into name ms old =
     foldl (\<lambda>(ok, s) v. case v of JStr t \<Rightarrow> (ok, t) | JNull \<Rightarrow> (ok, s) | _ \<Rightarrow> (False, s)) (True, old) (field_members name ms)"

definition bool_into :: "string \<Rightarrow> (string \<times> json) list \<Rightarrow> bool \<Rightarrow> bool \<times> bool" where
  "bool_into name ms old =
     foldl (\<lambda>(ok, s) v. case v of JBool b \<Rightarrow> (ok, b) | JNull \<Rightarrow> (ok, s) | _ \<Rightarrow> (False, s)) (True, old) (field_members name ms)"

definition int_into :: "string \<Rightarrow> (string \<times> json) list \<Rightarrow> int \<Rightarrow> bool \<times> int" where
  "int_into name ms old =
     foldl (\<lambda>(ok, n) v. case v of
         JNum s \<Rightarrow> (case int_literal s of Some i \<Rightarrow> (ok, i) | None \<Rightarrow> (False, n))
       | JNull \<Rightarrow> (ok, n) | _ \<Rightarrow> (False, n)) (True, old) (field_members name ms)"

definition decode_verify :: "string \<Rightarrow> verifyResponse \<Rightarrow> bool \<times> verifyResponse" where
  "decode_verify raw old =
     (case struct_members raw of
        None \<Rightarrow> (False, old)
      | Some ms \<Rightarrow>
          (case (text_into ''status'' ms (xv_Status old), bool_into ''valid'' ms (xv_Valid old),
                 text_into ''message'' ms (xv_Message old), text_into ''expires_at'' ms (xv_ExpiresAt old),
                 int_into ''max_seats'' ms (xv_MaxSeats old)) of
             ((ok1, status), (ok2, valid), (ok3, message), (ok4, expires), (ok5, seats)) \<Rightarrow>
               (ok1 \<and> ok2 \<and> ok3 \<and> ok4 \<and> ok5,
                \<lparr>xv_Status = status, xv_Valid = valid, xv_Message = message, xv_ExpiresAt = expires, xv_MaxSeats = seats\<rparr>)))"

definition decode_activate :: "string \<Rightarrow> activateResponse \<Rightarrow> bool \<times> activateResponse" where
  "decode_activate raw old =
     (case struct_members raw of
        None \<Rightarrow> (False, old)
      | Some ms \<Rightarrow>
          (case (text_into ''status'' ms (xa_Status old), text_into ''message'' ms (xa_Message old),
                 text_into ''device_id'' ms (xa_DeviceID old), int_into ''max_seats'' ms (xa_MaxSeats old)) of
             ((ok1, status), (ok2, message), (ok3, device), (ok4, seats)) \<Rightarrow>
               (ok1 \<and> ok2 \<and> ok3 \<and> ok4,
                \<lparr>xa_Status = status, xa_Message = message, xa_DeviceID = device, xa_MaxSeats = seats\<rparr>)))"

text \<open>The body of both requests.\<close>

definition license_request :: "SdkConfig \<Rightarrow> string" where
  "license_request cfg =
     marshal_string_map [(''license_key'', kc_LicenseKey cfg), (''device_id'', kc_DeviceID cfg)]"

section \<open>Verification\<close>

definition verify_result :: "verifyResponse \<Rightarrow> VerifyResult" where
  "verify_result resp =
     \<lparr>vt_IsValid = xv_Valid resp, vt_ServerStatus = xv_Status resp,
      vt_ExpiresAt = (if xv_ExpiresAt resp \<noteq> []
        then (case parse_rfc3339 (xv_ExpiresAt resp) of Some t \<Rightarrow> t | None \<Rightarrow> 0) else 0),
      vt_IsOffline = False, vt_Error = xv_Message resp\<rparr>"

definition verifyWithRetry :: "sdk_context \<Rightarrow> SdkClient \<Rightarrow> VerifyResult service" where
  "verifyWithRetry x c =
     andThen (requestWithRetry x (cn_cfg c) ''/api/v1/verify'' (license_request (cn_cfg c)) decode_verify
       \<lparr>xv_Status = [], xv_Valid = False, xv_Message = [], xv_ExpiresAt = [], xv_MaxSeats = 0\<rparr>) (\<lambda>(resp, r).
     case r of Some e \<Rightarrow> fail e | None \<Rightarrow> ret (verify_result resp))"

definition offline_failure :: "bool \<Rightarrow> string \<Rightarrow> VerifyResult" where
  "offline_failure offline message =
     \<lparr>vt_IsValid = False, vt_ServerStatus = [], vt_ExpiresAt = 0, vt_IsOffline = offline, vt_Error = message\<rparr>"

text \<open>A result and an error.\<close>

definition verifyOffline :: "SdkClient \<Rightarrow> (VerifyResult \<times> err option) service" where
  "verifyOffline c =
     (case cn_cache c of
        None \<Rightarrow> ret (offline_failure False ''sdk: no cached verification available'', Some (Errorf ''no cache''))
      | Some cached \<Rightarrow>
          if cn_cachedAt c = 0
          then ret (offline_failure False ''sdk: no cached verification available'', Some (Errorf ''no cache''))
          else andThen time_now (\<lambda>now.
               ret (if kc_OfflineGracePeriod (cn_cfg c) < time_sub now (cn_cachedAt c)
                    then (offline_failure True ''sdk: offline grace period expired'', Some (Errorf ''grace period expired''))
                    else (\<lparr>vt_IsValid = True, vt_ServerStatus = vt_ServerStatus cached, vt_ExpiresAt = vt_ExpiresAt cached,
                           vt_IsOffline = True, vt_Error = []\<rparr>, None))))"

definition Client_Verify :: "sdk_context \<Rightarrow> SdkClient \<Rightarrow> ((VerifyResult \<times> err option) \<times> SdkClient) service" where
  "Client_Verify x c =
     andThen (attempt (verifyWithRetry x c)) (\<lambda>r.
     case r of
       Inl e \<Rightarrow> andThen (verifyOffline c) (\<lambda>v. ret (v, c))
     | Inr result \<Rightarrow> andThen time_now (\<lambda>now.
         ret ((result, None), c\<lparr>cn_cache := Some result, cn_cachedAt := now\<rparr>)))"

section \<open>Activation\<close>

definition activateWithRetry :: "sdk_context \<Rightarrow> SdkClient \<Rightarrow> (ActivateResult \<times> err option) service" where
  "activateWithRetry x c =
     andThen (requestWithRetry x (cn_cfg c) ''/api/v1/activate'' (license_request (cn_cfg c)) decode_activate
       \<lparr>xa_Status = [], xa_Message = [], xa_DeviceID = [], xa_MaxSeats = 0\<rparr>) (\<lambda>(resp, r).
     ret (case r of
       Some e \<Rightarrow> (\<lparr>an_Success = False, an_Error = ''sdk: activation failed (server unreachable)'',
         an_DeviceID = kc_DeviceID (cn_cfg c), an_MaxSeats = 0\<rparr>, Some e)
     | None \<Rightarrow> (\<lparr>an_Success = (xa_Status resp = ''active''), an_Error = xa_Message resp, an_DeviceID = xa_DeviceID resp,
         an_MaxSeats = xa_MaxSeats resp\<rparr>, None)))"

definition Client_Activate :: "sdk_context \<Rightarrow> SdkClient \<Rightarrow> (ActivateResult \<times> err option) service" where
  "Client_Activate x c = activateWithRetry x c"

text \<open>A failed verification or activation gives no result.\<close>

definition VerifyAndActivate ::
  "sdk_context \<Rightarrow> SdkClient \<Rightarrow> ((VerifyResult option \<times> err option) \<times> SdkClient) service" where
  "VerifyAndActivate x c =
     andThen (Client_Verify x c) (\<lambda>((result, r), c1).
     if r \<noteq> None then ret ((None, r), c1)
     else if vt_ServerStatus result = ''active'' \<or> vt_ServerStatus result = ''grace'' then ret ((Some result, None), c1)
     else if vt_IsOffline result \<and> vt_IsValid result then ret ((Some result, None), c1)
     else if vt_ServerStatus result = ''inactive'' \<or> vt_IsValid result \<and> \<not> vt_IsOffline result
     then andThen (Client_Activate x c1) (\<lambda>(activated, actErr).
          case actErr of
            Some e \<Rightarrow>
              andThen (verifyOffline c1) (\<lambda>(cached, offErr).
              ret (if offErr = None \<and> vt_IsValid cached then ((Some cached, None), c1)
                   else ((None, Some (Wrapped (''sdk: activation failed: '' @ error_text e) e)), c1)))
          | None \<Rightarrow> andThen (Client_Verify x c1) (\<lambda>((again, r2), c2). ret ((Some again, r2), c2)))
     else ret ((Some result, None), c1))"

end
