(* ===== verification/License_API.thy ===== *)
theory License_API
  imports Payment_Gateway Creem
begin

text \<open>
  The HTTP handlers of the license and legacy order endpoints: internal/api/handler auth.go,
  deactivate.go, order.go, order_query.go, renewal.go and the license part of admin.go.  A handler
  takes the body or the parameters of a request and gives the status, the body of the response and
  the entries it records in the audit log.  The texts of decoding and validation errors are not
  modelled.
\<close>

section \<open>Requests and responses\<close>

record AuditEntry =
  ak_ID :: nat
  ak_Timestamp :: instant
  ak_Actor :: string
  ak_Action :: string
  ak_Target :: string
  ak_Details :: string
  ak_IPAddress :: string
  ak_Success :: bool

abbreviation AuditActionLicenseActivate :: string where "AuditActionLicenseActivate \<equiv> ''license.activate''"
abbreviation AuditActionLicenseVerify :: string where "AuditActionLicenseVerify \<equiv> ''license.verify''"
abbreviation AuditActionPaymentCallback :: string where "AuditActionPaymentCallback \<equiv> ''payment.callback''"

text \<open>The entry of a handler: identifier and time stay zero.\<close>

definition audit_entry :: "string \<Rightarrow> string \<Rightarrow> string \<Rightarrow> bool \<Rightarrow> string \<Rightarrow> string \<Rightarrow> AuditEntry" where
  "audit_entry actor action target success details ip =
     \<lparr>ak_ID = 0, ak_Timestamp = 0, ak_Actor = actor, ak_Action = action, ak_Target = target, ak_Details = details,
      ak_IPAddress = ip, ak_Success = success\<rparr>"

record reply =
  re_Status :: int
  re_Body :: string
  re_Audit :: "AuditEntry list"

definition reply_json :: "int \<Rightarrow> (string \<times> string) list \<Rightarrow> reply" where
  "reply_json status ms = \<lparr>re_Status = status, re_Body = raw_object ms, re_Audit = []\<rparr>"

definition reply_error :: "int \<Rightarrow> string \<Rightarrow> reply" where
  "reply_error status message = reply_json status [(''error'', json_string message)]"

text \<open>\<open>ShouldBindJSON\<close> reads the first value of the body; the required texts are not empty.\<close>

definition bind_json :: "string \<Rightarrow> (string \<times> json) list option" where
  "bind_json body =
     (case parse_value 0 body of
        Some (JObj ms, _) \<Rightarrow> Some ms | Some (JNull, _) \<Rightarrow> Some [] | _ \<Rightarrow> None)"

definition required_text :: "string \<Rightarrow> (string \<times> json) list \<Rightarrow> string option" where
  "required_text name ms = (case string_field name ms of (ok, v) \<Rightarrow> if ok \<and> v \<noteq> [] then Some v else None)"

text \<open>Requests with one and with two required texts.\<close>

definition bind_one :: "string \<Rightarrow> string \<Rightarrow> string option" where
  "bind_one a body = Option.bind (bind_json body) (required_text a)"

definition bind_two :: "string \<Rightarrow> string \<Rightarrow> string \<Rightarrow> (string \<times> string) option" where
  "bind_two a b body =
     Option.bind (bind_json body) (\<lambda>ms.
     Option.bind (required_text a ms) (\<lambda>x. map_option (Pair x) (required_text b ms)))"

definition bad_request :: reply where
  "bad_request = reply_error 400 ''invalid request''"

section \<open>Values in responses\<close>

text \<open>A time is written with its nanoseconds, without zeros at the end.\<close>

definition time_json :: "instant \<Rightarrow> string" where
  "time_json t =
     (let fraction = rev (dropWhile (\<lambda>c. c = CHR ''0'') (rev (pad_left 9 (digits_of (nat (t mod second_ns))))))
      in json_string (take 19 (format_rfc3339 t) @ (if fraction = [] then [] else ''.'' @ fraction) @ ''Z''))"

definition optional_time_json :: "instant option \<Rightarrow> string" where
  "optional_time_json t = (case t of None \<Rightarrow> ''null'' | Some x \<Rightarrow> time_json x)"

definition license_object :: "License \<Rightarrow> string" where
  "license_object l =
     raw_object
       [(''ID'', string_of_int (int (li_ID l))), (''Key'', json_string (li_Key l)),
        (''PlanCode'', json_string (li_PlanCode l)), (''Status'', json_string (li_Status l)),
        (''Validity'', json_string (li_Validity l)), (''DeviceID'', json_string (li_DeviceID l)),
        (''ActivatedAt'', optional_time_json (li_ActivatedAt l)), (''ExpiresAt'', optional_time_json (li_ExpiresAt l)),
        (''MaxSeats'', string_of_int (li_MaxSeats l))]"

definition json_list :: "string list \<Rightarrow> string" where
  "json_list vs = ''['' @ join_with '','' vs @ '']''"

text \<open>A nil slice is written as null.\<close>

definition json_slice :: "string list \<Rightarrow> string" where
  "json_slice vs = (if vs = [] then ''null'' else json_list vs)"

definition status_object :: "LicenseStatusInfo \<Rightarrow> string" where
  "status_object i =
     raw_object
       [(''key'', json_string (lo_Key i)), (''status'', json_string (lo_Status i)),
        (''validity'', json_string (lo_Validity i)), (''device_id'', json_string (lo_DeviceID i)),
        (''activated_at'', optional_time_json (lo_ActivatedAt i)), (''expires_at'', optional_time_json (lo_ExpiresAt i)),
        (''max_seats'', string_of_int (lo_MaxSeats i)), (''is_expired'', (if lo_IsExpired i then ''true'' else ''false'')),
        (''is_in_grace'', (if lo_IsInGrace i then ''true'' else ''false'')),
        (''days_remaining'', string_of_int (lo_DaysRemaining i))]"

section \<open>Licenses\<close>

definition clientIP :: "string \<Rightarrow> string" where
  "clientIP ip = (if ip = [] then ''unknown'' else ip)"

definition Auth_Verify :: "string \<Rightarrow> string \<Rightarrow> reply service" where
  "Auth_Verify ip body =
     (case bind_two ''key'' ''device_id'' body of
        None \<Rightarrow> ret bad_request
      | Some (key, deviceID) \<Rightarrow>
          andThen (attempt (Verify key deviceID)) (\<lambda>r.
          let entries = [audit_entry key AuditActionLicenseVerify key (\<not> isl r)
                (clientIP ip @ '' verify '' @ deviceID) (clientIP ip)]
          in ret ((case r of
               Inl e \<Rightarrow> reply_json 401 [(''message'', json_string (error_text e)), (''status'', json_string ''error'')]
             | Inr lic \<Rightarrow> reply_json 200 [(''expires_at'', optional_time_json (li_ExpiresAt lic)),
                 (''license'', license_object lic), (''status'', json_string ''ok'')])\<lparr>re_Audit := entries\<rparr>)))"

definition Auth_Activate :: "string \<Rightarrow> string \<Rightarrow> reply service" where
  "Auth_Activate ip body =
     (case bind_two ''key'' ''device_id'' body of
        None \<Rightarrow> ret bad_request
      | Some (key, deviceID) \<Rightarrow>
          andThen (attempt (Activate key deviceID)) (\<lambda>r.
          let entries = [audit_entry key AuditActionLicenseActivate key (\<not> isl r)
                (clientIP ip @ '' activate '' @ deviceID) (clientIP ip)]
          in ret ((case r of
               Inl e \<Rightarrow> reply_json 409 [(''message'', json_string (error_text e)), (''status'', json_string ''error'')]
             | Inr _ \<Rightarrow> reply_json 200 [(''message'', json_string ''License activated successfully''),
                 (''status'', json_string ''activated'')])\<lparr>re_Audit := entries\<rparr>)))"

definition Handler_Deactivate :: "string \<Rightarrow> reply service" where
  "Handler_Deactivate body =
     (case bind_two ''key'' ''device_id'' body of
        None \<Rightarrow> ret bad_request
      | Some (key, deviceID) \<Rightarrow>
          andThen (attempt (Deactivate key deviceID)) (\<lambda>r.
          ret (case r of
            Inl e \<Rightarrow> reply_error 409 (error_text e)
          | Inr _ \<Rightarrow> reply_json 200 [(''message'', json_string ''License deactivated successfully''),
              (''status'', json_string ''deactivated'')])))"

definition Admin_ListLicenses :: "string \<Rightarrow> reply service" where
  "Admin_ListLicenses status =
     andThen (attempt (ListLicenses status)) (\<lambda>r.
     ret (case r of
       Inl e \<Rightarrow> reply_error 500 (error_text e)
     | Inr ls \<Rightarrow> reply_json 200 [(''licenses'', json_list (List.map license_object ls)),
         (''total'', string_of_int (int (length ls)))]))"

definition Admin_GetLicense :: "string \<Rightarrow> reply service" where
  "Admin_GetLicense key =
     (if key = [] then ret (reply_error 400 ''key is required'')
      else andThen (attempt (GetLicenseByKey key)) (\<lambda>r.
           ret (case r of
             Inl e \<Rightarrow> reply_error 404 ''license not found''
           | Inr l \<Rightarrow> reply_json 200 [(''license'', license_object l)])))"

text \<open>The counts by status, with the three known ones always there; the keys are written in order.\<close>

definition status_counts :: "License list \<Rightarrow> (string \<times> nat) list" where
  "status_counts ls =
     (let keys = sort (remdups ([''total'', ''active'', ''inactive'', ''expired''] @ List.map li_Status ls))
      in List.map (\<lambda>k. (k, (if k = ''total'' then length ls else 0) + length (List.filter (\<lambda>l. li_Status l = k) ls))) keys)"

definition Admin_Stats :: "reply service" where
  "Admin_Stats =
     andThen (attempt (ListLicenses [])) (\<lambda>r.
     ret (case r of
       Inl e \<Rightarrow> reply_error 500 (error_text e)
     | Inr ls \<Rightarrow> reply_json 200 [(''stats'',
         raw_object (List.map (\<lambda>(k, n). (k, string_of_int (int n))) (status_counts ls)))]))"

definition Admin_CheckExpiry :: "reply service" where
  "Admin_CheckExpiry =
     andThen (attempt CheckExpiry) (\<lambda>r.
     ret (case r of
       Inl e \<Rightarrow> reply_error 500 (error_text e)
     | Inr n \<Rightarrow> reply_json 200 [(''expired_count'', string_of_int n),
         (''message'', json_string (''Checked and expired '' @ string_of_int n @ '' license(s)''))]))"

definition Admin_LicenseStatus :: "string \<Rightarrow> reply service" where
  "Admin_LicenseStatus key =
     (if key = [] then ret (reply_error 400 ''key is required'')
      else andThen (attempt (GetLicenseStatus key)) (\<lambda>r.
           ret (case r of
             Inl e \<Rightarrow> reply_error 404 ''license not found''
           | Inr i \<Rightarrow> reply_json 200 [(''status'', status_object i)])))"

text \<open>\<open>Sscanf\<close> with \<open>%d\<close>: the decimal number at the start of a text, if it fits.\<close>

definition scan_int :: "string \<Rightarrow> int option" where
  "scan_int s0 =
     (let s = dropWhile (\<lambda>c. c = CHR '' '' \<or> c = CHR 0x09) s0;
          u = (if take 1 s = ''-'' \<or> take 1 s = ''+'' then drop 1 s else s); ds = takeWhile json_digit u
      in if ds = [] then None else int_literal ((if take 1 s = ''-'' then ''-'' else []) @ ds))"

definition Admin_ListExpiring :: "string \<Rightarrow> reply service" where
  "Admin_ListExpiring d =
     (case (if d = [] then Some 30 else scan_int d) of
        None \<Rightarrow> ret (reply_error 400 ''invalid days parameter'')
      | Some days \<Rightarrow>
          andThen (attempt (ListExpiringSoon days)) (\<lambda>r.
          ret (case r of
            Inl e \<Rightarrow> reply_error 500 (error_text e)
          | Inr ls \<Rightarrow> reply_json 200 [(''days'', string_of_int days), (''licenses'', json_slice (List.map status_object ls)),
              (''total'', string_of_int (int (length ls)))])))"

section \<open>Orders\<close>

definition Handler_CreateOrder :: "KeyGeneratorFactory \<Rightarrow> string \<Rightarrow> reply service" where
  "Handler_CreateOrder factory body =
     (case bind_one ''product_code'' body of
        None \<Rightarrow> ret bad_request
      | Some code \<Rightarrow>
          andThen (attempt (Order_Create factory code)) (\<lambda>r.
          ret (case r of
            Inl e \<Rightarrow> reply_error 400 (error_text e)
          | Inr x \<Rightarrow> reply_json 201
              [(''message'', json_string ''Order created. Complete payment to activate.''),
               (''order'', raw_object [(''amount'', string_of_int (or_Amount x)), (''currency'', json_string (or_Currency x)),
                  (''license_key'', json_string (or_LicenseKey x)), (''out_trade_no'', json_string (or_OutTradeNo x)),
                  (''status'', json_string (or_Status x))])])))"

definition known_wallet :: "string \<Rightarrow> bool" where
  "known_wallet provider \<longleftrightarrow> provider = ''wechat'' \<or> provider = ''alipay''"

definition Handler_GetPaymentURL :: "ProviderRegistry \<Rightarrow> string \<Rightarrow> reply service" where
  "Handler_GetPaymentURL registry body =
     (case bind_two ''out_trade_no'' ''provider'' body of
        None \<Rightarrow> ret bad_request
      | Some (outTradeNo, provider) \<Rightarrow>
          if \<not> known_wallet provider then ret bad_request
          else andThen (attempt (CreatePayment registry outTradeNo provider)) (\<lambda>r.
               ret (case r of
                 Inl e \<Rightarrow> reply_error 400 (error_text e)
               | Inr url \<Rightarrow> reply_json 200 [(''payment_url'', json_string url), (''provider'', json_string provider)])))"

text \<open>The parameters are those of the query: the form of a request is not read before its use.\<close>

definition PaymentCallback :: "ProviderRegistry \<Rightarrow> string \<Rightarrow> string \<Rightarrow> string_map \<Rightarrow> reply service" where
  "PaymentCallback registry ip provider query =
     (if provider = [] then ret (reply_error 400 ''provider is required'')
      else andThen (HandleCallback registry provider query) (\<lambda>(contentType, body, status).
           ret \<lparr>re_Status = status, re_Body = body,
                re_Audit = [audit_entry provider AuditActionPaymentCallback (map_value query ''out_trade_no'')
                  (status = 200) body (clientIP ip)]\<rparr>))"

definition Handler_GetOrder :: "string \<Rightarrow> reply service" where
  "Handler_GetOrder outTradeNo =
     (if outTradeNo = [] then ret (reply_error 400 ''out_trade_no is required'')
      else andThen (attempt (Order_GetByOutTradeNo outTradeNo)) (\<lambda>r.
           ret (case r of
             Inl e \<Rightarrow> reply_error 404 ''order not found''
           | Inr x \<Rightarrow> reply_json 200 [(''order'', raw_object
               [(''amount'', string_of_int (or_Amount x)), (''currency'', json_string (or_Currency x)),
                (''license_key'', json_string (or_LicenseKey x)), (''out_trade_no'', json_string (or_OutTradeNo x)),
                (''paid_at'', optional_time_json (or_PaidAt x)), (''provider'', json_string (or_Provider x)),
                (''status'', json_string (or_Status x)), (''trade_no'', json_string (or_TradeNo x))])])))"

definition CreateRenewalOrder :: "string \<Rightarrow> reply service" where
  "CreateRenewalOrder body =
     (case bind_one ''license_key'' body of
        None \<Rightarrow> ret bad_request
      | Some key \<Rightarrow>
          andThen (attempt (Order_CreateRenewal key)) (\<lambda>r.
          ret (case r of
            Inl e \<Rightarrow> reply_error 400 (error_text e)
          | Inr x \<Rightarrow> reply_json 201
              [(''amount'', string_of_int (or_Amount x)), (''currency'', json_string (or_Currency x)),
               (''license_key'', json_string (or_LicenseKey x)),
               (''message'', json_string ''Renewal order created. Complete payment to extend license.''),
               (''order_type'', json_string (or_OrderType x)), (''out_trade_no'', json_string (or_OutTradeNo x)),
               (''status'', json_string (or_Status x))])))"

definition RenewAndPay :: "ProviderRegistry \<Rightarrow> string \<Rightarrow> reply service" where
  "RenewAndPay registry body =
     (case bind_two ''license_key'' ''provider'' body of
        None \<Rightarrow> ret bad_request
      | Some (key, provider) \<Rightarrow>
          if \<not> known_wallet provider then ret bad_request
          else andThen (attempt (Order_CreateRenewal key)) (\<lambda>r.
               case r of
                 Inl e \<Rightarrow> ret (reply_error 400 (error_text e))
               | Inr x \<Rightarrow>
                   andThen (attempt (CreatePayment registry (or_OutTradeNo x) provider)) (\<lambda>r2.
                   ret (case r2 of
                     Inl e \<Rightarrow> reply_error 400 (error_text e)
                   | Inr url \<Rightarrow> reply_json 200
                       [(''amount'', string_of_int (or_Amount x)), (''out_trade_no'', json_string (or_OutTradeNo x)),
                        (''payment_url'', json_string url), (''provider'', json_string provider)]))))"

end
