(* ===== verification/Audit_Log.thy ===== *)
theory Audit_Log
  imports License_API Checkout
begin

text \<open>
  The audit log: service/audit.go with its queue and its writer, and the repository of
  repository/gorm_repo/audit.go.  The queue and the rows are a state of their own; the steps of the
  goroutine are operations, and a write may fail.  The log lines are not modelled.
\<close>

section \<open>Rows\<close>

record audit_log =
  az_rows :: "AuditEntry list"
  az_queue :: "AuditEntry list"
  az_capacity :: nat
  az_done :: bool

definition next_audit_id :: "AuditEntry list \<Rightarrow> nat" where
  "next_audit_id t = Suc (foldr (\<lambda>x n. max (ak_ID x) n) t 0)"

text \<open>An entry gets an identifier; a given one that is there already makes the insertion fail.\<close>

definition AuditRepo_Create :: "bool \<Rightarrow> AuditEntry \<Rightarrow> AuditEntry list \<Rightarrow> bool \<times> AuditEntry list" where
  "AuditRepo_Create fails x t =
     (let x' = x\<lparr>ak_ID := (if ak_ID x = 0 then next_audit_id t else ak_ID x)\<rparr>
      in if fails \<or> ak_ID x' \<in> ak_ID ` set t then (False, t) else (True, t @ [x']))"

record AuditQuery =
  aq_Action :: string
  aq_Actor :: string
  aq_Target :: string
  aq_Success :: "bool option"
  aq_StartTime :: instant
  aq_EndTime :: instant
  aq_Limit :: int
  aq_Offset :: int

text \<open>\<open>LIKE\<close>: a percent sign stands for any text, an underscore for any character; letters match in both cases.\<close>

fun sql_like :: "string \<Rightarrow> string \<Rightarrow> bool" where
  "sql_like [] s = (s = [])"
| "sql_like (p # ps) [] = (p = CHR ''%'' \<and> sql_like ps [])"
| "sql_like (p # ps) (c # s) =
     (if p = CHR ''%'' then sql_like ps (c # s) \<or> sql_like (p # ps) s
      else (p = CHR ''_'' \<or> lower_char p = lower_char c) \<and> sql_like ps s)"

definition audit_matches :: "AuditQuery \<Rightarrow> AuditEntry \<Rightarrow> bool" where
  "audit_matches q x \<longleftrightarrow>
     (aq_Action q = [] \<or> ak_Action x = aq_Action q)
     \<and> (aq_Actor q = [] \<or> sql_like (''%'' @ aq_Actor q @ ''%'') (ak_Actor x))
     \<and> (aq_Target q = [] \<or> sql_like (''%'' @ aq_Target q @ ''%'') (ak_Target x))
     \<and> (case aq_Success q of None \<Rightarrow> True | Some b \<Rightarrow> ak_Success x = b)
     \<and> (aq_StartTime q = 0 \<or> aq_StartTime q \<le> ak_Timestamp x)
     \<and> (aq_EndTime q = 0 \<or> ak_Timestamp x \<le> aq_EndTime q)"

text \<open>A negative limit or offset does not count.\<close>

definition audit_page :: "int \<Rightarrow> int \<Rightarrow> 'a list \<Rightarrow> 'a list" where
  "audit_page limit offset xs =
     (let ys = drop (nat offset) xs in if limit < 0 then ys else take (nat limit) ys)"

definition AuditRepo_List :: "AuditQuery \<Rightarrow> AuditEntry list \<Rightarrow> AuditEntry list" where
  "AuditRepo_List q t =
     audit_page (aq_Limit q) (aq_Offset q) (sort_key (\<lambda>x. - ak_Timestamp x) (List.filter (audit_matches q) t))"

definition AuditRepo_Count :: "AuditQuery \<Rightarrow> AuditEntry list \<Rightarrow> int" where
  "AuditRepo_Count q t = int (length (List.filter (audit_matches q) t))"

section \<open>The service\<close>

definition NewAuditService :: "nat \<Rightarrow> AuditEntry list \<Rightarrow> audit_log" where
  "NewAuditService bufferSize rows = \<lparr>az_rows = rows, az_queue = [], az_capacity = bufferSize, az_done = False\<rparr>"

text \<open>A full queue drops the entry.\<close>

definition Audit_Record :: "AuditEntry option \<Rightarrow> audit_log \<Rightarrow> audit_log" where
  "Audit_Record entry s =
     (case entry of
        None \<Rightarrow> s
      | Some x \<Rightarrow> if length (az_queue s) < az_capacity s then s\<lparr>az_queue := az_queue s @ [x]\<rparr> else s)"

definition Audit_Query :: "AuditQuery \<Rightarrow> audit_log \<Rightarrow> AuditEntry list \<times> int" where
  "Audit_Query q s = (AuditRepo_List q (az_rows s), AuditRepo_Count q (az_rows s))"

text \<open>The writer takes the oldest entry; an entry that cannot be written is lost.\<close>

definition writer_step :: "bool \<Rightarrow> audit_log \<Rightarrow> audit_log" where
  "writer_step fails s =
     (case az_queue s of
        [] \<Rightarrow> s
      | x # xs \<Rightarrow> s\<lparr>az_rows := snd (AuditRepo_Create fails x (az_rows s)), az_queue := xs\<rparr>)"

text \<open>After the stop the writer drains the queue and ends; \<open>fails k\<close> tells of the k-th write from the end.\<close>

function writer_drain :: "(nat \<Rightarrow> bool) \<Rightarrow> audit_log \<Rightarrow> audit_log" where
  "writer_drain fails s =
     (if az_queue s = [] then s else writer_drain fails (writer_step (fails (length (az_queue s))) s))"
  by pat_completeness auto
termination by (relation "measure (\<lambda>(f, s). length (az_queue s))") (auto simp: writer_step_def split: list.splits)

declare writer_drain.simps [simp del]

definition Audit_Stop :: "(nat \<Rightarrow> bool) \<Rightarrow> audit_log \<Rightarrow> audit_log" where
  "Audit_Stop fails s = writer_drain fails (s\<lparr>az_done := True\<rparr>)"

section \<open>Steps\<close>

text \<open>Handlers record and the writer writes in any order.\<close>

inductive audit_step :: "audit_log \<Rightarrow> AuditEntry option \<Rightarrow> audit_log \<Rightarrow> bool" where
  record_step: "audit_step s (Some x) (Audit_Record (Some x) s)"
| write_step: "\<not> az_done s \<Longrightarrow> audit_step s None (writer_step fails s)"

inductive_cases audit_stepE: "audit_step s l s'"

inductive audit_run :: "audit_log \<Rightarrow> AuditEntry list \<Rightarrow> audit_log \<Rightarrow> bool" where
  run_start: "audit_run s [] s"
| run_step: "audit_run s xs s' \<Longrightarrow> audit_step s' l s'' \<Longrightarrow>
    audit_run s (xs @ (case l of None \<Rightarrow> [] | Some x \<Rightarrow> [x])) s''"

end
