(* ===== verification/Client_Theorems.thy ===== *)
theory Client_Theorems
  imports License_SDK Audit_Log Licensing_Theorems "HOL-Library.Sublist"
begin

text \<open>
  Properties of the license client and of the audit log: a request ends after a bounded number of
  calls, its pauses are bounded, an answer from the cache is young enough, what the server makes of
  the requests of the client, and the order in which audit entries are kept.
\<close>

section \<open>Retries\<close>

text \<open>A context whose calls return, whose clock and random source leave the data alone and whose HTTP calls
  each take one step.\<close>

definition counting :: "sdk_context \<Rightarrow> bool" where
  "counting x \<longleftrightarrow>
     (\<forall>w. \<exists>r. xd_done x w = (Inr r, w)) \<and> (\<forall>d w. \<exists>r. xd_sleep x d w = (Inr r, w))
     \<and> (\<forall>n w. \<exists>r. xd_random x n w = (Inr r, w))
     \<and> (\<forall>q w. tick (snd (xd_http x q w)) = Suc (tick w))"

lemma pause_counts: "counting x \<Longrightarrow> \<exists>r. pause x n w = (Inr r, w)"
  by (auto simp: counting_def pause_def calcBackoff_def andThen_def ret_def Let_def split: option.split prod.split
      sum.split) (metis Inl_Inr_False Pair_inject)+

lemma doRequest_counts:
  assumes "counting x"
  shows "\<exists>r e. fst (doRequest x cfg path body decode result w) = Inr (r, e)"
    and "tick (snd (doRequest x cfg path body decode result w)) = Suc (tick w)"
proof -
  let ?q = "\<lparr>hr_Method = ''POST'', hr_URL = kc_BaseURL cfg @ path,
    hr_Headers = [(''Content-Type'', ''application/json'')], hr_Body = body\<rparr>"
  have "tick (snd (xd_http x ?q w)) = Suc (tick w)" using assms by (simp add: counting_def)
  then show "\<exists>r e. fst (doRequest x cfg path body decode result w) = Inr (r, e)"
    "tick (snd (doRequest x cfg path body decode result w)) = Suc (tick w)"
    by (auto simp: doRequest_def andThen_def attempt_def ret_def split: prod.splits sum.splits)
qed

lemma retry_loop_counts:
  assumes "counting x"
    and call: "\<And>r w. \<exists>r' e. fst (call r w) = Inr (r', e)" "\<And>r w. tick (snd (call r w)) = Suc (tick w)"
  shows "(\<exists>r e. fst (retry_loop x m call n result lastErr w) = Inr (r, e))
    \<and> tick (snd (retry_loop x m call n result lastErr w)) \<le> tick w + nat (m + 1 - n)"
proof (induction "nat (m + 1 - n)" arbitrary: n result lastErr w)
  case 0
  then show ?case by (subst retry_loop.simps, subst (2) retry_loop.simps) (simp add: ret_def)
next
  case (Suc k)
  then have n: "n \<le> m" "k = nat (m + 1 - (n + 1))" by simp_all
  obtain r where pause: "pause x n w = (Inr r, w)" using pause_counts [OF assms(1)] by blast
  obtain r' e w1 where called: "call result w = (Inr (r', e), w1)"
    using call(1) [of result w] by (metis prod.collapse)
  have w1: "tick w1 = Suc (tick w)" using call(2) [of result w] called by simp
  have unfold: "retry_loop x m call n result lastErr w
    = (case r of Some e \<Rightarrow> (Inr (result, Some e), w)
       | None \<Rightarrow> (case e of None \<Rightarrow> (Inr (r', None), w1)
           | Some err \<Rightarrow> retry_loop x m call (n + 1) r' (Some err) w1))"
    using n(1) pause called by (subst retry_loop.simps) (simp add: andThen_def ret_def split: option.split)
  show ?case
    using Suc.hyps(1) [OF n(2), of r' e w1] Suc.hyps(2) w1 unfolding unfold
    by (auto split: option.split)
qed

text \<open>C34: A request of the client returns, and it makes at most one HTTP call more than the number of
  retries it is configured with, whatever the calls answer.\<close>

theorem retries_bounded:
  assumes "counting x"
  shows "(\<exists>r e. fst (requestWithRetry x cfg path body decode result w) = Inr (r, e))
    \<and> tick (snd (requestWithRetry x cfg path body decode result w)) \<le> tick w + nat (kc_MaxRetries cfg + 1)"
  unfolding requestWithRetry_def
  using retry_loop_counts [where n = 0 and m = "kc_MaxRetries cfg", OF assms doRequest_counts [OF assms]] by simp

definition deaf_context :: sdk_context where
  "deaf_context = \<lparr>xd_http = (\<lambda>_ w. (Inl (Errorf ''connection refused''), next_tick w)), xd_done = ret None,
     xd_sleep = (\<lambda>_. ret None), xd_random = (\<lambda>_. ret 0)\<rparr>"

lemma retries_bounded_witness:
  "tick (snd (requestWithRetry deaf_context (defaultConfig ''K'') ''/api/v1/verify'' [] decode_verify
     \<lparr>xv_Status = [], xv_Valid = False, xv_Message = [], xv_ExpiresAt = [], xv_MaxSeats = 0\<rparr> license_world)) \<le> 4"
proof -
  have "counting deaf_context" by (simp add: counting_def deaf_context_def ret_def)
  from retries_bounded [OF this, of "defaultConfig ''K''" "''/api/v1/verify''" "[]" decode_verify
      "\<lparr>xv_Status = [], xv_Valid = False, xv_Message = [], xv_ExpiresAt = [], xv_MaxSeats = 0\<rparr>" license_world]
  show ?thesis by (simp add: defaultConfig_def license_world_def sample_world_def)
qed

section \<open>Pauses\<close>

lemma backoff_delay_bounds:
  assumes "1 \<le> n"
  shows "200000000 \<le> backoff_delay n" "backoff_delay n \<le> 5 * second_ns"
proof -
  have "(2::int) ^ 1 \<le> 2 ^ nat n" using assms by (intro power_increasing) auto
  then show "200000000 \<le> backoff_delay n" by (simp add: backoff_delay_def)
qed (simp add: backoff_delay_def)

text \<open>With a random source that answers below its bound, the pause before a retry is at least the delay of the
  retry, which doubles up to five seconds, and less than one and a half times it: never more than seven
  and a half seconds.\<close>

theorem backoff_bounded:
  assumes "1 \<le> n" "calcBackoff x n w = (Inr d, w')"
    and "\<And>k v w w'. 0 < k \<Longrightarrow> xd_random x k w = (Inr v, w') \<Longrightarrow> 0 \<le> v \<and> v < k"
  shows "200000000 \<le> d \<and> min (100000000 * 2 ^ nat n) (5 * second_ns) \<le> d
    \<and> 2 * d < 3 * min (100000000 * 2 ^ nat n) (5 * second_ns) \<and> d < 7500000000"
proof -
  let ?b = "backoff_delay n"
  obtain v where v: "d = ?b + v" "xd_random x (?b div 2) w = (Inr v, w')"
    using assms(2) by (auto simp: calcBackoff_def Let_def andThen_def ret_def split: prod.splits sum.splits)
  have b: "200000000 \<le> ?b" "?b \<le> 5000000000" using backoff_delay_bounds [OF assms(1)] by simp_all
  then have "0 < ?b div 2" by simp
  from assms(3) [OF this v(2)] have "0 \<le> v" "v < ?b div 2" by auto
  then have "0 \<le> v" "2 * v < ?b" by simp_all
  with b v(1) show ?thesis unfolding backoff_delay_def [symmetric] by auto
qed

section \<open>Answers from the cache\<close>

text \<open>A verification without the server is only positive on the ground of a stored answer that is at most as
  old as the offline grace period; the stored answer itself only changes when the server has answered.\<close>

theorem offline_within_grace:
  assumes "Client_Verify x c w = (Inr ((v, e), c'), w')" "vt_IsOffline v" "vt_IsValid v"
  shows "e = None \<and> c' = c \<and> (\<exists>cached w1. cn_cache c = Some cached \<and> vt_ServerStatus v = vt_ServerStatus cached
    \<and> w' = next_tick w1 \<and> time_sub (clock w1 (tick w1)) (cn_cachedAt c) \<le> kc_OfflineGracePeriod (cn_cfg c))"
  using assms
  by (auto simp: Client_Verify_def verifyOffline_def offline_failure_def verifyWithRetry_def verify_result_def
      andThen_def attempt_def ret_def fail_def time_now_def split: prod.splits sum.splits option.splits if_splits)

text \<open>Within the grace period the answer is positive even when the stored answer of the server was not.\<close>

lemma offline_trusts_any_answer:
  assumes "cn_cache c = Some cached" "cn_cachedAt c \<noteq> 0"
    "time_sub (clock w (tick w)) (cn_cachedAt c) \<le> kc_OfflineGracePeriod (cn_cfg c)"
  shows "\<exists>v. verifyOffline c w = (Inr (v, None), next_tick w) \<and> vt_IsValid v"
  using assms by (auto simp: verifyOffline_def andThen_def time_now_def ret_def)

section \<open>The requests of the client at the server\<close>

text \<open>C40: The requests of the client name the license in a field that the server does not read: every
  verification and activation of the client is answered with the status 400, and no license is touched.\<close>

theorem client_requests_rejected:
  assumes "ascii (kc_LicenseKey cfg)" "ascii (kc_DeviceID cfg)"
  shows "Auth_Verify ip (license_request cfg) w = (Inr bad_request, w)
    \<and> Auth_Activate ip (license_request cfg) w = (Inr bad_request, w)"
proof -
  let ?m = "[(''license_key'', kc_LicenseKey cfg), (''device_id'', kc_DeviceID cfg)]"
  have "parse_json (license_request cfg) = Some (JObj (List.map (\<lambda>(k, v). (k, JStr v)) ?m))"
    unfolding license_request_def using assms by (intro parse_json_marshal) (auto simp: ascii_def code_of_def)
  then have "bind_json (license_request cfg) = Some (List.map (\<lambda>(k, v). (k, JStr v)) ?m)"
    by (auto simp: bind_json_def parse_json_def split: option.splits prod.splits if_splits)
  moreover have "required_text ''key'' (List.map (\<lambda>(k, v). (k, JStr v)) ?m) = None"
    by (simp add: required_text_def string_field_def field_members_def equal_fold_def to_lower_def lower_char_def)
  ultimately have "bind_two ''key'' ''device_id'' (license_request cfg) = None"
    by (simp add: bind_two_def)
  then show ?thesis by (simp add: Auth_Verify_def Auth_Activate_def ret_def)
qed

section \<open>The audit log\<close>

definition content :: "AuditEntry \<Rightarrow> AuditEntry" where
  "content x = x\<lparr>ak_ID := 0\<rparr>"

lemma content_created: "content (x\<lparr>ak_ID := n\<rparr>) = content x"
  by (simp add: content_def)

lemma created:
  "snd (AuditRepo_Create fails x t) = t
    \<or> (\<exists>n. snd (AuditRepo_Create fails x t) = t @ [x\<lparr>ak_ID := n\<rparr>] \<and> n \<notin> ak_ID ` set t)"
  by (auto simp: AuditRepo_Create_def Let_def) (metis AuditEntry.surjective AuditEntry.update_convs(1))

lemma subseq_before: "subseq (a @ b) c \<Longrightarrow> subseq a c"
  by (meson list_emb_append2 subseq_order.trans subseq_order.refl subseq_rev_drop_many)

definition audit_ok :: "nat \<Rightarrow> AuditEntry list \<Rightarrow> audit_log \<Rightarrow> bool" where
  "audit_ok n xs s \<longleftrightarrow> az_capacity s = n \<and> length (az_queue s) \<le> n \<and> distinct (List.map ak_ID (az_rows s))
     \<and> subseq (List.map content (az_rows s @ az_queue s)) (List.map content xs)"

lemma subseq_drop_middle: "subseq (a @ x # b) ys \<Longrightarrow> subseq (a @ b) ys"
  by (meson subseq_order.trans subseq_append' list_emb_append_mono subseq_Cons' subseq_order.refl)

lemma audit_ok_writer: "audit_ok n xs s \<Longrightarrow> audit_ok n xs (writer_step fails s)"
proof (cases "az_queue s")
  case (Cons x q)
  assume ok: "audit_ok n xs s"
  from created [of fails x "az_rows s"] show ?thesis
  proof
    assume "snd (AuditRepo_Create fails x (az_rows s)) = az_rows s"
    with ok Cons show ?thesis by (auto simp: audit_ok_def writer_step_def intro: subseq_drop_middle)
  next
    assume "\<exists>m. snd (AuditRepo_Create fails x (az_rows s)) = az_rows s @ [x\<lparr>ak_ID := m\<rparr>] \<and> m \<notin> ak_ID ` set (az_rows s)"
    with ok Cons show ?thesis by (auto simp: audit_ok_def writer_step_def content_created)
  qed
qed (simp add: writer_step_def)

lemma audit_ok_drain: "audit_ok n xs s \<Longrightarrow> audit_ok n xs (writer_drain fails s) \<and> az_queue (writer_drain fails s) = []"
  by (induction fails s rule: writer_drain.induct) (subst (1 2) writer_drain.simps, simp add: audit_ok_writer)

lemma audit_ok_run:
  assumes "audit_run s xs s'" "audit_ok n [] s"
  shows "audit_ok n xs s'"
  using assms
proof (induction rule: audit_run.induct)
  case (run_step s xs s' l s'')
  from run_step.hyps(2) run_step.IH [OF run_step.prems] show ?case
    by (cases rule: audit_step.cases)
       (auto simp: audit_ok_writer,
        auto simp: audit_ok_def Audit_Record_def simp flip: append_assoc intro: list_emb_append_mono subseq_rev_drop_many)
qed simp

text \<open>C35: Whatever the handlers record and the writer writes, in any order and with any failed writes, the queue
  never holds more than its capacity and the rows are entries that were recorded, in the order in which
  they were recorded, each at most once; after the stop no entry waits any more.\<close>

theorem audit_log_in_order:
  assumes "audit_run (NewAuditService n []) xs s"
  shows "length (az_queue s) \<le> n
    \<and> subseq (List.map content (az_rows (Audit_Stop fails s))) (List.map content xs)
    \<and> distinct (List.map ak_ID (az_rows (Audit_Stop fails s)))
    \<and> az_queue (Audit_Stop fails s) = []"
proof -
  have start: "audit_ok n [] (NewAuditService n [])" by (simp add: audit_ok_def NewAuditService_def)
  from audit_ok_run [OF assms start] have ok: "audit_ok n xs s" .
  then have "audit_ok n xs (s\<lparr>az_done := True\<rparr>)" by (simp add: audit_ok_def)
  from audit_ok_drain [OF this, of fails] ok show ?thesis
    by (auto simp: audit_ok_def Audit_Stop_def intro: subseq_before)
qed

lemma audit_log_in_order_witness:
  "\<exists>x. az_queue (Audit_Stop (\<lambda>_. False) (Audit_Record (Some x) (NewAuditService 1 []))) = []"
proof -
  let ?x = "audit_entry ''a'' ''b'' ''c'' True ''d'' ''e''"
  have "audit_run (NewAuditService 1 []) ([] @ (case Some ?x of None \<Rightarrow> [] | Some x \<Rightarrow> [x]))
      (Audit_Record (Some ?x) (NewAuditService 1 []))"
    by (rule run_step [OF run_start record_step])
  from audit_log_in_order [OF this, of "\<lambda>_. False"] show ?thesis by blast
qed

lemma client_requests_rejected_witness:
  "Auth_Verify [] (license_request (defaultConfig ''K'')) license_world = (Inr bad_request, license_world)"
  using client_requests_rejected [of "defaultConfig ''K''" "[]" license_world]
  by (simp add: defaultConfig_def ascii_def code_of_def)

end
