(* ===== verification/Object_Storage.thy ===== *)
theory Object_Storage
  imports Process_Assembly Cloud_Storage
begin

text \<open>
  The object store: internal/objectstorage/s3.go, with its place in the interface of
  service/cloud_storage.go and its construction in bootstrap.go.  The provider signs URLs for
  uploads and downloads by the rules of SigV4 and calls the store itself to delete an object and
  to read its head.  The keyed hash (\<open>mac key text\<close>, raw bytes) and the HTTP client are
  parameters; a request is assumed not to be cancelled by its context.
\<close>

abbreviation ErrInvalidS3Config :: err where "ErrInvalidS3Config \<equiv> Sentinel ''invalid s3 object storage config''"
abbreviation ErrS3OperationFailed :: err where "ErrS3OperationFailed \<equiv> Sentinel ''s3 object storage operation failed''"

abbreviation defaultProviderID :: string where "defaultProviderID \<equiv> ''s3''"
abbreviation defaultS3Service :: string where "defaultS3Service \<equiv> ''s3''"
abbreviation defaultTargetTTL :: int where "defaultTargetTTL \<equiv> 15 * 60 * second_ns"
abbreviation defaultOperationTTL :: int where "defaultOperationTTL \<equiv> 60 * second_ns"
abbreviation maxPresignTTLSeconds :: int where "maxPresignTTLSeconds \<equiv> 7 * 24 * 60 * 60"
abbreviation unsignedPayload :: string where "unsignedPayload \<equiv> ''UNSIGNED-PAYLOAD''"
abbreviation amzAlgorithm :: string where "amzAlgorithm \<equiv> ''AWS4-HMAC-SHA256''"
abbreviation walnutContentHashHeader :: string where "walnutContentHashHeader \<equiv> ''x-amz-meta-walnut-content-hash''"
abbreviation walnutSizeBytesHeader :: string where "walnutSizeBytesHeader \<equiv> ''x-amz-meta-walnut-size-bytes''"
abbreviation amzTaggingHeader :: string where "amzTaggingHeader \<equiv> ''x-amz-tagging''"

section \<open>The provider\<close>

text \<open>A response of the store; the headers are read by name.\<close>

record s3_response =
  so_StatusCode :: int
  so_ContentLength :: int
  so_Header :: "string \<Rightarrow> string"

type_synonym s3_client = "http_request \<Rightarrow> s3_response service"

record s3_endpoint =
  so_Scheme :: string
  so_Host :: string

record S3CompatibleConfig =
  sc3_ProviderID :: string
  sc3_EndpointURL :: string
  sc3_Region :: string
  sc3_Bucket :: string
  sc3_AccessKeyID :: string
  sc3_SecretAccessKey :: string
  sc3_SessionToken :: string
  sc3_ForcePathStyle :: bool
  sc3_ObjectTagging :: bool
  sc3_UploadTargetTTL :: int
  sc3_DownloadTargetTTL :: int
  sc3_OperationTTL :: int

record S3CompatibleProvider =
  s3_providerID :: string
  s3_endpoint :: s3_endpoint
  s3_region :: string
  s3_bucket :: string
  s3_accessKeyID :: string
  s3_secretAccessKey :: string
  s3_sessionToken :: string
  s3_forcePathStyle :: bool
  s3_objectTagging :: bool
  s3_uploadTargetTTL :: int
  s3_downloadTargetTTL :: int
  s3_operationTTL :: int
  s3_httpClient :: s3_client
  s3_now :: "instant service"
  s3_mac :: "string \<Rightarrow> string \<Rightarrow> string"

record presignInput =
  pi_method :: string
  pi_objectKey :: string
  pi_headers :: string_map
  pi_expires :: int
  pi_requestNow :: instant

record presignResult =
  pt_URL :: string
  pt_Headers :: string_map
  pt_ExpiresAt :: instant

text \<open>
  \<open>url.Parse\<close> gives the scheme and the host; behind the host only an empty path or a slash is
  allowed, and no query or fragment.
\<close>

definition after_host :: "string \<Rightarrow> string" where
  "after_host raw =
     (let u = fst (cut_at (CHR ''#'') raw); r = (case get_scheme u of None \<Rightarrow> [] | Some (_, r) \<Rightarrow> r);
          r1 = drop 2 (fst (cut_at (CHR ''?'') r))
      in drop (length (fst (cut_at (CHR ''/'') r1))) r1)"

definition raw_query :: "string \<Rightarrow> string" where
  "raw_query raw = snd (cut_at (CHR ''?'') (fst (cut_at (CHR ''#'') raw)))"

definition fragment :: "string \<Rightarrow> string" where
  "fragment raw = snd (cut_at (CHR ''#'') raw)"

definition invalid_s3 :: "string \<Rightarrow> err" where
  "invalid_s3 text = wrapped ErrInvalidS3Config text"

definition parseS3Endpoint :: "string \<Rightarrow> err + s3_endpoint" where
  "parseS3Endpoint rawURL0 =
     (let rawURL = trim_space rawURL0
      in if rawURL = [] then Inl (invalid_s3 ''endpoint URL is required'')
         else case url_parse rawURL of
           None \<Rightarrow> Inl (invalid_s3 ''endpoint URL must include scheme and host'')
         | Some (scheme, host) \<Rightarrow>
             if scheme = [] \<or> host = [] then Inl (invalid_s3 ''endpoint URL must include scheme and host'')
             else if scheme \<noteq> ''https'' \<and> scheme \<noteq> ''http'' then Inl (invalid_s3 ''endpoint URL must be http or https'')
             else if after_host rawURL \<notin> {[], ''/''} \<or> raw_query rawURL \<noteq> [] \<or> fragment rawURL \<noteq> []
             then Inl (invalid_s3 ''endpoint URL must not include path, query, or fragment'')
             else Inr \<lparr>so_Scheme = scheme, so_Host = host\<rparr>)"

definition normalizeTTL :: "int \<Rightarrow> int \<Rightarrow> int" where
  "normalizeTTL value0 fallback =
     (let value = (if value0 \<le> 0 then fallback else value0)
      in if value < second_ns then second_ns
         else if maxPresignTTLSeconds * second_ns < value then maxPresignTTLSeconds * second_ns
         else value)"

definition NewS3CompatibleProvider ::
  "s3_client option \<Rightarrow> s3_client \<Rightarrow> instant service option \<Rightarrow> (string \<Rightarrow> string \<Rightarrow> string) \<Rightarrow>
   S3CompatibleConfig \<Rightarrow> err + S3CompatibleProvider" where
  "NewS3CompatibleProvider client default_client now mac c =
     (case parseS3Endpoint (sc3_EndpointURL c) of
        Inl e \<Rightarrow> Inl e
      | Inr endpoint \<Rightarrow>
          (let providerID = trim_space (sc3_ProviderID c); region = trim_space (sc3_Region c);
               bucket = trim_space (sc3_Bucket c); accessKeyID = trim_space (sc3_AccessKeyID c);
               secretAccessKey = trim_space (sc3_SecretAccessKey c)
           in if region = [] then Inl (invalid_s3 ''region is required'')
              else if bucket = [] then Inl (invalid_s3 ''bucket is required'')
              else if accessKeyID = [] \<or> secretAccessKey = []
              then Inl (invalid_s3 ''access key id and secret access key are required'')
              else Inr \<lparr>s3_providerID = (if providerID = [] then defaultProviderID else providerID),
                s3_endpoint = endpoint, s3_region = region, s3_bucket = bucket,
                s3_accessKeyID = accessKeyID, s3_secretAccessKey = secretAccessKey,
                s3_sessionToken = trim_space (sc3_SessionToken c),
                s3_forcePathStyle = sc3_ForcePathStyle c, s3_objectTagging = sc3_ObjectTagging c,
                s3_uploadTargetTTL = normalizeTTL (sc3_UploadTargetTTL c) defaultTargetTTL,
                s3_downloadTargetTTL = normalizeTTL (sc3_DownloadTargetTTL c) defaultTargetTTL,
                s3_operationTTL = normalizeTTL (sc3_OperationTTL c) defaultOperationTTL,
                s3_httpClient = (case client of None \<Rightarrow> default_client | Some http \<Rightarrow> http),
                s3_now = (case now of None \<Rightarrow> time_now | Some source \<Rightarrow> source), s3_mac = mac\<rparr>))"

text \<open>The methods have a pointer receiver that may be nil.\<close>

definition S3_ProviderID :: "S3CompatibleProvider option \<Rightarrow> string" where
  "S3_ProviderID s =
     (case s of None \<Rightarrow> defaultProviderID
      | Some p \<Rightarrow> if trim_space (s3_providerID p) = [] then defaultProviderID else s3_providerID p)"

section \<open>Signing\<close>

definition isAWSUnreserved :: "char \<Rightarrow> bool" where
  "isAWSUnreserved c \<longleftrightarrow>
     (let n = code_of c in 65 \<le> n \<and> n \<le> 90 \<or> 97 \<le> n \<and> n \<le> 122 \<or> 48 \<le> n \<and> n \<le> 57) \<or> c \<in> set ''-._~''"

definition awsURIEncode :: "string \<Rightarrow> bool \<Rightarrow> string" where
  "awsURIEncode value encodeSlash =
     concat (List.map (\<lambda>c. if isAWSUnreserved c \<or> c = CHR ''/'' \<and> \<not> encodeSlash then [c]
                            else CHR ''%'' # to_upper (hex_text [c])) value)"

definition objectHostAndPath :: "S3CompatibleProvider \<Rightarrow> string \<Rightarrow> string \<times> string" where
  "objectHostAndPath p objectKey =
     (let endpointHost = so_Host (s3_endpoint p)
      in if s3_forcePathStyle p
         then (endpointHost, ''/'' @ awsURIEncode (s3_bucket p) True @ ''/'' @ awsURIEncode objectKey False)
         else (s3_bucket p @ ''.'' @ endpointHost, ''/'' @ awsURIEncode objectKey False))"

text \<open>\<open>strings.Fields\<close> joined by one space.\<close>

fun split_spaces :: "string \<Rightarrow> string list" where
  "split_spaces [] = [[]]"
| "split_spaces (c # s) =
     (if is_space c then [] # split_spaces s
      else case split_spaces s of [] \<Rightarrow> [[c]] | w # ws \<Rightarrow> (c # w) # ws)"

definition normalizeHeaderValue :: "string \<Rightarrow> string" where
  "normalizeHeaderValue value =
     join_with '' '' (List.filter (\<lambda>w. w \<noteq> []) (split_spaces (trim_space value)))"

definition canonicalHeaderMap :: "string \<Rightarrow> string_map \<Rightarrow> string_map" where
  "canonicalHeaderMap host headers =
     fold (\<lambda>(name0, value0) canonical.
        let name = to_lower (trim_space name0); value = normalizeHeaderValue value0
        in if name = [] \<or> value = [] then canonical else map_put name value canonical)
       headers [(''host'', host)]"

text \<open>A map is kept in the order of its keys, the order of \<open>sort.Strings\<close>.\<close>

definition signedHeaderNames :: "string_map \<Rightarrow> string" where
  "signedHeaderNames headers = join_with '';'' (List.map fst headers)"

definition canonicalHeadersString :: "string_map \<Rightarrow> string" where
  "canonicalHeadersString headers = concat (List.map (\<lambda>(name, value). name @ '':'' @ value @ [CHR 0x0A]) headers)"

definition canonicalQueryString :: "string_map \<Rightarrow> string" where
  "canonicalQueryString values =
     join_with ''&'' (sort (List.map (\<lambda>(key, value). awsURIEncode key True @ ''='' @ awsURIEncode value True) values))"

definition cloneHeaders :: "string_map \<Rightarrow> string_map" where
  "cloneHeaders headers = List.filter (\<lambda>(key, value). trim_space key \<noteq> [] \<and> trim_space value \<noteq> []) headers"

definition encodeLifecycleTags :: "(string \<times> string) list \<Rightarrow> string" where
  "encodeLifecycleTags tags =
     join_with ''&'' (List.map (\<lambda>(key, value). query_escape key @ ''='' @ query_escape value)
       (fold (\<lambda>(key0, value0) seen.
          let key = trim_space key0; value = trim_space value0
          in if key = [] \<or> value = [] then seen else map_put key value seen) tags []))"

definition signingKey :: "(string \<Rightarrow> string \<Rightarrow> string) \<Rightarrow> string \<Rightarrow> string \<Rightarrow> string \<Rightarrow> string \<Rightarrow> string" where
  "signingKey mac secret date region serviceName =
     (let dateKey = mac (''AWS4'' @ secret) date; dateRegionKey = mac dateKey region;
          dateRegionServiceKey = mac dateRegionKey serviceName
      in mac dateRegionServiceKey ''aws4_request'')"

text \<open>\<open>Format("20060102T150405Z")\<close>.\<close>

definition format_amz :: "instant \<Rightarrow> string" where
  "format_amz t = (let s = (t mod day_ns) div second_ns
     in format_ymd t @ ''T'' @ two_digits (s div 3600) @ two_digits ((s div 60) mod 60) @ two_digits (s mod 60) @ ''Z'')"

definition sha256Hex :: "string \<Rightarrow> string service" where
  "sha256Hex value w = (Inr (sha256_hex w value), w)"

text \<open>The query of a presigned URL before its signature.\<close>

definition presign_query :: "S3CompatibleProvider \<Rightarrow> string \<Rightarrow> string \<Rightarrow> int \<Rightarrow> string \<Rightarrow> string_map" where
  "presign_query p scope amzDate expiresSeconds signedHeaders =
     (let query = fold (\<lambda>(k, v). map_put k v)
            [(''X-Amz-Algorithm'', amzAlgorithm), (''X-Amz-Credential'', s3_accessKeyID p @ ''/'' @ scope),
             (''X-Amz-Date'', amzDate), (''X-Amz-Expires'', string_of_int expiresSeconds),
             (''X-Amz-SignedHeaders'', signedHeaders)] []
      in if s3_sessionToken p \<noteq> [] then map_put ''X-Amz-Security-Token'' (s3_sessionToken p) query else query)"

definition canonical_request :: "string \<Rightarrow> string \<Rightarrow> string \<Rightarrow> string_map \<Rightarrow> string" where
  "canonical_request verb canonicalURI canonicalQuery headers =
     join_with [CHR 0x0A] [to_upper verb, canonicalURI, canonicalQuery, canonicalHeadersString headers,
       signedHeaderNames headers, unsignedPayload]"

definition presign :: "S3CompatibleProvider option \<Rightarrow> presignInput \<Rightarrow> presignResult service" where
  "presign s i =
     (case s of
        None \<Rightarrow> fail ErrInvalidS3Config
      | Some p \<Rightarrow>
          andThen (reject_if (trim_space (pi_method i) = [] \<or> trim_space (pi_objectKey i) = []) ErrInvalidS3Config) (\<lambda>_.
          andThen (if pi_requestNow i = 0 then s3_now p else ret (pi_requestNow i)) (\<lambda>now.
            (let expires0 = normalizeTTL (pi_expires i) defaultTargetTTL; seconds0 = expires0 div second_ns;
                 expiresSeconds = (if maxPresignTTLSeconds < seconds0 then maxPresignTTLSeconds else seconds0);
                 expires = (if maxPresignTTLSeconds < seconds0 then maxPresignTTLSeconds * second_ns else expires0);
                 amzDate = format_amz now; date = format_ymd now
             in case objectHostAndPath p (pi_objectKey i) of (host, canonicalURI) \<Rightarrow>
               (let headers = canonicalHeaderMap host (pi_headers i); signedHeaders = signedHeaderNames headers;
                    scope = date @ ''/'' @ s3_region p @ ''/'' @ defaultS3Service @ ''/aws4_request'';
                    canonicalQuery = canonicalQueryString (presign_query p scope amzDate expiresSeconds signedHeaders)
                in andThen (sha256Hex (canonical_request (pi_method i) canonicalURI canonicalQuery headers)) (\<lambda>digest.
                   (let stringToSign = join_with [CHR 0x0A] [amzAlgorithm, amzDate, scope, digest];
                        signature = hex_text (s3_mac p
                          (signingKey (s3_mac p) (s3_secretAccessKey p) date (s3_region p) defaultS3Service) stringToSign)
                    in ret \<lparr>pt_URL = so_Scheme (s3_endpoint p) @ ''://'' @ host @ canonicalURI @ ''?'' @ canonicalQuery
                              @ ''&X-Amz-Signature='' @ signature,
                            pt_Headers = cloneHeaders (pi_headers i), pt_ExpiresAt = now + expires\<rparr>)))))))"

section \<open>The operations\<close>

definition upload_headers :: "S3CompatibleProvider \<Rightarrow> CloudObjectUploadRequest \<Rightarrow> string_map" where
  "upload_headers p r =
     (let contentType = trim_space (ur_ContentType r); contentHash = trim_space (ur_ContentHash r);
          h1 = (if contentType \<noteq> [] then map_put ''Content-Type'' contentType [] else []);
          h2 = (if contentHash \<noteq> [] then map_put walnutContentHashHeader contentHash h1 else h1);
          h3 = map_put walnutSizeBytesHeader (string_of_int (ur_SizeBytes r)) h2;
          tagHeader = encodeLifecycleTags (ur_LifecycleTags r)
      in if s3_objectTagging p \<and> tagHeader \<noteq> [] then map_put amzTaggingHeader tagHeader h3 else h3)"

definition S3_BuildUploadTarget ::
  "S3CompatibleProvider option \<Rightarrow> CloudObjectUploadRequest \<Rightarrow> CloudObjectUploadTarget service" where
  "S3_BuildUploadTarget s r =
     (let objectKey = trim_space (ur_ObjectKey r)
      in case s of
           None \<Rightarrow> fail ErrInvalidS3Config
         | Some p \<Rightarrow>
             andThen (reject_if (objectKey = [] \<or> ur_SizeBytes r < 0) ErrInvalidS3Config) (\<lambda>_.
             andThen (presign s \<lparr>pi_method = ''PUT'', pi_objectKey = objectKey, pi_headers = upload_headers p r,
               pi_expires = s3_uploadTargetTTL p, pi_requestNow = 0\<rparr>) (\<lambda>presigned.
             ret \<lparr>ut_ObjectKey = objectKey, ut_UploadURL = pt_URL presigned, ut_Method = ''PUT'',
                  ut_Headers = pt_Headers presigned, ut_Provider = S3_ProviderID s\<rparr>)))"

definition S3_BuildDownloadTarget :: "S3CompatibleProvider option \<Rightarrow> string \<Rightarrow> CloudObjectDownloadTarget service" where
  "S3_BuildDownloadTarget s key =
     (let objectKey = trim_space key
      in case s of
           None \<Rightarrow> fail ErrInvalidS3Config
         | Some p \<Rightarrow>
             andThen (reject_if (objectKey = []) ErrInvalidS3Config) (\<lambda>_.
             andThen (presign s \<lparr>pi_method = ''GET'', pi_objectKey = objectKey, pi_headers = [],
               pi_expires = s3_downloadTargetTTL p, pi_requestNow = 0\<rparr>) (\<lambda>presigned.
             ret \<lparr>dt_ObjectKey = objectKey, dt_DownloadURL = pt_URL presigned, dt_Method = ''GET'',
                  dt_Headers = pt_Headers presigned, dt_Provider = S3_ProviderID s,
                  dt_ExpiresAt = pt_ExpiresAt presigned\<rparr>)))"

text \<open>A call of the store through a presigned URL without a body.\<close>

definition operation_failed :: "string \<Rightarrow> 'a service \<Rightarrow> 'a service" where
  "operation_failed what m =
     andThen (attempt m) (\<lambda>r. case r of
       Inl e \<Rightarrow> fail (wrapped ErrS3OperationFailed (what @ '': '' @ error_text e)) | Inr x \<Rightarrow> ret x)"

definition s3_call :: "S3CompatibleProvider option \<Rightarrow> string \<Rightarrow> string \<Rightarrow> string \<Rightarrow> s3_response service" where
  "s3_call s verb what objectKey =
     (case s of
        None \<Rightarrow> fail ErrInvalidS3Config
      | Some p \<Rightarrow>
          andThen (reject_if (objectKey = []) ErrInvalidS3Config) (\<lambda>_.
          andThen (presign s \<lparr>pi_method = verb, pi_objectKey = objectKey, pi_headers = [],
            pi_expires = s3_operationTTL p, pi_requestNow = 0\<rparr>) (\<lambda>presigned.
          andThen (reject_if (url_parse (pt_URL presigned) = None) (Errorf (''parse '' @ pt_URL presigned))) (\<lambda>_.
            operation_failed what (s3_httpClient p
              \<lparr>hr_Method = verb, hr_URL = pt_URL presigned, hr_Headers = [], hr_Body = []\<rparr>)))))"

definition S3_DeleteObject :: "S3CompatibleProvider option \<Rightarrow> string \<Rightarrow> unit service" where
  "S3_DeleteObject s key =
     andThen (s3_call s ''DELETE'' ''delete object'' (trim_space key)) (\<lambda>resp.
       if so_StatusCode resp = 404 \<or> 200 \<le> so_StatusCode resp \<and> so_StatusCode resp < 300 then ret ()
       else fail (wrapped ErrS3OperationFailed (''delete object status '' @ string_of_int (so_StatusCode resp))))"

record CloudObjectHeadResult =
  ht_ObjectKey :: string
  ht_Exists :: bool
  ht_SizeBytes :: int
  ht_ContentHash :: string
  ht_ContentType :: string
  ht_Provider :: string

definition S3_HeadObject :: "S3CompatibleProvider option \<Rightarrow> string \<Rightarrow> CloudObjectHeadResult service" where
  "S3_HeadObject s key =
     (let objectKey = trim_space key
      in andThen (s3_call s ''HEAD'' ''head object'' objectKey) (\<lambda>resp.
         if so_StatusCode resp = 404
         then ret \<lparr>ht_ObjectKey = objectKey, ht_Exists = False, ht_SizeBytes = 0, ht_ContentHash = [],
                   ht_ContentType = [], ht_Provider = S3_ProviderID s\<rparr>
         else if so_StatusCode resp < 200 \<or> 300 \<le> so_StatusCode resp
         then fail (wrapped ErrS3OperationFailed (''head object status '' @ string_of_int (so_StatusCode resp)))
         else ret \<lparr>ht_ObjectKey = objectKey, ht_Exists = True, ht_SizeBytes = so_ContentLength resp,
                   ht_ContentHash = so_Header resp walnutContentHashHeader,
                   ht_ContentType = so_Header resp ''Content-Type'', ht_Provider = S3_ProviderID s\<rparr>))"

definition Unconfigured_DeleteObject :: "string \<Rightarrow> unit service" where
  "Unconfigured_DeleteObject key = fail ErrCloudStorageProviderNotConfigured"

definition Unconfigured_HeadObject :: "string \<Rightarrow> CloudObjectHeadResult service" where
  "Unconfigured_HeadObject key = fail ErrCloudStorageProviderNotConfigured"

section \<open>In the process\<close>

text \<open>The provider as the service sees it.\<close>

definition s3_provider :: "S3CompatibleProvider \<Rightarrow> ObjectStorageProvider" where
  "s3_provider p =
     \<lparr>os_ProviderID = S3_ProviderID (Some p), os_BuildUploadTarget = S3_BuildUploadTarget (Some p),
      os_BuildDownloadTarget = S3_BuildDownloadTarget (Some p)\<rparr>"

definition s3_settings :: "CloudStorageConfig \<Rightarrow> S3CompatibleConfig" where
  "s3_settings c =
     (let providerID = trim_space (cl_Provider c)
      in \<lparr>sc3_ProviderID = to_lower providerID, sc3_EndpointURL = cl_EndpointURL c, sc3_Region = cl_Region c,
          sc3_Bucket = cl_Bucket c, sc3_AccessKeyID = cl_AccessKeyID c, sc3_SecretAccessKey = cl_SecretAccessKey c,
          sc3_SessionToken = cl_SessionToken c,
          sc3_ForcePathStyle = (if equal_fold providerID ''r2'' then True else cl_ForcePathStyle c),
          sc3_ObjectTagging = cl_ObjectTagging c,
          sc3_UploadTargetTTL = secondsDuration (cl_UploadTargetTTLSeconds c),
          sc3_DownloadTargetTTL = secondsDuration (cl_DownloadTargetTTLSeconds c),
          sc3_OperationTTL = secondsDuration (cl_OperationTTLSeconds c)\<rparr>)"

text \<open>The name in the last message is quoted; escapes inside the quotes are not modelled.\<close>

definition buildCloudObjectStorageProvider ::
  "s3_client \<Rightarrow> (string \<Rightarrow> string \<Rightarrow> string) \<Rightarrow> Config option \<Rightarrow> err + ObjectStorageProvider" where
  "buildCloudObjectStorageProvider client mac cfg =
     (case cfg of
        None \<Rightarrow> Inr NewUnconfiguredObjectStorageProvider
      | Some c \<Rightarrow>
          (let providerID = trim_space (cl_Provider (zc_CloudStorage c)); name = to_lower providerID
           in if name = [] then Inr NewUnconfiguredObjectStorageProvider
              else if name = ''s3'' \<or> name = ''r2''
              then (case NewS3CompatibleProvider None client None mac (s3_settings (zc_CloudStorage c)) of
                      Inl e \<Rightarrow> Inl e | Inr p \<Rightarrow> Inr (s3_provider p))
              else Inl (Errorf (''cloud storage provider '' @ quoted providerID @ '' is not implemented yet''))))"

end
