(* ===== verification/Object_Theorems.thy ===== *)
theory Object_Theorems
  imports Object_Storage Licensing_Theorems
begin

text \<open>
  The presigned URLs of the object store.  A URL reads back as the object and the parameters that
  were signed, whatever bytes the object key holds, and it expires when the target says, after at
  least a second and at most seven days.
\<close>

section \<open>Percent encoding\<close>

lemma unescape_append:
  "query_unescape s = Some x \<Longrightarrow> query_unescape (s @ t) = (case query_unescape t of None \<Rightarrow> None | Some y \<Rightarrow> Some (x @ y))"
proof (induction s arbitrary: x rule: query_unescape.induct)
  case (2 c s)
  show ?case
  proof (cases "c = CHR ''%''")
    case True
    with 2 show ?thesis
      by (auto split: list.splits option.splits prod.splits)
  next
    case False
    with 2 show ?thesis by (auto split: option.splits)
  qed
qed (simp split: option.split)

lemma upper_hex_value: "n < 16 \<Longrightarrow> hex_value (upper_char (hex_digit n)) = Some n"
  by (simp add: hex_value_def hex_digit_def upper_char_def code_of_def Let_def)

lemma code_small: "code_of c < 256"
  by (simp add: code_of_def)

lemma encoded_char:
  "query_unescape (if isAWSUnreserved c \<or> c = CHR ''/'' \<and> \<not> b then [c] else CHR ''%'' # to_upper (hex_text [c])) = Some [c]"
proof (cases "isAWSUnreserved c \<or> c = CHR ''/'' \<and> \<not> b")
  case True
  then have "c \<noteq> CHR ''%''" "c \<noteq> CHR ''+''" by (auto simp: isAWSUnreserved_def code_of_def)
  with True show ?thesis by simp
next
  case False
  have "hex_value (upper_char (hex_digit (code_of c div 16))) = Some (code_of c div 16)"
    "hex_value (upper_char (hex_digit (code_of c mod 16))) = Some (code_of c mod 16)"
    using code_small [of c] by (intro upper_hex_value; simp)+
  with False show ?thesis by (simp add: to_upper_def hex_text_def) (simp add: code_of_def)
qed

lemma awsURIEncode_reads_back: "query_unescape (awsURIEncode s b) = Some s"
proof (induction s)
  case (Cons c s)
  then show ?case
    using unescape_append [OF encoded_char [of c b], of "awsURIEncode s b"]
    by (simp add: awsURIEncode_def)
qed (simp add: awsURIEncode_def)

definition url_mark :: "char \<Rightarrow> bool" where
  "url_mark c \<longleftrightarrow> code_of c \<in> {38, 61, 59, 63, 35}"

lemma upper_hex_plain: "n < 16 \<Longrightarrow> \<not> url_mark (upper_char (hex_digit n))"
  by (auto simp: url_mark_def hex_digit_def upper_char_def code_of_def Let_def)

lemma awsURIEncode_plain: "c \<in> set (awsURIEncode s b) \<Longrightarrow> \<not> url_mark c"
proof -
  have mark: "isAWSUnreserved c \<Longrightarrow> \<not> url_mark c" for c
    by (auto simp: isAWSUnreserved_def url_mark_def code_of_def)
  have other: "\<not> url_mark (CHR ''/'')" "\<not> url_mark (CHR ''%'')" by (simp_all add: url_mark_def code_of_def)
  have digits: "\<not> url_mark x" if "x \<in> set (to_upper (hex_text [d]))" for x d
    using that upper_hex_plain code_small [of d] by (auto simp: to_upper_def hex_text_def)
  show "c \<in> set (awsURIEncode s b) \<Longrightarrow> \<not> url_mark c"
    using mark other digits by (auto simp: awsURIEncode_def split: if_splits)
qed

section \<open>Queries\<close>

definition aws_pair :: "string \<times> string \<Rightarrow> string" where
  "aws_pair kv = awsURIEncode (fst kv) True @ ''='' @ awsURIEncode (snd kv) True"

lemma query_pair_encoded: "query_pair (aws_pair kv) = Some kv"
proof -
  have plain: "c \<notin> set (awsURIEncode s b)" if "url_mark c" for c s b
    using that awsURIEncode_plain by blast
  have marks: "url_mark (CHR ''='')" "url_mark (CHR '';'')" by (simp_all add: url_mark_def code_of_def)
  have "cut_at (CHR ''='') (aws_pair kv) = (awsURIEncode (fst kv) True, awsURIEncode (snd kv) True)"
    using plain [OF marks(1)] by (simp add: cut_at_def aws_pair_def takeWhile_append dropWhile_append)
  moreover have "CHR '';'' \<notin> set (aws_pair kv)" using plain [OF marks(2)] by (simp add: aws_pair_def)
  ultimately show ?thesis by (simp add: query_pair_def awsURIEncode_reads_back)
qed

lemma aws_pair_plain: "CHR ''&'' \<notin> set (aws_pair kv)" "aws_pair kv \<noteq> []"
  using awsURIEncode_plain [of "CHR ''&''"] by (auto simp: aws_pair_def url_mark_def code_of_def)

lemma query_pairs_encoded: "query_pairs (List.map aws_pair kvs) = Some kvs"
  by (induction kvs) (simp_all add: query_pair_encoded aws_pair_plain)

lemma split_join_with:
  "xs \<noteq> [] \<Longrightarrow> (\<And>x. x \<in> set xs \<Longrightarrow> CHR ''&'' \<notin> set x) \<Longrightarrow> split_on (CHR ''&'') (join_with ''&'' xs) = xs"
  by (induction "''&''" xs rule: join_with.induct) (simp_all add: split_on_whole split_on_next)

lemma sorted_pairs: "\<exists>kvs. sort (List.map aws_pair m) = List.map aws_pair kvs \<and> mset kvs = mset m"
proof (intro exI conjI)
  have decoded: "aws_pair (the (query_pair x)) = x" if "x \<in> set (sort (List.map aws_pair m))" for x
    using that by (auto simp: query_pair_encoded)
  then show "sort (List.map aws_pair m) = List.map aws_pair (List.map (the \<circ> query_pair) (sort (List.map aws_pair m)))"
    unfolding map_map comp_def by (intro map_idI [symmetric]) simp
  have "mset (List.map (the \<circ> query_pair) (sort (List.map aws_pair m)))
      = image_mset (the \<circ> query_pair) (image_mset aws_pair (mset m))" by simp
  also have "\<dots> = mset m" by (simp add: image_mset.compositionality comp_def query_pair_encoded)
  finally show "mset (List.map (the \<circ> query_pair) (sort (List.map aws_pair m))) = mset m" .
qed

lemma canonicalQueryString_reads_back:
  assumes "m \<noteq> []"
  obtains kvs where "mset kvs = mset m"
    and "\<And>kv. parse_query (canonicalQueryString m @ ''&'' @ aws_pair kv) = Some (kvs @ [kv])"
proof -
  obtain kvs where kvs: "sort (List.map aws_pair m) = List.map aws_pair kvs" "mset kvs = mset m"
    using sorted_pairs by blast
  have ne: "kvs \<noteq> []" using kvs(2) assms by auto
  have enc: "List.map (\<lambda>(key, value). awsURIEncode key True @ ''='' @ awsURIEncode value True) m = List.map aws_pair m"
    by (auto simp: aws_pair_def)
  have snoc: "join_with ''&'' xs @ ''&'' @ y = join_with ''&'' (xs @ [y])" if "xs \<noteq> []" for xs y
    using that by (induction "''&''" xs rule: join_with.induct) simp_all
  have "parse_query (canonicalQueryString m @ ''&'' @ aws_pair kv) = Some (kvs @ [kv])" for kv
  proof -
    have "canonicalQueryString m @ ''&'' @ aws_pair kv = join_with ''&'' (List.map aws_pair (kvs @ [kv]))"
      unfolding canonicalQueryString_def enc kvs(1)
      using snoc [of "List.map aws_pair kvs" "aws_pair kv"] ne by simp
    moreover have "split_on (CHR ''&'') (join_with ''&'' (List.map aws_pair (kvs @ [kv]))) = List.map aws_pair (kvs @ [kv])"
      by (rule split_join_with) (auto simp: aws_pair_plain)
    ultimately have "parse_query (canonicalQueryString m @ ''&'' @ aws_pair kv)
        = query_pairs (List.map aws_pair (kvs @ [kv]))"
      by (simp add: parse_query_def)
    then show ?thesis by (simp only: query_pairs_encoded)
  qed
  with kvs(2) show thesis using that by blast
qed

section \<open>Presigned URLs\<close>

lemma normalizeTTL_bounds:
  "second_ns \<le> normalizeTTL v f" "normalizeTTL v f \<le> maxPresignTTLSeconds * second_ns"
  by (simp_all add: normalizeTTL_def Let_def)

lemma hex_digit_unreserved: "n < 16 \<Longrightarrow> isAWSUnreserved (hex_digit n)"
  by (auto simp: hex_digit_def isAWSUnreserved_def code_of_def Let_def)

lemma hex_text_unreserved: "c \<in> set (hex_text s) \<Longrightarrow> isAWSUnreserved c"
proof (clarsimp simp: hex_text_def)
  fix x assume "c = hex_digit (code_of x div 16) \<or> c = hex_digit (code_of x mod 16)"
  moreover have "code_of x div 16 < 16" using code_small [of x] by simp
  ultimately show "isAWSUnreserved c" by (auto intro: hex_digit_unreserved)
qed

lemma encode_unreserved: "(\<And>c. c \<in> set s \<Longrightarrow> isAWSUnreserved c) \<Longrightarrow> awsURIEncode s b = s"
  by (induction s) (simp_all add: awsURIEncode_def)

lemma signature_pair: "aws_pair (''X-Amz-Signature'', hex_text s) = ''X-Amz-Signature='' @ hex_text s"
proof -
  have "awsURIEncode ''X-Amz-Signature'' True = ''X-Amz-Signature''" by code_simp
  then show ?thesis by (simp add: aws_pair_def encode_unreserved hex_text_unreserved)
qed

lemma presign_query_ok:
  "map_ok (presign_query p scope date n names)" "presign_query p scope date n names \<noteq> []"
  "map_of (presign_query p scope date n names) ''X-Amz-Expires'' = Some (string_of_int n)"
  "map_of (presign_query p scope date n names) ''X-Amz-Date'' = Some date"
  "map_of (presign_query p scope date n names) ''X-Amz-SignedHeaders'' = Some names"
proof -
  show "map_ok (presign_query p scope date n names)"
    by (simp add: presign_query_def Let_def map_ok_def)
  show e: "map_of (presign_query p scope date n names) ''X-Amz-Expires'' = Some (string_of_int n)"
    by (simp add: presign_query_def Let_def)
  then show "presign_query p scope date n names \<noteq> []" by auto
  show "map_of (presign_query p scope date n names) ''X-Amz-Date'' = Some date"
    "map_of (presign_query p scope date n names) ''X-Amz-SignedHeaders'' = Some names"
    by (simp_all add: presign_query_def Let_def)
qed

lemma map_of_permuted:
  assumes "map_ok m" "mset kvs = mset m"
  shows "map_of kvs = map_of m"
proof -
  have "distinct (List.map fst m)" using assms(1) by (simp add: map_ok_def strict_sorted_iff)
  moreover have "distinct (List.map fst kvs)"
    using calculation assms(2) by (metis mset_map mset_eq_imp_distinct_iff)
  ultimately show ?thesis using assms(2) by (metis map_of_inject_set mset_eq_setD)
qed

lemma path_reads_back:
  "objectHostAndPath p key = (host, path) \<Longrightarrow>
     query_unescape path = Some (''/'' @ (if s3_forcePathStyle p then s3_bucket p @ ''/'' else []) @ key)"
  using unescape_append [OF awsURIEncode_reads_back [of "s3_bucket p" True], of "CHR ''/'' # awsURIEncode key False"]
  by (auto simp: objectHostAndPath_def Let_def awsURIEncode_reads_back split: if_splits)

text \<open>C36: A presigned URL reads back as the object and the signed parameters, whatever bytes the object
  key holds; it carries the time of the signature and a validity between one second and seven days,
  and the target expires when the validity ends.\<close>

theorem presigned_url_reads_back:
  assumes "presign (Some p) i w = (Inr r, w')"
  shows "\<exists>now path query signature kvs seconds.
      pt_URL r = so_Scheme (s3_endpoint p) @ ''://'' @ fst (objectHostAndPath p (pi_objectKey i)) @ path @ ''?'' @ query
          @ ''&X-Amz-Signature='' @ signature
    \<and> query_unescape path = Some (''/'' @ (if s3_forcePathStyle p then s3_bucket p @ ''/'' else []) @ pi_objectKey i)
    \<and> parse_query (query @ ''&X-Amz-Signature='' @ signature) = Some (kvs @ [(''X-Amz-Signature'', signature)])
    \<and> map_of kvs ''X-Amz-Date'' = Some (format_amz now)
    \<and> map_of kvs ''X-Amz-Expires'' = Some (string_of_int seconds) \<and> 1 \<le> seconds \<and> seconds \<le> 604800
    \<and> map_of kvs ''X-Amz-SignedHeaders''
        = Some (signedHeaderNames (canonicalHeaderMap (fst (objectHostAndPath p (pi_objectKey i))) (pi_headers i)))
    \<and> (pi_requestNow i = 0 \<or> now = pi_requestNow i)
    \<and> now + seconds * second_ns \<le> pt_ExpiresAt r \<and> pt_ExpiresAt r < now + (seconds + 1) * second_ns"
proof -
  let ?key = "pi_objectKey i"
  obtain host path where hp: "objectHostAndPath p ?key = (host, path)" by (cases "objectHostAndPath p ?key")
  let ?names = "signedHeaderNames (canonicalHeaderMap host (pi_headers i))"
  let ?e = "normalizeTTL (pi_expires i) defaultTargetTTL"
  let ?n = "?e div second_ns"
  let ?m = "\<lambda>now. presign_query p (format_ymd now @ ''/'' @ s3_region p @ ''/s3/aws4_request'') (format_amz now) ?n ?names"
  have n: "1 \<le> ?n" "?n \<le> 604800" "?n * second_ns \<le> ?e" "?e < (?n + 1) * second_ns"
    using normalizeTTL_bounds [of "pi_expires i" defaultTargetTTL] by auto
  have "\<exists>now signature.
      pt_URL r = so_Scheme (s3_endpoint p) @ ''://'' @ host @ path @ ''?'' @ canonicalQueryString (?m now)
        @ ''&X-Amz-Signature='' @ hex_text signature
      \<and> pt_ExpiresAt r = now + ?e \<and> (pi_requestNow i = 0 \<or> now = pi_requestNow i)"
    using assms n(2) by (auto simp: presign_def hp andThen_def reject_if_def ret_def fail_def sha256Hex_def Let_def
      split: if_splits prod.splits sum.splits)
  then obtain now signature where r: "pt_URL r = so_Scheme (s3_endpoint p) @ ''://'' @ host @ path @ ''?''
        @ canonicalQueryString (?m now) @ ''&X-Amz-Signature='' @ hex_text signature"
    "pt_ExpiresAt r = now + ?e" "pi_requestNow i = 0 \<or> now = pi_requestNow i" by blast
  obtain kvs where kvs: "mset kvs = mset (?m now)"
    "parse_query (canonicalQueryString (?m now) @ ''&'' @ aws_pair (''X-Amz-Signature'', hex_text signature))
      = Some (kvs @ [(''X-Amz-Signature'', hex_text signature)])"
    by (rule canonicalQueryString_reads_back [OF presign_query_ok(2)]) blast
  have "map_of kvs = map_of (?m now)" using presign_query_ok(1) kvs(1) by (rule map_of_permuted)
  moreover have "query_unescape path = Some (''/'' @ (if s3_forcePathStyle p then s3_bucket p @ ''/'' else []) @ ?key)"
    using hp path_reads_back by blast
  moreover have "now + ?n * second_ns \<le> pt_ExpiresAt r" "pt_ExpiresAt r < now + (?n + 1) * second_ns"
    using n by (simp_all add: r(2))
  ultimately show ?thesis
    using r(1,3) n(1,2) kvs(2)
    by (intro exI [of _ now] exI [of _ path] exI [of _ "canonicalQueryString (?m now)"] exI [of _ "hex_text signature"]
      exI [of _ kvs] exI [of _ ?n]) (simp add: hp presign_query_ok signature_pair)
qed

lemma presign_returns:
  assumes "trim_space (pi_method i) \<noteq> []" "trim_space (pi_objectKey i) \<noteq> []" "pi_requestNow i \<noteq> 0"
  shows "isl (fst (presign (Some p) i w)) = False"
  using assms by (simp add: presign_def andThen_def reject_if_def ret_def sha256Hex_def Let_def split: prod.split)

text \<open>A store and an object with a blank in its key.\<close>

definition sample_store :: "err + S3CompatibleProvider" where
  "sample_store = NewS3CompatibleProvider None (\<lambda>_. fail ErrRandom) None (\<lambda>key text. text)
     \<lparr>sc3_ProviderID = ''r2'', sc3_EndpointURL = ''https://objects.example/'', sc3_Region = ''auto'',
      sc3_Bucket = ''books'', sc3_AccessKeyID = ''AK'', sc3_SecretAccessKey = ''s'', sc3_SessionToken = [],
      sc3_ForcePathStyle = False, sc3_ObjectTagging = False, sc3_UploadTargetTTL = 0, sc3_DownloadTargetTTL = 0,
      sc3_OperationTTL = 0\<rparr>"

definition sample_read :: presignInput where
  "sample_read = \<lparr>pi_method = ''GET'', pi_objectKey = ''users/u 1'', pi_headers = [], pi_expires = 0,
     pi_requestNow = 63082281600000000000\<rparr>"

lemma presigned_url_reads_back_witness:
  "\<exists>path query signature kvs. pt_URL (projr (fst (presign (Some (projr sample_store)) sample_read (sample_world 0 empty_database))))
       = ''https://books.objects.example'' @ path @ ''?'' @ query @ ''&X-Amz-Signature='' @ signature
     \<and> query_unescape path = Some ''/users/u 1''
     \<and> parse_query (query @ ''&X-Amz-Signature='' @ signature) = Some (kvs @ [(''X-Amz-Signature'', signature)])"
proof -
  let ?p = "projr sample_store"
  let ?run = "presign (Some ?p) sample_read (sample_world 0 empty_database)"
  have "isl (fst ?run) = False" by (rule presign_returns) code_simp+
  from presigned_url_reads_back [OF run_ok [OF this]]
  have "\<exists>path query signature kvs. pt_URL (ok_result ?run) = so_Scheme (s3_endpoint ?p) @ ''://''
        @ fst (objectHostAndPath ?p (pi_objectKey sample_read)) @ path @ ''?'' @ query @ ''&X-Amz-Signature='' @ signature
      \<and> query_unescape path = Some (''/'' @ (if s3_forcePathStyle ?p then s3_bucket ?p @ ''/'' else []) @ pi_objectKey sample_read)
      \<and> parse_query (query @ ''&X-Amz-Signature='' @ signature) = Some (kvs @ [(''X-Amz-Signature'', signature)])"
    by (elim exE conjE) (intro exI conjI; assumption)
  moreover have "so_Scheme (s3_endpoint ?p) = ''https''"
    "fst (objectHostAndPath ?p (pi_objectKey sample_read)) = ''books.objects.example''"
    "s3_forcePathStyle ?p = False" "pi_objectKey sample_read = ''users/u 1''" by code_simp+
  ultimately show ?thesis by simp
qed

end
