(* ===== verification/Admin_Privacy.thy ===== *)
theory Admin_Privacy
  imports Access_Login Go_URL Go_Values
begin

text \<open>
  The privacy projections of the administration: service/admin_privacy.go and the masks of
  service/access_admin.go.  Addresses are shown masked, with a fingerprint and their domain;
  addresses inside free text are replaced.  The pattern of an address is matched the way the regular
  expression engine does it: leftmost, every repetition as long as possible.
\<close>

section \<open>Masks\<close>

abbreviation stars :: "nat \<Rightarrow> string" where "stars n \<equiv> replicate n (CHR ''*'')"

definition maskToken :: "string \<Rightarrow> string" where
  "maskToken v =
     (let n = length v
      in if n = 0 then []
         else if n = 1 then ''*''
         else if n \<le> 4 then take 1 v @ stars (n - 1)
         else take 2 v @ stars (min 6 (n - 4)) @ drop (n - 2) v)"

definition maskDisplayName :: "string \<Rightarrow> string" where
  "maskDisplayName v0 =
     (let v = trim_space v0 in if v = [] then [] else if length v = 1 then ''*'' else take 1 v @ ''***'')"

definition maskEmail :: "string \<Rightarrow> string" where
  "maskEmail email =
     (let normalized = normalizeEmail email
      in if CHR ''@'' \<notin> set normalized then maskToken normalized
         else case cut_at (CHR ''@'') normalized of (local_part, domainPart) \<Rightarrow> maskToken local_part @ ''@'' @ domainPart)"

definition emailDomain :: "string \<Rightarrow> string" where
  "emailDomain email = snd (cut_at (CHR ''@'') (normalizeEmail email))"

definition tokenFingerprint :: "string \<Rightarrow> string service" where
  "tokenFingerprint value0 w =
     (let value = trim_space value0
      in (Inr (if value = [] then [] else take 12 (sha256_hex w (''walnut-admin-token-v1:'' @ value))), w))"

definition formatTime :: "instant \<Rightarrow> string" where
  "formatTime t = (if t = 0 then [] else format_rfc3339 t)"

definition formatOptionalTime :: "instant option \<Rightarrow> string" where
  "formatOptionalTime t = (case t of None \<Rightarrow> [] | Some x \<Rightarrow> formatTime x)"

section \<open>Addresses\<close>

definition local_char :: "char \<Rightarrow> bool" where
  "local_char c \<longleftrightarrow> letter c \<or> json_digit c \<or> c \<in> set ''._%+-''"

definition domain_char :: "char \<Rightarrow> bool" where
  "domain_char c \<longleftrightarrow> letter c \<or> json_digit c \<or> c \<in> set ''.-''"

text \<open>The length of a domain with its last dot before at least two letters; all letters after it count.\<close>

definition domain_end :: "string \<Rightarrow> nat option" where
  "domain_end d =
     (case List.filter (\<lambda>k. d ! k = CHR ''.'' \<and> 2 \<le> length (takeWhile letter (drop (Suc k) d))) (rev [1..<length d]) of
        [] \<Rightarrow> None
      | k # _ \<Rightarrow> Some (Suc k + length (takeWhile letter (drop (Suc k) d))))"

text \<open>The address at the beginning of a text and the rest behind it.\<close>

definition email_match :: "string \<Rightarrow> (string \<times> string) option" where
  "email_match s =
     (let name = takeWhile local_char s; r = drop (length name) s
      in if name = [] \<or> take 1 r \<noteq> ''@'' then None
         else let d = takeWhile domain_char (drop 1 r)
              in (case domain_end d of
                    None \<Rightarrow> None
                  | Some n \<Rightarrow> Some (take (length name + 1 + n) s, drop (length name + 1 + n) s)))"

lemma email_match_shorter: "email_match s = Some (m, r) \<Longrightarrow> length r < length s"
  by (cases s) (auto simp: email_match_def Let_def less_Suc_eq_le split: if_splits option.splits)

definition looksLikeEmail :: "string \<Rightarrow> bool" where
  "looksLikeEmail value0 \<longleftrightarrow>
     (let value = trim_space value0
      in value \<noteq> [] \<and> (case email_match value of Some (_, r) \<Rightarrow> r = [] | None \<Rightarrow> False))"

record AdminEmailProjection =
  ep_Masked :: string
  ep_Fingerprint :: string
  ep_Domain :: string

record AdminActorProjection =
  am_Type :: string
  am_ID :: string
  am_Masked :: string
  am_Fingerprint :: string
  am_Domain :: string

definition ProjectEmail :: "string \<Rightarrow> AdminEmailProjection service" where
  "ProjectEmail email =
     andThen (emailFingerprint email) (\<lambda>fingerprint.
     ret \<lparr>ep_Masked = maskEmail email, ep_Fingerprint = fingerprint, ep_Domain = emailDomain email\<rparr>)"

definition isKnownOperatorActor :: "string \<Rightarrow> bool" where
  "isKnownOperatorActor actor \<longleftrightarrow>
     actor \<in> {''admin'', ''system'', ''unknown'', ''mock'', ''creem'', ''wechat'', ''alipay'', ''billing_provider''}
     \<or> has_prefix actor ''legacy-admin-''"

definition ProjectActor :: "string \<Rightarrow> AdminActorProjection service" where
  "ProjectActor actor0 =
     (let actor = trim_space actor0;
          plain = (\<lambda>kind i. \<lparr>am_Type = kind, am_ID = i, am_Masked = [], am_Fingerprint = [], am_Domain = []\<rparr>)
      in if actor = [] then ret (plain ''unknown'' [])
         else if looksLikeEmail actor
         then andThen (ProjectEmail actor) (\<lambda>e.
              ret \<lparr>am_Type = ''email'', am_ID = [], am_Masked = ep_Masked e, am_Fingerprint = ep_Fingerprint e,
                   am_Domain = ep_Domain e\<rparr>)
         else if has_prefix actor ''usr_'' then ret (plain ''user'' actor)
         else if isKnownOperatorActor actor then ret (plain ''operator'' actor)
         else andThen (tokenFingerprint actor) (\<lambda>fingerprint.
              ret \<lparr>am_Type = ''opaque'', am_ID = [], am_Masked = maskToken actor, am_Fingerprint = fingerprint,
                   am_Domain = []\<rparr>))"

definition redacted_email :: "string \<Rightarrow> string service" where
  "redacted_email raw =
     andThen (ProjectEmail raw) (\<lambda>e.
     ret (if ep_Fingerprint e = [] then ep_Masked e else ep_Masked e @ ''#'' @ ep_Fingerprint e))"

text \<open>\<open>ReplaceAllStringFunc\<close>: from left to right, behind a match the search goes on after it.\<close>

function redact_emails :: "string \<Rightarrow> string service" where
  "redact_emails s =
     (case email_match s of
        Some (m, r) \<Rightarrow> andThen (redacted_email m) (\<lambda>x. andThen (redact_emails r) (\<lambda>y. ret (x @ y)))
      | None \<Rightarrow> (case s of [] \<Rightarrow> ret [] | c # t \<Rightarrow> andThen (redact_emails t) (\<lambda>y. ret (c # y))))"
  by pat_completeness auto
termination by (relation "measure length") (auto dest: email_match_shorter)

declare redact_emails.simps [simp del]

definition RedactFreeText :: "string \<Rightarrow> string service" where
  "RedactFreeText v = (if trim_space v = [] then ret v else redact_emails v)"

definition RedactIdentifier :: "string \<Rightarrow> string service" where
  "RedactIdentifier value0 =
     (let value = trim_space value0
      in if value = [] then ret [] else if looksLikeEmail value then redacted_email value else ret value)"

end
