(* ===== verification/Admin_Reset.thy ===== *)
theory Admin_Reset
  imports Admin_Privacy License_API Http_Middleware Subscription_Projection Cloud_Storage
begin

text \<open>
  The reset of a test user: service/admin_test_scenario_reset.go, its repository
  gorm_repo/admin_test_scenario_reset.go.  The repository counts and deletes the
  rows of one user in nineteen tables, in one transaction; the service refuses in production.
\<close>

abbreviation AdminTestScenarioUserControlPlane :: string where
  "AdminTestScenarioUserControlPlane \<equiv> ''user_control_plane''"
abbreviation ErrAdminTestScenarioResetUnavailable :: err where
  "ErrAdminTestScenarioResetUnavailable \<equiv> Sentinel ''admin test scenario reset is unavailable''"
abbreviation ErrInvalidAdminTestScenarioReset :: err where
  "ErrInvalidAdminTestScenarioReset \<equiv> Sentinel ''invalid admin test scenario reset''"
abbreviation ErrAdminTestScenarioNotFound :: err where
  "ErrAdminTestScenarioNotFound \<equiv> Sentinel ''admin test scenario not found''"

section \<open>The repository\<close>

record AdminTestScenarioResetQuery =
  qk_Scenario :: string
  qk_UserID :: string
  qk_Email :: string
  qk_DryRun :: bool

record AdminTestScenarioResetRecord =
  td_Scenario :: string
  td_User :: "User option"
  td_Email :: string
  td_AffectedCounts :: "(string \<times> int) list"

text \<open>Without a user id a missing user is no error.\<close>

definition adminResetFindUser :: "AdminTestScenarioResetQuery \<Rightarrow> User option service" where
  "adminResetFindUser q =
     (if qk_UserID q = [] \<and> qk_Email q = [] then fail ErrNotFound
      else andThen (db_read (\<lambda>d. sort_key us_ID (List.filter
               (\<lambda>u. column_matches (qk_UserID q) (us_ID u) \<and> column_matches (qk_Email q) (us_Email u)) (tb_users d)))) (\<lambda>us.
           case us of
             u # _ \<Rightarrow> ret (Some u)
           | [] \<Rightarrow> if qk_UserID q \<noteq> [] then fail ErrNotFound else ret None))"

text \<open>A condition on one table: how many rows meet it, and their deletion.\<close>

record reset_operation =
  ro_name :: string
  ro_count :: "database \<Rightarrow> nat"
  ro_delete :: "database \<Rightarrow> database"

definition reset_rows ::
  "string \<Rightarrow> (database \<Rightarrow> 'r list) \<Rightarrow> (('r list \<Rightarrow> 'r list) \<Rightarrow> database \<Rightarrow> database) \<Rightarrow> ('r \<Rightarrow> bool) \<Rightarrow> reset_operation" where
  "reset_rows name rows upd P =
     \<lparr>ro_name = name, ro_count = (\<lambda>d. length (List.filter P (rows d))), ro_delete = upd (List.filter (\<lambda>x. \<not> P x))\<rparr>"

definition adminResetEmailWhere :: "string \<Rightarrow> ('r \<Rightarrow> string) \<Rightarrow> ('r \<Rightarrow> bool) option" where
  "adminResetEmailWhere email column = (if trim_space email = [] then None else Some (\<lambda>x. column x = email))"

definition adminResetUserWhere :: "string list \<Rightarrow> ('r \<Rightarrow> string) \<Rightarrow> ('r \<Rightarrow> bool) option" where
  "adminResetUserWhere userIDs column = (if userIDs = [] then None else Some (\<lambda>x. column x \<in> set userIDs))"

definition adminResetOrderWhere :: "string list \<Rightarrow> ('r \<Rightarrow> string) \<Rightarrow> ('r \<Rightarrow> bool) option" where
  "adminResetOrderWhere orderNos column = (if orderNos = [] then None else Some (\<lambda>x. column x \<in> set orderNos))"

definition adminResetUserOrEmailWhere ::
  "string list \<Rightarrow> string \<Rightarrow> ('r \<Rightarrow> string) \<Rightarrow> ('r \<Rightarrow> string) \<Rightarrow> ('r \<Rightarrow> bool) option" where
  "adminResetUserOrEmailWhere userIDs email userColumn emailColumn =
     (let hasUsers = userIDs \<noteq> []; hasEmail = trim_space email \<noteq> []
      in if hasUsers \<and> hasEmail then Some (\<lambda>x. userColumn x \<in> set userIDs \<or> emailColumn x = email)
         else if hasUsers then Some (\<lambda>x. userColumn x \<in> set userIDs)
         else if hasEmail then Some (\<lambda>x. emailColumn x = email)
         else None)"

definition adminResetUserOrOrderWhere ::
  "string list \<Rightarrow> string list \<Rightarrow> ('r \<Rightarrow> string) \<Rightarrow> ('r \<Rightarrow> string) \<Rightarrow> ('r \<Rightarrow> bool) option" where
  "adminResetUserOrOrderWhere userIDs orderNos userColumn orderColumn =
     (if userIDs \<noteq> [] \<and> orderNos \<noteq> [] then Some (\<lambda>x. userColumn x \<in> set userIDs \<or> orderColumn x \<in> set orderNos)
      else if userIDs \<noteq> [] then Some (\<lambda>x. userColumn x \<in> set userIDs)
      else if orderNos \<noteq> [] then Some (\<lambda>x. orderColumn x \<in> set orderNos)
      else None)"

definition when_where :: "('r \<Rightarrow> bool) option \<Rightarrow> (('r \<Rightarrow> bool) \<Rightarrow> reset_operation) \<Rightarrow> reset_operation list" where
  "when_where P add = (case P of None \<Rightarrow> [] | Some p \<Rightarrow> [add p])"

definition adminResetOperations :: "string list \<Rightarrow> string \<Rightarrow> string list \<Rightarrow> reset_operation list" where
  "adminResetOperations us email nos =
     when_where (adminResetEmailWhere email lc_Email) (reset_rows ''access_login_challenges'' tb_challenges tb_challenges_update)
     @ when_where (adminResetUserOrEmailWhere us email rr_UserID rr_Email)
         (reset_rows ''registration_requests'' tb_registrations tb_registrations_update)
     @ when_where (adminResetUserOrEmailWhere us email tg_UserID tg_Email)
         (reset_rows ''trial_grants'' tb_trials tb_trials_update)
     @ when_where (adminResetUserWhere us co_UserID) (reset_rows ''cloud_objects'' tb_objects tb_objects_update)
     @ when_where (adminResetUserWhere us cm_UserID) (reset_rows ''cloud_manifests'' tb_manifests tb_manifests_update)
     @ when_where (adminResetUserWhere us cs_UserID) (reset_rows ''cloud_sync_sessions'' tb_sessions tb_sessions_update)
     @ when_where (adminResetUserWhere us cp_UserID) (reset_rows ''cloud_projects'' tb_projects tb_projects_update)
     @ when_where (adminResetUserWhere us sc_UserID)
         (reset_rows ''subscription_cancellations'' tb_cancellations tb_cancellations_update)
     @ when_where (adminResetUserWhere us ct_UserID)
         (reset_rows ''credit_transactions'' tb_transactions tb_transactions_update)
     @ when_where (adminResetUserWhere us cr_UserID)
         (reset_rows ''credit_reservations'' tb_reservations tb_reservations_update)
     @ when_where (adminResetUserWhere us cb_UserID) (reset_rows ''credit_buckets'' tb_buckets tb_buckets_update)
     @ when_where (adminResetUserWhere us ca_UserID) (reset_rows ''credit_accounts'' tb_accounts tb_accounts_update)
     @ when_where (adminResetUserWhere us ud_UserID) (reset_rows ''user_devices'' tb_devices tb_devices_update)
     @ when_where (adminResetUserWhere us eg_UserID) (reset_rows ''entitlement_grants'' tb_grants tb_grants_update)
     @ when_where (adminResetUserOrOrderWhere us nos fe_UserID fe_OutTradeNo)
         (reset_rows ''fulfillment_executions'' tb_executions tb_executions_update)
     @ when_where (adminResetUserOrOrderWhere us nos rf_UserID rf_OutTradeNo)
         (reset_rows ''payment_risk_flags'' tb_risk_flags tb_risk_flags_update)
     @ when_where (adminResetOrderWhere nos pe_OutTradeNo) (reset_rows ''payment_event_inboxes'' tb_events tb_events_update)
     @ when_where (adminResetUserWhere us or_UserID) (reset_rows ''orders'' tb_orders tb_orders_update)
     @ when_where (adminResetUserWhere us us_ID) (reset_rows ''users'' tb_users tb_users_update)"

fun compact_loop :: "string list \<Rightarrow> string list \<Rightarrow> string list" where
  "compact_loop seen [] = []"
| "compact_loop seen (v # vs) =
     (let t = trim_space v in if t = [] \<or> t \<in> set seen then compact_loop seen vs else t # compact_loop (t # seen) vs)"

definition compactStrings :: "string list \<Rightarrow> string list" where
  "compactStrings vs = compact_loop [] vs"

definition adminResetOrderNos :: "string list \<Rightarrow> string list service" where
  "adminResetOrderNos userIDs =
     (if userIDs = [] then ret []
      else andThen (db_read (\<lambda>d. List.map or_OutTradeNo (List.filter (\<lambda>x. or_UserID x \<in> set userIDs) (tb_orders d))))
             (\<lambda>nos. ret (compactStrings nos)))"

text \<open>One operation: the count, and the deletion unless it is a dry run or there is nothing to delete.\<close>

definition reset_step :: "bool \<Rightarrow> reset_operation \<Rightarrow> (string \<times> int) list \<Rightarrow> (string \<times> int) list service" where
  "reset_step dryRun oper counts =
     andThen (db_read (\<lambda>d. int (ro_count oper d))) (\<lambda>n.
     andThen (if dryRun \<or> n = 0 then ret () else db_write (\<lambda>d. Some ((), ro_delete oper d))) (\<lambda>_.
     ret (counts @ [(ro_name oper, n)])))"

definition reset_exec :: "bool \<Rightarrow> string list \<Rightarrow> string \<Rightarrow> (string \<times> int) list service" where
  "reset_exec dryRun userIDs email =
     andThen (adminResetOrderNos userIDs) (\<lambda>orderNos.
     for_each (adminResetOperations userIDs email orderNos) (reset_step dryRun) [])"

definition adminResetTotal :: "(string \<times> int) list \<Rightarrow> int" where
  "adminResetTotal counts = sum_list (List.map snd counts)"

text \<open>The reset of the user that was found, or of the address without a user.\<close>

definition reset_email :: "AdminTestScenarioResetQuery \<Rightarrow> User option \<Rightarrow> string" where
  "reset_email q user =
     (case user of
        Some u \<Rightarrow> if qk_Email q = [] then trim_space (to_lower (us_Email u)) else qk_Email q
      | None \<Rightarrow> qk_Email q)"

definition reset_user_ids :: "User option \<Rightarrow> string list" where
  "reset_user_ids user = (case user of Some u \<Rightarrow> [us_ID u] | None \<Rightarrow> [])"

definition reset_found :: "AdminTestScenarioResetQuery \<Rightarrow> User option \<Rightarrow> AdminTestScenarioResetRecord service" where
  "reset_found q user =
     (let exec = reset_exec (qk_DryRun q) (reset_user_ids user) (reset_email q user)
      in andThen (if qk_DryRun q then exec else in_transaction exec) (\<lambda>counts.
         if adminResetTotal counts = 0 then fail ErrNotFound
         else ret \<lparr>td_Scenario = qk_Scenario q, td_User = user, td_Email = reset_email q user,
                   td_AffectedCounts = counts\<rparr>))"

definition ResetUserControlPlane :: "AdminTestScenarioResetQuery \<Rightarrow> AdminTestScenarioResetRecord service" where
  "ResetUserControlPlane q0 =
     (let q = q0\<lparr>qk_Email := trim_space (to_lower (qk_Email q0)), qk_UserID := trim_space (qk_UserID q0)\<rparr>
      in andThen (adminResetFindUser q) (reset_found q))"

section \<open>The service\<close>

record AdminTestScenarioResetInput =
  ti_Scenario :: string
  ti_UserID :: string
  ti_Email :: string
  ti_DryRun :: bool

record AdminTestScenarioResetResult =
  tz_Scenario :: string
  tz_DryRun :: bool
  tz_UserID :: string
  tz_EmailMasked :: string
  tz_EmailFingerprint :: string
  tz_AffectedCounts :: "(string \<times> int) list"

definition AllowReset :: "string \<Rightarrow> unit service" where
  "AllowReset env = reject_if (equal_fold (trim_space env) ''prod'') ErrAdminTestScenarioResetUnavailable"

definition normalizeAdminTestScenario :: "string \<Rightarrow> string" where
  "normalizeAdminTestScenario v =
     List.map (\<lambda>c. if c = CHR ''-'' then CHR ''_'' else c) (trim_space (to_lower v))"

definition reset_projectResult :: "AdminTestScenarioResetRecord \<Rightarrow> bool \<Rightarrow> AdminTestScenarioResetResult service" where
  "reset_projectResult r dryRun =
     (let plain = \<lparr>tz_Scenario = td_Scenario r, tz_DryRun = dryRun, tz_UserID = [], tz_EmailMasked = [],
            tz_EmailFingerprint = [], tz_AffectedCounts = td_AffectedCounts r\<rparr>
      in case td_User r of
           Some u \<Rightarrow>
             andThen (ProjectEmail (us_Email u)) (\<lambda>e.
             ret (plain\<lparr>tz_UserID := us_ID u, tz_EmailMasked := ep_Masked e, tz_EmailFingerprint := ep_Fingerprint e\<rparr>))
         | None \<Rightarrow>
             if td_Email r \<noteq> []
             then andThen (ProjectEmail (td_Email r)) (\<lambda>e.
                  ret (plain\<lparr>tz_EmailMasked := ep_Masked e, tz_EmailFingerprint := ep_Fingerprint e\<rparr>))
             else ret plain)"

text \<open>\<open>env\<close> is the server environment of the policy.\<close>

definition Scenario_Reset :: "string \<Rightarrow> AdminTestScenarioResetInput \<Rightarrow> AdminTestScenarioResetResult service" where
  "Scenario_Reset env i =
     andThen (AllowReset env) (\<lambda>_.
       let scenario0 = normalizeAdminTestScenario (ti_Scenario i);
           scenario = (if scenario0 = [] then AdminTestScenarioUserControlPlane else scenario0);
           userID = trim_space (ti_UserID i); email = normalizeEmail (ti_Email i)
       in andThen (reject_if (scenario \<noteq> AdminTestScenarioUserControlPlane)
            (wrapped ErrInvalidAdminTestScenarioReset scenario)) (\<lambda>_.
          andThen (reject_if (userID = [] \<and> email = []) ErrInvalidAdminTestScenarioReset) (\<lambda>_.
          andThen (not_found_as ErrAdminTestScenarioNotFound (ResetUserControlPlane
            \<lparr>qk_Scenario = scenario, qk_UserID = userID, qk_Email = email, qk_DryRun = ti_DryRun i\<rparr>)) (\<lambda>r.
          reset_projectResult r (ti_DryRun i)))))"

end
