(* ===== verification/Admin_Accounts.thy ===== *)
theory Admin_Accounts
  imports Admin_Privacy Audit_Log Entitlement
begin

text \<open>
  The lists of accounts and of audit entries: service/access_admin.go with the repository
  gorm_repo/access_account.go, service/admin_audit.go and service/admin_entitlement.go.  Every row is
  a projection that masks the personal data of the stored row.
\<close>

section \<open>Grouping\<close>

text \<open>The rows of one owner, out of the rows of all owners of a page.\<close>

definition owned_by :: "('r \<Rightarrow> string) \<Rightarrow> string \<Rightarrow> 'r list \<Rightarrow> 'r list" where
  "owned_by column owner t = List.filter (\<lambda>x. column x = owner) t"

definition clamp_limit :: "int \<Rightarrow> int \<Rightarrow> int \<Rightarrow> int" where
  "clamp_limit dflt most limit = (if limit \<le> 0 then dflt else if most < limit then most else limit)"

definition maxInt :: "int \<Rightarrow> int \<Rightarrow> int" where
  "maxInt a b = (if b < a then a else b)"

text \<open>The first occurrence of each value.\<close>

definition remdups_first :: "string list \<Rightarrow> string list" where
  "remdups_first xs = rev (remdups (rev xs))"

definition sortedKeys :: "string list \<Rightarrow> string list" where
  "sortedKeys keys = sort (remdups keys)"

section \<open>The repository\<close>

record AccessAccountQuery =
  qa_UserID :: string
  qa_Email :: string
  qa_Status :: string
  qa_Limit :: int
  qa_Offset :: int

record account_facts =
  fa_User :: User
  fa_Devices :: "UserDevice list"
  fa_TrialGrants :: "TrialGrant list"
  fa_EntitlementGrants :: "EntitlementGrant list"

definition listUserDevicesByUser :: "string list \<Rightarrow> UserDevice list service" where
  "listUserDevicesByUser userIDs =
     db_read (\<lambda>d. sort_key (\<lambda>x. - ud_LastSeenAt x) (List.filter (\<lambda>x. ud_UserID x \<in> set userIDs) (tb_devices d)))"

definition listTrialGrantsByUser :: "string list \<Rightarrow> TrialGrant list service" where
  "listTrialGrantsByUser userIDs =
     db_read (\<lambda>d. sort_key (\<lambda>x. - tg_CreatedAt x) (List.filter (\<lambda>x. tg_UserID x \<in> set userIDs) (tb_trials d)))"

definition listEntitlementGrantsByUser :: "string list \<Rightarrow> EntitlementGrant list service" where
  "listEntitlementGrantsByUser userIDs =
     db_read (\<lambda>d. sort_key (\<lambda>x. - eg_CreatedAt x) (List.filter (\<lambda>x. eg_UserID x \<in> set userIDs) (tb_grants d)))"

definition account_matches :: "AccessAccountQuery \<Rightarrow> User \<Rightarrow> bool" where
  "account_matches q u \<longleftrightarrow>
     column_matches (qa_UserID q) (us_ID u) \<and> column_matches (qa_Email q) (us_Email u)
     \<and> column_matches (qa_Status q) (us_Status u)"

definition AccessAccountReadRepo_List :: "AccessAccountQuery \<Rightarrow> (account_facts list \<times> int) service" where
  "AccessAccountReadRepo_List q =
     andThen (db_read (\<lambda>d. int (length (List.filter (account_matches q) (tb_users d))))) (\<lambda>total.
     andThen (db_read (\<lambda>d. page (qa_Limit q) (qa_Offset q)
       (sort_key (\<lambda>u. - us_CreatedAt u) (List.filter (account_matches q) (tb_users d))))) (\<lambda>users.
     if users = [] then ret ([], total)
     else let userIDs = List.map us_ID users
       in andThen (listUserDevicesByUser userIDs) (\<lambda>devices.
          andThen (listTrialGrantsByUser userIDs) (\<lambda>trials.
          andThen (listEntitlementGrantsByUser userIDs) (\<lambda>grants.
          ret (List.map (\<lambda>u. \<lparr>fa_User = u, fa_Devices = owned_by ud_UserID (us_ID u) devices,
                 fa_TrialGrants = owned_by tg_UserID (us_ID u) trials,
                 fa_EntitlementGrants = owned_by eg_UserID (us_ID u) grants\<rparr>) users, total))))))"

section \<open>Projections\<close>

record AccessDeviceRecord =
  vk_ID :: string
  vk_DeviceIDMasked :: string
  vk_DeviceIDFingerprint :: string
  vk_Status :: string
  vk_FirstSeenAt :: string
  vk_LastSeenAt :: string
  vk_RevokedAt :: string

record AccessAccountRecord =
  va_UserID :: string
  va_EmailMasked :: string
  va_EmailFingerprint :: string
  va_EmailDomain :: string
  va_DisplayNameMasked :: string
  va_Status :: string
  va_DeviceCount :: int
  va_ActiveDeviceCount :: int
  va_Devices :: "AccessDeviceRecord list"
  va_LastSeenAt :: string
  va_TrialGrantType :: string
  va_TrialStatus :: string
  va_TrialStartsAt :: string
  va_TrialExpiresAt :: string
  va_CurrentEntitlements :: "string list"
  va_LegacyEntitlements :: "string list"
  va_CreatedAt :: string
  va_UpdatedAt :: string

definition projectAccessDevices :: "UserDevice list \<Rightarrow> AccessDeviceRecord list service" where
  "projectAccessDevices devices =
     for_each devices (\<lambda>x result.
       andThen (deviceFingerprint (ud_DeviceID x)) (\<lambda>fingerprint.
       ret (result @ [\<lparr>vk_ID = ud_ID x, vk_DeviceIDMasked = maskToken (ud_DeviceID x),
         vk_DeviceIDFingerprint = fingerprint, vk_Status = defaultString (ud_Status x) DeviceStatusActive,
         vk_FirstSeenAt = formatTime (ud_FirstSeenAt x), vk_LastSeenAt = formatTime (ud_LastSeenAt x),
         vk_RevokedAt = formatOptionalTime (ud_RevokedAt x)\<rparr>]))) []"

definition countActiveDevices :: "UserDevice list \<Rightarrow> int" where
  "countActiveDevices devices =
     int (length (List.filter (\<lambda>x. ud_Status x = [] \<or> ud_Status x = DeviceStatusActive) devices))"

definition latestDeviceSeenAt :: "UserDevice list \<Rightarrow> instant" where
  "latestDeviceSeenAt devices = foldl (\<lambda>t x. if t < ud_LastSeenAt x then ud_LastSeenAt x else t) 0 devices"

abbreviation TrialGrantStatusRevoked :: string where "TrialGrantStatusRevoked \<equiv> ''revoked''"

text \<open>The zero value of a trial grant.\<close>

definition no_trial :: TrialGrant where
  "no_trial = \<lparr>tg_ID = [], tg_UserID = [], tg_Email = [], tg_GrantType = [], tg_Status = [], tg_StartsAt = 0,
     tg_ExpiresAt = None, tg_IdempotencyKey = [], tg_CreatedAt = 0, tg_UpdatedAt = 0, tg_RevokedAt = None\<rparr>"

definition latestTrialGrant :: "TrialGrant list \<Rightarrow> TrialGrant" where
  "latestTrialGrant trials =
     (case trials of
        [] \<Rightarrow> no_trial
      | t # ts \<Rightarrow> foldl (\<lambda>latest x. if tg_CreatedAt latest < tg_CreatedAt x then x else latest) t ts)"

definition trialStatus :: "TrialGrant \<Rightarrow> instant \<Rightarrow> string" where
  "trialStatus t now =
     (if tg_ID t = [] then ''none''
      else if tg_Status t = TrialGrantStatusRevoked \<or> tg_RevokedAt t \<noteq> None then TrialGrantStatusRevoked
      else if (case tg_ExpiresAt t of Some e \<Rightarrow> e \<le> now | None \<Rightarrow> False) then ''expired''
      else defaultString (trim_space (tg_Status t)) TrialGrantStatusIssued)"

definition grantIsActive :: "EntitlementGrant \<Rightarrow> instant \<Rightarrow> bool" where
  "grantIsActive g now \<longleftrightarrow>
     (eg_Status g = [] \<or> eg_Status g = GrantStatusActive) \<and> eg_RevokedAt g = None
     \<and> (eg_StartsAt g = 0 \<or> eg_StartsAt g \<le> now)
     \<and> (case eg_ExpiresAt g of None \<Rightarrow> True | Some e \<Rightarrow> now < e)"

definition splitCurrentAndLegacyEntitlements :: "EntitlementGrant list \<Rightarrow> instant \<Rightarrow> string list \<times> string list" where
  "splitCurrentAndLegacyEntitlements grants now =
     (let ids = List.map (\<lambda>g. trim_space (eg_EntitlementID g))
            (List.filter (\<lambda>g. trim_space (eg_EntitlementID g) \<noteq> [] \<and> grantIsActive g now) grants)
      in (sortedKeys (List.filter IsCurrentAccessEntitlementID ids),
          sortedKeys (List.filter (\<lambda>i. \<not> IsCurrentAccessEntitlementID i) ids)))"

definition projectAccessAccount :: "account_facts \<Rightarrow> instant \<Rightarrow> AccessAccountRecord service" where
  "projectAccessAccount r now =
     (let u = fa_User r; trial = latestTrialGrant (fa_TrialGrants r)
      in case splitCurrentAndLegacyEntitlements (fa_EntitlementGrants r) now of (current, legacy) \<Rightarrow>
         andThen (emailFingerprint (us_Email u)) (\<lambda>fingerprint.
         andThen (projectAccessDevices (fa_Devices r)) (\<lambda>devices.
         ret \<lparr>va_UserID = us_ID u, va_EmailMasked = maskEmail (us_Email u), va_EmailFingerprint = fingerprint,
              va_EmailDomain = emailDomain (us_Email u), va_DisplayNameMasked = maskDisplayName (us_DisplayName u),
              va_Status = us_Status u, va_DeviceCount = int (length (fa_Devices r)),
              va_ActiveDeviceCount = countActiveDevices (fa_Devices r), va_Devices = devices,
              va_LastSeenAt = formatTime (latestDeviceSeenAt (fa_Devices r)), va_TrialGrantType = tg_GrantType trial,
              va_TrialStatus = trialStatus trial now, va_TrialStartsAt = formatTime (tg_StartsAt trial),
              va_TrialExpiresAt = formatOptionalTime (tg_ExpiresAt trial), va_CurrentEntitlements = current,
              va_LegacyEntitlements = legacy, va_CreatedAt = formatTime (us_CreatedAt u),
              va_UpdatedAt = formatTime (us_UpdatedAt u)\<rparr>)))"

definition normalizeAccessAccountLimit :: "int \<Rightarrow> int" where
  "normalizeAccessAccountLimit = clamp_limit 50 100"

text \<open>The clock is read once for each record.\<close>

definition ListAccounts :: "AccessAccountQuery \<Rightarrow> (AccessAccountRecord list \<times> int) service" where
  "ListAccounts q =
     andThen (AccessAccountReadRepo_List \<lparr>qa_UserID = trim_space (qa_UserID q), qa_Email = normalizeEmail (qa_Email q),
       qa_Status = trim_space (qa_Status q), qa_Limit = normalizeAccessAccountLimit (qa_Limit q),
       qa_Offset = maxInt (qa_Offset q) 0\<rparr>) (\<lambda>(records, total).
     andThen (for_each records (\<lambda>r accounts.
       andThen time_now (\<lambda>now. andThen (projectAccessAccount r now) (\<lambda>a. ret (accounts @ [a])))) []) (\<lambda>accounts.
     ret (accounts, total)))"

section \<open>Audit entries\<close>

record AdminAuditLog =
  vl_ID :: nat
  vl_Timestamp :: string
  vl_Actor :: AdminActorProjection
  vl_Action :: string
  vl_Target :: string
  vl_Details :: string
  vl_IPAddress :: string
  vl_Success :: bool

definition normalizeAdminAuditLimit :: "int \<Rightarrow> int" where
  "normalizeAdminAuditLimit = clamp_limit 50 200"

definition project_audit_entry :: "AuditEntry \<Rightarrow> AdminAuditLog service" where
  "project_audit_entry x =
     andThen (ProjectActor (ak_Actor x)) (\<lambda>actor.
     andThen (RedactIdentifier (ak_Target x)) (\<lambda>target.
     andThen (RedactFreeText (ak_Details x)) (\<lambda>details.
     ret \<lparr>vl_ID = ak_ID x, vl_Timestamp = formatTime (ak_Timestamp x), vl_Actor = actor, vl_Action = ak_Action x,
          vl_Target = target, vl_Details = details, vl_IPAddress = ak_IPAddress x, vl_Success = ak_Success x\<rparr>)))"

definition ListLogs :: "audit_log \<Rightarrow> AuditQuery \<Rightarrow> (AdminAuditLog list \<times> int) service" where
  "ListLogs al q =
     (case Audit_Query (q\<lparr>aq_Limit := normalizeAdminAuditLimit (aq_Limit q), aq_Offset := maxInt (aq_Offset q) 0\<rparr>) al of
        (entries, found) \<Rightarrow>
          andThen (for_each entries (\<lambda>x logs. andThen (project_audit_entry x) (\<lambda>l. ret (logs @ [l]))) []) (\<lambda>logs.
          ret (logs, found)))"

section \<open>Registrations\<close>

text \<open>service/admin_entitlement.go: the requests for an entitlement as the reviewers see them.\<close>

record AdminRegistrationRecord =
  vg_ID :: string
  vg_UserID :: string
  vg_EmailMasked :: string
  vg_EmailFingerprint :: string
  vg_EmailDomain :: string
  vg_DisplayNameMasked :: string
  vg_RequestedEntitlement :: string
  vg_Status :: string
  vg_Source :: string
  vg_DeviceID :: string
  vg_Note :: string
  vg_ReviewNote :: string
  vg_ReviewedBy :: string
  vg_ReviewedAt :: string
  vg_CreatedAt :: string
  vg_UpdatedAt :: string

record AdminRegistrationList =
  vn_Total :: int
  vn_Registrations :: "AdminRegistrationRecord list"

definition ProjectRegistration :: "RegistrationRequest \<Rightarrow> AdminRegistrationRecord service" where
  "ProjectRegistration x =
     andThen (ProjectEmail (rr_Email x)) (\<lambda>e.
     andThen (RedactIdentifier (rr_DeviceID x)) (\<lambda>device.
     andThen (RedactFreeText (rr_Note x)) (\<lambda>note.
     andThen (RedactFreeText (rr_ReviewNote x)) (\<lambda>review_note.
     andThen (RedactIdentifier (rr_ReviewedBy x)) (\<lambda>reviewer.
     ret \<lparr>vg_ID = rr_ID x, vg_UserID = rr_UserID x, vg_EmailMasked = ep_Masked e,
          vg_EmailFingerprint = ep_Fingerprint e, vg_EmailDomain = ep_Domain e,
          vg_DisplayNameMasked = maskDisplayName (rr_DisplayName x),
          vg_RequestedEntitlement = rr_RequestedEntitlement x, vg_Status = rr_Status x,
          vg_Source = rr_Source x, vg_DeviceID = device, vg_Note = note, vg_ReviewNote = review_note,
          vg_ReviewedBy = reviewer, vg_ReviewedAt = formatOptionalTime (rr_ReviewedAt x),
          vg_CreatedAt = formatTime (rr_CreatedAt x), vg_UpdatedAt = formatTime (rr_UpdatedAt x)\<rparr>)))))"

definition ProjectRegistrationList :: "RegistrationRequest list \<Rightarrow> AdminRegistrationList service" where
  "ProjectRegistrationList registrations =
     andThen (for_each registrations (\<lambda>x records. andThen (ProjectRegistration x) (\<lambda>r. ret (records @ [r]))) []) (\<lambda>records.
     ret \<lparr>vn_Total = int (length records), vn_Registrations = records\<rparr>)"

end
