(* ===== verification/Admin_Orders.thy ===== *)
theory Admin_Orders
  imports Admin_Accounts Orders
begin

text \<open>
  The list of orders: service/admin_order.go with the repository gorm_repo/admin_order.go.  A null
  time sorts behind every other time of a descending order.
\<close>

abbreviation ErrInvalidAdminOrderQuery :: err where
  "ErrInvalidAdminOrderQuery \<equiv> Sentinel ''invalid admin order query''"

record AdminOrderQuery =
  oy_UserID :: string
  oy_SKUCode :: string
  oy_Status :: string
  oy_Provider :: string
  oy_OrderType :: string
  oy_OutTradeNo :: string
  oy_Limit :: int
  oy_Offset :: int

record order_facts =
  fo_Order :: Order
  fo_PaymentEventCount :: int
  fo_LatestPaymentEvent :: "PaymentEvent option"
  fo_FulfillmentCount :: int
  fo_FailedFulfillmentCount :: int
  fo_OpenRiskFlagCount :: int

definition normalizeAdminOrderLimit :: "int \<Rightarrow> int" where
  "normalizeAdminOrderLimit = clamp_limit 50 100"

definition applyAdminOrderFilters :: "AdminOrderQuery \<Rightarrow> Order \<Rightarrow> bool" where
  "applyAdminOrderFilters q x \<longleftrightarrow>
     column_matches (oy_UserID q) (or_UserID x) \<and> column_matches (oy_SKUCode q) (or_SKUCode x)
     \<and> column_matches (oy_Status q) (or_Status x) \<and> column_matches (oy_Provider q) (or_Provider x)
     \<and> column_matches (oy_OrderType q) (or_OrderType x) \<and> column_matches (oy_OutTradeNo q) (or_OutTradeNo x)"

definition outTradeNosFromOrders :: "Order list \<Rightarrow> string list" where
  "outTradeNosFromOrders orders = remdups_first (List.filter (\<lambda>n. n \<noteq> []) (List.map or_OutTradeNo orders))"

text \<open>The newest event comes first.\<close>

definition adminPaymentEventStats :: "string list \<Rightarrow> PaymentEvent list service" where
  "adminPaymentEventStats nos =
     db_read (\<lambda>d. sort_key (\<lambda>x. - pe_ReceivedAt x) (List.filter (\<lambda>x. pe_OutTradeNo x \<in> set nos) (tb_events d)))"

definition adminFulfillmentStats :: "string list \<Rightarrow> FulfillmentExecution list service" where
  "adminFulfillmentStats nos = db_read (\<lambda>d. List.filter (\<lambda>x. fe_OutTradeNo x \<in> set nos) (tb_executions d))"

definition adminOpenRiskCounts :: "string list \<Rightarrow> PaymentRiskFlag list service" where
  "adminOpenRiskCounts nos =
     db_read (\<lambda>d. List.filter (\<lambda>x. rf_OutTradeNo x \<in> set nos \<and> rf_Status x = RiskStatusOpen) (tb_risk_flags d))"

definition AdminOrderReadRepo_List :: "AdminOrderQuery \<Rightarrow> (order_facts list \<times> int) service" where
  "AdminOrderReadRepo_List q =
     (let limit = normalizeAdminOrderLimit (oy_Limit q); offset = maxInt (oy_Offset q) 0
      in andThen (db_read (\<lambda>d. int (length (List.filter (applyAdminOrderFilters q) (tb_orders d))))) (\<lambda>total.
         andThen (db_read (\<lambda>d. page limit offset (sort_key subscription_order_rank
           (List.filter (applyAdminOrderFilters q) (tb_orders d))))) (\<lambda>orders.
         if orders = [] then ret ([], total)
         else let nos = outTradeNosFromOrders orders
           in andThen (adminPaymentEventStats nos) (\<lambda>events.
              andThen (adminFulfillmentStats nos) (\<lambda>executions.
              andThen (adminOpenRiskCounts nos) (\<lambda>flags.
              ret (List.map (\<lambda>x.
                let n = or_OutTradeNo x; evs = owned_by pe_OutTradeNo n events; exs = owned_by fe_OutTradeNo n executions
                in \<lparr>fo_Order = x, fo_PaymentEventCount = int (length evs),
                    fo_LatestPaymentEvent = (case evs of [] \<Rightarrow> None | e # _ \<Rightarrow> Some e),
                    fo_FulfillmentCount = int (length exs),
                    fo_FailedFulfillmentCount =
                      int (length (List.filter (\<lambda>e. fe_Status e = ExecutionFailed) exs)),
                    fo_OpenRiskFlagCount = int (length (owned_by rf_OutTradeNo n flags))\<rparr>) orders, total)))))))"

record AdminOrderPaymentEvent =
  vp_ID :: string
  vp_Provider :: string
  vp_EventType :: string
  vp_Status :: string
  vp_PayloadHash :: string
  vp_ReceivedAt :: string
  vp_ProcessedAt :: string

record AdminOrderRecord =
  vo_OutTradeNo :: string
  vo_UserID :: string
  vo_SKUCode :: string
  vo_Status :: string
  vo_Provider :: string
  vo_OrderType :: string
  vo_Amount :: int
  vo_Currency :: string
  vo_PaidAt :: string
  vo_FulfilledAt :: string
  vo_HasCheckoutSession :: bool
  vo_HasProviderCustomer :: bool
  vo_HasProviderSubscription :: bool
  vo_HasMetadata :: bool
  vo_PaymentEventCount :: int
  vo_LatestPaymentEvent :: AdminOrderPaymentEvent
  vo_FulfillmentCount :: int
  vo_FailedFulfillmentCount :: int
  vo_OpenRiskFlagCount :: int

definition no_payment_event :: AdminOrderPaymentEvent where
  "no_payment_event = \<lparr>vp_ID = [], vp_Provider = [], vp_EventType = [], vp_Status = [], vp_PayloadHash = [],
     vp_ReceivedAt = [], vp_ProcessedAt = []\<rparr>"

definition projectAdminOrderPaymentEvent :: "PaymentEvent option \<Rightarrow> AdminOrderPaymentEvent" where
  "projectAdminOrderPaymentEvent event =
     (case event of
        None \<Rightarrow> no_payment_event
      | Some e \<Rightarrow> \<lparr>vp_ID = pe_ID e, vp_Provider = pe_Provider e, vp_EventType = pe_EventType e, vp_Status = pe_Status e,
          vp_PayloadHash = pe_PayloadHash e, vp_ReceivedAt = formatTime (pe_ReceivedAt e),
          vp_ProcessedAt = formatOptionalTime (pe_ProcessedAt e)\<rparr>)"

definition orderMetadataHasSubscription :: "string \<Rightarrow> bool" where
  "orderMetadataHasSubscription metadata \<longleftrightarrow>
     contains_text metadata ''walnut_provider_subscription_id'' \<or> contains_text metadata ''provider_subscription_id''"

definition projectAdminOrder :: "order_facts \<Rightarrow> AdminOrderRecord" where
  "projectAdminOrder r =
     (let x = fo_Order r
      in \<lparr>vo_OutTradeNo = or_OutTradeNo x, vo_UserID = or_UserID x, vo_SKUCode = or_SKUCode x, vo_Status = or_Status x,
          vo_Provider = or_Provider x, vo_OrderType = defaultString (or_OrderType x) OrderTypeNew,
          vo_Amount = or_Amount x, vo_Currency = or_Currency x, vo_PaidAt = formatOptionalTime (or_PaidAt x),
          vo_FulfilledAt = formatOptionalTime (or_FulfilledAt x),
          vo_HasCheckoutSession = (trim_space (or_CheckoutURL x) \<noteq> [] \<or> trim_space (or_ProviderCheckoutID x) \<noteq> []),
          vo_HasProviderCustomer = (trim_space (or_ProviderCustomerID x) \<noteq> []),
          vo_HasProviderSubscription = orderMetadataHasSubscription (or_Metadata x),
          vo_HasMetadata = (trim_space (or_Metadata x) \<noteq> []),
          vo_PaymentEventCount = fo_PaymentEventCount r,
          vo_LatestPaymentEvent = projectAdminOrderPaymentEvent (fo_LatestPaymentEvent r),
          vo_FulfillmentCount = fo_FulfillmentCount r, vo_FailedFulfillmentCount = fo_FailedFulfillmentCount r,
          vo_OpenRiskFlagCount = fo_OpenRiskFlagCount r\<rparr>)"

definition ListOrders :: "AdminOrderQuery \<Rightarrow> (AdminOrderRecord list \<times> int) service" where
  "ListOrders q =
     andThen (AdminOrderReadRepo_List \<lparr>oy_UserID = trim_space (oy_UserID q), oy_SKUCode = trim_space (oy_SKUCode q),
       oy_Status = trim_space (oy_Status q), oy_Provider = trim_space (oy_Provider q),
       oy_OrderType = trim_space (oy_OrderType q), oy_OutTradeNo = trim_space (oy_OutTradeNo q),
       oy_Limit = normalizeAdminOrderLimit (oy_Limit q), oy_Offset = maxInt (oy_Offset q) 0\<rparr>) (\<lambda>(records, total).
     ret (List.map projectAdminOrder records, total))"

end
