(* ===== verification/Admin_Subscriptions.thy ===== *)
theory Admin_Subscriptions
  imports Admin_Orders Subscription_Cancellation
begin

text \<open>
  The list of subscriptions: service/admin_subscription.go with the repository
  gorm_repo/admin_subscription.go.  The repository collects candidates of a user and a product from
  orders, grants and cancellations in a Go map; the order in which the map is read is arbitrary and
  a parameter here (\<open>shuffle\<close>).
\<close>

abbreviation ErrInvalidAdminSubscriptionQuery :: err where
  "ErrInvalidAdminSubscriptionQuery \<equiv> Sentinel ''invalid admin subscription query''"
abbreviation SoftwareStatusCancelled :: string where "SoftwareStatusCancelled \<equiv> ''cancelled''"
abbreviation SoftwareStatusExpired :: string where "SoftwareStatusExpired \<equiv> ''expired''"

section \<open>The repository\<close>

record AdminSubscriptionQuery =
  ay_UserID :: string
  ay_SKUCode :: string
  ay_Status :: string
  ay_Provider :: string
  ay_OutTradeNo :: string
  ay_Limit :: int
  ay_Offset :: int

record subscription_facts =
  fs_User :: User
  fs_SKUCode :: string
  fs_Grants :: "EntitlementGrant list"
  fs_LatestOrder :: "Order option"
  fs_LatestCancellation :: "SubscriptionCancellation option"
  fs_PaymentEvents :: "PaymentEvent list"

record adminSubscriptionCandidate =
  ad_UserID :: string
  ad_SKUCode :: string
  ad_SortAt :: string

definition adminSubscriptionKey :: "string \<Rightarrow> string \<Rightarrow> string" where
  "adminSubscriptionKey userID skuCode = trim_space userID @ [CHR 0x00] @ trim_space skuCode"

definition adminSubscriptionSKUAllowed :: "string \<Rightarrow> string \<Rightarrow> bool" where
  "adminSubscriptionSKUAllowed skuCode0 filter0 \<longleftrightarrow>
     (let skuCode = trim_space skuCode0; f = trim_space filter0 in skuCode \<noteq> [] \<and> (f = [] \<or> f = skuCode))"

definition adminSubscriptionEntitlement :: "string \<Rightarrow> bool" where
  "adminSubscriptionEntitlement i \<longleftrightarrow> i = EntitlementEditorialStudio \<or> i = EntitlementCloudStorage"

definition adminSubscriptionSKUFromGrant :: "EntitlementGrant \<Rightarrow> string" where
  "adminSubscriptionSKUFromGrant g = (if eg_ExpiresAt g = None then SKUProOwnAILifetime else SKUProOwnAIMonthly)"

definition adminSubscriptionOrderSortAt :: "Order \<Rightarrow> string" where
  "adminSubscriptionOrderSortAt x =
     (case or_PaidAt x of
        Some t \<Rightarrow> format_rfc3339 t
      | None \<Rightarrow> (case or_FulfilledAt x of Some t \<Rightarrow> format_rfc3339 t | None \<Rightarrow> []))"

definition applyAdminSubscriptionOrderFilters :: "AdminSubscriptionQuery \<Rightarrow> Order \<Rightarrow> bool" where
  "applyAdminSubscriptionOrderFilters q x \<longleftrightarrow>
     column_matches (trim_space (ay_UserID q)) (or_UserID x) \<and> column_matches (trim_space (ay_SKUCode q)) (or_SKUCode x)
     \<and> column_matches (trim_space (ay_Provider q)) (or_Provider x)
     \<and> column_matches (trim_space (ay_OutTradeNo q)) (or_OutTradeNo x)"

definition subscription_order :: "Order \<Rightarrow> bool" where
  "subscription_order x \<longleftrightarrow> or_OrderType x = OrderTypeCheckout \<or> or_OrderType x = OrderTypeRenewal"

definition adminSubscriptionCandidatesFromOrders :: "AdminSubscriptionQuery \<Rightarrow> adminSubscriptionCandidate list service" where
  "adminSubscriptionCandidatesFromOrders q =
     andThen (db_read (\<lambda>d. sort_key subscription_order_rank (List.filter
       (\<lambda>x. or_UserID x \<noteq> [] \<and> subscription_order x \<and> applyAdminSubscriptionOrderFilters q x) (tb_orders d)))) (\<lambda>orders.
     ret (List.map (\<lambda>x. \<lparr>ad_UserID = or_UserID x, ad_SKUCode = or_SKUCode x, ad_SortAt = adminSubscriptionOrderSortAt x\<rparr>)
       (List.filter (\<lambda>x. trim_space (or_UserID x) \<noteq> [] \<and> adminSubscriptionSKUAllowed (or_SKUCode x) (ay_SKUCode q)) orders)))"

text \<open>A filter for a provider or an order leaves only the orders.\<close>

definition orders_only :: "AdminSubscriptionQuery \<Rightarrow> bool" where
  "orders_only q \<longleftrightarrow> trim_space (ay_Provider q) \<noteq> [] \<or> trim_space (ay_OutTradeNo q) \<noteq> []"

definition adminSubscriptionCandidatesFromGrants :: "AdminSubscriptionQuery \<Rightarrow> adminSubscriptionCandidate list service" where
  "adminSubscriptionCandidatesFromGrants q =
     (if orders_only q then ret []
      else andThen (db_read (\<lambda>d. sort_key (\<lambda>g. (- eg_StartsAt g, - eg_CreatedAt g)) (List.filter
             (\<lambda>g. eg_UserID g \<noteq> [] \<and> eg_Source g = GrantSourceFulfillment
               \<and> column_matches (trim_space (ay_UserID q)) (eg_UserID g)) (tb_grants d)))) (\<lambda>grants.
           ret (List.map (\<lambda>g. \<lparr>ad_UserID = eg_UserID g, ad_SKUCode = adminSubscriptionSKUFromGrant g,
                    ad_SortAt = format_rfc3339 (eg_StartsAt g)\<rparr>)
             (List.filter (\<lambda>g. adminSubscriptionEntitlement (eg_EntitlementID g)
               \<and> adminSubscriptionSKUAllowed (adminSubscriptionSKUFromGrant g) (ay_SKUCode q)) grants))))"

definition adminSubscriptionCandidatesFromCancellations ::
  "AdminSubscriptionQuery \<Rightarrow> adminSubscriptionCandidate list service" where
  "adminSubscriptionCandidatesFromCancellations q =
     (if orders_only q then ret []
      else andThen (db_read (\<lambda>d. sort_key (\<lambda>x. (- sc_UpdatedAt x, - sc_CreatedAt x)) (List.filter
             (\<lambda>x. sc_UserID x \<noteq> [] \<and> column_matches (trim_space (ay_UserID q)) (sc_UserID x)
               \<and> column_matches (trim_space (ay_SKUCode q)) (sc_SKUCode x)) (tb_cancellations d)))) (\<lambda>xs.
           ret (List.map (\<lambda>x. \<lparr>ad_UserID = sc_UserID x, ad_SKUCode = sc_SKUCode x, ad_SortAt = format_rfc3339 (sc_UpdatedAt x)\<rparr>)
             (List.filter (\<lambda>x. adminSubscriptionSKUAllowed (sc_SKUCode x) (ay_SKUCode q)) xs))))"

text \<open>Of the candidates with one key the latest stays.\<close>

fun put_candidate ::
  "string \<Rightarrow> adminSubscriptionCandidate \<Rightarrow> (string \<times> adminSubscriptionCandidate) list \<Rightarrow>
   (string \<times> adminSubscriptionCandidate) list" where
  "put_candidate k c [] = [(k, c)]"
| "put_candidate k c ((k', c') # m) =
     (if k = k' then (k', if ad_SortAt c' < ad_SortAt c then c else c') # m else (k', c') # put_candidate k c m)"

definition mergeAdminSubscriptionCandidate ::
  "adminSubscriptionCandidate \<Rightarrow> (string \<times> adminSubscriptionCandidate) list \<Rightarrow> (string \<times> adminSubscriptionCandidate) list" where
  "mergeAdminSubscriptionCandidate c m =
     (if trim_space (ad_UserID c) = [] \<or> trim_space (ad_SKUCode c) = [] then m
      else put_candidate (adminSubscriptionKey (ad_UserID c) (ad_SKUCode c)) c m)"

text \<open>
  One pass of the insertion sort: in the sorted part every later element that sorts below the
  current one moves up by one place.
\<close>

definition shift_in :: "adminSubscriptionCandidate list \<Rightarrow> adminSubscriptionCandidate \<Rightarrow> adminSubscriptionCandidate list" where
  "shift_in sorted_part current =
     (let j = length (dropWhile (\<lambda>x. ad_SortAt x < ad_SortAt current) (rev sorted_part))
      in take j sorted_part @ [current] @ drop j sorted_part)"

definition sortAdminSubscriptionCandidates :: "adminSubscriptionCandidate list \<Rightarrow> adminSubscriptionCandidate list" where
  "sortAdminSubscriptionCandidates candidates = foldl shift_in [] candidates"

type_synonym map_order = "adminSubscriptionCandidate list \<Rightarrow> adminSubscriptionCandidate list"

definition listCandidates :: "map_order \<Rightarrow> AdminSubscriptionQuery \<Rightarrow> adminSubscriptionCandidate list service" where
  "listCandidates shuffle q =
     andThen (adminSubscriptionCandidatesFromOrders q) (\<lambda>orders.
     andThen (adminSubscriptionCandidatesFromGrants q) (\<lambda>grants.
     andThen (adminSubscriptionCandidatesFromCancellations q) (\<lambda>cancellations.
     ret (sortAdminSubscriptionCandidates (shuffle (List.map snd
       (fold mergeAdminSubscriptionCandidate (orders @ grants @ cancellations) []))))))) "

definition first_with :: "('r \<Rightarrow> string) \<Rightarrow> string \<Rightarrow> 'r list \<Rightarrow> 'r option" where
  "first_with key k t = (case owned_by key k t of [] \<Rightarrow> None | x # _ \<Rightarrow> Some x)"

definition adminSubscriptionUserIDs :: "adminSubscriptionCandidate list \<Rightarrow> string list" where
  "adminSubscriptionUserIDs cs = remdups_first (List.filter (\<lambda>i. trim_space i \<noteq> []) (List.map ad_UserID cs))"

definition adminSubscriptionUsersByID :: "string list \<Rightarrow> User list service" where
  "adminSubscriptionUsersByID userIDs = db_read (\<lambda>d. List.filter (\<lambda>u. us_ID u \<in> set userIDs) (tb_users d))"

definition adminSubscriptionGrantsByUser :: "string list \<Rightarrow> EntitlementGrant list service" where
  "adminSubscriptionGrantsByUser userIDs =
     db_read (\<lambda>d. sort_key (\<lambda>g. (- eg_StartsAt g, - eg_CreatedAt g))
       (List.filter (\<lambda>g. eg_UserID g \<in> set userIDs \<and> eg_Source g = GrantSourceFulfillment) (tb_grants d)))"

definition adminSubscriptionLatestCancellations :: "string list \<Rightarrow> SubscriptionCancellation list service" where
  "adminSubscriptionLatestCancellations userIDs =
     db_read (\<lambda>d. sort_key (\<lambda>x. (- sc_UpdatedAt x, - sc_CreatedAt x))
       (List.filter (\<lambda>x. sc_UserID x \<in> set userIDs) (tb_cancellations d)))"

definition adminSubscriptionLatestOrders :: "string list \<Rightarrow> AdminSubscriptionQuery \<Rightarrow> Order list service" where
  "adminSubscriptionLatestOrders userIDs q =
     db_read (\<lambda>d. sort_key subscription_order_rank (List.filter
       (\<lambda>x. or_UserID x \<in> set userIDs \<and> subscription_order x \<and> applyAdminSubscriptionOrderFilters q x) (tb_orders d)))"

definition order_key :: "Order \<Rightarrow> string" where
  "order_key x = adminSubscriptionKey (or_UserID x) (or_SKUCode x)"

definition cancellation_key :: "SubscriptionCancellation \<Rightarrow> string" where
  "cancellation_key x = adminSubscriptionKey (sc_UserID x) (sc_SKUCode x)"

definition adminSubscriptionOutTradeNos :: "Order list \<Rightarrow> string list" where
  "adminSubscriptionOutTradeNos orders =
     remdups_first (List.filter (\<lambda>n. trim_space n \<noteq> [])
       (List.map or_OutTradeNo (List.filter (\<lambda>x. first_with order_key (order_key x) orders = Some x) orders)))"

definition adminSubscriptionEventsByOrder :: "string list \<Rightarrow> PaymentEvent list service" where
  "adminSubscriptionEventsByOrder nos =
     (if nos = [] then ret []
      else db_read (\<lambda>d. sort_key (\<lambda>x. - pe_ReceivedAt x) (List.filter (\<lambda>x. pe_OutTradeNo x \<in> set nos) (tb_events d))))"

definition subscription_row ::
  "User list \<Rightarrow> EntitlementGrant list \<Rightarrow> SubscriptionCancellation list \<Rightarrow> Order list \<Rightarrow> PaymentEvent list \<Rightarrow>
   adminSubscriptionCandidate \<Rightarrow> subscription_facts list" where
  "subscription_row users grants cancellations orders events c =
     (case List.filter (\<lambda>u. us_ID u = ad_UserID c) users of
        [] \<Rightarrow> []
      | us \<Rightarrow>
          (let key = adminSubscriptionKey (ad_UserID c) (ad_SKUCode c); x = first_with order_key key orders
           in [\<lparr>fs_User = last us, fs_SKUCode = ad_SKUCode c, fs_Grants = owned_by eg_UserID (ad_UserID c) grants,
                fs_LatestOrder = x, fs_LatestCancellation = first_with cancellation_key key cancellations,
                fs_PaymentEvents = (case x of None \<Rightarrow> [] | Some y \<Rightarrow> owned_by pe_OutTradeNo (or_OutTradeNo y) events)\<rparr>]))"

definition AdminSubscriptionReadRepo_List :: "map_order \<Rightarrow> AdminSubscriptionQuery \<Rightarrow> subscription_facts list service" where
  "AdminSubscriptionReadRepo_List shuffle q =
     andThen (listCandidates shuffle q) (\<lambda>candidates.
     if candidates = [] then ret []
     else let userIDs = adminSubscriptionUserIDs candidates
       in andThen (adminSubscriptionUsersByID userIDs) (\<lambda>users.
          andThen (adminSubscriptionGrantsByUser userIDs) (\<lambda>grants.
          andThen (adminSubscriptionLatestCancellations userIDs) (\<lambda>cancellations.
          andThen (adminSubscriptionLatestOrders userIDs q) (\<lambda>orders.
          andThen (adminSubscriptionEventsByOrder (adminSubscriptionOutTradeNos orders)) (\<lambda>events.
          ret (concat (List.map (subscription_row users grants cancellations orders events) candidates))))))))"

section \<open>The projection\<close>

text \<open>The projection of Subscription_Projection with another lookup of the cancellation.\<close>

definition project_with_lookup ::
  "(SubscriptionCancellationQuery \<Rightarrow> SubscriptionCancellation service) option \<Rightarrow> string \<Rightarrow> EntitlementGrant list \<Rightarrow>
   instant \<Rightarrow> SoftwareSubscriptionProjection service" where
  "project_with_lookup lookup userID0 grants now0 =
     (let userID = trim_space userID0
      in andThen (reject_if (userID = []) ErrUserNotFound) (\<lambda>_.
         andThen (if now0 = 0 then time_now else ret now0) (\<lambda>now.
         case latestActiveLifetimeGrant grants now of
           Some lifetime \<Rightarrow>
             ret \<lparr>sp_UserID = userID, sp_SKUCode = SKUProOwnAILifetime, sp_Status = SoftwareStatusActive,
                  sp_CancelAtPeriodEnd = False,
                  sp_CurrentPeriodStartAt = formatSoftwareSubscriptionTime (eg_StartsAt lifetime),
                  sp_CurrentPeriodEndsAt = []\<rparr>
         | None \<Rightarrow>
             let none = \<lparr>sp_UserID = userID, sp_SKUCode = [], sp_Status = SoftwareStatusNone,
                         sp_CancelAtPeriodEnd = False, sp_CurrentPeriodStartAt = [], sp_CurrentPeriodEndsAt = []\<rparr>
             in (case latestActiveMonthlyGrant grants now of
                   None \<Rightarrow> ret none
                 | Some monthly \<Rightarrow> (case eg_ExpiresAt monthly of
                       None \<Rightarrow> ret none
                     | Some ends \<Rightarrow>
                         let projection = \<lparr>sp_UserID = userID, sp_SKUCode = SKUProOwnAIMonthly,
                               sp_Status = SoftwareStatusActive, sp_CancelAtPeriodEnd = False,
                               sp_CurrentPeriodStartAt = formatSoftwareSubscriptionTime (eg_StartsAt monthly),
                               sp_CurrentPeriodEndsAt = format_rfc3339 ends\<rparr>
                         in (case lookup of
                               None \<Rightarrow> ret projection
                             | Some search \<Rightarrow>
                                 if_found (search \<lparr>cq_UserID = userID, cq_SKUCode = SKUProOwnAIMonthly,
                                     cq_Status = CancellationStatusCancelAtPeriodEnd\<rparr>)
                                   (\<lambda>cancellation.
                                     ret (projection\<lparr>sp_Status := SoftwareStatusCancelAtPeriodEnd,
                                       sp_CancelAtPeriodEnd := True,
                                       sp_CurrentPeriodEndsAt := (if sc_CurrentPeriodEndsAt cancellation \<noteq> 0
                                         then format_rfc3339 (sc_CurrentPeriodEndsAt cancellation)
                                         else sp_CurrentPeriodEndsAt projection)\<rparr>))
                                   (ret projection)))))))"

lemma project_with_repository:
  "projectSoftwareSubscriptionFromGrants b = project_with_lookup (if b then Some CancellationRepo_FindActive else None)"
  by (rule ext)+ (simp add: projectSoftwareSubscriptionFromGrants_def project_with_lookup_def cong: option.case_cong)

text \<open>\<open>adminSubscriptionCancellationLookup\<close>: the one cancellation that was read before.\<close>

definition lookup_FindActive ::
  "SubscriptionCancellation option \<Rightarrow> instant \<Rightarrow> SubscriptionCancellationQuery \<Rightarrow> SubscriptionCancellation service" where
  "lookup_FindActive cancellation now0 q =
     (case cancellation of
        None \<Rightarrow> fail ErrNotFound
      | Some x \<Rightarrow>
          andThen (reject_if (\<not> (column_matches (cq_UserID q) (sc_UserID x) \<and> column_matches (cq_SKUCode q) (sc_SKUCode x)
            \<and> column_matches (cq_Status q) (sc_Status x))) ErrNotFound) (\<lambda>_.
          andThen (if now0 = 0 then time_now else ret now0) (\<lambda>now.
          andThen (reject_if (\<not> sc_CancelAtPeriodEnd x \<or> sc_CurrentPeriodEndsAt x \<le> now) ErrNotFound) (\<lambda>_. ret x))))"

definition adminSubscriptionGrant :: "EntitlementGrant \<Rightarrow> bool" where
  "adminSubscriptionGrant g \<longleftrightarrow> eg_Source g = GrantSourceFulfillment \<and> IsCurrentAdvancedEntitlementID (eg_EntitlementID g)"

definition adminSubscriptionGrantsForSKU :: "EntitlementGrant list \<Rightarrow> string \<Rightarrow> EntitlementGrant list" where
  "adminSubscriptionGrantsForSKU grants skuCode0 =
     (let skuCode = trim_space skuCode0
      in if skuCode = [] then grants
         else List.filter (\<lambda>g. adminSubscriptionGrant g
           \<and> (skuCode = SKUProOwnAIMonthly \<longrightarrow> eg_ExpiresAt g \<noteq> None)
           \<and> (skuCode = SKUProOwnAILifetime \<longrightarrow> eg_ExpiresAt g = None)) grants)"

definition later_expiry :: "instant option \<Rightarrow> EntitlementGrant \<Rightarrow> instant option" where
  "later_expiry best g =
     (case eg_ExpiresAt g of
        None \<Rightarrow> best
      | Some e \<Rightarrow> (case best of None \<Rightarrow> Some e | Some b \<Rightarrow> if b < e then Some e else best))"

definition projectAdminSubscriptionGrants :: "EntitlementGrant list \<Rightarrow> instant \<Rightarrow> string list \<times> instant \<times> instant option" where
  "projectAdminSubscriptionGrants grants now =
     (let gs = List.filter adminSubscriptionGrant grants
      in (sortedKeys (List.map eg_EntitlementID (List.filter (\<lambda>g. grantIsActive g now) gs)),
          foldl (\<lambda>t g. if t < eg_StartsAt g then eg_StartsAt g else t) 0 gs, foldl later_expiry None gs))"

definition countFulfillmentSubscriptionGrants :: "EntitlementGrant list \<Rightarrow> int" where
  "countFulfillmentSubscriptionGrants grants = int (length (List.filter adminSubscriptionGrant grants))"

definition hasExpiredAdminSubscriptionGrant :: "EntitlementGrant list \<Rightarrow> instant \<Rightarrow> bool" where
  "hasExpiredAdminSubscriptionGrant grants now \<longleftrightarrow>
     list_ex (\<lambda>g. adminSubscriptionGrant g \<and> (case eg_ExpiresAt g of None \<Rightarrow> False | Some e \<Rightarrow> e \<le> now)) grants"

definition adminSubscriptionFallbackStatus ::
  "subscription_facts \<Rightarrow> SoftwareSubscriptionProjection \<Rightarrow> EntitlementGrant list \<Rightarrow> instant \<Rightarrow> string" where
  "adminSubscriptionFallbackStatus r projection grants now =
     (if sp_Status projection \<noteq> [] \<and> sp_Status projection \<noteq> SoftwareStatusNone then sp_Status projection
      else if (case fs_LatestOrder r of None \<Rightarrow> False
               | Some x \<Rightarrow> or_Status x = OrderStatusCancelled \<or> or_Status x = OrderStatusRefunded)
      then SoftwareStatusCancelled
      else if hasExpiredAdminSubscriptionGrant grants now then SoftwareStatusExpired
      else sp_Status projection)"

definition adminSubscriptionHasProviderSubscription :: "Order option \<Rightarrow> PaymentEvent list \<Rightarrow> bool" where
  "adminSubscriptionHasProviderSubscription x events \<longleftrightarrow>
     (case x of
        None \<Rightarrow> False
      | Some y \<Rightarrow>
          (let m = orderMetadataMap (or_Metadata y)
           in metadata_value m ''walnut_provider_subscription_id'' \<noteq> [] \<or> metadata_value m ''provider_subscription_id'' \<noteq> []
              \<or> list_ex (\<lambda>e. providerSubscriptionIDFromRawPayload (pe_RawPayload e) \<noteq> []) events))"

section \<open>The service\<close>

record AdminSubscriptionUser =
  su_ID :: string
  su_Status :: string
  su_EmailMasked :: string
  su_EmailFingerprint :: string
  su_EmailDomain :: string

record AdminSubscriptionOrder =
  so_OutTradeNo :: string
  so_Status :: string
  so_Provider :: string
  so_OrderType :: string
  so_PaidAt :: string
  so_FulfilledAt :: string
  so_HasProviderSubscription :: bool
  so_HasMetadata :: bool

record AdminSubscriptionCancellation =
  sl_ID :: string
  sl_Status :: string
  sl_CancelAtPeriodEnd :: bool
  sl_CurrentPeriodEndsAt :: string
  sl_SourceOrderNo :: string
  sl_ReasonRedacted :: string
  sl_Source :: string
  sl_CreatedAt :: string
  sl_UpdatedAt :: string
  sl_ResumedAt :: string

record AdminSubscriptionProviderState =
  sv_Status :: string
  sv_RawStatus :: string
  sv_CurrentPeriodStartAt :: string
  sv_CurrentPeriodEndsAt :: string

record AdminSubscriptionRecord =
  sw_User :: AdminSubscriptionUser
  sw_SKUCode :: string
  sw_Status :: string
  sw_CancelAtPeriodEnd :: bool
  sw_CurrentPeriodStartAt :: string
  sw_CurrentPeriodEndsAt :: string
  sw_CanCancel :: bool
  sw_CanResume :: bool
  sw_ActiveEntitlements :: "string list"
  sw_FulfillmentGrantCount :: int
  sw_LatestGrantStartsAt :: string
  sw_LatestGrantExpiresAt :: string
  sw_LatestOrder :: AdminSubscriptionOrder
  sw_Cancellation :: AdminSubscriptionCancellation
  sw_ProviderControl :: AdminSubscriptionProviderState
  sw_EventCount :: int
  sw_LatestEvent :: AdminOrderPaymentEvent

record AdminSubscriptionList =
  sx_GeneratedAt :: string
  sx_Total :: int
  sx_Subscriptions :: "AdminSubscriptionRecord list"

definition subscription_projectUser :: "User \<Rightarrow> AdminSubscriptionUser service" where
  "subscription_projectUser u =
     andThen (ProjectEmail (us_Email u)) (\<lambda>e.
     ret \<lparr>su_ID = us_ID u, su_Status = defaultString (trim_space (us_Status u)) UserStatusActive,
          su_EmailMasked = ep_Masked e, su_EmailFingerprint = ep_Fingerprint e, su_EmailDomain = ep_Domain e\<rparr>)"

definition projectCancellation :: "SubscriptionCancellation option \<Rightarrow> AdminSubscriptionCancellation service" where
  "projectCancellation cancellation =
     (case cancellation of
        None \<Rightarrow> ret \<lparr>sl_ID = [], sl_Status = [], sl_CancelAtPeriodEnd = False, sl_CurrentPeriodEndsAt = [],
          sl_SourceOrderNo = [], sl_ReasonRedacted = [], sl_Source = [], sl_CreatedAt = [], sl_UpdatedAt = [], sl_ResumedAt = []\<rparr>
      | Some x \<Rightarrow>
          andThen (RedactFreeText (sc_Reason x)) (\<lambda>reason.
          ret \<lparr>sl_ID = sc_ID x, sl_Status = sc_Status x, sl_CancelAtPeriodEnd = sc_CancelAtPeriodEnd x,
               sl_CurrentPeriodEndsAt = formatTime (sc_CurrentPeriodEndsAt x), sl_SourceOrderNo = sc_SourceOrderNo x,
               sl_ReasonRedacted = reason, sl_Source = sc_Source x, sl_CreatedAt = formatTime (sc_CreatedAt x),
               sl_UpdatedAt = formatTime (sc_UpdatedAt x), sl_ResumedAt = formatOptionalTime (sc_ResumedAt x)\<rparr>))"

definition projectAdminSubscriptionOrder :: "Order option \<Rightarrow> PaymentEvent list \<Rightarrow> AdminSubscriptionOrder" where
  "projectAdminSubscriptionOrder x events =
     (case x of
        None \<Rightarrow> \<lparr>so_OutTradeNo = [], so_Status = [], so_Provider = [], so_OrderType = [], so_PaidAt = [], so_FulfilledAt = [],
          so_HasProviderSubscription = False, so_HasMetadata = False\<rparr>
      | Some y \<Rightarrow> \<lparr>so_OutTradeNo = or_OutTradeNo y, so_Status = or_Status y, so_Provider = or_Provider y,
          so_OrderType = defaultString (or_OrderType y) OrderTypeCheckout, so_PaidAt = formatOptionalTime (or_PaidAt y),
          so_FulfilledAt = formatOptionalTime (or_FulfilledAt y),
          so_HasProviderSubscription = adminSubscriptionHasProviderSubscription x events,
          so_HasMetadata = (trim_space (or_Metadata y) \<noteq> [])\<rparr>)"

definition projectAdminSubscriptionProviderState :: "Order option \<Rightarrow> AdminSubscriptionProviderState" where
  "projectAdminSubscriptionProviderState x =
     (case x of
        None \<Rightarrow> \<lparr>sv_Status = [], sv_RawStatus = [], sv_CurrentPeriodStartAt = [], sv_CurrentPeriodEndsAt = []\<rparr>
      | Some y \<Rightarrow>
          (let m = orderMetadataMap (or_Metadata y)
           in \<lparr>sv_Status = metadata_value m ''walnut_provider_subscription_status'',
               sv_RawStatus = metadata_value m ''walnut_provider_subscription_raw_status'',
               sv_CurrentPeriodStartAt = metadata_value m ''walnut_provider_period_start_at'',
               sv_CurrentPeriodEndsAt = metadata_value m ''walnut_provider_period_end_at''\<rparr>))"

definition projectAdminSubscriptionPaymentEvents :: "PaymentEvent list \<Rightarrow> int \<times> AdminOrderPaymentEvent" where
  "projectAdminSubscriptionPaymentEvents events =
     (int (length events), projectAdminOrderPaymentEvent (case events of [] \<Rightarrow> None | e # _ \<Rightarrow> Some e))"

definition admin_projectSubscription :: "subscription_facts \<Rightarrow> instant \<Rightarrow> AdminSubscriptionRecord service" where
  "admin_projectSubscription r now =
     (let grants = adminSubscriptionGrantsForSKU (fs_Grants r) (fs_SKUCode r)
      in andThen (attempt (project_with_lookup (Some (lookup_FindActive (fs_LatestCancellation r) now))
           (us_ID (fs_User r)) grants now)) (\<lambda>result.
         case result of
           Inl e \<Rightarrow> fail (if errors_is e ErrUserNotFound then ErrInvalidAdminSubscriptionQuery else e)
         | Inr p0 \<Rightarrow>
             (let p1 = (if sp_SKUCode p0 = [] then p0\<lparr>sp_SKUCode := fs_SKUCode r\<rparr> else p0);
                  p = p1\<lparr>sp_Status := defaultString (adminSubscriptionFallbackStatus r p1 grants now) SoftwareStatusNone\<rparr>
              in case projectAdminSubscriptionGrants grants now of (active, startsAt, expiresAt) \<Rightarrow>
                 andThen (subscription_projectUser (fs_User r)) (\<lambda>u.
                 andThen (projectCancellation (fs_LatestCancellation r)) (\<lambda>cancellation.
                 ret \<lparr>sw_User = u, sw_SKUCode = defaultString (sp_SKUCode p) (fs_SKUCode r),
                      sw_Status = defaultString (sp_Status p) SoftwareStatusNone,
                      sw_CancelAtPeriodEnd = sp_CancelAtPeriodEnd p, sw_CurrentPeriodStartAt = sp_CurrentPeriodStartAt p,
                      sw_CurrentPeriodEndsAt = sp_CurrentPeriodEndsAt p,
                      sw_CanCancel = (softwareSubscriptionIsMonthlyActive p \<and> \<not> softwareSubscriptionIsCancelAtPeriodEnd p),
                      sw_CanResume = softwareSubscriptionIsCancelAtPeriodEnd p, sw_ActiveEntitlements = active,
                      sw_FulfillmentGrantCount = countFulfillmentSubscriptionGrants grants,
                      sw_LatestGrantStartsAt = formatTime startsAt, sw_LatestGrantExpiresAt = formatOptionalTime expiresAt,
                      sw_LatestOrder = projectAdminSubscriptionOrder (fs_LatestOrder r) (fs_PaymentEvents r),
                      sw_Cancellation = cancellation,
                      sw_ProviderControl = projectAdminSubscriptionProviderState (fs_LatestOrder r),
                      sw_EventCount = fst (projectAdminSubscriptionPaymentEvents (fs_PaymentEvents r)),
                      sw_LatestEvent = snd (projectAdminSubscriptionPaymentEvents (fs_PaymentEvents r))\<rparr>)))))"

definition sliceAdminSubscriptionRecords :: "'a list \<Rightarrow> int \<Rightarrow> int \<Rightarrow> 'a list" where
  "sliceAdminSubscriptionRecords records limit offset =
     (if int (length records) \<le> offset then [] else take (nat limit) (drop (nat offset) records))"

text \<open>A record of another product or with another status than asked for is left out.\<close>

definition subscription_wanted :: "AdminSubscriptionQuery \<Rightarrow> subscription_facts \<Rightarrow> AdminSubscriptionRecord \<Rightarrow> bool" where
  "subscription_wanted q r x \<longleftrightarrow>
     \<not> (fs_SKUCode r \<noteq> [] \<and> sw_SKUCode x \<noteq> [] \<and> sw_SKUCode x \<noteq> fs_SKUCode r)
     \<and> column_matches (ay_SKUCode q) (sw_SKUCode x) \<and> column_matches (ay_Status q) (sw_Status x)"

definition normalized_subscription_query :: "AdminSubscriptionQuery \<Rightarrow> AdminSubscriptionQuery" where
  "normalized_subscription_query q =
     \<lparr>ay_UserID = trim_space (ay_UserID q), ay_SKUCode = trim_space (ay_SKUCode q), ay_Status = trim_space (ay_Status q),
      ay_Provider = trim_space (ay_Provider q), ay_OutTradeNo = trim_space (ay_OutTradeNo q),
      ay_Limit = clamp_limit 50 100 (ay_Limit q), ay_Offset = maxInt (ay_Offset q) 0\<rparr>"

definition ListSubscriptions :: "map_order \<Rightarrow> instant option \<Rightarrow> AdminSubscriptionQuery \<Rightarrow> AdminSubscriptionList service" where
  "ListSubscriptions shuffle clock0 q0 =
     (let q = normalized_subscription_query q0
      in andThen (AdminSubscriptionReadRepo_List shuffle q) (\<lambda>rows.
         andThen (case clock0 of Some t \<Rightarrow> ret t | None \<Rightarrow> time_now) (\<lambda>now.
         andThen (for_each rows (\<lambda>r records. andThen (admin_projectSubscription r now) (\<lambda>x.
           ret (if subscription_wanted q r x then records @ [x] else records))) []) (\<lambda>records.
         ret \<lparr>sx_GeneratedAt = formatTime now, sx_Total = int (length records),
              sx_Subscriptions = sliceAdminSubscriptionRecords records (ay_Limit q) (ay_Offset q)\<rparr>))))"

end
