(* ===== verification/Admin_Cloud.thy ===== *)
theory Admin_Cloud
  imports Admin_Accounts Cloud_Storage
begin

text \<open>
  The cloud storage views: service/admin_cloud_storage.go with the repository
  gorm_repo/admin_cloud_storage.go.  An inner join of the users drops the rows of unknown users; a
  sum of the engine fails when it leaves 64 bits.
\<close>

abbreviation ErrInvalidAdminCloudStorageQuery :: err where
  "ErrInvalidAdminCloudStorageQuery \<equiv> Sentinel ''invalid admin cloud storage query''"

section \<open>The repository\<close>

record cloud_query =
  cy_UserID :: string
  cy_Status :: string
  cy_Limit :: int
  cy_Offset :: int

record cloud_user_facts =
  fu_User :: User
  fu_Grants :: "EntitlementGrant list"
  fu_Projects :: "CloudProject list"
  fu_UsedBytes :: int

record AdminCloudStorageUsageReadModel =
  rm_TotalUsers :: int
  rm_TotalUsedBytes :: int
  rm_TotalProjectCount :: int
  rm_TotalActiveProjectCount :: int
  rm_Users :: "cloud_user_facts list"

record cloud_project_facts =
  fp_Project :: CloudProject
  fp_LastManifest :: "CloudManifest option"
  fp_ActiveObjectCount :: int
  fp_ActiveBytes :: int

record AdminCloudStorageProjectReadModel =
  rp_User :: User
  rp_Grants :: "EntitlementGrant list"
  rp_UsedBytes :: int
  rp_TotalProjects :: int
  rp_Projects :: "cloud_project_facts list"

definition normalizeAdminCloudStorageLimit :: "int \<Rightarrow> int" where
  "normalizeAdminCloudStorageLimit = clamp_limit 50 100"

definition applyAdminCloudStorageUserFilters :: "string \<Rightarrow> string \<Rightarrow> User \<Rightarrow> bool" where
  "applyAdminCloudStorageUserFilters userID status u \<longleftrightarrow>
     column_matches (trim_space userID) (us_ID u) \<and> column_matches (trim_space status) (us_Status u)"

text \<open>The rows of a table joined with the filtered users.\<close>

definition joined_with_users :: "('r \<Rightarrow> string) \<Rightarrow> string \<Rightarrow> string \<Rightarrow> User list \<Rightarrow> 'r list \<Rightarrow> 'r list" where
  "joined_with_users column userID status users t =
     concat (List.map (\<lambda>x. List.map (\<lambda>_. x)
       (List.filter (\<lambda>u. us_ID u = column x \<and> applyAdminCloudStorageUserFilters userID status u) users)) t)"

definition summed :: "int \<Rightarrow> int service" where
  "summed n = andThen (reject_if (n < min_int64 \<or> max_int64 < n) (ErrDB ''integer overflow'')) (\<lambda>_. ret n)"

definition total_bytes :: "CloudObject list \<Rightarrow> int" where
  "total_bytes t = sum_list (List.map co_SizeBytes t)"

text \<open>Descending by a time and the identifier.\<close>

definition newest_first :: "('r \<Rightarrow> instant) \<Rightarrow> ('r \<Rightarrow> string) \<Rightarrow> 'r list \<Rightarrow> 'r list" where
  "newest_first time key t = rev (sort_key (\<lambda>x. (time x, key x)) t)"

definition nonblank_ids :: "string list \<Rightarrow> string list" where
  "nonblank_ids ids = List.filter (\<lambda>i. trim_space i \<noteq> []) ids"

definition adminCloudStorageGrantsByUser :: "string list \<Rightarrow> EntitlementGrant list service" where
  "adminCloudStorageGrantsByUser userIDs =
     db_read (\<lambda>d. sort_key (\<lambda>g. - eg_CreatedAt g)
       (List.filter (\<lambda>g. eg_UserID g \<in> set userIDs \<and> eg_EntitlementID g = EntitlementCloudStorage) (tb_grants d)))"

definition adminCloudStorageProjectsByUser :: "string list \<Rightarrow> CloudProject list service" where
  "adminCloudStorageProjectsByUser userIDs =
     db_read (\<lambda>d. newest_first cp_UpdatedAt cp_ID (List.filter (\<lambda>x. cp_UserID x \<in> set userIDs) (tb_projects d)))"

text \<open>A group with a sum out of range makes the whole statement fail.\<close>

definition grouped_sums :: "('r \<Rightarrow> string) \<Rightarrow> ('r list \<Rightarrow> int) \<Rightarrow> string list \<Rightarrow> 'r list \<Rightarrow> (string \<times> int) list service" where
  "grouped_sums column total_of keys t =
     (let groups = List.map (\<lambda>k. (k, total_of (owned_by column k t))) (remdups_first keys)
      in andThen (for_each groups (\<lambda>(_, n) _. andThen (summed n) (\<lambda>_. ret ())) ()) (\<lambda>_. ret groups))"

definition group_value :: "(string \<times> int) list \<Rightarrow> string \<Rightarrow> int" where
  "group_value m k = (case map_of m k of None \<Rightarrow> 0 | Some n \<Rightarrow> n)"

definition active_objects :: "(CloudObject \<Rightarrow> string) \<Rightarrow> string list \<Rightarrow> CloudObject list service" where
  "active_objects column keys =
     db_read (\<lambda>d. List.filter (\<lambda>x. column x \<in> set keys \<and> co_Status x = CloudObjectStatusActive) (tb_objects d))"

definition adminCloudStorageUsedBytesByUser :: "string list \<Rightarrow> (string \<times> int) list service" where
  "adminCloudStorageUsedBytesByUser userIDs =
     andThen (active_objects co_UserID userIDs) (\<lambda>t. grouped_sums co_UserID total_bytes userIDs t)"

definition adminCloudStorageObjectStatsByProject ::
  "string list \<Rightarrow> ((string \<times> int) list \<times> (string \<times> int) list) service" where
  "adminCloudStorageObjectStatsByProject projectIDs =
     andThen (active_objects co_CloudProjectID projectIDs) (\<lambda>t.
     andThen (grouped_sums co_CloudProjectID total_bytes projectIDs t) (\<lambda>bytes.
     ret (List.map (\<lambda>k. (k, int (length (owned_by co_CloudProjectID k t)))) (remdups_first projectIDs), bytes)))"

text \<open>The newest manifest of a project; the manifest the project points at comes first.\<close>

definition last_manifest :: "CloudManifest list \<Rightarrow> CloudProject \<Rightarrow> CloudManifest option" where
  "last_manifest manifests p =
     (let newest = (case owned_by cm_CloudProjectID (cp_ID p) manifests of [] \<Rightarrow> None | m # _ \<Rightarrow> Some m)
      in if trim_space (cp_LastManifestID p) = [] then newest
         else case List.filter (\<lambda>m. cm_ID m = cp_LastManifestID p) manifests of [] \<Rightarrow> newest | ms \<Rightarrow> Some (last ms))"

definition adminCloudStorageLastManifestByProject :: "string list \<Rightarrow> CloudManifest list service" where
  "adminCloudStorageLastManifestByProject projectIDs =
     db_read (\<lambda>d. newest_first cm_CreatedAt cm_ID
       (List.filter (\<lambda>m. cm_CloudProjectID m \<in> set projectIDs) (tb_manifests d)))"

definition AdminCloudStorageReadRepo_ListUsage :: "cloud_query \<Rightarrow> AdminCloudStorageUsageReadModel service" where
  "AdminCloudStorageReadRepo_ListUsage q =
     (let limit = normalizeAdminCloudStorageLimit (cy_Limit q); offset = maxInt (cy_Offset q) 0;
          matches = applyAdminCloudStorageUserFilters (cy_UserID q) (cy_Status q);
          joined = (\<lambda>d. joined_with_users cp_UserID (cy_UserID q) (cy_Status q) (tb_users d) (tb_projects d))
      in andThen (db_read (\<lambda>d. int (length (List.filter matches (tb_users d))))) (\<lambda>totalUsers.
         andThen (db_read (\<lambda>d. total_bytes (joined_with_users co_UserID (cy_UserID q) (cy_Status q) (tb_users d)
           (List.filter (\<lambda>x. co_Status x = CloudObjectStatusActive) (tb_objects d))))) (\<lambda>used.
         andThen (summed used) (\<lambda>totalUsedBytes.
         andThen (db_read (\<lambda>d. int (length (joined d)))) (\<lambda>totalProjectCount.
         andThen (db_read (\<lambda>d. int (length (List.filter
           (\<lambda>x. cp_Status x = CloudProjectStatusActive \<or> cp_Status x = []) (joined d))))) (\<lambda>totalActiveProjectCount.
         andThen (db_read (\<lambda>d. page limit offset (newest_first us_CreatedAt us_ID (List.filter matches (tb_users d))))) (\<lambda>users.
           let model = \<lparr>rm_TotalUsers = totalUsers, rm_TotalUsedBytes = totalUsedBytes,
                 rm_TotalProjectCount = totalProjectCount, rm_TotalActiveProjectCount = totalActiveProjectCount,
                 rm_Users = []\<rparr>
           in if users = [] then ret model
              else let userIDs = nonblank_ids (List.map us_ID users)
                in andThen (adminCloudStorageGrantsByUser userIDs) (\<lambda>grants.
                   andThen (adminCloudStorageProjectsByUser userIDs) (\<lambda>projects.
                   andThen (adminCloudStorageUsedBytesByUser userIDs) (\<lambda>bytes.
                   ret (model\<lparr>rm_Users := List.map (\<lambda>u.
                     \<lparr>fu_User = u, fu_Grants = owned_by eg_UserID (us_ID u) grants,
                      fu_Projects = owned_by cp_UserID (us_ID u) projects, fu_UsedBytes = group_value bytes (us_ID u)\<rparr>)
                     users\<rparr>)))))))))))"

definition AdminCloudStorageReadRepo_ListProjects :: "cloud_query \<Rightarrow> AdminCloudStorageProjectReadModel service" where
  "AdminCloudStorageReadRepo_ListProjects q =
     (let limit = normalizeAdminCloudStorageLimit (cy_Limit q); offset = maxInt (cy_Offset q) 0; status = trim_space (cy_Status q)
      in andThen (reject_if (trim_space (cy_UserID q) = []) ErrNotFound) (\<lambda>_.
         andThen (UserRepo_GetByID (trim_space (cy_UserID q))) (\<lambda>u.
         andThen (adminCloudStorageGrantsByUser [us_ID u]) (\<lambda>grants.
         andThen (CloudObjectRepo_SumActiveBytesByUser (us_ID u)) (\<lambda>usedBytes.
         let matches = (\<lambda>x. cp_UserID x = us_ID u \<and> column_matches status (cp_Status x))
         in andThen (db_read (\<lambda>d. int (length (List.filter matches (tb_projects d))))) (\<lambda>totalProjects.
            andThen (db_read (\<lambda>d. page limit offset (newest_first cp_UpdatedAt cp_ID
              (List.filter matches (tb_projects d))))) (\<lambda>projects.
              let model = \<lparr>rp_User = u, rp_Grants = grants, rp_UsedBytes = usedBytes, rp_TotalProjects = totalProjects,
                    rp_Projects = []\<rparr>
              in if projects = [] then ret model
                 else let projectIDs = nonblank_ids (List.map cp_ID projects)
                   in andThen (adminCloudStorageLastManifestByProject projectIDs) (\<lambda>manifests.
                      andThen (adminCloudStorageObjectStatsByProject projectIDs) (\<lambda>(counts, bytes).
                      ret (model\<lparr>rp_Projects := List.map (\<lambda>p.
                        \<lparr>fp_Project = p, fp_LastManifest = last_manifest manifests p,
                         fp_ActiveObjectCount = group_value counts (cp_ID p),
                         fp_ActiveBytes = group_value bytes (cp_ID p)\<rparr>) projects\<rparr>))))))))))"

section \<open>The service\<close>

record AdminCloudStorageUserIdentity =
  iu_ID :: string
  iu_Status :: string
  iu_EmailMasked :: string
  iu_EmailFingerprint :: string
  iu_EmailDomain :: string
  iu_CreatedAt :: string
  iu_UpdatedAt :: string

record AdminCloudStorageUsageUser =
  uu_User :: AdminCloudStorageUserIdentity
  uu_Plan :: string
  uu_UsedBytes :: int
  uu_QuotaBytes :: int
  uu_RemainingBytes :: int
  uu_OverQuota :: bool
  uu_ProjectCount :: int
  uu_ActiveProjectCount :: int
  uu_HasCloudStorageGrant :: bool
  uu_LatestProjectUpdatedAt :: string
  uu_LatestProjectNameMasked :: string

record AdminCloudStorageUsage =
  ug_GeneratedAt :: string
  ug_TotalUsers :: int
  ug_TotalUsedBytes :: int
  ug_TotalProjectCount :: int
  ug_TotalActiveProjectCount :: int
  ug_Users :: "AdminCloudStorageUsageUser list"

record AdminCloudStorageManifest =
  vm_ID :: string
  vm_ManifestHashFingerprint :: string
  vm_ManifestVersion :: int
  vm_ObjectCount :: int
  vm_TotalBytes :: int
  vm_Status :: string
  vm_CommittedAt :: string
  vm_CreatedAt :: string

record AdminCloudStorageProjectSummary =
  vj_ID :: string
  vj_ClientProjectID :: string
  vj_NameMasked :: string
  vj_Status :: string
  vj_LastManifestID :: string
  vj_LastManifest :: AdminCloudStorageManifest
  vj_ActiveObjectCount :: int
  vj_ActiveBytes :: int
  vj_CreatedAt :: string
  vj_UpdatedAt :: string

record AdminCloudStorageProjectList =
  pq_GeneratedAt :: string
  pq_User :: AdminCloudStorageUserIdentity
  pq_Plan :: string
  pq_UsedBytes :: int
  pq_QuotaBytes :: int
  pq_RemainingBytes :: int
  pq_OverQuota :: bool
  pq_TotalProjects :: int
  pq_Projects :: "AdminCloudStorageProjectSummary list"

text \<open>The quota policy and the clock may be missing.\<close>

record admin_cloud_service =
  qs_quotaPolicy :: "CloudStorageQuotaPolicy option"
  qs_now :: "instant option"

definition current_time :: "instant option \<Rightarrow> instant service" where
  "current_time now = (case now of Some t \<Rightarrow> ret t | None \<Rightarrow> time_now)"

definition hasActiveEntitlement :: "EntitlementGrant list \<Rightarrow> string \<Rightarrow> instant \<Rightarrow> bool" where
  "hasActiveEntitlement grants i now \<longleftrightarrow> list_ex (\<lambda>g. eg_EntitlementID g = i \<and> grantIsActive g now) grants"

definition quotaFor ::
  "admin_cloud_service \<Rightarrow> User \<Rightarrow> EntitlementGrant list \<Rightarrow> instant \<Rightarrow> CloudStorageQuotaDecision service" where
  "quotaFor s u grants now =
     (case qs_quotaPolicy s of
        None \<Rightarrow> andThen (cloudStoragePlanForGrants grants now) (\<lambda>plan.
          ret \<lparr>qd_Plan = plan, qd_HasEntitlement = hasActiveEntitlement grants EntitlementCloudStorage now, qd_QuotaBytes = 0\<rparr>)
      | Some decide \<Rightarrow> decide \<lparr>qi_User = u, qi_Grants = grants, qi_Now = now\<rparr>)"

definition projectUserIdentity :: "User \<Rightarrow> AdminCloudStorageUserIdentity service" where
  "projectUserIdentity u =
     andThen (ProjectEmail (us_Email u)) (\<lambda>e.
     ret \<lparr>iu_ID = us_ID u, iu_Status = defaultString (trim_space (us_Status u)) UserStatusActive,
          iu_EmailMasked = ep_Masked e, iu_EmailFingerprint = ep_Fingerprint e, iu_EmailDomain = ep_Domain e,
          iu_CreatedAt = formatTime (us_CreatedAt u), iu_UpdatedAt = formatTime (us_UpdatedAt u)\<rparr>)"

text \<open>The zero value of a project, and the latest project.\<close>

definition no_project :: CloudProject where
  "no_project = \<lparr>cp_ID = [], cp_UserID = [], cp_ClientProjectID = [], cp_Name = [], cp_Status = [],
     cp_LastManifestID = [], cp_CreatedAt = 0, cp_UpdatedAt = 0\<rparr>"

definition latestAdminCloudStorageProject :: "CloudProject list \<Rightarrow> CloudProject" where
  "latestAdminCloudStorageProject projects =
     foldl (\<lambda>latest p. if cp_ID latest = [] \<or> cp_UpdatedAt latest < cp_UpdatedAt p then p else latest) no_project projects"

definition active_projects :: "CloudProject list \<Rightarrow> int" where
  "active_projects projects =
     int (length (List.filter (\<lambda>p. cp_Status p = [] \<or> cp_Status p = CloudProjectStatusActive) projects))"

definition over_quota :: "CloudStorageQuotaDecision \<Rightarrow> CloudStorageUsage \<Rightarrow> bool" where
  "over_quota quota usage \<longleftrightarrow> cu_OverQuota usage \<or> \<not> qd_HasEntitlement quota \<and> 0 < cu_UsedBytes usage"

definition projectUsageUser :: "admin_cloud_service \<Rightarrow> cloud_user_facts \<Rightarrow> instant \<Rightarrow> AdminCloudStorageUsageUser service" where
  "projectUsageUser s r now =
     andThen (quotaFor s (fu_User r) (fu_Grants r) now) (\<lambda>quota.
       let usage = usageFor (us_ID (fu_User r)) (qd_Plan quota) (fu_UsedBytes r) (qd_QuotaBytes quota);
           latest = latestAdminCloudStorageProject (fu_Projects r)
       in andThen (projectUserIdentity (fu_User r)) (\<lambda>identity.
          ret \<lparr>uu_User = identity, uu_Plan = cu_Plan usage, uu_UsedBytes = cu_UsedBytes usage,
               uu_QuotaBytes = cu_QuotaBytes usage, uu_RemainingBytes = cu_RemainingBytes usage,
               uu_OverQuota = over_quota quota usage, uu_ProjectCount = int (length (fu_Projects r)),
               uu_ActiveProjectCount = active_projects (fu_Projects r),
               uu_HasCloudStorageGrant = qd_HasEntitlement quota,
               uu_LatestProjectUpdatedAt = formatTime (cp_UpdatedAt latest),
               uu_LatestProjectNameMasked = maskToken (cp_Name latest)\<rparr>))"

definition normalized_cloud_query :: "cloud_query \<Rightarrow> cloud_query" where
  "normalized_cloud_query q =
     \<lparr>cy_UserID = trim_space (cy_UserID q), cy_Status = trim_space (cy_Status q),
      cy_Limit = clamp_limit 50 100 (cy_Limit q), cy_Offset = maxInt (cy_Offset q) 0\<rparr>"

definition AdminCloud_Usage :: "admin_cloud_service \<Rightarrow> cloud_query \<Rightarrow> AdminCloudStorageUsage service" where
  "AdminCloud_Usage s q =
     andThen (AdminCloudStorageReadRepo_ListUsage (normalized_cloud_query q)) (\<lambda>r.
     andThen (current_time (qs_now s)) (\<lambda>now.
     andThen (for_each (rm_Users r) (\<lambda>x us. andThen (projectUsageUser s x now) (\<lambda>u. ret (us @ [u]))) []) (\<lambda>users.
     ret \<lparr>ug_GeneratedAt = formatTime now, ug_TotalUsers = rm_TotalUsers r, ug_TotalUsedBytes = rm_TotalUsedBytes r,
          ug_TotalProjectCount = rm_TotalProjectCount r, ug_TotalActiveProjectCount = rm_TotalActiveProjectCount r,
          ug_Users = users\<rparr>)))"

definition no_manifest :: AdminCloudStorageManifest where
  "no_manifest = \<lparr>vm_ID = [], vm_ManifestHashFingerprint = [], vm_ManifestVersion = 0, vm_ObjectCount = 0,
     vm_TotalBytes = 0, vm_Status = [], vm_CommittedAt = [], vm_CreatedAt = []\<rparr>"

definition projectAdminCloudStorageManifest :: "CloudManifest option \<Rightarrow> AdminCloudStorageManifest service" where
  "projectAdminCloudStorageManifest manifest =
     (case manifest of
        None \<Rightarrow> ret no_manifest
      | Some m \<Rightarrow>
          andThen (tokenFingerprint (cm_ManifestHash m)) (\<lambda>fingerprint.
          ret \<lparr>vm_ID = cm_ID m, vm_ManifestHashFingerprint = fingerprint, vm_ManifestVersion = cm_ManifestVersion m,
               vm_ObjectCount = cm_ObjectCount m, vm_TotalBytes = cm_TotalBytes m,
               vm_Status = defaultString (cm_Status m) CloudManifestStatusCommitted,
               vm_CommittedAt = formatOptionalTime (cm_CommittedAt m), vm_CreatedAt = formatTime (cm_CreatedAt m)\<rparr>))"

definition projectAdminCloudStorageProject :: "cloud_project_facts \<Rightarrow> AdminCloudStorageProjectSummary service" where
  "projectAdminCloudStorageProject r =
     (let p = fp_Project r
      in andThen (projectAdminCloudStorageManifest (fp_LastManifest r)) (\<lambda>manifest.
         ret \<lparr>vj_ID = cp_ID p, vj_ClientProjectID = cp_ClientProjectID p, vj_NameMasked = maskToken (cp_Name p),
              vj_Status = defaultString (cp_Status p) CloudProjectStatusActive, vj_LastManifestID = cp_LastManifestID p,
              vj_LastManifest = manifest, vj_ActiveObjectCount = fp_ActiveObjectCount r,
              vj_ActiveBytes = fp_ActiveBytes r, vj_CreatedAt = formatTime (cp_CreatedAt p),
              vj_UpdatedAt = formatTime (cp_UpdatedAt p)\<rparr>))"

definition ListUserProjects :: "admin_cloud_service \<Rightarrow> cloud_query \<Rightarrow> AdminCloudStorageProjectList service" where
  "ListUserProjects s q =
     andThen (reject_if (trim_space (cy_UserID q) = []) ErrInvalidAdminCloudStorageQuery) (\<lambda>_.
     andThen (not_found_as ErrUserNotFound (AdminCloudStorageReadRepo_ListProjects (normalized_cloud_query q))) (\<lambda>r.
     andThen (reject_if (trim_space (us_ID (rp_User r)) = []) ErrUserNotFound) (\<lambda>_.
     andThen (current_time (qs_now s)) (\<lambda>now.
     andThen (quotaFor s (rp_User r) (rp_Grants r) now) (\<lambda>quota.
       let usage = usageFor (us_ID (rp_User r)) (qd_Plan quota) (rp_UsedBytes r) (qd_QuotaBytes quota)
       in andThen (for_each (rp_Projects r) (\<lambda>x ps.
            andThen (projectAdminCloudStorageProject x) (\<lambda>p. ret (ps @ [p]))) []) (\<lambda>projects.
          andThen (projectUserIdentity (rp_User r)) (\<lambda>identity.
          ret \<lparr>pq_GeneratedAt = formatTime now, pq_User = identity, pq_Plan = cu_Plan usage,
               pq_UsedBytes = cu_UsedBytes usage, pq_QuotaBytes = cu_QuotaBytes usage,
               pq_RemainingBytes = cu_RemainingBytes usage, pq_OverQuota = over_quota quota usage,
               pq_TotalProjects = rp_TotalProjects r, pq_Projects = projects\<rparr>)))))))"

end
