(* ===== verification/Admin_Summary.thy ===== *)
theory Admin_Summary
  imports Admin_Cloud Admin_Orders Subscription_Projection
begin

text \<open>
  The access summary of one user: service/admin_user_access_summary.go with its part of the
  repository gorm_repo/access_account.go.  The summary joins the rows of all modules and masks the
  personal data in them; its lists are cut to a limit.
\<close>

abbreviation ErrInvalidAdminUserAccessSummary :: err where
  "ErrInvalidAdminUserAccessSummary \<equiv> Sentinel ''invalid admin user access summary request''"

section \<open>The repository\<close>

record summary_facts =
  fz_User :: User
  fz_Devices :: "UserDevice list"
  fz_TrialGrants :: "TrialGrant list"
  fz_EntitlementGrants :: "EntitlementGrant list"
  fz_Orders :: "Order list"
  fz_PaymentEvents :: "PaymentEvent list"
  fz_RiskFlags :: "PaymentRiskFlag list"
  fz_CloudProjects :: "CloudProject list"
  fz_CloudUsedBytes :: int

definition normalizeAdminSummaryLimit :: "int \<Rightarrow> int" where
  "normalizeAdminSummaryLimit = clamp_limit 10 50"

definition AdminUserAccessSummaryReadRepo_Get :: "string \<Rightarrow> int \<Rightarrow> summary_facts service" where
  "AdminUserAccessSummaryReadRepo_Get userID recentLimit =
     (let limit = normalizeAdminSummaryLimit recentLimit
      in andThen (reject_if (userID = []) ErrNotFound) (\<lambda>_.
         andThen (UserRepo_GetByID userID) (\<lambda>u.
         andThen (db_read (\<lambda>d. sort_key (\<lambda>x. - ud_LastSeenAt x) (owned_by ud_UserID (us_ID u) (tb_devices d)))) (\<lambda>devices.
         andThen (db_read (\<lambda>d. page limit 0 (sort_key (\<lambda>x. - tg_CreatedAt x) (owned_by tg_UserID (us_ID u) (tb_trials d))))) (\<lambda>trials.
         andThen (db_read (\<lambda>d. sort_key (\<lambda>x. - eg_CreatedAt x) (owned_by eg_UserID (us_ID u) (tb_grants d)))) (\<lambda>grants.
         andThen (db_read (\<lambda>d. page limit 0 (sort_key subscription_order_rank (owned_by or_UserID (us_ID u) (tb_orders d))))) (\<lambda>orders.
         let nos = outTradeNosFromOrders orders
         in andThen (if nos = [] then ret []
              else db_read (\<lambda>d. page limit 0 (sort_key (\<lambda>x. - pe_ReceivedAt x)
                (List.filter (\<lambda>x. pe_OutTradeNo x \<in> set nos) (tb_events d))))) (\<lambda>events.
            andThen (db_read (\<lambda>d. sort_key (\<lambda>x. - rf_CreatedAt x) (owned_by rf_UserID (us_ID u) (tb_risk_flags d)))) (\<lambda>flags.
            andThen (db_read (\<lambda>d. sort_key (\<lambda>x. - cp_UpdatedAt x) (owned_by cp_UserID (us_ID u) (tb_projects d)))) (\<lambda>projects.
            andThen (CloudObjectRepo_SumActiveBytesByUser (us_ID u)) (\<lambda>usedBytes.
            ret \<lparr>fz_User = u, fz_Devices = devices, fz_TrialGrants = trials, fz_EntitlementGrants = grants,
                 fz_Orders = orders, fz_PaymentEvents = events, fz_RiskFlags = flags, fz_CloudProjects = projects,
                 fz_CloudUsedBytes = usedBytes\<rparr>)))))))))))"

section \<open>Views\<close>

record AdminUserAccessIdentity =
  xu_ID :: string
  xu_Status :: string
  xu_EmailMasked :: string
  xu_EmailFingerprint :: string
  xu_EmailDomain :: string
  xu_DisplayNameMasked :: string
  xu_CreatedAt :: string
  xu_UpdatedAt :: string

record AdminUserAccessDeviceSummary =
  xd_TotalCount :: int
  xd_ActiveCount :: int
  xd_RevokedCount :: int
  xd_Capacity :: AccessDeviceCapacity
  xd_LastSeenAt :: string
  xd_RecentDeviceRows :: "AccessDeviceRecord list"

record AdminUserAccessTrialRecord =
  xt_ID :: string
  xt_GrantType :: string
  xt_Status :: string
  xt_StartsAt :: string
  xt_ExpiresAt :: string
  xt_CreatedAt :: string
  xt_RevokedAt :: string

record AdminUserAccessTrialSummary =
  xs_CurrentStatus :: string
  xs_Latest :: AdminUserAccessTrialRecord
  xs_Recent :: "AdminUserAccessTrialRecord list"

record AdminUserAccessGrantRecord =
  xg_ID :: string
  xg_EntitlementID :: string
  xg_Status :: string
  xg_Source :: string
  xg_StartsAt :: string
  xg_ExpiresAt :: string
  xg_RevokedAt :: string
  xg_CreatedAt :: string

record AdminUserAccessGrantSummary =
  xm_CurrentEntitlements :: "string list"
  xm_LegacyEntitlements :: "string list"
  xm_Active :: "AdminUserAccessGrantRecord list"
  xm_Revoked :: "AdminUserAccessGrantRecord list"
  xm_Expired :: "AdminUserAccessGrantRecord list"

record AdminUserAccessOrderRecord =
  xo_OutTradeNo :: string
  xo_SKUCode :: string
  xo_Status :: string
  xo_Provider :: string
  xo_OrderType :: string
  xo_Amount :: int
  xo_Currency :: string
  xo_PaidAt :: string
  xo_FulfilledAt :: string
  xo_HasCheckout :: bool
  xo_HasMetadata :: bool

record AdminUserAccessPaymentEventRecord =
  xe_ID :: string
  xe_Provider :: string
  xe_EventType :: string
  xe_OutTradeNo :: string
  xe_Amount :: int
  xe_Currency :: string
  xe_PayloadHash :: string
  xe_Status :: string
  xe_Attempts :: int
  xe_LastErrorRedacted :: string
  xe_ReceivedAt :: string
  xe_ProcessedAt :: string

record AdminUserAccessRiskFlagRecord =
  xf_ID :: string
  xf_OutTradeNo :: string
  xf_Reason :: string
  xf_Severity :: string
  xf_Status :: string
  xf_NoteRedacted :: string
  xf_ResolvedBy :: AdminActorProjection
  xf_CreatedAt :: string
  xf_ResolvedAt :: string

record AdminUserAccessRiskSummary =
  xr_OpenCount :: int
  xr_ResolvedCount :: int
  xr_CriticalOpenCount :: int
  xr_Recent :: "AdminUserAccessRiskFlagRecord list"

record AdminUserAccessCloudProject =
  xp_ID :: string
  xp_ClientProjectID :: string
  xp_NameMasked :: string
  xp_Status :: string
  xp_LastManifestID :: string
  xp_CreatedAt :: string
  xp_UpdatedAt :: string

record AdminUserAccessCloudSummary =
  xc_Plan :: string
  xc_UsedBytes :: int
  xc_QuotaBytes :: int
  xc_RemainingBytes :: int
  xc_OverQuota :: bool
  xc_ProjectCount :: int
  xc_ActiveProjectCount :: int
  xc_RecentProjects :: "AdminUserAccessCloudProject list"

record AdminUserAccessSummary =
  xa_GeneratedAt :: string
  xa_User :: AdminUserAccessIdentity
  xa_Devices :: AdminUserAccessDeviceSummary
  xa_Trial :: AdminUserAccessTrialSummary
  xa_Grants :: AdminUserAccessGrantSummary
  xa_Subscription :: SoftwareSubscriptionProjection
  xa_Orders :: "AdminUserAccessOrderRecord list"
  xa_PaymentEvents :: "AdminUserAccessPaymentEventRecord list"
  xa_RiskFlags :: AdminUserAccessRiskSummary
  xa_CloudStorage :: AdminUserAccessCloudSummary

section \<open>Projections\<close>

text \<open>The cuts of all lists to the limit.\<close>

definition limit_rows :: "int \<Rightarrow> 'a list \<Rightarrow> 'a list" where
  "limit_rows limit xs = (if limit \<le> 0 \<or> int (length xs) \<le> limit then xs else take (nat limit) xs)"

definition projectAdminUserAccessDevices :: "UserDevice list \<Rightarrow> int \<Rightarrow> int \<Rightarrow> AdminUserAccessDeviceSummary service" where
  "projectAdminUserAccessDevices devices maxDevices limit =
     andThen (projectAccessDevices devices) (\<lambda>rows.
     let active = countActiveDevices devices
     in ret \<lparr>xd_TotalCount = int (length devices), xd_ActiveCount = active,
          xd_RevokedCount = int (length (List.filter
            (\<lambda>x. ud_Status x = DeviceStatusDisabled \<or> ud_RevokedAt x \<noteq> None) devices)),
          xd_Capacity = newAccessDeviceCapacity active maxDevices,
          xd_LastSeenAt = formatTime (latestDeviceSeenAt devices), xd_RecentDeviceRows = limit_rows limit rows\<rparr>)"

definition projectAdminUserAccessTrial :: "TrialGrant \<Rightarrow> instant \<Rightarrow> AdminUserAccessTrialRecord" where
  "projectAdminUserAccessTrial t now =
     (if tg_ID t = []
      then \<lparr>xt_ID = [], xt_GrantType = [], xt_Status = ''none'', xt_StartsAt = [], xt_ExpiresAt = [], xt_CreatedAt = [],
            xt_RevokedAt = []\<rparr>
      else \<lparr>xt_ID = tg_ID t, xt_GrantType = tg_GrantType t, xt_Status = trialStatus t now,
            xt_StartsAt = formatTime (tg_StartsAt t), xt_ExpiresAt = formatOptionalTime (tg_ExpiresAt t),
            xt_CreatedAt = formatTime (tg_CreatedAt t), xt_RevokedAt = formatOptionalTime (tg_RevokedAt t)\<rparr>)"

definition projectAdminUserAccessTrials :: "TrialGrant list \<Rightarrow> instant \<Rightarrow> int \<Rightarrow> AdminUserAccessTrialSummary" where
  "projectAdminUserAccessTrials trials now limit =
     (let latest = latestTrialGrant trials
      in \<lparr>xs_CurrentStatus = trialStatus latest now, xs_Latest = projectAdminUserAccessTrial latest now,
          xs_Recent = List.map (\<lambda>t. projectAdminUserAccessTrial t now) (limit_rows limit trials)\<rparr>)"

definition projectAdminUserAccessGrant :: "EntitlementGrant \<Rightarrow> AdminUserAccessGrantRecord" where
  "projectAdminUserAccessGrant g =
     \<lparr>xg_ID = eg_ID g, xg_EntitlementID = eg_EntitlementID g, xg_Status = defaultString (eg_Status g) GrantStatusActive,
      xg_Source = eg_Source g, xg_StartsAt = formatTime (eg_StartsAt g), xg_ExpiresAt = formatOptionalTime (eg_ExpiresAt g),
      xg_RevokedAt = formatOptionalTime (eg_RevokedAt g), xg_CreatedAt = formatTime (eg_CreatedAt g)\<rparr>"

definition grant_revoked :: "EntitlementGrant \<Rightarrow> bool" where
  "grant_revoked g \<longleftrightarrow> eg_Status g = GrantStatusRevoked \<or> eg_RevokedAt g \<noteq> None"

definition projectAdminUserAccessGrants :: "EntitlementGrant list \<Rightarrow> instant \<Rightarrow> int \<Rightarrow> AdminUserAccessGrantSummary" where
  "projectAdminUserAccessGrants grants now limit =
     (case splitCurrentAndLegacyEntitlements grants now of (current, legacy) \<Rightarrow>
        let rows = (\<lambda>p. limit_rows limit (List.map projectAdminUserAccessGrant (List.filter p grants)))
        in \<lparr>xm_CurrentEntitlements = current, xm_LegacyEntitlements = legacy,
            xm_Active = rows (\<lambda>g. \<not> grant_revoked g \<and> grantIsActive g now), xm_Revoked = rows grant_revoked,
            xm_Expired = rows (\<lambda>g. \<not> grant_revoked g \<and> \<not> grantIsActive g now)\<rparr>)"

definition projectAdminUserAccessOrders :: "Order list \<Rightarrow> int \<Rightarrow> AdminUserAccessOrderRecord list" where
  "projectAdminUserAccessOrders orders limit =
     List.map (\<lambda>x. \<lparr>xo_OutTradeNo = or_OutTradeNo x, xo_SKUCode = or_SKUCode x, xo_Status = or_Status x,
        xo_Provider = or_Provider x, xo_OrderType = or_OrderType x, xo_Amount = or_Amount x, xo_Currency = or_Currency x,
        xo_PaidAt = formatOptionalTime (or_PaidAt x), xo_FulfilledAt = formatOptionalTime (or_FulfilledAt x),
        xo_HasCheckout = (trim_space (or_CheckoutURL x) \<noteq> [] \<or> trim_space (or_ProviderCheckoutID x) \<noteq> []),
        xo_HasMetadata = (trim_space (or_Metadata x) \<noteq> [])\<rparr>) (limit_rows limit orders)"

definition projectPaymentEvents :: "PaymentEvent list \<Rightarrow> int \<Rightarrow> AdminUserAccessPaymentEventRecord list service" where
  "projectPaymentEvents events limit =
     for_each (limit_rows limit events) (\<lambda>e result.
       andThen (RedactFreeText (pe_LastError e)) (\<lambda>redacted.
       ret (result @ [\<lparr>xe_ID = pe_ID e, xe_Provider = pe_Provider e, xe_EventType = pe_EventType e,
         xe_OutTradeNo = pe_OutTradeNo e, xe_Amount = pe_Amount e, xe_Currency = pe_Currency e,
         xe_PayloadHash = pe_PayloadHash e, xe_Status = pe_Status e, xe_Attempts = pe_Attempts e,
         xe_LastErrorRedacted = redacted, xe_ReceivedAt = formatTime (pe_ReceivedAt e),
         xe_ProcessedAt = formatOptionalTime (pe_ProcessedAt e)\<rparr>]))) []"

definition project_risk_flag :: "PaymentRiskFlag \<Rightarrow> AdminUserAccessRiskFlagRecord service" where
  "project_risk_flag f =
     andThen (RedactFreeText (rf_Note f)) (\<lambda>note.
     andThen (ProjectActor (rf_ResolvedBy f)) (\<lambda>actor.
     ret \<lparr>xf_ID = rf_ID f, xf_OutTradeNo = rf_OutTradeNo f, xf_Reason = rf_Reason f, xf_Severity = rf_Severity f,
          xf_Status = rf_Status f, xf_NoteRedacted = note, xf_ResolvedBy = actor,
          xf_CreatedAt = formatTime (rf_CreatedAt f), xf_ResolvedAt = formatOptionalTime (rf_ResolvedAt f)\<rparr>))"

text \<open>A flag that is not resolved counts as open.\<close>

definition projectRiskFlags :: "PaymentRiskFlag list \<Rightarrow> int \<Rightarrow> AdminUserAccessRiskSummary service" where
  "projectRiskFlags flags limit =
     (let open_flags = List.filter (\<lambda>f. rf_Status f \<noteq> RiskStatusResolved) flags
      in andThen (for_each (limit_rows limit flags) (\<lambda>f rows. andThen (project_risk_flag f) (\<lambda>x. ret (rows @ [x]))) []) (\<lambda>rows.
         ret \<lparr>xr_OpenCount = int (length open_flags),
              xr_ResolvedCount = int (length (List.filter (\<lambda>f. rf_Status f = RiskStatusResolved) flags)),
              xr_CriticalOpenCount = int (length (List.filter (\<lambda>f. rf_Severity f = RiskSeverityCritical) open_flags)),
              xr_Recent = rows\<rparr>))"

definition project_cloud_project :: "CloudProject \<Rightarrow> AdminUserAccessCloudProject" where
  "project_cloud_project p =
     \<lparr>xp_ID = cp_ID p, xp_ClientProjectID = cp_ClientProjectID p, xp_NameMasked = maskToken (cp_Name p),
      xp_Status = defaultString (cp_Status p) CloudProjectStatusActive, xp_LastManifestID = cp_LastManifestID p,
      xp_CreatedAt = formatTime (cp_CreatedAt p), xp_UpdatedAt = formatTime (cp_UpdatedAt p)\<rparr>"

section \<open>The service\<close>

record summary_service =
  ss_subscriptions :: "(string \<Rightarrow> SoftwareSubscriptionProjection service) option"
  ss_quotaPolicy :: "CloudStorageQuotaPolicy option"
  ss_maxDevices :: int
  ss_now :: "instant option"

definition summary_projectSubscription :: "summary_service \<Rightarrow> string \<Rightarrow> SoftwareSubscriptionProjection service" where
  "summary_projectSubscription s userID =
     (case ss_subscriptions s of
        None \<Rightarrow> ret \<lparr>sp_UserID = userID, sp_SKUCode = [], sp_Status = SoftwareStatusNone, sp_CancelAtPeriodEnd = False,
          sp_CurrentPeriodStartAt = [], sp_CurrentPeriodEndsAt = []\<rparr>
      | Some project \<Rightarrow>
          andThen (project userID) (\<lambda>p.
          ret (p\<lparr>sp_UserID := defaultString (sp_UserID p) userID,
                 sp_Status := defaultString (sp_Status p) SoftwareStatusNone\<rparr>)))"

definition projectIdentity :: "User \<Rightarrow> AdminUserAccessIdentity service" where
  "projectIdentity u =
     andThen (ProjectEmail (us_Email u)) (\<lambda>e.
     ret \<lparr>xu_ID = us_ID u, xu_Status = defaultString (trim_space (us_Status u)) UserStatusActive,
          xu_EmailMasked = ep_Masked e, xu_EmailFingerprint = ep_Fingerprint e, xu_EmailDomain = ep_Domain e,
          xu_DisplayNameMasked = maskDisplayName (us_DisplayName u), xu_CreatedAt = formatTime (us_CreatedAt u),
          xu_UpdatedAt = formatTime (us_UpdatedAt u)\<rparr>)"

text \<open>The plan is decided without a policy first, then by the policy.\<close>

definition projectCloudStorage :: "summary_service \<Rightarrow> summary_facts \<Rightarrow> int \<Rightarrow> AdminUserAccessCloudSummary service" where
  "projectCloudStorage s r limit =
     andThen (current_time (ss_now s)) (\<lambda>now.
     andThen (cloudStoragePlanForGrants (fz_EntitlementGrants r) now) (\<lambda>plan.
     andThen (case ss_quotaPolicy s of
         None \<Rightarrow> ret \<lparr>qd_Plan = plan, qd_HasEntitlement = False, qd_QuotaBytes = 0\<rparr>
       | Some decide \<Rightarrow> decide \<lparr>qi_User = fz_User r, qi_Grants = fz_EntitlementGrants r, qi_Now = now\<rparr>) (\<lambda>quota.
     let usage = usageFor (us_ID (fz_User r)) (qd_Plan quota) (fz_CloudUsedBytes r) (qd_QuotaBytes quota)
     in ret \<lparr>xc_Plan = cu_Plan usage, xc_UsedBytes = cu_UsedBytes usage, xc_QuotaBytes = cu_QuotaBytes usage,
          xc_RemainingBytes = cu_RemainingBytes usage, xc_OverQuota = cu_OverQuota usage,
          xc_ProjectCount = int (length (fz_CloudProjects r)), xc_ActiveProjectCount = active_projects (fz_CloudProjects r),
          xc_RecentProjects = List.map project_cloud_project (limit_rows limit (fz_CloudProjects r))\<rparr>)))"

definition Summary_Get :: "summary_service \<Rightarrow> string \<Rightarrow> int \<Rightarrow> AdminUserAccessSummary service" where
  "Summary_Get s userID0 recentLimit =
     (let userID = trim_space userID0; limit = clamp_limit 10 50 recentLimit
      in andThen (reject_if (userID = []) ErrInvalidAdminUserAccessSummary) (\<lambda>_.
         andThen (not_found_as ErrUserNotFound (AdminUserAccessSummaryReadRepo_Get userID limit)) (\<lambda>r.
         andThen (reject_if (trim_space (us_ID (fz_User r)) = []) ErrUserNotFound) (\<lambda>_.
         andThen (current_time (ss_now s)) (\<lambda>now.
         andThen (summary_projectSubscription s (us_ID (fz_User r))) (\<lambda>subscription.
         andThen (projectIdentity (fz_User r)) (\<lambda>identity.
         andThen (projectAdminUserAccessDevices (fz_Devices r) (ss_maxDevices s) limit) (\<lambda>devices.
         andThen (projectPaymentEvents (fz_PaymentEvents r) limit) (\<lambda>events.
         andThen (projectRiskFlags (fz_RiskFlags r) limit) (\<lambda>flags.
         andThen (projectCloudStorage s r limit) (\<lambda>cloud.
         ret \<lparr>xa_GeneratedAt = formatTime now, xa_User = identity, xa_Devices = devices,
              xa_Trial = projectAdminUserAccessTrials (fz_TrialGrants r) now limit,
              xa_Grants = projectAdminUserAccessGrants (fz_EntitlementGrants r) now limit,
              xa_Subscription = subscription, xa_Orders = projectAdminUserAccessOrders (fz_Orders r) limit,
              xa_PaymentEvents = events, xa_RiskFlags = flags, xa_CloudStorage = cloud\<rparr>)))))))))))"

end
