(* ===== verification/Admin_Theorems.thy ===== *)
theory Admin_Theorems
  imports Admin_Reset Admin_Subscriptions Admin_Summary Production_Theorems
begin

text \<open>
  The administration.  A reset of a test user deletes the rows of the one user it names, all of
  them, or nothing, and nothing at all in production.  The insertion sort of the subscription
  candidates is the stable descending sort.  The masks show at most the outer characters of a name.
\<close>

section \<open>Resets\<close>

text \<open>The data without the rows of some users, an address and some orders.\<close>

definition purge :: "string list \<Rightarrow> string \<Rightarrow> string list \<Rightarrow> database \<Rightarrow> database" where
  "purge us email nos d =
     d\<lparr>tb_challenges := List.filter (\<lambda>x. \<not> (email \<noteq> [] \<and> lc_Email x = email)) (tb_challenges d),
       tb_registrations := List.filter (\<lambda>x. \<not> (rr_UserID x \<in> set us \<or> email \<noteq> [] \<and> rr_Email x = email)) (tb_registrations d),
       tb_trials := List.filter (\<lambda>x. \<not> (tg_UserID x \<in> set us \<or> email \<noteq> [] \<and> tg_Email x = email)) (tb_trials d),
       tb_objects := List.filter (\<lambda>x. co_UserID x \<notin> set us) (tb_objects d),
       tb_manifests := List.filter (\<lambda>x. cm_UserID x \<notin> set us) (tb_manifests d),
       tb_sessions := List.filter (\<lambda>x. cs_UserID x \<notin> set us) (tb_sessions d),
       tb_projects := List.filter (\<lambda>x. cp_UserID x \<notin> set us) (tb_projects d),
       tb_cancellations := List.filter (\<lambda>x. sc_UserID x \<notin> set us) (tb_cancellations d),
       tb_transactions := List.filter (\<lambda>x. ct_UserID x \<notin> set us) (tb_transactions d),
       tb_reservations := List.filter (\<lambda>x. cr_UserID x \<notin> set us) (tb_reservations d),
       tb_buckets := List.filter (\<lambda>x. cb_UserID x \<notin> set us) (tb_buckets d),
       tb_accounts := List.filter (\<lambda>x. ca_UserID x \<notin> set us) (tb_accounts d),
       tb_devices := List.filter (\<lambda>x. ud_UserID x \<notin> set us) (tb_devices d),
       tb_grants := List.filter (\<lambda>x. eg_UserID x \<notin> set us) (tb_grants d),
       tb_executions := List.filter (\<lambda>x. \<not> (fe_UserID x \<in> set us \<or> fe_OutTradeNo x \<in> set nos)) (tb_executions d),
       tb_risk_flags := List.filter (\<lambda>x. \<not> (rf_UserID x \<in> set us \<or> rf_OutTradeNo x \<in> set nos)) (tb_risk_flags d),
       tb_events := List.filter (\<lambda>x. pe_OutTradeNo x \<notin> set nos) (tb_events d),
       tb_orders := List.filter (\<lambda>x. or_UserID x \<notin> set us) (tb_orders d),
       tb_users := List.filter (\<lambda>x. us_ID x \<notin> set us) (tb_users d)\<rparr>"

text \<open>An operation without rows to delete changes nothing.\<close>

definition idle :: "reset_operation \<Rightarrow> bool" where
  "idle oper \<longleftrightarrow> (\<forall>d. ro_count oper d = 0 \<longrightarrow> ro_delete oper d = d)"

lemma idle_rows:
  assumes "\<And>f d. f (rows d) = rows d \<Longrightarrow> upd f d = d"
  shows "idle (reset_rows name rows upd P)"
  using assms by (auto simp: idle_def reset_rows_def filter_empty_conv intro!: assms filter_True)

lemma when_where_set: "oper \<in> set (when_where P add) \<Longrightarrow> \<exists>p. P = Some p \<and> oper = add p"
  by (auto simp: when_where_def split: option.splits)

lemma table_updates:
  "f (tb_challenges d) = tb_challenges d \<Longrightarrow> tb_challenges_update f d = d"
  "f1 (tb_registrations d) = tb_registrations d \<Longrightarrow> tb_registrations_update f1 d = d"
  "f2 (tb_trials d) = tb_trials d \<Longrightarrow> tb_trials_update f2 d = d"
  "f3 (tb_objects d) = tb_objects d \<Longrightarrow> tb_objects_update f3 d = d"
  "f4 (tb_manifests d) = tb_manifests d \<Longrightarrow> tb_manifests_update f4 d = d"
  "f5 (tb_sessions d) = tb_sessions d \<Longrightarrow> tb_sessions_update f5 d = d"
  "f6 (tb_projects d) = tb_projects d \<Longrightarrow> tb_projects_update f6 d = d"
  "f7 (tb_cancellations d) = tb_cancellations d \<Longrightarrow> tb_cancellations_update f7 d = d"
  "f8 (tb_transactions d) = tb_transactions d \<Longrightarrow> tb_transactions_update f8 d = d"
  "f9 (tb_reservations d) = tb_reservations d \<Longrightarrow> tb_reservations_update f9 d = d"
  "g (tb_buckets d) = tb_buckets d \<Longrightarrow> tb_buckets_update g d = d"
  "g1 (tb_accounts d) = tb_accounts d \<Longrightarrow> tb_accounts_update g1 d = d"
  "g2 (tb_devices d) = tb_devices d \<Longrightarrow> tb_devices_update g2 d = d"
  "g3 (tb_grants d) = tb_grants d \<Longrightarrow> tb_grants_update g3 d = d"
  "g4 (tb_executions d) = tb_executions d \<Longrightarrow> tb_executions_update g4 d = d"
  "g5 (tb_risk_flags d) = tb_risk_flags d \<Longrightarrow> tb_risk_flags_update g5 d = d"
  "g6 (tb_events d) = tb_events d \<Longrightarrow> tb_events_update g6 d = d"
  "g7 (tb_orders d) = tb_orders d \<Longrightarrow> tb_orders_update g7 d = d"
  "g8 (tb_users d) = tb_users d \<Longrightarrow> tb_users_update g8 d = d"
  by (cases d, simp)+

lemma idle_operations: "oper \<in> set (adminResetOperations us email nos) \<Longrightarrow> idle oper"
  unfolding adminResetOperations_def set_append Un_iff
  by (elim disjE; drule when_where_set; elim exE conjE; hypsubst) (rule idle_rows; erule table_updates)+

lemma deleted_rows:
  assumes "\<And>d. upd (\<lambda>t. t) d = d"
  shows "fold ro_delete (when_where P (reset_rows name rows upd)) d
    = upd (List.filter (\<lambda>x. \<not> (case P of None \<Rightarrow> False | Some p \<Rightarrow> p x))) d"
proof -
  have "upd (List.filter (\<lambda>x. True)) = upd (\<lambda>t. t)" by (rule arg_cong [of _ _ upd], rule ext) simp
  then show ?thesis using assms by (cases P) (simp_all add: when_where_def reset_rows_def)
qed

lemma table_updates_id:
  "tb_challenges_update (\<lambda>t. t) d = d" "tb_registrations_update (\<lambda>t. t) d = d" "tb_trials_update (\<lambda>t. t) d = d"
  "tb_objects_update (\<lambda>t. t) d = d" "tb_manifests_update (\<lambda>t. t) d = d" "tb_sessions_update (\<lambda>t. t) d = d"
  "tb_projects_update (\<lambda>t. t) d = d" "tb_cancellations_update (\<lambda>t. t) d = d" "tb_transactions_update (\<lambda>t. t) d = d"
  "tb_reservations_update (\<lambda>t. t) d = d" "tb_buckets_update (\<lambda>t. t) d = d" "tb_accounts_update (\<lambda>t. t) d = d"
  "tb_devices_update (\<lambda>t. t) d = d" "tb_grants_update (\<lambda>t. t) d = d" "tb_executions_update (\<lambda>t. t) d = d"
  "tb_risk_flags_update (\<lambda>t. t) d = d" "tb_events_update (\<lambda>t. t) d = d" "tb_orders_update (\<lambda>t. t) d = d"
  "tb_users_update (\<lambda>t. t) d = d"
  by (cases d, simp)+

lemma where_conditions:
  "(case adminResetEmailWhere email c of None \<Rightarrow> False | Some p \<Rightarrow> p x) \<longleftrightarrow> trim_space email \<noteq> [] \<and> c x = email"
  "(case adminResetUserWhere us c of None \<Rightarrow> False | Some p \<Rightarrow> p x) \<longleftrightarrow> c x \<in> set us"
  "(case adminResetOrderWhere us c of None \<Rightarrow> False | Some p \<Rightarrow> p x) \<longleftrightarrow> c x \<in> set us"
  "(case adminResetUserOrEmailWhere us email c e of None \<Rightarrow> False | Some p \<Rightarrow> p x)
     \<longleftrightarrow> c x \<in> set us \<or> trim_space email \<noteq> [] \<and> e x = email"
  "(case adminResetUserOrOrderWhere us nos c n of None \<Rightarrow> False | Some p \<Rightarrow> p x) \<longleftrightarrow> c x \<in> set us \<or> n x \<in> set nos"
  by (auto simp: adminResetEmailWhere_def adminResetUserWhere_def adminResetOrderWhere_def
    adminResetUserOrEmailWhere_def adminResetUserOrOrderWhere_def Let_def)

lemma deleted_operations:
  assumes "trim_space email = email"
  shows "fold ro_delete (adminResetOperations us email nos) d = purge us email nos d"
  unfolding adminResetOperations_def fold_append comp_def
  by (simp only: deleted_rows table_updates_id where_conditions assms) (simp add: purge_def)

lemma wp_reset_step:
  assumes "idle oper"
  shows "wp (reset_step dry oper acc)
    (\<lambda>acc' w'. db w' = (if dry then db w else ro_delete oper (db w))
       \<and> (\<exists>n. acc' = acc @ [(ro_name oper, n)] \<and> 0 \<le> n \<and> (n = 0 \<longrightarrow> db w' = db w)))
    (\<lambda>e w'. dry \<longrightarrow> db w' = db w) w"
  using assms by (simp add: reset_step_def idle_def wp_simps split: option.split)

lemma wp_reset_loop:
  assumes idle: "\<And>oper. oper \<in> set ops \<Longrightarrow> idle oper"
  shows "wp (for_each ops (reset_step dry) [])
    (\<lambda>counts w'. db w' = (if dry then db w else fold ro_delete ops (db w))
       \<and> (adminResetTotal counts = 0 \<longrightarrow> db w' = db w))
    (\<lambda>e w'. dry \<longrightarrow> db w' = db w) w"
proof (rule wp_for_each [where I = "\<lambda>ys acc w'. set ys \<subseteq> set ops \<and> (dry \<longrightarrow> db w' = db w)
    \<and> (\<not> dry \<longrightarrow> fold ro_delete ys (db w') = fold ro_delete ops (db w))
    \<and> 0 \<le> adminResetTotal acc \<and> (adminResetTotal acc = 0 \<longrightarrow> db w' = db w)"])
  fix oper ys acc and w1 :: "database world"
  assume inv: "set (oper # ys) \<subseteq> set ops \<and> (dry \<longrightarrow> db w1 = db w)
    \<and> (\<not> dry \<longrightarrow> fold ro_delete (oper # ys) (db w1) = fold ro_delete ops (db w))
    \<and> 0 \<le> adminResetTotal acc \<and> (adminResetTotal acc = 0 \<longrightarrow> db w1 = db w)"
  then have "idle oper" using idle by simp
  from wp_reset_step [OF this]
  show "wp (reset_step dry oper acc) (\<lambda>acc' w'. set ys \<subseteq> set ops \<and> (dry \<longrightarrow> db w' = db w)
      \<and> (\<not> dry \<longrightarrow> fold ro_delete ys (db w') = fold ro_delete ops (db w))
      \<and> 0 \<le> adminResetTotal acc' \<and> (adminResetTotal acc' = 0 \<longrightarrow> db w' = db w))
    (\<lambda>e w'. dry \<longrightarrow> db w' = db w) w1"
  proof (rule wp_mono)
    fix acc' w2
    assume "db w2 = (if dry then db w1 else ro_delete oper (db w1))
      \<and> (\<exists>n. acc' = acc @ [(ro_name oper, n)] \<and> 0 \<le> n \<and> (n = 0 \<longrightarrow> db w2 = db w1))"
    then obtain n where n: "db w2 = (if dry then db w1 else ro_delete oper (db w1))"
      "acc' = acc @ [(ro_name oper, n)]" "0 \<le> n" "n = 0 \<longrightarrow> db w2 = db w1" by blast
    have "adminResetTotal acc' = adminResetTotal acc + n" by (simp add: n(2) adminResetTotal_def)
    with inv n show "set ys \<subseteq> set ops \<and> (dry \<longrightarrow> db w2 = db w)
      \<and> (\<not> dry \<longrightarrow> fold ro_delete ys (db w2) = fold ro_delete ops (db w))
      \<and> 0 \<le> adminResetTotal acc' \<and> (adminResetTotal acc' = 0 \<longrightarrow> db w2 = db w)"
      by (cases "n = 0") auto
  qed (use inv in simp)
qed (simp_all add: adminResetTotal_def)

lemma wp_transaction_db:
  assumes "\<And>w1. db w1 = db w \<Longrightarrow> wp body (\<lambda>x w2. Q x (db w2)) (\<lambda>_ _. True) w1"
  shows "wp (in_transaction body) (\<lambda>x w2. Q x (db w2)) (\<lambda>_ w2. db w2 = db w) w"
proof (rule wp_in_transaction)
  have "wp body (\<lambda>x w2. Q x (db w2)) (\<lambda>_ _. True) (next_tick w)" by (rule assms) simp
  then show "wp body
     (\<lambda>x w'. case faults w' (tick w') of None \<Rightarrow> Q x (db (next_tick w')) | Some m \<Rightarrow> db (next_tick (w'\<lparr>db := db w\<rparr>)) = db w)
     (\<lambda>e w'. db (w'\<lparr>db := db w\<rparr>) = db w) (next_tick w)"
    by (rule wp_mono) (simp_all split: option.split)
qed simp

definition order_numbers :: "string list \<Rightarrow> database \<Rightarrow> string list" where
  "order_numbers us d = compactStrings (List.map or_OutTradeNo (List.filter (\<lambda>x. or_UserID x \<in> set us) (tb_orders d)))"

lemma wp_reset_exec:
  assumes "trim_space email = email"
  shows "wp (reset_exec dry us email)
    (\<lambda>counts w'. db w' = (if dry then db w else purge us email (order_numbers us (db w)) (db w))
       \<and> (adminResetTotal counts = 0 \<longrightarrow> db w' = db w))
    (\<lambda>e w'. dry \<longrightarrow> db w' = db w) w"
proof -
  have loop: "wp (for_each (adminResetOperations us email nos) (reset_step dry) [])
      (\<lambda>counts w'. db w' = (if dry then db w1 else purge us email nos (db w1))
         \<and> (adminResetTotal counts = 0 \<longrightarrow> db w' = db w1)) (\<lambda>e w'. dry \<longrightarrow> db w' = db w1) w1" for nos w1
    using wp_reset_loop [of "adminResetOperations us email nos" dry w1, OF idle_operations] by (simp only: deleted_operations [OF assms])
  show ?thesis
    unfolding reset_exec_def adminResetOrderNos_def wp_andThen
    using loop [of _ w] loop [of _ "next_tick w"]
    by (auto simp: wp_simps order_numbers_def compactStrings_def split: option.split)
qed

text \<open>
  Whom a query names: a stored user with the identifier and the address of the query, as far as it
  gives them, and no user only when no stored one meets the query and it gives no identifier; and
  the address of the query or, when it gives none, of the user.
\<close>

definition reset_names :: "string \<Rightarrow> string \<Rightarrow> User \<Rightarrow> bool" where
  "reset_names userID address u \<longleftrightarrow> column_matches userID (us_ID u) \<and> column_matches address (us_Email u)"

definition reset_target :: "string \<Rightarrow> string \<Rightarrow> string list \<Rightarrow> string \<Rightarrow> database \<Rightarrow> bool" where
  "reset_target userID address us email d \<longleftrightarrow>
     (if \<exists>u\<in>set (tb_users d). reset_names userID address u
      then \<exists>u\<in>set (tb_users d). reset_names userID address u \<and> us = [us_ID u]
             \<and> email = (if address = [] then normalizeEmail (us_Email u) else address)
      else userID = [] \<and> us = [] \<and> email = address)"

lemma wp_adminResetFindUser:
  "wp (adminResetFindUser q)
     (\<lambda>r w'. db w' = db w \<and> (case r of
        None \<Rightarrow> qk_UserID q = [] \<and> (\<forall>u\<in>set (tb_users (db w)). \<not> reset_names (qk_UserID q) (qk_Email q) u)
      | Some u \<Rightarrow> u \<in> set (tb_users (db w)) \<and> reset_names (qk_UserID q) (qk_Email q) u))
     (\<lambda>_ w'. db w' = db w) w"
proof -
  have found: "u \<in> set (tb_users d) \<and> column_matches i (us_ID u) \<and> column_matches e (us_Email u)"
    if "sort_key us_ID (List.filter (\<lambda>u. column_matches i (us_ID u) \<and> column_matches e (us_Email u)) (tb_users d)) = u # us"
    for u us i e d
  proof -
    have "u \<in> set (sort_key us_ID (List.filter (\<lambda>u. column_matches i (us_ID u) \<and> column_matches e (us_Email u)) (tb_users d)))"
      by (simp only: that list.set_intros)
    then show ?thesis by simp
  qed
  show ?thesis
    by (auto simp: adminResetFindUser_def wp_simps reset_names_def filter_empty_conv dest: found split: option.splits list.splits)
qed

lemma wp_reset_run:
  assumes "trim_space email = email"
  shows "wp (if dry then reset_exec dry us email else in_transaction (reset_exec dry us email))
    (\<lambda>counts w'. db w' = (if dry then db w else purge us email (order_numbers us (db w)) (db w))
       \<and> (adminResetTotal counts = 0 \<longrightarrow> db w' = db w))
    (\<lambda>_ w'. db w' = db w) w"
proof (cases dry)
  case True
  with wp_reset_exec [OF assms, of dry us w] show ?thesis by simp
next
  case False
  have "wp (in_transaction (reset_exec dry us email))
    (\<lambda>counts w'. db w' = purge us email (order_numbers us (db w)) (db w) \<and> (adminResetTotal counts = 0 \<longrightarrow> db w' = db w))
    (\<lambda>_ w'. db w' = db w) w"
    by (rule wp_transaction_db, rule wp_mono [OF wp_reset_exec [OF assms]]) (use False in auto)
  with False show ?thesis by simp
qed

lemma wp_reset_found:
  assumes "trim_space (reset_email q user) = reset_email q user"
  shows "wp (reset_found q user)
    (\<lambda>r w'. db w' = (if qk_DryRun q then db w
       else purge (reset_user_ids user) (reset_email q user) (order_numbers (reset_user_ids user) (db w)) (db w)))
    (\<lambda>_ w'. db w' = db w) w"
  unfolding reset_found_def Let_def wp_andThen
  by (rule wp_mono [OF wp_reset_run [OF assms]]) (auto simp: wp_simps)

lemma trim_normalized [simp]: "trim_space (normalizeEmail e) = normalizeEmail e"
  by (simp add: normalizeEmail_def trim_to_lower)

lemma wp_ResetUserControlPlane:
  "wp (ResetUserControlPlane q)
     (\<lambda>r w'. \<exists>us email. reset_target (trim_space (qk_UserID q)) (normalizeEmail (qk_Email q)) us email (db w)
        \<and> db w' = (if qk_DryRun q then db w else purge us email (order_numbers us (db w)) (db w)))
     (\<lambda>_ w'. db w' = db w) w"
proof -
  let ?q = "q\<lparr>qk_Email := trim_space (to_lower (qk_Email q)), qk_UserID := trim_space (qk_UserID q)\<rparr>"
  have lower: "trim_space (to_lower e) = normalizeEmail e" for e by (simp add: normalizeEmail_def trim_to_lower)
  show ?thesis
    unfolding ResetUserControlPlane_def Let_def wp_andThen
  proof (rule wp_mono [OF wp_adminResetFindUser])
    fix user and w1 :: "database world"
    assume found: "db w1 = db w \<and> (case user of
        None \<Rightarrow> qk_UserID ?q = [] \<and> (\<forall>u\<in>set (tb_users (db w)). \<not> reset_names (qk_UserID ?q) (qk_Email ?q) u)
      | Some u \<Rightarrow> u \<in> set (tb_users (db w)) \<and> reset_names (qk_UserID ?q) (qk_Email ?q) u)"
    then have "reset_target (trim_space (qk_UserID q)) (normalizeEmail (qk_Email q)) (reset_user_ids user) (reset_email ?q user) (db w)"
      by (cases user) (auto simp: reset_target_def reset_user_ids_def reset_email_def lower)
    moreover have "trim_space (reset_email ?q user) = reset_email ?q user"
      by (cases user) (simp_all add: reset_email_def lower)
    ultimately show "wp (reset_found ?q user)
      (\<lambda>r w'. \<exists>us email. reset_target (trim_space (qk_UserID q)) (normalizeEmail (qk_Email q)) us email (db w)
        \<and> db w' = (if qk_DryRun q then db w else purge us email (order_numbers us (db w)) (db w)))
      (\<lambda>_ w'. db w' = db w) w1"
      using found by (intro wp_mono [OF wp_reset_found]) auto
  qed simp
qed

lemma wp_ProjectEmail: "wp (ProjectEmail e) (\<lambda>_ w'. w' = w) (\<lambda>_ _. False) w"
  by (simp add: ProjectEmail_def emailFingerprint_def wp_def andThen_def ret_def Let_def)

lemma wp_reset_projectResult:
  "wp (reset_projectResult r dry) (\<lambda>x w'. db w' = db w \<and> tz_DryRun x = dry) (\<lambda>_ _. False) w"
  unfolding reset_projectResult_def Let_def
  by (auto simp: wp_simps intro!: wp_mono [OF wp_ProjectEmail] split: option.split)

text \<open>C37: A reset that succeeds outside a dry run leaves exactly the data without the rows of one
  user, of an address and of the orders of that user.  The user is a stored one with the identifier
  and the address of the input; only when no stored user meets an input without identifier, the
  rows of the address alone are deleted.  A dry run, an error and every call in production leave
  all data as they are.\<close>

theorem reset_effect:
  "case Scenario_Reset env i w of
     (Inl e, w') \<Rightarrow> db w' = db w
   | (Inr x, w') \<Rightarrow> \<not> equal_fold (trim_space env) ''prod'' \<and> tz_DryRun x = ti_DryRun i
       \<and> (trim_space (ti_UserID i) \<noteq> [] \<or> normalizeEmail (ti_Email i) \<noteq> [])
       \<and> (\<exists>us email. reset_target (trim_space (ti_UserID i)) (normalizeEmail (ti_Email i)) us email (db w)
           \<and> db w' = (if ti_DryRun i then db w else purge us email (order_numbers us (db w)) (db w)))"
proof -
  have idem: "normalizeEmail (normalizeEmail e) = normalizeEmail e" for e
    by (simp add: normalizeEmail_def trim_to_lower)
  have "wp (Scenario_Reset env i)
    (\<lambda>x w'. \<not> equal_fold (trim_space env) ''prod'' \<and> tz_DryRun x = ti_DryRun i
       \<and> (trim_space (ti_UserID i) \<noteq> [] \<or> normalizeEmail (ti_Email i) \<noteq> [])
       \<and> (\<exists>us email. reset_target (trim_space (ti_UserID i)) (normalizeEmail (ti_Email i)) us email (db w)
           \<and> db w' = (if ti_DryRun i then db w else purge us email (order_numbers us (db w)) (db w))))
    (\<lambda>_ w'. db w' = db w) w"
    unfolding Scenario_Reset_def Let_def AllowReset_def
    by (auto simp: wp_simps idem intro!: wp_mono [OF wp_ResetUserControlPlane] wp_mono [OF wp_reset_projectResult]) blast+
  then show ?thesis by (simp only: wp_def)
qed

text \<open>Two users with a device each; one is reset.\<close>

definition reset_world :: "database world" where
  "reset_world = sample_world 0 (users_db\<lparr>tb_users := [sample_user, sample_user\<lparr>us_ID := ''usr_2'', us_Email := ''d@e.f''\<rparr>],
     tb_devices := List.map (\<lambda>u. \<lparr>ud_ID = ''dev'' @ u, ud_UserID = u, ud_DeviceID = u, ud_Status = DeviceStatusActive,
       ud_FirstSeenAt = 1, ud_LastSeenAt = 1, ud_CreatedAt = 1, ud_UpdatedAt = 1, ud_RevokedAt = None, ud_RevokedBy = [],
       ud_RevokeReason = []\<rparr>) [''usr_1'', ''usr_2'']\<rparr>)"

definition reset_first :: AdminTestScenarioResetInput where
  "reset_first = \<lparr>ti_Scenario = [], ti_UserID = '' usr_1'', ti_Email = [], ti_DryRun = False\<rparr>"

lemma reset_effect_witness:
  "let after = db (snd (Scenario_Reset ''staging'' reset_first reset_world))
   in List.map us_ID (tb_users after) = [''usr_2''] \<and> List.map ud_UserID (tb_devices after) = [''usr_2'']"
proof -
  let ?run = "Scenario_Reset ''staging'' reset_first reset_world" and ?d = "db reset_world"
  have "isl (fst ?run) = False" by code_simp
  then obtain r w' where run: "?run = (Inr r, w')" using run_ok by blast
  have input: "trim_space (ti_UserID reset_first) = ''usr_1''" "ti_DryRun reset_first = False" by code_simp+
  from reset_effect [where env = "''staging''" and i = reset_first and w = reset_world, unfolded run prod.case sum.case input]
  obtain us email where us: "reset_target ''usr_1'' (normalizeEmail (ti_Email reset_first)) us email ?d"
    "db w' = purge us email (order_numbers us ?d) ?d" by auto
  have "\<exists>u\<in>set (tb_users ?d). us_ID u = ''usr_1''" "normalizeEmail (ti_Email reset_first) = []" by code_simp+
  with us(1) have "us = [''usr_1'']"
    by (auto simp: reset_target_def reset_names_def column_matches_def split: if_splits)
  moreover have "List.map us_ID (List.filter (\<lambda>x. us_ID x \<noteq> ''usr_1'') (tb_users ?d)) = [''usr_2'']"
    "List.map ud_UserID (List.filter (\<lambda>x. ud_UserID x \<noteq> ''usr_1'') (tb_devices ?d)) = [''usr_2'']" by code_simp+
  ultimately show ?thesis by (simp add: run us(2) purge_def)
qed

section \<open>The order of the subscriptions\<close>

lemma insort_split:
  "insort_key f c ys = takeWhile (\<lambda>y. f y < f c) ys @ c # dropWhile (\<lambda>y. f y < f c) ys"
  by (induction ys) auto

lemma shift_in_insort: "shift_in (rev ys) c = rev (insort_key ad_SortAt c ys)"
proof -
  let ?low = "\<lambda>y. ad_SortAt y < ad_SortAt c"
  have ys: "ys = takeWhile ?low ys @ dropWhile ?low ys" by simp
  have "rev ys = rev (dropWhile ?low ys) @ rev (takeWhile ?low ys)" by (subst ys) (simp only: rev_append)
  then show ?thesis by (simp add: shift_in_def Let_def insort_split)
qed

text \<open>
  The insertion sort of the subscription candidates is the stable descending sort by time: the
  result has the candidates it was given, in descending order, and keeps the order of candidates
  with equal times.
\<close>

theorem candidates_sorted:
  "sortAdminSubscriptionCandidates cs = rev (sort_key ad_SortAt (rev cs))
   \<and> mset (sortAdminSubscriptionCandidates cs) = mset cs
   \<and> sorted_wrt (\<lambda>x y. ad_SortAt y \<le> ad_SortAt x) (sortAdminSubscriptionCandidates cs)
   \<and> List.filter (\<lambda>x. ad_SortAt x = t) (sortAdminSubscriptionCandidates cs) = List.filter (\<lambda>x. ad_SortAt x = t) cs"
proof -
  have sort: "sortAdminSubscriptionCandidates cs = rev (sort_key ad_SortAt (rev cs))"
    unfolding sortAdminSubscriptionCandidates_def
  proof (induction cs rule: rev_induct)
    case (snoc c cs)
    then show ?case by (simp add: shift_in_insort)
  qed simp
  have "sorted (List.map ad_SortAt (sort_key ad_SortAt (rev cs)))" by (rule sorted_sort_key)
  then have "sorted_wrt (\<lambda>x y. ad_SortAt y \<le> ad_SortAt x) (rev (sort_key ad_SortAt (rev cs)))"
    by (simp add: sorted_wrt_rev sorted_wrt_map)
  moreover have "List.filter (\<lambda>x. ad_SortAt x = t) (sort_key ad_SortAt (rev cs)) = List.filter (\<lambda>x. ad_SortAt x = t) (rev cs)"
    by (rule sort_key_stable)
  ultimately show ?thesis unfolding sort by (simp add: rev_filter [symmetric])
qed

section \<open>Masks\<close>

text \<open>Two long names with the same two characters at both ends are shown alike.\<close>

lemma mask_hides_middle:
  assumes "10 \<le> length a" "10 \<le> length b" "take 2 a = take 2 b" "drop (length a - 2) a = drop (length b - 2) b"
  shows "maskToken a = maskToken b"
  using assms by (auto simp: maskToken_def Let_def min_def)

text \<open>The lists of the administration change nothing.\<close>

lemma readonly_admin_views:
  "readonly (ProjectEmail e)" "readonly (tokenFingerprint t)" "readonly (emailFingerprint e)" "readonly (deviceFingerprint t)"
  by (auto simp: readonly_def ProjectEmail_def tokenFingerprint_def emailFingerprint_def deviceFingerprint_def andThen_def
    ret_def Let_def)

end
