(* ===== verification/Schema_Migration.thy ===== *)
theory Schema_Migration
  imports Process_Assembly
begin

text \<open>
  The schema migrations: internal/app/migration/runner.go.  The data are the tables of any kind and
  the table of the migrations that were applied, which may be missing.  What the storage library
  does to a schema (\<open>AutoMigrate\<close>) is a program that is a parameter.
\<close>

section \<open>Data\<close>

abbreviation ModeAuto :: string where "ModeAuto \<equiv> ''auto''"
abbreviation ModeVersioned :: string where "ModeVersioned \<equiv> ''versioned''"
abbreviation ModeDisabled :: string where "ModeDisabled \<equiv> ''disabled''"

record SchemaMigration =
  sm_Version :: string
  sm_Name :: string
  sm_Checksum :: string
  sm_AppliedAt :: instant

record 's schema_store =
  sh_Tables :: 's
  sh_Migrations :: "SchemaMigration list option"

record 's Migration =
  mg_Version :: string
  mg_Name :: string
  mg_Up :: "('s schema_store, unit) prog option"

text \<open>\<open>fmt.Errorf("what: %w", err)\<close>.\<close>

definition with_prefix :: "string \<Rightarrow> ('s, 'a) prog \<Rightarrow> ('s, 'a) prog" where
  "with_prefix what m =
     andThen (attempt m) (\<lambda>r. case r of
       Inl e \<Rightarrow> fail (Wrapped (what @ '': '' @ error_text e) e) | Inr x \<Rightarrow> ret x)"

section \<open>The table of migrations\<close>

definition same_version :: "SchemaMigration \<Rightarrow> SchemaMigration \<Rightarrow> bool" where
  "same_version x y \<longleftrightarrow> sm_Version x = sm_Version y"

interpretation versions: row_store sm_Version same_version
  by unfold_locales (auto simp: same_version_def)

definition prepare_migrations :: "('s schema_store, unit) prog" where
  "prepare_migrations =
     db_write (\<lambda>d. Some ((), case sh_Migrations d of None \<Rightarrow> d\<lparr>sh_Migrations := Some []\<rparr> | Some _ \<Rightarrow> d))"

definition read_migrations :: "(SchemaMigration list \<Rightarrow> 'a) \<Rightarrow> ('s schema_store, 'a) prog" where
  "read_migrations q =
     andThen (db_read sh_Migrations) (\<lambda>t. case t of
       None \<Rightarrow> fail (ErrDB ''no such table: schema_migrations'') | Some rows \<Rightarrow> ret (q rows))"

definition find_migration :: "string \<Rightarrow> ('s schema_store, SchemaMigration) prog" where
  "find_migration version =
     andThen (read_migrations (find_row sm_Version version)) (\<lambda>r. case r of
       None \<Rightarrow> fail ErrNotFound | Some x \<Rightarrow> ret x)"

definition create_migration :: "SchemaMigration \<Rightarrow> ('s schema_store, unit) prog" where
  "create_migration x =
     db_write (\<lambda>d. Option.bind (sh_Migrations d) (\<lambda>rows.
       map_option (\<lambda>rows'. ((), d\<lparr>sh_Migrations := Some rows'\<rparr>)) (insert_row same_version x rows)))"

section \<open>The runner\<close>

definition migration_text :: "'s Migration \<Rightarrow> string" where
  "migration_text m = mg_Version m @ '':'' @ mg_Name m"

definition migrationChecksum :: "'s Migration \<Rightarrow> ('s schema_store, string) prog" where
  "migrationChecksum m w = (Inr (sha256_hex w (migration_text m)), w)"

text \<open>The versions are sorted; a missing version or name and a version that occurs twice are errors.\<close>

fun check_migrations :: "string list \<Rightarrow> 's Migration list \<Rightarrow> err option" where
  "check_migrations seen [] = None"
| "check_migrations seen (m # ms) =
     (if mg_Version m = [] \<or> mg_Name m = [] then Some (Errorf ''schema migrations require version and name'')
      else if mg_Version m \<in> set seen then Some (Errorf (''duplicate schema migration version '' @ mg_Version m))
      else check_migrations (mg_Version m # seen) ms)"

definition normalizeMigrations :: "'s Migration list \<Rightarrow> err + 's Migration list" where
  "normalizeMigrations migrations =
     (let result = sort_key mg_Version migrations
      in case check_migrations [] result of Some e \<Rightarrow> Inl e | None \<Rightarrow> Inr result)"

definition apply_new :: "'s Migration \<Rightarrow> ('s schema_store, unit) prog" where
  "apply_new m =
     (case mg_Up m of
        None \<Rightarrow> fail (Errorf (''schema migration '' @ mg_Version m @ '' has no up function''))
      | Some up \<Rightarrow>
          andThen (with_prefix (''apply schema migration '' @ mg_Version m @ '' '' @ mg_Name m) up) (\<lambda>_.
          andThen (migrationChecksum m) (\<lambda>checksum.
          andThen time_now (\<lambda>now.
          with_prefix (''record schema migration '' @ mg_Version m) (create_migration
            \<lparr>sm_Version = mg_Version m, sm_Name = mg_Name m, sm_Checksum = checksum, sm_AppliedAt = now\<rparr>)))))"

definition applyOne :: "'s Migration \<Rightarrow> ('s schema_store, unit) prog" where
  "applyOne m =
     in_transaction (andThen (attempt (find_migration (mg_Version m))) (\<lambda>r. case r of
       Inr existing \<Rightarrow>
         andThen (migrationChecksum m) (\<lambda>checksum.
         reject_if (sm_Checksum existing \<noteq> checksum) (Errorf (''schema migration '' @ mg_Version m @ '' checksum mismatch'')))
     | Inl e \<Rightarrow>
         andThen (reject_if (e \<noteq> ErrNotFound)
           (Wrapped (''read schema migration '' @ mg_Version m @ '': '' @ error_text e) e)) (\<lambda>_.
         apply_new m)))"

definition runVersioned :: "'s Migration list \<Rightarrow> ('s schema_store, unit) prog" where
  "runVersioned migrations0 =
     andThen (of_sum (normalizeMigrations migrations0)) (\<lambda>migrations.
     andThen (with_prefix ''prepare schema migration metadata'' prepare_migrations) (\<lambda>_.
     for_each migrations (\<lambda>m _. applyOne m) ()))"

definition schemaModels :: "string list" where
  "schemaModels =
     [''License'', ''Order'', ''Product'', ''AuditEntry'', ''User'', ''RegistrationRequest'', ''EntitlementGrant'',
      ''UserDevice'', ''TrialGrant'', ''AccessLoginChallenge'', ''CreditAccount'', ''CreditBucket'',
      ''CreditReservation'', ''CreditTransaction'', ''PaymentEventInbox'', ''FulfillmentExecution'',
      ''PaymentRiskFlag'', ''SubscriptionCancellation'', ''CloudProject'', ''CloudSyncSession'', ''CloudManifest'',
      ''CloudObject'']"

text \<open>\<open>auto_migrate\<close>: \<open>AutoMigrate\<close> of the models with these names.\<close>

type_synonym 's auto_migration = "string list \<Rightarrow> ('s schema_store, unit) prog"

definition autoMigrate :: "'s auto_migration \<Rightarrow> ('s schema_store, unit) prog" where
  "autoMigrate auto_migrate = with_prefix ''auto migrate schema'' (auto_migrate schemaModels)"

definition DefaultMigrations :: "'s auto_migration \<Rightarrow> 's Migration list" where
  "DefaultMigrations auto_migrate =
     [\<lparr>mg_Version = ''202606190001'', mg_Name = ''baseline_control_plane_schema'',
       mg_Up = Some (autoMigrate auto_migrate)\<rparr>]"

definition Runner_Run ::
  "'s auto_migration \<Rightarrow> bool \<Rightarrow> 's Migration list \<Rightarrow> string \<Rightarrow> ('s schema_store, unit) prog" where
  "Runner_Run auto_migrate has_db migrations mode =
     andThen (reject_if (\<not> has_db) (Errorf ''database migration runner requires db'')) (\<lambda>_.
     if mode = [] \<or> mode = ModeAuto then autoMigrate auto_migrate
     else if mode = ModeVersioned then runVersioned migrations
     else if mode = ModeDisabled then ret ()
     else fail (Errorf (''unsupported database migration mode '' @ quoted mode)))"

definition Run :: "'s auto_migration \<Rightarrow> string \<Rightarrow> ('s schema_store, unit) prog" where
  "Run auto_migrate mode = Runner_Run auto_migrate True (DefaultMigrations auto_migrate) mode"

definition AppliedVersions :: "('s schema_store, SchemaMigration list) prog" where
  "AppliedVersions = andThen prepare_migrations (\<lambda>_. read_migrations (\<lambda>rows. rows))"

section \<open>What a run leaves\<close>

text \<open>The rows of the table, and what a migration is recorded as.\<close>

definition recorded :: "'s schema_store \<Rightarrow> SchemaMigration list" where
  "recorded d = (case sh_Migrations d of None \<Rightarrow> [] | Some rows \<Rightarrow> rows)"

definition migration_row :: "(string \<Rightarrow> string) \<Rightarrow> 's Migration \<Rightarrow> instant \<Rightarrow> SchemaMigration" where
  "migration_row digest m t =
     \<lparr>sm_Version = mg_Version m, sm_Name = mg_Name m, sm_Checksum = digest (migration_text m), sm_AppliedAt = t\<rparr>"

text \<open>The migrations that a run has to apply, in their order.\<close>

definition pending :: "SchemaMigration list \<Rightarrow> 's Migration list \<Rightarrow> 's Migration list" where
  "pending rows ms = List.filter (\<lambda>m. mg_Version m \<notin> sm_Version ` set rows) ms"

text \<open>The tables went through successful runs of these migrations, one after the other.\<close>

fun brought_by :: "'s Migration list \<Rightarrow> 's \<Rightarrow> 's \<Rightarrow> bool" where
  "brought_by [] a b \<longleftrightarrow> a = b"
| "brought_by (m # ms) a b \<longleftrightarrow>
     (\<exists>up v v'. mg_Up m = Some up \<and> sh_Tables (db v) = a \<and> up v = (Inr (), v') \<and> brought_by ms (sh_Tables (db v')) b)"

text \<open>A migration works on the tables and leaves the records of the migrations alone.\<close>

definition keeps_records :: "('s schema_store, unit) prog \<Rightarrow> bool" where
  "keeps_records up \<longleftrightarrow>
     (\<forall>w. sh_Migrations (db (snd (up w))) = sh_Migrations (db w) \<and> sha256_hex (snd (up w)) = sha256_hex w)"

end
