(* ===== verification/Migration_Theorems.thy ===== *)
theory Migration_Theorems
  imports Schema_Migration
begin

text \<open>
  A versioned run applies every migration that is not recorded once, in ascending order of the
  versions, and records it; when it fails, what it applied before is applied and recorded, and
  nothing else changed.
\<close>

section \<open>The table of migrations\<close>

lemma wp_of_sum: "wp (of_sum r) Q E w = (case r of Inl e \<Rightarrow> E e w | Inr x \<Rightarrow> Q x w)"
  by (simp add: of_sum_def wp_simps split: sum.split)

lemma wp_with_prefix:
  "wp (with_prefix what m) Q E w = wp m Q (\<lambda>e. E (Wrapped (what @ '': '' @ error_text e) e)) w"
  by (simp add: with_prefix_def wp_def andThen_def attempt_def ret_def fail_def split: prod.split sum.split)

lemma wp_migrationChecksum [wp_simps]:
  "wp (migrationChecksum m) Q E w = Q (sha256_hex w (migration_text m)) w"
  by (simp add: wp_def migrationChecksum_def)

lemma wp_find_migration:
  assumes "sh_Migrations (db w) = Some rows"
  shows "wp (find_migration v) Q E w = (case faults w (tick w) of
    Some m \<Rightarrow> E (ErrDB m) (next_tick w)
  | None \<Rightarrow> (case find_row sm_Version v rows of None \<Rightarrow> E ErrNotFound (next_tick w) | Some x \<Rightarrow> Q x (next_tick w)))"
  using assms by (simp add: find_migration_def read_migrations_def wp_simps split: option.split)

section \<open>One migration\<close>

text \<open>A recorded migration is only compared; another one is run and recorded.\<close>

definition applied_one :: "'s Migration \<Rightarrow> SchemaMigration list \<Rightarrow> 's schema_store world \<Rightarrow> 's schema_store world \<Rightarrow> bool" where
  "applied_one m rows w w' \<longleftrightarrow>
     sha256_hex w' = sha256_hex w
     \<and> (if mg_Version m \<in> sm_Version ` set rows
        then db w' = db w \<and> (\<exists>x\<in>set rows. sm_Version x = mg_Version m \<and> sm_Checksum x = sha256_hex w (migration_text m))
        else brought_by [m] (sh_Tables (db w)) (sh_Tables (db w'))
          \<and> (\<exists>t. sh_Migrations (db w') = Some (rows @ [migration_row (sha256_hex w) m t])))"

lemma wp_apply_new:
  assumes "sh_Migrations (db w) = Some rows" "mg_Version m \<notin> sm_Version ` set rows"
    and "\<And>up. mg_Up m = Some up \<Longrightarrow> keeps_records up"
  shows "wp (apply_new m) (\<lambda>_. applied_one m rows w) (\<lambda>_ w'. sha256_hex w' = sha256_hex w) w"
proof (cases "mg_Up m")
  case None
  then show ?thesis by (simp add: apply_new_def wp_simps)
next
  case (Some up)
  obtain r w1 where run: "up w = (r, w1)" by (cases "up w")
  have kept: "sh_Migrations (db w1) = Some rows" "sha256_hex w1 = sha256_hex w"
    using assms(3) [OF Some] assms(1) run by (auto simp: keeps_records_def dest: spec [of _ w])
  show ?thesis
    using assms(2) kept run Some
    by (cases r)
      (auto simp: apply_new_def create_migration_def applied_one_def migration_row_def versions.insert_row_Some wp_with_prefix
        wp_simps wp_def [of up] insert_row_def split: option.split)
qed

lemma wp_applyOne:
  assumes "sh_Migrations (db w) = Some rows" "\<And>up. mg_Up m = Some up \<Longrightarrow> keeps_records up"
  shows "wp (applyOne m) (\<lambda>_. applied_one m rows w) (\<lambda>_ w'. db w' = db w \<and> sha256_hex w' = sha256_hex w) w"
proof -
  have new: "wp (apply_new m) (\<lambda>_. applied_one m rows w) (\<lambda>_ w'. sha256_hex w' = sha256_hex w) v"
    if "db v = db w" "sha256_hex v = sha256_hex w" "mg_Version m \<notin> sm_Version ` set rows" for v
  proof -
    have "applied_one m rows v = applied_one m rows w" by (rule ext) (simp add: applied_one_def that)
    then show ?thesis using wp_apply_new [of v rows m] assms that by simp
  qed
  let ?Q = "\<lambda>(_::unit) w'. case faults w' (tick w') of
      Some e \<Rightarrow> sha256_hex w' = sha256_hex w | None \<Rightarrow> applied_one m rows w (next_tick w')"
  have wp_new: "wp (apply_new m) ?Q (\<lambda>_ w'. sha256_hex w' = sha256_hex w) v"
    if "db v = db w" "sha256_hex v = sha256_hex w" "mg_Version m \<notin> sm_Version ` set rows" for v
    by (rule wp_mono [OF new [OF that]]) (auto simp: applied_one_def split: option.split)
  have "wp (andThen (attempt (find_migration (mg_Version m))) (\<lambda>r. case r of
       Inr existing \<Rightarrow>
         andThen (migrationChecksum m) (\<lambda>checksum.
         reject_if (sm_Checksum existing \<noteq> checksum) (Errorf (''schema migration '' @ mg_Version m @ '' checksum mismatch'')))
     | Inl e \<Rightarrow>
         andThen (reject_if (e \<noteq> ErrNotFound)
           (Wrapped (''read schema migration '' @ mg_Version m @ '': '' @ error_text e) e)) (\<lambda>_.
         apply_new m))) ?Q (\<lambda>_ w'. sha256_hex w' = sha256_hex w) (next_tick w)"
  proof (cases "faults w (Suc (tick w)) = None")
    case True
    show ?thesis
    proof (cases "find_row sm_Version (mg_Version m) rows")
      case None
      then have "mg_Version m \<notin> sm_Version ` set rows" by (auto simp: versions.find_row_None)
      then show ?thesis
        using assms(1) True None wp_new [of "next_tick (next_tick w)"] by (simp add: wp_find_migration wp_simps)
    next
      case (Some x)
      then have "mg_Version m \<in> sm_Version ` set rows" using versions.find_row_Some [OF Some] by force
      then show ?thesis
        using assms(1) True Some versions.find_row_Some [OF Some]
        by (auto simp: wp_find_migration wp_simps applied_one_def split: option.split)
    qed
  qed (use assms(1) in \<open>auto simp: wp_find_migration wp_simps\<close>)
  note body = this
  show ?thesis
    unfolding applyOne_def
    by (rule wp_in_transaction, simp, rule wp_mono [OF body]) (auto simp: applied_one_def split: option.splits)
qed

section \<open>A run\<close>

lemma check_migrations_ok:
  "check_migrations seen ms = None \<Longrightarrow> distinct (List.map mg_Version ms) \<and> set (List.map mg_Version ms) \<inter> set seen = {}"
  by (induction seen ms rule: check_migrations.induct) (auto split: if_splits)

lemma normalizeMigrations_ok:
  "normalizeMigrations ms = Inr ms' \<Longrightarrow> ms' = sort_key mg_Version ms \<and> distinct (List.map mg_Version ms')"
  using check_migrations_ok by (auto simp: normalizeMigrations_def Let_def split: option.splits)

lemma brought_by_append:
  "brought_by ms a b \<Longrightarrow> brought_by [m] b c \<Longrightarrow> brought_by (ms @ [m]) a c"
  by (induction ms arbitrary: a) auto

text \<open>What holds after the migrations \<open>past\<close> of a run that began with \<open>rows\<close>.\<close>

definition migrated ::
  "SchemaMigration list \<Rightarrow> 's schema_store world \<Rightarrow> 's Migration list \<Rightarrow> 's schema_store world \<Rightarrow> bool" where
  "migrated rows w past w' \<longleftrightarrow>
     sha256_hex w' = sha256_hex w
     \<and> (\<exists>ts. length ts = length (pending rows past)
         \<and> sh_Migrations (db w') = Some (rows @ map2 (migration_row (sha256_hex w)) (pending rows past) ts))
     \<and> brought_by (pending rows past) (sh_Tables (db w)) (sh_Tables (db w'))
     \<and> (\<forall>m\<in>set past. \<exists>x\<in>set (recorded (db w')). sm_Version x = mg_Version m
          \<and> sm_Checksum x = sha256_hex w (migration_text m))"

lemma row_versions:
  "length ts = length ms \<Longrightarrow> sm_Version ` set (map2 (migration_row digest) ms ts) = mg_Version ` set ms"
  by (induction ts ms rule: list_induct2) (auto simp: migration_row_def)

lemma migrated_step:
  assumes past: "migrated rows w past w1" and new: "applied_one m (recorded (db w1)) w1 w2"
    and fresh: "mg_Version m \<notin> set (List.map mg_Version past)"
  shows "migrated rows w (past @ [m]) w2"
proof -
  obtain ts where ts: "length ts = length (pending rows past)"
    "sh_Migrations (db w1) = Some (rows @ map2 (migration_row (sha256_hex w)) (pending rows past) ts)"
    using past by (auto simp: migrated_def)
  let ?rows = "rows @ map2 (migration_row (sha256_hex w)) (pending rows past) ts"
  have recorded: "recorded (db w1) = ?rows" by (simp add: recorded_def ts(2))
  have sha: "sha256_hex w1 = sha256_hex w" using past by (simp add: migrated_def)
  have "sm_Version ` set (map2 (migration_row (sha256_hex w)) (pending rows past) ts) = mg_Version ` set (pending rows past)"
    by (rule row_versions) (simp add: ts(1))
  with fresh have known: "mg_Version m \<in> sm_Version ` set ?rows \<longleftrightarrow> mg_Version m \<in> sm_Version ` set rows"
    by (auto simp: pending_def image_Un)
  show ?thesis
  proof (cases "mg_Version m \<in> sm_Version ` set rows")
    case True
    then have "pending rows (past @ [m]) = pending rows past" by (simp add: pending_def)
    with True new past show ?thesis by (auto simp: migrated_def applied_one_def recorded known sha)
  next
    case False
    then have p: "pending rows (past @ [m]) = pending rows past @ [m]" by (simp add: pending_def)
    from False have "mg_Version m \<notin> sm_Version ` set ?rows" by (simp only: known not_False_eq_True)
    with new obtain t where t: "sh_Migrations (db w2) = Some (?rows @ [migration_row (sha256_hex w) m t])"
      "brought_by [m] (sh_Tables (db w1)) (sh_Tables (db w2))" "sha256_hex w2 = sha256_hex w"
      unfolding applied_one_def recorded sha by (simp only: if_False) blast
    have "sh_Migrations (db w2) = Some (rows @ map2 (migration_row (sha256_hex w)) (pending rows past @ [m]) (ts @ [t]))"
      by (simp add: t(1) ts(1) zip_append)
    moreover have "brought_by (pending rows past @ [m]) (sh_Tables (db w)) (sh_Tables (db w2))"
      using past brought_by_append [OF _ t(2)] unfolding migrated_def by blast
    moreover have "\<forall>x\<in>set (past @ [m]). \<exists>y\<in>set (recorded (db w2)). sm_Version y = mg_Version x
        \<and> sm_Checksum y = sha256_hex w (migration_text x)"
      using past t(1) by (auto simp: migrated_def recorded recorded_def [of "db w2"] migration_row_def)
    ultimately show ?thesis using t(3) ts(1) unfolding migrated_def p
      by (auto intro!: exI [of _ "ts @ [t]"])
  qed
qed

lemma wp_run_loop:
  assumes "distinct (List.map mg_Version ms)" "sh_Migrations (db w) = Some rows"
    and ups: "\<And>m up. m \<in> set ms \<Longrightarrow> mg_Up m = Some up \<Longrightarrow> keeps_records up"
  shows "wp (for_each ms (\<lambda>m _. applyOne m) ()) (\<lambda>_. migrated rows w ms)
    (\<lambda>_ w'. \<exists>past rest. ms = past @ rest \<and> migrated rows w past w') w"
proof (rule wp_for_each [where I = "\<lambda>rest _ w'. \<exists>past. ms = past @ rest \<and> migrated rows w past w'"])
  show "\<exists>past. ms = past @ ms \<and> migrated rows w past w"
    using assms(2) by (auto simp: migrated_def pending_def)
next
  fix m rest and acc :: unit and w1 :: "'a schema_store world"
  assume "\<exists>past. ms = past @ (m # rest) \<and> migrated rows w past w1"
  then obtain past where past: "ms = past @ m # rest" "migrated rows w past w1" by blast
  then obtain known where known: "sh_Migrations (db w1) = Some known" by (auto simp: migrated_def)
  have fresh: "mg_Version m \<notin> set (List.map mg_Version past)" using assms(1) past(1) by auto
  show "wp (applyOne m) (\<lambda>_ w'. \<exists>past. ms = past @ rest \<and> migrated rows w past w')
      (\<lambda>_ w'. \<exists>past rest. ms = past @ rest \<and> migrated rows w past w') w1"
  proof (rule wp_mono [OF wp_applyOne [OF known]])
    show "keeps_records up" if "mg_Up m = Some up" for up using ups that past(1) by auto
    fix w2 :: "'a schema_store world" assume "applied_one m known w1 w2"
    with past(2) fresh known have "migrated rows w (past @ [m]) w2" by (auto intro: migrated_step simp: recorded_def)
    then show "\<exists>past. ms = past @ rest \<and> migrated rows w past w2"
      using past(1) by (intro exI [of _ "past @ [m]"]) simp
  next
    fix w2 :: "'a schema_store world" assume "db w2 = db w1 \<and> sha256_hex w2 = sha256_hex w1"
    then show "\<exists>past rest. ms = past @ rest \<and> migrated rows w past w2"
      using past by (intro exI [of _ past] exI [of _ "m # rest"]) (auto simp: migrated_def)
  qed
qed simp

lemma pending_prefix: "pending rows past = take (length (pending rows past)) (pending rows (past @ rest))"
  by (simp add: pending_def)

text \<open>C38: A run of the versioned migrations, whether it succeeds or fails, has applied the first of the
  migrations that were not recorded, in ascending order of their versions, each of them once, and
  recorded exactly these after the records that were there; when it succeeds it has applied all of
  them, no version occurs twice, and the record of every migration has its checksum.\<close>

theorem migrations_applied_in_order:
  assumes "Runner_Run auto_migrate True ms ModeVersioned w = (r, w')"
    and "\<forall>m\<in>set ms. \<forall>up. mg_Up m = Some up \<longrightarrow> keeps_records up"
  shows "\<exists>k ts. let rows = recorded (db w); todo = pending rows (sort_key mg_Version ms) in
      k \<le> length todo \<and> length ts = k
    \<and> recorded (db w') = rows @ map2 (migration_row (sha256_hex w)) (take k todo) ts
    \<and> brought_by (take k todo) (sh_Tables (db w)) (sh_Tables (db w'))
    \<and> (r = Inr () \<longrightarrow> k = length todo \<and> distinct (List.map mg_Version ms)
        \<and> (\<forall>m\<in>set ms. \<exists>x\<in>set (recorded (db w')). sm_Version x = mg_Version m
              \<and> sm_Checksum x = sha256_hex w (migration_text m)))"
proof -
  let ?rows = "recorded (db w)" and ?ms = "sort_key mg_Version ms"
  let ?ok = "\<lambda>k ts w'. k \<le> length (pending ?rows ?ms) \<and> length ts = k
    \<and> recorded (db w') = ?rows @ map2 (migration_row (sha256_hex w)) (take k (pending ?rows ?ms)) ts
    \<and> brought_by (take k (pending ?rows ?ms)) (sh_Tables (db w)) (sh_Tables (db w'))"
  let ?Q = "\<lambda>_ w'. (\<exists>ts. ?ok (length (pending ?rows ?ms)) ts w') \<and> distinct (List.map mg_Version ms)
    \<and> (\<forall>m\<in>set ms. \<exists>x\<in>set (recorded (db w')). sm_Version x = mg_Version m
          \<and> sm_Checksum x = sha256_hex w (migration_text m))"
  let ?E = "\<lambda>_ w'. \<exists>k ts. ?ok k ts w'"
  have none: "?ok 0 [] w1" if "recorded (db w1) = ?rows" "sh_Tables (db w1) = sh_Tables (db w)" for w1 :: "'a schema_store world"
    using that by simp
  have loop: "wp (for_each ?ms (\<lambda>m _. applyOne m) ()) ?Q ?E w1"
    if "distinct (List.map mg_Version ?ms)" "sh_Migrations (db w1) = Some ?rows" "sh_Tables (db w1) = sh_Tables (db w)"
      "sha256_hex w1 = sha256_hex w" for w1
  proof (rule wp_mono [OF wp_run_loop [OF that(1,2)]])
    show "keeps_records up" if "m \<in> set ?ms" "mg_Up m = Some up" for m up using assms(2) that by auto
    have "mset (List.map mg_Version ?ms) = mset (List.map mg_Version ms)" by simp
    then have "distinct (List.map mg_Version ms)" using that(1) mset_eq_imp_distinct_iff by blast
    moreover fix w2 assume "migrated ?rows w1 ?ms w2"
    ultimately show "?Q () w2" using that by (auto simp: migrated_def recorded_def [of "db w2"])
  next
    fix w2 assume "\<exists>past rest. ?ms = past @ rest \<and> migrated ?rows w1 past w2"
    then obtain past rest where past: "?ms = past @ rest" "migrated ?rows w1 past w2" by blast
    note same = that(3,4)
    from past(2) obtain ts where ts: "length ts = length (pending ?rows past)"
      "sh_Migrations (db w2) = Some (?rows @ map2 (migration_row (sha256_hex w)) (pending ?rows past) ts)"
      "brought_by (pending ?rows past) (sh_Tables (db w)) (sh_Tables (db w2))"
      unfolding migrated_def same by blast
    have "pending ?rows past = take (length (pending ?rows past)) (pending ?rows ?ms)"
      unfolding past(1) by (rule pending_prefix)
    moreover have "length (pending ?rows past) \<le> length (pending ?rows ?ms)" by (simp add: past(1) pending_def)
    ultimately show "?E () w2"
      using ts by (intro exI [of _ "length (pending ?rows past)"] exI [of _ ts]) (simp add: recorded_def [of "db w2"])
  qed
  have "wp (runVersioned ms) ?Q ?E w"
  proof (cases "normalizeMigrations ms")
    case (Inl e)
    then show ?thesis using none [of w] by (auto simp: runVersioned_def wp_of_sum wp_simps)
  next
    case (Inr ms')
    then have ms': "ms' = ?ms" "distinct (List.map mg_Version ?ms)" using normalizeMigrations_ok [of ms ms'] by auto
    let ?d = "case sh_Migrations (db w) of None \<Rightarrow> (db w)\<lparr>sh_Migrations := Some []\<rparr> | Some _ \<Rightarrow> db w"
    have d: "sh_Migrations ?d = Some ?rows" "sh_Tables ?d = sh_Tables (db w)"
      by (simp_all add: recorded_def split: option.split)
    have prepared: "wp (for_each ?ms (\<lambda>m _. applyOne m) ()) ?Q ?E (next_tick (w\<lparr>db := ?d\<rparr>))"
      using d by (intro loop ms'(2)) simp_all
    have failed: "?E () (next_tick w)" using none [of "next_tick w"] by (intro exI [of _ 0] exI [of _ "[]"]) simp
    show ?thesis
      unfolding runVersioned_def Inr ms'(1) wp_andThen wp_of_sum sum.case wp_with_prefix prepare_migrations_def wp_db_write
      by (cases "faults w (tick w)") (simp_all only: option.case fst_conv snd_conv prepared failed)
  qed
  moreover have "Runner_Run auto_migrate True ms ModeVersioned = runVersioned ms"
    by (simp add: Runner_Run_def reject_if_def andThen_def ret_def fun_eq_iff)
  ultimately have ends: "if isl r then ?E () w' else ?Q () w'"
    using assms(1) by (cases r) (auto simp: wp_def)
  show ?thesis
  proof (cases "isl r")
    case True
    with ends obtain k ts where "?ok k ts w'" by (simp only: if_True) blast
    with True show ?thesis by (intro exI [of _ k] exI [of _ ts]) (auto simp: Let_def)
  next
    case False
    with ends obtain ts where "?ok (length (pending ?rows ?ms)) ts w'" by (simp only: if_False) blast
    with False ends show ?thesis
      by (intro exI [of _ "length (pending ?rows ?ms)"] exI [of _ ts]) (simp add: Let_def)
  qed
qed

text \<open>Two migrations on a store that counts its tables; the first is already recorded.\<close>

definition add_table :: "string \<Rightarrow> (string list schema_store, unit) prog" where
  "add_table t = db_write (\<lambda>d. Some ((), d\<lparr>sh_Tables := sh_Tables d @ [t]\<rparr>))"

lemma add_table_keeps: "keeps_records (add_table t)"
  by (simp add: keeps_records_def add_table_def db_write_def split: option.split)

definition two_migrations :: "string list Migration list" where
  "two_migrations = [\<lparr>mg_Version = ''2'', mg_Name = ''b'', mg_Up = Some (add_table ''b'')\<rparr>,
     \<lparr>mg_Version = ''1'', mg_Name = ''a'', mg_Up = Some (add_table ''a'')\<rparr>]"

definition half_migrated :: "string list schema_store world" where
  "half_migrated = \<lparr>db = \<lparr>sh_Tables = [''a''],
       sh_Migrations = Some [\<lparr>sm_Version = ''1'', sm_Name = ''a'', sm_Checksum = ''1:a'', sm_AppliedAt = 5\<rparr>]\<rparr>,
     clock = (\<lambda>_. 7), entropy = (\<lambda>_. None), faults = (\<lambda>_. None), sha256_hex = (\<lambda>s. s), tick = 0\<rparr>"

lemma migrations_applied_in_order_witness:
  "let d = db (snd (Runner_Run (\<lambda>_. ret ()) True two_migrations ModeVersioned half_migrated))
   in List.map sm_Version (recorded d) = [''1'', ''2'']"
proof -
  let ?run = "Runner_Run (\<lambda>_. ret ()) True two_migrations ModeVersioned half_migrated"
  have "isl (fst ?run) = False" by code_simp
  then obtain w' where run: "?run = (Inr (), w')" by (cases ?run; cases "fst ?run") auto
  have ups: "\<forall>m\<in>set two_migrations. \<forall>up. mg_Up m = Some up \<longrightarrow> keeps_records up"
    by (auto simp: two_migrations_def add_table_keeps)
  have todo: "List.map mg_Version (pending (recorded (db half_migrated)) (sort_key mg_Version two_migrations)) = [''2'']"
    "List.map sm_Version (recorded (db half_migrated)) = [''1'']" by code_simp+
  from migrations_applied_in_order [OF run ups]
  show ?thesis using todo
    by (auto simp: run Let_def migration_row_def map_zip_map2 length_Suc_conv)
qed

end
