(* ===== verification/Spec2Isabelle.thy ===== *)
theory Spec2Isabelle
  imports Credit_Theorems Payment_Adjustment_Theorems Subscription_Renewal_Theorems Commerce_Catalog_Theorems
    Subscription_Cancellation Entitlement_Theorems Checkout_Theorems Cloud_Theorems Access_Login_Theorems
    Production_Theorems Client_Theorems Object_Theorems Admin_Theorems Migration_Theorems
begin

text \<open>
  A model of walnut-billing, the billing backend of a desktop application, with proofs that its
  parts do what they promise.  Paths are below src/internal unless they name another directory.

  The program.  A payment provider calls a webhook; the payment gateway (payment/) checks the
  signature and normalises the event; the event inbox (service/payment_event.go) stores it once and
  processes it: the order processor moves the order, a paid order is fulfilled by the rules of its
  SKU, which grant entitlements and credits (service/fulfillment.go), refunds and disputes take them
  back (service/payment_adjustment.go), renewal events open and close renewal orders and grace
  periods (service/subscription_renewal.go).  Orders come from checkouts, which have to pass the
  policies (service/checkout.go, checkout_policy.go).  A client logs in by a challenge sent to an
  email address (service/access_login_challenge.go), binds its device and gets a signed snapshot of
  its entitlements (service/access_session.go, access_snapshot.go); it stores its projects in the
  cloud within a quota (service/cloud_storage.go) through presigned URLs (objectstorage/s3.go).
  Licenses with seats and their orders are the older product (service/license.go, order.go), used
  by the client library under src/sdk.  Administrators read masked views (service/admin_*.go).

  The ground.  Billing_Prelude: 64-bit arithmetic, strings.  Go_Calendar: instants, dates,
  durations.  Go_JSON, Go_Values, Go_URL, Go_Base64: the used parts of Go's standard library.
  Domain_Model: the stored entities (domain/).  Effects: programs over a world (data, clock, entropy,
  digests, storage faults) that return an error or a value, transactions as combinators
  (gorm_repo/transaction.go), and the program logic: wp and wlp with wp_simps, keeps, untouched,
  readonly.  Store: tables as lists of rows with their unique indexes; the locale of a table with a
  key and its interpretations give the laws of insert, update and lookup.  Sample_World: concrete
  worlds for the instances.

  The services, each with its repository of repository/gorm_repo: Credit (service/credit.go,
  credit_bucket.go), Entitlement (entitlement.go, access_entitlements.go,
  access_device_capacity.go), Orders (payment_order_processor.go), Fulfillment, Payment_Events
  (payment_event.go, payment_fulfillment_processor.go), Payment_Adjustment (payment_adjustment.go
  and its policy, payment_risk.go), Subscription_Renewal, Subscription_Projection,
  Subscription_Cancellation, Commerce_Catalog, Checkout, Cloud_Quota, Cloud_Storage,
  Access_Snapshot, Access_Session, Access_Login, Licensing (license.go, order.go, generator/),
  Audit_Log (audit.go).  The administration: Admin_Privacy, Admin_Accounts, Admin_Orders,
  Admin_Cloud, Admin_Subscriptions, Admin_Summary (read models and their projections) and
  Admin_Reset (admin_test_scenario_reset.go).

  The edges.  Payment_Gateway (payment/registry.go, service.go, the mocks), Creem (payment/creem.go),
  Wallet_Providers (payment/alipay.go, wechat.go, crypto.go), Object_Storage (objectstorage/s3.go),
  Process_Config (config/), Process_Assembly (app/bootstrap/bootstrap.go), Http_Middleware
  (api/middleware and the guard of the administration routes), License_API (the handlers of licenses
  and their orders), License_SDK (src/sdk), Schema_Migration (app/migration/runner.go).  Payment_Flow
  assembles inbox and processors the way bootstrap.go does.

  What is shown.  Credit_Ledger, Credit_Theorems: in every state that the credit calls reach with
  grants that fit 64 bits, balances are the sums of their entries and buckets and reservations fit;
  what each call does to every account, that it is atomic.  Entitlement_Theorems,
  Fulfillment_Theorems: grants are stored once, every rule of a paid order is delivered once.
  Payment_Event_Theorems, Payment_Flow: the inbox refines a state machine of events.
  Payment_Adjustment_Theorems, Subscription_Renewal_Theorems: orders move along their state machine,
  compensation is complete and bounded, a billing cycle has one order. Commerce_Catalog_Theorems:
  reconciliation.  Checkout_Theorems, Checkout_Order_Theorems: a checkout passed the policies,
  leaves one order, and completes when its calls do; the metadata round trip. Cloud_Theorems,
  Object_Theorems: the quota, safe object keys, presigned URLs that read back.
  Access_Session_Theorems, Access_Login_Theorems: device capacity, challenges that are used once.
  Licensing_Theorems, Gateway_Theorems: seats of devices without a comma, callbacks.
  Production_Theorems: what a configuration that passes the production validation guarantees, forged
  webhooks, guarded routes, and the mock wallets that stay open.  Client_Theorems: bounded retries,
  the order of the audit log, the requests that the server does not understand.  Admin_Theorems: the
  reset of a test user, the order of the subscription list.  Migration_Theorems: every migration is
  applied once, in order.

  Conventions.  int64 is int with wrap64; an instant is the int of nanoseconds since the zero time
  of Go; a *time.Time is an instant option, null last in a descending order; strings are byte lists
  and texts are taken to be ASCII; the local time zone is UTC; float64 is the rational it stands
  for.  A Go map is an association list in the order of its keys, or, where the code depends on the
  order of iteration, that order is an argument.  A storage call may fail at any time by the oracle
  faults; ties of an ORDER BY keep the order of insertion.  A nil receiver or a missing collaborator
  is an option where the code tests for it; a panic is an error value and undoes its transaction.
  Interfaces of the code are arguments or record fields, so are the HTTP client, HMAC, Ed25519, RSA
  and AES; sha256 is an oracle of the world.  Loops are structural recursions or have a termination
  proof; there is no fuel: the retry loop of the client is bounded by its configuration.  Calls are
  taken one after the other, each on the data the previous one left.

  Not modelled: the other HTTP handlers and the route tables, logging, metrics and observers, the
  construction of repositories and handlers and the start of the server, the columns that GORM sets
  on its own, the parsing of the fulfillment rules, the texts of decoding errors, the JSON method of
  a result of the client library, and the cancellation of a context.
\<close>

end
